(* ===== verification/Prelude.thy ===== *)
theory Prelude
  imports Main "HOL-Library.AList" "HOL-Library.Char_ord" "HOL-Library.List_Lexorder" "HOL-Library.Sublist"
begin

text \<open>
  The shared vocabulary of the development: how the Python values of AIpinho are represented, the
  Python library functions the services call (ordered de-duplication, sorting of sets, dictionary
  update, truthiness, substring search), and the two interfaces several services implement: a
  keyed store (\<open>get\<close> after \<open>save\<close>) and a status life cycle with final states.

  Strings are character lists (\<open>string\<close>) compared by code point, dictionaries whose insertion
  order is observable are association lists updated by \<open>AList.update\<close> (replace in place, else
  append: the order Python keeps), dictionaries used only for lookup are maps. A \<open>ValueError\<close>
  raised with a reason code is \<open>Inl code\<close>, a normal return is \<open>Inr\<close>.
\<close>

section \<open>Types\<close>

type_synonym str = string

type_synonym 'a outcome = "str + 'a"

type_synonym 'v dict = "(str \<times> 'v) list"

text \<open>
  JSON-like values: what the code keeps in untyped dictionaries (metadata, validation, events).
  \<open>JFloat m k\<close> is the finite binary float \<open>m / 2 ^ k\<close>.
\<close>

datatype json =
    JNull
  | JBool bool
  | JInt int
  | JFloat int nat
  | JStr str
  | JList "json list"
  | JObj "(str \<times> json) list"

named_theorems py_simps \<open>rewriting rules for the Python library functions\<close>

section \<open>Python library functions\<close>

text \<open>\<open>bool(x)\<close> for an optional string, and for a JSON value.\<close>

definition opt_truthy :: "str option \<Rightarrow> bool" where
  "opt_truthy s \<longleftrightarrow> (case s of None \<Rightarrow> False | Some t \<Rightarrow> t \<noteq> [])"

fun json_truthy :: "json \<Rightarrow> bool" where
  "json_truthy JNull = False"
| "json_truthy (JBool b) = b"
| "json_truthy (JInt i) = (i \<noteq> 0)"
| "json_truthy (JFloat m k) = (m \<noteq> 0)"
| "json_truthy (JStr s) = (s \<noteq> [])"
| "json_truthy (JList xs) = (xs \<noteq> [])"
| "json_truthy (JObj kvs) = (kvs \<noteq> [])"

text \<open>\<open>a or b\<close> on an optional string and a string.\<close>

definition str_or :: "str option \<Rightarrow> str \<Rightarrow> str" where
  "str_or a b = (case a of Some t \<Rightarrow> if t = [] then b else t | None \<Rightarrow> b)"

text \<open>\<open>d.get(k)\<close> on a JSON object; a missing key is \<open>None\<close>.\<close>

definition json_get :: "str \<Rightarrow> (str \<times> json) list \<Rightarrow> json" where
  "json_get k kvs = (case map_of kvs k of None \<Rightarrow> JNull | Some v \<Rightarrow> v)"

text \<open>JSON of a list of strings and of an optional string.\<close>

definition jstrs :: "str list \<Rightarrow> json" where
  "jstrs xs = JList (map JStr xs)"

definition jopt :: "str option \<Rightarrow> json" where
  "jopt s = (case s of None \<Rightarrow> JNull | Some t \<Rightarrow> JStr t)"

text \<open>\<open>a or b\<close> on JSON values; \<open>str(v)\<close>, where \<open>render\<close> is the text of a value that is not a string.\<close>

definition json_or :: "json \<Rightarrow> json \<Rightarrow> json" where
  "json_or a b = (if json_truthy a then a else b)"

definition py_str :: "(json \<Rightarrow> str) \<Rightarrow> json \<Rightarrow> str" where
  "py_str render v = (case v of JStr s \<Rightarrow> s | _ \<Rightarrow> render v)"

text \<open>\<open>sep.join(xs)\<close>.\<close>

fun py_join :: "str \<Rightarrow> str list \<Rightarrow> str" where
  "py_join sep [] = []"
| "py_join sep [x] = x"
| "py_join sep (x # xs) = x @ sep @ py_join sep xs"

text \<open>\<open>list(dict.fromkeys(xs))\<close>: the first occurrence of each element, in order.\<close>

fun py_unique :: "'a list \<Rightarrow> 'a list" where
  "py_unique [] = []"
| "py_unique (x # xs) = x # filter (\<lambda>y. y \<noteq> x) (py_unique xs)"

text \<open>\<open>sorted(set(xs))\<close>.\<close>

definition py_sorted_set :: "'a::linorder list \<Rightarrow> 'a list" where
  "py_sorted_set xs = sort (remdups xs)"

text \<open>\<open>next((x for x in xs if p(x)), None)\<close> is \<open>List.find\<close>; \<open>needle in text\<close> on strings:\<close>

fun py_in :: "str \<Rightarrow> str \<Rightarrow> bool" where
  "py_in needle [] = (needle = [])"
| "py_in needle (c # cs) = (prefix needle (c # cs) \<or> py_in needle cs)"

text \<open>\<open>text.replace(old, new, 1)\<close> for a non-empty \<open>old\<close>: the leftmost occurrence.\<close>

fun py_replace1 :: "str \<Rightarrow> str \<Rightarrow> str \<Rightarrow> str" where
  "py_replace1 old new [] = []"
| "py_replace1 old new (c # cs) =
     (if prefix old (c # cs) then new @ drop (length old) (c # cs)
      else c # py_replace1 old new cs)"

text \<open>\<open>str.strip()\<close>: the white-space characters Python strips, below code point 256.\<close>

definition py_isspace :: "char \<Rightarrow> bool" where
  "py_isspace c \<longleftrightarrow>
     (let n = (of_char c :: nat)
      in 9 \<le> n \<and> n \<le> 13 \<or> 28 \<le> n \<and> n \<le> 32 \<or> n = 133 \<or> n = 160)"

definition py_strip :: "str \<Rightarrow> str" where
  "py_strip s = rev (dropWhile py_isspace (rev (dropWhile py_isspace s)))"

text \<open>\<open>xs.index(x)\<close> where \<open>x\<close> occurs.\<close>

definition py_index :: "'a list \<Rightarrow> 'a \<Rightarrow> nat" where
  "py_index xs x = length (takeWhile (\<lambda>y. y \<noteq> x) xs)"

text \<open>Lookup in \<open>{key(x): x for x in xs}\<close>: the last element with the key wins.\<close>

definition last_by :: "('a \<Rightarrow> str) \<Rightarrow> 'a list \<Rightarrow> str \<Rightarrow> 'a option" where
  "last_by key xs k = map_of (map (\<lambda>x. (key x, x)) (rev xs)) k"

text \<open>Sequencing of computations that may raise.\<close>

definition obind :: "'e + 'a \<Rightarrow> ('a \<Rightarrow> 'e + 'b) \<Rightarrow> 'e + 'b" where
  "obind m f = (case m of Inl e \<Rightarrow> Inl e | Inr x \<Rightarrow> f x)"

text \<open>A \<open>for\<close> loop whose body may raise.\<close>

fun ofold :: "('a \<Rightarrow> 's \<Rightarrow> 'e + 's) \<Rightarrow> 'a list \<Rightarrow> 's \<Rightarrow> 'e + 's" where
  "ofold f [] s = Inr s"
| "ofold f (x # xs) s = obind (f x s) (ofold f xs)"

section \<open>Lemmas\<close>

lemma opt_truthy_simps [simp, py_simps]:
  "opt_truthy None = False"
  "opt_truthy (Some t) = (t \<noteq> [])"
  by (simp_all add: opt_truthy_def)

lemma str_or_simps [simp, py_simps]:
  "str_or None b = b"
  "str_or (Some t) b = (if t = [] then b else t)"
  by (simp_all add: str_or_def)

lemma obind_simps [simp, py_simps]:
  "obind (Inl e) f = Inl e"
  "obind (Inr x) f = f x"
  by (simp_all add: obind_def)

lemma obind_eq_Inr_iff: "obind m f = Inr y \<longleftrightarrow> (\<exists>x. m = Inr x \<and> f x = Inr y)"
  by (cases m) simp_all

lemma last_by_Some: "last_by key xs k = Some x \<Longrightarrow> x \<in> set xs \<and> key x = k"
  by (auto simp: last_by_def dest!: map_of_SomeD)

lemma last_by_None_iff: "last_by key xs k = None \<longleftrightarrow> k \<notin> key ` set xs"
  by (force simp: last_by_def map_of_eq_None_iff)

lemma set_py_unique [simp]: "set (py_unique xs) = set xs"
  by (induction xs) auto

lemma distinct_py_unique [simp]: "distinct (py_unique xs)"
  by (induction xs) auto

lemma py_unique_eq_Nil_iff [simp]: "py_unique xs = [] \<longleftrightarrow> xs = []"
  by (cases xs) simp_all

lemma filter_py_unique: "filter P (py_unique xs) = py_unique (filter P xs)"
proof (induction xs)
  case Nil
  show ?case by simp
next
  case (Cons x xs)
  have "filter P (filter (\<lambda>y. y \<noteq> x) (py_unique xs)) =
        filter (\<lambda>y. y \<noteq> x) (filter P (py_unique xs))"
    by (simp add: conj_commute)
  moreover have "filter (\<lambda>y. y \<noteq> x) (filter P (py_unique xs)) = filter P (py_unique xs)"
    if "\<not> P x" using that by (auto intro: filter_cong)
  ultimately show ?case using Cons.IH by simp
qed

lemma py_unique_distinct: "distinct xs \<Longrightarrow> py_unique xs = xs"
proof (induction xs)
  case (Cons x xs)
  then have "filter (\<lambda>y. y \<noteq> x) xs = xs"
    by (auto intro: filter_True)
  with Cons show ?case by simp
qed simp

lemma py_unique_idem [simp]: "py_unique (py_unique xs) = py_unique xs"
  by (simp add: py_unique_distinct)

lemma subseq_py_unique: "subseq (py_unique xs) xs"
proof (induction xs)
  case (Cons x xs)
  have "subseq (filter (\<lambda>y. y \<noteq> x) (py_unique xs)) xs"
    using subseq_filter_left subseq_order.trans Cons.IH by blast
  then show ?case by simp
qed simp

lemma set_py_sorted_set [simp]: "set (py_sorted_set xs) = set xs"
  by (simp add: py_sorted_set_def)

lemma distinct_py_sorted_set [simp]: "distinct (py_sorted_set xs)"
  by (simp add: py_sorted_set_def)

lemma sorted_py_sorted_set [simp]: "sorted (py_sorted_set xs)"
  by (simp add: py_sorted_set_def)

lemma py_sorted_set_eq_Nil_iff [simp]: "py_sorted_set xs = [] \<longleftrightarrow> xs = []"
  using set_py_sorted_set [of xs] by (metis set_empty)

lemma py_sorted_set_cong: "set xs = set ys \<Longrightarrow> py_sorted_set xs = py_sorted_set ys"
  by (rule sorted_distinct_set_unique) simp_all

lemma py_in_iff_sublist: "py_in needle s \<longleftrightarrow> sublist needle s"
  by (induction s) (simp_all add: sublist_Cons_right)

lemma py_replace1_split:
  assumes "py_in old s" and "old \<noteq> []"
  shows "\<exists>pre post. s = pre @ old @ post \<and> py_replace1 old new s = pre @ new @ post"
  using assms(1)
proof (induction s)
  case Nil
  with assms(2) show ?case by simp
next
  case (Cons c cs)
  show ?case
  proof (cases "prefix old (c # cs)")
    case True
    then obtain post where "c # cs = old @ post" by (auto simp: prefix_def)
    moreover from this have "drop (length old) (c # cs) = post" by simp
    ultimately have "c # cs = [] @ old @ post \<and> py_replace1 old new (c # cs) = [] @ new @ post"
      using True by (metis append_Nil py_replace1.simps(2))
    then show ?thesis by blast
  next
    case False
    with Cons.prems have "py_in old cs" by simp
    then obtain pre post where "cs = pre @ old @ post" and "py_replace1 old new cs = pre @ new @ post"
      using Cons.IH by blast
    with False have "c # cs = (c # pre) @ old @ post \<and>
        py_replace1 old new (c # cs) = (c # pre) @ new @ post"
      by simp
    then show ?thesis by blast
  qed
qed

lemma py_replace1_absent: "\<not> py_in old s \<Longrightarrow> py_replace1 old new s = s"
  by (induction s) auto

lemma ofold_append: "ofold f (xs @ ys) s = obind (ofold f xs s) (ofold f ys)"
proof (induction xs arbitrary: s)
  case (Cons x xs)
  then show ?case by (cases "f x s") simp_all
qed simp

lemma ofold_invariant:
  assumes "ofold f xs s = Inr t" and "I s"
    and "\<And>x s s'. x \<in> set xs \<Longrightarrow> I s \<Longrightarrow> f x s = Inr s' \<Longrightarrow> I s'"
  shows "I t"
  using assms
proof (induction xs arbitrary: s)
  case (Cons x xs)
  from Cons.prems(1) obtain s' where s': "f x s = Inr s'" and rest: "ofold f xs s' = Inr t"
    by (auto simp: obind_eq_Inr_iff)
  from Cons.prems s' have "I s'" by (meson list.set_intros(1))
  then show ?case by (rule Cons.IH [OF rest]) (meson Cons.prems(3) list.set_intros(2))
qed simp

lemma fold_invariant:
  assumes "I s" and "\<And>x s. x \<in> set xs \<Longrightarrow> I s \<Longrightarrow> I (f x s)"
  shows "I (fold f xs s)"
  using assms by (induction xs arbitrary: s) simp_all

section \<open>Keyed stores\<close>

text \<open>
  The JSON-file stores of the services share one contract: what \<open>get\<close> returns after \<open>save\<close>.
  The state is abstract; the laws are the provider's.
\<close>

locale keyed_store =
  fixes key :: "'v \<Rightarrow> str"
    and lookup :: "'s \<Rightarrow> str \<Rightarrow> 'v option"
    and save :: "'v \<Rightarrow> 's \<Rightarrow> 's"
  assumes lookup_save: "lookup (save v s) k = (if k = key v then Some v else lookup s k)"
begin

lemma lookup_save_same: "lookup (save v s) (key v) = Some v"
  by (simp add: lookup_save)

lemma lookup_save_other: "k \<noteq> key v \<Longrightarrow> lookup (save v s) k = lookup s k"
  by (simp add: lookup_save)

lemma lookup_save_all_other:
  "k \<notin> key ` set vs \<Longrightarrow> lookup (fold save vs s) k = lookup s k"
  by (induction vs arbitrary: s) (simp_all add: lookup_save)

lemma keys_consistent_save:
  assumes "\<And>k v. lookup s k = Some v \<Longrightarrow> key v = k"
    and "lookup (save w s) k = Some v"
  shows "key v = k"
  using assms by (auto simp: lookup_save split: if_splits)

end

section \<open>Status life cycles\<close>

text \<open>
  Several entities (approvals, authority grants, task runs) carry a status that operations move
  along a transition relation; a final status has no successor. Whatever sequence of operations
  runs, an entity in a final status keeps it.
\<close>

locale status_lifecycle =
  fixes edge :: "'st \<Rightarrow> 'st \<Rightarrow> bool"
    and final :: "'st \<Rightarrow> bool"
  assumes final_no_edge: "final a \<Longrightarrow> \<not> edge a b"
begin

inductive path :: "'st \<Rightarrow> 'st \<Rightarrow> bool" where
  path_refl: "path a a"
| path_step: "path a b \<Longrightarrow> edge b c \<Longrightarrow> path a c"

lemma path_from_final: "path a b \<Longrightarrow> final a \<Longrightarrow> b = a"
  by (induction rule: path.induct) (auto dest: final_no_edge)

lemma path_trans: "path b c \<Longrightarrow> path a b \<Longrightarrow> path a c"
  by (induction rule: path.induct) (auto intro: path.path_step)

lemma path_of_steps:
  assumes "\<And>i. i < n \<Longrightarrow> f (Suc i) = f i \<or> edge (f i) (f (Suc i))"
  shows "path (f 0) (f n)"
  using assms
proof (induction n)
  case 0
  show ?case by (rule path_refl)
next
  case (Suc n)
  then have "path (f 0) (f n)" by simp
  with Suc.prems [of n] show ?case by (auto intro: path_step)
qed

lemma final_stays:
  assumes "\<And>i. i < n \<Longrightarrow> f (Suc i) = f i \<or> edge (f i) (f (Suc i))" and "final (f 0)"
  shows "f n = f 0"
proof -
  have "path (f 0) (f n)" by (rule path_of_steps) (rule assms(1))
  then show ?thesis using assms(2) by (rule path_from_final)
qed

end

section \<open>Registration loops\<close>

text \<open>
  Several loops index a list of contracts by a key, refusing an element that fails its checks or whose
  key is already taken. \<open>guard\<close> is what the checks establish, \<open>look\<close> reads the index.
\<close>

locale unique_registry =
  fixes step :: "'x \<Rightarrow> 's \<Rightarrow> 'e + 's"
    and key :: "'x \<Rightarrow> str"
    and look :: "'s \<Rightarrow> str \<Rightarrow> 'x option"
    and guard :: "'x \<Rightarrow> bool"
  assumes step_Inr: "step x s = Inr s' \<Longrightarrow>
    guard x \<and> look s (key x) = None \<and> look s' = (look s)(key x \<mapsto> x)"
begin

lemma register_all:
  "ofold step xs s = Inr s' \<Longrightarrow>
     distinct (map key xs) \<and> (\<forall>x\<in>set xs. guard x \<and> look s (key x) = None) \<and>
     look s' = look s ++ map_of (map (\<lambda>x. (key x, x)) xs)"
proof (induction xs arbitrary: s)
  case (Cons x xs)
  then obtain s1 where s1: "step x s = Inr s1" and rest: "ofold step xs s1 = Inr s'"
    by (auto simp: obind_eq_Inr_iff)
  from step_Inr [OF s1] have x: "guard x" "look s (key x) = None" "look s1 = (look s)(key x \<mapsto> x)"
    by auto
  note IH = Cons.IH [OF rest]
  have fresh: "guard y \<and> key y \<noteq> key x \<and> look s (key y) = None" if "y \<in> set xs" for y
  proof -
    from IH that have "guard y" "look s1 (key y) = None" by auto
    then show ?thesis unfolding x(3) by (simp split: if_splits)
  qed
  with IH have ih: "distinct (map key xs)"
    "\<forall>y\<in>set xs. guard y \<and> key y \<noteq> key x \<and> look s (key y) = None"
    "look s' = look s1 ++ map_of (map (\<lambda>x. (key x, x)) xs)"
    by blast+
  have "map_of (map (\<lambda>x. (key x, x)) xs) (key x) = None"
    using ih(2) by (auto simp: map_of_eq_None_iff)
  then have "look s' = look s ++ map_of (map (\<lambda>x. (key x, x)) (x # xs))"
    unfolding ih(3) x(3) by (auto simp: fun_eq_iff map_add_def split: option.splits)
  moreover have "distinct (map key (x # xs))" "\<forall>y\<in>set (x # xs). guard y \<and> look s (key y) = None"
    using ih(1,2) x(1,2) by auto
  ultimately show ?case by blast
qed simp

lemma register_look:
  assumes "ofold step xs s = Inr s'" and "look s = Map.empty"
  shows "look s' k = Some x \<longleftrightarrow> x \<in> set xs \<and> key x = k"
proof -
  from register_all [OF assms(1)] assms(2)
  have d: "distinct (map key xs)" and l: "look s' = map_of (map (\<lambda>x. (key x, x)) xs)" by auto
  have "distinct (map fst (map (\<lambda>x. (key x, x)) xs))" using d by (simp add: comp_def)
  then show ?thesis unfolding l by (auto simp: map_of_eq_Some_iff)
qed

end

end
