(* ===== verification/Executable_Plan.thy ===== *)
theory Executable_Plan
  imports Prelude
begin

text \<open>
  \<open>ExecutablePlanService\<close> (\<open>services/orchestration/executable_plan_service.py\<close>): whether a task draft
  carries a plan concrete enough to be put to approval. \<open>intent_map\<close> is an untyped dictionary, kept as
  JSON. Arguments of the definitions: \<open>render\<close>, the text \<open>str\<close> gives a value that is not a string, and
  \<open>is_dir\<close>, the file-system test \<open>Path(p).exists() and Path(p).is_dir()\<close>. Paths are POSIX paths.
\<close>

section \<open>Drafts\<close>

record task_draft =
  td_draft_id :: str
  td_session_id :: "str option"
  td_status :: str
  td_intent_map :: "json dict"
  td_policy_decision :: "json dict"
  td_contract_type :: str
  td_operation_type :: str
  td_runtime_profile :: "str option"
  td_workspace_path :: "str option"
  td_workspace_status :: str
  td_requested_actions :: "str list"
  td_allowed_actions :: "str list"
  td_denied_actions :: "str list"
  td_approval_required_for :: "str list"
  td_executable_plan_ref :: "str option"
  td_expected_outcomes :: "str list"
  td_safe_to_execute :: bool
  td_warnings :: "str list"
  td_trace :: "json list"
  td_updated_at :: int

record plan_validation =
  pv_valid :: bool
  pv_reason_code :: str
  pv_executable_plan_ref :: "str option"
  pv_plan_kind :: "str option"

definition plan_valid :: "str \<Rightarrow> str \<Rightarrow> plan_validation" where
  "plan_valid ref kind =
     \<lparr>pv_valid = True, pv_reason_code = ''executable_plan_found'', pv_executable_plan_ref = Some ref,
      pv_plan_kind = Some kind\<rparr>"

definition plan_invalid :: "str \<Rightarrow> str option \<Rightarrow> plan_validation" where
  "plan_invalid reason kind =
     \<lparr>pv_valid = False, pv_reason_code = reason, pv_executable_plan_ref = None, pv_plan_kind = kind\<rparr>"

definition WRITE_ACTIONS :: "str list" where
  "WRITE_ACTIONS =
     [''write_files'', ''apply_patch'', ''create_file'', ''create_directory'', ''modify_file'', ''project_generation'']"

definition FILE_OPERATIONS :: "str list" where
  "FILE_OPERATIONS =
     [''create_file'', ''create_directory'', ''modify_file'', ''filesystem_write_file'',
      ''filesystem_create_directory'', ''filesystem_modify_file'']"

section \<open>JSON access\<close>

text \<open>\<open>_dict\<close>: the entries of an object, nothing for any other value; the elements of a list likewise.\<close>

definition json_dict :: "json \<Rightarrow> json dict" where
  "json_dict v = (case v of JObj kvs \<Rightarrow> kvs | _ \<Rightarrow> [])"

definition json_elems :: "json \<Rightarrow> json list" where
  "json_elems v = (case v of JList xs \<Rightarrow> xs | _ \<Rightarrow> [])"

definition is_obj :: "json \<Rightarrow> bool" where
  "is_obj v = (case v of JObj _ \<Rightarrow> True | _ \<Rightarrow> False)"

definition is_list :: "json \<Rightarrow> bool" where
  "is_list v = (case v of JList _ \<Rightarrow> True | _ \<Rightarrow> False)"

text \<open>\<open>str(d.get(k1) or d.get(k2) or ... or "")\<close>.\<close>

fun first_truthy :: "json dict \<Rightarrow> str list \<Rightarrow> json" where
  "first_truthy d [] = JStr []"
| "first_truthy d (k # ks) = json_or (json_get k d) (first_truthy d ks)"

text \<open>\<open>d.get(k, default)\<close>.\<close>

definition json_get_or :: "str \<Rightarrow> json \<Rightarrow> json dict \<Rightarrow> json" where
  "json_get_or k def d = (case map_of d k of None \<Rightarrow> def | Some v \<Rightarrow> v)"

section \<open>Paths\<close>

definition is_quote :: "char \<Rightarrow> bool" where
  "is_quote c \<longleftrightarrow> c = CHR 0x22 \<or> c = CHR 0x60"

definition strip_quotes :: "str \<Rightarrow> str" where
  "strip_quotes s = rev (dropWhile is_quote (rev (dropWhile is_quote s)))"

text \<open>\<open>\w\<close> of Python's \<open>re\<close> on characters below code point 256.\<close>

definition is_letter :: "char \<Rightarrow> bool" where
  "is_letter c \<longleftrightarrow> (let n = (of_char c :: nat) in 65 \<le> n \<and> n \<le> 90 \<or> 97 \<le> n \<and> n \<le> 122)"

definition is_word :: "char \<Rightarrow> bool" where
  "is_word c \<longleftrightarrow>
     (let n = (of_char c :: nat)
      in is_letter c \<or> 48 \<le> n \<and> n \<le> 57 \<or> n = 95 \<or> n \<in> {170, 178, 179, 181, 185, 186, 188, 189, 190} \<or>
         192 \<le> n \<and> n \<noteq> 215 \<and> n \<noteq> 247)"

text \<open>The patterns \<open>^\w+:\s\<close> and \<open>^[A-Za-z]:[\\/]\<close>.\<close>

definition labelled_text :: "str \<Rightarrow> bool" where
  "labelled_text s \<longleftrightarrow>
     takeWhile is_word s \<noteq> [] \<and>
     (case dropWhile is_word s of c # d # _ \<Rightarrow> c = CHR '':'' \<and> py_isspace d | _ \<Rightarrow> False)"

definition drive_path :: "str \<Rightarrow> bool" where
  "drive_path s \<longleftrightarrow>
     (case s of l # c # d # _ \<Rightarrow> is_letter l \<and> c = CHR '':'' \<and> (d = CHR 0x5C \<or> d = CHR ''/'') | _ \<Rightarrow> False)"

fun path_split :: "str \<Rightarrow> str \<Rightarrow> str list" where
  "path_split acc [] = [acc]"
| "path_split acc (c # cs) = (if c = CHR ''/'' then acc # path_split [] cs else path_split (acc @ [c]) cs)"

text \<open>\<open>Path(s).parts\<close> of a relative path.\<close>

definition path_parts :: "str \<Rightarrow> str list" where
  "path_parts s = filter (\<lambda>p. p \<noteq> [] \<and> p \<noteq> ''.'') (path_split [] s)"

definition is_real_path :: "str \<Rightarrow> bool" where
  "is_real_path value =
     (let t = strip_quotes (py_strip value)
      in if t = [] then False
         else if labelled_text t then False
         else if drive_path t then True
         else if prefix [CHR 0x5C, CHR 0x5C] t then True
         else prefix ''/'' t \<or> path_parts t \<noteq> [] \<and> \<not> list_ex (\<lambda>p. last p = CHR '':'') (path_parts t))"

definition nested_targets :: "(json \<Rightarrow> str) \<Rightarrow> json \<Rightarrow> str list" where
  "nested_targets render payload =
     (if is_obj payload then
        let d = json_dict payload
        in map (py_str render) (filter json_truthy [json_get ''workspace'' d, json_get ''target_file'' d])
           @ map (py_str render) (filter json_truthy (json_elems (json_get ''target_files'' d)))
           @ map (py_str render) (filter json_truthy (json_elems (json_get ''target_paths'' d)))
           @ map (\<lambda>u. py_str render (json_get ''target_file'' (json_dict u)))
               (filter (\<lambda>u. is_obj u \<and> json_truthy (json_get ''target_file'' (json_dict u)))
                 (json_elems (json_get ''change_units'' d)))
      else [])"

definition target_candidates :: "(json \<Rightarrow> str) \<Rightarrow> task_draft \<Rightarrow> str list" where
  "target_candidates render dr =
     (let im = td_intent_map dr; target = json_get ''target'' im
      in map (py_str render)
           (filter json_truthy (map (\<lambda>k. json_get k im) [''target_path'', ''output_path'', ''file_path'', ''path'']))
         @ (if is_obj target
            then map (py_str render)
                   (filter json_truthy (map (\<lambda>k. json_get k (json_dict target)) [''path'', ''file_path'', ''output_path'']))
            else [])
         @ map (py_str render) (json_elems (json_get ''target_paths'' im))
         @ concat (map (\<lambda>k. nested_targets render (json_get k im))
             [''execution_intent'', ''executable_patch_plan'', ''execution_preview''])
         @ (if opt_truthy (td_workspace_path dr) then [str_or (td_workspace_path dr) []] else []))"

text \<open>A preview has no \<open>target_paths\<close> attribute, so only the draft contributes.\<close>

definition real_target_paths :: "(json \<Rightarrow> str) \<Rightarrow> task_draft option \<Rightarrow> str list" where
  "real_target_paths render dr =
     (case dr of None \<Rightarrow> [] | Some d \<Rightarrow> py_unique (filter is_real_path (target_candidates render d)))"

section \<open>Concrete plans\<close>

definition concrete_operation :: "(json \<Rightarrow> str) \<Rightarrow> json \<Rightarrow> bool" where
  "concrete_operation render item =
     (is_obj item \<and>
      (let d = json_dict item
       in py_str render (first_truthy d [''action'', ''operation''])
            \<in> {''create_file'', ''create_directory'', ''modify_file'', ''apply_patch'', ''write_files''}
          \<and> is_real_path (py_str render (first_truthy d [''target_path'', ''path'']))))"

definition patch_target_is_file_like :: "(json \<Rightarrow> str) \<Rightarrow> (str \<Rightarrow> bool) \<Rightarrow> json dict \<Rightarrow> bool" where
  "patch_target_is_file_like render is_dir d =
     (let target = py_str render (first_truthy d [''path'', ''target_path'', ''file_path'', ''relative_path''])
      in is_real_path target \<and> \<not> is_dir target)"

definition concrete_patch_entry :: "(json \<Rightarrow> str) \<Rightarrow> (str \<Rightarrow> bool) \<Rightarrow> json \<Rightarrow> bool" where
  "concrete_patch_entry render is_dir item =
     (is_obj item \<and> patch_target_is_file_like render is_dir (json_dict item) \<and>
      list_ex (\<lambda>k. json_truthy (json_get k (json_dict item)))
        [''content'', ''text'', ''body'', ''lines'', ''diff'', ''patch'', ''diff_ref'', ''hunks'', ''original'', ''replacement''])"

definition has_concrete_patch_plan :: "(json \<Rightarrow> str) \<Rightarrow> (str \<Rightarrow> bool) \<Rightarrow> json dict \<Rightarrow> bool" where
  "has_concrete_patch_plan render is_dir plan =
     (let entries = concat (map (\<lambda>k. json_elems (json_get k plan))
            [''files_to_create'', ''files_to_modify'', ''patch_operations'', ''operations''])
      in if json_truthy (json_get ''diff_ref'' plan)
         then entries \<noteq> [] \<and> list_ex (\<lambda>e. is_obj e \<and> patch_target_is_file_like render is_dir (json_dict e)) entries
         else list_ex (concrete_patch_entry render is_dir) entries)"

definition has_complete_executable_patch_plan :: "(json \<Rightarrow> str) \<Rightarrow> json dict \<Rightarrow> json dict \<Rightarrow> bool" where
  "has_complete_executable_patch_plan render plan preview =
     (let target_paths = json_get ''target_paths'' plan;
          change_units = json_get ''change_units'' plan;
          rollback = json_get ''rollback_strategy'' plan;
          steps = json_get ''validation_steps'' plan
      in if py_str render (first_truthy plan [''status'']) \<noteq> ''complete'' then False
         else if py_str render (first_truthy preview [''status'']) \<noteq> ''complete'' then False
         else if \<not> list_ex (\<lambda>v. is_real_path (py_str render v)) (json_elems target_paths) then False
         else if json_elems change_units = [] then False
         else if \<not> list_all (\<lambda>u. is_obj u \<and> json_truthy (json_get ''hunk_ids'' (json_dict u))) (json_elems change_units)
           then False
         else if \<not> is_obj rollback \<or> py_strip (py_str render (first_truthy (json_dict rollback) [''strategy''])) = []
           then False
         else list_ex (\<lambda>v. py_strip (py_str render v) \<noteq> []) (json_elems steps))"

definition execution_plan_gap_reason :: "(json \<Rightarrow> str) \<Rightarrow> json dict \<Rightarrow> json dict \<Rightarrow> str" where
  "execution_plan_gap_reason render plan preview =
     (case filter (\<lambda>t. t \<noteq> [])
        (map (\<lambda>v. py_strip (py_str render v))
          (json_elems (json_get ''diagnostics'' preview) @ json_elems (json_get ''diagnostics'' plan))) of
        [] \<Rightarrow> ''executable_patch_plan_incomplete''
      | t # _ \<Rightarrow> t)"

definition has_any_list :: "json dict \<Rightarrow> str list \<Rightarrow> bool" where
  "has_any_list d keys = list_ex (\<lambda>k. json_elems (json_get k d) \<noteq> []) keys"

definition plan_ref :: "task_draft \<Rightarrow> str \<Rightarrow> str" where
  "plan_ref dr kind = str_or (td_executable_plan_ref dr) (td_draft_id dr @ '':'' @ kind)"

section \<open>Quality of a write\<close>

text \<open>\<open>casefold\<close> on the ASCII letters; no other character below code point 256 folds into the searched terms.\<close>

definition ascii_fold :: "str \<Rightarrow> str" where
  "ascii_fold s =
     map (\<lambda>c. let n = (of_char c :: nat) in if 65 \<le> n \<and> n \<le> 90 then char_of (n + 32) else c) s"

definition diagnostic_write :: "(json \<Rightarrow> str) \<Rightarrow> json dict \<Rightarrow> bool" where
  "diagnostic_write render im =
     (let raw = ascii_fold (py_str render (json_get_or ''prompt'' (JStr []) im) @ '' '' @
                            py_str render (json_get_or ''raw_prompt'' (JStr []) im))
      in py_str render (json_get ''intent'' im) \<in> {''workspace_fix_request'', ''diagnostic_fix_request''}
         \<or> list_ex (\<lambda>t. py_in t raw)
             [''analise e corrija'', ''diagnostique e corrija'', ''corrija os problemas''])"

definition nonblank :: "str list \<Rightarrow> str list" where
  "nonblank xs = filter (\<lambda>x. py_strip x \<noteq> []) xs"

definition write_quality_reason :: "(json \<Rightarrow> str) \<Rightarrow> task_draft \<Rightarrow> str option" where
  "write_quality_reason render dr =
     (let im = td_intent_map dr
      in if \<not> json_truthy (json_get ''context_ref'' im) then Some ''PREVIEW_REJECTED_NO_CONTEXT_REF''
         else if real_target_paths render (Some dr) = [] then Some ''PREVIEW_REJECTED_NO_TARGET_FILES''
         else if nonblank (td_expected_outcomes dr) = [] then Some ''PREVIEW_REJECTED_NO_EXPECTED_OUTPUTS''
         else if \<not> json_truthy (json_get ''validation_plan'' im) then Some ''PREVIEW_REJECTED_NO_VALIDATION_PLAN''
         else if \<not> json_truthy (json_get ''rollback_plan'' im) then Some ''PREVIEW_REJECTED_NO_ROLLBACK_PLAN''
         else if diagnostic_write render im \<and> \<not> json_truthy (json_get ''analysis_ref'' im)
           then Some ''APPROVAL_NOT_CREATED_NO_ANALYSIS_REF''
         else None)"

section \<open>Validation\<close>

definition requires_plan :: "task_draft \<Rightarrow> bool" where
  "requires_plan dr \<longleftrightarrow>
     list_ex (\<lambda>a. a \<in> set WRITE_ACTIONS) (td_requested_actions dr) \<or>
     list_ex (\<lambda>a. a \<in> set WRITE_ACTIONS) (td_approval_required_for dr) \<or>
     td_contract_type dr \<in> {''patch_request'', ''patch_apply'', ''filesystem_write'', ''project_generation''} \<or>
     str_or (td_runtime_profile dr) [] \<in> {''patch'', ''write_file'', ''project_generation''}"

definition is_patch_draft :: "task_draft \<Rightarrow> bool" where
  "is_patch_draft dr \<longleftrightarrow>
     td_contract_type dr \<in> {''patch_request'', ''patch_apply''} \<or> str_or (td_runtime_profile dr) [] = ''patch''"

definition is_generation_draft :: "task_draft \<Rightarrow> bool" where
  "is_generation_draft dr \<longleftrightarrow>
     str_or (td_runtime_profile dr) [] = ''project_generation'' \<or> td_operation_type dr = ''project_generation'' \<or>
     td_contract_type dr = ''project_generation''"

definition validate_patch :: "(json \<Rightarrow> str) \<Rightarrow> (str \<Rightarrow> bool) \<Rightarrow> task_draft \<Rightarrow> plan_validation" where
  "validate_patch render is_dir dr =
     (let im = td_intent_map dr;
          plan = json_dict (json_get ''executable_patch_plan'' im);
          preview = json_dict (json_get ''execution_preview'' im)
      in if plan \<noteq> [] \<or> preview \<noteq> [] then
           if has_complete_executable_patch_plan render plan preview then
             plan_valid
               (py_str render
                 (json_or (json_get ''executable_plan_id'' plan) (JStr (plan_ref dr ''executable_patch_plan''))))
               ''executable_patch_plan''
           else plan_invalid (execution_plan_gap_reason render plan preview) (Some ''executable_patch_plan'')
         else if has_concrete_patch_plan render is_dir (json_dict (json_get ''patch_plan'' im))
           then plan_valid (plan_ref dr ''patch_plan'') ''patch_plan''
         else plan_invalid ''missing_patch_plan'' (Some ''patch_plan''))"

definition requested_file_operation :: "(json \<Rightarrow> str) \<Rightarrow> task_draft \<Rightarrow> bool" where
  "requested_file_operation render dr \<longleftrightarrow>
     py_str render (json_or (json_get ''requested_operation'' (td_intent_map dr)) (JStr (td_operation_type dr)))
       \<in> set FILE_OPERATIONS"

definition validate_files :: "(json \<Rightarrow> str) \<Rightarrow> task_draft \<Rightarrow> plan_validation" where
  "validate_files render dr =
     (let im = td_intent_map dr;
          ok = plan_valid (plan_ref dr ''concrete_file_operations'') ''concrete_file_operations'';
          target_path = json_get ''target_path'' im
      in if list_ex (concrete_operation render) (json_elems (json_get ''concrete_file_operations'' im)) then ok
         else if list_ex (\<lambda>v. is_real_path (py_str render v)) (json_elems (json_get ''target_paths'' im))
                 \<and> requested_file_operation render dr then ok
         else if json_truthy target_path \<and> is_real_path (py_str render target_path)
                 \<and> requested_file_operation render dr then ok
         else plan_invalid ''missing_executable_plan'' None)"

definition validate_draft :: "(json \<Rightarrow> str) \<Rightarrow> (str \<Rightarrow> bool) \<Rightarrow> task_draft option \<Rightarrow> plan_validation" where
  "validate_draft render is_dir draft =
     (case draft of
        None \<Rightarrow> plan_invalid ''draft_missing'' None
      | Some dr \<Rightarrow>
          if \<not> requires_plan dr then plan_valid ''no_write_execution_plan_required'' ''non_executable_or_readonly''
          else case write_quality_reason render dr of
            Some reason \<Rightarrow> plan_invalid reason None
          | None \<Rightarrow>
              if is_patch_draft dr then validate_patch render is_dir dr
              else if is_generation_draft dr then
                if has_any_list (json_dict (json_get ''project_generation_plan'' (td_intent_map dr)))
                     [''files_to_create'', ''files_to_modify'', ''generation_steps'', ''validation_steps'', ''expected_outputs'']
                then plan_valid (plan_ref dr ''project_generation_plan'') ''project_generation_plan''
                else plan_invalid ''missing_project_generation_plan'' (Some ''project_generation_plan'')
              else validate_files render dr)"

definition expected_outcomes_for :: "task_draft option \<Rightarrow> str list" where
  "expected_outcomes_for draft =
     (case draft of
        None \<Rightarrow> []
      | Some dr \<Rightarrow>
          if nonblank (td_expected_outcomes dr) \<noteq> [] then py_unique (nonblank (td_expected_outcomes dr))
          else if is_patch_draft dr then [''patch_result'', ''validation_result'']
          else if is_generation_draft dr then [''project_generation'', ''validation_result'']
          else if str_or (td_runtime_profile dr) [] = ''write_file''
                  \<or> td_contract_type dr \<in> {''filesystem_write'', ''file_modification''}
            then [''filesystem_operation'', ''validation_result'']
          else [])"

section \<open>What a valid plan is\<close>

lemma plan_valid_fields [simp]:
  "pv_valid (plan_valid r k)" "pv_executable_plan_ref (plan_valid r k) = Some r" "pv_plan_kind (plan_valid r k) = Some k"
  "\<not> pv_valid (plan_invalid c k')" "pv_executable_plan_ref (plan_invalid c k') = None"
  by (simp_all add: plan_valid_def plan_invalid_def)

text \<open>A write is well documented: context, targets, outcomes, validation, rollback, and analysis if diagnostic.\<close>

definition documented_write :: "(json \<Rightarrow> str) \<Rightarrow> task_draft \<Rightarrow> bool" where
  "documented_write render dr \<longleftrightarrow>
     (\<forall>k\<in>{''context_ref'', ''validation_plan'', ''rollback_plan''}. json_truthy (json_get k (td_intent_map dr))) \<and>
     (\<exists>p\<in>set (target_candidates render dr). is_real_path p) \<and>
     (\<exists>x\<in>set (td_expected_outcomes dr). py_strip x \<noteq> []) \<and>
     (diagnostic_write render (td_intent_map dr) \<longrightarrow> json_truthy (json_get ''analysis_ref'' (td_intent_map dr)))"

lemma write_quality_None_iff: "write_quality_reason render dr = None \<longleftrightarrow> documented_write render dr"
proof -
  have "real_target_paths render (Some dr) = [] \<longleftrightarrow> \<not> (\<exists>p\<in>set (target_candidates render dr). is_real_path p)"
    by (auto simp: real_target_paths_def filter_empty_conv)
  moreover have "nonblank (td_expected_outcomes dr) = [] \<longleftrightarrow> \<not> (\<exists>x\<in>set (td_expected_outcomes dr). py_strip x \<noteq> [])"
    by (auto simp: nonblank_def filter_empty_conv)
  ultimately show ?thesis
    unfolding write_quality_reason_def documented_write_def Let_def by simp
qed

text \<open>What is to be changed is named: files with their content or hunks, or generation steps.\<close>

definition complete_patch :: "(json \<Rightarrow> str) \<Rightarrow> json dict \<Rightarrow> json dict \<Rightarrow> bool" where
  "complete_patch render plan preview \<longleftrightarrow>
     (\<forall>d\<in>{plan, preview}. py_str render (first_truthy d [''status'']) = ''complete'') \<and>
     (\<exists>t\<in>set (json_elems (json_get ''target_paths'' plan)). is_real_path (py_str render t)) \<and>
     json_elems (json_get ''change_units'' plan) \<noteq> [] \<and>
     (\<forall>u\<in>set (json_elems (json_get ''change_units'' plan)). is_obj u \<and> json_truthy (json_get ''hunk_ids'' (json_dict u))) \<and>
     is_obj (json_get ''rollback_strategy'' plan) \<and>
     py_strip (py_str render (first_truthy (json_dict (json_get ''rollback_strategy'' plan)) [''strategy''])) \<noteq> [] \<and>
     (\<exists>v\<in>set (json_elems (json_get ''validation_steps'' plan)). py_strip (py_str render v) \<noteq> [])"

lemma complete_patch_iff: "has_complete_executable_patch_plan render plan preview \<longleftrightarrow> complete_patch render plan preview"
  unfolding has_complete_executable_patch_plan_def complete_patch_def Let_def list_ex_iff list_all_iff by simp

definition concrete_plan :: "(json \<Rightarrow> str) \<Rightarrow> (str \<Rightarrow> bool) \<Rightarrow> task_draft \<Rightarrow> bool" where
  "concrete_plan render is_dir dr \<longleftrightarrow>
     (let im = td_intent_map dr;
          plan = json_dict (json_get ''executable_patch_plan'' im);
          preview = json_dict (json_get ''execution_preview'' im);
          names_file = (\<exists>v. (v \<in> set (json_elems (json_get ''target_paths'' im)) \<or>
                             v = json_get ''target_path'' im \<and> json_truthy v) \<and> is_real_path (py_str render v))
      in if is_patch_draft dr then
           if plan = [] \<and> preview = [] then has_concrete_patch_plan render is_dir (json_dict (json_get ''patch_plan'' im))
           else complete_patch render plan preview
         else if is_generation_draft dr then
           \<exists>k\<in>{''files_to_create'', ''files_to_modify'', ''generation_steps'', ''validation_steps'', ''expected_outputs''}.
             json_elems (json_get k (json_dict (json_get ''project_generation_plan'' im))) \<noteq> []
         else (\<exists>v\<in>set (json_elems (json_get ''concrete_file_operations'' im)). concrete_operation render v) \<or>
              names_file \<and> requested_file_operation render dr)"

lemma validate_patch_iff:
  "is_patch_draft dr \<Longrightarrow> pv_valid (validate_patch render is_dir dr) \<longleftrightarrow> concrete_plan render is_dir dr"
  by (auto simp: validate_patch_def concrete_plan_def Let_def complete_patch_iff)

lemma validate_files_iff:
  "\<not> is_patch_draft dr \<Longrightarrow> \<not> is_generation_draft dr \<Longrightarrow>
     pv_valid (validate_files render dr) \<longleftrightarrow> concrete_plan render is_dir dr"
  by (auto simp: validate_files_def concrete_plan_def Let_def list_ex_iff)

lemma validate_draft_valid_iff:
  "pv_valid (validate_draft render is_dir (Some dr)) \<longleftrightarrow>
     \<not> requires_plan dr \<or> documented_write render dr \<and> concrete_plan render is_dir dr"
proof (cases "requires_plan dr \<and> write_quality_reason render dr = None")
  case False
  then show ?thesis
    by (cases "write_quality_reason render dr") (auto simp: validate_draft_def simp flip: write_quality_None_iff)
next
  case True
  then have "documented_write render dr" by (simp add: write_quality_None_iff)
  consider "is_patch_draft dr" | "\<not> is_patch_draft dr" "is_generation_draft dr"
    | "\<not> is_patch_draft dr" "\<not> is_generation_draft dr" by blast
  then have "pv_valid (validate_draft render is_dir (Some dr)) \<longleftrightarrow> concrete_plan render is_dir dr"
  proof cases
    case 1
    then show ?thesis using True by (simp add: validate_draft_def validate_patch_iff)
  next
    case 2
    then show ?thesis
      using True by (auto simp: validate_draft_def concrete_plan_def Let_def has_any_list_def)
  next
    case 3
    then show ?thesis using True validate_files_iff [OF 3] by (simp add: validate_draft_def)
  qed
  with True \<open>documented_write render dr\<close> show ?thesis by simp
qed

text \<open>
  A draft passes plan validation exactly when it needs no plan, or its write is documented (context,
  real target, expected outcome, validation, rollback, analysis for a diagnosis) and its plan is concrete.
\<close>

theorem validate_draft_exact:
  "pv_valid (validate_draft render is_dir (Some dr)) \<longleftrightarrow>
     (if requires_plan dr then documented_write render dr \<and> concrete_plan render is_dir dr else True)"
  using validate_draft_valid_iff by simp

definition ref_ok :: "plan_validation \<Rightarrow> bool" where
  "ref_ok v \<longleftrightarrow> (pv_valid v \<longrightarrow> pv_executable_plan_ref v \<noteq> None)"

lemma ref_ok_simps:
  "ref_ok (plan_valid r k)" "ref_ok (plan_invalid c k')" "ref_ok (if b then x else y) = (if b then ref_ok x else ref_ok y)"
  by (simp_all add: ref_ok_def)

lemma ref_ok_parts: "ref_ok (validate_patch render is_dir dr)" "ref_ok (validate_files render dr)"
  by (simp_all only: validate_patch_def validate_files_def Let_def ref_ok_simps if_cancel)

lemma ref_ok_validate: "ref_ok (validate_draft render is_dir d)"
proof (cases d)
  case None
  then show ?thesis by (simp add: validate_draft_def ref_ok_simps)
next
  case (Some dr)
  show ?thesis
    unfolding Some validate_draft_def
    by (cases "write_quality_reason render dr") (simp_all only: option.case ref_ok_simps ref_ok_parts if_cancel)
qed

lemma validate_draft_ref:
  "pv_valid (validate_draft render is_dir d) \<Longrightarrow> \<exists>r. pv_executable_plan_ref (validate_draft render is_dir d) = Some r"
  using ref_ok_validate unfolding ref_ok_def by blast

lemma validate_draft_present: "pv_valid (validate_draft render is_dir d) \<Longrightarrow> \<exists>dr. d = Some dr"
  by (cases d) (simp_all add: validate_draft_def)

end
