(* ===== verification/Git_Commands.thy ===== *)
theory Git_Commands
  imports Executable_Plan
begin

text \<open>
  \<open>GitCommandClassificationService\<close> (\<open>services/tools/git_command_classification_service.py\<close>): which kind of Git operation a
  command line is, and which capability it needs. The run guard takes the capability of a shell command from it
  (\<open>_capability_for_action\<close> of \<open>task_run_guard.py\<close>). The last component of a path (\<open>Path(x).name\<close>) is an argument;
  \<open>casefold\<close> and \<open>lower\<close> are \<open>ascii_fold\<close>: their results are compared with ASCII words only.
\<close>

section \<open>Data\<close>

record git_classification =
  gc_operation_class :: str
  gc_operation :: str
  gc_capability :: str
  gc_capabilities_required :: "str list"
  gc_network_required :: bool
  gc_requires_remote_scope :: bool
  gc_worktree_mutation :: bool
  gc_destructive :: bool
  gc_safe_for_governed_execution :: bool
  gc_remote_name :: "str option"
  gc_branch :: "str option"
  gc_reason_code :: str

definition LOCAL_READ :: "str dict" where
  "LOCAL_READ = [(''status'', ''git_status''), (''diff'', ''git_diff''), (''log'', ''git_log''), (''show'', ''git_show''),
     (''rev-parse'', ''git_rev_parse''), (''ls-files'', ''git_ls_files'')]"

definition NETWORK_READ :: "str dict" where
  "NETWORK_READ = [(''clone'', ''git_clone''), (''fetch'', ''git_fetch''), (''ls-remote'', ''git_ls_remote'')]"

definition WORKTREE_WRITE :: "str dict" where
  "WORKTREE_WRITE = [(''checkout'', ''git_checkout''), (''switch'', ''git_switch''), (''restore'', ''git_restore''), (''add'', ''git_add'')]"

section \<open>Reading a command line\<close>

fun git_subcommand :: "str list \<Rightarrow> (str \<times> str list) option" where
  "git_subcommand [] = None"
| "git_subcommand (t # ts) =
     (if t \<in> {''-C'', ''-c'', ''--git-dir'', ''--work-tree'', ''--namespace''}
      then (case ts of [] \<Rightarrow> None | _ # rest \<Rightarrow> git_subcommand rest)
      else if prefix ''--git-dir='' t \<or> prefix ''--work-tree='' t \<or> prefix ''--namespace='' t then git_subcommand ts
      else if prefix ''-'' t then git_subcommand ts
      else Some (ascii_fold t, ts))"

definition OPTIONS_WITH_VALUES :: "str list" where
  "OPTIONS_WITH_VALUES = [''-b'', ''--branch'', ''--depth'', ''--filter'', ''--upload-pack'', ''--receive-pack'']"

fun positionals :: "bool \<Rightarrow> str list \<Rightarrow> str list" where
  "positionals skip [] = []"
| "positionals skip (t # ts) =
     (if skip then positionals False ts
      else if t \<in> set OPTIONS_WITH_VALUES then positionals True ts
      else if prefix ''-'' t then positionals False ts
      else t # positionals False ts)"

definition first_positional :: "str list \<Rightarrow> str option" where
  "first_positional args = (case positionals False args of [] \<Rightarrow> None | t # _ \<Rightarrow> Some t)"

definition second_positional :: "str list \<Rightarrow> str option" where
  "second_positional args = (case positionals False args of _ # t # _ \<Rightarrow> Some t | _ \<Rightarrow> None)"

fun option_value :: "str list \<Rightarrow> str list \<Rightarrow> str option" where
  "option_value names [] = None"
| "option_value names (t # ts) =
     (if t \<in> set names \<and> ts \<noteq> [] then Some (hd ts)
      else case find (\<lambda>n. prefix (n @ ''='') t) names of
             Some n \<Rightarrow> Some (drop (length n + 1) t)
           | None \<Rightarrow> option_value names ts)"

text \<open>\<open>source, destination = branch.split(":", 1)\<close>, then the first of destination and source that is not empty.\<close>

definition refspec_branch :: "str \<Rightarrow> str option" where
  "refspec_branch b =
     (if CHR '':'' \<in> set b then
        let source = takeWhile (\<lambda>c. c \<noteq> CHR '':'') b; destination = drop (length source + 1) b
        in if destination \<noteq> [] then Some destination else if source \<noteq> [] then Some source else None
      else Some b)"

definition remote_and_branch :: "str list \<Rightarrow> str option \<times> str option" where
  "remote_and_branch args =
     (first_positional args,
      case second_positional args of None \<Rightarrow> None | Some b \<Rightarrow> if b = [] then Some b else refspec_branch b)"

definition network_target :: "str \<Rightarrow> str list \<Rightarrow> str option \<times> str option" where
  "network_target subcommand args =
     (if subcommand = ''clone'' then (first_positional args, option_value [''-b'', ''--branch''] args)
      else if subcommand = ''ls-remote'' then (first_positional args, second_positional args)
      else remote_and_branch args)"

section \<open>Destructive operations\<close>

definition destructive_reason :: "str \<Rightarrow> str list \<Rightarrow> str option" where
  "destructive_reason subcommand lowered =
     (let has = (\<lambda>flags. list_ex (\<lambda>f. f \<in> set lowered) flags)
      in if subcommand = ''reset'' then Some ''git_history_or_worktree_reset_denied''
         else if subcommand = ''clean'' then Some ''git_clean_denied''
         else if subcommand = ''push'' \<and> has [''-f'', ''--force'', ''--force-with-lease'', ''--mirror'', ''--delete'']
           then Some ''git_force_or_delete_push_denied''
         else if subcommand = ''push'' \<and> list_ex (\<lambda>i. prefix '':'' i) (filter (\<lambda>i. \<not> prefix ''--'' i) lowered)
           then Some ''git_force_or_delete_push_denied''
         else if subcommand = ''branch'' \<and> has [''-d'', ''-D'', ''--delete''] then Some ''git_branch_delete_denied''
         else if subcommand = ''commit'' \<and> has [''--amend''] then Some ''git_history_rewrite_denied''
         else if subcommand = ''checkout'' \<and> has [''-b'', ''-B''] then Some ''git_branch_reset_or_create_denied''
         else if subcommand = ''switch'' \<and> has [''-c'', ''-C''] then Some ''git_branch_reset_or_create_denied''
         else if subcommand \<in> {''rebase'', ''merge'', ''cherry-pick'', ''revert'', ''rm''}
           then Some ''git_history_or_destructive_worktree_operation_denied''
         else None)"

definition destructive_operation :: "str \<Rightarrow> str list \<Rightarrow> str" where
  "destructive_operation subcommand lowered =
     (if subcommand = ''push'' then ''git_force_push''
      else if subcommand = ''branch'' then ''git_branch_delete''
      else if subcommand = ''clean'' then ''git_clean''
      else if subcommand = ''reset'' then ''git_history_rewrite''
      else if subcommand = ''commit'' \<and> ''--amend'' \<in> set lowered then ''git_history_rewrite''
      else ''git_destructive'')"

section \<open>Classification\<close>

definition branch_is_readonly :: "str list \<Rightarrow> bool" where
  "branch_is_readonly args \<longleftrightarrow>
     \<not> list_ex (\<lambda>f. f \<in> set args) [''-d'', ''--delete'', ''-m'', ''--move'', ''-c'', ''--copy'', ''-f'', ''--force'']"

definition remote_is_readonly :: "str list \<Rightarrow> bool" where
  "remote_is_readonly args \<longleftrightarrow> (case args of [] \<Rightarrow> True | a # _ \<Rightarrow> a \<in> {''-v'', ''show'', ''get-url''})"

definition config_is_readonly :: "str list \<Rightarrow> bool" where
  "config_is_readonly args \<longleftrightarrow>
     (case args of [] \<Rightarrow> False | a # _ \<Rightarrow> a \<in> {''--get'', ''--get-all'', ''--get-regexp'', ''--list'', ''-l''})"

definition git_result :: "str \<Rightarrow> str \<Rightarrow> str \<Rightarrow> str \<Rightarrow> git_classification" where
  "git_result cls operation capability reason =
     \<lparr>gc_operation_class = cls, gc_operation = operation, gc_capability = capability, gc_capabilities_required = [capability],
      gc_network_required = False, gc_requires_remote_scope = False, gc_worktree_mutation = False, gc_destructive = False,
      gc_safe_for_governed_execution = False, gc_remote_name = None, gc_branch = None, gc_reason_code = reason\<rparr>"

definition git_unknown :: "str \<Rightarrow> git_classification" where
  "git_unknown reason = git_result ''unknown'' ''git_unknown'' ''git_unknown'' reason"

definition git_local_read :: "str \<Rightarrow> git_classification" where
  "git_local_read operation =
     (git_result ''local_read'' operation ''git_local_read'' ''git_local_read_classified'')\<lparr>gc_safe_for_governed_execution := True\<rparr>"

definition git_networked :: "str \<Rightarrow> str \<Rightarrow> str \<Rightarrow> bool \<Rightarrow> str option \<times> str option \<Rightarrow> git_classification" where
  "git_networked cls operation reason mutation target =
     (git_result cls operation operation reason)
       \<lparr>gc_capabilities_required := [operation, ''outbound_network''], gc_network_required := True, gc_requires_remote_scope := True,
        gc_worktree_mutation := mutation, gc_remote_name := fst target, gc_branch := snd target,
        gc_safe_for_governed_execution := True\<rparr>"

definition git_governed :: "str \<Rightarrow> str list \<Rightarrow> git_classification" where
  "git_governed subcommand tail =
     (let lowered = map ascii_fold tail
      in case destructive_reason subcommand lowered of
        Some reason \<Rightarrow>
          (git_result ''destructive'' (destructive_operation subcommand lowered) ''git_destructive'' reason)
            \<lparr>gc_destructive := True, gc_worktree_mutation := True\<rparr>
      | None \<Rightarrow>
          (case map_of LOCAL_READ subcommand of
             Some operation \<Rightarrow> git_local_read operation
           | None \<Rightarrow>
               if subcommand = ''branch'' \<and> branch_is_readonly lowered then git_local_read ''git_branch_read''
               else if subcommand = ''remote'' \<and> remote_is_readonly lowered then git_local_read ''git_remote_read''
               else if subcommand = ''config'' \<and> config_is_readonly lowered then git_local_read ''git_config_read''
               else (case map_of NETWORK_READ subcommand of
                 Some operation \<Rightarrow>
                   git_networked ''network_read'' operation ''git_network_read_classified'' (subcommand = ''clone'')
                     (network_target subcommand tail)
               | None \<Rightarrow>
                   if subcommand = ''pull'' \<and> ''--ff-only'' \<in> set lowered then
                     git_networked ''network_read'' ''git_pull_ff'' ''git_fast_forward_pull_classified'' True (remote_and_branch tail)
                   else (case map_of WORKTREE_WRITE subcommand of
                     Some operation \<Rightarrow>
                       (git_result ''worktree_write'' operation ''git_worktree_write'' ''git_worktree_write_classified'')
                         \<lparr>gc_worktree_mutation := True, gc_branch := first_positional tail, gc_safe_for_governed_execution := True\<rparr>
                   | None \<Rightarrow>
                       if subcommand = ''commit'' then
                         (git_result ''commit'' ''git_commit'' ''git_commit'' ''git_commit_classified'')
                           \<lparr>gc_requires_remote_scope := True, gc_worktree_mutation := True, gc_safe_for_governed_execution := True\<rparr>
                       else if subcommand = ''push'' then
                         git_networked ''push'' ''git_push'' ''git_push_classified'' False (remote_and_branch tail)
                       else git_unknown ''git_subcommand_not_governed''))))"

definition unquoted :: "str \<Rightarrow> str" where
  "unquoted s = rev (dropWhile (\<lambda>c. c = CHR 0x22) (rev (dropWhile (\<lambda>c. c = CHR 0x22) s)))"

definition git_classify :: "(str \<Rightarrow> str) \<Rightarrow> str list \<Rightarrow> git_classification" where
  "git_classify leaf argv =
     (case argv of
        [] \<Rightarrow> git_unknown ''git_executable_required''
      | t # args \<Rightarrow>
          if ascii_fold (leaf (unquoted t)) \<notin> {''git'', ''git.exe''} then git_unknown ''git_executable_required''
          else (case git_subcommand args of
            None \<Rightarrow> git_unknown ''git_subcommand_required''
          | Some (subcommand, tail) \<Rightarrow> git_governed subcommand tail))"

section \<open>Properties\<close>

definition GOVERNED :: "str list" where
  "GOVERNED = [''status'', ''diff'', ''log'', ''show'', ''rev-parse'', ''ls-files'', ''branch'', ''remote'', ''config'', ''clone'', ''fetch'',
     ''ls-remote'', ''pull'', ''checkout'', ''switch'', ''restore'', ''add'', ''commit'', ''push'']"

lemma git_result_simps [simp]:
  "gc_safe_for_governed_execution (git_unknown r) = False" "gc_destructive (git_unknown r) = False"
  "gc_safe_for_governed_execution (git_local_read op)" "gc_destructive (git_local_read op) = False"
  "gc_network_required (git_local_read op) = False" "gc_worktree_mutation (git_local_read op) = False"
  "gc_capability (git_local_read op) = ''git_local_read''" "gc_capabilities_required (git_local_read op) = [''git_local_read'']"
  "gc_safe_for_governed_execution (git_networked c op r m t)" "gc_destructive (git_networked c op r m t) = False"
  "gc_network_required (git_networked c op r m t)" "gc_requires_remote_scope (git_networked c op r m t)"
  "gc_capability (git_networked c op r m t) = op" "gc_capabilities_required (git_networked c op r m t) = [op, ''outbound_network'']"
  "gc_operation (git_networked c op r m t) = op"
  by (simp_all add: git_unknown_def git_local_read_def git_networked_def git_result_def)

text \<open>What a classification that is safe to execute says of itself.\<close>

definition git_consistent :: "git_classification \<Rightarrow> bool" where
  "git_consistent c \<longleftrightarrow> \<not> gc_destructive c \<and> gc_capability c \<in> set (gc_capabilities_required c) \<and>
     (gc_network_required c \<longleftrightarrow> ''outbound_network'' \<in> set (gc_capabilities_required c)) \<and>
     (gc_network_required c \<longrightarrow> gc_requires_remote_scope c) \<and>
     (gc_worktree_mutation c \<longrightarrow> gc_capability c \<noteq> ''git_local_read'')"

lemma destructive_reason_None:
  "destructive_reason sub args = None \<longleftrightarrow>
   sub \<notin> {''reset'', ''clean'', ''rebase'', ''merge'', ''cherry-pick'', ''revert'', ''rm''} \<and>
   (sub = ''push'' \<longrightarrow> set args \<inter> {''-f'', ''--force'', ''--force-with-lease'', ''--mirror'', ''--delete''} = {} \<and> (\<forall>a \<in> set args. \<not> prefix '':'' a)) \<and>
   (sub = ''branch'' \<longrightarrow> set args \<inter> {''-d'', ''-D'', ''--delete''} = {}) \<and>
   (sub = ''commit'' \<longrightarrow> ''--amend'' \<notin> set args) \<and>
   (sub = ''checkout'' \<longrightarrow> set args \<inter> {''-b'', ''-B''} = {}) \<and>
   (sub = ''switch'' \<longrightarrow> set args \<inter> {''-c'', ''-C''} = {})"
proof -
  have "prefix '':'' a \<Longrightarrow> \<not> prefix ''--'' a" for a by (cases a) auto
  then have "list_ex (\<lambda>i. prefix '':'' i) (filter (\<lambda>i. \<not> prefix ''--'' i) args) \<longleftrightarrow> (\<exists>a \<in> set args. prefix '':'' a)"
    by (auto simp: list_ex_iff)
  then have "destructive_reason ''push'' args = None \<longleftrightarrow>
      set args \<inter> {''-f'', ''--force'', ''--force-with-lease'', ''--mirror'', ''--delete''} = {} \<and> (\<forall>a \<in> set args. \<not> prefix '':'' a)"
    by (simp add: destructive_reason_def Let_def)
  moreover have "destructive_reason ''branch'' args = None \<longleftrightarrow> set args \<inter> {''-d'', ''-D'', ''--delete''} = {}"
    "destructive_reason ''commit'' args = None \<longleftrightarrow> ''--amend'' \<notin> set args"
    "destructive_reason ''checkout'' args = None \<longleftrightarrow> set args \<inter> {''-b'', ''-B''} = {}"
    "destructive_reason ''switch'' args = None \<longleftrightarrow> set args \<inter> {''-c'', ''-C''} = {}"
    by (simp_all add: destructive_reason_def Let_def)
  moreover have "destructive_reason sub args = None \<longleftrightarrow>
      sub \<notin> {''reset'', ''clean'', ''rebase'', ''merge'', ''cherry-pick'', ''revert'', ''rm''}"
    if "sub \<noteq> ''push''" "sub \<noteq> ''branch''" "sub \<noteq> ''commit''" "sub \<noteq> ''checkout''" "sub \<noteq> ''switch''"
    using that by (simp add: destructive_reason_def Let_def)
  ultimately show ?thesis
    by (cases "sub = ''push''"; cases "sub = ''branch''"; cases "sub = ''commit''"; cases "sub = ''checkout''"; cases "sub = ''switch''") simp_all
qed

text \<open>The chain of cases of \<open>classify\<close>, for any tests.\<close>

lemma classify_chain:
  assumes "\<And>op. gc_safe_for_governed_execution (write op)" "gc_safe_for_governed_execution commit"
  shows "gc_safe_for_governed_execution
    (case l of Some op \<Rightarrow> git_local_read op
     | None \<Rightarrow> if a then git_local_read x else if b then git_local_read y else if c then git_local_read z
         else (case n of Some op \<Rightarrow> git_networked cls op reason m t
           | None \<Rightarrow> if d then git_networked cls' pull reason' m' t'
               else (case w of Some op \<Rightarrow> write op
                 | None \<Rightarrow> if e then commit else if f then git_networked cls'' push reason'' m'' t'' else git_unknown r)))
    \<longleftrightarrow> l \<noteq> None \<or> a \<or> b \<or> c \<or> n \<noteq> None \<or> d \<or> w \<noteq> None \<or> e \<or> f"
  using assms by (simp split: option.split)

lemma classify_chain_consistent:
  assumes "gc_safe_for_governed_execution
    (case l of Some op \<Rightarrow> git_local_read op
     | None \<Rightarrow> if a then git_local_read x else if b then git_local_read y else if c then git_local_read z
         else (case n of Some op \<Rightarrow> git_networked cls op reason m t
           | None \<Rightarrow> if d then git_networked cls' pull reason' m' t'
               else (case w of Some op \<Rightarrow> write op
                 | None \<Rightarrow> if e then commit else if f then git_networked cls'' push reason'' m'' t'' else git_unknown r)))"
    and "\<And>op. git_consistent (git_local_read op)" "\<And>op. n = Some op \<Longrightarrow> git_consistent (git_networked cls op reason m t)"
    "git_consistent (git_networked cls' pull reason' m' t')" "\<And>op. git_consistent (write op)" "git_consistent commit"
    "git_consistent (git_networked cls'' push reason'' m'' t'')"
  shows "git_consistent
    (case l of Some op \<Rightarrow> git_local_read op
     | None \<Rightarrow> if a then git_local_read x else if b then git_local_read y else if c then git_local_read z
         else (case n of Some op \<Rightarrow> git_networked cls op reason m t
           | None \<Rightarrow> if d then git_networked cls' pull reason' m' t'
               else (case w of Some op \<Rightarrow> write op
                 | None \<Rightarrow> if e then commit else if f then git_networked cls'' push reason'' m'' t'' else git_unknown r)))"
  using assms by (simp split: option.splits if_splits)

text \<open>The subcommands and flags that are left when nothing destructive is asked.\<close>

lemma git_governed_safe:
  "gc_safe_for_governed_execution (git_governed sub tail) \<longleftrightarrow>
   destructive_reason sub (map ascii_fold tail) = None \<and> sub \<in> set GOVERNED \<and>
   (sub = ''branch'' \<longrightarrow> branch_is_readonly (map ascii_fold tail)) \<and> (sub = ''remote'' \<longrightarrow> remote_is_readonly (map ascii_fold tail)) \<and>
   (sub = ''config'' \<longrightarrow> config_is_readonly (map ascii_fold tail)) \<and> (sub = ''pull'' \<longrightarrow> ''--ff-only'' \<in> set (map ascii_fold tail))"
proof (cases "destructive_reason sub (map ascii_fold tail)")
  case (Some r)
  then show ?thesis by (simp add: git_governed_def git_result_def)
next
  case None
  have keys: "map_of LOCAL_READ sub \<noteq> None \<longleftrightarrow> sub \<in> {''status'', ''diff'', ''log'', ''show'', ''rev-parse'', ''ls-files''}"
    "map_of NETWORK_READ sub \<noteq> None \<longleftrightarrow> sub \<in> {''clone'', ''fetch'', ''ls-remote''}"
    "map_of WORKTREE_WRITE sub \<noteq> None \<longleftrightarrow> sub \<in> {''checkout'', ''switch'', ''restore'', ''add''}"
    by (simp_all add: LOCAL_READ_def NETWORK_READ_def WORKTREE_WRITE_def)
  have "gc_safe_for_governed_execution (git_governed sub tail) \<longleftrightarrow>
      map_of LOCAL_READ sub \<noteq> None \<or> sub = ''branch'' \<and> branch_is_readonly (map ascii_fold tail) \<or>
      sub = ''remote'' \<and> remote_is_readonly (map ascii_fold tail) \<or> sub = ''config'' \<and> config_is_readonly (map ascii_fold tail) \<or>
      map_of NETWORK_READ sub \<noteq> None \<or> sub = ''pull'' \<and> ''--ff-only'' \<in> set (map ascii_fold tail) \<or>
      map_of WORKTREE_WRITE sub \<noteq> None \<or> sub = ''commit'' \<or> sub = ''push''"
    unfolding git_governed_def Let_def None option.case by (rule classify_chain) simp_all
  also have "\<dots> \<longleftrightarrow> sub \<in> set GOVERNED \<and> (sub = ''branch'' \<longrightarrow> branch_is_readonly (map ascii_fold tail)) \<and>
      (sub = ''remote'' \<longrightarrow> remote_is_readonly (map ascii_fold tail)) \<and> (sub = ''config'' \<longrightarrow> config_is_readonly (map ascii_fold tail)) \<and>
      (sub = ''pull'' \<longrightarrow> ''--ff-only'' \<in> set (map ascii_fold tail))"
  proof (cases "sub \<in> {''branch'', ''remote'', ''config'', ''pull''}")
    case True
    then show ?thesis
      by (elim insertE emptyE) (simp_all add: LOCAL_READ_def NETWORK_READ_def WORKTREE_WRITE_def GOVERNED_def del: set_map)
  next
    case False
    then show ?thesis unfolding keys GOVERNED_def by simp
  qed
  finally show ?thesis using None by simp
qed

lemma git_governed_consistent:
  assumes "gc_safe_for_governed_execution (git_governed sub tail)"
  shows "git_consistent (git_governed sub tail)"
proof -
  have None: "destructive_reason sub (map ascii_fold tail) = None" using assms git_governed_safe by blast
  have ops: "op \<noteq> ''git_local_read''" if "map_of NETWORK_READ sub = Some op" for op
    using that by (auto simp: NETWORK_READ_def split: if_splits)
  show ?thesis
    using assms unfolding git_governed_def Let_def None option.case
    by (rule classify_chain_consistent) (use ops in \<open>simp_all add: git_consistent_def git_result_def\<close>)
qed

lemma git_classify_safe:
  "gc_safe_for_governed_execution (git_classify leaf argv) \<longleftrightarrow>
   (\<exists>program args sub tail. argv = program # args \<and> ascii_fold (leaf (unquoted program)) \<in> {''git'', ''git.exe''} \<and>
     git_subcommand args = Some (sub, tail) \<and> gc_safe_for_governed_execution (git_governed sub tail))"
  by (cases argv) (auto simp: git_classify_def split: option.splits if_splits)

lemma readonly_iff:
  "branch_is_readonly args \<longleftrightarrow> set args \<inter> {''-d'', ''--delete'', ''-m'', ''--move'', ''-c'', ''--copy'', ''-f'', ''--force''} = {}"
  "remote_is_readonly args \<longleftrightarrow> args = [] \<or> hd args \<in> {''-v'', ''show'', ''get-url''}"
  "config_is_readonly args \<longleftrightarrow> args \<noteq> [] \<and> hd args \<in> {''--get'', ''--get-all'', ''--get-regexp'', ''--list'', ''-l''}"
  by (simp_all add: branch_is_readonly_def remote_is_readonly_def config_is_readonly_def split: list.split)

lemma git_governed_exact:
  "gc_safe_for_governed_execution (git_governed sub tail) \<longleftrightarrow>
      sub \<in> {''status'', ''diff'', ''log'', ''show'', ''rev-parse'', ''ls-files'', ''branch'', ''remote'', ''config'', ''clone'', ''fetch'',
        ''ls-remote'', ''pull'', ''checkout'', ''switch'', ''restore'', ''add'', ''commit'', ''push''} \<and>
      (let args = map ascii_fold tail
       in (sub = ''push'' \<longrightarrow> set args \<inter> {''-f'', ''--force'', ''--force-with-lease'', ''--mirror'', ''--delete''} = {} \<and> (\<forall>a \<in> set args. \<not> prefix '':'' a)) \<and>
          (sub = ''branch'' \<longrightarrow> set args \<inter> {''-d'', ''-D'', ''--delete'', ''-m'', ''--move'', ''-c'', ''--copy'', ''-f'', ''--force''} = {}) \<and>
          (sub = ''commit'' \<longrightarrow> ''--amend'' \<notin> set args) \<and>
          (sub = ''checkout'' \<longrightarrow> set args \<inter> {''-b'', ''-B''} = {}) \<and>
          (sub = ''switch'' \<longrightarrow> set args \<inter> {''-c'', ''-C''} = {}) \<and>
          (sub = ''pull'' \<longrightarrow> ''--ff-only'' \<in> set args) \<and>
          (sub = ''remote'' \<longrightarrow> args = [] \<or> hd args \<in> {''-v'', ''show'', ''get-url''}) \<and>
          (sub = ''config'' \<longrightarrow> args \<noteq> [] \<and> hd args \<in> {''--get'', ''--get-all'', ''--get-regexp'', ''--list'', ''-l''}))"
proof (cases "sub \<in> set GOVERNED")
  case True
  then show ?thesis
    unfolding git_governed_safe destructive_reason_None readonly_iff Let_def GOVERNED_def list.set
    by (elim insertE emptyE) (simp_all del: set_map cong: conj_cong)
qed (simp add: git_governed_safe GOVERNED_def)

text \<open>
  C32. Which command lines are safe for governed execution, exactly: the program is Git, the subcommand is a governed
  one, and of its arguments, in lower case, a push has none of the flags \<open>-f\<close>, \<open>--force\<close>, \<open>--force-with-lease\<close>, \<open>--mirror\<close> and
  \<open>--delete\<close> in exactly this spelling and none that starts with a colon, a branch command has no flag that deletes, moves, copies or
  forces, a commit does not amend, a checkout or switch creates no branch, a pull is fast-forward only, and \<open>remote\<close> and \<open>config\<close>
  only read. Such a classification is not destructive, names its capability, needs the network exactly when
  it requires outbound access, and then requires a remote scope, and is no local read when it changes the work tree.
\<close>

theorem safe_git_sound:
  "(gc_safe_for_governed_execution (git_classify leaf argv) \<longleftrightarrow>
    (\<exists>program args sub tail. argv = program # args \<and> ascii_fold (leaf (unquoted program)) \<in> {''git'', ''git.exe''} \<and>
      git_subcommand args = Some (sub, tail) \<and>
      sub \<in> {''status'', ''diff'', ''log'', ''show'', ''rev-parse'', ''ls-files'', ''branch'', ''remote'', ''config'', ''clone'', ''fetch'',
        ''ls-remote'', ''pull'', ''checkout'', ''switch'', ''restore'', ''add'', ''commit'', ''push''} \<and>
      (let args = map ascii_fold tail
       in (sub = ''push'' \<longrightarrow> set args \<inter> {''-f'', ''--force'', ''--force-with-lease'', ''--mirror'', ''--delete''} = {} \<and> (\<forall>a \<in> set args. \<not> prefix '':'' a)) \<and>
          (sub = ''branch'' \<longrightarrow> set args \<inter> {''-d'', ''-D'', ''--delete'', ''-m'', ''--move'', ''-c'', ''--copy'', ''-f'', ''--force''} = {}) \<and>
          (sub = ''commit'' \<longrightarrow> ''--amend'' \<notin> set args) \<and>
          (sub = ''checkout'' \<longrightarrow> set args \<inter> {''-b'', ''-B''} = {}) \<and>
          (sub = ''switch'' \<longrightarrow> set args \<inter> {''-c'', ''-C''} = {}) \<and>
          (sub = ''pull'' \<longrightarrow> ''--ff-only'' \<in> set args) \<and>
          (sub = ''remote'' \<longrightarrow> args = [] \<or> hd args \<in> {''-v'', ''show'', ''get-url''}) \<and>
          (sub = ''config'' \<longrightarrow> args \<noteq> [] \<and> hd args \<in> {''--get'', ''--get-all'', ''--get-regexp'', ''--list'', ''-l''})))) \<and>
   (gc_safe_for_governed_execution (git_classify leaf argv) \<longrightarrow> git_consistent (git_classify leaf argv))"
  (is "(_ \<longleftrightarrow> ?spec) \<and> _")
proof
  show "gc_safe_for_governed_execution (git_classify leaf argv) \<longleftrightarrow> ?spec"
    unfolding git_classify_safe git_governed_exact ..
  show "gc_safe_for_governed_execution (git_classify leaf argv) \<longrightarrow> git_consistent (git_classify leaf argv)"
    using git_governed_consistent by (auto simp: git_classify_def split: list.splits option.splits if_splits)
qed

text \<open>
  A push that forces by its refspec is taken for a plain one: with a leading plus sign, which makes Git update the
  branch without the fast-forward check, the command is classified as an ordinary, safe push, while
  the same push with the flag is destructive.
\<close>

theorem forced_refspec_is_plain_push:
  assumes "ascii_fold (leaf ''git'') = ''git''"
  shows "gc_safe_for_governed_execution (git_classify leaf [''git'', ''push'', ''origin'', CHR ''+'' # branch]) \<and>
    gc_operation (git_classify leaf [''git'', ''push'', ''origin'', CHR ''+'' # branch]) = ''git_push'' \<and>
    \<not> gc_destructive (git_classify leaf [''git'', ''push'', ''origin'', CHR ''+'' # branch]) \<and>
    gc_destructive (git_classify leaf [''git'', ''push'', ''--force'', ''origin'', branch])"
proof -
  have f: "ascii_fold (CHR ''+'' # branch) = CHR ''+'' # ascii_fold branch" by (simp add: ascii_fold_def)
  have w: "ascii_fold ''origin'' = ''origin''" "ascii_fold ''push'' = ''push''" "ascii_fold ''--force'' = ''--force''" by code_simp+
  have g: "git_classify leaf (''git'' # ''push'' # rest) = git_governed ''push'' rest" for rest
    using assms by (simp add: git_classify_def unquoted_def w)
  have "destructive_reason ''push'' [''origin'', CHR ''+'' # ascii_fold branch] = None" by (simp add: destructive_reason_def Let_def)
  then have a: "git_governed ''push'' [''origin'', CHR ''+'' # branch] =
      git_networked ''push'' ''git_push'' ''git_push_classified'' False (remote_and_branch [''origin'', CHR ''+'' # branch])"
    by (simp add: git_governed_def Let_def f w LOCAL_READ_def NETWORK_READ_def WORKTREE_WRITE_def)
  have "destructive_reason ''push'' [''--force'', ''origin'', ascii_fold branch] = Some ''git_force_or_delete_push_denied''"
    by (simp add: destructive_reason_def Let_def)
  then have b: "gc_destructive (git_governed ''push'' [''--force'', ''origin'', branch])" by (simp add: git_governed_def Let_def w)
  show ?thesis unfolding g a using b by simp
qed

text \<open>
  Creating a branch is classified as a local read: \<open>git branch name\<close> has none of the flags that make it a write.
\<close>

theorem branch_creation_is_local_read:
  assumes "ascii_fold (leaf ''git'') = ''git''" and "ascii_fold name \<notin> set [''-d'', ''-D'', ''--delete'', ''-m'', ''--move'', ''-c'', ''--copy'', ''-f'', ''--force'']"
  shows "git_classify leaf [''git'', ''branch'', name] = git_local_read ''git_branch_read''"
proof -
  have f: "ascii_fold ''branch'' = ''branch''" by code_simp
  have "git_classify leaf [''git'', ''branch'', name] = git_governed ''branch'' [name]"
    using assms(1) by (simp add: git_classify_def unquoted_def f)
  also have "\<dots> = git_local_read ''git_branch_read''"
    using assms(2) by (auto simp: git_governed_def Let_def destructive_reason_def branch_is_readonly_def LOCAL_READ_def)
  finally show ?thesis .
qed

section \<open>Examples\<close>

lemma safe_git_sound_witness:
  "git_consistent (git_classify (\<lambda>p. p) [''git'', ''-C'', ''repo'', ''fetch'', ''origin'']) \<and>
   \<not> gc_safe_for_governed_execution (git_classify (\<lambda>p. p) [''git'', ''push'', ''--Mirror'', ''origin''])"
proof -
  have "gc_safe_for_governed_execution (git_classify (\<lambda>p. p) [''git'', ''-C'', ''repo'', ''fetch'', ''origin''])" by code_simp
  then have "git_consistent (git_classify (\<lambda>p. p) [''git'', ''-C'', ''repo'', ''fetch'', ''origin''])" using safe_git_sound by blast
  moreover have "git_subcommand [''push'', ''--Mirror'', ''origin''] = Some (''push'', [''--Mirror'', ''origin''])"
    "''--mirror'' \<in> set (map ascii_fold [''--Mirror'', ''origin''])" by code_simp+
  then have "\<not> gc_safe_for_governed_execution (git_classify (\<lambda>p. p) [''git'', ''push'', ''--Mirror'', ''origin''])"
    using safe_git_sound [of "\<lambda>p. p" "[''git'', ''push'', ''--Mirror'', ''origin'']"] by (auto simp: Let_def)
  ultimately show ?thesis by simp
qed

lemma forced_refspec_is_plain_push_witness:
  "gc_safe_for_governed_execution (git_classify (\<lambda>p. p) [''git'', ''push'', ''origin'', ''+main''])"
proof -
  have "ascii_fold ((\<lambda>p. p) ''git'') = ''git''" by code_simp
  then show ?thesis using forced_refspec_is_plain_push [of "\<lambda>p. p" "''main''"] by simp
qed

end
