(* ===== verification/Policy_Registry.thy ===== *)
theory Policy_Registry
  imports Prelude
begin

text \<open>
  The registries of the policy kernel, from \<open>src/aipinho/services/policy_kernel\<close>: the action
  registry and its aliases (\<open>action_registry_service.py\<close>), the capability registry and the
  capability gate (\<open>capability_gate_service.py\<close>), the approval policy
  (\<open>approval_policy_service.py\<close>), the rule precedence (\<open>policy_precedence_service.py\<close>) and the role
  registry (\<open>registries/role_registry.py\<close>). The YAML files they load are arguments (the parsed
  configuration); \<open>ConfigValidationError\<close> and its message are a value of \<open>config_error\<close>.
\<close>

section \<open>Errors and trace\<close>

datatype config_error =
    SideEffectNeedsApproval str
  | DuplicateAlias str str str
  | UnknownAction str
  | ActionKeyError str
  | MissingCapabilities "str list"
  | MissingPrecedenceRules "str list"
  | PrecedenceOrder str
  | ApprovalMissingAction str
  | MissingRoles "str list"
  | RoleWritesWithoutTools str
  | ArtifactWriterMustForbidPatch
  | RoleCannotExecuteTools str
  | UnknownRole str

record policy_trace_item =
  trace_stage :: str
  trace_rule :: str
  trace_decision :: str
  trace_reason :: str
  trace_severity :: str
  trace_source :: str
  trace_input :: "(str \<times> json) list"

definition trace_create ::
  "str \<Rightarrow> str \<Rightarrow> str \<Rightarrow> str \<Rightarrow> str \<Rightarrow> str \<Rightarrow> (str \<times> json) list \<Rightarrow> policy_trace_item" where
  "trace_create stage rl decision reason severity source inp =
     \<lparr>trace_stage = stage, trace_rule = rl, trace_decision = decision, trace_reason = reason,
      trace_severity = severity, trace_source = source, trace_input = inp\<rparr>"

record policy_violation =
  viol_code :: str
  viol_reason :: str
  viol_severity :: str
  viol_source :: str

section \<open>Action registry\<close>

record action_definition =
  act_aliases :: "str list"
  act_category :: str
  act_side_effect :: bool
  act_requires_approval :: bool
  act_capability :: "str option"
  act_semantic_dependency_mode :: str
  act_semantic_use_safety_dimensions :: "str list option"
  act_semantic_use_safety_requirements :: "json list dict option"
  act_approval_exception_reason :: "str option"

type_synonym action_registry = "action_definition dict"

fun register_names :: "str \<Rightarrow> str list \<Rightarrow> str dict \<Rightarrow> config_error + str dict" where
  "register_names canonical [] aliases = Inr aliases"
| "register_names canonical (name # names) aliases =
     (case map_of aliases name of
        Some previous \<Rightarrow>
          if previous \<noteq> canonical then Inl (DuplicateAlias name previous canonical)
          else register_names canonical names (AList.update name canonical aliases)
      | None \<Rightarrow> register_names canonical names (AList.update name canonical aliases))"

fun register_actions :: "action_registry \<Rightarrow> str dict \<Rightarrow> config_error + str dict" where
  "register_actions [] aliases = Inr aliases"
| "register_actions ((canonical, d) # rest) aliases =
     (if act_side_effect d \<and> \<not> act_requires_approval d
         \<and> \<not> opt_truthy (act_approval_exception_reason d)
      then Inl (SideEffectNeedsApproval canonical)
      else obind (register_names canonical (canonical # act_aliases d) aliases)
             (register_actions rest))"

definition action_registry_validate :: "action_registry \<Rightarrow> config_error + str dict" where
  "action_registry_validate actions = register_actions actions []"

definition normalize_action :: "action_registry \<Rightarrow> str \<Rightarrow> config_error + str" where
  "normalize_action actions name =
     obind (action_registry_validate actions)
       (\<lambda>aliases. case map_of aliases name of
          None \<Rightarrow> Inl (UnknownAction name) | Some canonical \<Rightarrow> Inr canonical)"

definition get_action :: "action_registry \<Rightarrow> str \<Rightarrow> config_error + action_definition" where
  "get_action actions name =
     obind (normalize_action actions name)
       (\<lambda>canonical. case map_of actions canonical of
          None \<Rightarrow> Inl (ActionKeyError canonical) | Some d \<Rightarrow> Inr d)"

definition action_exists :: "action_registry \<Rightarrow> str \<Rightarrow> bool" where
  "action_exists actions name = (case normalize_action actions name of Inl _ \<Rightarrow> False | Inr _ \<Rightarrow> True)"

definition is_side_effect :: "action_registry \<Rightarrow> str \<Rightarrow> config_error + bool" where
  "is_side_effect actions name = obind (get_action actions name) (\<lambda>d. Inr (act_side_effect d))"

definition action_requires_approval :: "action_registry \<Rightarrow> str \<Rightarrow> config_error + bool" where
  "action_requires_approval actions name =
     obind (get_action actions name) (\<lambda>d. Inr (act_requires_approval d))"

definition capability_for :: "action_registry \<Rightarrow> str \<Rightarrow> config_error + str option" where
  "capability_for actions name = obind (get_action actions name) (\<lambda>d. Inr (act_capability d))"

section \<open>Rule precedence\<close>

definition REQUIRED_RULES :: "str list" where
  "REQUIRED_RULES =
    [''forbidden_root'', ''explicit_user_denial'', ''security_policy_denial'',
     ''read_only_constraint'', ''success_contract_constraint'', ''capability_gate'',
     ''task_contract'', ''approval_policy'', ''role_declared_policy'', ''tool_default_policy'',
     ''default_deny'']"

definition precedence_validate :: "str list \<Rightarrow> config_error + unit" where
  "precedence_validate order =
     (let missing = filter (\<lambda>r. r \<notin> set order) REQUIRED_RULES in
      if missing \<noteq> [] then Inl (MissingPrecedenceRules missing)
      else if int (py_index order ''default_deny'') \<noteq> int (length order) - 1
        then Inl (PrecedenceOrder ''default_deny must be the final policy rule'')
      else if py_index order ''forbidden_root'' > py_index order ''role_declared_policy''
        then Inl (PrecedenceOrder ''forbidden_root must precede role_declared_policy'')
      else if py_index order ''approval_policy'' > py_index order ''role_declared_policy''
        then Inl (PrecedenceOrder ''approval_policy must precede role_declared_policy'')
      else if py_index order ''role_declared_policy'' < py_index order ''capability_gate''
        then Inl (PrecedenceOrder ''role_declared_policy cannot precede capability_gate'')
      else Inr ())"

definition ordered_rules :: "str list \<Rightarrow> config_error + str list" where
  "ordered_rules order = obind (precedence_validate order) (\<lambda>_. Inr order)"

section \<open>Role registry\<close>

record role_definition =
  role_enabled :: bool
  role_description :: str
  role_purpose :: str
  role_can_call_model :: bool
  role_can_call_tools :: bool
  role_can_execute_tools :: bool
  role_can_write :: bool
  role_can_patch :: bool
  role_can_approve :: bool
  role_allowed_purposes :: "str list"
  role_default_model_policy :: str
  role_output_contract :: str
  role_allowed_task_types :: "str list"
  role_allowed_actions :: "str list"
  role_forbidden_actions :: "str list"
  role_requires_approval :: "str list"

definition EXPECTED_ROLES :: "str list" where
  "EXPECTED_ROLES =
    [''planner'', ''supervisor'', ''executor'', ''artifact_writer'', ''reporter'', ''interpreter'',
     ''speaker'', ''debugger'', ''memory_curator'', ''retriever'', ''reranker'', ''validator'']"

fun normalize_all :: "action_registry \<Rightarrow> str list \<Rightarrow> config_error + str list" where
  "normalize_all actions [] = Inr []"
| "normalize_all actions (a # as) =
     obind (normalize_action actions a) (\<lambda>c. obind (normalize_all actions as) (\<lambda>cs. Inr (c # cs)))"

definition role_check :: "action_registry \<Rightarrow> str \<Rightarrow> role_definition \<Rightarrow> config_error + unit" where
  "role_check actions role_id r =
     (if role_can_write r \<and> \<not> role_can_execute_tools r then Inl (RoleWritesWithoutTools role_id)
      else
        obind (normalize_all actions
                 (role_allowed_actions r @ role_forbidden_actions r @ role_requires_approval r))
        (\<lambda>_. obind (normalize_all actions (role_forbidden_actions r))
        (\<lambda>forbidden.
           if role_id = ''artifact_writer'' \<and> ''apply_patch'' \<notin> set forbidden
             then Inl ArtifactWriterMustForbidPatch
           else if role_id \<in> {''speaker'', ''interpreter'', ''debugger''} \<and> role_can_execute_tools r
             then Inl (RoleCannotExecuteTools role_id)
           else Inr ())))"

definition role_registry_validate ::
  "action_registry \<Rightarrow> role_definition dict \<Rightarrow> config_error + unit" where
  "role_registry_validate actions roles =
     (let missing = py_sorted_set (filter (\<lambda>r. r \<notin> fst ` set roles) EXPECTED_ROLES) in
      if missing \<noteq> [] then Inl (MissingRoles missing)
      else ofold (\<lambda>(role_id, r) _. role_check actions role_id r) roles ())"

definition get_role ::
  "action_registry \<Rightarrow> role_definition dict \<Rightarrow> str \<Rightarrow> config_error + role_definition" where
  "get_role actions roles role_id =
     obind (role_registry_validate actions roles)
       (\<lambda>_. case map_of roles role_id of None \<Rightarrow> Inl (UnknownRole role_id) | Some r \<Rightarrow> Inr r)"

section \<open>Capability registry and gate\<close>

record capability_definition =
  cap_description :: str
  cap_side_effect :: bool
  cap_aliases :: "str list"

record capability_decision =
  capd_capability :: str
  capd_granted :: bool
  capd_reason :: str

definition REQUIRED_CAPABILITIES :: "str list" where
  "REQUIRED_CAPABILITIES =
    [''read_workspace'', ''write_workspace'', ''shell'', ''git'', ''network'', ''rag'',
     ''memory_read'', ''memory_write'', ''model_inference'', ''artifact_write'', ''patch_preview'',
     ''patch_apply'']"

definition capability_validate :: "capability_definition dict \<Rightarrow> config_error + unit" where
  "capability_validate caps =
     (let missing = py_sorted_set (filter (\<lambda>c. c \<notin> fst ` set caps) REQUIRED_CAPABILITIES) in
      if missing \<noteq> [] then Inl (MissingCapabilities missing) else Inr ())"

definition canonicalize :: "capability_definition dict \<Rightarrow> str \<Rightarrow> str" where
  "canonicalize caps capability =
     (let v = py_strip capability in
      if v \<in> fst ` set caps then v
      else case find (\<lambda>(_, d). v \<in> set (map py_strip (cap_aliases d))) caps of
             Some (canonical, _) \<Rightarrow> canonical
           | None \<Rightarrow> v)"

definition canonicalize_all :: "capability_definition dict \<Rightarrow> str list \<Rightarrow> str list" where
  "canonicalize_all caps cs =
     py_sorted_set (map (canonicalize caps) (filter (\<lambda>c. py_strip c \<noteq> []) cs))"

definition capability_exists :: "capability_definition dict \<Rightarrow> str \<Rightarrow> bool" where
  "capability_exists caps capability \<longleftrightarrow> canonicalize caps capability \<in> fst ` set caps"

definition capability_decide ::
  "capability_definition dict \<Rightarrow> str \<Rightarrow> str list \<Rightarrow> capability_decision" where
  "capability_decide caps capability granted =
     (let canonical = canonicalize caps capability;
          granted_set = canonicalize_all caps granted
      in if canonical \<notin> fst ` set caps then
           \<lparr>capd_capability = canonical, capd_granted = False, capd_reason = ''unknown_capability''\<rparr>
         else if canonical \<notin> set granted_set then
           \<lparr>capd_capability = canonical, capd_granted = False, capd_reason = ''default_deny''\<rparr>
         else
           \<lparr>capd_capability = canonical, capd_granted = True, capd_reason = ''explicit_grant''\<rparr>)"

record capability_gate_result =
  gate_granted_capabilities :: "str list"
  gate_denied_capabilities :: "str list"
  gate_denied_actions :: "str list"
  gate_reasons :: "str dict"
  gate_trace :: "policy_trace_item list"

record gate_constraints =
  gc_read_only :: bool
  gc_no_write :: bool
  gc_no_shell :: bool
  gc_no_network :: bool
  gc_workspace_blocked :: bool

definition WRITE_LIKE_CAPABILITIES :: "str list" where
  "WRITE_LIKE_CAPABILITIES =
    [''write_workspace'', ''artifact_write'', ''patch_apply'', ''memory_write'', ''git'']"

definition gate_deny_reason :: "gate_constraints \<Rightarrow> str \<Rightarrow> bool \<Rightarrow> str option" where
  "gate_deny_reason q capability side_effect =
     (if gc_workspace_blocked q then Some ''workspace_policy_denied''
      else if (gc_read_only q \<or> gc_no_write q) \<and> capability \<in> set WRITE_LIKE_CAPABILITIES
        then Some ''read_only_or_no_write_constraint''
      else if gc_read_only q \<and> capability = ''shell'' \<and> side_effect
        then Some ''read_only_blocks_side_effect_shell''
      else if gc_no_shell q \<and> capability = ''shell'' then Some ''user_constraint_no_shell''
      else if gc_no_network q \<and> capability = ''network'' then Some ''user_constraint_no_network''
      else None)"

definition gate_unknown :: "str \<Rightarrow> str \<Rightarrow> capability_gate_result \<Rightarrow> capability_gate_result" where
  "gate_unknown action capability g =
     g\<lparr>gate_denied_capabilities := gate_denied_capabilities g @ [capability],
       gate_denied_actions := gate_denied_actions g @ [action],
       gate_reasons := AList.update action ''unknown_or_missing_capability'' (gate_reasons g),
       gate_trace := gate_trace g @
         [trace_create ''capability_gate'' ''unknown_capability'' ''denied''
            ''action_has_no_known_capability'' ''error'' ''config/policies/capability_registry.yaml''
            [(''action'', JStr action), (''capability'', JStr capability)]]\<rparr>"

definition gate_deny ::
  "gate_constraints \<Rightarrow> str \<Rightarrow> str \<Rightarrow> str \<Rightarrow> capability_gate_result \<Rightarrow> capability_gate_result" where
  "gate_deny q action capability reason g =
     g\<lparr>gate_denied_capabilities := gate_denied_capabilities g @ [capability],
       gate_denied_actions := gate_denied_actions g @ [action],
       gate_reasons := AList.update action reason (gate_reasons g),
       gate_trace := gate_trace g @
         [trace_create ''capability_gate'' reason ''denied'' reason
            (if gc_workspace_blocked q then ''error'' else ''warning'') ''request.user_constraints''
            [(''action'', JStr action), (''capability'', JStr capability)]]\<rparr>"

definition gate_grant :: "str \<Rightarrow> str \<Rightarrow> capability_gate_result \<Rightarrow> capability_gate_result" where
  "gate_grant action capability g =
     g\<lparr>gate_granted_capabilities := gate_granted_capabilities g @ [capability],
       gate_trace := gate_trace g @
         [trace_create ''capability_gate'' ''capability_granted_for_preview'' ''allowed''
            ''capability_known_and_not_blocked_by_constraints'' ''info''
            ''config/policies/capability_registry.yaml''
            [(''action'', JStr action), (''capability'', JStr capability)]]\<rparr>"

definition gate_step ::
  "action_registry \<Rightarrow> capability_definition dict \<Rightarrow> gate_constraints \<Rightarrow> str \<Rightarrow>
     capability_gate_result \<Rightarrow> config_error + capability_gate_result" where
  "gate_step actions caps q action g =
     obind (capability_for actions action)
       (\<lambda>cap. case cap of
          None \<Rightarrow> Inr (gate_unknown action ''unknown'' g)
        | Some capability \<Rightarrow>
            if \<not> capability_exists caps capability
            then Inr (gate_unknown action (str_or cap ''unknown'') g)
            else obind (is_side_effect actions action)
                   (\<lambda>se. case gate_deny_reason q capability se of
                      Some reason \<Rightarrow> Inr (gate_deny q action capability reason g)
                    | None \<Rightarrow> Inr (gate_grant action capability g)))"

definition gate_init :: capability_gate_result where
  "gate_init = \<lparr>gate_granted_capabilities = [], gate_denied_capabilities = [],
     gate_denied_actions = [], gate_reasons = [], gate_trace = []\<rparr>"

definition capability_gate_evaluate ::
  "action_registry \<Rightarrow> capability_definition dict \<Rightarrow> gate_constraints \<Rightarrow> str list \<Rightarrow>
     config_error + capability_gate_result" where
  "capability_gate_evaluate actions caps q acts =
     obind (ofold (gate_step actions caps q) acts gate_init)
       (\<lambda>g. Inr (g\<lparr>gate_granted_capabilities := py_sorted_set (gate_granted_capabilities g),
                     gate_denied_capabilities := py_sorted_set (gate_denied_capabilities g)\<rparr>))"

section \<open>Approval policy\<close>

record approval_config =
  apc_side_effects_require_approval :: bool
  apc_actions_requiring_approval :: "str list"
  apc_preview_allowed :: "str list"
  apc_never_auto_execute :: "str list"
  apc_unknown_action_requires_approval :: bool

record approval_policy =
  ap_config :: approval_config
  ap_requiring :: "str list"
  ap_preview :: "str list"
  ap_never :: "str list"

definition approval_policy_validate ::
  "action_registry \<Rightarrow> approval_config \<Rightarrow> config_error + approval_policy" where
  "approval_policy_validate actions cfg =
     obind (normalize_all actions (apc_actions_requiring_approval cfg)) (\<lambda>requiring.
     obind (normalize_all actions (apc_preview_allowed cfg)) (\<lambda>preview.
     obind (normalize_all actions (apc_never_auto_execute cfg)) (\<lambda>never.
       case find (\<lambda>(name, d). act_side_effect d \<and> act_requires_approval d \<and> name \<notin> set requiring)
              actions of
         Some (name, _) \<Rightarrow> Inl (ApprovalMissingAction name)
       | None \<Rightarrow> Inr \<lparr>ap_config = cfg, ap_requiring = requiring, ap_preview = preview,
                      ap_never = never\<rparr>)))"

definition requires_approval :: "action_registry \<Rightarrow> approval_policy \<Rightarrow> str \<Rightarrow> config_error + bool" where
  "requires_approval actions ap name =
     (case normalize_action actions name of
        Inl _ \<Rightarrow> Inr (apc_unknown_action_requires_approval (ap_config ap))
      | Inr canonical \<Rightarrow>
          obind (get_action actions canonical)
            (\<lambda>d. Inr (canonical \<in> set (ap_requiring ap) \<or> act_requires_approval d)))"

definition can_preview_without_approval :: "action_registry \<Rightarrow> approval_policy \<Rightarrow> str \<Rightarrow> bool" where
  "can_preview_without_approval actions ap name =
     (case normalize_action actions name of Inl _ \<Rightarrow> False | Inr c \<Rightarrow> c \<in> set (ap_preview ap))"

definition never_auto_execute :: "action_registry \<Rightarrow> approval_policy \<Rightarrow> str \<Rightarrow> bool" where
  "never_auto_execute actions ap name =
     (case normalize_action actions name of Inl _ \<Rightarrow> True | Inr c \<Rightarrow> c \<in> set (ap_never ap))"

section \<open>Reference notions\<close>

text \<open>
  \<open>registry_ok\<close> is what \<open>load()\<close> establishes: validation succeeds. \<open>gate_denies\<close> is the decision
  of the capability gate on one action, without the accumulation of lists and trace.
\<close>

definition registry_ok :: "action_registry \<Rightarrow> bool" where
  "registry_ok actions = (case action_registry_validate actions of Inl _ \<Rightarrow> False | Inr _ \<Rightarrow> True)"

definition gate_denies ::
  "action_registry \<Rightarrow> capability_definition dict \<Rightarrow> gate_constraints \<Rightarrow> str \<Rightarrow> bool" where
  "gate_denies actions caps q action =
     (case get_action actions action of
        Inl _ \<Rightarrow> False
      | Inr d \<Rightarrow>
          (case act_capability d of
             None \<Rightarrow> True
           | Some capability \<Rightarrow> \<not> capability_exists caps capability
               \<or> gate_deny_reason q capability (act_side_effect d) \<noteq> None))"

definition granted_capability :: "action_registry \<Rightarrow> str \<Rightarrow> str" where
  "granted_capability actions action =
     (case get_action actions action of Inl _ \<Rightarrow> [] | Inr d \<Rightarrow> str_or (act_capability d) [])"

section \<open>Aliases\<close>

lemma register_names_map:
  "register_names canonical names aliases = Inr aliases' \<Longrightarrow>
     map_of aliases' x = (if x \<in> set names then Some canonical else map_of aliases x)"
  by (induction canonical names aliases rule: register_names.induct)
    (auto split: option.splits if_splits simp: update_conv')

lemma register_names_mono:
  "register_names canonical names aliases = Inr aliases' \<Longrightarrow> map_of aliases x = Some y \<Longrightarrow>
     map_of aliases' x = Some y"
  by (induction canonical names aliases rule: register_names.induct)
    (fastforce split: option.splits if_splits simp: update_conv')+

lemma register_actions_mono:
  "register_actions actions aliases = Inr aliases' \<Longrightarrow> map_of aliases x = Some y \<Longrightarrow>
     map_of aliases' x = Some y"
proof (induction actions aliases rule: register_actions.induct)
  case (2 canonical d rest aliases)
  then obtain mid where mid: "register_names canonical (canonical # act_aliases d) aliases = Inr mid"
    and rest: "register_actions rest mid = Inr aliases'"
    by (auto simp: obind_eq_Inr_iff simp del: register_names.simps split: if_splits)
  from register_names_mono [OF mid "2.prems"(2)] have "map_of mid x = Some y" .
  with "2.IH" [OF _ rest] "2.prems"(1) show ?case by (auto split: if_splits)
qed simp

lemma register_actions_registers:
  "register_actions actions aliases = Inr aliases' \<Longrightarrow> (canonical, d) \<in> set actions \<Longrightarrow>
     x = canonical \<or> x \<in> set (act_aliases d) \<Longrightarrow> map_of aliases' x = Some canonical"
proof (induction actions aliases rule: register_actions.induct)
  case (2 c e rest aliases)
  then obtain mid where mid: "register_names c (c # act_aliases e) aliases = Inr mid"
    and rest: "register_actions rest mid = Inr aliases'"
    by (auto simp: obind_eq_Inr_iff simp del: register_names.simps split: if_splits)
  show ?case
  proof (cases "(canonical, d) \<in> set rest")
    case True
    with "2.IH" [OF _ rest] "2.prems" show ?thesis by (auto split: if_splits)
  next
    case False
    with "2.prems"(2,3) have "x \<in> set (c # act_aliases e)" and "canonical = c" by auto
    with register_names_map [OF mid, of x] have "map_of mid x = Some canonical" by simp
    with rest show ?thesis by (rule register_actions_mono)
  qed
qed simp

lemma register_actions_origin:
  "register_actions actions aliases = Inr aliases' \<Longrightarrow> map_of aliases' x = Some y \<Longrightarrow>
     map_of aliases x = Some y \<or>
     (\<exists>d. (y, d) \<in> set actions \<and> (x = y \<or> x \<in> set (act_aliases d)))"
proof (induction actions aliases rule: register_actions.induct)
  case (2 c e rest aliases)
  then obtain mid where mid: "register_names c (c # act_aliases e) aliases = Inr mid"
    and rest: "register_actions rest mid = Inr aliases'"
    by (auto simp: obind_eq_Inr_iff simp del: register_names.simps split: if_splits)
  from "2.IH" [OF _ rest "2.prems"(2)] "2.prems"(1)
  have "map_of mid x = Some y \<or> (\<exists>d. (y, d) \<in> set rest \<and> (x = y \<or> x \<in> set (act_aliases d)))"
    by (auto split: if_splits)
  with register_names_map [OF mid, of x] show ?case by (auto split: if_splits)
qed simp

lemma register_actions_side_effects:
  "register_actions actions aliases = Inr aliases' \<Longrightarrow> (canonical, d) \<in> set actions \<Longrightarrow>
     act_side_effect d \<Longrightarrow> act_requires_approval d \<or> opt_truthy (act_approval_exception_reason d)"
  by (induction actions aliases rule: register_actions.induct)
    (auto simp: obind_eq_Inr_iff simp del: register_names.simps split: if_splits)

lemma registry_okE:
  assumes "registry_ok actions"
  obtains aliases where "action_registry_validate actions = Inr aliases"
  using assms by (auto simp: registry_ok_def split: sum.splits)

lemma normalize_action_iff:
  assumes "registry_ok actions"
  shows "normalize_action actions x = Inr c \<longleftrightarrow>
    (\<exists>d. (c, d) \<in> set actions \<and> (x = c \<or> x \<in> set (act_aliases d)))"
proof -
  obtain aliases where v: "register_actions actions [] = Inr aliases"
    using assms by (auto simp: action_registry_validate_def elim: registry_okE)
  have "normalize_action actions x = Inr c \<longleftrightarrow> map_of aliases x = Some c"
    by (simp add: normalize_action_def action_registry_validate_def v split: option.splits)
  also have "\<dots> \<longleftrightarrow> (\<exists>d. (c, d) \<in> set actions \<and> (x = c \<or> x \<in> set (act_aliases d)))"
    using register_actions_origin [OF v, of x c] register_actions_registers [OF v, of c _ x] by auto
  finally show ?thesis .
qed

lemma action_exists_iff: "action_exists actions x \<longleftrightarrow> (\<exists>c. normalize_action actions x = Inr c)"
  by (simp add: action_exists_def split: sum.splits)

lemma normalize_action_Inr_ok: "normalize_action actions x = Inr c \<Longrightarrow> registry_ok actions"
  by (auto simp: normalize_action_def registry_ok_def obind_eq_Inr_iff)

lemma normalize_action_canonical:
  assumes "normalize_action actions x = Inr c"
  shows "normalize_action actions c = Inr c"
  using normalize_action_iff [OF normalize_action_Inr_ok [OF assms]] assms by blast

lemma get_action_canonical:
  assumes "normalize_action actions x = Inr c"
  shows "\<exists>d. get_action actions c = Inr d \<and> (c, d) \<in> set actions"
proof -
  from assms normalize_action_iff [OF normalize_action_Inr_ok [OF assms]]
  obtain d where "(c, d) \<in> set actions" by blast
  then obtain d' where "map_of actions c = Some d'" by (blast dest: weak_map_of_SomeI)
  then show ?thesis
    using normalize_action_canonical [OF assms]
    by (auto simp: get_action_def dest: map_of_SomeD)
qed

lemma get_action_normalized:
  assumes "normalize_action actions x = Inr c"
  shows "get_action actions x = get_action actions c"
  using assms normalize_action_canonical [OF assms] by (simp add: get_action_def)

lemma get_action_Inr_iff:
  "(\<exists>d. get_action actions x = Inr d) \<longleftrightarrow> (\<exists>c. normalize_action actions x = Inr c)"
  using get_action_canonical get_action_normalized
  by (metis get_action_def obind_eq_Inr_iff)

section \<open>The capability gate\<close>

lemmas gate_update_defs = gate_unknown_def gate_deny_def gate_grant_def

lemma gate_step_cases:
  assumes "get_action actions a = Inr d"
  shows "\<exists>g'. gate_step actions caps q a g = Inr g' \<and>
    gate_denied_actions g' =
      gate_denied_actions g @ (if gate_denies actions caps q a then [a] else []) \<and>
    gate_granted_capabilities g' =
      gate_granted_capabilities g @
        (if gate_denies actions caps q a then [] else [granted_capability actions a]) \<and>
    fst ` set (gate_reasons g') =
      fst ` set (gate_reasons g) \<union> (if gate_denies actions caps q a then {a} else {})"
proof (cases "act_capability d")
  case None
  with assms show ?thesis
    by (simp add: gate_step_def capability_for_def gate_denies_def gate_update_defs dom_update)
next
  case (Some capability)
  show ?thesis
  proof (cases "capability_exists caps capability")
    case False
    with Some assms show ?thesis
      by (simp add: gate_step_def capability_for_def gate_denies_def gate_update_defs dom_update)
  next
    case True
    with Some assms show ?thesis
      by (cases "gate_deny_reason q capability (act_side_effect d)")
        (auto simp: gate_step_def capability_for_def is_side_effect_def gate_denies_def
          gate_update_defs dom_update granted_capability_def)
  qed
qed

lemma gate_fold:
  assumes "\<And>a. a \<in> set acts \<Longrightarrow> \<exists>d. get_action actions a = Inr d"
  shows "\<exists>g'. ofold (gate_step actions caps q) acts g = Inr g' \<and>
    gate_denied_actions g' = gate_denied_actions g @ filter (gate_denies actions caps q) acts \<and>
    gate_granted_capabilities g' = gate_granted_capabilities g @
      map (granted_capability actions) (filter (\<lambda>a. \<not> gate_denies actions caps q a) acts) \<and>
    fst ` set (gate_reasons g') =
      fst ` set (gate_reasons g) \<union> set (filter (gate_denies actions caps q) acts)"
  using assms
proof (induction acts arbitrary: g)
  case Nil
  then show ?case by simp
next
  case (Cons a acts)
  then obtain d where "get_action actions a = Inr d" by (meson list.set_intros(1))
  from gate_step_cases [OF this, of caps q g]
  obtain g1 where g1: "gate_step actions caps q a g = Inr g1"
    and g1_facts: "gate_denied_actions g1 =
      gate_denied_actions g @ (if gate_denies actions caps q a then [a] else [])"
    "gate_granted_capabilities g1 = gate_granted_capabilities g @
        (if gate_denies actions caps q a then [] else [granted_capability actions a])"
    "fst ` set (gate_reasons g1) =
      fst ` set (gate_reasons g) \<union> (if gate_denies actions caps q a then {a} else {})"
    by blast
  from Cons.IH [of g1] Cons.prems obtain g' where "ofold (gate_step actions caps q) acts g1 = Inr g'"
    and "gate_denied_actions g' = gate_denied_actions g1 @ filter (gate_denies actions caps q) acts"
    and "gate_granted_capabilities g' = gate_granted_capabilities g1 @
      map (granted_capability actions) (filter (\<lambda>a. \<not> gate_denies actions caps q a) acts)"
    and "fst ` set (gate_reasons g') =
      fst ` set (gate_reasons g1) \<union> set (filter (gate_denies actions caps q) acts)"
    by auto
  then show ?case using g1 g1_facts by auto
qed

lemma capability_gate_spec:
  assumes "\<And>a. a \<in> set acts \<Longrightarrow> \<exists>d. get_action actions a = Inr d"
  shows "\<exists>g. capability_gate_evaluate actions caps q acts = Inr g \<and>
    gate_denied_actions g = filter (gate_denies actions caps q) acts \<and>
    gate_granted_capabilities g = py_sorted_set
      (map (granted_capability actions) (filter (\<lambda>a. \<not> gate_denies actions caps q a) acts)) \<and>
    fst ` set (gate_reasons g) = set (filter (gate_denies actions caps q) acts)"
  using gate_fold [of acts actions caps q gate_init] assms
  by (force simp: capability_gate_evaluate_def gate_init_def)

lemma normalize_all_canonical:
  "normalize_all actions xs = Inr cs \<Longrightarrow> c \<in> set cs \<Longrightarrow> normalize_action actions c = Inr c"
  by (induction xs arbitrary: cs) (auto simp: obind_eq_Inr_iff dest: normalize_action_canonical)

lemma normalize_all_total:
  "(\<And>x. x \<in> set xs \<Longrightarrow> \<exists>c. normalize_action actions x = Inr c) \<Longrightarrow>
     \<exists>cs. normalize_all actions xs = Inr cs"
  by (induction xs) (simp_all, force)

lemma normalize_all_subset:
  "normalize_all actions xs = Inr cs \<Longrightarrow> x \<in> set xs \<Longrightarrow> \<exists>c. normalize_action actions x = Inr c"
  by (induction xs arbitrary: cs) (auto simp: obind_eq_Inr_iff)

end
