(* ===== verification/Policy_Kernel.thy ===== *)
theory Policy_Kernel
  imports Policy_Registry
begin

text \<open>
  The policy kernel, from \<open>src/aipinho/services/policy_kernel\<close>: workspace protection
  (\<open>workspace_policy_service.py\<close>), the normalised context of a request
  (\<open>policy_context_builder.py\<close>), the effective policy (\<open>effective_policy_builder.py\<close>) and the final
  decision (\<open>policy_kernel_service.py\<close>). Path resolution against the file system
  (\<open>expanduser\<close>, \<open>resolve\<close>, \<open>normcase\<close>) is the environment's: an argument of the model. The decision
  identifier drawn from \<open>uuid4\<close> is an argument too.
\<close>

section \<open>Workspace policy\<close>

record path_env =
  pe_normalize :: "str \<Rightarrow> str"
  pe_sep :: str

record workspace_policy_result =
  wp_status :: str
  wp_workspace_path :: "str option"
  wp_blocked :: bool
  wp_needs_clarification :: bool
  wp_reason :: str
  wp_violations :: "policy_violation list"
  wp_trace :: "policy_trace_item list"

text \<open>One entry of \<open>protected_roots\<close>; an entry that is not a dictionary is \<open>None\<close>.\<close>

record protected_root =
  pr_path :: "str option"
  pr_block_task :: "json option"
  pr_reason :: "str option"

definition is_under :: "path_env \<Rightarrow> str \<Rightarrow> str \<Rightarrow> bool" where
  "is_under env path root =
     (let p = pe_normalize env path; r = pe_normalize env root
      in p = r \<or> prefix (r @ pe_sep env) p)"

definition pr_blocks :: "protected_root \<Rightarrow> bool" where
  "pr_blocks pr = (case pr_block_task pr of None \<Rightarrow> True | Some v \<Rightarrow> json_truthy v)"

definition pr_matches :: "path_env \<Rightarrow> str \<Rightarrow> protected_root \<Rightarrow> bool" where
  "pr_matches env path pr =
     (case pr_path pr of None \<Rightarrow> False | Some root \<Rightarrow> root \<noteq> [] \<and> is_under env path root)"

fun workspace_scan ::
  "path_env \<Rightarrow> str \<Rightarrow> str \<Rightarrow> protected_root option list \<Rightarrow> policy_trace_item list \<Rightarrow>
     workspace_policy_result" where
  "workspace_scan env config_path path [] trace =
     \<lparr>wp_status = ''allowed'', wp_workspace_path = Some path, wp_blocked = False,
      wp_needs_clarification = False, wp_reason = ''workspace_allowed'', wp_violations = [],
      wp_trace = trace @
        [trace_create ''workspace_policy'' ''workspace_allowed'' ''allowed'' ''workspace_not_protected''
           ''info'' config_path [(''workspace_path'', JStr path)]]\<rparr>"
| "workspace_scan env config_path path (None # rest) trace =
     workspace_scan env config_path path rest trace"
| "workspace_scan env config_path path (Some pr # rest) trace =
     (let root = (case pr_path pr of None \<Rightarrow> [] | Some r \<Rightarrow> r);
          inp = [(''workspace_path'', JStr path), (''protected_root'', JStr root)]
      in if pr_matches env path pr then
           if \<not> pr_blocks pr then
             workspace_scan env config_path path rest (trace @
               [trace_create ''workspace_policy'' ''protected_root_configured_allowed'' ''allowed''
                  (case pr_reason pr of None \<Rightarrow> ''protected_root_allowed_by_policy'' | Some r \<Rightarrow> r)
                  ''info'' config_path inp])
           else
             \<lparr>wp_status = ''denied'', wp_workspace_path = Some path, wp_blocked = True,
              wp_needs_clarification = False, wp_reason = ''forbidden_root'',
              wp_violations =
                [\<lparr>viol_code = ''forbidden_root'', viol_reason = ''workspace_path_matches_protected_root'',
                  viol_severity = ''critical'', viol_source = config_path\<rparr>],
              wp_trace = trace @
                [trace_create ''workspace_policy'' ''forbidden_root'' ''denied''
                   ''workspace_path_matches_protected_root'' ''critical'' config_path inp]\<rparr>
         else workspace_scan env config_path path rest trace)"

definition workspace_evaluate ::
  "path_env \<Rightarrow> str \<Rightarrow> protected_root option list \<Rightarrow> str option \<Rightarrow> bool \<Rightarrow> workspace_policy_result" where
  "workspace_evaluate env config_path roots workspace_path requires_workspace =
     (if \<not> opt_truthy workspace_path then
        if requires_workspace then
          \<lparr>wp_status = ''needs_clarification'', wp_workspace_path = None, wp_blocked = False,
           wp_needs_clarification = True, wp_reason = ''workspace_missing'', wp_violations = [],
           wp_trace =
             [trace_create ''workspace_policy'' ''workspace_required'' ''needs_clarification''
                ''workspace_missing_for_workspace_required_intent'' ''warning'' ''request.workspace'' []]\<rparr>
        else
          \<lparr>wp_status = ''allowed'', wp_workspace_path = None, wp_blocked = False,
           wp_needs_clarification = False, wp_reason = ''workspace_not_required'', wp_violations = [],
           wp_trace =
             [trace_create ''workspace_policy'' ''workspace_optional'' ''allowed''
                ''workspace_not_required'' ''info'' ''request.intent.requires_workspace'' []]\<rparr>
      else workspace_scan env config_path (str_or workspace_path []) roots [])"

section \<open>Requests and context\<close>

record intent_summary =
  in_intent_type :: str
  in_requires_task :: bool
  in_requires_workspace :: bool

record task_contract_input =
  tc_task_type :: str
  tc_requested_actions :: "str list"
  tc_read_only :: bool

record workspace_input =
  wi_path :: "str option"
  wi_declared :: bool

record user_constraints =
  uc_read_only :: bool
  uc_no_write :: bool
  uc_no_shell :: bool
  uc_no_network :: bool

record policy_resolve_request =
  rq_request_id :: "str option"
  rq_intent :: intent_summary
  rq_task :: task_contract_input
  rq_workspace :: workspace_input
  rq_role_id :: str
  rq_constraints :: user_constraints

record context_acc =
  cx_normalized :: "str list"
  cx_unknown :: "str list"
  cx_violations :: "policy_violation list"
  cx_trace :: "policy_trace_item list"

record policy_context =
  pc_request :: policy_resolve_request
  pc_normalized_actions :: "str list"
  pc_unknown_actions :: "str list"
  pc_role :: role_definition
  pc_policy_order :: "str list"
  pc_violations :: "policy_violation list"
  pc_warnings :: "str list"
  pc_trace :: "policy_trace_item list"

definition context_step :: "action_registry \<Rightarrow> str \<Rightarrow> context_acc \<Rightarrow> context_acc" where
  "context_step actions action a =
     (case normalize_action actions action of
        Inr canonical \<Rightarrow>
          a\<lparr>cx_normalized := cx_normalized a @ [canonical],
            cx_trace := cx_trace a @
              [trace_create ''action_normalization'' ''action_alias_normalization'' ''allowed''
                 ''action_normalized_to_canonical_name'' ''info'' ''config/policies/action_registry.yaml''
                 [(''input_action'', JStr action), (''canonical_action'', JStr canonical)]]\<rparr>
      | Inl _ \<Rightarrow>
          a\<lparr>cx_unknown := cx_unknown a @ [action],
            cx_violations := cx_violations a @
              [\<lparr>viol_code = ''unknown_action'', viol_reason = ''Unknown action: '' @ action,
                viol_severity = ''error'', viol_source = ''config/policies/action_registry.yaml''\<rparr>],
            cx_trace := cx_trace a @
              [trace_create ''action_normalization'' ''unknown_action_default_deny'' ''denied''
                 ''action_not_found_in_registry'' ''error'' ''config/policies/action_registry.yaml''
                 [(''input_action'', JStr action)]]\<rparr>)"

definition context_build ::
  "action_registry \<Rightarrow> role_definition dict \<Rightarrow> str list \<Rightarrow> policy_resolve_request \<Rightarrow>
     config_error + policy_context" where
  "context_build actions roles precedence rq =
     (let requested = tc_requested_actions (rq_task rq);
          a0 = \<lparr>cx_normalized = [], cx_unknown = [], cx_violations = [],
                cx_trace = [trace_create ''input_validation'' ''structured_request'' ''allowed''
                   ''request_schema_validated'' ''info'' ''schemas/policy/policy_decision.py''
                   [(''request_id'', JStr (str_or (rq_request_id rq) []))]]\<rparr>;
          a1 = fold (context_step actions) requested a0;
          trace = cx_trace a1 @
            (if requested = [] then
               [trace_create ''action_normalization'' ''no_actions_requested'' ''allowed''
                  ''conversation_or_non_tool_request'' ''info'' ''request.task.requested_actions'' []]
             else [])
      in obind (get_role actions roles (rq_role_id rq)) (\<lambda>role.
         obind (ordered_rules precedence) (\<lambda>order.
           Inr \<lparr>pc_request = rq, pc_normalized_actions = cx_normalized a1,
                pc_unknown_actions = cx_unknown a1, pc_role = role, pc_policy_order = order,
                pc_violations = cx_violations a1,
                pc_warnings =
                  (if in_requires_workspace (rq_intent rq) \<and> \<not> opt_truthy (wi_path (rq_workspace rq))
                   then [''workspace_required_but_missing''] else []),
                pc_trace = trace\<rparr>)))"

section \<open>Effective policy\<close>

record effective_policy =
  eff_allowed_actions :: "str list"
  eff_denied_actions :: "str list"
  eff_approval_required_for :: "str list"
  eff_granted_capabilities :: "str list"
  eff_denied_capabilities :: "str list"
  eff_blocked_by :: "str list"
  eff_warnings :: "str list"
  eff_reasons :: "str dict"

record effective_build_result =
  eb_policy :: effective_policy
  eb_violations :: "policy_violation list"
  eb_warnings :: "str list"
  eb_trace :: "policy_trace_item list"

record effective_acc =
  ea_allowed :: "str list"
  ea_denied :: "str list"
  ea_approval :: "str list"
  ea_reasons :: "str dict"
  ea_warnings :: "str list"
  ea_trace :: "policy_trace_item list"

definition eff_deny :: "str \<Rightarrow> str \<Rightarrow> effective_acc \<Rightarrow> effective_acc" where
  "eff_deny action reason e =
     e\<lparr>ea_denied := action # ea_denied e, ea_reasons := AList.update action reason (ea_reasons e)\<rparr>"

definition eff_unknown :: "policy_context \<Rightarrow> effective_acc" where
  "eff_unknown ctx =
     \<lparr>ea_allowed = [], ea_denied = pc_unknown_actions ctx, ea_approval = [],
      ea_reasons = fold (\<lambda>a. AList.update a ''unknown_action_default_deny'') (pc_unknown_actions ctx) [],
      ea_warnings = pc_warnings ctx, ea_trace = []\<rparr>"

definition eff_capabilities :: "capability_gate_result \<Rightarrow> effective_acc \<Rightarrow> effective_acc" where
  "eff_capabilities g =
     fold (\<lambda>a. eff_deny a (case map_of (gate_reasons g) a of None \<Rightarrow> ''capability_denied'' | Some r \<Rightarrow> r))
       (gate_denied_actions g)"

definition eff_workspace ::
  "workspace_policy_result \<Rightarrow> policy_context \<Rightarrow> effective_acc \<Rightarrow> effective_acc" where
  "eff_workspace w ctx e =
     (if wp_blocked w
      then fold (\<lambda>a. eff_deny a ''workspace_policy_denied'') (pc_normalized_actions ctx) e
      else e)"

definition eff_role_limit :: "str \<Rightarrow> str \<Rightarrow> effective_acc \<Rightarrow> effective_acc" where
  "eff_role_limit role_id action e =
     e\<lparr>ea_warnings := ea_warnings e @ [''role_declares_action_limited:'' @ action],
       ea_trace := ea_trace e @
         [trace_create ''role_policy'' ''role_cannot_expand_task_permissions'' ''observed''
            ''role_declared_limit_is_not_permission_decision'' ''warning''
            ''config/roles/default_roles.yaml''
            [(''action'', JStr action), (''role_id'', JStr role_id)]]\<rparr>"

definition eff_action_step ::
  "action_registry \<Rightarrow> approval_policy \<Rightarrow> str list \<Rightarrow> str \<Rightarrow> effective_acc \<Rightarrow>
     config_error + effective_acc" where
  "eff_action_step actions ap role_requires action e =
     (if action \<in> set (ea_denied e) then Inr e
      else
        obind (if action \<in> set role_requires then Inr True else requires_approval actions ap action)
          (\<lambda>needs.
             if needs then
               Inr (e\<lparr>ea_approval := action # ea_approval e,
                      ea_reasons := AList.update action ''approval_required'' (ea_reasons e),
                      ea_trace := ea_trace e @
                        [trace_create ''approval_policy'' ''side_effects_require_approval''
                           ''needs_approval'' ''action_requires_approval_before_execution'' ''warning''
                           ''config/policies/approval_policy.yaml'' [(''action'', JStr action)]]\<rparr>)
             else Inr (e\<lparr>ea_allowed := action # ea_allowed e\<rparr>)))"

definition eff_read_only :: "policy_context \<Rightarrow> effective_acc \<Rightarrow> effective_acc" where
  "eff_read_only ctx e =
     (if tc_read_only (rq_task (pc_request ctx)) then
        fold (\<lambda>a e. if a \<notin> set (pc_normalized_actions ctx)
                        \<and> tc_task_type (rq_task (pc_request ctx)) \<noteq> ''conversation''
                     then eff_deny a ''read_only_constraint'' e else e)
          [''write_files'', ''apply_patch''] e
      else e)"

definition eff_artifact :: "policy_context \<Rightarrow> effective_acc \<Rightarrow> effective_acc" where
  "eff_artifact ctx e =
     (if tc_task_type (rq_task (pc_request ctx)) = ''artifact_generation'' then
        e\<lparr>ea_denied := ''apply_patch'' # ea_denied e,
          ea_reasons := (if ''apply_patch'' \<in> fst ` set (ea_reasons e) then ea_reasons e
                         else AList.update ''apply_patch'' ''artifact_writer_not_code_patch'' (ea_reasons e))\<rparr>
      else e)"

definition eff_policy :: "capability_gate_result \<Rightarrow> effective_acc \<Rightarrow> effective_policy" where
  "eff_policy g e =
     \<lparr>eff_allowed_actions = py_sorted_set (ea_allowed e),
      eff_denied_actions = py_sorted_set (ea_denied e),
      eff_approval_required_for = py_sorted_set (ea_approval e),
      eff_granted_capabilities = gate_granted_capabilities g,
      eff_denied_capabilities = gate_denied_capabilities g,
      eff_blocked_by = py_sorted_set (filter (\<lambda>r. r \<noteq> ''approval_required'') (map snd (ea_reasons e))),
      eff_warnings = ea_warnings e, eff_reasons = ea_reasons e\<rparr>"

definition effective_build ::
  "action_registry \<Rightarrow> approval_policy \<Rightarrow> policy_context \<Rightarrow> workspace_policy_result \<Rightarrow>
     capability_gate_result \<Rightarrow> config_error + effective_build_result" where
  "effective_build actions ap ctx w g =
     (let e1 = eff_workspace w ctx (eff_capabilities g (eff_unknown ctx)) in
      obind (normalize_all actions (role_forbidden_actions (pc_role ctx))) (\<lambda>role_forbidden.
      obind (normalize_all actions (role_requires_approval (pc_role ctx))) (\<lambda>role_requires.
        let limited = py_sorted_set (filter (\<lambda>a. a \<in> set (pc_normalized_actions ctx)) role_forbidden);
            e2 = fold (eff_role_limit (rq_role_id (pc_request ctx))) limited e1
        in obind (ofold (eff_action_step actions ap role_requires) (pc_normalized_actions ctx) e2)
             (\<lambda>e3.
                let e4 = eff_artifact ctx (eff_read_only ctx e3);
                    trace = ea_trace e4 @
                      [trace_create ''effective_policy'' ''denied_wins'' ''computed''
                         ''effective_policy_is_restrictive_intersection'' ''info''
                         ''services/policy_kernel/effective_policy_builder.py''
                         [(''allowed_actions'', JList (map JStr (py_sorted_set (ea_allowed e4)))),
                          (''denied_actions'', JList (map JStr (py_sorted_set (ea_denied e4)))),
                          (''approval_required_for'', JList (map JStr (py_sorted_set (ea_approval e4))))]]
                in Inr \<lparr>eb_policy = eff_policy g e4,
                        eb_violations = pc_violations ctx @ wp_violations w,
                        eb_warnings = ea_warnings e4, eb_trace = trace\<rparr>))))"

section \<open>The kernel\<close>

definition CONTRACT_TYPES :: "str list" where
  "CONTRACT_TYPES =
    [''conversation'', ''readonly_analysis'', ''artifact_generation'', ''filesystem_write'',
     ''file_modification'', ''project_generation'', ''artifact_build'', ''shell_execution'',
     ''web_search'', ''project_build'', ''patch_request'', ''patch_apply'', ''validation'',
     ''validation_request'', ''in_chat_final_report'', ''memory_curation'', ''unknown'']"

record policy_config =
  cf_actions :: action_registry
  cf_capabilities :: "capability_definition dict"
  cf_approval :: approval_config
  cf_roles :: "role_definition dict"
  cf_precedence :: "str list"
  cf_protected :: "protected_root option list"
  cf_protected_source :: str
  cf_paths :: path_env

record policy_kernel =
  pk_config :: policy_config
  pk_approval :: approval_policy

record policy_decision =
  pd_decision_id :: str
  pd_status :: str
  pd_contract_type :: str
  pd_allowed_actions :: "str list"
  pd_denied_actions :: "str list"
  pd_approval_required_for :: "str list"
  pd_granted_capabilities :: "str list"
  pd_denied_capabilities :: "str list"
  pd_effective_policy :: effective_policy
  pd_violations :: "policy_violation list"
  pd_warnings :: "str list"
  pd_trace :: "policy_trace_item list"
  pd_safe_to_execute :: bool
  pd_safe_to_preview :: bool

record task_contract_preview =
  tp_contract_type :: str
  tp_operation_type :: "str option"
  tp_runtime_profile :: "str option"
  tp_requires_task :: bool
  tp_requires_workspace :: bool
  tp_requested_actions :: "str list"
  tp_allowed_actions :: "str list"
  tp_denied_actions :: "str list"
  tp_approval_required_for :: "str list"
  tp_safe_to_preview :: bool
  tp_safe_to_execute :: bool
  tp_policy_decision_id :: str

definition policy_kernel_init :: "policy_config \<Rightarrow> config_error + policy_kernel" where
  "policy_kernel_init cf =
     obind (action_registry_validate (cf_actions cf)) (\<lambda>_.
     obind (capability_validate (cf_capabilities cf)) (\<lambda>_.
     obind (approval_policy_validate (cf_actions cf) (cf_approval cf)) (\<lambda>ap.
     obind (role_registry_validate (cf_actions cf) (cf_roles cf)) (\<lambda>_.
     obind (precedence_validate (cf_precedence cf)) (\<lambda>_.
       Inr \<lparr>pk_config = cf, pk_approval = ap\<rparr>)))))"

definition contract_type :: "policy_resolve_request \<Rightarrow> str" where
  "contract_type rq =
     (if tc_task_type (rq_task rq) \<noteq> ''unknown'' then tc_task_type (rq_task rq)
      else if in_intent_type (rq_intent rq) = ''memory_write'' then ''memory_curation''
      else if in_intent_type (rq_intent rq) \<in> set CONTRACT_TYPES then in_intent_type (rq_intent rq)
      else ''unknown'')"

definition safe_to_execute ::
  "policy_kernel \<Rightarrow> str \<Rightarrow> str list \<Rightarrow> str list \<Rightarrow> str list \<Rightarrow> bool" where
  "safe_to_execute k status requested allowed approval_required_for =
     (if status \<noteq> ''allowed'' \<or> requested = [] then False
      else if set requested \<noteq> set allowed then False
      else if approval_required_for \<noteq> [] then False
      else \<not> list_ex (never_auto_execute (cf_actions (pk_config k)) (pk_approval k)) requested)"

definition kernel_status ::
  "workspace_policy_result \<Rightarrow> policy_context \<Rightarrow> effective_policy \<Rightarrow> str" where
  "kernel_status w ctx p =
     (if wp_needs_clarification w then ''needs_clarification''
      else if wp_blocked w \<or> pc_unknown_actions ctx \<noteq> []
              \<or> list_ex (\<lambda>a. a \<in> set (eff_denied_actions p)) (pc_normalized_actions ctx)
        then ''denied''
      else if eff_approval_required_for p \<noteq> [] then ''needs_approval''
      else ''allowed'')"

definition kernel_constraints ::
  "policy_resolve_request \<Rightarrow> workspace_policy_result \<Rightarrow> gate_constraints" where
  "kernel_constraints rq w =
     \<lparr>gc_read_only = (tc_read_only (rq_task rq) \<or> uc_read_only (rq_constraints rq)),
      gc_no_write = uc_no_write (rq_constraints rq), gc_no_shell = uc_no_shell (rq_constraints rq),
      gc_no_network = uc_no_network (rq_constraints rq), gc_workspace_blocked = wp_blocked w\<rparr>"

definition kernel_workspace :: "policy_kernel \<Rightarrow> policy_resolve_request \<Rightarrow> workspace_policy_result" where
  "kernel_workspace k rq =
     workspace_evaluate (cf_paths (pk_config k)) (cf_protected_source (pk_config k))
       (cf_protected (pk_config k)) (wi_path (rq_workspace rq)) (in_requires_workspace (rq_intent rq))"

definition kernel_decision ::
  "policy_kernel \<Rightarrow> str \<Rightarrow> policy_resolve_request \<Rightarrow> policy_context \<Rightarrow> workspace_policy_result \<Rightarrow>
     capability_gate_result \<Rightarrow> effective_build_result \<Rightarrow> policy_decision" where
  "kernel_decision k uid rq ctx w g eb =
     (let p = eb_policy eb;
          status = kernel_status w ctx p;
          preview = (status \<in> {''allowed'', ''needs_approval''});
          execute = safe_to_execute k status (pc_normalized_actions ctx) (eff_allowed_actions p)
                      (eff_approval_required_for p)
      in \<lparr>pd_decision_id = ''policy_'' @ uid, pd_status = status, pd_contract_type = contract_type rq,
          pd_allowed_actions = eff_allowed_actions p, pd_denied_actions = eff_denied_actions p,
          pd_approval_required_for = eff_approval_required_for p,
          pd_granted_capabilities = eff_granted_capabilities p,
          pd_denied_capabilities = eff_denied_capabilities p, pd_effective_policy = p,
          pd_violations = eb_violations eb, pd_warnings = eb_warnings eb,
          pd_trace = pc_trace ctx @ wp_trace w @ gate_trace g @ eb_trace eb @
            [trace_create ''final_decision'' ''default_deny_unless_explicitly_allowed'' status
               ''policy_kernel_completed_restrictive_decision''
               (if status = ''allowed'' then ''info'' else ''warning'')
               ''services/policy_kernel/policy_kernel_service.py''
               [(''safe_to_preview'', JBool preview), (''safe_to_execute'', JBool execute)]],
          pd_safe_to_execute = execute, pd_safe_to_preview = preview\<rparr>)"

definition policy_resolve ::
  "policy_kernel \<Rightarrow> str \<Rightarrow> policy_resolve_request \<Rightarrow> config_error + policy_decision" where
  "policy_resolve k uid rq =
     (let cf = pk_config k; w = kernel_workspace k rq in
      obind (context_build (cf_actions cf) (cf_roles cf) (cf_precedence cf) rq) (\<lambda>ctx.
      obind (capability_gate_evaluate (cf_actions cf) (cf_capabilities cf) (kernel_constraints rq w)
               (pc_normalized_actions ctx)) (\<lambda>g.
      obind (effective_build (cf_actions cf) (pk_approval k) ctx w g) (\<lambda>eb.
        Inr (kernel_decision k uid rq ctx w g eb)))))"

definition contract_preview ::
  "policy_kernel \<Rightarrow> str \<Rightarrow> policy_resolve_request \<Rightarrow> config_error + task_contract_preview" where
  "contract_preview k uid rq =
     obind (policy_resolve k uid rq) (\<lambda>d.
       Inr \<lparr>tp_contract_type = pd_contract_type d, tp_operation_type = None,
            tp_runtime_profile = None, tp_requires_task = in_requires_task (rq_intent rq),
            tp_requires_workspace = in_requires_workspace (rq_intent rq),
            tp_requested_actions = tc_requested_actions (rq_task rq),
            tp_allowed_actions = pd_allowed_actions d, tp_denied_actions = pd_denied_actions d,
            tp_approval_required_for = pd_approval_required_for d,
            tp_safe_to_preview = pd_safe_to_preview d, tp_safe_to_execute = pd_safe_to_execute d,
            tp_policy_decision_id = pd_decision_id d\<rparr>)"

section \<open>The workspace scan\<close>

lemma workspace_scan_clarification [simp]:
  "\<not> wp_needs_clarification (workspace_scan env src path roots trace)"
  by (induction env src path roots trace rule: workspace_scan.induct) (auto simp: Let_def)

lemma workspace_scan_blocked_iff:
  "wp_blocked (workspace_scan env src path roots trace) \<longleftrightarrow>
     (\<exists>pr. Some pr \<in> set roots \<and> pr_matches env path pr \<and> pr_blocks pr)"
  by (induction env src path roots trace rule: workspace_scan.induct) (auto simp: Let_def)

lemma workspace_blocked_iff:
  "wp_blocked (workspace_evaluate env src roots path req) \<longleftrightarrow>
     (\<exists>p pr. path = Some p \<and> p \<noteq> [] \<and> Some pr \<in> set roots \<and> pr_matches env p pr \<and> pr_blocks pr)"
  by (cases path) (auto simp: workspace_evaluate_def workspace_scan_blocked_iff)

lemma workspace_clarification_iff:
  "wp_needs_clarification (workspace_evaluate env src roots path req) \<longleftrightarrow>
     \<not> opt_truthy path \<and> req"
  by (simp add: workspace_evaluate_def)

section \<open>The context\<close>

lemma context_fold:
  "set (cx_normalized (fold (context_step actions) xs a)) =
     set (cx_normalized a) \<union> {c. \<exists>x\<in>set xs. normalize_action actions x = Inr c}"
  "cx_unknown (fold (context_step actions) xs a) =
     cx_unknown a @ filter (\<lambda>x. \<not> action_exists actions x) xs"
  by (induction xs arbitrary: a)
    (auto simp: context_step_def action_exists_def split: sum.splits)

lemma context_fold_all:
  assumes "\<And>c. c \<in> set (cx_normalized a) \<Longrightarrow> normalize_action actions c = Inr c"
    and "c \<in> set (cx_normalized (fold (context_step actions) xs a))"
  shows "normalize_action actions c = Inr c"
  using assms by (auto simp: context_fold dest: normalize_action_canonical)

lemma context_build_spec:
  assumes "context_build actions roles order rq = Inr ctx"
  shows "pc_request ctx = rq"
    and "set (pc_normalized_actions ctx) =
           {c. \<exists>x\<in>set (tc_requested_actions (rq_task rq)). normalize_action actions x = Inr c}"
    and "pc_unknown_actions ctx =
           filter (\<lambda>x. \<not> action_exists actions x) (tc_requested_actions (rq_task rq))"
    and "get_role actions roles (rq_role_id rq) = Inr (pc_role ctx)"
  using assms by (auto simp: context_build_def Let_def obind_eq_Inr_iff context_fold)

lemma context_normalized_canonical:
  assumes "context_build actions roles order rq = Inr ctx" and "c \<in> set (pc_normalized_actions ctx)"
  shows "normalize_action actions c = Inr c"
  using assms by (auto simp: context_build_spec dest: normalize_action_canonical)

section \<open>The effective policy\<close>

text \<open>The actions denied before approval is looked at.\<close>

definition base_denied ::
  "policy_context \<Rightarrow> workspace_policy_result \<Rightarrow> capability_gate_result \<Rightarrow> str set" where
  "base_denied ctx w g = set (pc_unknown_actions ctx) \<union> set (gate_denied_actions g) \<union>
     (if wp_blocked w then set (pc_normalized_actions ctx) else {})"

text \<open>The actions denied by the type of the task, whether requested or not.\<close>

definition task_denied :: "policy_context \<Rightarrow> str set" where
  "task_denied ctx =
     (if tc_read_only (rq_task (pc_request ctx)) \<and> tc_task_type (rq_task (pc_request ctx)) \<noteq> ''conversation''
      then {''write_files'', ''apply_patch''} - set (pc_normalized_actions ctx) else {}) \<union>
     (if tc_task_type (rq_task (pc_request ctx)) = ''artifact_generation'' then {''apply_patch''} else {})"

lemma eff_deny_fold:
  "set (ea_denied (fold (\<lambda>a. eff_deny a (r a)) xs e)) = set (ea_denied e) \<union> set xs"
  "ea_allowed (fold (\<lambda>a. eff_deny a (r a)) xs e) = ea_allowed e"
  "ea_approval (fold (\<lambda>a. eff_deny a (r a)) xs e) = ea_approval e"
  by (induction xs arbitrary: e) (auto simp: eff_deny_def)

lemma eff_prepare:
  defines "e \<equiv> \<lambda>ctx w g. eff_workspace w ctx (eff_capabilities g (eff_unknown ctx))"
  shows "set (ea_denied (e ctx w g)) = base_denied ctx w g"
    and "ea_allowed (e ctx w g) = []" and "ea_approval (e ctx w g) = []"
  by (auto simp: e_def eff_workspace_def eff_capabilities_def eff_unknown_def eff_deny_fold
      base_denied_def)

lemma eff_role_limit_fold:
  "ea_denied (fold (eff_role_limit rid) xs e) = ea_denied e"
  "ea_allowed (fold (eff_role_limit rid) xs e) = ea_allowed e"
  "ea_approval (fold (eff_role_limit rid) xs e) = ea_approval e"
  by (induction xs arbitrary: e) (simp_all add: eff_role_limit_def)

lemma eff_after:
  "set (ea_denied (eff_artifact ctx (eff_read_only ctx e))) = set (ea_denied e) \<union> task_denied ctx"
  "ea_allowed (eff_artifact ctx (eff_read_only ctx e)) = ea_allowed e"
  "ea_approval (eff_artifact ctx (eff_read_only ctx e)) = ea_approval e"
  by (auto simp: eff_artifact_def eff_read_only_def eff_deny_def task_denied_def)

definition action_needs ::
  "action_registry \<Rightarrow> approval_policy \<Rightarrow> str list \<Rightarrow> str \<Rightarrow> bool" where
  "action_needs actions ap role_requires a \<longleftrightarrow>
     a \<in> set role_requires \<or> requires_approval actions ap a = Inr True"

lemma requires_approval_total:
  assumes "normalize_action actions a = Inr c"
  shows "\<exists>b. requires_approval actions ap a = Inr b"
  using assms get_action_canonical [OF assms] by (auto simp: requires_approval_def)

lemma eff_action_fold:
  assumes "\<And>a. a \<in> set acts \<Longrightarrow> normalize_action actions a = Inr a"
  shows "\<exists>e'. ofold (eff_action_step actions ap rr) acts e = Inr e' \<and>
    ea_denied e' = ea_denied e \<and>
    set (ea_allowed e') = set (ea_allowed e) \<union>
      {a \<in> set acts. a \<notin> set (ea_denied e) \<and> \<not> action_needs actions ap rr a} \<and>
    set (ea_approval e') = set (ea_approval e) \<union>
      {a \<in> set acts. a \<notin> set (ea_denied e) \<and> action_needs actions ap rr a}"
  using assms
proof (induction acts arbitrary: e)
  case Nil
  then show ?case by simp
next
  case (Cons a acts)
  from Cons.prems have "normalize_action actions a = Inr a" by simp
  then obtain b where b: "requires_approval actions ap a = Inr b"
    using requires_approval_total by blast
  have "\<exists>e1. eff_action_step actions ap rr a e = Inr e1 \<and> ea_denied e1 = ea_denied e \<and>
      set (ea_allowed e1) = set (ea_allowed e) \<union>
        (if a \<notin> set (ea_denied e) \<and> \<not> action_needs actions ap rr a then {a} else {}) \<and>
      set (ea_approval e1) = set (ea_approval e) \<union>
        (if a \<notin> set (ea_denied e) \<and> action_needs actions ap rr a then {a} else {})"
    using b by (auto simp: eff_action_step_def action_needs_def)
  then obtain e1 where e1: "eff_action_step actions ap rr a e = Inr e1" "ea_denied e1 = ea_denied e"
    "set (ea_allowed e1) = set (ea_allowed e) \<union>
        (if a \<notin> set (ea_denied e) \<and> \<not> action_needs actions ap rr a then {a} else {})"
    "set (ea_approval e1) = set (ea_approval e) \<union>
        (if a \<notin> set (ea_denied e) \<and> action_needs actions ap rr a then {a} else {})"
    by blast
  from Cons.IH [of e1] Cons.prems obtain e' where "ofold (eff_action_step actions ap rr) acts e1 = Inr e'"
    and "ea_denied e' = ea_denied e1"
    and "set (ea_allowed e') = set (ea_allowed e1) \<union>
      {a \<in> set acts. a \<notin> set (ea_denied e1) \<and> \<not> action_needs actions ap rr a}"
    and "set (ea_approval e') = set (ea_approval e1) \<union>
      {a \<in> set acts. a \<notin> set (ea_denied e1) \<and> action_needs actions ap rr a}"
    by auto
  then show ?case using e1 by auto
qed

text \<open>What the effective policy is, as three sets.\<close>

lemma effective_build_spec:
  assumes canonical: "\<And>a. a \<in> set (pc_normalized_actions ctx) \<Longrightarrow> normalize_action actions a = Inr a"
    and forb: "normalize_all actions (role_forbidden_actions (pc_role ctx)) = Inr rf"
    and req: "normalize_all actions (role_requires_approval (pc_role ctx)) = Inr rr"
  shows "\<exists>eb. effective_build actions ap ctx w g = Inr eb \<and>
    set (eff_denied_actions (eb_policy eb)) = base_denied ctx w g \<union> task_denied ctx \<and>
    set (eff_allowed_actions (eb_policy eb)) =
      {a \<in> set (pc_normalized_actions ctx). a \<notin> base_denied ctx w g \<and> \<not> action_needs actions ap rr a} \<and>
    set (eff_approval_required_for (eb_policy eb)) =
      {a \<in> set (pc_normalized_actions ctx). a \<notin> base_denied ctx w g \<and> action_needs actions ap rr a}"
proof -
  let ?e1 = "eff_workspace w ctx (eff_capabilities g (eff_unknown ctx))"
  let ?lim = "py_sorted_set (filter (\<lambda>a. a \<in> set (pc_normalized_actions ctx)) rf)"
  let ?e2 = "fold (eff_role_limit (rq_role_id (pc_request ctx))) ?lim ?e1"
  obtain e3 where e3: "ofold (eff_action_step actions ap rr) (pc_normalized_actions ctx) ?e2 = Inr e3"
    and e3_sets: "ea_denied e3 = ea_denied ?e2"
      "set (ea_allowed e3) = set (ea_allowed ?e2) \<union>
        {a \<in> set (pc_normalized_actions ctx). a \<notin> set (ea_denied ?e2) \<and> \<not> action_needs actions ap rr a}"
      "set (ea_approval e3) = set (ea_approval ?e2) \<union>
        {a \<in> set (pc_normalized_actions ctx). a \<notin> set (ea_denied ?e2) \<and> action_needs actions ap rr a}"
    using eff_action_fold [OF canonical, where ap = ap and rr = rr and e = ?e2] by blast
  show ?thesis
    by (simp add: effective_build_def forb req e3 eff_policy_def eff_after e3_sets
        eff_role_limit_fold eff_prepare Let_def)
qed

section \<open>The decision as sets\<close>

text \<open>
  The abstract contract of the kernel: from the requested actions, the capability gate and the
  approval requirement, three sets of actions.
\<close>

definition known_actions :: "policy_config \<Rightarrow> policy_resolve_request \<Rightarrow> str set" where
  "known_actions cf rq =
     {c. \<exists>x\<in>set (tc_requested_actions (rq_task rq)). normalize_action (cf_actions cf) x = Inr c}"

definition unknown_actions :: "policy_config \<Rightarrow> policy_resolve_request \<Rightarrow> str set" where
  "unknown_actions cf rq =
     {x \<in> set (tc_requested_actions (rq_task rq)). \<not> action_exists (cf_actions cf) x}"

definition denies :: "policy_kernel \<Rightarrow> policy_resolve_request \<Rightarrow> str \<Rightarrow> bool" where
  "denies k rq a \<longleftrightarrow>
     gate_denies (cf_actions (pk_config k)) (cf_capabilities (pk_config k))
       (kernel_constraints rq (kernel_workspace k rq)) a"

definition approval_needed :: "policy_kernel \<Rightarrow> policy_resolve_request \<Rightarrow> str \<Rightarrow> bool" where
  "approval_needed k rq a \<longleftrightarrow>
     requires_approval (cf_actions (pk_config k)) (pk_approval k) a = Inr True \<or>
     (\<exists>r x. map_of (cf_roles (pk_config k)) (rq_role_id rq) = Some r \<and>
        x \<in> set (role_requires_approval r) \<and> normalize_action (cf_actions (pk_config k)) x = Inr a)"

definition task_type_denied :: "policy_config \<Rightarrow> policy_resolve_request \<Rightarrow> str set" where
  "task_type_denied cf rq =
     (if tc_read_only (rq_task rq) \<and> tc_task_type (rq_task rq) \<noteq> ''conversation''
      then {''write_files'', ''apply_patch''} - known_actions cf rq else {}) \<union>
     (if tc_task_type (rq_task rq) = ''artifact_generation'' then {''apply_patch''} else {})"

lemma ofold_unit:
  "ofold (\<lambda>x _. f x) xs () = Inr u \<Longrightarrow> x \<in> set xs \<Longrightarrow> f x = Inr ()"
  by (induction xs) (auto simp: obind_eq_Inr_iff)

lemma policy_kernel_initD:
  assumes "policy_kernel_init cf = Inr k"
  shows "pk_config k = cf" and "registry_ok (cf_actions cf)"
    and "role_registry_validate (cf_actions cf) (cf_roles cf) = Inr ()"
    and "precedence_validate (cf_precedence cf) = Inr ()"
    and "approval_policy_validate (cf_actions cf) (cf_approval cf) = Inr (pk_approval k)"
  using assms by (auto simp: policy_kernel_init_def obind_eq_Inr_iff registry_ok_def)

lemma role_actions_normalize:
  assumes "role_registry_validate actions roles = Inr ()" and "map_of roles rid = Some r"
  shows "\<exists>rf rr. normalize_all actions (role_forbidden_actions r) = Inr rf \<and>
    normalize_all actions (role_requires_approval r) = Inr rr"
proof -
  have "ofold (\<lambda>(role_id, r) _. role_check actions role_id r) roles () = Inr ()"
    using assms(1) by (auto simp: role_registry_validate_def Let_def split: if_splits)
  then have "(case (rid, r) of (role_id, r) \<Rightarrow> role_check actions role_id r) = Inr ()"
    using ofold_unit [of "\<lambda>(role_id, r). role_check actions role_id r" roles "()" "(rid, r)"]
      map_of_SomeD [OF assms(2)] by (simp add: case_prod_unfold)
  then obtain cs where "normalize_all actions
      (role_allowed_actions r @ role_forbidden_actions r @ role_requires_approval r) = Inr cs"
    by (auto simp: role_check_def obind_eq_Inr_iff split: if_splits)
  from normalize_all_subset [OF this] show ?thesis
    using normalize_all_total [of "role_forbidden_actions r" actions]
      normalize_all_total [of "role_requires_approval r" actions] by simp
qed

lemma normalize_all_iff:
  "normalize_all actions xs = Inr cs \<Longrightarrow>
     c \<in> set cs \<longleftrightarrow> (\<exists>x\<in>set xs. normalize_action actions x = Inr c)"
  by (induction xs arbitrary: cs) (auto simp: obind_eq_Inr_iff)

lemma gate_denies_blocked:
  assumes "get_action actions a = Inr d" and "gc_workspace_blocked q"
  shows "gate_denies actions caps q a"
  using assms by (auto simp: gate_denies_def gate_deny_reason_def split: option.splits)

lemma known_unknown_disjoint: "a \<in> known_actions cf rq \<Longrightarrow> a \<notin> unknown_actions cf rq"
proof -
  assume "a \<in> known_actions cf rq"
  then obtain x where "normalize_action (cf_actions cf) x = Inr a" by (auto simp: known_actions_def)
  then have "normalize_action (cf_actions cf) a = Inr a" by (rule normalize_action_canonical)
  then show ?thesis by (simp add: unknown_actions_def action_exists_def)
qed

text \<open>The stages before the effective policy all succeed on a loaded kernel and a known role.\<close>

lemma kernel_stages:
  assumes init: "policy_kernel_init cf = Inr k"
    and role: "map_of (cf_roles cf) (rq_role_id rq) = Some r"
  defines "q \<equiv> kernel_constraints rq (kernel_workspace k rq)"
  obtains ctx g where
    "context_build (cf_actions cf) (cf_roles cf) (cf_precedence cf) rq = Inr ctx"
    "capability_gate_evaluate (cf_actions cf) (cf_capabilities cf) q (pc_normalized_actions ctx) = Inr g"
    "pc_request ctx = rq" "pc_role ctx = r"
    "set (pc_normalized_actions ctx) = known_actions cf rq"
    "set (pc_unknown_actions ctx) = unknown_actions cf rq"
    "gate_denied_actions g =
       filter (gate_denies (cf_actions cf) (cf_capabilities cf) q) (pc_normalized_actions ctx)"
    "\<forall>a\<in>set (pc_normalized_actions ctx). normalize_action (cf_actions cf) a = Inr a"
proof -
  note k = policy_kernel_initD [OF init]
  have gr: "get_role (cf_actions cf) (cf_roles cf) (rq_role_id rq) = Inr r"
    using k(3) role by (simp add: get_role_def)
  then obtain ctx where ctx: "context_build (cf_actions cf) (cf_roles cf) (cf_precedence cf) rq = Inr ctx"
    using k(4) by (simp add: context_build_def Let_def ordered_rules_def)
  note c = context_build_spec [OF ctx]
  have canonical: "normalize_action (cf_actions cf) a = Inr a"
    if "a \<in> set (pc_normalized_actions ctx)" for a
    using context_normalized_canonical [OF ctx that] .
  then have "\<exists>d. get_action (cf_actions cf) a = Inr d" if "a \<in> set (pc_normalized_actions ctx)" for a
    using that get_action_canonical by blast
  from capability_gate_spec [OF this, where caps = "cf_capabilities cf" and q = q]
  obtain g where g:
    "capability_gate_evaluate (cf_actions cf) (cf_capabilities cf) q (pc_normalized_actions ctx) = Inr g"
    and gd: "gate_denied_actions g =
      filter (gate_denies (cf_actions cf) (cf_capabilities cf) q) (pc_normalized_actions ctx)"
    by blast
  have "pc_role ctx = r" using c(4) gr by simp
  moreover have "set (pc_normalized_actions ctx) = known_actions cf rq"
    "set (pc_unknown_actions ctx) = unknown_actions cf rq"
    by (auto simp: c(2,3) known_actions_def unknown_actions_def)
  ultimately show thesis using that [OF ctx g c(1) _ _ _ gd] canonical by blast
qed

lemma base_denied_eq:
  assumes "pk_config k = cf" and "set (pc_normalized_actions ctx) = known_actions cf rq"
    and "set (pc_unknown_actions ctx) = unknown_actions cf rq"
    and gd: "gate_denied_actions g = filter (gate_denies (cf_actions cf) (cf_capabilities cf)
          (kernel_constraints rq (kernel_workspace k rq))) (pc_normalized_actions ctx)"
  shows "base_denied ctx (kernel_workspace k rq) g =
    unknown_actions cf rq \<union> {a \<in> known_actions cf rq. denies k rq a}"
proof -
  have "denies k rq a" if "wp_blocked (kernel_workspace k rq)" "a \<in> known_actions cf rq" for a
  proof -
    from that(2) obtain d where "get_action (cf_actions cf) a = Inr d"
      unfolding known_actions_def using get_action_canonical by blast
    then show ?thesis
      unfolding denies_def assms(1)
      by (rule gate_denies_blocked) (simp add: kernel_constraints_def that(1))
  qed
  then show ?thesis
    using assms by (auto simp: base_denied_def denies_def)
qed

lemma policy_resolve_refines:
  assumes init: "policy_kernel_init cf = Inr k"
    and role: "map_of (cf_roles cf) (rq_role_id rq) = Some r"
  obtains d ctx p where "policy_resolve k uid rq = Inr d"
    "set (pc_normalized_actions ctx) = known_actions cf rq"
    "set (pc_unknown_actions ctx) = unknown_actions cf rq"
    "set (pd_denied_actions d) =
      unknown_actions cf rq \<union> {a \<in> known_actions cf rq. denies k rq a} \<union> task_type_denied cf rq"
    "set (pd_allowed_actions d) =
      {a \<in> known_actions cf rq. \<not> denies k rq a \<and> \<not> approval_needed k rq a}"
    "set (pd_approval_required_for d) =
      {a \<in> known_actions cf rq. \<not> denies k rq a \<and> approval_needed k rq a}"
    "pd_denied_actions d = eff_denied_actions p"
    "pd_approval_required_for d = eff_approval_required_for p"
    "pd_status d = kernel_status (kernel_workspace k rq) ctx p"
    "pd_safe_to_preview d = (pd_status d \<in> {''allowed'', ''needs_approval''})"
    "pd_safe_to_execute d = safe_to_execute k (pd_status d) (pc_normalized_actions ctx)
       (pd_allowed_actions d) (pd_approval_required_for d)"
proof -
  note k = policy_kernel_initD [OF init]
  let ?w = "kernel_workspace k rq"
  obtain ctx g where
    ctx: "context_build (cf_actions cf) (cf_roles cf) (cf_precedence cf) rq = Inr ctx" and
    g: "capability_gate_evaluate (cf_actions cf) (cf_capabilities cf) (kernel_constraints rq ?w)
          (pc_normalized_actions ctx) = Inr g" and
    c: "pc_request ctx = rq" "pc_role ctx = r" "set (pc_normalized_actions ctx) = known_actions cf rq"
    "set (pc_unknown_actions ctx) = unknown_actions cf rq" and
    gd: "gate_denied_actions g = filter (gate_denies (cf_actions cf) (cf_capabilities cf)
          (kernel_constraints rq ?w)) (pc_normalized_actions ctx)" and
    canonical: "\<forall>a\<in>set (pc_normalized_actions ctx). normalize_action (cf_actions cf) a = Inr a"
    by (rule kernel_stages [OF init role])
  from role_actions_normalize [OF k(3) role] c(2) obtain rf rr where
    rf: "normalize_all (cf_actions cf) (role_forbidden_actions (pc_role ctx)) = Inr rf" and
    rr: "normalize_all (cf_actions cf) (role_requires_approval (pc_role ctx)) = Inr rr" by blast
  have needs: "action_needs (cf_actions cf) (pk_approval k) rr a = approval_needed k rq a" for a
    using normalize_all_iff [OF rr, of a] role c(2) k(1)
    by (auto simp: action_needs_def approval_needed_def)
  note base = base_denied_eq [OF k(1) c(3,4) gd]
  have task: "task_denied ctx = task_type_denied cf rq"
    by (simp add: task_denied_def task_type_denied_def c)
  from effective_build_spec [OF bspec [OF canonical] rf rr, where ap = "pk_approval k" and w = ?w and g = g]
  obtain eb where eb: "effective_build (cf_actions cf) (pk_approval k) ctx ?w g = Inr eb" and
    sets: "set (eff_denied_actions (eb_policy eb)) = base_denied ctx ?w g \<union> task_denied ctx"
    "set (eff_allowed_actions (eb_policy eb)) = {a \<in> set (pc_normalized_actions ctx).
      a \<notin> base_denied ctx ?w g \<and> \<not> action_needs (cf_actions cf) (pk_approval k) rr a}"
    "set (eff_approval_required_for (eb_policy eb)) = {a \<in> set (pc_normalized_actions ctx).
      a \<notin> base_denied ctx ?w g \<and> action_needs (cf_actions cf) (pk_approval k) rr a}"
    by blast
  have "policy_resolve k uid rq = Inr (kernel_decision k uid rq ctx ?w g eb)"
    by (simp add: policy_resolve_def Let_def k(1) ctx g eb)
  from that [OF this c(3,4), of "eb_policy eb"] show thesis
    using sets known_unknown_disjoint [of _ cf rq]
    by (auto simp: kernel_decision_def Let_def base task needs c(3))
qed

section \<open>An example configuration\<close>

text \<open>
  A small configuration with the shape of the shipped YAML files: the capabilities the registry
  requires, the expected roles, the shipped rule order, and six actions.
\<close>

definition example_action :: "str list \<Rightarrow> str \<Rightarrow> bool \<Rightarrow> bool \<Rightarrow> str \<Rightarrow> action_definition" where
  "example_action als category se ra capability =
     \<lparr>act_aliases = als, act_category = category, act_side_effect = se, act_requires_approval = ra,
      act_capability = Some capability, act_semantic_dependency_mode = ''interpreted'',
      act_semantic_use_safety_dimensions = None, act_semantic_use_safety_requirements = None,
      act_approval_exception_reason = None\<rparr>"

definition example_actions :: action_registry where
  "example_actions =
     [(''read_files'', example_action [''read_file''] ''filesystem_read'' False False ''read_workspace''),
      (''write_files'', example_action [''write_file''] ''filesystem_write'' True True ''write_workspace''),
      (''apply_patch'', example_action [''patch_apply''] ''patch'' True True ''write_workspace''),
      (''run_command'', example_action [''shell''] ''shell'' True True ''shell''),
      (''use_rag'', example_action [''rag_query''] ''retrieval'' False False ''rag''),
      (''record_progress'', (example_action [] ''artifact'' True False ''artifact_write'')
         \<lparr>act_approval_exception_reason := Some ''append_only_log''\<rparr>)]"

definition example_role :: role_definition where
  "example_role =
     \<lparr>role_enabled = True, role_description = [], role_purpose = [], role_can_call_model = False,
      role_can_call_tools = False, role_can_execute_tools = False, role_can_write = False,
      role_can_patch = False, role_can_approve = False, role_allowed_purposes = [],
      role_default_model_policy = ''deterministic_only'', role_output_contract = ''plain_text'',
      role_allowed_task_types = [], role_allowed_actions = [''read_files''],
      role_forbidden_actions = [''apply_patch''], role_requires_approval = []\<rparr>"

definition example_config :: policy_config where
  "example_config =
     \<lparr>cf_actions = example_actions,
      cf_capabilities = map (\<lambda>c. (c, \<lparr>cap_description = [], cap_side_effect = False,
        cap_aliases = (if c = ''write_workspace'' then [''workspace_write''] else [])\<rparr>)) REQUIRED_CAPABILITIES,
      cf_approval = \<lparr>apc_side_effects_require_approval = True,
        apc_actions_requiring_approval = [''write_files'', ''apply_patch'', ''run_command''],
        apc_preview_allowed = [], apc_never_auto_execute = [''apply_patch''],
        apc_unknown_action_requires_approval = True\<rparr>,
      cf_roles = map (\<lambda>r. (r, example_role)) EXPECTED_ROLES,
      cf_precedence = REQUIRED_RULES,
      cf_protected = [Some \<lparr>pr_path = Some ''/system'', pr_block_task = None, pr_reason = None\<rparr>],
      cf_protected_source = ''protected_workspaces.yaml'',
      cf_paths = \<lparr>pe_normalize = (\<lambda>p. p), pe_sep = ''/''\<rparr>\<rparr>"

definition example_kernel :: policy_kernel where
  "example_kernel =
     \<lparr>pk_config = example_config,
      pk_approval = \<lparr>ap_config = cf_approval example_config,
        ap_requiring = [''write_files'', ''apply_patch'', ''run_command''], ap_preview = [],
        ap_never = [''apply_patch'']\<rparr>\<rparr>"

definition example_request :: "str \<Rightarrow> str list \<Rightarrow> bool \<Rightarrow> str \<Rightarrow> policy_resolve_request" where
  "example_request task acts ro path =
     \<lparr>rq_request_id = None,
      rq_intent = \<lparr>in_intent_type = ''unknown'', in_requires_task = True, in_requires_workspace = True\<rparr>,
      rq_task = \<lparr>tc_task_type = task, tc_requested_actions = acts, tc_read_only = ro\<rparr>,
      rq_workspace = \<lparr>wi_path = Some path, wi_declared = True\<rparr>, rq_role_id = ''planner'',
      rq_constraints = \<lparr>uc_read_only = False, uc_no_write = False, uc_no_shell = False,
        uc_no_network = False\<rparr>\<rparr>"

text \<open>The stages of start-up on the example; the equality of kernels itself is not executable,
  because the configuration holds the path functions of the environment.\<close>

lemma example_stages:
  "case action_registry_validate (cf_actions example_config) of Inl _ \<Rightarrow> False | Inr _ \<Rightarrow> True"
  "capability_validate (cf_capabilities example_config) = Inr ()"
  "approval_policy_validate (cf_actions example_config) (cf_approval example_config) =
     Inr (pk_approval example_kernel)"
  "role_registry_validate (cf_actions example_config) (cf_roles example_config) = Inr ()"
  "precedence_validate (cf_precedence example_config) = Inr ()"
  by code_simp+

lemma example_kernel_init: "policy_kernel_init example_config = Inr example_kernel"
  using example_stages
  by (auto simp: policy_kernel_init_def example_kernel_def split: sum.splits)

lemma example_role_known: "map_of (cf_roles example_config) ''planner'' = Some example_role"
  by code_simp

section \<open>Properties\<close>

lemma resolve_unique:
  assumes "policy_kernel_init cf = Inr k" and "map_of (cf_roles cf) (rq_role_id rq) = Some r"
    and "policy_resolve k uid rq = Inr d"
  shows "set (pd_denied_actions d) =
      unknown_actions cf rq \<union> {a \<in> known_actions cf rq. denies k rq a} \<union> task_type_denied cf rq"
    and "set (pd_allowed_actions d) =
      {a \<in> known_actions cf rq. \<not> denies k rq a \<and> \<not> approval_needed k rq a}"
    and "set (pd_approval_required_for d) =
      {a \<in> known_actions cf rq. \<not> denies k rq a \<and> approval_needed k rq a}"
    and "pd_safe_to_preview d = (pd_status d \<in> {''allowed'', ''needs_approval''})"
    and "pd_status d =
      (if wp_needs_clarification (kernel_workspace k rq) then ''needs_clarification''
       else if wp_blocked (kernel_workspace k rq) \<or> unknown_actions cf rq \<noteq> {} \<or>
               known_actions cf rq \<inter> set (pd_denied_actions d) \<noteq> {} then ''denied''
       else if pd_approval_required_for d \<noteq> [] then ''needs_approval'' else ''allowed'')"
    and "pd_safe_to_execute d \<longleftrightarrow>
      pd_status d = ''allowed'' \<and> known_actions cf rq \<noteq> {} \<and>
      known_actions cf rq = set (pd_allowed_actions d) \<and> pd_approval_required_for d = [] \<and>
      (\<forall>a\<in>known_actions cf rq. \<not> never_auto_execute (cf_actions cf) (pk_approval k) a)"
proof -
  obtain d' ctx p where res: "policy_resolve k uid rq = Inr d'" and
    ctx: "set (pc_normalized_actions ctx) = known_actions cf rq"
      "set (pc_unknown_actions ctx) = unknown_actions cf rq" and
    sets: "set (pd_denied_actions d') =
      unknown_actions cf rq \<union> {a \<in> known_actions cf rq. denies k rq a} \<union> task_type_denied cf rq"
      "set (pd_allowed_actions d') =
      {a \<in> known_actions cf rq. \<not> denies k rq a \<and> \<not> approval_needed k rq a}"
      "set (pd_approval_required_for d') =
      {a \<in> known_actions cf rq. \<not> denies k rq a \<and> approval_needed k rq a}" and
    lists: "pd_denied_actions d' = eff_denied_actions p"
      "pd_approval_required_for d' = eff_approval_required_for p" and
    status: "pd_status d' = kernel_status (kernel_workspace k rq) ctx p" and
    preview: "pd_safe_to_preview d' = (pd_status d' \<in> {''allowed'', ''needs_approval''})" and
    execute: "pd_safe_to_execute d' = safe_to_execute k (pd_status d') (pc_normalized_actions ctx)
       (pd_allowed_actions d') (pd_approval_required_for d')"
    by (rule policy_resolve_refines [OF assms(1,2)])
  have d: "d' = d" using res assms(3) by simp
  note d_facts = sets lists status preview execute
  have un: "pc_unknown_actions ctx \<noteq> [] \<longleftrightarrow> unknown_actions cf rq \<noteq> {}"
    and kn: "pc_normalized_actions ctx \<noteq> [] \<longleftrightarrow> known_actions cf rq \<noteq> {}"
    using ctx by auto
  show "set (pd_denied_actions d) =
      unknown_actions cf rq \<union> {a \<in> known_actions cf rq. denies k rq a} \<union> task_type_denied cf rq"
    and "set (pd_allowed_actions d) =
      {a \<in> known_actions cf rq. \<not> denies k rq a \<and> \<not> approval_needed k rq a}"
    and "set (pd_approval_required_for d) =
      {a \<in> known_actions cf rq. \<not> denies k rq a \<and> approval_needed k rq a}"
    and "pd_safe_to_preview d = (pd_status d \<in> {''allowed'', ''needs_approval''})"
    using d_facts d by simp_all
  show "pd_status d =
      (if wp_needs_clarification (kernel_workspace k rq) then ''needs_clarification''
       else if wp_blocked (kernel_workspace k rq) \<or> unknown_actions cf rq \<noteq> {} \<or>
               known_actions cf rq \<inter> set (pd_denied_actions d) \<noteq> {} then ''denied''
       else if pd_approval_required_for d \<noteq> [] then ''needs_approval'' else ''allowed'')"
    using status lists un unfolding d by (auto simp: kernel_status_def list_ex_iff ctx(1))
  show "pd_safe_to_execute d \<longleftrightarrow>
      pd_status d = ''allowed'' \<and> known_actions cf rq \<noteq> {} \<and>
      known_actions cf rq = set (pd_allowed_actions d) \<and> pd_approval_required_for d = [] \<and>
      (\<forall>a\<in>known_actions cf rq. \<not> never_auto_execute (cf_actions cf) (pk_approval k) a)"
    using execute kn policy_kernel_initD(1) [OF assms(1)] unfolding d
    by (auto simp: safe_to_execute_def list_ex_iff ctx(1))
qed

text \<open>
  C2. The decision of the kernel, as sets. On a kernel whose configuration loaded and for a known
  role, \<open>resolve\<close> returns a decision (it raises nothing), and its three action lists are exactly:
  denied, the requested names the registry does not know, the known ones the capability gate denies
  and those the type of the task denies; approval required and allowed, the remaining known ones that
  need, respectively do not need, an approval.
\<close>

theorem policy_resolve_contract:
  assumes "policy_kernel_init cf = Inr k" and "map_of (cf_roles cf) (rq_role_id rq) = Some r"
  shows "\<exists>d. policy_resolve k uid rq = Inr d \<and>
    set (pd_denied_actions d) =
      unknown_actions cf rq \<union> {a \<in> known_actions cf rq. denies k rq a} \<union> task_type_denied cf rq \<and>
    set (pd_allowed_actions d) =
      {a \<in> known_actions cf rq. \<not> denies k rq a \<and> \<not> approval_needed k rq a} \<and>
    set (pd_approval_required_for d) =
      {a \<in> known_actions cf rq. \<not> denies k rq a \<and> approval_needed k rq a}"
proof -
  obtain d where d: "policy_resolve k uid rq = Inr d"
    by (rule policy_resolve_refines [OF assms])
  show ?thesis using d resolve_unique [OF assms d] by blast
qed

lemma example_resolve_contract_witness:
  "\<exists>d. policy_resolve example_kernel ''1''
       (example_request ''filesystem_write'' [''read_file'', ''write_file'', ''erase_disk''] False ''/work'') = Inr d \<and>
     set (pd_denied_actions d) = {''erase_disk''} \<and> set (pd_allowed_actions d) = {''read_files''} \<and>
     set (pd_approval_required_for d) = {''write_files''}"
proof -
  let ?rq = "example_request ''filesystem_write'' [''read_file'', ''write_file'', ''erase_disk''] False ''/work''"
  have "map_of (cf_roles example_config) (rq_role_id ?rq) = Some example_role"
    by (simp add: example_request_def example_role_known)
  from policy_resolve_contract [OF example_kernel_init this, of "''1''"]
  obtain d where d: "policy_resolve example_kernel ''1'' ?rq = Inr d" by blast
  have "(case policy_resolve example_kernel ''1'' ?rq of Inl _ \<Rightarrow> False
      | Inr d \<Rightarrow> set (pd_denied_actions d) = {''erase_disk''} \<and>
          set (pd_allowed_actions d) = {''read_files''} \<and>
          set (pd_approval_required_for d) = {''write_files''})"
    by code_simp
  with d show ?thesis by simp
qed

text \<open>
  C6. \<open>safe_to_execute\<close> is sound: when the kernel says a request can run without a human, every
  requested name is a registered action, none of them is denied by a capability, needs an approval or is
  on the never-auto-execute list, nothing is denied or awaits approval among them, and the workspace is
  neither missing where it is needed nor under a protected root.
\<close>

theorem safe_to_execute_sound:
  assumes "policy_kernel_init cf = Inr k" and "map_of (cf_roles cf) (rq_role_id rq) = Some r"
    and "policy_resolve k uid rq = Inr d" and "pd_safe_to_execute d"
  shows "tc_requested_actions (rq_task rq) \<noteq> [] \<and>
    (\<forall>x\<in>set (tc_requested_actions (rq_task rq)). \<exists>a. normalize_action (cf_actions cf) x = Inr a \<and>
       a \<in> set (pd_allowed_actions d) \<and> a \<notin> set (pd_denied_actions d) \<and>
       \<not> denies k rq a \<and> \<not> approval_needed k rq a \<and>
       \<not> never_auto_execute (cf_actions cf) (pk_approval k) a) \<and>
    \<not> wp_blocked (kernel_workspace k rq) \<and> \<not> wp_needs_clarification (kernel_workspace k rq)"
proof -
  note u = resolve_unique [OF assms(1,2,3)]
  from assms(4) u(6) have st: "pd_status d = ''allowed''" and ne: "known_actions cf rq \<noteq> {}"
    and eq: "known_actions cf rq = set (pd_allowed_actions d)"
    and never: "\<forall>a\<in>known_actions cf rq. \<not> never_auto_execute (cf_actions cf) (pk_approval k) a" by auto
  from st u(5) have ws: "\<not> wp_blocked (kernel_workspace k rq)"
    "\<not> wp_needs_clarification (kernel_workspace k rq)" and unk: "unknown_actions cf rq = {}"
    and den: "known_actions cf rq \<inter> set (pd_denied_actions d) = {}"
    by (auto split: if_splits)
  have "\<exists>a. normalize_action (cf_actions cf) x = Inr a" if "x \<in> set (tc_requested_actions (rq_task rq))" for x
    using that unk by (auto simp: unknown_actions_def action_exists_iff)
  moreover have "a \<in> known_actions cf rq"
    if "x \<in> set (tc_requested_actions (rq_task rq))" "normalize_action (cf_actions cf) x = Inr a" for x a
    using that by (auto simp: known_actions_def)
  moreover have "tc_requested_actions (rq_task rq) \<noteq> []" using ne by (auto simp: known_actions_def)
  ultimately show ?thesis using ws den eq never u(2) by blast
qed

lemma example_safe_to_execute_witness:
  "\<exists>a. normalize_action example_actions ''rag_query'' = Inr a \<and>
     \<not> denies example_kernel (example_request ''readonly_analysis'' [''read_file'', ''rag_query''] True ''/work'') a"
proof -
  let ?rq = "example_request ''readonly_analysis'' [''read_file'', ''rag_query''] True ''/work''"
  have role: "map_of (cf_roles example_config) (rq_role_id ?rq) = Some example_role"
    by (simp add: example_request_def example_role_known)
  have "(case policy_resolve example_kernel ''1'' ?rq of Inl _ \<Rightarrow> False | Inr d \<Rightarrow> pd_safe_to_execute d)"
    by code_simp
  then obtain d where d: "policy_resolve example_kernel ''1'' ?rq = Inr d" "pd_safe_to_execute d"
    by (auto split: sum.splits)
  from safe_to_execute_sound [OF example_kernel_init role d]
  have "\<exists>a. normalize_action (cf_actions example_config) ''rag_query'' = Inr a \<and>
       \<not> denies example_kernel ?rq a"
    by (auto simp: example_request_def)
  then show ?thesis by (simp only: example_config_def policy_config.simps)
qed

text \<open>
  A side effect is never allowed silently: an action the decision lists as allowed that has a side
  effect carries a written exception in the registry; without one it is denied or awaits approval.
\<close>

theorem side_effect_not_silent:
  assumes "policy_kernel_init cf = Inr k" and "map_of (cf_roles cf) (rq_role_id rq) = Some r"
    and "policy_resolve k uid rq = Inr d" and "a \<in> set (pd_allowed_actions d)"
    and "get_action (cf_actions cf) a = Inr def" and "act_side_effect def"
  shows "opt_truthy (act_approval_exception_reason def) \<and> \<not> act_requires_approval def"
proof -
  note k = policy_kernel_initD [OF assms(1)]
  from resolve_unique(2) [OF assms(1,2,3)] assms(4)
  have kn: "a \<in> known_actions cf rq" and na: "\<not> approval_needed k rq a" by auto
  then have norm: "normalize_action (cf_actions cf) a = Inr a"
    by (auto simp: known_actions_def dest: normalize_action_canonical)
  have "requires_approval (cf_actions cf) (pk_approval k) a =
      Inr (a \<in> set (ap_requiring (pk_approval k)) \<or> act_requires_approval def)"
    using norm assms(5) by (simp add: requires_approval_def)
  with na have no: "\<not> act_requires_approval def" by (auto simp: approval_needed_def k(1))
  obtain aliases where v: "register_actions (cf_actions cf) [] = Inr aliases"
    using k(2) by (auto simp: action_registry_validate_def elim: registry_okE)
  from get_action_canonical [OF norm] assms(5) have "(a, def) \<in> set (cf_actions cf)" by auto
  from register_actions_side_effects [OF v this assms(6)] no show ?thesis by simp
qed

lemma example_side_effect_witness:
  "opt_truthy (act_approval_exception_reason ((example_action [] ''artifact'' True False ''artifact_write'')
         \<lparr>act_approval_exception_reason := Some ''append_only_log''\<rparr>))"
proof -
  let ?rq = "example_request ''artifact_generation'' [''record_progress''] False ''/work''"
  let ?def = "(example_action [] ''artifact'' True False ''artifact_write'')
         \<lparr>act_approval_exception_reason := Some ''append_only_log''\<rparr>"
  have role: "map_of (cf_roles example_config) (rq_role_id ?rq) = Some example_role"
    by (simp add: example_request_def example_role_known)
  have "(case policy_resolve example_kernel ''1'' ?rq of Inl _ \<Rightarrow> False
      | Inr d \<Rightarrow> ''record_progress'' \<in> set (pd_allowed_actions d))"
    by code_simp
  then obtain d where d: "policy_resolve example_kernel ''1'' ?rq = Inr d"
    "''record_progress'' \<in> set (pd_allowed_actions d)"
    by (auto split: sum.splits)
  have "get_action (cf_actions example_config) ''record_progress'' = Inr ?def" by code_simp
  moreover have "act_side_effect ?def" by code_simp
  ultimately show ?thesis using side_effect_not_silent [OF example_kernel_init role d] by blast
qed

text \<open>
  C10. Read-only and no-write are absolute: under either constraint a requested action whose
  capability is write-like is denied, never allowed or offered for approval, and the request is not
  safe to execute or to preview, whatever the role and the approval policy say.
\<close>

theorem read_only_denies_writes:
  assumes "policy_kernel_init cf = Inr k" and "map_of (cf_roles cf) (rq_role_id rq) = Some r"
    and "policy_resolve k uid rq = Inr d"
    and "tc_read_only (rq_task rq) \<or> uc_read_only (rq_constraints rq) \<or> uc_no_write (rq_constraints rq)"
    and "x \<in> set (tc_requested_actions (rq_task rq))" and "get_action (cf_actions cf) x = Inr def"
    and "act_capability def = Some c" and "c \<in> set WRITE_LIKE_CAPABILITIES"
  shows "\<exists>a. normalize_action (cf_actions cf) x = Inr a \<and> a \<in> set (pd_denied_actions d) \<and>
    a \<notin> set (pd_allowed_actions d) \<and> a \<notin> set (pd_approval_required_for d) \<and>
    pd_status d \<in> {''denied'', ''needs_clarification''} \<and>
    \<not> pd_safe_to_execute d \<and> \<not> pd_safe_to_preview d"
proof -
  note k = policy_kernel_initD [OF assms(1)] and u = resolve_unique [OF assms(1,2,3)]
  obtain a where a: "normalize_action (cf_actions cf) x = Inr a"
    using assms(6) get_action_Inr_iff by blast
  then have kn: "a \<in> known_actions cf rq" using assms(5) by (auto simp: known_actions_def)
  have "get_action (cf_actions cf) a = Inr def" using get_action_normalized [OF a] assms(6) by simp
  then have den: "denies k rq a"
    using assms(4,7,8)
    by (auto simp: denies_def gate_denies_def k(1) gate_deny_reason_def kernel_constraints_def)
  with kn u(1,2,3) have "a \<in> set (pd_denied_actions d)" "a \<notin> set (pd_allowed_actions d)"
    "a \<notin> set (pd_approval_required_for d)" by auto
  moreover from this kn u(5) have "pd_status d \<in> {''denied'', ''needs_clarification''}" by auto
  ultimately show ?thesis using a u(4,6) by auto
qed

lemma example_read_only_witness:
  "\<exists>d. policy_resolve example_kernel ''1''
     (example_request ''readonly_analysis'' [''read_file'', ''write_file''] True ''/work'') = Inr d \<and>
     ''write_files'' \<in> set (pd_denied_actions d) \<and> \<not> pd_safe_to_execute d"
proof -
  let ?rq = "example_request ''readonly_analysis'' [''read_file'', ''write_file''] True ''/work''"
  let ?def = "example_action [''write_file''] ''filesystem_write'' True True ''write_workspace''"
  have role: "map_of (cf_roles example_config) (rq_role_id ?rq) = Some example_role"
    by (simp add: example_request_def example_role_known)
  obtain d where d: "policy_resolve example_kernel ''1'' ?rq = Inr d"
    by (rule policy_resolve_refines [OF example_kernel_init role])
  have norm: "normalize_action (cf_actions example_config) ''write_file'' = Inr ''write_files''"
    and get: "get_action (cf_actions example_config) ''write_file'' = Inr ?def" by code_simp+
  have "act_capability ?def = Some ''write_workspace''" by (simp add: example_action_def)
  from read_only_denies_writes [OF example_kernel_init role d _ _ get this]
  have "\<exists>a. normalize_action (cf_actions example_config) ''write_file'' = Inr a \<and>
      a \<in> set (pd_denied_actions d) \<and> \<not> pd_safe_to_execute d"
    by (auto simp: example_request_def WRITE_LIKE_CAPABILITIES_def)
  then show ?thesis using d norm by auto
qed

text \<open>
  Protected roots dominate: when the declared workspace resolves to or below a protected root
  that blocks tasks, the decision is denied, every known requested action is denied and none is
  allowed or offered for approval, and nothing may be previewed or executed.
\<close>

theorem protected_root_denies:
  assumes "policy_kernel_init cf = Inr k" and "map_of (cf_roles cf) (rq_role_id rq) = Some r"
    and "policy_resolve k uid rq = Inr d"
    and "wi_path (rq_workspace rq) = Some path" and "path \<noteq> []"
    and "Some pr \<in> set (cf_protected cf)" and "pr_matches (cf_paths cf) path pr" and "pr_blocks pr"
  shows "pd_status d = ''denied'' \<and> pd_allowed_actions d = [] \<and> pd_approval_required_for d = [] \<and>
    known_actions cf rq \<subseteq> set (pd_denied_actions d) \<and>
    \<not> pd_safe_to_execute d \<and> \<not> pd_safe_to_preview d"
proof -
  note k = policy_kernel_initD [OF assms(1)] and u = resolve_unique [OF assms(1,2,3)]
  have blk: "wp_blocked (kernel_workspace k rq)"
    using assms(4-8) unfolding kernel_workspace_def workspace_blocked_iff k(1) by blast
  have "\<not> wp_needs_clarification (kernel_workspace k rq)"
    using assms(4,5) unfolding kernel_workspace_def workspace_clarification_iff by simp
  with blk u(5) have st: "pd_status d = ''denied''" by simp
  have den: "denies k rq a" if "a \<in> known_actions cf rq" for a
  proof -
    from that obtain e where "get_action (cf_actions cf) a = Inr e"
      unfolding known_actions_def using get_action_canonical by blast
    then show ?thesis
      using blk unfolding denies_def k(1) by (auto intro: gate_denies_blocked simp: kernel_constraints_def)
  qed
  then have "set (pd_allowed_actions d) = {}" "set (pd_approval_required_for d) = {}"
    "known_actions cf rq \<subseteq> set (pd_denied_actions d)"
    using u(1,2,3) by auto
  then show ?thesis using st u(4,6) by simp
qed

lemma example_protected_witness:
  "\<exists>d. policy_resolve example_kernel ''1''
     (example_request ''readonly_analysis'' [''read_file''] True ''/system/bin'') = Inr d \<and>
     pd_status d = ''denied'' \<and> pd_allowed_actions d = []"
proof -
  let ?rq = "example_request ''readonly_analysis'' [''read_file''] True ''/system/bin''"
  let ?pr = "\<lparr>pr_path = Some ''/system'', pr_block_task = None, pr_reason = None\<rparr>"
  have role: "map_of (cf_roles example_config) (rq_role_id ?rq) = Some example_role"
    by (simp add: example_request_def example_role_known)
  obtain d where d: "policy_resolve example_kernel ''1'' ?rq = Inr d"
    by (rule policy_resolve_refines [OF example_kernel_init role])
  have "Some ?pr \<in> set (cf_protected example_config)" by (simp add: example_config_def)
  moreover have "pr_matches (cf_paths example_config) ''/system/bin'' ?pr" by code_simp
  moreover have "pr_blocks ?pr" by code_simp
  ultimately show ?thesis
    using protected_root_denies [OF example_kernel_init role d, of "''/system/bin''" ?pr] d
    by (simp add: example_request_def)
qed

text \<open>
  The three lists of a decision: every known requested action is in one of them, allowed and
  approval-required never overlap, the allowed list overlaps the denied list, and so does the
  approval list, at most in \<open>apply_patch\<close> under an artifact-generation task, and a decision whose
  status is allowed or needs approval has no such overlap.
\<close>

theorem decision_partition:
  assumes "policy_kernel_init cf = Inr k" and "map_of (cf_roles cf) (rq_role_id rq) = Some r"
    and "policy_resolve k uid rq = Inr d"
  defines "allowed \<equiv> set (pd_allowed_actions d)" and "denied \<equiv> set (pd_denied_actions d)"
    and "approval \<equiv> set (pd_approval_required_for d)"
  shows "known_actions cf rq \<subseteq> allowed \<union> approval \<union> denied \<and> allowed \<inter> approval = {} \<and>
    (allowed \<union> approval) \<inter> denied \<subseteq>
      (if tc_task_type (rq_task rq) = ''artifact_generation'' then {''apply_patch''} else {}) \<and>
    (pd_status d \<in> {''allowed'', ''needs_approval''} \<longrightarrow> (allowed \<union> approval) \<inter> denied = {})"
proof -
  note u = resolve_unique [OF assms(1,2,3)]
  have "(allowed \<union> approval) \<inter> denied \<subseteq> known_actions cf rq \<inter> task_type_denied cf rq"
    using u(1,2,3) known_unknown_disjoint [of _ cf rq] unfolding allowed_def denied_def approval_def by auto
  moreover have "known_actions cf rq \<inter> task_type_denied cf rq \<subseteq>
      (if tc_task_type (rq_task rq) = ''artifact_generation'' then {''apply_patch''} else {})"
    by (auto simp: task_type_denied_def)
  moreover have "known_actions cf rq \<inter> denied = {}" if "pd_status d \<in> {''allowed'', ''needs_approval''}"
    using that u(5) unfolding denied_def by (auto split: if_splits)
  moreover have "known_actions cf rq \<subseteq> allowed \<union> approval \<union> denied" "allowed \<inter> approval = {}"
    "allowed \<union> approval \<subseteq> known_actions cf rq"
    using u(1,2,3) unfolding allowed_def denied_def approval_def by auto
  ultimately show ?thesis by blast
qed

lemma example_partition_witness:
  "\<exists>d. policy_resolve example_kernel ''1''
     (example_request ''artifact_generation'' [''apply_patch''] False ''/work'') = Inr d \<and>
     set (pd_approval_required_for d) \<inter> set (pd_denied_actions d) = {''apply_patch''} \<and>
     (set (pd_allowed_actions d) \<union> set (pd_approval_required_for d)) \<inter> set (pd_denied_actions d)
       \<subseteq> {''apply_patch''} \<and> pd_status d = ''denied''"
proof -
  let ?rq = "example_request ''artifact_generation'' [''apply_patch''] False ''/work''"
  have role: "map_of (cf_roles example_config) (rq_role_id ?rq) = Some example_role"
    by (simp add: example_request_def example_role_known)
  obtain d where d: "policy_resolve example_kernel ''1'' ?rq = Inr d"
    by (rule policy_resolve_refines [OF example_kernel_init role])
  have "(case policy_resolve example_kernel ''1'' ?rq of Inl _ \<Rightarrow> False
      | Inr d \<Rightarrow> pd_approval_required_for d = [''apply_patch''] \<and> pd_denied_actions d = [''apply_patch''] \<and>
          pd_status d = ''denied'')"
    by code_simp
  then show ?thesis
    using d decision_partition [OF example_kernel_init role d] by (simp add: example_request_def)
qed

text \<open>
  Aliases: in a registry that loads, a name or alias stands for exactly one action, that action
  is registered and is its own canonical name, and every registered name and alias resolves.
\<close>

theorem alias_resolution:
  assumes "registry_ok actions"
  shows "(normalize_action actions x = Inr c \<longleftrightarrow>
      (\<exists>d. (c, d) \<in> set actions \<and> (x = c \<or> x \<in> set (act_aliases d)))) \<and>
    (normalize_action actions x = Inr c \<longrightarrow>
      normalize_action actions c = Inr c \<and> get_action actions x = get_action actions c \<and>
      (\<exists>d. get_action actions c = Inr d))"
  using normalize_action_iff [OF assms] normalize_action_canonical get_action_normalized
    get_action_canonical by blast

lemma example_alias_witness: "normalize_action example_actions ''write_file'' = Inr ''write_files''"
proof -
  have "registry_ok example_actions" by code_simp
  from alias_resolution [OF this, of "''write_file''" "''write_files''"]
  show ?thesis by (simp add: example_actions_def example_action_def)
qed

end
