(* ===== verification/Canonical_Policy.thy ===== *)
theory Canonical_Policy
  imports Policy_Kernel Executable_Plan
begin

text \<open>
  The canonical permission of an operation: \<open>CanonicalPolicyService\<close> and \<open>EffectivePolicyDecisionService\<close>
  (\<open>services/governance/policy/\<close>) over the schemas of \<open>schemas/governance/lifecycle.py\<close>. Every policy vocabulary is
  normalised into one permission; the facets that different authorities contribute are combined into a decision;
  the decision of the policy kernel (\<open>Policy_Kernel\<close>) is adapted.

  \<open>casefold\<close> is \<open>ascii_fold\<close>: the text is compared with ASCII words only. The risk level and the trace of a contract
  are left out: nothing here reads them.
\<close>

section \<open>Data\<close>

datatype permission = ALLOWED | ASK | DENIED | NEEDS_CLARIFICATION | INVALID | EXPIRED | STALE

fun permission_value_text :: "permission \<Rightarrow> str" where
  "permission_value_text ALLOWED = ''allowed''"
| "permission_value_text ASK = ''ask''"
| "permission_value_text DENIED = ''denied''"
| "permission_value_text NEEDS_CLARIFICATION = ''needs_clarification''"
| "permission_value_text INVALID = ''invalid''"
| "permission_value_text EXPIRED = ''expired''"
| "permission_value_text STALE = ''stale''"

record operation_contract =
  oc_operation_id :: str
  oc_session_id :: "str option"
  oc_source_channel :: str
  oc_intent_type :: str
  oc_operation_type :: str
  oc_contract_type :: str
  oc_runtime_profile :: str
  oc_requires_task :: bool
  oc_read_only :: bool
  oc_artifact_generation :: bool
  oc_workspace_mutation :: bool
  oc_requested_actions :: "str list"
  oc_target_paths :: "str list"
  oc_workspace_path :: "str option"

record policy_facet =
  fc_facet :: str
  fc_permission :: permission
  fc_source :: str
  fc_reason_code :: str
  fc_capability :: "str option"
  fc_resource_id :: "str option"
  fc_requires_human_authority :: bool
  fc_details :: "json dict"
  fc_trace :: "json list"

record canonical_decision =
  cd_permission :: permission
  cd_allowed_actions :: "str list"
  cd_ask_actions :: "str list"
  cd_denied_actions :: "str list"
  cd_reason_code :: str
  cd_reason :: str
  cd_source :: str
  cd_requires_approval :: bool
  cd_capability :: "str option"
  cd_resource_id :: "str option"
  cd_facets :: "policy_facet list"
  cd_trace :: "json list"

section \<open>Normalisation\<close>

definition ASK_VALUES :: "str list" where
  "ASK_VALUES = [''ask'', ''needs_approval'', ''approval_required'', ''approval_required_for'', ''waiting_input'']"

definition DENIED_VALUES :: "str list" where
  "DENIED_VALUES = [''denied'', ''blocked'', ''forbidden'', ''not_allowed'']"

definition ALLOWED_VALUES :: "str list" where
  "ALLOWED_VALUES = [''allowed'', ''permit'', ''permitted'', ''ok'']"

definition CLARIFICATION_VALUES :: "str list" where
  "CLARIFICATION_VALUES = [''needs_clarification'', ''clarification_required'', ''workspace_required'']"

definition WRITE_ACTIONS :: "str list" where
  "WRITE_ACTIONS =
     [''write_files'', ''write_file'', ''create_file'', ''modify_file'', ''apply_patch'', ''project_generation'',
      ''create_directory'', ''run_command'', ''run_tests'', ''delete'', ''delete_file'', ''move'', ''move_file'', ''format'',
      ''install'', ''build'', ''clean'', ''grant_shell'', ''grant_write'']"

definition canonical_normalize :: "(json \<Rightarrow> str) \<Rightarrow> json \<Rightarrow> permission" where
  "canonical_normalize render v =
     (let text = ascii_fold (py_strip (py_str render (json_or v (JStr []))))
      in if text \<in> set ASK_VALUES then ASK
         else if text \<in> set DENIED_VALUES then DENIED
         else if text \<in> set CLARIFICATION_VALUES then NEEDS_CLARIFICATION
         else if text = ''expired'' then EXPIRED
         else if text \<in> {''stale'', ''superseded''} then STALE
         else if text \<in> set ALLOWED_VALUES \<or> text = [] then ALLOWED
         else INVALID)"

section \<open>Facets\<close>

definition human_authority_satisfies :: "policy_facet list \<Rightarrow> str option \<Rightarrow> bool" where
  "human_authority_satisfies facets capability \<longleftrightarrow>
     list_ex (\<lambda>f. fc_facet f = ''human_authority'' \<and> fc_permission f = ALLOWED \<and>
       (capability = None \<or> fc_capability f \<in> {None, capability})) facets"

definition facet_json :: "policy_facet \<Rightarrow> json" where
  "facet_json f = JObj
     [(''facet'', JStr (fc_facet f)), (''permission'', JStr (permission_value_text (fc_permission f))),
      (''source'', JStr (fc_source f)), (''reason_code'', JStr (fc_reason_code f))]"

text \<open>\<open>a or b\<close> on optional strings.\<close>

definition opt_or :: "str option \<Rightarrow> str option \<Rightarrow> str option" where
  "opt_or a b = (if opt_truthy a then a else b)"

definition facet_decision ::
  "operation_contract \<Rightarrow> policy_facet list \<Rightarrow> str option \<Rightarrow> str option \<Rightarrow> permission \<Rightarrow> str \<Rightarrow> str \<Rightarrow>
     str list \<Rightarrow> str list \<Rightarrow> str list \<Rightarrow> bool \<Rightarrow> canonical_decision" where
  "facet_decision contract facets capability resource permission code reason allowed ask denied approval =
     \<lparr>cd_permission = permission, cd_allowed_actions = allowed, cd_ask_actions = ask, cd_denied_actions = denied,
      cd_reason_code = code, cd_reason = reason, cd_source = ''canonical_policy'', cd_requires_approval = approval,
      cd_capability = capability, cd_resource_id = resource, cd_facets = facets,
      cd_trace = [JObj [(''stage'', JStr ''canonical_policy_facets''), (''operation_id'', JStr (oc_operation_id contract)),
        (''capability'', jopt capability), (''resource_id'', jopt resource), (''facets'', JList (map facet_json facets))]]\<rparr>"

definition HARD_ORDER :: "(permission \<times> str) list" where
  "HARD_ORDER = [(INVALID, ''invalid_operation''), (EXPIRED, ''approval_expired''), (STALE, ''approval_stale''),
     (DENIED, ''policy_denied'')]"

definition unresolved_asks :: "policy_facet list \<Rightarrow> str option \<Rightarrow> policy_facet list" where
  "unresolved_asks facets capability =
     filter (\<lambda>f. fc_permission f = ASK \<and> \<not> (fc_requires_human_authority f \<and>
       human_authority_satisfies facets (opt_or (fc_capability f) capability))) facets"

definition resolve_facets ::
  "operation_contract \<Rightarrow> policy_facet list \<Rightarrow> str option \<Rightarrow> str option \<Rightarrow> canonical_decision" where
  "resolve_facets contract facets capability resource =
     (let actions = py_unique (oc_requested_actions contract);
          decide = facet_decision contract facets capability resource;
          matching = (\<lambda>p. filter (\<lambda>f. fc_permission f = p) facets)
      in case find (\<lambda>(p, _). matching p \<noteq> []) HARD_ORDER of
           Some (p, code) \<Rightarrow>
             decide DENIED code (''Canonical policy facet denied execution: '' @ fc_facet (hd (matching p)) @ ''.'')
               [] [] actions False
         | None \<Rightarrow>
             (case matching NEEDS_CLARIFICATION of
                f # _ \<Rightarrow> decide NEEDS_CLARIFICATION ''needs_clarification''
                  (''Canonical policy facet needs clarification: '' @ fc_facet f @ ''.'') [] actions [] False
              | [] \<Rightarrow>
                  (case unresolved_asks facets capability of
                     f # _ \<Rightarrow> decide ASK ''approval_required''
                       (''Canonical policy facet requires approval: '' @ fc_facet f @ ''.'') [] actions [] True
                   | [] \<Rightarrow> decide ALLOWED ''none''
                       ''All canonical policy facets allow execution or have satisfied requirements.'' actions [] [] False)))"

section \<open>Explicit decisions\<close>

definition plain_decision ::
  "permission \<Rightarrow> str \<Rightarrow> str \<Rightarrow> str list \<Rightarrow> str list \<Rightarrow> str list \<Rightarrow> bool \<Rightarrow> json list \<Rightarrow> canonical_decision" where
  "plain_decision permission code reason allowed ask denied approval trace =
     \<lparr>cd_permission = permission, cd_allowed_actions = allowed, cd_ask_actions = ask, cd_denied_actions = denied,
      cd_reason_code = code, cd_reason = reason, cd_source = ''canonical_policy'', cd_requires_approval = approval,
      cd_capability = None, cd_resource_id = None, cd_facets = [], cd_trace = trace\<rparr>"

definition NON_EXECUTING :: "str list" where
  "NON_EXECUTING =
     [''conversation'', ''product_planning_readonly'', ''workspace_permission_list'', ''session_diagnostic'',
      ''workspace_analysis_readonly'', ''readonly_analysis'', ''workspace_fix_request'', ''capability_truth'']"

definition governed_readonly_execution :: "operation_contract \<Rightarrow> bool" where
  "governed_readonly_execution contract \<longleftrightarrow>
     oc_read_only contract \<and> oc_requires_task contract \<and> oc_artifact_generation contract \<and> \<not> oc_workspace_mutation contract"

definition canonical_resolve :: "(json \<Rightarrow> str) \<Rightarrow> operation_contract \<Rightarrow> json list \<Rightarrow> canonical_decision" where
  "canonical_resolve render contract explicit =
     (let decisions = map (canonical_normalize render) explicit;
          actions = py_unique (oc_requested_actions contract);
          trace = [JObj [(''stage'', JStr ''canonical_policy''), (''input_decisions'', jstrs (map (py_str render) explicit))]];
          deny = (\<lambda>code reason. plain_decision DENIED code reason [] [] actions False trace)
      in if INVALID \<in> set decisions then
           deny ''invalid_operation'' ''At least one upstream policy decision used an invalid permission vocabulary.''
         else if EXPIRED \<in> set decisions then deny ''approval_expired'' ''At least one upstream policy decision is expired.''
         else if STALE \<in> set decisions then deny ''approval_stale'' ''At least one upstream policy decision is stale.''
         else if DENIED \<in> set decisions then
           deny ''policy_denied'' ''At least one upstream policy decision denied the operation.''
         else if NEEDS_CLARIFICATION \<in> set decisions then
           plain_decision NEEDS_CLARIFICATION ''needs_clarification''
             ''The operation needs clarification before preview or execution.'' [] actions [] False []
         else if ASK \<in> set decisions then
           plain_decision ASK ''approval_required'' ''At least one upstream policy decision requires approval.''
             [] actions [] True []
         else if governed_readonly_execution contract then
           plain_decision ALLOWED ''none''
             ''Governed read-only observation and artifact generation are allowed without workspace mutation.'' actions [] [] False
             [JObj [(''stage'', JStr ''canonical_policy''), (''mode'', JStr ''governed_readonly_execution'')]]
         else if oc_operation_type contract \<in> set NON_EXECUTING then
           plain_decision ALLOWED ''readonly_or_planning'' ''Read-only or non-executing operation.'' [] [] [] False []
         else if decisions \<noteq> [] \<and> list_all (\<lambda>p. p = ALLOWED) decisions then
           plain_decision ALLOWED ''none'' ''All upstream policy decisions explicitly allow the operation.'' actions [] [] False []
         else if list_ex (\<lambda>a. a \<in> set WRITE_ACTIONS) actions then
           plain_decision ASK ''approval_required''
             ''Side-effect operation defaults to approval when no explicit allow is provided.'' [] actions [] True []
         else plain_decision ALLOWED ''none'' ''Operation is allowed by canonical default.'' actions [] [] False [])"

section \<open>The effective decision\<close>

definition effective_source :: "canonical_decision \<Rightarrow> canonical_decision" where
  "effective_source d = d\<lparr>cd_source := ''effective_policy_decision''\<rparr>"

definition effective_resolve :: "(json \<Rightarrow> str) \<Rightarrow> operation_contract \<Rightarrow> json list \<Rightarrow> canonical_decision" where
  "effective_resolve render contract explicit = effective_source (canonical_resolve render contract explicit)"

definition effective_resolve_facets ::
  "operation_contract \<Rightarrow> policy_facet list \<Rightarrow> str option \<Rightarrow> str option \<Rightarrow> canonical_decision" where
  "effective_resolve_facets contract facets capability resource =
     effective_source (resolve_facets contract facets capability resource)"

definition list_or :: "'a list \<Rightarrow> 'a list \<Rightarrow> 'a list" where
  "list_or a b = (if a = [] then b else a)"

definition adapted_trace :: "policy_decision \<Rightarrow> permission \<Rightarrow> json list" where
  "adapted_trace d p =
     [JObj [(''stage'', JStr ''effective_policy_decision''), (''source'', JStr ''PolicyDecision''),
        (''decision_id'', JStr (pd_decision_id d)), (''legacy_status'', JStr (pd_status d)),
        (''canonical_permission'', JStr (permission_value_text p)), (''safe_to_execute'', JBool (pd_safe_to_execute d)),
        (''safe_to_preview'', JBool (pd_safe_to_preview d))]]"

definition from_policy_decision :: "(json \<Rightarrow> str) \<Rightarrow> policy_decision \<Rightarrow> operation_contract option \<Rightarrow> canonical_decision" where
  "from_policy_decision render d contract =
     (let p = canonical_normalize render (JStr (pd_status d));
          requested = py_unique (case contract of None \<Rightarrow> [] | Some c \<Rightarrow> oc_requested_actions c);
          denied = py_unique (list_or (pd_denied_actions d) (eff_denied_actions (pd_effective_policy d)));
          allowed = py_unique (list_or (pd_allowed_actions d) (eff_allowed_actions (pd_effective_policy d)));
          approval = py_unique (list_or (pd_approval_required_for d) (eff_approval_required_for (pd_effective_policy d)));
          decide = (\<lambda>q code reason al as de ap.
            effective_source (plain_decision q code reason al as de ap (adapted_trace d p)))
      in case p of
           INVALID \<Rightarrow> decide DENIED ''invalid_operation'' ''Legacy policy decision used an invalid status.''
             [] [] (list_or denied requested) False
         | DENIED \<Rightarrow> decide DENIED ''policy_denied'' ''Legacy policy decision denied the operation.''
             [] [] (list_or denied requested) False
         | NEEDS_CLARIFICATION \<Rightarrow> decide NEEDS_CLARIFICATION ''needs_clarification''
             ''Legacy policy decision requires clarification.'' [] (list_or approval requested) [] False
         | ASK \<Rightarrow> decide ASK ''approval_required'' ''Legacy policy decision requires approval.''
             [] (list_or approval requested) [] True
         | EXPIRED \<Rightarrow> decide DENIED ''approval_expired'' ''Legacy policy decision is expired.''
             [] [] (list_or denied requested) False
         | STALE \<Rightarrow> decide DENIED ''approval_stale'' ''Legacy policy decision is stale.''
             [] [] (list_or denied requested) False
         | ALLOWED \<Rightarrow> decide ALLOWED ''none'' ''Legacy policy decision allows the operation.'' allowed [] [] False)"

definition contract_from_policy_request :: "str \<Rightarrow> policy_resolve_request \<Rightarrow> operation_contract" where
  "contract_from_policy_request uid rq =
     (let task_type = (if tc_task_type (rq_task rq) \<noteq> ''unknown'' then tc_task_type (rq_task rq)
                       else in_intent_type (rq_intent rq))
      in \<lparr>oc_operation_id = ''op_'' @ uid, oc_session_id = None, oc_source_channel = ''unknown'',
          oc_intent_type = in_intent_type (rq_intent rq), oc_operation_type = task_type, oc_contract_type = task_type,
          oc_runtime_profile = ''conversation'', oc_requires_task = False, oc_read_only = False,
          oc_artifact_generation = False, oc_workspace_mutation = False,
          oc_requested_actions = tc_requested_actions (rq_task rq), oc_target_paths = [], oc_workspace_path = wi_path (rq_workspace rq)\<rparr>)"

definition resolve_policy_request ::
  "policy_kernel \<Rightarrow> (json \<Rightarrow> str) \<Rightarrow> str \<Rightarrow> str \<Rightarrow> policy_resolve_request \<Rightarrow>
     config_error + (policy_decision \<times> canonical_decision)" where
  "resolve_policy_request k render uid op rq =
     obind (policy_resolve k uid rq) (\<lambda>d.
       Inr (d, from_policy_decision render d (Some (contract_from_policy_request op rq))))"

section \<open>Combining facets\<close>

text \<open>What a set of facets amounts to, in no particular order.\<close>

definition authority_in :: "policy_facet set \<Rightarrow> str option \<Rightarrow> bool" where
  "authority_in F capability \<longleftrightarrow>
     (\<exists>f \<in> F. fc_facet f = ''human_authority'' \<and> fc_permission f = ALLOWED \<and>
        (capability = None \<or> fc_capability f = None \<or> fc_capability f = capability))"

definition open_ask :: "policy_facet set \<Rightarrow> str option \<Rightarrow> policy_facet \<Rightarrow> bool" where
  "open_ask F capability f \<longleftrightarrow> fc_permission f = ASK \<and>
     \<not> (fc_requires_human_authority f \<and> authority_in F (opt_or (fc_capability f) capability))"

definition facet_verdict :: "policy_facet set \<Rightarrow> str option \<Rightarrow> permission" where
  "facet_verdict F capability =
     (if \<exists>f \<in> F. fc_permission f \<in> {INVALID, EXPIRED, STALE, DENIED} then DENIED
      else if \<exists>f \<in> F. fc_permission f = NEEDS_CLARIFICATION then NEEDS_CLARIFICATION
      else if \<exists>f \<in> F. open_ask F capability f then ASK
      else ALLOWED)"

lemma human_authority_iff: "human_authority_satisfies facets c \<longleftrightarrow> authority_in (set facets) c"
  by (auto simp: human_authority_satisfies_def authority_in_def list_ex_iff)

lemma unresolved_asks_Nil: "unresolved_asks facets c = [] \<longleftrightarrow> \<not> (\<exists>f \<in> set facets. open_ask (set facets) c f)"
  by (auto simp: unresolved_asks_def filter_empty_conv open_ask_def human_authority_iff)

lemma hard_order_None:
  "find (\<lambda>(p, _). filter (\<lambda>f. fc_permission f = p) facets \<noteq> []) HARD_ORDER = None \<longleftrightarrow>
   \<not> (\<exists>f \<in> set facets. fc_permission f \<in> {INVALID, EXPIRED, STALE, DENIED})"
  by (auto simp: HARD_ORDER_def filter_empty_conv)

lemma facet_decision_permission [simp]:
  "cd_permission (facet_decision c fs cap res p code reason al as de ap) = p"
  "cd_allowed_actions (facet_decision c fs cap res p code reason al as de ap) = al"
  "cd_facets (facet_decision c fs cap res p code reason al as de ap) = fs"
  by (simp_all add: facet_decision_def)

lemma effective_source_simps [simp]:
  "cd_permission (effective_source d) = cd_permission d" "cd_allowed_actions (effective_source d) = cd_allowed_actions d"
  "cd_ask_actions (effective_source d) = cd_ask_actions d" "cd_denied_actions (effective_source d) = cd_denied_actions d"
  "cd_requires_approval (effective_source d) = cd_requires_approval d" "cd_facets (effective_source d) = cd_facets d"
  "cd_reason_code (effective_source d) = cd_reason_code d"
  by (simp_all add: effective_source_def)

lemma resolve_facets_permission: "cd_permission (resolve_facets c facets cap res) = facet_verdict (set facets) cap"
proof (cases "find (\<lambda>(p, _). filter (\<lambda>f. fc_permission f = p) facets \<noteq> []) HARD_ORDER")
  case (Some a)
  then have "\<exists>f \<in> set facets. fc_permission f \<in> {INVALID, EXPIRED, STALE, DENIED}"
    using hard_order_None [of facets] unfolding Some by blast
  then have "facet_verdict (set facets) cap = DENIED" unfolding facet_verdict_def by simp
  with Some show ?thesis by (cases a) (simp add: resolve_facets_def Let_def)
next
  case None
  then have soft: "\<not> (\<exists>f \<in> set facets. fc_permission f \<in> {INVALID, EXPIRED, STALE, DENIED})" by (simp only: hard_order_None simp_thms)
  show ?thesis
  proof (cases "filter (\<lambda>f. fc_permission f = NEEDS_CLARIFICATION) facets")
    case (Cons f fs)
    have "f \<in> set (filter (\<lambda>f. fc_permission f = NEEDS_CLARIFICATION) facets)" unfolding Cons by simp
    then have "\<exists>f \<in> set facets. fc_permission f = NEEDS_CLARIFICATION" by auto
    with soft have "facet_verdict (set facets) cap = NEEDS_CLARIFICATION" unfolding facet_verdict_def by simp
    with None Cons show ?thesis by (simp add: resolve_facets_def Let_def)
  next
    case Nil
    then have "\<not> (\<exists>f \<in> set facets. fc_permission f = NEEDS_CLARIFICATION)" by (simp add: filter_empty_conv)
    with soft have "facet_verdict (set facets) cap = (if unresolved_asks facets cap = [] then ALLOWED else ASK)"
      unfolding facet_verdict_def unresolved_asks_Nil by simp
    with None Nil show ?thesis by (cases "unresolved_asks facets cap") (simp_all add: resolve_facets_def Let_def)
  qed
qed

text \<open>
  C21. The decision over facets is a function of the set of facets, not of their order or number, and it is the strictest
  one: denied as soon as one facet denies, is invalid, expired or stale; a question or a request for
  approval otherwise, unless human authority for its capability covers the request; allowed only when nothing of the
  kind is left. An additional facet never opens a decision, human authority apart.
\<close>

theorem facets_decide_exactly:
  "cd_permission (effective_resolve_facets contract facets capability resource) = facet_verdict (set facets) capability \<and>
   (facet_verdict (insert f (set facets)) capability = ALLOWED \<longrightarrow>
      facet_verdict (set facets) capability = ALLOWED \<or> (fc_facet f = ''human_authority'' \<and> fc_permission f = ALLOWED))"
proof -
  have "facet_verdict F c = ALLOWED"
    if "facet_verdict (insert f F) c = ALLOWED" "\<not> (fc_facet f = ''human_authority'' \<and> fc_permission f = ALLOWED)" for F c
  proof -
    have "authority_in (insert f F) c' = authority_in F c'" for c' using that(2) by (auto simp: authority_in_def)
    with that(1) show ?thesis unfolding facet_verdict_def open_ask_def by (auto split: if_splits)
  qed
  then show ?thesis by (auto simp: effective_resolve_facets_def resolve_facets_permission)
qed

section \<open>Explicit decisions\<close>

lemma plain_decision_simps [simp]:
  "cd_permission (plain_decision p code reason al as de ap tr) = p"
  "cd_allowed_actions (plain_decision p code reason al as de ap tr) = al"
  "cd_ask_actions (plain_decision p code reason al as de ap tr) = as"
  "cd_denied_actions (plain_decision p code reason al as de ap tr) = de"
  "cd_requires_approval (plain_decision p code reason al as de ap tr) = ap"
  by (simp_all add: plain_decision_def)

lemma normalize_absent: "\<not> json_truthy v \<Longrightarrow> canonical_normalize render v = ALLOWED"
  by (simp add: canonical_normalize_def json_or_def py_str_def py_strip_def ascii_fold_def ASK_VALUES_def DENIED_VALUES_def
      CLARIFICATION_VALUES_def)

text \<open>
  An upstream policy that gives no decision counts as one that allows: for an operation that is neither a governed
  read-only execution nor of a non-executing type, a write action asks for approval when no decision is passed, but is
  allowed when a single absent (\<open>None\<close> or empty) one is.
\<close>

theorem absent_decision_allows_write:
  assumes "\<not> governed_readonly_execution contract" and "oc_operation_type contract \<notin> set NON_EXECUTING"
    and "a \<in> set (oc_requested_actions contract)" "a \<in> set WRITE_ACTIONS" and "\<not> json_truthy v"
  shows "cd_permission (effective_resolve render contract []) = ASK \<and>
    cd_permission (effective_resolve render contract [v]) = ALLOWED \<and>
    a \<in> set (cd_allowed_actions (effective_resolve render contract [v]))"
proof -
  have "list_ex (\<lambda>a. a \<in> set WRITE_ACTIONS) (py_unique (oc_requested_actions contract))"
    using assms(3,4) by (auto simp: list_ex_iff)
  then show ?thesis
    using assms by (simp add: effective_resolve_def canonical_resolve_def Let_def normalize_absent)
qed

section \<open>The decision of the kernel\<close>

lemma normalize_kernel_status:
  "canonical_normalize render (JStr ''allowed'') = ALLOWED" "canonical_normalize render (JStr ''needs_approval'') = ASK"
  "canonical_normalize render (JStr ''denied'') = DENIED"
  "canonical_normalize render (JStr ''needs_clarification'') = NEEDS_CLARIFICATION"
  by (code_simp | simp add: canonical_normalize_def)+

lemma kernel_status_cases:
  assumes "policy_kernel_init cf = Inr k" and "map_of (cf_roles cf) (rq_role_id rq) = Some r"
    and "policy_resolve k uid rq = Inr d"
  shows "pd_status d = ''allowed'' \<or> pd_status d = ''needs_approval'' \<or> pd_status d = ''needs_clarification'' \<or>
    pd_status d = ''denied''"
  using resolve_unique(5) [OF assms] by (simp split: if_splits)

lemma from_policy_decision_permission:
  assumes "pd_status d = ''allowed'' \<or> pd_status d = ''needs_approval'' \<or> pd_status d = ''needs_clarification'' \<or>
    pd_status d = ''denied''"
  shows "cd_permission (from_policy_decision render d c) = canonical_normalize render (JStr (pd_status d))"
    and "cd_requires_approval (from_policy_decision render d c) \<longleftrightarrow> pd_status d = ''needs_approval''"
    and "cd_allowed_actions (from_policy_decision render d c) =
      (if pd_status d = ''allowed''
       then py_unique (list_or (pd_allowed_actions d) (eff_allowed_actions (pd_effective_policy d))) else [])"
  using assms by (elim disjE, simp_all add: from_policy_decision_def Let_def normalize_kernel_status)+

text \<open>
  C28. The canonical decision refines the kernel's: for a kernel whose configuration loaded and a known role, the request
  is answered with both, the permission is the image of the kernel's status, approval is asked exactly when the
  kernel asks for it, and it is allowed only if every requested name is a registered action that no capability and no task
  type denies and that needs no approval, in a workspace neither blocked nor missing.
\<close>

theorem canonical_agrees_with_kernel:
  assumes "policy_kernel_init cf = Inr k" and "map_of (cf_roles cf) (rq_role_id rq) = Some r"
  shows "\<exists>d c. resolve_policy_request k render uid op rq = Inr (d, c) \<and> policy_resolve k uid rq = Inr d \<and>
    cd_permission c = (if pd_status d = ''allowed'' then ALLOWED else if pd_status d = ''needs_approval'' then ASK
      else if pd_status d = ''needs_clarification'' then NEEDS_CLARIFICATION else DENIED) \<and>
    (cd_requires_approval c \<longleftrightarrow> pd_status d = ''needs_approval'') \<and>
    (cd_permission c = ALLOWED \<longrightarrow> unknown_actions cf rq = {} \<and>
       (\<forall>a \<in> known_actions cf rq. \<not> denies k rq a \<and> \<not> approval_needed k rq a \<and> a \<notin> task_type_denied cf rq) \<and>
       \<not> wp_blocked (kernel_workspace k rq) \<and> \<not> wp_needs_clarification (kernel_workspace k rq))"
proof -
  obtain d where d: "policy_resolve k uid rq = Inr d" by (rule policy_resolve_refines [OF assms])
  let ?c = "from_policy_decision render d (Some (contract_from_policy_request op rq))"
  note u = resolve_unique [OF assms d]
  note st = kernel_status_cases [OF assms d]
  note p = from_policy_decision_permission [OF st, of render "Some (contract_from_policy_request op rq)"]
  have perm: "cd_permission ?c = (if pd_status d = ''allowed'' then ALLOWED else if pd_status d = ''needs_approval'' then ASK
      else if pd_status d = ''needs_clarification'' then NEEDS_CLARIFICATION else DENIED)"
    using st by (elim disjE) (simp_all add: p(1) normalize_kernel_status)
  have safe: "unknown_actions cf rq = {} \<and>
       (\<forall>a \<in> known_actions cf rq. \<not> denies k rq a \<and> \<not> approval_needed k rq a \<and> a \<notin> task_type_denied cf rq) \<and>
       \<not> wp_blocked (kernel_workspace k rq) \<and> \<not> wp_needs_clarification (kernel_workspace k rq)"
    if "pd_status d = ''allowed''"
  proof -
    from that u(5) have "\<not> wp_blocked (kernel_workspace k rq)" "\<not> wp_needs_clarification (kernel_workspace k rq)"
      "unknown_actions cf rq = {}" "known_actions cf rq \<inter> set (pd_denied_actions d) = {}"
      "pd_approval_required_for d = []"
      by (auto split: if_splits)
    then show ?thesis using u(1,3) by auto
  qed
  have imp: "cd_permission ?c = ALLOWED \<longrightarrow> unknown_actions cf rq = {} \<and>
       (\<forall>a \<in> known_actions cf rq. \<not> denies k rq a \<and> \<not> approval_needed k rq a \<and> a \<notin> task_type_denied cf rq) \<and>
       \<not> wp_blocked (kernel_workspace k rq) \<and> \<not> wp_needs_clarification (kernel_workspace k rq)"
    using safe unfolding perm by (simp split: if_splits)
  have res: "resolve_policy_request k render uid op rq = Inr (d, ?c)" by (simp add: resolve_policy_request_def d)
  show ?thesis by (rule exI [of _ d], rule exI [of _ ?c]) (intro conjI res d perm p(2) imp)
qed

section \<open>Examples\<close>

definition example_contract :: "str \<Rightarrow> str list \<Rightarrow> operation_contract" where
  "example_contract kind actions =
     \<lparr>oc_operation_id = ''op_1'', oc_session_id = None, oc_source_channel = ''chat'', oc_intent_type = kind,
      oc_operation_type = kind, oc_contract_type = kind, oc_runtime_profile = ''conversation'', oc_requires_task = True,
      oc_read_only = False, oc_artifact_generation = False, oc_workspace_mutation = True, oc_requested_actions = actions,
      oc_target_paths = [], oc_workspace_path = Some ''/work''\<rparr>"

definition example_facet :: "str \<Rightarrow> permission \<Rightarrow> str option \<Rightarrow> bool \<Rightarrow> policy_facet" where
  "example_facet name p capability human =
     \<lparr>fc_facet = name, fc_permission = p, fc_source = ''example'', fc_reason_code = [], fc_capability = capability,
      fc_resource_id = None, fc_requires_human_authority = human, fc_details = [], fc_trace = []\<rparr>"

lemma facets_decide_exactly_witness:
  "cd_permission (effective_resolve_facets (example_contract ''code_change'' [''apply_patch''])
     [example_facet ''workspace_role'' ASK (Some ''patch'') True] (Some ''patch'') None) \<noteq> ALLOWED \<and>
   cd_permission (effective_resolve_facets (example_contract ''code_change'' [''apply_patch''])
     [example_facet ''human_authority'' ALLOWED None False, example_facet ''workspace_role'' ASK (Some ''patch'') True]
     (Some ''patch'') None) = ALLOWED"
proof -
  let ?h = "example_facet ''human_authority'' ALLOWED None False"
  let ?g = "example_facet ''shell'' DENIED None False"
  let ?f = "example_facet ''workspace_role'' ASK (Some ''patch'') True"
  have "facet_verdict (insert ?g (set [?f])) (Some ''patch'') = DENIED"
    "facet_verdict (set [?f]) (Some ''patch'') = ASK" "facet_verdict (set [?h, ?f]) (Some ''patch'') = ALLOWED"
    by (simp_all add: facet_verdict_def open_ask_def authority_in_def example_facet_def opt_or_def)
  then show ?thesis
    using facets_decide_exactly [of "example_contract ''code_change'' [''apply_patch'']" "[?f]" "Some ''patch''" None ?h]
      facets_decide_exactly [of "example_contract ''code_change'' [''apply_patch'']" "[?h, ?f]" "Some ''patch''" None ?g]
    by simp
qed

lemma absent_decision_allows_write_witness:
  "cd_permission (effective_resolve (\<lambda>_. []) (example_contract ''code_change'' [''delete_file'']) []) = ASK \<and>
   cd_permission (effective_resolve (\<lambda>_. []) (example_contract ''code_change'' [''delete_file'']) [JNull]) = ALLOWED"
proof -
  have "\<not> governed_readonly_execution (example_contract ''code_change'' [''delete_file''])"
    "oc_operation_type (example_contract ''code_change'' [''delete_file'']) \<notin> set NON_EXECUTING"
    "''delete_file'' \<in> set (oc_requested_actions (example_contract ''code_change'' [''delete_file'']))"
    "''delete_file'' \<in> set WRITE_ACTIONS" "\<not> json_truthy JNull"
    by (simp_all add: governed_readonly_execution_def example_contract_def NON_EXECUTING_def WRITE_ACTIONS_def)
  from absent_decision_allows_write [OF this] show ?thesis by simp
qed

lemma canonical_agrees_with_kernel_witness:
  "\<exists>d c. resolve_policy_request example_kernel (\<lambda>_. []) ''1'' ''2''
     (example_request ''filesystem_write'' [''write_file''] False ''/work'') = Inr (d, c) \<and> cd_permission c = ASK"
proof -
  let ?rq = "example_request ''filesystem_write'' [''write_file''] False ''/work''"
  have role: "map_of (cf_roles example_config) (rq_role_id ?rq) = Some example_role"
    by (simp add: example_request_def example_role_known)
  have st: "case policy_resolve example_kernel ''1'' ?rq of Inl _ \<Rightarrow> False | Inr d \<Rightarrow> pd_status d = ''needs_approval''"
    by code_simp
  from canonical_agrees_with_kernel [OF example_kernel_init role, of "\<lambda>_. []" "''1''" "''2''"]
  obtain d c where "resolve_policy_request example_kernel (\<lambda>_. []) ''1'' ''2'' ?rq = Inr (d, c)"
    "policy_resolve example_kernel ''1'' ?rq = Inr d"
    "cd_permission c = (if pd_status d = ''allowed'' then ALLOWED else if pd_status d = ''needs_approval'' then ASK
      else if pd_status d = ''needs_clarification'' then NEEDS_CLARIFICATION else DENIED)" by blast
  with st show ?thesis by auto
qed

end
