(* ===== verification/Authority_Grants.thy ===== *)
theory Authority_Grants
  imports Prelude
begin

text \<open>
  \<open>AuthorityGrantService\<close> (\<open>services/policy_kernel/authority_grant_service.py\<close>): temporary grants of
  authority, their store, their life cycle, scope evaluation and consumption. The directory of
  JSON files is an association list by grant id. A clock reading (an integer instant) is an argument
  of every operation, as are path containment (\<open>inside\<close>), \<open>uuid4\<close> and the digest of a string.
  \<open>ValueError\<close> is \<open>Inl\<close>; an operation that raises leaves the store as it was.
\<close>

section \<open>Grants\<close>

record session_grant =
  gr_grant_id :: str
  gr_session_id :: str
  gr_mission_id :: "str option"
  gr_source_message_id :: "str option"
  gr_source_prompt_sha256 :: "str option"
  gr_authority_sha256 :: "str option"
  gr_workspace_id :: "str option"
  gr_workspace_path :: "str option"
  gr_actions :: "str list"
  gr_paths_scope :: "str list"
  gr_command_scope :: "str list"
  gr_local_resource_ids :: "str list"
  gr_remote_resource_ids :: "str list"
  gr_repository_scope :: "str list"
  gr_branch_scope :: "str list dict"
  gr_scope :: str
  gr_source_channel :: str
  gr_approved_by :: "str option"
  gr_status :: str
  gr_expires_at :: "int option"
  gr_max_uses :: "int option"
  gr_used_count :: int
  gr_created_at :: int
  gr_updated_at :: int
  gr_reason :: str
  gr_evidence :: "json list"

record grant_decision =
  gd_grant_id :: str
  gd_status :: str
  gd_reason_code :: str
  gd_grant :: session_grant

type_synonym grant_store = "session_grant dict"

definition decision_of :: "session_grant \<Rightarrow> str \<Rightarrow> grant_decision" where
  "decision_of g reason =
     \<lparr>gd_grant_id = gr_grant_id g, gd_status = gr_status g, gd_reason_code = reason, gd_grant = g\<rparr>"

text \<open>\<open>_path\<close> refuses an identifier without the prefix, on reading and on writing.\<close>

definition grant_path_ok :: "str \<Rightarrow> bool" where
  "grant_path_ok gid \<longleftrightarrow> prefix ''grant_'' gid"

definition put_grant :: "session_grant \<Rightarrow> grant_store \<Rightarrow> grant_store" where
  "put_grant g store = AList.update (gr_grant_id g) g store"

definition grant_save :: "session_grant \<Rightarrow> grant_store \<Rightarrow> grant_store outcome" where
  "grant_save g store =
     (if grant_path_ok (gr_grant_id g) then Inr (put_grant g store) else Inl ''invalid_grant_id'')"

definition grant_get :: "str \<Rightarrow> grant_store \<Rightarrow> session_grant option outcome" where
  "grant_get gid store = (if grant_path_ok gid then Inr (map_of store gid) else Inl ''invalid_grant_id'')"

definition grant_required :: "str \<Rightarrow> grant_store \<Rightarrow> session_grant outcome" where
  "grant_required gid store =
     obind (grant_get gid store) (\<lambda>g. case g of None \<Rightarrow> Inl ''grant_not_found'' | Some x \<Rightarrow> Inr x)"

definition grant_unique :: "str list \<Rightarrow> str list" where
  "grant_unique xs = py_sorted_set (filter (\<lambda>x. x \<noteq> []) (map py_strip xs))"

definition normalized_branch_scope :: "str list dict \<Rightarrow> str list dict" where
  "normalized_branch_scope value =
     map (\<lambda>(k, bs). (k, grant_unique bs)) (filter (\<lambda>(k, _). py_strip k \<noteq> []) (sort_key fst value))"

definition expired_at :: "int \<Rightarrow> session_grant \<Rightarrow> bool" where
  "expired_at now g \<longleftrightarrow>
     gr_status g \<in> {''pending'', ''approved''} \<and>
     (case gr_expires_at g of None \<Rightarrow> False | Some t \<Rightarrow> t \<le> now)"

definition expire_if_needed ::
  "int \<Rightarrow> session_grant \<Rightarrow> grant_store \<Rightarrow> (session_grant \<times> grant_store) outcome" where
  "expire_if_needed now g store =
     (if expired_at now g then
        let g' = g\<lparr>gr_status := ''expired'', gr_updated_at := now\<rparr>
        in obind (grant_save g' store) (\<lambda>store'. Inr (g', store'))
      else Inr (g, store))"

text \<open>\<open>self._expire_if_needed(self._required(grant_id))\<close>.\<close>

definition grant_current ::
  "int \<Rightarrow> str \<Rightarrow> grant_store \<Rightarrow> (session_grant \<times> grant_store) outcome" where
  "grant_current now gid store =
     obind (grant_required gid store) (\<lambda>g. expire_if_needed now g store)"

section \<open>Creation\<close>

record grant_spec =
  sp_session_id :: str
  sp_workspace_id :: "str option"
  sp_workspace_path :: "str option"
  sp_actions :: "str list"
  sp_paths_scope :: "str list"
  sp_command_scope :: "str list"
  sp_scope :: str
  sp_source_channel :: str
  sp_reason :: str
  sp_max_uses :: "int option"
  sp_ttl_minutes :: int
  sp_evidence :: "json list"
  sp_mission_id :: "str option"
  sp_source_message_id :: "str option"
  sp_source_prompt_sha256 :: "str option"
  sp_authority_sha256 :: "str option"
  sp_local_resource_ids :: "str list"
  sp_remote_resource_ids :: "str list"
  sp_repository_scope :: "str list"
  sp_branch_scope :: "str list dict"
  sp_grant_id :: "str option"

definition MINUTE :: int where
  "MINUTE = 60 * 1000000"

definition pending_grant :: "int \<Rightarrow> str \<Rightarrow> grant_spec \<Rightarrow> session_grant" where
  "pending_grant now uid s =
     \<lparr>gr_grant_id = str_or (sp_grant_id s) (''grant_'' @ uid), gr_session_id = sp_session_id s,
      gr_mission_id = sp_mission_id s, gr_source_message_id = sp_source_message_id s,
      gr_source_prompt_sha256 = sp_source_prompt_sha256 s, gr_authority_sha256 = sp_authority_sha256 s,
      gr_workspace_id = sp_workspace_id s, gr_workspace_path = sp_workspace_path s,
      gr_actions = grant_unique (sp_actions s), gr_paths_scope = grant_unique (sp_paths_scope s),
      gr_command_scope = grant_unique (sp_command_scope s),
      gr_local_resource_ids = grant_unique (sp_local_resource_ids s),
      gr_remote_resource_ids = grant_unique (sp_remote_resource_ids s),
      gr_repository_scope = grant_unique (sp_repository_scope s),
      gr_branch_scope = normalized_branch_scope (sp_branch_scope s),
      gr_scope = (if sp_scope s \<in> {''single_use'', ''session'', ''task'', ''mission'', ''permanent_preview''}
                  then sp_scope s else ''single_use''),
      gr_source_channel = sp_source_channel s, gr_approved_by = None, gr_status = ''pending'',
      gr_expires_at = Some (now + MINUTE * max 1 (sp_ttl_minutes s)), gr_max_uses = sp_max_uses s,
      gr_used_count = 0, gr_created_at = now, gr_updated_at = now, gr_reason = sp_reason s,
      gr_evidence = sp_evidence s\<rparr>"

definition create_pending ::
  "int \<Rightarrow> str \<Rightarrow> grant_spec \<Rightarrow> grant_store \<Rightarrow> (session_grant \<times> grant_store) outcome" where
  "create_pending now uid s store =
     (let g = pending_grant now uid s in obind (grant_save g store) (\<lambda>store'. Inr (g, store')))"

section \<open>Mission grants\<close>

record mission_resource =
  mr_resource_id :: str
  mr_resource_type :: str
  mr_role :: "str option"
  mr_locator :: "str option"
  mr_normalized_identity :: "str option"
  mr_allowed_branches :: "str list"
  mr_permissions :: "str list"
  mr_provenance_refs :: "str list"

record mission_contract =
  ms_mission_id :: str
  ms_session_id :: "str option"
  ms_source_message_id :: str
  ms_source_prompt_sha256 :: str
  ms_local_resources :: "mission_resource list"
  ms_remote_resources :: "mission_resource list"
  ms_authorized_capabilities :: "str list"
  ms_explicit_evidence :: "json list"
  ms_authority_sha256 :: str

definition mission_grant_id :: "(str \<Rightarrow> str) \<Rightarrow> mission_contract \<Rightarrow> str" where
  "mission_grant_id sha m = ''grant_mission_'' @ take 24 (sha (ms_mission_id m @ '':'' @ ms_authority_sha256 m))"

definition validate_existing_mission_grant :: "session_grant \<Rightarrow> mission_contract \<Rightarrow> unit outcome" where
  "validate_existing_mission_grant g m =
     (if gr_mission_id g \<noteq> Some (ms_mission_id m) \<or> gr_source_message_id g \<noteq> Some (ms_source_message_id m)
         \<or> gr_source_prompt_sha256 g \<noteq> Some (ms_source_prompt_sha256 m)
         \<or> gr_authority_sha256 g \<noteq> Some (ms_authority_sha256 m)
        then Inl ''mission_grant_binding_mismatch''
      else if set (gr_actions g) \<noteq> set (ms_authorized_capabilities m)
        then Inl ''mission_grant_capability_mismatch''
      else Inr ())"

definition permitted_resources :: "mission_contract \<Rightarrow> mission_resource list \<Rightarrow> mission_resource list" where
  "permitted_resources m = filter (\<lambda>r. \<exists>p\<in>set (mr_permissions r). p \<in> set (ms_authorized_capabilities m))"

definition mission_grant :: "(str \<Rightarrow> str) \<Rightarrow> int \<Rightarrow> mission_contract \<Rightarrow> session_grant" where
  "mission_grant sha now m =
     (let local = permitted_resources m (ms_local_resources m);
          remote = permitted_resources m (ms_remote_resources m);
          named = filter (\<lambda>r. opt_truthy (mr_normalized_identity r)) remote
      in \<lparr>gr_grant_id = mission_grant_id sha m, gr_session_id = str_or (ms_session_id m) ''mission'',
          gr_mission_id = Some (ms_mission_id m), gr_source_message_id = Some (ms_source_message_id m),
          gr_source_prompt_sha256 = Some (ms_source_prompt_sha256 m),
          gr_authority_sha256 = Some (ms_authority_sha256 m), gr_workspace_id = None,
          gr_workspace_path = None, gr_actions = grant_unique (ms_authorized_capabilities m),
          gr_paths_scope = grant_unique (List.map_filter mr_locator local),
          gr_command_scope = [], gr_local_resource_ids = grant_unique (map mr_resource_id local),
          gr_remote_resource_ids = grant_unique (map mr_resource_id remote),
          gr_repository_scope = grant_unique (List.map_filter mr_normalized_identity named),
          gr_branch_scope = normalized_branch_scope
            (fold (\<lambda>r. AList.update (str_or (mr_normalized_identity r) []) (mr_allowed_branches r)) named []),
          gr_scope = ''mission'', gr_source_channel = ''mission_contract'',
          gr_approved_by = Some (''source_message:'' @ ms_source_message_id m),
          gr_status = ''approved'', gr_expires_at = Some (now + 24 * 60 * MINUTE), gr_max_uses = None,
          gr_used_count = 0, gr_created_at = now, gr_updated_at = now,
          gr_reason = ''explicit_human_authorization_in_source_prompt'',
          gr_evidence = ms_explicit_evidence m\<rparr>)"

definition ensure_mission_grant ::
  "(str \<Rightarrow> str) \<Rightarrow> int \<Rightarrow> mission_contract \<Rightarrow> grant_store \<Rightarrow> (session_grant option \<times> grant_store) outcome" where
  "ensure_mission_grant sha now m store =
     (if ms_authorized_capabilities m = [] then Inr (None, store)
      else if ms_explicit_evidence m = [] then Inl ''mission_authority_evidence_required''
      else obind (grant_get (mission_grant_id sha m) store) (\<lambda>existing.
        case existing of
          Some g \<Rightarrow>
            obind (validate_existing_mission_grant g m) (\<lambda>_.
            obind (expire_if_needed now g store) (\<lambda>(g', store'). Inr (Some g', store')))
        | None \<Rightarrow>
            let g = mission_grant sha now m
            in obind (grant_save g store) (\<lambda>store'. Inr (Some g, store'))))"

section \<open>Evaluation\<close>

record scope_query =
  qu_action :: str
  qu_path :: "str option"
  qu_command :: "str option"
  qu_mission_id :: "str option"
  qu_source_message_id :: "str option"
  qu_source_prompt_sha256 :: "str option"
  qu_resource_id :: "str option"
  qu_repository_identity :: "str option"
  qu_branch :: "str option"

text \<open>\<open>a and b and a != b\<close> on optional strings.\<close>

definition both_differ :: "str option \<Rightarrow> str option \<Rightarrow> bool" where
  "both_differ a b \<longleftrightarrow> opt_truthy a \<and> opt_truthy b \<and> a \<noteq> b"

definition resource_allowed :: "session_grant \<Rightarrow> str \<Rightarrow> bool" where
  "resource_allowed g r =
     (let scoped = gr_local_resource_ids g @ gr_remote_resource_ids g in scoped = [] \<or> r \<in> set scoped)"

definition branch_denied :: "session_grant \<Rightarrow> str \<Rightarrow> str option \<Rightarrow> bool" where
  "branch_denied g repo branch =
     (case branch of
        None \<Rightarrow> False
      | Some b \<Rightarrow> b \<noteq> [] \<and> gr_branch_scope g \<noteq> [] \<and>
          (let allowed = (case map_of (gr_branch_scope g) repo of None \<Rightarrow> [] | Some bs \<Rightarrow> bs)
           in allowed = [] \<or> b \<notin> set allowed))"

definition scope_reason :: "(str \<Rightarrow> str \<Rightarrow> bool) \<Rightarrow> session_grant \<Rightarrow> scope_query \<Rightarrow> str option" where
  "scope_reason inside g q =
     (if qu_action q \<notin> set (gr_actions g) then Some ''grant_action_out_of_scope''
      else if both_differ (qu_mission_id q) (gr_mission_id g) then Some ''grant_mission_out_of_scope''
      else if both_differ (qu_source_message_id q) (gr_source_message_id g)
        then Some ''grant_source_message_mismatch''
      else if both_differ (qu_source_prompt_sha256 q) (gr_source_prompt_sha256 g)
        then Some ''grant_source_prompt_mismatch''
      else if opt_truthy (qu_path q) \<and> gr_paths_scope g \<noteq> []
              \<and> \<not> list_ex (inside (str_or (qu_path q) [])) (gr_paths_scope g)
        then Some ''grant_path_out_of_scope''
      else if opt_truthy (qu_command q) \<and> gr_command_scope g \<noteq> []
              \<and> str_or (qu_command q) [] \<notin> set (gr_command_scope g)
        then Some ''grant_command_out_of_scope''
      else if opt_truthy (qu_resource_id q) \<and> \<not> resource_allowed g (str_or (qu_resource_id q) [])
        then Some ''grant_resource_out_of_scope''
      else if opt_truthy (qu_repository_identity q) then
        if gr_repository_scope g \<noteq> [] \<and> str_or (qu_repository_identity q) [] \<notin> set (gr_repository_scope g)
          then Some ''grant_repository_out_of_scope''
        else if branch_denied g (str_or (qu_repository_identity q) []) (qu_branch q)
          then Some ''grant_branch_out_of_scope''
        else None
      else None)"

definition uses_exhausted :: "session_grant \<Rightarrow> bool" where
  "uses_exhausted g = (case gr_max_uses g of None \<Rightarrow> False | Some m \<Rightarrow> gr_used_count g \<ge> m)"

definition is_effective ::
  "(str \<Rightarrow> str \<Rightarrow> bool) \<Rightarrow> int \<Rightarrow> str \<Rightarrow> scope_query \<Rightarrow> grant_store \<Rightarrow> (grant_decision \<times> grant_store) outcome" where
  "is_effective inside now gid q store =
     obind (grant_current now gid store) (\<lambda>(g, store1).
       if gr_status g \<noteq> ''approved'' then Inr (decision_of g (''grant_not_approved:'' @ gr_status g), store1)
       else case scope_reason inside g q of
              Some reason \<Rightarrow> Inr (decision_of g reason, store1)
            | None \<Rightarrow>
                if uses_exhausted g then
                  let g' = g\<lparr>gr_status := ''expired'', gr_updated_at := now\<rparr>
                  in obind (grant_save g' store1) (\<lambda>store2. Inr (decision_of g' ''grant_use_limit_reached'', store2))
                else Inr (decision_of g ''grant_effective'', store1))"

definition grant_consume ::
  "(str \<Rightarrow> str \<Rightarrow> bool) \<Rightarrow> int \<Rightarrow> str \<Rightarrow> scope_query \<Rightarrow> grant_store \<Rightarrow> (grant_decision \<times> grant_store) outcome" where
  "grant_consume inside now gid q store =
     obind (is_effective inside now gid q store) (\<lambda>(d, store1).
       if gd_reason_code d \<noteq> ''grant_effective'' then Inr (d, store1)
       else
         let g1 = (gd_grant d)\<lparr>gr_used_count := gr_used_count (gd_grant d) + 1, gr_updated_at := now\<rparr>;
             g2 = (if uses_exhausted g1 then g1\<lparr>gr_status := ''expired''\<rparr> else g1)
         in obind (grant_save g2 store1) (\<lambda>store2. Inr (decision_of g2 ''grant_consumed'', store2)))"

definition decision_for_contract ::
  "(str \<Rightarrow> str) \<Rightarrow> (str \<Rightarrow> str \<Rightarrow> bool) \<Rightarrow> int \<Rightarrow> mission_contract \<Rightarrow> scope_query \<Rightarrow> bool \<Rightarrow> grant_store \<Rightarrow>
     (grant_decision option \<times> grant_store) outcome" where
  "decision_for_contract sha inside now m q consume store =
     obind (ensure_mission_grant sha now m store) (\<lambda>(g, store1).
       case g of
         None \<Rightarrow> Inr (None, store1)
       | Some grant \<Rightarrow>
           let q' = q\<lparr>qu_mission_id := Some (ms_mission_id m),
                      qu_source_message_id := Some (ms_source_message_id m),
                      qu_source_prompt_sha256 := Some (ms_source_prompt_sha256 m)\<rparr>
           in obind ((if consume then grant_consume else is_effective) inside now (gr_grant_id grant) q' store1)
                (\<lambda>(d, store2). Inr (Some d, store2)))"

section \<open>Life cycle\<close>

definition grant_approve ::
  "int \<Rightarrow> str \<Rightarrow> str \<Rightarrow> grant_store \<Rightarrow> (grant_decision \<times> grant_store) outcome" where
  "grant_approve now gid actor store =
     obind (grant_current now gid store) (\<lambda>(g, store1).
       if gr_status g \<noteq> ''pending'' then Inr (decision_of g (''grant_not_pending:'' @ gr_status g), store1)
       else
         let g' = g\<lparr>gr_status := ''approved'', gr_approved_by := Some actor, gr_updated_at := now\<rparr>
         in obind (grant_save g' store1) (\<lambda>store2. Inr (decision_of g' ''grant_approved'', store2)))"

definition terminalize_pending ::
  "int \<Rightarrow> str \<Rightarrow> str \<Rightarrow> str \<Rightarrow> grant_store \<Rightarrow> (grant_decision \<times> grant_store) outcome" where
  "terminalize_pending now gid status actor store =
     obind (grant_current now gid store) (\<lambda>(g, store1).
       if gr_status g \<noteq> ''pending'' then Inr (decision_of g (''grant_not_pending:'' @ gr_status g), store1)
       else
         let g' = g\<lparr>gr_status := status, gr_approved_by := Some actor, gr_updated_at := now\<rparr>
         in obind (grant_save g' store1) (\<lambda>store2. Inr (decision_of g' (''grant_'' @ status), store2)))"

definition grant_deny ::
  "int \<Rightarrow> str \<Rightarrow> str \<Rightarrow> grant_store \<Rightarrow> (grant_decision \<times> grant_store) outcome" where
  "grant_deny now gid actor = terminalize_pending now gid ''denied'' actor"

definition grant_revoke ::
  "int \<Rightarrow> str \<Rightarrow> str \<Rightarrow> grant_store \<Rightarrow> (grant_decision \<times> grant_store) outcome" where
  "grant_revoke now gid actor store =
     obind (grant_required gid store) (\<lambda>g.
       if gr_status g \<in> {''revoked'', ''expired''}
         then Inr (decision_of g (''grant_not_revocable:'' @ gr_status g), store)
       else
         let g' = g\<lparr>gr_status := ''revoked'', gr_approved_by := Some actor, gr_updated_at := now\<rparr>
         in obind (grant_save g' store) (\<lambda>store'. Inr (decision_of g' ''grant_revoked'', store')))"

text \<open>
  \<open>list_grants\<close>, over the names of the files in the order of their modification times (an argument); a name whose file is
  gone is skipped, as an unreadable one is.
\<close>

fun list_grants_from ::
  "int \<Rightarrow> str option \<Rightarrow> str option \<Rightarrow> str option \<Rightarrow> int \<Rightarrow> str list \<Rightarrow> session_grant list \<Rightarrow>
     grant_store \<Rightarrow> (session_grant list \<times> grant_store) outcome" where
  "list_grants_from now session mission status limit [] acc store = Inr (acc, store)"
| "list_grants_from now session mission status limit (gid # gids) acc store =
     (case map_of store gid of
        None \<Rightarrow> list_grants_from now session mission status limit gids acc store
      | Some g \<Rightarrow>
          obind (expire_if_needed now g store) (\<lambda>(g', store').
            if opt_truthy session \<and> Some (gr_session_id g') \<noteq> session
               \<or> opt_truthy mission \<and> gr_mission_id g' \<noteq> mission
               \<or> opt_truthy status \<and> Some (gr_status g') \<noteq> status
            then list_grants_from now session mission status limit gids acc store'
            else if int (length (acc @ [g'])) \<ge> limit then Inr (acc @ [g'], store')
            else list_grants_from now session mission status limit gids (acc @ [g']) store'))"

section \<open>Histories\<close>

text \<open>
  The operations as one step function over the store, for sequences of calls; a call that raises changes
  nothing. The log of a history holds the decisions handed out and the identifiers under which \<open>create_pending\<close> has
  stored a grant: it takes any identifier from its caller and replaces the grant stored there.
\<close>

datatype grant_op =
    Create str grant_spec
  | Approve str str
  | Deny str str
  | Revoke str str
  | Check str scope_query
  | Consume str scope_query
  | Mission mission_contract scope_query bool
  | List_Grants "str option" "str option" "str option" int "str list"

datatype grant_event = Created str | Decided grant_decision

definition grant_call ::
  "(str \<Rightarrow> str) \<Rightarrow> (str \<Rightarrow> str \<Rightarrow> bool) \<Rightarrow> int \<Rightarrow> grant_op \<Rightarrow> grant_store \<Rightarrow>
     (grant_event list \<times> grant_store) outcome" where
  "grant_call sha inside now op store =
     (let some = (\<lambda>r. obind r (\<lambda>(d, s). Inr ([Decided d], s))) in
      case op of
        Create uid s \<Rightarrow> obind (create_pending now uid s store) (\<lambda>(g, s). Inr ([Created (gr_grant_id g)], s))
      | Approve gid actor \<Rightarrow> some (grant_approve now gid actor store)
      | Deny gid actor \<Rightarrow> some (grant_deny now gid actor store)
      | Revoke gid actor \<Rightarrow> some (grant_revoke now gid actor store)
      | Check gid q \<Rightarrow> some (is_effective inside now gid q store)
      | Consume gid q \<Rightarrow> some (grant_consume inside now gid q store)
      | Mission m q consume \<Rightarrow>
          obind (decision_for_contract sha inside now m q consume store)
            (\<lambda>(d, s). Inr (case d of None \<Rightarrow> [] | Some x \<Rightarrow> [Decided x], s))
      | List_Grants session mission status limit order \<Rightarrow>
          obind (list_grants_from now session mission status limit order [] store) (\<lambda>(_, s). Inr ([], s)))"

inductive grant_run ::
  "(str \<Rightarrow> str) \<Rightarrow> (str \<Rightarrow> str \<Rightarrow> bool) \<Rightarrow> grant_store \<Rightarrow> grant_event list \<Rightarrow> grant_store \<Rightarrow> bool"
  for sha inside where
  run_done: "grant_run sha inside store [] store"
| run_call: "grant_run sha inside store log store1 \<Longrightarrow> grant_call sha inside now op store1 = Inr (es, store2) \<Longrightarrow>
    grant_run sha inside store (log @ es) store2"
| run_raise: "grant_run sha inside store log store1 \<Longrightarrow> grant_call sha inside now op store1 = Inl e \<Longrightarrow>
    grant_run sha inside store log store1"

text \<open>The part of a log since the last creation under an identifier, and before the first one.\<close>

definition since_creation :: "str \<Rightarrow> grant_event list \<Rightarrow> grant_event list" where
  "since_creation gid log = rev (takeWhile (\<lambda>e. e \<noteq> Created gid) (rev log))"

definition before_creation :: "str \<Rightarrow> grant_event list \<Rightarrow> grant_event list" where
  "before_creation gid log = takeWhile (\<lambda>e. e \<noteq> Created gid) log"

lemma since_creation_append:
  "since_creation gid (a @ b) = (if Created gid \<in> set b then since_creation gid b else since_creation gid a @ b)"
  by (auto simp: since_creation_def takeWhile_append)

lemma before_creation_append:
  "before_creation gid (a @ b) = (if Created gid \<in> set a then before_creation gid a else a @ before_creation gid b)"
  by (auto simp: before_creation_def takeWhile_append)

lemma since_creation_all: "Created gid \<notin> set log \<Longrightarrow> since_creation gid log = log"
  using since_creation_append [of gid "[]" log] by (simp add: since_creation_def)

lemma creation_free [simp]:
  "since_creation gid [] = []" "before_creation gid [] = []"
  "since_creation gid [Decided d] = [Decided d]" "before_creation gid [Decided d] = [Decided d]"
  "since_creation gid [Created k] = (if k = gid then [] else [Created k])"
  "before_creation gid [Created k] = (if k = gid then [] else [Created k])"
  by (simp_all add: since_creation_def before_creation_def)

section \<open>Store and status\<close>

interpretation gstore: keyed_store gr_grant_id map_of put_grant
  by unfold_locales (simp add: put_grant_def update_conv')

definition grant_final :: "str \<Rightarrow> bool" where
  "grant_final s \<longleftrightarrow> s \<in> {''revoked'', ''expired''}"

definition grant_edge :: "str \<Rightarrow> str \<Rightarrow> bool" where
  "grant_edge a b \<longleftrightarrow>
     a = ''pending'' \<and> b \<in> {''approved'', ''denied'', ''expired''} \<or> a = ''approved'' \<and> b = ''expired'' \<or>
     \<not> grant_final a \<and> b = ''revoked''"

interpretation glife: status_lifecycle grant_edge grant_final
  by unfold_locales (auto simp: grant_edge_def grant_final_def)

text \<open>Every field but four is fixed at creation; the status follows the life cycle; a final grant is kept whole.\<close>

definition fixed_part :: "session_grant \<Rightarrow> session_grant" where
  "fixed_part g =
     g\<lparr>gr_status := [], gr_approved_by := None, gr_used_count := 0, gr_updated_at := 0\<rparr>"

definition evolves :: "session_grant \<Rightarrow> session_grant \<Rightarrow> bool" where
  "evolves g g' \<longleftrightarrow> fixed_part g' = fixed_part g \<and> glife.path (gr_status g) (gr_status g') \<and>
     (grant_final (gr_status g) \<longrightarrow> g' = g)"

definition use_ok :: "session_grant \<Rightarrow> bool" where
  "use_ok g \<longleftrightarrow> 0 \<le> gr_used_count g \<and>
     (case gr_max_uses g of None \<Rightarrow> True | Some m \<Rightarrow> gr_used_count g \<le> max 0 m)"

definition grants_ok :: "grant_store \<Rightarrow> bool" where
  "grants_ok store \<longleftrightarrow>
     (\<forall>k g. map_of store k = Some g \<longrightarrow> gr_grant_id g = k \<and> grant_path_ok k \<and> use_ok g)"

lemma fixed_part_fields [simp]:
  "gr_grant_id (fixed_part g) = gr_grant_id g" "gr_actions (fixed_part g) = gr_actions g"
  "gr_paths_scope (fixed_part g) = gr_paths_scope g" "gr_max_uses (fixed_part g) = gr_max_uses g"
  "gr_expires_at (fixed_part g) = gr_expires_at g" "gr_mission_id (fixed_part g) = gr_mission_id g"
  by (simp_all add: fixed_part_def)

lemma fixed_part_update [simp]:
  "fixed_part (g\<lparr>gr_status := x\<rparr>) = fixed_part g"
  "fixed_part (g\<lparr>gr_approved_by := y\<rparr>) = fixed_part g"
  "fixed_part (g\<lparr>gr_used_count := n\<rparr>) = fixed_part g"
  "fixed_part (g\<lparr>gr_updated_at := t\<rparr>) = fixed_part g"
  by (simp_all add: fixed_part_def)

lemma evolves_fields:
  assumes "evolves g g'"
  shows "gr_grant_id g' = gr_grant_id g" "gr_actions g' = gr_actions g" "gr_max_uses g' = gr_max_uses g"
    "gr_expires_at g' = gr_expires_at g"
  using assms unfolding evolves_def by (metis fixed_part_fields)+

lemma evolves_refl [simp]: "evolves g g"
  by (simp add: evolves_def glife.path_refl)

lemma evolves_trans: "evolves a b \<Longrightarrow> evolves b c \<Longrightarrow> evolves a c"
  unfolding evolves_def by (auto intro: glife.path_trans)

lemma evolves_edge:
  assumes "fixed_part g' = fixed_part g" and "\<not> grant_final (gr_status g)"
    and "gr_status g' = gr_status g \<or> grant_edge (gr_status g) (gr_status g')"
  shows "evolves g g'"
  using assms unfolding evolves_def by (auto intro: glife.path_refl glife.path_step)

lemma grants_ok_save:
  assumes "grants_ok store" and "grant_path_ok (gr_grant_id g)" and "use_ok g"
  shows "grants_ok (put_grant g store)"
  using assms by (auto simp: grants_ok_def gstore.lookup_save split: if_splits)

text \<open>What an operation on one stored grant does: it replaces it by one it evolves into.\<close>

definition touches ::
  "str \<Rightarrow> grant_store \<Rightarrow> session_grant \<Rightarrow> session_grant \<Rightarrow> grant_store \<Rightarrow> bool" where
  "touches gid store g g' store' \<longleftrightarrow>
     map_of store gid = Some g \<and> evolves g g' \<and> map_of store' = (map_of store)(gid \<mapsto> g')"

lemma touches_save:
  assumes "touches gid store g g1 store1" and "evolves g1 g2" and "grants_ok store"
  shows "grant_save g2 store1 = Inr (put_grant g2 store1)" and "touches gid store g g2 (put_grant g2 store1)"
proof -
  have id: "gr_grant_id g2 = gid" "grant_path_ok gid"
  proof -
    from assms(1,3) have "gr_grant_id g = gid" "grant_path_ok gid" by (auto simp: touches_def grants_ok_def)
    moreover have "gr_grant_id g2 = gr_grant_id g"
      using assms(1,2) evolves_fields(1) by (simp add: touches_def)
    ultimately show "gr_grant_id g2 = gid" "grant_path_ok gid" by simp_all
  qed
  then show "grant_save g2 store1 = Inr (put_grant g2 store1)" by (simp add: grant_save_def)
  show "touches gid store g g2 (put_grant g2 store1)"
    using assms(1,2) id(1) by (auto simp: touches_def fun_eq_iff gstore.lookup_save intro: evolves_trans)
qed

lemma grant_current_touches:
  assumes "grants_ok store" and "grant_current now gid store = Inr (g1, store1)"
  obtains g where "touches gid store g g1 store1" and "gr_used_count g1 = gr_used_count g"
    and "g1 = g \<or> gr_status g1 = ''expired''" and "\<not> expired_at now g1"
proof -
  from assms(2) obtain g where g: "grant_path_ok gid" "map_of store gid = Some g"
    and e: "expire_if_needed now g store = Inr (g1, store1)"
    by (auto simp: grant_current_def grant_required_def grant_get_def obind_eq_Inr_iff
        split: if_splits option.splits)
  have t: "touches gid store g g store" using g(2) by (auto simp: touches_def)
  show thesis
  proof (cases "expired_at now g")
    case False
    with e have "g1 = g" "store1 = store" by (simp_all add: expire_if_needed_def)
    with t False show thesis by (intro that) auto
  next
    case True
    define g' where "g' = g\<lparr>gr_status := ''expired'', gr_updated_at := now\<rparr>"
    have "evolves g g'"
      using True by (intro evolves_edge) (auto simp: g'_def expired_at_def grant_edge_def grant_final_def)
    note s = touches_save [OF t this assms(1)]
    from e True s(1) have "g1 = g'" "store1 = put_grant g' store"
      by (auto simp add: expire_if_needed_def g'_def Let_def)
    then show thesis using s(2) by (intro that) (auto simp: g'_def expired_at_def)
  qed
qed

lemma touches_ok:
  assumes "touches gid store g g' store'" and "grants_ok store" and "use_ok g'"
  shows "grants_ok store'"
  using assms evolves_fields(1) [of g g'] by (auto simp: touches_def grants_ok_def split: if_splits)

lemma use_ok_same:
  assumes "use_ok g" and "evolves g g'" and "gr_used_count g' = gr_used_count g"
  shows "use_ok g'"
  using assms evolves_fields(3) [OF assms(2)] by (simp add: use_ok_def split: option.splits)

lemma touches_use_ok: "touches gid store g g' store' \<Longrightarrow> grants_ok store \<Longrightarrow> use_ok g"
  by (auto simp: touches_def grants_ok_def)

lemma touches_evolves: "touches gid store g g' store' \<Longrightarrow> evolves g g'"
  by (simp add: touches_def)

text \<open>The shape of every decision-returning operation on one grant.\<close>

definition decides ::
  "str \<Rightarrow> grant_store \<Rightarrow> grant_decision \<Rightarrow> grant_store \<Rightarrow> bool" where
  "decides gid store d store' \<longleftrightarrow>
     (\<exists>g. touches gid store g (gd_grant d) store' \<and> use_ok (gd_grant d) \<and> gd_grant_id d = gid \<and>
        gr_used_count (gd_grant d) =
          gr_used_count g + (if gd_reason_code d = ''grant_consumed'' then 1 else 0) \<and>
        (gd_reason_code d \<in> {''grant_effective'', ''grant_consumed''} \<longrightarrow> gr_status g = ''approved''))"

lemma decidesI:
  assumes "touches gid store g g' store'" and "grants_ok store" and "gr_used_count g' = gr_used_count g"
    and "reason \<noteq> ''grant_consumed''" and "reason \<noteq> ''grant_effective'' \<or> gr_status g = ''approved''"
  shows "decides gid store (decision_of g' reason) store'"
proof -
  have "use_ok g'"
    using use_ok_same [OF touches_use_ok [OF assms(1,2)] touches_evolves [OF assms(1)] assms(3)] .
  moreover have "gr_grant_id g' = gid"
    using assms(1,2) evolves_fields(1) [of g g'] by (auto simp: touches_def grants_ok_def)
  ultimately show ?thesis
    unfolding decides_def using assms by (auto simp: decision_of_def)
qed

lemma approve_as_terminalize: "grant_approve now gid actor = terminalize_pending now gid ''approved'' actor"
proof -
  have "''grant_'' @ ''approved'' = ''grant_approved''" by simp
  then show ?thesis unfolding grant_approve_def terminalize_pending_def fun_eq_iff by metis
qed

lemma terminalize_decides:
  assumes "grants_ok store" and "terminalize_pending now gid status actor store = Inr (d, store')"
    and "status \<in> {''approved'', ''denied''}"
  shows "decides gid store d store'"
proof -
  from assms(2) obtain g1 store1 where c: "grant_current now gid store = Inr (g1, store1)"
    and r: "(if gr_status g1 \<noteq> ''pending'' then Inr (decision_of g1 (''grant_not_pending:'' @ gr_status g1), store1)
       else let g' = g1\<lparr>gr_status := status, gr_approved_by := Some actor, gr_updated_at := now\<rparr>
         in obind (grant_save g' store1) (\<lambda>store2. Inr (decision_of g' (''grant_'' @ status), store2))) = Inr (d, store')"
    by (auto simp: terminalize_pending_def obind_eq_Inr_iff)
  from c obtain g where t: "touches gid store g g1 store1" and u: "gr_used_count g1 = gr_used_count g"
    by (rule grant_current_touches [OF assms(1)])
  show ?thesis
  proof (cases "gr_status g1 = ''pending''")
    case False
    with r have "d = decision_of g1 (''grant_not_pending:'' @ gr_status g1)" "store' = store1" by auto
    then show ?thesis using decidesI [OF t assms(1) u] by simp
  next
    case True
    define g' where "g' = g1\<lparr>gr_status := status, gr_approved_by := Some actor, gr_updated_at := now\<rparr>"
    have "evolves g1 g'" using True assms(3) by (intro evolves_edge) (auto simp: g'_def grant_edge_def grant_final_def)
    note s = touches_save [OF t this assms(1)]
    from r True s(1) have "d = decision_of g' (''grant_'' @ status)" "store' = put_grant g' store1"
      by (simp_all add: g'_def Let_def)
    moreover have "''grant_'' @ status \<noteq> ''grant_consumed''" "''grant_'' @ status \<noteq> ''grant_effective''"
      using assms(3) by auto
    moreover have "gr_used_count g' = gr_used_count g" using u by (simp add: g'_def)
    ultimately show ?thesis using decidesI [OF s(2) assms(1)] by metis
  qed
qed

lemma revoke_decides:
  assumes "grants_ok store" and "grant_revoke now gid actor store = Inr (d, store')"
  shows "decides gid store d store'"
proof -
  from assms(2) obtain g where g: "map_of store gid = Some g"
    and r: "(if gr_status g \<in> {''revoked'', ''expired''}
         then Inr (decision_of g (''grant_not_revocable:'' @ gr_status g), store)
       else let g' = g\<lparr>gr_status := ''revoked'', gr_approved_by := Some actor, gr_updated_at := now\<rparr>
         in obind (grant_save g' store) (\<lambda>store'. Inr (decision_of g' ''grant_revoked'', store'))) = Inr (d, store')"
    by (auto simp: grant_revoke_def grant_required_def grant_get_def obind_eq_Inr_iff split: option.splits if_splits)
  have t: "touches gid store g g store" using g by (auto simp: touches_def)
  show ?thesis
  proof (cases "gr_status g \<in> {''revoked'', ''expired''}")
    case True
    with r have "d = decision_of g (''grant_not_revocable:'' @ gr_status g)" "store' = store" by auto
    then show ?thesis using decidesI [OF t assms(1)] by simp
  next
    case False
    define g' where "g' = g\<lparr>gr_status := ''revoked'', gr_approved_by := Some actor, gr_updated_at := now\<rparr>"
    have "evolves g g'" using False by (intro evolves_edge) (auto simp: g'_def grant_edge_def grant_final_def)
    note s = touches_save [OF t this assms(1)]
    from r False s(1) have "d = decision_of g' ''grant_revoked''" "store' = put_grant g' store"
      by (simp_all add: g'_def Let_def)
    then show ?thesis using decidesI [OF s(2) assms(1)] by (simp add: g'_def)
  qed
qed

text \<open>What the verdict \<open>grant_effective\<close> means.\<close>

lemma scope_reason_codes:
  "scope_reason inside g q = Some r \<Longrightarrow> r \<noteq> ''grant_consumed'' \<and> r \<noteq> ''grant_effective''"
  by (auto simp: scope_reason_def split: if_splits)

lemma fixed_part_scope [simp]:
  "gr_source_message_id (fixed_part g) = gr_source_message_id g"
  "gr_source_prompt_sha256 (fixed_part g) = gr_source_prompt_sha256 g"
  "gr_command_scope (fixed_part g) = gr_command_scope g"
  "gr_repository_scope (fixed_part g) = gr_repository_scope g"
  "gr_branch_scope (fixed_part g) = gr_branch_scope g"
  "gr_local_resource_ids (fixed_part g) = gr_local_resource_ids g"
  "gr_remote_resource_ids (fixed_part g) = gr_remote_resource_ids g"
  by (simp_all add: fixed_part_def)

lemma resource_allowed_fixed: "resource_allowed (fixed_part g) r = resource_allowed g r"
  by (simp only: resource_allowed_def fixed_part_scope)

lemma branch_denied_fixed: "branch_denied (fixed_part g) r b = branch_denied g r b"
  by (simp only: branch_denied_def fixed_part_scope)

lemma scope_reason_fixed: "scope_reason inside (fixed_part g) q = scope_reason inside g q"
  by (simp only: scope_reason_def fixed_part_scope fixed_part_fields resource_allowed_fixed branch_denied_fixed)

lemma is_effective_decides:
  assumes "grants_ok store" and "is_effective inside now gid q store = Inr (d, store')"
  shows "decides gid store d store'"
    and "gd_reason_code d = ''grant_effective'' \<Longrightarrow>
      gr_status (gd_grant d) = ''approved'' \<and> scope_reason inside (gd_grant d) q = None \<and>
      \<not> uses_exhausted (gd_grant d) \<and> \<not> expired_at now (gd_grant d)"
    and "gd_reason_code d \<noteq> ''grant_consumed''"
proof -
  from assms(2) obtain g1 store1 where c: "grant_current now gid store = Inr (g1, store1)"
    and r: "(if gr_status g1 \<noteq> ''approved'' then Inr (decision_of g1 (''grant_not_approved:'' @ gr_status g1), store1)
       else case scope_reason inside g1 q of
              Some reason \<Rightarrow> Inr (decision_of g1 reason, store1)
            | None \<Rightarrow>
                if uses_exhausted g1 then
                  let g' = g1\<lparr>gr_status := ''expired'', gr_updated_at := now\<rparr>
                  in obind (grant_save g' store1) (\<lambda>store2. Inr (decision_of g' ''grant_use_limit_reached'', store2))
                else Inr (decision_of g1 ''grant_effective'', store1)) = Inr (d, store')"
    by (auto simp: is_effective_def obind_eq_Inr_iff)
  from c obtain g where t: "touches gid store g g1 store1" and u: "gr_used_count g1 = gr_used_count g"
    and same: "g1 = g \<or> gr_status g1 = ''expired''" and ne: "\<not> expired_at now g1"
    by (rule grant_current_touches [OF assms(1)])
  define g' where "g' = g1\<lparr>gr_status := ''expired'', gr_updated_at := now\<rparr>"
  have ev: "evolves g1 g'" if "gr_status g1 = ''approved''"
    using that by (intro evolves_edge) (auto simp: g'_def grant_edge_def grant_final_def)
  consider (refused) reason where "d = decision_of g1 reason" "store' = store1"
      "reason \<noteq> ''grant_consumed''" "reason \<noteq> ''grant_effective''"
    | (limit) "gr_status g1 = ''approved''" "d = decision_of g' ''grant_use_limit_reached''" "store' = put_grant g' store1"
    | (effective) "d = decision_of g1 ''grant_effective''" "store' = store1" "gr_status g1 = ''approved''"
      "scope_reason inside g1 q = None" "\<not> uses_exhausted g1"
  proof (cases "gr_status g1 = ''approved''")
    case False
    with r have "d = decision_of g1 (''grant_not_approved:'' @ gr_status g1)" "store' = store1" by auto
    then show thesis using refused by simp
  next
    case True
    show thesis
    proof (cases "scope_reason inside g1 q")
      case (Some reason)
      with r True have "d = decision_of g1 reason" "store' = store1" by auto
      then show thesis using refused scope_reason_codes [OF Some] by simp
    next
      case None
      show thesis
      proof (cases "uses_exhausted g1")
        case u: True
        with r True None touches_save(1) [OF t ev [OF True] assms(1)]
        show thesis by (intro limit [OF True]) (simp_all add: g'_def Let_def)
      next
        case False
        with r True None show thesis by (intro effective) auto
      qed
    qed
  qed
  note cases = this
  show "decides gid store d store'"
  proof (cases rule: cases)
    case (refused reason)
    then show ?thesis using decidesI [OF t assms(1) u] by simp
  next
    case limit
    then show ?thesis using decidesI [OF touches_save(2) [OF t ev [OF limit(1)] assms(1)] assms(1)] u
      by (simp add: g'_def)
  next
    case effective
    with same have "gr_status g = ''approved''" by auto
    with effective show ?thesis using decidesI [OF t assms(1) u] by simp
  qed
  show "gr_status (gd_grant d) = ''approved'' \<and> scope_reason inside (gd_grant d) q = None \<and>
      \<not> uses_exhausted (gd_grant d) \<and> \<not> expired_at now (gd_grant d)"
    if "gd_reason_code d = ''grant_effective''"
    using that ne by (cases rule: cases) (auto simp: decision_of_def)
  show "gd_reason_code d \<noteq> ''grant_consumed''"
    by (cases rule: cases) (auto simp: decision_of_def)
qed

lemma consume_decides:
  assumes "grants_ok store" and "grant_consume inside now gid q store = Inr (d, store')"
  shows "decides gid store d store'"
    and "gd_reason_code d = ''grant_consumed'' \<Longrightarrow>
      scope_reason inside (gd_grant d) q = None \<and> gr_status (gd_grant d) \<in> {''approved'', ''expired''}"
proof -
  from assms(2) obtain d1 store1 where e: "is_effective inside now gid q store = Inr (d1, store1)"
    and r: "(if gd_reason_code d1 \<noteq> ''grant_effective'' then Inr (d1, store1)
       else let g1 = (gd_grant d1)\<lparr>gr_used_count := gr_used_count (gd_grant d1) + 1, gr_updated_at := now\<rparr>;
             g2 = (if uses_exhausted g1 then g1\<lparr>gr_status := ''expired''\<rparr> else g1)
         in obind (grant_save g2 store1) (\<lambda>store2. Inr (decision_of g2 ''grant_consumed'', store2))) = Inr (d, store')"
    by (auto simp: grant_consume_def obind_eq_Inr_iff)
  note ie = is_effective_decides [OF assms(1) e]
  show "decides gid store d store'" and "gd_reason_code d = ''grant_consumed'' \<Longrightarrow>
      scope_reason inside (gd_grant d) q = None \<and> gr_status (gd_grant d) \<in> {''approved'', ''expired''}"
  proof -
    define g1 where "g1 = (gd_grant d1)\<lparr>gr_used_count := gr_used_count (gd_grant d1) + 1, gr_updated_at := now\<rparr>"
    define g2 where "g2 = (if uses_exhausted g1 then g1\<lparr>gr_status := ''expired''\<rparr> else g1)"
    have both: "decides gid store d store' \<and> (gd_reason_code d = ''grant_consumed'' \<longrightarrow>
        scope_reason inside (gd_grant d) q = None \<and> gr_status (gd_grant d) \<in> {''approved'', ''expired''})"
    proof (cases "gd_reason_code d1 = ''grant_effective''")
      case False
      with r have "d = d1" "store' = store1" by auto
      then show ?thesis using ie(1,3) by simp
    next
      case True
      from ie(1) obtain g where t: "touches gid store g (gd_grant d1) store1" and uo: "use_ok (gd_grant d1)"
        and u: "gr_used_count (gd_grant d1) = gr_used_count g" and ap: "gr_status g = ''approved''"
        unfolding decides_def using True by auto
      note ok = ie(2) [OF True]
      have ev: "evolves (gd_grant d1) g2"
        using ok by (intro evolves_edge) (auto simp: g2_def g1_def grant_edge_def grant_final_def)
      note s = touches_save [OF t ev assms(1)]
      from r True s(1) have d: "d = decision_of g2 ''grant_consumed''" "store' = put_grant g2 store1"
        by (auto simp: g2_def g1_def Let_def)
      have "use_ok g2"
        using ok uo by (auto simp: use_ok_def g2_def g1_def uses_exhausted_def split: option.splits)
      moreover have "gr_grant_id g2 = gid"
        using s(2) assms(1) evolves_fields(1) [of g g2] by (auto simp: touches_def grants_ok_def)
      moreover have "scope_reason inside g2 q = None"
        using ok scope_reason_fixed [of inside g2 q] scope_reason_fixed [of inside "gd_grant d1" q] ev
        by (simp add: evolves_def)
      moreover have "gr_status g2 \<in> {''approved'', ''expired''}" using ok by (simp add: g2_def g1_def)
      ultimately show ?thesis
        unfolding decides_def d using s(2) u ap by (auto simp: decision_of_def g2_def g1_def)
    qed
    then show "decides gid store d store'" and "gd_reason_code d = ''grant_consumed'' \<Longrightarrow>
      scope_reason inside (gd_grant d) q = None \<and> gr_status (gd_grant d) \<in> {''approved'', ''expired''}"
      by blast+
  qed
qed

section \<open>Histories keep the invariant\<close>

definition uses_in :: "str \<Rightarrow> grant_event list \<Rightarrow> nat" where
  "uses_in gid log =
     length (filter (\<lambda>e. case e of Decided d \<Rightarrow> gd_grant_id d = gid \<and> gd_reason_code d = ''grant_consumed'' | _ \<Rightarrow> False) log)"

lemma uses_in_simps [simp]:
  "uses_in gid [] = 0" "uses_in gid (a @ b) = uses_in gid a + uses_in gid b" "uses_in gid [Created k] = 0"
  "uses_in gid [Decided d] = (if gd_grant_id d = gid \<and> gd_reason_code d = ''grant_consumed'' then 1 else 0)"
  by (simp_all add: uses_in_def)

definition used_of :: "grant_store \<Rightarrow> str \<Rightarrow> int" where
  "used_of store gid = (case map_of store gid of None \<Rightarrow> 0 | Some g \<Rightarrow> gr_used_count g)"

definition effective :: "grant_decision \<Rightarrow> bool" where
  "effective d \<longleftrightarrow> gd_reason_code d \<in> {''grant_effective'', ''grant_consumed''}"

definition grant_progress :: "grant_store \<Rightarrow> grant_event list \<Rightarrow> grant_store \<Rightarrow> bool" where
  "grant_progress store log store' \<longleftrightarrow>
     grants_ok store' \<and>
     (\<forall>k g. map_of store k = Some g \<longrightarrow> Created k \<notin> set log \<longrightarrow> (\<exists>g'. map_of store' k = Some g' \<and> evolves g g')) \<and>
     (\<forall>k. used_of store' k = (if Created k \<in> set log then 0 else used_of store k) + int (uses_in k (since_creation k log))) \<and>
     (\<forall>k g d. map_of store k = Some g \<longrightarrow> grant_final (gr_status g) \<longrightarrow> Decided d \<in> set (before_creation k log) \<longrightarrow>
        gd_grant_id d = k \<longrightarrow> \<not> effective d)"

lemma grant_progress_refl: "grants_ok store \<Longrightarrow> grant_progress store [] store"
  by (simp add: grant_progress_def)

lemma grant_progress_trans:
  assumes "grant_progress s0 a s1" and "grant_progress s1 b s2"
  shows "grant_progress s0 (a @ b) s2"
proof -
  have kept: "\<exists>g'. map_of s1 k = Some g' \<and> evolves g g'" if "map_of s0 k = Some g" "Created k \<notin> set a" for k g
    using assms(1) that unfolding grant_progress_def by blast
  have kept': "\<exists>g'. map_of s2 k = Some g' \<and> evolves g g'" if "map_of s1 k = Some g" "Created k \<notin> set b" for k g
    using assms(2) that unfolding grant_progress_def by blast
  have "\<exists>g'. map_of s2 k = Some g' \<and> evolves g g'" if s0: "map_of s0 k = Some g" and new: "Created k \<notin> set (a @ b)" for k g
  proof -
    from s0 new obtain g1 where g1: "map_of s1 k = Some g1" "evolves g g1" using kept by auto
    then obtain g2 where "map_of s2 k = Some g2" "evolves g1 g2" using kept' new by auto
    with g1(2) show ?thesis using evolves_trans by blast
  qed
  moreover have "used_of s2 k = (if Created k \<in> set (a @ b) then 0 else used_of s0 k) + int (uses_in k (since_creation k (a @ b)))" for k
    using assms by (auto simp: grant_progress_def since_creation_append since_creation_all)
  moreover have "\<not> effective d"
    if "map_of s0 k = Some g" "grant_final (gr_status g)" "Decided d \<in> set (before_creation k (a @ b))" "gd_grant_id d = k" for k g d
  proof (cases "Decided d \<in> set (before_creation k a)")
    case True
    with assms(1) that show ?thesis unfolding grant_progress_def by blast
  next
    case False
    with that(3) have n: "Created k \<notin> set a" by (auto simp: before_creation_append split: if_splits)
    then have "before_creation k a = a" by (auto simp: before_creation_def takeWhile_eq_all_conv)
    with False that(3) n have d: "Decided d \<in> set (before_creation k b)" by (simp add: before_creation_append)
    from kept [OF that(1) n] that(2) have "map_of s1 k = Some g" by (auto simp: evolves_def)
    with assms(2) that(2,4) d show ?thesis unfolding grant_progress_def by blast
  qed
  ultimately show ?thesis using assms(2) unfolding grant_progress_def by blast
qed

lemma decides_progress:
  assumes "decides gid store d store'" and "grants_ok store"
  shows "grant_progress store [Decided d] store'"
proof -
  from assms(1) obtain g where t: "touches gid store g (gd_grant d) store'" and u: "use_ok (gd_grant d)"
    and id: "gd_grant_id d = gid" and c: "gr_used_count (gd_grant d) =
      gr_used_count g + (if gd_reason_code d = ''grant_consumed'' then 1 else 0)"
    and ap: "gd_reason_code d \<in> {''grant_effective'', ''grant_consumed''} \<longrightarrow> gr_status g = ''approved''"
    unfolding decides_def by blast
  have "grants_ok store'" by (rule touches_ok [OF t assms(2) u])
  moreover have "\<not> effective d" if "map_of store gid = Some x" "grant_final (gr_status x)" for x
    using that t ap by (auto simp: touches_def grant_final_def effective_def)
  moreover have "used_of store' k = used_of store k + int (uses_in k [Decided d])" for k
    using t id c by (auto simp: touches_def used_of_def)
  ultimately show ?thesis using t id unfolding grant_progress_def touches_def by auto
qed

lemma touches_progress:
  assumes "touches gid store g g' store'" and "grants_ok store" and "gr_used_count g' = gr_used_count g"
  shows "grant_progress store [] store'"
proof -
  have "use_ok g'" by (rule use_ok_same [OF touches_use_ok [OF assms(1,2)] touches_evolves [OF assms(1)] assms(3)])
  then have "grants_ok store'" by (rule touches_ok [OF assms(1,2)])
  then show ?thesis using assms(1,3) by (auto simp: grant_progress_def touches_def used_of_def)
qed

text \<open>A saved grant without uses: under an unused identifier, or with its creation in the log.\<close>

lemma new_grant_progress:
  assumes "grants_ok store" and "grant_save g store = Inr store'" and "gr_used_count g = 0"
    and "log = [] \<and> map_of store (gr_grant_id g) = None \<or> log = [Created (gr_grant_id g)]"
  shows "grant_progress store log store'"
proof -
  from assms(2) have p: "grant_path_ok (gr_grant_id g)" and s: "store' = put_grant g store"
    by (auto simp: grant_save_def split: if_splits)
  have "use_ok g" using assms(3) by (simp add: use_ok_def split: option.splits)
  with assms(1) p have "grants_ok store'" unfolding s by (intro grants_ok_save)
  with assms(3,4) show ?thesis
    by (auto simp: grant_progress_def s used_of_def gstore.lookup_save split: if_splits)
qed

lemma mission_grant_simps [simp]:
  "gr_grant_id (mission_grant sha now m) = mission_grant_id sha m"
  "gr_used_count (mission_grant sha now m) = 0"
  "gr_status (mission_grant sha now m) = ''approved''"
  "gr_max_uses (mission_grant sha now m) = None"
  "gr_actions (mission_grant sha now m) = grant_unique (ms_authorized_capabilities m)"
  by (simp_all add: mission_grant_def Let_def)

lemma mission_grant_id_ok [simp]: "grant_path_ok (mission_grant_id sha m)"
  by (simp add: mission_grant_id_def grant_path_ok_def)

lemma expire_touches:
  assumes "grants_ok store" and "map_of store gid = Some g" and "expire_if_needed now g store = Inr (g1, store1)"
  shows "touches gid store g g1 store1 \<and> gr_used_count g1 = gr_used_count g"
proof -
  have "grant_current now gid store = Inr (g1, store1)"
    using assms by (auto simp: grant_current_def grant_required_def grant_get_def grants_ok_def)
  then show ?thesis
    by (rule grant_current_touches [OF assms(1)]) (use assms(2) in \<open>simp add: touches_def\<close>)
qed

lemma ensure_mission_grant_cases:
  assumes "grants_ok store" and "ensure_mission_grant sha now m store = Inr (og, store1)"
  obtains (nothing) "og = None" "store1 = store" "ms_authorized_capabilities m = []"
  | (existing) g g1 where "ms_authorized_capabilities m \<noteq> []" "ms_explicit_evidence m \<noteq> []"
      "map_of store (mission_grant_id sha m) = Some g" "validate_existing_mission_grant g m = Inr ()"
      "og = Some g1" "touches (mission_grant_id sha m) store g g1 store1" "gr_used_count g1 = gr_used_count g"
  | (created) "ms_authorized_capabilities m \<noteq> []" "ms_explicit_evidence m \<noteq> []"
      "map_of store (mission_grant_id sha m) = None" "og = Some (mission_grant sha now m)"
      "grant_save (mission_grant sha now m) store = Inr store1"
proof (cases "ms_authorized_capabilities m = []")
  case True
  with assms(2) have "og = None" "store1 = store" by (simp_all add: ensure_mission_grant_def)
  then show thesis using True by (rule nothing)
next
  case caps: False
  with assms(2) have ev: "ms_explicit_evidence m \<noteq> []" by (auto simp: ensure_mission_grant_def)
  show thesis
  proof (cases "map_of store (mission_grant_id sha m)")
    case None
    with assms(2) caps ev have "og = Some (mission_grant sha now m)"
      "grant_save (mission_grant sha now m) store = Inr store1"
      by (auto simp: ensure_mission_grant_def grant_get_def Let_def obind_eq_Inr_iff)
    then show thesis by (rule created [OF caps ev None])
  next
    case (Some g)
    with assms(2) caps ev obtain g1 where "validate_existing_mission_grant g m = Inr ()"
      and "expire_if_needed now g store = Inr (g1, store1)" and "og = Some g1"
      by (auto simp: ensure_mission_grant_def grant_get_def obind_eq_Inr_iff)
    then show thesis using existing [OF caps ev Some] expire_touches [OF assms(1) Some] by blast
  qed
qed

lemma ensure_mission_grant_progress:
  assumes "grants_ok store" and "ensure_mission_grant sha now m store = Inr (og, store1)"
  shows "grant_progress store [] store1"
  using assms
proof (cases rule: ensure_mission_grant_cases)
  case nothing
  with assms(1) show ?thesis by (simp add: grant_progress_refl)
next
  case (existing g g1)
  then show ?thesis using touches_progress [OF _ assms(1)] by blast
next
  case created
  then show ?thesis using new_grant_progress [OF assms(1), of "mission_grant sha now m" _ "[]"] by simp
qed

lemma decision_for_contract_progress:
  assumes "grants_ok store" and "decision_for_contract sha inside now m q consume store = Inr (d, store2)"
  shows "grant_progress store (case d of None \<Rightarrow> [] | Some x \<Rightarrow> [Decided x]) store2"
proof -
  from assms(2) obtain og store1 where e: "ensure_mission_grant sha now m store = Inr (og, store1)"
    by (auto simp: decision_for_contract_def obind_eq_Inr_iff)
  note p = ensure_mission_grant_progress [OF assms(1) e]
  then have ok: "grants_ok store1" by (simp add: grant_progress_def)
  show ?thesis
  proof (cases og)
    case None
    with e assms(2) p show ?thesis by (auto simp: decision_for_contract_def)
  next
    case (Some g)
    with e assms(2) obtain q' x where d: "d = Some x"
      and r: "(if consume then grant_consume else is_effective) inside now (gr_grant_id g) q' store1 = Inr (x, store2)"
      by (auto simp: decision_for_contract_def obind_eq_Inr_iff Let_def)
    have "decides (gr_grant_id g) store1 x store2"
      using r consume_decides(1) [OF ok] is_effective_decides(1) [OF ok] by (auto split: if_splits)
    then show ?thesis using grant_progress_trans [OF p decides_progress [OF _ ok]] d by auto
  qed
qed

lemma list_grants_progress:
  assumes "grants_ok store" and "list_grants_from now session mission status limit order acc store = Inr (gs, store')"
  shows "grant_progress store [] store'"
  using assms
proof (induction order arbitrary: acc store)
  case Nil
  then show ?case by (simp add: grant_progress_refl)
next
  case (Cons gid order)
  show ?case
  proof (cases "map_of store gid")
    case None
    with Cons show ?thesis by simp
  next
    case (Some g)
    with Cons.prems(2) obtain g1 store1 where e: "expire_if_needed now g store = Inr (g1, store1)"
      by (auto simp: obind_eq_Inr_iff)
    have p: "grant_progress store [] store1"
      using expire_touches [OF Cons.prems(1) Some e] touches_progress [OF _ Cons.prems(1)] by blast
    then have ok: "grants_ok store1" by (simp add: grant_progress_def)
    have "store' = store1 \<or> (\<exists>acc'. list_grants_from now session mission status limit order acc' store1 = Inr (gs, store'))"
      using Cons.prems(2) Some e by (auto split: if_splits)
    then show ?thesis using p Cons.IH [OF ok] grant_progress_trans [OF p] by fastforce
  qed
qed

lemma grant_call_progress:
  assumes "grants_ok store" and "grant_call sha inside now op store = Inr (es, store')"
  shows "grant_progress store es store'"
proof -
  have one: "grant_progress store es store'"
    if "obind r (\<lambda>(d, s). Inr ([Decided d], s)) = Inr (es, store')"
      and "\<And>x s. r = Inr (x, s) \<Longrightarrow> decides gid store x s" for r and gid :: str
    using that decides_progress [OF _ assms(1)] by (auto simp: obind_eq_Inr_iff)
  show ?thesis
  proof (cases op)
    case (Create uid s)
    with assms(2) have "es = [Created (gr_grant_id (pending_grant now uid s))]"
      and "grant_save (pending_grant now uid s) store = Inr store'"
      by (auto simp: grant_call_def create_pending_def Let_def obind_eq_Inr_iff)
    then show ?thesis
      using new_grant_progress [OF assms(1), of "pending_grant now uid s"] by (simp add: pending_grant_def)
  next
    case (Approve gid actor)
    with assms show ?thesis
      by (intro one [of "grant_approve now gid actor store" gid])
        (auto simp: grant_call_def Let_def approve_as_terminalize intro: terminalize_decides)
  next
    case (Deny gid actor)
    with assms show ?thesis
      by (intro one [of "grant_deny now gid actor store" gid])
        (auto simp: grant_call_def Let_def grant_deny_def intro: terminalize_decides)
  next
    case (Revoke gid actor)
    with assms show ?thesis
      by (intro one [of "grant_revoke now gid actor store" gid]) (auto simp: grant_call_def Let_def intro: revoke_decides)
  next
    case (Check gid q)
    with assms show ?thesis
      by (intro one [of "is_effective inside now gid q store" gid])
        (auto simp: grant_call_def Let_def intro: is_effective_decides)
  next
    case (Consume gid q)
    with assms show ?thesis
      by (intro one [of "grant_consume inside now gid q store" gid])
        (auto simp: grant_call_def Let_def intro: consume_decides)
  next
    case (Mission m q consume)
    with assms show ?thesis
      by (auto simp: grant_call_def Let_def obind_eq_Inr_iff intro: decision_for_contract_progress)
  next
    case (List_Grants session mission status limit order)
    with assms show ?thesis by (auto simp: grant_call_def Let_def obind_eq_Inr_iff intro: list_grants_progress)
  qed
qed

lemma grant_run_progress:
  "grant_run sha inside store log store' \<Longrightarrow> grants_ok store \<Longrightarrow> grant_progress store log store'"
proof (induction rule: grant_run.induct)
  case (run_done store)
  then show ?case by (rule grant_progress_refl)
next
  case (run_call store log store1 now op es store2)
  then have p: "grant_progress store log store1" by simp
  then have "grants_ok store1" by (simp add: grant_progress_def)
  then show ?case using grant_progress_trans [OF p grant_call_progress] run_call.hyps by blast
qed simp

section \<open>Scope and consumption\<close>

text \<open>What it means that a request lies within a grant: each bound that both sides name is respected.\<close>

definition within_scope :: "(str \<Rightarrow> str \<Rightarrow> bool) \<Rightarrow> session_grant \<Rightarrow> scope_query \<Rightarrow> bool" where
  "within_scope inside g q \<longleftrightarrow>
     qu_action q \<in> set (gr_actions g) \<and>
     \<not> both_differ (qu_mission_id q) (gr_mission_id g) \<and>
     \<not> both_differ (qu_source_message_id q) (gr_source_message_id g) \<and>
     \<not> both_differ (qu_source_prompt_sha256 q) (gr_source_prompt_sha256 g) \<and>
     (\<forall>p. qu_path q = Some p \<and> p \<noteq> [] \<and> gr_paths_scope g \<noteq> [] \<longrightarrow> (\<exists>root\<in>set (gr_paths_scope g). inside p root)) \<and>
     (\<forall>c. qu_command q = Some c \<and> c \<noteq> [] \<and> gr_command_scope g \<noteq> [] \<longrightarrow> c \<in> set (gr_command_scope g)) \<and>
     (\<forall>r. qu_resource_id q = Some r \<and> r \<noteq> [] \<longrightarrow> resource_allowed g r) \<and>
     (\<forall>r. qu_repository_identity q = Some r \<and> r \<noteq> [] \<longrightarrow>
        (gr_repository_scope g \<noteq> [] \<longrightarrow> r \<in> set (gr_repository_scope g)) \<and> \<not> branch_denied g r (qu_branch q))"

lemma opt_truthy_iff: "opt_truthy a \<longleftrightarrow> (\<exists>t. a = Some t \<and> t \<noteq> [])"
  by (cases a) auto

lemma scope_reason_None_iff: "scope_reason inside g q = None \<longleftrightarrow> within_scope inside g q"
proof -
  define P where "P \<longleftrightarrow> (\<forall>p. qu_path q = Some p \<and> p \<noteq> [] \<and> gr_paths_scope g \<noteq> [] \<longrightarrow>
    (\<exists>root\<in>set (gr_paths_scope g). inside p root))"
  define C where "C \<longleftrightarrow> (\<forall>c. qu_command q = Some c \<and> c \<noteq> [] \<and> gr_command_scope g \<noteq> [] \<longrightarrow>
    c \<in> set (gr_command_scope g))"
  define R where "R \<longleftrightarrow> (\<forall>r. qu_resource_id q = Some r \<and> r \<noteq> [] \<longrightarrow> resource_allowed g r)"
  have path: "opt_truthy (qu_path q) \<and> gr_paths_scope g \<noteq> [] \<and>
      \<not> list_ex (inside (str_or (qu_path q) [])) (gr_paths_scope g) \<longleftrightarrow> \<not> P"
    by (auto simp: P_def opt_truthy_iff list_ex_iff)
  have command: "opt_truthy (qu_command q) \<and> gr_command_scope g \<noteq> [] \<and>
      str_or (qu_command q) [] \<notin> set (gr_command_scope g) \<longleftrightarrow> \<not> C"
    by (auto simp: C_def opt_truthy_iff)
  have resource: "opt_truthy (qu_resource_id q) \<and> \<not> resource_allowed g (str_or (qu_resource_id q) []) \<longleftrightarrow> \<not> R"
    by (auto simp: R_def opt_truthy_iff)
  show ?thesis
    unfolding scope_reason_def within_scope_def path command resource
      P_def [symmetric] C_def [symmetric] R_def [symmetric]
    by (cases "qu_repository_identity q") auto
qed

text \<open>The four conditions under which an action may use a stored grant.\<close>

definition usable :: "(str \<Rightarrow> str \<Rightarrow> bool) \<Rightarrow> int \<Rightarrow> session_grant \<Rightarrow> scope_query \<Rightarrow> bool" where
  "usable inside now g q \<longleftrightarrow>
     gr_status g = ''approved'' \<and> (\<forall>t. gr_expires_at g = Some t \<longrightarrow> now < t) \<and>
     within_scope inside g q \<and> (\<forall>m. gr_max_uses g = Some m \<longrightarrow> gr_used_count g < m)"

lemma usable_iff:
  "usable inside now g q \<longleftrightarrow>
     gr_status g = ''approved'' \<and> \<not> expired_at now g \<and> scope_reason inside g q = None \<and> \<not> uses_exhausted g"
  unfolding usable_def scope_reason_None_iff
  by (auto simp: expired_at_def uses_exhausted_def split: option.splits)

text \<open>The grant after one use.\<close>

definition used_once :: "int \<Rightarrow> session_grant \<Rightarrow> session_grant" where
  "used_once now g =
     g\<lparr>gr_used_count := gr_used_count g + 1, gr_updated_at := now,
       gr_status := (if gr_max_uses g = Some (gr_used_count g + 1) then ''expired'' else ''approved'')\<rparr>"

lemma is_effective_usable:
  assumes "map_of store gid = Some g" and "grant_path_ok gid" and "usable inside now g q"
  shows "is_effective inside now gid q store = Inr (decision_of g ''grant_effective'', store)"
  using assms unfolding usable_iff
  by (simp add: is_effective_def grant_current_def grant_required_def grant_get_def expire_if_needed_def)

lemma decision_of_reads:
  "gd_reason_code (decision_of g r) = r" "gd_grant (decision_of g r) = g" "gd_grant_id (decision_of g r) = gr_grant_id g"
  by (simp_all add: decision_of_def)

lemma consume_usable:
  assumes "map_of store gid = Some g" and "grant_path_ok gid" and "gr_grant_id g = gid" and "usable inside now g q"
  shows "grant_consume inside now gid q store =
    Inr (decision_of (used_once now g) ''grant_consumed'', put_grant (used_once now g) store)"
proof -
  define g1 where "g1 = g\<lparr>gr_used_count := gr_used_count g + 1, gr_updated_at := now\<rparr>"
  have "uses_exhausted g1 \<longleftrightarrow> gr_max_uses g = Some (gr_used_count g + 1)"
    using assms(4) by (auto simp: g1_def usable_def uses_exhausted_def split: option.splits)
  then have "(if uses_exhausted g1 then g1\<lparr>gr_status := ''expired''\<rparr> else g1) = used_once now g"
    using assms(4) by (simp add: g1_def used_once_def usable_def)
  moreover have "grant_save (used_once now g) store = Inr (put_grant (used_once now g) store)"
    using assms(2,3) by (simp add: grant_save_def used_once_def)
  ultimately show ?thesis
    using is_effective_usable [OF assms(1,2,4)]
    by (simp add: grant_consume_def g1_def [symmetric] decision_of_reads Let_def)
qed






section \<open>Properties\<close>

text \<open>
  C18. Over every history of calls from the empty store, a grant's use counter equals the number of
  \<open>grant_consumed\<close> decisions handed out for its identifier since a pending grant was last created under it (since the
  beginning, if none was), and that number never exceeds the use limit. A creation under a used identifier starts the count
  again, which is what \<open>create_pending\<close> does.
\<close>

theorem grant_use_limit:
  assumes "grant_run sha inside [] log store" and "map_of store gid = Some g"
  shows "gr_used_count g = int (uses_in gid (since_creation gid log)) \<and>
    (\<forall>m. gr_max_uses g = Some m \<longrightarrow> int (uses_in gid (since_creation gid log)) \<le> max 0 m)"
proof -
  have "grants_ok []" by (simp add: grants_ok_def)
  with assms(1) have p: "grant_progress [] log store" by (rule grant_run_progress)
  then have "used_of store gid = int (uses_in gid (since_creation gid log))" by (simp add: grant_progress_def used_of_def)
  moreover from p assms(2) have "use_ok g" by (auto simp: grant_progress_def grants_ok_def)
  ultimately show ?thesis using assms(2) by (auto simp: used_of_def use_ok_def)
qed

text \<open>
  C15. A revoked or expired grant is dead until a pending grant is created under its identifier: whatever calls follow,
  including those that list grants and those that derive mission grants again, no decision on it before such a creation is
  effective or consumed, and without such a creation the grant stays in the store unchanged.
\<close>

theorem final_grant_is_dead:
  assumes "grants_ok store" and "grant_run sha inside store log store'"
    and "map_of store gid = Some g" and "gr_status g = ''revoked'' \<or> gr_status g = ''expired''"
  shows "(Created gid \<notin> set log \<longrightarrow> map_of store' gid = Some g) \<and>
    (\<forall>d. Decided d \<in> set (before_creation gid log) \<and> gd_grant_id d = gid \<longrightarrow>
       gd_reason_code d \<notin> {''grant_effective'', ''grant_consumed''})"
proof -
  have p: "grant_progress store log store'" by (rule grant_run_progress [OF assms(2,1)])
  have final: "grant_final (gr_status g)" using assms(4) by (simp add: grant_final_def)
  have "map_of store' gid = Some g" if "Created gid \<notin> set log"
    using p assms(3) that final unfolding grant_progress_def evolves_def by metis
  moreover have "gd_reason_code d \<notin> {''grant_effective'', ''grant_consumed''}"
    if "Decided d \<in> set (before_creation gid log)" "gd_grant_id d = gid" for d
    using p that assms(3) final unfolding grant_progress_def effective_def by blast
  ultimately show ?thesis by blast
qed


lemma set_grant_unique: "set (grant_unique xs) = py_strip ` set xs - {[]}"
  by (auto simp: grant_unique_def)

lemma consume_not_effective:
  assumes "grant_consume inside now gid q store = Inr (d, store')"
  shows "gd_reason_code d \<noteq> ''grant_effective''"
proof -
  from assms obtain d1 store1 where e: "is_effective inside now gid q store = Inr (d1, store1)"
    by (auto simp: grant_consume_def obind_eq_Inr_iff)
  show ?thesis
  proof (cases "gd_reason_code d1 = ''grant_effective''")
    case True
    then have "gd_reason_code d = ''grant_consumed''"
      using assms by (auto simp: grant_consume_def e Let_def obind_eq_Inr_iff decision_of_reads)
    then show ?thesis by simp
  next
    case False
    with assms have "d = d1" by (simp only: grant_consume_def e) simp
    with False show ?thesis by blast
  qed
qed

lemma decides_scope:
  assumes "grants_ok store" and "(if consume then grant_consume else is_effective) inside now gid q store = Inr (d, store')"
    and "gd_reason_code d \<in> {''grant_effective'', ''grant_consumed''}"
  shows "\<exists>g. map_of store gid = Some g \<and> evolves g (gd_grant d) \<and> qu_action q \<in> set (gr_actions g)"
proof -
  have "decides gid store d store' \<and> scope_reason inside (gd_grant d) q = None"
  proof (cases consume)
    case True
    with assms(2) have c: "grant_consume inside now gid q store = Inr (d, store')" by simp
    show ?thesis using consume_decides [OF assms(1) c] consume_not_effective [OF c] assms(3) by blast
  next
    case False
    with assms(2) have e: "is_effective inside now gid q store = Inr (d, store')" by simp
    show ?thesis using is_effective_decides [OF assms(1) e] assms(3) by auto
  qed
  then obtain g where "touches gid store g (gd_grant d) store'" and "scope_reason inside (gd_grant d) q = None"
    by (auto simp: decides_def)
  moreover from this have "qu_action q \<in> set (gr_actions g)"
    using evolves_fields(2) [of g "gd_grant d"] by (auto simp: touches_def scope_reason_None_iff within_scope_def)
  ultimately show ?thesis by (auto simp: touches_def)
qed

lemma evolves_binding:
  assumes "evolves g g'"
  shows "gr_mission_id g' = gr_mission_id g"
  using assms unfolding evolves_def by (metis fixed_part_fields(6))

text \<open>
  A mission contract opens a gate only on explicit human evidence and for a capability it authorizes:
  if the decision is effective or consumed, the grant is the contract's own, bound to its mission.
\<close>

theorem mission_authority_sound:
  assumes "grants_ok store" and "decision_for_contract sha inside now m q consume store = Inr (Some d, store')"
    and "gd_reason_code d = ''grant_effective'' \<or> gd_reason_code d = ''grant_consumed''"
  shows "ms_explicit_evidence m \<noteq> [] \<and> gr_mission_id (gd_grant d) = Some (ms_mission_id m) \<and>
    (\<exists>c. c \<in> set (ms_authorized_capabilities m) \<and> (qu_action q = c \<or> qu_action q = py_strip c))"
proof -
  from assms(2) obtain og store1 where e: "ensure_mission_grant sha now m store = Inr (og, store1)"
    by (auto simp: decision_for_contract_def obind_eq_Inr_iff)
  have ok: "grants_ok store1"
    using ensure_mission_grant_progress [OF assms(1) e] by (simp add: grant_progress_def)
  have used: "\<exists>g'. map_of store1 (gr_grant_id g) = Some g' \<and> evolves g' (gd_grant d) \<and> qu_action q \<in> set (gr_actions g')"
    if "og = Some g" for g
  proof -
    define q' where "q' = q\<lparr>qu_mission_id := Some (ms_mission_id m), qu_source_message_id := Some (ms_source_message_id m),
      qu_source_prompt_sha256 := Some (ms_source_prompt_sha256 m)\<rparr>"
    have "(if consume then grant_consume else is_effective) inside now (gr_grant_id g) q' store1 = Inr (d, store')"
      using assms(2) e that by (auto simp: decision_for_contract_def obind_eq_Inr_iff Let_def q'_def)
    moreover have "gd_reason_code d \<in> {''grant_effective'', ''grant_consumed''}" using assms(3) by blast
    moreover have "qu_action q' = qu_action q" by (simp add: q'_def)
    ultimately show ?thesis using decides_scope [OF ok] by metis
  qed
  show ?thesis
    using assms(1) e
  proof (cases rule: ensure_mission_grant_cases)
    case nothing
    with e assms(2) show ?thesis by (simp add: decision_for_contract_def)
  next
    case (existing g g1)
    then have id: "gr_grant_id g1 = mission_grant_id sha m" "map_of store1 (mission_grant_id sha m) = Some g1"
      "gr_actions g1 = gr_actions g" "gr_mission_id g1 = gr_mission_id g"
      using assms(1) evolves_fields [of g g1] evolves_binding [of g g1] by (auto simp: touches_def grants_ok_def)
    then show ?thesis
      using used [OF existing(5)] existing(2,4) evolves_binding [of g1 "gd_grant d"]
      by (auto simp: validate_existing_mission_grant_def split: if_splits)
  next
    case created
    then have "map_of store1 (mission_grant_id sha m) = Some (mission_grant sha now m)"
      by (auto simp: grant_save_def gstore.lookup_save split: if_splits)
    then show ?thesis
      using used [OF created(4)] created(2) evolves_binding [of "mission_grant sha now m" "gd_grant d"]
      by (auto simp: set_grant_unique mission_grant_def Let_def)
  qed
qed

section \<open>A worked history\<close>

definition example_spec :: grant_spec where
  "example_spec =
     \<lparr>sp_session_id = ''s1'', sp_workspace_id = None, sp_workspace_path = None, sp_actions = [''write_file''],
      sp_paths_scope = [''/w''], sp_command_scope = [], sp_scope = ''single_use'', sp_source_channel = ''chat'',
      sp_reason = ''edit'', sp_max_uses = Some 1, sp_ttl_minutes = 10, sp_evidence = [], sp_mission_id = None,
      sp_source_message_id = None, sp_source_prompt_sha256 = None, sp_authority_sha256 = None,
      sp_local_resource_ids = [], sp_remote_resource_ids = [], sp_repository_scope = [], sp_branch_scope = [],
      sp_grant_id = None\<rparr>"

definition example_query :: scope_query where
  "example_query =
     \<lparr>qu_action = ''write_file'', qu_path = Some ''/w'', qu_command = None, qu_mission_id = None,
      qu_source_message_id = None, qu_source_prompt_sha256 = None, qu_resource_id = None,
      qu_repository_identity = None, qu_branch = None\<rparr>"

definition example_pending :: session_grant where
  "example_pending = pending_grant 0 ''1'' example_spec"

definition example_approved :: session_grant where
  "example_approved = example_pending\<lparr>gr_status := ''approved'', gr_approved_by := Some ''user'', gr_updated_at := 1\<rparr>"

definition example_used :: session_grant where
  "example_used = used_once 2 example_approved"

definition example_run :: "grant_event list" where
  "example_run =
     [Created ''grant_1'', Decided (decision_of example_approved ''grant_approved''), Decided (decision_of example_used ''grant_consumed'')]"

lemma example_grant_ids [simp]:
  "gr_grant_id example_pending = ''grant_1''" "gr_grant_id example_approved = ''grant_1''"
  "gr_grant_id example_used = ''grant_1''"
  by (simp_all add: example_pending_def example_approved_def example_used_def used_once_def pending_grant_def
      example_spec_def)

lemma example_used_fields:
  "gr_max_uses example_used = Some 1" "gr_used_count example_used = 1" "gr_status example_used = ''expired''"
  by (simp_all add: example_used_def used_once_def example_approved_def example_pending_def pending_grant_def
      example_spec_def)

lemma example_usable: "usable (\<lambda>p root. p = root) 2 example_approved example_query"
  unfolding usable_iff by code_simp

lemma example_ok: "grants_ok [(''grant_1'', example_approved)]" "grants_ok [(''grant_1'', example_used)]"
  by (auto simp: grants_ok_def grant_path_ok_def use_ok_def example_used_fields example_approved_def
      example_pending_def pending_grant_def example_spec_def split: if_splits)

lemma example_history:
  "grant_run id (\<lambda>p root. p = root) [] example_run [(''grant_1'', example_used)]"
proof -
  have c: "grant_call id (\<lambda>p root. p = root) 0 (Create ''1'' example_spec) [] = Inr ([Created ''grant_1''], [(''grant_1'', example_pending)])"
    by (simp add: grant_call_def create_pending_def grant_save_def grant_path_ok_def put_grant_def Let_def
        flip: example_pending_def)
  have a: "grant_call id (\<lambda>p root. p = root) 1 (Approve ''grant_1'' ''user'') [(''grant_1'', example_pending)] =
      Inr ([Decided (decision_of example_approved ''grant_approved'')], [(''grant_1'', example_approved)])"
    by (simp add: grant_call_def Let_def grant_approve_def grant_current_def grant_required_def grant_get_def
        expire_if_needed_def expired_at_def grant_save_def grant_path_ok_def put_grant_def
        example_approved_def example_pending_def pending_grant_def example_spec_def MINUTE_def)
  have u: "grant_call id (\<lambda>p root. p = root) 2 (Consume ''grant_1'' example_query) [(''grant_1'', example_approved)] =
      Inr ([Decided (decision_of example_used ''grant_consumed'')], [(''grant_1'', example_used)])"
    using consume_usable [OF _ _ _ example_usable, of "[(''grant_1'', example_approved)]" "''grant_1''"]
    by (simp add: grant_call_def Let_def grant_path_ok_def put_grant_def flip: example_used_def)
  show ?thesis using run_call [OF run_call [OF run_call [OF run_done c] a] u] by (simp add: example_run_def)
qed

theorem example_use_limit_witness:
  "gr_used_count example_used = int (uses_in ''grant_1'' (since_creation ''grant_1'' example_run)) \<and>
     int (uses_in ''grant_1'' (since_creation ''grant_1'' example_run)) \<le> 1"
  using grant_use_limit [OF example_history, of "''grant_1''"] by (simp add: example_used_fields)

theorem example_dead_witness:
  "\<exists>log store'. grant_run id (\<lambda>p root. p = root) [(''grant_1'', example_used)] log store' \<and> log \<noteq> [] \<and>
     map_of store' ''grant_1'' = Some example_used"
proof -
  let ?s = "[(''grant_1'', example_used)]"
  let ?d = "decision_of example_used ''grant_not_revocable:expired''"
  have c: "grant_call id (\<lambda>p root. p = root) 3 (Revoke ''grant_1'' ''user'') ?s = Inr ([Decided ?d], ?s)"
    by (simp add: grant_call_def Let_def grant_revoke_def grant_required_def grant_get_def grant_path_ok_def
        example_used_fields)
  have r: "grant_run id (\<lambda>p root. p = root) ?s ([] @ [Decided ?d]) ?s"
    by (rule run_call [OF run_done c])
  have "map_of ?s ''grant_1'' = Some example_used"
    using final_grant_is_dead [OF example_ok(2) r, of "''grant_1''" example_used]
    by (simp add: example_used_fields)
  with r show ?thesis by blast
qed


definition example_mission :: mission_contract where
  "example_mission =
     \<lparr>ms_mission_id = ''m1'', ms_session_id = Some ''s1'', ms_source_message_id = ''msg1'',
      ms_source_prompt_sha256 = ''abc'', ms_local_resources = [], ms_remote_resources = [],
      ms_authorized_capabilities = [''write_file''], ms_explicit_evidence = [JStr ''you may write''],
      ms_authority_sha256 = ''def''\<rparr>"

lemma example_mission_decision:
  "case decision_for_contract id (\<lambda>p root. p = root) 0 example_mission example_query False [] of
     Inr (Some d, store') \<Rightarrow> gd_reason_code d = ''grant_effective'' | _ \<Rightarrow> False"
  by code_simp

theorem example_authority_witness:
  "\<exists>d store'. decision_for_contract id (\<lambda>p root. p = root) 0 example_mission example_query False [] = Inr (Some d, store')
     \<and> gd_reason_code d = ''grant_effective'' \<and> gr_mission_id (gd_grant d) = Some ''m1''"
proof -
  obtain d store' where c: "decision_for_contract id (\<lambda>p root. p = root) 0 example_mission example_query False [] = Inr (Some d, store')"
    and r: "gd_reason_code d = ''grant_effective''"
    using example_mission_decision by (auto split: sum.splits option.splits)
  have "grants_ok []" by (simp add: grants_ok_def)
  from mission_authority_sound [OF this c] r c show ?thesis by (auto simp: example_mission_def)
qed

end
