(* ===== verification/Workspace_Permissions.thy ===== *)
theory Workspace_Permissions
  imports Policy_Kernel Executable_Plan Authority_Grants "HOL-Library.Product_Lexorder"
begin

text \<open>
  The workspace registry and the permissions it gives: \<open>WorkspacePermissionMatrixService\<close>
  (\<open>services/config_governance/workspace_permission_matrix_service.py\<close>), \<open>WorkspaceRoleContractService\<close>
  (\<open>services/policy_kernel/workspace_role_contract_service.py\<close>) and the matcher of the local resources of a mission,
  \<open>MissionLocalResourceScopeService\<close>.

  The registry is the raw mapping YAML gives: nothing guarantees the types of its values, and every access that can raise
  does (\<open>Inl\<close> with the name of the exception, or with the message of a \<open>ValueError\<close>). Path resolution, the text of a value
  that is not a string, YAML and the coercions of pydantic are the environment's, arguments of the model. Resolution raises
  on some paths (an unknown home directory, a NUL character): the exception is an argument too. The property
  \<open>config\<close> is the argument \<open>cfg\<close> of the operations that only read it.
\<close>

section \<open>Environment\<close>

record workspace_env = path_env +
  wx_user_error :: "str \<Rightarrow> str option"
  wx_path_error :: "str \<Rightarrow> str option"
  wx_resolve :: "str \<Rightarrow> str"
  wx_absolute :: "str \<Rightarrow> bool"
  wx_parts :: "str \<Rightarrow> str list"
  wx_leaf :: "str \<Rightarrow> str"
  wx_render :: "json \<Rightarrow> str"
  wx_registry_path :: str
  wx_yaml_load :: "str \<Rightarrow> json dict outcome"
  wx_yaml_dump :: "json dict \<Rightarrow> str"
  wx_bool :: "json \<Rightarrow> bool option"
  wx_strs :: "json \<Rightarrow> str list option"
  wx_text :: "json \<Rightarrow> str option"

text \<open>
  The exceptions of \<open>Path(value).expanduser()\<close> and of \<open>Path(value).expanduser().resolve(strict=False)\<close>, when they raise.
\<close>

definition raising :: "str option \<Rightarrow> 'a outcome \<Rightarrow> 'a outcome" where
  "raising e m = (case e of Some exc \<Rightarrow> Inl exc | None \<Rightarrow> m)"

definition under_root :: "workspace_env \<Rightarrow> str \<Rightarrow> str \<Rightarrow> bool" where
  "under_root env normalized root =
     (let r = pe_normalize env root in normalized = r \<or> prefix (r @ pe_sep env) normalized)"

text \<open>Iteration over a value: a string gives its characters, a mapping its keys.\<close>

fun py_iter :: "json \<Rightarrow> json list outcome" where
  "py_iter (JList xs) = Inr xs"
| "py_iter (JObj kvs) = Inr (map (\<lambda>(k, _). JStr k) kvs)"
| "py_iter (JStr s) = Inr (map (\<lambda>c. JStr [c]) s)"
| "py_iter _ = Inl ''TypeError''"

text \<open>\<open>v\<close> where a mapping is required: \<open>v.get\<close> and \<open>{**v}\<close> raise on anything else.\<close>

definition need_obj :: "str \<Rightarrow> json \<Rightarrow> json dict outcome" where
  "need_obj error v = (case v of JObj kvs \<Rightarrow> Inr kvs | _ \<Rightarrow> Inl error)"

text \<open>\<open>{**a, **b}\<close>.\<close>

definition dict_merge :: "'v dict \<Rightarrow> 'v dict \<Rightarrow> 'v dict" where
  "dict_merge a b = fold (\<lambda>(k, v). AList.update k v) b a"

section \<open>Roles and permissions\<close>

definition ALL_PERMISSIONS :: "str list" where
  "ALL_PERMISSIONS =
     [''read_file'', ''list_files'', ''create_directory'', ''create_file'', ''modify_file'', ''apply_patch'',
      ''artifact_create'', ''copy_from'', ''copy_to'', ''move_from'', ''move_to'', ''delete_file'', ''shell_readonly'',
      ''shell_build'', ''shell_test'', ''script_execution'', ''network_download'', ''git_commit'', ''git_push'']"

definition PERMISSION_VALUES :: "str list" where
  "PERMISSION_VALUES = [''allowed'', ''ask'', ''denied'']"

definition all_permissions :: "str \<Rightarrow> str dict" where
  "all_permissions value = map (\<lambda>p. (p, value)) ALL_PERMISSIONS"

definition ROLE_DEFAULTS :: "str dict dict" where
  "ROLE_DEFAULTS =
     [(''source_readonly'', dict_merge (all_permissions ''denied'')
         [(''read_file'', ''allowed''), (''list_files'', ''allowed''), (''copy_from'', ''allowed''),
          (''artifact_create'', ''ask''), (''shell_readonly'', ''ask'')]),
      (''target_mutable'', dict_merge (all_permissions ''ask'')
         [(''read_file'', ''allowed''), (''list_files'', ''allowed''), (''copy_from'', ''allowed''),
          (''delete_file'', ''ask''), (''git_push'', ''denied'')]),
      (''external_inbox'', dict_merge (all_permissions ''denied'')
         [(''read_file'', ''allowed''), (''list_files'', ''allowed''), (''copy_from'', ''allowed''),
          (''artifact_create'', ''ask'')]),
      (''artifact_output'', dict_merge (all_permissions ''denied'')
         [(''read_file'', ''allowed''), (''list_files'', ''allowed''), (''create_file'', ''ask''), (''modify_file'', ''ask''),
          (''artifact_create'', ''ask''), (''copy_to'', ''ask'')]),
      (''system_mutable'', dict_merge (all_permissions ''ask'')
         [(''read_file'', ''allowed''), (''list_files'', ''allowed''), (''copy_from'', ''allowed''), (''git_push'', ''denied'')]),
      (''protected'', dict_merge (all_permissions ''denied'')
         [(''read_file'', ''ask''), (''list_files'', ''ask''), (''copy_from'', ''ask''), (''artifact_create'', ''ask''),
          (''shell_readonly'', ''ask'')]),
      (''temp_staging'', dict_merge (all_permissions ''ask'')
         [(''read_file'', ''allowed''), (''list_files'', ''allowed''), (''copy_from'', ''allowed''), (''git_push'', ''denied'')]),
      (''forbidden'', all_permissions ''denied'')]"

definition WORKSPACE_ROLES :: "str list" where
  "WORKSPACE_ROLES = map fst ROLE_DEFAULTS"

definition ACTION_PERMISSION_ALIASES :: "str dict" where
  "ACTION_PERMISSION_ALIASES =
     [(''read_workspace'', ''read_file''), (''read_file'', ''read_file''), (''read_files'', ''read_file''),
      (''inspect_files'', ''read_file''), (''analyze'', ''read_file''), (''list_files'', ''list_files''),
      (''search_files'', ''list_files''), (''create_directory'', ''create_directory''), (''mkdir'', ''create_directory''),
      (''filesystem_create_directory'', ''create_directory''), (''create_file'', ''create_file''),
      (''write_file'', ''create_file''), (''write_files'', ''modify_file''), (''modify_file'', ''modify_file''),
      (''modify_files'', ''modify_file''), (''apply_patch'', ''apply_patch''), (''patch_apply'', ''apply_patch''),
      (''artifact_create'', ''artifact_create''), (''artifact_generate'', ''artifact_create''), (''copy_from'', ''copy_from''),
      (''copy_to'', ''copy_to''), (''move_from'', ''move_from''), (''move_to'', ''move_to''), (''delete_file'', ''delete_file''),
      (''delete_files'', ''delete_file''), (''run_shell_readonly'', ''shell_readonly''), (''shell_readonly'', ''shell_readonly''),
      (''run_shell_build'', ''shell_build''), (''shell_build'', ''shell_build''), (''build'', ''shell_build''),
      (''run_build'', ''shell_build''), (''run_shell_test'', ''shell_test''), (''run_tests'', ''shell_test''),
      (''test'', ''shell_test''), (''tests'', ''shell_test''), (''shell_test'', ''shell_test''),
      (''script_execution'', ''script_execution''), (''run_command'', ''script_execution''), (''shell'', ''script_execution''),
      (''network_download'', ''network_download''), (''web_request'', ''network_download''), (''git_commit'', ''git_commit''),
      (''git_push'', ''git_push'')]"

definition permission_for_action :: "str \<Rightarrow> str" where
  "permission_for_action action =
     (if action \<in> set ALL_PERMISSIONS then action
      else case map_of ACTION_PERMISSION_ALIASES action of Some p \<Rightarrow> p | None \<Rightarrow> ''script_execution'')"

section \<open>The registry\<close>

definition jtable :: "str dict dict \<Rightarrow> json" where
  "jtable t = JObj (map (\<lambda>(role, ps). (role, JObj (map (\<lambda>(p, v). (p, JStr v)) ps))) t)"

definition empty_registry :: "json dict" where
  "empty_registry =
     [(''schema_version'', JInt 1),
      (''defaults'', JObj [(''unregistered_role'', JStr ''forbidden''), (''prefer_longest_root_match'', JBool True),
         (''deny_overrides_allow'', JBool True)]),
      (''role_defaults'', jtable ROLE_DEFAULTS), (''workspaces'', JList [])]"

record matrix_service =
  wm_file :: "str option"
  wm_config :: "json dict option"

definition matrix_load :: "workspace_env \<Rightarrow> matrix_service \<Rightarrow> matrix_service outcome" where
  "matrix_load env s =
     (case wm_file s of
        Some text \<Rightarrow>
          if text = [] then Inr (s\<lparr>wm_config := Some empty_registry\<rparr>)
          else obind (wx_yaml_load env text) (\<lambda>c. Inr (s\<lparr>wm_config := Some c\<rparr>))
      | None \<Rightarrow> Inr (s\<lparr>wm_config := Some empty_registry\<rparr>))"

definition matrix_config :: "workspace_env \<Rightarrow> matrix_service \<Rightarrow> (json dict \<times> matrix_service) outcome" where
  "matrix_config env s =
     obind (if wm_config s = None then matrix_load env s else Inr s) (\<lambda>s'.
       Inr (case wm_config s' of Some c \<Rightarrow> if c = [] then empty_registry else c | None \<Rightarrow> empty_registry, s'))"

definition role_row :: "workspace_env \<Rightarrow> json dict \<Rightarrow> str \<times> str dict \<Rightarrow> (str \<times> str dict) outcome" where
  "role_row env configured row =
     obind (need_obj ''AttributeError'' (json_or (json_get_or (fst row) (JObj []) configured) (JObj []))) (\<lambda>over.
       Inr (fst row, map (\<lambda>(p, v). (p, py_str (wx_render env) (json_get_or p (JStr v) over))) (snd row)))"

definition role_defaults :: "workspace_env \<Rightarrow> json dict \<Rightarrow> str dict dict outcome" where
  "role_defaults env cfg =
     (case json_get ''role_defaults'' cfg of
        JObj configured \<Rightarrow>
          ofold (\<lambda>row acc. obind (role_row env configured row) (\<lambda>r. Inr (acc @ [r]))) ROLE_DEFAULTS []
      | _ \<Rightarrow> Inr ROLE_DEFAULTS)"

definition effective_registry :: "workspace_env \<Rightarrow> json dict \<Rightarrow> json dict outcome" where
  "effective_registry env cfg =
     obind (role_defaults env cfg) (\<lambda>t.
       Inr (dict_merge cfg [(''role_defaults'', jtable t), (''permissions'', jstrs ALL_PERMISSIONS),
         (''decision_rule'', JStr ''longest_path_then_deny_override'')]))"

definition registry_items :: "json dict \<Rightarrow> json list outcome" where
  "registry_items payload = py_iter (json_or (json_get ''workspaces'' payload) (JList []))"

text \<open>The entries that are mappings.\<close>

definition dict_items :: "json list \<Rightarrow> json dict list" where
  "dict_items items = map json_dict (filter is_obj items)"

definition list_workspaces :: "json dict \<Rightarrow> json dict list outcome" where
  "list_workspaces cfg = obind (registry_items cfg) (\<lambda>items. Inr (dict_items items))"

definition item_id :: "workspace_env \<Rightarrow> json dict \<Rightarrow> str" where
  "item_id env item = py_str (wx_render env) (json_get ''workspace_id'' item)"

definition get_workspace :: "workspace_env \<Rightarrow> json dict \<Rightarrow> str \<Rightarrow> json dict option outcome" where
  "get_workspace env cfg workspace_id =
     obind (list_workspaces cfg) (\<lambda>items. Inr (find (\<lambda>i. item_id env i = workspace_id) items))"

section \<open>Validation\<close>

text \<open>\<open>str(item.get(k) or default)\<close>.\<close>

definition item_text :: "workspace_env \<Rightarrow> str \<Rightarrow> str \<Rightarrow> json dict \<Rightarrow> str" where
  "item_text env k def item = py_str (wx_render env) (json_or (json_get k item) (JStr def))"

text \<open>\<open>value not in {"allowed", ...}\<close> hashes the value first.\<close>

fun permission_value_ok :: "json \<Rightarrow> bool outcome" where
  "permission_value_ok (JStr s) = Inr (s \<in> set PERMISSION_VALUES)"
| "permission_value_ok (JList _) = Inl ''TypeError''"
| "permission_value_ok (JObj _) = Inl ''TypeError''"
| "permission_value_ok _ = Inr False"

definition or_text :: "str \<Rightarrow> str \<Rightarrow> str" where
  "or_text a b = (if a = [] then b else a)"

definition path_errors :: "workspace_env \<Rightarrow> str \<Rightarrow> str \<Rightarrow> str list outcome" where
  "path_errors env wid root =
     (if root = [] then Inr [''root_path_required:'' @ or_text wid ''<missing>'']
      else raising (wx_user_error env root)
        (Inr ((if wx_absolute env root then [] else [''root_path_must_be_absolute:'' @ or_text wid root]) @
          (if ''..'' \<in> set (wx_parts env root) then [''path_traversal_not_allowed:'' @ or_text wid root] else []))))"

definition permission_errors :: "str \<Rightarrow> str \<times> json \<Rightarrow> str list outcome" where
  "permission_errors wid entry =
     obind (permission_value_ok (snd entry)) (\<lambda>ok.
       Inr ((if fst entry \<in> set ALL_PERMISSIONS then [] else [''permission_unknown:'' @ wid @ '':'' @ fst entry]) @
         (if ok then [] else [''permission_value_invalid:'' @ wid @ '':'' @ fst entry])))"

definition entry_errors :: "workspace_env \<Rightarrow> str set \<Rightarrow> json dict \<Rightarrow> str list outcome" where
  "entry_errors env seen item =
     (let wid = py_strip (item_text env ''workspace_id'' [] item);
          root = py_strip (item_text env ''root_path'' [] item);
          role = item_text env ''role'' [] item
      in obind (path_errors env wid root) (\<lambda>paths.
           let before = (if wid = [] then [''workspace_id_required''] else []) @
                 (if wid \<in> seen then [''workspace_id_duplicate:'' @ wid] else []) @ paths @
                 (if role \<in> set WORKSPACE_ROLES then [] else [''workspace_role_invalid:'' @ or_text wid role])
           in case json_or (json_get ''permissions'' item) (JObj []) of
                JObj ps \<Rightarrow>
                  ofold (\<lambda>p acc. obind (permission_errors wid p) (\<lambda>es. Inr (acc @ es))) ps before
              | _ \<Rightarrow> Inr (before @ [''permissions_must_be_mapping:'' @ or_text wid root])))"

definition validate_item :: "workspace_env \<Rightarrow> json \<Rightarrow> str list \<times> str set \<Rightarrow> (str list \<times> str set) outcome" where
  "validate_item env v st =
     (case v of
        JObj item \<Rightarrow>
          obind (entry_errors env (snd st) item) (\<lambda>es.
            Inr (fst st @ es, insert (py_strip (item_text env ''workspace_id'' [] item)) (snd st)))
      | _ \<Rightarrow> Inr (fst st @ [''workspace_entry_must_be_mapping''], snd st))"

text \<open>\<open>registry or self.config\<close>: an empty registry is replaced by the configuration.\<close>

definition validate_registry :: "workspace_env \<Rightarrow> json dict \<Rightarrow> json dict \<Rightarrow> str list outcome" where
  "validate_registry env cfg registry =
     obind (registry_items (if registry = [] then cfg else registry)) (\<lambda>items.
       obind (ofold (validate_item env) items ([], {})) (\<lambda>st. Inr (fst st)))"

section \<open>Updates\<close>

record workspace_entry =
  wn_workspace_id :: str
  wn_root_path :: str
  wn_role :: str
  wn_human_label :: str
  wn_reason :: str
  wn_approval_required :: bool
  wn_enabled :: bool
  wn_permissions :: "str dict"
  wn_evidence :: "str list"

definition entry_dump :: "workspace_entry \<Rightarrow> json dict" where
  "entry_dump e =
     [(''workspace_id'', JStr (wn_workspace_id e)), (''root_path'', JStr (wn_root_path e)), (''role'', JStr (wn_role e)),
      (''human_label'', JStr (wn_human_label e)), (''reason'', JStr (wn_reason e)),
      (''approval_required'', JBool (wn_approval_required e)), (''enabled'', JBool (wn_enabled e)),
      (''permissions'', JObj (map (\<lambda>(p, v). (p, JStr v)) (wn_permissions e))), (''evidence'', jstrs (wn_evidence e))]"

text \<open>The first item with the identifier is changed; \<open>None\<close> when there is none.\<close>

fun change_first :: "('a \<Rightarrow> bool) \<Rightarrow> ('a \<Rightarrow> 'a outcome) \<Rightarrow> 'a list \<Rightarrow> 'a list option outcome" where
  "change_first P f [] = Inr None"
| "change_first P f (x # xs) =
     (if P x then obind (f x) (\<lambda>y. Inr (Some (y # xs)))
      else obind (change_first P f xs) (\<lambda>r. Inr (map_option ((#) x) r)))"

definition with_workspaces :: "json dict \<Rightarrow> json dict list \<Rightarrow> json dict" where
  "with_workspaces cfg items = AList.update ''workspaces'' (JList (map JObj items)) cfg"

definition checked_registry :: "workspace_env \<Rightarrow> json dict \<Rightarrow> json dict \<Rightarrow> json dict outcome" where
  "checked_registry env cfg registry =
     obind (validate_registry env cfg registry) (\<lambda>errors.
       if errors = [] then Inr registry else Inl (py_join '';'' errors))"

definition add_or_update_workspace :: "workspace_env \<Rightarrow> json dict \<Rightarrow> workspace_entry \<Rightarrow> json dict outcome" where
  "add_or_update_workspace env cfg entry =
     obind (list_workspaces cfg) (\<lambda>items.
       obind (change_first (\<lambda>i. item_id env i = wn_workspace_id entry) (\<lambda>i. Inr (dict_merge i (entry_dump entry))) items) (\<lambda>r.
         checked_registry env cfg (with_workspaces cfg
           (case r of Some items' \<Rightarrow> items' | None \<Rightarrow> items @ [entry_dump entry]))))"

definition set_enabled :: "workspace_env \<Rightarrow> json dict \<Rightarrow> str \<Rightarrow> bool \<Rightarrow> json dict outcome" where
  "set_enabled env cfg workspace_id enabled =
     obind (list_workspaces cfg) (\<lambda>items.
       obind (change_first (\<lambda>i. item_id env i = workspace_id) (\<lambda>i. Inr (AList.update ''enabled'' (JBool enabled) i)) items) (\<lambda>r.
         case r of Some items' \<Rightarrow> Inr (with_workspaces cfg items') | None \<Rightarrow> Inl ''workspace_not_found''))"

definition merged_permissions :: "str dict \<Rightarrow> json dict \<Rightarrow> json dict outcome" where
  "merged_permissions permissions item =
     obind (need_obj ''TypeError'' (json_or (json_get ''permissions'' item) (JObj []))) (\<lambda>old.
       Inr (AList.update ''permissions'' (JObj (dict_merge old (map (\<lambda>(p, v). (p, JStr v)) permissions))) item))"

definition set_permissions :: "workspace_env \<Rightarrow> json dict \<Rightarrow> str \<Rightarrow> str dict \<Rightarrow> json dict outcome" where
  "set_permissions env cfg workspace_id permissions =
     obind (list_workspaces cfg) (\<lambda>items.
       obind (change_first (\<lambda>i. item_id env i = workspace_id) (merged_permissions permissions) items) (\<lambda>r.
         case r of Some items' \<Rightarrow> checked_registry env cfg (with_workspaces cfg items') | None \<Rightarrow> Inl ''workspace_not_found''))"

definition write_registry :: "workspace_env \<Rightarrow> json dict \<Rightarrow> json dict \<Rightarrow> matrix_service \<Rightarrow> matrix_service outcome" where
  "write_registry env cfg registry s =
     obind (checked_registry env cfg registry) (\<lambda>_.
       Inr (s\<lparr>wm_file := Some (wx_yaml_dump env registry), wm_config := Some registry\<rparr>))"

section \<open>Selecting a workspace\<close>

definition RESTRICTIVENESS :: "nat dict" where
  "RESTRICTIVENESS =
     [(''forbidden'', 70), (''protected'', 60), (''source_readonly'', 50), (''external_inbox'', 45), (''target_mutable'', 40),
      (''artifact_output'', 35), (''temp_staging'', 30), (''system_mutable'', 20)]"

record workspace_match =
  wk_length :: nat
  wk_rank :: nat
  wk_entry :: "json dict"
  wk_root :: str

definition workspace_matches ::
  "workspace_env \<Rightarrow> nat dict \<Rightarrow> nat \<Rightarrow> json dict list \<Rightarrow> str \<Rightarrow> workspace_match list" where
  "workspace_matches env ranks highest entries path =
     map (\<lambda>e. \<lparr>wk_length = length (pe_normalize env (item_text env ''root_path'' [] e)),
         wk_rank = (case map_of ranks (item_text env ''role'' ''forbidden'' e) of Some n \<Rightarrow> n | None \<Rightarrow> highest),
         wk_entry = e, wk_root = item_text env ''root_path'' [] e\<rparr>)
       (filter (\<lambda>e. item_text env ''root_path'' [] e \<noteq> [] \<and>
          under_root env (pe_normalize env path) (item_text env ''root_path'' [] e)) entries)"

text \<open>\<open>sorted(matches, key=lambda item: (item[0], item[1]), reverse=True)\<close>: stable, the greatest key first.\<close>

definition ranked :: "workspace_match list \<Rightarrow> workspace_match list" where
  "ranked = sort_key (\<lambda>m. (- int (wk_length m), - int (wk_rank m)))"

text \<open>The path is resolved first, then every registered root, whether it contains the path or not.\<close>

definition root_error :: "workspace_env \<Rightarrow> json dict list \<Rightarrow> str option" where
  "root_error env entries =
     (case find (\<lambda>root. root \<noteq> [] \<and> wx_path_error env root \<noteq> None) (map (item_text env ''root_path'' []) entries) of
        Some root \<Rightarrow> wx_path_error env root | None \<Rightarrow> None)"

definition registered_matches ::
  "workspace_env \<Rightarrow> nat dict \<Rightarrow> nat \<Rightarrow> json dict \<Rightarrow> str \<Rightarrow> workspace_match list outcome" where
  "registered_matches env ranks highest payload path =
     raising (wx_path_error env path)
       (obind (list_workspaces payload) (\<lambda>entries.
          raising (root_error env entries) (Inr (workspace_matches env ranks highest entries path))))"

definition select_workspace :: "workspace_env \<Rightarrow> json dict \<Rightarrow> str \<Rightarrow> (json dict \<times> str) option outcome" where
  "select_workspace env payload path =
     obind (registered_matches env RESTRICTIVENESS 70 payload path) (\<lambda>ms.
       Inr (case ranked ms of [] \<Rightarrow> None | m # _ \<Rightarrow> Some (wk_entry m, wk_root m)))"

section \<open>Decisions\<close>

record permission_decision =
  pmd_status :: str
  pmd_reason_code :: str
  pmd_permission :: str
  pmd_permission_value :: str
  pmd_workspace_id :: "str option"
  pmd_workspace_role :: "str option"
  pmd_root_path :: "str option"
  pmd_target_path :: "str option"
  pmd_trace :: "json list"

text \<open>The schema admits the registered roles, the permissions and their values only.\<close>

definition matrix_decision ::
  "workspace_env \<Rightarrow> str \<Rightarrow> str \<Rightarrow> str \<Rightarrow> str \<Rightarrow> str option \<Rightarrow> str option \<Rightarrow> str option \<Rightarrow> str option \<Rightarrow> permission_decision outcome" where
  "matrix_decision env status reason permission value wid role root target =
     (if permission \<in> set ALL_PERMISSIONS \<and> value \<in> set PERMISSION_VALUES \<and>
         (case role of None \<Rightarrow> True | Some r \<Rightarrow> r \<in> set WORKSPACE_ROLES)
      then Inr \<lparr>pmd_status = status, pmd_reason_code = reason, pmd_permission = permission, pmd_permission_value = value,
        pmd_workspace_id = wid, pmd_workspace_role = role, pmd_root_path = root, pmd_target_path = target,
        pmd_trace = [JObj [(''event_type'', JStr ''runtime_permission_decision''), (''status'', JStr status),
          (''reason_code'', JStr reason), (''permission'', JStr permission), (''permission_value'', JStr value),
          (''workspace_id'', jopt wid), (''workspace_role'', jopt role), (''source'', JStr (wx_registry_path env))]]\<rparr>
      else Inl ''ValidationError'')"

definition role_permissions :: "workspace_env \<Rightarrow> json dict \<Rightarrow> str \<Rightarrow> str dict outcome" where
  "role_permissions env cfg role =
     obind (role_defaults env cfg) (\<lambda>t.
       Inr (case map_of t role of Some ps \<Rightarrow> ps | None \<Rightarrow> all_permissions ''denied''))"

definition permission_value :: "workspace_env \<Rightarrow> json dict \<Rightarrow> json dict \<Rightarrow> str \<Rightarrow> str outcome" where
  "permission_value env cfg entry permission =
     obind (role_permissions env cfg (item_text env ''role'' ''forbidden'' entry)) (\<lambda>defaults.
       obind (need_obj ''AttributeError'' (json_or (json_get ''permissions'' entry) (JObj []))) (\<lambda>overrides.
         let fallback = (case map_of defaults permission of Some v \<Rightarrow> v | None \<Rightarrow> ''denied'');
             value = py_str (wx_render env) (json_get_or permission (JStr fallback) overrides)
         in Inr (if value \<in> set PERMISSION_VALUES then value else ''denied'')))"

definition entry_decision :: "workspace_env \<Rightarrow> json dict \<Rightarrow> json dict \<Rightarrow> str \<Rightarrow> str \<Rightarrow> str \<Rightarrow> permission_decision outcome" where
  "entry_decision env cfg entry root permission path =
     (let wid = Some (item_text env ''workspace_id'' [] entry); role = Some (item_text env ''role'' ''forbidden'' entry)
      in if \<not> json_truthy (json_get_or ''enabled'' (JBool True) entry)
         then matrix_decision env ''denied'' ''workspace_disabled'' permission ''denied'' wid role (Some root) (Some path)
         else obind (permission_value env cfg entry permission) (\<lambda>value.
           if value = ''allowed'' then
             matrix_decision env ''allowed'' ''permission_allowed'' permission value wid role (Some root) (Some path)
           else if value = ''ask'' then
             matrix_decision env ''approval_required'' ''permission_requires_approval'' permission value wid role (Some root) (Some path)
           else matrix_decision env ''denied'' ''permission_denied'' permission value wid role (Some root) (Some path)))"

definition matrix_decide :: "workspace_env \<Rightarrow> json dict \<Rightarrow> json dict \<Rightarrow> str option \<Rightarrow> str \<Rightarrow> permission_decision outcome" where
  "matrix_decide env cfg registry path action =
     (let permission = permission_for_action action
      in case path of
           Some p \<Rightarrow>
             if p = [] then matrix_decision env ''denied'' ''workspace_not_registered'' permission ''denied'' None None None None
             else obind (select_workspace env (if registry = [] then cfg else registry) p) (\<lambda>sel.
               case sel of
                 None \<Rightarrow> matrix_decision env ''denied'' ''workspace_not_registered'' permission ''denied'' None None None (Some p)
               | Some (entry, root) \<Rightarrow> entry_decision env cfg entry root permission p)
         | None \<Rightarrow> matrix_decision env ''denied'' ''workspace_not_registered'' permission ''denied'' None None None None)"

section \<open>Mission resources\<close>

text \<open>The path and the locator are resolved for every local resource that has a locator.\<close>

definition local_resource :: "mission_resource \<Rightarrow> bool" where
  "local_resource r \<longleftrightarrow> mr_resource_type r \<in> {''local_workspace'', ''mission_staging''} \<and> opt_truthy (mr_locator r)"

definition locator_error :: "workspace_env \<Rightarrow> str \<Rightarrow> mission_resource list \<Rightarrow> str option" where
  "locator_error env path resources =
     (case find (\<lambda>v. wx_path_error env v \<noteq> None)
         (concat (map (\<lambda>r. [path, str_or (mr_locator r) []]) (filter local_resource resources))) of
        Some v \<Rightarrow> wx_path_error env v | None \<Rightarrow> None)"

definition scope_for_path ::
  "workspace_env \<Rightarrow> mission_resource list \<Rightarrow> str option \<Rightarrow> mission_resource option outcome" where
  "scope_for_path env resources path =
     (case path of
        Some p \<Rightarrow>
          if p = [] then Inr None
          else raising (locator_error env p resources)
            (Inr (case sort_key (\<lambda>r. - int (length (pe_normalize env (str_or (mr_locator r) []))))
                (filter (\<lambda>r. local_resource r \<and> under_root env (pe_normalize env p) (str_or (mr_locator r) [])) resources) of
              [] \<Rightarrow> None | r # _ \<Rightarrow> Some r))
      | None \<Rightarrow> Inr None)"

definition resource_by_id :: "mission_resource list \<Rightarrow> str option \<Rightarrow> mission_resource option" where
  "resource_by_id resources rid =
     (if opt_truthy rid
      then find (\<lambda>r. mr_resource_type r \<in> {''local_workspace'', ''mission_staging''} \<and> Some (mr_resource_id r) = rid) resources
      else None)"

fun permission_rank :: "str \<Rightarrow> nat option" where
  "permission_rank v = map_of [(''allowed'', 0), (''ask'', 1), (''denied'', 2)] v"

definition most_restrictive :: "str \<Rightarrow> str \<Rightarrow> str outcome" where
  "most_restrictive left right =
     (case (permission_rank left, permission_rank right) of
        (Some l, Some r) \<Rightarrow> Inr (if l \<ge> r then left else right)
      | _ \<Rightarrow> Inl ''KeyError'')"

definition mission_decision ::
  "workspace_env \<Rightarrow> str \<Rightarrow> str \<Rightarrow> str \<Rightarrow> str \<Rightarrow> mission_resource \<Rightarrow> str \<Rightarrow> permission_decision \<Rightarrow> permission_decision outcome" where
  "mission_decision env status reason permission value scope path base =
     obind (matrix_decision env status reason permission value (Some (mr_resource_id scope))
         (Some (str_or (mr_role scope) ''source_readonly'')) (Some (str_or (mr_locator scope) path)) (Some path)) (\<lambda>d.
       Inr (d\<lparr>pmd_trace := pmd_trace base @ pmd_trace d @
         [JObj [(''event_type'', JStr ''mission_resource_permission_decision''), (''status'', JStr status),
           (''reason_code'', JStr reason), (''resource_id'', JStr (mr_resource_id scope)),
           (''authority'', JStr ''mission_contract.local_resources'')]]\<rparr>))"

definition RESTRICTED_ROLES :: "str list" where
  "RESTRICTED_ROLES = [''forbidden'', ''protected'', ''source_readonly'', ''external_inbox'']"

definition mission_value :: "workspace_env \<Rightarrow> json dict \<Rightarrow> mission_resource \<Rightarrow> str \<Rightarrow> str outcome" where
  "mission_value env cfg scope permission =
     (let role = str_or (mr_role scope) ''source_readonly'';
          known = (if role \<in> set WORKSPACE_ROLES then role else ''source_readonly'')
      in obind (role_permissions env cfg known) (\<lambda>ps.
           Inr (case map_of ps permission of Some v \<Rightarrow> v | None \<Rightarrow> ''denied'')))"

definition combined_decision ::
  "workspace_env \<Rightarrow> json dict \<Rightarrow> bool \<Rightarrow> str \<Rightarrow> mission_resource \<Rightarrow> str \<Rightarrow> permission_decision \<Rightarrow> permission_decision outcome" where
  "combined_decision env cfg registered permission scope path base =
     obind (mission_value env cfg scope permission) (\<lambda>mine.
       obind (if registered then most_restrictive (pmd_permission_value base) mine else Inr mine) (\<lambda>value.
         if value = ''allowed'' then
           mission_decision env ''allowed'' ''permission_allowed_by_mission_resource'' permission value scope path base
         else if value = ''ask'' then
           mission_decision env ''approval_required'' ''permission_requires_approval_by_mission_resource'' permission value scope path base
         else mission_decision env ''denied'' ''permission_denied_by_mission_resource'' permission value scope path base))"

text \<open>What a resource that contains the path makes of the registry's decision.\<close>

definition resource_decision ::
  "workspace_env \<Rightarrow> json dict \<Rightarrow> (json dict \<times> str) option \<Rightarrow> str \<Rightarrow> mission_resource \<Rightarrow> str \<Rightarrow> permission_decision \<Rightarrow>
     permission_decision outcome" where
  "resource_decision env cfg sel permission scope p base =
     (if (case sel of Some (entry, _) \<Rightarrow>
            item_text env ''role'' ''forbidden'' entry \<in> set RESTRICTED_ROLES \<or> pmd_status base = ''denied''
          | None \<Rightarrow> False)
      then Inr base
      else if permission \<notin> set (mr_permissions scope) then
        mission_decision env ''denied'' ''permission_not_declared_by_mission_resource'' permission ''denied'' scope p base
      else combined_decision env cfg (sel \<noteq> None) permission scope p base)"

definition decide_with_resources ::
  "workspace_env \<Rightarrow> json dict \<Rightarrow> mission_resource list \<Rightarrow> str option \<Rightarrow> str \<Rightarrow> permission_decision outcome" where
  "decide_with_resources env cfg resources path action =
     (let permission = permission_for_action action
      in obind (matrix_decide env cfg [] path permission) (\<lambda>base.
           obind (scope_for_path env resources path) (\<lambda>found.
             case (found, path) of
               (Some scope, Some p) \<Rightarrow>
                 obind (select_workspace env cfg p) (\<lambda>sel. resource_decision env cfg sel permission scope p base)
             | _ \<Rightarrow> Inr base)))"

section \<open>Preview\<close>

text \<open>\<open>str.isalnum\<close> and \<open>str.lower\<close> on a character below code point 256.\<close>

definition py_isalnum :: "char \<Rightarrow> bool" where
  "py_isalnum c \<longleftrightarrow>
     (let n = (of_char c :: nat)
      in 48 \<le> n \<and> n \<le> 57 \<or> 65 \<le> n \<and> n \<le> 90 \<or> 97 \<le> n \<and> n \<le> 122 \<or>
         n \<in> {170, 178, 179, 181, 185, 186, 188, 189, 190} \<or> 192 \<le> n \<and> n \<noteq> 215 \<and> n \<noteq> 247)"

definition py_lower_char :: "char \<Rightarrow> char" where
  "py_lower_char c =
     (let n = (of_char c :: nat)
      in if 65 \<le> n \<and> n \<le> 90 \<or> 192 \<le> n \<and> n \<le> 222 \<and> n \<noteq> 215 then char_of (n + 32) else c)"

definition strip_underscores :: "str \<Rightarrow> str" where
  "strip_underscores s = rev (dropWhile (\<lambda>c. c = CHR ''_'') (rev (dropWhile (\<lambda>c. c = CHR ''_'') s)))"

definition workspace_id_for_path :: "workspace_env \<Rightarrow> str \<Rightarrow> str" where
  "workspace_id_for_path env root =
     (let leaf = or_text (wx_leaf env root) ''workspace'';
          safe = strip_underscores (map (\<lambda>c. if py_isalnum c then py_lower_char c else CHR ''_'') leaf)
      in or_text safe ''workspace'')"

record preview_request =
  wq_root_path :: str
  wq_role :: str
  wq_workspace_id :: "str option"
  wq_permissions :: "str dict"

record workspace_preview =
  wv_status :: str
  wv_entry :: workspace_entry
  wv_validation_errors :: "str list"
  wv_sample_decision :: permission_decision

definition preview_entry :: "workspace_env \<Rightarrow> preview_request \<Rightarrow> workspace_entry" where
  "preview_entry env rq =
     \<lparr>wn_workspace_id = str_or (wq_workspace_id rq) (workspace_id_for_path env (wq_root_path rq)),
      wn_root_path = wx_resolve env (wq_root_path rq), wn_role = wq_role rq, wn_human_label = [],
      wn_reason = ''workspace_preview'', wn_approval_required = True, wn_enabled = True,
      wn_permissions = wq_permissions rq, wn_evidence = []\<rparr>"

definition preview_workspace :: "workspace_env \<Rightarrow> json dict \<Rightarrow> preview_request \<Rightarrow> workspace_preview outcome" where
  "preview_workspace env cfg rq =
     raising (wx_path_error env (wq_root_path rq))
       (let entry = preview_entry env rq
        in obind (list_workspaces cfg) (\<lambda>items.
             let registry = with_workspaces cfg (items @ [entry_dump entry])
             in obind (validate_registry env cfg registry) (\<lambda>errors.
                  obind (matrix_decide env cfg registry (Some (wn_root_path entry)) ''read_file'') (\<lambda>d.
                    Inr \<lparr>wv_status = (if errors = [] then ''ok'' else ''invalid''), wv_entry = entry,
                      wv_validation_errors = errors, wv_sample_decision = d\<rparr>))))"

section \<open>Role contracts\<close>

definition READ_ONLY_OPERATIONS :: "str list" where
  "READ_ONLY_OPERATIONS = [''read_workspace'', ''inspect_files'', ''analyze'', ''list_files'', ''search_files'']"

definition ROLE_RESTRICTIVENESS :: "nat dict" where
  "ROLE_RESTRICTIVENESS =
     [(''forbidden'', 5), (''protected'', 4), (''source_readonly'', 3), (''external_inbox'', 3), (''target_mutable'', 2),
      (''artifact_output'', 2), (''temp_staging'', 2), (''system_mutable'', 1)]"

definition contract_defaults ::
  "bool \<Rightarrow> bool \<Rightarrow> bool \<Rightarrow> bool \<Rightarrow> bool \<Rightarrow> str list \<Rightarrow> str list \<Rightarrow> str \<Rightarrow> json dict" where
  "contract_defaults rd wr sh pa ap allowed forbidden risk =
     [(''read_allowed'', JBool rd), (''write_allowed'', JBool wr), (''shell_allowed'', JBool sh), (''patch_allowed'', JBool pa),
      (''approval_required'', JBool ap), (''allowed_operations'', jstrs allowed), (''forbidden_operations'', jstrs forbidden),
      (''max_risk_without_approval'', JStr risk)]"

definition SAFE_DEFAULTS :: "json dict dict" where
  "SAFE_DEFAULTS =
     [(''source_readonly'', contract_defaults True False False False False
         [''read_workspace'', ''inspect_files'', ''analyze'', ''run_shell_readonly'']
         [''create_directory'', ''create_file'', ''modify_file'', ''delete_file'', ''move_file'', ''apply_patch'', ''run_shell_write'']
         ''low''),
      (''target_mutable'', contract_defaults True True True True True
         [''read_workspace'', ''create_directory'', ''create_file'', ''modify_file'', ''apply_patch'', ''run_shell_readonly'',
          ''run_shell_test'', ''run_shell_build'']
         [''delete_file'', ''move_file'', ''git_write_shell'', ''destructive_shell''] ''low''),
      (''external_inbox'', contract_defaults True False False False False
         [''read_workspace'', ''inspect_files'', ''analyze'', ''copy_from'']
         [''create_directory'', ''create_file'', ''modify_file'', ''delete_file'', ''move_file'', ''apply_patch'', ''run_shell_write'']
         ''low''),
      (''artifact_output'', contract_defaults True False False False True
         [''read_workspace'', ''artifact_create'']
         [''delete_file'', ''move_file'', ''apply_patch'', ''run_shell_write'', ''destructive_shell''] ''low''),
      (''temp_staging'', contract_defaults True False False False True
         [''read_workspace'', ''inspect_files'', ''analyze'']
         [''delete_file'', ''move_file'', ''git_write_shell'', ''destructive_shell''] ''low''),
      (''system_mutable'', contract_defaults True True True True True
         [''read_workspace'', ''create_file'', ''modify_file'', ''apply_patch'', ''run_shell_readonly'', ''run_shell_test'',
          ''run_shell_build'', ''process_control_shell'']
         [''delete_file'', ''move_file'', ''git_write_shell'', ''destructive_shell''] ''low''),
      (''protected'', contract_defaults True False False False True
         [''read_workspace'', ''run_shell_readonly'']
         [''create_file'', ''modify_file'', ''delete_file'', ''move_file'', ''apply_patch'', ''run_shell_write'', ''destructive_shell'']
         ''none''),
      (''forbidden'', contract_defaults False False False False True []
         [''read_workspace'', ''create_file'', ''modify_file'', ''delete_file'', ''move_file'', ''apply_patch'', ''run_shell_write'',
          ''destructive_shell''] ''none'')]"

record role_contract =
  rc_workspace_id :: str
  rc_root_path :: str
  rc_role :: str
  rc_read_allowed :: bool
  rc_write_allowed :: bool
  rc_shell_allowed :: bool
  rc_patch_allowed :: bool
  rc_approval_required :: bool
  rc_allowed_operations :: "str list"
  rc_forbidden_operations :: "str list"
  rc_max_risk_without_approval :: str
  rc_human_label :: str
  rc_reason :: str
  rc_evidence :: "str list"
  rc_matched_root :: "str option"
  rc_path_within_workspace :: bool

record role_decision =
  rd_status :: str
  rd_contract :: "role_contract option"
  rd_reason :: str
  rd_warnings :: "str list"
  rd_trace :: "json list"

definition fallback_workspace_id :: "workspace_env \<Rightarrow> json \<Rightarrow> str \<Rightarrow> str" where
  "fallback_workspace_id env root role =
     (let leaf = or_text (wx_leaf env (py_str (wx_render env) (json_or root (JStr role)))) role;
          safe = strip_underscores (map (\<lambda>c. if py_isalnum c then py_lower_char c else CHR ''_'') leaf)
      in or_text safe role)"

text \<open>A field of the schema that the entry may override: its value, coerced.\<close>

definition coerced :: "(json \<Rightarrow> 'a option) \<Rightarrow> str \<Rightarrow> json dict \<Rightarrow> 'a outcome" where
  "coerced coerce k payload = (case coerce (json_get k payload) of Some x \<Rightarrow> Inr x | None \<Rightarrow> Inl ''ValidationError'')"

definition contract_from_entry :: "workspace_env \<Rightarrow> json dict \<Rightarrow> str option \<Rightarrow> bool \<Rightarrow> role_contract outcome" where
  "contract_from_entry env entry matched_root within =
     (let role = item_text env ''role'' ''forbidden'' entry;
          payload = dict_merge (case map_of SAFE_DEFAULTS role of Some d \<Rightarrow> d
            | None \<Rightarrow> the (map_of SAFE_DEFAULTS ''forbidden'')) entry;
          wid = json_get ''workspace_id'' entry
      in obind (py_iter (json_or (json_get ''evidence'' entry) (JList []))) (\<lambda>evidence.
         obind (coerced (wx_bool env) ''read_allowed'' payload) (\<lambda>rd.
         obind (coerced (wx_bool env) ''write_allowed'' payload) (\<lambda>wr.
         obind (coerced (wx_bool env) ''shell_allowed'' payload) (\<lambda>sh.
         obind (coerced (wx_bool env) ''patch_allowed'' payload) (\<lambda>pa.
         obind (coerced (wx_bool env) ''approval_required'' payload) (\<lambda>ap.
         obind (coerced (wx_strs env) ''allowed_operations'' payload) (\<lambda>allowed.
         obind (coerced (wx_strs env) ''forbidden_operations'' payload) (\<lambda>forbidden.
         obind (coerced (wx_text env) ''max_risk_without_approval'' payload) (\<lambda>risk.
           if role \<in> set WORKSPACE_ROLES
           then Inr \<lparr>rc_workspace_id = (if json_truthy wid then py_str (wx_render env) wid
                 else fallback_workspace_id env (json_get ''root_path'' entry) role),
               rc_root_path = item_text env ''root_path'' [] entry, rc_role = role, rc_read_allowed = rd,
               rc_write_allowed = wr, rc_shell_allowed = sh, rc_patch_allowed = pa, rc_approval_required = ap,
               rc_allowed_operations = allowed, rc_forbidden_operations = forbidden, rc_max_risk_without_approval = risk,
               rc_human_label = py_str (wx_render env) (json_or (json_get ''human_label'' entry)
                 (json_or (json_get ''label'' entry) (JStr role))),
               rc_reason = item_text env ''reason'' (''workspace_role_'' @ role) entry,
               rc_evidence = map (py_str (wx_render env)) evidence,
               rc_matched_root = matched_root, rc_path_within_workspace = within\<rparr>
           else Inl ''ValidationError''))))))))))"

definition role_trace :: "workspace_env \<Rightarrow> str \<Rightarrow> str \<Rightarrow> json dict \<Rightarrow> json" where
  "role_trace env decision reason data =
     JObj [(''stage'', JStr ''workspace_role_contract''), (''decision'', JStr decision), (''reason'', JStr reason),
       (''source'', JStr (wx_registry_path env)), (''data'', JObj data)]"

definition match_json :: "workspace_env \<Rightarrow> workspace_match \<Rightarrow> json" where
  "match_json env m =
     JObj [(''workspace_id'', JStr (item_text env ''workspace_id'' [] (wk_entry m))), (''root_path'', JStr (wk_root m)),
       (''role'', JStr (item_text env ''role'' ''forbidden'' (wk_entry m))), (''root_length'', JInt (int (wk_length m))),
       (''restrictiveness'', JInt (int (wk_rank m)))]"

definition unregistered_entry :: "str \<Rightarrow> json dict" where
  "unregistered_entry path =
     [(''workspace_id'', JStr ''unregistered_workspace''), (''root_path'', JStr path), (''role'', JStr ''forbidden''),
      (''human_label'', JStr ''Unregistered workspace''),
      (''reason'', JStr ''Workspace is not registered for governed operations.'')]"

definition role_resolve_path :: "workspace_env \<Rightarrow> json dict \<Rightarrow> str \<Rightarrow> role_decision outcome" where
  "role_resolve_path env cfg path =
     obind (registered_matches env ROLE_RESTRICTIVENESS 5 cfg path) (\<lambda>found.
       case ranked found of
         [] \<Rightarrow>
           obind (contract_from_entry env (unregistered_entry path) None False) (\<lambda>c.
             Inr \<lparr>rd_status = ''denied'', rd_contract = Some c, rd_reason = ''workspace_not_registered'', rd_warnings = [],
               rd_trace = [role_trace env ''denied'' ''workspace_not_registered'' [(''path'', JStr path)]]\<rparr>)
       | m # ms \<Rightarrow>
           obind (contract_from_entry env (wk_entry m) (Some (wk_root m)) True) (\<lambda>c.
             let status = (if rc_role c = ''forbidden'' then ''denied'' else ''allowed'')
             in Inr \<lparr>rd_status = status, rd_contract = Some c,
                  rd_reason = or_text (rc_reason c) (''workspace_role_'' @ rc_role c), rd_warnings = [],
                  rd_trace = [role_trace env status (or_text (rc_reason c) (rc_role c))
                    [(''workspace_id'', JStr (rc_workspace_id c)), (''role'', JStr (rc_role c)),
                     (''selection_rule'', JStr ''longest_path_then_deny_override''),
                     (''candidates'', JList (map (match_json env) (m # ms)))]]\<rparr>))"

definition role_resolve :: "workspace_env \<Rightarrow> json dict \<Rightarrow> str option \<Rightarrow> bool \<Rightarrow> role_decision outcome" where
  "role_resolve env cfg path required =
     (if opt_truthy path then role_resolve_path env cfg (str_or path [])
      else let status = (if required then ''needs_clarification'' else ''allowed'');
               reason = (if required then ''workspace_missing'' else ''workspace_not_required'')
           in Inr \<lparr>rd_status = status, rd_contract = None, rd_reason = reason, rd_warnings = [],
                rd_trace = [role_trace env status reason []]\<rparr>)"

definition mission_contract_entry :: "mission_resource \<Rightarrow> str \<Rightarrow> str \<Rightarrow> json dict" where
  "mission_contract_entry scope role path =
     [(''workspace_id'', JStr (mr_resource_id scope)), (''root_path'', JStr (str_or (mr_locator scope) path)),
      (''role'', JStr role), (''human_label'', JStr (''Mission-scoped '' @ role @ '' workspace'')),
      (''reason'', JStr ''workspace_role_from_mission_resource''),
      (''evidence'', jstrs (mr_provenance_refs scope @ [''mission_contract.local_resources'']))]"

definition mission_role :: "mission_resource \<Rightarrow> str" where
  "mission_role scope =
     (let role = str_or (mr_role scope) ''source_readonly''
      in if role \<in> {''source_readonly'', ''target_mutable'', ''system_mutable'', ''temp_staging''} then role
         else ''source_readonly'')"

definition resolve_with_resources ::
  "workspace_env \<Rightarrow> json dict \<Rightarrow> mission_resource list \<Rightarrow> str option \<Rightarrow> bool \<Rightarrow> role_decision outcome" where
  "resolve_with_resources env cfg resources path required =
     obind (role_resolve env cfg path required) (\<lambda>base.
       obind (scope_for_path env resources path) (\<lambda>found.
       case (found, path) of
         (Some scope, Some p) \<Rightarrow>
           if rd_reason base \<noteq> ''workspace_not_registered'' \<and>
              (case rd_contract base of Some c \<Rightarrow> rc_role c \<in> set RESTRICTED_ROLES | None \<Rightarrow> False)
           then Inr base
           else let role = mission_role scope; root = str_or (mr_locator scope) p
                in obind (contract_from_entry env (mission_contract_entry scope role p) (Some root) True) (\<lambda>c.
                     Inr \<lparr>rd_status = ''allowed'', rd_contract = Some c, rd_reason = ''workspace_role_from_mission_resource'',
                       rd_warnings = [],
                       rd_trace = rd_trace base @ [role_trace env ''allowed'' ''workspace_role_from_mission_resource''
                         [(''workspace_id'', JStr (mr_resource_id scope)), (''role'', JStr role),
                          (''authority'', JStr ''mission_contract.local_resources'')]]\<rparr>)
       | _ \<Rightarrow> Inr base))"

definition operation_allowed :: "role_contract \<Rightarrow> str \<Rightarrow> bool \<times> str" where
  "operation_allowed c op =
     (if op \<in> set (rc_forbidden_operations c) then (False, ''operation_forbidden_by_workspace_role'')
      else if op \<in> set READ_ONLY_OPERATIONS then
        (if rc_read_allowed c then (True, ''workspace_role_allows_read_operation'') else (False, ''workspace_role_denies_read''))
      else if rc_allowed_operations c \<noteq> [] \<and> op \<notin> set (rc_allowed_operations c) then
        (False, ''operation_not_allowed_by_workspace_role'')
      else if op \<in> {''create_directory'', ''create_file'', ''modify_file'', ''delete_file'', ''move_file'', ''apply_patch'',
          ''run_shell_write''} \<and> \<not> rc_write_allowed c then (False, ''workspace_role_denies_write'')
      else if op = ''apply_patch'' \<and> \<not> rc_patch_allowed c then (False, ''workspace_role_denies_patch'')
      else if op = ''run_shell_readonly'' \<and> \<not> rc_read_allowed c then (False, ''workspace_role_denies_readonly_shell'')
      else if prefix ''run_shell'' op \<and> op \<noteq> ''run_shell_readonly'' \<and> \<not> rc_shell_allowed c then
        (False, ''workspace_role_denies_shell'')
      else (True, ''workspace_role_allows_operation''))"

section \<open>Well-formed registries\<close>

abbreviation entry_id :: "workspace_env \<Rightarrow> json dict \<Rightarrow> str" where
  "entry_id env item \<equiv> py_strip (item_text env ''workspace_id'' [] item)"

definition permissions_ok :: "json \<Rightarrow> bool" where
  "permissions_ok v \<longleftrightarrow> (\<exists>ps. v = JObj ps \<and>
     (\<forall>(p, x) \<in> set ps. p \<in> set ALL_PERMISSIONS \<and> (\<exists>s \<in> set PERMISSION_VALUES. x = JStr s)))"

definition entry_ok :: "workspace_env \<Rightarrow> json dict \<Rightarrow> bool" where
  "entry_ok env item \<longleftrightarrow> entry_id env item \<noteq> [] \<and>
     (let root = py_strip (item_text env ''root_path'' [] item)
      in root \<noteq> [] \<and> wx_user_error env root = None \<and> wx_absolute env root \<and> ''..'' \<notin> set (wx_parts env root)) \<and>
     item_text env ''role'' [] item \<in> set WORKSPACE_ROLES \<and>
     permissions_ok (json_or (json_get ''permissions'' item) (JObj []))"

definition workspace_registry_ok :: "workspace_env \<Rightarrow> json dict \<Rightarrow> bool" where
  "workspace_registry_ok env registry \<longleftrightarrow>
     (\<exists>items. registry_items registry = Inr items \<and> list_all is_obj items \<and>
        distinct (map (entry_id env) (dict_items items)) \<and> (\<forall>e \<in> set (dict_items items). entry_ok env e))"

lemma obind_Inr_iff: "obind m f = Inr y \<longleftrightarrow> (\<exists>x. m = Inr x \<and> f x = Inr y)"
  by (cases m) simp_all

lemma raising_Inr_iff: "raising e m = Inr y \<longleftrightarrow> e = None \<and> m = Inr y"
  by (simp add: raising_def split: option.split)

lemma permission_value_ok_iff: "permission_value_ok v = Inr True \<longleftrightarrow> (\<exists>s \<in> set PERMISSION_VALUES. v = JStr s)"
  by (cases v) auto

lemma permission_errors_Nil:
  "permission_errors wid (p, v) = Inr [] \<longleftrightarrow> p \<in> set ALL_PERMISSIONS \<and> (\<exists>s \<in> set PERMISSION_VALUES. v = JStr s)"
  unfolding permission_value_ok_iff [symmetric] by (auto simp: permission_errors_def obind_Inr_iff)

text \<open>A fold that only appends ends with nothing exactly when it starts with nothing and every step appends nothing.\<close>

lemma append_fold_Nil:
  "ofold (\<lambda>x acc. obind (g x) (\<lambda>es. Inr (acc @ es))) xs acc = Inr [] \<longleftrightarrow> acc = [] \<and> (\<forall>x \<in> set xs. g x = Inr [])"
proof (induction xs arbitrary: acc)
  case (Cons x xs)
  then show ?case by (cases "g x") auto
qed simp

lemma path_errors_Nil:
  "path_errors env wid root = Inr [] \<longleftrightarrow>
   root \<noteq> [] \<and> wx_user_error env root = None \<and> wx_absolute env root \<and> ''..'' \<notin> set (wx_parts env root)"
  by (auto simp: path_errors_def raising_Inr_iff)

lemma entry_errors_Nil: "entry_errors env seen item = Inr [] \<longleftrightarrow> entry_ok env item \<and> entry_id env item \<notin> seen"
proof (cases "path_errors env (entry_id env item) (py_strip (item_text env ''root_path'' [] item))")
  case (Inl e)
  then show ?thesis
    using path_errors_Nil [of env "entry_id env item" "py_strip (item_text env ''root_path'' [] item)"]
    by (auto simp: entry_errors_def entry_ok_def Let_def)
next
  case (Inr paths)
  note p = path_errors_Nil [of env "entry_id env item" "py_strip (item_text env ''root_path'' [] item)", unfolded Inr]
  show ?thesis
  proof (cases "json_or (json_get ''permissions'' item) (JObj [])")
    case (JObj ps)
    have "permissions_ok (JObj ps) \<longleftrightarrow> (\<forall>x \<in> set ps. permission_errors (entry_id env item) x = Inr [])"
      by (auto simp: permissions_ok_def permission_errors_Nil split_beta)
    then show ?thesis
      using p unfolding entry_errors_def entry_ok_def Let_def Inr obind_simps JObj json.case append_fold_Nil by auto
  qed (simp_all add: entry_errors_def entry_ok_def permissions_ok_def Let_def Inr)
qed

lemma dict_items_simps [simp]:
  "dict_items [] = []" "dict_items (JObj item # items) = item # dict_items items"
  "is_obj (JObj item)" "\<not> is_obj v \<Longrightarrow> dict_items (v # items) = dict_items items"
  by (simp_all add: dict_items_def is_obj_def json_dict_def)

lemma validate_item_JObj:
  "validate_item env (JObj item) (es, seen) =
     obind (entry_errors env seen item) (\<lambda>more. Inr (es @ more, insert (entry_id env item) seen))"
  by (simp add: validate_item_def)

lemma validate_fold_Nil:
  "(\<exists>seen'. ofold (validate_item env) items (es, seen) = Inr ([], seen')) \<longleftrightarrow>
   es = [] \<and> list_all is_obj items \<and> distinct (map (entry_id env) (dict_items items)) \<and>
   (\<forall>e \<in> set (dict_items items). entry_ok env e \<and> entry_id env e \<notin> seen)"
proof (induction items arbitrary: es seen)
  case Nil
  then show ?case by auto
next
  case (Cons v items)
  show ?case
  proof (cases v)
    case (JObj item)
    show ?thesis
    proof (cases "entry_errors env seen item")
      case (Inl e)
      then have "\<not> (entry_ok env item \<and> entry_id env item \<notin> seen)" using entry_errors_Nil [of env seen item] by simp
      with Inl JObj show ?thesis by (auto simp: validate_item_JObj)
    next
      case (Inr more)
      have "more = [] \<longleftrightarrow> entry_ok env item \<and> entry_id env item \<notin> seen" using entry_errors_Nil [of env seen item] Inr by auto
      with Inr JObj Cons.IH [of "es @ more" "insert (entry_id env item) seen"] show ?thesis
        by (auto simp: validate_item_JObj) (metis image_eqI)
    qed
  qed (use Cons.IH [of "es @ [''workspace_entry_must_be_mapping'']" seen] in \<open>simp_all add: validate_item_def is_obj_def\<close>)
qed

lemma validation_exactness:
  "validate_registry env cfg registry = Inr [] \<longleftrightarrow> workspace_registry_ok env (if registry = [] then cfg else registry)"
proof (cases "registry_items (if registry = [] then cfg else registry)")
  case (Inl e)
  then show ?thesis by (simp add: validate_registry_def workspace_registry_ok_def)
next
  case (Inr items)
  have "validate_registry env cfg registry = Inr [] \<longleftrightarrow> (\<exists>s. ofold (validate_item env) items ([], {}) = Inr ([], s))"
    using Inr by (auto simp: validate_registry_def obind_Inr_iff)
  also have "\<dots> \<longleftrightarrow> list_all is_obj items \<and> distinct (map (entry_id env) (dict_items items)) \<and>
     (\<forall>e \<in> set (dict_items items). entry_ok env e)"
    by (simp add: validate_fold_Nil)
  finally show ?thesis using Inr by (simp add: workspace_registry_ok_def)
qed

text \<open>
  C33. Validation is exact: a registry has no validation error if and only if its workspaces are mappings with non-empty,
  pairwise different identifiers, absolute roots without traversal, known roles, and permissions that are known and have
  one of the three values.
\<close>

theorem validation_exact:
  "validate_registry env cfg registry = Inr [] \<longleftrightarrow> workspace_registry_ok env (if registry = [] then cfg else registry)"
  by (rule validation_exactness)

section \<open>Selection\<close>

text \<open>The registered workspaces that contain a path, and how close and how restrictive they are.\<close>

definition covers :: "workspace_env \<Rightarrow> str \<Rightarrow> json dict \<Rightarrow> bool" where
  "covers env path e \<longleftrightarrow> item_text env ''root_path'' [] e \<noteq> [] \<and>
     under_root env (pe_normalize env path) (item_text env ''root_path'' [] e)"

definition root_length :: "workspace_env \<Rightarrow> json dict \<Rightarrow> nat" where
  "root_length env e = length (pe_normalize env (item_text env ''root_path'' [] e))"

definition role_rank :: "workspace_env \<Rightarrow> nat dict \<Rightarrow> nat \<Rightarrow> json dict \<Rightarrow> nat" where
  "role_rank env ranks highest e =
     (case map_of ranks (item_text env ''role'' ''forbidden'' e) of Some n \<Rightarrow> n | None \<Rightarrow> highest)"

definition closest :: "workspace_env \<Rightarrow> nat dict \<Rightarrow> nat \<Rightarrow> json dict list \<Rightarrow> str \<Rightarrow> json dict \<Rightarrow> bool" where
  "closest env ranks highest entries path e \<longleftrightarrow> e \<in> set entries \<and> covers env path e \<and>
     (\<forall>e' \<in> set entries. covers env path e' \<longrightarrow>
        root_length env e' < root_length env e \<or>
        root_length env e' = root_length env e \<and> role_rank env ranks highest e' \<le> role_rank env ranks highest e)"

lemma hd_sort_key:
  assumes "sort_key f xs = y # ys"
  shows "y \<in> set xs \<and> (\<forall>x \<in> set xs. f y \<le> f x)"
proof -
  have "set xs = set (y # ys)" using assms by (metis set_sort)
  moreover have "sorted (map f (y # ys))" using assms by (metis sorted_sort_key)
  ultimately show ?thesis by auto
qed

lemma ranked_Nil: "ranked (workspace_matches env ranks highest entries path) = [] \<longleftrightarrow> (\<forall>e \<in> set entries. \<not> covers env path e)"
proof -
  have "ranked ms = [] \<longleftrightarrow> ms = []" for ms unfolding ranked_def by (metis length_0_conv length_sort)
  then show ?thesis by (auto simp: workspace_matches_def filter_empty_conv covers_def)
qed

lemma ranked_Cons:
  assumes "ranked (workspace_matches env ranks highest entries path) = m # ms"
  shows "closest env ranks highest entries path (wk_entry m)" "wk_root m = item_text env ''root_path'' [] (wk_entry m)"
proof -
  let ?ms = "workspace_matches env ranks highest entries path"
  have m: "m \<in> set ?ms" and le: "\<And>x. x \<in> set ?ms \<Longrightarrow>
      (- int (wk_length m), - int (wk_rank m)) \<le> (- int (wk_length x), - int (wk_rank x))"
    using hd_sort_key [OF assms [unfolded ranked_def]] by auto
  have facts: "wk_length x = root_length env (wk_entry x) \<and> wk_rank x = role_rank env ranks highest (wk_entry x) \<and>
      wk_root x = item_text env ''root_path'' [] (wk_entry x) \<and> wk_entry x \<in> set entries \<and> covers env path (wk_entry x)"
    if "x \<in> set ?ms" for x
    using that by (auto simp: workspace_matches_def root_length_def role_rank_def covers_def)
  show "wk_root m = item_text env ''root_path'' [] (wk_entry m)" using facts [OF m] by simp
  have "root_length env e' < root_length env (wk_entry m) \<or> root_length env e' = root_length env (wk_entry m) \<and>
      role_rank env ranks highest e' \<le> role_rank env ranks highest (wk_entry m)"
    if "e' \<in> set entries" "covers env path e'" for e'
  proof -
    have "\<exists>x \<in> set ?ms. wk_entry x = e'" using that by (auto simp: workspace_matches_def covers_def)
    then obtain x where x: "x \<in> set ?ms" "wk_entry x = e'" by blast
    show ?thesis using le [OF x(1)] facts [OF x(1)] facts [OF m] x(2) by (auto simp: less_eq_prod_def)
  qed
  then show "closest env ranks highest entries path (wk_entry m)" using facts [OF m] by (auto simp: closest_def)
qed

lemma root_error_None:
  "root_error env entries = None \<longleftrightarrow>
   (\<forall>e \<in> set entries. item_text env ''root_path'' [] e \<noteq> [] \<longrightarrow> wx_path_error env (item_text env ''root_path'' [] e) = None)"
  by (auto simp: root_error_def find_None_iff find_Some_iff split: option.split)

lemma registered_matches_Inr:
  "registered_matches env ranks highest payload path = Inr ms \<longleftrightarrow>
   wx_path_error env path = None \<and> (\<exists>entries. list_workspaces payload = Inr entries \<and> root_error env entries = None \<and>
     ms = workspace_matches env ranks highest entries path)"
  by (auto simp: registered_matches_def raising_Inr_iff obind_Inr_iff)

lemma select_workspace_Some:
  assumes "select_workspace env payload path = Inr (Some (e, root))"
  obtains entries where "list_workspaces payload = Inr entries" "closest env RESTRICTIVENESS 70 entries path e"
    "root = item_text env ''root_path'' [] e"
proof -
  obtain entries where l: "list_workspaces payload = Inr entries" and
    c: "(case ranked (workspace_matches env RESTRICTIVENESS 70 entries path) of
        [] \<Rightarrow> None | m # _ \<Rightarrow> Some (wk_entry m, wk_root m)) = Some (e, root)"
    using assms unfolding select_workspace_def obind_Inr_iff registered_matches_Inr by blast
  from c obtain m ms where "ranked (workspace_matches env RESTRICTIVENESS 70 entries path) = m # ms"
    "e = wk_entry m" "root = wk_root m" by (auto split: list.split_asm)
  with l ranked_Cons [OF this(1)] show ?thesis using that by simp
qed

lemma matrix_decision_fields:
  assumes "matrix_decision env status reason permission value wid role root target = Inr d"
  shows "pmd_status d = status" "pmd_permission_value d = value" "pmd_reason_code d = reason" "pmd_workspace_role d = role"
    "pmd_workspace_id d = wid" "value \<in> set PERMISSION_VALUES" "\<And>r. role = Some r \<Longrightarrow> r \<in> set WORKSPACE_ROLES"
    "pmd_permission d = permission"
  using assms by (auto simp: matrix_decision_def split: if_splits option.splits)

lemma entry_decision_allowed:
  assumes "entry_decision env cfg e root permission path = Inr d" and "pmd_status d = ''allowed''"
  shows "json_truthy (json_get_or ''enabled'' (JBool True) e) \<and> permission_value env cfg e permission = Inr ''allowed'' \<and>
    item_text env ''role'' ''forbidden'' e \<in> set WORKSPACE_ROLES"
  using assms unfolding entry_decision_def Let_def
  by (auto simp: obind_Inr_iff split: if_splits dest: matrix_decision_fields)

text \<open>
  C13. An action is allowed on a path only by the registry's closest answer: some enabled workspace of the registry contains
  the path and gives the permission; every other registered workspace that contains it has a shorter root, or one of
  the same length and no more restrictive a role. Outside every registered workspace nothing is allowed.
\<close>

theorem matrix_allows_only_closest:
  assumes "matrix_decide env cfg [] path action = Inr d" and "pmd_status d = ''allowed''"
  shows "\<exists>p entries e. path = Some p \<and> list_workspaces cfg = Inr entries \<and>
    closest env RESTRICTIVENESS 70 entries p e \<and> json_truthy (json_get_or ''enabled'' (JBool True) e) \<and>
    permission_value env cfg e (permission_for_action action) = Inr ''allowed'' \<and>
    item_text env ''role'' ''forbidden'' e \<in> set WORKSPACE_ROLES"
proof -
  obtain p where p: "path = Some p" "p \<noteq> []"
    using assms by (cases path) (auto simp: matrix_decide_def Let_def split: if_splits dest: matrix_decision_fields(1))
  with assms(1) obtain sel where sel: "select_workspace env cfg p = Inr sel" and
    d: "(case sel of None \<Rightarrow> matrix_decision env ''denied'' ''workspace_not_registered'' (permission_for_action action)
          ''denied'' None None None (Some p)
        | Some (entry, root) \<Rightarrow> entry_decision env cfg entry root (permission_for_action action) p) = Inr d"
    by (auto simp: matrix_decide_def Let_def obind_Inr_iff)
  from d assms(2) obtain e root where e: "sel = Some (e, root)"
    "entry_decision env cfg e root (permission_for_action action) p = Inr d"
    by (cases sel) (auto dest: matrix_decision_fields(1))
  from select_workspace_Some [OF sel [unfolded e(1)]] obtain entries where
    "list_workspaces cfg = Inr entries" "closest env RESTRICTIVENESS 70 entries p e" by blast
  then show ?thesis using p(1) entry_decision_allowed [OF e(2) assms(2)] by blast
qed

lemma select_workspace_None:
  assumes "select_workspace env payload path = Inr None"
  obtains entries where "list_workspaces payload = Inr entries" "\<forall>e \<in> set entries. \<not> covers env path e"
proof -
  obtain entries where l: "list_workspaces payload = Inr entries" and
    c: "(case ranked (workspace_matches env RESTRICTIVENESS 70 entries path) of
        [] \<Rightarrow> None | m # _ \<Rightarrow> Some (wk_entry m, wk_root m)) = None"
    using assms unfolding select_workspace_def obind_Inr_iff registered_matches_Inr by blast
  from c have "ranked (workspace_matches env RESTRICTIVENESS 70 entries path) = []" by (auto split: list.split_asm)
  then show ?thesis using l that ranked_Nil by blast
qed

section \<open>Mission resources\<close>

definition value_order :: "str \<Rightarrow> nat" where
  "value_order v = (if v = ''allowed'' then 0 else if v = ''ask'' then 1 else 2)"

text \<open>Status and value of a decision say the same.\<close>

definition coherent :: "permission_decision \<Rightarrow> bool" where
  "coherent d \<longleftrightarrow> pmd_permission_value d \<in> set PERMISSION_VALUES \<and>
     pmd_status d = (if pmd_permission_value d = ''allowed'' then ''allowed''
       else if pmd_permission_value d = ''ask'' then ''approval_required'' else ''denied'')"

definition value_status :: "str \<Rightarrow> str" where
  "value_status v = (if v = ''allowed'' then ''allowed'' else if v = ''ask'' then ''approval_required'' else ''denied'')"

lemma coherent_iff: "coherent d \<longleftrightarrow> pmd_permission_value d \<in> set PERMISSION_VALUES \<and> pmd_status d = value_status (pmd_permission_value d)"
  by (simp add: coherent_def value_status_def)

lemma matrix_decision_coherent:
  "matrix_decision env status reason permission v wid role root target = Inr d \<Longrightarrow> status = value_status v \<Longrightarrow> coherent d"
  using matrix_decision_fields(1,2,6) by (simp add: coherent_iff)

lemma entry_decision_coherent:
  assumes "entry_decision env cfg e root permission path = Inr d"
  shows "coherent d"
proof (cases "json_truthy (json_get_or ''enabled'' (JBool True) e)")
  case False
  with assms have "matrix_decision env ''denied'' ''workspace_disabled'' permission ''denied''
      (Some (item_text env ''workspace_id'' [] e)) (Some (item_text env ''role'' ''forbidden'' e)) (Some root) (Some path) = Inr d"
    by (simp add: entry_decision_def Let_def)
  then show ?thesis by (rule matrix_decision_coherent) (simp add: value_status_def)
next
  case True
  with assms obtain v where v: "permission_value env cfg e permission = Inr v"
    by (cases "permission_value env cfg e permission") (simp_all add: entry_decision_def Let_def)
  define reason where "reason = (if v = ''allowed'' then ''permission_allowed''
    else if v = ''ask'' then ''permission_requires_approval'' else ''permission_denied'')"
  have "matrix_decision env (value_status v) reason permission v
      (Some (item_text env ''workspace_id'' [] e)) (Some (item_text env ''role'' ''forbidden'' e)) (Some root) (Some path) = Inr d"
    using assms True v unfolding entry_decision_def Let_def value_status_def reason_def by (simp split: if_splits)
  then show ?thesis by (rule matrix_decision_coherent) simp
qed

lemma matrix_decide_coherent:
  assumes "matrix_decide env cfg registry path action = Inr d"
  shows "coherent d"
proof -
  have den: "matrix_decision env ''denied'' reason permission ''denied'' wid role root target = Inr d \<Longrightarrow> coherent d"
    for reason permission wid role root target
    by (erule matrix_decision_coherent) (simp add: value_status_def)
  show ?thesis
    using assms unfolding matrix_decide_def Let_def
    by (auto simp: obind_Inr_iff split: option.split_asm if_splits dest: den entry_decision_coherent)
qed

lemma mission_decision_fields:
  assumes "mission_decision env status reason permission value scope path base = Inr d"
  shows "pmd_status d = status" "pmd_permission_value d = value" "value \<in> set PERMISSION_VALUES" "pmd_reason_code d = reason"
    "str_or (mr_role scope) ''source_readonly'' \<in> set WORKSPACE_ROLES"
  using assms matrix_decision_fields(1,2,3,6,7) unfolding mission_decision_def obind_Inr_iff by force+

lemma most_restrictive_order:
  assumes "most_restrictive a b = Inr c" and "a \<in> set PERMISSION_VALUES"
  shows "value_order a \<le> value_order c \<and> value_order b \<le> value_order c \<and> (c = a \<or> c = b) \<and> b \<in> set PERMISSION_VALUES"
  using assms
  by (auto simp: most_restrictive_def PERMISSION_VALUES_def value_order_def split: option.split_asm if_splits)

lemma combined_decision_sound:
  assumes "combined_decision env cfg registered permission scope path base = Inr d"
  shows "coherent d \<and> (\<exists>mine. mission_value env cfg scope permission = Inr mine \<and>
    (if registered then most_restrictive (pmd_permission_value base) mine = Inr (pmd_permission_value d)
     else pmd_permission_value d = mine))"
proof -
  obtain mine v where mine: "mission_value env cfg scope permission = Inr mine"
    and e: "(if registered then most_restrictive (pmd_permission_value base) mine else Inr mine) = Inr v"
    and d: "\<exists>reason. mission_decision env
        (value_status v) reason permission v scope path base = Inr d"
    using assms by (fastforce simp: combined_decision_def obind_Inr_iff value_status_def split: if_splits)
  from d obtain reason where d: "mission_decision env
        (value_status v) reason permission v scope path base = Inr d" ..
  note f = mission_decision_fields [OF d]
  show ?thesis using mine e f(1,2,3) by (auto simp: coherent_iff split: if_splits)
qed

lemma matrix_decide_select:
  assumes "matrix_decide env cfg [] (Some p) action = Inr base" "p \<noteq> []"
  shows "\<exists>sel. select_workspace env cfg p = Inr sel \<and> (sel = None \<longrightarrow> pmd_status base = ''denied'')"
  using assms unfolding matrix_decide_def Let_def by (auto simp: obind_Inr_iff) (erule matrix_decision_fields(1))

lemma resource_decision_sound:
  assumes "resource_decision env cfg sel permission scope p base = Inr d" and "coherent base"
  shows "coherent d \<and>
    (case sel of
       Some (e, _) \<Rightarrow> value_order (pmd_permission_value base) \<le> value_order (pmd_permission_value d) \<and>
         (item_text env ''role'' ''forbidden'' e \<in> set RESTRICTED_ROLES \<or> pmd_status base = ''denied'' \<longrightarrow> d = base)
     | None \<Rightarrow> pmd_status d = ''denied'' \<or>
         permission \<in> set (mr_permissions scope) \<and> mission_value env cfg scope permission = Inr (pmd_permission_value d))"
proof (cases "case sel of Some (entry, _) \<Rightarrow>
    item_text env ''role'' ''forbidden'' entry \<in> set RESTRICTED_ROLES \<or> pmd_status base = ''denied'' | None \<Rightarrow> False")
  case True
  with assms show ?thesis by (cases sel) (auto simp: resource_decision_def)
next
  case unrestricted: False
  show ?thesis
  proof (cases "permission \<in> set (mr_permissions scope)")
    case False
    with unrestricted assms(1) have "mission_decision env ''denied'' ''permission_not_declared_by_mission_resource'' permission
        ''denied'' scope p base = Inr d" unfolding resource_decision_def by (simp only: if_False if_True simp_thms)
    from mission_decision_fields(1,2,3) [OF this] show ?thesis
      using unrestricted by (cases sel) (auto simp: coherent_iff value_status_def value_order_def)
  next
    case True
    with unrestricted assms(1) have c: "combined_decision env cfg (sel \<noteq> None) permission scope p base = Inr d"
      unfolding resource_decision_def by (simp only: if_False if_True simp_thms)
    have "pmd_permission_value base \<in> set PERMISSION_VALUES" using assms(2) by (simp add: coherent_iff)
    with combined_decision_sound [OF c] True unrestricted show ?thesis
      by (cases sel) (auto dest: most_restrictive_order)
  qed
qed

text \<open>
  C14. A resource declared by a mission never widens a registered workspace: on a path inside a registered workspace the
  decision with resources is at least as strict as the registry's, and it is the registry's own when the workspace is
  forbidden, protected, read-only or an inbox, or when the registry denies. Outside the registry, anything but a
  denial needs a resource that contains the path and declares the permission, and is the default of that resource's role.
\<close>

theorem mission_resource_never_widens:
  assumes "decide_with_resources env cfg resources path action = Inr d"
  shows "\<exists>base. matrix_decide env cfg [] path (permission_for_action action) = Inr base \<and> coherent d \<and>
    (case path of
       None \<Rightarrow> d = base
     | Some p \<Rightarrow> p = [] \<and> d = base \<or> p \<noteq> [] \<and> (\<exists>sel. select_workspace env cfg p = Inr sel \<and>
         (case sel of
            Some (e, _) \<Rightarrow> value_order (pmd_permission_value base) \<le> value_order (pmd_permission_value d) \<and>
              (item_text env ''role'' ''forbidden'' e \<in> set RESTRICTED_ROLES \<or> pmd_status base = ''denied'' \<longrightarrow> d = base)
          | None \<Rightarrow> pmd_status d = ''denied'' \<or>
              (\<exists>scope. scope_for_path env resources path = Inr (Some scope) \<and>
                 permission_for_action action \<in> set (mr_permissions scope) \<and>
                 mission_value env cfg scope (permission_for_action action) = Inr (pmd_permission_value d)))))"
proof -
  let ?a = "permission_for_action action"
  obtain base found where base: "matrix_decide env cfg [] path ?a = Inr base" and
    found: "scope_for_path env resources path = Inr found" and
    r: "(case (found, path) of
          (Some scope, Some p) \<Rightarrow>
            obind (select_workspace env cfg p) (\<lambda>sel. resource_decision env cfg sel ?a scope p base)
        | _ \<Rightarrow> Inr base) = Inr d"
    using assms unfolding decide_with_resources_def Let_def obind_Inr_iff by blast
  note coh = matrix_decide_coherent [OF base]
  show ?thesis
  proof (cases path)
    case None
    with r base coh show ?thesis by (simp split: option.splits)
  next
    case (Some p)
    show ?thesis
    proof (cases "p = []")
      case True
      with found have "found = None" using Some by (simp add: scope_for_path_def)
      with r Some base coh True show ?thesis by simp
    next
      case False
      from matrix_decide_select [OF base [unfolded Some] False] obtain sel where
        sel: "select_workspace env cfg p = Inr sel" "sel = None \<Longrightarrow> pmd_status base = ''denied''" by blast
      show ?thesis
      proof (cases found)
        case None
        with r have "d = base" by simp
        with base Some False sel coh show ?thesis by (auto split: option.splits)
      next
        case (Some scope)
        with r \<open>path = Some p\<close> sel(1) have d: "resource_decision env cfg sel ?a scope p base = Inr d" by simp
        show ?thesis
          using base found Some \<open>path = Some p\<close> False sel resource_decision_sound [OF d coh]
          by (cases sel) auto
      qed
    qed
  qed
qed

section \<open>Decisions are total on well-formed registries\<close>

text \<open>The configured overrides of every role are mappings or absent.\<close>

definition role_overrides_ok :: "json dict \<Rightarrow> bool" where
  "role_overrides_ok cfg \<longleftrightarrow>
     (case json_get ''role_defaults'' cfg of
        JObj configured \<Rightarrow> (\<forall>role. is_obj (json_or (json_get_or role (JObj []) configured) (JObj [])))
      | _ \<Rightarrow> True)"

lemma need_obj_is_obj: "is_obj v \<Longrightarrow> \<exists>kvs. need_obj err v = Inr kvs"
  by (cases v) (simp_all add: need_obj_def is_obj_def)

lemma ofold_append_total:
  assumes "\<And>x. x \<in> set xs \<Longrightarrow> \<exists>y. g x = Inr y"
  shows "\<exists>r. ofold (\<lambda>x acc. obind (g x) (\<lambda>y. Inr (acc @ [y]))) xs acc = Inr r"
  using assms
proof (induction xs arbitrary: acc)
  case (Cons x xs)
  then obtain y where "g x = Inr y" by auto
  with Cons show ?case by simp
qed simp

lemma role_defaults_total:
  assumes "role_overrides_ok cfg"
  shows "\<exists>t. role_defaults env cfg = Inr t"
proof (cases "json_get ''role_defaults'' cfg")
  case (JObj configured)
  have "\<exists>r. role_row env configured row = Inr r" for row
  proof -
    have "is_obj (json_or (json_get_or (fst row) (JObj []) configured) (JObj []))"
      using assms JObj by (simp add: role_overrides_ok_def)
    from need_obj_is_obj [OF this, of "''AttributeError''"] show ?thesis by (auto simp: role_row_def)
  qed
  with JObj ofold_append_total [of ROLE_DEFAULTS "role_row env configured" "[]"] show ?thesis by (simp add: role_defaults_def)
qed (simp_all add: role_defaults_def)

lemma permission_value_total:
  assumes "role_overrides_ok cfg" "entry_ok env e"
  shows "\<exists>v \<in> set PERMISSION_VALUES. permission_value env cfg e permission = Inr v"
proof -
  obtain t where t: "role_defaults env cfg = Inr t" using role_defaults_total [OF assms(1)] by blast
  obtain ps where ps: "json_or (json_get ''permissions'' e) (JObj []) = JObj ps"
    using assms(2) by (auto simp: entry_ok_def permissions_ok_def)
  have "''denied'' \<in> set PERMISSION_VALUES" by (simp add: PERMISSION_VALUES_def)
  then show ?thesis by (auto simp: permission_value_def role_permissions_def t ps need_obj_def Let_def)
qed

lemma item_role:
  assumes "item_text env ''role'' [] e \<in> set WORKSPACE_ROLES"
  shows "item_text env ''role'' ''forbidden'' e = item_text env ''role'' [] e"
proof -
  have "[] \<notin> set WORKSPACE_ROLES" by code_simp
  with assms show ?thesis
    by (cases "json_truthy (json_get ''role'' e)") (auto simp: item_text_def json_or_def py_str_def)
qed

lemma permission_for_action_known: "permission_for_action a \<in> set ALL_PERMISSIONS"
proof -
  have "list_all (\<lambda>(_, p). p \<in> set ALL_PERMISSIONS) ACTION_PERMISSION_ALIASES" by code_simp
  moreover have "''script_execution'' \<in> set ALL_PERMISSIONS" by code_simp
  ultimately show ?thesis
    by (auto simp: permission_for_action_def list_all_iff split: option.splits dest!: map_of_SomeD)
qed

lemma matrix_decision_total:
  assumes "permission \<in> set ALL_PERMISSIONS" "v \<in> set PERMISSION_VALUES" "\<And>r. role = Some r \<Longrightarrow> r \<in> set WORKSPACE_ROLES"
  shows "\<exists>d. matrix_decision env status reason permission v wid role root target = Inr d"
  using assms by (cases role) (simp_all add: matrix_decision_def)

lemma entry_decision_total:
  assumes "role_overrides_ok cfg" "entry_ok env e" "permission \<in> set ALL_PERMISSIONS"
  shows "\<exists>d. entry_decision env cfg e root permission path = Inr d"
proof -
  obtain v where v: "v \<in> set PERMISSION_VALUES" "permission_value env cfg e permission = Inr v"
    using permission_value_total [OF assms(1,2)] by blast
  have role: "item_text env ''role'' ''forbidden'' e \<in> set WORKSPACE_ROLES"
    using assms(2) item_role [of env e] by (simp add: entry_ok_def)
  have den: "''denied'' \<in> set PERMISSION_VALUES" by (simp add: PERMISSION_VALUES_def)
  have made: "\<exists>d. matrix_decision env status reason permission w wid (Some (item_text env ''role'' ''forbidden'' e)) rt target = Inr d"
    if "w \<in> set PERMISSION_VALUES" for status reason w wid rt target
    using role by (intro matrix_decision_total [OF assms(3) that]) simp
  show ?thesis
    unfolding entry_decision_def Let_def v(2) obind_simps using made [OF v(1)] made [OF den]
    by (cases "v = ''allowed''"; cases "v = ''ask''"; simp)
qed

definition paths_resolve :: "workspace_env \<Rightarrow> json dict \<Rightarrow> str \<Rightarrow> bool" where
  "paths_resolve env cfg p \<longleftrightarrow> wx_path_error env p = None \<and>
     (\<forall>entries. list_workspaces cfg = Inr entries \<longrightarrow>
        (\<forall>e \<in> set entries. item_text env ''root_path'' [] e \<noteq> [] \<longrightarrow> wx_path_error env (item_text env ''root_path'' [] e) = None))"

lemma select_workspace_total:
  assumes "list_workspaces cfg = Inr entries"
  shows "(\<exists>sel. select_workspace env cfg p = Inr sel) \<longleftrightarrow> paths_resolve env cfg p"
  using assms by (simp add: select_workspace_def obind_Inr_iff registered_matches_Inr paths_resolve_def root_error_None)

text \<open>
  C34. On a registry that validation accepts, with overrides of role defaults that are mappings, a decision is made for every
  action and every path exactly when the path and every registered root can be resolved; no other access raises, and without
  a path nothing is resolved. One registered root that cannot be resolved therefore stops every decision on a path. The answer
  names a known role and a known value; status and value agree.
\<close>

theorem matrix_decide_total:
  assumes "validate_registry env cfg cfg = Inr []" and "role_overrides_ok cfg"
  shows "(\<exists>d. matrix_decide env cfg [] path action = Inr d \<and> coherent d) \<longleftrightarrow>
    (opt_truthy path \<longrightarrow> paths_resolve env cfg (str_or path []))"
proof -
  have ok: "workspace_registry_ok env cfg"
    using assms(1) validation_exactness [of env cfg cfg] by simp
  note known = permission_for_action_known [of action]
  have den: "''denied'' \<in> set PERMISSION_VALUES" by (simp add: PERMISSION_VALUES_def)
  have none: "\<exists>d. matrix_decision env ''denied'' ''workspace_not_registered'' (permission_for_action action) ''denied''
      None None None target = Inr d" for target
    by (rule matrix_decision_total [OF known den]) simp
  have "(\<exists>d. matrix_decide env cfg [] path action = Inr d) \<longleftrightarrow> (opt_truthy path \<longrightarrow> paths_resolve env cfg (str_or path []))"
  proof (cases "opt_truthy path")
    case False
    then show ?thesis using none [of None] by (cases path) (simp_all add: matrix_decide_def Let_def)
  next
    case True
    then obtain p where p: "path = Some p" "p \<noteq> []" by (cases path) auto
    from ok obtain entries where entries: "list_workspaces cfg = Inr entries" "\<forall>e \<in> set entries. entry_ok env e"
      by (auto simp: workspace_registry_ok_def list_workspaces_def)
    have "\<exists>d. matrix_decide env cfg [] path action = Inr d" if sel: "select_workspace env cfg p = Inr sel" for sel
    proof (cases sel)
      case None
      with sel p none [of "Some p"] show ?thesis by (simp add: matrix_decide_def)
    next
      case (Some er)
      obtain e root where er: "er = (e, root)" by fastforce
      from select_workspace_Some [OF sel [unfolded Some er]] entries have "entry_ok env e" by (auto simp: closest_def)
      from entry_decision_total [OF assms(2) this known] sel p Some er show ?thesis by (simp add: matrix_decide_def)
    qed
    moreover have "\<exists>sel. select_workspace env cfg p = Inr sel" if "matrix_decide env cfg [] path action = Inr d" for d
      using matrix_decide_select [OF that [unfolded p(1)] p(2)] by blast
    ultimately show ?thesis using select_workspace_total [OF entries(1), of env p] p by auto
  qed
  then show ?thesis using matrix_decide_coherent by blast
qed

section \<open>The two readers of the registry\<close>

lemma role_resolve_path_role:
  assumes "role_resolve_path env cfg p = Inr d" "rd_reason d \<noteq> ''workspace_not_registered''"
  shows "\<exists>entries e c. list_workspaces cfg = Inr entries \<and> wx_path_error env p = None \<and> root_error env entries = None \<and>
    closest env ROLE_RESTRICTIVENESS 5 entries p e \<and>
    rd_contract d = Some c \<and> contract_from_entry env e (Some (item_text env ''root_path'' [] e)) True = Inr c"
proof -
  obtain entries where l: "list_workspaces cfg = Inr entries" "wx_path_error env p = None" "root_error env entries = None" and
    r: "(case ranked (workspace_matches env ROLE_RESTRICTIVENESS 5 entries p) of
         [] \<Rightarrow>
           obind (contract_from_entry env (unregistered_entry p) None False) (\<lambda>c.
             Inr \<lparr>rd_status = ''denied'', rd_contract = Some c, rd_reason = ''workspace_not_registered'', rd_warnings = [],
               rd_trace = [role_trace env ''denied'' ''workspace_not_registered'' [(''path'', JStr p)]]\<rparr>)
       | m # ms \<Rightarrow>
           obind (contract_from_entry env (wk_entry m) (Some (wk_root m)) True) (\<lambda>c.
             let status = (if rc_role c = ''forbidden'' then ''denied'' else ''allowed'')
             in Inr \<lparr>rd_status = status, rd_contract = Some c,
                  rd_reason = or_text (rc_reason c) (''workspace_role_'' @ rc_role c), rd_warnings = [],
                  rd_trace = [role_trace env status (or_text (rc_reason c) (rc_role c))
                    [(''workspace_id'', JStr (rc_workspace_id c)), (''role'', JStr (rc_role c)),
                     (''selection_rule'', JStr ''longest_path_then_deny_override''),
                     (''candidates'', JList (map (match_json env) (m # ms)))]]\<rparr>)) = Inr d"
    using assms(1) unfolding role_resolve_path_def obind_Inr_iff registered_matches_Inr by blast
  show ?thesis
  proof (cases "ranked (workspace_matches env ROLE_RESTRICTIVENESS 5 entries p)")
    case Nil
    with r assms(2) show ?thesis by (auto simp: obind_Inr_iff)
  next
    case (Cons m ms)
    note m = ranked_Cons [OF Cons]
    from r Cons obtain c where "contract_from_entry env (wk_entry m) (Some (wk_root m)) True = Inr c" "rd_contract d = Some c"
      by (auto simp: obind_Inr_iff Let_def)
    with l m show ?thesis by auto
  qed
qed

lemma contract_from_entry_role:
  assumes "contract_from_entry env e root within = Inr c"
  shows "rc_role c = item_text env ''role'' ''forbidden'' e"
  using assms unfolding contract_from_entry_def Let_def by (auto simp: obind_Inr_iff split: if_splits)

text \<open>
  C37. The permission matrix and the role contracts read the registry alike: when no two registered workspaces that contain a
  path have roots of the same length, the workspace the matrix selects is the one whose role the contract of the
  path carries, although the two services rank the roles differently.
\<close>

theorem registry_readers_agree:
  assumes "list_workspaces cfg = Inr entries"
    and "\<forall>e \<in> set entries. \<forall>e' \<in> set entries. covers env p e \<longrightarrow> covers env p e' \<longrightarrow> root_length env e = root_length env e' \<longrightarrow> e = e'"
    and "p \<noteq> []" "role_resolve env cfg (Some p) True = Inr d" "rd_reason d \<noteq> ''workspace_not_registered''"
  shows "\<exists>e root c. select_workspace env cfg p = Inr (Some (e, root)) \<and> rd_contract d = Some c \<and>
    contract_from_entry env e (Some root) True = Inr c \<and> rc_role c = item_text env ''role'' ''forbidden'' e"
proof -
  from assms(3,4) have "role_resolve_path env cfg p = Inr d" by (simp add: role_resolve_def)
  from role_resolve_path_role [OF this assms(5)] assms(1) obtain e c where
    r: "wx_path_error env p = None" "root_error env entries = None" and e: "closest env ROLE_RESTRICTIVENESS 5 entries p e" and c: "rd_contract d = Some c"
      "contract_from_entry env e (Some (item_text env ''root_path'' [] e)) True = Inr c" by auto
  obtain sel where sel: "select_workspace env cfg p = Inr sel"
    using assms(1) r by (auto simp: select_workspace_def obind_Inr_iff registered_matches_Inr)
  have "sel \<noteq> None"
  proof
    assume "sel = None"
    from select_workspace_None [OF sel [unfolded this]] assms(1) e show False by (auto simp: closest_def)
  qed
  then obtain e' root where s: "select_workspace env cfg p = Inr (Some (e', root))" using sel by auto
  from select_workspace_Some [OF s] assms(1) have e': "closest env RESTRICTIVENESS 70 entries p e'"
    "root = item_text env ''root_path'' [] e'" by auto
  from e e'(1) have "root_length env e = root_length env e'" by (fastforce simp: closest_def)
  with e e'(1) assms(2) have "e = e'" by (auto simp: closest_def)
  then show ?thesis using s c e'(2) contract_from_entry_role [OF c(2)] by auto
qed

section \<open>Updating the registry\<close>

lemma map_of_dict_merge: "map_of (dict_merge a b) k = (case map_of (rev b) k of Some v \<Rightarrow> Some v | None \<Rightarrow> map_of a k)"
  unfolding dict_merge_def
proof (induction b arbitrary: a)
  case (Cons kv b)
  then show ?case by (cases kv) (auto simp: update_conv' map_add_def split: option.splits)
qed simp

lemma change_first_find:
  assumes "change_first P (\<lambda>x. Inr (g x)) xs = Inr r" and "\<And>x. P x \<Longrightarrow> P (g x)"
  shows "case r of Some ys \<Rightarrow> (\<exists>x \<in> set xs. P x \<and> find P ys = Some (g x)) | None \<Rightarrow> find P xs = None"
  using assms(1)
proof (induction xs arbitrary: r)
  case (Cons x xs)
  show ?case
  proof (cases "P x")
    case True
    with Cons.prems assms(2) [OF True] show ?thesis by auto
  next
    case False
    with Cons.prems obtain r' where "change_first P (\<lambda>x. Inr (g x)) xs = Inr r'" "r = map_option ((#) x) r'"
      by (auto simp: obind_Inr_iff)
    with Cons.IH [of r'] False show ?thesis by (cases r') auto
  qed
qed simp

lemma find_append_None: "find P xs = None \<Longrightarrow> find P (xs @ ys) = find P ys"
  by (induction xs) (simp_all split: if_splits)

lemma registry_items_with_workspaces: "list_workspaces (with_workspaces cfg items) = Inr items"
proof (cases items)
  case (Cons i rest)
  have "dict_items (map JObj xs) = xs" for xs by (induction xs) simp_all
  with Cons show ?thesis by (simp add: list_workspaces_def registry_items_def with_workspaces_def json_get_def json_or_def update_conv')
qed (simp add: list_workspaces_def registry_items_def with_workspaces_def json_get_def json_or_def update_conv')

lemma entry_dump_merge:
  assumes "(k, v) \<in> set (entry_dump entry)"
  shows "map_of (dict_merge i (entry_dump entry)) k = Some v" "map_of (entry_dump entry) k = Some v"
proof -
  have d: "distinct (map fst (entry_dump entry))" by (simp add: entry_dump_def)
  then have "distinct (map fst (rev (entry_dump entry)))" by (simp add: rev_map [symmetric])
  then show "map_of (dict_merge i (entry_dump entry)) k = Some v" using assms by (simp add: map_of_dict_merge)
  show "map_of (entry_dump entry) k = Some v" using d assms by simp
qed

lemma checked_registry_Inr: "checked_registry env cfg r = Inr r' \<longleftrightarrow> r' = r \<and> validate_registry env cfg r = Inr []"
  by (auto simp: checked_registry_def obind_Inr_iff split: if_splits)

text \<open>
  C35. Registering a workspace and reading it back: when adding or updating an entry succeeds and the registry is
  written, a service that starts over on the file finds the workspace under its identifier, with
  every field of the entry, and the registry on file is valid. YAML is taken to read back what it wrote.
\<close>

theorem registered_workspace_read_back:
  assumes "add_or_update_workspace env cfg entry = Inr registry" and "write_registry env cfg registry s = Inr s'"
    and "wx_yaml_load env (wx_yaml_dump env registry) = Inr registry" "wx_yaml_dump env registry \<noteq> []"
  shows "\<exists>s'' item. matrix_config env \<lparr>wm_file = wm_file s', wm_config = None\<rparr> = Inr (registry, s'') \<and>
    validate_registry env registry registry = Inr [] \<and>
    get_workspace env registry (wn_workspace_id entry) = Inr (Some item) \<and>
    (\<forall>(k, v) \<in> set (entry_dump entry). map_of item k = Some v)"
proof -
  let ?P = "\<lambda>i. item_id env i = wn_workspace_id entry"
  obtain items r where items: "list_workspaces cfg = Inr items"
    and r: "change_first ?P (\<lambda>i. Inr (dict_merge i (entry_dump entry))) items = Inr r"
    and reg: "registry = with_workspaces cfg (case r of Some items' \<Rightarrow> items' | None \<Rightarrow> items @ [entry_dump entry])"
    and valid: "validate_registry env cfg registry = Inr []"
    using assms(1) unfolding add_or_update_workspace_def obind_Inr_iff checked_registry_Inr by blast
  have ne: "registry \<noteq> []" unfolding reg with_workspaces_def by (cases cfg) (auto split: if_splits)
  have id: "?P (dict_merge i (entry_dump entry))" "?P (entry_dump entry)" for i
  proof -
    have "(''workspace_id'', JStr (wn_workspace_id entry)) \<in> set (entry_dump entry)" by (simp add: entry_dump_def)
    from entry_dump_merge [OF this] show "?P (dict_merge i (entry_dump entry))" "?P (entry_dump entry)"
      by (simp_all add: item_id_def json_get_def py_str_def)
  qed
  have "\<exists>item. find ?P (case r of Some items' \<Rightarrow> items' | None \<Rightarrow> items @ [entry_dump entry]) = Some item \<and>
      (item = entry_dump entry \<or> (\<exists>i. item = dict_merge i (entry_dump entry)))"
    using change_first_find [OF r id(1)] id(2) by (cases r) (auto simp: find_append_None)
  then obtain item where item: "get_workspace env registry (wn_workspace_id entry) = Inr (Some item)"
    "item = entry_dump entry \<or> (\<exists>i. item = dict_merge i (entry_dump entry))"
    unfolding get_workspace_def reg registry_items_with_workspaces by auto
  have fields: "\<forall>(k, v) \<in> set (entry_dump entry). map_of item k = Some v" using item(2) entry_dump_merge by auto
  have written: "wm_file s' = Some (wx_yaml_dump env registry)" using assms(2) by (auto simp: write_registry_def obind_Inr_iff)
  have "matrix_config env \<lparr>wm_file = wm_file s', wm_config = None\<rparr> =
      Inr (registry, \<lparr>wm_file = wm_file s', wm_config = Some registry\<rparr>)"
    using assms(3,4) ne by (simp add: matrix_config_def matrix_load_def written)
  moreover have "validate_registry env registry registry = Inr []" using valid ne by (simp add: validate_registry_def)
  ultimately show ?thesis using item(1) fields by blast
qed

section \<open>Mission roles\<close>

lemma mission_role_cases:
  "mission_role scope = ''source_readonly'' \<or> mission_role scope = ''target_mutable'' \<or>
   mission_role scope = ''system_mutable'' \<or> mission_role scope = ''temp_staging''"
  by (simp add: mission_role_def Let_def)

lemma mission_contract_entry_gets [simp]:
  "json_get ''role'' (mission_contract_entry scope role p) = JStr role"
  "json_get ''evidence'' (mission_contract_entry scope role p) = jstrs (mr_provenance_refs scope @ [''mission_contract.local_resources''])"
  by (simp_all add: mission_contract_entry_def json_get_def)

lemma mission_payload_get:
  assumes "k \<notin> set [''workspace_id'', ''root_path'', ''role'', ''human_label'', ''reason'', ''evidence'']"
  shows "json_get k (dict_merge defaults (mission_contract_entry scope role p)) = json_get k defaults"
proof -
  have "map_of (rev (mission_contract_entry scope role p)) k = None"
    unfolding map_of_eq_None_iff set_rev using assms by (simp add: mission_contract_entry_def)
  then show ?thesis by (simp add: json_get_def map_of_dict_merge)
qed

lemma contract_defaults_gets [simp]:
  "json_get ''read_allowed'' (contract_defaults rd wr sh pa ap al fo risk) = JBool rd"
  "json_get ''write_allowed'' (contract_defaults rd wr sh pa ap al fo risk) = JBool wr"
  "json_get ''shell_allowed'' (contract_defaults rd wr sh pa ap al fo risk) = JBool sh"
  "json_get ''patch_allowed'' (contract_defaults rd wr sh pa ap al fo risk) = JBool pa"
  "json_get ''approval_required'' (contract_defaults rd wr sh pa ap al fo risk) = JBool ap"
  "json_get ''allowed_operations'' (contract_defaults rd wr sh pa ap al fo risk) = jstrs al"
  "json_get ''forbidden_operations'' (contract_defaults rd wr sh pa ap al fo risk) = jstrs fo"
  "json_get ''max_risk_without_approval'' (contract_defaults rd wr sh pa ap al fo risk) = JStr risk"
  by (simp_all add: contract_defaults_def json_get_def)

lemma coerced_mission:
  assumes "k \<notin> set [''workspace_id'', ''root_path'', ''role'', ''human_label'', ''reason'', ''evidence'']"
    and "coerce (json_get k defaults) = Some x"
  shows "coerced coerce k (dict_merge defaults (mission_contract_entry scope role p)) = Inr x"
  unfolding coerced_def mission_payload_get [OF assms(1)] using assms(2) by simp

lemma mission_contract_defaults:
  assumes "\<And>b. wx_bool env (JBool b) = Some b" "\<And>xs. wx_strs env (jstrs xs) = Some xs" "\<And>t. wx_text env (JStr t) = Some t"
    and "map_of SAFE_DEFAULTS role = Some (contract_defaults rd wr sh pa ap al fo risk)" "role \<in> set WORKSPACE_ROLES" "role \<noteq> []"
  shows "\<exists>c. contract_from_entry env (mission_contract_entry scope role p) root True = Inr c \<and> rc_role c = role \<and>
    rc_write_allowed c = wr \<and> rc_shell_allowed c = sh"
proof -
  let ?e = "mission_contract_entry scope role p"
  have ev: "py_iter (json_or (json_get ''evidence'' ?e) (JList [])) =
      Inr (map JStr (mr_provenance_refs scope @ [''mission_contract.local_resources'']))"
    by (simp add: jstrs_def json_or_def)
  have role: "item_text env ''role'' ''forbidden'' ?e = role"
    using assms(6) by (simp add: item_text_def json_or_def py_str_def)
  note coerced = coerced_mission [where scope = scope and role = role and p = p]
  show ?thesis
    using assms(5)
    by (simp add: contract_from_entry_def Let_def role assms(1-4) ev coerced del: mission_contract_entry_gets)
qed

lemma mission_contract_made:
  assumes "\<And>b. wx_bool env (JBool b) = Some b" "\<And>xs. wx_strs env (jstrs xs) = Some xs" "\<And>t. wx_text env (JStr t) = Some t"
    and "role = ''source_readonly'' \<or> role = ''target_mutable'' \<or> role = ''system_mutable'' \<or> role = ''temp_staging''"
  shows "\<exists>c. contract_from_entry env (mission_contract_entry scope role p) root True = Inr c \<and> rc_role c = role \<and>
    rc_write_allowed c = (role = ''target_mutable'' \<or> role = ''system_mutable'') \<and>
    rc_shell_allowed c = (role = ''target_mutable'' \<or> role = ''system_mutable'')"
proof -
  have known: "role \<in> set WORKSPACE_ROLES" "role \<noteq> []"
    using assms(4) by (elim disjE; simp add: WORKSPACE_ROLES_def ROLE_DEFAULTS_def)+
  have "\<exists>rd pa ap al fo risk. map_of SAFE_DEFAULTS role = Some (contract_defaults rd
      (role = ''target_mutable'' \<or> role = ''system_mutable'') (role = ''target_mutable'' \<or> role = ''system_mutable'') pa ap al fo risk)"
    using assms(4) by (elim disjE; simp add: SAFE_DEFAULTS_def; blast)
  then obtain rd pa ap al fo risk where d: "map_of SAFE_DEFAULTS role = Some (contract_defaults rd
      (role = ''target_mutable'' \<or> role = ''system_mutable'') (role = ''target_mutable'' \<or> role = ''system_mutable'') pa ap al fo risk)"
    by blast
  show ?thesis by (rule mission_contract_defaults [OF assms(1-3) d known])
qed

text \<open>
  C39. The role contract of a path takes the mission's role even inside a registered workspace, unless that workspace is
  forbidden, protected, read-only or an inbox: an output directory for artifacts, which the registry makes neither writable nor
  a place for a shell, becomes both when a mission declares it mutable. The permission matrix does not behave so.
  The coercions of booleans, lists of strings and strings are taken to keep such values.
\<close>

theorem mission_role_replaces_registered:
  assumes "\<And>b. wx_bool env (JBool b) = Some b" "\<And>xs. wx_strs env (jstrs xs) = Some xs" "\<And>t. wx_text env (JStr t) = Some t"
    and "role_resolve env cfg (Some p) required = Inr base" "rd_contract base = Some old" "rc_role old \<notin> set RESTRICTED_ROLES"
    and "scope_for_path env resources (Some p) = Inr (Some scope)"
  shows "\<exists>d c. resolve_with_resources env cfg resources (Some p) required = Inr d \<and> rd_status d = ''allowed'' \<and>
    rd_contract d = Some c \<and> rc_role c = mission_role scope \<and>
    rc_write_allowed c = (mission_role scope = ''target_mutable'' \<or> mission_role scope = ''system_mutable'') \<and>
    rc_shell_allowed c = (mission_role scope = ''target_mutable'' \<or> mission_role scope = ''system_mutable'')"
proof -
  from mission_contract_made [OF assms(1-3) mission_role_cases, where scope = scope and p = p and
      root = "Some (str_or (mr_locator scope) p)"]
  obtain c where "contract_from_entry env (mission_contract_entry scope (mission_role scope) p)
      (Some (str_or (mr_locator scope) p)) True = Inr c" and
    c: "rc_role c = mission_role scope" "rc_write_allowed c = (mission_role scope = ''target_mutable'' \<or> mission_role scope = ''system_mutable'')"
      "rc_shell_allowed c = (mission_role scope = ''target_mutable'' \<or> mission_role scope = ''system_mutable'')"
    by blast
  then have "\<exists>d. resolve_with_resources env cfg resources (Some p) required = Inr d \<and> rd_status d = ''allowed'' \<and> rd_contract d = Some c"
    using assms(4-7) by (simp add: resolve_with_resources_def Let_def)
  then show ?thesis using c by blast
qed

section \<open>Examples\<close>

fun example_text :: "json \<Rightarrow> str option" where
  "example_text (JStr s) = Some s"
| "example_text _ = None"

fun example_strs :: "json list \<Rightarrow> str list option" where
  "example_strs [] = Some []"
| "example_strs (JStr s # xs) = map_option ((#) s) (example_strs xs)"
| "example_strs _ = None"

definition example_entry :: "str \<Rightarrow> str \<Rightarrow> str \<Rightarrow> workspace_entry" where
  "example_entry wid root role =
     \<lparr>wn_workspace_id = wid, wn_root_path = root, wn_role = role, wn_human_label = [], wn_reason = [],
      wn_approval_required = True, wn_enabled = True, wn_permissions = [], wn_evidence = []\<rparr>"

definition example_registry :: "json dict" where
  "example_registry =
     [(''schema_version'', JInt 1),
      (''workspaces'', JList [JObj (entry_dump (example_entry ''home'' ''/home'' ''protected'')),
         JObj (entry_dump (example_entry ''out'' ''/home/out'' ''artifact_output''))])]"

definition example_updated :: "json dict" where
  "example_updated = with_workspaces example_registry
     [entry_dump (example_entry ''home'' ''/home'' ''protected''),
      entry_dump (example_entry ''out'' ''/home/out'' ''target_mutable'')]"

definition example_workspace_env :: workspace_env where
  "example_workspace_env =
     \<lparr>pe_normalize = (\<lambda>p. p), pe_sep = ''/'', wx_user_error = (\<lambda>_. None),
      wx_path_error = (\<lambda>p. if prefix ''~nobody'' p then Some ''RuntimeError'' else None), wx_resolve = (\<lambda>p. p), wx_absolute = (\<lambda>p. prefix ''/'' p),
      wx_parts = (\<lambda>p. [p]), wx_leaf = (\<lambda>p. p), wx_render = (\<lambda>_. ''?''), wx_registry_path = ''registry.yaml'',
      wx_yaml_load = (\<lambda>_. Inr example_updated), wx_yaml_dump = (\<lambda>_. ''yaml''),
      wx_bool = (\<lambda>v. case v of JBool b \<Rightarrow> Some b | _ \<Rightarrow> None),
      wx_strs = (\<lambda>v. case v of JList xs \<Rightarrow> example_strs xs | _ \<Rightarrow> None), wx_text = example_text\<rparr>"

definition example_resource :: mission_resource where
  "example_resource =
     \<lparr>mr_resource_id = ''res_1'', mr_resource_type = ''local_workspace'', mr_role = Some ''system_mutable'',
      mr_locator = Some ''/home/out'', mr_normalized_identity = None, mr_allowed_branches = [],
      mr_permissions = [''read_file'', ''create_file''], mr_provenance_refs = []\<rparr>"

lemma example_strs_jstrs: "example_strs (map JStr xs) = Some xs"
  by (induction xs) simp_all

text \<open>Evaluation of a computation that may raise.\<close>

lemma outcome_evaluates: "(case m of Inl _ \<Rightarrow> False | Inr x \<Rightarrow> P x) \<Longrightarrow> \<exists>x. m = Inr x \<and> P x"
  by (simp split: sum.splits)

lemma matrix_allows_only_closest_witness:
  "\<exists>entries e. list_workspaces example_registry = Inr entries \<and>
     closest example_workspace_env RESTRICTIVENESS 70 entries ''/home/out/a.txt'' e"
proof -
  have "case matrix_decide example_workspace_env example_registry [] (Some ''/home/out/a.txt'') ''read_files'' of
      Inl _ \<Rightarrow> False | Inr d \<Rightarrow> pmd_status d = ''allowed''" by code_simp
  from outcome_evaluates [OF this] obtain d where
    d: "matrix_decide example_workspace_env example_registry [] (Some ''/home/out/a.txt'') ''read_files'' = Inr d"
      "pmd_status d = ''allowed''" by blast
  from matrix_allows_only_closest [OF d] show ?thesis by auto
qed

lemma mission_resource_never_widens_witness:
  "\<exists>base d. matrix_decide example_workspace_env example_registry [] (Some ''/home/out/a.txt'') ''create_file'' = Inr base \<and>
     decide_with_resources example_workspace_env example_registry [example_resource] (Some ''/home/out/a.txt'') ''write_file'' = Inr d \<and>
     pmd_reason_code d = ''permission_requires_approval_by_mission_resource'' \<and> coherent d"
proof -
  have "case decide_with_resources example_workspace_env example_registry [example_resource] (Some ''/home/out/a.txt'') ''write_file'' of
      Inl _ \<Rightarrow> False | Inr d \<Rightarrow> pmd_reason_code d = ''permission_requires_approval_by_mission_resource''" by code_simp
  from outcome_evaluates [OF this] obtain d where
    d: "decide_with_resources example_workspace_env example_registry [example_resource] (Some ''/home/out/a.txt'') ''write_file'' = Inr d"
      "pmd_reason_code d = ''permission_requires_approval_by_mission_resource''" by blast
  have a: "permission_for_action ''write_file'' = ''create_file''" by code_simp
  from mission_resource_never_widens [OF d(1), unfolded a] d show ?thesis by blast
qed

lemma example_valid: "validate_registry example_workspace_env example_registry example_registry = Inr []"
  unfolding validation_exactness
proof -
  have "registry_items example_registry = Inr [JObj (entry_dump (example_entry ''home'' ''/home'' ''protected'')),
      JObj (entry_dump (example_entry ''out'' ''/home/out'' ''artifact_output''))]"
    by (simp add: registry_items_def example_registry_def json_get_def json_or_def)
  moreover have "entry_errors example_workspace_env {} (entry_dump (example_entry ''home'' ''/home'' ''protected'')) = Inr []"
    "entry_errors example_workspace_env {} (entry_dump (example_entry ''out'' ''/home/out'' ''artifact_output'')) = Inr []"
    "entry_id example_workspace_env (entry_dump (example_entry ''home'' ''/home'' ''protected'')) = ''home''"
    "entry_id example_workspace_env (entry_dump (example_entry ''out'' ''/home/out'' ''artifact_output'')) = ''out''"
    by code_simp+
  ultimately show "workspace_registry_ok example_workspace_env (if example_registry = [] then example_registry else example_registry)"
    by (simp add: workspace_registry_ok_def entry_errors_Nil)
qed

lemma matrix_decide_total_witness:
  "(\<exists>d. matrix_decide example_workspace_env example_registry [] (Some ''/etc'') ''format_disk'' = Inr d \<and> coherent d) \<and>
   \<not> (\<exists>d. matrix_decide example_workspace_env example_registry [] (Some ''~nobody/x'') ''format_disk'' = Inr d \<and> coherent d)"
proof -
  have "role_overrides_ok example_registry" by (simp add: role_overrides_ok_def example_registry_def json_get_def)
  note total = matrix_decide_total [OF example_valid this]
  have entries: "list_workspaces example_registry = Inr [entry_dump (example_entry ''home'' ''/home'' ''protected''),
      entry_dump (example_entry ''out'' ''/home/out'' ''artifact_output'')]"
    by (simp add: list_workspaces_def registry_items_def example_registry_def json_get_def json_or_def)
  have "paths_resolve example_workspace_env example_registry ''/etc''"
    by (simp add: paths_resolve_def entries example_workspace_env_def entry_dump_def example_entry_def item_text_def json_get_def json_or_def py_str_def)
  moreover have "\<not> paths_resolve example_workspace_env example_registry ''~nobody/x''"
    by (simp add: paths_resolve_def example_workspace_env_def)
  ultimately show ?thesis by (simp add: total)
qed

lemma registry_readers_agree_witness:
  "\<exists>e root c. select_workspace example_workspace_env example_registry ''/home/out/a.txt'' = Inr (Some (e, root)) \<and>
     contract_from_entry example_workspace_env e (Some root) True = Inr c \<and> rc_role c = item_text example_workspace_env ''role'' ''forbidden'' e"
proof -
  let ?a = "entry_dump (example_entry ''home'' ''/home'' ''protected'')"
  let ?b = "entry_dump (example_entry ''out'' ''/home/out'' ''artifact_output'')"
  have entries: "list_workspaces example_registry = Inr [?a, ?b]"
    by (simp add: list_workspaces_def registry_items_def example_registry_def json_get_def json_or_def)
  have lengths: "root_length example_workspace_env ?a = 5" "root_length example_workspace_env ?b = 9" by code_simp+
  have "case role_resolve example_workspace_env example_registry (Some ''/home/out/a.txt'') True of
      Inl _ \<Rightarrow> False | Inr d \<Rightarrow> rd_reason d \<noteq> ''workspace_not_registered''" by code_simp
  from outcome_evaluates [OF this] obtain d where
    d: "role_resolve example_workspace_env example_registry (Some ''/home/out/a.txt'') True = Inr d"
      "rd_reason d \<noteq> ''workspace_not_registered''" by blast
  have "\<forall>e \<in> set [?a, ?b]. \<forall>e' \<in> set [?a, ?b]. covers example_workspace_env ''/home/out/a.txt'' e \<longrightarrow>
      covers example_workspace_env ''/home/out/a.txt'' e' \<longrightarrow>
      root_length example_workspace_env e = root_length example_workspace_env e' \<longrightarrow> e = e'"
    using lengths by simp
  from registry_readers_agree [OF entries this list.distinct(2) d] show ?thesis by blast
qed

lemma registered_workspace_read_back_witness:
  "\<exists>item. get_workspace example_workspace_env example_updated ''out'' = Inr (Some item) \<and>
     map_of item ''role'' = Some (JStr ''target_mutable'')"
proof -
  let ?e = "example_entry ''out'' ''/home/out'' ''target_mutable''"
  let ?s = "\<lparr>wm_file = None, wm_config = Some example_registry\<rparr>"
  have add: "add_or_update_workspace example_workspace_env example_registry ?e = Inr example_updated" by code_simp
  have "case write_registry example_workspace_env example_registry example_updated ?s of Inl _ \<Rightarrow> False | Inr s \<Rightarrow> True"
    by code_simp
  from outcome_evaluates [OF this] obtain s where
    s: "write_registry example_workspace_env example_registry example_updated ?s = Inr s" by blast
  have yaml: "wx_yaml_load example_workspace_env (wx_yaml_dump example_workspace_env example_updated) = Inr example_updated"
    "wx_yaml_dump example_workspace_env example_updated \<noteq> []"
    by (simp_all add: example_workspace_env_def)
  have "(''role'', JStr ''target_mutable'') \<in> set (entry_dump ?e)" "wn_workspace_id ?e = ''out''"
    by (simp_all add: entry_dump_def example_entry_def)
  with registered_workspace_read_back [OF add s yaml] show ?thesis by fastforce
qed

lemma mission_role_replaces_registered_witness:
  "\<exists>d c. resolve_with_resources example_workspace_env example_registry [example_resource] (Some ''/home/out'') True = Inr d \<and>
     rd_contract d = Some c \<and> rc_role c = ''system_mutable'' \<and> rc_write_allowed c \<and> rc_shell_allowed c"
proof -
  have coerce: "wx_bool example_workspace_env (JBool b) = Some b" "wx_strs example_workspace_env (jstrs xs) = Some xs"
    "wx_text example_workspace_env (JStr t) = Some t" for b xs t
    by (simp_all add: example_workspace_env_def jstrs_def example_strs_jstrs)
  have "case role_resolve example_workspace_env example_registry (Some ''/home/out'') True of Inl _ \<Rightarrow> False
      | Inr d \<Rightarrow> (case rd_contract d of None \<Rightarrow> False | Some c \<Rightarrow> rc_role c \<notin> set RESTRICTED_ROLES)" by code_simp
  from outcome_evaluates [OF this] obtain base old where
    base: "role_resolve example_workspace_env example_registry (Some ''/home/out'') True = Inr base"
      "rd_contract base = Some old" "rc_role old \<notin> set RESTRICTED_ROLES" by (auto split: option.splits)
  have scope: "scope_for_path example_workspace_env [example_resource] (Some ''/home/out'') = Inr (Some example_resource)"
    by (simp add: scope_for_path_def raising_def locator_error_def local_resource_def example_resource_def example_workspace_env_def under_root_def)
  have role: "mission_role example_resource = ''system_mutable''" by code_simp
  from mission_role_replaces_registered [OF coerce base scope] show ?thesis unfolding role by blast
qed

end
