(* ===== verification/Semantic_Contracts.thy ===== *)
theory Semantic_Contracts
  imports Prelude
begin

text \<open>
  The immutable contracts of the semantic layer (\<open>src/aipinho/schemas/semantics\<close>): the semantic
  execution graph, edge demands, work-unit offers, offer/demand compatibilities, n-way joins, topology
  neighbourhoods and truth facets, with the authority services that seal and verify them
  (\<open>services/semantics/*_authority_service.py\<close>).

  Every contract carries \<open>authority_sha256\<close>, the digest of a payload that lists its fields.
  \<open>stable_sha256\<close> (SHA-256 of the canonical JSON text) is the argument \<open>digest\<close> of the operations
  below. The locale \<open>sealed_contract\<close> states what sealing promises; each contract the services produce
  interprets it.
\<close>

section \<open>Values\<close>

text \<open>\<open>SemanticScalar = bool | int | float | str\<close>; Python compares the first three as numbers.\<close>

datatype scalar = SBool bool | SInt int | SFloat int nat | SStr str

fun scalar_number :: "scalar \<Rightarrow> (int \<times> nat) option" where
  "scalar_number (SBool b) = Some (if b then 1 else 0, 0)"
| "scalar_number (SInt i) = Some (i, 0)"
| "scalar_number (SFloat m k) = Some (m, k)"
| "scalar_number (SStr s) = None"

definition scalar_eq :: "scalar \<Rightarrow> scalar \<Rightarrow> bool" where
  "scalar_eq a b =
     (case (scalar_number a, scalar_number b) of
        (Some (m, k), Some (n, l)) \<Rightarrow> m * 2 ^ l = n * 2 ^ k
      | (None, None) \<Rightarrow> a = b
      | _ \<Rightarrow> False)"

definition scalar_in :: "scalar \<Rightarrow> scalar list \<Rightarrow> bool" where
  "scalar_in a xs = list_ex (\<lambda>x. scalar_eq x a) xs"

fun scalar_json :: "scalar \<Rightarrow> json" where
  "scalar_json (SBool b) = JBool b"
| "scalar_json (SInt i) = JInt i"
| "scalar_json (SFloat m k) = JFloat m k"
| "scalar_json (SStr s) = JStr s"

definition scalar_dict_json :: "scalar dict \<Rightarrow> json" where
  "scalar_dict_json d = JObj (map (\<lambda>(k, v). (k, scalar_json v)) d)"

definition scalars_dict_json :: "scalar list dict \<Rightarrow> json" where
  "scalars_dict_json d = JObj (map (\<lambda>(k, vs). (k, JList (map scalar_json vs))) d)"

section \<open>Contracts\<close>

record vocabulary_binding =
  vb_vocabulary_id :: str
  vb_authority_sha256 :: str
  vb_revision :: int
  vb_source_semantics_sha256 :: str

record semantic_work_unit =
  wu_work_unit_id :: str
  wu_source_step_ids :: "str list"
  wu_semantic_goal :: str
  wu_work_modes :: "str list"
  wu_classification_status :: str
  wu_required_capabilities :: "str list"
  wu_requested_effects :: "str list"
  wu_prohibited_effects :: "str list"
  wu_expected_outputs :: "str list"
  wu_source_inputs :: "(str \<times> json) list"
  wu_required :: bool
  wu_contains_side_effect :: bool
  wu_vocabulary_binding :: vocabulary_binding

record semantic_edge =
  se_edge_id :: str
  se_producer_work_unit_id :: str
  se_consumer_work_unit_id :: str
  se_relation :: str
  se_required :: bool
  se_source_refs :: "str list"

record semantic_graph =
  sg_semantic_graph_id :: str
  sg_task_run_id :: str
  sg_task_id :: "str option"
  sg_source_plan_id :: str
  sg_source_execution_id :: str
  sg_source_semantics_sha256 :: str
  sg_vocabulary_binding :: vocabulary_binding
  sg_work_units :: "semantic_work_unit list"
  sg_edges :: "semantic_edge list"
  sg_status :: str
  sg_reason_codes :: "str list"
  sg_authority_sha256 :: str
  sg_frozen_at :: str
  sg_schema_version :: str

record edge_demand =
  ed_demand_id :: str
  ed_edge_id :: str
  ed_semantic_graph_id :: str
  ed_semantic_graph_authority_sha256 :: str
  ed_producer_work_unit_id :: str
  ed_consumer_work_unit_id :: str
  ed_vocabulary_binding :: vocabulary_binding
  ed_status :: str
  ed_consumer_required_capabilities :: "str list"
  ed_required_downstream_uses :: "str list"
  ed_required_use_safety :: "scalar list dict"
  ed_required_semantic_properties :: "scalar list dict"
  ed_required_evidence_domains :: "str list"
  ed_required_upstream_effects :: "str list"
  ed_prohibited_upstream_effects :: "str list"
  ed_evidence_required :: bool
  ed_base_constraints :: "str list"
  ed_risk_constraints :: "str list"
  ed_source_consumer_step_ids :: "str list"
  ed_source_refs :: "str list"
  ed_reason_codes :: "str list"
  ed_authority_sha256 :: str
  ed_frozen_at :: str
  ed_schema_version :: str

record semantic_offer =
  so_offer_id :: str
  so_semantic_graph_id :: str
  so_semantic_graph_authority_sha256 :: str
  so_producer_work_unit_id :: str
  so_vocabulary_binding :: vocabulary_binding
  so_status :: str
  so_result_status :: str
  so_result_ref :: str
  so_source_step_ids :: "str list"
  so_use_safety :: "scalar dict"
  so_semantic_properties :: "scalar dict"
  so_allowed_downstream_uses :: "str list"
  so_evidence_domains :: "str list"
  so_observed_effects :: "str list"
  so_evidence_refs :: "str list"
  so_artifact_refs :: "str list"
  so_limitations :: "str list"
  so_missing_truth :: "str list"
  so_required_disclosures :: "str list"
  so_risk_constraints :: "str list"
  so_source_provenance :: "(str \<times> json) list"
  so_reason_codes :: "str list"
  so_authority_sha256 :: str
  so_frozen_at :: str
  so_schema_version :: str

record compatibility =
  co_compatibility_id :: str
  co_edge_id :: str
  co_semantic_graph_id :: str
  co_semantic_graph_authority_sha256 :: str
  co_producer_work_unit_id :: str
  co_consumer_work_unit_id :: str
  co_offer_id :: str
  co_offer_authority_sha256 :: str
  co_demand_id :: str
  co_demand_authority_sha256 :: str
  co_decision :: str
  co_satisfied_dimensions :: "str list"
  co_constrained_dimensions :: "str list"
  co_blocked_dimensions :: "str list"
  co_unknown_dimensions :: "str list"
  co_effective_constraints :: "str list"
  co_disclosures :: "str list"
  co_reason_codes :: "str list"
  co_authority_sha256 :: str
  co_evaluated_at :: str
  co_schema_version :: str

record edge_state =
  es_edge_id :: str
  es_producer_work_unit_id :: str
  es_consumer_work_unit_id :: str
  es_required :: bool
  es_demand_id :: "str option"
  es_demand_authority_sha256 :: "str option"
  es_offer_id :: "str option"
  es_offer_authority_sha256 :: "str option"
  es_compatibility_id :: "str option"
  es_compatibility_authority_sha256 :: "str option"
  es_compatibility_decision :: "str option"

record neighborhood =
  nb_neighborhood_id :: str
  nb_semantic_graph_id :: str
  nb_semantic_graph_authority_sha256 :: str
  nb_work_unit_id :: str
  nb_incoming_edges :: "edge_state list"
  nb_outgoing_edges :: "edge_state list"
  nb_fan_in_count :: nat
  nb_fan_out_count :: nat
  nb_required_incoming_edge_ids :: "str list"
  nb_optional_incoming_edge_ids :: "str list"
  nb_outgoing_demand_ids :: "str list"
  nb_authority_sha256 :: str
  nb_projected_at :: str
  nb_schema_version :: str

record join_evaluation =
  jo_join_id :: str
  jo_semantic_graph_id :: str
  jo_semantic_graph_authority_sha256 :: str
  jo_consumer_work_unit_id :: str
  jo_required_edge_ids :: "str list"
  jo_optional_edge_ids :: "str list"
  jo_compatibility_ids :: "str list"
  jo_decision :: str
  jo_admitted_edge_ids :: "str list"
  jo_constrained_edge_ids :: "str list"
  jo_blocked_edge_ids :: "str list"
  jo_unresolved_edge_ids :: "str list"
  jo_optional_nonadmitted_edge_ids :: "str list"
  jo_effective_constraints :: "str list"
  jo_disclosures :: "str list"
  jo_reason_codes :: "str list"
  jo_authority_sha256 :: str
  jo_evaluated_at :: str
  jo_schema_version :: str

record truth_facet =
  tf_facet_id :: str
  tf_status :: str
  tf_safe_to_report_success :: bool
  tf_semantic_graph_id :: "str option"
  tf_semantic_graph_authority_sha256 :: "str option"
  tf_active_revision_id :: "str option"
  tf_required_edge_ids :: "str list"
  tf_admitted_edge_ids :: "str list"
  tf_constrained_edge_ids :: "str list"
  tf_blocked_edge_ids :: "str list"
  tf_unresolved_edge_ids :: "str list"
  tf_partial_demand_edge_ids :: "str list"
  tf_required_join_consumer_ids :: "str list"
  tf_constrained_join_consumer_ids :: "str list"
  tf_blocked_join_consumer_ids :: "str list"
  tf_unresolved_join_consumer_ids :: "str list"
  tf_disclosures :: "str list"
  tf_invalid_authority_refs :: "str list"
  tf_reason_codes :: "str list"
  tf_authority_sha256 :: str
  tf_evaluated_at :: str
  tf_schema_version :: str

text \<open>The part of \<open>TaskRunPlan\<close> the semantic layer reads.\<close>

record semantic_plan =
  pl_semantic_execution_graph :: "semantic_graph option"
  pl_edge_semantic_demands :: "edge_demand list"
  pl_semantic_offers :: "semantic_offer list"
  pl_offer_demand_compatibilities :: "compatibility list"
  pl_semantic_join_evaluations :: "join_evaluation list"
  pl_active_semantic_graph_revision_id :: "str option"
  pl_metadata :: "(str \<times> json) list"

section \<open>Authority payloads\<close>

definition binding_json :: "vocabulary_binding \<Rightarrow> json" where
  "binding_json b = JObj
     [(''vocabulary_id'', JStr (vb_vocabulary_id b)), (''authority_sha256'', JStr (vb_authority_sha256 b)),
      (''revision'', JInt (vb_revision b)),
      (''source_semantics_sha256'', JStr (vb_source_semantics_sha256 b))]"

definition work_unit_json :: "semantic_work_unit \<Rightarrow> json" where
  "work_unit_json u = JObj
     [(''work_unit_id'', JStr (wu_work_unit_id u)), (''source_step_ids'', jstrs (wu_source_step_ids u)),
      (''semantic_goal'', JStr (wu_semantic_goal u)), (''work_modes'', jstrs (wu_work_modes u)),
      (''classification_status'', JStr (wu_classification_status u)),
      (''required_capabilities'', jstrs (wu_required_capabilities u)),
      (''requested_effects'', jstrs (wu_requested_effects u)),
      (''prohibited_effects'', jstrs (wu_prohibited_effects u)),
      (''expected_outputs'', jstrs (wu_expected_outputs u)),
      (''source_inputs'', JObj (wu_source_inputs u)), (''required'', JBool (wu_required u)),
      (''contains_side_effect'', JBool (wu_contains_side_effect u)),
      (''vocabulary_binding'', binding_json (wu_vocabulary_binding u))]"

definition edge_json :: "semantic_edge \<Rightarrow> json" where
  "edge_json e = JObj
     [(''edge_id'', JStr (se_edge_id e)), (''producer_work_unit_id'', JStr (se_producer_work_unit_id e)),
      (''consumer_work_unit_id'', JStr (se_consumer_work_unit_id e)), (''relation'', JStr (se_relation e)),
      (''required'', JBool (se_required e)), (''source_refs'', jstrs (se_source_refs e))]"

definition graph_payload :: "semantic_graph \<Rightarrow> json" where
  "graph_payload g = JObj
     [(''task_run_id'', JStr (sg_task_run_id g)), (''task_id'', jopt (sg_task_id g)),
      (''source_plan_id'', JStr (sg_source_plan_id g)),
      (''source_execution_id'', JStr (sg_source_execution_id g)),
      (''source_semantics_sha256'', JStr (sg_source_semantics_sha256 g)),
      (''vocabulary_binding'', binding_json (sg_vocabulary_binding g)),
      (''work_units'', JList (map work_unit_json (sg_work_units g))),
      (''edges'', JList (map edge_json (sg_edges g))), (''status'', JStr (sg_status g)),
      (''reason_codes'', jstrs (sg_reason_codes g)), (''schema_version'', JStr (sg_schema_version g))]"

definition demand_payload :: "edge_demand \<Rightarrow> json" where
  "demand_payload d = JObj
     [(''edge_id'', JStr (ed_edge_id d)), (''semantic_graph_id'', JStr (ed_semantic_graph_id d)),
      (''semantic_graph_authority_sha256'', JStr (ed_semantic_graph_authority_sha256 d)),
      (''producer_work_unit_id'', JStr (ed_producer_work_unit_id d)),
      (''consumer_work_unit_id'', JStr (ed_consumer_work_unit_id d)),
      (''vocabulary_binding'', binding_json (ed_vocabulary_binding d)), (''status'', JStr (ed_status d)),
      (''consumer_required_capabilities'', jstrs (ed_consumer_required_capabilities d)),
      (''required_downstream_uses'', jstrs (ed_required_downstream_uses d)),
      (''required_use_safety'', scalars_dict_json (ed_required_use_safety d)),
      (''required_semantic_properties'', scalars_dict_json (ed_required_semantic_properties d)),
      (''required_evidence_domains'', jstrs (ed_required_evidence_domains d)),
      (''required_upstream_effects'', jstrs (ed_required_upstream_effects d)),
      (''prohibited_upstream_effects'', jstrs (ed_prohibited_upstream_effects d)),
      (''evidence_required'', JBool (ed_evidence_required d)),
      (''base_constraints'', jstrs (ed_base_constraints d)),
      (''risk_constraints'', jstrs (ed_risk_constraints d)),
      (''source_consumer_step_ids'', jstrs (ed_source_consumer_step_ids d)),
      (''source_refs'', jstrs (ed_source_refs d)), (''reason_codes'', jstrs (ed_reason_codes d)),
      (''schema_version'', JStr (ed_schema_version d))]"

definition offer_payload :: "semantic_offer \<Rightarrow> json" where
  "offer_payload f = JObj
     [(''semantic_graph_id'', JStr (so_semantic_graph_id f)),
      (''semantic_graph_authority_sha256'', JStr (so_semantic_graph_authority_sha256 f)),
      (''producer_work_unit_id'', JStr (so_producer_work_unit_id f)),
      (''vocabulary_binding'', binding_json (so_vocabulary_binding f)), (''status'', JStr (so_status f)),
      (''result_status'', JStr (so_result_status f)), (''result_ref'', JStr (so_result_ref f)),
      (''source_step_ids'', jstrs (so_source_step_ids f)),
      (''use_safety'', scalar_dict_json (so_use_safety f)),
      (''semantic_properties'', scalar_dict_json (so_semantic_properties f)),
      (''allowed_downstream_uses'', jstrs (so_allowed_downstream_uses f)),
      (''evidence_domains'', jstrs (so_evidence_domains f)),
      (''observed_effects'', jstrs (so_observed_effects f)),
      (''evidence_refs'', jstrs (so_evidence_refs f)), (''artifact_refs'', jstrs (so_artifact_refs f)),
      (''limitations'', jstrs (so_limitations f)), (''missing_truth'', jstrs (so_missing_truth f)),
      (''required_disclosures'', jstrs (so_required_disclosures f)),
      (''risk_constraints'', jstrs (so_risk_constraints f)),
      (''source_provenance'', JObj (so_source_provenance f)),
      (''reason_codes'', jstrs (so_reason_codes f)), (''schema_version'', JStr (so_schema_version f))]"

definition compatibility_payload :: "compatibility \<Rightarrow> json" where
  "compatibility_payload c = JObj
     [(''edge_id'', JStr (co_edge_id c)), (''semantic_graph_id'', JStr (co_semantic_graph_id c)),
      (''semantic_graph_authority_sha256'', JStr (co_semantic_graph_authority_sha256 c)),
      (''producer_work_unit_id'', JStr (co_producer_work_unit_id c)),
      (''consumer_work_unit_id'', JStr (co_consumer_work_unit_id c)),
      (''offer_id'', JStr (co_offer_id c)),
      (''offer_authority_sha256'', JStr (co_offer_authority_sha256 c)),
      (''demand_id'', JStr (co_demand_id c)),
      (''demand_authority_sha256'', JStr (co_demand_authority_sha256 c)),
      (''decision'', JStr (co_decision c)),
      (''satisfied_dimensions'', jstrs (co_satisfied_dimensions c)),
      (''constrained_dimensions'', jstrs (co_constrained_dimensions c)),
      (''blocked_dimensions'', jstrs (co_blocked_dimensions c)),
      (''unknown_dimensions'', jstrs (co_unknown_dimensions c)),
      (''effective_constraints'', jstrs (co_effective_constraints c)),
      (''disclosures'', jstrs (co_disclosures c)), (''reason_codes'', jstrs (co_reason_codes c)),
      (''schema_version'', JStr (co_schema_version c))]"

definition edge_state_json :: "edge_state \<Rightarrow> json" where
  "edge_state_json s = JObj
     [(''edge_id'', JStr (es_edge_id s)), (''producer_work_unit_id'', JStr (es_producer_work_unit_id s)),
      (''consumer_work_unit_id'', JStr (es_consumer_work_unit_id s)), (''required'', JBool (es_required s)),
      (''demand_id'', jopt (es_demand_id s)),
      (''demand_authority_sha256'', jopt (es_demand_authority_sha256 s)),
      (''offer_id'', jopt (es_offer_id s)), (''offer_authority_sha256'', jopt (es_offer_authority_sha256 s)),
      (''compatibility_id'', jopt (es_compatibility_id s)),
      (''compatibility_authority_sha256'', jopt (es_compatibility_authority_sha256 s)),
      (''compatibility_decision'', jopt (es_compatibility_decision s))]"

definition neighborhood_payload :: "neighborhood \<Rightarrow> json" where
  "neighborhood_payload n = JObj
     [(''semantic_graph_id'', JStr (nb_semantic_graph_id n)),
      (''semantic_graph_authority_sha256'', JStr (nb_semantic_graph_authority_sha256 n)),
      (''work_unit_id'', JStr (nb_work_unit_id n)),
      (''incoming_edges'', JList (map edge_state_json (nb_incoming_edges n))),
      (''outgoing_edges'', JList (map edge_state_json (nb_outgoing_edges n))),
      (''fan_in_count'', JInt (int (nb_fan_in_count n))), (''fan_out_count'', JInt (int (nb_fan_out_count n))),
      (''required_incoming_edge_ids'', jstrs (nb_required_incoming_edge_ids n)),
      (''optional_incoming_edge_ids'', jstrs (nb_optional_incoming_edge_ids n)),
      (''outgoing_demand_ids'', jstrs (nb_outgoing_demand_ids n)),
      (''schema_version'', JStr (nb_schema_version n))]"

definition join_payload :: "join_evaluation \<Rightarrow> json" where
  "join_payload j = JObj
     [(''semantic_graph_id'', JStr (jo_semantic_graph_id j)),
      (''semantic_graph_authority_sha256'', JStr (jo_semantic_graph_authority_sha256 j)),
      (''consumer_work_unit_id'', JStr (jo_consumer_work_unit_id j)),
      (''required_edge_ids'', jstrs (jo_required_edge_ids j)),
      (''optional_edge_ids'', jstrs (jo_optional_edge_ids j)),
      (''compatibility_ids'', jstrs (jo_compatibility_ids j)), (''decision'', JStr (jo_decision j)),
      (''admitted_edge_ids'', jstrs (jo_admitted_edge_ids j)),
      (''constrained_edge_ids'', jstrs (jo_constrained_edge_ids j)),
      (''blocked_edge_ids'', jstrs (jo_blocked_edge_ids j)),
      (''unresolved_edge_ids'', jstrs (jo_unresolved_edge_ids j)),
      (''optional_nonadmitted_edge_ids'', jstrs (jo_optional_nonadmitted_edge_ids j)),
      (''effective_constraints'', jstrs (jo_effective_constraints j)),
      (''disclosures'', jstrs (jo_disclosures j)), (''reason_codes'', jstrs (jo_reason_codes j)),
      (''schema_version'', JStr (jo_schema_version j))]"

definition facet_payload :: "truth_facet \<Rightarrow> json" where
  "facet_payload t = JObj
     [(''status'', JStr (tf_status t)), (''safe_to_report_success'', JBool (tf_safe_to_report_success t)),
      (''semantic_graph_id'', jopt (tf_semantic_graph_id t)),
      (''semantic_graph_authority_sha256'', jopt (tf_semantic_graph_authority_sha256 t)),
      (''active_revision_id'', jopt (tf_active_revision_id t)),
      (''required_edge_ids'', jstrs (tf_required_edge_ids t)),
      (''admitted_edge_ids'', jstrs (tf_admitted_edge_ids t)),
      (''constrained_edge_ids'', jstrs (tf_constrained_edge_ids t)),
      (''blocked_edge_ids'', jstrs (tf_blocked_edge_ids t)),
      (''unresolved_edge_ids'', jstrs (tf_unresolved_edge_ids t)),
      (''partial_demand_edge_ids'', jstrs (tf_partial_demand_edge_ids t)),
      (''required_join_consumer_ids'', jstrs (tf_required_join_consumer_ids t)),
      (''constrained_join_consumer_ids'', jstrs (tf_constrained_join_consumer_ids t)),
      (''blocked_join_consumer_ids'', jstrs (tf_blocked_join_consumer_ids t)),
      (''unresolved_join_consumer_ids'', jstrs (tf_unresolved_join_consumer_ids t)),
      (''disclosures'', jstrs (tf_disclosures t)),
      (''invalid_authority_refs'', jstrs (tf_invalid_authority_refs t)),
      (''reason_codes'', jstrs (tf_reason_codes t)), (''schema_version'', JStr (tf_schema_version t))]"

section \<open>Verification\<close>

definition graph_verify :: "(json \<Rightarrow> str) \<Rightarrow> semantic_graph \<Rightarrow> bool" where
  "graph_verify digest g \<longleftrightarrow> digest (graph_payload g) = sg_authority_sha256 g"

definition demand_verify :: "(json \<Rightarrow> str) \<Rightarrow> edge_demand \<Rightarrow> bool" where
  "demand_verify digest d \<longleftrightarrow> ed_authority_sha256 d = digest (demand_payload d)"

definition offer_verify :: "(json \<Rightarrow> str) \<Rightarrow> semantic_offer \<Rightarrow> bool" where
  "offer_verify digest f \<longleftrightarrow> so_authority_sha256 f = digest (offer_payload f)"

definition compatibility_verify :: "(json \<Rightarrow> str) \<Rightarrow> compatibility \<Rightarrow> bool" where
  "compatibility_verify digest c \<longleftrightarrow> co_authority_sha256 c = digest (compatibility_payload c)"

definition verify_neighborhood :: "(json \<Rightarrow> str) \<Rightarrow> neighborhood \<Rightarrow> bool" where
  "verify_neighborhood digest n \<longleftrightarrow> nb_authority_sha256 n = digest (neighborhood_payload n)"

definition verify_join :: "(json \<Rightarrow> str) \<Rightarrow> join_evaluation \<Rightarrow> bool" where
  "verify_join digest j \<longleftrightarrow> jo_authority_sha256 j = digest (join_payload j)"

definition facet_verify :: "(json \<Rightarrow> str) \<Rightarrow> truth_facet \<Rightarrow> bool" where
  "facet_verify digest t \<longleftrightarrow> tf_authority_sha256 t = digest (facet_payload t)"

section \<open>Sealing\<close>

text \<open>The services build a contract with pending identifiers, then stamp its digest and derive its id.\<close>

definition compatibility_seal :: "(json \<Rightarrow> str) \<Rightarrow> compatibility \<Rightarrow> compatibility" where
  "compatibility_seal digest c =
     (let sha = digest (compatibility_payload c)
      in c\<lparr>co_authority_sha256 := sha,
           co_compatibility_id := ''offer_demand_compatibility_'' @ take 24 sha\<rparr>)"

definition neighborhood_seal :: "(json \<Rightarrow> str) \<Rightarrow> neighborhood \<Rightarrow> neighborhood" where
  "neighborhood_seal digest n =
     (let sha = digest (neighborhood_payload n)
      in n\<lparr>nb_authority_sha256 := sha,
           nb_neighborhood_id := ''semantic_topology_neighborhood_'' @ take 24 sha\<rparr>)"

definition join_seal :: "(json \<Rightarrow> str) \<Rightarrow> join_evaluation \<Rightarrow> join_evaluation" where
  "join_seal digest j =
     (let sha = digest (join_payload j)
      in j\<lparr>jo_authority_sha256 := sha, jo_join_id := ''semantic_join_'' @ take 24 sha\<rparr>)"

definition facet_seal :: "(json \<Rightarrow> str) \<Rightarrow> truth_facet \<Rightarrow> truth_facet" where
  "facet_seal digest t =
     (let sha = digest (facet_payload t)
      in t\<lparr>tf_authority_sha256 := sha, tf_facet_id := ''semantic_truth_facet_'' @ take 24 sha\<rparr>)"

text \<open>
  What sealing promises, whatever the contract: the stamp does not feed back into the payload, so a
  sealed contract verifies, sealing is idempotent, and, for a digest without collisions, two
  contracts with the same stamp that both verify agree on every field of the payload.
\<close>

locale sealed_contract =
  fixes payload :: "'c \<Rightarrow> json"
    and stamp :: "'c \<Rightarrow> str"
    and seal :: "(json \<Rightarrow> str) \<Rightarrow> 'c \<Rightarrow> 'c"
  assumes payload_seal: "payload (seal digest c) = payload c"
    and stamp_seal: "stamp (seal digest c) = digest (payload c)"
begin

lemma seal_verifies: "stamp (seal digest c) = digest (payload (seal digest c))"
  by (simp add: payload_seal stamp_seal)

lemma reseal_stamp: "stamp (seal digest (seal digest c)) = stamp (seal digest c)"
  by (simp add: payload_seal stamp_seal)

lemma stamp_determines_payload:
  assumes "inj digest" and "stamp a = digest (payload a)" and "stamp b = digest (payload b)"
    and "stamp a = stamp b"
  shows "payload a = payload b"
  using assms by (simp add: inj_eq)

end

interpretation compat: sealed_contract compatibility_payload co_authority_sha256 compatibility_seal
  by unfold_locales (simp_all add: compatibility_seal_def compatibility_payload_def Let_def)

interpretation nbhd: sealed_contract neighborhood_payload nb_authority_sha256 neighborhood_seal
  by unfold_locales (simp_all add: neighborhood_seal_def neighborhood_payload_def Let_def)

interpretation joins: sealed_contract join_payload jo_authority_sha256 join_seal
  by unfold_locales (simp_all add: join_seal_def join_payload_def Let_def)

interpretation facets: sealed_contract facet_payload tf_authority_sha256 facet_seal
  by unfold_locales (simp_all add: facet_seal_def facet_payload_def Let_def)

text \<open>Sealing changes only the stamp and the identifier.\<close>

lemma compatibility_seal_fields [simp]:
  "co_decision (compatibility_seal d c) = co_decision c"
  "co_edge_id (compatibility_seal d c) = co_edge_id c"
  "co_satisfied_dimensions (compatibility_seal d c) = co_satisfied_dimensions c"
  "co_constrained_dimensions (compatibility_seal d c) = co_constrained_dimensions c"
  "co_blocked_dimensions (compatibility_seal d c) = co_blocked_dimensions c"
  "co_unknown_dimensions (compatibility_seal d c) = co_unknown_dimensions c"
  "co_effective_constraints (compatibility_seal d c) = co_effective_constraints c"
  "co_disclosures (compatibility_seal d c) = co_disclosures c"
  by (simp_all add: compatibility_seal_def Let_def)

lemma join_seal_fields [simp]:
  "jo_decision (join_seal d j) = jo_decision j"
  "jo_required_edge_ids (join_seal d j) = jo_required_edge_ids j"
  "jo_optional_edge_ids (join_seal d j) = jo_optional_edge_ids j"
  "jo_admitted_edge_ids (join_seal d j) = jo_admitted_edge_ids j"
  "jo_constrained_edge_ids (join_seal d j) = jo_constrained_edge_ids j"
  "jo_blocked_edge_ids (join_seal d j) = jo_blocked_edge_ids j"
  "jo_unresolved_edge_ids (join_seal d j) = jo_unresolved_edge_ids j"
  "jo_consumer_work_unit_id (join_seal d j) = jo_consumer_work_unit_id j"
  by (simp_all add: join_seal_def Let_def)

lemma facet_seal_fields [simp]:
  "tf_status (facet_seal d t) = tf_status t"
  "tf_safe_to_report_success (facet_seal d t) = tf_safe_to_report_success t"
  "tf_required_edge_ids (facet_seal d t) = tf_required_edge_ids t"
  "tf_admitted_edge_ids (facet_seal d t) = tf_admitted_edge_ids t"
  "tf_constrained_edge_ids (facet_seal d t) = tf_constrained_edge_ids t"
  "tf_blocked_edge_ids (facet_seal d t) = tf_blocked_edge_ids t"
  "tf_unresolved_edge_ids (facet_seal d t) = tf_unresolved_edge_ids t"
  "tf_semantic_graph_id (facet_seal d t) = tf_semantic_graph_id t"
  "tf_disclosures (facet_seal d t) = tf_disclosures t"
  "tf_reason_codes (facet_seal d t) = tf_reason_codes t"
  by (simp_all add: facet_seal_def Let_def)

section \<open>An example plan\<close>

text \<open>
  Two producers feed one consumer. The digest of the example reads the first field of the payload.
\<close>

definition example_digest :: "json \<Rightarrow> str" where
  "example_digest j = (case j of JObj ((k, JStr v) # _) \<Rightarrow> ''sha:'' @ v | _ \<Rightarrow> ''sha'')"

definition example_binding :: vocabulary_binding where
  "example_binding = \<lparr>vb_vocabulary_id = ''voc'', vb_authority_sha256 = ''v1'', vb_revision = 1,
     vb_source_semantics_sha256 = ''src''\<rparr>"

definition example_unit :: "str \<Rightarrow> semantic_work_unit" where
  "example_unit u =
     \<lparr>wu_work_unit_id = u, wu_source_step_ids = [u], wu_semantic_goal = ''goal'', wu_work_modes = [],
      wu_classification_status = ''explicit'', wu_required_capabilities = [], wu_requested_effects = [],
      wu_prohibited_effects = [], wu_expected_outputs = [], wu_source_inputs = [], wu_required = True,
      wu_contains_side_effect = False, wu_vocabulary_binding = example_binding\<rparr>"

definition example_edge :: "str \<Rightarrow> str \<Rightarrow> str \<Rightarrow> semantic_edge" where
  "example_edge e p c =
     \<lparr>se_edge_id = e, se_producer_work_unit_id = p, se_consumer_work_unit_id = c,
      se_relation = ''semantic_dependency'', se_required = True, se_source_refs = []\<rparr>"

definition example_graph :: semantic_graph where
  "example_graph =
     \<lparr>sg_semantic_graph_id = ''graph'', sg_task_run_id = ''run'', sg_task_id = None,
      sg_source_plan_id = ''plan'', sg_source_execution_id = ''exec'',
      sg_source_semantics_sha256 = ''src'', sg_vocabulary_binding = example_binding,
      sg_work_units = map example_unit [''u1'', ''u2'', ''u3''],
      sg_edges = [example_edge ''e2'' ''u2'' ''u3'', example_edge ''e1'' ''u1'' ''u3''],
      sg_status = ''ready'', sg_reason_codes = [], sg_authority_sha256 = ''sha:run'',
      sg_frozen_at = [], sg_schema_version = ''semantic_execution_graph.v1''\<rparr>"

definition example_demand :: "str \<Rightarrow> str \<Rightarrow> edge_demand" where
  "example_demand e p =
     \<lparr>ed_demand_id = ''d_'' @ e, ed_edge_id = e, ed_semantic_graph_id = ''graph'',
      ed_semantic_graph_authority_sha256 = ''sha:run'', ed_producer_work_unit_id = p,
      ed_consumer_work_unit_id = ''u3'', ed_vocabulary_binding = example_binding,
      ed_status = ''ready'', ed_consumer_required_capabilities = [],
      ed_required_downstream_uses = [''summarize''],
      ed_required_use_safety = [(''citable'', [SBool True])], ed_required_semantic_properties = [],
      ed_required_evidence_domains = [], ed_required_upstream_effects = [],
      ed_prohibited_upstream_effects = [], ed_evidence_required = True, ed_base_constraints = [],
      ed_risk_constraints = [], ed_source_consumer_step_ids = [], ed_source_refs = [],
      ed_reason_codes = [], ed_authority_sha256 = ''sha:'' @ e, ed_frozen_at = [],
      ed_schema_version = ''edge_semantic_demand.v1''\<rparr>"

definition example_offer :: "str \<Rightarrow> semantic_offer" where
  "example_offer p =
     \<lparr>so_offer_id = ''o_'' @ p, so_semantic_graph_id = ''graph'',
      so_semantic_graph_authority_sha256 = ''sha:run'', so_producer_work_unit_id = p,
      so_vocabulary_binding = example_binding, so_status = ''complete'',
      so_result_status = ''completed'', so_result_ref = ''r'', so_source_step_ids = [p],
      so_use_safety = [(''citable'', SBool True)], so_semantic_properties = [],
      so_allowed_downstream_uses = [''summarize''], so_evidence_domains = [], so_observed_effects = [],
      so_evidence_refs = [''ref''], so_artifact_refs = [], so_limitations = [], so_missing_truth = [],
      so_required_disclosures = [], so_risk_constraints = [], so_source_provenance = [],
      so_reason_codes = [], so_authority_sha256 = ''sha:graph'', so_frozen_at = [],
      so_schema_version = ''semantic_offer.v1''\<rparr>"

definition example_plan :: semantic_plan where
  "example_plan =
     \<lparr>pl_semantic_execution_graph = Some example_graph,
      pl_edge_semantic_demands = [example_demand ''e1'' ''u1'', example_demand ''e2'' ''u2''],
      pl_semantic_offers = [example_offer ''u1'', example_offer ''u2''],
      pl_offer_demand_compatibilities = [], pl_semantic_join_evaluations = [],
      pl_active_semantic_graph_revision_id = None, pl_metadata = []\<rparr>"

end
