(* ===== verification/Phase_Admission.thy ===== *)
theory Phase_Admission
  imports Semantic_Contracts
begin

text \<open>
  Admission of a workflow phase on the evidence of an earlier one: the schemas of
  \<open>schemas/runtime/phase_dependency_evaluation.py\<close>, the resolver that judges the limitations of the upstream
  result (\<open>services/semantics/limitation_compatibility_resolver_service.py\<close>) and the service that evaluates,
  authorizes and validates an admission (\<open>services/runtime/phase_dependency_evaluation_service.py\<close>).

  The clock, the text and the parsing of time stamps, the digest, fresh identifiers (a function of what they
  are for) and the language model that proposes assessments are the records \<open>resolver_env\<close> and
  \<open>admission_env\<close>; times are in microseconds. \<open>Inl\<close> is an exception; a loop that never ends is
  \<open>Inl ''no_return''\<close>. The keyword arguments that name the two ends of a dependency are one record,
  \<open>admission_scope\<close>. The provenance and confidence a resolution carries, which nothing reads, are left out.
\<close>

section \<open>Python equality of untyped values\<close>

fun json_number :: "json \<Rightarrow> (int \<times> nat) option" where
  "json_number (JBool b) = Some (if b then 1 else 0, 0)"
| "json_number (JInt i) = Some (i, 0)"
| "json_number (JFloat m k) = Some (m, k)"
| "json_number _ = None"

definition number_eq :: "json \<Rightarrow> json \<Rightarrow> bool" where
  "number_eq a b =
     (case (json_number a, json_number b) of
        (Some (m, k), Some (n, l)) \<Rightarrow> m * 2 ^ l = n * 2 ^ k
      | _ \<Rightarrow> False)"

text \<open>Booleans, integers and floats compare as numbers, dictionaries without regard to order.\<close>

fun json_eq :: "json \<Rightarrow> json \<Rightarrow> bool"
  and json_list_eq :: "json list \<Rightarrow> json list \<Rightarrow> bool"
  and json_entries_in :: "(str \<times> json) list \<Rightarrow> (str \<times> json) list \<Rightarrow> bool" where
  "json_eq JNull b = (b = JNull)"
| "json_eq (JStr s) b = (b = JStr s)"
| "json_eq (JBool x) b = number_eq (JBool x) b"
| "json_eq (JInt i) b = number_eq (JInt i) b"
| "json_eq (JFloat m k) b = number_eq (JFloat m k) b"
| "json_eq (JList xs) b = (case b of JList ys \<Rightarrow> json_list_eq xs ys | _ \<Rightarrow> False)"
| "json_eq (JObj xs) b = (case b of JObj ys \<Rightarrow> length xs = length ys \<and> json_entries_in xs ys | _ \<Rightarrow> False)"
| "json_list_eq [] ys = (ys = [])"
| "json_list_eq (x # xs) ys = (case ys of [] \<Rightarrow> False | y # zs \<Rightarrow> json_eq x y \<and> json_list_eq xs zs)"
| "json_entries_in [] ys = True"
| "json_entries_in ((k, v) # xs) ys =
     ((case map_of ys k of None \<Rightarrow> False | Some w \<Rightarrow> json_eq v w) \<and> json_entries_in xs ys)"

definition json_in :: "json \<Rightarrow> json list \<Rightarrow> bool" where
  "json_in v xs = list_ex (\<lambda>x. json_eq x v) xs"

section \<open>Contracts\<close>

datatype impact = COMPATIBLE | COMPATIBLE_WITH_CONSTRAINT | INCOMPATIBLE | NOT_APPLICABLE | UNKNOWN_IMPACT

fun impact_name :: "impact \<Rightarrow> str" where
  "impact_name COMPATIBLE = ''COMPATIBLE''"
| "impact_name COMPATIBLE_WITH_CONSTRAINT = ''COMPATIBLE_WITH_CONSTRAINT''"
| "impact_name INCOMPATIBLE = ''INCOMPATIBLE''"
| "impact_name NOT_APPLICABLE = ''NOT_APPLICABLE''"
| "impact_name UNKNOWN_IMPACT = ''UNKNOWN''"

definition ALLOWED_IMPACTS :: "impact list" where
  "ALLOWED_IMPACTS = [COMPATIBLE, COMPATIBLE_WITH_CONSTRAINT, INCOMPATIBLE, NOT_APPLICABLE, UNKNOWN_IMPACT]"

definition impact_of :: "str \<Rightarrow> impact option" where
  "impact_of s = find (\<lambda>i. impact_name i = s) ALLOWED_IMPACTS"

record requirement_provenance =
  prv_requirement :: str
  prv_source_kind :: str
  prv_source_ref :: str
  prv_source_field :: str
  prv_source_sha256 :: str

record downstream_requirements =
  dr_contract_id :: str
  dr_contract_version :: str
  dr_consumer_phase_id :: str
  dr_operation_type :: str
  dr_authority_source :: str
  dr_allowed_dependency_statuses :: "str list"
  dr_required_downstream_uses :: "str list"
  dr_required_use_safety :: "json list dict"
  dr_required_semantic_properties :: "json list dict"
  dr_required_capabilities :: "str list"
  dr_limitation_compatibility :: "impact dict"
  dr_base_constraints :: "str list"
  dr_risk_constraints :: "str list"
  dr_prohibited_effects :: "str list"
  dr_evidence_required :: bool
  dr_authorization_ttl_seconds :: int
  dr_source_plan_id :: "str option"
  dr_source_execution_id :: "str option"
  dr_source_semantics_sha256 :: "str option"
  dr_vocabulary_id :: "str option"
  dr_vocabulary_sha256 :: "str option"
  dr_vocabulary_revision :: "int option"
  dr_vocabulary_source_sha256 :: "str option"
  dr_frozen_at :: "str option"
  dr_requirement_provenance :: "requirement_provenance list"

record phase_snapshot =
  ph_dependency_id :: str
  ph_producer_task_run_id :: str
  ph_producer_operation_id :: "str option"
  ph_producer_phase_id :: str
  ph_upstream_result_ref :: str
  ph_dependency_status :: str
  ph_evidence_refs :: "str list"
  ph_limitations :: "str list"
  ph_required_disclosures :: "str list"
  ph_missing_truth :: "str list"
  ph_risk_constraints :: "str list"
  ph_allowed_downstream_uses :: "str list"
  ph_forbidden_downstream_uses :: "str list"
  ph_forbidden_claims :: "str list"
  ph_use_safety :: "json dict"
  ph_semantic_properties :: "json dict"

record requirement_check =
  ck_requirement :: str
  ck_expected :: "json list"
  ck_observed :: json
  ck_status :: str
  ck_reason_code :: "str option"

record limitation_assessment =
  la_limitation :: str
  la_impact :: impact
  la_source :: str
  la_constraints :: "str list"

record phase_evaluation =
  pe_evaluation_id :: str
  pe_dependency_id :: str
  pe_producer_task_run_id :: str
  pe_producer_operation_id :: "str option"
  pe_consumer_task_run_id :: str
  pe_consumer_operation_id :: str
  pe_consumer_operation_type :: str
  pe_producer_phase_id :: str
  pe_consumer_phase_id :: str
  pe_upstream_result_ref :: str
  pe_downstream_contract_id :: str
  pe_downstream_contract_version :: str
  pe_requirements_sha256 :: str
  pe_dependency_status :: str
  pe_evaluation_status :: str
  pe_decision :: str
  pe_reason_codes :: "str list"
  pe_requirement_checks :: "requirement_check list"
  pe_limitation_assessments :: "limitation_assessment list"
  pe_missing_truth :: "str list"
  pe_risk_constraints :: "str list"
  pe_constraints :: "str list"
  pe_evidence_refs :: "str list"
  pe_evaluated_at :: str
  pe_expires_at :: str
  pe_authority_sha256 :: str

record phase_admission =
  pm_admission_id :: str
  pm_evaluation_id :: str
  pm_dependency_id :: str
  pm_producer_task_run_id :: str
  pm_producer_operation_id :: "str option"
  pm_consumer_task_run_id :: str
  pm_consumer_operation_id :: str
  pm_consumer_operation_type :: str
  pm_producer_phase_id :: str
  pm_consumer_phase_id :: str
  pm_downstream_contract_id :: str
  pm_requirements_sha256 :: str
  pm_evaluation_authority_sha256 :: str
  pm_authorized :: bool
  pm_decision :: str
  pm_reason_code :: str
  pm_missing_truth :: "str list"
  pm_risk_constraints :: "str list"
  pm_constraints :: "str list"
  pm_evidence_refs :: "str list"
  pm_admitted_at :: str
  pm_expires_at :: str
  pm_authority_sha256 :: str

record admission_scope =
  sc_consumer_task_run_id :: str
  sc_consumer_operation_id :: str
  sc_consumer_operation_type :: str
  sc_producer_task_run_id :: str
  sc_producer_operation_id :: "str option"
  sc_dependency_id :: str
  sc_producer_phase_id :: str
  sc_consumer_phase_id :: str

text \<open>\<open>model_dump(mode="json")\<close> of the contracts, less the stamp.\<close>

definition lists_dict_json :: "json list dict \<Rightarrow> json" where
  "lists_dict_json d = JObj (map (\<lambda>(k, vs). (k, JList vs)) d)"

definition provenance_json :: "requirement_provenance \<Rightarrow> json" where
  "provenance_json p = JObj
     [(''requirement'', JStr (prv_requirement p)), (''source_kind'', JStr (prv_source_kind p)),
      (''source_ref'', JStr (prv_source_ref p)), (''source_field'', JStr (prv_source_field p)),
      (''source_sha256'', JStr (prv_source_sha256 p))]"

definition requirements_payload :: "downstream_requirements \<Rightarrow> json" where
  "requirements_payload r = JObj
     [(''contract_id'', JStr (dr_contract_id r)), (''contract_version'', JStr (dr_contract_version r)),
      (''consumer_phase_id'', JStr (dr_consumer_phase_id r)), (''operation_type'', JStr (dr_operation_type r)),
      (''authority_source'', JStr (dr_authority_source r)),
      (''allowed_dependency_statuses'', jstrs (dr_allowed_dependency_statuses r)),
      (''required_downstream_uses'', jstrs (dr_required_downstream_uses r)),
      (''required_use_safety'', lists_dict_json (dr_required_use_safety r)),
      (''required_semantic_properties'', lists_dict_json (dr_required_semantic_properties r)),
      (''required_capabilities'', jstrs (dr_required_capabilities r)),
      (''limitation_compatibility'',
         JObj (map (\<lambda>(k, i). (k, JStr (impact_name i))) (dr_limitation_compatibility r))),
      (''base_constraints'', jstrs (dr_base_constraints r)), (''risk_constraints'', jstrs (dr_risk_constraints r)),
      (''prohibited_effects'', jstrs (dr_prohibited_effects r)),
      (''evidence_required'', JBool (dr_evidence_required r)),
      (''authorization_ttl_seconds'', JInt (dr_authorization_ttl_seconds r)),
      (''source_plan_id'', jopt (dr_source_plan_id r)), (''source_execution_id'', jopt (dr_source_execution_id r)),
      (''source_semantics_sha256'', jopt (dr_source_semantics_sha256 r)),
      (''task_semantic_vocabulary_id'', jopt (dr_vocabulary_id r)),
      (''task_semantic_vocabulary_sha256'', jopt (dr_vocabulary_sha256 r)),
      (''task_semantic_vocabulary_revision'', case dr_vocabulary_revision r of None \<Rightarrow> JNull | Some i \<Rightarrow> JInt i),
      (''task_semantic_vocabulary_source_sha256'', jopt (dr_vocabulary_source_sha256 r)),
      (''frozen_at'', jopt (dr_frozen_at r)),
      (''requirement_provenance'', JList (map provenance_json (dr_requirement_provenance r)))]"

definition check_json :: "requirement_check \<Rightarrow> json" where
  "check_json c = JObj
     [(''requirement'', JStr (ck_requirement c)), (''expected'', JList (ck_expected c)),
      (''observed'', ck_observed c), (''status'', JStr (ck_status c)), (''reason_code'', jopt (ck_reason_code c))]"

definition assessment_json :: "limitation_assessment \<Rightarrow> json" where
  "assessment_json a = JObj
     [(''limitation'', JStr (la_limitation a)), (''impact'', JStr (impact_name (la_impact a))),
      (''source'', JStr (la_source a)), (''constraints'', jstrs (la_constraints a))]"

definition evaluation_payload :: "phase_evaluation \<Rightarrow> json" where
  "evaluation_payload e = JObj
     [(''evaluation_id'', JStr (pe_evaluation_id e)), (''dependency_id'', JStr (pe_dependency_id e)),
      (''producer_task_run_id'', JStr (pe_producer_task_run_id e)),
      (''producer_operation_id'', jopt (pe_producer_operation_id e)),
      (''consumer_task_run_id'', JStr (pe_consumer_task_run_id e)),
      (''consumer_operation_id'', JStr (pe_consumer_operation_id e)),
      (''consumer_operation_type'', JStr (pe_consumer_operation_type e)),
      (''producer_phase_id'', JStr (pe_producer_phase_id e)), (''consumer_phase_id'', JStr (pe_consumer_phase_id e)),
      (''upstream_result_ref'', JStr (pe_upstream_result_ref e)),
      (''downstream_contract_id'', JStr (pe_downstream_contract_id e)),
      (''downstream_contract_version'', JStr (pe_downstream_contract_version e)),
      (''requirements_sha256'', JStr (pe_requirements_sha256 e)),
      (''dependency_status'', JStr (pe_dependency_status e)),
      (''evaluation_status'', JStr (pe_evaluation_status e)), (''decision'', JStr (pe_decision e)),
      (''reason_codes'', jstrs (pe_reason_codes e)),
      (''requirement_checks'', JList (map check_json (pe_requirement_checks e))),
      (''limitation_assessments'', JList (map assessment_json (pe_limitation_assessments e))),
      (''missing_truth'', jstrs (pe_missing_truth e)), (''risk_constraints'', jstrs (pe_risk_constraints e)),
      (''constraints'', jstrs (pe_constraints e)), (''evidence_refs'', jstrs (pe_evidence_refs e)),
      (''evaluated_at'', JStr (pe_evaluated_at e)), (''expires_at'', JStr (pe_expires_at e))]"

definition admission_payload :: "phase_admission \<Rightarrow> json" where
  "admission_payload a = JObj
     [(''admission_id'', JStr (pm_admission_id a)), (''evaluation_id'', JStr (pm_evaluation_id a)),
      (''dependency_id'', JStr (pm_dependency_id a)), (''producer_task_run_id'', JStr (pm_producer_task_run_id a)),
      (''producer_operation_id'', jopt (pm_producer_operation_id a)),
      (''consumer_task_run_id'', JStr (pm_consumer_task_run_id a)),
      (''consumer_operation_id'', JStr (pm_consumer_operation_id a)),
      (''consumer_operation_type'', JStr (pm_consumer_operation_type a)),
      (''producer_phase_id'', JStr (pm_producer_phase_id a)), (''consumer_phase_id'', JStr (pm_consumer_phase_id a)),
      (''downstream_contract_id'', JStr (pm_downstream_contract_id a)),
      (''requirements_sha256'', JStr (pm_requirements_sha256 a)),
      (''evaluation_authority_sha256'', JStr (pm_evaluation_authority_sha256 a)),
      (''authorized'', JBool (pm_authorized a)), (''decision'', JStr (pm_decision a)),
      (''reason_code'', JStr (pm_reason_code a)), (''missing_truth'', jstrs (pm_missing_truth a)),
      (''risk_constraints'', jstrs (pm_risk_constraints a)), (''constraints'', jstrs (pm_constraints a)),
      (''evidence_refs'', jstrs (pm_evidence_refs a)), (''admitted_at'', JStr (pm_admitted_at a)),
      (''expires_at'', JStr (pm_expires_at a))]"

definition evaluation_seal :: "(json \<Rightarrow> str) \<Rightarrow> phase_evaluation \<Rightarrow> phase_evaluation" where
  "evaluation_seal digest e = e\<lparr>pe_authority_sha256 := digest (evaluation_payload e)\<rparr>"

definition admission_seal :: "(json \<Rightarrow> str) \<Rightarrow> phase_admission \<Rightarrow> phase_admission" where
  "admission_seal digest a = a\<lparr>pm_authority_sha256 := digest (admission_payload a)\<rparr>"

interpretation evals: sealed_contract evaluation_payload pe_authority_sha256 evaluation_seal
  by unfold_locales (simp_all add: evaluation_seal_def evaluation_payload_def)

interpretation admits: sealed_contract admission_payload pm_authority_sha256 admission_seal
  by unfold_locales (simp_all add: admission_seal_def admission_payload_def)

section \<open>Limitations\<close>

record resolver_env =
  rz_sha256 :: "str \<Rightarrow> str"
  rz_propose :: "downstream_requirements \<Rightarrow> phase_snapshot \<Rightarrow> str dict \<Rightarrow> json dict"
  rz_float_of_str :: "str \<Rightarrow> (int \<times> nat) option"
  rz_minimum_confidence :: "int \<times> nat"
  rz_render :: "json \<Rightarrow> str"

record assessment_entry =
  ae_impact :: impact
  ae_constraints :: "str list"
  ae_rationale :: str
  ae_source :: "str option"

record limitation_resolution =
  lr_status :: str
  lr_reason_code :: "str option"
  lr_assessments :: "assessment_entry dict"

definition resolution_invalid :: "str \<Rightarrow> limitation_resolution" where
  "resolution_invalid reason =
     \<lparr>lr_status = ''insufficient_evidence'', lr_reason_code = Some reason, lr_assessments = []\<rparr>"

definition READONLY_OPERATIONS :: "str list" where
  "READONLY_OPERATIONS =
     [''analysis_readonly'', ''readonly_analysis'', ''project_analysis'', ''workspace_analysis_readonly'',
      ''readonly_analysis_with_artifact_output'']"

definition readonly_analysis :: "downstream_requirements \<Rightarrow> bool" where
  "readonly_analysis r \<longleftrightarrow>
     ''read_workspace'' \<in> set (dr_required_capabilities r) \<and> dr_required_downstream_uses r = [] \<and>
     dr_required_use_safety r = [] \<and> dr_required_semantic_properties r = [] \<and>
     (''workspace_mutation'' \<in> set (dr_prohibited_effects r) \<and>
        ''destructive_action'' \<in> set (dr_prohibited_effects r) \<or>
      dr_operation_type r \<in> set READONLY_OPERATIONS)"

text \<open>
  \<open>safety in {True, False, "true_with_limitations"}\<close> hashes the value: a list or a dictionary raises, and
  the numbers 0 and 1 are found.
\<close>

definition safety_known :: "json \<Rightarrow> bool outcome" where
  "safety_known v =
     (case v of
        JList _ \<Rightarrow> Inl ''TypeError''
      | JObj _ \<Rightarrow> Inl ''TypeError''
      | _ \<Rightarrow> Inr (json_in v [JBool True, JBool False, JStr ''true_with_limitations'']))"

text \<open>\<open>safety is False\<close> tests identity: the number 0 is not \<open>False\<close>.\<close>

definition safety_impact :: "json \<Rightarrow> impact \<times> str" where
  "safety_impact v =
     (if v = JBool False then (INCOMPATIBLE, ''Producer explicitly marks downstream static analysis unsafe.'')
      else if v = JStr ''true_with_limitations'' then
        (COMPATIBLE_WITH_CONSTRAINT,
         ''Producer explicitly allows downstream static analysis with disclosed limitations.'')
      else (COMPATIBLE, ''Producer explicitly allows downstream static analysis.''))"

definition resolve_from_governed_use_safety ::
  "downstream_requirements \<Rightarrow> phase_snapshot \<Rightarrow> str list \<Rightarrow> limitation_resolution option outcome" where
  "resolve_from_governed_use_safety r sn limitations =
     (if \<not> readonly_analysis r then Inr None
      else
        (let safety = json_get ''safe_for_downstream_static_analysis'' (ph_use_safety sn)
         in obind (safety_known safety) (\<lambda>known.
              if \<not> known then Inr None
              else
                (let (i, rationale) = safety_impact safety
                 in Inr (Some
                      \<lparr>lr_status = ''accepted'', lr_reason_code = None,
                       lr_assessments = map (\<lambda>l. (l,
                         \<lparr>ae_impact = i, ae_constraints = [], ae_rationale = rationale,
                          ae_source = Some ''upstream_disclosure''\<rparr>)) limitations\<rparr>)))))"

text \<open>
  The \<open>while\<close> loop lengthens the prefix of the digest until the identifier is free or already names the
  limitation. Once the whole digest is used nothing changes any more: the loop does not end (\<open>None\<close>).
\<close>

function limitation_id :: "str \<Rightarrow> str \<Rightarrow> nat \<Rightarrow> str dict \<Rightarrow> str option" where
  "limitation_id digest l width bindings =
     (let i = ''lim_'' @ take width digest
      in case map_of bindings i of
           None \<Rightarrow> Some i
         | Some l' \<Rightarrow>
             if l' = l then Some i
             else if length digest \<le> width then None
             else limitation_id digest l (width + 4) bindings)"
  by pat_completeness auto
termination
  by (relation "measure (\<lambda>(digest, l, width, bindings). length digest - width)") auto

fun limitation_bindings :: "(str \<Rightarrow> str) \<Rightarrow> str list \<Rightarrow> str dict \<Rightarrow> str dict outcome" where
  "limitation_bindings sha [] bindings = Inr bindings"
| "limitation_bindings sha (l # ls) bindings =
     (case limitation_id (sha l) l 12 bindings of
        None \<Rightarrow> Inl ''no_return''
      | Some i \<Rightarrow> limitation_bindings sha ls (AList.update i l bindings))"

text \<open>\<open>float(v)\<close>; \<open>None\<close> is a \<open>TypeError\<close> or \<open>ValueError\<close>, an integer beyond the largest float overflows.\<close>

definition py_float :: "resolver_env \<Rightarrow> json \<Rightarrow> (int \<times> nat) option outcome" where
  "py_float env v =
     (case v of
        JStr s \<Rightarrow> Inr (rz_float_of_str env s)
      | JInt i \<Rightarrow> if \<bar>i\<bar> \<ge> 2 ^ 1024 - 2 ^ 970 then Inl ''OverflowError'' else Inr (Some (i, 0))
      | _ \<Rightarrow> Inr (json_number v))"

definition dyadic_le :: "int \<times> nat \<Rightarrow> int \<times> nat \<Rightarrow> bool" where
  "dyadic_le a b \<longleftrightarrow> fst a * 2 ^ snd b \<le> fst b * 2 ^ snd a"

definition text_field :: "resolver_env \<Rightarrow> str \<Rightarrow> json dict \<Rightarrow> str" where
  "text_field env k d = py_str (rz_render env) (json_or (json_get k d) (JStr []))"

definition valid_constraint :: "json \<Rightarrow> bool" where
  "valid_constraint v = (case v of JStr s \<Rightarrow> py_strip s \<noteq> [] | _ \<Rightarrow> False)"

definition constraint_text :: "json \<Rightarrow> str" where
  "constraint_text v = (case v of JStr s \<Rightarrow> s | _ \<Rightarrow> [])"

text \<open>One proposed assessment; \<open>Inl\<close> is the reason for which the whole proposal is refused.\<close>

definition accept_assessment ::
  "resolver_env \<Rightarrow> str dict \<Rightarrow> json \<Rightarrow> str list \<times> assessment_entry dict \<Rightarrow>
     (str list \<times> assessment_entry dict) outcome" where
  "accept_assessment env bindings v st =
     (case v of
        JObj item \<Rightarrow>
          (let i = py_strip (text_field env ''limitation_id'' item);
               rationale = py_strip (text_field env ''rationale'' item)
           in case map_of bindings i of
                None \<Rightarrow> Inl ''LIMITATION_COMPATIBILITY_BINDING_INVALID''
              | Some l \<Rightarrow>
                  if i \<in> set (fst st) then Inl ''LIMITATION_COMPATIBILITY_BINDING_INVALID''
                  else (case impact_of (text_field env ''impact'' item) of
                    None \<Rightarrow> Inl ''LIMITATION_COMPATIBILITY_IMPACT_INVALID''
                  | Some impact \<Rightarrow>
                      (case json_get ''constraints'' item of
                         JList cs \<Rightarrow>
                           if \<not> list_all valid_constraint cs then
                             Inl ''LIMITATION_COMPATIBILITY_CONSTRAINT_INVALID''
                           else if impact \<noteq> COMPATIBLE_WITH_CONSTRAINT \<and> cs \<noteq> [] then
                             Inl ''LIMITATION_COMPATIBILITY_CONSTRAINT_SCOPE_INVALID''
                           else if rationale = [] then Inl ''LIMITATION_COMPATIBILITY_RATIONALE_REQUIRED''
                           else Inr (i # fst st,
                             AList.update l
                               \<lparr>ae_impact = impact, ae_constraints = py_unique (map constraint_text cs),
                                ae_rationale = rationale, ae_source = None\<rparr> (snd st))
                       | _ \<Rightarrow> Inl ''LIMITATION_COMPATIBILITY_CONSTRAINT_INVALID'')))
      | _ \<Rightarrow> Inl ''LIMITATION_COMPATIBILITY_ASSESSMENT_INVALID'')"

definition accept_candidate :: "resolver_env \<Rightarrow> str dict \<Rightarrow> json dict \<Rightarrow> limitation_resolution outcome" where
  "accept_candidate env bindings candidate =
     obind (py_float env (json_get ''confidence'' candidate)) (\<lambda>parsed.
       Inr (let confidence = (case parsed of None \<Rightarrow> (-1, 0) | Some c \<Rightarrow> c)
            in if \<not> (dyadic_le (0, 0) confidence \<and> dyadic_le confidence (1, 0)) then
                 resolution_invalid ''LIMITATION_COMPATIBILITY_CONFIDENCE_INVALID''
               else if \<not> dyadic_le (rz_minimum_confidence env) confidence then
                 resolution_invalid ''LIMITATION_COMPATIBILITY_CONFIDENCE_INSUFFICIENT''
               else case json_get ''assessments'' candidate of
                 JList raw \<Rightarrow>
                   (case ofold (accept_assessment env bindings) raw ([], []) of
                      Inl reason \<Rightarrow> resolution_invalid reason
                    | Inr (seen, assessments) \<Rightarrow>
                        if set seen \<noteq> fst ` set bindings then
                          resolution_invalid ''LIMITATION_COMPATIBILITY_COVERAGE_REQUIRED''
                        else \<lparr>lr_status = ''accepted'', lr_reason_code = None, lr_assessments = assessments\<rparr>)
               | _ \<Rightarrow> resolution_invalid ''LIMITATION_COMPATIBILITY_ASSESSMENTS_INVALID''))"

definition accept_proposal :: "resolver_env \<Rightarrow> str dict \<Rightarrow> json dict \<Rightarrow> limitation_resolution outcome" where
  "accept_proposal env bindings proposal =
     (if json_get ''status'' proposal \<noteq> JStr ''candidate'' then
        Inr (resolution_invalid (py_str (rz_render env)
          (json_or (json_get ''reason_code'' proposal)
             (JStr ''LIMITATION_COMPATIBILITY_INTERPRETATION_UNAVAILABLE''))))
      else
        (case json_or (json_get ''candidate'' proposal) (JObj []) of
           JObj candidate \<Rightarrow> accept_candidate env bindings candidate
         | _ \<Rightarrow> Inl ''AttributeError''))"

definition resolve_limitations ::
  "resolver_env \<Rightarrow> downstream_requirements \<Rightarrow> phase_snapshot \<Rightarrow> str list \<Rightarrow> limitation_resolution outcome" where
  "resolve_limitations env r sn limitations =
     (let targets = py_unique (filter (\<lambda>l. l \<noteq> []) limitations)
      in if targets = [] then Inr \<lparr>lr_status = ''not_required'', lr_reason_code = None, lr_assessments = []\<rparr>
         else obind (resolve_from_governed_use_safety r sn targets) (\<lambda>det.
           case det of
             Some res \<Rightarrow> Inr res
           | None \<Rightarrow>
               obind (limitation_bindings (rz_sha256 env) targets []) (\<lambda>bindings.
                 accept_proposal env bindings (rz_propose env r sn bindings))))"

section \<open>Evaluation\<close>

record admission_env =
  av_now :: int
  av_isoformat :: "int \<Rightarrow> str"
  av_parse_time :: "str \<Rightarrow> int option"
  av_digest :: "json \<Rightarrow> str"
  av_uid :: "str \<Rightarrow> str"
  av_resolver :: resolver_env

definition requirements_sha256 :: "admission_env \<Rightarrow> downstream_requirements \<Rightarrow> str" where
  "requirements_sha256 env r = av_digest env (requirements_payload r)"

definition admission_unique :: "str list \<Rightarrow> str list" where
  "admission_unique xs = py_unique (filter (\<lambda>x. x \<noteq> []) xs)"

text \<open>The requirements whose provenance compiled requirements must record.\<close>

definition provenance_keys :: "downstream_requirements \<Rightarrow> str list" where
  "provenance_keys r =
     [''operation_type'', ''allowed_dependency_statuses'', ''evidence_required''] @
     map ((@) ''required_downstream_use:'') (dr_required_downstream_uses r) @
     map ((@) ''required_use_safety:'') (map fst (dr_required_use_safety r)) @
     map ((@) ''required_semantic_property:'') (map fst (dr_required_semantic_properties r)) @
     map ((@) ''required_capability:'') (dr_required_capabilities r) @
     map ((@) ''limitation_compatibility:'') (map fst (dr_limitation_compatibility r)) @
     map ((@) ''base_constraint:'') (dr_base_constraints r) @
     map ((@) ''risk_constraint:'') (dr_risk_constraints r) @
     map ((@) ''prohibited_effect:'') (dr_prohibited_effects r)"

definition compiled_requirement_reason :: "downstream_requirements \<Rightarrow> str option" where
  "compiled_requirement_reason r =
     (if \<not> prefix ''compiled_task_semantics'' (dr_authority_source r) then None
      else if \<not> (opt_truthy (dr_source_plan_id r) \<and> opt_truthy (dr_source_execution_id r) \<and>
                opt_truthy (dr_source_semantics_sha256 r) \<and> opt_truthy (dr_frozen_at r)) then
        Some ''PHASE_DEPENDENCY_COMPILED_REQUIREMENTS_SOURCE_BINDING_REQUIRED''
      else if \<not> set (provenance_keys r) \<subseteq> set (map prv_requirement (dr_requirement_provenance r)) then
        Some ''PHASE_DEPENDENCY_COMPILED_REQUIREMENTS_PROVENANCE_REQUIRED''
      else None)"

text \<open>The lists the evaluation fills: \<open>checks\<close>, \<open>blocking\<close>, \<open>unknown\<close>.\<close>

record evaluation_notes =
  nt_checks :: "requirement_check list"
  nt_blocking :: "str list"
  nt_unknown :: "str list"

definition note_check :: "requirement_check \<Rightarrow> evaluation_notes \<Rightarrow> evaluation_notes" where
  "note_check c n = n\<lparr>nt_checks := nt_checks n @ [c]\<rparr>"

definition note_blocking :: "str \<Rightarrow> evaluation_notes \<Rightarrow> evaluation_notes" where
  "note_blocking s n = n\<lparr>nt_blocking := nt_blocking n @ [s]\<rparr>"

definition note_unknown :: "str \<Rightarrow> evaluation_notes \<Rightarrow> evaluation_notes" where
  "note_unknown s n = n\<lparr>nt_unknown := nt_unknown n @ [s]\<rparr>"

definition check_binding :: "str \<times> str \<Rightarrow> evaluation_notes \<Rightarrow> evaluation_notes" where
  "check_binding nv n =
     (if py_strip (snd nv) = [] then note_unknown (''PHASE_DEPENDENCY_BINDING_MISSING:'' @ fst nv) n else n)"

definition check_value :: "str \<Rightarrow> json list \<Rightarrow> json \<Rightarrow> str \<Rightarrow> evaluation_notes \<Rightarrow> evaluation_notes" where
  "check_value name expected observed reason n =
     (let satisfied = json_in observed expected;
          n1 = note_check
            \<lparr>ck_requirement = name, ck_expected = expected, ck_observed = observed,
             ck_status = (if satisfied then ''satisfied'' else ''blocked''),
             ck_reason_code = (if satisfied then None else Some reason)\<rparr> n
      in if satisfied then n1 else note_blocking reason n1)"

definition check_mapping_value ::
  "json dict \<Rightarrow> str \<Rightarrow> str \<times> json list \<Rightarrow> evaluation_notes \<Rightarrow> evaluation_notes" where
  "check_mapping_value mapping namespace ne n =
     (let (name, expected) = ne;
          kind = (if namespace = ''use_safety'' then ''PHASE_DEPENDENCY_REQUIRED_USE_SAFETY_''
                  else ''PHASE_DEPENDENCY_REQUIRED_SEMANTIC_PROPERTY_'');
          label = namespace @ '':'' @ name
      in case map_of mapping name of
           None \<Rightarrow>
             note_check \<lparr>ck_requirement = label, ck_expected = expected, ck_observed = JNull,
               ck_status = ''unknown'', ck_reason_code = Some (kind @ ''UNKNOWN'')\<rparr>
               (note_unknown (kind @ ''UNKNOWN'') n)
         | Some v \<Rightarrow> check_value label expected v (kind @ ''UNSATISFIED'') n)"

definition check_evidence :: "downstream_requirements \<Rightarrow> phase_snapshot \<Rightarrow> evaluation_notes \<Rightarrow> evaluation_notes" where
  "check_evidence r sn n =
     (if dr_evidence_required r \<and> ph_evidence_refs sn = [] then
        note_check \<lparr>ck_requirement = ''evidence_refs'', ck_expected = [JStr ''non_empty''], ck_observed = JList [],
            ck_status = ''unknown'', ck_reason_code = Some ''PHASE_DEPENDENCY_EVIDENCE_REQUIRED''\<rparr>
          (note_unknown ''PHASE_DEPENDENCY_EVIDENCE_REQUIRED'' n)
      else n)"

definition check_downstream_use :: "phase_snapshot \<Rightarrow> str \<Rightarrow> evaluation_notes \<Rightarrow> evaluation_notes" where
  "check_downstream_use sn use n =
     (let allowed = use \<in> set (ph_allowed_downstream_uses sn);
          reason = ''PHASE_DEPENDENCY_DOWNSTREAM_USE_NOT_ALLOWED'';
          n1 = note_check
            \<lparr>ck_requirement = ''allowed_downstream_use:'' @ use, ck_expected = [JBool True],
             ck_observed = JBool allowed, ck_status = (if allowed then ''satisfied'' else ''blocked''),
             ck_reason_code = (if allowed then None else Some reason)\<rparr> n;
          n2 = (if allowed then n1 else note_blocking reason n1)
      in if use \<in> set (ph_forbidden_downstream_uses sn)
         then note_blocking ''PHASE_DEPENDENCY_DOWNSTREAM_USE_FORBIDDEN'' n2 else n2)"

definition unclassified_limitations :: "downstream_requirements \<Rightarrow> phase_snapshot \<Rightarrow> str list" where
  "unclassified_limitations r sn =
     filter (\<lambda>l. map_of (dr_limitation_compatibility r) l = None) (ph_limitations sn)"

text \<open>Impact, source and constraints of one limitation.\<close>

definition judge_limitation ::
  "downstream_requirements \<Rightarrow> limitation_resolution \<Rightarrow> str \<Rightarrow> impact \<times> str \<times> str list" where
  "judge_limitation r res l =
     (case map_of (dr_limitation_compatibility r) l of
        Some i \<Rightarrow> (i, ''downstream_contract'', [])
      | None \<Rightarrow>
          (case map_of (lr_assessments res) l of
             Some a \<Rightarrow> (ae_impact a, str_or (ae_source a) ''semantic_reasoner'',
                         filter (\<lambda>c. c \<noteq> []) (ae_constraints a))
           | None \<Rightarrow> (UNKNOWN_IMPACT, ''unclassified'', [])))"

definition assess_limitation ::
  "downstream_requirements \<Rightarrow> limitation_resolution \<Rightarrow> str \<Rightarrow>
     str list \<times> limitation_assessment list \<times> evaluation_notes \<Rightarrow>
     str list \<times> limitation_assessment list \<times> evaluation_notes" where
  "assess_limitation r res l st =
     (let (constraints, assessments, n) = st;
          (i, source, own) = judge_limitation r res l;
          lcs = (if i = COMPATIBLE_WITH_CONSTRAINT
                 then admission_unique (own @ [''disclose_limitation:'' @ l]) else own);
          n1 = (case i of
                  INCOMPATIBLE \<Rightarrow> note_blocking ''PHASE_DEPENDENCY_LIMITATION_INCOMPATIBLE'' n
                | UNKNOWN_IMPACT \<Rightarrow> note_unknown ''PHASE_DEPENDENCY_LIMITATION_COMPATIBILITY_UNKNOWN'' n
                | _ \<Rightarrow> n)
      in (constraints @ (if i = COMPATIBLE_WITH_CONSTRAINT then lcs else []),
          assessments @ [\<lparr>la_limitation = l, la_impact = i, la_source = source, la_constraints = lcs\<rparr>], n1))"

definition base_constraints_of :: "downstream_requirements \<Rightarrow> phase_snapshot \<Rightarrow> str list" where
  "base_constraints_of r sn =
     dr_base_constraints r @ map ((@) ''prohibit_effect:'') (dr_prohibited_effects r) @
     map ((@) ''disclose_limitation:'') (ph_required_disclosures sn) @
     map ((@) ''risk_constraint:'') (admission_unique (dr_risk_constraints r @ ph_risk_constraints sn))"

text \<open>The checks before the limitations are looked at.\<close>

definition binding_values :: "downstream_requirements \<Rightarrow> phase_snapshot \<Rightarrow> str \<Rightarrow> str \<Rightarrow> str \<Rightarrow> (str \<times> str) list" where
  "binding_values r sn consumer_run consumer_op consumer_type =
     [(''dependency_id'', ph_dependency_id sn), (''producer_task_run_id'', ph_producer_task_run_id sn),
      (''producer_operation_id'', str_or (ph_producer_operation_id sn) []),
      (''producer_phase_id'', ph_producer_phase_id sn), (''upstream_result_ref'', ph_upstream_result_ref sn),
      (''consumer_task_run_id'', consumer_run), (''consumer_operation_id'', consumer_op),
      (''consumer_operation_type'', consumer_type), (''consumer_phase_id'', dr_consumer_phase_id r)]"

definition requirement_notes ::
  "downstream_requirements \<Rightarrow> phase_snapshot \<Rightarrow> str \<Rightarrow> str \<Rightarrow> str \<Rightarrow> evaluation_notes" where
  "requirement_notes r sn consumer_run consumer_op consumer_type =
     (let n0 = \<lparr>nt_checks = [], nt_blocking = [],
                nt_unknown = (case compiled_requirement_reason r of None \<Rightarrow> [] | Some s \<Rightarrow> [s])\<rparr>;
          n1 = fold check_binding (binding_values r sn consumer_run consumer_op consumer_type) n0;
          n2 = check_value ''consumer_operation_type'' [JStr (dr_operation_type r)] (JStr consumer_type)
                 ''PHASE_DEPENDENCY_DOWNSTREAM_OPERATION_MISMATCH'' n1;
          n3 = check_value ''dependency_status'' (map JStr (dr_allowed_dependency_statuses r))
                 (JStr (ph_dependency_status sn)) ''PHASE_DEPENDENCY_NOT_SATISFIED'' n2;
          n4 = check_evidence r sn n3;
          n5 = fold (check_downstream_use sn) (dr_required_downstream_uses r) n4;
          n6 = fold (check_mapping_value (ph_use_safety sn) ''use_safety'') (dr_required_use_safety r) n5
      in fold (check_mapping_value (ph_semantic_properties sn) ''semantic_property'')
           (dr_required_semantic_properties r) n6)"

definition resolution_notes ::
  "downstream_requirements \<Rightarrow> phase_snapshot \<Rightarrow> limitation_resolution \<Rightarrow> evaluation_notes \<Rightarrow> evaluation_notes" where
  "resolution_notes r sn res n =
     (if unclassified_limitations r sn \<noteq> [] \<and> lr_status res = ''insufficient_evidence''
      then note_unknown (str_or (lr_reason_code res) ''PHASE_DEPENDENCY_LIMITATION_COMPATIBILITY_UNKNOWN'') n
      else n)"

definition admission_decision ::
  "evaluation_notes \<Rightarrow> str list \<Rightarrow> str \<Rightarrow> str \<times> str \<times> str list" where
  "admission_decision n constraints dependency_status =
     (if nt_blocking n \<noteq> [] then
        (''BLOCKED'', ''completed'', admission_unique (nt_blocking n @ nt_unknown n))
      else if nt_unknown n \<noteq> [] then
        (''INSUFFICIENT_EVIDENCE'', ''incomplete'', admission_unique (nt_blocking n @ nt_unknown n))
      else if constraints \<noteq> [] \<or> dependency_status = ''satisfied_with_limitations'' then
        (''ADMITTED_WITH_CONSTRAINTS'', ''completed'', [''PHASE_DEPENDENCY_ADMITTED_WITH_CONSTRAINTS''])
      else (''ADMITTED'', ''completed'', [''PHASE_DEPENDENCY_ADMITTED'']))"

text \<open>The loop over the limitations: constraints, assessments and notes.\<close>

definition limitation_pass ::
  "downstream_requirements \<Rightarrow> phase_snapshot \<Rightarrow> limitation_resolution \<Rightarrow> evaluation_notes \<Rightarrow>
     str list \<times> limitation_assessment list \<times> evaluation_notes" where
  "limitation_pass r sn res n =
     fold (assess_limitation r res) (ph_limitations sn) (base_constraints_of r sn, [], resolution_notes r sn res n)"

definition dependency_evaluation ::
  "admission_env \<Rightarrow> phase_snapshot \<Rightarrow> downstream_requirements \<Rightarrow> str \<Rightarrow> str \<Rightarrow> str \<Rightarrow> limitation_resolution \<Rightarrow>
     phase_evaluation" where
  "dependency_evaluation env sn r consumer_run consumer_op consumer_type res =
     (let (constraints, assessments, n) =
            limitation_pass r sn res (requirement_notes r sn consumer_run consumer_op consumer_type);
          constraints' = constraints @ map ((@) ''forbid_claim:'') (ph_forbidden_claims sn);
          (decision, status, reasons) = admission_decision n constraints' (ph_dependency_status sn)
      in evaluation_seal (av_digest env)
        \<lparr>pe_evaluation_id = ''phase_dependency_evaluation_'' @ av_uid env (''evaluation:'' @ ph_dependency_id sn),
         pe_dependency_id = ph_dependency_id sn,
         pe_producer_task_run_id = ph_producer_task_run_id sn,
         pe_producer_operation_id = ph_producer_operation_id sn,
         pe_consumer_task_run_id = consumer_run, pe_consumer_operation_id = consumer_op,
         pe_consumer_operation_type = consumer_type, pe_producer_phase_id = ph_producer_phase_id sn,
         pe_consumer_phase_id = dr_consumer_phase_id r, pe_upstream_result_ref = ph_upstream_result_ref sn,
         pe_downstream_contract_id = dr_contract_id r, pe_downstream_contract_version = dr_contract_version r,
         pe_requirements_sha256 = requirements_sha256 env r,
         pe_dependency_status = ph_dependency_status sn, pe_evaluation_status = status,
         pe_decision = decision, pe_reason_codes = reasons, pe_requirement_checks = nt_checks n,
         pe_limitation_assessments = assessments,
         pe_missing_truth = admission_unique (ph_missing_truth sn),
         pe_risk_constraints = admission_unique (dr_risk_constraints r @ ph_risk_constraints sn),
         pe_constraints = admission_unique constraints',
         pe_evidence_refs = admission_unique (ph_evidence_refs sn),
         pe_evaluated_at = av_isoformat env (av_now env),
         pe_expires_at =
           av_isoformat env (av_now env + max 1 (dr_authorization_ttl_seconds r) * 1000000),
         pe_authority_sha256 = []\<rparr>)"

definition evaluate_dependency ::
  "admission_env \<Rightarrow> phase_snapshot \<Rightarrow> downstream_requirements \<Rightarrow> str \<Rightarrow> str \<Rightarrow> str \<Rightarrow> phase_evaluation outcome" where
  "evaluate_dependency env sn r consumer_run consumer_op consumer_type =
     obind (resolve_limitations (av_resolver env) r sn (unclassified_limitations r sn)) (\<lambda>res.
       Inr (dependency_evaluation env sn r consumer_run consumer_op consumer_type res))"

section \<open>Authorization and validation\<close>

definition evaluation_bound :: "admission_env \<Rightarrow> phase_evaluation \<Rightarrow> downstream_requirements \<Rightarrow> admission_scope \<Rightarrow> bool" where
  "evaluation_bound env e r sc \<longleftrightarrow>
     pe_consumer_task_run_id e = sc_consumer_task_run_id sc \<and>
     pe_consumer_operation_id e = sc_consumer_operation_id sc \<and>
     pe_consumer_operation_type e = sc_consumer_operation_type sc \<and>
     pe_producer_task_run_id e = sc_producer_task_run_id sc \<and>
     pe_producer_operation_id e = sc_producer_operation_id sc \<and>
     pe_dependency_id e = sc_dependency_id sc \<and> pe_producer_phase_id e = sc_producer_phase_id sc \<and>
     pe_consumer_phase_id e = sc_consumer_phase_id sc \<and> pe_downstream_contract_id e = dr_contract_id r \<and>
     pe_downstream_contract_version e = dr_contract_version r \<and>
     pe_requirements_sha256 e = requirements_sha256 env r"

definition authorization_failure ::
  "admission_env \<Rightarrow> phase_evaluation \<Rightarrow> downstream_requirements \<Rightarrow> admission_scope \<Rightarrow> str list \<Rightarrow> str option outcome" where
  "authorization_failure env e r sc consumed =
     (if pe_authority_sha256 e \<noteq> av_digest env (evaluation_payload e) then
        Inr (Some ''PHASE_DEPENDENCY_EVALUATION_TAMPERED'')
      else if pe_evaluation_status e \<noteq> ''completed'' then Inr (Some ''PHASE_DEPENDENCY_EVALUATION_INCOMPLETE'')
      else if pe_evaluation_id e \<in> set consumed then Inr (Some ''PHASE_DEPENDENCY_EVALUATION_REPLAYED'')
      else case av_parse_time env (pe_expires_at e) of
        None \<Rightarrow> Inl ''ValueError''
      | Some t \<Rightarrow>
          Inr (if t \<le> av_now env then Some ''PHASE_DEPENDENCY_EVALUATION_STALE''
               else if \<not> evaluation_bound env e r sc then Some ''PHASE_DEPENDENCY_EVALUATION_BINDING_MISMATCH''
               else None))"

definition ADMITTED_DECISIONS :: "str list" where
  "ADMITTED_DECISIONS = [''ADMITTED'', ''ADMITTED_WITH_CONSTRAINTS'']"

definition admission_of :: "admission_env \<Rightarrow> phase_evaluation \<Rightarrow> bool \<Rightarrow> str option \<Rightarrow> phase_admission" where
  "admission_of env e authorized reason =
     admission_seal (av_digest env)
       \<lparr>pm_admission_id = ''phase_dependency_admission_'' @ av_uid env (''admission:'' @ pe_dependency_id e),
        pm_evaluation_id = pe_evaluation_id e, pm_dependency_id = pe_dependency_id e,
        pm_producer_task_run_id = pe_producer_task_run_id e,
        pm_producer_operation_id = pe_producer_operation_id e,
        pm_consumer_task_run_id = pe_consumer_task_run_id e,
        pm_consumer_operation_id = pe_consumer_operation_id e,
        pm_consumer_operation_type = pe_consumer_operation_type e,
        pm_producer_phase_id = pe_producer_phase_id e, pm_consumer_phase_id = pe_consumer_phase_id e,
        pm_downstream_contract_id = pe_downstream_contract_id e,
        pm_requirements_sha256 = pe_requirements_sha256 e,
        pm_evaluation_authority_sha256 = pe_authority_sha256 e, pm_authorized = authorized,
        pm_decision = pe_decision e,
        pm_reason_code = str_or reason
          (if pe_decision e = ''ADMITTED_WITH_CONSTRAINTS''
           then ''PHASE_DEPENDENCY_ADMITTED_WITH_CONSTRAINTS'' else ''PHASE_DEPENDENCY_ADMITTED''),
        pm_missing_truth = pe_missing_truth e, pm_risk_constraints = pe_risk_constraints e,
        pm_constraints = (if authorized then pe_constraints e else []),
        pm_evidence_refs = (if authorized then pe_evidence_refs e else []),
        pm_admitted_at = av_isoformat env (av_now env), pm_expires_at = pe_expires_at e,
        pm_authority_sha256 = []\<rparr>"

definition authorize_dependency ::
  "admission_env \<Rightarrow> phase_evaluation \<Rightarrow> downstream_requirements \<Rightarrow> admission_scope \<Rightarrow> str list option \<Rightarrow>
     (phase_admission \<times> str list option) outcome" where
  "authorize_dependency env e r sc consumed =
     obind (authorization_failure env e r sc (case consumed of None \<Rightarrow> [] | Some c \<Rightarrow> c)) (\<lambda>failure.
       let authorized = (failure = None \<and> pe_decision e \<in> set ADMITTED_DECISIONS);
           reason = (if failure = None \<and> \<not> authorized
                     then Some (case pe_reason_codes e of [] \<Rightarrow> ''PHASE_DEPENDENCY_NOT_ADMITTED'' | c # _ \<Rightarrow> c)
                     else failure)
       in Inr (admission_of env e authorized reason,
            if authorized then map_option ((#) (pe_evaluation_id e)) consumed else consumed))"

definition admission_bound :: "admission_env \<Rightarrow> phase_admission \<Rightarrow> downstream_requirements \<Rightarrow> admission_scope \<Rightarrow> bool" where
  "admission_bound env a r sc \<longleftrightarrow>
     pm_consumer_task_run_id a = sc_consumer_task_run_id sc \<and>
     pm_consumer_operation_id a = sc_consumer_operation_id sc \<and>
     pm_consumer_operation_type a = sc_consumer_operation_type sc \<and>
     pm_producer_task_run_id a = sc_producer_task_run_id sc \<and>
     pm_producer_operation_id a = sc_producer_operation_id sc \<and>
     pm_dependency_id a = sc_dependency_id sc \<and> pm_producer_phase_id a = sc_producer_phase_id sc \<and>
     pm_consumer_phase_id a = sc_consumer_phase_id sc \<and> pm_downstream_contract_id a = dr_contract_id r \<and>
     pm_requirements_sha256 a = requirements_sha256 env r"

definition validate_admission ::
  "admission_env \<Rightarrow> phase_admission \<Rightarrow> phase_evaluation \<Rightarrow> downstream_requirements \<Rightarrow> admission_scope \<Rightarrow>
     (bool \<times> str option) outcome" where
  "validate_admission env a e r sc =
     (if pm_authority_sha256 a \<noteq> av_digest env (admission_payload a) then
        Inr (False, Some ''PHASE_DEPENDENCY_ADMISSION_TAMPERED'')
      else if pe_authority_sha256 e \<noteq> av_digest env (evaluation_payload e) then
        Inr (False, Some ''PHASE_DEPENDENCY_EVALUATION_TAMPERED'')
      else if pm_evaluation_id a \<noteq> pe_evaluation_id e \<or>
              pm_evaluation_authority_sha256 a \<noteq> pe_authority_sha256 e then
        Inr (False, Some ''PHASE_DEPENDENCY_EVALUATION_BINDING_MISMATCH'')
      else case av_parse_time env (pm_expires_at a) of
        None \<Rightarrow> Inl ''ValueError''
      | Some t \<Rightarrow>
          Inr (if t \<le> av_now env then (False, Some ''PHASE_DEPENDENCY_ADMISSION_STALE'')
               else if \<not> admission_bound env a r sc then
                 (False, Some ''PHASE_DEPENDENCY_ADMISSION_BINDING_MISMATCH'')
               else if \<not> pm_authorized a then (False, Some (pm_reason_code a))
               else (True, None)))"

section \<open>What a demand asks\<close>

text \<open>
  \<open>demand_met\<close> states, without the bookkeeping of the service, when upstream evidence meets a demand, and
  \<open>demand_contradicted\<close> when it speaks against it. Between the two the evidence is insufficient.
\<close>

definition meets :: "json dict \<Rightarrow> str \<times> json list \<Rightarrow> bool" where
  "meets mapping ne = (case map_of mapping (fst ne) of None \<Rightarrow> False | Some v \<Rightarrow> json_in v (snd ne))"

definition contradicts :: "json dict \<Rightarrow> str \<times> json list \<Rightarrow> bool" where
  "contradicts mapping ne = (case map_of mapping (fst ne) of None \<Rightarrow> False | Some v \<Rightarrow> \<not> json_in v (snd ne))"

definition demand_met ::
  "downstream_requirements \<Rightarrow> phase_snapshot \<Rightarrow> limitation_resolution \<Rightarrow> str \<Rightarrow> str \<Rightarrow> str \<Rightarrow> bool" where
  "demand_met r sn res consumer_run consumer_op consumer_type \<longleftrightarrow>
     compiled_requirement_reason r = None \<and>
     (\<forall>nv \<in> set (binding_values r sn consumer_run consumer_op consumer_type). py_strip (snd nv) \<noteq> []) \<and>
     consumer_type = dr_operation_type r \<and>
     ph_dependency_status sn \<in> set (dr_allowed_dependency_statuses r) \<and>
     (dr_evidence_required r \<longrightarrow> ph_evidence_refs sn \<noteq> []) \<and>
     set (dr_required_downstream_uses r) \<subseteq> set (ph_allowed_downstream_uses sn) - set (ph_forbidden_downstream_uses sn) \<and>
     (\<forall>ne \<in> set (dr_required_use_safety r). meets (ph_use_safety sn) ne) \<and>
     (\<forall>ne \<in> set (dr_required_semantic_properties r). meets (ph_semantic_properties sn) ne) \<and>
     (unclassified_limitations r sn \<noteq> [] \<longrightarrow> lr_status res \<noteq> ''insufficient_evidence'') \<and>
     (\<forall>l \<in> set (ph_limitations sn). fst (judge_limitation r res l) \<notin> {INCOMPATIBLE, UNKNOWN_IMPACT})"

definition demand_contradicted ::
  "downstream_requirements \<Rightarrow> phase_snapshot \<Rightarrow> limitation_resolution \<Rightarrow> str \<Rightarrow> bool" where
  "demand_contradicted r sn res consumer_type \<longleftrightarrow>
     consumer_type \<noteq> dr_operation_type r \<or>
     ph_dependency_status sn \<notin> set (dr_allowed_dependency_statuses r) \<or>
     \<not> set (dr_required_downstream_uses r) \<subseteq> set (ph_allowed_downstream_uses sn) - set (ph_forbidden_downstream_uses sn) \<or>
     (\<exists>ne \<in> set (dr_required_use_safety r). contradicts (ph_use_safety sn) ne) \<or>
     (\<exists>ne \<in> set (dr_required_semantic_properties r). contradicts (ph_semantic_properties sn) ne) \<or>
     (\<exists>l \<in> set (ph_limitations sn). fst (judge_limitation r res l) = INCOMPATIBLE)"

section \<open>The notes of an evaluation\<close>

definition unblocked :: "evaluation_notes \<Rightarrow> bool" where
  "unblocked n \<longleftrightarrow> nt_blocking n = []"

definition known :: "evaluation_notes \<Rightarrow> bool" where
  "known n \<longleftrightarrow> nt_unknown n = []"

named_theorems note_rules \<open>which steps of an evaluation leave the notes unblocked and known\<close>

lemma note_basic [note_rules]:
  "unblocked (note_check c n) = unblocked n" "known (note_check c n) = known n"
  "unblocked (note_blocking s n) = False" "known (note_blocking s n) = known n"
  "unblocked (note_unknown s n) = unblocked n" "known (note_unknown s n) = False"
  by (simp_all add: unblocked_def known_def note_check_def note_blocking_def note_unknown_def)

lemma fold_all:
  assumes "\<And>x s. Q (f x s) \<longleftrightarrow> Q s \<and> P x"
  shows "Q (fold f xs s) \<longleftrightarrow> Q s \<and> (\<forall>x \<in> set xs. P x)"
  by (induction xs arbitrary: s) (auto simp: assms)

lemma fold_keeps:
  assumes "\<And>x s. Q (f x s) = Q s"
  shows "Q (fold f xs s) = Q s"
  by (induction xs arbitrary: s) (simp_all add: assms)

lemma check_binding_notes [note_rules]:
  "unblocked (check_binding nv n) = unblocked n"
  "known (check_binding nv n) \<longleftrightarrow> known n \<and> py_strip (snd nv) \<noteq> []"
  by (simp_all add: check_binding_def note_rules)

lemma check_value_notes [note_rules]:
  "unblocked (check_value name expected observed reason n) \<longleftrightarrow> unblocked n \<and> json_in observed expected"
  "known (check_value name expected observed reason n) = known n"
  by (simp_all add: check_value_def Let_def note_rules)

lemma check_mapping_value_notes [note_rules]:
  "unblocked (check_mapping_value m ns ne n) \<longleftrightarrow> unblocked n \<and> \<not> contradicts m ne"
  "known (check_mapping_value m ns ne n) \<longleftrightarrow> known n \<and> map_of m (fst ne) \<noteq> None"
  by (auto simp: check_mapping_value_def contradicts_def Let_def note_rules split: prod.splits option.splits)

lemma check_evidence_notes [note_rules]:
  "unblocked (check_evidence r sn n) = unblocked n"
  "known (check_evidence r sn n) \<longleftrightarrow> known n \<and> (dr_evidence_required r \<longrightarrow> ph_evidence_refs sn \<noteq> [])"
  by (simp_all add: check_evidence_def note_rules)

lemma check_downstream_use_notes [note_rules]:
  "unblocked (check_downstream_use sn u n) \<longleftrightarrow>
     unblocked n \<and> u \<in> set (ph_allowed_downstream_uses sn) - set (ph_forbidden_downstream_uses sn)"
  "known (check_downstream_use sn u n) = known n"
  by (auto simp: check_downstream_use_def Let_def note_rules)

lemma resolution_notes_notes [note_rules]:
  "unblocked (resolution_notes r sn res n) = unblocked n"
  "known (resolution_notes r sn res n) \<longleftrightarrow>
     known n \<and> (unclassified_limitations r sn \<noteq> [] \<longrightarrow> lr_status res \<noteq> ''insufficient_evidence'')"
  by (simp_all add: resolution_notes_def note_rules)

lemma json_in_JStr [simp]: "json_in (JStr s) (map JStr xs) \<longleftrightarrow> s \<in> set xs"
  by (auto simp: json_in_def list_ex_iff)

lemma requirement_notes_unblocked:
  "unblocked (requirement_notes r sn crun cop ctype) \<longleftrightarrow>
     ctype = dr_operation_type r \<and> ph_dependency_status sn \<in> set (dr_allowed_dependency_statuses r) \<and>
     set (dr_required_downstream_uses r) \<subseteq> set (ph_allowed_downstream_uses sn) - set (ph_forbidden_downstream_uses sn) \<and>
     (\<forall>ne \<in> set (dr_required_use_safety r). \<not> contradicts (ph_use_safety sn) ne) \<and>
     (\<forall>ne \<in> set (dr_required_semantic_properties r). \<not> contradicts (ph_semantic_properties sn) ne)"
proof -
  have one: "json_in (JStr ctype) [JStr (dr_operation_type r)] \<longleftrightarrow> ctype = dr_operation_type r"
    using json_in_JStr [of ctype "[dr_operation_type r]"] by simp
  have start: "unblocked \<lparr>nt_checks = [], nt_blocking = [], nt_unknown = u\<rparr>" for u
    by (simp add: unblocked_def)
  show ?thesis
    unfolding requirement_notes_def Let_def
    by (simp add: fold_all [where Q = unblocked, OF check_mapping_value_notes(1)]
          fold_all [where Q = unblocked, OF check_downstream_use_notes(1)]
          fold_keeps [where Q = unblocked, OF check_binding_notes(1)]
          check_value_notes check_evidence_notes start one subset_iff) blast
qed

lemma requirement_notes_known:
  "known (requirement_notes r sn crun cop ctype) \<longleftrightarrow>
     compiled_requirement_reason r = None \<and>
     (\<forall>nv \<in> set (binding_values r sn crun cop ctype). py_strip (snd nv) \<noteq> []) \<and>
     (dr_evidence_required r \<longrightarrow> ph_evidence_refs sn \<noteq> []) \<and>
     (\<forall>ne \<in> set (dr_required_use_safety r). map_of (ph_use_safety sn) (fst ne) \<noteq> None) \<and>
     (\<forall>ne \<in> set (dr_required_semantic_properties r). map_of (ph_semantic_properties sn) (fst ne) \<noteq> None)"
proof -
  have start: "known \<lparr>nt_checks = [], nt_blocking = [],
      nt_unknown = (case compiled_requirement_reason r of None \<Rightarrow> [] | Some s \<Rightarrow> [s])\<rparr> \<longleftrightarrow>
    compiled_requirement_reason r = None"
    by (simp add: known_def split: option.splits)
  show ?thesis
    unfolding requirement_notes_def Let_def
    by (simp only: fold_all [where Q = known, OF check_mapping_value_notes(2)]
          fold_keeps [where Q = known, OF check_downstream_use_notes(2)]
          fold_all [where Q = known, OF check_binding_notes(2)]
          check_value_notes check_evidence_notes start) blast
qed

lemma assess_limitation_notes:
  "unblocked (snd (snd (assess_limitation r res l st))) \<longleftrightarrow>
     unblocked (snd (snd st)) \<and> fst (judge_limitation r res l) \<noteq> INCOMPATIBLE"
  "known (snd (snd (assess_limitation r res l st))) \<longleftrightarrow>
     known (snd (snd st)) \<and> fst (judge_limitation r res l) \<noteq> UNKNOWN_IMPACT"
  by (cases st; simp add: assess_limitation_def Let_def note_rules split: prod.splits impact.splits)+

lemmas fold_assess_notes =
  fold_all [where Q = "\<lambda>st. unblocked (snd (snd st))" and f = "assess_limitation r res",
    OF assess_limitation_notes(1)]
  fold_all [where Q = "\<lambda>st. known (snd (snd st))" and f = "assess_limitation r res",
    OF assess_limitation_notes(2)] for r res

section \<open>The decision\<close>

definition final_notes ::
  "downstream_requirements \<Rightarrow> phase_snapshot \<Rightarrow> limitation_resolution \<Rightarrow> str \<Rightarrow> str \<Rightarrow> str \<Rightarrow> evaluation_notes" where
  "final_notes r sn res crun cop ctype = snd (snd (limitation_pass r sn res (requirement_notes r sn crun cop ctype)))"

lemma unblocked_iff: "unblocked (final_notes r sn res crun cop ctype) \<longleftrightarrow> \<not> demand_contradicted r sn res ctype"
  unfolding final_notes_def limitation_pass_def fold_assess_notes demand_contradicted_def
  by (simp add: note_rules requirement_notes_unblocked) blast

lemma demand_meets_iff: "meets m ne \<longleftrightarrow> map_of m (fst ne) \<noteq> None \<and> \<not> contradicts m ne"
  by (simp add: meets_def contradicts_def split: option.splits)

lemma clear_iff:
  "unblocked (final_notes r sn res crun cop ctype) \<and> known (final_notes r sn res crun cop ctype) \<longleftrightarrow>
     demand_met r sn res crun cop ctype"
  unfolding final_notes_def limitation_pass_def fold_assess_notes demand_met_def
  by (simp add: note_rules requirement_notes_unblocked requirement_notes_known demand_meets_iff) blast

lemma evaluation_seal_fields [simp]:
  "pe_decision (evaluation_seal d e) = pe_decision e"
  "pe_evaluation_status (evaluation_seal d e) = pe_evaluation_status e"
  "pe_reason_codes (evaluation_seal d e) = pe_reason_codes e"
  "pe_evaluation_id (evaluation_seal d e) = pe_evaluation_id e"
  "pe_expires_at (evaluation_seal d e) = pe_expires_at e"
  "pe_constraints (evaluation_seal d e) = pe_constraints e"
  "evaluation_bound env (evaluation_seal d e) r sc = evaluation_bound env e r sc"
  by (simp_all add: evaluation_seal_def evaluation_bound_def)

text \<open>The decision as a function of what the evidence says.\<close>

lemma admission_decision_cases:
  "fst (admission_decision n cs st) =
     (if \<not> unblocked n then ''BLOCKED'' else if \<not> known n then ''INSUFFICIENT_EVIDENCE''
      else if cs \<noteq> [] \<or> st = ''satisfied_with_limitations'' then ''ADMITTED_WITH_CONSTRAINTS'' else ''ADMITTED'')"
  "fst (snd (admission_decision n cs st)) = (if unblocked n \<and> \<not> known n then ''incomplete'' else ''completed'')"
  by (simp_all add: admission_decision_def unblocked_def known_def)

lemma dependency_evaluation_decision:
  fixes env r sn crun cop ctype res
  defines "e \<equiv> dependency_evaluation env sn r crun cop ctype res"
  shows "pe_decision e \<in> set ADMITTED_DECISIONS \<longleftrightarrow> demand_met r sn res crun cop ctype"
    and "pe_decision e = ''BLOCKED'' \<longleftrightarrow> demand_contradicted r sn res ctype"
    and "pe_decision e \<in> set ADMITTED_DECISIONS \<Longrightarrow> pe_evaluation_status e = ''completed''"
proof -
  obtain cs where d: "pe_decision e = fst (admission_decision (final_notes r sn res crun cop ctype) cs (ph_dependency_status sn))"
    and s: "pe_evaluation_status e =
      fst (snd (admission_decision (final_notes r sn res crun cop ctype) cs (ph_dependency_status sn)))"
    unfolding e_def dependency_evaluation_def final_notes_def by (simp add: Let_def split_def)
  show "pe_decision e \<in> set ADMITTED_DECISIONS \<longleftrightarrow> demand_met r sn res crun cop ctype"
    unfolding d admission_decision_cases clear_iff [symmetric] by (simp add: ADMITTED_DECISIONS_def)
  show "pe_decision e = ''BLOCKED'' \<longleftrightarrow> demand_contradicted r sn res ctype"
    unfolding d admission_decision_cases using unblocked_iff by simp
  show "pe_decision e \<in> set ADMITTED_DECISIONS \<Longrightarrow> pe_evaluation_status e = ''completed''"
    unfolding d s admission_decision_cases by (simp add: ADMITTED_DECISIONS_def split: if_splits)
qed

section \<open>Identifiers of limitations\<close>

lemma limitation_id_bound:
  "limitation_id d l w b = Some i \<Longrightarrow> map_of b i = None \<or> map_of b i = Some l"
proof (induction d l w b rule: limitation_id.induct)
  case (1 d l w b)
  let ?i = "''lim_'' @ take w d"
  show ?case
  proof (cases "map_of b ?i")
    case None
    with "1.prems" show ?thesis by (simp add: Let_def)
  next
    case (Some l')
    show ?thesis
    proof (cases "l' = l")
      case True
      with "1.prems" Some show ?thesis by (simp add: Let_def)
    next
      case False
      with "1.prems" Some have "\<not> length d \<le> w" "limitation_id d l (w + 4) b = Some i"
        by (auto simp: Let_def split: if_splits)
      with "1.IH" [OF refl Some False] show ?thesis by simp
    qed
  qed
qed

lemma limitation_id_full:
  "limitation_id d l w b = None \<Longrightarrow> \<exists>l'. map_of b (''lim_'' @ d) = Some l' \<and> l' \<noteq> l"
proof (induction d l w b rule: limitation_id.induct)
  case (1 d l w b)
  show ?case
  proof (cases "map_of b (''lim_'' @ take w d)")
    case None
    with "1.prems" show ?thesis by (simp add: Let_def)
  next
    case (Some l')
    then have ne: "l' \<noteq> l" using "1.prems" by (auto simp: Let_def)
    show ?thesis
    proof (cases "length d \<le> w")
      case True
      with Some ne show ?thesis by simp
    next
      case False
      with "1.prems" Some ne have "limitation_id d l (w + 4) b = None" by (simp add: Let_def)
      with "1.IH" [OF refl Some ne False] show ?thesis by simp
    qed
  qed
qed

text \<open>The bindings name every limitation, and an identifier is a prefix of the digest of what it names.\<close>

lemma take_self: "\<exists>n. xs = take n xs"
  by (rule exI [of _ "length xs"]) simp

lemma limitation_id_prefix:
  "limitation_id d l w b = Some i \<Longrightarrow> \<exists>n. i = ''lim_'' @ take n d"
  by (induction d l w b rule: limitation_id.induct)
     (auto simp: Let_def intro: take_self split: if_splits option.splits)

lemma limitation_bindings_names:
  "limitation_bindings sha ls b = Inr b' \<Longrightarrow> ran (map_of b') = ran (map_of b) \<union> set ls"
proof (induction ls arbitrary: b)
  case (Cons l ls)
  then obtain i where i: "limitation_id (sha l) l 12 b = Some i"
    and rest: "limitation_bindings sha ls (AList.update i l b) = Inr b'"
    by (auto simp del: limitation_id.simps split: option.splits)
  have "ran ((map_of b)(i \<mapsto> l)) = insert l (ran (map_of b))"
    using limitation_id_bound [OF i] by (auto simp: ran_map_upd map_upd_triv intro: ranI)
  then have "ran (map_of (AList.update i l b)) = insert l (ran (map_of b))" by (simp only: update_conv')
  with Cons.IH [OF rest] show ?case by simp
qed simp

text \<open>With digests of one length that differ for different limitations the loop always ends.\<close>

lemma limitation_bindings_return:
  assumes "inj sha" and "\<And>l. length (sha l) = 64"
    and "\<And>i l. map_of b i = Some l \<Longrightarrow> \<exists>n. i = ''lim_'' @ take n (sha l)"
  shows "\<exists>b'. limitation_bindings sha ls b = Inr b'"
  using assms(3)
proof (induction ls arbitrary: b)
  case (Cons l ls)
  obtain i where i: "limitation_id (sha l) l 12 b = Some i"
  proof (cases "limitation_id (sha l) l 12 b")
    case None
    from limitation_id_full [OF this] obtain l' where l': "map_of b (''lim_'' @ sha l) = Some l'" "l' \<noteq> l" by blast
    from Cons.prems [OF l'(1)] obtain n where n: "sha l = take n (sha l')" by auto
    then have "n \<ge> 64" using assms(2) [of l] assms(2) [of l'] by (metis length_take min.cobounded2)
    with n have "sha l = sha l'" using assms(2) [of l'] by simp
    with assms(1) l'(2) show ?thesis by (simp add: inj_eq)
  qed
  have "\<exists>b'. limitation_bindings sha ls (AList.update i l b) = Inr b'"
  proof (rule Cons.IH)
    fix j l' assume "map_of (AList.update i l b) j = Some l'"
    then show "\<exists>n. j = ''lim_'' @ take n (sha l')"
      using Cons.prems limitation_id_prefix [OF i] by (auto simp: update_conv' split: if_splits)
  qed
  then show ?case using i by (simp del: limitation_id.simps)
qed simp

section \<open>Accepted assessments\<close>

lemma accept_assessment_Inr:
  assumes "accept_assessment env b v (seen, as) = Inr (seen', as')"
  shows "\<exists>i l a. map_of b i = Some l \<and> seen' = i # seen \<and> as' = AList.update l a as"
  using assms unfolding accept_assessment_def Let_def fst_conv snd_conv
  by (auto split: json.splits option.splits if_splits)

lemma accepted_names:
  assumes "ofold (accept_assessment env b) raw (seen, as) = Inr (seen', as')"
    and "\<forall>i \<in> set seen. \<forall>l. map_of b i = Some l \<longrightarrow> map_of as l \<noteq> None"
  shows "\<forall>i \<in> set seen'. \<forall>l. map_of b i = Some l \<longrightarrow> map_of as' l \<noteq> None"
proof -
  have "\<forall>i \<in> set (fst (seen', as')). \<forall>l. map_of b i = Some l \<longrightarrow> map_of (snd (seen', as')) l \<noteq> None"
  proof (rule ofold_invariant [OF assms(1)])
    fix v and st st' :: "str list \<times> assessment_entry dict"
    assume inv: "\<forall>i \<in> set (fst st). \<forall>l. map_of b i = Some l \<longrightarrow> map_of (snd st) l \<noteq> None"
      and step: "accept_assessment env b v st = Inr st'"
    from accept_assessment_Inr [of env b v "fst st" "snd st" "fst st'" "snd st'"] step
    obtain i l a where "map_of b i = Some l" "fst st' = i # fst st" "snd st' = AList.update l a (snd st)"
      by auto
    with inv show "\<forall>i \<in> set (fst st'). \<forall>l. map_of b i = Some l \<longrightarrow> map_of (snd st') l \<noteq> None"
      by (auto simp: update_conv')
  qed (use assms(2) in simp)
  then show ?thesis by simp
qed

lemma accept_candidate_covers:
  assumes "accept_candidate env b cand = Inr res" and "lr_status res = ''accepted''" and "l \<in> ran (map_of b)"
  shows "map_of (lr_assessments res) l \<noteq> None"
proof -
  from assms(1,2) obtain raw seen as
    where fold: "ofold (accept_assessment env b) raw ([], []) = Inr (seen, as)"
      and seen: "set seen = fst ` set b" and as: "lr_assessments res = as"
    unfolding accept_candidate_def obind_eq_Inr_iff Let_def
    by (auto simp: resolution_invalid_def split: if_splits json.splits sum.splits)
  from assms(3) obtain i where "map_of b i = Some l" by (auto simp: ran_def)
  moreover from this have "i \<in> set seen" using seen by (force dest: map_of_SomeD)
  ultimately show ?thesis using accepted_names [OF fold] as by simp
qed

text \<open>An accepted resolution assesses every limitation it was asked about.\<close>

lemma resolution_covers:
  assumes "resolve_limitations env r sn ls = Inr res" and "lr_status res = ''accepted''"
    and "l \<in> set ls" and "l \<noteq> []"
  shows "map_of (lr_assessments res) l \<noteq> None"
proof -
  define targets where "targets = py_unique (filter (\<lambda>l. l \<noteq> []) ls)"
  have l: "l \<in> set targets" using assms(3,4) by (simp add: targets_def)
  then have ne: "targets \<noteq> []" by auto
  from assms(1) ne obtain det where det: "resolve_from_governed_use_safety r sn targets = Inr det"
    unfolding resolve_limitations_def Let_def targets_def [symmetric] by (auto simp: obind_eq_Inr_iff)
  show ?thesis
  proof (cases det)
    case (Some res')
    with det assms(1) ne have "res = res'"
      unfolding resolve_limitations_def Let_def targets_def [symmetric] by simp
    moreover have "map_of (lr_assessments res') l \<noteq> None"
      using det l unfolding Some resolve_from_governed_use_safety_def Let_def
      by (auto simp: obind_eq_Inr_iff map_of_eq_None_iff image_image split: if_splits prod.splits)
    ultimately show ?thesis by simp
  next
    case None
    with det assms(1) ne obtain b where b: "limitation_bindings (rz_sha256 env) targets [] = Inr b"
      and p: "accept_proposal env b (rz_propose env r sn b) = Inr res"
      unfolding resolve_limitations_def Let_def targets_def [symmetric] by (auto simp: obind_eq_Inr_iff)
    from p assms(2) obtain cand where "accept_candidate env b cand = Inr res"
      by (auto simp: accept_proposal_def resolution_invalid_def split: if_splits json.splits)
    moreover have "l \<in> ran (map_of b)" using l limitation_bindings_names [OF b] by simp
    ultimately show ?thesis using assms(2) by (metis accept_candidate_covers)
  qed
qed

section \<open>Authorization\<close>

lemma admission_seal_fields [simp]:
  "pm_authorized (admission_seal d a) = pm_authorized a"
  "pm_decision (admission_seal d a) = pm_decision a"
  "pm_evaluation_id (admission_seal d a) = pm_evaluation_id a"
  "pm_evaluation_authority_sha256 (admission_seal d a) = pm_evaluation_authority_sha256 a"
  "pm_expires_at (admission_seal d a) = pm_expires_at a"
  "pm_reason_code (admission_seal d a) = pm_reason_code a"
  "pm_constraints (admission_seal d a) = pm_constraints a"
  "admission_bound env (admission_seal d a) r sc = admission_bound env a r sc"
  by (simp_all add: admission_seal_def admission_bound_def)

lemma admission_of_fields [simp]:
  "pm_authorized (admission_of env e b reason) = b"
  "pm_expires_at (admission_of env e b reason) = pe_expires_at e"
  "pm_evaluation_id (admission_of env e b reason) = pe_evaluation_id e"
  "pm_evaluation_authority_sha256 (admission_of env e b reason) = pe_authority_sha256 e"
  by (simp_all add: admission_of_def)

lemma admission_of_sealed:
  "pm_authority_sha256 (admission_of env e b reason) = av_digest env (admission_payload (admission_of env e b reason))"
  unfolding admission_of_def by (rule admits.seal_verifies)

lemma admission_of_bound: "evaluation_bound env e r sc \<Longrightarrow> admission_bound env (admission_of env e b reason) r sc"
  unfolding admission_of_def admission_seal_fields by (simp add: evaluation_bound_def admission_bound_def)

lemma authorize_dependency_Inr:
  assumes "authorize_dependency env e r sc consumed = Inr (a, consumed')"
  shows "\<exists>b reason. a = admission_of env e b reason \<and>
    (b \<longleftrightarrow> authorization_failure env e r sc (case consumed of None \<Rightarrow> [] | Some c \<Rightarrow> c) = Inr None \<and>
         pe_decision e \<in> set ADMITTED_DECISIONS)"
  using assms unfolding authorize_dependency_def obind_eq_Inr_iff Let_def by auto

lemma validate_admission_True:
  "validate_admission env a e r sc = Inr (True, None) \<longleftrightarrow>
     pm_authority_sha256 a = av_digest env (admission_payload a) \<and>
     pe_authority_sha256 e = av_digest env (evaluation_payload e) \<and>
     pm_evaluation_id a = pe_evaluation_id e \<and> pm_evaluation_authority_sha256 a = pe_authority_sha256 e \<and>
     (\<exists>t. av_parse_time env (pm_expires_at a) = Some t \<and> av_now env < t) \<and>
     admission_bound env a r sc \<and> pm_authorized a"
  by (auto simp: validate_admission_def split: option.splits)

lemma validate_unauthorized:
  "\<not> pm_authorized a \<Longrightarrow> av_parse_time env (pm_expires_at a) = Some t \<Longrightarrow>
     \<exists>x. validate_admission env a e r sc = Inr (False, x)"
  by (simp add: validate_admission_def)

lemma authorization_succeeds_iff:
  "authorization_failure env e r sc consumed = Inr None \<longleftrightarrow>
     pe_authority_sha256 e = av_digest env (evaluation_payload e) \<and> pe_evaluation_status e = ''completed'' \<and>
     pe_evaluation_id e \<notin> set consumed \<and>
     (\<exists>t. av_parse_time env (pe_expires_at e) = Some t \<and> av_now env < t) \<and> evaluation_bound env e r sc"
  by (auto simp: authorization_failure_def split: option.splits)

text \<open>The scope of the dependency a snapshot describes.\<close>

definition scope_of :: "phase_snapshot \<Rightarrow> downstream_requirements \<Rightarrow> str \<Rightarrow> str \<Rightarrow> str \<Rightarrow> admission_scope" where
  "scope_of sn r consumer_run consumer_op consumer_type =
     \<lparr>sc_consumer_task_run_id = consumer_run, sc_consumer_operation_id = consumer_op,
      sc_consumer_operation_type = consumer_type, sc_producer_task_run_id = ph_producer_task_run_id sn,
      sc_producer_operation_id = ph_producer_operation_id sn, sc_dependency_id = ph_dependency_id sn,
      sc_producer_phase_id = ph_producer_phase_id sn, sc_consumer_phase_id = dr_consumer_phase_id r\<rparr>"

lemma evaluation_bound_unique: "evaluation_bound env e r sc \<Longrightarrow> evaluation_bound env e r sc' \<Longrightarrow> sc' = sc"
  by (rule admission_scope.equality) (simp_all add: evaluation_bound_def)

lemma admission_bound_unique: "admission_bound env a r sc \<Longrightarrow> admission_bound env' a r sc' \<Longrightarrow> sc' = sc"
  by (rule admission_scope.equality) (simp_all add: admission_bound_def)

lemma dependency_evaluation_sealed:
  "pe_authority_sha256 (dependency_evaluation env sn r crun cop ctype res) =
     av_digest env (evaluation_payload (dependency_evaluation env sn r crun cop ctype res))"
  unfolding dependency_evaluation_def Let_def split_def by (rule evals.seal_verifies)

lemma dependency_evaluation_bound:
  "evaluation_bound env (dependency_evaluation env sn r crun cop ctype res) r (scope_of sn r crun cop ctype)"
  unfolding dependency_evaluation_def Let_def split_def evaluation_seal_fields
  by (simp add: evaluation_bound_def scope_of_def)

lemma dependency_evaluation_expires:
  "pe_expires_at (dependency_evaluation env sn r crun cop ctype res) =
     av_isoformat env (av_now env + max 1 (dr_authorization_ttl_seconds r) * 1000000)"
  unfolding dependency_evaluation_def Let_def split_def by simp

lemma met_demand_admission:
  assumes resolved: "resolve_limitations (av_resolver env) r sn (unclassified_limitations r sn) = Inr res"
    and met: "demand_met r sn res crun cop ctype"
    and times: "\<forall>t. av_parse_time env (av_isoformat env t) = Some t"
    and ttl: "t1 < av_now env + max 1 (dr_authorization_ttl_seconds r) * 1000000"
      "t2 < av_now env + max 1 (dr_authorization_ttl_seconds r) * 1000000"
  shows "\<exists>e a. evaluate_dependency env sn r crun cop ctype = Inr e \<and>
           authorize_dependency (env\<lparr>av_now := t1\<rparr>) e r (scope_of sn r crun cop ctype) None = Inr (a, None) \<and>
           validate_admission (env\<lparr>av_now := t2\<rparr>) a e r (scope_of sn r crun cop ctype) = Inr (True, None)"
proof -
  define e where "e = dependency_evaluation env sn r crun cop ctype res"
  define sc where "sc = scope_of sn r crun cop ctype"
  note dec = dependency_evaluation_decision [of env sn r crun cop ctype res, folded e_def]
  have eval: "evaluate_dependency env sn r crun cop ctype = Inr e"
    using resolved by (simp add: evaluate_dependency_def e_def)
  have sealed: "pe_authority_sha256 e = av_digest env (evaluation_payload e)"
    unfolding e_def by (rule dependency_evaluation_sealed)
  have bound: "evaluation_bound (env\<lparr>av_now := t\<rparr>) e r sc" for t
    using dependency_evaluation_bound [of env sn r crun cop ctype res]
    by (simp add: sc_def e_def evaluation_bound_def requirements_sha256_def)
  have expires: "av_parse_time env (pe_expires_at e) =
      Some (av_now env + max 1 (dr_authorization_ttl_seconds r) * 1000000)"
    unfolding e_def dependency_evaluation_expires using times by simp
  have fail: "authorization_failure (env\<lparr>av_now := t1\<rparr>) e r sc [] = Inr None"
    unfolding authorization_succeeds_iff using sealed expires dec(1,3) met ttl(1) bound by simp
  define a where "a = admission_of (env\<lparr>av_now := t1\<rparr>) e True None"
  have auth: "authorize_dependency (env\<lparr>av_now := t1\<rparr>) e r sc None = Inr (a, None)"
    using fail dec(1) met by (simp add: authorize_dependency_def a_def)
  have "admission_bound (env\<lparr>av_now := t2\<rparr>) a r sc"
    using admission_of_bound [OF bound, of t1 True None]
    by (simp add: a_def admission_bound_def requirements_sha256_def)
  moreover have "pm_authority_sha256 a = av_digest env (admission_payload a)"
    using admission_of_sealed [of "env\<lparr>av_now := t1\<rparr>" e True None] by (simp add: a_def)
  ultimately have "validate_admission (env\<lparr>av_now := t2\<rparr>) a e r sc = Inr (True, None)"
    unfolding validate_admission_True using sealed expires ttl(2) by (simp add: a_def)
  with eval auth show ?thesis unfolding sc_def by blast
qed

lemma admission_sound:
  assumes "evaluate_dependency env sn r crun cop ctype = Inr e"
    and "authorize_dependency env1 e r sc consumed = Inr (a, consumed')"
    and "validate_admission env2 a e r sc2 = Inr (True, None)"
    and "av_digest env1 = av_digest env" and "av_digest env2 = av_digest env"
  shows "\<exists>res t. resolve_limitations (av_resolver env) r sn (unclassified_limitations r sn) = Inr res \<and>
           demand_met r sn res crun cop ctype \<and>
           sc = scope_of sn r crun cop ctype \<and> sc2 = scope_of sn r crun cop ctype \<and>
           av_parse_time env2 (pe_expires_at e) = Some t \<and> av_now env2 < t"
proof -
  from assms(1) obtain res where res: "resolve_limitations (av_resolver env) r sn (unclassified_limitations r sn) = Inr res"
    and e: "e = dependency_evaluation env sn r crun cop ctype res"
    by (auto simp: evaluate_dependency_def obind_eq_Inr_iff)
  note v = assms(3) [unfolded validate_admission_True]
  obtain b reason where a: "a = admission_of env1 e b reason"
    and b: "b \<longleftrightarrow> authorization_failure env1 e r sc (case consumed of None \<Rightarrow> [] | Some c \<Rightarrow> c) = Inr None \<and>
         pe_decision e \<in> set ADMITTED_DECISIONS"
    using authorize_dependency_Inr [OF assms(2)] by blast
  have bd: "evaluation_bound env1 e r sc" and d: "pe_decision e \<in> set ADMITTED_DECISIONS"
    using v b unfolding a by (simp_all add: authorization_succeeds_iff)
  have "evaluation_bound env e r sc"
    using bd assms(4) by (simp add: evaluation_bound_def requirements_sha256_def)
  then have sc: "sc = scope_of sn r crun cop ctype"
    using evaluation_bound_unique [OF dependency_evaluation_bound] unfolding e by blast
  have "sc2 = sc" using admission_bound_unique [OF admission_of_bound [OF bd]] v unfolding a by blast
  moreover have "demand_met r sn res crun cop ctype"
    using d dependency_evaluation_decision(1) unfolding e by blast
  ultimately show ?thesis using res sc v unfolding a by auto
qed

section \<open>Properties\<close>

text \<open>
  C25. An evaluation decides exactly what its evidence says: it admits the dependency if and only if the demand
  is met (\<open>demand_met\<close>), and blocks it if and only if the evidence contradicts the demand. Everything in between
  is insufficient evidence, and nothing the language model proposes can admit a dependency whose explicit
  requirements are not met.
\<close>

theorem evaluation_decides_exactly:
  assumes "evaluate_dependency env sn r crun cop ctype = Inr e"
  shows "\<exists>res. resolve_limitations (av_resolver env) r sn (unclassified_limitations r sn) = Inr res \<and>
           (pe_decision e \<in> {''ADMITTED'', ''ADMITTED_WITH_CONSTRAINTS''} \<longleftrightarrow> demand_met r sn res crun cop ctype) \<and>
           (pe_decision e = ''BLOCKED'' \<longleftrightarrow> demand_contradicted r sn res ctype)"
proof -
  from assms obtain res where "resolve_limitations (av_resolver env) r sn (unclassified_limitations r sn) = Inr res"
    and "e = dependency_evaluation env sn r crun cop ctype res"
    by (auto simp: evaluate_dependency_def obind_eq_Inr_iff)
  then show ?thesis
    using dependency_evaluation_decision(1,2) [of env sn r crun cop ctype res]
    by (simp add: ADMITTED_DECISIONS_def)
qed

text \<open>
  C9. A dependency passes validation only when its demand was met: whatever happens between evaluation,
  authorization and validation, if the admission that authorization built from an evaluation validates, the
  upstream evidence met the demand, the admission belongs to this very dependency, and it has not expired.
\<close>

theorem admission_needs_demand:
  assumes "evaluate_dependency env sn r crun cop ctype = Inr e"
    and "authorize_dependency env1 e r sc consumed = Inr (a, consumed')"
    and "validate_admission env2 a e r sc2 = Inr (True, None)"
    and "av_digest env1 = av_digest env" and "av_digest env2 = av_digest env"
  shows "\<exists>res t. resolve_limitations (av_resolver env) r sn (unclassified_limitations r sn) = Inr res \<and>
           demand_met r sn res crun cop ctype \<and>
           sc = scope_of sn r crun cop ctype \<and> sc2 = scope_of sn r crun cop ctype \<and>
           av_parse_time env2 (pe_expires_at e) = Some t \<and> av_now env2 < t"
  using assms by (rule admission_sound)

text \<open>
  And a met demand does get through: if the evidence meets the demand, authorization before the end of the
  validity period yields an admission that validates at every later moment of it, for the same dependency.
  (\<open>isoformat\<close> followed by the parser returns the time.)
\<close>

theorem met_demand_is_admitted:
  assumes resolved: "resolve_limitations (av_resolver env) r sn (unclassified_limitations r sn) = Inr res"
    and met: "demand_met r sn res crun cop ctype"
    and times: "\<forall>t. av_parse_time env (av_isoformat env t) = Some t"
    and ttl: "t1 < av_now env + max 1 (dr_authorization_ttl_seconds r) * 1000000"
      "t2 < av_now env + max 1 (dr_authorization_ttl_seconds r) * 1000000"
  shows "\<exists>e a. evaluate_dependency env sn r crun cop ctype = Inr e \<and>
           authorize_dependency (env\<lparr>av_now := t1\<rparr>) e r (scope_of sn r crun cop ctype) None = Inr (a, None) \<and>
           validate_admission (env\<lparr>av_now := t2\<rparr>) a e r (scope_of sn r crun cop ctype) = Inr (True, None)"
  using assms by (rule met_demand_admission)

text \<open>
  A producer that reports its result unsafe for static analysis with the number 0 is taken to report it
  safe: \<open>0 in {True, False, ...}\<close> holds, but \<open>0 is False\<close> does not, so every limitation becomes
  \<open>COMPATIBLE\<close>, while the same report with \<open>False\<close> makes every limitation \<open>INCOMPATIBLE\<close>.
\<close>

theorem zero_safety_taken_as_safe:
  assumes "readonly_analysis r" and "l \<in> set limitations" and "l \<noteq> []"
  shows "json_eq (JInt 0) (JBool False) \<and>
    (\<exists>res a. resolve_limitations env r (sn\<lparr>ph_use_safety := [(''safe_for_downstream_static_analysis'', JInt 0)]\<rparr>) limitations = Inr res \<and>
       map_of (lr_assessments res) l = Some a \<and> ae_impact a = COMPATIBLE) \<and>
    (\<exists>res a. resolve_limitations env r (sn\<lparr>ph_use_safety := [(''safe_for_downstream_static_analysis'', JBool False)]\<rparr>) limitations = Inr res \<and>
       map_of (lr_assessments res) l = Some a \<and> ae_impact a = INCOMPATIBLE)"
proof -
  have eq: "json_eq (JInt 0) (JBool False)" by (simp add: number_eq_def)
  define ts where "ts = py_unique (filter (\<lambda>l. l \<noteq> []) limitations)"
  have l: "l \<in> set ts" using assms(2,3) by (simp add: ts_def)
  have key: "map_of (map (\<lambda>l. (l, x)) ts) l = Some x" for x :: assessment_entry
    using l by (simp add: map_of_map_restrict restrict_map_def)
  have known: "safety_known (JInt 0) = Inr True" "safety_known (JBool False) = Inr True"
    by (simp_all add: safety_known_def json_in_def number_eq_def)
  have res: "resolve_limitations env r (sn\<lparr>ph_use_safety := [(''safe_for_downstream_static_analysis'', v)]\<rparr>) limitations =
      Inr \<lparr>lr_status = ''accepted'', lr_reason_code = None,
           lr_assessments = map (\<lambda>l. (l, \<lparr>ae_impact = fst (safety_impact v), ae_constraints = [],
             ae_rationale = snd (safety_impact v), ae_source = Some ''upstream_disclosure''\<rparr>)) ts\<rparr>"
    if "safety_known v = Inr True" for v
    using that assms(1) l
    by (auto simp: resolve_limitations_def resolve_from_governed_use_safety_def json_get_def ts_def [symmetric]
        Let_def split: prod.splits)
  show ?thesis
    using eq res [OF known(1)] res [OF known(2)] key by (auto simp: safety_impact_def)
qed

section \<open>An example\<close>

text \<open>
  A phase that wants its upstream result usable for analysis, safe, and with no limitation but a disclosed
  one. The clock of the example writes a time as that many letters.
\<close>

definition example_requirements :: downstream_requirements where
  "example_requirements =
     \<lparr>dr_contract_id = ''contract'', dr_contract_version = ''1'', dr_consumer_phase_id = ''phase_002'',
      dr_operation_type = ''write_report'', dr_authority_source = ''trusted_registry'',
      dr_allowed_dependency_statuses = [''satisfied'', ''satisfied_with_limitations''],
      dr_required_downstream_uses = [''analysis''],
      dr_required_use_safety = [(''safe_for_analysis'', [JBool True])],
      dr_required_semantic_properties = [(''coverage'', [JStr ''full'', JStr ''sampled''])],
      dr_required_capabilities = [], dr_limitation_compatibility = [(''sampled_files'', COMPATIBLE_WITH_CONSTRAINT)],
      dr_base_constraints = [], dr_risk_constraints = [], dr_prohibited_effects = [''workspace_mutation''],
      dr_evidence_required = True, dr_authorization_ttl_seconds = 900, dr_source_plan_id = None,
      dr_source_execution_id = None, dr_source_semantics_sha256 = None, dr_vocabulary_id = None,
      dr_vocabulary_sha256 = None, dr_vocabulary_revision = None, dr_vocabulary_source_sha256 = None,
      dr_frozen_at = None, dr_requirement_provenance = []\<rparr>"

definition example_snapshot :: phase_snapshot where
  "example_snapshot =
     \<lparr>ph_dependency_id = ''dep'', ph_producer_task_run_id = ''run'', ph_producer_operation_id = Some ''op'',
      ph_producer_phase_id = ''phase_001'', ph_upstream_result_ref = ''event_7'',
      ph_dependency_status = ''satisfied_with_limitations'', ph_evidence_refs = [''event_7''],
      ph_limitations = [''sampled_files''], ph_required_disclosures = [], ph_missing_truth = [],
      ph_risk_constraints = [], ph_allowed_downstream_uses = [''analysis''], ph_forbidden_downstream_uses = [],
      ph_forbidden_claims = [], ph_use_safety = [(''safe_for_analysis'', JInt 1)],
      ph_semantic_properties = [(''coverage'', JStr ''sampled'')]\<rparr>"

definition example_resolver :: resolver_env where
  "example_resolver =
     \<lparr>rz_sha256 = id, rz_propose = (\<lambda>r sn b. [(''status'', JStr ''unavailable'')]), rz_float_of_str = (\<lambda>s. None),
      rz_minimum_confidence = (5, 3), rz_render = (\<lambda>v. [])\<rparr>"

definition example_admission_env :: admission_env where
  "example_admission_env =
     \<lparr>av_now = 0, av_isoformat = (\<lambda>t. if t < 0 then CHR ''-'' # replicate (nat (- t)) CHR ''x'' else replicate (nat t) CHR ''x''),
      av_parse_time = (\<lambda>s. Some (case s of [] \<Rightarrow> 0 | c # cs \<Rightarrow> if c = CHR ''-'' then - int (length cs) else int (length s))),
      av_digest = example_digest, av_uid = id, av_resolver = example_resolver\<rparr>"

lemma example_times: "\<forall>t. av_parse_time example_admission_env (av_isoformat example_admission_env t) = Some t"
proof
  fix t :: int
  show "av_parse_time example_admission_env (av_isoformat example_admission_env t) = Some t"
    by (cases "nat t") (auto simp: example_admission_env_def)
qed

lemma example_resolution:
  "resolve_limitations (av_resolver example_admission_env) example_requirements example_snapshot
     (unclassified_limitations example_requirements example_snapshot) =
   Inr \<lparr>lr_status = ''not_required'', lr_reason_code = None, lr_assessments = []\<rparr>"
  by (simp add: resolve_limitations_def unclassified_limitations_def example_requirements_def example_snapshot_def)

lemma example_demand_met:
  "demand_met example_requirements example_snapshot
     \<lparr>lr_status = ''not_required'', lr_reason_code = None, lr_assessments = []\<rparr> ''run'' ''op'' ''write_report''"
  by (simp add: demand_met_def example_requirements_def example_snapshot_def compiled_requirement_reason_def
      binding_values_def py_strip_def py_isspace_def meets_def json_in_def number_eq_def judge_limitation_def
      unclassified_limitations_def)

theorem evaluation_decides_exactly_witness:
  "\<exists>e res. evaluate_dependency example_admission_env example_snapshot example_requirements ''run'' ''op'' ''write_report'' = Inr e \<and>
     resolve_limitations (av_resolver example_admission_env) example_requirements example_snapshot
       (unclassified_limitations example_requirements example_snapshot) = Inr res \<and>
     (pe_decision e \<in> {''ADMITTED'', ''ADMITTED_WITH_CONSTRAINTS''} \<longleftrightarrow>
        demand_met example_requirements example_snapshot res ''run'' ''op'' ''write_report'')"
proof -
  obtain e where e: "evaluate_dependency example_admission_env example_snapshot example_requirements ''run'' ''op'' ''write_report'' = Inr e"
    using example_resolution by (simp add: evaluate_dependency_def)
  from evaluation_decides_exactly [OF this] show ?thesis using e by blast
qed

theorem met_demand_is_admitted_witness:
  "\<exists>e a. evaluate_dependency example_admission_env example_snapshot example_requirements ''run'' ''op'' ''write_report'' = Inr e \<and>
     authorize_dependency (example_admission_env\<lparr>av_now := 5\<rparr>) e example_requirements
       (scope_of example_snapshot example_requirements ''run'' ''op'' ''write_report'') None = Inr (a, None) \<and>
     validate_admission (example_admission_env\<lparr>av_now := 6\<rparr>) a e example_requirements
       (scope_of example_snapshot example_requirements ''run'' ''op'' ''write_report'') = Inr (True, None)"
proof (rule met_demand_is_admitted [OF example_resolution example_demand_met example_times])
  show "(5 :: int) < av_now example_admission_env + max 1 (dr_authorization_ttl_seconds example_requirements) * 1000000"
    and "(6 :: int) < av_now example_admission_env + max 1 (dr_authorization_ttl_seconds example_requirements) * 1000000"
    by (simp_all add: example_admission_env_def example_requirements_def)
qed

theorem admission_needs_demand_witness:
  "\<exists>e a. validate_admission (example_admission_env\<lparr>av_now := 6\<rparr>) a e example_requirements
       (scope_of example_snapshot example_requirements ''run'' ''op'' ''write_report'') = Inr (True, None) \<and>
     (\<exists>res. demand_met example_requirements example_snapshot res ''run'' ''op'' ''write_report'')"
proof -
  let ?sc = "scope_of example_snapshot example_requirements ''run'' ''op'' ''write_report''"
  have "(5 :: int) < av_now example_admission_env + max 1 (dr_authorization_ttl_seconds example_requirements) * 1000000"
    "(6 :: int) < av_now example_admission_env + max 1 (dr_authorization_ttl_seconds example_requirements) * 1000000"
    by (simp_all add: example_admission_env_def example_requirements_def)
  from met_demand_admission [OF example_resolution example_demand_met example_times this]
  obtain e a where e: "evaluate_dependency example_admission_env example_snapshot example_requirements ''run'' ''op'' ''write_report'' = Inr e"
    and a: "authorize_dependency (example_admission_env\<lparr>av_now := 5\<rparr>) e example_requirements ?sc None = Inr (a, None)"
    and v: "validate_admission (example_admission_env\<lparr>av_now := 6\<rparr>) a e example_requirements ?sc = Inr (True, None)"
    by blast
  from admission_needs_demand [OF e a v] v show ?thesis by auto
qed

theorem zero_safety_taken_as_safe_witness:
  "\<exists>res a. resolve_limitations example_resolver
       (example_requirements\<lparr>dr_operation_type := ''readonly_analysis'', dr_required_capabilities := [''read_workspace''],
          dr_required_downstream_uses := [], dr_required_use_safety := [], dr_required_semantic_properties := []\<rparr>)
       (example_snapshot\<lparr>ph_use_safety := [(''safe_for_downstream_static_analysis'', JInt 0)]\<rparr>) [''binary_files_skipped''] = Inr res \<and>
     map_of (lr_assessments res) ''binary_files_skipped'' = Some a \<and> ae_impact a = COMPATIBLE"
proof -
  let ?r = "example_requirements\<lparr>dr_operation_type := ''readonly_analysis'', dr_required_capabilities := [''read_workspace''],
          dr_required_downstream_uses := [], dr_required_use_safety := [], dr_required_semantic_properties := []\<rparr>"
  have "readonly_analysis ?r"
    by (simp add: readonly_analysis_def READONLY_OPERATIONS_def)
  from zero_safety_taken_as_safe [OF this, of "''binary_files_skipped''" "[''binary_files_skipped'']" example_resolver example_snapshot]
  show ?thesis by simp
qed

end
