(* ===== verification/Progress_Float.thy ===== *)
theory Progress_Float
  imports Main
begin

text \<open>
  The float arithmetic of a workflow's progress, \<open>int(achieved / total * 100)\<close> in
  \<open>services/runtime/workflow_runtime_service.py\<close>, for integers \<open>0 \<le> achieved \<le> total\<close>. The quotient and the
  product are rounded to the 53 significant bits of a double, ties to even; exponents stay far from the range
  limits. A positive float is the pair \<open>(m, e)\<close> of \<open>m / 2 ^ e\<close>.
\<close>

section \<open>Rounding\<close>

definition round_half_even :: "nat \<Rightarrow> nat \<Rightarrow> nat" where
  "round_half_even n d =
     (let q = n div d; r = n mod d
      in if 2 * r < d \<or> (2 * r = d \<and> even q) then q else q + 1)"

fun bit_width :: "nat \<Rightarrow> nat" where
  "bit_width n = (if n = 0 then 0 else Suc (bit_width (n div 2)))"
declare bit_width.simps [simp del]

definition float_divide :: "nat \<Rightarrow> nat \<Rightarrow> nat \<times> nat" where
  "float_divide a b =
     (let e0 = 53 + bit_width b - bit_width a;
          e = (if a * 2 ^ e0 < b * 2 ^ 53 then e0 else e0 - 1)
      in (round_half_even (a * 2 ^ e) b, e))"

definition float_times_100 :: "nat \<times> nat \<Rightarrow> nat \<times> nat" where
  "float_times_100 x =
     (let p = fst x * 100; s = bit_width p - 53
      in (round_half_even p (2 ^ s) * 2 ^ s, snd x))"

definition float_percent :: "nat \<Rightarrow> nat \<Rightarrow> nat" where
  "float_percent achieved whole =
     (if achieved = 0 then 0 else let x = float_times_100 (float_divide achieved whole) in fst x div 2 ^ snd x)"

section \<open>Bounds\<close>

lemma bit_width_eval [simp]: "bit_width 0 = 0" "bit_width (Suc 0) = 1" "bit_width (numeral k) = Suc (bit_width (numeral k div 2))"
  by (subst bit_width.simps, simp add: bit_width.simps)+

lemma round_half_even_le: "0 < d \<Longrightarrow> n \<le> m * d \<Longrightarrow> round_half_even n d \<le> m"
proof -
  assume d: "0 < d" and n: "n \<le> m * d"
  have q: "n div d \<le> m" using n d by (metis div_le_mono nonzero_mult_div_cancel_right less_numeral_extra(3))
  show ?thesis
  proof (cases "n div d = m")
    case True
    then have "m * d \<le> n" using div_times_less_eq_dividend [of n d] by (simp add: mult.commute)
    with n have "n mod d = 0" by simp
    with True d show ?thesis by (simp add: round_half_even_def)
  next
    case False
    with q show ?thesis by (simp add: round_half_even_def Let_def)
  qed
qed


lemma bit_width_le_iff: "bit_width n \<le> k \<longleftrightarrow> n < 2 ^ k"
proof (induction n arbitrary: k rule: bit_width.induct)
  case (1 n)
  show ?case
  proof (cases "n = 0")
    case False
    show ?thesis
    proof (cases k)
      case 0
      with False show ?thesis by (simp add: bit_width.simps [of n])
    next
      case (Suc j)
      have "bit_width n \<le> k \<longleftrightarrow> bit_width (n div 2) \<le> j" using False Suc by (simp add: bit_width.simps [of n])
      also have "\<dots> \<longleftrightarrow> n div 2 < 2 ^ j" by (rule "1.IH" [OF False])
      also have "\<dots> \<longleftrightarrow> n < 2 ^ k" using Suc by (simp add: div_less_iff_less_mult mult.commute)
      finally show ?thesis .
    qed
  qed simp
qed

lemma bit_width_bounds: "0 < n \<Longrightarrow> 2 ^ (bit_width n - 1) \<le> n" "n < 2 ^ bit_width n"
proof -
  assume "0 < n"
  then have "0 < bit_width n" by (simp add: bit_width.simps [of n])
  then show "2 ^ (bit_width n - 1) \<le> n" using bit_width_le_iff [of n "bit_width n - 1"] by (simp add: not_less [symmetric])
next
  show "n < 2 ^ bit_width n" using bit_width_le_iff [of n "bit_width n"] by simp
qed

lemma round_half_even_less: "0 < d \<Longrightarrow> 2 * n < (2 * m + 1) * d \<Longrightarrow> round_half_even n d \<le> m"
proof -
  assume d: "0 < d" and n: "2 * n < (2 * m + 1) * d"
  have split: "n = n div d * d + n mod d" by simp
  have "n div d \<le> m"
  proof (rule ccontr)
    assume "\<not> n div d \<le> m"
    then have "Suc m * d \<le> n div d * d" by (intro mult_le_mono1) simp
    also have "\<dots> \<le> n" by simp
    finally show False using n d by (simp add: algebra_simps)
  qed
  show ?thesis
  proof (cases "n div d = m")
    case True
    then have "n = m * d + n mod d" using split by simp
    then have "2 * (n mod d) < d" using n by (simp add: algebra_simps)
    with True show ?thesis by (simp add: round_half_even_def Let_def)
  next
    case False
    with \<open>n div d \<le> m\<close> show ?thesis by (simp add: round_half_even_def Let_def)
  qed
qed

lemma float_divide_exponent:
  assumes "0 < a" and "a \<le> b"
  shows "52 \<le> snd (float_divide a b)" and "a < b \<Longrightarrow> 53 \<le> snd (float_divide a b)"
    and "a * 2 ^ snd (float_divide a b) \<le> b * 2 ^ 53"
proof -
  have w: "bit_width a \<le> bit_width b"
    using assms(2) bit_width_bounds(2) [of b] by (auto simp: bit_width_le_iff)
  define e0 where "e0 = 53 + bit_width b - bit_width a"
  have e0: "53 \<le> e0" using w by (simp add: e0_def)
  show "52 \<le> snd (float_divide a b)" using e0 by (auto simp: float_divide_def Let_def e0_def [symmetric])
  show "53 \<le> snd (float_divide a b)" if "a < b"
    using e0 that by (cases "e0 = 53") (auto simp: float_divide_def Let_def e0_def [symmetric])
  have "a * 2 ^ (e0 - 1) \<le> b * 2 ^ 53"
  proof -
    have "a * 2 ^ e0 \<le> 2 ^ bit_width a * 2 ^ e0" using bit_width_bounds(2) [of a] by simp
    also have "\<dots> = 2 ^ (53 + bit_width b)" using w by (simp add: e0_def flip: power_add)
    also have "\<dots> = 2 ^ (bit_width b - 1) * 2 ^ 54"
      using assms by (simp add: bit_width.simps [of b] power_add)
    also have "\<dots> \<le> b * 2 ^ 54" using bit_width_bounds(1) [of b] assms by simp
    finally have "a * (2 * 2 ^ (e0 - 1)) \<le> 2 * (b * 2 ^ 53)" using e0 by (simp flip: power_Suc)
    then show ?thesis by simp
  qed
  then show "a * 2 ^ snd (float_divide a b) \<le> b * 2 ^ 53"
    by (auto simp: float_divide_def Let_def e0_def [symmetric])
qed

lemma float_percent_bound:
  assumes "a \<le> b" and "0 < b"
  shows "float_percent a b \<le> 100"
proof (cases "a = 0")
  case False
  define e where "e = snd (float_divide a b)"
  define q where "q = fst (float_divide a b)"
  define s where "s = bit_width (q * 100) - 53"
  note ex = float_divide_exponent [of a b, folded e_def]
  have q: "q = round_half_even (a * 2 ^ e) b" by (simp add: q_def e_def float_divide_def Let_def)
  have "q \<le> 2 ^ 53" unfolding q using ex(3) False assms by (intro round_half_even_le) (auto simp: mult.commute)
  then have "q * 100 < 2 ^ 60" by simp
  then have "bit_width (q * 100) \<le> 60" by (simp only: bit_width_le_iff)
  then have "s \<le> e" using ex(1) False assms by (simp add: s_def)
  have "q \<le> 2 ^ e" unfolding q using assms by (intro round_half_even_le) auto
  then have "q * 100 \<le> 100 * 2 ^ (e - s) * 2 ^ s" using \<open>s \<le> e\<close> by (simp flip: power_add)
  then have "round_half_even (q * 100) (2 ^ s) \<le> 100 * 2 ^ (e - s)" by (intro round_half_even_le) auto
  then have "round_half_even (q * 100) (2 ^ s) * 2 ^ s \<le> 100 * 2 ^ (e - s) * 2 ^ s" by simp
  also have "\<dots> = 100 * 2 ^ e" using \<open>s \<le> e\<close> by (simp flip: power_add)
  finally have "round_half_even (q * 100) (2 ^ s) * 2 ^ s div 2 ^ e \<le> 100"
    by (metis div_le_mono nonzero_mult_div_cancel_right power_not_zero zero_neq_numeral)
  then show ?thesis using False
    by (simp add: float_percent_def float_times_100_def Let_def q_def s_def e_def)
qed (simp add: float_percent_def)


lemma round_half_even_exact [simp]: "0 < d \<Longrightarrow> round_half_even (m * d) d = m"
  by (simp add: round_half_even_def)

lemma float_percent_whole: "0 < b \<Longrightarrow> float_percent b b = 100"
proof -
  assume b: "0 < b"
  then have d: "float_divide b b = (2 ^ 52, 52)"
    using round_half_even_exact [OF b, of "2 ^ 52"] by (simp add: float_divide_def mult.commute)
  show ?thesis using b unfolding float_percent_def d float_times_100_def
    by (simp add: round_half_even_def Let_def)
qed

lemma float_percent_incomplete:
  assumes "a < b" and "b \<le> 2 ^ 53"
  shows "float_percent a b < 100"
proof (cases "a = 0")
  case False
  define e where "e = snd (float_divide a b)"
  define q where "q = fst (float_divide a b)"
  define s where "s = bit_width (q * 100) - 53"
  define p where "p = round_half_even (q * 100) (2 ^ s) * 2 ^ s"
  note ex = float_divide_exponent [of a b, folded e_def]
  have q: "q = round_half_even (a * 2 ^ e) b" by (simp add: q_def e_def float_divide_def Let_def)
  have e: "53 \<le> e" using ex(2) False assms by simp
  have q53: "q \<le> 2 ^ 53" unfolding q using ex(3) False assms by (intro round_half_even_le) (auto simp: mult.commute)
  then have "q * 100 < 2 ^ 60" by simp
  then have "bit_width (q * 100) \<le> 60" by (simp only: bit_width_le_iff)
  then have s: "s \<le> 7" by (simp add: s_def)
  have "p < 100 * 2 ^ e"
  proof (cases "e = 53")
    case True
    have "a * 2 ^ 53 \<le> (2 ^ 53 - 1) * b"
    proof -
      have "a * 2 ^ 53 + b \<le> a * 2 ^ 53 + 2 ^ 53" using assms(2) by simp
      also have "\<dots> = Suc a * 2 ^ 53" by simp
      also have "\<dots> \<le> b * 2 ^ 53" using assms(1) by (intro mult_le_mono1) simp
      finally show ?thesis by (simp add: algebra_simps)
    qed
    then have "q \<le> 2 ^ 53 - 1" unfolding q True using assms by (intro round_half_even_le) simp_all
    moreover define m where "m = 100 * (2 :: nat) ^ (53 - s) - 1"
    moreover have m: "Suc m * 2 ^ s = 100 * 2 ^ 53" using s by (simp add: m_def flip: power_add)
    moreover have "(2 :: nat) ^ s \<le> 2 ^ 7" using s by (intro power_increasing) simp_all
    ultimately have "2 * (q * 100) < (2 * m + 1) * 2 ^ s" by (simp add: algebra_simps)
    then have "round_half_even (q * 100) (2 ^ s) \<le> m" by (intro round_half_even_less) simp_all
    then have "p < Suc m * 2 ^ s" unfolding p_def by (intro mult_strict_right_mono) simp_all
    then show ?thesis using m True by simp
  next
    case False
    have "q * 100 \<le> 100 * 2 ^ (53 - s) * 2 ^ s" using q53 s by (simp flip: power_add)
    then have "round_half_even (q * 100) (2 ^ s) \<le> 100 * 2 ^ (53 - s)" by (intro round_half_even_le) auto
    then have "p \<le> 100 * 2 ^ (53 - s) * 2 ^ s" by (simp add: p_def)
    also have "\<dots> = 100 * 2 ^ 53" using s by (simp flip: power_add)
    also have "\<dots> < 100 * (2 :: nat) ^ e" using False e by (intro mult_strict_left_mono power_strict_increasing) auto
    finally show ?thesis .
  qed
  then have "p div 2 ^ e < 100" by (simp add: div_less_iff_less_mult)
  then show ?thesis using False
    by (simp add: float_percent_def float_times_100_def Let_def q_def s_def e_def p_def)
qed (simp add: float_percent_def)

lemma round_half_even_near:
  assumes "0 < d"
  shows "2 * (round_half_even n d * d) \<le> 2 * n + d" and "2 * n \<le> 2 * (round_half_even n d * d) + d"
proof -
  have n: "n = n div d * d + n mod d" and r: "n mod d < d" using assms by simp_all
  have "2 * (round_half_even n d * d) \<le> 2 * n + d \<and> 2 * n \<le> 2 * (round_half_even n d * d) + d"
  proof (cases "2 * (n mod d) < d \<or> (2 * (n mod d) = d \<and> even (n div d))")
    case True
    then have "round_half_even n d * d = n div d * d" by (simp add: round_half_even_def)
    with True n r show ?thesis by linarith
  next
    case False
    then have "round_half_even n d * d = n div d * d + d" by (auto simp: round_half_even_def Let_def)
    with False n r show ?thesis by linarith
  qed
  then show "2 * (round_half_even n d * d) \<le> 2 * n + d" "2 * n \<le> 2 * (round_half_even n d * d) + d" by simp_all
qed

text \<open>The percentage lies less than one point above and less than two points below the exact quotient.\<close>

lemma float_percent_near:
  assumes "a \<le> b" and "0 < b"
  shows "float_percent a b * b < 100 * a + b" and "100 * a < (float_percent a b + 2) * b"
proof -
  have "float_percent a b * b < 100 * a + b \<and> 100 * a < (float_percent a b + 2) * b"
  proof (cases "a = 0")
    case True
    with assms show ?thesis by (simp add: float_percent_def)
  next
    case False
    define e where "e = snd (float_divide a b)"
    define q where "q = fst (float_divide a b)"
    define s where "s = bit_width (q * 100) - 53"
    define p where "p = round_half_even (q * 100) (2 ^ s) * 2 ^ s"
    define F where "F = p div 2 ^ e"
    have F: "float_percent a b = F"
      using False by (simp add: float_percent_def float_times_100_def Let_def q_def s_def e_def p_def F_def)
    note ex = float_divide_exponent [of a b, folded e_def]
    have q: "q = round_half_even (a * 2 ^ e) b" by (simp add: q_def e_def float_divide_def Let_def)
    have "q \<le> 2 ^ 53" unfolding q using ex(3) False assms by (intro round_half_even_le) (auto simp: mult.commute)
    then have "q * 100 < 2 ^ 60" by simp
    then have "bit_width (q * 100) \<le> 60" by (simp only: bit_width_le_iff)
    then have "(2 :: nat) ^ s \<le> 2 ^ 7" by (intro power_increasing) (simp_all add: s_def)
    then have s: "(2 :: nat) ^ s \<le> 128" by simp
    have "(2 :: nat) ^ 52 \<le> 2 ^ e" using ex(1) False assms by (intro power_increasing) simp_all
    then have e: "114 < (2 :: nat) ^ e" by simp
    have qb: "2 * (q * b) \<le> 2 * (a * 2 ^ e) + b" "2 * (a * 2 ^ e) \<le> 2 * (q * b) + b"
      unfolding q using round_half_even_near [OF assms(2)] by blast+
    have pq: "2 * p \<le> 200 * q + 128" "200 * q \<le> 2 * p + 128"
      unfolding p_def using round_half_even_near [of "2 ^ s" "q * 100"] s by simp_all
    have "2 * p * b \<le> (200 * q + 128) * b" "200 * q * b \<le> (2 * p + 128) * b" using pq by (simp_all only: mult_le_mono1)
    with qb have pb: "2 * (p * b) \<le> 200 * (a * 2 ^ e) + 228 * b" "200 * (a * 2 ^ e) \<le> 2 * (p * b) + 228 * b"
      by (simp_all add: algebra_simps)
    have less: "228 * b < 2 * (2 ^ e * b)" using e assms(2) by (simp add: mult.assoc [symmetric])
    have "F * 2 ^ e \<le> p" by (simp add: F_def)
    then have "F * 2 ^ e * b \<le> p * b" by (rule mult_le_mono1)
    moreover have "2 ^ e * (F * b) = F * 2 ^ e * b" "2 ^ e * (100 * a + b) = 100 * (a * 2 ^ e) + 2 ^ e * b"
      by (simp_all add: algebra_simps)
    ultimately have "2 ^ e * (F * b) < 2 ^ e * (100 * a + b)" using pb(1) less by linarith
    then have up: "F * b < 100 * a + b" by simp
    have "p < (F + 1) * 2 ^ e" using dividend_less_div_times [of "2 ^ e" p] by (simp add: F_def algebra_simps)
    then have "p * b \<le> (F + 1) * 2 ^ e * b" by (intro mult_le_mono1) simp
    moreover have "2 ^ e * (100 * a) = 100 * (a * 2 ^ e)" "2 ^ e * ((F + 2) * b) = (F + 1) * 2 ^ e * b + 2 ^ e * b"
      by (simp_all add: algebra_simps)
    ultimately have "2 ^ e * (100 * a) < 2 ^ e * ((F + 2) * b)" using pb(2) less by linarith
    then have "100 * a < (F + 2) * b" by simp
    with up show ?thesis by (simp add: F)
  qed
  then show "float_percent a b * b < 100 * a + b" "100 * a < (float_percent a b + 2) * b" by simp_all
qed

end
