(* ===== verification/Run_Payloads.thy ===== *)
theory Run_Payloads
  imports Executable_Plan
begin

text \<open>
  How \<open>TaskRunStore\<close> (\<open>services/runtime/task_run_store.py\<close>) writes the JSON document of a task run: texts
  are redacted, and large values under certain keys are moved out of the document into content-addressed
  files (\<open>services/runtime/runtime_payload_ref_store.py\<close>), leaving a reference. A full read puts them
  back (\<open>_hydrate_payload_refs\<close>); a lightweight read replaces them by empty values
  (\<open>_project_payload_refs_for_model\<close>).

  The digest, the size of the JSON text and the secret pattern are the record \<open>payload_env\<close>. A stored
  payload is its value with sorted keys, as \<open>json.dumps(..., sort_keys=True)\<close> writes it.
\<close>

record payload_env =
  payload_digest :: "json \<Rightarrow> str"
  json_size :: "json \<Rightarrow> nat"
  redact_secrets :: "str \<Rightarrow> str"

definition HEAVY_RUNTIME_KEYS :: "str list" where
  "HEAVY_RUNTIME_KEYS =
     [''artifacts'', ''artifact_semantic_profiles'', ''artifact_semantic_validations'', ''attribute_observations'',
      ''candidate_entity_set'', ''contract_observation_plan'', ''entities'', ''evidence_set'', ''knowledge_records'',
      ''metadata'', ''observation_execution_results'', ''observation_plan'', ''perception'', ''produced_artifacts'',
      ''provenance'', ''semantic_assertions'', ''semantic_self_review'', ''specialization_hypotheses'']"

definition SENSITIVE_KEYS :: "str list" where
  "SENSITIVE_KEYS =
     [''content'', ''raw'', ''raw_content'', ''full_prompt'', ''prompt'', ''full_model_output'', ''model_output'',
      ''password'', ''secret'', ''token'', ''api_key'']"

section \<open>Redaction\<close>

text \<open>The elements of a list are sanitized without a key.\<close>

fun sanitize :: "payload_env \<Rightarrow> str \<Rightarrow> json \<Rightarrow> json"
and sanitize_list :: "payload_env \<Rightarrow> json list \<Rightarrow> json list"
and sanitize_fields :: "payload_env \<Rightarrow> json dict \<Rightarrow> json dict" where
  "sanitize env key v =
     (if ascii_fold key \<in> set SENSITIVE_KEYS then JStr ''[omitted_by_task_run_store]''
      else case v of
        JObj kvs \<Rightarrow> JObj (sanitize_fields env kvs)
      | JList xs \<Rightarrow> JList (sanitize_list env xs)
      | JStr s \<Rightarrow> JStr (take 30000 (redact_secrets env s))
      | _ \<Rightarrow> v)"
| "sanitize_list env [] = []"
| "sanitize_list env (x # xs) = sanitize env [] x # sanitize_list env xs"
| "sanitize_fields env [] = []"
| "sanitize_fields env ((k, v) # kvs) = (k, sanitize env k v) # sanitize_fields env kvs"

section \<open>References\<close>

fun nat_str :: "nat \<Rightarrow> str" where
  "nat_str n = (if n < 10 then [char_of (48 + n)] else nat_str (n div 10) @ [char_of (48 + n mod 10)])"

text \<open>\<open>json.loads(json.dumps(v, sort_keys=True))\<close>.\<close>

fun sort_json :: "json \<Rightarrow> json"
and sort_list :: "json list \<Rightarrow> json list"
and sort_fields :: "json dict \<Rightarrow> json dict" where
  "sort_json (JObj kvs) = JObj (sort_key fst (sort_fields kvs))"
| "sort_json (JList xs) = JList (sort_list xs)"
| "sort_json v = v"
| "sort_list [] = []"
| "sort_list (x # xs) = sort_json x # sort_list xs"
| "sort_fields [] = []"
| "sort_fields ((k, v) # kvs) = (k, sort_json v) # sort_fields kvs"

definition LIGHT_ROW_KEYS :: "str list" where
  "LIGHT_ROW_KEYS =
     [''artifact_id'', ''logical_path'', ''status'', ''validation_status'', ''content_type'', ''size_bytes'', ''sha256'',
      ''entity_id'', ''canonical_key'', ''attribute_name'', ''capability_id'', ''backend_id'', ''confidence'',
      ''observation_state'', ''gap_type'', ''reason_code'']"

definition light_row :: "json \<Rightarrow> json" where
  "light_row v = (case v of JObj kvs \<Rightarrow> JObj (filter (\<lambda>(k, _). k \<in> set LIGHT_ROW_KEYS) kvs) | _ \<Rightarrow> v)"

text \<open>\<open>len(v)\<close> of a list or dictionary.\<close>

definition json_len :: "json \<Rightarrow> nat option" where
  "json_len v = (case v of JList xs \<Rightarrow> Some (length xs) | JObj kvs \<Rightarrow> Some (length kvs) | _ \<Rightarrow> None)"

definition jnat :: "nat option \<Rightarrow> json" where
  "jnat n = (case n of Some k \<Rightarrow> JInt (int k) | None \<Rightarrow> JNull)"

text \<open>Only lists and dictionaries are ever summarized.\<close>

definition payload_summary :: "json \<Rightarrow> json" where
  "payload_summary v =
     (case v of
        JList xs \<Rightarrow> JObj [(''type'', JStr ''list''), (''count'', JInt (int (length xs))),
          (''sample'', JList (map light_row (take 10 xs)))]
      | JObj kvs \<Rightarrow> JObj [(''type'', JStr ''dict''), (''keys'', jstrs (take 50 (sort (map fst kvs)))),
          (''counts'', JObj (map (\<lambda>(k, w). (k, jnat (json_len w))) (filter (\<lambda>(k, w). json_len w \<noteq> None) kvs)))]
      | _ \<Rightarrow> JObj [(''type'', JStr [])])"

definition ref_path :: "str \<Rightarrow> str \<Rightarrow> str" where
  "ref_path run digest = run @ ''/payload_refs/'' @ digest @ ''.json''"

definition payload_ref :: "payload_env \<Rightarrow> str \<Rightarrow> str \<Rightarrow> str \<Rightarrow> json \<Rightarrow> json" where
  "payload_ref env run key path v =
     (let d = payload_digest env (sort_json v)
      in JObj [(''content_ref'', JStr (ref_path run d)), (''hash'', JStr d), (''sha256'', JStr d),
           (''size_bytes'', JInt (int (json_size env (sort_json v)))), (''record_count'', jnat (json_len v)),
           (''reason_code'', JStr ''RUNTIME_PAYLOAD_SPILLED_TO_REF''), (''path'', JStr path), (''key'', JStr key),
           (''summary'', payload_summary v)])"

text \<open>\<open>write_payload_ref\<close>: a file that exists already is kept.\<close>

definition write_payload :: "payload_env \<Rightarrow> str \<Rightarrow> json \<Rightarrow> json dict \<Rightarrow> json dict" where
  "write_payload env run v refs =
     (let p = ref_path run (payload_digest env (sort_json v))
      in if map_of refs p = None then refs @ [(p, sort_json v)] else refs)"

definition should_spill :: "payload_env \<Rightarrow> json \<Rightarrow> bool" where
  "should_spill env v \<longleftrightarrow> (case v of JList xs \<Rightarrow> 100 < length xs | _ \<Rightarrow> False) \<or> 250000 < json_size env v"

definition spills :: "payload_env \<Rightarrow> str \<Rightarrow> json \<Rightarrow> bool" where
  "spills env key v \<longleftrightarrow> key \<in> set HEAVY_RUNTIME_KEYS \<and> should_spill env v"

text \<open>\<open>_lighten_for_inline\<close> for a document of a run: the value that stays and the payloads written.\<close>

fun lighten :: "payload_env \<Rightarrow> str \<Rightarrow> str \<Rightarrow> str \<Rightarrow> json \<Rightarrow> json dict \<Rightarrow> json \<times> json dict"
and lighten_list :: "payload_env \<Rightarrow> str \<Rightarrow> str \<Rightarrow> str \<Rightarrow> nat \<Rightarrow> json list \<Rightarrow> json dict \<Rightarrow> json list \<times> json dict"
and lighten_fields :: "payload_env \<Rightarrow> str \<Rightarrow> str \<Rightarrow> json dict \<Rightarrow> json dict \<Rightarrow> json dict \<times> json dict" where
  "lighten env run key path (JObj kvs) refs =
     (if spills env key (JObj kvs) then (payload_ref env run key path (JObj kvs), write_payload env run (JObj kvs) refs)
      else let (kvs', refs') = lighten_fields env run path kvs refs in (JObj kvs', refs'))"
| "lighten env run key path (JList xs) refs =
     (if spills env key (JList xs) then (payload_ref env run key path (JList xs), write_payload env run (JList xs) refs)
      else let (xs', refs') = lighten_list env run key path 0 xs refs in (JList xs', refs'))"
| "lighten env run key path v refs = (v, refs)"
| "lighten_list env run key path n [] refs = ([], refs)"
| "lighten_list env run key path n (x # xs) refs =
     (let (x', refs1) = lighten env run key (path @ ''['' @ nat_str n @ '']'') x refs;
          (xs', refs2) = lighten_list env run key path (Suc n) xs refs1
      in (x' # xs', refs2))"
| "lighten_fields env run path [] refs = ([], refs)"
| "lighten_fields env run path ((k, v) # kvs) refs =
     (let (v', refs1) = lighten env run k (if path \<noteq> [] then path @ ''/'' @ k else k) v refs;
          (kvs', refs2) = lighten_fields env run path kvs refs1
      in ((k, v') # kvs', refs2))"

text \<open>\<open>_write\<close> of \<open>run.json\<close>.\<close>

definition save_document :: "payload_env \<Rightarrow> str \<Rightarrow> json \<Rightarrow> json dict \<Rightarrow> json \<times> json dict" where
  "save_document env run v refs = lighten env run [] [] (sanitize env [] v) refs"

section \<open>Reading\<close>

definition json_text :: "json \<Rightarrow> str option" where
  "json_text v = (case v of JStr s \<Rightarrow> Some s | _ \<Rightarrow> None)"

definition is_spilled_payload_ref :: "json dict \<Rightarrow> bool" where
  "is_spilled_payload_ref kvs \<longleftrightarrow>
     json_text (json_get ''content_ref'' kvs) \<noteq> None \<and>
     json_text (json_get ''reason_code'' kvs) = Some ''RUNTIME_PAYLOAD_SPILLED_TO_REF'' \<and>
     json_text (json_get ''hash'' kvs) \<noteq> None"

text \<open>
  \<open>read_payload_ref\<close> of a reference the store has written: it names the file relative to the root. A
  reference whose file is missing stays in place.
\<close>

fun hydrate :: "json dict \<Rightarrow> json \<Rightarrow> json"
and hydrate_list :: "json dict \<Rightarrow> json list \<Rightarrow> json list"
and hydrate_fields :: "json dict \<Rightarrow> json dict \<Rightarrow> json dict" where
  "hydrate refs (JObj kvs) =
     (if is_spilled_payload_ref kvs then
        (case map_of refs (the (json_text (json_get ''content_ref'' kvs))) of
           Some v \<Rightarrow> if v = JNull then JObj kvs else v
         | None \<Rightarrow> JObj kvs)
      else JObj (hydrate_fields refs kvs))"
| "hydrate refs (JList xs) = JList (hydrate_list refs xs)"
| "hydrate refs v = v"
| "hydrate_list refs [] = []"
| "hydrate_list refs (x # xs) = hydrate refs x # hydrate_list refs xs"
| "hydrate_fields refs [] = []"
| "hydrate_fields refs ((k, v) # kvs) = (k, hydrate refs v) # hydrate_fields refs kvs"

fun project_refs :: "json \<Rightarrow> json"
and project_list :: "json list \<Rightarrow> json list"
and project_fields :: "json dict \<Rightarrow> json dict" where
  "project_refs (JObj kvs) =
     (if is_spilled_payload_ref kvs then
        (let summary = json_dict (json_get ''summary'' kvs); type = json_text (json_get ''type'' summary)
         in if type = Some ''list'' then JList [] else if type = Some ''dict'' then JObj [] else JNull)
      else JObj (project_fields kvs))"
| "project_refs (JList xs) = JList (project_list xs)"
| "project_refs v = v"
| "project_list [] = []"
| "project_list (x # xs) = project_refs x # project_list xs"
| "project_fields [] = []"
| "project_fields ((k, v) # kvs) = (k, project_refs v) # project_fields kvs"

section \<open>The files of a run\<close>

text \<open>
  The directory of a run: \<open>run.json\<close>, \<open>run_index.json\<close> and the files of \<open>payload_refs\<close>. A run is the document
  \<open>model_dump\<close> gives; \<open>model_validate\<close> of a stored document is not modelled.
\<close>

record run_files =
  run_json :: "json option"
  run_index :: "json option"
  payload_files :: "json dict"

text \<open>\<open>data.get("mission_binding").get(k)\<close>, or nothing without a mission.\<close>

definition mission_field :: "str \<Rightarrow> json dict \<Rightarrow> json" where
  "mission_field k d = json_get k (json_dict (json_get ''mission_binding'' d))"

definition run_index_payload :: "str \<Rightarrow> json dict \<Rightarrow> json dict" where
  "run_index_payload run d =
     (let get = (\<lambda>k. (k, json_get k d))
      in [(''run_id'', JStr run), get ''task_id'', get ''task_run_id'', get ''operation_id'', get ''session_id'',
          get ''source_message_id'', (''mission_id'', mission_field ''mission_id'' d),
          (''mission_authority_sha256'', mission_field ''authority_sha256'' d),
          (''mission_revision'', mission_field ''revision'' d), get ''workspace'', get ''contract_type'',
          get ''operation_type'', get ''runtime_profile'', get ''draft_id'', get ''approval_id'', get ''status'',
          get ''current_phase'', get ''current_step_id'', get ''auto_run_requested'', get ''created_at'',
          get ''started_at'', get ''finished_at'', get ''revision''])"

definition update_run :: "payload_env \<Rightarrow> str \<Rightarrow> json dict \<Rightarrow> run_files \<Rightarrow> run_files" where
  "update_run env run d st =
     (let (doc, refs) = save_document env run (JObj d) (payload_files st)
      in st\<lparr>run_json := Some doc, payload_files := refs,
            run_index := Some (sanitize env [] (JObj (run_index_payload run d)))\<rparr>)"

definition get_run :: "run_files \<Rightarrow> json option" where
  "get_run st =
     (case run_json st of
        Some (JObj d) \<Rightarrow> Some (hydrate (payload_files st) (JObj d))
      | other \<Rightarrow> other)"

definition get_run_lightweight :: "run_files \<Rightarrow> json option" where
  "get_run_lightweight st =
     (case run_json st of Some (JObj d) \<Rightarrow> Some (project_refs (JObj d)) | _ \<Rightarrow> None)"

text \<open>\<open>create_run\<close> refuses a run that exists: \<open>task_run_already_exists\<close> is \<open>None\<close>.\<close>

definition create_run :: "payload_env \<Rightarrow> str \<Rightarrow> json dict \<Rightarrow> run_files \<Rightarrow> run_files option" where
  "create_run env run d st =
     (case get_run st of Some v \<Rightarrow> if json_truthy v then None else Some (update_run env run d st)
      | None \<Rightarrow> Some (update_run env run d st))"

text \<open>\<open>_cohere_terminal_result\<close>: \<open>now\<close> is the current time; the document is rewritten as it stands.\<close>

definition cohere_terminal_result :: "payload_env \<Rightarrow> str \<Rightarrow> str \<Rightarrow> str \<Rightarrow> run_files \<Rightarrow> run_files" where
  "cohere_terminal_result env now run result_status st =
     (if result_status \<notin> {''completed'', ''completed_with_limitations'', ''partial'', ''failed'', ''cancelled'', ''blocked''}
      then st
      else case run_json st of
        Some (JObj d) \<Rightarrow>
          (let run_status = (if result_status = ''completed_with_limitations'' then ''partial'' else result_status);
               d1 = (if json_get ''status'' d \<noteq> JStr run_status then AList.update ''status'' (JStr run_status) d else d);
               d2 = (if \<not> json_truthy (json_get ''finished_at'' d1) then AList.update ''finished_at'' (JStr now) d1 else d1);
               d3 = (if json_get ''current_step_id'' d2 \<noteq> JNull then AList.update ''current_step_id'' JNull d2 else d2)
           in if json_get ''status'' d \<noteq> JStr run_status \<or> \<not> json_truthy (json_get ''finished_at'' d1) \<or>
                 json_get ''current_step_id'' d2 \<noteq> JNull
              then update_run env run
                (AList.update ''revision''
                  (JInt ((case json_get ''revision'' d3 of JInt n \<Rightarrow> n | _ \<Rightarrow> 0) + 1)) d3) st
              else st)
      | _ \<Rightarrow> st)"

section \<open>Sorted values\<close>

lemma sort_fields_map: "sort_fields kvs = map (\<lambda>(k, v). (k, sort_json v)) kvs"
  by (induction kvs) auto

lemma sort_list_map: "sort_list xs = map sort_json xs"
  by (induction xs) auto

lemma sort_json_idem: "sort_json (sort_json v) = sort_json v"
proof (induction v)
  case (JObj kvs)
  let ?s = "sort_key fst (sort_fields kvs)"
  have "sort_fields ?s = ?s"
    unfolding sort_fields_map by (rule map_idI) (use JObj in \<open>auto simp: snds.simps\<close>)
  then show ?case by (simp add: sort_key_id_if_sorted)
qed (simp_all add: sort_list_map)

lemma sort_json_not_null: "sort_json v = JNull \<longleftrightarrow> v = JNull"
  by (cases v) auto

section \<open>The payload store\<close>

text \<open>Every stored payload stands under its own digest; \<open>S\<close> holds the values that are stored.\<close>

definition content_ok :: "payload_env \<Rightarrow> str \<Rightarrow> json set \<Rightarrow> json dict \<Rightarrow> bool" where
  "content_ok env run S refs \<longleftrightarrow>
     (\<forall>p c. map_of refs p = Some c \<longrightarrow>
        (\<exists>v\<in>S. c = sort_json v \<and> p = ref_path run (payload_digest env (sort_json v))))"

definition collision_free :: "payload_env \<Rightarrow> json set \<Rightarrow> bool" where
  "collision_free env S \<longleftrightarrow> inj_on (payload_digest env) (sort_json ` S)"

lemma write_payload_spec:
  assumes "content_ok env run S refs" and "collision_free env S" and "v \<in> S"
  shows "map_of (write_payload env run v refs) (ref_path run (payload_digest env (sort_json v))) = Some (sort_json v) \<and>
    map_of refs \<subseteq>\<^sub>m map_of (write_payload env run v refs) \<and> content_ok env run S (write_payload env run v refs)"
proof (cases "map_of refs (ref_path run (payload_digest env (sort_json v)))")
  case None
  let ?p = "ref_path run (payload_digest env (sort_json v))"
  have w: "map_of (write_payload env run v refs) q = (if q = ?p then Some (sort_json v) else map_of refs q)" for q
    using None by (auto simp: write_payload_def Let_def map_of_append map_add_def split: option.splits)
  then show ?thesis using assms(1,3) None by (auto simp: content_ok_def map_le_def dom_def)
next
  case (Some c)
  from assms(1) Some obtain u where u: "u \<in> S" "c = sort_json u"
      "ref_path run (payload_digest env (sort_json v)) = ref_path run (payload_digest env (sort_json u))"
    unfolding content_ok_def by blast
  then have "payload_digest env (sort_json v) = payload_digest env (sort_json u)" by (simp add: ref_path_def)
  then have "sort_json v = sort_json u" using assms(2,3) u(1) by (auto simp: collision_free_def dest: inj_onD)
  then show ?thesis using assms(1) Some u(2) by (simp add: write_payload_def)
qed

fun parts :: "json \<Rightarrow> json list"
and parts_list :: "json list \<Rightarrow> json list"
and parts_fields :: "json dict \<Rightarrow> json list" where
  "parts (JObj kvs) = JObj kvs # parts_fields kvs"
| "parts (JList xs) = JList xs # parts_list xs"
| "parts v = [v]"
| "parts_list [] = []"
| "parts_list (x # xs) = parts x @ parts_list xs"
| "parts_fields [] = []"
| "parts_fields ((k, v) # kvs) = parts v @ parts_fields kvs"

text \<open>No part of the value looks like a reference.\<close>

fun no_refs :: "json \<Rightarrow> bool"
and no_refs_list :: "json list \<Rightarrow> bool"
and no_refs_fields :: "json dict \<Rightarrow> bool" where
  "no_refs (JObj kvs) = (\<not> is_spilled_payload_ref kvs \<and> no_refs_fields kvs)"
| "no_refs (JList xs) = no_refs_list xs"
| "no_refs v = True"
| "no_refs_list [] = True"
| "no_refs_list (x # xs) = (no_refs x \<and> no_refs_list xs)"
| "no_refs_fields [] = True"
| "no_refs_fields ((k, v) # kvs) = (no_refs v \<and> no_refs_fields kvs)"

lemma payload_ref_spilled:
  assumes "payload_ref env run key path v = JObj kvs"
  shows "is_spilled_payload_ref kvs" "json_get ''content_ref'' kvs = JStr (ref_path run (payload_digest env (sort_json v)))"
    "json_get ''summary'' kvs = payload_summary v"
  using assms by (auto simp: payload_ref_def Let_def is_spilled_payload_ref_def json_get_def json_text_def)

lemma hydrate_ref:
  assumes "map_of R (ref_path run (payload_digest env (sort_json v))) = Some c" and "c \<noteq> JNull"
  shows "hydrate R (payload_ref env run key path v) = c"
proof -
  obtain kvs where kvs: "payload_ref env run key path v = JObj kvs" by (simp add: payload_ref_def Let_def)
  show ?thesis unfolding kvs using payload_ref_spilled [OF kvs] assms by (simp add: json_text_def)
qed

lemma spilled_cong:
  "\<forall>k. json_text (json_get k kvs') = json_text (json_get k kvs) \<Longrightarrow> is_spilled_payload_ref kvs' = is_spilled_payload_ref kvs"
  by (simp add: is_spilled_payload_ref_def)

lemma json_get_Cons: "json_get k ((k', v) # kvs) = (if k = k' then v else json_get k kvs)"
  by (simp add: json_get_def)

text \<open>What was written can be read back, from any later state of the payload store.\<close>

definition written ::
    "payload_env \<Rightarrow> str \<Rightarrow> json set \<Rightarrow> json dict \<Rightarrow> json dict \<Rightarrow> bool" where
  "written env run S refs refs' \<longleftrightarrow> content_ok env run S refs' \<and> map_of refs \<subseteq>\<^sub>m map_of refs'"

definition keeps_texts :: "json dict \<Rightarrow> json dict \<Rightarrow> bool" where
  "keeps_texts kvs kvs' \<longleftrightarrow> (\<forall>k. json_text (json_get k kvs') = json_text (json_get k kvs))"

lemma written_refl: "content_ok env run S refs \<Longrightarrow> written env run S refs refs"
  by (simp add: written_def)

lemma written_trans:
  "written env run S refs refs1 \<Longrightarrow> written env run S refs1 refs2 \<Longrightarrow> written env run S refs refs2"
  unfolding written_def by (blast intro: map_le_trans)

lemma written_ok: "written env run S refs refs' \<Longrightarrow> content_ok env run S refs'"
  by (simp add: written_def)

lemma written_later: "written env run S refs refs' \<Longrightarrow> map_of refs' \<subseteq>\<^sub>m R \<Longrightarrow> map_of refs \<subseteq>\<^sub>m R"
  unfolding written_def by (blast intro: map_le_trans)

text \<open>A value that is spilled is read back from its file.\<close>

lemma spill_hydrate:
  assumes "content_ok env run S refs" and "collision_free env S" and "v \<in> S" and "v \<noteq> JNull"
  shows "written env run S refs (write_payload env run v refs)"
    and "map_of (write_payload env run v refs) \<subseteq>\<^sub>m map_of R \<Longrightarrow>
      sort_json (hydrate R (payload_ref env run key path v)) = sort_json v"
proof -
  note spec = write_payload_spec [OF assms(1-3)]
  show "written env run S refs (write_payload env run v refs)" using spec by (simp add: written_def)
  assume "map_of (write_payload env run v refs) \<subseteq>\<^sub>m map_of R"
  then have "map_of R (ref_path run (payload_digest env (sort_json v))) = Some (sort_json v)"
    using spec by (metis domI map_le_def)
  then show "sort_json (hydrate R (payload_ref env run key path v)) = sort_json v"
    using assms(4) by (simp add: hydrate_ref sort_json_idem sort_json_not_null)
qed

lemma json_text_simps [simp]:
  "json_text (JObj kvs) = None" "json_text (JList xs) = None" "json_text (JStr s) = Some s"
  by (simp_all add: json_text_def)

lemma payload_ref_text: "json_text (payload_ref env run key path v) = None"
  by (simp add: payload_ref_def Let_def json_text_def)

lemma lighten_hydrate:
  shows "collision_free env S \<Longrightarrow> content_ok env run S refs \<Longrightarrow> set (parts v) \<subseteq> S \<Longrightarrow> no_refs v \<Longrightarrow>
      lighten env run key path v refs = (v', refs') \<Longrightarrow>
      written env run S refs refs' \<and> json_text v' = json_text v \<and>
      (\<forall>R. map_of refs' \<subseteq>\<^sub>m map_of R \<longrightarrow> sort_json (hydrate R v') = sort_json v)"
    and "collision_free env S \<Longrightarrow> content_ok env run S refs \<Longrightarrow> set (parts_list xs) \<subseteq> S \<Longrightarrow> no_refs_list xs \<Longrightarrow>
      lighten_list env run key path n xs refs = (xs', refs') \<Longrightarrow>
      written env run S refs refs' \<and> (\<forall>R. map_of refs' \<subseteq>\<^sub>m map_of R \<longrightarrow> sort_list (hydrate_list R xs') = sort_list xs)"
    and "collision_free env S \<Longrightarrow> content_ok env run S refs \<Longrightarrow> set (parts_fields kvs) \<subseteq> S \<Longrightarrow> no_refs_fields kvs \<Longrightarrow>
      lighten_fields env run path kvs refs = (kvs', refs') \<Longrightarrow>
      written env run S refs refs' \<and> keeps_texts kvs kvs' \<and>
      (\<forall>R. map_of refs' \<subseteq>\<^sub>m map_of R \<longrightarrow> sort_fields (hydrate_fields R kvs') = sort_fields kvs)"
proof (induction env run key path v refs and env run key path n xs refs and env run path kvs refs
    arbitrary: v' refs' and xs' refs' and kvs' refs' rule: lighten_lighten_list_lighten_fields.induct)
  case (1 env run key path kvs refs)
  show ?case
  proof (cases "spills env key (JObj kvs)")
    case True
    then show ?thesis using 1 spill_hydrate [of env run S refs "JObj kvs"]
      by (auto simp: payload_ref_text)
  next
    case False
    obtain kvs1 refs1 where r: "lighten_fields env run path kvs refs = (kvs1, refs1)" by (cases "lighten_fields env run path kvs refs")
    then have e: "v' = JObj kvs1" "refs' = refs1" using False "1.prems"(5) by auto
    have "set (parts_fields kvs) \<subseteq> S" "no_refs_fields kvs" "\<not> is_spilled_payload_ref kvs" using "1.prems"(3,4) by auto
    moreover note IH = "1.IH" [OF False "1.prems"(1,2) calculation(1,2) r]
    moreover have "is_spilled_payload_ref kvs1 = is_spilled_payload_ref kvs"
      using IH by (intro spilled_cong) (simp add: keeps_texts_def)
    ultimately show ?thesis unfolding e by simp
  qed
next
  case (2 env run key path xs refs)
  show ?case
  proof (cases "spills env key (JList xs)")
    case True
    then show ?thesis using 2 spill_hydrate [of env run S refs "JList xs"]
      by (auto simp: payload_ref_text)
  next
    case False
    obtain xs1 refs1 where r: "lighten_list env run key path 0 xs refs = (xs1, refs1)"
      by (cases "lighten_list env run key path 0 xs refs")
    then have e: "v' = JList xs1" "refs' = refs1" using False "2.prems"(5) by auto
    have "set (parts_list xs) \<subseteq> S" "no_refs_list xs" using "2.prems"(3,4) by auto
    from "2.IH" [OF False "2.prems"(1,2) this r] show ?thesis unfolding e by simp
  qed
next
  case (5 env run key path n x xs refs)
  obtain x1 refs1 where r1: "lighten env run key (path @ ''['' @ nat_str n @ '']'') x refs = (x1, refs1)" by fastforce
  obtain xs2 refs2 where r2: "lighten_list env run key path (Suc n) xs refs1 = (xs2, refs2)" by fastforce
  have e: "xs' = x1 # xs2" "refs' = refs2" using r1 r2 "5.prems"(5) by auto
  have p: "set (parts x) \<subseteq> S" "no_refs x" "set (parts_list xs) \<subseteq> S" "no_refs_list xs" using "5.prems"(3,4) by auto
  note h = "5.IH"(1) [OF "5.prems"(1,2) p(1,2) r1]
  note t = "5.IH"(2) [OF r1 [symmetric] refl "5.prems"(1) written_ok p(3,4) r2]
  from h have w: "written env run S refs refs1" by blast
  note t' = t [OF w]
  show ?case unfolding e using h t' w by (auto intro: written_trans dest: written_later)
next
  case (7 env run path k v kvs refs)
  let ?p = "if path \<noteq> [] then path @ ''/'' @ k else k"
  obtain v1 refs1 where r1: "lighten env run k ?p v refs = (v1, refs1)" by fastforce
  obtain kvs2 refs2 where r2: "lighten_fields env run path kvs refs1 = (kvs2, refs2)" by fastforce
  have e: "kvs' = (k, v1) # kvs2" "refs' = refs2" using r1 r2 "7.prems"(5) by auto
  have p: "set (parts v) \<subseteq> S" "no_refs v" "set (parts_fields kvs) \<subseteq> S" "no_refs_fields kvs" using "7.prems"(3,4) by auto
  note h = "7.IH"(1) [OF "7.prems"(1,2) p(1,2) r1]
  from h have w: "written env run S refs refs1" by blast
  note t' = "7.IH"(2) [OF r1 [symmetric] refl "7.prems"(1) written_ok [OF w] p(3,4) r2]
  have "keeps_texts ((k, v) # kvs) ((k, v1) # kvs2)" using h t' by (simp add: keeps_texts_def json_get_Cons)
  then show ?case unfolding e using h t' w by (auto intro: written_trans dest: written_later)
qed (auto simp: written_refl keeps_texts_def)

section \<open>Reading back a run\<close>

lemma top_level_key [simp]: "\<not> spills env [] v" "ascii_fold [] \<notin> set SENSITIVE_KEYS"
  by (simp_all add: spills_def HEAVY_RUNTIME_KEYS_def SENSITIVE_KEYS_def ascii_fold_def)

lemma update_run_doc:
  assumes "lighten_fields env run [] (sanitize_fields env d) (payload_files st) = (d', refs')"
  shows "run_json (update_run env run d st) = Some (JObj d')" "payload_files (update_run env run d st) = refs'"
  using assms by (simp_all add: update_run_def save_document_def)

text \<open>
  C24. A task run that is written and read in full is the run that was written, redacted, with its keys sorted:
  every payload moved to a file is read back from it, whatever files earlier writes of the run have left, as
  long as the digest has no collision among the values concerned and no value looks like a payload reference.
\<close>

theorem run_store_roundtrip:
  assumes "content_ok env run S (payload_files st)" and "collision_free env S"
    and "set (parts (sanitize env [] (JObj d))) \<subseteq> S" and "no_refs (sanitize env [] (JObj d))"
  shows "map_option sort_json (get_run (update_run env run d st)) = Some (sort_json (sanitize env [] (JObj d)))
    \<and> content_ok env run S (payload_files (update_run env run d st))"
proof -
  obtain d' refs' where l: "lighten_fields env run [] (sanitize_fields env d) (payload_files st) = (d', refs')" by fastforce
  then have "lighten env run [] [] (sanitize env [] (JObj d)) (payload_files st) = (JObj d', refs')"
    by simp
  from lighten_hydrate(1) [OF assms(2,1,3,4) this] show ?thesis
    by (simp add: get_run_def update_run_doc [OF l] written_def)
qed

section \<open>Writing back a lightweight read\<close>

lemma map_of_fields:
  "map_of (sanitize_fields env d) k = map_option (sanitize env k) (map_of d k)"
  "map_of (project_fields d) k = map_option project_refs (map_of d k)"
  "map_of (hydrate_fields R d) k = map_option (hydrate R) (map_of d k)"
  by (induction d) (auto simp del: sanitize.simps)

lemma map_of_lighten_fields:
  assumes "lighten_fields env run [] d refs = (d', refs')"
  shows "case map_of d k of None \<Rightarrow> map_of d' k = None
    | Some v \<Rightarrow> \<exists>refs1. map_of d' k = Some (fst (lighten env run k k v refs1))"
  using assms
proof (induction d arbitrary: refs d' refs')
  case (Cons kv d)
  obtain q v where kv: "kv = (q, v)" by fastforce
  obtain v1 refs1 where r1: "lighten env run q q v refs = (v1, refs1)" by fastforce
  obtain d2 refs2 where r2: "lighten_fields env run [] d refs1 = (d2, refs2)" by fastforce
  have d': "d' = (q, v1) # d2" using Cons.prems r1 r2 by (simp add: kv)
  show ?case
  proof (cases "k = q")
    case True
    then show ?thesis using arg_cong [OF r1, of fst] by (auto simp: kv d')
  next
    case False
    then show ?thesis using Cons.IH [OF r2] by (cases "map_of d k") (auto simp: kv d')
  qed
qed simp

text \<open>A document without a key \<open>content_ref\<close> is no reference.\<close>

lemma no_content_ref: "map_of d ''content_ref'' = None \<Longrightarrow> \<not> is_spilled_payload_ref d"
  by (simp add: is_spilled_payload_ref_def json_get_def json_text_def)

lemma heavy_not_sensitive: "k \<in> set HEAVY_RUNTIME_KEYS \<Longrightarrow> ascii_fold k \<notin> set SENSITIVE_KEYS"
  unfolding HEAVY_RUNTIME_KEYS_def by (auto simp: SENSITIVE_KEYS_def ascii_fold_def)

lemma project_payload_ref: "project_refs (payload_ref env run key path (JList xs)) = JList []"
proof -
  obtain kvs where kvs: "payload_ref env run key path (JList xs) = JObj kvs" by (simp add: payload_ref_def Let_def)
  show ?thesis unfolding kvs using payload_ref_spilled [OF kvs] by (simp add: payload_summary_def json_dict_def json_get_def)
qed

text \<open>What a write leaves of the fields of a document.\<close>

lemma update_run_field:
  assumes "map_of d ''content_ref'' = None"
  obtains d' where "run_json (update_run env run d st) = Some (JObj d')" "\<not> is_spilled_payload_ref d'"
    "map_of d' ''content_ref'' = None"
    "\<And>k v. map_of d k = Some v \<Longrightarrow> \<exists>refs. map_of d' k = Some (fst (lighten env run k k (sanitize env k v) refs))"
proof -
  obtain d' refs' where l: "lighten_fields env run [] (sanitize_fields env d) (payload_files st) = (d', refs')" by fastforce
  note f = map_of_lighten_fields [OF l]
  have "map_of d' ''content_ref'' = None" using f [of "''content_ref''"] assms by (simp add: map_of_fields)
  moreover have "\<exists>refs. map_of d' k = Some (fst (lighten env run k k (sanitize env k v) refs))" if "map_of d k = Some v" for k v
    using f [of k] that by (simp add: map_of_fields del: sanitize.simps)
  ultimately show thesis using that [OF update_run_doc(1) [OF l]] no_content_ref by blast
qed

text \<open>
  A lightweight read is not a copy of the run: where a list has been moved to a payload file, writing the
  lightweight read back replaces it by an empty list, and a full read then returns the empty list.
\<close>

theorem lightweight_write_back_loses:
  assumes "map_of d ''content_ref'' = None" and "map_of d k = Some (JList xs)" and "k \<in> set HEAVY_RUNTIME_KEYS"
    and "should_spill env (JList (sanitize_list env xs))" and "\<not> should_spill env (JList [])"
    and "get_run_lightweight (update_run env run d st) = Some (JObj light)"
  shows "\<exists>d'. get_run (update_run env run light (update_run env run d st)) = Some (JObj d') \<and> json_get k d' = JList []"
proof -
  let ?st = "update_run env run d st"
  from update_run_field [OF assms(1)] obtain d1 where d1:
      "run_json ?st = Some (JObj d1)" "\<not> is_spilled_payload_ref d1" "map_of d1 ''content_ref'' = None"
      "\<And>k v. map_of d k = Some v \<Longrightarrow> \<exists>refs. map_of d1 k = Some (fst (lighten env run k k (sanitize env k v) refs))"
    by metis
  have light: "light = project_fields d1" using assms(6) d1(1,2) by (simp add: get_run_lightweight_def)
  from d1(4) [OF assms(2)] have "map_of d1 k = Some (payload_ref env run k k (JList (sanitize_list env xs)))"
    using assms(3,4) heavy_not_sensitive [OF assms(3)] by (auto simp: spills_def)
  then have k: "map_of light k = Some (JList [])" unfolding light by (simp add: map_of_fields project_payload_ref)
  have "map_of light ''content_ref'' = None" unfolding light using d1(3) by (simp add: map_of_fields)
  from update_run_field [OF this] obtain d2 where d2:
      "run_json (update_run env run light ?st) = Some (JObj d2)" "\<not> is_spilled_payload_ref d2"
      "\<And>k v. map_of light k = Some v \<Longrightarrow> \<exists>refs. map_of d2 k = Some (fst (lighten env run k k (sanitize env k v) refs))"
    by metis
  from d2(3) [OF k] have "map_of d2 k = Some (JList [])"
    using assms(5) heavy_not_sensitive [OF assms(3)] by (auto simp: spills_def)
  then show ?thesis using d2(1,2) by (simp add: get_run_def map_of_fields json_get_def)
qed

section \<open>Examples\<close>

text \<open>A digest that tells the values of the run apart, a size of zero: the list of 101 artifacts is moved out, the status is not.\<close>

definition sample_env :: payload_env where
  "sample_env =
     \<lparr>payload_digest = (\<lambda>v. case v of JList _ \<Rightarrow> ''a'' | JObj _ \<Rightarrow> ''b'' | JStr _ \<Rightarrow> ''c'' | _ \<Rightarrow> ''d''), json_size = (\<lambda>_. 0),
      redact_secrets = id\<rparr>"

definition sample_run :: "json dict" where
  "sample_run = [(''status'', JStr ''running''), (''artifacts'', JList (replicate 101 (JInt 1)))]"

definition empty_files :: run_files where
  "empty_files = \<lparr>run_json = None, run_index = None, payload_files = []\<rparr>"

lemma sanitize_replicate: "sanitize_list env (replicate n (JInt i)) = replicate n (JInt i)"
  by (induction n) auto

lemma sanitize_sample: "sanitize_fields sample_env sample_run = sample_run"
  by (simp add: sample_run_def sanitize_replicate sample_env_def SENSITIVE_KEYS_def ascii_fold_def)

lemma parts_replicate: "set (parts_list (replicate n (JInt i))) \<subseteq> {JInt i}"
  by (induction n) auto

lemma no_refs_replicate: "no_refs_list (replicate n (JInt i))"
  by (induction n) auto

lemma sample_spills: "should_spill sample_env (JList (sanitize_list sample_env (replicate 101 (JInt 1))))"
    "\<not> should_spill sample_env (JList [])"
  by (simp_all add: should_spill_def sanitize_replicate sample_env_def)

theorem lightweight_write_back_loses_witness:
  "\<exists>light d'. get_run_lightweight (update_run sample_env ''r'' sample_run empty_files) = Some (JObj light) \<and>
    get_run (update_run sample_env ''r'' light (update_run sample_env ''r'' sample_run empty_files)) = Some (JObj d') \<and>
    json_get ''artifacts'' d' = JList []"
proof -
  have n: "map_of sample_run ''content_ref'' = None" "map_of sample_run ''artifacts'' = Some (JList (replicate 101 (JInt 1)))"
    by (simp_all add: sample_run_def)
  obtain d1 where d1: "run_json (update_run sample_env ''r'' sample_run empty_files) = Some (JObj d1)"
      "\<not> is_spilled_payload_ref d1"
    using update_run_field [OF n(1)] by metis
  then have light: "get_run_lightweight (update_run sample_env ''r'' sample_run empty_files) = Some (JObj (project_fields d1))"
    by (simp add: get_run_lightweight_def)
  have "''artifacts'' \<in> set HEAVY_RUNTIME_KEYS" by (simp add: HEAVY_RUNTIME_KEYS_def)
  from lightweight_write_back_loses [OF n this sample_spills light] light show ?thesis by blast
qed

theorem run_store_roundtrip_witness:
  "map_option sort_json (get_run (update_run sample_env ''r'' sample_run empty_files)) = Some (sort_json (JObj sample_run))"
proof -
  let ?S = "set (parts (JObj sample_run))"
  have s: "sanitize sample_env [] (JObj sample_run) = JObj sample_run" by (simp add: sanitize_sample)
  have "?S \<subseteq> {JObj sample_run, JStr ''running'', JList (replicate 101 (JInt 1)), JInt 1}"
    using parts_replicate [of 101 1] by (auto simp: sample_run_def)
  moreover have "inj_on (payload_digest sample_env)
      (sort_json ` {JObj sample_run, JStr ''running'', JList (replicate 101 (JInt 1)), JInt 1})"
    by (simp add: sample_env_def)
  ultimately have "collision_free sample_env ?S"
    unfolding collision_free_def by (meson image_mono inj_on_subset)
  moreover have "content_ok sample_env ''r'' ?S (payload_files empty_files)" by (simp add: content_ok_def empty_files_def)
  moreover have "no_refs (JObj sample_run)"
    by (simp add: sample_run_def no_refs_replicate is_spilled_payload_ref_def json_get_def json_text_def)
  ultimately show ?thesis using run_store_roundtrip [of sample_env "''r''" ?S empty_files sample_run] unfolding s by simp
qed

end
