(* ===== verification/Graph_Search.thy ===== *)
theory Graph_Search
  imports Prelude
begin

text \<open>
  The two graph loops of \<open>ExecutionGraphService\<close> (\<open>services/runtime/execution_graph_service.py\<close>):
  \<open>_is_acyclic\<close>, which removes nodes without incoming edges until none is left, and
  \<open>_downstream_node_ids\<close>, a search with an explicit stack. Both are \<open>while\<close> loops over a worklist, so
  each is a recursive function with its termination proof, and each is then shown to compute the
  graph-theoretic notion: acyclicity of the edge relation, and reachability.

  A worklist is a list whose head is the end Python pops from. A graph is its list of edges.
\<close>

type_synonym edges = "(str \<times> str) list"

section \<open>Removing nodes without incoming edges\<close>

text \<open>The inner \<open>for\<close> loop: one counter less for every outgoing edge, new zeros go on the worklist.\<close>

fun relax :: "str list \<Rightarrow> (str \<Rightarrow> int) \<Rightarrow> str list \<Rightarrow> (str \<Rightarrow> int) \<times> str list" where
  "relax [] incoming ready = (incoming, ready)"
| "relax (t # ts) incoming ready =
     (let incoming' = incoming(t := incoming t - 1)
      in relax ts incoming' (if incoming' t = 0 then t # ready else ready))"

definition outgoing :: "edges \<Rightarrow> str \<Rightarrow> str list" where
  "outgoing es u = map snd (filter (\<lambda>e. fst e = u) es)"

definition incoming_count :: "edges \<Rightarrow> str \<Rightarrow> int" where
  "incoming_count es v = int (length (filter (\<lambda>e. snd e = v) es))"

text \<open>The sum of the positive counters over the targets of edges: it drops with every new zero.\<close>

definition pending_total :: "edges \<Rightarrow> (str \<Rightarrow> int) \<Rightarrow> nat" where
  "pending_total es incoming = (\<Sum>v\<in>set (map snd es). nat (incoming v))"

lemma relax_total:
  assumes "set ts \<subseteq> set (map snd es)" and "relax ts incoming ready = (incoming', ready')"
  shows "pending_total es incoming' \<le> pending_total es incoming \<and>
    (ready' \<noteq> ready \<longrightarrow> pending_total es incoming' < pending_total es incoming)"
  using assms
proof (induction ts arbitrary: incoming ready)
  case (Cons t ts)
  let ?in = "incoming(t := incoming t - 1)"
  let ?V = "set (map snd es)"
  have t: "t \<in> ?V" using Cons.prems(1) by simp
  have sum: "pending_total es ?in + nat (incoming t) = pending_total es incoming + nat (incoming t - 1)"
  proof -
    have "(\<Sum>v\<in>?V - {t}. nat (?in v)) = (\<Sum>v\<in>?V - {t}. nat (incoming v))" by (intro sum.cong) auto
    then show ?thesis unfolding pending_total_def using t by (simp only: sum.remove [OF finite_set t]) simp
  qed
  have step: "pending_total es ?in \<le> pending_total es incoming"
    "incoming t - 1 = 0 \<Longrightarrow> pending_total es ?in < pending_total es incoming"
    using sum by auto
  define r where "r = (if incoming t - 1 = 0 then t # ready else ready)"
  have "relax ts ?in r = (incoming', ready')" using Cons.prems(2) by (simp add: r_def)
  moreover have "set ts \<subseteq> ?V" using Cons.prems(1) by simp
  ultimately have "pending_total es incoming' \<le> pending_total es ?in"
    "ready' \<noteq> r \<Longrightarrow> pending_total es incoming' < pending_total es ?in" using Cons.IH by blast+
  moreover have "ready' \<noteq> ready \<Longrightarrow> ready' = r \<Longrightarrow> incoming t - 1 = 0" by (auto simp: r_def split: if_splits)
  ultimately show ?case using step by (meson le_trans order_le_less_trans order_less_le_trans)
qed simp

lemma set_outgoing: "set (outgoing es u) \<subseteq> set (map snd es)"
  by (auto simp: outgoing_def)

function kahn :: "edges \<Rightarrow> (str \<Rightarrow> int) \<Rightarrow> str list \<Rightarrow> nat \<Rightarrow> nat" where
  "kahn es incoming [] visited = visited"
| "kahn es incoming (u # ready) visited =
     (case relax (outgoing es u) incoming ready of
        (incoming', ready') \<Rightarrow> kahn es incoming' ready' (Suc visited))"
  by pat_completeness auto

termination
proof (relation "measures [\<lambda>(es, incoming, ready, visited). pending_total es incoming,
    \<lambda>(es, incoming, ready, visited). length ready]", goal_cases)
  case (2 es incoming u ready visited incoming' ready')
  then have "relax (outgoing es u) incoming ready = (incoming', ready')" by simp
  from relax_total [OF set_outgoing this] show ?case by auto
qed simp

definition is_acyclic_edges :: "str list \<Rightarrow> edges \<Rightarrow> bool" where
  "is_acyclic_edges ids es =
     (if \<not> list_all (\<lambda>(u, v). u \<in> set ids \<and> v \<in> set ids) es then False
      else kahn es (incoming_count es) (rev (filter (\<lambda>v. incoming_count es v = 0) (py_unique ids))) 0
             = length (py_unique ids))"

section \<open>Everything downstream of a node\<close>

function downstream :: "edges \<Rightarrow> str list \<Rightarrow> str list \<Rightarrow> str list" where
  "downstream es [] seen = seen"
| "downstream es (u # stack) seen =
     (if u \<in> set seen then downstream es stack seen
      else downstream es (rev (outgoing es u) @ stack) (seen @ [u]))"
  by pat_completeness auto

termination
proof (relation "measures [\<lambda>(es, stack, seen). card ((set stack \<union> snd ` set es) - set seen),
    \<lambda>(es, stack, seen). length stack]", goal_cases)
  case (2 es u stack seen)
  then have "set (u # stack) \<union> snd ` set es - set seen = set stack \<union> snd ` set es - set seen" by auto
  then show ?case by simp
next
  case (3 es u stack seen)
  then have "set (rev (outgoing es u) @ stack) \<union> snd ` set es - set (seen @ [u])
      \<subset> set (u # stack) \<union> snd ` set es - set seen"
    using set_outgoing [of es u] by auto
  then show ?case by (simp add: psubset_card_mono)
qed simp

section \<open>Acyclicity\<close>

text \<open>
  After the nodes in \<open>done\<close> have been removed, the counter of a node is the number of its incoming edges
  from nodes that are still there.
\<close>

definition count_from :: "edges \<Rightarrow> str set \<Rightarrow> str \<Rightarrow> int" where
  "count_from es done v = int (length (filter (\<lambda>e. snd e = v \<and> fst e \<notin> done) es))"

lemma count_from_zero: "count_from es done v = 0 \<longleftrightarrow> (\<forall>u. (u, v) \<in> set es \<longrightarrow> u \<in> done)"
  by (auto simp: count_from_def filter_empty_conv)

lemma count_from_insert:
  assumes "u \<notin> done"
  shows "count_from es done v = count_from es (insert u done) v + int (count_list (outgoing es u) v)"
  unfolding count_from_def outgoing_def using assms by (induction es) auto

lemma relax_spec:
  assumes "relax ts incoming ready = (incoming', ready')"
    and "\<And>t. t \<in> set ts \<Longrightarrow> int (count_list ts t) \<le> incoming t"
  shows "incoming' v = incoming v - int (count_list ts v) \<and>
    (v \<in> set ready' \<longleftrightarrow> v \<in> set ready \<or> v \<in> set ts \<and> incoming' v = 0) \<and>
    (distinct ready \<longrightarrow> (\<forall>t\<in>set ready. incoming t = 0) \<longrightarrow> distinct ready')"
  using assms
proof (induction ts arbitrary: incoming ready)
  case (Cons t ts)
  let ?in = "incoming(t := incoming t - 1)"
  define r where "r = (if incoming t - 1 = 0 then t # ready else ready)"
  have rel: "relax ts ?in r = (incoming', ready')" using Cons.prems(1) by (simp add: r_def)
  have le: "int (count_list ts x) \<le> ?in x" if "x \<in> set ts" for x
    using that Cons.prems(2) [of x] by (auto split: if_splits)
  note IH = Cons.IH [OF rel le]
  have val: "incoming' v = incoming v - int (count_list (t # ts) v)" using IH by auto
  have "v \<in> set ready' \<longleftrightarrow> v \<in> set ready \<or> v \<in> set (t # ts) \<and> incoming' v = 0"
  proof (cases "v = t")
    case True
    have "v \<in> set ts" if "incoming' v = 0" "incoming t - 1 \<noteq> 0"
      using that val True count_notin [of v ts] by fastforce
    then show ?thesis using IH True count_notin [of v ts] val Cons.prems(2) [of t] by (auto simp: r_def split: if_splits)
  qed (use IH in \<open>auto simp: r_def\<close>)
  moreover have "distinct ready'" if "distinct ready" "\<forall>x\<in>set ready. incoming x = 0"
  proof -
    have pos: "1 \<le> incoming t" using Cons.prems(2) [of t] by simp
    then have "t \<notin> set ready" using that(2) by auto
    then have "distinct r" "\<forall>x\<in>set r. ?in x = 0" using that by (auto simp: r_def)
    then show ?thesis using IH by blast
  qed
  ultimately show ?case using val by blast
qed simp

definition edge_rel :: "edges \<Rightarrow> (str \<times> str) set" where
  "edge_rel es = {(u, v). (u, v) \<in> set es}"

text \<open>
  The loop invariant: the removed nodes \<open>done\<close> and the worklist are exactly the nodes all of whose
  predecessors have been removed, and a rank of the removed nodes grows along every edge.
\<close>

definition kahn_inv :: "str list \<Rightarrow> edges \<Rightarrow> str set \<Rightarrow> (str \<Rightarrow> int) \<Rightarrow> str list \<Rightarrow> nat \<Rightarrow> bool" where
  "kahn_inv ids es done incoming ready visited \<longleftrightarrow>
     finite done \<and> done \<subseteq> set ids \<and> card done = visited \<and> distinct ready \<and> set ready \<inter> done = {} \<and>
     (\<forall>v\<in>set ids. incoming v = count_from es done v) \<and>
     (\<forall>v\<in>set ids. v \<in> done \<union> set ready \<longleftrightarrow> count_from es done v = 0) \<and> set ready \<subseteq> set ids \<and>
     (\<exists>rank. (\<forall>u\<in>done. rank u < visited) \<and> (\<forall>u v. (u, v) \<in> set es \<longrightarrow> v \<in> done \<longrightarrow> u \<in> done \<and> rank u < (rank v :: nat)))"

lemma kahn_inv_step:
  assumes "kahn_inv ids es done incoming (u # ready) visited"
    and "\<And>a b. (a, b) \<in> set es \<Longrightarrow> a \<in> set ids \<and> b \<in> set ids"
    and "relax (outgoing es u) incoming ready = (incoming', ready')"
  shows "kahn_inv ids es (insert u done) incoming' ready' (Suc visited)"
proof -
  let ?D = "insert u done"
  have u: "u \<notin> done" "u \<in> set ids" "u \<notin> set ready" "distinct ready" and fin: "finite done" "card done = visited"
    and cnt: "\<forall>v\<in>set ids. incoming v = count_from es done v"
    and zero: "\<forall>v\<in>set ids. v \<in> done \<union> set (u # ready) \<longleftrightarrow> count_from es done v = 0"
    and sub: "done \<subseteq> set ids" "set ready \<subseteq> set ids" "set ready \<inter> done = {}"
    using assms(1) by (auto simp: kahn_inv_def)
  from assms(1) obtain rank where rank: "\<forall>w\<in>done. rank w < visited"
    "\<forall>a b. (a, b) \<in> set es \<longrightarrow> b \<in> done \<longrightarrow> a \<in> done \<and> rank a < (rank b :: nat)"
    unfolding kahn_inv_def by blast
  have out: "set (outgoing es u) \<subseteq> set ids" using assms(2) by (auto simp: outgoing_def)
  have step: "count_from es done v = count_from es ?D v + int (count_list (outgoing es u) v)" for v
    by (rule count_from_insert [OF u(1)])
  have le: "int (count_list (outgoing es u) t) \<le> incoming t" if "t \<in> set (outgoing es u)" for t
    using that cnt out step [of t] by (auto simp: count_from_def)
  note r = relax_spec [OF assms(3) le]
  have cnt': "incoming' v = count_from es ?D v" if "v \<in> set ids" for v
    using r [of v] cnt that step [of v] by simp
  have pred: "count_from es done v \<noteq> 0" if "v \<in> set (outgoing es u)" for v
    using that u(1) by (auto simp: count_from_zero outgoing_def)
  have zero': "v \<in> ?D \<union> set ready' \<longleftrightarrow> count_from es ?D v = 0" if "v \<in> set ids" for v
  proof
    assume "v \<in> ?D \<union> set ready'"
    then have "count_from es done v = 0 \<or> incoming' v = 0" using r [of v] zero that by auto
    then show "count_from es ?D v = 0" using cnt' [OF that] by (auto simp: count_from_zero)
  next
    assume z: "count_from es ?D v = 0"
    show "v \<in> ?D \<union> set ready'"
    proof (cases "v \<in> set (outgoing es u)")
      case True
      then show ?thesis using r [of v] cnt' [OF that] z by simp
    next
      case False
      then have "count_from es done v = 0" using step [of v] z by simp
      then show ?thesis using zero that r [of v] by auto
    qed
  qed
  have "set ready' \<inter> ?D = {}"
    using r sub(3) u(3) pred zero u(2) sub(1) by (auto simp: disjoint_iff) blast+
  moreover have "distinct ready'"
    using r u(4) cnt zero sub(2) by (metis (no_types, opaque_lifting) UnI2 list.set_intros(2) subset_code(1))
  moreover have "set ready' \<subseteq> set ids" using r sub(2) out by blast
  moreover have "\<exists>rank. (\<forall>w\<in>?D. rank w < Suc visited) \<and>
      (\<forall>a b. (a, b) \<in> set es \<longrightarrow> b \<in> ?D \<longrightarrow> a \<in> ?D \<and> rank a < (rank b :: nat))"
  proof (intro exI conjI allI impI ballI)
    show "(rank(u := visited)) w < Suc visited" if "w \<in> ?D" for w using that rank(1) by auto
    fix a b assume e: "(a, b) \<in> set es" "b \<in> ?D"
    have "a \<in> done" if "b = u" using that e(1) zero u(2) by (auto simp: count_from_zero)
    then show "a \<in> ?D" and "(rank(u := visited)) a < (rank(u := visited)) b" using e rank u(1) by auto
  qed
  ultimately show ?thesis
    unfolding kahn_inv_def using fin u sub(1) cnt' zero' by simp
qed

lemma kahn_result:
  assumes "kahn_inv ids es done incoming ready visited"
    and "\<And>a b. (a, b) \<in> set es \<Longrightarrow> a \<in> set ids \<and> b \<in> set ids"
  shows "\<exists>final inc. kahn_inv ids es final inc [] (kahn es incoming ready visited)"
  using assms
proof (induction es incoming ready visited arbitrary: "done" rule: kahn.induct)
  case (2 es incoming u ready visited)
  obtain incoming' ready' where r: "relax (outgoing es u) incoming ready = (incoming', ready')" by force
  have "kahn_inv ids es (insert u done) incoming' ready' (Suc visited)"
    by (rule kahn_inv_step [OF "2.prems" r])
  then show ?case using "2.IH" [OF r [symmetric] _ "2.prems"(2)] r by simp
qed auto

lemma count_from_empty: "count_from es {} v = incoming_count es v"
  by (simp add: count_from_def incoming_count_def)

lemma kahn_inv_start:
  assumes "\<And>a b. (a, b) \<in> set es \<Longrightarrow> a \<in> set ids \<and> b \<in> set ids"
  shows "kahn_inv ids es {} (incoming_count es) (rev (filter (\<lambda>v. incoming_count es v = 0) (py_unique ids))) 0"
  by (auto simp: kahn_inv_def count_from_empty)

lemma kahn_inv_end:
  assumes "kahn_inv ids es final inc [] n" and closed: "\<And>a b. (a, b) \<in> set es \<Longrightarrow> a \<in> set ids \<and> b \<in> set ids"
  shows "n = card (set ids) \<longleftrightarrow> acyclic (edge_rel es)"
proof -
  have sub: "final \<subseteq> set ids" "card final = n" and zero: "\<forall>v\<in>set ids. v \<in> final \<longleftrightarrow> (\<forall>u. (u, v) \<in> set es \<longrightarrow> u \<in> final)"
    using assms(1) by (auto simp: kahn_inv_def count_from_zero)
  from assms(1) obtain rank where rank: "\<forall>u v. (u, v) \<in> set es \<longrightarrow> v \<in> final \<longrightarrow> u \<in> final \<and> rank u < (rank v :: nat)"
    unfolding kahn_inv_def by blast
  have "n = card (set ids) \<longleftrightarrow> final = set ids"
    using sub card_subset_eq [of "set ids" final] by auto
  also have "\<dots> \<longleftrightarrow> acyclic (edge_rel es)"
  proof
    assume f: "final = set ids"
    have "edge_rel es \<subseteq> measure rank" using rank closed by (auto simp: edge_rel_def f)
    then show "acyclic (edge_rel es)" using wf_acyclic wf_measure acyclic_subset by blast
  next
    assume ac: "acyclic (edge_rel es)"
    have "finite (edge_rel es)" by (simp add: edge_rel_def)
    then have wf: "wf (edge_rel es)" using ac by (rule finite_acyclic_wf)
    have "v \<in> set ids \<longrightarrow> v \<in> final" for v
      using wf
    proof (induction v rule: wf_induct_rule)
      case (less v)
      then show ?case using zero closed by (auto simp: edge_rel_def)
    qed
    then show "final = set ids" using sub(1) by blast
  qed
  finally show ?thesis .
qed

lemma is_acyclic_edges_iff:
  "is_acyclic_edges ids es \<longleftrightarrow> fst ` set es \<union> snd ` set es \<subseteq> set ids \<and> acyclic (edge_rel es)"
proof (cases "\<forall>(a, b)\<in>set es. a \<in> set ids \<and> b \<in> set ids")
  case False
  then have "\<not> list_all (\<lambda>(u, v). u \<in> set ids \<and> v \<in> set ids) es" by (simp add: list_all_iff)
  then have no: "is_acyclic_edges ids es = False" unfolding is_acyclic_edges_def by (simp only: if_True not_False_eq_True)
  from False obtain a b where ab: "(a, b) \<in> set es" "a \<notin> set ids \<or> b \<notin> set ids" by blast
  then have "a \<in> fst ` set es" "b \<in> snd ` set es" by (auto intro: rev_image_eqI)
  then have "\<not> fst ` set es \<union> snd ` set es \<subseteq> set ids" using ab(2) by blast
  then show ?thesis by (simp only: no) simp
next
  case True
  then have closed: "a \<in> set ids \<and> b \<in> set ids" if "(a, b) \<in> set es" for a b using that by auto
  obtain final inc where fin: "kahn_inv ids es final inc []
      (kahn es (incoming_count es) (rev (filter (\<lambda>v. incoming_count es v = 0) (py_unique ids))) 0)"
  proof -
    have "kahn_inv ids es {} (incoming_count es) (rev (filter (\<lambda>v. incoming_count es v = 0) (py_unique ids))) 0"
      by (rule kahn_inv_start) (rule closed)
    from kahn_result [OF this closed] that show thesis by blast
  qed
  have "length (py_unique ids) = card (set ids)" by (metis distinct_card distinct_py_unique set_py_unique)
  moreover have "list_all (\<lambda>(u, v). u \<in> set ids \<and> v \<in> set ids) es" using True by (simp add: list_all_iff)
  ultimately have "is_acyclic_edges ids es \<longleftrightarrow> acyclic (edge_rel es)"
    unfolding is_acyclic_edges_def by (simp only: kahn_inv_end [OF fin closed] not_True_eq_False if_False)
  moreover have "fst ` set es \<union> snd ` set es \<subseteq> set ids" using closed by auto
  ultimately show ?thesis by blast
qed

section \<open>Reachability\<close>

lemma in_outgoing: "v \<in> set (outgoing es u) \<longleftrightarrow> (u, v) \<in> edge_rel es"
  by (force simp: outgoing_def edge_rel_def)

text \<open>Seen nodes have all their successors seen or on the stack; all are reachable from the start.\<close>

lemma downstream_spec:
  assumes "\<And>u v. u \<in> set seen \<Longrightarrow> (u, v) \<in> edge_rel es \<Longrightarrow> v \<in> set seen \<union> set stack"
    and "\<And>v. v \<in> set seen \<union> set stack \<Longrightarrow> (start, v) \<in> (edge_rel es)\<^sup>+"
    and "\<And>v. (start, v) \<in> edge_rel es \<Longrightarrow> v \<in> set seen \<union> set stack"
    and "distinct seen"
  shows "set (downstream es stack seen) = {v. (start, v) \<in> (edge_rel es)\<^sup>+} \<and> distinct (downstream es stack seen)"
  using assms
proof (induction es stack seen rule: downstream.induct)
  case (1 es seen)
  have "v \<in> set seen" if "(start, v) \<in> (edge_rel es)\<^sup>+" for v
    using that
  proof (induction rule: trancl_induct)
    case (base y)
    then show ?case using "1.prems"(3) [of y] by simp
  next
    case (step y z)
    then show ?case using "1.prems"(1) [of y z] by simp
  qed
  moreover have "(start, v) \<in> (edge_rel es)\<^sup>+" if "v \<in> set seen" for v
    using "1.prems"(2) [of v] that by simp
  ultimately show ?case using "1.prems"(4) by (simp add: set_eq_iff) blast
next
  case (2 es u stack seen)
  show ?case
  proof (cases "u \<in> set seen")
    case True
    have "set (downstream es stack seen) = {v. (start, v) \<in> (edge_rel es)\<^sup>+} \<and> distinct (downstream es stack seen)"
    proof (rule "2.IH"(1) [OF True], goal_cases)
      case (1 a v)
      then show ?case using "2.prems"(1) [of a v] True by auto
    next
      case (2 v)
      then show ?case using "2.prems"(2) [of v] by auto
    next
      case (3 v)
      then show ?case using "2.prems"(3) [of v] True by auto
    next
      case 4
      then show ?case using "2.prems"(4) by simp
    qed
    then show ?thesis using True by simp
  next
    case False
    have st: "(start, u) \<in> (edge_rel es)\<^sup>+" using "2.prems"(2) by simp
    have "set (downstream es (rev (outgoing es u) @ stack) (seen @ [u])) = {v. (start, v) \<in> (edge_rel es)\<^sup>+} \<and>
        distinct (downstream es (rev (outgoing es u) @ stack) (seen @ [u]))"
    proof (rule "2.IH"(2) [OF False], goal_cases)
      case (1 a v)
      then show ?case using "2.prems"(1) [of a v] by (auto simp: in_outgoing)
    next
      case (2 v)
      then show ?case using "2.prems"(2) [of v] st by (auto simp: in_outgoing intro: trancl_into_trancl)
    next
      case (3 v)
      then show ?case using "2.prems"(3) [of v] by auto
    next
      case 4
      then show ?case using "2.prems"(4) False by simp
    qed
    then show ?thesis using False by simp
  qed
qed

lemma downstream_iff:
  "set (downstream es (rev (outgoing es u)) []) = {v. (u, v) \<in> (edge_rel es)\<^sup>+} \<and>
   distinct (downstream es (rev (outgoing es u)) [])"
  by (rule downstream_spec) (auto simp: in_outgoing)

end
