(* ===== verification/Execution_Graph.thy ===== *)
theory Execution_Graph
  imports Graph_Search Executable_Plan
begin

text \<open>
  Execution graphs: \<open>schemas/runtime/execution_graph.py\<close> and \<open>services/runtime/execution_graph_service.py\<close>
  (dependency resolver, scheduler and graph service), with the worker routing they call
  (\<open>services/runtime/worker_registry_service.py\<close>).

  Python objects of a graph are mutated in place; here every operation returns the new graph. A node
  is changed by \<open>update_first\<close>, because \<open>_find_node\<close> hands out the first node with an id. The clock is an
  argument \<open>now\<close>, one reading per operation. Identifiers that are only ever stored (of edges,
  dependencies, runtimes, checkpoints) are left out; those another record refers to (graph, result and
  routing decision) are arguments. An optional argument that the code reads as \<open>x or {}\<close> or \<open>x or []\<close>
  is the empty value. \<open>casefold\<close> is \<open>ascii_fold\<close>: the texts it is applied to are compared with ASCII words.
\<close>

section \<open>Data\<close>

datatype node_status =
  NPending | NReady | NWaiting | NRunning | NCompleted | NPartial | NBlocked | NFailed | NCancelled | NSkipped | NTimeout

datatype graph_status =
  GCreated | GReady | GWaiting | GRunning | GCompleted | GPartial | GBlocked | GFailed | GCancelled | GTimeout

fun node_status_name :: "node_status \<Rightarrow> str" where
  "node_status_name NPending = ''pending''"
| "node_status_name NReady = ''ready''"
| "node_status_name NWaiting = ''waiting''"
| "node_status_name NRunning = ''running''"
| "node_status_name NCompleted = ''completed''"
| "node_status_name NPartial = ''partial''"
| "node_status_name NBlocked = ''blocked''"
| "node_status_name NFailed = ''failed''"
| "node_status_name NCancelled = ''cancelled''"
| "node_status_name NSkipped = ''skipped''"
| "node_status_name NTimeout = ''timeout''"

fun graph_status_name :: "graph_status \<Rightarrow> str" where
  "graph_status_name GCreated = ''created''"
| "graph_status_name GReady = ''ready''"
| "graph_status_name GWaiting = ''waiting''"
| "graph_status_name GRunning = ''running''"
| "graph_status_name GCompleted = ''completed''"
| "graph_status_name GPartial = ''partial''"
| "graph_status_name GBlocked = ''blocked''"
| "graph_status_name GFailed = ''failed''"
| "graph_status_name GCancelled = ''cancelled''"
| "graph_status_name GTimeout = ''timeout''"

record exec_edge =
  from_node_id :: str
  to_node_id :: str
  edge_reason :: str
  edge_required :: bool

datatype dependency_status = DepPending | DepCompleted | DepBlocked

record exec_dependency =
  source_node_id :: str
  target_node_id :: str
  dependency_type :: str
  dep_required :: bool
  dep_status :: dependency_status
  dep_output_contract :: "str option"

record node_runtime =
  rt_profile :: str
  rt_executor :: str
  rt_execution_mode :: str
  rt_allowed_capabilities :: "str list"
  rt_source_authority :: str
  rt_poll_endpoint :: "str option"
  rt_retry_policy :: "json dict"

record exec_metrics =
  started_at :: "str option"
  finished_at :: "str option"
  duration_ms :: "int option"
  attempts :: nat
  warnings_count :: nat
  violations_count :: nat

record exec_checkpoint =
  cp_node_id :: "str option"
  cp_status :: str
  cp_summary :: str
  cp_evidence_refs :: "json list"
  cp_created_at :: str

record exec_lifecycle =
  lc_status :: graph_status
  current_node_id :: "str option"
  completed_node_ids :: "str list"
  blocked_node_ids :: "str list"
  failed_node_ids :: "str list"
  cancelled_node_ids :: "str list"
  lc_updated_at :: str

record exec_context =
  ctx_run_id :: str
  ctx_workspace :: "str option"
  ctx_contract_type :: "str option"
  ctx_operation_type :: "str option"
  ctx_runtime_profile :: "str option"
  ctx_requested_actions :: "str list"
  ctx_evidence_refs :: "json list"

record exec_node =
  node_id :: str
  node_step_id :: "str option"
  node_objective :: str
  node_worker :: str
  node_executor :: "str option"
  node_runtime_profile :: "str option"
  node_runtime_of :: "node_runtime option"
  node_dependencies :: "str list"
  node_capabilities :: "str list"
  node_contracts :: "str list"
  artifacts_expected :: "str list"
  node_inputs :: "json dict"
  node_outputs :: "json dict"
  node_artifacts :: "json list"
  node_memory_candidates :: "json list"
  node_speakertruth :: "json dict"
  node_review :: "json dict"
  node_approval :: "json dict"
  validation_gate :: "json dict"
  node_rollback :: "json dict"
  node_action :: "str option"
  node_side_effect :: bool
  node_required :: bool
  node_status :: node_status
  node_metrics :: exec_metrics
  node_output_summary :: "json dict"
  node_warnings :: "str list"
  node_violations :: "str list"
  retry_count :: nat

record exec_result =
  result_id :: str
  res_node_id :: "str option"
  res_status :: str
  res_output_contract :: "str option"
  res_outputs :: "json dict"
  res_artifact_refs :: "json list"
  res_memory_candidates :: "json list"
  res_evidence_refs :: "json list"
  res_speakertruth :: "json dict"
  res_review :: "json dict"
  res_validation :: "json dict"
  res_created_at :: str

record exec_graph =
  graph_id :: str
  graph_run_id :: str
  graph_type :: str
  graph_status :: graph_status
  graph_context :: exec_context
  graph_nodes :: "exec_node list"
  graph_edges :: "exec_edge list"
  graph_dependencies :: "exec_dependency list"
  graph_results :: "exec_result list"
  graph_checkpoints :: "exec_checkpoint list"
  graph_lifecycle :: exec_lifecycle
  graph_metrics :: exec_metrics
  graph_artifacts :: "json list"
  graph_memory_candidates :: "json list"
  graph_speakertruth :: "json dict"
  graph_review :: "json dict"
  graph_supervisor :: "json dict"
  graph_planning_report :: "json dict"
  graph_created_at :: str
  graph_updated_at :: str
  graph_warnings :: "str list"

record exec_resume =
  rs_graph_id :: str
  rs_run_id :: str
  rs_ready_node_ids :: "str list"
  rs_blocked_node_ids :: "str list"
  rs_completed_node_ids :: "str list"
  rs_status :: graph_status

text \<open>A task run step and the part of a task run plan that the graph is built from.\<close>

record task_run_step =
  step_id :: str
  step_type :: str
  step_action :: str
  step_required :: bool
  step_side_effect :: bool

record task_run_plan =
  plan_id :: str
  plan_status :: str
  plan_steps :: "task_run_step list"

text \<open>A planner node and the part of a planning report that the graph is built from.\<close>

record planner_node =
  pn_node_id :: str
  pn_executor :: str
  pn_runtime_profile :: str
  pn_objective :: str
  pn_dependencies :: "str list"
  pn_capabilities :: "str list"
  pn_output_contracts :: "str list"
  pn_mode :: str
  pn_requires_review :: bool
  pn_requires_approval :: bool
  pn_risk_level :: str
  pn_expected_artifacts :: "str list"

record planning_report =
  report_id :: str
  report_status :: str
  report_nodes :: "planner_node list"

definition no_metrics :: exec_metrics where
  "no_metrics = \<lparr>started_at = None, finished_at = None, duration_ms = None, attempts = 0,
     warnings_count = 0, violations_count = 0\<rparr>"

definition ref_json :: "str \<Rightarrow> str \<Rightarrow> json" where
  "ref_json kind i = JObj [(''type'', JStr kind), (''ref_id'', JStr i)]"

definition new_lifecycle :: "str \<Rightarrow> exec_lifecycle" where
  "new_lifecycle now = \<lparr>lc_status = GCreated, current_node_id = None, completed_node_ids = [], blocked_node_ids = [],
     failed_node_ids = [], cancelled_node_ids = [], lc_updated_at = now\<rparr>"

definition checkpoint :: "str \<Rightarrow> str option \<Rightarrow> str \<Rightarrow> str \<Rightarrow> json list \<Rightarrow> exec_checkpoint" where
  "checkpoint now i st summary refs =
     \<lparr>cp_node_id = i, cp_status = st, cp_summary = summary, cp_evidence_refs = refs, cp_created_at = now\<rparr>"

definition add_checkpoint :: "exec_checkpoint \<Rightarrow> exec_graph \<Rightarrow> exec_graph" where
  "add_checkpoint c g = g\<lparr>graph_checkpoints := graph_checkpoints g @ [c]\<rparr>"

section \<open>Worker routing\<close>

record worker_contract =
  worker_id :: str
  worker_status :: str
  accepted_actions :: "str list"
  accepted_step_keywords :: "str list"
  worker_capabilities :: "str list"
  worker_output_contracts :: "str list"
  communicates_via_contracts :: bool
  knows_internal_implementation_of_peers :: bool

record worker_registry =
  registry_status :: str
  registry_workers :: "worker_contract list"
  default_worker :: str
  registry_warnings :: "str list"

record worker_route =
  route_decision_id :: str
  route_worker_id :: str
  matched_by :: str
  route_reason :: str
  route_confidence :: str
  route_action :: str
  route_step_type :: str
  route_capabilities :: "str list"
  route_output_contracts :: "str list"
  route_warnings :: "str list"
  route_created_at :: str

definition validate_workers :: "worker_contract list \<Rightarrow> str \<Rightarrow> str list" where
  "validate_workers workers fallback =
     (if distinct (map worker_id workers) then [] else [''duplicate_worker_id'']) @
     (if fallback \<in> set (map worker_id workers) then [] else [''default_worker_missing'']) @
     concat (map (\<lambda>w.
       (if communicates_via_contracts w then [] else [''worker_not_contract_only:'' @ worker_id w]) @
       (if knows_internal_implementation_of_peers w then [''worker_peer_internal_dependency:'' @ worker_id w] else []))
       workers)"

text \<open>\<open>_load\<close> after the YAML file has been read: its workers and its \<open>default_worker\<close>.\<close>

definition load_registry :: "worker_contract list \<Rightarrow> str option \<Rightarrow> worker_registry" where
  "load_registry workers raw_default =
     (let default = str_or raw_default ''PlannerWorker''; ws = validate_workers workers default
      in \<lparr>registry_status = (if ws \<noteq> [] then ''degraded'' else ''ok''), registry_workers = workers,
          default_worker = default, registry_warnings = ws\<rparr>)"

definition find_worker :: "str \<Rightarrow> worker_contract list \<Rightarrow> worker_contract option" where
  "find_worker i workers = find (\<lambda>w. worker_id w = i) workers"

definition route_decision ::
    "str \<Rightarrow> str \<Rightarrow> worker_contract \<Rightarrow> str \<Rightarrow> str \<Rightarrow> task_run_step \<Rightarrow> str \<Rightarrow> worker_route" where
  "route_decision uid now w matched reason step confidence =
     \<lparr>route_decision_id = uid, route_worker_id = worker_id w, matched_by = matched, route_reason = reason,
      route_confidence = confidence, route_action = step_action step, route_step_type = step_type step,
      route_capabilities = worker_capabilities w, route_output_contracts = worker_output_contracts w,
      route_warnings = [], route_created_at = now\<rparr>"

definition step_text :: "task_run_step \<Rightarrow> str" where
  "step_text step = ascii_fold (step_action step @ '' '' @ step_type step)"

definition keyword_match :: "str \<Rightarrow> worker_contract \<Rightarrow> str option" where
  "keyword_match haystack w =
     find (\<lambda>k. k \<noteq> [] \<and> py_in (ascii_fold k) haystack) (accepted_step_keywords w)"

fun first_match :: "('a \<Rightarrow> 'b option) \<Rightarrow> 'a list \<Rightarrow> ('a \<times> 'b) option" where
  "first_match f [] = None"
| "first_match f (x # xs) = (case f x of Some y \<Rightarrow> Some (x, y) | None \<Rightarrow> first_match f xs)"

definition route_step :: "str \<Rightarrow> str \<Rightarrow> worker_registry \<Rightarrow> task_run_step \<Rightarrow> worker_route" where
  "route_step uid now reg step =
     (let active = filter (\<lambda>w. worker_status w = ''active'') (registry_workers reg); action = step_action step
      in case find (\<lambda>w. action \<noteq> [] \<and> action \<in> set (accepted_actions w)) active of
           Some w \<Rightarrow> route_decision uid now w ''action'' (''action:'' @ action) step ''high''
         | None \<Rightarrow>
             (case first_match (keyword_match (step_text step)) active of
                Some (w, k) \<Rightarrow> route_decision uid now w ''keyword'' (''keyword:'' @ k) step ''medium''
              | None \<Rightarrow>
                  (case (case find_worker (default_worker reg) active of
                           Some w \<Rightarrow> Some w | None \<Rightarrow> find_worker ''PlannerWorker'' active) of
                     Some w \<Rightarrow> route_decision uid now w ''default'' ''default_worker'' step ''low''
                   | None \<Rightarrow>
                       \<lparr>route_decision_id = uid, route_worker_id = ''PlannerWorker'', matched_by = ''default'',
                        route_reason = ''worker_registry_empty_default'', route_confidence = ''low'',
                        route_action = action, route_step_type = step_type step, route_capabilities = [],
                        route_output_contracts = [], route_warnings = [''worker_registry_default_missing''],
                        route_created_at = now\<rparr>)))"

definition route_json :: "worker_route \<Rightarrow> json" where
  "route_json r = JObj
     [(''decision_id'', JStr (route_decision_id r)), (''worker_id'', JStr (route_worker_id r)),
      (''matched_by'', JStr (matched_by r)), (''reason'', JStr (route_reason r)),
      (''confidence'', JStr (route_confidence r)), (''action'', JStr (route_action r)),
      (''step_type'', JStr (route_step_type r)), (''capabilities'', jstrs (route_capabilities r)),
      (''output_contracts'', jstrs (route_output_contracts r)), (''warnings'', jstrs (route_warnings r)),
      (''created_at'', JStr (route_created_at r))]"

section \<open>Dependencies between the steps of a plan\<close>

definition step_node_id :: "task_run_step \<Rightarrow> str" where
  "step_node_id step = ''node_'' @ step_id step"

definition is_validation :: "task_run_step \<Rightarrow> bool" where
  "is_validation step \<longleftrightarrow> py_in ''validat'' (step_text step) \<or> py_in ''test'' (step_text step)"

definition is_reporting :: "task_run_step \<Rightarrow> bool" where
  "is_reporting step \<longleftrightarrow>
     py_in ''report'' (step_text step) \<or> py_in ''artifact'' (step_text step) \<or> py_in ''publish'' (step_text step)"

text \<open>
  The three variables of \<open>DependencyResolver.resolve\<close>: the last node without and with a side effect and
  the last required one. Node ids start with \<open>node_\<close>, so a remembered node is never an empty string.
\<close>

record resolver_state =
  last_context_node :: "str option"
  last_side_effect_node :: "str option"
  previous_required_node :: "str option"

definition step_dependency :: "resolver_state \<Rightarrow> task_run_step \<Rightarrow> (str \<times> str) option" where
  "step_dependency s step =
     (if is_validation step \<and> last_side_effect_node s \<noteq> None
        then Some (the (last_side_effect_node s), ''validate_latest_side_effect'')
      else if step_side_effect step \<and> last_context_node s \<noteq> None
        then Some (the (last_context_node s), ''requires_context_before_side_effect'')
      else if is_reporting step \<and> previous_required_node s \<noteq> None
        then Some (the (previous_required_node s), ''report_after_required_work'')
      else if previous_required_node s \<noteq> None \<and> step_required step
        then Some (the (previous_required_node s), ''required_step_dependency'')
      else None)"

definition resolver_step :: "task_run_step \<Rightarrow> resolver_state \<Rightarrow> resolver_state" where
  "resolver_step step s =
     \<lparr>last_context_node = (if step_side_effect step then last_context_node s else Some (step_node_id step)),
      last_side_effect_node = (if step_side_effect step then Some (step_node_id step) else last_side_effect_node s),
      previous_required_node = (if step_required step then Some (step_node_id step) else previous_required_node s)\<rparr>"

fun resolve_from :: "resolver_state \<Rightarrow> task_run_step list \<Rightarrow> exec_edge list" where
  "resolve_from s [] = []"
| "resolve_from s (step # steps) =
     (case step_dependency s step of
        None \<Rightarrow> []
      | Some (source, reason) \<Rightarrow>
          [\<lparr>from_node_id = source, to_node_id = step_node_id step, edge_reason = reason, edge_required = True\<rparr>]) @
     resolve_from (resolver_step step s) steps"

definition resolve :: "task_run_step list \<Rightarrow> exec_edge list" where
  "resolve steps =
     resolve_from \<lparr>last_context_node = None, last_side_effect_node = None, previous_required_node = None\<rparr> steps"

section \<open>Scheduling\<close>

definition node_done :: "exec_node \<Rightarrow> bool" where
  "node_done n \<longleftrightarrow> node_status n \<in> {NCompleted, NPartial, NSkipped}"

definition node_stopped :: "exec_node \<Rightarrow> bool" where
  "node_stopped n \<longleftrightarrow> node_status n \<in> {NBlocked, NFailed, NCancelled}"

definition required_sources :: "exec_edge list \<Rightarrow> str \<Rightarrow> str list" where
  "required_sources edges i = map from_node_id (filter (\<lambda>e. to_node_id e = i \<and> edge_required e) edges)"

definition schedulable :: "exec_graph \<Rightarrow> exec_node \<Rightarrow> bool" where
  "schedulable g n \<longleftrightarrow>
     (let completed = map node_id (filter node_done (graph_nodes g));
          blocked = map node_id (filter node_stopped (graph_nodes g));
          deps = required_sources (graph_edges g) (node_id n)
      in node_status n \<in> {NPending, NWaiting} \<and>
         \<not> list_ex (\<lambda>d. d \<in> set blocked) deps \<and> list_all (\<lambda>d. d \<in> set completed) deps)"

definition ready_nodes :: "exec_graph \<Rightarrow> exec_node list" where
  "ready_nodes g = filter (schedulable g) (graph_nodes g)"

definition resume_graph :: "exec_graph \<Rightarrow> exec_resume" where
  "resume_graph g =
     \<lparr>rs_graph_id = graph_id g, rs_run_id = graph_run_id g, rs_ready_node_ids = map node_id (ready_nodes g),
      rs_blocked_node_ids = map node_id (filter (\<lambda>n. node_status n = NBlocked) (graph_nodes g)),
      rs_completed_node_ids =
        map node_id (filter (\<lambda>n. node_status n \<in> {NCompleted, NPartial}) (graph_nodes g)),
      rs_status = graph_status g\<rparr>"

text \<open>The loop that marks every ready node; the list of ready nodes is computed before the first change.\<close>

definition mark_ready :: "exec_graph \<Rightarrow> exec_graph" where
  "mark_ready g =
     g\<lparr>graph_nodes := map (\<lambda>n. if schedulable g n then n\<lparr>node_status := NReady\<rparr> else n) (graph_nodes g)\<rparr>"

definition refresh_ready_nodes :: "exec_graph \<Rightarrow> exec_graph" where
  "refresh_ready_nodes g =
     (let g' = mark_ready g
      in g'\<lparr>graph_nodes := map (\<lambda>n. if node_status n = NPending \<and> node_dependencies n \<noteq> []
                                    then n\<lparr>node_status := NWaiting\<rparr> else n) (graph_nodes g')\<rparr>)"

definition ids_with :: "(exec_node \<Rightarrow> bool) \<Rightarrow> exec_graph \<Rightarrow> str list" where
  "ids_with p g = map node_id (filter p (graph_nodes g))"

definition lifecycle_status :: "exec_graph \<Rightarrow> graph_status" where
  "lifecycle_status g =
     (if ids_with (\<lambda>n. node_status n = NBlocked) g \<noteq> [] then GBlocked
      else if ids_with (\<lambda>n. node_status n = NFailed) g \<noteq> [] then GFailed
      else if ids_with (\<lambda>n. node_status n = NCancelled) g \<noteq> [] then GCancelled
      else if list_all node_done (graph_nodes g) then GCompleted
      else if list_ex (\<lambda>n. node_status n = NRunning) (graph_nodes g) then GRunning
      else GReady)"

definition refresh_lifecycle :: "str \<Rightarrow> exec_graph \<Rightarrow> exec_graph" where
  "refresh_lifecycle now g =
     (let st = lifecycle_status g
      in g\<lparr>graph_status := st,
           graph_metrics := (if st = GCompleted
             then (graph_metrics g)\<lparr>finished_at := Some (str_or (finished_at (graph_metrics g)) now)\<rparr>
             else graph_metrics g),
           graph_lifecycle := (graph_lifecycle g)
             \<lparr>lc_status := st,
              completed_node_ids := ids_with (\<lambda>n. node_status n \<in> {NCompleted, NPartial}) g,
              blocked_node_ids := ids_with (\<lambda>n. node_status n = NBlocked) g,
              failed_node_ids := ids_with (\<lambda>n. node_status n = NFailed) g,
              cancelled_node_ids := ids_with (\<lambda>n. node_status n = NCancelled) g,
              lc_updated_at := now\<rparr>\<rparr>)"

section \<open>Building a graph\<close>

definition edge_pairs :: "exec_edge list \<Rightarrow> edges" where
  "edge_pairs es = map (\<lambda>e. (from_node_id e, to_node_id e)) es"

definition is_acyclic :: "exec_node list \<Rightarrow> exec_edge list \<Rightarrow> bool" where
  "is_acyclic nodes es = is_acyclic_edges (map node_id nodes) (edge_pairs es)"

definition artifacts_for_step :: "task_run_step \<Rightarrow> str list" where
  "artifacts_for_step step =
     (if py_in ''artifact'' (step_action step) \<or> py_in ''report'' (step_action step) then [''artifact_result'']
      else if py_in ''validat'' (step_action step) \<or> py_in ''test'' (step_action step) then [''validation_result'']
      else if step_side_effect step then [step_action step @ ''_result'']
      else [])"

definition default_retry_policy :: "json dict" where
  "default_retry_policy = [(''mode'', JStr ''retry_node''), (''max_retries'', JInt 2)]"

definition node_from_step ::
    "str \<Rightarrow> str \<Rightarrow> worker_registry \<Rightarrow> str option \<Rightarrow> str list \<Rightarrow> task_run_step \<Rightarrow> exec_node" where
  "node_from_step uid now reg contract_type capabilities_required step =
     (let route = route_step uid now reg step;
          capabilities = py_unique (capabilities_required @ route_capabilities route);
          expected = py_unique (artifacts_for_step step @ route_output_contracts route)
      in \<lparr>node_id = step_node_id step, node_step_id = Some (step_id step),
          node_objective = ''Execute '' @ step_type step,
          node_worker = route_worker_id route, node_executor = Some (route_worker_id route),
          node_runtime_profile = Some (step_type step),
          node_runtime_of = Some \<lparr>rt_profile = step_type step, rt_executor = route_worker_id route,
            rt_execution_mode = ''supervised'', rt_allowed_capabilities = capabilities,
            rt_source_authority = ''aipinho'', rt_poll_endpoint = None, rt_retry_policy = default_retry_policy\<rparr>,
          node_dependencies = [], node_capabilities = capabilities,
          node_contracts = (case contract_type of Some c \<Rightarrow> if c = [] then [] else [c] | None \<Rightarrow> []),
          artifacts_expected = expected, node_inputs = [], node_outputs = [], node_artifacts = [],
          node_memory_candidates = [], node_speakertruth = [], node_review = [], node_approval = [],
          validation_gate = [(''required'', JBool (step_required step)), (''action'', JStr (step_action step)),
            (''worker_route'', route_json route)],
          node_rollback = [(''strategy'',
            JStr (if step_side_effect step then ''checkpoint_and_abort'' else ''not_required''))],
          node_action = Some (step_action step), node_side_effect = step_side_effect step,
          node_required = step_required step, node_status = NPending, node_metrics = no_metrics,
          node_output_summary = [], node_warnings = [], node_violations = [], retry_count = 0\<rparr>)"

text \<open>The context arguments the three builders share.\<close>

record graph_request =
  rq_run_id :: str
  rq_workspace :: "str option"
  rq_contract_type :: "str option"
  rq_operation_type :: "str option"
  rq_runtime_profile :: "str option"
  rq_requested_actions :: "str list"

definition context_of :: "graph_request \<Rightarrow> json list \<Rightarrow> exec_context" where
  "context_of rq refs =
     \<lparr>ctx_run_id = rq_run_id rq, ctx_workspace = rq_workspace rq, ctx_contract_type = rq_contract_type rq,
      ctx_operation_type = rq_operation_type rq, ctx_runtime_profile = rq_runtime_profile rq,
      ctx_requested_actions = rq_requested_actions rq, ctx_evidence_refs = refs\<rparr>"

text \<open>\<open>ExecutionGraph(...)\<close> with the defaults of its schema.\<close>

definition new_graph ::
    "str \<Rightarrow> str \<Rightarrow> str \<Rightarrow> graph_status \<Rightarrow> graph_request \<Rightarrow> json list \<Rightarrow> exec_node list \<Rightarrow> exec_edge list \<Rightarrow> exec_graph" where
  "new_graph uid now type st rq refs nodes es =
     \<lparr>graph_id = uid, graph_run_id = rq_run_id rq, graph_type = type, graph_status = st,
      graph_context = context_of rq refs, graph_nodes = nodes, graph_edges = es, graph_dependencies = [],
      graph_results = [], graph_checkpoints = [], graph_lifecycle = new_lifecycle now, graph_metrics = no_metrics,
      graph_artifacts = [], graph_memory_candidates = [], graph_speakertruth = [], graph_review = [],
      graph_supervisor = [], graph_planning_report = [], graph_created_at = now, graph_updated_at = now,
      graph_warnings = []\<rparr>"

definition set_lifecycle_status :: "graph_status \<Rightarrow> exec_graph \<Rightarrow> exec_graph" where
  "set_lifecycle_status st g = g\<lparr>graph_lifecycle := (graph_lifecycle g)\<lparr>lc_status := st\<rparr>\<rparr>"

definition block_graph :: "exec_graph \<Rightarrow> exec_graph" where
  "block_graph g = set_lifecycle_status GBlocked (g\<lparr>graph_status := GBlocked\<rparr>)"

definition plan_nodes ::
    "(nat \<Rightarrow> str) \<Rightarrow> str \<Rightarrow> worker_registry \<Rightarrow> str option \<Rightarrow> str list \<Rightarrow> task_run_step list \<Rightarrow> exec_node list" where
  "plan_nodes route_uid now reg contract_type capabilities_required steps =
     map (\<lambda>(i, step). node_from_step (route_uid i) now reg contract_type capabilities_required step) (enumerate 0 steps)"

definition build_from_plan ::
    "str \<Rightarrow> (nat \<Rightarrow> str) \<Rightarrow> str \<Rightarrow> worker_registry \<Rightarrow> graph_request \<Rightarrow> task_run_plan \<Rightarrow> str list \<Rightarrow> exec_graph" where
  "build_from_plan uid route_uid now reg rq plan capabilities_required =
     (let nodes = plan_nodes route_uid now reg (rq_contract_type rq) capabilities_required (plan_steps plan);
          es = resolve (plan_steps plan);
          refs = [ref_json ''task_run_plan'' (plan_id plan)];
          g = (new_graph uid now ''task_plan'' (if plan_status plan = ''ready'' then GReady else GBlocked) rq refs nodes es)
            \<lparr>graph_checkpoints :=
               [checkpoint now None (plan_status plan) ''ExecutionGraph built from TaskRunPlan.'' refs],
             graph_warnings := (if is_acyclic nodes es then [] else [''execution_graph_cycle_detected''])\<rparr>
      in mark_ready (if graph_warnings g \<noteq> [] then block_graph g else set_lifecycle_status (graph_status g) g))"

record node_spec =
  spec_node_id :: str
  spec_executor :: str
  spec_objective :: str
  spec_runtime_profile :: str
  spec_mode :: str
  spec_dependencies :: "str list"
  spec_capabilities :: "str list"
  spec_output_contracts :: "str list"

definition cooperative_node :: "node_spec \<Rightarrow> exec_node" where
  "cooperative_node s =
     \<lparr>node_id = spec_node_id s, node_step_id = None, node_objective = spec_objective s,
      node_worker = spec_executor s, node_executor = Some (spec_executor s),
      node_runtime_profile = Some (spec_runtime_profile s),
      node_runtime_of = Some \<lparr>rt_profile = spec_runtime_profile s, rt_executor = spec_executor s,
        rt_execution_mode =
          (if spec_mode s \<in> set [''direct'', ''delegated'', ''supervised'', ''review'', ''memory'', ''finalizer'']
           then spec_mode s else ''supervised''),
        rt_allowed_capabilities = spec_capabilities s, rt_source_authority = ''aipinho'',
        rt_poll_endpoint = None, rt_retry_policy = default_retry_policy\<rparr>,
      node_dependencies = spec_dependencies s, node_capabilities = spec_capabilities s,
      node_contracts = spec_output_contracts s, artifacts_expected = spec_output_contracts s,
      node_inputs = [], node_outputs = [], node_artifacts = [], node_memory_candidates = [],
      node_speakertruth = [], node_review = [], node_approval = [],
      validation_gate = [(''speakertruth_node_output'', JBool True), (''speakertruth_graph_output'', JBool True),
        (''output_contract_required'', JBool (spec_output_contracts s \<noteq> []))],
      node_rollback = [(''strategy'', JStr ''retry_node'')], node_action = Some (spec_runtime_profile s),
      node_side_effect = (spec_runtime_profile s \<in> set [''executor'', ''debugger'', ''shell'', ''patch'']),
      node_required = True, node_status = NPending, node_metrics = no_metrics, node_output_summary = [],
      node_warnings = [], node_violations = [], retry_count = 0\<rparr>"

definition wants_visual :: "str \<Rightarrow> str list \<Rightarrow> bool" where
  "wants_visual objective requested_nodes \<longleftrightarrow>
     (let requested = map (\<lambda>i. ascii_fold (py_strip i)) (filter (\<lambda>i. py_strip i \<noteq> []) requested_nodes)
      in ''vision'' \<in> set requested \<or> ''ocr'' \<in> set requested \<or>
         list_ex (\<lambda>m. py_in m (ascii_fold objective))
           [''android'', ''ui'', ''visual'', ''imagem'', ''screenshot'', ''tela'', ''ocr''])"

definition parallel_specs :: "bool \<Rightarrow> node_spec list" where
  "parallel_specs visual =
     [\<lparr>spec_node_id = ''node_executor'', spec_executor = ''ExecutorWorker'',
       spec_objective = ''Execute the planned technical analysis or implementation through governed contracts.'',
       spec_runtime_profile = ''executor'', spec_mode = ''supervised'', spec_dependencies = [''node_planner''],
       spec_capabilities = [''read_workspace'', ''write_via_contract'', ''artifact_generate''],
       spec_output_contracts = [''executor_result'', ''patch_or_analysis_artifact'']\<rparr>,
      \<lparr>spec_node_id = ''node_debugger'', spec_executor = ''DebuggerWorker'',
       spec_objective = ''Reproduce, inspect, or diagnose failures without bypassing policy.'',
       spec_runtime_profile = ''debugger'', spec_mode = ''supervised'', spec_dependencies = [''node_planner''],
       spec_capabilities = [''read_workspace'', ''run_tests_with_approval''],
       spec_output_contracts = [''debugger_result'']\<rparr>] @
     (if visual then
       [\<lparr>spec_node_id = ''node_vision'', spec_executor = ''VisionWorker'',
         spec_objective = ''Analyze visual UI evidence and screenshots when available.'',
         spec_runtime_profile = ''vision'', spec_mode = ''supervised'', spec_dependencies = [''node_planner''],
         spec_capabilities = [''vision_analysis''], spec_output_contracts = [''vision_result'']\<rparr>,
        \<lparr>spec_node_id = ''node_ocr'', spec_executor = ''OCRWorker'',
         spec_objective = ''Extract text from visual evidence when needed.'',
         spec_runtime_profile = ''ocr'', spec_mode = ''supervised'', spec_dependencies = [''node_planner''],
         spec_capabilities = [''ocr''], spec_output_contracts = [''ocr_result'']\<rparr>]
      else [])"

definition cooperative_node_specs :: "str \<Rightarrow> str list \<Rightarrow> node_spec list" where
  "cooperative_node_specs objective requested_nodes =
     (let parallel = parallel_specs (wants_visual objective requested_nodes)
      in [\<lparr>spec_node_id = ''node_planner'', spec_executor = ''PlannerWorker'',
           spec_objective = ''Decompose the task into governed node contracts.'',
           spec_runtime_profile = ''planner'', spec_mode = ''supervised'', spec_dependencies = [],
           spec_capabilities = [''planning'', ''policy_context''], spec_output_contracts = [''plan_result'']\<rparr>] @
         parallel @
         [\<lparr>spec_node_id = ''node_review'', spec_executor = ''ReviewWorker'',
           spec_objective = ''Review all upstream outputs and request node retry when needed.'',
           spec_runtime_profile = ''review'', spec_mode = ''review'', spec_dependencies = map spec_node_id parallel,
           spec_capabilities = [''review'', ''speaker_truth''], spec_output_contracts = [''review_result'']\<rparr>,
          \<lparr>spec_node_id = ''node_memory'', spec_executor = ''MemoryWorker'',
           spec_objective = ''Produce memory candidates without committing memory directly.'',
           spec_runtime_profile = ''memory'', spec_mode = ''memory'', spec_dependencies = [''node_review''],
           spec_capabilities = [''memory_candidate''], spec_output_contracts = [''memory_candidates'']\<rparr>,
          \<lparr>spec_node_id = ''node_supervisor'', spec_executor = ''SupervisorWorker'',
           spec_objective = ''Validate graph truth and decide whether the graph can finish.'',
           spec_runtime_profile = ''supervisor'', spec_mode = ''review'',
           spec_dependencies = [''node_review'', ''node_memory''],
           spec_capabilities = [''supervision'', ''speaker_truth''], spec_output_contracts = [''supervisor_result'']\<rparr>,
          \<lparr>spec_node_id = ''node_final'', spec_executor = ''AIpinho'',
           spec_objective = ''Publish the final governed answer only after graph validation.'',
           spec_runtime_profile = ''final_result'', spec_mode = ''finalizer'', spec_dependencies = [''node_supervisor''],
           spec_capabilities = [''final_response''], spec_output_contracts = [''final_result'']\<rparr>])"

definition node_output_contract :: "str \<Rightarrow> exec_node list \<Rightarrow> str option" where
  "node_output_contract i nodes =
     (case find (\<lambda>n. node_id n = i) nodes of
        Some n \<Rightarrow> (case node_contracts n of c # _ \<Rightarrow> Some c | [] \<Rightarrow> None)
      | None \<Rightarrow> None)"

text \<open>The loops that turn the dependency lists of the nodes into edges and dependencies.\<close>

definition node_links :: "exec_node list \<Rightarrow> (str \<times> str) list" where
  "node_links nodes = concat (map (\<lambda>n. map (\<lambda>d. (d, node_id n)) (node_dependencies n)) nodes)"

definition node_edges :: "str \<Rightarrow> exec_node list \<Rightarrow> exec_edge list" where
  "node_edges reason nodes =
     map (\<lambda>(s, t). \<lparr>from_node_id = s, to_node_id = t, edge_reason = reason, edge_required = True\<rparr>) (node_links nodes)"

definition node_deps :: "exec_node list \<Rightarrow> exec_dependency list" where
  "node_deps nodes =
     map (\<lambda>(s, t). \<lparr>source_node_id = s, target_node_id = t, dependency_type = ''output_contract'',
       dep_required = True, dep_status = DepPending, dep_output_contract = node_output_contract s nodes\<rparr>)
       (node_links nodes)"

definition cooperative_supervisor :: "json dict" where
  "cooperative_supervisor = [(''authority'', JStr ''aipinho''), (''providers_can_create_nodes'', JBool False),
     (''providers_can_finish_graph'', JBool False)]"

definition cooperative_speakertruth :: "json dict" where
  "cooperative_speakertruth = [(''node_output_validation'', JBool True), (''graph_output_validation'', JBool True),
     (''authority'', JStr ''aipinho'')]"

text \<open>The last lines of both cooperative builders.\<close>

definition launch_graph :: "exec_graph \<Rightarrow> exec_graph" where
  "launch_graph g =
     (if \<not> is_acyclic (graph_nodes g) (graph_edges g)
      then (block_graph g)\<lparr>graph_warnings := graph_warnings g @ [''execution_graph_cycle_detected'']\<rparr>
      else refresh_ready_nodes (set_lifecycle_status (graph_status g) g))"

definition build_cooperative_graph ::
    "str \<Rightarrow> str \<Rightarrow> graph_request \<Rightarrow> str \<Rightarrow> str list \<Rightarrow> exec_graph" where
  "build_cooperative_graph uid now rq objective requested_nodes =
     (let nodes = map cooperative_node (cooperative_node_specs objective requested_nodes)
      in launch_graph
           ((new_graph uid now ''cooperative'' GReady rq [ref_json ''cooperative_graph_request'' (rq_run_id rq)]
               nodes (node_edges ''node_dependency'' nodes))
            \<lparr>graph_dependencies := node_deps nodes,
             graph_checkpoints := [checkpoint now None ''ready'' ''Cooperative ExecutionGraph created by AIpinho.''
               [ref_json ''task_run'' (rq_run_id rq)]],
             graph_supervisor := cooperative_supervisor, graph_speakertruth := cooperative_speakertruth\<rparr>))"

definition spec_of_planned :: "planner_node \<Rightarrow> node_spec" where
  "spec_of_planned n =
     \<lparr>spec_node_id = pn_node_id n, spec_executor = pn_executor n, spec_objective = pn_objective n,
      spec_runtime_profile = pn_runtime_profile n, spec_mode = pn_mode n, spec_dependencies = pn_dependencies n,
      spec_capabilities = pn_capabilities n, spec_output_contracts = pn_output_contracts n\<rparr>"

definition apply_planned :: "str \<Rightarrow> planner_node \<Rightarrow> exec_node \<Rightarrow> exec_node" where
  "apply_planned report planned n =
     n\<lparr>node_approval := [(''required'', JBool (pn_requires_approval planned)), (''risk_level'', JStr (pn_risk_level planned))],
       validation_gate := fold (\<lambda>(k, v). AList.update k v)
         [(''planning_report_id'', JStr report), (''requires_review'', JBool (pn_requires_review planned)),
          (''risk_level'', JStr (pn_risk_level planned))] (validation_gate n),
       artifacts_expected := py_unique (artifacts_expected n @ pn_expected_artifacts planned)\<rparr>"

definition planned_nodes :: "planning_report \<Rightarrow> exec_node list" where
  "planned_nodes report =
     map (\<lambda>n. case last_by pn_node_id (report_nodes report) (node_id n) of
           None \<Rightarrow> n | Some planned \<Rightarrow> apply_planned (report_id report) planned n)
       (map (\<lambda>n. cooperative_node (spec_of_planned n)) (report_nodes report))"

text \<open>\<open>dump\<close> is the JSON of the report, which the graph only stores.\<close>

definition build_from_planning_report ::
    "str \<Rightarrow> str \<Rightarrow> graph_request \<Rightarrow> json dict \<Rightarrow> planning_report \<Rightarrow> exec_graph" where
  "build_from_planning_report uid now rq dump report =
     (let nodes = planned_nodes report; refs = [ref_json ''planning_report'' (report_id report)]
      in launch_graph
           ((new_graph uid now ''cooperative'' (if report_status report = ''ready'' then GReady else GBlocked) rq refs
               nodes (node_edges ''planner_dependency'' nodes))
            \<lparr>graph_dependencies := node_deps nodes,
             graph_checkpoints := [checkpoint now None (report_status report)
               ''ExecutionGraph created from Intelligent Planner strategy.'' refs],
             graph_supervisor := cooperative_supervisor, graph_speakertruth := cooperative_speakertruth,
             graph_planning_report := dump\<rparr>))"

section \<open>Running a graph\<close>

fun update_first :: "('a \<Rightarrow> bool) \<Rightarrow> ('a \<Rightarrow> 'a) \<Rightarrow> 'a list \<Rightarrow> 'a list" where
  "update_first p f [] = []"
| "update_first p f (x # xs) = (if p x then f x # xs else x # update_first p f xs)"

definition change_node :: "(exec_node \<Rightarrow> bool) \<Rightarrow> (exec_node \<Rightarrow> exec_node) \<Rightarrow> exec_graph \<Rightarrow> exec_graph" where
  "change_node p f g = g\<lparr>graph_nodes := update_first p f (graph_nodes g)\<rparr>"

definition poll_graph :: "str \<Rightarrow> exec_graph \<Rightarrow> exec_graph" where
  "poll_graph now g =
     (let g1 = (refresh_ready_nodes (refresh_lifecycle now g))\<lparr>graph_updated_at := now\<rparr>
      in add_checkpoint (checkpoint now None (graph_status_name (graph_status g1))
           ''ExecutionGraph polled from node runtime state.'' []) g1)"

text \<open>The body that \<open>mark_step_started\<close> and \<open>mark_node_started\<close> share once the node is found.\<close>

definition start_node :: "str \<Rightarrow> exec_node \<Rightarrow> exec_node" where
  "start_node now n =
     n\<lparr>node_status := NRunning,
       node_metrics := (node_metrics n)\<lparr>started_at := Some (str_or (started_at (node_metrics n)) now),
         attempts := attempts (node_metrics n) + 1\<rparr>\<rparr>"

definition mark_started :: "str \<Rightarrow> (exec_node \<Rightarrow> bool) \<Rightarrow> exec_graph \<Rightarrow> exec_graph" where
  "mark_started now p g =
     (case find p (graph_nodes g) of
        None \<Rightarrow> g
      | Some n \<Rightarrow>
          (add_checkpoint (checkpoint now (Some (node_id n)) ''running'' (''Node '' @ node_id n @ '' started.'') [])
             (change_node p (start_node now) g))
          \<lparr>graph_status := GRunning,
           graph_lifecycle := (graph_lifecycle g)\<lparr>lc_status := GRunning, current_node_id := Some (node_id n),
             lc_updated_at := now\<rparr>,
           graph_metrics := (graph_metrics g)\<lparr>started_at := Some (str_or (started_at (graph_metrics g)) now)\<rparr>,
           graph_updated_at := now\<rparr>)"

definition mark_step_started :: "str \<Rightarrow> str \<Rightarrow> exec_graph \<Rightarrow> exec_graph" where
  "mark_step_started now i g = mark_started now (\<lambda>n. node_step_id n = Some i) g"

definition mark_node_started :: "str \<Rightarrow> str \<Rightarrow> exec_graph \<Rightarrow> exec_graph" where
  "mark_node_started now i g = mark_started now (\<lambda>n. node_id n = i) g"

definition node_status_of :: "str \<Rightarrow> node_status" where
  "node_status_of value =
     (case map_of [(''completed'', NCompleted), (''partial'', NPartial), (''blocked'', NBlocked),
        (''failed'', NFailed), (''cancelled'', NCancelled), (''skipped'', NSkipped)] value of
        Some st \<Rightarrow> st | None \<Rightarrow> NFailed)"

definition finish_summary :: "exec_node \<Rightarrow> str" where
  "finish_summary n = ''Node '' @ node_id n @ '' finished with status '' @ node_status_name (node_status n) @ ''.''"

definition clear_current :: "exec_graph \<Rightarrow> exec_graph" where
  "clear_current g = g\<lparr>graph_lifecycle := (graph_lifecycle g)\<lparr>current_node_id := None\<rparr>\<rparr>"

definition finish_step :: "str \<Rightarrow> str \<Rightarrow> json dict \<Rightarrow> str list \<Rightarrow> str list \<Rightarrow> exec_node \<Rightarrow> exec_node" where
  "finish_step now status output ws vs n =
     n\<lparr>node_status := node_status_of status, node_output_summary := output,
       node_warnings := py_unique ws, node_violations := py_unique vs,
       node_metrics := (node_metrics n)\<lparr>finished_at := Some now, warnings_count := length (py_unique ws),
         violations_count := length (py_unique vs)\<rparr>\<rparr>"

definition mark_step_finished ::
    "str \<Rightarrow> str \<Rightarrow> str \<Rightarrow> json dict \<Rightarrow> str list \<Rightarrow> str list \<Rightarrow> exec_graph \<Rightarrow> exec_graph" where
  "mark_step_finished now i status output ws vs g =
     (let p = (\<lambda>n. node_step_id n = Some i)
      in case find p (graph_nodes g) of
           None \<Rightarrow> g
         | Some n \<Rightarrow>
             (let n' = finish_step now status output ws vs n;
                  g1 = mark_ready (refresh_lifecycle now
                    (clear_current (change_node p (finish_step now status output ws vs) g)))
              in (add_checkpoint (checkpoint now (Some (node_id n)) (node_status_name (node_status n'))
                    (finish_summary n') []) g1)\<lparr>graph_updated_at := now\<rparr>))"

text \<open>
  What a worker reports for a node. \<open>elapsed\<close> stands for the difference of two parsed time stamps in
  milliseconds, truncated; \<open>None\<close> where parsing or subtracting raises.
\<close>

record node_report =
  rep_status :: str
  rep_outputs :: "json dict"
  rep_artifact_refs :: "json list"
  rep_memory_candidates :: "json list"
  rep_speakertruth :: "json dict"
  rep_review :: "json dict"
  rep_validation :: "json dict"
  rep_warnings :: "str list"
  rep_violations :: "str list"

definition duration_of :: "(str \<Rightarrow> str \<Rightarrow> int option) \<Rightarrow> str \<Rightarrow> str \<Rightarrow> int option" where
  "duration_of elapsed start finish = map_option (\<lambda>d. max 0 d) (elapsed start finish)"

definition finish_node :: "(str \<Rightarrow> str \<Rightarrow> int option) \<Rightarrow> str \<Rightarrow> node_report \<Rightarrow> exec_node \<Rightarrow> exec_node" where
  "finish_node elapsed now r n =
     n\<lparr>node_status := node_status_of (rep_status r), node_outputs := rep_outputs r,
       node_output_summary := rep_outputs r, node_artifacts := rep_artifact_refs r,
       node_memory_candidates := rep_memory_candidates r, node_speakertruth := rep_speakertruth r,
       node_review := rep_review r, node_warnings := py_unique (rep_warnings r),
       node_violations := py_unique (rep_violations r),
       node_metrics := (node_metrics n)\<lparr>finished_at := Some now,
         duration_ms := (if opt_truthy (started_at (node_metrics n))
           then duration_of elapsed (the (started_at (node_metrics n))) now else duration_ms (node_metrics n)),
         warnings_count := length (py_unique (rep_warnings r)),
         violations_count := length (py_unique (rep_violations r))\<rparr>\<rparr>"

definition result_of :: "str \<Rightarrow> str \<Rightarrow> node_report \<Rightarrow> exec_node list \<Rightarrow> exec_node \<Rightarrow> exec_result" where
  "result_of uid now r nodes n =
     \<lparr>result_id = uid, res_node_id = Some (node_id n), res_status = node_status_name (node_status n),
      res_output_contract = node_output_contract (node_id n) nodes, res_outputs = node_outputs n,
      res_artifact_refs = node_artifacts n, res_memory_candidates = node_memory_candidates n,
      res_evidence_refs = [ref_json ''execution_node'' (node_id n)], res_speakertruth = node_speakertruth n,
      res_review = node_review n, res_validation = rep_validation r, res_created_at = now\<rparr>"

definition mark_edges_completed_from :: "str \<Rightarrow> exec_graph \<Rightarrow> exec_graph" where
  "mark_edges_completed_from i g =
     g\<lparr>graph_dependencies := map (\<lambda>d. if source_node_id d = i then d\<lparr>dep_status := DepCompleted\<rparr> else d)
         (graph_dependencies g)\<rparr>"

text \<open>The result is appended to the graph, with what the node produced.\<close>

definition record_outcome :: "str \<Rightarrow> str \<Rightarrow> node_report \<Rightarrow> exec_node \<Rightarrow> exec_graph \<Rightarrow> exec_graph" where
  "record_outcome uid now r n g =
     g\<lparr>graph_results := graph_results g @ [result_of uid now r (graph_nodes g) n],
       graph_artifacts := graph_artifacts g @ node_artifacts n,
       graph_memory_candidates := graph_memory_candidates g @ node_memory_candidates n\<rparr>"

definition mark_node_finished ::
    "(str \<Rightarrow> str \<Rightarrow> int option) \<Rightarrow> str \<Rightarrow> str \<Rightarrow> str \<Rightarrow> node_report \<Rightarrow> exec_graph \<Rightarrow> exec_graph" where
  "mark_node_finished elapsed uid now i r g =
     (let p = (\<lambda>n. node_id n = i)
      in case find p (graph_nodes g) of
           None \<Rightarrow> g
         | Some n \<Rightarrow>
             (let n' = finish_node elapsed now r n;
                  g1 = record_outcome uid now r n' (change_node p (finish_node elapsed now r) g);
                  g2 = mark_edges_completed_from (node_id n) (clear_current g1);
                  g3 = refresh_ready_nodes (refresh_lifecycle now g2)
              in (add_checkpoint (checkpoint now (Some (node_id n)) (node_status_name (node_status n'))
                    (finish_summary n') [ref_json ''node_result'' uid]) g3)\<lparr>graph_updated_at := now\<rparr>))"

definition downstream_node_ids :: "str \<Rightarrow> exec_graph \<Rightarrow> str list" where
  "downstream_node_ids i g =
     (let es = edge_pairs (graph_edges g) in downstream es (rev (outgoing es i)) [])"

definition reset_node :: "exec_node \<Rightarrow> exec_node" where
  "reset_node n =
     n\<lparr>retry_count := retry_count n + 1, node_status := NPending, node_outputs := [], node_output_summary := [],
       node_artifacts := [], node_memory_candidates := [], node_speakertruth := [], node_review := [],
       node_warnings := [], node_violations := [],
       node_metrics := (node_metrics n)\<lparr>started_at := None, finished_at := None\<rparr>\<rparr>"

definition reopen_node :: "exec_node \<Rightarrow> exec_node" where
  "reopen_node n =
     (if node_status n \<in> {NReady, NWaiting, NBlocked, NFailed, NCompleted, NPartial}
      then n\<lparr>node_status := NPending\<rparr> else n)"

definition change_all :: "str list \<Rightarrow> (exec_node \<Rightarrow> exec_node) \<Rightarrow> exec_graph \<Rightarrow> exec_graph" where
  "change_all is f g = fold (\<lambda>i. change_node (\<lambda>n. node_id n = i) f) is g"

definition retry_node :: "str \<Rightarrow> str \<Rightarrow> str \<Rightarrow> exec_graph \<Rightarrow> exec_graph" where
  "retry_node now i reason g =
     (let p = (\<lambda>n. node_id n = i)
      in case find p (graph_nodes g) of
           None \<Rightarrow> g
         | Some n \<Rightarrow>
             (let g1 = change_node p reset_node g;
                  g2 = change_all (downstream_node_ids i g1) reopen_node g1;
                  g3 = add_checkpoint (checkpoint now (Some (node_id n)) ''pending'' reason []) g2
              in (refresh_ready_nodes (refresh_lifecycle now g3))\<lparr>graph_updated_at := now\<rparr>))"

definition cancel_this :: "str \<Rightarrow> exec_node \<Rightarrow> exec_node" where
  "cancel_this reason n =
     n\<lparr>node_status := NCancelled, node_violations := py_unique (node_violations n @ [reason])\<rparr>"

definition block_dependent :: "str \<Rightarrow> exec_node \<Rightarrow> exec_node" where
  "block_dependent i n =
     (if node_status n \<in> {NPending, NReady, NWaiting}
      then n\<lparr>node_status := NBlocked, node_violations := py_unique (node_violations n @ [''dependency_cancelled:'' @ i])\<rparr>
      else n)"

definition cancel_node :: "str \<Rightarrow> str \<Rightarrow> str \<Rightarrow> exec_graph \<Rightarrow> exec_graph" where
  "cancel_node now i reason g =
     (let p = (\<lambda>n. node_id n = i)
      in case find p (graph_nodes g) of
           None \<Rightarrow> g
         | Some n \<Rightarrow>
             (let g1 = change_node p (cancel_this reason) g;
                  g2 = change_all (downstream_node_ids i g1) (block_dependent i) g1;
                  g3 = add_checkpoint (checkpoint now (Some (node_id n)) ''cancelled'' reason []) g2
              in (refresh_lifecycle now g3)\<lparr>graph_updated_at := now\<rparr>))"

definition mark_cancelled :: "str \<Rightarrow> str \<Rightarrow> exec_graph \<Rightarrow> exec_graph" where
  "mark_cancelled now reason g =
     (let g1 = g\<lparr>graph_nodes := map (\<lambda>n. if node_status n \<in> {NPending, NReady, NRunning}
                                         then n\<lparr>node_status := NCancelled\<rparr> else n) (graph_nodes g)\<rparr>;
          g2 = g1\<lparr>graph_status := GCancelled,
                  graph_lifecycle := (graph_lifecycle g1)\<lparr>lc_status := GCancelled,
                    cancelled_node_ids := ids_with (\<lambda>n. node_status n = NCancelled) g1\<rparr>\<rparr>
      in (add_checkpoint (checkpoint now None ''cancelled'' reason []) g2)\<lparr>graph_updated_at := now\<rparr>)"

end
