(* ===== verification/Workflow_Runtime.thy ===== *)
theory Workflow_Runtime
  imports Phase_Admission Progress_Float Run_Payloads Execution_Graph
begin

text \<open>
  The workflow of a task run: \<open>schemas/runtime/workflow_runtime.py\<close> and
  \<open>services/runtime/workflow_runtime_service.py\<close>. A run has one phase per step of its plan; a phase may start
  when the phases it depends on have ended well and, for a dependency the plan states explicitly, when their
  evidence has been admitted (\<open>Phase_Admission\<close>).

  Python objects of a workflow are mutated in place; here every operation returns the new workflow. A phase is
  changed by \<open>update_first\<close>, because \<open>phase_for_step\<close> and \<open>phase\<close> hand out the first one that matches. The
  compiler of semantic demands (\<open>phase_semantic_demand_compiler.py\<close>), the order in which a set of step ids is
  iterated, the clock and fresh identifiers are the record \<open>workflow_env\<close>. Identifiers that are only stored
  (of checkpoints) are left out. \<open>lower\<close> and \<open>isalnum\<close> are those of ASCII: step types and actions are
  identifiers.
\<close>

section \<open>Data\<close>

record workflow_checkpoint =
  wc_phase_id :: str
  wc_step_id :: "str option"
  wc_type :: str
  wc_status :: str
  wc_event_id :: "str option"
  wc_timestamp :: str
  wc_metadata :: "json dict"

record demand_compilation =
  dc_status :: str
  dc_requirements :: "downstream_requirements option"
  dc_reason_codes :: "str list"

record phase_dependency =
  wd_dependency_id :: str
  wd_producer_phase_id :: str
  wd_consumer_phase_id :: str
  wd_relation :: str
  wd_required_status :: str
  wd_required_artifacts :: "str list"
  wd_required_validations :: "str list"
  wd_status :: str
  wd_missing_reasons :: "str list"
  wd_evaluation_required :: bool
  wd_requirements :: "downstream_requirements option"
  wd_demand_compilation :: "demand_compilation option"
  wd_evaluation :: "phase_evaluation option"
  wd_admission :: "phase_admission option"

record workflow_phase =
  wp_phase_id :: str
  wp_name :: str
  wp_source_step_id :: str
  wp_source_step_type :: str
  wp_action :: str
  wp_required :: bool
  wp_status :: str
  wp_current_step :: "str option"
  wp_depends_on :: "str list"
  wp_produced_artifacts :: "str list"
  wp_validation_refs :: "str list"
  wp_validation_status :: str
  wp_semantic_outcome :: "json dict"
  wp_started_at :: "str option"
  wp_finished_at :: "str option"
  wp_progress :: int
  wp_checkpoints :: "workflow_checkpoint list"
  wp_blocked_reasons :: "str list"

record workflow =
  wf_workflow_id :: str
  wf_task_id :: "str option"
  wf_task_run_id :: str
  wf_operation_id :: "str option"
  wf_runtime_profile :: "str option"
  wf_status :: str
  wf_current_phase :: "str option"
  wf_next_phase :: "str option"
  wf_previous_phase :: "str option"
  wf_current_step :: "str option"
  wf_progress :: int
  wf_phases :: "workflow_phase list"
  wf_dependencies :: "phase_dependency list"
  wf_checkpoints :: "workflow_checkpoint list"
  wf_finish_contract :: "json dict"
  wf_created_at :: str
  wf_updated_at :: str
  wf_blocked_reasons :: "str list"

record resume_point =
  rp_workflow_id :: str
  rp_phase_id :: "str option"
  rp_source_step_id :: "str option"
  rp_status :: str
  rp_reason :: str

text \<open>What the workflow reads of a run and its plan; \<open>pr_depends_on\<close> are the steps of the canonical plan.\<close>

record planned_step =
  ps_step_id :: str
  ps_step_type :: str
  ps_action :: str
  ps_required :: bool

record planned_run =
  pr_run_id :: str
  pr_task_id :: "str option"
  pr_operation_id :: "str option"
  pr_runtime_profile :: "str option"
  pr_steps :: "planned_step list"
  pr_depends_on :: "(str \<times> str list) list"

record workflow_env =
  we_now :: str
  we_uid :: "str \<Rightarrow> str"
  we_set_order :: "str list \<Rightarrow> str list"
  we_compile :: "planned_run \<Rightarrow> str \<Rightarrow> str \<Rightarrow> str \<Rightarrow> demand_compilation"
  we_render :: "json \<Rightarrow> str"
  we_admission :: admission_env

definition SUCCESS_STATUSES :: "str list" where
  "SUCCESS_STATUSES = [''completed'', ''partial'', ''skipped'']"

definition TERMINAL_STATUSES :: "str list" where
  "TERMINAL_STATUSES = [''completed'', ''partial'', ''failed'', ''blocked'', ''cancelled'']"

section \<open>Looking up phases\<close>

definition phase_for_step :: "workflow \<Rightarrow> str \<Rightarrow> workflow_phase option" where
  "phase_for_step w step = find (\<lambda>p. wp_source_step_id p = step) (wf_phases w)"

definition workflow_phase_of :: "workflow \<Rightarrow> str \<Rightarrow> workflow_phase option" where
  "workflow_phase_of w i = find (\<lambda>p. wp_phase_id p = i) (wf_phases w)"

definition phase_satisfied :: "workflow_phase \<Rightarrow> bool" where
  "phase_satisfied p \<longleftrightarrow>
     wp_status p \<in> set SUCCESS_STATUSES \<or> (\<not> wp_required p \<and> wp_status p \<in> set TERMINAL_STATUSES)"

text \<open>The phase a step belongs to is changed in place.\<close>

definition on_phase :: "str \<Rightarrow> (workflow_phase \<Rightarrow> workflow_phase) \<Rightarrow> workflow \<Rightarrow> workflow" where
  "on_phase step f w = w\<lparr>wf_phases := update_first (\<lambda>p. wp_source_step_id p = step) f (wf_phases w)\<rparr>"

section \<open>Checkpoints and the state of the workflow\<close>

definition add_phase_checkpoint ::
  "workflow_env \<Rightarrow> workflow_phase \<Rightarrow> str \<Rightarrow> str \<Rightarrow> str option \<Rightarrow> json dict \<Rightarrow> workflow \<Rightarrow> workflow" where
  "add_phase_checkpoint env p kind status event metadata w =
     (let c = \<lparr>wc_phase_id = wp_phase_id p, wc_step_id = Some (wp_source_step_id p), wc_type = kind,
               wc_status = status, wc_event_id = event, wc_timestamp = we_now env, wc_metadata = metadata\<rparr>;
          w1 = on_phase (wp_source_step_id p) (\<lambda>q. q\<lparr>wp_checkpoints := wp_checkpoints q @ [c]\<rparr>) w
      in w1\<lparr>wf_checkpoints := wf_checkpoints w1 @ [c], wf_updated_at := we_now env\<rparr>)"

definition clamp_progress :: "int \<Rightarrow> nat" where
  "clamp_progress i = nat (max 0 (min 100 i))"

definition workflow_progress :: "workflow_phase list \<Rightarrow> int" where
  "workflow_progress ps = int (float_percent (sum_list (map (\<lambda>p. clamp_progress (wp_progress p)) ps)) (length ps * 100))"

definition blocked_phases :: "workflow_phase list \<Rightarrow> workflow_phase list" where
  "blocked_phases ps = filter (\<lambda>p. wp_required p \<and> wp_status p \<in> set [''blocked'', ''failed'']) ps"

definition workflow_status :: "workflow_phase list \<Rightarrow> str" where
  "workflow_status ps =
     (if blocked_phases ps \<noteq> [] then
        (if list_ex (\<lambda>p. wp_status p = ''blocked'') (blocked_phases ps) then ''blocked'' else ''failed'')
      else if length (filter phase_satisfied ps) = length ps then ''completed''
      else if filter (\<lambda>p. wp_status p = ''running'') ps \<noteq> [] then ''running''
      else ''created'')"

definition current_phase_of :: "workflow_phase list \<Rightarrow> workflow_phase option" where
  "current_phase_of ps =
     (case filter (\<lambda>p. wp_status p = ''running'') ps of
        p # _ \<Rightarrow> Some p
      | [] \<Rightarrow> find (\<lambda>p. wp_status p \<in> set [''pending'', ''blocked'', ''failed'']) ps)"

definition refresh_workflow :: "workflow \<Rightarrow> workflow" where
  "refresh_workflow w =
     (if wf_phases w = [] then w\<lparr>wf_status := ''completed'', wf_progress := 100\<rparr>
      else
        (let ps = wf_phases w;
             current = current_phase_of ps;
             index = (case current of None \<Rightarrow> None | Some p \<Rightarrow> Some (py_index ps p))
         in w\<lparr>wf_status := workflow_status ps,
              wf_current_phase := map_option wp_phase_id current,
              wf_current_step := (case current of None \<Rightarrow> None | Some p \<Rightarrow> wp_current_step p),
              wf_previous_phase :=
                (case index of None \<Rightarrow> None | Some i \<Rightarrow> if 0 < i then Some (wp_phase_id (ps ! (i - 1))) else None),
              wf_next_phase :=
                (case index of None \<Rightarrow> None
                 | Some i \<Rightarrow> if i + 1 < length ps then Some (wp_phase_id (ps ! (i + 1))) else None),
              wf_progress := workflow_progress ps\<rparr>))"

section \<open>Creation\<close>

definition is_alnum :: "char \<Rightarrow> bool" where
  "is_alnum c \<longleftrightarrow> is_letter c \<or> (let n = (of_char c :: nat) in 48 \<le> n \<and> n \<le> 57)"

definition safe_id :: "str \<Rightarrow> str" where
  "safe_id v =
     (let s = map (\<lambda>c. if is_alnum c then c else CHR ''_'') (ascii_fold v);
          t = rev (dropWhile (\<lambda>c. c = CHR ''_'') (rev (dropWhile (\<lambda>c. c = CHR ''_'') s)))
      in if t = [] then ''phase'' else t)"

definition pad3 :: "nat \<Rightarrow> str" where
  "pad3 n = replicate (3 - length (nat_str n)) CHR ''0'' @ nat_str n"

definition str_else :: "str \<Rightarrow> str \<Rightarrow> str" where
  "str_else a b = (if a = [] then b else a)"

definition new_phase :: "nat \<Rightarrow> planned_step \<Rightarrow> workflow_phase option \<Rightarrow> workflow_phase" where
  "new_phase index s prev =
     (let i = ''phase_'' @ pad3 index @ ''_'' @ safe_id (str_else (ps_step_type s) (ps_action s))
      in \<lparr>wp_phase_id = i, wp_name = str_else (ps_step_type s) (str_else (ps_action s) i),
          wp_source_step_id = ps_step_id s, wp_source_step_type = ps_step_type s, wp_action = ps_action s,
          wp_required = ps_required s, wp_status = ''pending'', wp_current_step = None,
          wp_depends_on = (case prev of None \<Rightarrow> [] | Some p \<Rightarrow> [wp_phase_id p]), wp_produced_artifacts = [],
          wp_validation_refs = [], wp_validation_status = ''pending'', wp_semantic_outcome = [],
          wp_started_at = None, wp_finished_at = None, wp_progress = 0, wp_checkpoints = [],
          wp_blocked_reasons = []\<rparr>)"

definition new_dependency ::
  "workflow_env \<Rightarrow> planned_run \<Rightarrow> workflow_phase \<Rightarrow> workflow_phase \<Rightarrow> bool \<Rightarrow> phase_dependency" where
  "new_dependency env run producer consumer explicit =
     (let dc = we_compile env run (wp_phase_id consumer) (wp_action consumer) (wp_source_step_id consumer)
      in \<lparr>wd_dependency_id =
            ''phase_dependency_'' @ we_uid env (wp_phase_id producer @ ''>'' @ wp_phase_id consumer),
          wd_producer_phase_id = wp_phase_id producer, wd_consumer_phase_id = wp_phase_id consumer,
          wd_relation = (if explicit then ''explicit_plan_dependency'' else ''implicit_sequence''),
          wd_required_status = ''completed'', wd_required_artifacts = [], wd_required_validations = [],
          wd_status = ''pending'', wd_missing_reasons = [], wd_evaluation_required = explicit,
          wd_requirements = (if explicit then dc_requirements dc else None),
          wd_demand_compilation = (if explicit then Some dc else None),
          wd_evaluation = None, wd_admission = None\<rparr>)"

definition explicit_step_dependencies :: "workflow_env \<Rightarrow> planned_run \<Rightarrow> str list dict" where
  "explicit_step_dependencies env run =
     fold (\<lambda>(step, deps) d. AList.update step (we_set_order env (py_unique (filter (\<lambda>x. x \<noteq> []) deps))) d)
       (filter (\<lambda>sd. fst sd \<noteq> []) (pr_depends_on run)) []"

fun sequence_phases ::
  "workflow_env \<Rightarrow> planned_run \<Rightarrow> str list dict \<Rightarrow> nat \<Rightarrow> workflow_phase option \<Rightarrow> planned_step list \<Rightarrow>
     workflow_phase list \<times> phase_dependency list" where
  "sequence_phases env run explicit index prev [] = ([], [])"
| "sequence_phases env run explicit index prev (s # steps) =
     (let p = new_phase index s prev;
          (ps, ds) = sequence_phases env run explicit (index + 1) (Some p) steps;
          d = (case prev of
                 None \<Rightarrow> []
               | Some q \<Rightarrow>
                   [new_dependency env run q p
                      (wp_source_step_id q \<in> set (case map_of explicit (ps_step_id s) of None \<Rightarrow> [] | Some xs \<Rightarrow> xs))])
      in (p # ps, d @ ds))"

definition upgrade_dependency :: "phase_dependency \<Rightarrow> phase_dependency \<Rightarrow> phase_dependency" where
  "upgrade_dependency new d =
     d\<lparr>wd_relation := wd_relation new, wd_evaluation_required := True,
       wd_demand_compilation := wd_demand_compilation new, wd_requirements := wd_requirements new\<rparr>"

definition add_explicit ::
  "workflow_env \<Rightarrow> planned_run \<Rightarrow> str \<Rightarrow> str \<Rightarrow> workflow_phase list \<times> phase_dependency list \<Rightarrow>
     workflow_phase list \<times> phase_dependency list" where
  "add_explicit env run consumer_step producer_step st =
     (let (ps, ds) = st
      in case (last_by wp_source_step_id ps consumer_step, last_by wp_source_step_id ps producer_step) of
           (Some c, Some p) \<Rightarrow>
             (if wp_phase_id p = wp_phase_id c then (ps, ds)
              else
                (let pair = (\<lambda>d. wd_producer_phase_id d = wp_phase_id p \<and> wd_consumer_phase_id d = wp_phase_id c);
                     new = new_dependency env run p c True
                 in case find pair ds of
                      Some d \<Rightarrow>
                        (ps, if wd_evaluation_required d then ds else update_first pair (upgrade_dependency new) ds)
                    | None \<Rightarrow>
                        (update_first (\<lambda>q. wp_phase_id q = wp_phase_id c)
                           (\<lambda>q. q\<lparr>wp_depends_on := py_unique (wp_depends_on q @ [wp_phase_id p])\<rparr>) ps,
                         ds @ [new])))
         | _ \<Rightarrow> (ps, ds))"

definition create_for_run :: "workflow_env \<Rightarrow> planned_run \<Rightarrow> workflow" where
  "create_for_run env run =
     (let explicit = explicit_step_dependencies env run;
          st = sequence_phases env run explicit 1 None (pr_steps run);
          (ps, ds) = fold (\<lambda>(consumer, producers). fold (add_explicit env run consumer) producers) explicit st
      in refresh_workflow
           \<lparr>wf_workflow_id = ''workflow_'' @ we_uid env (pr_run_id run),
            wf_task_id = (if opt_truthy (pr_task_id run) then pr_task_id run else Some (pr_run_id run)),
            wf_task_run_id = pr_run_id run, wf_operation_id = pr_operation_id run,
            wf_runtime_profile = pr_runtime_profile run, wf_status = ''created'', wf_current_phase = None,
            wf_next_phase = None, wf_previous_phase = None, wf_current_step = None, wf_progress = 0,
            wf_phases = ps, wf_dependencies = ds, wf_checkpoints = [],
            wf_finish_contract =
              [(''phase_validation_required'', JBool True), (''completion_source'', JStr ''workflow''),
               (''required_phase_statuses'', jstrs SUCCESS_STATUSES)],
            wf_created_at = we_now env, wf_updated_at = we_now env, wf_blocked_reasons = []\<rparr>)"

section \<open>Starting a phase\<close>

definition dependency_missing_reasons :: "workflow_phase option \<Rightarrow> phase_dependency \<Rightarrow> str list" where
  "dependency_missing_reasons producer d =
     (case producer of
        None \<Rightarrow> [''producer_phase_missing'']
      | Some p \<Rightarrow>
          if \<not> wp_required p \<and> wp_status p \<in> set TERMINAL_STATUSES then []
          else
            (if wp_status p \<noteq> wd_required_status d \<and> wp_status p \<notin> set SUCCESS_STATUSES
             then [''producer_status:'' @ wp_status p] else []) @
            map ((@) ''artifact_missing:'')
              (filter (\<lambda>a. a \<notin> set (wp_produced_artifacts p)) (wd_required_artifacts d)) @
            map ((@) ''validation_missing:'')
              (filter (\<lambda>v. v \<notin> set (wp_validation_refs p) \<and> wp_validation_status p \<noteq> ''passed'')
                 (wd_required_validations d)))"

text \<open>
  \<open>[str(item) for item in outcome.get(key, []) if str(item)]\<close>: a string is iterated by characters, an object
  by keys, anything else raises. \<open>dict(outcome.get(key) or {})\<close> is read for objects only; another true value
  raises here.
\<close>

definition outcome_strs :: "workflow_env \<Rightarrow> str \<Rightarrow> json dict \<Rightarrow> str list outcome" where
  "outcome_strs env k d =
     obind (case map_of d k of
              None \<Rightarrow> Inr []
            | Some (JList xs) \<Rightarrow> Inr xs
            | Some (JStr s) \<Rightarrow> Inr (map (\<lambda>c. JStr [c]) s)
            | Some (JObj kvs) \<Rightarrow> Inr (map (JStr \<circ> fst) kvs)
            | _ \<Rightarrow> Inl ''TypeError'')
       (\<lambda>xs. Inr (filter (\<lambda>s. s \<noteq> []) (map (py_str (we_render env)) xs)))"

definition outcome_dict :: "str \<Rightarrow> json dict \<Rightarrow> json dict outcome" where
  "outcome_dict k d =
     (case json_or (json_get k d) (JObj []) of JObj kvs \<Rightarrow> Inr kvs | _ \<Rightarrow> Inl ''TypeError'')"

definition producer_snapshot ::
  "workflow_env \<Rightarrow> workflow \<Rightarrow> workflow_phase \<Rightarrow> phase_dependency \<Rightarrow> phase_snapshot outcome" where
  "producer_snapshot env w p d =
     (let so = wp_semantic_outcome p
      in obind (outcome_strs env ''limitations'' so) (\<lambda>limitations.
         obind (outcome_strs env ''required_disclosures'' so) (\<lambda>disclosures.
         obind (outcome_strs env ''missing_truth'' so) (\<lambda>missing.
         obind (outcome_strs env ''risk_constraints'' so) (\<lambda>risks.
         obind (outcome_strs env ''allowed_downstream_uses'' so) (\<lambda>uses.
         obind (outcome_dict ''use_safety'' so) (\<lambda>safety.
         obind (outcome_dict ''semantic_properties'' so) (\<lambda>properties.
           Inr \<lparr>ph_dependency_id = wd_dependency_id d, ph_producer_task_run_id = wf_task_run_id w,
                ph_producer_operation_id = wf_operation_id w, ph_producer_phase_id = wd_producer_phase_id d,
                ph_upstream_result_ref =
                  (if wp_validation_refs p = [] then wf_task_run_id w else last (wp_validation_refs p)),
                ph_dependency_status =
                  (if wp_status p = ''completed'' then ''satisfied''
                   else if wp_status p = ''partial'' then ''satisfied_with_limitations'' else wp_status p),
                ph_evidence_refs = py_unique (wp_produced_artifacts p @ wp_validation_refs p),
                ph_limitations = limitations, ph_required_disclosures = disclosures, ph_missing_truth = missing,
                ph_risk_constraints = risks, ph_allowed_downstream_uses = uses, ph_forbidden_downstream_uses = [],
                ph_forbidden_claims = [], ph_use_safety = safety, ph_semantic_properties = properties\<rparr>))))))))"

definition dependency_scope :: "workflow \<Rightarrow> phase_dependency \<Rightarrow> downstream_requirements \<Rightarrow> admission_scope" where
  "dependency_scope w d r =
     \<lparr>sc_consumer_task_run_id = wf_task_run_id w, sc_consumer_operation_id = str_or (wf_operation_id w) [],
      sc_consumer_operation_type = dr_operation_type r, sc_producer_task_run_id = wf_task_run_id w,
      sc_producer_operation_id = wf_operation_id w, sc_dependency_id = wd_dependency_id d,
      sc_producer_phase_id = wd_producer_phase_id d, sc_consumer_phase_id = wd_consumer_phase_id d\<rparr>"

text \<open>An evaluation or admission that the dependency already carries is used again.\<close>

definition ensure_evaluation ::
  "workflow_env \<Rightarrow> workflow \<Rightarrow> workflow_phase \<Rightarrow> phase_dependency \<Rightarrow> downstream_requirements \<Rightarrow> phase_evaluation outcome" where
  "ensure_evaluation env w p d r =
     (case wd_evaluation d of
        Some e \<Rightarrow> Inr e
      | None \<Rightarrow>
          obind (producer_snapshot env w p d) (\<lambda>sn.
            evaluate_dependency (we_admission env) sn r (wf_task_run_id w) (str_or (wf_operation_id w) [])
              (dr_operation_type r)))"

definition ensure_admission ::
  "workflow_env \<Rightarrow> workflow \<Rightarrow> phase_dependency \<Rightarrow> downstream_requirements \<Rightarrow> phase_evaluation \<Rightarrow> phase_admission outcome" where
  "ensure_admission env w d r e =
     (case wd_admission d of
        Some a \<Rightarrow> Inr a
      | None \<Rightarrow>
          obind (authorize_dependency (we_admission env) e r (dependency_scope w d r) None) (\<lambda>(a, _). Inr a))"

definition admit_dependency ::
  "workflow_env \<Rightarrow> workflow \<Rightarrow> workflow_phase \<Rightarrow> phase_dependency \<Rightarrow> downstream_requirements \<Rightarrow>
     (phase_dependency \<times> str option) outcome" where
  "admit_dependency env w p d r =
     obind (ensure_evaluation env w p d r) (\<lambda>e.
     obind (ensure_admission env w d r e) (\<lambda>a.
     obind (validate_admission (we_admission env) a e r (dependency_scope w d r)) (\<lambda>(valid, reason).
       Inr (d\<lparr>wd_evaluation := Some e, wd_admission := Some a\<rparr>,
            if valid then None else Some (str_or reason ''phase_dependency_not_admitted'')))))"

definition dependency_admission_reason ::
  "workflow_env \<Rightarrow> workflow \<Rightarrow> workflow_phase option \<Rightarrow> phase_dependency \<Rightarrow> (phase_dependency \<times> str option) outcome" where
  "dependency_admission_reason env w producer d =
     (if (case producer of None \<Rightarrow> False | Some p \<Rightarrow> \<not> wp_required p \<and> wp_status p \<in> set TERMINAL_STATUSES)
      then Inr (d, None)
      else if \<not> wd_evaluation_required d then Inr (d, None)
      else case wd_demand_compilation d of
        None \<Rightarrow> Inr (d, Some ''PHASE_DEPENDENCY_DOWNSTREAM_DEMAND_NOT_COMPILED'')
      | Some dc \<Rightarrow>
          if dc_status dc \<noteq> ''compiled'' then
            Inr (d, Some (case dc_reason_codes dc of
                            [] \<Rightarrow> ''PHASE_DEPENDENCY_INSUFFICIENT_CONTRACT_EVIDENCE'' | c # _ \<Rightarrow> c))
          else (case (wd_requirements d, producer) of
                  (Some r, Some p) \<Rightarrow> admit_dependency env w p d r
                | _ \<Rightarrow> Inr (d, Some ''phase_dependency_evaluation_required'')))"

definition check_dependency ::
  "workflow_env \<Rightarrow> workflow \<Rightarrow> phase_dependency \<Rightarrow> (phase_dependency \<times> str list) outcome" where
  "check_dependency env w d =
     (let producer = workflow_phase_of w (wd_producer_phase_id d);
          reasons = dependency_missing_reasons producer d;
          label = (\<lambda>r. wd_dependency_id d @ '':'' @ r);
          d1 = d\<lparr>wd_status := (if reasons = [] then ''completed'' else ''missing''), wd_missing_reasons := reasons\<rparr>
      in if reasons \<noteq> [] then Inr (d1, map label reasons)
         else obind (dependency_admission_reason env w producer d1) (\<lambda>(d2, reason).
           case reason of
             None \<Rightarrow> Inr (d2, [])
           | Some r \<Rightarrow>
               if r = [] then Inr (d2, [])
               else Inr (d2\<lparr>wd_status := ''missing'', wd_missing_reasons := [r]\<rparr>, [label r])))"

fun check_dependencies ::
  "workflow_env \<Rightarrow> workflow \<Rightarrow> str \<Rightarrow> phase_dependency list \<Rightarrow> (phase_dependency list \<times> str list) outcome" where
  "check_dependencies env w consumer [] = Inr ([], [])"
| "check_dependencies env w consumer (d # ds) =
     obind (if wd_consumer_phase_id d = consumer then check_dependency env w d else Inr (d, [])) (\<lambda>(d', missing).
     obind (check_dependencies env w consumer ds) (\<lambda>(ds', rest).
       Inr (d' # ds', missing @ rest)))"

definition block_phase :: "workflow_env \<Rightarrow> workflow_phase \<Rightarrow> str list \<Rightarrow> workflow \<Rightarrow> workflow" where
  "block_phase env p missing w =
     (let reasons = ''missing_required_phase_dependencies'' # missing;
          w1 = on_phase (wp_source_step_id p)
                 (\<lambda>q. q\<lparr>wp_status := ''blocked'', wp_blocked_reasons := py_unique (wp_blocked_reasons q @ reasons)\<rparr>) w;
          w2 = w1\<lparr>wf_status := ''blocked'', wf_blocked_reasons := py_unique (wf_blocked_reasons w1 @ reasons)\<rparr>
      in refresh_workflow
           (add_phase_checkpoint env p ''DEPENDENCY'' ''blocked'' None [(''missing_reasons'', jstrs missing)] w2))"

definition can_start_phase ::
  "workflow_env \<Rightarrow> workflow option \<Rightarrow> str \<Rightarrow> (workflow option \<times> bool \<times> str list) outcome" where
  "can_start_phase env wo step =
     (case wo of
        None \<Rightarrow> Inr (None, True, [])
      | Some w \<Rightarrow>
          (case phase_for_step w step of
             None \<Rightarrow> Inr (Some w, False, [''workflow_phase_not_found''])
           | Some p \<Rightarrow>
               obind (check_dependencies env w (wp_phase_id p) (wf_dependencies w)) (\<lambda>(ds, missing).
                 let w1 = w\<lparr>wf_dependencies := ds\<rparr>
                 in Inr (if missing = [] then (Some w1, True, [])
                         else (Some (block_phase env p missing w1), False,
                               py_unique (''missing_required_phase_dependencies'' # missing))))))"

definition start_phase_for_step :: "workflow_env \<Rightarrow> workflow option \<Rightarrow> str \<Rightarrow> str option \<Rightarrow> workflow option" where
  "start_phase_for_step env wo step event =
     (case wo of
        None \<Rightarrow> None
      | Some w \<Rightarrow>
          (case phase_for_step w step of
             None \<Rightarrow> Some w
           | Some p \<Rightarrow>
               (let w1 = on_phase step
                      (\<lambda>q. q\<lparr>wp_status := ''running'', wp_current_step := Some ''EXECUTION'',
                             wp_started_at := (if opt_truthy (wp_started_at q) then wp_started_at q else Some (we_now env)),
                             wp_progress := max (wp_progress q) 25\<rparr>) w;
                    w2 = add_phase_checkpoint env p ''START'' ''completed'' event [] w1;
                    w3 = add_phase_checkpoint env p ''EXECUTION'' ''running'' event [] w2
                in Some (refresh_workflow w3))))"

section \<open>Finishing a phase\<close>

definition validation_of :: "str \<Rightarrow> str list \<Rightarrow> str" where
  "validation_of status violations = (if status \<in> set SUCCESS_STATUSES \<and> violations = [] then ''passed'' else ''failed'')"

definition finished_phase :: "str \<Rightarrow> str list \<Rightarrow> workflow_phase \<Rightarrow> workflow_phase" where
  "finished_phase status violations q =
     (if validation_of status violations \<noteq> ''passed'' then
        q\<lparr>wp_status := (if status = ''blocked'' then ''blocked'' else ''failed''),
          wp_blocked_reasons := py_unique (wp_blocked_reasons q @ violations @ [''phase_validation_failed'']),
          wp_progress := max (wp_progress q) 75\<rparr>
      else q\<lparr>wp_status := status, wp_progress := 100\<rparr>)"

definition finish_phase_for_step ::
  "workflow_env \<Rightarrow> workflow option \<Rightarrow> str \<Rightarrow> str \<Rightarrow> str option \<Rightarrow> str list \<Rightarrow> str option \<Rightarrow> str list \<Rightarrow> json dict \<Rightarrow>
     workflow option" where
  "finish_phase_for_step env wo step status event artifacts validation_ref violations outcome =
     (case wo of
        None \<Rightarrow> None
      | Some w \<Rightarrow>
          (case phase_for_step w step of
             None \<Rightarrow> Some w
           | Some p \<Rightarrow>
               (let verdict = validation_of status violations;
                    w1 = on_phase step
                      (\<lambda>q. q\<lparr>wp_produced_artifacts := py_unique (wp_produced_artifacts q @ artifacts),
                             wp_semantic_outcome := outcome,
                             wp_validation_refs :=
                               (case validation_ref of
                                  None \<Rightarrow> wp_validation_refs q
                                | Some v \<Rightarrow> if v = [] then wp_validation_refs q else py_unique (wp_validation_refs q @ [v])),
                             wp_validation_status := verdict\<rparr>) w;
                    w2 = add_phase_checkpoint env p ''VALIDATION'' verdict event
                      [(''violations'', jstrs violations), (''validation_ref'', jopt validation_ref)] w1;
                    w3 = on_phase step (finished_phase status violations) w2;
                    w4 = add_phase_checkpoint env p ''FINISH''
                      (if verdict \<noteq> ''passed'' then (if status = ''blocked'' then ''blocked'' else ''failed'') else status)
                      event [] w3;
                    w5 = on_phase step (\<lambda>q. q\<lparr>wp_current_step := None, wp_finished_at := Some (we_now env)\<rparr>) w4
                in Some (refresh_workflow w5))))"

section \<open>Resuming\<close>

definition workflow_resume_point :: "workflow option \<Rightarrow> resume_point option" where
  "workflow_resume_point wo =
     (case wo of
        None \<Rightarrow> None
      | Some w \<Rightarrow>
          Some (case find (\<lambda>p. wp_status p \<in> set [''pending'', ''running'', ''blocked'', ''failed'']) (wf_phases w) of
                  Some p \<Rightarrow>
                    \<lparr>rp_workflow_id = wf_workflow_id w, rp_phase_id = Some (wp_phase_id p),
                     rp_source_step_id = Some (wp_source_step_id p), rp_status = wp_status p,
                     rp_reason = ''first_non_completed_phase''\<rparr>
                | None \<Rightarrow>
                    \<lparr>rp_workflow_id = wf_workflow_id w, rp_phase_id = None, rp_source_step_id = None,
                     rp_status = wf_status w, rp_reason = ''workflow_terminal''\<rparr>))"

section \<open>Changing phases\<close>

lemma map_update_first: "(\<And>x. f (g x) = f x) \<Longrightarrow> map f (update_first P g xs) = map f xs"
  by (induction xs) auto

lemma length_update_first [simp]: "length (update_first P g xs) = length xs"
  by (induction xs) auto

lemma on_phase_fields [simp]:
  "wf_dependencies (on_phase s f w) = wf_dependencies w" "wf_status (on_phase s f w) = wf_status w"
  "wf_phases (on_phase s f w) = update_first (\<lambda>p. wp_source_step_id p = s) f (wf_phases w)"
  by (simp_all add: on_phase_def)

lemma add_phase_checkpoint_fields [simp]:
  "wf_dependencies (add_phase_checkpoint env p k st ev m w) = wf_dependencies w"
  "wf_status (add_phase_checkpoint env p k st ev m w) = wf_status w"
  "map wp_phase_id (wf_phases (add_phase_checkpoint env p k st ev m w)) = map wp_phase_id (wf_phases w)"
  "map wp_status (wf_phases (add_phase_checkpoint env p k st ev m w)) = map wp_status (wf_phases w)"
  "map wp_progress (wf_phases (add_phase_checkpoint env p k st ev m w)) = map wp_progress (wf_phases w)"
  by (simp_all add: add_phase_checkpoint_def Let_def map_update_first)

lemma refresh_workflow_fields [simp]:
  "wf_phases (refresh_workflow w) = wf_phases w" "wf_dependencies (refresh_workflow w) = wf_dependencies w"
  by (simp_all add: refresh_workflow_def Let_def)

lemma phase_for_step_id: "phase_for_step w s = Some p \<Longrightarrow> wp_source_step_id p = s \<and> p \<in> set (wf_phases w)"
  by (auto simp: phase_for_step_def find_Some_iff)

section \<open>Progress\<close>

lemma clamp_progress_le: "clamp_progress i \<le> 100"
  by (simp add: clamp_progress_def)

lemma sum_clamp_le: "sum_list (map (\<lambda>p. clamp_progress (wp_progress p)) ps) \<le> length ps * 100"
  by (induction ps) (use clamp_progress_le in \<open>auto intro: add_mono\<close>)

lemma sum_clamp_full:
  "sum_list (map (\<lambda>p. clamp_progress (wp_progress p)) ps) = length ps * 100 \<longleftrightarrow> (\<forall>p \<in> set ps. 100 \<le> wp_progress p)"
proof (induction ps)
  case (Cons p ps)
  have "clamp_progress (wp_progress p) = 100 \<longleftrightarrow> 100 \<le> wp_progress p" by (auto simp: clamp_progress_def)
  moreover have "sum_list (map (\<lambda>p. clamp_progress (wp_progress p)) ps) \<le> length ps * 100" by (rule sum_clamp_le)
  ultimately show ?case using Cons.IH clamp_progress_le [of "wp_progress p"] by auto
qed simp

text \<open>What \<open>_refresh\<close> leaves behind, as a property of a workflow.\<close>

definition refreshed :: "workflow \<Rightarrow> bool" where
  "refreshed w \<longleftrightarrow>
     (if wf_phases w = [] then wf_status w = ''completed'' \<and> wf_progress w = 100
      else wf_status w = workflow_status (wf_phases w) \<and> wf_progress w = workflow_progress (wf_phases w) \<and>
           wf_current_phase w = map_option wp_phase_id (current_phase_of (wf_phases w)))"

lemma refreshed_refresh [simp]: "refreshed (refresh_workflow w)"
  by (simp add: refreshed_def refresh_workflow_def Let_def)

lemma refreshed_dependencies [simp]: "refreshed (w\<lparr>wf_dependencies := ds\<rparr>) = refreshed w"
  by (simp add: refreshed_def)

lemma progress_range:
  assumes "refreshed w" and "length (wf_phases w) * 100 \<le> 2 ^ 53"
  shows "0 \<le> wf_progress w" and "wf_progress w \<le> 100"
    and "wf_progress w = 100 \<longleftrightarrow> (\<forall>p \<in> set (wf_phases w). 100 \<le> wp_progress p)"
proof -
  let ?sum = "sum_list (map (\<lambda>p. clamp_progress (wp_progress p)) (wf_phases w))"
  let ?whole = "length (wf_phases w) * 100"
  have *: "0 \<le> wf_progress w \<and> wf_progress w \<le> 100 \<and>
      (wf_progress w = 100 \<longleftrightarrow> (\<forall>p \<in> set (wf_phases w). 100 \<le> wp_progress p))"
  proof (cases "wf_phases w = []")
    case True
    with assms(1) show ?thesis by (simp add: refreshed_def)
  next
    case False
    with assms(1) have prog: "wf_progress w = int (float_percent ?sum ?whole)"
      by (simp add: refreshed_def workflow_progress_def)
    have "float_percent ?sum ?whole \<le> 100"
      using sum_clamp_le False by (intro float_percent_bound) auto
    moreover have "float_percent ?sum ?whole = 100 \<longleftrightarrow> ?sum = ?whole"
    proof
      assume "float_percent ?sum ?whole = 100"
      then show "?sum = ?whole"
        using float_percent_incomplete [of ?sum ?whole] sum_clamp_le [of "wf_phases w"] assms(2) by fastforce
    next
      assume "?sum = ?whole"
      then show "float_percent ?sum ?whole = 100" using float_percent_whole [of ?whole] False by simp
    qed
    ultimately show ?thesis unfolding prog using sum_clamp_full [of "wf_phases w"] by simp
  qed
  then show "0 \<le> wf_progress w" "wf_progress w \<le> 100"
    "wf_progress w = 100 \<longleftrightarrow> (\<forall>p \<in> set (wf_phases w). 100 \<le> wp_progress p)" by auto
qed

section \<open>Phase identifiers\<close>

text \<open>The number in a phase identifier can be read back, so the identifiers of a workflow differ.\<close>

definition dec_value :: "str \<Rightarrow> nat" where
  "dec_value s = foldl (\<lambda>a c. 10 * a + (of_char c - 48)) 0 s"

definition is_digit :: "char \<Rightarrow> bool" where
  "is_digit c \<longleftrightarrow> (let n = (of_char c :: nat) in 48 \<le> n \<and> n \<le> 57)"

lemma digit_char: "n < 10 \<Longrightarrow> of_char (char_of (48 + n) :: char) = (48 + n :: nat)"
  by simp

declare nat_str.simps [simp del]

lemma nat_str_value: "dec_value (nat_str n) = n"
proof (induction n rule: nat_str.induct)
  case (1 n)
  show ?case
  proof (cases "n < 10")
    case True
    then show ?thesis by (simp add: nat_str.simps [of n] dec_value_def digit_char)
  next
    case False
    have "of_char (char_of (48 + n mod 10) :: char) = (48 + n mod 10 :: nat)" by (rule digit_char) simp
    with "1.IH" [OF False] False show ?thesis by (simp add: nat_str.simps [of n] dec_value_def)
  qed
qed

lemma nat_str_digits: "c \<in> set (nat_str n) \<Longrightarrow> is_digit c"
proof (induction n rule: nat_str.induct)
  case (1 n)
  show ?case
  proof (cases "n < 10")
    case True
    with "1.prems" show ?thesis by (simp add: nat_str.simps [of n] is_digit_def digit_char)
  next
    case False
    have "is_digit (char_of (48 + n mod 10))"
      using digit_char [of "n mod 10"] by (simp add: is_digit_def Let_def del: of_char_of)
    with "1.IH" [OF False] "1.prems" False show ?thesis by (auto simp: nat_str.simps [of n])
  qed
qed

lemma pad3_value: "dec_value (pad3 n) = n"
proof -
  have "foldl (\<lambda>a c. 10 * a + (of_char c - 48)) 0 (replicate k CHR ''0'') = (0 :: nat)" for k
    by (induction k) simp_all
  then show ?thesis using nat_str_value [of n] by (simp add: pad3_def dec_value_def)
qed

lemma pad3_digits: "c \<in> set (pad3 n) \<Longrightarrow> is_digit c"
  using nat_str_digits by (auto simp: pad3_def is_digit_def)

definition phase_number :: "str \<Rightarrow> nat" where
  "phase_number i = dec_value (takeWhile is_digit (drop 6 i))"

lemma new_phase_number: "phase_number (wp_phase_id (new_phase n s prev)) = n"
proof -
  have "takeWhile is_digit (pad3 n @ ''_'' @ t) = pad3 n" for t
    using pad3_digits by (subst takeWhile_append2) (auto simp: is_digit_def)
  then show ?thesis by (simp add: phase_number_def new_phase_def Let_def pad3_value)
qed

section \<open>Well-formed workflows\<close>

definition phase_ids :: "workflow_phase list \<Rightarrow> str list" where
  "phase_ids ps = map wp_phase_id ps"

definition dependency_ends :: "str list \<Rightarrow> phase_dependency list \<Rightarrow> bool" where
  "dependency_ends ids ds \<longleftrightarrow>
     (\<forall>d \<in> set ds. wd_producer_phase_id d \<in> set ids \<and> wd_consumer_phase_id d \<in> set ids)"

definition workflow_ok :: "workflow \<Rightarrow> bool" where
  "workflow_ok w \<longleftrightarrow>
     distinct (phase_ids (wf_phases w)) \<and> dependency_ends (phase_ids (wf_phases w)) (wf_dependencies w) \<and> refreshed w"

lemma new_dependency_ends [simp]:
  "wd_producer_phase_id (new_dependency env run p c b) = wp_phase_id p"
  "wd_consumer_phase_id (new_dependency env run p c b) = wp_phase_id c"
  by (simp_all add: new_dependency_def Let_def)

lemma sequence_phases_ok:
  assumes "sequence_phases env run ex n prev steps = (ps, ds)"
  shows "map (phase_number \<circ> wp_phase_id) ps = [n ..< n + length steps]"
    and "map wp_source_step_id ps = map ps_step_id steps"
    and "dependency_ends (map wp_phase_id (case prev of None \<Rightarrow> [] | Some q \<Rightarrow> [q]) @ phase_ids ps) ds"
proof -
  have "map (phase_number \<circ> wp_phase_id) ps = [n ..< n + length steps] \<and>
      map wp_source_step_id ps = map ps_step_id steps \<and>
      dependency_ends (map wp_phase_id (case prev of None \<Rightarrow> [] | Some q \<Rightarrow> [q]) @ phase_ids ps) ds"
    using assms
  proof (induction steps arbitrary: n prev ps ds)
    case Nil
    then show ?case by (simp add: dependency_ends_def)
  next
    case (Cons s steps)
    define p where "p = new_phase n s prev"
    obtain ps' ds' where rec: "sequence_phases env run ex (n + 1) (Some p) steps = (ps', ds')" by fastforce
    note IH = Cons.IH [OF rec]
    from Cons.prems rec have ps: "ps = p # ps'" and
      ds: "ds = (case prev of None \<Rightarrow> [] | Some q \<Rightarrow> [new_dependency env run q p
        (wp_source_step_id q \<in> set (case map_of ex (ps_step_id s) of None \<Rightarrow> [] | Some xs \<Rightarrow> xs))]) @ ds'"
      unfolding p_def by (auto simp: Let_def split: prod.splits)
    have "n # [Suc n ..< n + length (s # steps)] = [n ..< n + length (s # steps)]"
      by (rule upt_conv_Cons [symmetric]) simp
    moreover have "wp_source_step_id p = ps_step_id s" by (simp add: p_def new_phase_def Let_def)
    ultimately show ?case
      using IH new_phase_number [of n s prev] unfolding ps ds
      by (auto simp: p_def [symmetric] dependency_ends_def phase_ids_def split: option.splits)
  qed
  then show "map (phase_number \<circ> wp_phase_id) ps = [n ..< n + length steps]"
    and "map wp_source_step_id ps = map ps_step_id steps"
    and "dependency_ends (map wp_phase_id (case prev of None \<Rightarrow> [] | Some q \<Rightarrow> [q]) @ phase_ids ps) ds" by auto
qed

lemma dependency_ends_snoc:
  "dependency_ends ids (ds @ [d]) \<longleftrightarrow>
     dependency_ends ids ds \<and> wd_producer_phase_id d \<in> set ids \<and> wd_consumer_phase_id d \<in> set ids"
  by (auto simp: dependency_ends_def)

lemma phase_ids_update:
  "phase_ids (update_first P (\<lambda>q. q\<lparr>wp_depends_on := f q\<rparr>) ps) = phase_ids ps"
  "p \<in> set ps \<Longrightarrow> wp_phase_id p \<in> set (phase_ids ps)"
  by (simp_all add: phase_ids_def map_update_first)

lemma add_explicit_ok:
  assumes "add_explicit env run c p (ps, ds) = (ps', ds')" and "dependency_ends (phase_ids ps) ds"
  shows "phase_ids ps' = phase_ids ps" and "dependency_ends (phase_ids ps) ds'"
    and "map wp_source_step_id ps' = map wp_source_step_id ps"
proof -
  have upd: "dependency_ends ids (update_first P (upgrade_dependency d) xs) = dependency_ends ids xs" for ids P d xs
    by (induction xs) (auto simp: dependency_ends_def upgrade_dependency_def)
  have "phase_ids ps' = phase_ids ps \<and> dependency_ends (phase_ids ps) ds' \<and>
      map wp_source_step_id ps' = map wp_source_step_id ps"
    using assms upd
    by (auto simp: add_explicit_def Let_def map_update_first dependency_ends_snoc phase_ids_update dest!: last_by_Some
        split: option.splits if_splits)
  then show "phase_ids ps' = phase_ids ps" "dependency_ends (phase_ids ps) ds'"
    "map wp_source_step_id ps' = map wp_source_step_id ps" by auto
qed

lemma add_explicit_fold:
  assumes "fold (\<lambda>(c, producers). fold (add_explicit env run c) producers) ex st = (ps', ds')"
    and "dependency_ends (phase_ids (fst st)) (snd st)"
  shows "phase_ids ps' = phase_ids (fst st)" and "dependency_ends (phase_ids ps') ds'"
    and "map wp_source_step_id ps' = map wp_source_step_id (fst st)"
proof -
  define I where "I = (\<lambda>s :: workflow_phase list \<times> phase_dependency list.
    phase_ids (fst s) = phase_ids (fst st) \<and> dependency_ends (phase_ids (fst st)) (snd s) \<and>
    map wp_source_step_id (fst s) = map wp_source_step_id (fst st))"
  have step: "I (add_explicit env run c p s)" if "I s" for c p s
    using that add_explicit_ok [of env run c p "fst s" "snd s"]
    by (cases "add_explicit env run c p s") (auto simp: I_def)
  have "I (fold (\<lambda>(c, producers). fold (add_explicit env run c) producers) ex st)"
  proof (rule fold_invariant [where I = I])
    show "I st" using assms(2) by (simp add: I_def)
    fix x s assume "I s"
    then show "I ((\<lambda>(c, producers). fold (add_explicit env run c) producers) x s)"
      by (cases x) (auto intro!: fold_invariant [where I = I] step)
  qed
  then show "phase_ids ps' = phase_ids (fst st)" "dependency_ends (phase_ids ps') ds'"
    "map wp_source_step_id ps' = map wp_source_step_id (fst st)"
    unfolding assms(1) by (auto simp: I_def)
qed

lemma create_for_run_ok:
  "workflow_ok (create_for_run env run)"
  "map wp_source_step_id (wf_phases (create_for_run env run)) = map ps_step_id (pr_steps run)"
proof -
  define ex where "ex = explicit_step_dependencies env run"
  obtain ps ds where seq: "sequence_phases env run ex 1 None (pr_steps run) = (ps, ds)" by fastforce
  obtain ps' ds' where exp:
    "fold (\<lambda>(c, producers). fold (add_explicit env run c) producers) ex (ps, ds) = (ps', ds')" by fastforce
  note s = sequence_phases_ok [OF seq]
  have "distinct (map (phase_number \<circ> wp_phase_id) ps)" using s(1) by simp
  then have d: "distinct (phase_ids ps)" unfolding phase_ids_def by (simp add: distinct_map inj_on_def)
  have "dependency_ends (phase_ids (fst (ps, ds))) (snd (ps, ds))" using s(3) by simp
  note e = add_explicit_fold [OF exp this]
  have w: "wf_phases (create_for_run env run) = ps'" "wf_dependencies (create_for_run env run) = ds'"
    "refreshed (create_for_run env run)"
    unfolding create_for_run_def Let_def ex_def [symmetric] seq exp by simp_all
  show "workflow_ok (create_for_run env run)"
    unfolding workflow_ok_def w(1,2) using w(3) d e by simp
  show "map wp_source_step_id (wf_phases (create_for_run env run)) = map ps_step_id (pr_steps run)"
    unfolding w(1) using e(3) s(2) by simp
qed

section \<open>Dependency checks\<close>

lemma dependency_admission_reason_ids:
  assumes "dependency_admission_reason env w p d = Inr (d', r)"
  shows "wd_producer_phase_id d' = wd_producer_phase_id d" "wd_consumer_phase_id d' = wd_consumer_phase_id d"
    "wd_dependency_id d' = wd_dependency_id d" "wd_evaluation_required d' = wd_evaluation_required d"
  using assms
  by (auto simp: dependency_admission_reason_def admit_dependency_def obind_eq_Inr_iff
      split: if_splits option.splits)

lemma check_dependency_ids:
  assumes "check_dependency env w d = Inr (d', m)"
  shows "wd_producer_phase_id d' = wd_producer_phase_id d" "wd_consumer_phase_id d' = wd_consumer_phase_id d"
proof -
  define reasons where "reasons = dependency_missing_reasons (workflow_phase_of w (wd_producer_phase_id d)) d"
  define d1 where "d1 = d\<lparr>wd_status := (if reasons = [] then ''completed'' else ''missing''), wd_missing_reasons := reasons\<rparr>"
  have ids: "wd_producer_phase_id d1 = wd_producer_phase_id d" "wd_consumer_phase_id d1 = wd_consumer_phase_id d"
    by (simp_all add: d1_def)
  have "wd_producer_phase_id d' = wd_producer_phase_id d \<and> wd_consumer_phase_id d' = wd_consumer_phase_id d"
  proof (cases "reasons = []")
    case False
    with assms have "d' = d1" unfolding check_dependency_def Let_def reasons_def [symmetric] d1_def by simp
    with ids show ?thesis by simp
  next
    case True
    with assms obtain d2 r where
        adm: "dependency_admission_reason env w (workflow_phase_of w (wd_producer_phase_id d)) d1 = Inr (d2, r)"
      and d': "d' = d2 \<or> (\<exists>x. d' = d2\<lparr>wd_status := ''missing'', wd_missing_reasons := [x]\<rparr>)"
      unfolding check_dependency_def Let_def reasons_def [symmetric] d1_def [symmetric]
      by (auto simp: obind_eq_Inr_iff split: option.splits if_splits)
    from d' dependency_admission_reason_ids [OF adm] ids show ?thesis by auto
  qed
  then show "wd_producer_phase_id d' = wd_producer_phase_id d" "wd_consumer_phase_id d' = wd_consumer_phase_id d"
    by auto
qed

lemma check_dependencies_ends:
  "check_dependencies env w c ds = Inr (ds', m) \<Longrightarrow> dependency_ends ids ds' = dependency_ends ids ds"
proof (induction ds arbitrary: ds' m)
  case (Cons d ds)
  then obtain d1 m1 ds1 m2 where
      d: "(if wd_consumer_phase_id d = c then check_dependency env w d else Inr (d, [])) = Inr (d1, m1)"
    and rest: "check_dependencies env w c ds = Inr (ds1, m2)" and ds': "ds' = d1 # ds1"
    by (auto simp: obind_eq_Inr_iff)
  from d have "wd_producer_phase_id d1 = wd_producer_phase_id d" "wd_consumer_phase_id d1 = wd_consumer_phase_id d"
    by (auto simp: check_dependency_ids split: if_splits)
  with Cons.IH [OF rest] show ?case by (simp add: ds' dependency_ends_def)
qed (simp add: dependency_ends_def)

text \<open>Every dependency of the phase was checked, and none had a reason against it.\<close>

lemma check_dependencies_clear:
  assumes "check_dependencies env w c ds = Inr (ds', [])" and "d \<in> set ds" and "wd_consumer_phase_id d = c"
  shows "\<exists>d' \<in> set ds'. check_dependency env w d = Inr (d', [])"
  using assms
proof (induction ds arbitrary: ds')
  case (Cons x ds)
  from Cons.prems(1) obtain x1 ds1 where
      x: "(if wd_consumer_phase_id x = c then check_dependency env w x else Inr (x, [])) = Inr (x1, [])"
    and rest: "check_dependencies env w c ds = Inr (ds1, [])" and ds': "ds' = x1 # ds1"
    by (auto simp: obind_eq_Inr_iff)
  show ?case
  proof (cases "d = x")
    case True
    with x Cons.prems(3) ds' show ?thesis by auto
  next
    case False
    with Cons.prems(2) have "d \<in> set ds" by simp
    from Cons.IH [OF rest this Cons.prems(3)] show ?thesis by (auto simp: ds')
  qed
qed simp

lemma block_phase_ok:
  assumes "distinct (phase_ids (wf_phases w))" and "dependency_ends (phase_ids (wf_phases w)) (wf_dependencies w)"
  shows "workflow_ok (block_phase env p missing w)"
    and "map wp_source_step_id (wf_phases (block_phase env p missing w)) = map wp_source_step_id (wf_phases w)"
  using assms
  by (simp_all add: workflow_ok_def block_phase_def Let_def phase_ids_def map_update_first add_phase_checkpoint_def)

lemma can_start_phase_ok:
  assumes "can_start_phase env (Some w) s = Inr (wo', b, rs)" and "workflow_ok w"
  shows "\<exists>w'. wo' = Some w' \<and> workflow_ok w' \<and>
    map wp_source_step_id (wf_phases w') = map wp_source_step_id (wf_phases w)"
proof (cases "phase_for_step w s")
  case None
  with assms show ?thesis by (auto simp: can_start_phase_def)
next
  case (Some p)
  with assms(1) obtain ds missing where
      check: "check_dependencies env w (wp_phase_id p) (wf_dependencies w) = Inr (ds, missing)"
    and wo': "wo' = Some (if missing = [] then w\<lparr>wf_dependencies := ds\<rparr> else block_phase env p missing (w\<lparr>wf_dependencies := ds\<rparr>))"
    by (auto simp: can_start_phase_def obind_eq_Inr_iff Let_def split: if_splits)
  have ok: "workflow_ok (w\<lparr>wf_dependencies := ds\<rparr>)"
    using assms(2) check_dependencies_ends [OF check] by (simp add: workflow_ok_def)
  then have "workflow_ok (block_phase env p missing (w\<lparr>wf_dependencies := ds\<rparr>))"
    unfolding workflow_ok_def [of "w\<lparr>wf_dependencies := ds\<rparr>"] by (intro block_phase_ok(1)) auto
  with ok wo' block_phase_ok(2) [of "w\<lparr>wf_dependencies := ds\<rparr>" env p missing] show ?thesis
    by (auto simp: workflow_ok_def)
qed

lemma start_phase_ok:
  assumes "start_phase_for_step env (Some w) s ev = Some w'" and "workflow_ok w"
  shows "workflow_ok w' \<and> map wp_source_step_id (wf_phases w') = map wp_source_step_id (wf_phases w)"
  using assms
  by (auto simp: start_phase_for_step_def Let_def workflow_ok_def phase_ids_def map_update_first add_phase_checkpoint_def
      split: option.splits)

lemma finish_phase_ok:
  assumes "finish_phase_for_step env (Some w) s st ev arts vref viol out = Some w'" and "workflow_ok w"
  shows "workflow_ok w' \<and> map wp_source_step_id (wf_phases w') = map wp_source_step_id (wf_phases w)"
  using assms
  by (auto simp: finish_phase_for_step_def finished_phase_def Let_def workflow_ok_def phase_ids_def map_update_first
      add_phase_checkpoint_def split: option.splits)

text \<open>The workflows a run goes through, whatever the clock, the events and the outcomes are.\<close>

inductive workflow_reachable :: "planned_run \<Rightarrow> workflow \<Rightarrow> bool" for run where
  created: "workflow_reachable run (create_for_run env run)"
| checked: "workflow_reachable run w \<Longrightarrow> can_start_phase env (Some w) s = Inr (Some w', b, rs) \<Longrightarrow>
    workflow_reachable run w'"
| started: "workflow_reachable run w \<Longrightarrow> start_phase_for_step env (Some w) s ev = Some w' \<Longrightarrow>
    workflow_reachable run w'"
| finished: "workflow_reachable run w \<Longrightarrow>
    finish_phase_for_step env (Some w) s st ev arts vref viol out = Some w' \<Longrightarrow> workflow_reachable run w'"

lemma reachable_ok:
  "workflow_reachable run w \<Longrightarrow>
     workflow_ok w \<and> map wp_source_step_id (wf_phases w) = map ps_step_id (pr_steps run)"
proof (induction rule: workflow_reachable.induct)
  case (created env)
  show ?case using create_for_run_ok by blast
next
  case (checked w env s w' b rs)
  then show ?case using can_start_phase_ok [of env w s "Some w'" b rs] by auto
next
  case (started w env s ev w')
  then show ?case using start_phase_ok by metis
next
  case (finished w env s st ev arts vref viol out w')
  then show ?case using finish_phase_ok by metis
qed

section \<open>Admitted dependencies\<close>

lemma validate_True_None: "validate_admission env a e r sc = Inr (True, x) \<Longrightarrow> x = None"
  by (auto simp: validate_admission_def split: if_splits option.splits)

lemma producer_snapshot_ends:
  "producer_snapshot env w q d = Inr sn \<Longrightarrow>
     ph_producer_task_run_id sn = wf_task_run_id w \<and> ph_producer_operation_id sn = wf_operation_id w \<and>
     ph_dependency_id sn = wd_dependency_id d \<and> ph_producer_phase_id sn = wd_producer_phase_id d"
  by (auto simp: producer_snapshot_def Let_def obind_eq_Inr_iff)

lemma dependency_relabel [simp]:
  "producer_snapshot env w q (d\<lparr>wd_status := st, wd_missing_reasons := m\<rparr>) = producer_snapshot env w q d"
  "dependency_scope w (d\<lparr>wd_status := st, wd_missing_reasons := m\<rparr>) r = dependency_scope w d r"
  "ensure_evaluation env w q (d\<lparr>wd_status := st, wd_missing_reasons := m\<rparr>) r = ensure_evaluation env w q d r"
  "ensure_admission env w (d\<lparr>wd_status := st, wd_missing_reasons := m\<rparr>) r e = ensure_admission env w d r e"
  by (simp_all add: producer_snapshot_def dependency_scope_def ensure_evaluation_def ensure_admission_def
      split: option.split)

lemma admit_dependency_None:
  assumes "admit_dependency env w q d r = Inr (d', None)"
  obtains e a where "ensure_evaluation env w q d r = Inr e" and "ensure_admission env w d r e = Inr a"
    and "validate_admission (we_admission env) a e r (dependency_scope w d r) = Inr (True, None)"
  using assms that
  by (fastforce simp: admit_dependency_def obind_eq_Inr_iff dest: validate_True_None split: if_splits)

text \<open>For a dependency that has not been evaluated before, to be admitted is to have its demand met.\<close>

lemma fresh_admission_sound:
  assumes "ensure_evaluation env w q d r = Inr e" and "ensure_admission env w d r e = Inr a"
    and "validate_admission (we_admission env) a e r (dependency_scope w d r) = Inr (True, None)"
    and "wd_evaluation d = None" and "wd_admission d = None"
  shows "\<exists>sn res. producer_snapshot env w q d = Inr sn \<and>
     resolve_limitations (av_resolver (we_admission env)) r sn (unclassified_limitations r sn) = Inr res \<and>
     demand_met r sn res (wf_task_run_id w) (str_or (wf_operation_id w) []) (dr_operation_type r)"
proof -
  from assms(1,4) obtain sn where sn: "producer_snapshot env w q d = Inr sn"
    and e: "evaluate_dependency (we_admission env) sn r (wf_task_run_id w) (str_or (wf_operation_id w) [])
              (dr_operation_type r) = Inr e"
    by (auto simp: ensure_evaluation_def obind_eq_Inr_iff)
  from assms(2,5) obtain c where a: "authorize_dependency (we_admission env) e r (dependency_scope w d r) None = Inr (a, c)"
    by (auto simp: ensure_admission_def obind_eq_Inr_iff)
  from admission_sound [OF e a assms(3) refl refl] sn show ?thesis by blast
qed

lemma check_dependency_clear:
  assumes "check_dependency env w d = Inr (d', [])"
    and coded: "\<forall>dc c cs. wd_demand_compilation d = Some dc \<longrightarrow> dc_reason_codes dc = c # cs \<longrightarrow> c \<noteq> []"
  shows "\<exists>q. workflow_phase_of w (wd_producer_phase_id d) = Some q \<and> dependency_missing_reasons (Some q) d = [] \<and>
    ((\<not> wp_required q \<and> wp_status q \<in> set TERMINAL_STATUSES) \<or> \<not> wd_evaluation_required d \<or>
     (\<exists>r e a. wd_requirements d = Some r \<and> ensure_evaluation env w q d r = Inr e \<and>
        ensure_admission env w d r e = Inr a \<and>
        validate_admission (we_admission env) a e r (dependency_scope w d r) = Inr (True, None)))"
proof -
  define producer where "producer = workflow_phase_of w (wd_producer_phase_id d)"
  define d1 where "d1 = d\<lparr>wd_status := ''completed'', wd_missing_reasons := []\<rparr>"
  have clear: "dependency_missing_reasons producer d = []"
    using assms(1) by (auto simp: check_dependency_def Let_def producer_def split: if_splits)
  then obtain q where q: "producer = Some q"
    by (cases producer) (auto simp: dependency_missing_reasons_def)
  from assms(1) clear have bound: "obind (dependency_admission_reason env w (Some q) d1) (\<lambda>(d2, reason).
      case reason of None \<Rightarrow> Inr (d2, [])
      | Some r \<Rightarrow> if r = [] then Inr (d2, [])
          else Inr (d2\<lparr>wd_status := ''missing'', wd_missing_reasons := [r]\<rparr>, [wd_dependency_id d @ '':'' @ r])) =
      Inr (d', [])"
    unfolding check_dependency_def Let_def producer_def [symmetric] q by (simp add: d1_def)
  then obtain d2 reason where adm: "dependency_admission_reason env w (Some q) d1 = Inr (d2, reason)"
    by (auto simp: obind_eq_Inr_iff)
  with bound have reason: "reason = None \<or> reason = Some []"
    by (cases reason) (auto split: if_splits)
  show ?thesis
  proof (cases "(\<not> wp_required q \<and> wp_status q \<in> set TERMINAL_STATUSES) \<or> \<not> wd_evaluation_required d")
    case True
    with q clear show ?thesis by (auto simp: producer_def)
  next
    case False
    with adm reason coded obtain dc r where "wd_demand_compilation d = Some dc" and r: "wd_requirements d = Some r"
      and a: "admit_dependency env w q d1 r = Inr (d2, reason)"
      by (auto simp: dependency_admission_reason_def d1_def split: option.splits if_splits list.splits)
    have "reason = None"
      using reason a by (auto simp: admit_dependency_def obind_eq_Inr_iff str_or_def split: if_splits option.splits)
    with a obtain e ad where "ensure_evaluation env w q d1 r = Inr e" "ensure_admission env w d1 r e = Inr ad"
      "validate_admission (we_admission env) ad e r (dependency_scope w d1 r) = Inr (True, None)"
      by (metis admit_dependency_None)
    with r q clear show ?thesis by (auto simp: producer_def d1_def)
  qed
qed

lemma can_start_True:
  assumes "can_start_phase env (Some w) s = Inr (wo', True, rs)"
  obtains p ds where "phase_for_step w s = Some p" and "wo' = Some (w\<lparr>wf_dependencies := ds\<rparr>)"
    and "check_dependencies env w (wp_phase_id p) (wf_dependencies w) = Inr (ds, [])"
  using assms that
  by (auto simp: can_start_phase_def obind_eq_Inr_iff Let_def split: option.splits if_splits)

section \<open>Properties\<close>

text \<open>
  C7. A phase is let start only on the evidence of every phase it depends on: for each dependency the producer
  exists, and either is optional and at an end, or has ended well with the artifacts and the validations the dependency
  asks for (a validation counts when it is referred to, or when the producer's validation passed), and, when the plan states the
  dependency explicitly, holds a valid admission for exactly this dependency. Evaluation and admission are those stored with the
  dependency, if there are any; when both are made at this check, the demand of the consumer is met by the
  producer's outcome. The condition is that a demand that failed to compile has a reason code that is not empty.
\<close>

theorem start_needs_dependencies:
  assumes "can_start_phase env (Some w) s = Inr (wo', True, rs)" and "phase_for_step w s = Some p"
    and "d \<in> set (wf_dependencies w)" and "wd_consumer_phase_id d = wp_phase_id p"
    and "\<forall>dc c cs. wd_demand_compilation d = Some dc \<longrightarrow> dc_reason_codes dc = c # cs \<longrightarrow> c \<noteq> []"
  shows "\<exists>q. workflow_phase_of w (wd_producer_phase_id d) = Some q \<and>
    ((\<not> wp_required q \<and> wp_status q \<in> set TERMINAL_STATUSES) \<or>
     ((wp_status q = wd_required_status d \<or> wp_status q \<in> set SUCCESS_STATUSES) \<and>
      set (wd_required_artifacts d) \<subseteq> set (wp_produced_artifacts q) \<and>
      (\<forall>v \<in> set (wd_required_validations d). v \<in> set (wp_validation_refs q) \<or> wp_validation_status q = ''passed'') \<and>
      (wd_evaluation_required d \<longrightarrow>
         (\<exists>r e a. wd_requirements d = Some r \<and> wd_evaluation d \<in> {None, Some e} \<and> wd_admission d \<in> {None, Some a} \<and>
            validate_admission (we_admission env) a e r (dependency_scope w d r) = Inr (True, None) \<and>
            (wd_evaluation d = None \<and> wd_admission d = None \<longrightarrow>
               (\<exists>sn res. producer_snapshot env w q d = Inr sn \<and>
                  resolve_limitations (av_resolver (we_admission env)) r sn (unclassified_limitations r sn) = Inr res \<and>
                  demand_met r sn res (wf_task_run_id w) (str_or (wf_operation_id w) []) (dr_operation_type r)))))))"
proof -
  from assms(1,2) obtain ds where "check_dependencies env w (wp_phase_id p) (wf_dependencies w) = Inr (ds, [])"
    by (metis can_start_True option.inject)
  from check_dependencies_clear [OF this assms(3,4)] obtain d' where "check_dependency env w d = Inr (d', [])" by blast
  from check_dependency_clear [OF this assms(5)] obtain q where
      q: "workflow_phase_of w (wd_producer_phase_id d) = Some q" and m: "dependency_missing_reasons (Some q) d = []"
    and c: "(\<not> wp_required q \<and> wp_status q \<in> set TERMINAL_STATUSES) \<or> \<not> wd_evaluation_required d \<or>
     (\<exists>r e a. wd_requirements d = Some r \<and> ensure_evaluation env w q d r = Inr e \<and>
        ensure_admission env w d r e = Inr a \<and>
        validate_admission (we_admission env) a e r (dependency_scope w d r) = Inr (True, None))" by blast
  from m have ends: "(\<not> wp_required q \<and> wp_status q \<in> set TERMINAL_STATUSES) \<or>
      (wp_status q = wd_required_status d \<or> wp_status q \<in> set SUCCESS_STATUSES) \<and>
      set (wd_required_artifacts d) \<subseteq> set (wp_produced_artifacts q) \<and>
      (\<forall>v \<in> set (wd_required_validations d). v \<in> set (wp_validation_refs q) \<or> wp_validation_status q = ''passed'')"
    by (auto simp: dependency_missing_reasons_def filter_empty_conv split: if_splits)
  have stored: "wd_evaluation d \<in> {None, Some e} \<and> wd_admission d \<in> {None, Some a}"
    if "ensure_evaluation env w q d r = Inr e" "ensure_admission env w d r e = Inr a" for r e a
    using that by (auto simp: ensure_evaluation_def ensure_admission_def split: option.splits)
  let ?admitted = "\<exists>r e a. wd_requirements d = Some r \<and> wd_evaluation d \<in> {None, Some e} \<and> wd_admission d \<in> {None, Some a} \<and>
      validate_admission (we_admission env) a e r (dependency_scope w d r) = Inr (True, None) \<and>
      (wd_evaluation d = None \<and> wd_admission d = None \<longrightarrow>
         (\<exists>sn res. producer_snapshot env w q d = Inr sn \<and>
            resolve_limitations (av_resolver (we_admission env)) r sn (unclassified_limitations r sn) = Inr res \<and>
            demand_met r sn res (wf_task_run_id w) (str_or (wf_operation_id w) []) (dr_operation_type r)))"
  have "?admitted" if "wd_requirements d = Some r" "ensure_evaluation env w q d r = Inr e" "ensure_admission env w d r e = Inr a"
      "validate_admission (we_admission env) a e r (dependency_scope w d r) = Inr (True, None)" for r e a
    by (rule exI [of _ r], rule exI [of _ e], rule exI [of _ a])
      (use that stored [OF that(2,3)] fresh_admission_sound [OF that(2-4)] in simp)
  with c have "(\<not> wp_required q \<and> wp_status q \<in> set TERMINAL_STATUSES) \<or> \<not> wd_evaluation_required d \<or> ?admitted" by blast
  with q ends show ?thesis by blast
qed

lemma find_as_filter: "find P xs = (case filter P xs of [] \<Rightarrow> None | x # _ \<Rightarrow> Some x)"
  by (induction xs) auto

lemma workflow_books:
  assumes "workflow_reachable run w"
  shows "map wp_source_step_id (wf_phases w) = map ps_step_id (pr_steps run)"
    and "distinct (map wp_phase_id (wf_phases w))"
    and "\<forall>d \<in> set (wf_dependencies w). workflow_phase_of w (wd_producer_phase_id d) \<noteq> None \<and>
           workflow_phase_of w (wd_consumer_phase_id d) \<noteq> None"
    and "wf_status w = ''completed'' \<longleftrightarrow> (\<forall>p \<in> set (wf_phases w). phase_satisfied p)"
    and "wf_status w \<in> {''blocked'', ''failed''} \<longleftrightarrow>
           (\<exists>p \<in> set (wf_phases w). wp_required p \<and> wp_status p \<in> {''blocked'', ''failed''})"
    and "pr_steps run \<noteq> [] \<longrightarrow> wf_current_phase w = map_option wp_phase_id
           (if \<exists>p \<in> set (wf_phases w). wp_status p = ''running'' then find (\<lambda>p. wp_status p = ''running'') (wf_phases w)
            else find (\<lambda>p. wp_status p \<in> {''pending'', ''blocked'', ''failed''}) (wf_phases w))"
proof -
  from reachable_ok [OF assms] have ok: "distinct (phase_ids (wf_phases w))"
      "dependency_ends (phase_ids (wf_phases w)) (wf_dependencies w)" "refreshed w"
    and ids: "map wp_source_step_id (wf_phases w) = map ps_step_id (pr_steps run)"
    by (auto simp: workflow_ok_def)
  show "map wp_source_step_id (wf_phases w) = map ps_step_id (pr_steps run)" by (rule ids)
  show "distinct (map wp_phase_id (wf_phases w))" using ok(1) by (simp add: phase_ids_def)
  show "\<forall>d \<in> set (wf_dependencies w). workflow_phase_of w (wd_producer_phase_id d) \<noteq> None \<and>
           workflow_phase_of w (wd_consumer_phase_id d) \<noteq> None"
    using ok(2) unfolding dependency_ends_def phase_ids_def workflow_phase_of_def find_None_iff by fastforce
  have st: "wf_status w = (if wf_phases w = [] then ''completed'' else workflow_status (wf_phases w))"
    using ok(3) by (simp add: refreshed_def split: if_splits)
  have sat: "length (filter phase_satisfied (wf_phases w)) = length (wf_phases w) \<longleftrightarrow>
      (\<forall>p \<in> set (wf_phases w). phase_satisfied p)"
    by (metis filter_True length_filter_less less_irrefl)
  have bad: "blocked_phases (wf_phases w) = [] \<longleftrightarrow>
      \<not> (\<exists>p \<in> set (wf_phases w). wp_required p \<and> wp_status p \<in> {''blocked'', ''failed''})"
    by (simp add: blocked_phases_def filter_empty_conv)
  have excl: "\<not> phase_satisfied p" if "wp_required p" "wp_status p \<in> {''blocked'', ''failed''}" for p
    using that by (auto simp: phase_satisfied_def SUCCESS_STATUSES_def)
  show "wf_status w = ''completed'' \<longleftrightarrow> (\<forall>p \<in> set (wf_phases w). phase_satisfied p)"
  proof (cases "blocked_phases (wf_phases w) = []")
    case True
    then show ?thesis using st sat by (auto simp: workflow_status_def)
  next
    case False
    then obtain p where "p \<in> set (wf_phases w)" "\<not> phase_satisfied p" using bad excl by blast
    moreover have "wf_status w \<noteq> ''completed''" using False st by (auto simp: workflow_status_def blocked_phases_def)
    ultimately show ?thesis by blast
  qed
  show "wf_status w \<in> {''blocked'', ''failed''} \<longleftrightarrow>
           (\<exists>p \<in> set (wf_phases w). wp_required p \<and> wp_status p \<in> {''blocked'', ''failed''})"
  proof -
    have "blocked_phases (wf_phases w) = []" if "wf_phases w = []" using that by (simp add: blocked_phases_def)
    then have "wf_status w \<in> {''blocked'', ''failed''} \<longleftrightarrow> blocked_phases (wf_phases w) \<noteq> []"
      using st by (auto simp: workflow_status_def)
    then show ?thesis using bad by blast
  qed
  show "pr_steps run \<noteq> [] \<longrightarrow> wf_current_phase w = map_option wp_phase_id
           (if \<exists>p \<in> set (wf_phases w). wp_status p = ''running'' then find (\<lambda>p. wp_status p = ''running'') (wf_phases w)
            else find (\<lambda>p. wp_status p \<in> {''pending'', ''blocked'', ''failed''}) (wf_phases w))"
  proof
    assume "pr_steps run \<noteq> []"
    then have "wf_phases w \<noteq> []" using ids by auto
    then have "wf_current_phase w = map_option wp_phase_id (current_phase_of (wf_phases w))"
      using ok(3) by (simp add: refreshed_def)
    then show "wf_current_phase w = map_option wp_phase_id
           (if \<exists>p \<in> set (wf_phases w). wp_status p = ''running'' then find (\<lambda>p. wp_status p = ''running'') (wf_phases w)
            else find (\<lambda>p. wp_status p \<in> {''pending'', ''blocked'', ''failed''}) (wf_phases w))"
      by (cases "filter (\<lambda>p. wp_status p = ''running'') (wf_phases w)")
        (auto simp: current_phase_of_def find_as_filter filter_empty_conv dest: filter_eq_ConsD)
  qed
qed

lemma sum_clamp_int:
  "int (sum_list (map (\<lambda>p. clamp_progress (wp_progress p)) ps)) = sum_list (map (\<lambda>p. max 0 (min 100 (wp_progress p))) ps)"
  by (induction ps) (auto simp: clamp_progress_def)

lemma workflow_progress_books:
  assumes "workflow_reachable run w"
  shows "0 \<le> wf_progress w" and "wf_progress w \<le> 100"
    and "pr_steps run \<noteq> [] \<longrightarrow>
      wf_progress w * int (length (pr_steps run)) <
        sum_list (map (\<lambda>p. max 0 (min 100 (wp_progress p))) (wf_phases w)) + int (length (pr_steps run)) \<and>
      sum_list (map (\<lambda>p. max 0 (min 100 (wp_progress p))) (wf_phases w)) < (wf_progress w + 2) * int (length (pr_steps run))"
    and "length (pr_steps run) * 100 \<le> 2 ^ 53 \<longrightarrow> (wf_progress w = 100 \<longleftrightarrow> (\<forall>p \<in> set (wf_phases w). 100 \<le> wp_progress p))"
proof -
  from reachable_ok [OF assms] have ref: "refreshed w"
    and "map wp_source_step_id (wf_phases w) = map ps_step_id (pr_steps run)" by (auto simp: workflow_ok_def)
  from this(2) have len: "length (wf_phases w) = length (pr_steps run)" by (rule map_eq_imp_length_eq)
  define a where "a = sum_list (map (\<lambda>p. clamp_progress (wp_progress p)) (wf_phases w))"
  define n where "n = length (pr_steps run)"
  define F where "F = float_percent a (n * 100)"
  have an: "a \<le> n * 100" using sum_clamp_le [of "wf_phases w"] by (simp add: a_def n_def len)
  have prog: "wf_progress w = (if n = 0 then 100 else int F)"
    using ref len by (auto simp: refreshed_def workflow_progress_def a_def n_def F_def split: if_splits)
  show "0 \<le> wf_progress w" by (simp add: prog)
  show "wf_progress w \<le> 100" using float_percent_bound [OF an] by (simp add: prog F_def)
  show "length (pr_steps run) * 100 \<le> 2 ^ 53 \<longrightarrow> (wf_progress w = 100 \<longleftrightarrow> (\<forall>p \<in> set (wf_phases w). 100 \<le> wp_progress p))"
    using progress_range(3) [OF ref] by (simp add: len)
  have "int F * int n < int a + int n \<and> int a < (int F + 2) * int n" if "0 < n"
  proof -
    have "F * (n * 100) < 100 * a + n * 100" "100 * a < (F + 2) * (n * 100)"
      using float_percent_near [OF an] that by (simp_all add: F_def)
    then have "F * n < a + n" "a < (F + 2) * n" by simp_all
    then have "int (F * n) < int (a + n)" "int a < int ((F + 2) * n)" by (simp_all only: of_nat_less_iff)
    then show ?thesis by (simp add: algebra_simps)
  qed
  then show "pr_steps run \<noteq> [] \<longrightarrow>
      wf_progress w * int (length (pr_steps run)) <
        sum_list (map (\<lambda>p. max 0 (min 100 (wp_progress p))) (wf_phases w)) + int (length (pr_steps run)) \<and>
      sum_list (map (\<lambda>p. max 0 (min 100 (wp_progress p))) (wf_phases w)) < (wf_progress w + 2) * int (length (pr_steps run))"
    unfolding sum_clamp_int [symmetric] a_def [symmetric] n_def [symmetric] by (simp add: prog n_def)
qed

text \<open>
  C20. Whatever sequence of checks, starts and finishes a workflow goes through, its bookkeeping is right: it has
  one phase per step of the plan, their identifiers differ, both ends of every dependency are phases of it, it
  is completed exactly when every phase is satisfied, and blocked or failed exactly when a required phase is. Its current
  phase is the first one that is running and, when none is, the first one that is pending, blocked or failed. Its progress is a
  percentage, less than one point above and less than two points below the mean of the progress of its phases; it reads
  100 exactly when every phase has reached 100, for plans of fewer than \<open>2 ^ 53 / 100\<close> steps.
\<close>

theorem reachable_workflow_consistent:
  assumes "workflow_reachable run w"
  shows "map wp_source_step_id (wf_phases w) = map ps_step_id (pr_steps run) \<and>
    distinct (map wp_phase_id (wf_phases w)) \<and>
    (\<forall>d \<in> set (wf_dependencies w). workflow_phase_of w (wd_producer_phase_id d) \<noteq> None \<and>
       workflow_phase_of w (wd_consumer_phase_id d) \<noteq> None) \<and>
    (wf_status w = ''completed'' \<longleftrightarrow> (\<forall>p \<in> set (wf_phases w). phase_satisfied p)) \<and>
    (wf_status w \<in> {''blocked'', ''failed''} \<longleftrightarrow>
       (\<exists>p \<in> set (wf_phases w). wp_required p \<and> wp_status p \<in> {''blocked'', ''failed''})) \<and>
    (pr_steps run \<noteq> [] \<longrightarrow> wf_current_phase w = map_option wp_phase_id
       (if \<exists>p \<in> set (wf_phases w). wp_status p = ''running'' then find (\<lambda>p. wp_status p = ''running'') (wf_phases w)
        else find (\<lambda>p. wp_status p \<in> {''pending'', ''blocked'', ''failed''}) (wf_phases w))) \<and>
    0 \<le> wf_progress w \<and> wf_progress w \<le> 100 \<and>
    (pr_steps run \<noteq> [] \<longrightarrow>
       (let mean_sum = sum_list (map (\<lambda>p. max 0 (min 100 (wp_progress p))) (wf_phases w)); n = int (length (pr_steps run))
        in wf_progress w * n < mean_sum + n \<and> mean_sum < (wf_progress w + 2) * n)) \<and>
    (length (pr_steps run) * 100 \<le> 2 ^ 53 \<longrightarrow> (wf_progress w = 100 \<longleftrightarrow> (\<forall>p \<in> set (wf_phases w). 100 \<le> wp_progress p)))"
  using workflow_books [OF assms] workflow_progress_books [OF assms] unfolding Let_def by blast

text \<open>
  An optional phase that failed does not block the phase after it, as the comment in
  \<open>_dependency_admission_reason\<close> says of any optional phase at an end; one that was skipped does. \<open>skipped\<close> is a
  success status but not a terminal one, so an explicit dependency on it is evaluated, and compiled demands
  accept only \<open>satisfied\<close> and \<open>satisfied_with_limitations\<close>.
\<close>

theorem skipped_optional_producer_blocks:
  assumes "wd_evaluation d = None" and "wd_admission d = None" and "wd_evaluation_required d"
    and "wd_demand_compilation d = Some dc" and "dc_status dc = ''compiled''" and "wd_requirements d = Some r"
    and "''skipped'' \<notin> set (dr_allowed_dependency_statuses r)"
    and "wd_required_artifacts d = []" and "wd_required_validations d = []"
    and "\<not> wp_required q"
    and "workflow_phase_of w (wd_producer_phase_id d) = Some (q\<lparr>wp_status := ''skipped''\<rparr>)"
    and "workflow_phase_of w2 (wd_producer_phase_id d) = Some (q\<lparr>wp_status := ''failed''\<rparr>)"
    and "producer_snapshot env w (q\<lparr>wp_status := ''skipped''\<rparr>) d = Inr sn"
    and "resolve_limitations (av_resolver (we_admission env)) r sn (unclassified_limitations r sn) = Inr res"
    and "\<forall>t. av_parse_time (we_admission env) (av_isoformat (we_admission env) t) = Some t"
  shows "(\<exists>d' missing. check_dependency env w d = Inr (d', missing) \<and> missing \<noteq> []) \<and>
    (\<exists>d'. check_dependency env w2 d = Inr (d', []))"
proof
  let ?q = "q\<lparr>wp_status := ''skipped''\<rparr>"
  let ?d = "d\<lparr>wd_status := ''completed'', wd_missing_reasons := []\<rparr>"
  define e where "e = dependency_evaluation (we_admission env) sn r (wf_task_run_id w) (str_or (wf_operation_id w) [])
    (dr_operation_type r) res"
  have ev: "ensure_evaluation env w ?q d r = Inr e"
    using assms(1,13,14) by (simp add: ensure_evaluation_def evaluate_dependency_def e_def)
  have status: "ph_dependency_status sn = ''skipped''"
    using assms(13) by (auto simp: producer_snapshot_def Let_def obind_eq_Inr_iff)
  then have "demand_contradicted r sn res (dr_operation_type r)"
    using assms(7) by (simp add: demand_contradicted_def)
  then have "pe_decision e = ''BLOCKED''"
    unfolding e_def using dependency_evaluation_decision(2) by blast
  then have no: "pe_decision e \<notin> set ADMITTED_DECISIONS" by (simp add: ADMITTED_DECISIONS_def)
  have parse: "\<exists>t. av_parse_time (we_admission env) (pe_expires_at e) = Some t"
    unfolding e_def dependency_evaluation_expires using assms(15) by blast
  obtain a c where auth: "authorize_dependency (we_admission env) e r (dependency_scope w d r) None = Inr (a, c)"
  proof -
    obtain f where "authorization_failure (we_admission env) e r (dependency_scope w d r) [] = Inr f"
      using parse by (force simp: authorization_failure_def)
    then show ?thesis using that by (simp add: authorize_dependency_def Let_def)
  qed
  from authorize_dependency_Inr [OF this] no obtain reason where a: "a = admission_of (we_admission env) e False reason"
    by auto
  have en: "ensure_admission env w d r e = Inr a"
    using auth assms(2) by (simp add: ensure_admission_def)
  obtain x where "validate_admission (we_admission env) a e r (dependency_scope w d r) = Inr (False, x)"
    using parse validate_unauthorized [of a "we_admission env" _ e r "dependency_scope w d r"] by (auto simp: a)
  with ev en have "\<exists>d2 m. admit_dependency env w ?q ?d r = Inr (d2, Some m) \<and> m \<noteq> []"
    by (auto simp: admit_dependency_def str_or_def split: option.splits)
  then obtain d2 m where "dependency_admission_reason env w (Some ?q) ?d = Inr (d2, Some m)" and "m \<noteq> []"
    using assms(3-6) by (auto simp: dependency_admission_reason_def TERMINAL_STATUSES_def)
  then show "\<exists>d' missing. check_dependency env w d = Inr (d', missing) \<and> missing \<noteq> []"
    using assms(8,9,11)
    by (simp add: check_dependency_def Let_def dependency_missing_reasons_def SUCCESS_STATUSES_def TERMINAL_STATUSES_def)
next
  show "\<exists>d'. check_dependency env w2 d = Inr (d', [])"
    using assms(10,12)
    by (simp add: check_dependency_def Let_def dependency_missing_reasons_def dependency_admission_reason_def
        TERMINAL_STATUSES_def)
qed

section \<open>An example\<close>

text \<open>Two phases, the second of which depends explicitly on the first; the demand is that of \<open>Phase_Admission\<close>.\<close>

definition example_workflow_env :: workflow_env where
  "example_workflow_env =
     \<lparr>we_now = ''now'', we_uid = id, we_set_order = id,
      we_compile = (\<lambda>run phase action step. \<lparr>dc_status = ''compiled'', dc_requirements = Some example_requirements, dc_reason_codes = []\<rparr>),
      we_render = (\<lambda>v. ''?''), we_admission = example_admission_env\<rparr>"

definition example_phase :: "str \<Rightarrow> str \<Rightarrow> bool \<Rightarrow> str \<Rightarrow> workflow_phase" where
  "example_phase i step required status =
     \<lparr>wp_phase_id = i, wp_name = ''n'', wp_source_step_id = step, wp_source_step_type = ''t'', wp_action = ''a'',
      wp_required = required, wp_status = status, wp_current_step = None, wp_depends_on = [],
      wp_produced_artifacts = [], wp_validation_refs = [''event_7''], wp_validation_status = ''passed'',
      wp_semantic_outcome =
        [(''limitations'', JList [JStr ''sampled_files'']), (''allowed_downstream_uses'', JList [JStr ''analysis'']),
         (''use_safety'', JObj [(''safe_for_analysis'', JInt 1)]),
         (''semantic_properties'', JObj [(''coverage'', JStr ''sampled'')])],
      wp_started_at = None, wp_finished_at = None, wp_progress = 0, wp_checkpoints = [], wp_blocked_reasons = []\<rparr>"

definition example_dependency :: phase_dependency where
  "example_dependency =
     \<lparr>wd_dependency_id = ''dep'', wd_producer_phase_id = ''phase_001'', wd_consumer_phase_id = ''phase_002'',
      wd_relation = ''explicit_plan_dependency'', wd_required_status = ''completed'', wd_required_artifacts = [],
      wd_required_validations = [], wd_status = ''pending'', wd_missing_reasons = [], wd_evaluation_required = True,
      wd_requirements = Some example_requirements,
      wd_demand_compilation = Some \<lparr>dc_status = ''compiled'', dc_requirements = Some example_requirements, dc_reason_codes = []\<rparr>,
      wd_evaluation = None, wd_admission = None\<rparr>"

definition example_workflow :: "bool \<Rightarrow> str \<Rightarrow> workflow" where
  "example_workflow required status =
     \<lparr>wf_workflow_id = ''wf'', wf_task_id = None, wf_task_run_id = ''run'', wf_operation_id = Some ''op'',
      wf_runtime_profile = None, wf_status = ''created'', wf_current_phase = None, wf_next_phase = None,
      wf_previous_phase = None, wf_current_step = None, wf_progress = 0,
      wf_phases = [example_phase ''phase_001'' ''s1'' required status, example_phase ''phase_002'' ''s2'' True ''pending''],
      wf_dependencies = [example_dependency], wf_checkpoints = [], wf_finish_contract = [], wf_created_at = ''now'',
      wf_updated_at = ''now'', wf_blocked_reasons = []\<rparr>"

definition example_planned_run :: planned_run where
  "example_planned_run =
     \<lparr>pr_run_id = ''run'', pr_task_id = None, pr_operation_id = Some ''op'', pr_runtime_profile = None,
      pr_steps = [\<lparr>ps_step_id = ''s1'', ps_step_type = ''read'', ps_action = ''read_files'', ps_required = True\<rparr>,
                  \<lparr>ps_step_id = ''s2'', ps_step_type = ''report'', ps_action = ''write_report'', ps_required = True\<rparr>],
      pr_depends_on = [(''s2'', [''s1''])]\<rparr>"

lemma example_phases [simp]:
  "phase_for_step (example_workflow b st) ''s2'' = Some (example_phase ''phase_002'' ''s2'' True ''pending'')"
  "workflow_phase_of (example_workflow b st) ''phase_001'' = Some (example_phase ''phase_001'' ''s1'' b st)"
  by (simp_all add: phase_for_step_def workflow_phase_of_def example_workflow_def example_phase_def)

lemma example_producer_snapshot:
  "producer_snapshot example_workflow_env (example_workflow b ''partial'') (example_phase ''phase_001'' ''s1'' b ''partial'')
     example_dependency = Inr example_snapshot"
  "\<exists>sn. producer_snapshot example_workflow_env (example_workflow b ''skipped'') (example_phase ''phase_001'' ''s1'' b ''skipped'')
     example_dependency = Inr sn \<and> ph_limitations sn = [''sampled_files'']"
  by (simp_all add: producer_snapshot_def Let_def outcome_strs_def outcome_dict_def example_phase_def json_get_def
      json_or_def py_str_def example_snapshot_def example_dependency_def example_workflow_def example_workflow_env_def)

lemma example_starts:
  "\<exists>wo rs. can_start_phase example_workflow_env (Some (example_workflow True ''partial'')) ''s2'' = Inr (wo, True, rs)"
proof -
  let ?w = "example_workflow True ''partial''" and ?env = "example_workflow_env" and ?r = "example_requirements"
  let ?q = "example_phase ''phase_001'' ''s1'' True ''partial''"
  have env: "we_admission ?env = example_admission_env" by (simp add: example_workflow_env_def)
  have now: "example_admission_env\<lparr>av_now := 0\<rparr> = example_admission_env" by (simp add: example_admission_env_def)
  have "(0 :: int) < av_now example_admission_env + max 1 (dr_authorization_ttl_seconds ?r) * 1000000"
    by (simp add: example_admission_env_def example_requirements_def)
  from met_demand_admission [OF example_resolution example_demand_met example_times this this]
  obtain e a where steps:
    "evaluate_dependency example_admission_env example_snapshot ?r ''run'' ''op'' ''write_report'' = Inr e"
    "authorize_dependency example_admission_env e ?r (scope_of example_snapshot ?r ''run'' ''op'' ''write_report'') None = Inr (a, None)"
    "validate_admission example_admission_env a e ?r (scope_of example_snapshot ?r ''run'' ''op'' ''write_report'') = Inr (True, None)"
    unfolding now by blast
  have scope: "dependency_scope ?w example_dependency ?r = scope_of example_snapshot ?r ''run'' ''op'' ''write_report''"
    by (simp add: dependency_scope_def scope_of_def example_workflow_def example_dependency_def
        example_requirements_def example_snapshot_def)
  have ids: "wf_task_run_id ?w = ''run''" "wf_operation_id ?w = Some ''op''" "dr_operation_type ?r = ''write_report''"
    "wf_dependencies ?w = [example_dependency]"
    by (simp_all add: example_workflow_def example_requirements_def)
  have none: "wd_evaluation example_dependency = None" "wd_admission example_dependency = None"
    by (simp_all add: example_dependency_def)
  have "ensure_evaluation ?env ?w ?q example_dependency ?r = Inr e"
    using steps(1) by (simp add: ensure_evaluation_def env ids none example_producer_snapshot(1))
  moreover have "ensure_admission ?env ?w example_dependency ?r e = Inr a"
    using steps(2) by (simp add: ensure_admission_def env scope none)
  ultimately have "\<exists>d'. admit_dependency ?env ?w ?q (example_dependency\<lparr>wd_status := st, wd_missing_reasons := m\<rparr>) ?r = Inr (d', None)" for st m
    using steps(3) by (simp add: admit_dependency_def env scope)
  moreover have fields: "wd_evaluation_required example_dependency" "wd_requirements example_dependency = Some ?r"
    "wd_demand_compilation example_dependency = Some \<lparr>dc_status = ''compiled'', dc_requirements = Some ?r, dc_reason_codes = []\<rparr>"
    "wd_producer_phase_id example_dependency = ''phase_001''" "wd_consumer_phase_id example_dependency = ''phase_002''"
    by (simp_all add: example_dependency_def)
  ultimately have adm: "\<exists>d'. dependency_admission_reason ?env ?w (Some ?q)
      (example_dependency\<lparr>wd_status := st, wd_missing_reasons := m\<rparr>) = Inr (d', None)" for st m
    by (simp add: dependency_admission_reason_def example_phase_def)
  have clear: "dependency_missing_reasons (Some ?q) example_dependency = []"
    by (simp add: dependency_missing_reasons_def example_phase_def example_dependency_def SUCCESS_STATUSES_def)
  have chk: "\<exists>d'. check_dependency ?env ?w example_dependency = Inr (d', [])"
    using adm [where st = "''completed''" and m = "[]"] by (auto simp: check_dependency_def Let_def fields clear)
  have cons: "wp_phase_id (example_phase ''phase_002'' ''s2'' True ''pending'') = ''phase_002''"
    by (simp add: example_phase_def)
  show ?thesis
    using chk by (auto simp: can_start_phase_def Let_def ids(4) fields cons)
qed

theorem start_needs_dependencies_witness:
  "\<exists>r e a. wd_requirements example_dependency = Some r \<and>
     validate_admission example_admission_env a e r (dependency_scope (example_workflow True ''partial'') example_dependency r) =
       Inr (True, None)"
proof -
  obtain wo rs where "can_start_phase example_workflow_env (Some (example_workflow True ''partial'')) ''s2'' = Inr (wo, True, rs)"
    using example_starts by blast
  from start_needs_dependencies [OF this example_phases(1), of example_dependency]
  show ?thesis
    by (auto simp: example_workflow_def example_dependency_def example_phase_def workflow_phase_of_def
        example_workflow_env_def TERMINAL_STATUSES_def)
qed

theorem reachable_workflow_consistent_witness:
  "map wp_source_step_id (wf_phases (create_for_run example_workflow_env example_planned_run)) = [''s1'', ''s2''] \<and>
   distinct (map wp_phase_id (wf_phases (create_for_run example_workflow_env example_planned_run)))"
  using reachable_workflow_consistent [OF workflow_reachable.created [of example_planned_run example_workflow_env]]
  by (simp add: example_planned_run_def)

theorem skipped_optional_producer_blocks_witness:
  "(\<exists>d' missing. check_dependency example_workflow_env (example_workflow False ''skipped'') example_dependency = Inr (d', missing) \<and>
      missing \<noteq> []) \<and>
   (\<exists>d'. check_dependency example_workflow_env (example_workflow False ''failed'') example_dependency = Inr (d', []))"
proof -
  let ?q = "example_phase ''phase_001'' ''s1'' False ''x''"
  have st: "?q\<lparr>wp_status := s\<rparr> = example_phase ''phase_001'' ''s1'' False s" for s by (simp add: example_phase_def)
  have ids: "wd_producer_phase_id example_dependency = ''phase_001''" by (simp add: example_dependency_def)
  obtain sn where sn: "producer_snapshot example_workflow_env (example_workflow False ''skipped'')
      (?q\<lparr>wp_status := ''skipped''\<rparr>) example_dependency = Inr sn" "ph_limitations sn = [''sampled_files'']"
    using example_producer_snapshot(2) [of False] unfolding st by blast
  have res: "resolve_limitations (av_resolver (we_admission example_workflow_env)) example_requirements sn
      (unclassified_limitations example_requirements sn) = Inr \<lparr>lr_status = ''not_required'', lr_reason_code = None, lr_assessments = []\<rparr>"
    using sn(2) by (simp add: resolve_limitations_def unclassified_limitations_def example_requirements_def)
  have look: "workflow_phase_of (example_workflow False s) (wd_producer_phase_id example_dependency) = Some (?q\<lparr>wp_status := s\<rparr>)" for s
    by (simp add: ids st)
  have opt: "\<not> wp_required ?q" by (simp add: example_phase_def)
  have times: "\<forall>t. av_parse_time (we_admission example_workflow_env) (av_isoformat (we_admission example_workflow_env) t) = Some t"
    using example_times by (simp add: example_workflow_env_def)
  have dep: "wd_evaluation example_dependency = None" "wd_admission example_dependency = None"
    "wd_evaluation_required example_dependency"
    "wd_demand_compilation example_dependency = Some \<lparr>dc_status = ''compiled'', dc_requirements = Some example_requirements, dc_reason_codes = []\<rparr>"
    "wd_requirements example_dependency = Some example_requirements"
    "wd_required_artifacts example_dependency = []" "wd_required_validations example_dependency = []"
    "''skipped'' \<notin> set (dr_allowed_dependency_statuses example_requirements)"
    by (simp_all add: example_dependency_def example_requirements_def)
  from skipped_optional_producer_blocks [OF dep(1,2,3,4) _ dep(5,8,6,7) opt look look sn(1) res times]
  show ?thesis by simp
qed

end
