(* ===== verification/Task_Run_Store.thy ===== *)
theory Task_Run_Store
  imports Run_Payloads
begin

text \<open>
  \<open>TaskRunStore\<close> (\<open>services/runtime/task_run_store.py\<close>) as the record of what has happened to a task run: its
  status, its event log, its result, and the guards that end a run which has stalled or run out of time.

  A stored document is the value a full read returns: redaction and the spilling of payloads are the subject
  of \<open>Run_Payloads\<close>. Writing a run also writes its index entry, of which the status is kept. The clock, the
  parsing of time stamps, fresh identifiers, the text of a value that is no string and the semantic result
  finalizer (\<open>phase_semantic_result_finalizer.py\<close>) are the record \<open>store_env\<close>; one call of the store reads the
  clock once. Durations are in microseconds.
\<close>

section \<open>Data\<close>

record task_event =
  te_event_id :: str
  te_sequence :: int
  te_type :: str
  te_status :: str
  te_message :: str
  te_step_id :: "str option"
  te_timestamp :: str
  te_metadata :: "json dict"

record task_completion =
  cp_status :: str
  cp_safe_to_report_success :: bool
  cp_missing_outcomes :: "str list"
  cp_warnings :: "str list"
  cp_limitations :: "str list"
  cp_metadata :: "json dict"

record task_result =
  rs_run_id :: str
  rs_status :: str
  rs_summary :: str
  rs_source :: "str option"
  rs_reason_code :: "str option"
  rs_finished_at :: "str option"
  rs_outputs :: "json dict"
  rs_blocked_items :: "str list"
  rs_warnings :: "str list"
  rs_events_count :: nat
  rs_trace_ref :: "str option"
  rs_validation :: "json dict option"
  rs_completion :: "task_completion option"

text \<open>The fields of a run that the store and the queue read or write; \<open>tr_fields\<close> is the rest of the document.\<close>

record run_record =
  tr_run_id :: str
  tr_session_id :: "str option"
  tr_approval_id :: "str option"
  tr_status :: str
  tr_current_step_id :: "str option"
  tr_auto_run_requested :: bool
  tr_cancellation_requested :: bool
  tr_cancellation_reason :: "str option"
  tr_revision :: int
  tr_created_at :: str
  tr_started_at :: "str option"
  tr_finished_at :: "str option"
  tr_warnings :: "str list"
  tr_blocked_reasons :: "str list"
  tr_produced_artifacts :: "json list"
  tr_fields :: "json dict"

text \<open>What the semantic finalizer does: it does not apply, builds a result, or raises.\<close>

datatype finalization = Not_Applicable | Finalized task_result | Finalizer_Raised str str

record store_env =
  se_now :: str
  se_clock :: int
  se_parse_time :: "str \<Rightarrow> int option"
  se_uid :: "nat \<Rightarrow> str"
  se_render :: "json \<Rightarrow> str"
  se_seconds :: "int \<Rightarrow> json"
  se_finalize :: "run_record \<Rightarrow> json list \<Rightarrow> json dict \<Rightarrow> nat \<Rightarrow> finalization"

record task_store =
  ts_runs :: "run_record dict"
  ts_index :: "str dict"
  ts_results :: "task_result dict"
  ts_events :: "task_event list dict"
  ts_traces :: "json list dict"
  ts_fresh :: nat

text \<open>\<open>str(v or "")\<close>.\<close>

definition str_or_empty :: "store_env \<Rightarrow> json \<Rightarrow> str" where
  "str_or_empty env v = py_str (se_render env) (json_or v (JStr []))"

section \<open>Runs\<close>

definition put_run :: "run_record \<Rightarrow> task_store \<Rightarrow> task_store" where
  "put_run r st =
     st\<lparr>ts_runs := AList.update (tr_run_id r) r (ts_runs st), ts_index := AList.update (tr_run_id r) (tr_status r) (ts_index st)\<rparr>"

definition find_run :: "str \<Rightarrow> task_store \<Rightarrow> run_record option" where
  "find_run rid st = map_of (ts_runs st) rid"

section \<open>Events\<close>

definition get_task_events :: "str \<Rightarrow> task_store \<Rightarrow> task_event list" where
  "get_task_events rid st = (case map_of (ts_events st) rid of None \<Rightarrow> [] | Some es \<Rightarrow> es)"

definition terminal_event_types :: "str list" where
  "terminal_event_types = [''run_completed'', ''run_partial'', ''run_failed'', ''run_cancelled'', ''run_blocked'']"

definition terminal_statuses :: "str list" where
  "terminal_statuses =
     [''completed'', ''completed_with_limitations'', ''partial'', ''failed'', ''cancelled'', ''blocked'', ''expired'']"

definition is_terminal_event :: "task_event \<Rightarrow> bool" where
  "is_terminal_event e \<longleftrightarrow> te_type e \<in> set terminal_event_types"

definition first_terminal_event :: "str \<Rightarrow> task_store \<Rightarrow> task_event option" where
  "first_terminal_event rid st = find is_terminal_event (sort_key te_sequence (get_task_events rid st))"

definition next_sequence :: "task_event list \<Rightarrow> int" where
  "next_sequence es = (if es = [] then 0 else Max (set (map te_sequence es))) + 1"

definition store_event :: "str \<Rightarrow> task_event \<Rightarrow> task_store \<Rightarrow> task_event \<times> task_store" where
  "store_event rid e st =
     (let es = get_task_events rid st; e' = e\<lparr>te_sequence := next_sequence es\<rparr>
      in (e', st\<lparr>ts_events := AList.update rid (es @ [e']) (ts_events st)\<rparr>))"

text \<open>A new \<open>TaskRunEvent\<close>, whose sequence number the store sets on the append.\<close>

definition new_event ::
    "store_env \<Rightarrow> str \<Rightarrow> str \<Rightarrow> str \<Rightarrow> str \<Rightarrow> json dict \<Rightarrow> task_store \<Rightarrow> task_event \<times> task_store" where
  "new_event env rid type status message metadata st =
     (\<lparr>te_event_id = ''task_run_event_'' @ se_uid env (ts_fresh st), te_sequence = int (length (get_task_events rid st)) + 1,
       te_type = type, te_status = status, te_message = message, te_step_id = None, te_timestamp = se_now env,
       te_metadata = metadata\<rparr>, st\<lparr>ts_fresh := Suc (ts_fresh st)\<rparr>)"

definition is_ignored_for :: "task_event \<Rightarrow> str \<Rightarrow> task_event \<Rightarrow> bool" where
  "is_ignored_for terminal reason e \<longleftrightarrow>
     te_type e = ''terminalization_already_applied'' \<and>
     json_get ''terminal_event_id'' (te_metadata e) = JStr (te_event_id terminal) \<and>
     json_get ''attempted_reason_code'' (te_metadata e) = JStr reason"

text \<open>\<open>_append_terminalization_ignored\<close>: at most one note per terminal event and attempted reason.\<close>

definition append_terminalization_ignored ::
    "store_env \<Rightarrow> str \<Rightarrow> str \<Rightarrow> str \<Rightarrow> task_event option \<Rightarrow> task_store \<Rightarrow> task_store" where
  "append_terminalization_ignored env rid attempted reason term st =
     (case (case term of Some t \<Rightarrow> Some t | None \<Rightarrow> first_terminal_event rid st) of
        None \<Rightarrow> st
      | Some t \<Rightarrow>
          if list_ex (is_ignored_for t reason) (get_task_events rid st) then st
          else let (e, st1) = new_event env rid ''terminalization_already_applied'' ''ignored''
                 ''Terminalization ignored because the TaskRun already has a terminal event.''
                 [(''terminal_event_id'', JStr (te_event_id t)), (''terminal_status'', JStr (te_status t)),
                  (''terminal_reason_code'', json_get ''reason_code'' (te_metadata t)),
                  (''attempted_status'', JStr attempted), (''attempted_reason_code'', JStr reason),
                  (''ignored'', JBool True), (''reason'', JStr ''terminal_state_already_set'')] st
               in snd (store_event rid e st1))"

definition append_task_event :: "store_env \<Rightarrow> str \<Rightarrow> task_event \<Rightarrow> task_store \<Rightarrow> task_event \<times> task_store" where
  "append_task_event env rid e st =
     (case (if is_terminal_event e then first_terminal_event rid st else None) of
        Some t \<Rightarrow>
          (let reason = py_str (se_render env) (json_or (json_get ''reason_code'' (te_metadata e)) (JStr (te_type e)));
               st1 = append_terminalization_ignored env rid (te_status e) reason (Some t) st;
               ignored = filter (is_ignored_for t reason) (get_task_events rid st1)
           in (if ignored = [] then t else last ignored, st1))
      | None \<Rightarrow> store_event rid e st)"

text \<open>\<open>TaskRunEventService.create\<close> with the event types the policy allows.\<close>

definition create_event ::
    "store_env \<Rightarrow> str list \<Rightarrow> str \<Rightarrow> str \<Rightarrow> str \<Rightarrow> str \<Rightarrow> json dict \<Rightarrow> task_store \<Rightarrow> task_event outcome \<times> task_store" where
  "create_event env allowed rid type status message metadata st =
     (if type \<notin> set allowed then (Inl (''unknown_task_run_event:'' @ type), st)
      else let (e, st1) = new_event env rid type status (take 1000 message) metadata st;
               (e', st2) = append_task_event env rid e st1
           in (Inr e', st2))"

section \<open>Results\<close>

text \<open>\<open>_cohere_terminal_result\<close>: the status of the run follows its result.\<close>

definition cohere_run :: "store_env \<Rightarrow> str \<Rightarrow> run_record \<Rightarrow> run_record" where
  "cohere_run env run_status r =
     r\<lparr>tr_status := run_status,
       tr_finished_at := (if opt_truthy (tr_finished_at r) then tr_finished_at r else Some (se_now env)),
       tr_current_step_id := None\<rparr>"

definition result_statuses :: "str list" where
  "result_statuses = [''completed'', ''completed_with_limitations'', ''partial'', ''failed'', ''cancelled'', ''blocked'']"

definition status_of_result :: "task_result \<Rightarrow> str" where
  "status_of_result result = (if rs_status result = ''completed_with_limitations'' then ''partial'' else rs_status result)"

definition cohere_result :: "store_env \<Rightarrow> str \<Rightarrow> task_result \<Rightarrow> task_store \<Rightarrow> task_store" where
  "cohere_result env rid result st =
     (if rs_status result \<notin> set result_statuses then st
      else case find_run rid st of
        None \<Rightarrow> st
      | Some r \<Rightarrow>
          (let r' = cohere_run env (status_of_result result) r
           in if r' = r then st else put_run (r'\<lparr>tr_revision := tr_revision r + 1\<rparr>) st))"

definition save_task_result :: "store_env \<Rightarrow> str \<Rightarrow> task_result \<Rightarrow> task_store \<Rightarrow> task_store" where
  "save_task_result env rid result st = cohere_result env rid result (st\<lparr>ts_results := AList.update rid result (ts_results st)\<rparr>)"

definition terminal_event_type_for :: "str \<Rightarrow> str" where
  "terminal_event_type_for status =
     (if status = ''completed'' then ''run_completed''
      else if status \<in> {''completed_with_limitations'', ''partial''} then ''run_partial''
      else if status = ''failed'' then ''run_failed''
      else if status = ''cancelled'' then ''run_cancelled''
      else ''run_blocked'')"

text \<open>The reason recorded in an artifact row, in it or in its metadata.\<close>

definition artifact_reason :: "json dict \<Rightarrow> json" where
  "artifact_reason a =
     (if json_truthy (json_get ''reason_code'' a) then json_get ''reason_code'' a
      else if is_obj (json_get ''metadata'' a) then json_get ''reason_code'' (json_dict (json_get ''metadata'' a))
      else json_get ''reason_code'' a)"

definition artifact_rows :: "json list \<Rightarrow> json dict list" where
  "artifact_rows xs = map json_dict (filter is_obj xs)"

definition terminal_reason_code :: "store_env \<Rightarrow> run_record \<Rightarrow> str" where
  "terminal_reason_code env r =
     (let artifact_reasons = map (py_str (se_render env))
            (filter json_truthy (map artifact_reason (artifact_rows (tr_produced_artifacts r))));
          blocked = filter (\<lambda>x. x \<noteq> []) (tr_blocked_reasons r)
      in if artifact_reasons \<noteq> [] \<and> list_all (\<lambda>x. x = ''TASKRUN_LIFECYCLE_TIMEOUT'') blocked then hd artifact_reasons
         else if blocked \<noteq> [] then hd blocked
         else if artifact_reasons \<noteq> [] then hd artifact_reasons
         else ''TERMINAL_RESULT_MISSING'')"

definition terminal_event_reason_code :: "store_env \<Rightarrow> str \<Rightarrow> task_store \<Rightarrow> str option" where
  "terminal_event_reason_code env rid st =
     (case first_terminal_event rid st of
        None \<Rightarrow> None
      | Some t \<Rightarrow>
          (let reason = json_get ''reason_code'' (te_metadata t)
           in if json_truthy reason then Some (py_str (se_render env) reason) else None))"

definition row_metadata :: "json dict \<Rightarrow> json dict" where
  "row_metadata a = json_dict (json_get ''metadata'' a)"

definition unsafe_artifact :: "store_env \<Rightarrow> json dict \<Rightarrow> bool" where
  "unsafe_artifact env a \<longleftrightarrow>
     str_or_empty env (json_or (json_get ''status'' a) (json_get ''status'' (row_metadata a)))
       \<in> {''partial'', ''blocked'', ''interrupted'', ''failed'', ''rejected'', ''late_rejected''} \<or>
     (if map_of a ''safe_to_use'' \<noteq> None then json_get ''safe_to_use'' a
      else json_get ''safe_to_use'' (row_metadata a)) = JBool False"

definition artifact_ids_of :: "store_env \<Rightarrow> json dict list \<Rightarrow> json" where
  "artifact_ids_of env as =
     jstrs (map (\<lambda>a. py_str (se_render env) (json_get ''artifact_id'' a))
       (filter (\<lambda>a. json_truthy (json_get ''artifact_id'' a)) as))"

definition terminal_artifact_state :: "store_env \<Rightarrow> json dict list \<Rightarrow> str \<Rightarrow> json dict" where
  "terminal_artifact_state env as reason =
     (if as = [] then
        [(''status'', JStr ''none''), (''count'', JInt 0), (''safe_to_use'', JBool False), (''reason_code'', JStr reason)]
      else
        let unsafe = filter (unsafe_artifact env) as;
            artifact_reason = (case unsafe of [] \<Rightarrow> reason
              | a # _ \<Rightarrow> py_str (se_render env) (json_or (json_get ''reason_code'' a)
                  (json_or (json_get ''reason_code'' (row_metadata a)) (JStr reason))))
        in [(''status'', JStr (if unsafe \<noteq> [] then ''partial'' else ''available'')), (''count'', JInt (int (length as))),
            (''artifact_ids'', artifact_ids_of env as), (''safe_to_use'', JBool (unsafe = [])),
            (''reason_code'', JStr artifact_reason), (''partial_or_interrupted'', JList (map JObj unsafe))])"

text \<open>The logical paths of the artifact rows that have one, in them or in their metadata.\<close>

definition logical_paths_of :: "store_env \<Rightarrow> json dict list \<Rightarrow> json" where
  "logical_paths_of env as =
     jstrs (py_unique (map (\<lambda>a. str_or_empty env (json_or (json_get ''logical_path'' a) (json_get ''logical_path'' (row_metadata a))))
       (filter (\<lambda>a. json_truthy (json_get ''logical_path'' a) \<or> json_truthy (json_get ''logical_path'' (row_metadata a))) as)))"

definition trace_ref_of :: "str \<Rightarrow> str" where
  "trace_ref_of rid = ''task-runs/'' @ rid @ ''/trace''"

definition failed_finalization :: "store_env \<Rightarrow> run_record \<Rightarrow> json dict list \<Rightarrow> json dict \<Rightarrow> nat \<Rightarrow> str \<Rightarrow> str \<Rightarrow> task_result" where
  "failed_finalization env r as artifact_state events_count error_type error_message =
     (let reason = ''SEMANTIC_COMPLETION_RESULT_FINALIZATION_FAILED'';
          validation = [(''status'', JStr ''blocked''), (''reason_code'', JStr reason), (''safe_to_report_success'', JBool False),
            (''safe_to_continue'', JBool False), (''blocking_findings'', jstrs [reason])]
      in \<lparr>rs_run_id = tr_run_id r, rs_status = ''blocked'',
          rs_summary = ''Semantic completion result finalization failed safely.'',
          rs_source = Some ''phase_semantic_completion_policy'', rs_reason_code = Some reason,
          rs_finished_at = Some (str_or (tr_finished_at r) (se_now env)),
          rs_outputs =
            [(''terminal_result_finalization'', JObj
                [(''reason_code'', JStr reason), (''source'', JStr ''phase_semantic_completion_policy''),
                 (''semantic_result_finalization'', JStr ''failed''), (''safe_to_report_success'', JBool False),
                 (''error_type'', JStr error_type), (''error_message'', JStr (take 500 error_message))]),
             (''artifact_result'', JObj
                [(''artifact_ids'', artifact_ids_of env as), (''logical_paths'', logical_paths_of env as),
                 (''artifacts'', JList (map JObj as)), (''artifact_state'', JObj artifact_state)]),
             (''validation_result'', JObj validation)],
          rs_blocked_items = [reason], rs_warnings = [''semantic_completion_result_finalization_failed''],
          rs_events_count = events_count, rs_trace_ref = Some (trace_ref_of (tr_run_id r)),
          rs_validation = Some
            [(''status'', JStr ''blocked''), (''score'', JFloat 0 0), (''safe_to_display'', JBool True),
             (''safe_to_report_success'', JBool False), (''reason_code'', JStr reason), (''blocking_findings'', jstrs [reason])],
          rs_completion = Some \<lparr>cp_status = ''blocked'', cp_safe_to_report_success = False, cp_missing_outcomes = [reason],
            cp_warnings = [''semantic_completion_result_finalization_failed''],
            cp_limitations = [''semantic_completion_result_finalization_failed_safely''],
            cp_metadata = [(''reason_code'', JStr reason), (''source'', JStr ''phase_semantic_completion_policy'')]\<rparr>\<rparr>)"

definition try_semantic_terminal_result ::
    "store_env \<Rightarrow> run_record \<Rightarrow> json dict list \<Rightarrow> json dict \<Rightarrow> task_store \<Rightarrow> task_result option" where
  "try_semantic_terminal_result env r as artifact_state st =
     (let n = length (get_task_events (tr_run_id r) st)
      in case se_finalize env r (map JObj as) artifact_state n of
           Not_Applicable \<Rightarrow> None
         | Finalized result \<Rightarrow> Some result
         | Finalizer_Raised error_type error_message \<Rightarrow>
             Some (failed_finalization env r as artifact_state n error_type error_message))"

text \<open>The result \<open>ensure_terminal_result\<close> writes for a terminal run that has none.\<close>

definition repaired_result ::
    "store_env \<Rightarrow> str \<Rightarrow> str \<Rightarrow> str \<Rightarrow> json dict list \<Rightarrow> json dict \<Rightarrow> str option \<Rightarrow> nat \<Rightarrow> task_result" where
  "repaired_result env rid result_status reason as artifact_state summary events_count =
     (let passed = (result_status = ''completed'' \<and> json_get ''safe_to_use'' artifact_state = JBool True);
          validation_status = (if passed then ''passed'' else ''blocked'');
          completion_status = (if passed then ''completed'' else if result_status = ''cancelled'' then ''cancelled''
            else if result_status = ''failed'' then ''failed'' else ''blocked'');
          findings = (if passed then [] else [reason])
      in \<lparr>rs_run_id = rid,
          rs_status = (if result_status \<in> {''completed'', ''partial'', ''failed'', ''cancelled'', ''blocked''} then result_status
            else ''blocked''),
          rs_summary = str_or summary
            (if result_status \<noteq> ''completed''
             then ''TaskRun reached a terminal state without a persisted result; a conservative terminal result was finalized.''
             else ''TaskRun completed without a persisted result; terminal result was finalized from recorded state.''),
          rs_source = None, rs_reason_code = (if result_status = ''completed'' then None else Some reason),
          rs_finished_at = None,
          rs_outputs =
            [(''terminal_result_finalization'', JObj
                [(''reason_code'', JStr reason), (''source'', JStr ''task_run_store''),
                 (''finalized_from_terminal_run'', JBool True), (''safe_to_report_success'', JBool False)]),
             (''artifact_result'', JObj
                [(''artifact_ids'', artifact_ids_of env as), (''logical_paths'', logical_paths_of env as),
                 (''artifacts'', JList (map JObj as)), (''artifact_state'', JObj artifact_state)]),
             (''validation_result'', JObj
                [(''status'', JStr validation_status), (''reason_code'', JStr reason), (''safe_to_report_success'', JBool False),
                 (''safe_to_continue'', JBool False), (''blocking_findings'', jstrs findings)])],
          rs_blocked_items = findings, rs_warnings = [''terminal_result_missing_repaired''],
          rs_events_count = events_count, rs_trace_ref = Some (trace_ref_of rid),
          rs_validation = Some
            [(''status'', JStr validation_status), (''score'', if passed then JFloat 1 0 else JFloat 0 0),
             (''safe_to_display'', JBool True), (''safe_to_report_success'', JBool False),
             (''blocking_findings'', jstrs findings), (''reason_code'', JStr reason)],
          rs_completion = Some \<lparr>cp_status = completion_status, cp_safe_to_report_success = False,
            cp_missing_outcomes = (if completion_status = ''completed'' then [] else [reason]),
            cp_warnings = [''terminal_result_missing_repaired''],
            cp_limitations = (if completion_status = ''completed'' then [] else [''terminal_result_finalized_conservatively'']),
            cp_metadata = [(''reason_code'', JStr reason), (''source'', JStr ''task_run_store''),
              (''artifact_state'', JObj artifact_state)]\<rparr>\<rparr>)"

definition validation_reason :: "task_result \<Rightarrow> json \<Rightarrow> json" where
  "validation_reason result missing = (case rs_validation result of Some v \<Rightarrow> json_get ''reason_code'' v | None \<Rightarrow> missing)"

text \<open>A terminal event is added only when the run has none.\<close>

definition append_new_event :: "store_env \<Rightarrow> str \<Rightarrow> str \<Rightarrow> str \<Rightarrow> str \<Rightarrow> json dict \<Rightarrow> task_store \<Rightarrow> task_store" where
  "append_new_event env rid type status message metadata st =
     (let (e, st1) = new_event env rid type status message metadata st in snd (append_task_event env rid e st1))"

definition append_if_none :: "store_env \<Rightarrow> str \<Rightarrow> task_result \<Rightarrow> json dict \<Rightarrow> task_store \<Rightarrow> task_store" where
  "append_if_none env rid saved metadata st =
     (if first_terminal_event rid st = None
      then append_new_event env rid (terminal_event_type_for (rs_status saved)) (rs_status saved) (rs_summary saved) metadata st
      else st)"

definition terminal_reason :: "store_env \<Rightarrow> str option \<Rightarrow> str \<Rightarrow> run_record \<Rightarrow> task_store \<Rightarrow> str" where
  "terminal_reason env given rid r st =
     (let run_reason = terminal_reason_code env r; event_reason = terminal_event_reason_code env rid st
      in if opt_truthy given then the given
         else if event_reason = Some ''TASKRUN_LIFECYCLE_TIMEOUT'' \<and> run_reason \<noteq> ''TASKRUN_LIFECYCLE_TIMEOUT'' then run_reason
         else str_or event_reason run_reason)"

definition ensure_terminal_result ::
    "store_env \<Rightarrow> str \<Rightarrow> str option \<Rightarrow> str option \<Rightarrow> task_store \<Rightarrow> task_result option \<times> task_store" where
  "ensure_terminal_result env rid given summary st =
     (case map_of (ts_results st) rid of
        Some existing \<Rightarrow> (Some existing, st)
      | None \<Rightarrow>
          (case find_run rid st of
             None \<Rightarrow> (None, st)
           | Some r \<Rightarrow>
               if tr_status r \<notin> set terminal_statuses then (None, st)
               else
                 let result_status = (if tr_status r = ''expired'' then ''blocked'' else tr_status r);
                     reason = terminal_reason env given rid r st;
                     as = artifact_rows (tr_produced_artifacts r);
                     artifact_state = terminal_artifact_state env as reason
                 in (case try_semantic_terminal_result env r as artifact_state st of
                      Some result \<Rightarrow>
                        (Some result, append_if_none env rid result
                           [(''reason_code'', validation_reason result (JStr ''SEMANTIC_RESULT_PERSISTED'')),
                            (''source'', JStr ''phase_semantic_completion_policy''),
                            (''semantic_result_finalization'', JStr ''completed'')]
                           (save_task_result env rid result st))
                    | None \<Rightarrow>
                        (let result = repaired_result env rid result_status reason as artifact_state summary
                               (length (get_task_events rid st))
                         in (Some result, append_if_none env rid result
                              [(''reason_code'', JStr reason), (''source'', JStr ''ensure_terminal_result'')]
                              (save_task_result env rid result st))))))"

definition get_result :: "store_env \<Rightarrow> str \<Rightarrow> task_store \<Rightarrow> task_result option \<times> task_store" where
  "get_result env rid st =
     (case map_of (ts_results st) rid of
        Some result \<Rightarrow> (Some result, cohere_result env rid result st)
      | None \<Rightarrow>
          (case map_of (ts_index st) rid of
             Some status \<Rightarrow> if status \<in> set terminal_statuses then ensure_terminal_result env rid None None st else (None, st)
           | None \<Rightarrow> (None, st)))"

section \<open>Artifacts in the making\<close>

definition MEDIA_INVENTORY_STAGE_STALL_REASONS :: "(str \<times> str) list" where
  "MEDIA_INVENTORY_STAGE_STALL_REASONS =
     [(''after_entity_selection'', ''MUSIC_INVENTORY_PERCEPTION_PAYLOAD_COMPILE_STALLED''),
      (''before_perception_payload_compile'', ''MUSIC_INVENTORY_PERCEPTION_PAYLOAD_COMPILE_STALLED''),
      (''before_compile_request_normalization'', ''PERCEPTION_PAYLOAD_COMPILE_BUDGET_EXCEEDED''),
      (''after_compile_request_normalization'', ''PERCEPTION_REQUIREMENT_RESOLUTION_STALLED''),
      (''before_requirement_resolution'', ''PERCEPTION_REQUIREMENT_RESOLUTION_STALLED''),
      (''after_requirement_resolution'', ''PERCEPTION_ENTITY_PROJECTION_STALLED''),
      (''before_entity_projection'', ''PERCEPTION_ENTITY_PROJECTION_STALLED''),
      (''entity_projection_checkpoint'', ''PERCEPTION_ENTITY_PROJECTION_STALLED''),
      (''after_entity_projection'', ''PERCEPTION_RELATIONSHIP_PROJECTION_STALLED''),
      (''before_relationship_projection'', ''PERCEPTION_RELATIONSHIP_PROJECTION_STALLED''),
      (''after_relationship_projection'', ''PERCEPTION_OBSERVATION_BINDING_STALLED''),
      (''before_observation_binding'', ''PERCEPTION_OBSERVATION_BINDING_STALLED''),
      (''before_observation_goal_projection'', ''PERCEPTION_OBSERVATION_GOAL_PROJECTION_STALLED''),
      (''after_observation_goal_projection'', ''PERCEPTION_OBSERVATION_STRATEGY_PROJECTION_STALLED''),
      (''before_observation_strategy_projection'', ''PERCEPTION_OBSERVATION_STRATEGY_PROJECTION_STALLED''),
      (''after_observation_strategy_projection'', ''PERCEPTION_CAPABILITY_MATCH_PROJECTION_STALLED''),
      (''before_capability_match_projection'', ''PERCEPTION_CAPABILITY_MATCH_PROJECTION_STALLED''),
      (''after_capability_match_projection'', ''PERCEPTION_CAPABILITY_DECISION_PROJECTION_STALLED''),
      (''before_capability_decision_projection'', ''PERCEPTION_CAPABILITY_DECISION_PROJECTION_STALLED''),
      (''after_capability_decision_projection'', ''PERCEPTION_OBSERVATION_TASK_PROJECTION_STALLED''),
      (''before_observation_task_projection'', ''PERCEPTION_OBSERVATION_TASK_PROJECTION_STALLED''),
      (''after_observation_task_projection'', ''PERCEPTION_OBSERVATION_REQUIREMENT_PROJECTION_STALLED''),
      (''before_observation_requirement_projection'', ''PERCEPTION_OBSERVATION_REQUIREMENT_PROJECTION_STALLED''),
      (''after_observation_requirement_projection'', ''PERCEPTION_OBSERVATION_BINDING_STALLED''),
      (''after_observation_binding'', ''PERCEPTION_FACT_PROJECTION_STALLED''),
      (''before_fact_projection'', ''PERCEPTION_FACT_PROJECTION_STALLED''),
      (''before_fact_source_binding'', ''PERCEPTION_FACT_SOURCE_BINDING_STALLED''),
      (''before_source_index_build'', ''PERCEPTION_FACT_SOURCE_BINDING_STALLED''),
      (''after_source_index_build'', ''PERCEPTION_ATTRIBUTE_OBSERVATION_PROJECTION_STALLED''),
      (''before_attribute_observation_projection'', ''PERCEPTION_ATTRIBUTE_OBSERVATION_PROJECTION_STALLED''),
      (''attribute_observation_projection_checkpoint'', ''PERCEPTION_ATTRIBUTE_OBSERVATION_PROJECTION_STALLED''),
      (''after_attribute_observation_projection'', ''PERCEPTION_EVIDENCE_REF_RESOLUTION_STALLED''),
      (''before_evidence_ref_resolution'', ''PERCEPTION_EVIDENCE_REF_RESOLUTION_STALLED''),
      (''after_evidence_ref_resolution'', ''PERCEPTION_EVIDENCE_SET_MATERIALIZATION_STALLED''),
      (''before_evidence_set_materialization'', ''PERCEPTION_EVIDENCE_SET_MATERIALIZATION_STALLED''),
      (''evidence_set_materialization_checkpoint'', ''PERCEPTION_EVIDENCE_SET_MATERIALIZATION_STALLED''),
      (''after_evidence_set_materialization'', ''PERCEPTION_SOURCE_PROVENANCE_BINDING_STALLED''),
      (''before_source_provenance_binding'', ''PERCEPTION_SOURCE_PROVENANCE_BINDING_STALLED''),
      (''after_source_provenance_binding'', ''PERCEPTION_SOURCE_BINDING_BOUND_CHECK_STALLED''),
      (''before_source_binding_bound_check'', ''PERCEPTION_SOURCE_BINDING_BOUND_CHECK_STALLED''),
      (''after_source_binding_bound_check'', ''PERCEPTION_FACT_CANDIDATE_PROJECTION_STALLED''),
      (''fact_source_binding_completed'', ''PERCEPTION_FACT_CANDIDATE_PROJECTION_STALLED''),
      (''after_fact_source_binding'', ''PERCEPTION_FACT_CANDIDATE_PROJECTION_STALLED''),
      (''before_fact_candidate_projection'', ''PERCEPTION_FACT_CANDIDATE_PROJECTION_STALLED''),
      (''after_fact_candidate_projection'', ''PERCEPTION_FACT_DERIVATION_STALLED''),
      (''before_fact_derivation'', ''PERCEPTION_FACT_DERIVATION_STALLED''),
      (''fact_derivation_checkpoint'', ''PERCEPTION_FACT_DERIVATION_STALLED''),
      (''after_fact_derivation'', ''PERCEPTION_FACT_PROVENANCE_BINDING_STALLED''),
      (''before_fact_provenance_binding'', ''PERCEPTION_FACT_PROVENANCE_BINDING_STALLED''),
      (''after_fact_provenance_binding'', ''PERCEPTION_FACT_DEDUPLICATION_STALLED''),
      (''before_fact_deduplication'', ''PERCEPTION_FACT_DEDUPLICATION_STALLED''),
      (''after_fact_deduplication'', ''PERCEPTION_FACT_VALIDATION_PROJECTION_STALLED''),
      (''before_fact_validation_projection'', ''PERCEPTION_FACT_VALIDATION_PROJECTION_STALLED''),
      (''after_fact_validation_projection'', ''PERCEPTION_PAYLOAD_ASSEMBLY_STALLED''),
      (''fact_projection_completed'', ''PERCEPTION_PAYLOAD_ASSEMBLY_STALLED''),
      (''after_fact_projection'', ''PERCEPTION_PAYLOAD_ASSEMBLY_STALLED''),
      (''before_payload_assembly'', ''PERCEPTION_PAYLOAD_ASSEMBLY_STALLED''),
      (''after_payload_assembly'', ''PERCEPTION_PAYLOAD_BOUND_EXCEEDED''),
      (''before_payload_bound_check'', ''PERCEPTION_PAYLOAD_BOUND_EXCEEDED''),
      (''after_payload_bound_check'', ''PERCEPTION_PAYLOAD_COMPILE_BUDGET_EXCEEDED''),
      (''perception_compile_completed'', ''MUSIC_INVENTORY_CONTRACT_PERCEPTION_STALLED''),
      (''after_perception_payload_compile'', ''MUSIC_INVENTORY_CONTRACT_PERCEPTION_STALLED''),
      (''before_post_compile_observation_execution'', ''POST_COMPILE_OBSERVATION_GROUP_PLANNING_STALLED''),
      (''before_observation_physical_group_planning'', ''POST_COMPILE_OBSERVATION_GROUP_PLANNING_STALLED''),
      (''observation_task_scan_checkpoint'', ''POST_COMPILE_OBSERVATION_TASK_SCAN_STALLED''),
      (''target_selection_checkpoint'', ''POST_COMPILE_TARGET_SELECTION_TOO_BROAD''),
      (''target_selection_no_eligible_candidates'', ''POST_COMPILE_TARGET_SELECTION_NO_ELIGIBLE_MEDIA_CANDIDATES''),
      (''after_observation_task_scan'', ''POST_COMPILE_CAPABILITY_APPLICABILITY_RESOLUTION_STALLED''),
      (''before_capability_applicability_resolution'', ''POST_COMPILE_CAPABILITY_APPLICABILITY_RESOLUTION_STALLED''),
      (''capability_applicability_resolution_checkpoint'', ''POST_COMPILE_CAPABILITY_APPLICABILITY_RESOLUTION_STALLED''),
      (''after_capability_applicability_resolution'', ''POST_COMPILE_BACKEND_AVAILABILITY_SNAPSHOT_STALLED''),
      (''after_observation_physical_group_planning'', ''POST_COMPILE_BACKEND_AVAILABILITY_SNAPSHOT_STALLED''),
      (''before_backend_availability_snapshot'', ''POST_COMPILE_BACKEND_AVAILABILITY_SNAPSHOT_STALLED''),
      (''after_backend_availability_snapshot'', ''POST_COMPILE_PHYSICAL_PROBE_DISPATCH_STALLED''),
      (''after_observation_task_grouping'', ''POST_COMPILE_PHYSICAL_PROBE_DISPATCH_STALLED''),
      (''before_physical_probe_dispatch'', ''POST_COMPILE_PHYSICAL_PROBE_DISPATCH_STALLED''),
      (''before_physical_probe'', ''POST_COMPILE_PHYSICAL_PROBE_STALLED''),
      (''physical_probe_checkpoint'', ''POST_COMPILE_PHYSICAL_PROBE_STALLED''),
      (''after_physical_probe'', ''POST_COMPILE_EVIDENCE_FANOUT_STALLED''),
      (''after_evidence_fanout'', ''POST_COMPILE_EVIDENCE_FANOUT_STALLED''),
      (''after_post_compile_observation_execution'', ''POST_COMPILE_OBSERVATION_EXECUTION_STALLED''),
      (''before_post_execution_perception_materialization'', ''POST_EXECUTION_PERCEPTION_MATERIALIZATION_STALLED''),
      (''after_post_execution_evidence_application'', ''POST_EXECUTION_PERCEPTION_MATERIALIZATION_STALLED''),
      (''after_post_execution_attribute_observation_materialization'', ''POST_EXECUTION_PERCEPTION_MATERIALIZATION_STALLED''),
      (''after_post_execution_evidence_set_materialization'', ''POST_EXECUTION_PERCEPTION_MATERIALIZATION_STALLED''),
      (''after_post_execution_perception_materialization'', ''MUSIC_INVENTORY_CONTRACT_PERCEPTION_STALLED''),
      (''before_contract_perception'', ''MUSIC_INVENTORY_CONTRACT_PERCEPTION_STALLED''),
      (''after_contract_perception'', ''MUSIC_INVENTORY_ROW_BINDING_STALLED''),
      (''before_row_binding'', ''MUSIC_INVENTORY_ROW_BINDING_STALLED''),
      (''after_row_binding'', ''MUSIC_INVENTORY_METADATA_COVERAGE_CALCULATION_STALLED''),
      (''before_metadata_coverage_summary'', ''MUSIC_INVENTORY_METADATA_COVERAGE_CALCULATION_STALLED''),
      (''after_metadata_coverage_summary'', ''MUSIC_INVENTORY_CSV_STREAMING_STALLED''),
      (''before_csv_row_stream'', ''MUSIC_INVENTORY_CSV_STREAMING_STALLED''),
      (''csv_row_stream_checkpoint'', ''MUSIC_INVENTORY_CSV_STREAMING_STALLED''),
      (''before_csv_cell_render'', ''MUSIC_INVENTORY_CSV_STREAMING_STALLED''),
      (''after_entity_batch'', ''MUSIC_INVENTORY_CSV_STREAMING_STALLED''),
      (''after_csv_row_stream'', ''MUSIC_INVENTORY_SEMANTIC_PROFILE_BUILD_STALLED''),
      (''before_artifact_semantic_profile'', ''MUSIC_INVENTORY_SEMANTIC_PROFILE_BUILD_STALLED''),
      (''after_artifact_semantic_profile'', ''MUSIC_INVENTORY_SUFFICIENCY_EVALUATION_STALLED''),
      (''before_inventory_sufficiency'', ''MUSIC_INVENTORY_SUFFICIENCY_EVALUATION_STALLED''),
      (''after_inventory_sufficiency'', ''MUSIC_INVENTORY_ARTIFACT_PERSIST_STALLED''),
      (''before_artifact_persist'', ''MUSIC_INVENTORY_ARTIFACT_PERSIST_STALLED''),
      (''before_persist_payload_classification'', ''ARTIFACT_PERSIST_PAYLOAD_CLASSIFICATION_STALLED''),
      (''after_persist_payload_classification'', ''ARTIFACT_PERSIST_PAYLOAD_SERIALIZATION_STALLED''),
      (''before_payload_materialization'', ''ARTIFACT_PERSIST_PAYLOAD_MATERIALIZATION_STALLED''),
      (''after_payload_materialization'', ''ARTIFACT_PERSIST_PAYLOAD_SERIALIZATION_STALLED''),
      (''before_payload_serialization'', ''ARTIFACT_PERSIST_PAYLOAD_SERIALIZATION_STALLED''),
      (''payload_serialization_checkpoint'', ''ARTIFACT_PERSIST_PAYLOAD_SERIALIZATION_STALLED''),
      (''after_payload_serialization'', ''ARTIFACT_PERSIST_PAYLOAD_REF_DECISION_STALLED''),
      (''before_payload_ref_decision'', ''ARTIFACT_PERSIST_PAYLOAD_REF_DECISION_STALLED''),
      (''after_payload_ref_decision'', ''ARTIFACT_PERSIST_PAYLOAD_REF_PERSIST_STALLED''),
      (''before_payload_ref_persist'', ''ARTIFACT_PERSIST_PAYLOAD_REF_PERSIST_STALLED''),
      (''after_payload_ref_persist'', ''ARTIFACT_PERSIST_ARTIFACT_CONTENT_WRITE_STALLED''),
      (''before_artifact_content_write'', ''ARTIFACT_PERSIST_ARTIFACT_CONTENT_WRITE_STALLED''),
      (''artifact_content_write_checkpoint'', ''ARTIFACT_PERSIST_ARTIFACT_CONTENT_WRITE_STALLED''),
      (''after_artifact_content_write'', ''ARTIFACT_PERSIST_MANIFEST_BUILD_STALLED''),
      (''before_manifest_build'', ''ARTIFACT_PERSIST_MANIFEST_BUILD_STALLED''),
      (''after_manifest_build'', ''ARTIFACT_PERSIST_MANIFEST_WRITE_STALLED''),
      (''before_manifest_persist'', ''ARTIFACT_PERSIST_MANIFEST_WRITE_STALLED''),
      (''before_sharded_manifest_persist'', ''ARTIFACT_PERSIST_MANIFEST_WRITE_STALLED''),
      (''after_sharded_manifest_persist'', ''ARTIFACT_PERSIST_REGISTRY_INDEX_UPDATE_STALLED''),
      (''after_manifest_persist'', ''ARTIFACT_PERSIST_REGISTRY_INDEX_UPDATE_STALLED''),
      (''before_registry_index_update'', ''ARTIFACT_PERSIST_REGISTRY_INDEX_UPDATE_STALLED''),
      (''before_light_index_persist'', ''ARTIFACT_PERSIST_REGISTRY_INDEX_UPDATE_STALLED''),
      (''after_light_index_persist'', ''ARTIFACT_PERSIST_REGISTRY_INDEX_UPDATE_STALLED''),
      (''before_legacy_registry_projection'', ''ARTIFACT_PERSIST_LEGACY_REGISTRY_PROJECTION_STALLED''),
      (''after_legacy_registry_projection'', ''ARTIFACT_PERSIST_REGISTRY_INDEX_UPDATE_STALLED''),
      (''legacy_registry_projection_skipped'', ''ARTIFACT_PERSIST_REGISTRY_INDEX_UPDATE_STALLED''),
      (''after_registry_index_update'', ''ARTIFACT_PERSIST_COMMIT_STALLED''),
      (''before_artifact_commit'', ''ARTIFACT_PERSIST_COMMIT_STALLED''),
      (''after_artifact_commit'', ''ARTIFACT_PERSIST_COMPLETED''),
      (''artifact_persist_completed'', ''ARTIFACT_PERSIST_COMPLETED''),
      (''after_artifact_persist'', ''ARTIFACT_PERSIST_COMPLETED'')]"

definition ARTIFACT_TERMINAL_TYPES :: "str list" where
  "ARTIFACT_TERMINAL_TYPES =
     [''artifact_created'', ''artifact_partial'', ''artifact_blocked'', ''artifact_failed'', ''artifact_interrupted'',
      ''artifact_late_rejected'']"

definition has_artifact_terminal_after :: "store_env \<Rightarrow> str \<Rightarrow> task_event \<Rightarrow> task_store \<Rightarrow> bool" where
  "has_artifact_terminal_after env rid artifact st \<longleftrightarrow>
     (let logical_path = str_or_empty env (json_get ''logical_path'' (te_metadata artifact))
      in list_ex (\<lambda>e. te_sequence artifact < te_sequence e \<and> te_type e \<in> set ARTIFACT_TERMINAL_TYPES \<and>
           (json_get ''created_event_source_id'' (te_metadata e) = JStr (te_event_id artifact) \<or>
            logical_path \<noteq> [] \<and> str_or_empty env (json_get ''logical_path'' (te_metadata e)) = logical_path))
         (get_task_events rid st))"

definition artifact_creation_in_progress :: "store_env \<Rightarrow> str \<Rightarrow> task_store \<Rightarrow> task_event option" where
  "artifact_creation_in_progress env rid st =
     find (\<lambda>e. te_type e = ''artifact_creation_started'' \<and> \<not> has_artifact_terminal_after env rid e st)
       (sort_key (\<lambda>e. - te_sequence e) (get_task_events rid st))"

text \<open>\<open>_last_artifact_render_checkpoint\<close>: the last matching event of the log.\<close>

definition last_artifact_render_checkpoint :: "store_env \<Rightarrow> str \<Rightarrow> task_event \<Rightarrow> task_store \<Rightarrow> task_event option" where
  "last_artifact_render_checkpoint env rid artifact st =
     (let logical_path = str_or_empty env (json_get ''logical_path'' (te_metadata artifact));
          attempt = str_or_empty env (json_get ''artifact_attempt_id'' (te_metadata artifact))
      in find (\<lambda>e. te_sequence artifact < te_sequence e \<and> te_type e = ''artifact_render_checkpoint'' \<and>
           (attempt \<noteq> [] \<and> str_or_empty env (json_get ''artifact_attempt_id'' (te_metadata e)) = attempt \<or>
            logical_path \<noteq> [] \<and> str_or_empty env (json_get ''logical_path'' (te_metadata e)) = logical_path))
         (rev (get_task_events rid st)))"

definition artifact_stall_reason_code :: "store_env \<Rightarrow> str \<Rightarrow> task_event \<Rightarrow> str \<Rightarrow> task_store \<Rightarrow> str" where
  "artifact_stall_reason_code env rid artifact fallback st =
     (if str_or_empty env (json_get ''artifact_kind'' (te_metadata artifact)) = ''media_corpus_inventory'' \<or>
         str_or_empty env (json_get ''contract_id'' (te_metadata artifact)) = ''media_corpus_inventory_artifact''
      then
        (let stage = (case last_artifact_render_checkpoint env rid artifact st of
               None \<Rightarrow> [] | Some c \<Rightarrow> str_or_empty env (json_get ''stage'' (te_metadata c)))
         in case map_of MEDIA_INVENTORY_STAGE_STALL_REASONS stage of
              Some reason \<Rightarrow> reason
            | None \<Rightarrow> ''MUSIC_INVENTORY_ARTIFACT_STALLED_AFTER_CREATION_STARTED'')
      else fallback)"

definition event_elapsed :: "store_env \<Rightarrow> task_event \<Rightarrow> int option" where
  "event_elapsed env e = map_option (\<lambda>t. se_clock env - t) (se_parse_time env (te_timestamp e))"

definition stalled_artifact_row :: "store_env \<Rightarrow> str \<Rightarrow> str \<Rightarrow> str \<Rightarrow> str \<Rightarrow> str \<Rightarrow> int \<Rightarrow> json dict option" where
  "stalled_artifact_row env logical_path producer_step reason source created_event elapsed =
     (if logical_path = [] then None
      else Some
        [(''logical_path'', JStr logical_path), (''status'', JStr ''blocked''), (''reason_code'', JStr reason),
         (''source'', JStr source), (''producer_step'', JStr producer_step), (''created_event_source_id'', JStr created_event),
         (''semantic_contract_status'', JStr ''not_evaluated''), (''safe_to_use'', JBool False),
         (''safe_to_report_success'', JBool False), (''artifact_terminal_state_missing'', JBool True),
         (''elapsed_seconds'', se_seconds env elapsed)])"

definition has_artifact_for_logical_path :: "store_env \<Rightarrow> json dict list \<Rightarrow> str \<Rightarrow> bool" where
  "has_artifact_for_logical_path env as logical_path \<longleftrightarrow>
     logical_path \<noteq> [] \<and> list_ex (\<lambda>a. str_or_empty env (json_get ''logical_path'' a) = logical_path) as"

definition none_if_empty :: "str \<Rightarrow> json" where
  "none_if_empty s = (if s = [] then JNull else JStr s)"

text \<open>
  \<open>terminalize_if_artifact_creation_stalled\<close>, from the point where the silence is known to be too long:
  \<open>artifact\<close> is the event that started the artifact, \<open>checkpoint\<close> its last checkpoint.
\<close>

definition stall_metadata ::
    "store_env \<Rightarrow> str \<Rightarrow> str \<Rightarrow> str \<Rightarrow> str \<Rightarrow> task_event \<Rightarrow> task_event option \<Rightarrow> int \<Rightarrow> json dict" where
  "stall_metadata env source reason logical_path producer_step artifact checkpoint elapsed =
     [(''source'', JStr source), (''reason_code'', JStr reason), (''logical_path'', none_if_empty logical_path),
      (''producer_step'', JStr producer_step), (''created_event_source_id'', JStr (te_event_id artifact)),
      (''elapsed_seconds'', se_seconds env elapsed),
      (''last_checkpoint_stage'', case checkpoint of None \<Rightarrow> JNull | Some c \<Rightarrow> json_get ''stage'' (te_metadata c)),
      (''last_checkpoint_sequence'', case checkpoint of None \<Rightarrow> JNull | Some c \<Rightarrow> JInt (te_sequence c))]"

definition stalled_result ::
    "store_env \<Rightarrow> str \<Rightarrow> str \<Rightarrow> str \<Rightarrow> json dict list \<Rightarrow> json dict \<Rightarrow> nat \<Rightarrow> task_result" where
  "stalled_result env rid source reason as stall events_count =
     (let artifact_state = terminal_artifact_state env as reason;
          validation =
            [(''status'', JStr ''blocked''), (''reason_code'', JStr reason), (''safe_to_display'', JBool True),
             (''safe_to_report_success'', JBool False), (''safe_to_continue'', JBool False),
             (''blocking_findings'', jstrs [reason]), (''component'', JStr ''artifact_worker_terminalization_guard''),
             (''frontier'', JStr ''ACCEPTED_RUNNING_ARTIFACT_WORKER_TERMINALIZATION_GAP'')]
      in \<lparr>rs_run_id = rid, rs_status = ''blocked'',
          rs_summary =
            ''Artifact creation started but did not reach a terminal artifact state; the run was blocked conservatively.'',
          rs_source = Some source, rs_reason_code = Some reason, rs_finished_at = Some (se_now env),
          rs_outputs =
            [(''artifact_worker_terminalization_guard'', JObj
                (stall @ [(''artifact_terminal_state_missing'', JBool True), (''safe_to_report_success'', JBool False)])),
             (''artifact_result'', JObj
                [(''artifact_ids'', artifact_ids_of env as),
                 (''logical_paths'', jstrs (map (\<lambda>a. str_or_empty env (json_get ''logical_path'' a))
                    (filter (\<lambda>a. json_truthy (json_get ''logical_path'' a)) as))),
                 (''artifacts'', JList (map JObj as)), (''artifact_state'', JObj artifact_state)]),
             (''validation_result'', JObj validation)],
          rs_blocked_items = [reason], rs_warnings = [''artifact_creation_stall_terminalized''],
          rs_events_count = events_count, rs_trace_ref = Some (trace_ref_of rid), rs_validation = Some validation,
          rs_completion = Some \<lparr>cp_status = ''blocked'', cp_safe_to_report_success = False, cp_missing_outcomes = [reason],
            cp_warnings = [''artifact_creation_stall_terminalized''],
            cp_limitations = [''artifact_creation_started_without_terminal_artifact''],
            cp_metadata = [(''reason_code'', JStr reason), (''source'', JStr source),
              (''artifact_state'', JObj artifact_state)]\<rparr>\<rparr>)"

definition blocked_run :: "store_env \<Rightarrow> str \<Rightarrow> str \<Rightarrow> str option \<Rightarrow> run_record \<Rightarrow> run_record" where
  "blocked_run env reason warning finished r =
     r\<lparr>tr_status := ''blocked'', tr_finished_at := Some (str_or finished (se_now env)), tr_current_step_id := None,
       tr_blocked_reasons := py_unique (tr_blocked_reasons r @ [reason]),
       tr_warnings := py_unique (tr_warnings r @ [warning]), tr_revision := tr_revision r + 1\<rparr>"

definition terminalize_stalled ::
    "store_env \<Rightarrow> str \<Rightarrow> str \<Rightarrow> str \<Rightarrow> run_record \<Rightarrow> task_event \<Rightarrow> task_event option \<Rightarrow> int \<Rightarrow> task_store \<Rightarrow>
      task_result \<times> task_store" where
  "terminalize_stalled env rid given source r artifact checkpoint elapsed st =
     (let logical_path = str_or_empty env (json_get ''logical_path'' (te_metadata artifact));
          producer_step = py_str (se_render env) (json_or (json_get ''producer_step'' (te_metadata artifact))
            (JStr ''readonly_analysis_artifact_runtime''));
          reason = artifact_stall_reason_code env rid artifact given st;
          row = stalled_artifact_row env logical_path producer_step reason source (te_event_id artifact) elapsed;
          rows = artifact_rows (tr_produced_artifacts r);
          as = (case row of Some a \<Rightarrow> if has_artifact_for_logical_path env rows logical_path then rows else rows @ [a]
            | None \<Rightarrow> rows);
          stall = stall_metadata env source reason logical_path producer_step artifact checkpoint elapsed;
          st1 = append_new_event env rid ''artifact_failed'' ''blocked''
            ''Artifact creation did not produce a terminal artifact state within the governed budget.''
            (stall @ [(''safe_to_use'', JBool False)]) st;
          result = stalled_result env rid source reason as stall (length (get_task_events rid st1));
          r' = blocked_run env reason ''artifact_creation_stall_terminalized'' (tr_finished_at r)
            (r\<lparr>tr_produced_artifacts := map JObj as\<rparr>);
          st2 = save_task_result env rid result (put_run r' st1)
      in (result, append_new_event env rid ''run_blocked'' ''blocked'' (rs_summary result)
            (filter (\<lambda>(k, _). k \<noteq> ''created_event_source_id'') stall) st2))"

definition terminalize_if_artifact_creation_stalled ::
    "store_env \<Rightarrow> str \<Rightarrow> int \<Rightarrow> str \<Rightarrow> str \<Rightarrow> task_store \<Rightarrow> task_result option outcome \<times> task_store" where
  "terminalize_if_artifact_creation_stalled env rid max_silence given source st =
     (case map_of (ts_results st) rid of
        Some existing \<Rightarrow> (Inr (Some existing), st)
      | None \<Rightarrow>
          (case find_run rid st of
             None \<Rightarrow> (Inr None, st)
           | Some r \<Rightarrow>
               if tr_status r \<notin> {''created'', ''queued'', ''running''} then (Inr None, st)
               else if first_terminal_event rid st \<noteq> None then
                 (let (result, st') = ensure_terminal_result env rid (Some given) None st in (Inr result, st'))
               else (case artifact_creation_in_progress env rid st of
                 None \<Rightarrow> (Inr None, st)
               | Some artifact \<Rightarrow>
                   (let elapsed = event_elapsed env artifact;
                        checkpoint = last_artifact_render_checkpoint env rid artifact st;
                        silence = (case checkpoint of Some c \<Rightarrow> event_elapsed env c | None \<Rightarrow> elapsed)
                    in case silence of
                         None \<Rightarrow> (Inr None, st)
                       | Some s \<Rightarrow>
                           if s < max 0 max_silence then (Inr None, st)
                           else (case elapsed of
                             None \<Rightarrow> (Inl ''TypeError'', st)
                           | Some t \<Rightarrow>
                               (let (result, st') = terminalize_stalled env rid given source r artifact checkpoint t st
                                in (Inr (Some result), st')))))))"

text \<open>\<open>terminalize_if_runtime_budget_exceeded\<close>.\<close>

definition started_at :: "store_env \<Rightarrow> str \<Rightarrow> run_record \<Rightarrow> task_store \<Rightarrow> int option" where
  "started_at env rid r st =
     (let stamps = str_or (tr_started_at r) [] # map te_timestamp
            (filter (\<lambda>e. te_type e \<in> {''run_started'', ''project_analysis_started''}) (get_task_events rid st))
      in case List.map_filter (se_parse_time env) (filter (\<lambda>s. s \<noteq> []) stamps) of [] \<Rightarrow> None | t # _ \<Rightarrow> Some t)"

definition budget_result :: "store_env \<Rightarrow> str \<Rightarrow> str \<Rightarrow> int \<Rightarrow> int \<Rightarrow> task_result" where
  "budget_result env rid reason elapsed max_runtime =
     \<lparr>rs_run_id = rid, rs_status = ''blocked'',
      rs_summary = ''TaskRun reached a governed runtime budget before producing a terminal result.'',
      rs_source = None, rs_reason_code = Some reason, rs_finished_at = None,
      rs_outputs =
        [(''runtime_budget'', JObj
            [(''reason_code'', JStr reason), (''elapsed_seconds'', se_seconds env elapsed),
             (''max_runtime_seconds'', se_seconds env max_runtime), (''terminal_reason'', JStr reason),
             (''server_completed'', JBool False)])],
      rs_blocked_items = [reason], rs_warnings = [''runtime_budget_exceeded''], rs_events_count = 0, rs_trace_ref = None,
      rs_validation = Some
        [(''status'', JStr ''blocked''), (''safe_to_display'', JBool True), (''reason_code'', JStr reason),
         (''blocking_findings'', jstrs [reason])],
      rs_completion = Some \<lparr>cp_status = ''blocked'', cp_safe_to_report_success = False, cp_missing_outcomes = [reason],
        cp_warnings = [''runtime_budget_exceeded''], cp_limitations = [''task_run_runtime_budget_exceeded''],
        cp_metadata = [(''reason_code'', JStr reason), (''elapsed_seconds'', se_seconds env elapsed),
          (''max_runtime_seconds'', se_seconds env max_runtime), (''source'', JStr ''task_run_store'')]\<rparr>\<rparr>"

definition finalize_semantically ::
    "store_env \<Rightarrow> str \<Rightarrow> run_record \<Rightarrow> task_result \<Rightarrow> int \<Rightarrow> int \<Rightarrow> task_store \<Rightarrow> task_store" where
  "finalize_semantically env rid r result elapsed max_runtime st =
     (let reason = validation_reason result
            (json_get ''reason_code'' (json_dict (json_get ''terminal_result_finalization'' (rs_outputs result))));
          r' = blocked_run env (py_str (se_render env) (json_or reason (JStr ''SEMANTIC_COMPLETION_FINALIZED'')))
            ''store_repair_suppressed_due_to_semantic_artifact_state'' (rs_finished_at result) r
      in append_new_event env rid (terminal_event_type_for (rs_status result)) (rs_status result) (rs_summary result)
           [(''reason_code'', reason), (''source'', JStr ''phase_semantic_completion_policy''),
            (''store_repair_suppressed_due_to_semantic_artifact_state'', JBool True),
            (''elapsed_seconds'', se_seconds env elapsed), (''max_runtime_seconds'', se_seconds env max_runtime)]
           (save_task_result env rid result (put_run r' st)))"

definition block_over_budget :: "store_env \<Rightarrow> str \<Rightarrow> str \<Rightarrow> run_record \<Rightarrow> int \<Rightarrow> int \<Rightarrow> task_store \<Rightarrow> task_result \<times> task_store" where
  "block_over_budget env rid reason r elapsed max_runtime st =
     (let as = artifact_rows (tr_produced_artifacts r);
          artifact_state = terminal_artifact_state env as reason
      in case try_semantic_terminal_result env (r\<lparr>tr_status := ''blocked'', tr_finished_at := Some (se_now env)\<rparr>) as
             artifact_state st of
           Some result \<Rightarrow> (result, finalize_semantically env rid r result elapsed max_runtime st)
         | None \<Rightarrow>
             (let result = budget_result env rid reason elapsed max_runtime
              in (result, append_new_event env rid ''run_blocked'' ''blocked'' ''TaskRun blocked by governed runtime budget.''
                   [(''reason_code'', JStr reason), (''elapsed_seconds'', se_seconds env elapsed),
                    (''max_runtime_seconds'', se_seconds env max_runtime)]
                   (save_task_result env rid result
                     (put_run (blocked_run env reason ''runtime_budget_exceeded'' None r) st)))))"

text \<open>What the guard does for a run that has ended already: it makes sure that there is a result.\<close>

definition ensure_and_note ::
    "store_env \<Rightarrow> str \<Rightarrow> str \<Rightarrow> bool \<Rightarrow> task_store \<Rightarrow> task_result option \<times> task_store" where
  "ensure_and_note env rid reason note st =
     (let (ensured, st1) = ensure_terminal_result env rid (Some reason) None st;
          st2 = (if note then append_terminalization_ignored env rid ''blocked'' reason (first_terminal_event rid st1) st1 else st1)
      in case ensured of Some r \<Rightarrow> (Some r, st2) | None \<Rightarrow> get_result env rid st2)"

definition terminalize_if_runtime_budget_exceeded ::
    "store_env \<Rightarrow> str \<Rightarrow> int \<Rightarrow> str \<Rightarrow> bool \<Rightarrow> task_store \<Rightarrow> task_result option outcome \<times> task_store" where
  "terminalize_if_runtime_budget_exceeded env rid max_runtime reason note st =
     (if (case map_of (ts_index st) rid of Some s \<Rightarrow> s \<notin> {''running'', ''queued'', ''created''} | None \<Rightarrow> False)
      then (let (result, st') = ensure_and_note env rid reason note st in (Inr result, st'))
      else (case find_run rid st of
        None \<Rightarrow> (Inr None, st)
      | Some r \<Rightarrow>
          if first_terminal_event rid st \<noteq> None \<or> tr_status r \<notin> {''running'', ''queued'', ''created''}
          then (let (result, st') = ensure_and_note env rid reason True st in (Inr result, st'))
          else
            (case get_result env rid st of
              (Some existing, st1) \<Rightarrow> (Inr (Some existing), append_terminalization_ignored env rid ''blocked'' reason None st1)
            | (None, st1) \<Rightarrow>
                (case started_at env rid r st1 of
                   None \<Rightarrow> (Inr None, st1)
                 | Some start \<Rightarrow>
                     (let elapsed = se_clock env - start;
                         block = (\<lambda>st. let (result, st') = block_over_budget env rid reason r elapsed max_runtime st
                           in (Inr (Some result), st'))
                     in if elapsed \<le> max_runtime then (Inr None, st1)
                        else if artifact_creation_in_progress env rid st1 = None then block st1
                        else (case terminalize_if_artifact_creation_stalled env rid 0
                              ''ARTIFACT_CREATION_TIMEOUT_WITHOUT_TERMINAL_ARTIFACT'' ''artifact_worker_terminalization_guard'' st1 of
                          (Inr None, st2) \<Rightarrow> block st2
                        | outcome \<Rightarrow> outcome))))))"

section \<open>The event log\<close>

text \<open>The events of a run are numbered from one and at most one of them is terminal; the index agrees with the runs.\<close>

definition log_ok :: "task_event list \<Rightarrow> bool" where
  "log_ok es \<longleftrightarrow> map te_sequence es = map (\<lambda>i. int i + 1) [0..<length es] \<and> length (filter is_terminal_event es) \<le> 1"

definition index_ok :: "task_store \<Rightarrow> bool" where
  "index_ok st \<longleftrightarrow>
     (\<forall>rid r. find_run rid st = Some r \<longrightarrow> tr_run_id r = rid \<and> map_of (ts_index st) rid = Some (tr_status r))"

definition store_ok :: "task_store \<Rightarrow> bool" where
  "store_ok st \<longleftrightarrow> (\<forall>rid. log_ok (get_task_events rid st)) \<and> index_ok st"

text \<open>What every operation guarantees: logs only grow and the invariant is kept.\<close>

definition store_moves :: "task_store \<Rightarrow> task_store \<Rightarrow> bool" where
  "store_moves st st' \<longleftrightarrow> (\<forall>rid. prefix (get_task_events rid st) (get_task_events rid st')) \<and> (store_ok st \<longrightarrow> store_ok st')"

named_theorems store_moves \<open>operations of the store and the relation \<open>store_moves\<close>\<close>

lemma store_moves_refl [store_moves]: "store_moves st st"
  by (simp add: store_moves_def)

lemma store_moves_trans: "store_moves st1 st2 \<Longrightarrow> store_moves st2 st3 \<Longrightarrow> store_moves st1 st3"
  unfolding store_moves_def by (meson prefix_order.trans)

lemma log_ok_next: "log_ok es \<Longrightarrow> next_sequence es = int (length es) + 1"
proof -
  assume ok: "log_ok es"
  show ?thesis
  proof (cases "es = []")
    case False
    have "set (map te_sequence es) = (\<lambda>i. int i + 1) ` {0..<length es}" using ok unfolding log_ok_def by simp
    moreover have "Max ((\<lambda>i. int i + 1) ` {0..<length es}) = int (length es)"
    proof (rule Max_eqI)
      show "int (length es) \<in> (\<lambda>i. int i + 1) ` {0..<length es}"
        using False by (intro image_eqI [of _ _ "length es - 1"]) (auto simp: Suc_le_eq of_nat_diff)
    qed auto
    ultimately show ?thesis using False by (simp add: next_sequence_def)
  qed (simp add: next_sequence_def)
qed

lemma first_terminal_None: "first_terminal_event rid st = None \<longleftrightarrow> filter is_terminal_event (get_task_events rid st) = []"
  by (auto simp: first_terminal_event_def find_None_iff filter_empty_conv)

lemma first_terminal_Some: "first_terminal_event rid st = Some t \<Longrightarrow> t \<in> set (get_task_events rid st) \<and> is_terminal_event t"
  by (auto simp: first_terminal_event_def find_Some_iff) (metis length_sort nth_mem set_sort)

lemma get_task_events_update:
  "get_task_events rid' (st\<lparr>ts_events := AList.update rid es (ts_events st)\<rparr>) = (if rid' = rid then es else get_task_events rid' st)"
  by (simp add: get_task_events_def update_conv')

lemma store_event_events:
  "get_task_events rid' (snd (store_event rid e st)) =
     (if rid' = rid then get_task_events rid st @ [e\<lparr>te_sequence := next_sequence (get_task_events rid st)\<rparr>] else get_task_events rid' st)"
  by (simp add: store_event_def Let_def get_task_events_update)

lemma store_event_runs: "ts_runs (snd (store_event rid e st)) = ts_runs st" "ts_index (snd (store_event rid e st)) = ts_index st"
    "ts_results (snd (store_event rid e st)) = ts_results st"
  by (simp_all add: store_event_def Let_def)

lemma index_ok_cong: "ts_runs st' = ts_runs st \<Longrightarrow> ts_index st' = ts_index st \<Longrightarrow> index_ok st' = index_ok st"
  by (simp add: index_ok_def find_run_def)

lemma log_ok_append:
  assumes "log_ok es" and "is_terminal_event e \<Longrightarrow> filter is_terminal_event es = []"
  shows "log_ok (es @ [e\<lparr>te_sequence := next_sequence es\<rparr>])"
  using assms log_ok_next [OF assms(1)] by (auto simp: log_ok_def is_terminal_event_def)

lemma store_moves_store_event [store_moves]:
  assumes "is_terminal_event e \<Longrightarrow> first_terminal_event rid st = None"
  shows "store_moves st (snd (store_event rid e st))"
proof -
  have "index_ok (snd (store_event rid e st)) = index_ok st" by (intro index_ok_cong store_event_runs)
  then show ?thesis using assms log_ok_append [of "get_task_events rid st" e]
    by (auto simp: store_moves_def store_ok_def store_event_events first_terminal_None)
qed

lemma store_moves_same_events:
  assumes "ts_events st' = ts_events st" and "index_ok st \<Longrightarrow> index_ok st'"
  shows "store_moves st st'"
  using assms by (simp add: store_moves_def store_ok_def get_task_events_def)

lemma store_moves_put_run [store_moves]: "store_moves st (put_run r st)"
  by (rule store_moves_same_events) (auto simp: put_run_def index_ok_def find_run_def update_conv')

lemma store_moves_fresh [store_moves]: "store_moves st (snd (new_event env rid type status message md st))"
  by (rule store_moves_same_events) (auto simp: new_event_def cong: index_ok_cong)

lemma store_moves_save [store_moves]: "store_moves st (st\<lparr>ts_results := rs\<rparr>)" "store_moves st (st\<lparr>ts_traces := ts\<rparr>)"
  by (rule store_moves_same_events, simp_all cong: index_ok_cong)+

lemma first_terminal_cong: "get_task_events rid st' = get_task_events rid st \<Longrightarrow> first_terminal_event rid st' = first_terminal_event rid st"
  by (simp add: first_terminal_event_def)

lemma new_event_simps:
  assumes "new_event env rid type status message md st = (e, st1)"
  shows "te_type e = type" "te_status e = status" "get_task_events rid' st1 = get_task_events rid' st" "ts_runs st1 = ts_runs st"
    "ts_index st1 = ts_index st" "ts_results st1 = ts_results st" "store_moves st st1"
  using assms store_moves_fresh [of st env rid type status message md] by (auto simp: new_event_def get_task_events_def)

lemma store_moves_ignored [store_moves]: "store_moves st (append_terminalization_ignored env rid attempted reason term st)"
proof -
  have "store_moves st (snd (store_event rid e st1))"
    if "new_event env rid ''terminalization_already_applied'' status message md st = (e, st1)" for status message md e st1
    by (rule store_moves_trans [OF new_event_simps(7) [OF that]], rule store_moves_store_event)
      (simp add: is_terminal_event_def terminal_event_types_def new_event_simps(1) [OF that])
  then show ?thesis
    unfolding append_terminalization_ignored_def by (auto intro: store_moves_refl split: option.splits prod.splits)
qed

lemma store_moves_append_task_event [store_moves]: "store_moves st (snd (append_task_event env rid e st))"
  by (auto simp: append_task_event_def Let_def intro: store_moves_ignored store_moves_store_event split: option.splits if_splits)

lemma store_moves_create_event [store_moves]: "store_moves st (snd (create_event env allowed rid type status message md st))"
proof (cases "type \<in> set allowed")
  case True
  obtain e st1 where n: "new_event env rid type status (take 1000 message) md st = (e, st1)" by fastforce
  then have "snd (create_event env allowed rid type status message md st) = snd (append_task_event env rid e st1)"
    using True by (simp add: create_event_def split: prod.split)
  then show ?thesis using store_moves_trans [OF new_event_simps(7) [OF n] store_moves_append_task_event] by simp
qed (simp add: create_event_def store_moves_refl)

lemma store_moves_append_new [store_moves]: "store_moves st (append_new_event env rid type status message md st)"
proof -
  obtain e st1 where n: "new_event env rid type status message md st = (e, st1)" by fastforce
  then show ?thesis using store_moves_trans [OF new_event_simps(7) [OF n] store_moves_append_task_event]
    by (simp add: append_new_event_def)
qed

lemma store_moves_append_if_none [store_moves]: "store_moves st (append_if_none env rid saved md st)"
  by (simp add: append_if_none_def store_moves)

lemma store_moves_cohere [store_moves]: "store_moves st (cohere_result env rid result st)"
  by (simp add: cohere_result_def Let_def store_moves split: option.split)

lemma store_moves_save_result [store_moves]: "store_moves st (save_task_result env rid result st)"
  unfolding save_task_result_def by (rule store_moves_trans [OF store_moves_save(1) store_moves_cohere])

lemma store_moves_ensure [store_moves]: "store_moves st (snd (ensure_terminal_result env rid given summary st))"
  by (simp add: ensure_terminal_result_def Let_def store_moves_refl store_moves_trans [OF store_moves_save_result store_moves_append_if_none]
      split: option.split)

lemma store_moves_get_result [store_moves]: "store_moves st (snd (get_result env rid st))"
  by (simp add: get_result_def store_moves split: option.split)

lemma store_moves_stalled [store_moves]: "store_moves st (snd (terminalize_stalled env rid given source r artifact checkpoint t st))"
  unfolding terminalize_stalled_def Let_def snd_conv
  by (rule store_moves_trans [OF store_moves_append_new], rule store_moves_trans [OF store_moves_put_run],
      rule store_moves_trans [OF store_moves_save_result store_moves_append_new])

lemma store_moves_terminalize_stalled [store_moves]:
  "store_moves st (snd (terminalize_if_artifact_creation_stalled env rid max_silence given source st))"
  by (simp add: terminalize_if_artifact_creation_stalled_def Let_def store_moves case_prod_unfold split: option.split)

lemma store_moves_over_budget [store_moves]: "store_moves st (snd (block_over_budget env rid reason r elapsed max_runtime st))"
  unfolding block_over_budget_def finalize_semantically_def Let_def
  by (auto split: option.split intro: store_moves_trans [OF store_moves_put_run] store_moves_trans [OF store_moves_save_result store_moves_append_new])

lemma store_moves_ensure_and_note [store_moves]: "store_moves st (snd (ensure_and_note env rid reason note st))"
proof -
  obtain ensured st1 where e: "ensure_terminal_result env rid (Some reason) None st = (ensured, st1)" by fastforce
  let ?st2 = "if note then append_terminalization_ignored env rid ''blocked'' reason (first_terminal_event rid st1) st1 else st1"
  have s1: "store_moves st st1" using store_moves_ensure [of st env rid "Some reason" None] by (simp add: e)
  have s2: "store_moves st1 ?st2" by (simp add: store_moves)
  have s3: "store_moves ?st2 (snd (case ensured of Some r \<Rightarrow> (Some r, ?st2) | None \<Rightarrow> get_result env rid ?st2))"
    by (cases ensured) (simp_all add: store_moves)
  have "snd (ensure_and_note env rid reason note st) = snd (case ensured of Some r \<Rightarrow> (Some r, ?st2) | None \<Rightarrow> get_result env rid ?st2)"
    by (simp add: ensure_and_note_def e Let_def)
  then show ?thesis using store_moves_trans [OF s1 store_moves_trans [OF s2 s3]] by simp
qed

lemma store_moves_budget [store_moves]:
  "store_moves st (snd (terminalize_if_runtime_budget_exceeded env rid max_runtime reason note st))"
proof -
  obtain existing st1 where g: "get_result env rid st = (existing, st1)" by fastforce
  have s1: "store_moves st st1" using store_moves_get_result [of st env rid] by (simp add: g)
  obtain res st2 where t: "terminalize_if_artifact_creation_stalled env rid 0 ''ARTIFACT_CREATION_TIMEOUT_WITHOUT_TERMINAL_ARTIFACT''
      ''artifact_worker_terminalization_guard'' st1 = (res, st2)" by fastforce
  have s2: "store_moves st st2" using store_moves_trans [OF s1 store_moves_terminalize_stalled] t by (metis snd_conv)
  have b: "store_moves st (snd (block_over_budget env rid reason r elapsed max_runtime st'))" if "store_moves st st'" for st' r elapsed
    using that by (rule store_moves_trans) (rule store_moves_over_budget)
  have i: "store_moves st (append_terminalization_ignored env rid ''blocked'' reason None st1)"
    by (rule store_moves_trans [OF s1 store_moves_ignored])
  show ?thesis
    by (simp add: terminalize_if_runtime_budget_exceeded_def g t Let_def case_prod_unfold store_moves s1 s2 b i
        split: option.split sum.split)
qed

section \<open>Histories of the store\<close>

inductive store_step :: "task_store \<Rightarrow> task_store \<Rightarrow> bool" where
  step_update: "store_step st (put_run r st)"
| step_append: "store_step st (snd (append_task_event env rid e st))"
| step_create_event: "store_step st (snd (create_event env allowed rid type status message md st))"
| step_save_trace: "store_step st (st\<lparr>ts_traces := AList.update rid trace (ts_traces st)\<rparr>)"
| step_save_result: "store_step st (save_task_result env rid result st)"
| step_get_result: "store_step st (snd (get_result env rid st))"
| step_ensure: "store_step st (snd (ensure_terminal_result env rid given summary st))"
| step_stalled: "store_step st (snd (terminalize_if_artifact_creation_stalled env rid max_silence reason source st))"
| step_budget: "store_step st (snd (terminalize_if_runtime_budget_exceeded env rid max_runtime reason note st))"

definition empty_store :: task_store where
  "empty_store = \<lparr>ts_runs = [], ts_index = [], ts_results = [], ts_events = [], ts_traces = [], ts_fresh = 0\<rparr>"

lemma store_step_moves: "store_step st st' \<Longrightarrow> store_moves st st'"
  by (induction rule: store_step.induct) (rule store_moves)+

lemma store_steps_move: "store_step\<^sup>*\<^sup>* st st' \<Longrightarrow> store_moves st st'"
  by (induction rule: rtranclp_induct) (auto intro: store_moves_refl store_moves_trans store_step_moves)

lemma empty_store_ok: "store_ok empty_store"
  by (simp add: store_ok_def log_ok_def index_ok_def empty_store_def get_task_events_def find_run_def)

lemma log_ok_sorted: "log_ok es \<Longrightarrow> sort_key te_sequence es = es"
  by (rule sort_key_id_if_sorted) (simp add: log_ok_def sorted_iff_nth_mono)

lemma find_filter: "find P xs = (case filter P xs of [] \<Rightarrow> None | x # _ \<Rightarrow> Some x)"
  by (induction xs) auto

text \<open>In a sound log the terminal event is the only one, and stays so as the log grows.\<close>

lemma first_terminal_only:
  assumes "log_ok (get_task_events rid st)"
  shows "first_terminal_event rid st = Some t \<longleftrightarrow> filter is_terminal_event (get_task_events rid st) = [t]"
proof -
  have l: "length (filter is_terminal_event (get_task_events rid st)) \<le> 1" using assms by (simp add: log_ok_def)
  have "first_terminal_event rid st = (case filter is_terminal_event (get_task_events rid st) of [] \<Rightarrow> None | t # _ \<Rightarrow> Some t)"
    by (simp add: first_terminal_event_def log_ok_sorted [OF assms] find_filter)
  then show ?thesis using l by (auto split: list.splits)
qed

lemma store_moves_terminal:
  assumes "store_moves st st'" and "store_ok st" and "first_terminal_event rid st = Some t"
  shows "first_terminal_event rid st' = Some t"
proof -
  have ok: "log_ok (get_task_events rid st)" "log_ok (get_task_events rid st')" and p: "prefix (get_task_events rid st) (get_task_events rid st')"
    using assms(1,2) by (auto simp: store_moves_def store_ok_def)
  from p obtain zs where "get_task_events rid st' = get_task_events rid st @ zs" by (auto simp: prefix_def)
  then have "filter is_terminal_event (get_task_events rid st') = t # filter is_terminal_event zs"
    using assms(3) first_terminal_only [OF ok(1)] by simp
  moreover have "length (filter is_terminal_event (get_task_events rid st')) \<le> 1" using ok(2) by (simp add: log_ok_def)
  ultimately show ?thesis using first_terminal_only [OF ok(2)] by simp
qed

text \<open>
  C17. Over every history of store calls, starting from an empty store, the events of every run are numbered
  1, 2, 3 and so on without a gap, at most one of them is terminal, every event that was ever written stays
  where it was, and the index shows the status of every stored run.
\<close>

theorem event_log_invariant:
  assumes "store_step\<^sup>*\<^sup>* empty_store st" and "store_step\<^sup>*\<^sup>* st st'"
  shows "map te_sequence (get_task_events rid st') = map int [1..<Suc (length (get_task_events rid st'))]
    \<and> length (filter is_terminal_event (get_task_events rid st')) \<le> 1
    \<and> prefix (get_task_events rid st) (get_task_events rid st')
    \<and> (first_terminal_event rid st = Some t \<longrightarrow> first_terminal_event rid st' = Some t)
    \<and> (find_run rid st' = Some r \<longrightarrow> map_of (ts_index st') rid = Some (tr_status r))"
proof -
  have st: "store_ok st" using store_steps_move [OF assms(1)] empty_store_ok by (simp add: store_moves_def)
  note e = store_steps_move [OF assms(2)]
  have st': "store_ok st'" using e st by (simp add: store_moves_def)
  have "map int [1..<Suc n] = map (\<lambda>i. int i + 1) [0..<n]" for n
    by (induction n) auto
  then show ?thesis using st' e store_moves_terminal [OF e st]
    by (auto simp: store_moves_def store_ok_def log_ok_def index_ok_def)
qed

section \<open>Ending a run\<close>

lemma find_put_run: "find_run rid (put_run r st) = (if rid = tr_run_id r then Some r else find_run rid st)"
  by (simp add: find_run_def put_run_def update_conv')

lemma put_run_events [simp]: "get_task_events rid (put_run r st) = get_task_events rid st" "ts_results (put_run r st) = ts_results st"
  by (simp_all add: put_run_def get_task_events_def)

lemma append_new_event_keeps:
  "ts_runs (append_new_event env rid type status message md st) = ts_runs st"
  "ts_index (append_new_event env rid type status message md st) = ts_index st"
  "ts_results (append_new_event env rid type status message md st) = ts_results st"
proof -
  have i: "ts_runs (append_terminalization_ignored env rid a b t st) = ts_runs st"
      "ts_index (append_terminalization_ignored env rid a b t st) = ts_index st"
      "ts_results (append_terminalization_ignored env rid a b t st) = ts_results st" for a b t st
    by (simp_all add: append_terminalization_ignored_def store_event_def new_event_def Let_def split: option.split)
  have a: "ts_runs (snd (append_task_event env rid e st)) = ts_runs st" "ts_index (snd (append_task_event env rid e st)) = ts_index st"
      "ts_results (snd (append_task_event env rid e st)) = ts_results st" for e st
    by (simp_all add: append_task_event_def Let_def i store_event_runs split: option.split)
  obtain e st1 where n: "new_event env rid type status message md st = (e, st1)" by fastforce
  show "ts_runs (append_new_event env rid type status message md st) = ts_runs st"
    "ts_index (append_new_event env rid type status message md st) = ts_index st"
    "ts_results (append_new_event env rid type status message md st) = ts_results st"
    using new_event_simps [OF n] by (simp_all add: append_new_event_def n a)
qed

lemma find_run_cong: "ts_runs st' = ts_runs st \<Longrightarrow> find_run rid st' = find_run rid st"
  by (simp add: find_run_def)

text \<open>A terminal event reaches the log when there is none yet, whatever else is in it.\<close>

lemma append_new_terminal:
  assumes "type \<in> set terminal_event_types" and "first_terminal_event rid st = None"
  obtains e where "first_terminal_event rid (append_new_event env rid type status message md st) = Some e"
    "te_type e = type" "te_status e = status"
proof -
  obtain e st1 where n: "new_event env rid type status message md st = (e, st1)" by fastforce
  note s = new_event_simps [OF n]
  have none: "filter is_terminal_event (get_task_events rid st) = []" using assms(2) by (simp add: first_terminal_None)
  have t: "is_terminal_event e" using assms(1) s(1) by (simp add: is_terminal_event_def)
  have "first_terminal_event rid st1 = None" using none s(3) by (simp add: first_terminal_None)
  then have ev: "get_task_events rid (append_new_event env rid type status message md st) =
      get_task_events rid st @ [e\<lparr>te_sequence := next_sequence (get_task_events rid st)\<rparr>]" (is "_ = _ @ [?e]")
    by (simp add: append_new_event_def n append_task_event_def t store_event_events s(3))
  let ?st' = "append_new_event env rid type status message md st"
  have te: "is_terminal_event ?e" using t by (simp add: is_terminal_event_def)
  obtain x where x: "first_terminal_event rid ?st' = Some x"
    using te by (cases "first_terminal_event rid ?st'") (auto simp: first_terminal_None ev)
  from first_terminal_Some [OF x] have "x = ?e" using none by (auto simp: ev filter_empty_conv)
  then show thesis using that x s(1,2) by simp
qed

lemma append_new_other:
  assumes "type \<notin> set terminal_event_types"
  shows "first_terminal_event rid (append_new_event env rid type status message md st) = None \<longleftrightarrow> first_terminal_event rid st = None"
proof -
  obtain e st1 where n: "new_event env rid type status message md st = (e, st1)" by fastforce
  note s = new_event_simps [OF n]
  have "\<not> is_terminal_event e" using assms s(1) by (simp add: is_terminal_event_def)
  then show ?thesis
    by (simp add: first_terminal_None append_new_event_def n append_task_event_def store_event_events s(3) is_terminal_event_def)
qed

lemma cohere_simps [simp]:
  "ts_results (cohere_result env rid result st) = ts_results st"
  "get_task_events rid' (cohere_result env rid result st) = get_task_events rid' st"
  by (simp_all add: cohere_result_def Let_def split: option.split)

lemma save_result_simps [simp]:
  "map_of (ts_results (save_task_result env rid result st)) rid = Some result"
  "get_task_events rid' (save_task_result env rid result st) = get_task_events rid' st"
  by (simp_all add: save_task_result_def update_conv') (simp add: get_task_events_def)

text \<open>The run of a saved result.\<close>

lemma save_result_run:
  assumes "find_run rid st = Some r" and "tr_run_id r = rid" and "rs_status result \<in> set result_statuses"
  obtains r' where "find_run rid (save_task_result env rid result st) = Some r'" "tr_status r' = status_of_result result"
    "tr_current_step_id r' = None" "tr_finished_at r' \<noteq> None"
proof -
  let ?r = "cohere_run env (status_of_result result) r"
  let ?r' = "if ?r = r then r else ?r\<lparr>tr_revision := tr_revision r + 1\<rparr>"
  let ?st = "st\<lparr>ts_results := AList.update rid result (ts_results st)\<rparr>"
  have "tr_run_id ?r = rid" using assms(2) by (simp add: cohere_run_def)
  moreover have "find_run rid ?st = Some r" using assms(1) by (simp add: find_run_def)
  ultimately have f: "find_run rid (save_task_result env rid result st) = Some ?r'"
    using assms(3) by (simp add: save_task_result_def cohere_result_def Let_def find_put_run)
  have c: "tr_status ?r = status_of_result result \<and> tr_current_step_id ?r = None \<and> tr_finished_at ?r \<noteq> None"
    by (auto simp: cohere_run_def opt_truthy_def split: option.splits)
  show thesis
  proof (cases "?r = r")
    case True
    with c have "tr_status r = status_of_result result \<and> tr_current_step_id r = None \<and> tr_finished_at r \<noteq> None" by metis
    with f True show thesis by (intro that [of r]) simp_all
  next
    case False
    with f c show thesis by (intro that [of "?r\<lparr>tr_revision := tr_revision r + 1\<rparr>"]) simp_all
  qed
qed

definition reports_no_success :: "task_result \<Rightarrow> bool" where
  "reports_no_success result \<longleftrightarrow> (\<exists>c v. rs_completion result = Some c \<and> \<not> cp_safe_to_report_success c
      \<and> rs_validation result = Some v \<and> json_get ''safe_to_report_success'' v = JBool False)"

lemma repaired_no_success: "reports_no_success (repaired_result env rid status reason as state summary n)"
  by (simp add: reports_no_success_def repaired_result_def Let_def json_get_def)

lemma failed_no_success: "reports_no_success (failed_finalization env r as state n t m)"
  by (simp add: reports_no_success_def failed_finalization_def Let_def json_get_def)

lemma repaired_status: "rs_status (repaired_result env rid status reason as state summary n) = ''completed'' \<longleftrightarrow> status = ''completed''"
  by (simp add: repaired_result_def Let_def)

lemma failed_status: "rs_status (failed_finalization env r as state n t m) = ''blocked''"
  by (simp add: failed_finalization_def Let_def)

lemma run_blocked_terminal: "''run_blocked'' \<in> set terminal_event_types"
  by (simp add: terminal_event_types_def)

text \<open>
  A result that the store finalizes on its own, for a terminal run without a result, never reports success:
  its completion and its validation both say that success must not be reported, it is \<open>completed\<close> only for a
  run that was \<open>completed\<close>, it is stored, and the log of the run ends up with a terminal event.
\<close>

theorem repaired_result_never_success:
  assumes "map_of (ts_results st) rid = None" and "\<And>r as state n result. se_finalize env r as state n \<noteq> Finalized result"
    and "ensure_terminal_result env rid given summary st = (Some result, st')"
  shows "(\<exists>c v. rs_completion result = Some c \<and> \<not> cp_safe_to_report_success c
      \<and> rs_validation result = Some v \<and> json_get ''safe_to_report_success'' v = JBool False)
    \<and> (\<exists>r. find_run rid st = Some r \<and> tr_status r \<in> set terminal_statuses
      \<and> (rs_status result = ''completed'' \<longrightarrow> tr_status r = ''completed''))
    \<and> map_of (ts_results st') rid = Some result \<and> first_terminal_event rid st' \<noteq> None"
proof -
  obtain r where r: "find_run rid st = Some r" "tr_status r \<in> set terminal_statuses"
    using assms(1,3) by (auto simp: ensure_terminal_result_def split: option.splits if_splits)
  let ?reason = "terminal_reason env given rid r st"
  let ?as = "artifact_rows (tr_produced_artifacts r)"
  let ?state = "terminal_artifact_state env ?as ?reason"
  let ?status = "if tr_status r = ''expired'' then ''blocked'' else tr_status r"
  obtain md where st': "st' = append_if_none env rid result md (save_task_result env rid result st)"
    and res: "result = repaired_result env rid ?status ?reason ?as ?state summary (length (get_task_events rid st)) \<or>
      (\<exists>n t m. result = failed_finalization env r ?as ?state n t m)"
  proof (cases "try_semantic_terminal_result env r ?as ?state st")
    case None
    then show thesis using that assms(1,3) r
      by (simp add: ensure_terminal_result_def Let_def) blast
  next
    case (Some x)
    then have "\<exists>n t m. x = failed_finalization env r ?as ?state n t m"
      using assms(2) by (auto simp: try_semantic_terminal_result_def Let_def split: finalization.splits)
    then show thesis using that assms(1,3) r Some by (simp add: ensure_terminal_result_def Let_def) blast
  qed
  have "first_terminal_event rid st' \<noteq> None"
  proof (cases "first_terminal_event rid (save_task_result env rid result st) = None")
    case True
    have "terminal_event_type_for (rs_status result) \<in> set terminal_event_types"
      by (simp add: terminal_event_type_for_def terminal_event_types_def)
    then show ?thesis using append_new_terminal [OF _ True] True
      by (metis st' append_if_none_def option.distinct(1))
  next
    case False
    then show ?thesis by (auto simp: st' append_if_none_def)
  qed
  moreover have "map_of (ts_results st') rid = Some result"
    by (simp add: st' append_if_none_def append_new_event_keeps)
  moreover have "rs_status result = ''completed'' \<Longrightarrow> tr_status r = ''completed''"
    using res repaired_status [of env rid ?status] failed_status by (cases "tr_status r = ''expired''") auto
  moreover have "reports_no_success result" using res repaired_no_success failed_no_success by blast
  ultimately show ?thesis using r unfolding reports_no_success_def by blast
qed

text \<open>
  A running task whose artifact has been silent for too long is ended: the guard returns a blocked result that
  does not report success, stores it, marks the run \<open>blocked\<close> and finished with no current step, in the index
  too, and closes the log with the terminal event \<open>run_blocked\<close>.
\<close>

theorem stalled_artifact_ends_run:
  assumes "store_ok st" and "map_of (ts_results st) rid = None" and "find_run rid st = Some r"
    and "tr_status r \<in> {''created'', ''queued'', ''running''}" and "first_terminal_event rid st = None"
    and "artifact_creation_in_progress env rid st = Some artifact" and "event_elapsed env artifact = Some t"
    and "(case last_artifact_render_checkpoint env rid artifact st of Some c \<Rightarrow> event_elapsed env c
      | None \<Rightarrow> event_elapsed env artifact) = Some s" and "max 0 max_silence \<le> s"
  shows "\<exists>result st' r' e c. terminalize_if_artifact_creation_stalled env rid max_silence reason source st = (Inr (Some result), st')
    \<and> rs_status result = ''blocked'' \<and> rs_completion result = Some c \<and> \<not> cp_safe_to_report_success c
    \<and> map_of (ts_results st') rid = Some result
    \<and> find_run rid st' = Some r' \<and> tr_status r' = ''blocked'' \<and> tr_finished_at r' \<noteq> None \<and> tr_current_step_id r' = None
    \<and> map_of (ts_index st') rid = Some ''blocked''
    \<and> first_terminal_event rid st' = Some e \<and> te_type e = ''run_blocked''"
proof -
  let ?checkpoint = "last_artifact_render_checkpoint env rid artifact st"
  obtain result st' where t: "terminalize_stalled env rid reason source r artifact ?checkpoint t st = (result, st')" by fastforce
  have out: "terminalize_if_artifact_creation_stalled env rid max_silence reason source st = (Inr (Some result), st')"
    unfolding terminalize_if_artifact_creation_stalled_def Let_def
    using assms(2-9) t by (cases ?checkpoint) (simp_all add: not_less)
  have rid: "tr_run_id r = rid" using assms(1,3) by (simp add: store_ok_def index_ok_def)
  obtain st1 r1 msg md why as stall n where st': "st' = append_new_event env rid ''run_blocked'' ''blocked'' msg md (save_task_result env rid result (put_run r1 st1))"
    and result: "result = stalled_result env rid source why as stall n"
    and r1: "tr_run_id r1 = rid" and st1: "first_terminal_event rid st1 = None"
  proof -
    have "first_terminal_event rid (append_new_event env rid ''artifact_failed'' status message md st) = None" for status message md
      using append_new_other [of "''artifact_failed''"] assms(5) by (simp add: terminal_event_types_def)
    then show thesis using t that rid unfolding terminalize_stalled_def Let_def blocked_run_def by (auto simp: prod_eq_iff)
  qed
  let ?st2 = "save_task_result env rid result (put_run r1 st1)"
  have status: "rs_status result = ''blocked''" by (simp add: result stalled_result_def Let_def)
  obtain r' where r': "find_run rid ?st2 = Some r'" "tr_status r' = ''blocked''" "tr_current_step_id r' = None" "tr_finished_at r' \<noteq> None"
    using save_result_run [of rid "put_run r1 st1" r1 result env] r1 status
    by (auto simp: find_put_run result_statuses_def status_of_result_def)
  have "first_terminal_event rid ?st2 = None" using st1 by (simp add: first_terminal_None)
  then obtain e where e: "first_terminal_event rid st' = Some e" "te_type e = ''run_blocked''"
    using append_new_terminal [OF run_blocked_terminal] unfolding st' by metis
  have find': "find_run rid st' = Some r'" using r'(1) by (simp add: st' find_run_def append_new_event_keeps)
  have "store_ok st'" using assms(1) store_moves_terminalize_stalled [of st env rid max_silence reason source] out
    by (simp add: store_moves_def)
  then have "map_of (ts_index st') rid = Some ''blocked''" using find' r'(2) by (simp add: store_ok_def index_ok_def)
  moreover have "map_of (ts_results st') rid = Some result" by (simp add: st' append_new_event_keeps)
  moreover obtain c where "rs_completion result = Some c" "\<not> cp_safe_to_report_success c"
    by (simp add: result stalled_result_def Let_def)
  ultimately show ?thesis using out status r' e find' by blast
qed

text \<open>
  A run whose log has a terminal event while its status still says created, queued or running, as after a
  crash between the two writes, is not ended by either guard: both return no result and leave the run as it is.
\<close>

theorem terminal_event_strands_run:
  assumes "store_ok st" and "map_of (ts_results st) rid = None" and "find_run rid st = Some r"
    and "tr_status r \<in> {''created'', ''queued'', ''running''}" and "first_terminal_event rid st = Some e"
  shows "terminalize_if_artifact_creation_stalled env rid max_silence reason source st = (Inr None, st)
    \<and> (\<exists>st'. terminalize_if_runtime_budget_exceeded env rid max_runtime reason note st = (Inr None, st')
      \<and> find_run rid st' = Some r)"
proof -
  have live: "tr_status r \<notin> set terminal_statuses" using assms(4) by (auto simp: terminal_statuses_def)
  have idx: "map_of (ts_index st) rid = Some (tr_status r)" using assms(1,3) by (simp add: store_ok_def index_ok_def)
  have en: "ensure_terminal_result env rid given summary st = (None, st)" for given summary
    using assms(2,3) live by (simp add: ensure_terminal_result_def)
  have keep: "ts_runs (append_terminalization_ignored env rid a b t st) = ts_runs st"
      "ts_index (append_terminalization_ignored env rid a b t st) = ts_index st"
      "ts_results (append_terminalization_ignored env rid a b t st) = ts_results st" for a b t
    by (simp_all add: append_terminalization_ignored_def store_event_def new_event_def Let_def split: option.split)
  have "get_result env rid (append_terminalization_ignored env rid a b t st) =
      (None, append_terminalization_ignored env rid a b t st)" for a b t
    using assms(2) idx live by (simp add: get_result_def keep)
  then have "ensure_and_note env rid reason True st =
      (None, append_terminalization_ignored env rid ''blocked'' reason (first_terminal_event rid st) st)"
    by (simp add: ensure_and_note_def en)
  then show ?thesis using assms(2-5) idx
    by (auto simp: terminalize_if_artifact_creation_stalled_def terminalize_if_runtime_budget_exceeded_def en find_run_def keep)
qed

text \<open>
  Saving a result overwrites the status of its run, a final one included, and does not touch the log: a run that
  was cancelled, with its event \<open>run_cancelled\<close>, becomes \<open>completed\<close> when a late worker saves its result, while
  the log keeps saying that it was cancelled.
\<close>

theorem late_result_overwrites_status:
  assumes "store_ok st" and "find_run rid st = Some r" and "rs_status result \<in> set result_statuses"
  shows "\<exists>r'. find_run rid (save_task_result env rid result st) = Some r' \<and> tr_status r' = status_of_result result
    \<and> first_terminal_event rid (save_task_result env rid result st) = first_terminal_event rid st"
proof -
  have "tr_run_id r = rid" using assms(1,2) by (simp add: store_ok_def index_ok_def)
  from save_result_run [OF assms(2) this assms(3)] obtain r' where
    "find_run rid (save_task_result env rid result st) = Some r'" "tr_status r' = status_of_result result" by metis
  then show ?thesis by (simp add: first_terminal_event_def)
qed

section \<open>Examples\<close>

text \<open>
  Time stamps are written in unary; the finalizer never applies. A run that is running and has started an artifact,
  one that is cancelled with its terminal event, and one that is running although its log has one.
\<close>

definition demo_env :: store_env where
  "demo_env = \<lparr>se_now = replicate 100 CHR ''t'', se_clock = 100, se_parse_time = (\<lambda>s. Some (int (length s))),
     se_uid = (\<lambda>n. replicate n CHR ''u''), se_render = (\<lambda>_. []), se_seconds = JInt,
     se_finalize = (\<lambda>r as state n. Not_Applicable)\<rparr>"

definition demo_run :: "str \<Rightarrow> run_record" where
  "demo_run status = \<lparr>tr_run_id = ''task_run_1'', tr_session_id = None, tr_approval_id = None, tr_status = status,
     tr_current_step_id = None, tr_auto_run_requested = False, tr_cancellation_requested = False,
     tr_cancellation_reason = None, tr_revision = 1, tr_created_at = ''t'', tr_started_at = Some ''t'', tr_finished_at = None,
     tr_warnings = [], tr_blocked_reasons = [], tr_produced_artifacts = [], tr_fields = []\<rparr>"

definition demo_event :: "str \<Rightarrow> task_event" where
  "demo_event type = \<lparr>te_event_id = ''e'', te_sequence = 0, te_type = type, te_status = ''running'', te_message = [],
     te_step_id = None, te_timestamp = ''t'', te_metadata = []\<rparr>"

definition demo_store :: "str \<Rightarrow> str \<Rightarrow> task_store" where
  "demo_store status type = snd (append_task_event demo_env ''task_run_1'' (demo_event type) (put_run (demo_run status) empty_store))"

definition demo_result :: task_result where
  "demo_result = budget_result demo_env ''task_run_1'' ''late'' 0 0"

lemma demo_reachable: "store_step\<^sup>*\<^sup>* empty_store (demo_store status type)"
  unfolding demo_store_def by (meson step_append step_update rtranclp.rtrancl_into_rtrancl rtranclp.rtrancl_refl)

lemma demo_ok: "store_ok (demo_store status type)"
  using store_steps_move [OF demo_reachable] empty_store_ok by (simp add: store_moves_def)

lemma demo_log: "get_task_events ''task_run_1'' (demo_store status type) = [(demo_event type)\<lparr>te_sequence := 1\<rparr>]"
proof -
  have "get_task_events ''task_run_1'' (put_run (demo_run status) empty_store) = []"
    by (simp add: get_task_events_def empty_store_def put_run_def)
  then show ?thesis
    by (simp add: demo_store_def append_task_event_def store_event_events first_terminal_event_def next_sequence_def)
qed

lemma demo_fields:
  "map_of (ts_results (demo_store status type)) ''task_run_1'' = None"
  "find_run ''task_run_1'' (demo_store status type) = Some (demo_run status)"
  by (simp_all add: demo_store_def append_task_event_def store_event_def Let_def first_terminal_event_def get_task_events_def
      empty_store_def put_run_def find_run_def demo_run_def)

lemma demo_terminal:
  "first_terminal_event ''task_run_1'' (demo_store status type) =
     (if type \<in> set terminal_event_types then Some ((demo_event type)\<lparr>te_sequence := 1\<rparr>) else None)"
  by (simp add: first_terminal_event_def demo_log is_terminal_event_def demo_event_def)

theorem event_log_invariant_witness:
  "map te_sequence (get_task_events ''task_run_1'' (demo_store ''cancelled'' ''run_cancelled'')) = [1]
    \<and> first_terminal_event ''task_run_1'' (save_task_result demo_env ''task_run_1'' demo_result (demo_store ''cancelled'' ''run_cancelled''))
      = Some ((demo_event ''run_cancelled'')\<lparr>te_sequence := 1\<rparr>)"
proof -
  let ?st = "demo_store ''cancelled'' ''run_cancelled''"
  have s: "store_step\<^sup>*\<^sup>* ?st (save_task_result demo_env ''task_run_1'' demo_result ?st)" by (blast intro: step_save_result)
  show ?thesis
    using event_log_invariant [OF demo_reachable s, of "''task_run_1''" "(demo_event ''run_cancelled'')\<lparr>te_sequence := 1\<rparr>"]
    by (simp add: demo_log demo_terminal terminal_event_types_def)
qed

theorem repaired_result_never_success_witness:
  "\<exists>result st' c. ensure_terminal_result demo_env ''task_run_1'' None None (demo_store ''completed'' ''step_finished'') = (Some result, st')
    \<and> rs_completion result = Some c \<and> \<not> cp_safe_to_report_success c \<and> first_terminal_event ''task_run_1'' st' \<noteq> None"
proof -
  let ?st = "demo_store ''completed'' ''step_finished''"
  have "tr_status (demo_run ''completed'') \<in> set terminal_statuses" by (simp add: demo_run_def terminal_statuses_def)
  moreover have "try_semantic_terminal_result demo_env r as state st = None" for r as state st
    by (simp add: try_semantic_terminal_result_def demo_env_def)
  ultimately obtain result st' where e: "ensure_terminal_result demo_env ''task_run_1'' None None ?st = (Some result, st')"
    by (simp add: ensure_terminal_result_def demo_fields Let_def)
  have f: "se_finalize demo_env r as state n \<noteq> Finalized result" for r as state n result by (simp add: demo_env_def)
  from repaired_result_never_success [OF demo_fields(1) f e] e show ?thesis by blast
qed

theorem stalled_artifact_ends_run_witness:
  "\<exists>result st' r'. terminalize_if_artifact_creation_stalled demo_env ''task_run_1'' 60 ''R'' ''S''
      (demo_store ''running'' ''artifact_creation_started'') = (Inr (Some result), st')
    \<and> find_run ''task_run_1'' st' = Some r' \<and> tr_status r' = ''blocked''"
proof -
  let ?st = "demo_store ''running'' ''artifact_creation_started''"
  let ?a = "(demo_event ''artifact_creation_started'')\<lparr>te_sequence := 1\<rparr>"
  have "artifact_creation_in_progress demo_env ''task_run_1'' ?st = Some ?a"
    by (simp add: artifact_creation_in_progress_def has_artifact_terminal_after_def demo_log demo_event_def)
  moreover have "event_elapsed demo_env ?a = Some 99" by (simp add: event_elapsed_def demo_env_def demo_event_def)
  moreover have "last_artifact_render_checkpoint demo_env ''task_run_1'' ?a ?st = None"
    by (simp add: last_artifact_render_checkpoint_def demo_log demo_event_def)
  moreover have "first_terminal_event ''task_run_1'' ?st = None" by (simp add: demo_terminal terminal_event_types_def)
  moreover have "tr_status (demo_run ''running'') \<in> {''created'', ''queued'', ''running''}" by (simp add: demo_run_def)
  ultimately show ?thesis
    using stalled_artifact_ends_run [OF demo_ok demo_fields, of "''running''" "''artifact_creation_started''" demo_env ?a 99 99 60 "''R''" "''S''"]
    by simp blast
qed

theorem terminal_event_strands_run_witness:
  "terminalize_if_artifact_creation_stalled demo_env ''task_run_1'' 60 ''R'' ''S'' (demo_store ''running'' ''run_failed'')
    = (Inr None, demo_store ''running'' ''run_failed'')"
proof -
  have "tr_status (demo_run ''running'') \<in> {''created'', ''queued'', ''running''}" by (simp add: demo_run_def)
  moreover have "first_terminal_event ''task_run_1'' (demo_store ''running'' ''run_failed'')
      = Some ((demo_event ''run_failed'')\<lparr>te_sequence := 1\<rparr>)" by (simp add: demo_terminal terminal_event_types_def)
  ultimately show ?thesis using terminal_event_strands_run [OF demo_ok demo_fields] by blast
qed

theorem late_result_overwrites_status_witness:
  "\<exists>r'. find_run ''task_run_1'' (save_task_result demo_env ''task_run_1'' demo_result (demo_store ''cancelled'' ''run_cancelled'')) = Some r'
    \<and> tr_status r' = ''blocked''"
proof -
  have "rs_status demo_result \<in> set result_statuses" "status_of_result demo_result = ''blocked''"
    by (simp_all add: demo_result_def budget_result_def result_statuses_def status_of_result_def)
  then show ?thesis using late_result_overwrites_status [OF demo_ok demo_fields(2)] by metis
qed

end
