(* ===== verification/Task_Preview.thy ===== *)
theory Task_Preview
  imports Executable_Plan
begin

text \<open>
  Task drafts and previews (\<open>services/orchestration/task_lifecycle_service.py\<close>,
  \<open>task_preview_service.py\<close>, \<open>task_preview_store.py\<close>, \<open>task_draft_store.py\<close>): how a governed draft becomes
  a preview and what status and policy snapshot the preview carries. The stores are association lists by
  identifier in one record. \<open>digest\<close> is the SHA-256 of canonical JSON; \<open>uid i\<close> is the text of the \<open>i\<close>-th
  uuid a call draws; times are integer instants.
\<close>

section \<open>Life cycle of a draft\<close>

definition VALID_TRANSITIONS :: "str \<Rightarrow> str list" where
  "VALID_TRANSITIONS current =
     (if current = ''draft'' then
        [''preview_ready'', ''approval_required'', ''needs_clarification'', ''blocked'', ''cancelled'', ''expired'']
      else if current = ''needs_clarification'' then
        [''preview_ready'', ''approval_required'', ''blocked'', ''cancelled'', ''expired'']
      else if current = ''preview_ready'' then
        [''approval_pending'', ''cancelled'', ''expired'', ''invalidated_by_policy_change'']
      else if current = ''approval_required'' then
        [''approval_pending'', ''rejected'', ''cancelled'', ''expired'', ''invalidated_by_policy_change'']
      else if current = ''approval_pending'' then
        [''approved_for_future_execution'', ''rejected'', ''cancelled'', ''expired'', ''invalidated_by_policy_change'']
      else [])"

definition draft_can_transition :: "str \<Rightarrow> str \<Rightarrow> bool" where
  "draft_can_transition current target \<longleftrightarrow> target \<in> set (VALID_TRANSITIONS current) \<or> current = target"

definition next_for_preview :: "str \<Rightarrow> str" where
  "next_for_preview status =
     (if status = ''preview_ready'' then ''preview_ready''
      else if status = ''approval_required'' then ''approval_required''
      else if status = ''blocked'' then ''blocked''
      else if status = ''needs_clarification'' then ''needs_clarification''
      else ''invalidated_by_policy_change'')"

section \<open>Previews\<close>

record policy_snapshot =
  ps_policy_decision_id :: "str option"
  ps_policy_status :: str
  ps_allowed_actions :: "str list"
  ps_denied_actions :: "str list"
  ps_approval_required_for :: "str list"
  ps_granted_capabilities :: "str list"
  ps_denied_capabilities :: "str list"
  ps_workspace_status :: str
  ps_risk_level :: str
  ps_trace_hash :: str
  ps_config_versions :: "json dict"

record task_preview =
  pr_preview_id :: str
  pr_draft_id :: str
  pr_session_id :: "str option"
  pr_status :: str
  pr_contract_type :: str
  pr_summary :: str
  pr_requested_actions :: "str list"
  pr_allowed_actions :: "str list"
  pr_denied_actions :: "str list"
  pr_approval_required_for :: "str list"
  pr_potential_side_effects :: "str list"
  pr_operation_type :: str
  pr_runtime_profile :: "str option"
  pr_executable_plan_ref :: "str option"
  pr_expected_outcomes :: "str list"
  pr_safe_to_execute :: bool
  pr_safe_to_preview :: bool
  pr_policy_snapshot :: policy_snapshot
  pr_trace :: "json list"
  pr_warnings :: "str list"
  pr_created_at :: int
  pr_updated_at :: int

text \<open>A stored event, of a preview or of an approval.\<close>

record event =
  ev_event_id :: str
  ev_subject_id :: str
  ev_event_type :: str
  ev_created_at :: int
  ev_summary :: str
  ev_data :: "json dict"

record preview_policy =
  pp_schema_version :: json
  pp_allow_preview_for :: "str list"
  pp_side_effect_descriptions :: "str dict"

record preview_world =
  pw_drafts :: "task_draft dict"
  pw_previews :: "task_preview dict"
  pw_preview_events :: "event list dict"

section \<open>Stores\<close>

definition put_draft :: "task_draft \<Rightarrow> task_draft dict \<Rightarrow> task_draft dict" where
  "put_draft d drafts = AList.update (td_draft_id d) d drafts"

definition put_preview :: "task_preview \<Rightarrow> task_preview dict \<Rightarrow> task_preview dict" where
  "put_preview p previews = AList.update (pr_preview_id p) p previews"

definition list_events :: "str \<Rightarrow> event list dict \<Rightarrow> event list" where
  "list_events k events = (case map_of events k of None \<Rightarrow> [] | Some es \<Rightarrow> es)"

definition add_event :: "event \<Rightarrow> event list dict \<Rightarrow> event list dict" where
  "add_event e events = AList.update (ev_subject_id e) (list_events (ev_subject_id e) events @ [e]) events"

interpretation draft_store: keyed_store td_draft_id map_of put_draft
  by unfold_locales (simp add: put_draft_def update_conv')

interpretation preview_store: keyed_store pr_preview_id map_of put_preview
  by unfold_locales (simp add: put_preview_def update_conv')

definition save_draft :: "task_draft \<Rightarrow> 'a preview_world_scheme \<Rightarrow> 'a preview_world_scheme" where
  "save_draft d w = w\<lparr>pw_drafts := put_draft d (pw_drafts w)\<rparr>"

definition save_preview :: "task_preview \<Rightarrow> 'a preview_world_scheme \<Rightarrow> 'a preview_world_scheme" where
  "save_preview p w = w\<lparr>pw_previews := put_preview p (pw_previews w)\<rparr>"

definition preview_append_event ::
  "str \<Rightarrow> int \<Rightarrow> str \<Rightarrow> str \<Rightarrow> str \<Rightarrow> 'a preview_world_scheme \<Rightarrow> 'a preview_world_scheme" where
  "preview_append_event u now pid type summary w =
     w\<lparr>pw_preview_events := add_event
         \<lparr>ev_event_id = ''preview_event_'' @ u, ev_subject_id = pid, ev_event_type = type,
          ev_created_at = now, ev_summary = summary, ev_data = []\<rparr> (pw_preview_events w)\<rparr>"

section \<open>Building a preview\<close>

definition preview_status :: "preview_policy \<Rightarrow> task_draft \<Rightarrow> str" where
  "preview_status pp d =
     (if td_status d = ''blocked'' \<or> td_workspace_status d = ''protected'' then ''blocked''
      else if td_status d = ''needs_clarification'' \<or> td_workspace_status d \<in> {''missing'', ''candidate''}
        then ''needs_clarification''
      else if list_ex (\<lambda>a. a \<in> set (td_denied_actions d)) (td_requested_actions d) then
        if td_approval_required_for d \<noteq> [] then ''approval_required'' else ''blocked''
      else if td_approval_required_for d \<noteq> [] then ''approval_required''
      else if td_contract_type d \<notin> set (pp_allow_preview_for pp) then ''invalid''
      else ''preview_ready'')"

text \<open>
  \<open>list(x or [])\<close> validated as a list of strings: a list of strings is taken as it is, iterating a string
  gives its characters and a dictionary its keys; anything else is refused.
\<close>

definition as_str :: "json \<Rightarrow> str outcome" where
  "as_str v = (case v of JStr s \<Rightarrow> Inr s | _ \<Rightarrow> Inl ''validation_error'')"

definition str_list :: "json \<Rightarrow> str list outcome" where
  "str_list v =
     (if \<not> json_truthy v then Inr []
      else case v of
        JList xs \<Rightarrow> ofold (\<lambda>x acc. obind (as_str x) (\<lambda>s. Inr (acc @ [s]))) xs []
      | JStr s \<Rightarrow> Inr (map (\<lambda>c. [c]) s)
      | JObj kvs \<Rightarrow> Inr (map fst kvs)
      | _ \<Rightarrow> Inl ''validation_error'')"

definition policy_snapshot_of ::
  "(json \<Rightarrow> str) \<Rightarrow> (json \<Rightarrow> str) \<Rightarrow> preview_policy \<Rightarrow> task_draft \<Rightarrow> policy_snapshot outcome" where
  "policy_snapshot_of render digest pp d =
     (let policy = td_policy_decision d in
      obind (str_list (json_get_or ''allowed_actions'' (jstrs (td_allowed_actions d)) policy)) (\<lambda>allowed.
      obind (str_list (json_get_or ''denied_actions'' (jstrs (td_denied_actions d)) policy)) (\<lambda>denied.
      obind (str_list (json_get_or ''approval_required_for'' (jstrs (td_approval_required_for d)) policy)) (\<lambda>required.
      obind (str_list (json_get ''granted_capabilities'' policy)) (\<lambda>granted.
      obind (str_list (json_get ''denied_capabilities'' policy)) (\<lambda>denied_caps.
        Inr \<lparr>ps_policy_decision_id = Some (py_str render (json_or
               (json_get_or ''decision_id'' (json_get_or ''policy_decision_id'' (JStr []) policy) policy) (JStr []))),
             ps_policy_status = py_str render (json_get_or ''status'' (JStr ''unknown'') policy),
             ps_allowed_actions = allowed, ps_denied_actions = denied, ps_approval_required_for = required,
             ps_granted_capabilities = granted, ps_denied_capabilities = denied_caps,
             ps_workspace_status = td_workspace_status d,
             ps_risk_level = py_str render (json_get_or ''risk'' (JStr ''unknown'') (td_intent_map d)),
             ps_trace_hash = digest (JList (td_trace d)),
             ps_config_versions = [(''preview_policy_schema_version'', pp_schema_version pp)]\<rparr>))))))"

definition side_effects_of :: "preview_policy \<Rightarrow> task_draft \<Rightarrow> str list" where
  "side_effects_of pp d =
     List.map_filter (\<lambda>a. map_option (\<lambda>t. a @ '': '' @ t) (map_of (pp_side_effect_descriptions pp) a))
       (td_requested_actions d)"

definition preview_summary :: "task_draft \<Rightarrow> str \<Rightarrow> str" where
  "preview_summary d status =
     ''Preview '' @ status @ '' para contrato '' @ td_contract_type d @
     ''. Nenhuma execucao sera realizada nesta sprint.''"

definition build_preview ::
  "(json \<Rightarrow> str) \<Rightarrow> (str \<Rightarrow> bool) \<Rightarrow> (json \<Rightarrow> str) \<Rightarrow> preview_policy \<Rightarrow> int \<Rightarrow> str \<Rightarrow> task_draft \<Rightarrow> task_preview outcome" where
  "build_preview render is_dir digest pp now pid d =
     obind (policy_snapshot_of render digest pp d) (\<lambda>snapshot.
       let status = preview_status pp d;
           plan = validate_draft render is_dir (Some d);
           warnings = (if status = ''approval_required'' \<and> \<not> pv_valid plan
                       then py_unique (td_warnings d @ [''missing_executable_plan'', pv_reason_code plan])
                       else td_warnings d)
       in Inr \<lparr>pr_preview_id = pid, pr_draft_id = td_draft_id d, pr_session_id = td_session_id d,
               pr_status = status, pr_contract_type = td_contract_type d,
               pr_summary = preview_summary d status, pr_requested_actions = td_requested_actions d,
               pr_allowed_actions = td_allowed_actions d, pr_denied_actions = td_denied_actions d,
               pr_approval_required_for = td_approval_required_for d,
               pr_potential_side_effects = side_effects_of pp d, pr_operation_type = td_operation_type d,
               pr_runtime_profile = td_runtime_profile d,
               pr_executable_plan_ref = (if opt_truthy (pv_executable_plan_ref plan)
                                         then pv_executable_plan_ref plan else td_executable_plan_ref d),
               pr_expected_outcomes = expected_outcomes_for (Some d), pr_safe_to_execute = False,
               pr_safe_to_preview = (status \<in> {''preview_ready'', ''approval_required''}),
               pr_policy_snapshot = snapshot, pr_trace = td_trace d, pr_warnings = warnings,
               pr_created_at = now, pr_updated_at = now\<rparr>)"

section \<open>Operations\<close>

definition update_draft_for_preview ::
  "int \<Rightarrow> task_draft \<Rightarrow> task_preview \<Rightarrow> 'a preview_world_scheme \<Rightarrow> 'a preview_world_scheme" where
  "update_draft_for_preview now d p w =
     (let target = next_for_preview (pr_status p)
      in if draft_can_transition (td_status d) target
         then save_draft (d\<lparr>td_status := target, td_updated_at := now\<rparr>) w else w)"

definition create_preview_from_draft ::
  "(json \<Rightarrow> str) \<Rightarrow> (str \<Rightarrow> bool) \<Rightarrow> (json \<Rightarrow> str) \<Rightarrow> preview_policy \<Rightarrow> (nat \<Rightarrow> str) \<Rightarrow> int \<Rightarrow> str \<Rightarrow>
     'a preview_world_scheme \<Rightarrow> (task_preview option \<times> 'a preview_world_scheme) outcome" where
  "create_preview_from_draft render is_dir digest pp uid now did w =
     (case map_of (pw_drafts w) did of
        None \<Rightarrow> Inr (None, w)
      | Some d \<Rightarrow>
          obind (build_preview render is_dir digest pp now (''preview_'' @ uid 0) d) (\<lambda>p.
            Inr (Some p, update_draft_for_preview now d p
              (preview_append_event (uid 1) now (pr_preview_id p) ''preview_created''
                (''Preview criado com status '' @ pr_status p @ ''.'') (save_preview p w)))))"

definition preview_refresh_policy ::
  "(json \<Rightarrow> str) \<Rightarrow> (str \<Rightarrow> bool) \<Rightarrow> (json \<Rightarrow> str) \<Rightarrow> preview_policy \<Rightarrow> (nat \<Rightarrow> str) \<Rightarrow> int \<Rightarrow> str \<Rightarrow>
     'a preview_world_scheme \<Rightarrow> (task_preview option \<times> 'a preview_world_scheme) outcome" where
  "preview_refresh_policy render is_dir digest pp uid now pid w =
     (case map_of (pw_previews w) pid of
        None \<Rightarrow> Inr (None, w)
      | Some p \<Rightarrow>
          (case map_of (pw_drafts w) (pr_draft_id p) of
             None \<Rightarrow>
               let p' = p\<lparr>pr_status := ''invalid'', pr_updated_at := now,
                          pr_warnings := py_unique (pr_warnings p @ [''draft_missing_on_refresh''])\<rparr>
               in Inr (Some p', preview_append_event (uid 0) now (pr_preview_id p') ''preview_invalidated''
                    ''Preview invalidado porque o draft nao existe.'' (save_preview p' w))
           | Some d \<Rightarrow>
               obind (build_preview render is_dir digest pp now (str_or (Some (pr_preview_id p)) (''preview_'' @ uid 1)) d) (\<lambda>p'.
                 Inr (Some p', preview_append_event (uid 0) now (pr_preview_id p') ''policy_refreshed''
                   ''Policy snapshot do preview foi recalculado.'' (save_preview p' w)))))"

section \<open>Properties\<close>

interpretation draft_life: status_lifecycle "\<lambda>a b. b \<in> set (VALID_TRANSITIONS a)" "\<lambda>a. VALID_TRANSITIONS a = []"
  by unfold_locales simp

lemma build_preview_Inr:
  assumes "build_preview render is_dir digest pp now pid d = Inr p"
  shows "pr_status p = preview_status pp d" "pr_draft_id p = td_draft_id d" "pr_preview_id p = pid"
    "pr_approval_required_for p = td_approval_required_for d" "pr_denied_actions p = td_denied_actions d"
    "pr_requested_actions p = td_requested_actions d"
    "\<not> pr_safe_to_execute p" "pr_safe_to_preview p \<longleftrightarrow> preview_status pp d \<in> {''preview_ready'', ''approval_required''}"
    "policy_snapshot_of render digest pp d = Inr (pr_policy_snapshot p)"
  using assms by (auto simp: build_preview_def obind_eq_Inr_iff Let_def)

lemma preview_ready_iff:
  "preview_status pp d = ''preview_ready'' \<longleftrightarrow>
     td_status d \<notin> {''blocked'', ''needs_clarification''} \<and> td_workspace_status d \<notin> {''protected'', ''missing'', ''candidate''} \<and>
     (\<forall>a\<in>set (td_requested_actions d). a \<notin> set (td_denied_actions d)) \<and> td_approval_required_for d = [] \<and>
     td_contract_type d \<in> set (pp_allow_preview_for pp)"
  by (auto simp: preview_status_def list_ex_iff)

lemma preview_approval_iff:
  "preview_status pp d = ''approval_required'' \<longleftrightarrow>
     td_status d \<notin> {''blocked'', ''needs_clarification''} \<and> td_workspace_status d \<notin> {''protected'', ''missing'', ''candidate''} \<and>
     td_approval_required_for d \<noteq> []"
  by (auto simp: preview_status_def)

text \<open>
  A preview never grants execution; it is shown as ready exactly when the draft is in order, none of
  its requested actions is denied and none needs approval, and it asks for approval exactly when the draft
  is in order and some action needs one.
\<close>

theorem preview_status_exact:
  assumes "build_preview render is_dir digest pp now pid d = Inr p"
  shows "\<not> pr_safe_to_execute p \<and>
    (pr_status p = ''preview_ready'' \<longleftrightarrow>
       td_status d \<notin> {''blocked'', ''needs_clarification''} \<and>
       td_workspace_status d \<notin> {''protected'', ''missing'', ''candidate''} \<and>
       set (td_requested_actions d) \<inter> set (td_denied_actions d) = {} \<and> td_approval_required_for d = [] \<and>
       td_contract_type d \<in> set (pp_allow_preview_for pp)) \<and>
    (pr_status p = ''approval_required'' \<longleftrightarrow>
       td_status d \<notin> {''blocked'', ''needs_clarification''} \<and>
       td_workspace_status d \<notin> {''protected'', ''missing'', ''candidate''} \<and> td_approval_required_for d \<noteq> [])"
proof -
  note b = build_preview_Inr [OF assms]
  show ?thesis unfolding b(1) preview_ready_iff preview_approval_iff using b(7) by blast
qed

text \<open>The draft store is keyed by the drafts' own identifiers.\<close>

definition drafts_keyed :: "'a preview_world_scheme \<Rightarrow> bool" where
  "drafts_keyed w \<longleftrightarrow> (\<forall>k d. map_of (pw_drafts w) k = Some d \<longrightarrow> td_draft_id d = k)"

text \<open>
  Creating a preview moves the status of its draft only along the draft life cycle, so a draft in a
  final status keeps it; no other draft changes.
\<close>

theorem preview_respects_draft_life:
  assumes "create_preview_from_draft render is_dir digest pp uid now did w = Inr (r, w')"
    and "drafts_keyed w" and "map_of (pw_drafts w) k = Some d"
  shows "\<exists>d'. map_of (pw_drafts w') k = Some d' \<and> draft_life.path (td_status d) (td_status d') \<and>
    (VALID_TRANSITIONS (td_status d) = [] \<longrightarrow> td_status d' = td_status d) \<and> (k \<noteq> did \<longrightarrow> d' = d)"
proof (cases "map_of (pw_drafts w) did")
  case None
  with assms show ?thesis by (auto simp: create_preview_from_draft_def intro: draft_life.path_refl)
next
  case (Some e)
  with assms(1) obtain p where w': "w' = update_draft_for_preview now e p
      (preview_append_event (uid 1) now (pr_preview_id p) ''preview_created''
        (''Preview criado com status '' @ pr_status p @ ''.'') (save_preview p w))"
    by (auto simp: create_preview_from_draft_def obind_eq_Inr_iff)
  let ?t = "next_for_preview (pr_status p)"
  show ?thesis
  proof (cases "draft_can_transition (td_status e) ?t \<and> k = td_draft_id e")
    case False
    then have "map_of (pw_drafts w') k = Some d"
      using assms(3) by (auto simp: w' update_draft_for_preview_def Let_def preview_append_event_def
          save_preview_def save_draft_def draft_store.lookup_save)
    then show ?thesis by (auto intro: draft_life.path_refl)
  next
    case True
    then have "map_of (pw_drafts w') k = Some (e\<lparr>td_status := ?t, td_updated_at := now\<rparr>)"
      by (auto simp: w' update_draft_for_preview_def Let_def preview_append_event_def
          save_preview_def save_draft_def draft_store.lookup_save)
    moreover have "draft_life.path (td_status e) ?t"
      using True unfolding draft_can_transition_def
      by (auto intro: draft_life.path_refl draft_life.path_step)
    moreover from True assms(2,3) Some have same: "k = did" "d = e" by (auto simp: drafts_keyed_def)
    ultimately show ?thesis
      using True same draft_life.path_from_final [of "td_status e" ?t] by auto
  qed
qed

section \<open>A worked example\<close>

text \<open>A draft that creates one file, and its preview.\<close>

definition example_draft :: task_draft where
  "example_draft =
     \<lparr>td_draft_id = ''d1'', td_session_id = None, td_status = ''approval_required'',
      td_intent_map = [(''context_ref'', JStr ''c1''), (''validation_plan'', JStr ''run tests''),
        (''rollback_plan'', JStr ''delete the file''), (''target_path'', JStr ''/w/a.txt''),
        (''requested_operation'', JStr ''create_file'')],
      td_policy_decision = [], td_contract_type = ''filesystem_write'', td_operation_type = ''create_file'',
      td_runtime_profile = Some ''write_file'', td_workspace_path = Some ''/w'', td_workspace_status = ''confirmed'',
      td_requested_actions = [''create_file''], td_allowed_actions = [], td_denied_actions = [],
      td_approval_required_for = [''create_file''], td_executable_plan_ref = None,
      td_expected_outcomes = [''file''], td_safe_to_execute = False, td_warnings = [], td_trace = [], td_updated_at = 0\<rparr>"

definition example_preview_policy :: preview_policy where
  "example_preview_policy =
     \<lparr>pp_schema_version = JInt 1, pp_allow_preview_for = [''filesystem_write''], pp_side_effect_descriptions = []\<rparr>"

definition no_text :: "json \<Rightarrow> str" where "no_text j = []"

definition some_hash :: "json \<Rightarrow> str" where "some_hash j = ''h''"

definition no_dir :: "str \<Rightarrow> bool" where "no_dir p = False"

definition example_preview :: task_preview where
  "example_preview = projr (build_preview no_text no_dir some_hash example_preview_policy 0 ''p1'' example_draft)"

lemma example_built:
  "build_preview no_text no_dir some_hash example_preview_policy 0 ''p1'' example_draft = Inr example_preview"
  by code_simp

theorem example_preview_witness: "\<not> pr_safe_to_execute example_preview \<and> pr_status example_preview = ''approval_required''"
  using preview_status_exact [OF example_built] by (simp add: example_draft_def)

theorem example_draft_life_witness:
  "\<exists>p w'. create_preview_from_draft no_text no_dir some_hash example_preview_policy (\<lambda>_. ''1'') 0 ''d1''
       \<lparr>pw_drafts = [(''d1'', example_draft)], pw_previews = [], pw_preview_events = []\<rparr> = Inr (p, w') \<and>
     (\<exists>d'. map_of (pw_drafts w') ''d1'' = Some d' \<and> draft_life.path ''approval_required'' (td_status d'))"
proof -
  let ?w = "\<lparr>pw_drafts = [(''d1'', example_draft)], pw_previews = [], pw_preview_events = []\<rparr>"
  obtain p where "build_preview no_text no_dir some_hash example_preview_policy 0 ''preview_1'' example_draft = Inr p"
    by (cases "build_preview no_text no_dir some_hash example_preview_policy 0 ''p1'' example_draft")
      (use example_built in \<open>auto simp: build_preview_def obind_eq_Inr_iff Let_def\<close>)
  then obtain w' where c: "create_preview_from_draft no_text no_dir some_hash example_preview_policy (\<lambda>_. ''1'') 0 ''d1'' ?w = Inr (Some p, w')"
    by (simp add: create_preview_from_draft_def)
  have "drafts_keyed ?w" by (simp add: drafts_keyed_def example_draft_def)
  from preview_respects_draft_life [OF c this, of "''d1''" example_draft] c show ?thesis
    by (auto simp: example_draft_def)
qed

end
