(* ===== verification/Approvals.thy ===== *)
theory Approvals
  imports Task_Preview
begin

text \<open>
  Approvals (\<open>services/approvals/approval_lifecycle_service.py\<close>, \<open>approval_policy.py\<close>, \<open>approval_store.py\<close>,
  \<open>approval_service.py\<close>, and the part of \<open>services/artifacts/artifact_approval_bridge.py\<close> a decision calls):
  requests for approval of a previewed task, their decisions and events, and what a decision does to the
  draft. An operation takes the world (the stores) and returns an outcome and the new world: some
  operations write before they raise. A time that is not an ISO date is \<open>None\<close>.
\<close>

section \<open>Life cycle\<close>

definition TERMINAL :: "str list" where
  "TERMINAL = [''approved'', ''rejected'', ''cancelled'', ''expired'', ''invalidated_by_policy_change'']"

definition VALID :: "str \<Rightarrow> str list" where
  "VALID current =
     (if current = ''pending'' then [''approved'', ''rejected'', ''cancelled'', ''expired'', ''invalidated_by_policy_change'']
      else [])"

definition can_transition :: "str \<Rightarrow> str \<Rightarrow> bool" where
  "can_transition current target \<longleftrightarrow> target \<in> set (VALID current)"

definition ensure_pending :: "str \<Rightarrow> bool \<times> str" where
  "ensure_pending status = (if status \<noteq> ''pending'' then (False, ''approval_not_pending'') else (True, ''ok''))"

definition is_expired :: "int \<Rightarrow> int option \<Rightarrow> bool" where
  "is_expired now expires_at = (case expires_at of None \<Rightarrow> True | Some t \<Rightarrow> t \<le> now)"

section \<open>Policy\<close>

text \<open>What the methods of \<open>ApprovalPolicy\<close> read from the configuration.\<close>

record approval_policy =
  al_ttl_minutes :: int
  al_approvable_actions :: "str list"
  al_safe_batch_excluded_actions :: "str list"
  al_require_policy_snapshot :: bool

fun can_request_loop :: "approval_policy \<Rightarrow> str list \<Rightarrow> str list \<Rightarrow> str list \<Rightarrow> bool \<times> str" where
  "can_request_loop pol required denied [] = (True, ''ok'')"
| "can_request_loop pol required denied (a # as) =
     (if a \<notin> set (al_approvable_actions pol) then (False, ''unknown_action'')
      else if a \<in> set denied \<and> a \<notin> set required then (False, ''policy_denied_action'')
      else if a \<notin> set required then (False, ''action_not_marked_as_approval_required'')
      else can_request_loop pol required denied as)"

definition can_request_actions :: "approval_policy \<Rightarrow> str list \<Rightarrow> str list \<Rightarrow> str list \<Rightarrow> bool \<times> str" where
  "can_request_actions pol actions required denied =
     (if actions = [] then (False, ''no_actions_requested'') else can_request_loop pol required denied actions)"

section \<open>Data\<close>

record actor =
  ac_type :: str
  ac_id :: str

record approval_request =
  aq_approval_id :: str
  aq_preview_id :: str
  aq_draft_id :: str
  aq_run_id :: "str option"
  aq_task_id :: "str option"
  aq_session_id :: "str option"
  aq_agent_id :: str
  aq_workspace_id :: "str option"
  aq_workspace_path :: "str option"
  aq_operation_type :: str
  aq_contract_type :: str
  aq_runtime_profile :: "str option"
  aq_target_paths :: "str list"
  aq_commands :: "str list"
  aq_expected_outcomes :: "str list"
  aq_executable_plan_ref :: "str option"
  aq_execution_id :: "str option"
  aq_execution_plan_snapshot :: "json dict"
  aq_preview_hash :: "str option"
  aq_policy_snapshot_hash :: "str option"
  aq_resume_status :: "str option"
  aq_block_reason_code :: "str option"
  aq_preview :: "json dict"
  aq_policy_refs :: "str list"
  aq_allowed_by_policy :: bool
  aq_forbidden_operations :: "str list"
  aq_status :: str
  aq_actions_requested :: "str list"
  aq_approval_scope :: str
  aq_reason :: str
  aq_risk_level :: str
  aq_policy_snapshot :: policy_snapshot
  aq_expires_at :: "int option"
  aq_created_at :: int
  aq_updated_at :: int
  aq_created_by :: actor
  aq_approval_origin :: "json option"
  aq_approval_signature :: "json option"
  aq_approval_authority :: str
  aq_trace :: "json list"
  aq_execution_status :: str

datatype decision_value = Approved | Rejected | Cancelled

primrec decision_name :: "decision_value \<Rightarrow> str" where
  "decision_name Approved = ''approved''"
| "decision_name Rejected = ''rejected''"
| "decision_name Cancelled = ''cancelled''"

record approval_decision =
  ad_approval_id :: str
  ad_decision :: decision_value
  ad_actor :: actor
  ad_reason :: str
  ad_scope :: str
  ad_decided_at :: int
  ad_policy_snapshot_hash :: str
  ad_approval_origin :: "json option"
  ad_approval_signature :: "json option"
  ad_approval_authority :: str
  ad_trace :: "json list"
  ad_execution_status :: str

text \<open>The part of an artifact preview that a decision updates.\<close>

record artifact_preview =
  rt_preview_id :: str
  rt_status :: str
  rt_approval_id :: "str option"
  rt_approval_status :: "str option"
  rt_updated_at :: int

record approval_world = preview_world +
  aw_approvals :: "approval_request dict"
  aw_events :: "event list dict"
  aw_artifacts :: "artifact_preview dict"

section \<open>Hashes\<close>

definition snapshot_json :: "policy_snapshot \<Rightarrow> json" where
  "snapshot_json s = JObj
     [(''policy_decision_id'', jopt (ps_policy_decision_id s)), (''policy_status'', JStr (ps_policy_status s)),
      (''allowed_actions'', jstrs (ps_allowed_actions s)), (''denied_actions'', jstrs (ps_denied_actions s)),
      (''approval_required_for'', jstrs (ps_approval_required_for s)),
      (''granted_capabilities'', jstrs (ps_granted_capabilities s)),
      (''denied_capabilities'', jstrs (ps_denied_capabilities s)),
      (''workspace_status'', JStr (ps_workspace_status s)), (''risk_level'', JStr (ps_risk_level s)),
      (''trace_hash'', JStr (ps_trace_hash s)), (''config_versions'', JObj (ps_config_versions s))]"

definition preview_json :: "task_preview \<Rightarrow> json" where
  "preview_json p = JObj
     [(''preview_id'', JStr (pr_preview_id p)), (''draft_id'', JStr (pr_draft_id p)),
      (''session_id'', jopt (pr_session_id p)), (''status'', JStr (pr_status p)),
      (''contract_type'', JStr (pr_contract_type p)), (''summary'', JStr (pr_summary p)),
      (''requested_actions'', jstrs (pr_requested_actions p)), (''allowed_actions'', jstrs (pr_allowed_actions p)),
      (''denied_actions'', jstrs (pr_denied_actions p)),
      (''approval_required_for'', jstrs (pr_approval_required_for p)),
      (''potential_side_effects'', jstrs (pr_potential_side_effects p)),
      (''operation_type'', JStr (pr_operation_type p)), (''runtime_profile'', jopt (pr_runtime_profile p)),
      (''executable_plan_ref'', jopt (pr_executable_plan_ref p)),
      (''expected_outcomes'', jstrs (pr_expected_outcomes p)),
      (''safe_to_execute'', JBool (pr_safe_to_execute p)), (''safe_to_preview'', JBool (pr_safe_to_preview p)),
      (''policy_snapshot'', snapshot_json (pr_policy_snapshot p)), (''trace'', JList (pr_trace p)),
      (''warnings'', jstrs (pr_warnings p)), (''created_at'', JInt (pr_created_at p)),
      (''updated_at'', JInt (pr_updated_at p))]"

definition trace_item :: "str \<Rightarrow> str \<Rightarrow> str \<Rightarrow> str \<Rightarrow> json" where
  "trace_item stage decision reason source = JObj
     [(''stage'', JStr stage), (''decision'', JStr decision), (''reason'', JStr reason), (''source'', JStr source)]"

section \<open>Store\<close>

definition put_approval :: "approval_request \<Rightarrow> approval_request dict \<Rightarrow> approval_request dict" where
  "put_approval a store = AList.update (aq_approval_id a) a store"

definition save_approval :: "approval_request \<Rightarrow> approval_world \<Rightarrow> approval_world" where
  "save_approval a w = w\<lparr>aw_approvals := put_approval a (aw_approvals w)\<rparr>"

text \<open>\<open>ApprovalStore.list\<close>: newest first; equal times keep the order of the files.\<close>

definition approval_list :: "str option \<Rightarrow> str option \<Rightarrow> int \<Rightarrow> approval_world \<Rightarrow> approval_request list" where
  "approval_list status session limit w =
     take (nat limit)
       (sort_key (\<lambda>a. - aq_updated_at a)
         (filter (\<lambda>a. (status = None \<or> Some (aq_status a) = status) \<and> (session = None \<or> aq_session_id a = session))
           (map snd (aw_approvals w))))"

definition append_event :: "str \<Rightarrow> int \<Rightarrow> str \<Rightarrow> str \<Rightarrow> str \<Rightarrow> json dict \<Rightarrow> approval_world \<Rightarrow> approval_world" where
  "append_event u now aid type summary data w =
     w\<lparr>aw_events := add_event
         \<lparr>ev_event_id = ''approval_event_'' @ u, ev_subject_id = aid, ev_event_type = type,
          ev_created_at = now, ev_summary = summary, ev_data = data\<rparr> (aw_events w)\<rparr>"

definition update_draft_status :: "int \<Rightarrow> str \<Rightarrow> str \<Rightarrow> approval_world \<Rightarrow> approval_world" where
  "update_draft_status now did status w =
     (case map_of (pw_drafts w) did of
        None \<Rightarrow> w
      | Some d \<Rightarrow> save_draft (d\<lparr>td_status := status, td_updated_at := now, td_safe_to_execute := False\<rparr>) w)"

section \<open>Reading\<close>

definition expire_approval :: "str \<Rightarrow> int \<Rightarrow> approval_request \<Rightarrow> approval_world \<Rightarrow> approval_request \<times> approval_world" where
  "expire_approval u now a w =
     (let a' = a\<lparr>aq_status := ''expired'', aq_updated_at := now\<rparr>
      in (a', append_event u now (aq_approval_id a') ''approval_expired''
            ''Approval expirou antes da decisao.'' [] (save_approval a' w)))"

definition reconcile_expiration ::
  "str \<Rightarrow> int \<Rightarrow> approval_request \<Rightarrow> approval_world \<Rightarrow> approval_request \<times> approval_world" where
  "reconcile_expiration u now a w =
     (if aq_status a \<noteq> ''pending'' \<or> \<not> is_expired now (aq_expires_at a) then (a, w) else expire_approval u now a w)"

definition get_approval ::
  "str \<Rightarrow> int \<Rightarrow> str \<Rightarrow> approval_world \<Rightarrow> approval_request option \<times> approval_world" where
  "get_approval u now aid w =
     (case map_of (aw_approvals w) aid of
        None \<Rightarrow> (None, w)
      | Some a \<Rightarrow> let (a', w') = reconcile_expiration u now a w in (Some a', w'))"

fun reconcile_all ::
  "(nat \<Rightarrow> str) \<Rightarrow> int \<Rightarrow> approval_request list \<Rightarrow> approval_world \<Rightarrow> approval_request list \<times> approval_world" where
  "reconcile_all uid now [] w = ([], w)"
| "reconcile_all uid now (a # as) w =
     (let (a', w1) = reconcile_expiration (uid 0) now a w;
          (as', w2) = reconcile_all (\<lambda>i. uid (Suc i)) now as w1
      in (a' # as', w2))"

definition list_approvals ::
  "(nat \<Rightarrow> str) \<Rightarrow> int \<Rightarrow> str option \<Rightarrow> str option \<Rightarrow> int \<Rightarrow> approval_world \<Rightarrow> approval_request list \<times> approval_world" where
  "list_approvals uid now status session limit w =
     (let (as, w') = reconcile_all uid now (approval_list None session limit w) w
      in (take (nat limit) (filter (\<lambda>a. status = None \<or> Some (aq_status a) = status) as), w'))"

definition list_for_task ::
  "(nat \<Rightarrow> str) \<Rightarrow> int \<Rightarrow> str \<Rightarrow> str option \<Rightarrow> int \<Rightarrow> approval_world \<Rightarrow> approval_request list \<times> approval_world" where
  "list_for_task uid now task status limit w =
     (let (as, w') = list_approvals uid now status None 1000 w
      in (take (nat (max 1 (min limit 500)))
            (filter (\<lambda>a. aq_run_id a = Some task \<or> aq_task_id a = Some task) as), w'))"

section \<open>Creation\<close>

definition jobj_or_empty :: "str \<Rightarrow> json dict \<Rightarrow> json dict" where
  "jobj_or_empty k d = json_dict (json_get k d)"

definition plan_snapshot :: "str \<Rightarrow> plan_validation \<Rightarrow> json dict \<Rightarrow> json dict" where
  "plan_snapshot ref plan intent =
     [(''execution_id'', JStr ref),
      (''source'', JStr (if jobj_or_empty ''executable_patch_plan'' intent \<noteq> []
                         then ''canonical_executable_plan_service'' else ''legacy_executable_plan_service'')),
      (''valid'', JBool (pv_valid plan)), (''reason_code'', JStr (pv_reason_code plan)),
      (''plan_kind'', jopt (pv_plan_kind plan)),
      (''execution_intent'', JObj (jobj_or_empty ''execution_intent'' intent)),
      (''executable_patch_plan'', JObj (jobj_or_empty ''executable_patch_plan'' intent)),
      (''execution_preview'', JObj (jobj_or_empty ''execution_preview'' intent))]"

definition new_approval ::
  "(json \<Rightarrow> str) \<Rightarrow> (json \<Rightarrow> str) \<Rightarrow> approval_policy \<Rightarrow> str \<Rightarrow> int \<Rightarrow> task_preview \<Rightarrow> task_draft option \<Rightarrow>
     plan_validation \<Rightarrow> str list \<Rightarrow> actor option \<Rightarrow> str \<Rightarrow> approval_request" where
  "new_approval render digest pol u now p draft plan requested who reason =
     (let ref = (case pv_executable_plan_ref plan of Some r \<Rightarrow> r | None \<Rightarrow> ''None'');
          outcomes = expected_outcomes_for draft;
          intent = (case draft of None \<Rightarrow> [] | Some d \<Rightarrow> td_intent_map d);
          snap = pr_policy_snapshot p
      in \<lparr>aq_approval_id = ''approval_'' @ u, aq_preview_id = pr_preview_id p, aq_draft_id = pr_draft_id p,
          aq_run_id = None, aq_task_id = None, aq_session_id = pr_session_id p, aq_agent_id = ''aipinho'',
          aq_workspace_id = None,
          aq_workspace_path = (case draft of None \<Rightarrow> None | Some d \<Rightarrow> td_workspace_path d),
          aq_operation_type = (case draft of None \<Rightarrow> pr_contract_type p | Some d \<Rightarrow> td_operation_type d),
          aq_contract_type = (case draft of None \<Rightarrow> pr_contract_type p | Some d \<Rightarrow> td_contract_type d),
          aq_runtime_profile = (case draft of None \<Rightarrow> pr_runtime_profile p | Some d \<Rightarrow> td_runtime_profile d),
          aq_target_paths = real_target_paths render draft, aq_commands = [], aq_expected_outcomes = outcomes,
          aq_executable_plan_ref = Some ref, aq_execution_id = Some ref,
          aq_execution_plan_snapshot = plan_snapshot ref plan intent,
          aq_preview_hash = Some (digest (preview_json p)),
          aq_policy_snapshot_hash = Some (digest (snapshot_json snap)),
          aq_resume_status = None, aq_block_reason_code = None,
          aq_preview =
            [(''available'', JBool True), (''summary'', JStr (pr_summary p)), (''diff_ref'', JNull),
             (''content_preview_ref'', JStr (pr_preview_id p)), (''executable_plan_ref'', JStr ref),
             (''execution_id'', JStr ref), (''expected_outcomes'', jstrs outcomes)],
          aq_policy_refs = (if opt_truthy (ps_policy_decision_id snap) then [str_or (ps_policy_decision_id snap) []] else []),
          aq_allowed_by_policy = True, aq_forbidden_operations = pr_denied_actions p, aq_status = ''pending'',
          aq_actions_requested = requested, aq_approval_scope = ''future_execution'', aq_reason = reason,
          aq_risk_level = ps_risk_level snap, aq_policy_snapshot = snap,
          aq_expires_at = Some (now + 60000000 * al_ttl_minutes pol), aq_created_at = now, aq_updated_at = now,
          aq_created_by = (case who of Some a \<Rightarrow> a | None \<Rightarrow> \<lparr>ac_type = ''system'', ac_id = ''approval_service''\<rparr>),
          aq_approval_origin = None, aq_approval_signature = None, aq_approval_authority = ''AIpinho'',
          aq_trace = [trace_item ''approval_create'' ''pending'' ''approval_created_without_execution''
                        ''services/approvals/approval_service.py''],
          aq_execution_status = ''not_executed''\<rparr>)"

definition created_data :: "approval_request \<Rightarrow> json dict" where
  "created_data a =
     [(''preview_id'', JStr (aq_preview_id a)), (''workspace_path'', jopt (aq_workspace_path a)),
      (''operation_type'', JStr (aq_operation_type a)), (''target_paths'', jstrs (aq_target_paths a)),
      (''executable_plan_ref'', jopt (aq_executable_plan_ref a)),
      (''expected_outcomes'', jstrs (aq_expected_outcomes a)),
      (''actions_requested'', jstrs (aq_actions_requested a)), (''risk_level'', JStr (aq_risk_level a))]"

definition preview_data :: "approval_request \<Rightarrow> json dict" where
  "preview_data a =
     [(''preview_id'', JStr (aq_preview_id a)), (''run_id'', jopt (aq_run_id a)), (''task_id'', jopt (aq_task_id a)),
      (''operation_type'', JStr (aq_operation_type a)), (''target_paths'', jstrs (aq_target_paths a)),
      (''executable_plan_ref'', jopt (aq_executable_plan_ref a)),
      (''expected_outcomes'', jstrs (aq_expected_outcomes a)), (''source_paths'', JList []),
      (''commands'', jstrs (aq_commands a)), (''risk_level'', JStr (aq_risk_level a)),
      (''status'', JStr (aq_status a)), (''policy_refs'', jstrs (aq_policy_refs a)),
      (''evidence_refs'', JList [JObj [(''type'', JStr ''preview''), (''ref_id'', JStr (aq_preview_id a))]])]"

text \<open>The checks before a draft is looked at; the result is the preview and the actions requested.\<close>

definition approval_request_guard ::
  "approval_policy \<Rightarrow> str \<Rightarrow> str list option \<Rightarrow> approval_world \<Rightarrow> (task_preview \<times> str list) outcome" where
  "approval_request_guard pol pid actions w =
     (case map_of (pw_previews w) pid of
        None \<Rightarrow> Inl ''preview_not_found''
      | Some p \<Rightarrow>
          if pr_status p \<noteq> ''approval_required'' then Inl ''preview_does_not_require_approval''
          else if ps_workspace_status (pr_policy_snapshot p) = ''protected'' \<or> pr_status p = ''blocked''
            then Inl ''forbidden_root_or_blocked_preview''
          else
            let requested = (case actions of Some as \<Rightarrow> (if as = [] then pr_approval_required_for p else as)
                                           | None \<Rightarrow> pr_approval_required_for p);
                (ok, code) = can_request_actions pol requested (pr_approval_required_for p) (pr_denied_actions p)
            in if \<not> ok then Inl code
               else if al_require_policy_snapshot pol \<and> ps_trace_hash (pr_policy_snapshot p) = []
                 then Inl ''missing_policy_snapshot''
               else Inr (p, requested))"

definition create_approval_for_preview ::
  "(json \<Rightarrow> str) \<Rightarrow> (str \<Rightarrow> bool) \<Rightarrow> (json \<Rightarrow> str) \<Rightarrow> approval_policy \<Rightarrow> (nat \<Rightarrow> str) \<Rightarrow> int \<Rightarrow> str \<Rightarrow> str list option \<Rightarrow>
     actor option \<Rightarrow> str \<Rightarrow> approval_world \<Rightarrow> approval_request outcome \<times> approval_world" where
  "create_approval_for_preview render is_dir digest pol uid now pid actions who reason w =
     (case approval_request_guard pol pid actions w of
        Inl e \<Rightarrow> (Inl e, w)
      | Inr (p, requested) \<Rightarrow>
          let draft = map_of (pw_drafts w) (pr_draft_id p);
              plan = validate_draft render is_dir draft
          in if \<not> pv_valid plan then
               (Inl (if pv_reason_code plan = [] then ''missing_executable_plan'' else pv_reason_code plan),
                append_event (uid 1) now (''approval_blocked_'' @ uid 0) ''approval_not_created_no_executable_plan''
                  ''ApprovalRequest nao foi criado porque o preview nao contem plano executavel.''
                  [(''preview_id'', JStr (pr_preview_id p)), (''draft_id'', JStr (pr_draft_id p)),
                   (''reason_code'', JStr (pv_reason_code plan))] w)
             else
               let a = new_approval render digest pol (uid 0) now p draft plan requested who reason;
                   w1 = save_approval a w;
                   w2 = append_event (uid 1) now (aq_approval_id a) ''approval_created''
                          ''ApprovalRequest criado; nenhuma execucao realizada.'' (created_data a) w1;
                   w3 = append_event (uid 2) now (aq_approval_id a) ''approval_preview_created''
                          ''Preview associado ao ApprovalRequest; side effects continuam pausados.'' (preview_data a) w2
               in (Inr a, update_draft_status now (aq_draft_id a) ''approval_pending'' w3))"

section \<open>Runtime context\<close>

definition setdefault :: "str \<Rightarrow> json \<Rightarrow> json dict \<Rightarrow> json dict" where
  "setdefault k v d = (if map_of d k = None then d @ [(k, v)] else d)"

definition bind_plan :: "(json \<Rightarrow> str) \<Rightarrow> json dict \<Rightarrow> approval_request \<Rightarrow> approval_request" where
  "bind_plan render plan a =
     (let eid = py_str render (first_truthy plan [''execution_id''])
      in if eid = [] then a
         else a\<lparr>aq_execution_id := Some eid,
                aq_executable_plan_ref := Some (str_or (aq_executable_plan_ref a) eid),
                aq_execution_plan_snapshot := plan,
                aq_preview := setdefault ''execution_plan_ref'' (JStr eid)
                                (setdefault ''execution_id'' (JStr eid) (aq_preview a))\<rparr>)"

definition with_runtime_context ::
  "(json \<Rightarrow> str) \<Rightarrow> int \<Rightarrow> str \<Rightarrow> str option \<Rightarrow> str option \<Rightarrow> json dict \<Rightarrow> approval_request \<Rightarrow> approval_request" where
  "with_runtime_context render now run task path plan a =
     (let a1 = a\<lparr>aq_run_id := Some run, aq_task_id := (if opt_truthy task then task else aq_task_id a),
                 aq_workspace_path := (if opt_truthy path \<and> \<not> opt_truthy (aq_workspace_path a) then path
                                       else aq_workspace_path a)\<rparr>
      in (bind_plan render plan a1)\<lparr>aq_updated_at := now\<rparr>)"

definition attach_runtime_context ::
  "(json \<Rightarrow> str) \<Rightarrow> (nat \<Rightarrow> str) \<Rightarrow> int \<Rightarrow> str \<Rightarrow> str \<Rightarrow> str option \<Rightarrow> str option \<Rightarrow> json dict \<Rightarrow> approval_world \<Rightarrow>
     approval_request option \<times> approval_world" where
  "attach_runtime_context render uid now aid run task path plan w =
     (let (got, w1) = get_approval (uid 0) now aid w
      in case got of
           None \<Rightarrow> (None, w1)
         | Some a \<Rightarrow>
             let a' = with_runtime_context render now run task path plan a
             in (Some a', append_event (uid 1) now (aq_approval_id a') ''approval_runtime_context_attached''
                   ''Approval vinculado a uma TaskRun resumivel.''
                   [(''run_id'', JStr run), (''task_id'', jopt (aq_task_id a')),
                    (''workspace_path'', jopt (aq_workspace_path a')), (''execution_id'', jopt (aq_execution_id a'))]
                   (save_approval a' w1)))"

section \<open>Decisions\<close>

text \<open>\<open>ArtifactApprovalBridge.record_approval_decision\<close>.\<close>

definition artifact_id_ok :: "str \<Rightarrow> bool" where
  "artifact_id_ok pid \<longleftrightarrow>
     prefix ''artifact_preview_'' pid \<and> length pid > 17 \<and>
     list_all (\<lambda>c. c \<in> set ''abcdef0123456789'') (drop 17 pid)"

definition artifact_status_for :: "str \<Rightarrow> str" where
  "artifact_status_for status =
     (if status = ''approved'' then ''approved_for_future_write''
      else if status \<in> {''rejected'', ''cancelled'', ''expired''} then status
      else if status = ''pending'' then ''approval_pending''
      else ''invalidated'')"

definition record_approval_decision :: "int \<Rightarrow> approval_request \<Rightarrow> approval_world \<Rightarrow> approval_world outcome" where
  "record_approval_decision now a w =
     (if aq_approval_scope a \<noteq> ''future_artifact_write'' then Inr w
      else if \<not> artifact_id_ok (aq_preview_id a) then Inl ''invalid_artifact_preview_id''
      else case map_of (aw_artifacts w) (aq_preview_id a) of
        None \<Rightarrow> Inr w
      | Some p \<Rightarrow>
          let p' = p\<lparr>rt_status := artifact_status_for (aq_status a), rt_approval_id := Some (aq_approval_id a),
                     rt_approval_status := Some (aq_status a), rt_updated_at := now\<rparr>
          in Inr (w\<lparr>aw_artifacts := AList.update (rt_preview_id p') p' (aw_artifacts w)\<rparr>))"

definition decision_event :: "decision_value \<Rightarrow> str" where
  "decision_event v = (case v of Approved \<Rightarrow> ''approval_approved'' | Rejected \<Rightarrow> ''approval_rejected'' | Cancelled \<Rightarrow> ''approval_cancelled'')"

definition draft_target :: "decision_value \<Rightarrow> str" where
  "draft_target v = (case v of Approved \<Rightarrow> ''approved_for_future_execution'' | Rejected \<Rightarrow> ''rejected'' | Cancelled \<Rightarrow> ''cancelled'')"

record decision_input =
  di_actor :: "actor option"
  di_reason :: str
  di_scope :: str
  di_origin :: "json option"
  di_signature :: "json option"

definition decided_approval :: "int \<Rightarrow> decision_value \<Rightarrow> decision_input \<Rightarrow> approval_request \<Rightarrow> approval_request" where
  "decided_approval now v i a =
     a\<lparr>aq_status := decision_name v, aq_updated_at := now, aq_execution_status := ''not_executed'',
       aq_approval_origin := di_origin i, aq_approval_signature := di_signature i, aq_approval_authority := ''AIpinho''\<rparr>"

definition decision_record ::
  "(json \<Rightarrow> str) \<Rightarrow> decision_value \<Rightarrow> decision_input \<Rightarrow> approval_request \<Rightarrow> approval_decision" where
  "decision_record digest v i a =
     \<lparr>ad_approval_id = aq_approval_id a, ad_decision = v,
      ad_actor = (case di_actor i of Some x \<Rightarrow> x | None \<Rightarrow> \<lparr>ac_type = ''user'', ac_id = ''local_user''\<rparr>),
      ad_reason = di_reason i, ad_scope = di_scope i, ad_decided_at = aq_updated_at a,
      ad_policy_snapshot_hash = digest (snapshot_json (aq_policy_snapshot a)),
      ad_approval_origin = di_origin i, ad_approval_signature = di_signature i, ad_approval_authority = ''AIpinho'',
      ad_trace = [trace_item ''approval_decision'' (decision_name v) ''decision_recorded_without_execution''
                    ''services/approvals/approval_service.py''],
      ad_execution_status = ''not_executed''\<rparr>"

definition decision_data :: "decision_input \<Rightarrow> approval_request \<Rightarrow> json dict" where
  "decision_data i a =
     [(''scope'', JStr (di_scope i)), (''run_id'', jopt (aq_run_id a)), (''task_id'', jopt (aq_task_id a)),
      (''approval_origin'', case di_origin i of None \<Rightarrow> JNull | Some j \<Rightarrow> j),
      (''approval_signature'', case di_signature i of None \<Rightarrow> JNull | Some j \<Rightarrow> j),
      (''approval_authority'', JStr ''AIpinho'')]"

definition record_decision ::
  "(nat \<Rightarrow> str) \<Rightarrow> int \<Rightarrow> decision_value \<Rightarrow> decision_input \<Rightarrow> approval_request \<Rightarrow> approval_world \<Rightarrow> approval_world" where
  "record_decision uid now v i a w =
     (let w1 = append_event (uid 0) now (aq_approval_id a) (decision_event v)
                 (''Approval '' @ decision_name v @
                  ''; execucao sera retomada apenas pelo runtime governado quando aplicavel.'')
                 (decision_data i a) (save_approval a w);
          w2 = (if aq_approval_scope a = ''future_artifact_write'' then
                  case record_approval_decision now a w1 of
                    Inr w' \<Rightarrow> w'
                  | Inl _ \<Rightarrow> append_event (uid 1) now (aq_approval_id a) ''artifact_preview_sync_failed''
                      ''Artifact preview sync failed; approval still did not execute a write.'' [] w1
                else w1)
      in update_draft_status now (aq_draft_id a) (draft_target v) w2)"

text \<open>\<open>_decide\<close> reads the clock when it fetches the approval (\<open>t1\<close>) and again before it decides (\<open>t2\<close>).\<close>

definition decide ::
  "(json \<Rightarrow> str) \<Rightarrow> (nat \<Rightarrow> str) \<Rightarrow> int \<Rightarrow> int \<Rightarrow> str \<Rightarrow> decision_value \<Rightarrow> decision_input \<Rightarrow> approval_world \<Rightarrow>
     (approval_decision \<times> approval_request) outcome \<times> approval_world" where
  "decide digest uid t1 t2 aid v i w =
     (let (got, w1) = get_approval (uid 0) t1 aid w
      in case got of
           None \<Rightarrow> (Inl ''approval_not_found'', w1)
         | Some a \<Rightarrow>
             let (ok, code) = ensure_pending (aq_status a)
             in if \<not> ok then (Inl code, w1)
                else if is_expired t2 (aq_expires_at a) then (Inl ''approval_expired'', snd (expire_approval (uid 0) t2 a w1))
                else if \<not> can_transition (aq_status a) (decision_name v) then (Inl ''invalid_approval_transition'', w1)
                else let a' = decided_approval t2 v i a
                     in (Inr (decision_record digest v i a', a'), record_decision uid t2 v i a' w1))"

definition approve where "approve digest uid t1 t2 aid i = decide digest uid t1 t2 aid Approved i"

definition reject where "reject digest uid t1 t2 aid i = decide digest uid t1 t2 aid Rejected i"

definition cancel where
  "cancel digest uid t1 t2 aid i = decide digest uid t1 t2 aid Cancelled (i\<lparr>di_origin := None, di_signature := None\<rparr>)"

section \<open>Batches\<close>

definition DEFAULT_EXCLUDED :: "str list" where
  "DEFAULT_EXCLUDED =
     [''delete_file'', ''delete_files'', ''move_file'', ''move_files'', ''git_commit'', ''git_push'',
      ''destructive_shell'', ''network_shell'', ''process_control_shell'', ''run_command'']"

definition safe_batch_allowed :: "approval_policy \<Rightarrow> approval_request \<Rightarrow> bool" where
  "safe_batch_allowed pol a =
     (let excluded = (if al_safe_batch_excluded_actions pol = [] then DEFAULT_EXCLUDED else al_safe_batch_excluded_actions pol);
          actions = aq_actions_requested a
      in if actions = [] then False
         else if list_ex (\<lambda>x. x \<in> set excluded) actions then False
         else if list_ex (\<lambda>x. x \<in> set (ps_denied_actions (aq_policy_snapshot a))) actions then False
         else aq_status a = ''pending'' \<and> aq_allowed_by_policy a)"

definition safe_batch_for_task ::
  "approval_policy \<Rightarrow> (nat \<Rightarrow> str) \<Rightarrow> int \<Rightarrow> str \<Rightarrow> approval_world \<Rightarrow> approval_request list \<times> approval_world" where
  "safe_batch_for_task pol uid now task w =
     (let (as, w') = list_for_task uid now task (Some ''pending'') 500 w in (filter (safe_batch_allowed pol) as, w'))"

fun get_all ::
  "(nat \<Rightarrow> str) \<Rightarrow> int \<Rightarrow> str list \<Rightarrow> approval_world \<Rightarrow> approval_request option list \<times> approval_world" where
  "get_all uid now [] w = ([], w)"
| "get_all uid now (k # ks) w =
     (let (a, w1) = get_approval (uid 0) now k w;
          (as, w2) = get_all (\<lambda>i. uid (Suc i)) now ks w1
      in (a # as, w2))"

fun decide_all ::
  "(json \<Rightarrow> str) \<Rightarrow> (nat \<Rightarrow> str) \<Rightarrow> (nat \<Rightarrow> int) \<Rightarrow> decision_value \<Rightarrow> decision_input \<Rightarrow> approval_request list \<Rightarrow> approval_world \<Rightarrow>
     (approval_decision \<times> approval_request) list outcome \<times> approval_world" where
  "decide_all digest uid clk v i [] w = (Inr [], w)"
| "decide_all digest uid clk v i (a # as) w =
     (case decide digest uid (clk 0) (clk 1) (aq_approval_id a) v i w of
        (Inl e, w1) \<Rightarrow> (Inl e, w1)
      | (Inr r, w1) \<Rightarrow>
          (case decide_all digest (\<lambda>n. uid (n + 2)) (\<lambda>n. clk (n + 2)) v i as w1 of
             (Inl e, w2) \<Rightarrow> (Inl e, w2)
           | (Inr rs, w2) \<Rightarrow> (Inr (r # rs), w2)))"

definition batch_data :: "str \<Rightarrow> bool \<Rightarrow> approval_request \<Rightarrow> json dict" where
  "batch_data scope safe_only a =
     [(''scope'', JStr scope), (''safe_only'', JBool safe_only), (''run_id'', jopt (aq_run_id a)),
      (''task_id'', jopt (aq_task_id a)), (''operation_type'', JStr (aq_operation_type a)),
      (''target_paths'', jstrs (aq_target_paths a)), (''source_paths'', JList []),
      (''commands'', jstrs (aq_commands a)), (''risk_level'', JStr (aq_risk_level a)),
      (''status'', JStr (aq_status a)), (''policy_refs'', jstrs (aq_policy_refs a)),
      (''evidence_refs'', JList [JObj [(''type'', JStr ''approval''), (''ref_id'', JStr (aq_approval_id a))]])]"

fun batch_events ::
  "(nat \<Rightarrow> str) \<Rightarrow> int \<Rightarrow> str \<Rightarrow> str \<Rightarrow> bool \<Rightarrow> approval_request list \<Rightarrow> approval_world \<Rightarrow> approval_world" where
  "batch_events uid now type scope safe_only [] w = w"
| "batch_events uid now type scope safe_only (a # as) w =
     batch_events (\<lambda>n. uid (Suc n)) now type scope safe_only as
       (append_event (uid 0) now (aq_approval_id a) type ''Decisao em lote registrada para approval governado.''
         (batch_data scope safe_only a) w)"

text \<open>The checks of a batch on the fetched approvals.\<close>

definition batch_reason :: "approval_policy \<Rightarrow> bool \<Rightarrow> approval_request list \<Rightarrow> str option" where
  "batch_reason pol safe_only real =
     (let task_ids = map (\<lambda>a. if opt_truthy (aq_task_id a) then str_or (aq_task_id a) [] else str_or (aq_run_id a) []) real;
          workspaces = map (\<lambda>a. if opt_truthy (aq_workspace_path a) then str_or (aq_workspace_path a) []
                                else str_or (aq_workspace_id a) []) real
      in if length (py_unique (filter (\<lambda>x. x \<noteq> []) task_ids)) > 1 then Some ''batch_cross_task_not_allowed''
         else if length (py_unique (filter (\<lambda>x. x \<noteq> []) workspaces)) > 1 then Some ''batch_cross_workspace_not_allowed''
         else if safe_only \<and> list_ex (\<lambda>a. \<not> safe_batch_allowed pol a) real then Some ''batch_contains_non_safe_action''
         else None)"

text \<open>The three phases read clocks and draw uuids of their own: reading (0), deciding (1), the batch events (2).\<close>

definition decide_batch ::
  "(json \<Rightarrow> str) \<Rightarrow> approval_policy \<Rightarrow> (nat \<Rightarrow> nat \<Rightarrow> str) \<Rightarrow> (nat \<Rightarrow> nat \<Rightarrow> int) \<Rightarrow> str list \<Rightarrow> decision_value \<Rightarrow> actor option \<Rightarrow>
     str \<Rightarrow> str \<Rightarrow> bool \<Rightarrow> approval_world \<Rightarrow> (approval_decision \<times> approval_request) list outcome \<times> approval_world" where
  "decide_batch digest pol uid clk ids v who reason scope safe_only w =
     (let unique_ids = filter (\<lambda>x. x \<noteq> []) (py_unique (map py_strip ids))
      in if unique_ids = [] then (Inl ''no_approvals_selected'', w)
         else
           let (approvals, w1) = get_all (uid 0) (clk 0 0) unique_ids w;
               real = List.map_filter id approvals
           in if list_ex (\<lambda>a. a = None) approvals then (Inl ''approval_not_found'', w1)
              else case batch_reason pol safe_only real of
                Some e \<Rightarrow> (Inl e, w1)
              | None \<Rightarrow>
                  (case decide_all digest (uid 1) (clk 1) v
                     \<lparr>di_actor = who, di_reason = reason, di_scope = scope, di_origin = None, di_signature = None\<rparr> real w1 of
                     (Inl e, w2) \<Rightarrow> (Inl e, w2)
                   | (Inr rs, w2) \<Rightarrow>
                       (Inr rs, batch_events (uid 2) (clk 2 0)
                          (if v = Approved then ''approval_batch_approved'' else ''approval_batch_denied'')
                          scope safe_only (map snd rs) w2)))"

definition approve_batch where
  "approve_batch digest pol uid clk ids who reason safe_only =
     decide_batch digest pol uid clk ids Approved who reason (if safe_only then ''safe_batch'' else ''selected_actions'') safe_only"

definition reject_batch where
  "reject_batch digest pol uid clk ids who reason safe_only =
     decide_batch digest pol uid clk ids Rejected who reason (if safe_only then ''safe_batch'' else ''selected_actions'') safe_only"

section \<open>Policy refresh\<close>

definition invalidate_approval :: "str \<Rightarrow> int \<Rightarrow> approval_request \<Rightarrow> approval_world \<Rightarrow> approval_request \<times> approval_world" where
  "invalidate_approval u now a w =
     (let a' = a\<lparr>aq_status := ''invalidated_by_policy_change'', aq_updated_at := now\<rparr>
      in (a', update_draft_status now (aq_draft_id a') ''invalidated_by_policy_change''
            (append_event u now (aq_approval_id a') ''approval_invalidated''
              ''Approval invalidado por mudanca de policy snapshot.'' [] (save_approval a' w))))"

definition refresh_policy ::
  "(json \<Rightarrow> str) \<Rightarrow> (str \<Rightarrow> bool) \<Rightarrow> (json \<Rightarrow> str) \<Rightarrow> preview_policy \<Rightarrow> (nat \<Rightarrow> str) \<Rightarrow> int \<Rightarrow> str \<Rightarrow> approval_world \<Rightarrow>
     approval_request option outcome \<times> approval_world" where
  "refresh_policy render is_dir digest pp uid now aid w =
     (let (got, w1) = get_approval (uid 0) now aid w
      in case got of
           None \<Rightarrow> (Inr None, w1)
         | Some a \<Rightarrow>
             (case preview_refresh_policy render is_dir digest pp (\<lambda>n. uid (n + 1)) now (aq_preview_id a) w1 of
                Inl e \<Rightarrow> (Inl e, w1)
              | Inr (p, w2) \<Rightarrow>
                  let changed = (case p of None \<Rightarrow> True
                                 | Some q \<Rightarrow> digest (snapshot_json (pr_policy_snapshot q)) \<noteq> digest (snapshot_json (aq_policy_snapshot a)))
                  in if changed then
                       if aq_status a = ''pending''
                       then let (a', w3) = invalidate_approval (uid 3) now a w2 in (Inr (Some a'), w3)
                       else (Inr (Some a), w2)
                     else (Inr (Some a), append_event (uid 3) now (aq_approval_id a) ''policy_refreshed''
                             ''Policy refresh sem mudanca relevante.'' [] w2)))"

section \<open>Stores and life cycle\<close>

interpretation approval_store: keyed_store aq_approval_id map_of put_approval
  by unfold_locales (simp add: put_approval_def update_conv')

definition terminal :: "str \<Rightarrow> bool" where
  "terminal status \<longleftrightarrow> status \<in> set TERMINAL"

interpretation approval_life: status_lifecycle can_transition terminal
  by unfold_locales (auto simp: can_transition_def VALID_def terminal_def TERMINAL_def)

named_theorems frame \<open>what an operation leaves untouched\<close>

lemma append_event_frame [frame]:
  "aw_approvals (append_event u now aid t sm d w) = aw_approvals w"
  "pw_drafts (append_event u now aid t sm d w) = pw_drafts w"
  "pw_previews (append_event u now aid t sm d w) = pw_previews w"
  by (simp_all add: append_event_def)

lemma save_approval_frame [frame]:
  "aw_approvals (save_approval a w) = put_approval a (aw_approvals w)"
  "pw_drafts (save_approval a w) = pw_drafts w"
  "pw_previews (save_approval a w) = pw_previews w"
  by (simp_all add: save_approval_def)

lemma save_draft_frame [frame]:
  "aw_approvals (save_draft d w) = aw_approvals w" "pw_drafts (save_draft d w) = put_draft d (pw_drafts w)"
  "pw_previews (save_draft d w) = pw_previews w"
  by (simp_all add: save_draft_def)

lemma update_draft_status_frame [frame]:
  "aw_approvals (update_draft_status now did st w) = aw_approvals w"
  "pw_previews (update_draft_status now did st w) = pw_previews w"
  by (simp_all add: update_draft_status_def save_draft_frame split: option.split)

lemma record_approval_decision_frame:
  "record_approval_decision now a w = Inr w' \<Longrightarrow> aw_approvals w' = aw_approvals w \<and> pw_drafts w' = pw_drafts w"
  by (auto simp: record_approval_decision_def Let_def split: if_splits option.splits)

lemma record_decision_frame:
  "aw_approvals (record_decision uid now v i a w) = put_approval a (aw_approvals w)"
  using record_approval_decision_frame
  by (auto simp: record_decision_def Let_def frame split: sum.split)

lemma preview_refresh_frame:
  "preview_refresh_policy render is_dir digest pp uid now pid w = Inr (p, w') \<Longrightarrow>
     aw_approvals w' = aw_approvals w \<and> pw_drafts w' = pw_drafts w"
  by (auto simp: preview_refresh_policy_def Let_def obind_eq_Inr_iff preview_append_event_def save_preview_def
      split: option.splits)

lemma create_preview_frame:
  "create_preview_from_draft render is_dir digest pp uid now did w = Inr (p, w') \<Longrightarrow> aw_approvals w' = aw_approvals w"
  by (auto simp: create_preview_from_draft_def Let_def obind_eq_Inr_iff preview_append_event_def save_preview_def
      update_draft_for_preview_def save_draft_def split: option.splits)

text \<open>What no operation changes of a stored approval, and how its status may move.\<close>

definition evolves_to :: "approval_request \<Rightarrow> approval_request \<Rightarrow> bool" where
  "evolves_to a a' \<longleftrightarrow>
     aq_approval_id a' = aq_approval_id a \<and> aq_preview_id a' = aq_preview_id a \<and> aq_draft_id a' = aq_draft_id a \<and>
     aq_actions_requested a' = aq_actions_requested a \<and> aq_policy_snapshot a' = aq_policy_snapshot a \<and>
     aq_expires_at a' = aq_expires_at a \<and> aq_approval_scope a' = aq_approval_scope a \<and>
     aq_allowed_by_policy a' = aq_allowed_by_policy a \<and>
     (aq_execution_status a = ''not_executed'' \<longrightarrow>
        aq_execution_status a' = ''not_executed'' \<or> aq_status a' = ''approved'') \<and>
     approval_life.path (aq_status a) (aq_status a')"

lemma evolves_to_refl [simp]: "evolves_to a a"
  by (simp add: evolves_to_def approval_life.path_refl)

lemma evolves_to_trans: "evolves_to a b \<Longrightarrow> evolves_to b c \<Longrightarrow> evolves_to a c"
  using approval_life.path_from_final [of "''approved''"]
  by (auto simp: evolves_to_def terminal_def TERMINAL_def intro: approval_life.path_trans)

definition approvals_keyed :: "approval_world \<Rightarrow> bool" where
  "approvals_keyed w \<longleftrightarrow> distinct (map fst (aw_approvals w)) \<and> (\<forall>k a. map_of (aw_approvals w) k = Some a \<longrightarrow> aq_approval_id a = k)"

definition advances :: "approval_world \<Rightarrow> approval_world \<Rightarrow> bool" where
  "advances w w' \<longleftrightarrow> approvals_keyed w' \<and>
     (\<forall>k a. map_of (aw_approvals w) k = Some a \<longrightarrow> (\<exists>a'. map_of (aw_approvals w') k = Some a' \<and> evolves_to a a'))"

lemma advances_same: "approvals_keyed w \<Longrightarrow> aw_approvals w' = aw_approvals w \<Longrightarrow> advances w w'"
  by (simp add: advances_def approvals_keyed_def)

lemma advances_trans: "advances u v \<Longrightarrow> advances v w \<Longrightarrow> advances u w"
  unfolding advances_def by (meson evolves_to_trans)

lemma advances_keyed: "advances w w' \<Longrightarrow> approvals_keyed w'"
  by (simp add: advances_def)

lemma advances_save:
  assumes "approvals_keyed w" and "map_of (aw_approvals w) k = Some a" and "evolves_to a a'"
    and "aw_approvals w' = put_approval a' (aw_approvals w)"
  shows "advances w w'" and "map_of (aw_approvals w') k = Some a'"
proof -
  have key: "aq_approval_id b = x" if "map_of (aw_approvals w) x = Some b" for x b
    using assms(1) that unfolding approvals_keyed_def by blast
  with assms(2,3) have id: "aq_approval_id a' = k" by (simp add: evolves_to_def)
  have look: "map_of (aw_approvals w') x = (if x = k then Some a' else map_of (aw_approvals w) x)" for x
    by (simp add: assms(4) approval_store.lookup_save id)
  then show "map_of (aw_approvals w') k = Some a'" by simp
  have "distinct (map fst (aw_approvals w'))"
    using assms(1) by (simp add: assms(4) approvals_keyed_def put_approval_def distinct_update)
  moreover have "\<forall>x b. map_of (aw_approvals w') x = Some b \<longrightarrow> aq_approval_id b = x"
    using key id by (auto simp: look)
  ultimately have "approvals_keyed w'" unfolding approvals_keyed_def by blast
  moreover have "\<exists>b'. map_of (aw_approvals w') x = Some b' \<and> evolves_to b b'" if "map_of (aw_approvals w) x = Some b" for x b
    using that assms(2,3) by (auto simp: look)
  ultimately show "advances w w'" unfolding advances_def by blast
qed

lemma evolves_to_edge:
  assumes "aq_status a = ''pending''" and "x \<in> set TERMINAL"
  shows "evolves_to a (a\<lparr>aq_status := x, aq_updated_at := t\<rparr>)"
proof -
  have "can_transition (aq_status a) x" using assms by (auto simp: can_transition_def VALID_def TERMINAL_def)
  then show ?thesis
    by (auto simp: evolves_to_def intro: approval_life.path_step [OF approval_life.path_refl])
qed

lemma expire_approval_advances:
  assumes "approvals_keyed w" and "map_of (aw_approvals w) k = Some a" and "aq_status a = ''pending''"
    and "expire_approval u now a w = (a', w')"
  shows "advances w w'" and "map_of (aw_approvals w') k = Some a'"
proof -
  have e: "evolves_to a a'" and w: "aw_approvals w' = put_approval a' (aw_approvals w)"
    using assms(3,4) evolves_to_edge [of a "''expired''" now]
    by (auto simp: expire_approval_def Let_def frame TERMINAL_def)
  show "advances w w'" "map_of (aw_approvals w') k = Some a'" by (rule advances_save [OF assms(1,2) e w])+
qed

lemma reconcile_advances:
  assumes "approvals_keyed w" and "map_of (aw_approvals w) k = Some a" and "reconcile_expiration u now a w = (a', w')"
  shows "advances w w'" and "map_of (aw_approvals w') k = Some a'"
    and "aq_status a' = ''pending'' \<Longrightarrow> a' = a \<and> \<not> is_expired now (aq_expires_at a)"
proof -
  have live: "(a', w') = (a, w)" if "aq_status a \<noteq> ''pending'' \<or> \<not> is_expired now (aq_expires_at a)"
    using assms(3) that by (simp add: reconcile_expiration_def)
  have dead: "expire_approval u now a w = (a', w')" "aq_status a = ''pending''"
    if "\<not> (aq_status a \<noteq> ''pending'' \<or> \<not> is_expired now (aq_expires_at a))"
    using assms(3) that by (simp_all add: reconcile_expiration_def)
  show "advances w w'" "map_of (aw_approvals w') k = Some a'"
    using live advances_same [OF assms(1)] assms(2) expire_approval_advances [OF assms(1,2) dead(2,1)] by blast+
  show "a' = a \<and> \<not> is_expired now (aq_expires_at a)" if "aq_status a' = ''pending''"
    using that assms(3) by (auto simp: reconcile_expiration_def expire_approval_def Let_def split: if_splits)
qed

lemma get_approval_advances:
  assumes "approvals_keyed w" and "get_approval u now aid w = (r, w')"
  shows "advances w w'" and "map_of (aw_approvals w') aid = r"
    and "r = Some a \<Longrightarrow> aq_status a = ''pending'' \<Longrightarrow> map_of (aw_approvals w) aid = Some a \<and> \<not> is_expired now (aq_expires_at a)"
proof -
  have "advances w w' \<and> map_of (aw_approvals w') aid = r \<and> (r = Some a \<longrightarrow> aq_status a = ''pending'' \<longrightarrow>
      map_of (aw_approvals w) aid = Some a \<and> \<not> is_expired now (aq_expires_at a))"
  proof (cases "map_of (aw_approvals w) aid")
    case None
    with assms show ?thesis by (auto simp: get_approval_def advances_same)
  next
    case (Some b)
    obtain b' v where r: "reconcile_expiration u now b w = (b', v)" by force
    with Some assms(2) have "r = Some b'" "w' = v" by (auto simp: get_approval_def)
    then show ?thesis using reconcile_advances [OF assms(1) Some r] Some by auto
  qed
  then show "advances w w'" "map_of (aw_approvals w') aid = r"
    "r = Some a \<Longrightarrow> aq_status a = ''pending'' \<Longrightarrow> map_of (aw_approvals w) aid = Some a \<and> \<not> is_expired now (aq_expires_at a)"
    by blast+
qed

text \<open>When a decision can be taken: the approval is stored, pending and alive at both clock readings.\<close>

definition decidable_at :: "int \<Rightarrow> int \<Rightarrow> str \<Rightarrow> approval_world \<Rightarrow> approval_request \<Rightarrow> bool" where
  "decidable_at t1 t2 aid w a \<longleftrightarrow>
     map_of (aw_approvals w) aid = Some a \<and> aq_status a = ''pending'' \<and>
     (\<exists>t. aq_expires_at a = Some t \<and> t1 < t \<and> t2 < t)"

lemma not_expired_iff: "\<not> is_expired now e \<longleftrightarrow> (\<exists>t. e = Some t \<and> now < t)"
  by (cases e) (auto simp: is_expired_def)

lemma can_decide: "can_transition ''pending'' (decision_name v)"
  by (cases v) (simp_all add: can_transition_def VALID_def)

lemma decide_live:
  assumes "decidable_at t1 t2 aid w a"
  shows "decide digest uid t1 t2 aid v i w =
    (Inr (decision_record digest v i (decided_approval t2 v i a), decided_approval t2 v i a),
     record_decision uid t2 v i (decided_approval t2 v i a) w)"
proof -
  have "\<not> is_expired t1 (aq_expires_at a)" "\<not> is_expired t2 (aq_expires_at a)"
    using assms by (auto simp: decidable_at_def not_expired_iff)
  then show ?thesis
    using assms can_decide [of v]
    by (simp add: decide_def get_approval_def reconcile_expiration_def decidable_at_def ensure_pending_def Let_def)
qed

lemma decide_dead:
  assumes "approvals_keyed w" and "\<nexists>a. decidable_at t1 t2 aid w a" and "decide digest uid t1 t2 aid v i w = (r, w')"
  shows "advances w w' \<and> (\<exists>e. r = Inl e)"
proof -
  obtain got w1 where g: "get_approval (uid 0) t1 aid w = (got, w1)" by force
  note ga = get_approval_advances [OF assms(1) g]
  show ?thesis
  proof (cases "\<exists>a. got = Some a \<and> aq_status a = ''pending''")
    case False
    then show ?thesis
      using assms(3) ga(1) g by (cases got) (auto simp: decide_def ensure_pending_def)
  next
    case True
    then obtain a where a: "got = Some a" "aq_status a = ''pending''" by blast
    note old = ga(3) [OF a]
    with assms(2) a(2) have x: "is_expired t2 (aq_expires_at a)"
      unfolding decidable_at_def by (metis not_expired_iff option.inject)
    obtain a' w2 where e: "expire_approval (uid 0) t2 a w1 = (a', w2)" by force
    have "map_of (aw_approvals w1) aid = Some a" using ga(2) a(1) by simp
    then have "advances w1 w2" by (rule expire_approval_advances [OF advances_keyed [OF ga(1)] _ a(2) e])
    moreover have "r = Inl ''approval_expired''" "w' = w2"
      using assms(3) g a x e by (simp_all add: decide_def ensure_pending_def)
    ultimately show ?thesis using advances_trans [OF ga(1)] by blast
  qed
qed

lemma decided_evolves: "aq_status a = ''pending'' \<Longrightarrow> evolves_to a (decided_approval t v i a)"
  using can_decide [of v]
  by (auto simp: evolves_to_def decided_approval_def intro: approval_life.path_step [OF approval_life.path_refl])

lemma decide_advances:
  assumes "approvals_keyed w" and "decide digest uid t1 t2 aid v i w = (r, w')"
  shows "advances w w'"
proof (cases "\<exists>a. decidable_at t1 t2 aid w a")
  case True
  then obtain a where a: "decidable_at t1 t2 aid w a" ..
  then have "map_of (aw_approvals w) aid = Some a" "evolves_to a (decided_approval t2 v i a)"
    by (simp_all add: decidable_at_def decided_evolves)
  moreover have "aw_approvals w' = put_approval (decided_approval t2 v i a) (aw_approvals w)"
    using assms(2) by (auto simp: decide_live [OF a] record_decision_frame)
  ultimately show ?thesis by (rule advances_save [OF assms(1)])
qed (use decide_dead [OF assms(1) _ assms(2)] in blast)

lemma decide_all_advances:
  "approvals_keyed w \<Longrightarrow> decide_all digest uid clk v i as w = (r, w') \<Longrightarrow> advances w w'"
proof (induction as arbitrary: uid clk w r w')
  case Nil
  then show ?case by (simp add: advances_same)
next
  case (Cons a as)
  obtain r1 w1 where d: "decide digest uid (clk 0) (clk 1) (aq_approval_id a) v i w = (r1, w1)" by force
  note st = decide_advances [OF Cons.prems(1) d]
  show ?case
  proof (cases r1)
    case (Inl e)
    then show ?thesis using Cons.prems(2) d st by simp
  next
    case (Inr x)
    obtain r2 w2 where rest: "decide_all digest (\<lambda>n. uid (n + 2)) (\<lambda>n. clk (n + 2)) v i as w1 = (r2, w2)" by force
    have "w' = w2" using Cons.prems(2) d Inr rest by (cases r2) auto
    then show ?thesis using advances_trans [OF st Cons.IH [OF advances_keyed [OF st] rest]] by simp
  qed
qed

lemma get_all_advances: "approvals_keyed w \<Longrightarrow> get_all uid now ks w = (r, w') \<Longrightarrow> advances w w'"
proof (induction ks arbitrary: uid w r w')
  case Nil
  then show ?case by (simp add: advances_same)
next
  case (Cons k ks)
  obtain a w1 where g: "get_approval (uid 0) now k w = (a, w1)" by force
  obtain as w2 where rest: "get_all (\<lambda>i. uid (Suc i)) now ks w1 = (as, w2)" by force
  note st = get_approval_advances(1) [OF Cons.prems(1) g]
  from Cons.prems(2) g rest have "w' = w2" by simp
  then show ?case using advances_trans [OF st Cons.IH [OF advances_keyed [OF st] rest]] by simp
qed

lemma batch_events_frame: "aw_approvals (batch_events uid now t sc so as w) = aw_approvals w"
  by (induction as arbitrary: uid w) (simp_all add: frame)

lemma decide_batch_advances:
  assumes "approvals_keyed w" and "decide_batch digest pol uid clk ids v who reason scope safe_only w = (r, w')"
  shows "advances w w'"
proof -
  let ?ids = "filter (\<lambda>x. x \<noteq> []) (py_unique (map py_strip ids))"
  let ?i = "\<lparr>di_actor = who, di_reason = reason, di_scope = scope, di_origin = None, di_signature = None\<rparr>"
  obtain as w1 where g: "get_all (uid 0) (clk 0 0) ?ids w = (as, w1)" by force
  obtain rs w2 where d: "decide_all digest (uid 1) (clk 1) v ?i (List.map_filter id as) w1 = (rs, w2)" by force
  note st = get_all_advances [OF assms(1) g]
  have st2: "advances w w2"
    using advances_trans [OF st] decide_all_advances [OF advances_keyed [OF st] d] by blast
  have "aw_approvals w' \<in> {aw_approvals w, aw_approvals w1, aw_approvals w2}"
    using assms(2) g d
    by (auto simp: decide_batch_def Let_def batch_events_frame split: if_splits option.splits sum.splits)
  then show ?thesis using assms(1) st st2 by (auto simp: advances_def approvals_keyed_def)
qed

lemma refresh_advances:
  assumes "approvals_keyed w" and "refresh_policy render is_dir digest pp uid now aid w = (r, w')"
  shows "advances w w'"
proof -
  obtain got w1 where g: "get_approval (uid 0) now aid w = (got, w1)" by force
  note ga = get_approval_advances [OF assms(1) g]
  show ?thesis
  proof (cases "got = None \<or> (\<exists>e. preview_refresh_policy render is_dir digest pp (\<lambda>n. uid (n + 1)) now (aq_preview_id (the got)) w1 = Inl e)")
    case True
    then show ?thesis using assms(2) g ga(1) by (cases got) (auto simp: refresh_policy_def)
  next
    case False
    then obtain a p w2 where a: "got = Some a"
      and p: "preview_refresh_policy render is_dir digest pp (\<lambda>n. uid (n + 1)) now (aq_preview_id a) w1 = Inr (p, w2)"
      by (cases got; cases "preview_refresh_policy render is_dir digest pp (\<lambda>n. uid (n + 1)) now (aq_preview_id (the got)) w1") auto
    note same = preview_refresh_frame [OF p]
    define a' where "a' = a\<lparr>aq_status := ''invalidated_by_policy_change'', aq_updated_at := now\<rparr>"
    have "aw_approvals w' = aw_approvals w1 \<or> aq_status a = ''pending'' \<and> aw_approvals w' = put_approval a' (aw_approvals w1)"
      using assms(2) g a p same
      by (auto simp: refresh_policy_def invalidate_approval_def Let_def frame a'_def split: if_splits option.splits)
    then show ?thesis
    proof
      assume "aw_approvals w' = aw_approvals w1"
      then show ?thesis using advances_trans [OF ga(1) advances_same [OF advances_keyed [OF ga(1)]]] by blast
    next
      assume x: "aq_status a = ''pending'' \<and> aw_approvals w' = put_approval a' (aw_approvals w1)"
      then have "evolves_to a a'" unfolding a'_def by (intro evolves_to_edge) (simp_all add: TERMINAL_def)
      then show ?thesis
        using advances_trans [OF ga(1) advances_save(1) [OF advances_keyed [OF ga(1)] _ _ conjunct2 [OF x]]] ga(2) a by blast
    qed
  qed
qed

lemma with_runtime_context_evolves: "evolves_to a (with_runtime_context render now run task path plan a)"
  by (simp add: evolves_to_def with_runtime_context_def bind_plan_def Let_def approval_life.path_refl)

lemma attach_advances:
  assumes "approvals_keyed w" and "attach_runtime_context render uid now aid run task path plan w = (r, w')"
  shows "advances w w'"
proof -
  obtain got w1 where g: "get_approval (uid 0) now aid w = (got, w1)" by force
  note ga = get_approval_advances [OF assms(1) g]
  show ?thesis
  proof (cases got)
    case None
    with assms(2) g ga(1) show ?thesis by (simp add: attach_runtime_context_def)
  next
    case (Some a)
    let ?a = "with_runtime_context render now run task path plan a"
    have "aw_approvals w' = put_approval ?a (aw_approvals w1)"
      using assms(2) g Some by (auto simp: attach_runtime_context_def Let_def frame)
    then have "advances w1 w'"
      using advances_save(1) [OF advances_keyed [OF ga(1)] _ with_runtime_context_evolves] ga(2) Some by blast
    then show ?thesis by (rule advances_trans [OF ga(1)])
  qed
qed

lemma reconcile_other:
  "reconcile_expiration u now a w = (a', w') \<Longrightarrow> k \<noteq> aq_approval_id a \<Longrightarrow>
     map_of (aw_approvals w') k = map_of (aw_approvals w) k"
  by (auto simp: reconcile_expiration_def expire_approval_def Let_def frame approval_store.lookup_save split: if_splits)

lemma reconcile_all_advances:
  assumes "approvals_keyed w" and "distinct (map aq_approval_id as)"
    and "\<forall>a\<in>set as. map_of (aw_approvals w) (aq_approval_id a) = Some a" and "reconcile_all uid now as w = (r, w')"
  shows "advances w w'"
  using assms
proof (induction as arbitrary: uid w r w')
  case Nil
  then show ?case by (simp add: advances_same)
next
  case (Cons a as)
  obtain a' w1 where e: "reconcile_expiration (uid 0) now a w = (a', w1)" by force
  obtain as' w2 where rest: "reconcile_all (\<lambda>i. uid (Suc i)) now as w1 = (as', w2)" by force
  have "map_of (aw_approvals w) (aq_approval_id a) = Some a" using Cons.prems(3) by simp
  note st = reconcile_advances(1) [OF Cons.prems(1) this e]
  have "\<forall>b\<in>set as. map_of (aw_approvals w1) (aq_approval_id b) = Some b"
    using Cons.prems(2,3) reconcile_other [OF e] by (metis distinct.simps(2) imageI list.set_intros(2) list.simps(9) set_map)
  then have "advances w1 w2" using Cons.prems(2) by (intro Cons.IH [OF advances_keyed [OF st] _ _ rest]) simp_all
  moreover have "w' = w2" using Cons.prems(4) e rest by simp
  ultimately show ?case using advances_trans [OF st] by simp
qed

lemma approval_list_stored:
  assumes "approvals_keyed w"
  shows "distinct (map aq_approval_id (approval_list st se lim w)) \<and>
    (\<forall>a\<in>set (approval_list st se lim w). map_of (aw_approvals w) (aq_approval_id a) = Some a)"
proof -
  have key: "aq_approval_id (snd x) = fst x \<and> map_of (aw_approvals w) (fst x) = Some (snd x)"
    if "x \<in> set (aw_approvals w)" for x
    using assms that by (cases x) (auto simp: approvals_keyed_def)
  then have stored: "map_of (aw_approvals w) (aq_approval_id a) = Some a" if "a \<in> snd ` set (aw_approvals w)" for a
    using that by force
  have "map aq_approval_id (map snd (aw_approvals w)) = map fst (aw_approvals w)" using key by simp
  then have "distinct (map aq_approval_id (map snd (aw_approvals w)))"
    using assms unfolding approvals_keyed_def by metis
  then have d: "distinct (map snd (aw_approvals w))" and i: "inj_on aq_approval_id (snd ` set (aw_approvals w))"
    by (simp_all only: distinct_map set_map)
  have sub: "set (approval_list st se lim w) \<subseteq> snd ` set (aw_approvals w)"
    unfolding approval_list_def by (auto dest: in_set_takeD)
  have "distinct (approval_list st se lim w)"
    unfolding approval_list_def using d by (intro distinct_take) (simp only: distinct_sort distinct_filter)
  then have "distinct (map aq_approval_id (approval_list st se lim w))"
    using inj_on_subset [OF i sub] by (simp only: distinct_map)
  with sub show ?thesis using stored by blast
qed

lemma list_approvals_advances:
  assumes "approvals_keyed w" and "list_approvals uid now status session limit w = (r, w')"
  shows "advances w w'"
proof -
  obtain as v where "reconcile_all uid now (approval_list None session limit w) w = (as, v)" by force
  moreover from this assms(2) have "w' = v" by (simp add: list_approvals_def)
  ultimately show ?thesis using reconcile_all_advances [OF assms(1)] approval_list_stored [OF assms(1)] by blast
qed

lemma guard_Inr:
  assumes "approval_request_guard pol pid actions w = Inr (p, requested)"
  shows "map_of (pw_previews w) pid = Some p" "pr_status p = ''approval_required''"
    "ps_workspace_status (pr_policy_snapshot p) \<noteq> ''protected''"
    "can_request_actions pol requested (pr_approval_required_for p) (pr_denied_actions p) = (True, ''ok'')"
    "al_require_policy_snapshot pol \<Longrightarrow> ps_trace_hash (pr_policy_snapshot p) \<noteq> []"
proof -
  have loop: "can_request_loop pol req den as = (True, c) \<Longrightarrow> c = ''ok''" for req den as c
    by (induction as) (auto split: if_splits)
  show "map_of (pw_previews w) pid = Some p" "pr_status p = ''approval_required''"
    "ps_workspace_status (pr_policy_snapshot p) \<noteq> ''protected''"
    "can_request_actions pol requested (pr_approval_required_for p) (pr_denied_actions p) = (True, ''ok'')"
    "al_require_policy_snapshot pol \<Longrightarrow> ps_trace_hash (pr_policy_snapshot p) \<noteq> []"
    using assms loop
    by (auto simp: approval_request_guard_def can_request_actions_def Let_def split: option.splits if_splits prod.splits)
qed

lemma create_approval_cases:
  assumes "create_approval_for_preview render is_dir digest pol uid now pid actions who reason w = (r, w')"
  obtains (refused) e where "r = Inl e" "aw_approvals w' = aw_approvals w" "pw_drafts w' = pw_drafts w"
  | (created) p requested dr where "approval_request_guard pol pid actions w = Inr (p, requested)"
      "map_of (pw_drafts w) (pr_draft_id p) = Some dr" "pv_valid (validate_draft render is_dir (Some dr))"
      "r = Inr (new_approval render digest pol (uid 0) now p (Some dr) (validate_draft render is_dir (Some dr)) requested who reason)"
      "aw_approvals w' = put_approval (new_approval render digest pol (uid 0) now p (Some dr)
         (validate_draft render is_dir (Some dr)) requested who reason) (aw_approvals w)"
      "pw_drafts w' = put_draft (dr\<lparr>td_status := ''approval_pending'', td_updated_at := now, td_safe_to_execute := False\<rparr>) (pw_drafts w)"
proof (cases "approval_request_guard pol pid actions w")
  case (Inl e)
  with assms show thesis by (intro refused) (auto simp: create_approval_for_preview_def)
next
  case (Inr x)
  obtain p requested where x: "x = (p, requested)" by force
  show thesis
  proof (cases "pv_valid (validate_draft render is_dir (map_of (pw_drafts w) (pr_draft_id p)))")
    case False
    with assms Inr x show thesis by (intro refused) (auto simp: create_approval_for_preview_def Let_def frame)
  next
    case True
    then obtain dr where dr: "map_of (pw_drafts w) (pr_draft_id p) = Some dr" using validate_draft_present by blast
    let ?a = "new_approval render digest pol (uid 0) now p (Some dr) (validate_draft render is_dir (Some dr)) requested who reason"
    have id: "aq_draft_id ?a = pr_draft_id p" by (simp add: new_approval_def Let_def)
    from assms Inr x dr True have "r = Inr ?a" and "aw_approvals w' = put_approval ?a (aw_approvals w)"
      and "pw_drafts w' = put_draft (dr\<lparr>td_status := ''approval_pending'', td_updated_at := now, td_safe_to_execute := False\<rparr>) (pw_drafts w)"
      by (auto simp: create_approval_for_preview_def Let_def frame id update_draft_status_def)
    then show thesis using created Inr x dr True by simp
  qed
qed

lemma update_draft_status_draft:
  assumes "drafts_keyed w" and "map_of (pw_drafts (update_draft_status now did st w)) did = Some dr"
  shows "\<not> td_safe_to_execute dr \<and> td_status dr = st"
proof (cases "map_of (pw_drafts w) did")
  case None
  with assms(2) show ?thesis by (simp add: update_draft_status_def)
next
  case (Some d)
  with assms(1) have "td_draft_id d = did" by (simp add: drafts_keyed_def)
  with Some assms(2) show ?thesis by (auto simp: update_draft_status_def frame draft_store.lookup_save)
qed

lemma record_decision_shape:
  "\<exists>w2. record_decision uid now v i a w = update_draft_status now (aq_draft_id a) (draft_target v) w2 \<and>
     pw_drafts w2 = pw_drafts w"
proof -
  let ?w1 = "append_event (uid 0) now (aq_approval_id a) (decision_event v)
    (''Approval '' @ decision_name v @ ''; execucao sera retomada apenas pelo runtime governado quando aplicavel.'')
    (decision_data i a) (save_approval a w)"
  have d1: "pw_drafts ?w1 = pw_drafts w" by (simp only: frame)
  show ?thesis
  proof (cases "record_approval_decision now a ?w1")
    case (Inl e)
    then show ?thesis using d1 unfolding record_decision_def Let_def by (auto simp only: sum.case frame split: if_split)
  next
    case (Inr w2)
    then have "pw_drafts w2 = pw_drafts w" using d1 record_approval_decision_frame by metis
    with Inr show ?thesis using d1 unfolding record_decision_def Let_def by (auto simp only: sum.case split: if_split)
  qed
qed

lemma record_decision_draft:
  assumes "drafts_keyed w" and "map_of (pw_drafts (record_decision uid now v i a w)) (aq_draft_id a) = Some dr"
  shows "\<not> td_safe_to_execute dr \<and> td_status dr = draft_target v"
proof -
  obtain w2 where w2: "record_decision uid now v i a w = update_draft_status now (aq_draft_id a) (draft_target v) w2"
    and "pw_drafts w2 = pw_drafts w" using record_decision_shape by blast
  then have "drafts_keyed w2" using assms(1) by (simp add: drafts_keyed_def)
  then show ?thesis using assms(2) unfolding w2 by (rule update_draft_status_draft)
qed

lemma get_all_fetched:
  "approvals_keyed w \<Longrightarrow> get_all uid now ks w = (as, w') \<Longrightarrow> Some a \<in> set as \<Longrightarrow>
     \<exists>b. map_of (aw_approvals w') (aq_approval_id a) = Some b \<and> evolves_to a b"
proof (induction ks arbitrary: uid w as w')
  case Nil
  then show ?case by simp
next
  case (Cons k ks)
  obtain c w1 where g: "get_approval (uid 0) now k w = (c, w1)" by force
  obtain cs w2 where rest: "get_all (\<lambda>i. uid (Suc i)) now ks w1 = (cs, w2)" by force
  note st = get_approval_advances [OF Cons.prems(1) g]
  note key = advances_keyed [OF st(1)]
  have split: "as = c # cs" "w' = w2" using Cons.prems(2) g rest by auto
  show ?case
  proof (cases "c = Some a")
    case False
    then show ?thesis using Cons.IH [OF key rest] Cons.prems(3) split by auto
  next
    case True
    then have "map_of (aw_approvals w1) k = Some a" "aq_approval_id a = k"
      using st(2) key by (auto simp: approvals_keyed_def)
    then show ?thesis using get_all_advances [OF key rest] split unfolding advances_def by blast
  qed
qed

lemma decide_all_results:
  "approvals_keyed w \<Longrightarrow> decide_all digest uid clk v i as w = (Inr rs, w') \<Longrightarrow>
     \<forall>a\<in>set as. \<exists>b. map_of (aw_approvals w) (aq_approval_id a) = Some b \<and> evolves_to a b \<Longrightarrow>
     list_all2 (\<lambda>a r. evolves_to a (snd r) \<and> aq_status (snd r) = decision_name v) as rs"
proof (induction as arbitrary: uid clk w rs w')
  case Nil
  then show ?case by simp
next
  case (Cons a as)
  obtain r1 w1 where d: "decide digest uid (clk 0) (clk 1) (aq_approval_id a) v i w = (r1, w1)" by force
  from Cons.prems(2) d obtain x rs' w2 where x: "r1 = Inr x" "rs = x # rs'"
    and rest: "decide_all digest (\<lambda>n. uid (n + 2)) (\<lambda>n. clk (n + 2)) v i as w1 = (Inr rs', w2)"
    by (auto split: sum.splits prod.splits)
  note st = decide_advances [OF Cons.prems(1) d]
  obtain b where b: "decidable_at (clk 0) (clk 1) (aq_approval_id a) w b"
    using decide_dead [OF Cons.prems(1) _ d] x(1) by blast
  then have "evolves_to a b" using Cons.prems(3) by (auto simp: decidable_at_def)
  moreover have "snd x = decided_approval (clk 1) v i b" using d x(1) unfolding decide_live [OF b] by auto
  ultimately have one: "evolves_to a (snd x) \<and> aq_status (snd x) = decision_name v"
    using b evolves_to_trans decided_evolves unfolding decidable_at_def by (auto simp: decided_approval_def)
  have "\<forall>c\<in>set as. \<exists>e. map_of (aw_approvals w1) (aq_approval_id c) = Some e \<and> evolves_to c e"
    using Cons.prems(3) st evolves_to_trans unfolding advances_def by (metis list.set_intros(2))
  then show ?case using Cons.IH [OF advances_keyed [OF st] rest] one x(2) by simp
qed

lemma batch_reason_safe: "batch_reason pol True real = None \<Longrightarrow> a \<in> set real \<Longrightarrow> safe_batch_allowed pol a"
  by (auto simp: batch_reason_def Let_def list_ex_iff split: if_splits)

lemma safe_batch_members:
  assumes "approvals_keyed w" and "decide_batch digest pol uid clk ids v who reason scope True w = (Inr rs, w')"
    and "r \<in> set rs"
  shows "\<exists>a. safe_batch_allowed pol a \<and> evolves_to a (snd r) \<and> aq_status (snd r) = decision_name v"
proof -
  let ?ids = "filter (\<lambda>x. x \<noteq> []) (py_unique (map py_strip ids))"
  let ?i = "\<lparr>di_actor = who, di_reason = reason, di_scope = scope, di_origin = None, di_signature = None\<rparr>"
  obtain as w1 where g: "get_all (uid 0) (clk 0 0) ?ids w = (as, w1)" by force
  let ?real = "List.map_filter id as"
  obtain rs' w2 where d: "decide_all digest (uid 1) (clk 1) v ?i ?real w1 = (rs', w2)" by force
  have b: "batch_reason pol True ?real = None" "rs' = Inr rs"
    using assms(2) g d by (auto simp: decide_batch_def Let_def split: if_splits option.splits sum.splits)
  have real: "Some a \<in> set as" if "a \<in> set ?real" for a using that by (auto simp: List.map_filter_def)
  have "list_all2 (\<lambda>a r. evolves_to a (snd r) \<and> aq_status (snd r) = decision_name v) ?real rs"
    using decide_all_results [OF advances_keyed [OF get_all_advances [OF assms(1) g]]] d b(2)
      get_all_fetched [OF assms(1) g] real by blast
  then obtain a where "a \<in> set ?real" "evolves_to a (snd r)" "aq_status (snd r) = decision_name v"
    using assms(3) unfolding list_all2_conv_all_nth in_set_conv_nth by metis
  then show ?thesis using batch_reason_safe [OF b(1)] by blast
qed

section \<open>Properties\<close>

text \<open>
  A decision is taken exactly on a stored approval that is pending and not expired at either clock
  reading; it stores the decided approval, which is not executed, and leaves its draft not executable.
\<close>

theorem decide_exact:
  assumes "approvals_keyed w" and "drafts_keyed w"
  shows "((\<exists>d a'. fst (decide digest uid t1 t2 aid v i w) = Inr (d, a')) \<longleftrightarrow> (\<exists>a. decidable_at t1 t2 aid w a)) \<and>
    (\<forall>d a'. fst (decide digest uid t1 t2 aid v i w) = Inr (d, a') \<longrightarrow>
       (let w' = snd (decide digest uid t1 t2 aid v i w)
        in map_of (aw_approvals w') aid = Some a' \<and> aq_status a' = decision_name v \<and>
           aq_execution_status a' = ''not_executed'' \<and> ad_execution_status d = ''not_executed'' \<and>
           (\<forall>dr. map_of (pw_drafts w') (aq_draft_id a') = Some dr \<longrightarrow>
              \<not> td_safe_to_execute dr \<and> td_status dr = draft_target v)))"
proof (cases "\<exists>a. decidable_at t1 t2 aid w a")
  case False
  then show ?thesis using decide_dead [OF assms(1) False] by (metis Inl_Inr_False prod.collapse)
next
  case True
  then obtain a where a: "decidable_at t1 t2 aid w a" ..
  let ?a = "decided_approval t2 v i a"
  have id: "aq_approval_id ?a = aid"
    using a assms(1) by (auto simp: decidable_at_def approvals_keyed_def decided_approval_def)
  have "map_of (aw_approvals (record_decision uid t2 v i ?a w)) aid = Some ?a"
    unfolding record_decision_frame approval_store.lookup_save by (simp add: id)
  moreover have "\<not> td_safe_to_execute dr \<and> td_status dr = draft_target v"
    if "map_of (pw_drafts (record_decision uid t2 v i ?a w)) (aq_draft_id ?a) = Some dr" for dr
    using record_decision_draft [OF assms(2) that] .
  ultimately show ?thesis
    using a unfolding decide_live [OF a] by (auto simp: decided_approval_def decision_record_def Let_def)
qed

text \<open>
  An approval is created only for a preview that requires one and whose workspace is not protected,
  for actions that are all approvable and all marked as requiring approval, and for a draft whose write,
  if it writes, is documented and concretely planned; it starts pending and not executed, and its draft
  waits, not executable.
\<close>

theorem create_approval_sound:
  assumes "drafts_keyed w" and
    "create_approval_for_preview render is_dir digest pol uid now pid actions who reason w = (Inr a, w')"
  shows "\<exists>p dr. map_of (pw_previews w) pid = Some p \<and> map_of (pw_drafts w) (pr_draft_id p) = Some dr \<and>
    pr_status p = ''approval_required'' \<and> ps_workspace_status (pr_policy_snapshot p) \<noteq> ''protected'' \<and>
    aq_actions_requested a \<noteq> [] \<and>
    set (aq_actions_requested a) \<subseteq> set (al_approvable_actions pol) \<inter> set (pr_approval_required_for p) \<and>
    (\<not> requires_plan dr \<or> documented_write render dr \<and> concrete_plan render is_dir dr) \<and>
    map_of (aw_approvals w') (aq_approval_id a) = Some a \<and> aq_status a = ''pending'' \<and>
    aq_execution_status a = ''not_executed'' \<and>
    map_of (pw_drafts w') (pr_draft_id p) =
      Some (dr\<lparr>td_status := ''approval_pending'', td_updated_at := now, td_safe_to_execute := False\<rparr>)"
  using assms(2)
proof (cases rule: create_approval_cases)
  case (refused e)
  then show ?thesis by simp
next
  case (created p requested dr)
  have loop: "can_request_loop pol req den as = (True, c) \<Longrightarrow> set as \<subseteq> set (al_approvable_actions pol) \<inter> set req"
    for req den as c
    by (induction as) (auto split: if_splits)
  note g = guard_Inr [OF created(1)]
  from g(4) have "requested \<noteq> []" "set requested \<subseteq> set (al_approvable_actions pol) \<inter> set (pr_approval_required_for p)"
    using loop by (auto simp: can_request_actions_def split: if_splits)
  moreover have "aq_actions_requested a = requested" "aq_status a = ''pending''" "aq_execution_status a = ''not_executed''"
    using created(4) by (simp_all add: new_approval_def Let_def)
  moreover have "map_of (aw_approvals w') (aq_approval_id a) = Some a"
    using created(4,5) by (simp add: approval_store.lookup_save)
  moreover have "td_draft_id dr = pr_draft_id p" using assms(1) created(2) by (simp add: drafts_keyed_def)
  then have "map_of (pw_drafts w') (pr_draft_id p) =
      Some (dr\<lparr>td_status := ''approval_pending'', td_updated_at := now, td_safe_to_execute := False\<rparr>)"
    by (simp add: created(6) draft_store.lookup_save)
  ultimately show ?thesis
    using created(2,3) g(1-3) unfolding validate_draft_valid_iff by blast
qed

text \<open>
  A safe batch that goes through decided only approvals that ask for something, that policy allows,
  and none of whose actions is excluded from batches or denied by the policy snapshot.
\<close>

theorem safe_batch_sound:
  assumes "approvals_keyed w" and "approve_batch digest pol uid clk ids who reason True w = (Inr rs, w')"
    and "(d, a) \<in> set rs"
  shows "aq_status a = ''approved'' \<and> aq_allowed_by_policy a \<and> aq_actions_requested a \<noteq> [] \<and>
    set (aq_actions_requested a) \<inter> set (ps_denied_actions (aq_policy_snapshot a)) = {} \<and>
    set (aq_actions_requested a) \<inter>
      set (if al_safe_batch_excluded_actions pol = [] then DEFAULT_EXCLUDED else al_safe_batch_excluded_actions pol) = {}"
proof -
  from assms(2) have "decide_batch digest pol uid clk ids Approved who reason ''safe_batch'' True w = (Inr rs, w')"
    by (simp add: approve_batch_def)
  from safe_batch_members [OF assms(1) this assms(3)] obtain b where b: "safe_batch_allowed pol b" "evolves_to b a"
    and "aq_status a = ''approved''" by auto
  then show ?thesis
    unfolding evolves_to_def safe_batch_allowed_def Let_def list_ex_iff by (auto split: if_splits)
qed

text \<open>
  Deciding an approval overwrites the status of its draft whatever it was: a draft in a final status
  of the draft life cycle (rejected, say, through another approval of the same preview) becomes approved
  for future execution.
\<close>

theorem decision_ignores_draft_life:
  assumes "drafts_keyed w" and "decidable_at t1 t2 aid w a" and "map_of (pw_drafts w) (aq_draft_id a) = Some d"
  shows "\<exists>d'. map_of (pw_drafts (snd (approve digest uid t1 t2 aid i w))) (aq_draft_id a) = Some d' \<and>
    td_status d' = ''approved_for_future_execution''"
proof -
  let ?a = "decided_approval t2 Approved i a"
  obtain w2 where w2: "record_decision uid t2 Approved i ?a w = update_draft_status t2 (aq_draft_id ?a) (draft_target Approved) w2"
    and same: "pw_drafts w2 = pw_drafts w" using record_decision_shape by blast
  have id: "aq_draft_id ?a = aq_draft_id a" by (simp add: decided_approval_def)
  have "td_draft_id d = aq_draft_id a" using assms(1,3) by (simp add: drafts_keyed_def)
  then show ?thesis
    using assms(3) unfolding approve_def decide_live [OF assms(2)] snd_conv w2 id
    by (simp add: update_draft_status_def same frame draft_store.lookup_save draft_target_def)
qed

lemma refresh_live:
  assumes "map_of (aw_approvals w) aid = Some a" and "aq_status a = ''pending''" and "\<not> is_expired now (aq_expires_at a)"
    and "preview_refresh_policy render is_dir digest pp (\<lambda>n. uid (n + 1)) now (aq_preview_id a) w = Inr (Some q, w2)"
  shows "refresh_policy render is_dir digest pp uid now aid w =
    (if digest (snapshot_json (pr_policy_snapshot q)) \<noteq> digest (snapshot_json (aq_policy_snapshot a))
     then (let (a', w3) = invalidate_approval (uid 3) now a w2 in (Inr (Some a'), w3))
     else (Inr (Some a), append_event (uid 3) now (aq_approval_id a) ''policy_refreshed''
             ''Policy refresh sem mudanca relevante.'' [] w2))"
  using assms by (simp add: refresh_policy_def get_approval_def reconcile_expiration_def Let_def)

text \<open>
  Refreshing the policy of a live pending approval invalidates it exactly when the snapshot rebuilt
  from the stored draft has another hash than the approved one; otherwise the approval stays as it was.
\<close>

theorem refresh_invalidates_exactly:
  assumes "approvals_keyed w" and "map_of (aw_approvals w) aid = Some a" and "aq_status a = ''pending''"
    and "\<not> is_expired now (aq_expires_at a)" and "map_of (pw_previews w) (aq_preview_id a) = Some p"
    and "map_of (pw_drafts w) (pr_draft_id p) = Some d" and "policy_snapshot_of render digest pp d = Inr s"
  shows "\<exists>a'. fst (refresh_policy render is_dir digest pp uid now aid w) = Inr (Some a') \<and>
    map_of (aw_approvals (snd (refresh_policy render is_dir digest pp uid now aid w))) aid = Some a' \<and>
    aq_status a' = (if digest (snapshot_json s) = digest (snapshot_json (aq_policy_snapshot a)) then ''pending''
                    else ''invalidated_by_policy_change'')"
proof -
  obtain q w2 where q: "preview_refresh_policy render is_dir digest pp (\<lambda>n. uid (n + 1)) now (aq_preview_id a) w = Inr (Some q, w2)"
    and s: "pr_policy_snapshot q = s"
    using assms(5-7) by (auto simp: preview_refresh_policy_def build_preview_def Let_def)
  note same = preview_refresh_frame [OF q]
  note live = refresh_live [OF assms(2-4) q]
  have id: "aq_approval_id a = aid" using assms(1,2) by (auto simp: approvals_keyed_def)
  show ?thesis
  proof (cases "digest (snapshot_json s) = digest (snapshot_json (aq_policy_snapshot a))")
    case True
    then show ?thesis unfolding live s using same assms(2,3) by (simp add: frame)
  next
    case False
    then show ?thesis
      unfolding live s using same id
      by (simp add: invalidate_approval_def Let_def frame approval_store.lookup_save)
  qed
qed

text \<open>
  When the draft behind a preview has disappeared, a refresh marks the preview invalid but leaves the
  approval pending: it can still be approved.
\<close>

theorem refresh_keeps_orphan_pending:
  assumes "map_of (aw_approvals w) aid = Some a" and "aq_status a = ''pending''"
    and "\<not> is_expired now (aq_expires_at a)" and "map_of (pw_previews w) (aq_preview_id a) = Some p"
    and "map_of (pw_drafts w) (pr_draft_id p) = None" and "pr_policy_snapshot p = aq_policy_snapshot a"
  shows "fst (refresh_policy render is_dir digest pp uid now aid w) = Inr (Some a)"
proof -
  obtain q w2 where q: "preview_refresh_policy render is_dir digest pp (\<lambda>n. uid (n + 1)) now (aq_preview_id a) w = Inr (Some q, w2)"
    and s: "pr_policy_snapshot q = aq_policy_snapshot a"
    using assms(4-6) by (auto simp: preview_refresh_policy_def Let_def)
  show ?thesis unfolding refresh_live [OF assms(1-3) q] s by simp
qed

section \<open>A worked example\<close>

text \<open>Two approvals of the previewed draft, as created: one is rejected, then the other approved.\<close>

definition example_policy :: approval_policy where
  "example_policy =
     \<lparr>al_ttl_minutes = 120, al_approvable_actions = [''create_file''], al_safe_batch_excluded_actions = [],
      al_require_policy_snapshot = True\<rparr>"

definition example_asking :: "str \<Rightarrow> approval_request" where
  "example_asking aid =
     \<lparr>aq_approval_id = aid, aq_preview_id = ''p1'', aq_draft_id = ''d1'', aq_run_id = None, aq_task_id = None,
      aq_session_id = None, aq_agent_id = ''aipinho'', aq_workspace_id = None, aq_workspace_path = Some ''/w'',
      aq_operation_type = ''create_file'', aq_contract_type = ''filesystem_write'', aq_runtime_profile = Some ''write_file'',
      aq_target_paths = [''/w/a.txt'', ''/w''], aq_commands = [], aq_expected_outcomes = [''file''],
      aq_executable_plan_ref = Some ''d1:concrete_file_operations'', aq_execution_id = Some ''d1:concrete_file_operations'',
      aq_execution_plan_snapshot = [], aq_preview_hash = Some ''h'', aq_policy_snapshot_hash = Some ''h'',
      aq_resume_status = None, aq_block_reason_code = None, aq_preview = [], aq_policy_refs = [], aq_allowed_by_policy = True,
      aq_forbidden_operations = [], aq_status = ''pending'', aq_actions_requested = [''create_file''],
      aq_approval_scope = ''future_execution'', aq_reason = ''please'', aq_risk_level = ''unknown'',
      aq_policy_snapshot = pr_policy_snapshot example_preview, aq_expires_at = Some 7200000000, aq_created_at = 0,
      aq_updated_at = 0, aq_created_by = \<lparr>ac_type = ''system'', ac_id = ''approval_service''\<rparr>, aq_approval_origin = None,
      aq_approval_signature = None, aq_approval_authority = ''AIpinho'', aq_trace = [], aq_execution_status = ''not_executed''\<rparr>"

definition example_approval :: approval_request where
  "example_approval = example_asking ''approval_2''"

definition example_pending_draft :: task_draft where
  "example_pending_draft = example_draft\<lparr>td_status := ''approval_pending''\<rparr>"

definition example_asked :: approval_world where
  "example_asked =
     \<lparr>pw_drafts = [(''d1'', example_pending_draft)], pw_previews = [(''p1'', example_preview)], pw_preview_events = [],
      aw_approvals = [(''approval_1'', example_asking ''approval_1''), (''approval_2'', example_approval)],
      aw_events = [], aw_artifacts = []\<rparr>"

definition example_input :: decision_input where
  "example_input = \<lparr>di_actor = None, di_reason = ''ok'', di_scope = ''single_action'', di_origin = None, di_signature = None\<rparr>"

lemma example_asking_fields [simp]:
  "aq_approval_id (example_asking aid) = aid" "aq_preview_id (example_asking aid) = ''p1''" "aq_draft_id (example_asking aid) = ''d1''"
  "aq_status (example_asking aid) = ''pending''" "aq_expires_at (example_asking aid) = Some 7200000000"
  "aq_policy_snapshot (example_asking aid) = pr_policy_snapshot example_preview"
  "aq_actions_requested (example_asking aid) = [''create_file'']" "aq_execution_status (example_asking aid) = ''not_executed''"
  by (simp_all add: example_asking_def)

lemma example_pending_draft_id: "td_draft_id example_pending_draft = ''d1''"
  by (simp add: example_pending_draft_def example_draft_def)

lemma decidable_atI:
  "map_of (aw_approvals w) aid = Some a \<Longrightarrow> aq_status a = ''pending'' \<Longrightarrow> \<not> is_expired t1 (aq_expires_at a) \<Longrightarrow>
     \<not> is_expired t2 (aq_expires_at a) \<Longrightarrow> decidable_at t1 t2 aid w a"
  by (auto simp: decidable_at_def not_expired_iff)

lemma example_asked_keyed: "drafts_keyed example_asked" "approvals_keyed example_asked"
  by (auto simp: drafts_keyed_def approvals_keyed_def example_asked_def example_approval_def example_pending_draft_id
      split: if_splits)

lemma example_asked_lookup:
  "map_of (aw_approvals example_asked) ''approval_1'' = Some (example_asking ''approval_1'')"
  "map_of (aw_approvals example_asked) ''approval_2'' = Some example_approval"
  "map_of (pw_drafts example_asked) ''d1'' = Some example_pending_draft"
  by (simp_all add: example_asked_def)

lemma example_asked_decidable:
  "decidable_at 1 1 ''approval_1'' example_asked (example_asking ''approval_1'')"
  "decidable_at 1 1 ''approval_2'' example_asked example_approval"
  by (rule decidable_atI; simp add: example_asked_lookup example_approval_def is_expired_def)+

theorem example_decide_witness:
  "\<exists>d a'. fst (decide some_hash (\<lambda>_. ''y'') 1 1 ''approval_2'' Approved example_input example_asked) = Inr (d, a')"
  using decide_exact [OF example_asked_keyed(2,1), of some_hash "\<lambda>_. ''y''" 1 1 "''approval_2''" Approved example_input]
    example_asked_decidable(2) by blast

lemma example_preview_stored: "map_of (pw_previews example_asked) (aq_preview_id example_approval) = Some example_preview"
  by (simp add: example_asked_def example_approval_def)

theorem example_refresh_witness:
  "\<exists>a'. fst (refresh_policy no_text no_dir some_hash example_preview_policy (\<lambda>_. ''y'') 1 ''approval_2'' example_asked) = Inr (Some a') \<and>
     aq_status a' = ''pending''"
proof -
  have "pr_draft_id example_preview = ''d1''" by code_simp
  then have d: "map_of (pw_drafts example_asked) (pr_draft_id example_preview) = Some example_pending_draft"
    by (simp add: example_asked_lookup)
  have s: "policy_snapshot_of no_text some_hash example_preview_policy example_pending_draft = Inr (pr_policy_snapshot example_preview)"
    by code_simp
  from refresh_invalidates_exactly [OF example_asked_keyed(2) example_asked_lookup(2) _ _ example_preview_stored d s, of 1 no_dir "\<lambda>_. ''y''"]
  show ?thesis by (auto simp: example_approval_def is_expired_def)
qed

theorem example_orphan_witness:
  "fst (refresh_policy no_text no_dir some_hash example_preview_policy (\<lambda>_. ''y'') 1 ''approval_2'' (example_asked\<lparr>pw_drafts := []\<rparr>))
     = Inr (Some example_approval)"
  using refresh_keeps_orphan_pending [of "example_asked\<lparr>pw_drafts := []\<rparr>" "''approval_2''" example_approval 1 example_preview
      no_text no_dir some_hash example_preview_policy "\<lambda>_. ''y''"] example_asked_lookup(2) example_preview_stored
  by (auto simp: example_approval_def is_expired_def)

end
