(* ===== verification/Task_Queue.thy ===== *)
theory Task_Queue
  imports Task_Run_Store Approvals
begin

text \<open>
  The task queue: \<open>TaskRunLifecycleService\<close>, \<open>TaskRunCancellationService\<close> and \<open>TaskQueueService\<close>
  (\<open>services/runtime/task_run_lifecycle_service.py\<close>, \<open>task_run_cancellation_service.py\<close>, \<open>task_queue_service.py\<close>).
  A reconciliation brings the runs that wait in line with their approvals, ends runs whose artifact has
  stalled, cancels the ones that have waited too long and the oldest ones beyond the capacity of the queue,
  and reports what is left.

  The clock is read once per reconciliation. An exception is \<open>Inl\<close> with its message; where the service turns an
  exception into a warning, its class is \<open>ValueError\<close>, the only one the modelled code raises there. Reading an approval
  whose file is damaged raises; which ones are, and with which class, is an argument. The explanation
  of a block (\<open>task_block_cause_service.py\<close>) and the JSON of an approval are arguments.
\<close>

section \<open>Sequencing\<close>

definition sbind :: "('s \<Rightarrow> ('e + 'a) \<times> 's) \<Rightarrow> ('a \<Rightarrow> 's \<Rightarrow> ('e + 'b) \<times> 's) \<Rightarrow> 's \<Rightarrow> ('e + 'b) \<times> 's" where
  "sbind m f s = (case m s of (Inl e, s') \<Rightarrow> (Inl e, s') | (Inr x, s') \<Rightarrow> f x s')"

fun smap :: "('x \<Rightarrow> 's \<Rightarrow> ('e + 'y) \<times> 's) \<Rightarrow> 'x list \<Rightarrow> 's \<Rightarrow> ('e + 'y list) \<times> 's" where
  "smap f [] s = (Inr [], s)"
| "smap f (x # xs) s = sbind (f x) (\<lambda>y. sbind (smap f xs) (\<lambda>ys s. (Inr (y # ys), s))) s"

section \<open>Life cycle\<close>

record lifecycle_policy =
  lp_transitions :: "str list dict"
  lp_terminal_states :: "str list"
  lp_start_requires_state :: "str list"
  lp_cancel_allowed_from :: "str list"

definition run_can_transition :: "lifecycle_policy \<Rightarrow> str \<Rightarrow> str \<Rightarrow> bool" where
  "run_can_transition pol current target \<longleftrightarrow>
     (case map_of (lp_transitions pol) current of None \<Rightarrow> False | Some ts \<Rightarrow> target \<in> set ts)"

definition run_is_terminal :: "lifecycle_policy \<Rightarrow> str \<Rightarrow> bool" where
  "run_is_terminal pol status \<longleftrightarrow> status \<in> set (lp_terminal_states pol)"

definition run_can_start :: "lifecycle_policy \<Rightarrow> str \<Rightarrow> bool" where
  "run_can_start pol status \<longleftrightarrow> status \<in> set (lp_start_requires_state pol)"

definition run_can_cancel :: "lifecycle_policy \<Rightarrow> str \<Rightarrow> bool" where
  "run_can_cancel pol status \<longleftrightarrow> status \<in> set (lp_cancel_allowed_from pol)"

definition run_transition :: "lifecycle_policy \<Rightarrow> str \<Rightarrow> run_record \<Rightarrow> str \<Rightarrow> run_record outcome" where
  "run_transition pol now r target =
     (if tr_status r = target then Inr r
      else if \<not> run_can_transition pol (tr_status r) target
      then Inl (''invalid_task_run_transition:'' @ tr_status r @ ''->'' @ target)
      else Inr (r\<lparr>tr_status := target, tr_revision := tr_revision r + 1,
        tr_started_at := (if target = ''running'' \<and> \<not> opt_truthy (tr_started_at r) then Some now else tr_started_at r),
        tr_finished_at := (if run_is_terminal pol target then Some now else tr_finished_at r)\<rparr>))"

text \<open>\<open>config/runtime/task_run_lifecycle_policy.yaml\<close>.\<close>

definition shipped_lifecycle :: lifecycle_policy where
  "shipped_lifecycle =
     \<lparr>lp_transitions =
        [(''created'', [''queued'', ''waiting_delegation'', ''waiting_input'', ''blocked'', ''cancelled'', ''expired'']),
         (''queued'', [''running'', ''waiting_input'', ''cancelled'', ''blocked'', ''expired'']),
         (''waiting_delegation'', [''running'', ''waiting_input'', ''completed'', ''failed'', ''cancelled'', ''blocked'', ''expired'']),
         (''running'', [''completed'', ''partial'', ''failed'', ''cancelled'', ''waiting_input'', ''blocked'']),
         (''waiting_input'', [''running'', ''blocked'', ''cancelled'', ''expired'']),
         (''completed'', []), (''partial'', []), (''failed'', []), (''cancelled'', []), (''blocked'', []), (''expired'', [])],
      lp_terminal_states = [''completed'', ''partial'', ''failed'', ''cancelled'', ''blocked'', ''expired''],
      lp_start_requires_state = [''created'', ''queued''],
      lp_cancel_allowed_from = [''created'', ''queued'', ''waiting_delegation'', ''running'', ''waiting_input'']\<rparr>"

section \<open>Cancellation\<close>

record cancellation =
  cn_run_id :: str
  cn_status :: str
  cn_cancellation_requested :: bool
  cn_message :: str

text \<open>What a reconciliation reads from outside: \<open>qe_stall_limit\<close> is \<open>artifact_creation_terminality_seconds\<close>.\<close>

record queue_env =
  qe_store :: store_env
  qe_payloads :: payload_env
  qe_lifecycle :: lifecycle_policy
  qe_event_types :: "str list"
  qe_settings :: "json dict"
  qe_stall_limit :: int
  qe_digest :: "json \<Rightarrow> str"
  qe_approval_uid :: "nat \<Rightarrow> nat \<Rightarrow> str"
  qe_block_cause :: "run_record \<Rightarrow> str list \<Rightarrow> str \<Rightarrow> json"
  qe_dump_approval :: "approval_request \<Rightarrow> json"
  qe_unreadable :: "str \<Rightarrow> str option"

definition create_run_event :: "queue_env \<Rightarrow> str \<Rightarrow> str \<Rightarrow> str \<Rightarrow> str \<Rightarrow> json dict \<Rightarrow> task_store \<Rightarrow> task_event outcome \<times> task_store" where
  "create_run_event env = create_event (qe_store env) (qe_event_types env)"

text \<open>\<open>TaskRunCancellationService.cancel\<close>: a run that waits is cancelled at once, a running one is asked to stop.\<close>

definition cancel_task :: "queue_env \<Rightarrow> str \<Rightarrow> str \<Rightarrow> json \<Rightarrow> task_store \<Rightarrow> cancellation outcome \<times> task_store" where
  "cancel_task env rid reason who st =
     (case find_run rid st of
        None \<Rightarrow> (Inl ''task_run_not_found'', st)
      | Some r \<Rightarrow>
          if \<not> run_can_cancel (qe_lifecycle env) (tr_status r) then
            (Inr \<lparr>cn_run_id = rid, cn_status = tr_status r, cn_cancellation_requested = False,
               cn_message = ''terminal_task_run_cannot_be_cancelled''\<rparr>, st)
          else
            (let r1 = r\<lparr>tr_cancellation_requested := True, tr_cancellation_reason := Some reason, tr_revision := tr_revision r + 1\<rparr>;
                 recorded = (\<lambda>r st. (Inr \<lparr>cn_run_id = rid, cn_status = tr_status r, cn_cancellation_requested = True,
                   cn_message = ''cancellation_recorded''\<rparr>, put_run r st))
             in sbind (create_run_event env rid ''run_cancel_requested'' (tr_status r1) ''TaskRun cancellation requested.''
                    [(''reason'', JStr reason), (''actor'', who)])
                  (\<lambda>_ st. if tr_status r1 \<in> {''created'', ''queued'', ''waiting_input''} then
                      (case run_transition (qe_lifecycle env) (se_now (qe_store env)) r1 ''cancelled'' of
                         Inl e \<Rightarrow> (Inl e, st)
                       | Inr r2 \<Rightarrow>
                           sbind (create_run_event env rid ''run_cancelled'' ''cancelled'' ''TaskRun cancelled before the next step.'' [])
                             (\<lambda>_. recorded r2) st)
                    else recorded r1 st) st))"

section \<open>Settings\<close>

text \<open>\<open>int(settings.get(k, d) or d)\<close> for a setting that is a number, and \<open>set(settings.get(k, d) or [])\<close>.\<close>

definition setting_int :: "json dict \<Rightarrow> str \<Rightarrow> int \<Rightarrow> int" where
  "setting_int s k d = (case json_get_or k (JInt d) s of JInt n \<Rightarrow> if n = 0 then d else n | _ \<Rightarrow> d)"

definition setting_bool :: "json dict \<Rightarrow> str \<Rightarrow> bool" where
  "setting_bool s k \<longleftrightarrow> json_truthy (json_get_or k (JBool True) s)"

definition setting_states :: "(json \<Rightarrow> str) \<Rightarrow> json dict \<Rightarrow> str \<Rightarrow> str list \<Rightarrow> str list" where
  "setting_states render s k d = map (py_str render) (json_elems (json_or (json_get_or k (jstrs d) s) (JList [])))"

definition queue_enabled :: "queue_env \<Rightarrow> bool" where
  "queue_enabled env = setting_bool (qe_settings env) ''enabled''"

definition max_pending_tasks :: "queue_env \<Rightarrow> int" where
  "max_pending_tasks env = max 1 (setting_int (qe_settings env) ''max_pending_tasks'' 25)"

definition max_wait_seconds :: "queue_env \<Rightarrow> int" where
  "max_wait_seconds env = max 60 (setting_int (qe_settings env) ''max_wait_seconds'' 86400)"

definition auto_cancel_expired :: "queue_env \<Rightarrow> bool" where
  "auto_cancel_expired env = setting_bool (qe_settings env) ''auto_cancel_expired''"

definition cancel_linked_pending_approval :: "queue_env \<Rightarrow> bool" where
  "cancel_linked_pending_approval env = setting_bool (qe_settings env) ''cancel_linked_pending_approval''"

definition overflow_strategy :: "queue_env \<Rightarrow> str" where
  "overflow_strategy env =
     py_str (se_render (qe_store env)) (json_get_or ''overflow_strategy'' (JStr ''cancel_oldest_pending'') (qe_settings env))"

definition active_states :: "queue_env \<Rightarrow> str list" where
  "active_states env = setting_states (se_render (qe_store env)) (qe_settings env) ''active_states'' [''running'']"

definition pending_states :: "queue_env \<Rightarrow> str list" where
  "pending_states env =
     setting_states (se_render (qe_store env)) (qe_settings env) ''pending_states'' [''waiting_input'', ''queued'', ''created'']"

definition queue_states :: "queue_env \<Rightarrow> str list" where
  "queue_states env = pending_states env @ active_states env"

definition state_priority :: "queue_env \<Rightarrow> str \<Rightarrow> int" where
  "state_priority env status =
     (case json_get status (json_dict (json_get ''state_priority'' (qe_settings env))) of JInt n \<Rightarrow> n | _ \<Rightarrow> 100)"

section \<open>Listing\<close>

text \<open>A run as \<open>get_run_lightweight\<close> returns it: payloads that \<open>update_run\<close> has moved out are empty.\<close>

definition light_value :: "payload_env \<Rightarrow> str \<Rightarrow> str \<Rightarrow> json \<Rightarrow> json" where
  "light_value env rid k v = project_refs (fst (lighten env rid k k v []))"

definition light_run :: "payload_env \<Rightarrow> run_record \<Rightarrow> run_record" where
  "light_run env r =
     r\<lparr>tr_produced_artifacts := json_elems (light_value env (tr_run_id r) ''produced_artifacts'' (JList (tr_produced_artifacts r))),
       tr_fields := map (\<lambda>(k, v). (k, light_value env (tr_run_id r) k v)) (tr_fields r)\<rparr>"

text \<open>\<open>sorted(xs, key=f, reverse=True)\<close>, which keeps the order of equal elements.\<close>

definition sorted_desc :: "('x \<Rightarrow> 'k::linorder) \<Rightarrow> 'x list \<Rightarrow> 'x list" where
  "sorted_desc f xs = rev (sort_key f (rev xs))"

text \<open>
  \<open>list_queue_runs\<close>: the index decides; a run without an index entry is read unless it has a result, and is
  then indexed.
\<close>

definition queue_entry :: "str list \<Rightarrow> task_store \<Rightarrow> str \<times> run_record \<Rightarrow> bool" where
  "queue_entry statuses st = (\<lambda>(rid, r).
     (case map_of (ts_index st) rid of
        Some s \<Rightarrow> s \<in> set statuses
      | None \<Rightarrow> map_of (ts_results st) rid = None \<and> tr_status r \<in> set statuses))"

definition index_entries :: "(str \<times> run_record) list \<Rightarrow> task_store \<Rightarrow> task_store" where
  "index_entries rs st =
     st\<lparr>ts_index := fold (\<lambda>(rid, r) index. if map_of (ts_index st) rid = None then AList.update rid (tr_status r) index else index)
       rs (ts_index st)\<rparr>"

definition list_queue_runs :: "payload_env \<Rightarrow> str list \<Rightarrow> nat \<Rightarrow> task_store \<Rightarrow> run_record list \<times> task_store" where
  "list_queue_runs env statuses limit st =
     (let rs = filter (queue_entry statuses st) (ts_runs st)
      in (take (max 1 (min limit 1000)) (sorted_desc tr_created_at (map (light_run env \<circ> snd) rs)), index_entries rs st))"

section \<open>Reconciliation\<close>

record queue_state =
  qs_store :: task_store
  qs_approvals :: approval_world
  qs_calls :: nat
  qs_cancelled_runs :: "str list"
  qs_cancelled_approvals :: "str list"
  qs_warnings :: "str list"

definition warn :: "str \<Rightarrow> queue_state \<Rightarrow> queue_state" where
  "warn w qs = qs\<lparr>qs_warnings := qs_warnings qs @ [w]\<rparr>"

text \<open>A call of the store, and a call of the approval service with its own fresh identifiers.\<close>

definition on_store :: "(task_store \<Rightarrow> 'a \<times> task_store) \<Rightarrow> queue_state \<Rightarrow> 'a \<times> queue_state" where
  "on_store f qs = (let (x, st) = f (qs_store qs) in (x, qs\<lparr>qs_store := st\<rparr>))"

definition on_approvals :: "(nat \<Rightarrow> approval_world \<Rightarrow> 'a \<times> approval_world) \<Rightarrow> queue_state \<Rightarrow> 'a \<times> queue_state" where
  "on_approvals f qs =
     (let (x, w) = f (qs_calls qs) (qs_approvals qs) in (x, qs\<lparr>qs_approvals := w, qs_calls := Suc (qs_calls qs)\<rparr>))"

definition queue_get_approval :: "queue_env \<Rightarrow> str \<Rightarrow> queue_state \<Rightarrow> approval_request option outcome \<times> queue_state" where
  "queue_get_approval env aid qs =
     (case qe_unreadable env aid of
        Some cls \<Rightarrow> (Inl cls, qs)
      | None \<Rightarrow>
          let (got, qs1) = on_approvals (\<lambda>n. get_approval (qe_approval_uid env n 0) (se_clock (qe_store env)) aid) qs
          in (Inr got, qs1))"

definition queue_actor :: actor where
  "queue_actor = \<lparr>ac_type = ''system'', ac_id = ''task_queue_service''\<rparr>"

definition queue_actor_json :: json where
  "queue_actor_json = JObj [(''type'', JStr (ac_type queue_actor)), (''id'', JStr (ac_id queue_actor))]"

text \<open>The pending approval of a cancelled run is cancelled with it.\<close>

definition cancel_linked_approval :: "queue_env \<Rightarrow> str option \<Rightarrow> str \<Rightarrow> queue_state \<Rightarrow> queue_state" where
  "cancel_linked_approval env approval reason qs =
     (if \<not> opt_truthy approval \<or> \<not> cancel_linked_pending_approval env then qs
      else
        let aid = the approval; now = se_clock (qe_store env); (got, qs1) = queue_get_approval env aid qs
        in case got of
             Inl cls \<Rightarrow> warn (''task_queue_approval_cancel_failed:'' @ aid @ '':'' @ cls) qs1
           | Inr None \<Rightarrow> qs1
           | Inr (Some a) \<Rightarrow>
               if aq_status a \<noteq> ''pending'' then qs1
               else
                 let (res, qs2) = on_approvals (\<lambda>n. cancel (qe_digest env) (qe_approval_uid env n) now now aid
                       \<lparr>di_actor = Some queue_actor, di_reason = reason, di_scope = ''single_action'',
                        di_origin = None, di_signature = None\<rparr>) qs1
                 in (case res of
                       Inl _ \<Rightarrow> warn (''task_queue_approval_cancel_failed:'' @ aid @ '':ValueError'') qs2
                     | Inr _ \<Rightarrow> qs2\<lparr>qs_cancelled_approvals := qs_cancelled_approvals qs2 @ [aid]\<rparr>))"

definition queue_cancel_run :: "queue_env \<Rightarrow> str \<Rightarrow> str option \<Rightarrow> str \<Rightarrow> queue_state \<Rightarrow> queue_state" where
  "queue_cancel_run env rid approval reason qs =
     (let (res, qs1) = on_store (cancel_task env rid reason queue_actor_json) qs
      in case res of
           Inl _ \<Rightarrow> warn (''task_queue_cancel_failed:'' @ rid @ '':ValueError'') qs1
         | Inr c \<Rightarrow>
             cancel_linked_approval env approval reason
               (if cn_cancellation_requested c then qs1\<lparr>qs_cancelled_runs := qs_cancelled_runs qs1 @ [rid]\<rparr> else qs1))"

text \<open>\<open>run.trace.append\<close>: the trace is one of the remaining fields of the document.\<close>

definition append_trace :: "json \<Rightarrow> run_record \<Rightarrow> run_record" where
  "append_trace item r =
     r\<lparr>tr_fields := AList.update ''trace'' (JList (json_elems (json_get ''trace'' (tr_fields r)) @ [item])) (tr_fields r)\<rparr>"

definition without_reason :: "str \<Rightarrow> run_record \<Rightarrow> run_record" where
  "without_reason reason r = r\<lparr>tr_blocked_reasons := filter (\<lambda>x. x \<noteq> reason) (tr_blocked_reasons r)\<rparr>"

definition approval_metadata :: "run_record \<Rightarrow> json dict" where
  "approval_metadata r = [(''approval_id'', jopt (tr_approval_id r))]"

definition resumed_run :: "queue_env \<Rightarrow> run_record \<Rightarrow> approval_request \<Rightarrow> run_record outcome" where
  "resumed_run env r a =
     (let r1 = (without_reason ''approval_required'' r)
            \<lparr>tr_fields := AList.update ''approval_snapshot'' (sanitize (qe_payloads env) [] (qe_dump_approval env a)) (tr_fields r),
             tr_auto_run_requested := True\<rparr>
      in if tr_status r1 = ''created'' \<and> run_can_transition (qe_lifecycle env) ''created'' ''queued''
         then run_transition (qe_lifecycle env) (se_now (qe_store env)) r1 ''queued''
         else Inr r1)"

definition resume_steps :: "queue_env \<Rightarrow> run_record \<Rightarrow> approval_request \<Rightarrow> task_store \<Rightarrow> unit outcome \<times> task_store" where
  "resume_steps env r a st =
     (case resumed_run env r a of
        Inl e \<Rightarrow> (Inl e, st)
      | Inr r1 \<Rightarrow>
          sbind (create_run_event env (tr_run_id r) ''approval_approved'' (tr_status r1)
              ''Approval aprovado; TaskRun liberada para execucao governada.'' (approval_metadata r1))
            (\<lambda>_. sbind (create_run_event env (tr_run_id r) ''task_resumed_after_approval'' (tr_status r1)
              ''TaskRun marcada para retomada pela fila governada.''
              (approval_metadata r1 @ [(''auto_run_requested'', JBool True)])) (\<lambda>_ st. (Inr (), st))) (put_run r1 st))"

definition resume_approved_approval :: "queue_env \<Rightarrow> run_record \<Rightarrow> approval_request \<Rightarrow> queue_state \<Rightarrow> queue_state" where
  "resume_approved_approval env r a qs =
     (let (res, qs1) = on_store (resume_steps env r a) qs
      in case res of
           Inl _ \<Rightarrow> warn (''task_queue_approval_resume_failed:'' @ tr_run_id r @ '':ValueError'') qs1
         | Inr _ \<Rightarrow> qs1)"

definition denied_run :: "queue_env \<Rightarrow> run_record \<Rightarrow> run_record outcome" where
  "denied_run env r =
     (let r1 = without_reason ''approval_required'' r;
          r2 = (if ''approval_denied'' \<in> set (tr_blocked_reasons r1) then r1
            else r1\<lparr>tr_blocked_reasons := tr_blocked_reasons r1 @ [''approval_denied'']\<rparr>)
      in case run_transition (qe_lifecycle env) (se_now (qe_store env)) r2 ''blocked'' of
           Inl e \<Rightarrow> Inl e
         | Inr r3 \<Rightarrow>
             (let cause = qe_block_cause env r3 [''approval_denied''] ''approval_denied''
              in Inr (append_trace (JObj
                  [(''stage'', JStr ''approval_denied''), (''status'', JStr ''blocked''), (''reason'', JStr ''approval_denied''),
                   (''source'', JStr ''services/runtime/task_queue_service.py''),
                   (''data'', JObj [(''approval_id'', jopt (tr_approval_id r3)), (''block_cause'', cause)])])
                (r3\<lparr>tr_fields := AList.update ''block_cause'' cause (tr_fields r3)\<rparr>))))"

definition deny_steps :: "queue_env \<Rightarrow> run_record \<Rightarrow> task_store \<Rightarrow> unit outcome \<times> task_store" where
  "deny_steps env r st =
     (case denied_run env r of
        Inl e \<Rightarrow> (Inl e, st)
      | Inr r1 \<Rightarrow>
          sbind (create_run_event env (tr_run_id r) ''approval_denied'' ''blocked''
              ''The required approval was denied; no side effect will be executed.''
              [(''approval_id'', jopt (tr_approval_id r1)), (''block_cause'', json_get ''block_cause'' (tr_fields r1))])
            (\<lambda>e. sbind (create_run_event env (tr_run_id r) ''task_blocked'' ''blocked''
              ''Task blocked because the required approval was denied.'' [(''approval_denied_event_id'', JStr (te_event_id e))])
              (\<lambda>_ st. (Inr (), (put_run r1 st)
                 \<lparr>ts_traces := AList.update (tr_run_id r) (json_elems (json_get ''trace'' (tr_fields r1))) (ts_traces (put_run r1 st))\<rparr>)))
            st)"

definition cancel_denied_approval :: "queue_env \<Rightarrow> run_record \<Rightarrow> queue_state \<Rightarrow> queue_state" where
  "cancel_denied_approval env r qs =
     (let (res, qs1) = on_store (deny_steps env r) qs
      in case res of
           Inl _ \<Rightarrow> warn (''task_queue_approval_cancel_failed:'' @ tr_run_id r @ '':ValueError'') qs1
         | Inr _ \<Rightarrow> qs1)"

definition wait_steps :: "queue_env \<Rightarrow> run_record \<Rightarrow> task_store \<Rightarrow> run_record outcome \<times> task_store" where
  "wait_steps env r st =
     (case run_transition (qe_lifecycle env) (se_now (qe_store env)) r ''waiting_input'' of
        Inl e \<Rightarrow> (Inl e, st)
      | Inr r1 \<Rightarrow>
          sbind (create_run_event env (tr_run_id r) ''run_waiting_input'' ''waiting_input''
              ''TaskRun is waiting for an explicit approval decision.'' (approval_metadata r1))
            (\<lambda>_ st. (Inr r1, st)) (put_run r1 st))"

text \<open>
  One round of the loop of \<open>_reconcile_approval_states\<close>. The run object is changed in place: the loop over stalled
  artifacts sees the run that is returned.
\<close>

definition changed_or :: "run_record \<Rightarrow> run_record outcome \<Rightarrow> run_record" where
  "changed_or r res = (case res of Inr r' \<Rightarrow> r' | Inl _ \<Rightarrow> r)"

definition reconcile_approval :: "queue_env \<Rightarrow> run_record \<Rightarrow> queue_state \<Rightarrow> run_record outcome \<times> queue_state" where
  "reconcile_approval env r qs =
     (if run_is_terminal (qe_lifecycle env) (tr_status r) \<or> \<not> opt_truthy (tr_approval_id r) then (Inr r, qs)
      else
        let (got, qs1) = queue_get_approval env (the (tr_approval_id r)) qs
        in case got of
             Inl cls \<Rightarrow> (Inr r, warn (''task_queue_approval_read_failed:'' @ the (tr_approval_id r) @ '':'' @ cls) qs1)
           | Inr None \<Rightarrow> (Inr r, queue_cancel_run env (tr_run_id r) None ''linked_approval_missing'' qs1)
           | Inr (Some a) \<Rightarrow>
               if aq_status a = ''pending'' then
                 (if tr_status r \<in> {''created'', ''queued''} then on_store (wait_steps env r) qs1 else (Inr r, qs1))
               else if aq_status a = ''approved''
               then (Inr (changed_or r (resumed_run env r a)), resume_approved_approval env r a qs1)
               else if aq_status a = ''rejected'' then (Inr (changed_or r (denied_run env r)), cancel_denied_approval env r qs1)
               else if aq_status a \<in> {''cancelled'', ''expired'', ''invalidated_by_policy_change''}
               then (Inr r, queue_cancel_run env (tr_run_id r) None (''linked_approval_'' @ aq_status a) qs1)
               else (Inr r, qs1))"

text \<open>One round of the loop of \<open>_reconcile_artifact_creation_terminality_gaps\<close>.\<close>

definition reconcile_stall :: "queue_env \<Rightarrow> run_record \<Rightarrow> queue_state \<Rightarrow> unit outcome \<times> queue_state" where
  "reconcile_stall env r qs =
     (if tr_status r \<notin> set (active_states env) then (Inr (), qs)
      else
        let (res, qs1) = on_store (terminalize_if_artifact_creation_stalled (qe_store env) (tr_run_id r) (qe_stall_limit env)
              ''ARTIFACT_CREATION_TIMEOUT_WITHOUT_TERMINAL_ARTIFACT'' ''artifact_worker_terminalization_guard'') qs
        in case res of
             Inl e \<Rightarrow> (Inl e, qs1)
           | Inr None \<Rightarrow> (Inr (), qs1)
           | Inr (Some result) \<Rightarrow>
               (let reason = (case rs_validation result of
                      Some v \<Rightarrow> py_str (se_render (qe_store env)) (json_get ''reason_code'' v)
                    | None \<Rightarrow> ''ARTIFACT_CREATION_TIMEOUT_WITHOUT_TERMINAL_ARTIFACT'')
                in (Inr (), warn (''artifact_creation_terminality_gap_reconciled:'' @ tr_run_id r @ '':'' @ reason) qs1)))"

definition queue_list :: "queue_env \<Rightarrow> queue_state \<Rightarrow> run_record list \<times> queue_state" where
  "queue_list env = on_store (list_queue_runs (qe_payloads env) (queue_states env) 1000)"

text \<open>The age of a run in seconds; an unreadable time stamp counts as no age, with a warning.\<close>

definition age_seconds :: "queue_env \<Rightarrow> str \<Rightarrow> int" where
  "age_seconds env created_at =
     (case se_parse_time (qe_store env) created_at of
        None \<Rightarrow> 0 | Some t \<Rightarrow> max 0 ((se_clock (qe_store env) - t) div 1000000))"

definition time_warnings :: "queue_env \<Rightarrow> str list \<Rightarrow> str list" where
  "time_warnings env stamps =
     map (\<lambda>_. ''task_queue_invalid_created_at'') (filter (\<lambda>s. se_parse_time (qe_store env) s = None) stamps)"

definition is_pending :: "queue_env \<Rightarrow> run_record \<Rightarrow> bool" where
  "is_pending env r \<longleftrightarrow> tr_status r \<in> set (pending_states env)"

definition cancel_all :: "queue_env \<Rightarrow> str \<Rightarrow> run_record list \<Rightarrow> queue_state \<Rightarrow> queue_state" where
  "cancel_all env reason rs qs = fold (\<lambda>r. queue_cancel_run env (tr_run_id r) (tr_approval_id r) reason) rs qs"

definition cancel_expired :: "queue_env \<Rightarrow> queue_state \<Rightarrow> queue_state" where
  "cancel_expired env qs =
     (let (runs, qs1) = queue_list env qs
      in if \<not> auto_cancel_expired env then qs1
         else
           let pending = filter (is_pending env) runs;
               expired = filter (\<lambda>r. max_wait_seconds env < age_seconds env (tr_created_at r)) pending
           in cancel_all env ''queue_wait_timeout_exceeded'' (sort_key tr_created_at expired)
                (qs1\<lparr>qs_warnings := qs_warnings qs1 @ time_warnings env (map tr_created_at pending)\<rparr>))"

definition cancel_overflow :: "queue_env \<Rightarrow> queue_state \<Rightarrow> queue_state" where
  "cancel_overflow env qs =
     (let (runs, qs1) = queue_list env qs;
          pending = filter (is_pending env) runs;
          overflow = nat (max 0 (int (length pending) - max_pending_tasks env))
      in if overflow \<noteq> 0 \<and> overflow_strategy env = ''cancel_oldest_pending''
         then cancel_all env ''queue_capacity_exceeded'' (take overflow (sort_key tr_created_at pending)) qs1
         else qs1)"

record queue_item =
  qi_run_id :: str
  qi_session_id :: "str option"
  qi_status :: str
  qi_priority :: int
  qi_created_at :: str
  qi_age_seconds :: int
  qi_approval_id :: "str option"
  qi_approval_status :: "str option"
  qi_auto_run_requested :: bool
  qi_requires_decision :: bool
  qi_expired_by_policy :: bool

record queue_snapshot =
  sn_status :: str
  sn_enabled :: bool
  sn_max_pending_tasks :: int
  sn_max_wait_seconds :: int
  sn_active_count :: nat
  sn_pending_count :: nat
  sn_requires_decision_count :: nat
  sn_total_visible :: nat
  sn_items :: "queue_item list"
  sn_last_reconciled_at :: str
  sn_warnings :: "str list"

text \<open>The approval of a run in the snapshot, which no handler guards: a damaged file makes the snapshot raise.\<close>

definition snapshot_approval :: "queue_env \<Rightarrow> run_record \<Rightarrow> queue_state \<Rightarrow> str option outcome \<times> queue_state" where
  "snapshot_approval env r qs =
     (if opt_truthy (tr_approval_id r) then
        sbind (queue_get_approval env (the (tr_approval_id r)))
          (\<lambda>got qs. (Inr (Some (case got of Some a \<Rightarrow> aq_status a | None \<Rightarrow> ''missing'')), qs)) qs
      else (Inr None, qs))"

definition snapshot_item :: "queue_env \<Rightarrow> run_record \<Rightarrow> queue_state \<Rightarrow> queue_item outcome \<times> queue_state" where
  "snapshot_item env r =
     sbind (snapshot_approval env r) (\<lambda>approval_status qs.
       (Inr \<lparr>qi_run_id = tr_run_id r, qi_session_id = tr_session_id r, qi_status = tr_status r,
           qi_priority = state_priority env (tr_status r), qi_created_at = tr_created_at r,
           qi_age_seconds = age_seconds env (tr_created_at r),
           qi_approval_id = tr_approval_id r, qi_approval_status = approval_status,
           qi_auto_run_requested = tr_auto_run_requested r,
           qi_requires_decision = (approval_status = Some ''pending'' \<or> tr_status r = ''waiting_input'' \<and> approval_status = None),
           qi_expired_by_policy = (is_pending env r \<and> max_wait_seconds env < age_seconds env (tr_created_at r))\<rparr>, qs))"

definition queue_time :: "queue_env \<Rightarrow> str \<Rightarrow> int" where
  "queue_time env s = (case se_parse_time (qe_store env) s of None \<Rightarrow> 0 | Some t \<Rightarrow> t)"

text \<open>By priority, and the newest first within a priority.\<close>

definition snapshot_of :: "queue_env \<Rightarrow> str list \<Rightarrow> run_record list \<Rightarrow> queue_item list \<Rightarrow> queue_snapshot" where
  "snapshot_of env warnings live items =
     (let sorted = sort_key qi_priority (sort_key (\<lambda>i. - queue_time env (qi_created_at i)) items);
          warnings = warnings @ time_warnings env (map tr_created_at live)
      in \<lparr>sn_status = (if warnings \<noteq> [] then ''degraded'' else ''ok''), sn_enabled = queue_enabled env,
           sn_max_pending_tasks = max_pending_tasks env, sn_max_wait_seconds = max_wait_seconds env,
           sn_active_count = length (filter (\<lambda>i. qi_status i \<in> set (active_states env)) items),
           sn_pending_count = length (filter (\<lambda>i. qi_status i \<in> set (pending_states env)) items),
           sn_requires_decision_count = length (filter qi_requires_decision items), sn_total_visible = length items,
           sn_items = sorted, sn_last_reconciled_at = se_now (qe_store env), sn_warnings = py_unique warnings\<rparr>)"

definition build_snapshot :: "queue_env \<Rightarrow> str list \<Rightarrow> queue_state \<Rightarrow> queue_snapshot outcome \<times> queue_state" where
  "build_snapshot env warnings qs =
     (let (runs, qs1) = queue_list env qs;
          live = filter (\<lambda>r. \<not> run_is_terminal (qe_lifecycle env) (tr_status r)) runs
      in sbind (smap (snapshot_item env) live) (\<lambda>items qs. (Inr (snapshot_of env warnings live items), qs)) qs1)"

text \<open>\<open>reconcile\<close>: the snapshot it returns; cancelled runs, approvals and warnings stand in the state.\<close>

definition reconcile :: "queue_env \<Rightarrow> queue_state \<Rightarrow> queue_snapshot outcome \<times> queue_state" where
  "reconcile env qs =
     (if \<not> queue_enabled env then build_snapshot env [''task_queue_disabled''] qs
      else
        let (runs, qs1) = queue_list env (qs\<lparr>qs_cancelled_runs := [], qs_cancelled_approvals := [], qs_warnings := []\<rparr>)
        in sbind (smap (reconcile_approval env) runs)
             (\<lambda>runs. sbind (smap (reconcile_stall env) runs)
               (\<lambda>_ qs2. let qs3 = cancel_overflow env (cancel_expired env qs2) in build_snapshot env (qs_warnings qs3) qs3)) qs1)"

section \<open>Contracts on the store\<close>

text \<open>
  What every call promises about the store before and after it, as long as the promise composes: a sequence of
  calls keeps it on every path, the ones that raise included.
\<close>

locale store_contract =
  fixes moves :: "'s \<Rightarrow> 's \<Rightarrow> bool"
  assumes moves_refl: "moves s s"
    and moves_trans: "moves s t \<Longrightarrow> moves t u \<Longrightarrow> moves s u"
begin

lemma moves_sbind:
  assumes "moves s (snd (m s))" and "\<And>x s'. m s = (Inr x, s') \<Longrightarrow> moves s' (snd (f x s'))"
  shows "moves s (snd (sbind m f s))"
proof (cases "m s")
  case (Pair res s')
  then show ?thesis using assms by (cases res) (auto simp: sbind_def intro: moves_trans)
qed

lemma moves_smap:
  assumes "\<And>x s. moves s (snd (f x s))"
  shows "moves s (snd (smap f xs s))"
  by (induction xs arbitrary: s) (auto intro!: moves_sbind assms moves_refl)

end

interpretation log_contract: store_contract store_moves
  by unfold_locales (rule store_moves_refl, rule store_moves_trans)

end
