(* ===== verification/Supervised_Loop.thy ===== *)
theory Supervised_Loop
  imports Workflow_Runtime Task_Queue
begin

text \<open>
  The loop that executes a task run, \<open>SupervisedExecutionLoop.run\<close>
  (\<open>services/runtime/supervised_execution_loop.py\<close>), with what it calls on every step: the step guard
  (\<open>check_step\<close> of \<open>task_run_guard.py\<close>), the workflow (\<open>Workflow_Runtime\<close>), the execution graph, the store and its
  events, and at the end the completion contract (\<open>services/orchestration/task_completion_resolver.py\<close>). The
  context of a run is built by \<open>task_run_context_service.py\<close>.

  The loop works on its own copy of the run and writes it back whole; other requests write the same document
  meanwhile. What happens to the store while a step executes is therefore part of the parameter
  \<open>le_execute\<close>, which returns the outcome of the step, the outputs it left in the context, and the store as it
  is then. The initial guard (\<open>check_run\<close>), the explanation of a block, the result builder and the semantic
  projection are parameters too. One run of the loop reads the clock once, \<open>le_elapsed\<close> apart; the duration of a step
  in the metadata of its events is left out. The audit log and
  \<open>execution_context\<close>, which the loop only writes, are left out, as are the steps, the workflow and the graph in
  the stored document: the loop never reads them back.
\<close>

section \<open>Data\<close>

record run_step =
  stp_step_id :: str
  stp_step_type :: str
  stp_action :: str
  stp_required :: bool
  stp_side_effect :: bool
  stp_status :: str
  stp_output_summary :: "json dict"
  stp_started_at :: "str option"
  stp_finished_at :: "str option"
  stp_warnings :: "str list"
  stp_violations :: "str list"

record step_outcome =
  otc_status :: str
  otc_summary :: "json dict"
  otc_warnings :: "str list"
  otc_violations :: "str list"
  otc_limitations :: "str list"
  otc_blocked_items :: "str list"

record run_context =
  cx_outputs :: "json dict"
  cx_limitations :: "str list"
  cx_blocked_items :: "str list"
  cx_warnings :: "str list"

text \<open>The run as the loop holds it; \<open>lx_execution\<close> is the id and the artifact expectations of the canonical plan.\<close>

record loop_run =
  lx_record :: run_record
  lx_contract_type :: str
  lx_intent_map :: "json dict"
  lx_context_plan_id :: "str option"
  lx_steps :: "run_step list"
  lx_execution :: "(str \<times> str list) option"
  lx_workflow :: "workflow option"
  lx_graph :: "exec_graph option"
  lx_block_cause :: "json option"
  lx_trace :: "json list"

record plan_resolution =
  cr_status :: str
  cr_source :: str
  cr_violations :: "str list"
  cr_warnings :: "str list"
  cr_plan :: "json dict"
  cr_bundle :: "json dict"
  cr_evidence_context :: "json list"

text \<open>The parts of the configuration the step guard and the completion contract read.\<close>

record guard_config =
  gd_allowed_actions :: "str list"
  gd_blocked_actions :: "str list"
  gd_max_steps :: nat
  gd_max_runtime_seconds :: "int \<times> nat"
  gd_profile :: "json dict"
  gd_float :: "json \<Rightarrow> (int \<times> nat) option"

record completion_config =
  cc_contracts :: json
  cc_output_aliases :: json

record completion_criterion =
  tcc_criterion_id :: str
  tcc_kind :: str
  tcc_required :: bool
  tcc_status :: str
  tcc_summary :: str
  tcc_evidence_refs :: "str list"
  tcc_metadata :: "json dict"

record task_completion_evaluation =
  tce_status :: str
  tce_safe_to_report_success :: bool
  tce_expected_outcomes :: "str list"
  tce_fulfilled_outcomes :: "str list"
  tce_missing_outcomes :: "str list"
  tce_criteria :: "completion_criterion list"
  tce_warnings :: "str list"
  tce_limitations :: "str list"
  tce_metadata :: "json dict"

record loop_env =
  le_store :: store_env
  le_payload :: payload_env
  le_lifecycle :: lifecycle_policy
  le_event_types :: "str list"
  le_workflow :: workflow_env
  le_guard :: guard_config
  le_completion :: completion_config
  le_elapsed :: "nat \<Rightarrow> int"
  le_check_run :: "loop_run \<Rightarrow> task_store \<Rightarrow> str list"
  le_resolve_plan :: "str \<Rightarrow> plan_resolution"
  le_report_of :: "json \<Rightarrow> json"
  le_execute :: "loop_run \<Rightarrow> run_step \<Rightarrow> run_context \<Rightarrow> task_store \<Rightarrow> (step_outcome \<times> json dict) outcome \<times> task_store"
  le_block_cause :: "loop_run \<Rightarrow> str list \<Rightarrow> json"
  le_result :: "loop_run \<Rightarrow> run_context \<Rightarrow> nat \<Rightarrow> task_store \<Rightarrow> task_result"
  le_projection :: "loop_run \<Rightarrow> task_result \<Rightarrow> json dict"

definition loop_now :: "loop_env \<Rightarrow> str" where
  "loop_now env = se_now (le_store env)"

definition loop_rid :: "loop_run \<Rightarrow> str" where
  "loop_rid run = tr_run_id (lx_record run)"

definition on_record :: "(run_record \<Rightarrow> run_record) \<Rightarrow> loop_run \<Rightarrow> loop_run" where
  "on_record f run = run\<lparr>lx_record := f (lx_record run)\<rparr>"

definition add_blocked_reasons :: "str list \<Rightarrow> loop_run \<Rightarrow> loop_run" where
  "add_blocked_reasons rs =
     on_record (\<lambda>r. r\<lparr>tr_blocked_reasons := py_unique (tr_blocked_reasons r @ rs)\<rparr>)"

definition bump_revision :: "loop_run \<Rightarrow> loop_run" where
  "bump_revision = on_record (\<lambda>r. r\<lparr>tr_revision := tr_revision r + 1\<rparr>)"

section \<open>The step guard\<close>

definition READ_WRITE_REASONS :: "(str \<times> str) list" where
  "READ_WRITE_REASONS =
     [(''write_files'', ''write_action_blocked''), (''delete_files'', ''write_action_blocked''),
      (''move_files'', ''write_action_blocked''), (''apply_patch'', ''patch_action_blocked''),
      (''patch_apply'', ''patch_action_blocked''), (''run_command'', ''shell_action_blocked''),
      (''shell'', ''shell_action_blocked'')]"

definition blocked_action_reason :: "str \<Rightarrow> str" where
  "blocked_action_reason action =
     (case map_of READ_WRITE_REASONS action of Some r \<Rightarrow> r | None \<Rightarrow> ''blocked_action:'' @ action)"

definition json_strs :: "json \<Rightarrow> str list" where
  "json_strs v = concat (map (\<lambda>x. case x of JStr s \<Rightarrow> [s] | _ \<Rightarrow> []) (json_elems v))"

definition max_runtime_seconds :: "guard_config \<Rightarrow> int \<times> nat" where
  "max_runtime_seconds g =
     (case json_get ''max_duration_seconds'' (gd_profile g) of
        JNull \<Rightarrow> gd_max_runtime_seconds g
      | v \<Rightarrow> (case gd_float g v of Some x \<Rightarrow> x | None \<Rightarrow> gd_max_runtime_seconds g))"

text \<open>\<open>check_step\<close>: the reasons against executing a step; \<open>elapsed\<close> in microseconds.\<close>

definition check_step :: "guard_config \<Rightarrow> bool \<Rightarrow> run_step \<Rightarrow> nat \<Rightarrow> int \<Rightarrow> str list" where
  "check_step g cancelled s index elapsed =
     (let types = json_strs (json_get ''allowed_step_types'' (gd_profile g));
          (m, k) = max_runtime_seconds g
      in py_unique (
           (if cancelled then [''cancellation_requested''] else []) @
           (if types \<noteq> [] \<and> stp_step_type s \<notin> set types
            then [''step_not_allowed_by_profile:'' @ stp_step_type s] else []) @
           (if stp_side_effect s \<and> \<not> json_truthy (json_get ''allowed_side_effects'' (gd_profile g))
            then [''side_effect_not_allowed_by_profile''] else []) @
           (if stp_action s \<in> set (gd_blocked_actions g) then [blocked_action_reason (stp_action s)]
            else if stp_action s \<notin> set (gd_allowed_actions g) then [''action_not_allowed:'' @ stp_action s] else []) @
           (if gd_max_steps g \<le> index then [''step_limit_exceeded''] else []) @
           (if elapsed * 2 ^ k > m * 1000000 then [''runtime_timeout_exceeded''] else [])))"

definition run_trace_item :: "str \<Rightarrow> str \<Rightarrow> str \<Rightarrow> str option \<Rightarrow> str \<Rightarrow> json dict \<Rightarrow> json" where
  "run_trace_item stage status reason step source data =
     JObj [(''stage'', JStr stage), (''status'', JStr status), (''reason'', JStr reason), (''step_id'', jopt step),
           (''source'', JStr source), (''data'', JObj data)]"

definition guard_trace :: "str list \<Rightarrow> str \<Rightarrow> str option \<Rightarrow> json" where
  "guard_trace reasons reason step =
     run_trace_item ''task_run_guard'' (if reasons = [] then ''allowed'' else ''blocked'') reason step
       ''services/runtime/task_run_guard.py''
       [(''blocked_reasons'', jstrs reasons), (''canonical_policy_decisions'', JList [])]"

section \<open>Completion\<close>

definition completion_contract :: "completion_config \<Rightarrow> str \<Rightarrow> json dict" where
  "completion_contract c contract_type = json_dict (json_get contract_type (json_dict (cc_contracts c)))"

definition required_outputs :: "(json \<Rightarrow> str) \<Rightarrow> json dict \<Rightarrow> str list" where
  "required_outputs render contract =
     filter (\<lambda>s. py_strip s \<noteq> []) (map (py_str render) (json_elems (json_get ''required_outputs'' contract)))"

definition deliverable_checks_enabled :: "json dict \<Rightarrow> bool" where
  "deliverable_checks_enabled contract \<longleftrightarrow>
     json_truthy (json_get ''enabled'' (json_dict (json_get ''requested_deliverables'' contract)))"

definition output_value :: "(json \<Rightarrow> str) \<Rightarrow> completion_config \<Rightarrow> json dict \<Rightarrow> str \<Rightarrow> json option" where
  "output_value render c outputs i =
     (let keys = i # map (py_str render) (json_elems (json_get i (json_dict (cc_output_aliases c))))
      in case find (\<lambda>k. json_get k outputs \<noteq> JNull) keys of None \<Rightarrow> None | Some k \<Rightarrow> Some (json_get k outputs))"

definition output_criterion :: "(json \<Rightarrow> str) \<Rightarrow> completion_config \<Rightarrow> json dict \<Rightarrow> str \<Rightarrow> completion_criterion" where
  "output_criterion render c outputs i =
     (let ok = output_value render c outputs i \<noteq> None
      in \<lparr>tcc_criterion_id = i, tcc_kind = ''required_output'', tcc_required = True,
          tcc_status = (if ok then ''fulfilled'' else ''missing''),
          tcc_summary = ''Output '' @ i @ (if ok then '' is present.'' else '' is missing.''),
          tcc_evidence_refs = (if ok then [i] else []), tcc_metadata = []\<rparr>)"

definition requested_deliverables :: "(json \<Rightarrow> str) \<Rightarrow> json dict \<Rightarrow> str list" where
  "requested_deliverables render intent =
     filter (\<lambda>s. py_strip s \<noteq> []) (map (py_str render) (json_elems (json_get ''requested_deliverables'' intent)))"

text \<open>A report is read as an object; any other value names no deliverable.\<close>

definition report_names :: "(json \<Rightarrow> str) \<Rightarrow> str \<Rightarrow> json \<Rightarrow> str list" where
  "report_names render k report = map (py_str render) (json_elems (json_get k (json_dict report)))"

definition report_ref :: "(json \<Rightarrow> str) \<Rightarrow> json \<Rightarrow> str" where
  "report_ref render report =
     py_str render (json_or (json_get ''report_id'' (json_dict report))
       (json_or (json_get ''result_id'' (json_dict report)) (JStr ''project_report'')))"

definition deliverable_criteria ::
  "loop_env \<Rightarrow> json dict \<Rightarrow> json dict \<Rightarrow> completion_criterion list" where
  "deliverable_criteria env intent outputs =
     (let render = se_render (le_store env);
          requested = requested_deliverables render intent;
          criterion = (\<lambda>item status summary refs.
            \<lparr>tcc_criterion_id = ''deliverable:'' @ item, tcc_kind = ''requested_deliverable'', tcc_required = True,
             tcc_status = status, tcc_summary = summary, tcc_evidence_refs = refs,
             tcc_metadata = [(''deliverable_id'', JStr item)]\<rparr>)
      in case map_option (le_report_of env) (output_value render (le_completion env) outputs ''project_report'') of
           None \<Rightarrow>
             map (\<lambda>item. criterion item ''missing''
               ''Requested deliverable requires a project report, but no report evidence exists.'' []) requested
         | Some report \<Rightarrow>
             map (\<lambda>item.
               if item \<in> set (report_names render ''fulfilled_deliverables'' report) \<and>
                  item \<notin> set (report_names render ''missing_deliverables'' report)
               then criterion item ''fulfilled'' (''Requested deliverable '' @ item @ '' was fulfilled.'')
                      [report_ref render report]
               else criterion item ''missing'' (''Requested deliverable '' @ item @ '' is missing from the report.'') [])
               requested)"

definition completion_criteria :: "loop_env \<Rightarrow> loop_run \<Rightarrow> json dict \<Rightarrow> completion_criterion list" where
  "completion_criteria env run outputs =
     (let render = se_render (le_store env);
          contract = completion_contract (le_completion env) (lx_contract_type run)
      in map (output_criterion render (le_completion env) outputs) (required_outputs render contract) @
         (if deliverable_checks_enabled contract then deliverable_criteria env (lx_intent_map run) outputs else []))"

definition resolve_completion :: "loop_env \<Rightarrow> loop_run \<Rightarrow> run_context \<Rightarrow> str \<Rightarrow> task_completion_evaluation" where
  "resolve_completion env run cx proposed =
     (let criteria = completion_criteria env run (cx_outputs cx);
          fulfilled = map tcc_criterion_id (filter (\<lambda>c. tcc_status c = ''fulfilled'') criteria);
          missing = map tcc_criterion_id (filter (\<lambda>c. tcc_status c \<noteq> ''fulfilled'' \<and> tcc_required c) criteria);
          status = (if proposed \<in> {''failed'', ''blocked''} then proposed
                    else if missing \<noteq> [] then ''partial''
                    else if proposed = ''partial'' then ''partial''
                    else ''completed'')
      in \<lparr>tce_status = status, tce_safe_to_report_success = (status = ''completed'' \<and> missing = []),
          tce_expected_outcomes = py_unique (map tcc_criterion_id criteria),
          tce_fulfilled_outcomes = py_unique fulfilled, tce_missing_outcomes = py_unique missing,
          tce_criteria = criteria, tce_warnings = [],
          tce_limitations = (if missing = [] then []
             else [''missing_required_expected_outcomes:'' @ py_join '','' missing]),
          tce_metadata = [(''contract_type'', JStr (lx_contract_type run)), (''proposed_status'', JStr proposed)]\<rparr>)"

definition criterion_json :: "completion_criterion \<Rightarrow> json" where
  "criterion_json c = JObj
     [(''criterion_id'', JStr (tcc_criterion_id c)), (''kind'', JStr (tcc_kind c)), (''required'', JBool (tcc_required c)),
      (''status'', JStr (tcc_status c)), (''summary'', JStr (tcc_summary c)),
      (''evidence_refs'', jstrs (tcc_evidence_refs c)), (''metadata'', JObj (tcc_metadata c))]"

definition completion_json :: "task_completion_evaluation \<Rightarrow> json dict" where
  "completion_json e =
     [(''status'', JStr (tce_status e)), (''safe_to_report_success'', JBool (tce_safe_to_report_success e)),
      (''expected_outcomes'', jstrs (tce_expected_outcomes e)), (''fulfilled_outcomes'', jstrs (tce_fulfilled_outcomes e)),
      (''missing_outcomes'', jstrs (tce_missing_outcomes e)), (''criteria'', JList (map criterion_json (tce_criteria e))),
      (''warnings'', jstrs (tce_warnings e)), (''limitations'', jstrs (tce_limitations e)),
      (''metadata'', JObj (tce_metadata e))]"

section \<open>The context\<close>

definition CONTEXT_KEYS :: "str list" where
  "CONTEXT_KEYS = [''project_report'', ''file_context_bundle'', ''project_analysis_report'']"

definition build_context :: "loop_env \<Rightarrow> loop_run \<Rightarrow> run_context" where
  "build_context env run =
     (let rc = json_dict (json_get_or ''runtime_context'' (JObj []) (lx_intent_map run));
          given = map (\<lambda>k. (k, json_get k rc)) (filter (\<lambda>k. map_of rc k \<noteq> None) CONTEXT_KEYS);
          planned =
            (if \<not> opt_truthy (lx_context_plan_id run) then []
             else
               (let p = le_resolve_plan env (str_or (lx_context_plan_id run) [])
                in [(''context_plan_resolution'', JObj
                       [(''status'', JStr (cr_status p)), (''source'', JStr (cr_source p)),
                        (''violations'', jstrs (cr_violations p)), (''warnings'', jstrs (cr_warnings p))])] @
                   (if cr_plan p = [] then [] else [(''context_injection_plan'', JObj (cr_plan p))]) @
                   (if cr_bundle p = [] then [] else [(''context_bundle'', JObj (cr_bundle p))]) @
                   (if cr_evidence_context p = [] then [] else [(''evidence_context'', JList (cr_evidence_context p))])))
      in \<lparr>cx_outputs = given @ planned, cx_limitations = [], cx_blocked_items = [], cx_warnings = []\<rparr>)"

definition set_default :: "str \<Rightarrow> json \<Rightarrow> json dict \<Rightarrow> json dict" where
  "set_default k v d = (if map_of d k = None then AList.update k v d else d)"

section \<open>Events of the loop\<close>

text \<open>\<open>TaskRunEventService.create\<close> with a step; the value is the event's identifier.\<close>

definition emit ::
  "loop_env \<Rightarrow> str \<Rightarrow> str \<Rightarrow> str \<Rightarrow> str \<Rightarrow> str option \<Rightarrow> json dict \<Rightarrow> task_store \<Rightarrow> str outcome \<times> task_store" where
  "emit env rid type status message step metadata st =
     (if type \<notin> set (le_event_types env) then (Inl (''unknown_task_run_event:'' @ type), st)
      else
        (let (e, st1) = new_event (le_store env) rid type status (take 1000 message) metadata st;
             (e', st2) = append_task_event (le_store env) rid (e\<lparr>te_step_id := step\<rparr>) st1
         in (Inr (te_event_id e'), st2)))"

fun emit_all :: "loop_env \<Rightarrow> str \<Rightarrow> (str \<times> str \<times> str \<times> json dict) list \<Rightarrow> task_store \<Rightarrow> unit outcome \<times> task_store" where
  "emit_all env rid [] st = (Inr (), st)"
| "emit_all env rid ((type, status, message, metadata) # es) st =
     sbind (emit env rid type status message None metadata) (\<lambda>_. emit_all env rid es) st"

definition lift_outcome :: "'a outcome \<Rightarrow> 's \<Rightarrow> 'a outcome \<times> 's" where
  "lift_outcome m st = (m, st)"

definition transition_to :: "loop_env \<Rightarrow> str \<Rightarrow> loop_run \<Rightarrow> loop_run outcome" where
  "transition_to env target run =
     obind (run_transition (le_lifecycle env) (loop_now env) (lx_record run) target) (\<lambda>r. Inr (run\<lparr>lx_record := r\<rparr>))"

definition execution_id_json :: "loop_run \<Rightarrow> json" where
  "execution_id_json run = (case lx_execution run of None \<Rightarrow> JNull | Some (i, _) \<Rightarrow> JStr i)"

definition workflow_id_json :: "loop_run \<Rightarrow> json" where
  "workflow_id_json run = (case lx_workflow run of None \<Rightarrow> JNull | Some w \<Rightarrow> JStr (wf_workflow_id w))"

definition save_loop_run :: "loop_run \<Rightarrow> task_store \<Rightarrow> task_store" where
  "save_loop_run run st = put_run (lx_record run) st"

definition save_loop_trace :: "loop_run \<Rightarrow> task_store \<Rightarrow> task_store" where
  "save_loop_trace run st = st\<lparr>ts_traces := AList.update (loop_rid run) (lx_trace run) (ts_traces st)\<rparr>"

text \<open>\<open>_timeline_bootstrap_reasons\<close>.\<close>

definition timeline_bootstrap_reasons :: "str \<Rightarrow> task_store \<Rightarrow> str list" where
  "timeline_bootstrap_reasons rid st =
     (let es = sort_key te_sequence (get_task_events rid st); types = map te_type es
      in if es = [] then [''timeline_events_missing'']
         else py_unique (
           (if map te_sequence es \<noteq> map int [1..<Suc (length es)] then [''event_sequence_not_contiguous''] else []) @
           (if ''run_created'' \<notin> set types then [''timeline_missing_run_created''] else []) @
           (if ''task_bootstrap_created'' \<notin> set types then [''timeline_missing_task_bootstrap_created''] else [])))"

definition record_block :: "loop_env \<Rightarrow> str \<Rightarrow> loop_run \<Rightarrow> task_store \<Rightarrow> loop_run outcome \<times> task_store" where
  "record_block env message run st =
     (let cause = le_block_cause env run (tr_blocked_reasons (lx_record run));
          field = (\<lambda>k. json_get k (json_dict cause));
          item = run_trace_item ''task_blocked'' ''blocked'' (py_str (se_render (le_store env)) (field ''block_reason_code'')) None
            ''services/runtime/supervised_execution_loop.py''
            [(''block_id'', field ''block_id''), (''blocked_stage'', field ''blocked_stage''),
             (''safe_alternatives'', field ''safe_alternatives'')];
          rid = loop_rid run
      in sbind (emit env rid ''policy_decision'' ''blocked'' ''A runtime policy decision blocked the task.'' None
             [(''block_cause'', cause)]) (\<lambda>policy_event.
         sbind (emit env rid ''task_blocked'' ''blocked'' message None
             [(''block_cause'', cause), (''policy_event_id'', JStr policy_event)]) (\<lambda>event.
         sbind (emit env rid ''run_blocked'' ''blocked'' message None
             [(''block_id'', field ''block_id''), (''task_blocked_event_id'', JStr event)]) (\<lambda>_ st.
           (Inr (run\<lparr>lx_block_cause := Some (JObj (AList.update ''event_id'' (JStr event) (json_dict cause))),
                      lx_trace := lx_trace run @ [item]\<rparr>), st)))) st)"

definition finalize_result :: "loop_env \<Rightarrow> loop_run \<Rightarrow> run_context \<Rightarrow> task_store \<Rightarrow> (loop_run \<times> task_result) \<times> task_store" where
  "finalize_result env run cx st =
     (let result = le_result env run cx (length (get_task_events (loop_rid run) st)) st;
          projection = le_projection env run result;
          item = run_trace_item ''semantic_result_projection''
            (if json_get ''status'' projection = JStr ''projected'' then ''ready'' else ''degraded'')
            ''semantic_offer_and_compatibility_projected_from_terminal_result'' None
            ''services/semantics/semantic_result_projection_service.py'' projection;
          run1 = run\<lparr>lx_trace := lx_trace run @ [item]\<rparr>;
          st1 = save_loop_trace run1 (save_loop_run run1 st)
      in ((run1, result), save_task_result (le_store env) (loop_rid run) result st1))"

section \<open>One step\<close>

record loop_state =
  ls_run :: loop_run
  ls_context :: run_context
  ls_partial :: bool

datatype signal = Continue | Break str

definition set_step :: "nat \<Rightarrow> run_step \<Rightarrow> loop_run \<Rightarrow> loop_run" where
  "set_step i s run = run\<lparr>lx_steps := (lx_steps run)[i := s]\<rparr>"

text \<open>The request to cancel is read from the store before each step.\<close>

definition observe_cancellation :: "task_store \<Rightarrow> loop_run \<Rightarrow> loop_run" where
  "observe_cancellation st run =
     (case find_run (loop_rid run) st of
        None \<Rightarrow> run
      | Some latest \<Rightarrow>
          if tr_cancellation_requested latest then
            on_record (\<lambda>r. r\<lparr>tr_cancellation_requested := True, tr_cancellation_reason := tr_cancellation_reason latest\<rparr>) run
          else run)"

definition refuse_step ::
  "loop_env \<Rightarrow> nat \<Rightarrow> run_step \<Rightarrow> str list \<Rightarrow> loop_state \<Rightarrow> task_store \<Rightarrow> (loop_state \<times> signal) outcome \<times> task_store" where
  "refuse_step env i s reasons ls st =
     (let run = ls_run ls; rid = loop_rid run; now = Some (loop_now env)
      in if ''cancellation_requested'' \<in> set reasons then
           sbind (emit env rid ''step_cancelled'' ''cancelled'' ''Step cancelled before execution.'' (Some (stp_step_id s)) [])
             (\<lambda>_ st. (Inr (ls\<lparr>ls_run := set_step i (s\<lparr>stp_status := ''cancelled'', stp_finished_at := now\<rparr>) run\<rparr>,
                          Break ''cancelled''), st)) st
         else
           sbind (emit env rid ''step_blocked'' ''blocked'' ''Step blocked by TaskRunGuard.'' (Some (stp_step_id s))
               [(''reasons'', jstrs reasons)])
             (\<lambda>_ st. (Inr (ls\<lparr>ls_run := add_blocked_reasons reasons
                   (set_step i (s\<lparr>stp_status := ''blocked'', stp_violations := stp_violations s @ reasons,
                                  stp_finished_at := now\<rparr>) run)\<rparr>, Break ''blocked''), st)) st)"

definition skip_step ::
  "loop_env \<Rightarrow> nat \<Rightarrow> run_step \<Rightarrow> str list \<Rightarrow> loop_state \<Rightarrow> task_store \<Rightarrow> (loop_state \<times> signal) outcome \<times> task_store" where
  "skip_step env i s reasons ls st =
     (let run = ls_run ls; cx = ls_context ls; rid = loop_rid run; sid = stp_step_id s;
          s1 = s\<lparr>stp_status := ''skipped'',
                 stp_warnings := py_unique (stp_warnings s @ ''optional_phase_dependency_unavailable'' # reasons),
                 stp_finished_at := Some (loop_now env)\<rparr>;
          graph = map_option (mark_step_finished (loop_now env) sid ''skipped'' [] (stp_warnings s1) []) (lx_graph run)
      in sbind (emit env rid ''step_skipped'' ''skipped''
             ''Optional step skipped because governed workflow dependency evidence was unavailable.'' (Some sid)
             [(''reasons'', jstrs reasons), (''workflow_id'', workflow_id_json run)])
           (\<lambda>event st.
             (let run1 = bump_revision (set_step i s1 (run\<lparr>lx_graph := graph,
                    lx_workflow := finish_phase_for_step (le_workflow env) (lx_workflow run) sid ''skipped'' (Some event) []
                      (Some event) [] []\<rparr>))
              in (Inr (ls\<lparr>ls_run := run1, ls_context := cx\<lparr>cx_warnings := cx_warnings cx @ stp_warnings s1\<rparr>\<rparr>, Continue),
                  save_loop_run run1 st))) st)"

definition block_on_dependencies ::
  "loop_env \<Rightarrow> nat \<Rightarrow> run_step \<Rightarrow> str list \<Rightarrow> loop_state \<Rightarrow> task_store \<Rightarrow> (loop_state \<times> signal) outcome \<times> task_store" where
  "block_on_dependencies env i s reasons ls st =
     (let run = ls_run ls
      in sbind (emit env (loop_rid run) ''step_blocked'' ''blocked'' ''Step blocked by Workflow dependency runtime.''
             (Some (stp_step_id s)) [(''reasons'', jstrs reasons)])
           (\<lambda>_ st.
             (let run1 = add_blocked_reasons reasons
                    (set_step i (s\<lparr>stp_status := ''blocked'', stp_violations := stp_violations s @ reasons,
                                   stp_finished_at := Some (loop_now env)\<rparr>) run)
              in (Inr (ls\<lparr>ls_run := run1\<rparr>, Break ''blocked''), save_loop_run run1 st))) st)"

text \<open>The step is marked as running and written to the store before the executor is called.\<close>

definition begin_step ::
  "loop_env \<Rightarrow> nat \<Rightarrow> run_step \<Rightarrow> loop_run \<Rightarrow> task_store \<Rightarrow> (loop_run \<times> run_step) outcome \<times> task_store" where
  "begin_step env i s run st =
     (let rid = loop_rid run; sid = stp_step_id s;
          phase_id = (case lx_workflow run of None \<Rightarrow> JNull
            | Some w \<Rightarrow> (case phase_for_step w sid of None \<Rightarrow> JNull | Some p \<Rightarrow> JStr (wp_phase_id p)));
          s1 = s\<lparr>stp_status := ''running'', stp_started_at := Some (loop_now env)\<rparr>;
          run1 = bump_revision (on_record (\<lambda>r. r\<lparr>tr_current_step_id := Some sid\<rparr>)
            (set_step i s1 (run\<lparr>lx_graph := map_option (mark_step_started (loop_now env) sid) (lx_graph run)\<rparr>)))
      in sbind (emit env rid ''StepStarted'' ''running'' (''Canonical step '' @ stp_step_type s @ '' started.'') (Some sid)
             [(''execution_id'', execution_id_json run), (''action'', JStr (stp_action s))]) (\<lambda>_.
         sbind (emit env rid ''step_started'' ''running'' (''Step '' @ stp_step_type s @ '' started.'') (Some sid)
             [(''workflow_id'', workflow_id_json run), (''phase_id'', phase_id)]) (\<lambda>event st.
           (let run2 = run1\<lparr>lx_workflow := start_phase_for_step (le_workflow env) (lx_workflow run) sid (Some event)\<rparr>
            in (Inr (run2, s1), save_loop_run run2 st)))) st)"

definition step_event_type :: "str \<Rightarrow> str" where
  "step_event_type status =
     (case map_of [(''completed'', ''step_completed''), (''partial'', ''step_partial''), (''failed'', ''step_failed''),
        (''blocked'', ''step_blocked''), (''cancelled'', ''step_cancelled'')] status of
        Some t \<Rightarrow> t | None \<Rightarrow> ''step_failed'')"

definition absorb_outcome :: "run_step \<Rightarrow> step_outcome \<Rightarrow> run_context \<Rightarrow> run_context" where
  "absorb_outcome s out cx =
     (let outputs = (if otc_status out \<in> {''completed'', ''partial''} \<and> stp_output_summary s \<noteq> []
            then set_default (stp_step_type s) (JObj (stp_output_summary s))
                   (set_default (stp_action s) (JObj (stp_output_summary s)) (cx_outputs cx))
            else cx_outputs cx)
      in if stp_required s then
           cx\<lparr>cx_outputs := outputs, cx_limitations := cx_limitations cx @ otc_limitations out,
              cx_blocked_items := cx_blocked_items cx @ otc_blocked_items out,
              cx_warnings := cx_warnings cx @ otc_warnings out\<rparr>
         else
           cx\<lparr>cx_outputs := outputs,
              cx_warnings := cx_warnings cx @ otc_limitations out @ otc_blocked_items out @ otc_warnings out\<rparr>)"

definition finished_step :: "loop_env \<Rightarrow> run_step \<Rightarrow> step_outcome \<Rightarrow> run_step" where
  "finished_step env s out =
     s\<lparr>stp_status := otc_status out,
       stp_output_summary := json_dict (sanitize (le_payload env) [] (JObj (otc_summary out))),
       stp_warnings := py_unique (otc_warnings out), stp_violations := py_unique (otc_violations out),
       stp_finished_at := Some (loop_now env)\<rparr>"

definition end_step ::
  "loop_env \<Rightarrow> nat \<Rightarrow> run_step \<Rightarrow> step_outcome \<Rightarrow> loop_state \<Rightarrow> task_store \<Rightarrow> (loop_state \<times> signal) outcome \<times> task_store" where
  "end_step env i s out ls st =
     (let run = ls_run ls; rid = loop_rid run; sid = stp_step_id s; status = otc_status out;
          s1 = finished_step env s out;
          run1 = set_step i s1 (run\<lparr>lx_graph := map_option (mark_step_finished (loop_now env) sid status
            (stp_output_summary s1) (stp_warnings s1) (stp_violations s1)) (lx_graph run)\<rparr>);
          run2 = (if status = ''blocked'' then add_blocked_reasons (otc_violations out @ otc_blocked_items out) run1 else run1)
      in sbind (emit env rid ''StepFinished'' status (''Canonical step '' @ stp_step_type s @ '' finished.'') (Some sid)
             [(''execution_id'', execution_id_json run), (''action'', JStr (stp_action s))]) (\<lambda>_.
         sbind (emit env rid (step_event_type status) status
             (''Step '' @ stp_step_type s @ '' finished with status '' @ status @ ''.'') (Some sid)
             [(''warnings'', jstrs (otc_warnings out)), (''violations'', jstrs (otc_violations out)),
              (''step_type'', JStr (stp_step_type s)), (''action'', JStr (stp_action s)),
              (''workflow_id'', workflow_id_json run)]) (\<lambda>event.
         sbind (lift_outcome (outcome_dict ''semantic_outcome'' (stp_output_summary s1))) (\<lambda>semantic st.
           (let run3 = bump_revision (on_record (\<lambda>r. r\<lparr>tr_current_step_id := None\<rparr>)
                  (run2\<lparr>lx_workflow := finish_phase_for_step (le_workflow env) (lx_workflow run2) sid status (Some event) []
                     (Some event) (otc_violations out) semantic\<rparr>));
                ls1 = ls\<lparr>ls_run := run3, ls_context := absorb_outcome s1 out (ls_context ls),
                         ls_partial := (ls_partial ls \<or> (status = ''partial'' \<and> stp_required s))\<rparr>
            in (Inr (ls1, if status \<in> {''failed'', ''blocked''} \<and> stp_required s then Break status else Continue),
                save_loop_run run3 st))))) st)"

definition execute_step ::
  "loop_env \<Rightarrow> nat \<Rightarrow> run_step \<Rightarrow> loop_state \<Rightarrow> task_store \<Rightarrow> (loop_state \<times> signal) outcome \<times> task_store" where
  "execute_step env i s ls st =
     sbind (begin_step env i s (ls_run ls)) (\<lambda>(run1, s1).
     sbind (le_execute env run1 s1 (ls_context ls)) (\<lambda>(out, outputs).
       end_step env i s1 out (ls\<lparr>ls_run := run1, ls_context := (ls_context ls)\<lparr>cx_outputs := outputs\<rparr>\<rparr>))) st"

definition loop_step ::
  "loop_env \<Rightarrow> nat \<Rightarrow> run_step \<Rightarrow> loop_state \<Rightarrow> task_store \<Rightarrow> (loop_state \<times> signal) outcome \<times> task_store" where
  "loop_step env i s ls st =
     (let run = observe_cancellation st (ls_run ls);
          reasons = check_step (le_guard env) (tr_cancellation_requested (lx_record run)) s i (le_elapsed env i);
          run1 = run\<lparr>lx_trace := lx_trace run @ [guard_trace reasons ''step_guard_checked'' (Some (stp_step_id s))]\<rparr>
      in if reasons \<noteq> [] then refuse_step env i s reasons (ls\<lparr>ls_run := run1\<rparr>) st
         else sbind (lift_outcome (can_start_phase (le_workflow env) (lx_workflow run1) (stp_step_id s)))
           (\<lambda>(w, allowed, missing).
             (let ls1 = ls\<lparr>ls_run := run1\<lparr>lx_workflow := w\<rparr>\<rparr>
              in if allowed then execute_step env i s ls1
                 else if stp_required s then block_on_dependencies env i s missing ls1
                 else skip_step env i s missing ls1)) st)"

fun loop_steps ::
  "loop_env \<Rightarrow> nat \<Rightarrow> run_step list \<Rightarrow> loop_state \<Rightarrow> task_store \<Rightarrow> (loop_state \<times> str option) outcome \<times> task_store" where
  "loop_steps env i [] ls st = (Inr (ls, None), st)"
| "loop_steps env i (s # steps) ls st =
     sbind (loop_step env i s ls) (\<lambda>(ls1, signal).
       case signal of
         Continue \<Rightarrow> loop_steps env (Suc i) steps ls1
       | Break ended \<Rightarrow> (\<lambda>st. (Inr (ls1, Some ended), st))) st"

section \<open>The run\<close>

definition final_event_type :: "str \<Rightarrow> str outcome" where
  "final_event_type ended =
     (case map_of [(''completed'', ''run_completed''), (''partial'', ''run_partial''), (''failed'', ''run_failed''),
        (''cancelled'', ''run_cancelled''), (''blocked'', ''run_blocked'')] ended of
        Some t \<Rightarrow> Inr t | None \<Rightarrow> Inl ''KeyError'')"

definition loop_terminal :: "loop_state \<Rightarrow> str option \<Rightarrow> str" where
  "loop_terminal ls broken =
     (case broken of
        Some t \<Rightarrow> t
      | None \<Rightarrow>
          if ls_partial ls \<or> cx_limitations (ls_context ls) \<noteq> [] \<or> cx_blocked_items (ls_context ls) \<noteq> []
          then ''partial'' else ''completed'')"

definition complete_context :: "task_completion_evaluation \<Rightarrow> run_context \<Rightarrow> run_context" where
  "complete_context c cx =
     cx\<lparr>cx_outputs := AList.update ''_completion'' (JObj (completion_json c)) (cx_outputs cx),
        cx_limitations := cx_limitations cx @ tce_limitations c, cx_warnings := cx_warnings cx @ tce_warnings c\<rparr>"

definition completion_events :: "loop_run \<Rightarrow> task_completion_evaluation \<Rightarrow> (str \<times> str \<times> str \<times> json dict) list" where
  "completion_events run c =
     (let ex = (''execution_id'', execution_id_json run); dump = completion_json c
      in [(''ValidationStarted'', ''validating'', ''Validation phase started from execution outputs.'', [ex]),
          (''ValidationFinished'', tce_status c, ''Validation phase finished.'', [ex, (''completion_status'', JStr (tce_status c))]),
          (''ArtifactsCreated'', ''observed'', ''Artifact expectations reconciled for execution.'',
             [ex, (''artifact_expectations'', jstrs (case lx_execution run of None \<Rightarrow> [] | Some (_, xs) \<Rightarrow> xs))]),
          (''CompletionGenerated'', tce_status c, ''Completion generated from timeline and validation.'', dump),
          (''task_completion_evaluated'', tce_status c, ''Task completion contract evaluated.'', dump)])"

definition terminal_events ::
  "loop_env \<Rightarrow> str \<Rightarrow> str \<Rightarrow> loop_run \<Rightarrow> task_store \<Rightarrow> loop_run outcome \<times> task_store" where
  "terminal_events env ended final run st =
     (if ended = ''blocked'' then record_block env ''TaskRun finished blocked by a governed runtime decision.'' run st
      else sbind (emit_all env (loop_rid run)
        [(''SpeakerTruthGenerated'', ended,
            ''Speaker Truth state can be derived from timeline, validation, artifacts and completion.'',
            [(''execution_id'', execution_id_json run), (''terminal'', JStr ended)]),
         (final, ended, ''TaskRun finished with status '' @ ended @ ''.'', [])]) (\<lambda>_ st. (Inr run, st)) st)"

definition finish_loop_run ::
  "loop_env \<Rightarrow> loop_state \<Rightarrow> str option \<Rightarrow> task_store \<Rightarrow> (loop_run \<times> task_result option) outcome \<times> task_store" where
  "finish_loop_run env ls broken st =
     (let run = ls_run ls;
          proposed = loop_terminal ls broken;
          c = resolve_completion env run (ls_context ls) proposed;
          cx = complete_context c (ls_context ls);
          ended = (if proposed = ''completed'' \<and> tce_status c \<noteq> ''completed'' then tce_status c else proposed)
      in sbind (emit_all env (loop_rid run) (completion_events run c)) (\<lambda>_.
         (let reason = str_or (tr_cancellation_reason (lx_record run)) ''task_cancelled'';
              run1 = (if ended = ''cancelled''
                then run\<lparr>lx_graph := map_option (mark_cancelled (loop_now env) reason) (lx_graph run)\<rparr> else run)
          in sbind (lift_outcome (transition_to env ended run1)) (\<lambda>run2.
             sbind (lift_outcome (final_event_type ended)) (\<lambda>final.
             sbind (terminal_events env ended final run2) (\<lambda>run3 st.
               (let run4 = on_record (\<lambda>r. r\<lparr>tr_current_step_id := None\<rparr>) run3;
                    ((run5, result), st1) = finalize_result env run4 cx (save_loop_trace run4 (save_loop_run run4 st))
                in (Inr (run5, Some result), st1))))))) st)"

text \<open>A run that may not start is blocked, with a result that says so.\<close>

definition block_run ::
  "loop_env \<Rightarrow> str \<Rightarrow> str list \<Rightarrow> loop_run \<Rightarrow> task_store \<Rightarrow> (loop_run \<times> task_result option) outcome \<times> task_store" where
  "block_run env message reasons run st =
     sbind (lift_outcome (transition_to env ''blocked'' (add_blocked_reasons reasons run))) (\<lambda>run1.
     sbind (record_block env message run1) (\<lambda>run2 st.
       (let ((run3, result), st1) =
              finalize_result env run2 (build_context env run2) (save_loop_trace run2 (save_loop_run run2 st))
        in (Inr (run3, Some result), st1)))) st"

definition start_loop_run :: "loop_env \<Rightarrow> loop_run \<Rightarrow> task_store \<Rightarrow> loop_run outcome \<times> task_store" where
  "start_loop_run env run st =
     (let rid = loop_rid run; ex = (''execution_id'', execution_id_json run)
      in sbind (if tr_status (lx_record run) = ''created'' then
             sbind (lift_outcome (transition_to env ''queued'' run)) (\<lambda>run1.
             sbind (emit env rid ''run_queued'' ''queued'' ''TaskRun queued for explicit synchronous execution.'' None [])
               (\<lambda>_ st. (Inr run1, st)))
           else (\<lambda>st. (Inr run, st))) (\<lambda>run1.
         sbind (if opt_truthy (tr_approval_id (lx_record run)) then
             sbind (emit env rid ''ExecutionPlanApproved'' ''approved'' ''ExecutionPlan approval observed before execution.'' None
               [(''approval_id'', jopt (tr_approval_id (lx_record run))), ex]) (\<lambda>_ st. (Inr (), st))
           else (\<lambda>st. (Inr (), st))) (\<lambda>_.
         sbind (lift_outcome (transition_to env ''running'' run1)) (\<lambda>run2.
         sbind (emit_all env rid
             [(''ExecutionStarted'', ''running'', ''Canonical ExecutionPlan execution started.'', [ex]),
              (''run_started'', ''running'', ''Supervised read-only execution started.'', [])]) (\<lambda>_ st.
           (Inr run2, save_loop_run run2 st))))) st)"

definition loop_run_all ::
  "loop_env \<Rightarrow> loop_run \<Rightarrow> task_store \<Rightarrow> (loop_run \<times> task_result option) outcome \<times> task_store" where
  "loop_run_all env run st =
     (let rid = loop_rid run; (existing, st0) = get_result (le_store env) rid st
      in if run_is_terminal (le_lifecycle env) (tr_status (lx_record run)) \<or> tr_status (lx_record run) = ''running''
         then (Inr (run, existing), st0)
         else if timeline_bootstrap_reasons rid st0 \<noteq> [] then
           block_run env ''TaskRun blocked because the runtime timeline is incomplete.'' (timeline_bootstrap_reasons rid st0) run st0
         else
           (let reasons = le_check_run env run st0;
                run1 = run\<lparr>lx_trace := lx_trace run @ [guard_trace reasons ''run_guard_checked'' None]\<rparr>
            in if reasons \<noteq> [] then block_run env ''TaskRun blocked by initial guard.'' reasons run1 st0
               else sbind (start_loop_run env run1) (\<lambda>run2.
                 sbind (loop_steps env 0 (lx_steps run2)
                     \<lparr>ls_run = run2, ls_context = build_context env run2, ls_partial = False\<rparr>) (\<lambda>(ls, broken).
                   finish_loop_run env ls broken)) st0))"

text \<open>\<open>run\<close>: the run is read from the store first; \<open>load\<close> gives it with its plan, workflow and graph.\<close>

definition supervised_run ::
  "loop_env \<Rightarrow> (str \<Rightarrow> task_store \<Rightarrow> loop_run option) \<Rightarrow> str \<Rightarrow> task_store \<Rightarrow>
     (loop_run \<times> task_result option) outcome \<times> task_store" where
  "supervised_run env load rid st =
     (case load rid st of None \<Rightarrow> (Inl ''task_run_not_found'', st) | Some run \<Rightarrow> loop_run_all env run st)"
end
