(* ===== verification/Queue_Safety.thy ===== *)
theory Queue_Safety
  imports Task_Queue
begin

text \<open>
  What a reconciliation of the task queue guarantees: it touches only runs of the queue, it bounds the number of
  pending runs, it returns under the shipped policies, and what it does to a run whose approval was approved.
\<close>

section \<open>Frames\<close>

text \<open>
  \<open>within M\<close>: the call keeps the invariant of the store, neither adds nor removes a run, and changes no run outside
  \<open>M\<close>. \<open>M\<close> holds identifiers of stored runs.
\<close>

definition within :: "str set \<Rightarrow> task_store \<Rightarrow> task_store \<Rightarrow> bool" where
  "within M st st' \<longleftrightarrow> (store_ok st \<and> M \<subseteq> fst ` set (ts_runs st) \<longrightarrow>
     store_ok st' \<and> map fst (ts_runs st') = map fst (ts_runs st) \<and> (\<forall>rid. rid \<notin> M \<longrightarrow> find_run rid st' = find_run rid st))"

named_theorems within \<open>calls of the store and the relation \<open>within\<close>\<close>

lemma within_refl [within]: "within M st st"
  by (simp add: within_def)

lemma within_trans: "within M st1 st2 \<Longrightarrow> within M st2 st3 \<Longrightarrow> within M st1 st3"
  unfolding within_def by (metis image_set)

interpretation within_contract: store_contract "within M" for M
  by unfold_locales (rule within_refl, rule within_trans)

lemma within_same_runs: "ts_runs st' = ts_runs st \<Longrightarrow> store_moves st st' \<Longrightarrow> within M st st'"
  by (simp add: within_def find_run_def store_moves_def)

lemma find_run_key: "find_run rid st \<noteq> None \<longleftrightarrow> rid \<in> fst ` set (ts_runs st)"
  unfolding find_run_def by (metis map_of_eq_None_iff)

lemma within_put [within]: "tr_run_id r \<in> M \<Longrightarrow> within M st (put_run r st)"
  using store_moves_put_run [of st r]
  by (auto simp: within_def put_run_def store_moves_def find_run_def update_keys update_conv')

lemma append_task_event_keeps [simp]:
  "ts_runs (append_terminalization_ignored env rid a b t st) = ts_runs st"
  "ts_runs (snd (append_task_event env rid e st)) = ts_runs st"
  "ts_runs (snd (create_event env allowed rid type status message md st)) = ts_runs st"
proof -
  show i: "ts_runs (append_terminalization_ignored env rid a b t st) = ts_runs st" for a b t st
    by (simp add: append_terminalization_ignored_def store_event_def new_event_def Let_def split: option.split)
  show "ts_runs (snd (append_task_event env rid e st)) = ts_runs st" for e st
    by (simp add: append_task_event_def Let_def i store_event_runs split: option.split)
  then show "ts_runs (snd (create_event env allowed rid type status message md st)) = ts_runs st"
    by (simp add: create_event_def new_event_def case_prod_unfold Let_def)
qed

lemma within_append [within]:
  "within M st (append_new_event env rid type status message md st)"
  "within M st (append_if_none env rid result md st)"
  "within M st (snd (create_event env' allowed rid type status message md st))"
  by (simp_all add: within_same_runs append_new_event_keeps append_if_none_def store_moves)

lemma within_ok: "(store_ok st \<Longrightarrow> within M st st') \<Longrightarrow> within M st st'"
  by (auto simp: within_def)

lemma run_key: "store_ok st \<Longrightarrow> find_run rid st = Some r \<Longrightarrow> tr_run_id r = rid"
  by (simp add: store_ok_def index_ok_def)

lemma within_cohere [within]: "rid \<in> M \<Longrightarrow> within M st (cohere_result env rid result st)"
  by (rule within_ok)
    (auto simp: cohere_result_def Let_def cohere_run_def within_refl intro!: within_put dest: run_key split: option.split)

lemma within_save [within]: "rid \<in> M \<Longrightarrow> within M st (save_task_result env rid result st)"
  unfolding save_task_result_def
  by (rule within_trans [OF within_same_runs within_cohere]) (simp_all add: store_moves)

lemma within_ensure [within]: "rid \<in> M \<Longrightarrow> within M st (snd (ensure_terminal_result env rid given summary st))"
  by (simp add: ensure_terminal_result_def Let_def within_refl within_trans [OF within_save within_append(2)] split: option.split)

lemma within_stalled [within]:
  assumes "rid \<in> M" and "tr_run_id r = rid"
  shows "within M st (snd (terminalize_stalled env rid given source r artifact checkpoint t st))"
proof -
  have "within M st (append_new_event env rid ty' s' m' md' (save_task_result env rid result (put_run r1 (append_new_event env rid ty s m md st))))"
    if "tr_run_id r1 = rid" for ty s m md ty' s' m' md' result r1
    by (rule within_trans [OF within_append(1) within_trans [OF within_put within_trans [OF within_save [OF assms(1)] within_append(1)]]])
      (simp add: that assms(1))
  then show ?thesis unfolding terminalize_stalled_def Let_def snd_conv by (simp add: blocked_run_def assms(2))
qed

lemma within_terminalize [within]:
  assumes "rid \<in> M"
  shows "within M st (snd (terminalize_if_artifact_creation_stalled env rid max_silence given source st))"
  by (rule within_ok)
    (simp add: terminalize_if_artifact_creation_stalled_def Let_def assms within case_prod_unfold run_key split: option.split)

lemma run_transition_id: "run_transition pol now r target = Inr r' \<Longrightarrow> tr_run_id r' = tr_run_id r"
  by (auto simp: run_transition_def split: if_splits)

lemmas within_sbind = within_contract.moves_sbind

lemma within_event [within]: "within M st (snd (create_run_event env rid type status message md st))"
  by (simp add: create_run_event_def within)

lemma within_cancel [within]:
  assumes "rid \<in> M"
  shows "within M st (snd (cancel_task env rid reason who st))"
proof (rule within_ok)
  assume ok: "store_ok st"
  show ?thesis
  proof (cases "find_run rid st")
    case (Some r)
    then have "tr_run_id r = rid" using ok by (rule run_key [rotated])
    then show ?thesis using Some assms
      by (auto simp: cancel_task_def Let_def within run_transition_id intro!: within_sbind split: sum.split)
  qed (simp add: cancel_task_def within)
qed

lemma within_steps [within]:
  assumes "tr_run_id r \<in> M"
  shows "within M st (snd (wait_steps env r st))" "within M st (snd (resume_steps env r a st))"
    "within M st (snd (deny_steps env r st))"
proof -
  show "within M st (snd (wait_steps env r st))"
  proof (cases "run_transition (qe_lifecycle env) (se_now (qe_store env)) r ''waiting_input''")
    case (Inr r1)
    then have "within M st (put_run r1 st)" using assms by (simp add: within run_transition_id)
    then show ?thesis using Inr
      by (auto simp: wait_steps_def within intro!: within_trans [OF _ within_sbind])
  qed (simp add: wait_steps_def within)
  show "within M st (snd (resume_steps env r a st))"
  proof (cases "resumed_run env r a")
    case (Inr r1)
    then have "tr_run_id r1 = tr_run_id r"
      by (auto simp: resumed_run_def Let_def without_reason_def dest: run_transition_id split: if_splits)
    then have "within M st (put_run r1 st)" using assms by (simp add: within)
    then show ?thesis using Inr
      by (auto simp: resume_steps_def within intro!: within_trans [OF _ within_sbind] within_sbind)
  qed (simp add: resume_steps_def within)
  show "within M st (snd (deny_steps env r st))"
  proof (cases "denied_run env r")
    case (Inr r1)
    then have "tr_run_id r1 = tr_run_id r"
      by (auto simp: denied_run_def Let_def without_reason_def append_trace_def dest: run_transition_id split: if_splits sum.splits)
    then have "within M st' ((put_run r1 st')\<lparr>ts_traces := t\<rparr>)" for st' t
      using assms by (intro within_trans [OF within_put [of r1] within_same_runs]) (simp_all add: store_moves)
    then show ?thesis using Inr
      by (auto simp: deny_steps_def within intro!: within_sbind)
  qed (simp add: deny_steps_def within)
qed

section \<open>What a reconciliation touches\<close>

lemma on_approvals_store: "qs_store (snd (on_approvals f qs)) = qs_store qs"
  by (simp add: on_approvals_def case_prod_unfold Let_def)

lemma get_approval_store: "queue_get_approval env aid qs = (got, qs') \<Longrightarrow> qs_store qs' = qs_store qs"
  by (auto simp: queue_get_approval_def on_approvals_def case_prod_unfold Let_def split: option.splits)

lemma warn_store [simp]: "qs_store (warn w qs) = qs_store qs"
  by (simp add: warn_def)

lemma on_store_store: "qs_store (snd (on_store f qs)) = snd (f (qs_store qs))" "fst (on_store f qs) = fst (f (qs_store qs))"
  by (simp_all add: on_store_def case_prod_unfold Let_def)

lemma cancel_linked_store [simp]: "qs_store (cancel_linked_approval env approval reason qs) = qs_store qs"
proof -
  obtain got qs1 where g: "queue_get_approval env (the approval) qs = (got, qs1)" by fastforce
  show ?thesis
    by (simp add: cancel_linked_approval_def Let_def g get_approval_store [OF g] case_prod_unfold on_approvals_store
        split: option.split sum.split)
qed

lemma queue_cancel_run_store: "qs_store (queue_cancel_run env rid approval reason qs) = snd (cancel_task env rid reason queue_actor_json (qs_store qs))"
  by (simp add: queue_cancel_run_def case_prod_unfold Let_def on_store_store split: sum.split)

lemma resume_store: "qs_store (resume_approved_approval env r a qs) = snd (resume_steps env r a (qs_store qs))"
  by (simp add: resume_approved_approval_def case_prod_unfold Let_def on_store_store split: sum.split)

lemma deny_store: "qs_store (cancel_denied_approval env r qs) = snd (deny_steps env r (qs_store qs))"
  by (simp add: cancel_denied_approval_def case_prod_unfold Let_def on_store_store split: sum.split)

lemma resumed_run_id: "tr_run_id (changed_or r (resumed_run env r a)) = tr_run_id r"
  by (auto simp: changed_or_def resumed_run_def Let_def without_reason_def dest: run_transition_id split: if_splits sum.split)

lemma denied_run_id: "tr_run_id (changed_or r (denied_run env r)) = tr_run_id r"
  by (auto simp: changed_or_def denied_run_def Let_def without_reason_def append_trace_def dest: run_transition_id
      split: if_splits sum.splits)

lemma reconcile_approval_within:
  assumes "tr_run_id r \<in> M" and "reconcile_approval env r qs = (res, qs')"
  shows "within M (qs_store qs) (qs_store qs') \<and> (\<forall>r'. res = Inr r' \<longrightarrow> tr_run_id r' = tr_run_id r)"
proof -
  obtain got qs1 where g: "queue_get_approval env (the (tr_approval_id r)) qs = (got, qs1)" by fastforce
  have w: "case fst (wait_steps env r st) of Inl _ \<Rightarrow> True | Inr r' \<Rightarrow> tr_run_id r' = tr_run_id r" for st
    by (auto simp: wait_steps_def sbind_def dest: run_transition_id split: sum.splits prod.splits)
  have "within M (qs_store qs) (qs_store (snd (reconcile_approval env r qs)))"
    using assms(1)
    by (simp add: reconcile_approval_def g Let_def within on_store_store queue_cancel_run_store resume_store deny_store
        get_approval_store [OF g] split: option.split sum.split)
  moreover have "case fst (reconcile_approval env r qs) of Inl _ \<Rightarrow> True | Inr r' \<Rightarrow> tr_run_id r' = tr_run_id r"
    by (cases got) (simp_all add: reconcile_approval_def g Let_def on_store_store resumed_run_id denied_run_id w split: option.split)
  ultimately show ?thesis using assms(2) by (auto split: sum.splits)
qed

lemma reconcile_stall_within: "tr_run_id r \<in> M \<Longrightarrow> within M (qs_store qs) (qs_store (snd (reconcile_stall env r qs)))"
  by (simp add: reconcile_stall_def Let_def case_prod_unfold within on_store_store split: sum.split option.split)

lemma smap_approval_within:
  assumes "tr_run_id ` set rs \<subseteq> M" and "smap (reconcile_approval env) rs qs = (res, qs')"
  shows "within M (qs_store qs) (qs_store qs') \<and> (\<forall>rs'. res = Inr rs' \<longrightarrow> map tr_run_id rs' = map tr_run_id rs)"
  using assms
proof (induction rs arbitrary: qs res)
  case (Cons r rs)
  obtain res1 qs1 where s1: "reconcile_approval env r qs = (res1, qs1)" by fastforce
  note h = reconcile_approval_within [OF _ s1, of M]
  show ?case
  proof (cases res1)
    case (Inl e)
    then show ?thesis using Cons.prems h s1 by (auto simp: sbind_def)
  next
    case (Inr r')
    obtain res2 qs2 where s2: "smap (reconcile_approval env) rs qs1 = (res2, qs2)" by fastforce
    have "within M (qs_store qs1) (qs_store qs2) \<and> (\<forall>rs'. res2 = Inr rs' \<longrightarrow> map tr_run_id rs' = map tr_run_id rs)"
      using Cons.IH [of qs1 res2] Cons.prems s1 s2 Inr by (cases res2) (auto simp: sbind_def)
    then show ?thesis using Cons.prems h s1 s2 Inr by (cases res2) (auto simp: sbind_def intro: within_trans)
  qed
qed (simp add: within)

lemma smap_stall_within:
  assumes "tr_run_id ` set rs \<subseteq> M"
  shows "within M (qs_store qs) (qs_store (snd (smap (reconcile_stall env) rs qs)))"
  using assms
proof (induction rs arbitrary: qs)
  case (Cons r rs)
  obtain res1 qs1 where s1: "reconcile_stall env r qs = (res1, qs1)" by fastforce
  have h: "within M (qs_store qs) (qs_store qs1)" using reconcile_stall_within [of r M qs env] Cons.prems s1 by simp
  have t: "within M (qs_store qs1) (qs_store (snd (smap (reconcile_stall env) rs qs1)))" using Cons by simp
  show ?case using h within_trans [OF h t] s1 by (auto simp: sbind_def split: sum.splits prod.splits)
qed (simp add: within)

lemma cancel_all_within:
  "tr_run_id ` set rs \<subseteq> M \<Longrightarrow> within M (qs_store qs) (qs_store (cancel_all env reason rs qs))"
proof (induction rs arbitrary: qs)
  case (Cons r rs)
  let ?qs = "queue_cancel_run env (tr_run_id r) (tr_approval_id r) reason qs"
  have "within M (qs_store qs) (qs_store ?qs)" using Cons.prems by (simp add: queue_cancel_run_store within)
  moreover have "within M (qs_store ?qs) (qs_store (cancel_all env reason rs ?qs))" using Cons by simp
  ultimately show ?case using within_trans by (fastforce simp: cancel_all_def)
qed (simp add: cancel_all_def within)

text \<open>The runs that take part: those whose status is a queue state.\<close>

definition runs_in :: "str list \<Rightarrow> task_store \<Rightarrow> str set" where
  "runs_in states st = {rid. \<exists>r. find_run rid st = Some r \<and> tr_status r \<in> set states}"

text \<open>The keys of the directory of runs are distinct.\<close>

definition keyed :: "task_store \<Rightarrow> bool" where
  "keyed st \<longleftrightarrow> store_ok st \<and> distinct (map fst (ts_runs st))"

lemma keyed_find: "keyed st \<Longrightarrow> (rid, r) \<in> set (ts_runs st) \<longleftrightarrow> find_run rid st = Some r"
  by (simp add: keyed_def find_run_def map_of_eq_Some_iff)

lemma keyed_entry: "keyed st \<Longrightarrow> (rid, r) \<in> set (ts_runs st) \<Longrightarrow>
    tr_run_id r = rid \<and> map_of (ts_index st) rid = Some (tr_status r)"
  using keyed_find [of st rid r] by (simp add: keyed_def store_ok_def index_ok_def)

lemma within_keyed: "within M st st' \<Longrightarrow> keyed st \<Longrightarrow> M \<subseteq> fst ` set (ts_runs st) \<Longrightarrow>
    keyed st' \<and> (\<forall>rid. rid \<notin> M \<longrightarrow> find_run rid st' = find_run rid st)"
  by (simp add: within_def keyed_def)

lemma index_entries_id:
  assumes "keyed st" and "set rs \<subseteq> set (ts_runs st)"
  shows "index_entries rs st = st"
proof -
  have "fold (\<lambda>(rid, r) index. if map_of (ts_index st) rid = None then AList.update rid (tr_status r) index else index) rs ix = ix" for ix
    using assms(2) keyed_entry [OF assms(1)] by (induction rs) auto
  then show ?thesis by (simp add: index_entries_def)
qed

lemma queue_entry_keyed: "keyed st \<Longrightarrow> (rid, r) \<in> set (ts_runs st) \<Longrightarrow> queue_entry states st (rid, r) \<longleftrightarrow> tr_status r \<in> set states"
  using keyed_entry [of st rid r] by (simp add: queue_entry_def)

lemma light_run_fields [simp]: "tr_run_id (light_run env r) = tr_run_id r" "tr_status (light_run env r) = tr_status r"
    "tr_approval_id (light_run env r) = tr_approval_id r" "tr_created_at (light_run env r) = tr_created_at r"
  by (simp_all add: light_run_def)

lemma sorted_desc_simps [simp]: "set (sorted_desc f xs) = set xs" "length (sorted_desc f xs) = length xs"

  by (simp_all add: sorted_desc_def)

lemma sorted_desc_distinct: "distinct (map g (sorted_desc f xs)) = distinct (map g xs)"
  by (simp add: sorted_desc_def rev_map [symmetric]) (simp add: distinct_map)

text \<open>What a listing returns: the runs that take part, and all of them when they are at most a thousand.\<close>

lemma queue_list_spec:
  assumes "keyed (qs_store qs)" and "queue_list env qs = (runs, qs')"
  shows "qs_store qs' = qs_store qs" "qs' = qs" "tr_run_id ` set runs \<subseteq> runs_in (queue_states env) (qs_store qs)"
    "distinct (map tr_run_id runs)"
    "\<forall>r\<in>set runs. \<exists>s. find_run (tr_run_id r) (qs_store qs) = Some s \<and> r = light_run (qe_payloads env) s"
    "card (runs_in (queue_states env) (qs_store qs)) \<le> 1000 \<Longrightarrow> tr_run_id ` set runs = runs_in (queue_states env) (qs_store qs)"
proof -
  let ?st = "qs_store qs"
  let ?rs = "filter (queue_entry (queue_states env) ?st) (ts_runs ?st)"
  let ?all = "map (light_run (qe_payloads env) \<circ> snd) ?rs"
  have rs: "(rid, r) \<in> set ?rs \<longleftrightarrow> find_run rid ?st = Some r \<and> tr_status r \<in> set (queue_states env)" for rid r
    using keyed_find [OF assms(1)] queue_entry_keyed [OF assms(1)] by auto
  have key: "find_run rid ?st = Some r \<Longrightarrow> tr_run_id r = rid" for rid r
    using assms(1) by (auto simp: keyed_def dest: run_key)
  have runs: "runs = take 1000 (sorted_desc tr_created_at ?all)" and st: "qs' = qs"
    using assms(2) index_entries_id [OF assms(1), of ?rs] by (auto simp: queue_list_def on_store_def list_queue_runs_def Let_def)
  show "qs_store qs' = qs_store qs" "qs' = qs" by (simp_all add: st)
  have sub: "set runs \<subseteq> set ?all" unfolding runs using set_take_subset [of 1000 "sorted_desc tr_created_at ?all"] by simp
  have all: "x \<in> set ?all \<longleftrightarrow> (\<exists>rid r. find_run rid ?st = Some r \<and> tr_status r \<in> set (queue_states env) \<and> x = light_run (qe_payloads env) r)" for x
    using rs by (simp add: image_iff Bex_def del: set_filter)
  have ids: "tr_run_id ` set ?all = runs_in (queue_states env) ?st"
  proof (rule set_eqI)
    fix rid
    have "rid \<in> tr_run_id ` set ?all \<longleftrightarrow> (\<exists>x. x \<in> set ?all \<and> rid = tr_run_id x)" by blast
    also have "\<dots> \<longleftrightarrow> rid \<in> runs_in (queue_states env) ?st"
      unfolding all runs_in_def mem_Collect_eq using key by (metis light_run_fields(1))
    finally show "rid \<in> tr_run_id ` set ?all \<longleftrightarrow> rid \<in> runs_in (queue_states env) ?st" .
  qed
  show "tr_run_id ` set runs \<subseteq> runs_in (queue_states env) ?st" using sub ids by blast
  show "\<forall>r\<in>set runs. \<exists>s. find_run (tr_run_id r) ?st = Some s \<and> r = light_run (qe_payloads env) s"
    using sub all key by (metis light_run_fields(1) subset_iff)
  have "map tr_run_id ?all = map fst ?rs"
    using rs key by (auto simp: comp_def)
  moreover have "distinct (map fst ?rs)" using assms(1) by (simp add: keyed_def distinct_map_filter)
  ultimately have d: "distinct (map tr_run_id ?all)" by (simp only:)
  then have d': "distinct (map tr_run_id (sorted_desc tr_created_at ?all))"
    by (simp only: sorted_desc_distinct)
  then show "distinct (map tr_run_id runs)" unfolding runs take_map [symmetric] by (rule distinct_take)
  assume "card (runs_in (queue_states env) ?st) \<le> 1000"
  then have "length ?all \<le> 1000" using ids d by (metis distinct_card length_map set_map)
  then show "tr_run_id ` set runs = runs_in (queue_states env) ?st" using ids by (simp add: runs)
qed

text \<open>No run that takes part is added by a phase that keeps to the runs taking part.\<close>

lemma runs_in_within:
  assumes "within (runs_in states st) st st'" and "keyed st"
  shows "keyed st' \<and> runs_in states st' \<subseteq> runs_in states st \<and> (\<forall>rid. rid \<notin> runs_in states st \<longrightarrow> find_run rid st' = find_run rid st)"
proof -
  have "runs_in states st \<subseteq> fst ` set (ts_runs st)" unfolding runs_in_def using find_run_key by blast
  then have k: "keyed st'" "\<forall>rid. rid \<notin> runs_in states st \<longrightarrow> find_run rid st' = find_run rid st"
    using within_keyed [OF assms] by blast+
  then show ?thesis by (auto simp: runs_in_def)
qed

text \<open>What the phases of a reconciliation keep.\<close>

definition queue_keeps :: "queue_env \<Rightarrow> queue_state \<Rightarrow> queue_state \<Rightarrow> bool" where
  "queue_keeps env qs qs' \<longleftrightarrow> (keyed (qs_store qs) \<longrightarrow>
     keyed (qs_store qs') \<and> runs_in (queue_states env) (qs_store qs') \<subseteq> runs_in (queue_states env) (qs_store qs) \<and>
     (\<forall>rid. rid \<notin> runs_in (queue_states env) (qs_store qs) \<longrightarrow> find_run rid (qs_store qs') = find_run rid (qs_store qs)))"

lemma queue_keeps_trans: "queue_keeps env qs1 qs2 \<Longrightarrow> queue_keeps env qs2 qs3 \<Longrightarrow> queue_keeps env qs1 qs3"
  unfolding queue_keeps_def by (metis subset_iff)

lemma queue_keeps_same: "qs_store qs' = qs_store qs \<Longrightarrow> queue_keeps env qs qs'"
  by (simp add: queue_keeps_def)

lemma queue_keeps_within:
  "within (runs_in (queue_states env) (qs_store qs)) (qs_store qs) (qs_store qs') \<Longrightarrow> queue_keeps env qs qs'"
  using runs_in_within unfolding queue_keeps_def by blast

lemma queue_keeps_ok: "(keyed (qs_store qs) \<Longrightarrow> queue_keeps env qs qs') \<Longrightarrow> queue_keeps env qs qs'"
  by (auto simp: queue_keeps_def)

lemma queue_keeps_expired: "queue_keeps env qs (cancel_expired env qs)"
proof (rule queue_keeps_ok, rule queue_keeps_within)
  assume k: "keyed (qs_store qs)"
  obtain runs qs1 where l: "queue_list env qs = (runs, qs1)" by fastforce
  note s = queue_list_spec [OF k l]
  let ?M = "runs_in (queue_states env) (qs_store qs)"
  have "within ?M (qs_store qs) (qs_store (cancel_all env reason rs (qs\<lparr>qs_warnings := w\<rparr>)))" if "set rs \<subseteq> set runs" for rs reason w
    using cancel_all_within [of rs ?M "qs\<lparr>qs_warnings := w\<rparr>" env reason] that s(3) by auto
  then show "within ?M (qs_store qs) (qs_store (cancel_expired env qs))"
    unfolding cancel_expired_def l using s(2) by (auto simp: Let_def within)
qed

lemma queue_keeps_overflow: "queue_keeps env qs (cancel_overflow env qs)"
proof (rule queue_keeps_ok, rule queue_keeps_within)
  assume k: "keyed (qs_store qs)"
  obtain runs qs1 where l: "queue_list env qs = (runs, qs1)" by fastforce
  note s = queue_list_spec [OF k l]
  let ?M = "runs_in (queue_states env) (qs_store qs)"
  have "within ?M (qs_store qs) (qs_store (cancel_all env reason (take n (sort_key tr_created_at (filter P runs))) qs))" for n P reason
    using s(3) by (intro cancel_all_within) (fastforce dest: in_set_takeD)
  then show "within ?M (qs_store qs) (qs_store (cancel_overflow env qs))"
    unfolding cancel_overflow_def l using s(2) by (auto simp: Let_def within)
qed

lemma snapshot_item_store: "qs_store (snd (snapshot_item env r qs)) = qs_store qs"
proof -
  obtain got qs1 where g: "queue_get_approval env (the (tr_approval_id r)) qs = (got, qs1)" by fastforce
  show ?thesis
    by (cases got) (simp_all add: snapshot_item_def snapshot_approval_def sbind_def g get_approval_store [OF g])
qed

interpretation same_store: store_contract "\<lambda>qs qs'. qs_store qs' = qs_store qs"
  by unfold_locales simp_all

lemma build_snapshot_store:
  assumes "keyed (qs_store qs)"
  shows "qs_store (snd (build_snapshot env w qs)) = qs_store qs"
proof -
  obtain runs qs1 where l: "queue_list env qs = (runs, qs1)" by fastforce
  show ?thesis unfolding build_snapshot_def l Let_def prod.case queue_list_spec(2) [OF assms l]
    by (rule same_store.moves_sbind [OF same_store.moves_smap [OF snapshot_item_store]]) simp
qed

lemma queue_keeps_snapshot: "queue_keeps env qs (snd (build_snapshot env w qs))"
  by (rule queue_keeps_ok) (simp add: queue_keeps_same build_snapshot_store)

lemma queue_keeps_loops:
  assumes "keyed (qs_store qs)" and "queue_list env qs = (runs, qs0)"
    and "smap (reconcile_approval env) runs qs = (res, qs1)"
  shows "queue_keeps env qs qs1" and "res = Inr runs' \<Longrightarrow> queue_keeps env qs (snd (smap (reconcile_stall env) runs' qs1))"
proof -
  let ?M = "runs_in (queue_states env) (qs_store qs)"
  note s = queue_list_spec [OF assms(1,2)]
  from smap_approval_within [OF s(3) assms(3)]
  have w: "within ?M (qs_store qs) (qs_store qs1)" and ids: "res = Inr runs' \<Longrightarrow> map tr_run_id runs' = map tr_run_id runs" for runs'
    by auto
  from w show "queue_keeps env qs qs1" by (rule queue_keeps_within)
  assume "res = Inr runs'"
  then have "tr_run_id ` set runs' \<subseteq> ?M" using ids s(3) by (metis set_map)
  from within_trans [OF w smap_stall_within [OF this]] show "queue_keeps env qs (snd (smap (reconcile_stall env) runs' qs1))"
    by (rule queue_keeps_within)
qed

text \<open>
  The three ways a reconciliation ends: disabled, an exception in one of the loops, or all phases.
\<close>

definition fresh_log :: "queue_state \<Rightarrow> queue_state" where
  "fresh_log qs = qs\<lparr>qs_cancelled_runs := [], qs_cancelled_approvals := [], qs_warnings := []\<rparr>"

lemma reconcile_phases:
  assumes "keyed (qs_store qs)" and "reconcile env qs = (res, qs')" and "queue_enabled env"
  obtains (error) e where "res = Inl e" "queue_keeps env qs qs'"
    | (full) qs2 s where "queue_keeps env qs qs2" "res = Inr s"
      "build_snapshot env (qs_warnings (cancel_overflow env (cancel_expired env qs2))) (cancel_overflow env (cancel_expired env qs2)) = (Inr s, qs')"
proof -
  let ?qs0 = "fresh_log qs"
  have k: "keyed (qs_store ?qs0)" using assms(1) by (simp add: fresh_log_def)
  have q0: "queue_keeps env qs ?qs0" by (rule queue_keeps_same) (simp add: fresh_log_def)
  obtain runs qsl where l: "queue_list env ?qs0 = (runs, qsl)" by fastforce
  have qsl: "qsl = ?qs0" using queue_list_spec(2) [OF k l] .
  obtain r1 qs1 where a: "smap (reconcile_approval env) runs ?qs0 = (r1, qs1)" by fastforce
  note loops = queue_keeps_loops [OF k l a]
  show thesis
  proof (cases r1)
    case (Inl e)
    then show thesis using assms(2,3) l a qsl error queue_keeps_trans [OF q0 loops(1)]
      by (auto simp: reconcile_def fresh_log_def [symmetric] sbind_def)
  next
    case (Inr runs')
    obtain r2 qs2 where b: "smap (reconcile_stall env) runs' qs1 = (r2, qs2)" by fastforce
    have q2: "queue_keeps env qs qs2" using queue_keeps_trans [OF q0 loops(2) [OF Inr]] b by simp
    show thesis
    proof (cases r2)
      case (Inl e)
      then show thesis using assms(2,3) l a qsl b \<open>r1 = Inr runs'\<close> error q2
        by (auto simp: reconcile_def fresh_log_def [symmetric] sbind_def)
    next
      case r2: (Inr us)
      let ?qs3 = "cancel_overflow env (cancel_expired env qs2)"
      have f: "build_snapshot env (qs_warnings ?qs3) ?qs3 = (res, qs')" using assms(2,3) l a qsl b Inr r2
        by (simp add: reconcile_def fresh_log_def [symmetric] sbind_def Let_def)
      have "queue_keeps env qs qs'"
        using q2 queue_keeps_expired queue_keeps_overflow queue_keeps_snapshot [of env ?qs3 "qs_warnings ?qs3"] f
        by (metis queue_keeps_trans snd_conv)
      then show thesis using f full [OF q2] error by (cases res) auto
    qed
  qed
qed

text \<open>
  A reconciliation touches only the queue: a run whose status is neither pending nor active, a finished one in
  particular, is the same afterwards, no run joins the queue, and the invariant of the store is kept, also when the
  reconciliation is cut short by an exception.
\<close>

theorem reconcile_touches_only_queue:
  assumes "keyed (qs_store qs)" and "reconcile env qs = (res, qs')"
  shows "keyed (qs_store qs') \<and> runs_in (queue_states env) (qs_store qs') \<subseteq> runs_in (queue_states env) (qs_store qs)
    \<and> (find_run rid (qs_store qs) = Some r \<and> tr_status r \<notin> set (queue_states env) \<longrightarrow> find_run rid (qs_store qs') = Some r)"
proof -
  have "queue_keeps env qs qs'"
  proof (cases "queue_enabled env")
    case False
    then have "snd (build_snapshot env [''task_queue_disabled''] qs) = qs'"
      using assms(2) by (simp add: reconcile_def)
    then show ?thesis using queue_keeps_snapshot by blast
  next
    case True
    from assms True show ?thesis
    proof (cases rule: reconcile_phases)
      case (full qs2 s)
      then have "qs' = snd (build_snapshot env (qs_warnings (cancel_overflow env (cancel_expired env qs2)))
          (cancel_overflow env (cancel_expired env qs2)))" by simp
      then show ?thesis
        using full(1) queue_keeps_expired queue_keeps_overflow queue_keeps_snapshot by (metis queue_keeps_trans)
    qed
  qed
  then show ?thesis using assms(1) by (auto simp: queue_keeps_def runs_in_def)
qed

section \<open>The capacity of the queue\<close>

lemma create_run_event_ok:
  assumes "type \<in> set (qe_event_types env)"
  obtains e st' where "create_run_event env rid type status message md st = (Inr e, st')" "ts_runs st' = ts_runs st"
proof -
  obtain res st' where c: "create_run_event env rid type status message md st = (res, st')" by fastforce
  then have "ts_runs st' = ts_runs st" using append_task_event_keeps(3) unfolding create_run_event_def by (metis snd_conv)
  moreover have "\<exists>e. res = Inr e" using c assms by (auto simp: create_run_event_def create_event_def case_prod_unfold Let_def)
  ultimately show thesis using that c by blast
qed

text \<open>A policy under which every pending run can be cancelled, as the shipped one.\<close>

definition cancels_pending :: "queue_env \<Rightarrow> bool" where
  "cancels_pending env \<longleftrightarrow>
     set (pending_states env) \<subseteq> {''created'', ''queued'', ''waiting_input''} \<and>
     (\<forall>s\<in>set (pending_states env). run_can_cancel (qe_lifecycle env) s \<and> run_can_transition (qe_lifecycle env) s ''cancelled'') \<and>
     ''run_cancel_requested'' \<in> set (qe_event_types env) \<and> ''run_cancelled'' \<in> set (qe_event_types env)"

lemma cancel_task_pending:
  assumes "cancels_pending env" and "store_ok st" and "find_run rid st = Some r" and "is_pending env r"
  shows "\<exists>c st' r'. cancel_task env rid reason who st = (Inr c, st') \<and> find_run rid st' = Some r' \<and> tr_status r' = ''cancelled''
    \<and> (\<forall>rid'. rid' \<noteq> rid \<longrightarrow> find_run rid' st' = find_run rid' st)"
proof -
  note id = run_key [OF assms(2,3)]
  have p: "tr_status r \<in> {''created'', ''queued'', ''waiting_input''}" "run_can_cancel (qe_lifecycle env) (tr_status r)"
      "run_can_transition (qe_lifecycle env) (tr_status r) ''cancelled''"
      "''run_cancel_requested'' \<in> set (qe_event_types env)" "''run_cancelled'' \<in> set (qe_event_types env)"
    using assms(1,4) by (auto simp: cancels_pending_def is_pending_def)
  let ?r1 = "r\<lparr>tr_cancellation_requested := True, tr_cancellation_reason := Some reason, tr_revision := tr_revision r + 1\<rparr>"
  obtain r2 where r2: "run_transition (qe_lifecycle env) (se_now (qe_store env)) ?r1 ''cancelled'' = Inr r2"
      "tr_status r2 = ''cancelled''" "tr_run_id r2 = rid"
    using p(1,3) id by (auto simp: run_transition_def)
  obtain e1 st1 where e1: "create_run_event env rid ''run_cancel_requested'' (tr_status r) ''TaskRun cancellation requested.''
      [(''reason'', JStr reason), (''actor'', who)] st = (Inr e1, st1)" "ts_runs st1 = ts_runs st"
    using create_run_event_ok [OF p(4)] by blast
  obtain e2 st2 where e2: "create_run_event env rid ''run_cancelled'' ''cancelled'' ''TaskRun cancelled before the next step.'' [] st1
      = (Inr e2, st2)" "ts_runs st2 = ts_runs st1"
    using create_run_event_ok [OF p(5)] by blast
  have "\<exists>c. cancel_task env rid reason who st = (Inr c, put_run r2 st2)"
    using p(1,2) r2(1) e1(1) e2(1) by (simp add: cancel_task_def assms(3) Let_def sbind_def)
  moreover have "find_run rid (put_run r2 st2) = Some r2" using r2(3) by (simp add: find_put_run)
  moreover have "find_run rid' (put_run r2 st2) = find_run rid' st" if "rid' \<noteq> rid" for rid'
    using that r2(3) e1(2) e2(2) by (simp add: find_put_run) (simp add: find_run_def)
  ultimately show ?thesis using r2(2) by blast
qed

lemma cancelled_not_pending: "cancels_pending env \<Longrightarrow> ''cancelled'' \<notin> set (pending_states env)"
  by (auto simp: cancels_pending_def)

lemma cancel_all_pending:
  assumes "cancels_pending env" and "store_ok (qs_store qs)"
    and "distinct (map tr_run_id rs)" and "tr_run_id ` set rs \<subseteq> runs_in (pending_states env) (qs_store qs)"
  shows "runs_in (pending_states env) (qs_store (cancel_all env reason rs qs)) =
      runs_in (pending_states env) (qs_store qs) - tr_run_id ` set rs"
  using assms(2-4)
proof (induction rs arbitrary: qs)
  case (Cons r rs)
  let ?P = "runs_in (pending_states env)" and ?rid = "tr_run_id r"
  let ?qs1 = "queue_cancel_run env ?rid (tr_approval_id r) reason qs"
  obtain s where s: "find_run ?rid (qs_store qs) = Some s" "is_pending env s"
    using Cons.prems(3) by (auto simp: runs_in_def is_pending_def)
  from cancel_task_pending [OF assms(1) Cons.prems(1) s, of reason queue_actor_json] obtain c st' r' where
    c: "cancel_task env ?rid reason queue_actor_json (qs_store qs) = (Inr c, st')" "find_run ?rid st' = Some r'"
      "tr_status r' = ''cancelled''" "\<forall>rid'. rid' \<noteq> ?rid \<longrightarrow> find_run rid' st' = find_run rid' (qs_store qs)" by blast
  have st: "qs_store ?qs1 = st'" by (simp add: queue_cancel_run_store c(1))
  have "?P st' = ?P (qs_store qs) - {?rid}"
    using c(2-4) cancelled_not_pending [OF assms(1)] unfolding runs_in_def by (auto split: if_splits) (metis option.inject)+
  moreover have "store_ok st'"
    using within_cancel [of ?rid "{?rid}" "qs_store qs" env reason queue_actor_json] Cons.prems(1) c(1) s(1) find_run_key
    by (auto simp: within_def)
  moreover have "tr_run_id ` set rs \<subseteq> ?P (qs_store qs) - {?rid}" using Cons.prems(2,3) by (simp add: subset_Diff_insert)
  ultimately have "?P (qs_store (cancel_all env reason rs ?qs1)) = ?P (qs_store qs) - {?rid} - tr_run_id ` set rs"
    using Cons.IH [of ?qs1] Cons.prems(2) by (simp add: st)
  then show ?case by (auto simp: cancel_all_def)
qed (simp add: cancel_all_def)

lemma runs_in_finite: "finite (runs_in states st)"
proof (rule finite_subset)
  show "runs_in states st \<subseteq> fst ` set (ts_runs st)" unfolding runs_in_def using find_run_key by blast
qed simp

lemma cancel_overflow_bound:
  assumes "keyed (qs_store qs)" and "cancels_pending env" and "overflow_strategy env = ''cancel_oldest_pending''"
    and "card (runs_in (queue_states env) (qs_store qs)) \<le> 1000"
  shows "int (card (runs_in (pending_states env) (qs_store (cancel_overflow env qs)))) \<le> max_pending_tasks env"
proof -
  obtain runs qs1 where l: "queue_list env qs = (runs, qs1)" by fastforce
  note s = queue_list_spec [OF assms(1) l]
  let ?P = "runs_in (pending_states env) (qs_store qs)"
  let ?pending = "filter (is_pending env) runs"
  let ?n = "nat (max 0 (int (length ?pending) - max_pending_tasks env))"
  let ?rs = "take ?n (sort_key tr_created_at ?pending)"
  have pend: "tr_run_id ` set ?pending = ?P"
  proof (rule set_eqI, rule iffI)
    fix rid
    assume "rid \<in> tr_run_id ` set ?pending"
    then obtain r where "r \<in> set runs" "is_pending env r" "rid = tr_run_id r" by auto
    then show "rid \<in> ?P" using s(5) by (auto simp: runs_in_def is_pending_def)
  next
    fix rid
    assume "rid \<in> ?P"
    then obtain t where t: "find_run rid (qs_store qs) = Some t" "is_pending env t" by (auto simp: runs_in_def is_pending_def)
    then have "rid \<in> runs_in (queue_states env) (qs_store qs)" by (auto simp: runs_in_def is_pending_def queue_states_def)
    then obtain r where "r \<in> set runs" "rid = tr_run_id r" using s(6) [OF assms(4)] by auto
    moreover have "is_pending env r" using s(5) calculation t by (fastforce simp: is_pending_def)
    ultimately show "rid \<in> tr_run_id ` set ?pending" by auto
  qed
  have d: "distinct (map tr_run_id ?pending)" using s(4) by (rule distinct_map_filter)
  then have len: "card ?P = length ?pending" using pend by (metis distinct_card length_map set_map)
  show ?thesis
  proof (cases "?n = 0")
    case True
    then show ?thesis using s(2) len by (simp add: cancel_overflow_def l Let_def)
  next
    case False
    have dr: "distinct (map tr_run_id ?rs)" and sub: "tr_run_id ` set ?rs \<subseteq> ?P"
    proof -
      have "distinct (map tr_run_id (sort_key tr_created_at ?pending))" using d by (simp add: distinct_map)
      then show "distinct (map tr_run_id ?rs)" unfolding take_map [symmetric] by (rule distinct_take)
      show "tr_run_id ` set ?rs \<subseteq> ?P" unfolding pend [symmetric] using set_take_subset [of ?n "sort_key tr_created_at ?pending"] by auto
    qed
    have "0 \<le> max_pending_tasks env" by (simp add: max_pending_tasks_def)
    then have n: "?n \<le> length ?pending" "int (length ?pending) - int ?n \<le> max_pending_tasks env" by auto
    have "card (set (map tr_run_id ?rs)) = ?n" using distinct_card [OF dr] n(1) by simp
    then have "card (?P - tr_run_id ` set ?rs) = length ?pending - ?n"
      using sub len by (simp add: card_Diff_subset)
    moreover have "qs_store (cancel_overflow env qs) = qs_store (cancel_all env ''queue_capacity_exceeded'' ?rs qs)"
      using False s(2) assms(3) by (simp add: cancel_overflow_def l Let_def)
    moreover have "store_ok (qs_store qs)" using assms(1) by (simp add: keyed_def)
    ultimately show ?thesis using cancel_all_pending [OF assms(2) _ dr sub] n by (simp add: of_nat_diff)
  qed
qed

section \<open>Approved runs\<close>

lemma create_run_event_log:
  assumes "type \<in> set (qe_event_types env)" and "type \<notin> set terminal_event_types"
  shows "\<exists>e e' st'. create_run_event env rid type status message md st = (Inr e', st')
    \<and> get_task_events rid st' = get_task_events rid st @ [e] \<and> te_type e = type \<and> ts_runs st' = ts_runs st"
proof -
  obtain e st1 where n: "new_event (qe_store env) rid type status (take 1000 message) md st = (e, st1)" by fastforce
  note s = new_event_simps [OF n]
  have "\<not> is_terminal_event e" using assms(2) s(1) by (simp add: is_terminal_event_def)
  then have a: "append_task_event (qe_store env) rid e st1 = store_event rid e st1" by (simp add: append_task_event_def)
  obtain e' st' where b: "store_event rid e st1 = (e', st')" by fastforce
  have "create_run_event env rid type status message md st = (Inr e', st')"
    using assms(1) by (simp add: create_run_event_def create_event_def n a b)
  moreover have "get_task_events rid st' = get_task_events rid st @ [e\<lparr>te_sequence := next_sequence (get_task_events rid st)\<rparr>]"
    using store_event_events [of rid rid e st1] b s(3) by simp
  moreover have "ts_runs st' = ts_runs st" using store_event_runs(1) [of rid e st1] b s(4) by simp
  ultimately show ?thesis using s(1)
    by (intro exI [of _ "e\<lparr>te_sequence := next_sequence (get_task_events rid st)\<rparr>"] exI [of _ e'] exI [of _ st']) simp
qed

text \<open>
  Reconciling a run that waits, or is running, with an approval that was approved is not idempotent and not
  lossless: every pass appends the two events \<open>approval_approved\<close> and \<open>task_resumed_after_approval\<close> again, leaves
  the status and the approval as they are, and replaces the stored run by the lightweight copy, so that a list of
  more than a hundred produced artifacts becomes empty.
\<close>

theorem approved_run_rewritten:
  assumes "store_ok (qs_store qs)" and "find_run rid (qs_store qs) = Some r" and "tr_approval_id r = Some aid" and "aid \<noteq> []"
    and "map_of (aw_approvals (qs_approvals qs)) aid = Some a \<and> qe_unreadable env aid = None" and "aq_status a = ''approved''"
    and "qe_lifecycle env = shipped_lifecycle" and "tr_status r \<in> {''queued'', ''waiting_input'', ''running''}"
    and "''approval_approved'' \<in> set (qe_event_types env)" and "''task_resumed_after_approval'' \<in> set (qe_event_types env)"
    and "reconcile_approval env (light_run (qe_payloads env) r) qs = (res, qs')"
  shows "\<exists>r' e1 e2. find_run rid (qs_store qs') = Some r' \<and> tr_status r' = tr_status r \<and> tr_auto_run_requested r'
    \<and> tr_produced_artifacts r' = tr_produced_artifacts (light_run (qe_payloads env) r)
    \<and> (100 < length (tr_produced_artifacts r) \<longrightarrow> tr_produced_artifacts r' = [])
    \<and> get_task_events rid (qs_store qs') = get_task_events rid (qs_store qs) @ [e1, e2]
    \<and> te_type e1 = ''approval_approved'' \<and> te_type e2 = ''task_resumed_after_approval''
    \<and> qs_approvals qs' = qs_approvals qs"
proof -
  let ?l = "light_run (qe_payloads env) r"
  let ?aid = "the (tr_approval_id ?l)"
  have id: "tr_run_id r = rid" using assms(1,2) by (rule run_key)
  have "queue_get_approval env aid qs = (Inr (Some a), qs\<lparr>qs_calls := Suc (qs_calls qs)\<rparr>)"
    using assms(5,6) by (simp add: queue_get_approval_def on_approvals_def get_approval_def reconcile_expiration_def)
  then have g: "queue_get_approval env ?aid qs = (Inr (Some a), qs\<lparr>qs_calls := Suc (qs_calls qs)\<rparr>)" (is "_ = (_, ?qs1)")
    using assms(3) by simp
  have live: "\<not> run_is_terminal (qe_lifecycle env) (tr_status r)"
    using assms(7,8) by (auto simp: run_is_terminal_def shipped_lifecycle_def)
  have res: "qs' = resume_approved_approval env ?l a ?qs1"
    using assms(3,4,6,11) g live by (simp add: reconcile_approval_def)
  obtain r1 where r1: "resumed_run env ?l a = Inr r1" "tr_run_id r1 = rid" "tr_status r1 = tr_status r" "tr_auto_run_requested r1"
      "tr_produced_artifacts r1 = tr_produced_artifacts ?l"
    using assms(8) id by (auto simp: resumed_run_def Let_def without_reason_def)
  have not_terminal: "''approval_approved'' \<notin> set terminal_event_types" "''task_resumed_after_approval'' \<notin> set terminal_event_types"
    by (simp_all add: terminal_event_types_def)
  obtain e1 x1 st1 where e1: "create_run_event env rid ''approval_approved'' (tr_status r1)
      ''Approval aprovado; TaskRun liberada para execucao governada.'' (approval_metadata r1) (put_run r1 (qs_store qs)) = (Inr x1, st1)"
      "get_task_events rid st1 = get_task_events rid (put_run r1 (qs_store qs)) @ [e1]" "te_type e1 = ''approval_approved''"
      "ts_runs st1 = ts_runs (put_run r1 (qs_store qs))"
    using create_run_event_log [OF assms(9) not_terminal(1)] by blast
  obtain e2 x2 st2 where e2: "create_run_event env rid ''task_resumed_after_approval'' (tr_status r1)
      ''TaskRun marcada para retomada pela fila governada.''
      (approval_metadata r1 @ [(''auto_run_requested'', JBool True)]) st1 = (Inr x2, st2)"
      "get_task_events rid st2 = get_task_events rid st1 @ [e2]" "te_type e2 = ''task_resumed_after_approval''"
      "ts_runs st2 = ts_runs st1"
    using create_run_event_log [OF assms(10) not_terminal(2)] by blast
  have "resume_steps env ?l a (qs_store qs) = (Inr (), st2)"
    using r1(1) e1(1) e2(1) id by (simp add: resume_steps_def sbind_def)
  then have q: "qs_store qs' = st2" "qs_approvals qs' = qs_approvals qs"
    unfolding res by (simp_all add: resume_approved_approval_def on_store_def)
  have "find_run rid (qs_store qs') = Some r1" using e1(4) e2(4) r1(2) by (simp add: q find_run_def put_run_def update_conv')
  moreover have "100 < length (tr_produced_artifacts r) \<Longrightarrow> tr_produced_artifacts ?l = []"
    by (simp add: light_run_def light_value_def spills_def should_spill_def HEAVY_RUNTIME_KEYS_def project_payload_ref json_elems_def)
  ultimately show ?thesis using r1 e1(2,3) e2(2,3) q by auto
qed

section \<open>The life cycle as a contract\<close>

interpretation run_life: status_lifecycle "run_can_transition shipped_lifecycle" "run_is_terminal shipped_lifecycle"
proof
  fix a b
  assume "run_is_terminal shipped_lifecycle a"
  then show "\<not> run_can_transition shipped_lifecycle a b"
    unfolding run_is_terminal_def shipped_lifecycle_def lifecycle_policy.simps set_simps
    by (elim insertE emptyE) (simp_all add: run_can_transition_def)
qed

text \<open>Every transition the service grants is a path of the life cycle, so a final status is never left.\<close>

lemma run_transition_path:
  "run_transition shipped_lifecycle now r target = Inr r' \<Longrightarrow> run_life.path (tr_status r) (tr_status r')"
  by (auto simp: run_transition_def intro: run_life.path_refl run_life.path_step [OF run_life.path_refl] split: if_splits)

lemma run_transition_final:
  "run_transition shipped_lifecycle now r target = Inr r' \<Longrightarrow> run_is_terminal shipped_lifecycle (tr_status r) \<Longrightarrow> tr_status r' = tr_status r"
  using run_transition_path run_life.path_from_final by blast

text \<open>The shipped policies let every pending run be cancelled.\<close>

lemma shipped_can_cancel:
  "s \<in> {''created'', ''queued'', ''waiting_input''} \<Longrightarrow>
    run_can_cancel shipped_lifecycle s \<and> run_can_transition shipped_lifecycle s ''cancelled''"
  by (elim insertE emptyE) (simp_all add: run_can_cancel_def run_can_transition_def shipped_lifecycle_def)

lemma shipped_cancels_pending:
  assumes "qe_lifecycle env = shipped_lifecycle" and "set (pending_states env) \<subseteq> {''created'', ''queued'', ''waiting_input''}"
    and "{''run_cancel_requested'', ''run_cancelled''} \<subseteq> set (qe_event_types env)"
  shows "cancels_pending env"
  unfolding cancels_pending_def
proof (intro conjI ballI)
  fix s
  assume "s \<in> set (pending_states env)"
  then have "s \<in> {''created'', ''queued'', ''waiting_input''}" using assms(2) by (rule subsetD [rotated])
  from shipped_can_cancel [OF this]
  show "run_can_cancel (qe_lifecycle env) s" "run_can_transition (qe_lifecycle env) s ''cancelled''" by (simp_all add: assms(1))
qed (use assms(2,3) in simp_all)

section \<open>Examples\<close>

text \<open>Two queued runs and room for one; a running run with an approved approval and 101 artifacts.\<close>

definition sample_queue_env :: queue_env where
  "sample_queue_env =
     \<lparr>qe_store = demo_env, qe_payloads = sample_env, qe_lifecycle = shipped_lifecycle,
      qe_event_types = [''run_cancel_requested'', ''run_cancelled'', ''approval_approved'', ''task_resumed_after_approval'', ''run_waiting_input''],
      qe_settings = [(''max_pending_tasks'', JInt 1)], qe_stall_limit = 60000000, qe_digest = (\<lambda>_. []),
      qe_approval_uid = (\<lambda>_ _. []), qe_block_cause = (\<lambda>_ _ _. JNull), qe_dump_approval = (\<lambda>_. JNull), qe_unreadable = (\<lambda>_. None)\<rparr>"

definition sample_waiting :: "str \<Rightarrow> str \<Rightarrow> run_record" where
  "sample_waiting rid created = (demo_run ''queued'')\<lparr>tr_run_id := rid, tr_created_at := created\<rparr>"

definition sample_queue :: queue_state where
  "sample_queue =
     \<lparr>qs_store = put_run (sample_waiting ''b'' ''2'') (put_run (sample_waiting ''a'' ''1'') (put_run (demo_run ''completed'') empty_store)),
      qs_approvals = example_asked, qs_calls = 0, qs_cancelled_runs = [], qs_cancelled_approvals = [], qs_warnings = []\<rparr>"

lemma sample_queue_keyed: "keyed (qs_store sample_queue)"
proof -
  have "store_step\<^sup>*\<^sup>* empty_store (qs_store sample_queue)"
    unfolding sample_queue_def by (simp, meson step_update rtranclp.rtrancl_into_rtrancl rtranclp.rtrancl_refl)
  then have "store_ok (qs_store sample_queue)" using store_steps_move empty_store_ok by (auto simp: store_moves_def)
  then show ?thesis
    by (simp add: keyed_def sample_queue_def put_run_def empty_store_def sample_waiting_def demo_run_def)
qed

lemma sample_env_fields:
  "qe_lifecycle sample_queue_env = shipped_lifecycle" "''run_waiting_input'' \<in> set (qe_event_types sample_queue_env)"
  "se_parse_time (qe_store sample_queue_env) s \<noteq> None" "queue_enabled sample_queue_env"
  "overflow_strategy sample_queue_env = ''cancel_oldest_pending''" "max_pending_tasks sample_queue_env = 1"
  "pending_states sample_queue_env = [''waiting_input'', ''queued'', ''created'']" "active_states sample_queue_env = [''running'']"
  by (simp_all add: sample_queue_env_def demo_env_def queue_enabled_def overflow_strategy_def max_pending_tasks_def pending_states_def
      active_states_def setting_bool_def setting_int_def setting_states_def json_get_or_def json_get_def py_str_def json_or_def
      jstrs_def json_elems_def)

theorem reconcile_touches_only_queue_witness:
  "find_run ''task_run_1'' (qs_store (snd (reconcile sample_queue_env sample_queue))) = Some (demo_run ''completed'')"
proof -
  have "find_run ''task_run_1'' (qs_store sample_queue) = Some (demo_run ''completed'')"
    by (simp add: sample_queue_def find_run_def put_run_def empty_store_def sample_waiting_def demo_run_def)
  moreover have "tr_status (demo_run ''completed'') \<notin> set (queue_states sample_queue_env)"
    by (simp add: queue_states_def sample_env_fields demo_run_def)
  ultimately show ?thesis
    using reconcile_touches_only_queue [OF sample_queue_keyed, of sample_queue_env "fst (reconcile sample_queue_env sample_queue)"
        "snd (reconcile sample_queue_env sample_queue)"] by simp
qed

lemma sample_queue_cancels: "cancels_pending sample_queue_env"
  by (rule shipped_cancels_pending) (simp_all add: sample_env_fields(1,7), simp add: sample_queue_env_def)

definition sample_running :: run_record where
  "sample_running = (demo_run ''running'')\<lparr>tr_approval_id := Some ''approval_2'', tr_produced_artifacts := replicate 101 (JInt 1)\<rparr>"

definition sample_approved :: queue_state where
  "sample_approved = sample_queue\<lparr>qs_store := put_run sample_running empty_store,
     qs_approvals := example_asked\<lparr>aw_approvals := [(''approval_2'', example_approval\<lparr>aq_status := ''approved''\<rparr>)]\<rparr>\<rparr>"

theorem approved_run_rewritten_witness:
  "\<exists>r' e1 e2. find_run ''task_run_1'' (qs_store (snd (reconcile_approval sample_queue_env (light_run sample_env sample_running) sample_approved))) = Some r'
    \<and> tr_status r' = ''running'' \<and> tr_produced_artifacts r' = []
    \<and> get_task_events ''task_run_1'' (qs_store (snd (reconcile_approval sample_queue_env (light_run sample_env sample_running) sample_approved))) = [e1, e2]"
proof -
  obtain res qs' where r: "reconcile_approval sample_queue_env (light_run sample_env sample_running) sample_approved = (res, qs')" by fastforce
  have "store_step\<^sup>*\<^sup>* empty_store (put_run sample_running empty_store)" by (blast intro: step_update)
  then have ok: "store_ok (qs_store sample_approved)"
    using store_steps_move empty_store_ok by (auto simp: store_moves_def sample_approved_def)
  have f: "find_run ''task_run_1'' (qs_store sample_approved) = Some sample_running" "get_task_events ''task_run_1'' (qs_store sample_approved) = []"
    by (simp_all add: sample_approved_def find_run_def get_task_events_def put_run_def empty_store_def sample_running_def demo_run_def)
  have s: "tr_status sample_running = ''running''" "tr_approval_id sample_running = Some ''approval_2''"
      "length (tr_produced_artifacts sample_running) = 101" by (simp_all add: sample_running_def demo_run_def)
  have a: "map_of (aw_approvals (qs_approvals sample_approved)) ''approval_2'' = Some (example_approval\<lparr>aq_status := ''approved''\<rparr>) \<and>
      qe_unreadable sample_queue_env ''approval_2'' = None"
    by (simp add: sample_approved_def sample_queue_env_def)
  have "qe_payloads sample_queue_env = sample_env" "''approval_approved'' \<in> set (qe_event_types sample_queue_env)"
      "''task_resumed_after_approval'' \<in> set (qe_event_types sample_queue_env)" by (simp_all add: sample_queue_env_def)
  with approved_run_rewritten [OF ok f(1) s(2) _ a _ sample_env_fields(1), of res qs'] show ?thesis
    by (simp add: r s f(2)) blast
qed

end
