(* ===== verification/Loop_Safety.thy ===== *)
theory Loop_Safety
  imports Supervised_Loop Queue_Safety
begin

text \<open>
  What the supervised loop guarantees, whatever happens to the store while its steps execute: the executor is
  consulted only for steps that the guard and the workflow let through, the event log stays in order, a
  completed run has no required step that failed and no output missing. And what it does not: a request to
  cancel that arrives while a step executes is lost.
\<close>

section \<open>Events leave the runs alone\<close>

lemma emit_runs [simp]: "ts_runs (snd (emit env rid type status message step md st)) = ts_runs st"
  by (simp add: emit_def new_event_def case_prod_unfold Let_def)

lemma sbind_Inr_iff:
  "sbind m f st = (Inr y, st') \<longleftrightarrow> (\<exists>x st1. m st = (Inr x, st1) \<and> f x st1 = (Inr y, st'))"
  by (auto simp: sbind_def split: prod.splits sum.splits)

lemma lift_outcome_Inr_iff [simp]: "lift_outcome m st = (Inr x, st') \<longleftrightarrow> m = Inr x \<and> st' = st"
  by (auto simp: lift_outcome_def)

lemma emit_Inr_runs: "emit env rid type status message step md st = (Inr x, st') \<Longrightarrow> ts_runs st' = ts_runs st"
  using emit_runs by (metis snd_conv)

lemma emit_all_runs: "emit_all env rid es st = (Inr x, st') \<Longrightarrow> ts_runs st' = ts_runs st"
  by (induction env rid es st rule: emit_all.induct) (auto simp: sbind_Inr_iff dest: emit_Inr_runs)

section \<open>The executor\<close>

text \<open>Nothing but \<open>execute_step\<close> reads \<open>le_execute\<close>.\<close>

lemma without_executor:
  "emit (env\<lparr>le_execute := x\<rparr>) = emit env"
  "loop_now (env\<lparr>le_execute := x\<rparr>) = loop_now env"
  by (simp_all add: emit_def loop_now_def fun_eq_iff)

lemma emit_all_without_executor: "emit_all (env\<lparr>le_execute := x\<rparr>) rid es st = emit_all env rid es st"
  by (induction env rid es st rule: emit_all.induct) (simp_all add: without_executor sbind_def fun_eq_iff split: prod.splits sum.splits)

lemma refuse_without_executor:
  "refuse_step (env\<lparr>le_execute := x\<rparr>) i s reasons ls st = refuse_step env i s reasons ls st"
  "skip_step (env\<lparr>le_execute := x\<rparr>) i s reasons ls st = skip_step env i s reasons ls st"
  "block_on_dependencies (env\<lparr>le_execute := x\<rparr>) i s reasons ls st = block_on_dependencies env i s reasons ls st"
  by (simp_all add: refuse_step_def skip_step_def block_on_dependencies_def without_executor Let_def)

text \<open>
  C12. A step that the guard refuses, or whose workflow phase may not start, is not executed: whatever the executor
  would do, the loop behaves the same.
\<close>

theorem refused_step_not_executed:
  assumes "check_step (le_guard env) (tr_cancellation_requested (lx_record (observe_cancellation st (ls_run ls)))) s i
             (le_elapsed env i) \<noteq> [] \<or>
           (\<forall>w rs. can_start_phase (le_workflow env) (lx_workflow (ls_run ls)) (stp_step_id s) \<noteq> Inr (w, True, rs))"
  shows "loop_step (env\<lparr>le_execute := x\<rparr>) i s ls st = loop_step env i s ls st"
proof -
  have w: "lx_workflow (observe_cancellation st (ls_run ls)) = lx_workflow (ls_run ls)"
    by (simp add: observe_cancellation_def on_record_def split: option.split)
  show ?thesis
  proof (cases "check_step (le_guard env) (tr_cancellation_requested (lx_record (observe_cancellation st (ls_run ls)))) s i
             (le_elapsed env i) = []")
    case False
    then show ?thesis by (simp add: loop_step_def Let_def refuse_without_executor)
  next
    case True
    with assms have no: "\<forall>w rs. can_start_phase (le_workflow env) (lx_workflow (ls_run ls)) (stp_step_id s) \<noteq> Inr (w, True, rs)"
      by simp
    show ?thesis
    proof (cases "can_start_phase (le_workflow env) (lx_workflow (ls_run ls)) (stp_step_id s)")
      case (Inl e)
      with True w show ?thesis by (simp add: loop_step_def Let_def sbind_def lift_outcome_def)
    next
      case (Inr r)
      then obtain w' rs where "r = (w', False, rs)" using no by (cases r) auto
      with Inr True w show ?thesis
        by (simp add: loop_step_def Let_def sbind_def lift_outcome_def refuse_without_executor)
    qed
  qed
qed

section \<open>The event log\<close>

lemma store_moves_emit [store_moves]: "store_moves st (snd (emit env rid type status message step md st))"
proof (cases "type \<in> set (le_event_types env)")
  case True
  obtain e st1 where n: "new_event (le_store env) rid type status (take 1000 message) md st = (e, st1)" by fastforce
  then have "snd (emit env rid type status message step md st) =
      snd (append_task_event (le_store env) rid (e\<lparr>te_step_id := step\<rparr>) st1)"
    using True by (simp add: emit_def split: prod.split)
  then show ?thesis using store_moves_trans [OF new_event_simps(7) [OF n] store_moves_append_task_event] by simp
qed (simp add: emit_def store_moves_refl)

lemmas store_moves_sbind [store_moves] = log_contract.moves_sbind

lemma store_moves_pair [store_moves]:
  "(\<And>a b. store_moves st (snd (f a b st))) \<Longrightarrow> store_moves st (snd ((case x of (a, b) \<Rightarrow> f a b) st))"
  by (cases x) simp

lemma store_moves_lift [store_moves]: "store_moves st (snd (lift_outcome r st))"
  by (simp add: lift_outcome_def store_moves_refl)

lemma store_moves_saving [store_moves]: "store_moves st (save_loop_run run st)" "store_moves st (save_loop_trace run st)"
  by (simp_all add: save_loop_run_def save_loop_trace_def store_moves)

lemma store_moves_saved [store_moves]: "store_moves st (save_loop_trace run (save_loop_run run st))"
  using store_moves_saving store_moves_trans by blast

lemma store_moves_emit_all [store_moves]: "store_moves st (snd (emit_all env rid es st))"
  by (induction env rid es st rule: emit_all.induct) (auto intro!: store_moves)

lemma store_moves_refuse [store_moves]: "store_moves st (snd (refuse_step env i s reasons ls st))"
  by (simp add: refuse_step_def Let_def store_moves)

lemma store_moves_skip [store_moves]: "store_moves st (snd (skip_step env i s reasons ls st))"
  by (simp add: skip_step_def Let_def store_moves)

lemma store_moves_block [store_moves]: "store_moves st (snd (block_on_dependencies env i s reasons ls st))"
  by (simp add: block_on_dependencies_def Let_def store_moves)

lemma store_moves_begin [store_moves]: "store_moves st (snd (begin_step env i s run st))"
  by (simp add: begin_step_def Let_def store_moves)

lemma store_moves_end [store_moves]: "store_moves st (snd (end_step env i s out ls st))"
  by (simp add: end_step_def Let_def store_moves)

lemma store_moves_record_block [store_moves]: "store_moves st (snd (record_block env message run st))"
  by (simp add: record_block_def Let_def store_moves)

lemma store_moves_finalize [store_moves]: "store_moves st (snd (finalize_result env run cx st))"
  using store_moves_trans [OF store_moves_saved store_moves_save_result]
  by (simp add: finalize_result_def Let_def)

text \<open>\<open>well_behaved\<close>: whatever happens to the store while a step executes respects its event log.\<close>

definition well_behaved :: "loop_env \<Rightarrow> bool" where
  "well_behaved env \<longleftrightarrow> (\<forall>run s cx st. store_moves st (snd (le_execute env run s cx st)))"

lemma store_moves_execute:
  "well_behaved env \<Longrightarrow> store_moves st (snd (execute_step env i s ls st))"
  by (simp add: execute_step_def store_moves well_behaved_def)

lemma store_moves_step:
  "well_behaved env \<Longrightarrow> store_moves st (snd (loop_step env i s ls st))"
  by (auto simp: loop_step_def Let_def store_moves_execute intro!: store_moves split: if_split)

lemma store_moves_steps:
  assumes "well_behaved env"
  shows "store_moves st (snd (loop_steps env i steps ls st))"
proof (induction steps arbitrary: i ls st)
  case (Cons s steps)
  show ?case
    unfolding loop_steps.simps
    by (rule store_moves_sbind) (auto simp: store_moves_step [OF assms] Cons.IH store_moves_refl split: signal.split prod.split)
qed (simp add: store_moves_refl)

lemma store_moves_finalized [store_moves]:
  "store_moves st (snd (finalize_result env run cx (save_loop_trace run' (save_loop_run run' st))))"
  using store_moves_trans [OF store_moves_saved store_moves_finalize] .

lemma store_moves_finish [store_moves]: "store_moves st (snd (finish_loop_run env ls broken st))"
  by (auto simp: finish_loop_run_def terminal_events_def Let_def case_prod_unfold intro!: store_moves)

lemma store_moves_block_run [store_moves]: "store_moves st (snd (block_run env message reasons run st))"
  by (auto simp: block_run_def Let_def case_prod_unfold intro!: store_moves)

lemma store_moves_start [store_moves]: "store_moves st (snd (start_loop_run env run st))"
  by (auto simp: start_loop_run_def Let_def intro!: store_moves)

lemma store_moves_run:
  assumes "well_behaved env"
  shows "store_moves st (snd (loop_run_all env run st))"
proof -
  obtain existing st0 where g: "get_result (le_store env) (loop_rid run) st = (existing, st0)" by fastforce
  then have "store_moves st st0" using store_moves_get_result [of st "le_store env" "loop_rid run"] by simp
  moreover have "store_moves st0 (snd (loop_run_all env run st))"
    using assms by (auto simp: loop_run_all_def Let_def g store_moves_steps intro!: store_moves)
  ultimately show ?thesis by (rule store_moves_trans)
qed

text \<open>
  The loop respects the event log of the store: if what happens to the store while a step executes does, then
  whatever the run, its plan and the outcomes are, and even when the loop raises, every event log only grows,
  its numbers stay contiguous, it has at most one terminal event, and the index agrees with the stored runs.
\<close>

theorem loop_respects_event_log:
  assumes "well_behaved env" and "store_ok st"
  shows "store_ok (snd (supervised_run env load i st)) \<and>
    prefix (get_task_events rid st) (get_task_events rid (snd (supervised_run env load i st)))"
proof -
  have "store_moves st (snd (supervised_run env load i st))"
    using store_moves_run [OF assms(1)] by (simp add: supervised_run_def store_moves split: option.split)
  then show ?thesis using assms(2) by (simp add: store_moves_def)
qed

section \<open>What a step leaves in the store\<close>

lemma record_updates [simp]:
  "lx_record (on_record f run) = f (lx_record run)" "lx_record (set_step i s run) = lx_record run"
  "loop_rid (set_step i s run) = loop_rid run" "lx_record (bump_revision run) = (lx_record run)\<lparr>tr_revision := tr_revision (lx_record run) + 1\<rparr>"
  "lx_record (add_blocked_reasons rs run) = (lx_record run)\<lparr>tr_blocked_reasons := py_unique (tr_blocked_reasons (lx_record run) @ rs)\<rparr>"
  "lx_steps (on_record f run) = lx_steps run" "lx_steps (set_step i s run) = (lx_steps run)[i := s]"
  "lx_steps (bump_revision run) = lx_steps run" "lx_steps (add_blocked_reasons rs run) = lx_steps run"
  by (simp_all add: on_record_def set_step_def bump_revision_def add_blocked_reasons_def loop_rid_def)

lemma save_loop_run_find [simp]: "find_run (tr_run_id (lx_record run)) (save_loop_run run st) = Some (lx_record run)"
  by (simp add: save_loop_run_def find_put_run)

text \<open>A step that was executed leaves the loop's own copy of the run in the store.\<close>

lemma begin_step_run:
  assumes "begin_step env i s run st = (Inr (run1, s1), st1)"
  shows "tr_cancellation_requested (lx_record run1) = tr_cancellation_requested (lx_record run)"
    "tr_run_id (lx_record run1) = tr_run_id (lx_record run)" "lx_steps run1 = (lx_steps run)[i := s1]"
    "stp_required s1 = stp_required s" "stp_step_id s1 = stp_step_id s"
  using assms by (auto simp: begin_step_def Let_def sbind_Inr_iff)

lemma end_step_run:
  assumes "end_step env i s out ls st = (Inr (ls', sig), st')"
  shows "find_run (tr_run_id (lx_record (ls_run ls))) st' = Some (lx_record (ls_run ls'))"
    "tr_cancellation_requested (lx_record (ls_run ls')) = tr_cancellation_requested (lx_record (ls_run ls))"
    "tr_run_id (lx_record (ls_run ls')) = tr_run_id (lx_record (ls_run ls))"
    "lx_steps (ls_run ls') = (lx_steps (ls_run ls))[i := finished_step env s out]"
    "ls_partial ls' = (ls_partial ls \<or> (otc_status out = ''partial'' \<and> stp_required s))"
    "sig = (if otc_status out \<in> {''failed'', ''blocked''} \<and> stp_required s then Break (otc_status out) else Continue)"
proof -
  from assms obtain run3 st2 where r: "ls_run ls' = run3" "st' = save_loop_run run3 st2"
    and f: "tr_cancellation_requested (lx_record run3) = tr_cancellation_requested (lx_record (ls_run ls))"
      "tr_run_id (lx_record run3) = tr_run_id (lx_record (ls_run ls))"
      "lx_steps run3 = (lx_steps (ls_run ls))[i := finished_step env s out]"
    and p: "ls_partial ls' = (ls_partial ls \<or> (otc_status out = ''partial'' \<and> stp_required s))"
      "sig = (if otc_status out \<in> {''failed'', ''blocked''} \<and> stp_required s then Break (otc_status out) else Continue)"
    by (fastforce simp: end_step_def Let_def sbind_Inr_iff split: if_splits)
  from save_loop_run_find [of run3 st2] r f p show
    "find_run (tr_run_id (lx_record (ls_run ls))) st' = Some (lx_record (ls_run ls'))"
    "tr_cancellation_requested (lx_record (ls_run ls')) = tr_cancellation_requested (lx_record (ls_run ls))"
    "tr_run_id (lx_record (ls_run ls')) = tr_run_id (lx_record (ls_run ls))"
    "lx_steps (ls_run ls') = (lx_steps (ls_run ls))[i := finished_step env s out]"
    "ls_partial ls' = (ls_partial ls \<or> (otc_status out = ''partial'' \<and> stp_required s))"
    "sig = (if otc_status out \<in> {''failed'', ''blocked''} \<and> stp_required s then Break (otc_status out) else Continue)"
    by simp_all
qed


lemma observe_keeps:
  "tr_cancellation_requested (lx_record run) = b \<Longrightarrow> find_run (loop_rid run) st = Some (lx_record run) \<Longrightarrow> \<not> b
   \<Longrightarrow> observe_cancellation st run = run"
  by (simp add: observe_cancellation_def)

lemma execute_step_Inr:
  assumes "execute_step env i s ls st = (Inr (ls', sig), st')"
  obtains run1 s1 st1 out outputs st2 where
    "begin_step env i s (ls_run ls) st = (Inr (run1, s1), st1)"
    "le_execute env run1 s1 (ls_context ls) st1 = (Inr (out, outputs), st2)"
    "end_step env i s1 out (ls\<lparr>ls_run := run1, ls_context := (ls_context ls)\<lparr>cx_outputs := outputs\<rparr>\<rparr>) st2
       = (Inr (ls', sig), st')"
  using assms by (force simp: execute_step_def sbind_Inr_iff)

text \<open>
  C30. A request to cancel that arrives while a step executes is lost. The loop writes its own copy of the run back when
  the step has finished, and only then reads the request: whatever the store held at the end of the
  execution, afterwards the stored run is the loop's copy, with no request to cancel, and the next step finds
  none.
\<close>

theorem cancellation_during_step_lost:
  assumes "execute_step env i s ls st = (Inr (ls', sig), st')"
    and "\<not> tr_cancellation_requested (lx_record (ls_run ls))"
  shows "find_run (loop_rid (ls_run ls)) st' = Some (lx_record (ls_run ls')) \<and>
    \<not> tr_cancellation_requested (lx_record (ls_run ls')) \<and> observe_cancellation st' (ls_run ls') = ls_run ls'"
proof -
  obtain run1 s1 st1 out outputs st2 where b: "begin_step env i s (ls_run ls) st = (Inr (run1, s1), st1)"
    and e: "end_step env i s1 out (ls\<lparr>ls_run := run1, ls_context := (ls_context ls)\<lparr>cx_outputs := outputs\<rparr>\<rparr>) st2
       = (Inr (ls', sig), st')"
    using assms(1) by (rule execute_step_Inr)
  note steps = begin_step_run [OF b] end_step_run [OF e]
  then have "find_run (loop_rid (ls_run ls)) st' = Some (lx_record (ls_run ls'))"
    "\<not> tr_cancellation_requested (lx_record (ls_run ls'))" "loop_rid (ls_run ls') = loop_rid (ls_run ls)"
    using assms(2) by (simp_all add: loop_rid_def)
  then show ?thesis by (simp add: observe_keeps)
qed

section \<open>What a completed run guarantees\<close>

text \<open>The step was executed, and its status is the outcome's.\<close>

definition executed :: "loop_env \<Rightarrow> run_step \<Rightarrow> bool" where
  "executed env s \<longleftrightarrow> (\<exists>run s0 cx st out outputs st'. le_execute env run s0 cx st = (Inr (out, outputs), st') \<and>
     stp_step_id s0 = stp_step_id s \<and> otc_status out = stp_status s)"

definition step_done :: "loop_env \<Rightarrow> bool \<Rightarrow> run_step \<Rightarrow> bool" where
  "step_done env partial s \<longleftrightarrow> (stp_required s \<longrightarrow>
     executed env s \<and> stp_status s \<notin> {''failed'', ''blocked''} \<and> (stp_status s = ''partial'' \<longrightarrow> partial))"

lemma step_done_mono: "step_done env p s \<Longrightarrow> (p \<Longrightarrow> q) \<Longrightarrow> step_done env q s"
  by (auto simp: step_done_def)

lemma observe_steps [simp]: "lx_steps (observe_cancellation st run) = lx_steps run"
  by (simp add: observe_cancellation_def split: option.split)

lemma finished_step_simps [simp]:
  "stp_step_id (finished_step env s out) = stp_step_id s" "stp_required (finished_step env s out) = stp_required s"
  "stp_status (finished_step env s out) = otc_status out"
  by (simp_all add: finished_step_def)

lemma execute_step_done:
  assumes "execute_step env i s ls st = (Inr (ls', sig), st')"
  shows "\<exists>s'. lx_steps (ls_run ls') = (lx_steps (ls_run ls))[i := s'] \<and> stp_required s' = stp_required s \<and>
    (sig = Continue \<longrightarrow> step_done env (ls_partial ls') s') \<and> (ls_partial ls \<longrightarrow> ls_partial ls') \<and>
    sig \<in> {Continue, Break ''failed'', Break ''blocked'', Break ''cancelled''}"
proof -
  obtain run1 s1 st1 out outputs st2 where b: "begin_step env i s (ls_run ls) st = (Inr (run1, s1), st1)"
    and x: "le_execute env run1 s1 (ls_context ls) st1 = (Inr (out, outputs), st2)"
    and e: "end_step env i s1 out (ls\<lparr>ls_run := run1, ls_context := (ls_context ls)\<lparr>cx_outputs := outputs\<rparr>\<rparr>) st2
       = (Inr (ls', sig), st')"
    using assms by (rule execute_step_Inr)
  have "executed env (finished_step env s1 out)" unfolding executed_def using x by fastforce
  then show ?thesis using begin_step_run [OF b] end_step_run [OF e] by (auto simp: step_done_def)
qed

lemma loop_step_done:
  assumes "loop_step env i s ls st = (Inr (ls', sig), st')"
  shows "\<exists>s'. lx_steps (ls_run ls') = (lx_steps (ls_run ls))[i := s'] \<and>
    (sig = Continue \<longrightarrow> step_done env (ls_partial ls') s') \<and> (ls_partial ls \<longrightarrow> ls_partial ls') \<and>
    sig \<in> {Continue, Break ''failed'', Break ''blocked'', Break ''cancelled''}"
proof -
  have r: "refuse_step env i s reasons l st = (Inr (ls', sig), st') \<Longrightarrow>
    (\<exists>s'. lx_steps (ls_run ls') = (lx_steps (ls_run l))[i := s']) \<and> ls_partial ls' = ls_partial l \<and>
    sig \<in> {Break ''blocked'', Break ''cancelled''}" for reasons l
    by (auto simp: refuse_step_def Let_def sbind_Inr_iff split: if_splits)
  have b: "block_on_dependencies env i s reasons l st = (Inr (ls', sig), st') \<Longrightarrow>
    (\<exists>s'. lx_steps (ls_run ls') = (lx_steps (ls_run l))[i := s']) \<and> ls_partial ls' = ls_partial l \<and>
    sig = Break ''blocked''" for reasons l
    by (auto simp: block_on_dependencies_def Let_def sbind_Inr_iff)
  have k: "skip_step env i s reasons l st = (Inr (ls', sig), st') \<Longrightarrow>
    (\<exists>s'. lx_steps (ls_run ls') = (lx_steps (ls_run l))[i := s'] \<and> stp_required s' = stp_required s) \<and>
    ls_partial ls' = ls_partial l \<and> sig = Continue" for reasons l
    by (auto simp: skip_step_def Let_def sbind_Inr_iff)
  from assms show ?thesis
    by (auto simp: loop_step_def Let_def sbind_Inr_iff step_done_def split: if_splits
        dest!: r b k execute_step_done)
qed

lemma loop_steps_done:
  assumes "loop_steps env i steps ls st = (Inr (ls', broken), st')"
    and "\<forall>j < i. step_done env (ls_partial ls) (lx_steps (ls_run ls) ! j)"
    and "i + length steps = length (lx_steps (ls_run ls))"
  shows "broken \<in> {None, Some ''failed'', Some ''blocked'', Some ''cancelled''} \<and>
    (broken = None \<longrightarrow> (\<forall>s \<in> set (lx_steps (ls_run ls')). step_done env (ls_partial ls') s))"
  using assms
proof (induction steps arbitrary: i ls st)
  case Nil
  then show ?case by (auto simp: in_set_conv_nth)
next
  case (Cons s steps)
  from Cons.prems(1) obtain ls1 sig st1 where s: "loop_step env i s ls st = (Inr (ls1, sig), st1)"
    and rest: "(case sig of Continue \<Rightarrow> loop_steps env (Suc i) steps ls1 | Break ended \<Rightarrow> (\<lambda>st. (Inr (ls1, Some ended), st))) st1
      = (Inr (ls', broken), st')"
    by (auto simp: sbind_Inr_iff)
  from loop_step_done [OF s] obtain s' where s': "lx_steps (ls_run ls1) = (lx_steps (ls_run ls))[i := s']"
    "sig = Continue \<longrightarrow> step_done env (ls_partial ls1) s'" "ls_partial ls \<longrightarrow> ls_partial ls1"
    "sig \<in> {Continue, Break ''failed'', Break ''blocked'', Break ''cancelled''}" by blast
  show ?case
  proof (cases sig)
    case Continue
    have "\<forall>j < Suc i. step_done env (ls_partial ls1) (lx_steps (ls_run ls1) ! j)"
      using s' Continue Cons.prems(2,3) by (auto simp: less_Suc_eq nth_list_update intro: step_done_mono)
    moreover have "loop_steps env (Suc i) steps ls1 st1 = (Inr (ls', broken), st')" using rest Continue by simp
    moreover have "Suc i + length steps = length (lx_steps (ls_run ls1))" using Cons.prems(3) s'(1) by simp
    ultimately show ?thesis by (intro Cons.IH)
  next
    case (Break ended)
    with rest s'(4) show ?thesis by auto
  qed
qed

lemma transition_to_Inr:
  "transition_to env target run = Inr run' \<Longrightarrow> tr_status (lx_record run') = target \<and> lx_steps run' = lx_steps run \<and>
    loop_rid run' = loop_rid run"
  by (auto simp: transition_to_def obind_def run_transition_def loop_rid_def split: if_splits sum.splits)

lemma record_block_Inr:
  "record_block env message run st = (Inr run', st') \<Longrightarrow> lx_record run' = lx_record run \<and> lx_steps run' = lx_steps run"
  by (auto simp: record_block_def Let_def sbind_Inr_iff)

lemma finalize_run [simp]:
  "lx_record (fst (fst (finalize_result env run cx st))) = lx_record run"
  "lx_steps (fst (fst (finalize_result env run cx st))) = lx_steps run"
  by (simp_all add: finalize_result_def Let_def)

text \<open>The status the run ends with: the completion contract may turn \<open>completed\<close> into something else, nothing more.\<close>

definition ended_status :: "loop_env \<Rightarrow> loop_state \<Rightarrow> str option \<Rightarrow> str" where
  "ended_status env ls broken =
     (let proposed = loop_terminal ls broken; c = resolve_completion env (ls_run ls) (ls_context ls) proposed
      in if proposed = ''completed'' then tce_status c else proposed)"

lemma terminal_events_Inr:
  "terminal_events env ended final run st = (Inr run', st') \<Longrightarrow> lx_record run' = lx_record run \<and> lx_steps run' = lx_steps run"
  by (auto simp: terminal_events_def sbind_Inr_iff dest: record_block_Inr split: if_splits)

lemma finish_loop_run_Inr:
  assumes "finish_loop_run env ls broken st = (Inr (run', r), st')"
  shows "tr_status (lx_record run') = ended_status env ls broken" "lx_steps run' = lx_steps (ls_run ls)" "r \<noteq> None"
proof -
  have e: "(if loop_terminal ls broken = ''completed'' \<and> tce_status c \<noteq> ''completed'' then tce_status c else loop_terminal ls broken)
    = (if loop_terminal ls broken = ''completed'' then tce_status c else loop_terminal ls broken)" for c by auto
  from assms have "tr_status (lx_record run') = ended_status env ls broken \<and> lx_steps run' = lx_steps (ls_run ls) \<and> r \<noteq> None"
    unfolding finish_loop_run_def ended_status_def
    by (auto simp: Let_def sbind_Inr_iff case_prod_unfold e split: if_splits dest!: transition_to_Inr terminal_events_Inr)
  then show "tr_status (lx_record run') = ended_status env ls broken" "lx_steps run' = lx_steps (ls_run ls)" "r \<noteq> None" by auto
qed

lemma block_run_Inr:
  "block_run env message reasons run st = (Inr (run', r), st') \<Longrightarrow> tr_status (lx_record run') = ''blocked'' \<and> r \<noteq> None"
  by (auto simp: block_run_def sbind_Inr_iff Let_def case_prod_unfold dest!: transition_to_Inr record_block_Inr)

lemma completion_status:
  "tce_status (resolve_completion env run cx proposed) =
     (if proposed \<in> {''failed'', ''blocked''} then proposed
      else if \<exists>c \<in> set (completion_criteria env run (cx_outputs cx)). tcc_required c \<and> tcc_status c \<noteq> ''fulfilled'' then ''partial''
      else if proposed = ''partial'' then ''partial'' else ''completed'')"
  by (auto simp: resolve_completion_def Let_def filter_empty_conv)

text \<open>
  C27. When the loop finishes, the run is completed exactly when it was not cut short, no required step was
  partial, nothing was limited or blocked, and every criterion of the run's completion contract is fulfilled
  by the outputs in the context.
\<close>

theorem completed_exactly:
  assumes "finish_loop_run env ls broken st = (Inr (run', r), st')" and "broken \<in> {None, Some ''failed'', Some ''blocked'', Some ''cancelled''}"
  shows "tr_status (lx_record run') = ''completed'' \<longleftrightarrow>
    broken = None \<and> \<not> ls_partial ls \<and> cx_limitations (ls_context ls) = [] \<and> cx_blocked_items (ls_context ls) = [] \<and>
    (\<forall>c \<in> set (completion_criteria env (ls_run ls) (cx_outputs (ls_context ls))). tcc_required c \<longrightarrow> tcc_status c = ''fulfilled'')"
proof -
  let ?t = "loop_terminal ls broken"
  have t: "?t = ''completed'' \<longleftrightarrow> broken = None \<and> \<not> ls_partial ls \<and> cx_limitations (ls_context ls) = [] \<and> cx_blocked_items (ls_context ls) = []"
    using assms(2) by (auto simp: loop_terminal_def)
  show ?thesis unfolding finish_loop_run_Inr(1) [OF assms(1)]
    using t by (auto simp: ended_status_def Let_def completion_status)
qed

lemma start_loop_run_steps: "start_loop_run env run st = (Inr run', st') \<Longrightarrow> lx_steps run' = lx_steps run"
  by (auto simp: start_loop_run_def Let_def sbind_Inr_iff split: if_splits dest!: transition_to_Inr)

lemma loop_run_all_Inr:
  assumes "loop_run_all env run st = (Inr (run', r), st')" and "tr_status (lx_record run') = ''completed''"
    and "tr_status (lx_record run) \<noteq> ''running''" "\<not> run_is_terminal (le_lifecycle env) (tr_status (lx_record run))"
  obtains run2 st2 ls broken st3 where
    "loop_steps env 0 (lx_steps run2) \<lparr>ls_run = run2, ls_context = build_context env run2, ls_partial = False\<rparr> st2
       = (Inr (ls, broken), st3)"
    "finish_loop_run env ls broken st3 = (Inr (run', r), st')"
proof -
  obtain existing st0 where g: "get_result (le_store env) (loop_rid run) st = (existing, st0)" by fastforce
  have nb: "block_run env m rs x st0 \<noteq> (Inr (run', r), st')" for m rs x using assms(2) block_run_Inr by fastforce
  from assms(1,3,4) nb obtain run1 where "sbind (start_loop_run env run1) (\<lambda>run2. sbind (loop_steps env 0 (lx_steps run2)
        \<lparr>ls_run = run2, ls_context = build_context env run2, ls_partial = False\<rparr>) (\<lambda>(ls, broken). finish_loop_run env ls broken)) st0
      = (Inr (run', r), st')"
    unfolding loop_run_all_def Let_def g prod.case by (metis (no_types, lifting))
  then show thesis using that unfolding sbind_Inr_iff by fast
qed

lemma ended_completed: "ended_status env ls broken = ''completed'' \<Longrightarrow> loop_terminal ls broken = ''completed''"
  unfolding ended_status_def Let_def by metis

text \<open>
  C4. A run that the loop completes has executed every required step, and none of them failed, was blocked or was
  partial.
\<close>

theorem completed_run_executed_required_steps:
  assumes "loop_run_all env run st = (Inr (run', r), st')" and "tr_status (lx_record run') = ''completed''"
    and "tr_status (lx_record run) \<noteq> ''running''" "\<not> run_is_terminal (le_lifecycle env) (tr_status (lx_record run))"
    and "s \<in> set (lx_steps run')" "stp_required s"
  shows "stp_status s \<notin> {''failed'', ''blocked'', ''partial''} \<and>
    (\<exists>run0 s0 cx st0 out outputs st1. le_execute env run0 s0 cx st0 = (Inr (out, outputs), st1) \<and>
       stp_step_id s0 = stp_step_id s \<and> otc_status out = stp_status s)"
proof -
  obtain run2 st2 ls broken st3 where
    l: "loop_steps env 0 (lx_steps run2) \<lparr>ls_run = run2, ls_context = build_context env run2, ls_partial = False\<rparr> st2
       = (Inr (ls, broken), st3)"
    and f: "finish_loop_run env ls broken st3 = (Inr (run', r), st')"
    using assms(1-4) by (rule loop_run_all_Inr)
  from loop_steps_done [OF l] have b: "broken \<in> {None, Some ''failed'', Some ''blocked'', Some ''cancelled''}"
    and d: "broken = None \<Longrightarrow> \<forall>s \<in> set (lx_steps (ls_run ls)). step_done env (ls_partial ls) s"
    by simp_all
  have "loop_terminal ls broken = ''completed''"
    using finish_loop_run_Inr(1) [OF f] assms(2) by (intro ended_completed [of env]) simp
  with b have "broken = None" "\<not> ls_partial ls" by (auto simp: loop_terminal_def split: if_splits)
  with d have "step_done env False s" using assms(5) by (simp add: finish_loop_run_Inr(2) [OF f])
  then show ?thesis using assms(6) by (auto simp: step_done_def executed_def)
qed

text \<open>
  A cancelled run may be reported as a success: when the loop was cut short by a cancellation and no output of the
  completion contract is missing (there is none to miss for a contract type the policy does not name), the run
  ends cancelled, and the completion that goes into its result says \<open>completed\<close> and that it is safe to report success.
\<close>

theorem cancelled_run_reports_success:
  assumes "finish_loop_run env ls (Some ''cancelled'') st = (Inr (run', r), st')"
    and "completion_contract (le_completion env) (lx_contract_type (ls_run ls)) = []"
  shows "tr_status (lx_record run') = ''cancelled'' \<and>
    (let c = resolve_completion env (ls_run ls) (ls_context ls) ''cancelled''
     in tce_status c = ''completed'' \<and> tce_safe_to_report_success c \<and>
        (\<exists>run2 st2. r = Some (le_result env run2 (complete_context c (ls_context ls)) (length (get_task_events (loop_rid run2) st2)) st2)))"
proof -
  let ?c = "resolve_completion env (ls_run ls) (ls_context ls) ''cancelled''"
  have none: "completion_criteria env (ls_run ls) outputs = []" for outputs
    using assms(2) by (simp add: completion_criteria_def required_outputs_def deliverable_checks_enabled_def json_get_def
        json_dict_def json_elems_def)
  have t: "loop_terminal ls (Some ''cancelled'') = ''cancelled''" by (simp add: loop_terminal_def)
  have c: "tce_status ?c = ''completed''" "tce_safe_to_report_success ?c"
    by (simp_all add: resolve_completion_def Let_def none)
  have "\<exists>run2 st2. r = Some (snd (fst (finalize_result env run2 (complete_context ?c (ls_context ls)) st2)))"
    using assms(1) by (auto simp: finish_loop_run_def t Let_def sbind_Inr_iff case_prod_unfold)
  then have "\<exists>run2 st2. r = Some (le_result env run2 (complete_context ?c (ls_context ls)) (length (get_task_events (loop_rid run2) st2)) st2)"
    by (simp add: finalize_result_def Let_def)
  moreover have "tr_status (lx_record run') = ''cancelled''"
    using finish_loop_run_Inr(1) [OF assms(1)] by (simp add: ended_status_def t)
  ultimately show ?thesis using c by (simp add: Let_def)
qed

section \<open>Examples\<close>

text \<open>One required step, no workflow and no contract; while it executes, the run is asked to stop.\<close>

definition sample_step :: run_step where
  "sample_step = \<lparr>stp_step_id = ''s1'', stp_step_type = ''read'', stp_action = ''read_files'', stp_required = True, stp_side_effect = False,
     stp_status = ''pending'', stp_output_summary = [], stp_started_at = None, stp_finished_at = None, stp_warnings = [], stp_violations = []\<rparr>"

definition sample_outcome :: step_outcome where
  "sample_outcome = \<lparr>otc_status = ''completed'', otc_summary = [], otc_warnings = [], otc_violations = [],
     otc_limitations = [], otc_blocked_items = []\<rparr>"

definition sample_loop_env :: loop_env where
  "sample_loop_env =
     \<lparr>le_store = demo_env, le_payload = sample_env, le_lifecycle = shipped_lifecycle,
      le_event_types = [''run_queued'', ''run_started'', ''ExecutionStarted'', ''StepStarted'', ''step_started'', ''StepFinished'', ''step_completed'',
        ''ValidationStarted'', ''ValidationFinished'', ''ArtifactsCreated'', ''CompletionGenerated'', ''task_completion_evaluated'',
        ''SpeakerTruthGenerated'', ''run_completed'', ''run_cancelled'', ''step_cancelled''],
      le_workflow = example_workflow_env,
      le_guard = \<lparr>gd_allowed_actions = [''read_files''], gd_blocked_actions = [], gd_max_steps = 5, gd_max_runtime_seconds = (60, 0),
        gd_profile = [], gd_float = (\<lambda>_. None)\<rparr>,
      le_completion = \<lparr>cc_contracts = JObj [], cc_output_aliases = JObj []\<rparr>,
      le_elapsed = (\<lambda>_. 0), le_check_run = (\<lambda>_ _. []),
      le_resolve_plan = (\<lambda>_. \<lparr>cr_status = [], cr_source = [], cr_violations = [], cr_warnings = [], cr_plan = [], cr_bundle = [], cr_evidence_context = []\<rparr>),
      le_report_of = id,
      le_execute = (\<lambda>run s cx st. (Inr (sample_outcome, cx_outputs cx), snd (cancel_task sample_queue_env (loop_rid run) ''stop'' JNull st))),
      le_block_cause = (\<lambda>_ _. JNull), le_result = (\<lambda>_ _ _ _. demo_result), le_projection = (\<lambda>_ _. [])\<rparr>"

definition sample_loop_run :: "str \<Rightarrow> loop_run" where
  "sample_loop_run status = \<lparr>lx_record = demo_run status, lx_contract_type = ''other'', lx_intent_map = [], lx_context_plan_id = None,
     lx_steps = [sample_step], lx_execution = None, lx_workflow = None, lx_graph = None, lx_block_cause = None, lx_trace = []\<rparr>"

definition sample_loop_state :: loop_state where
  "sample_loop_state = \<lparr>ls_run = sample_loop_run ''running'', ls_context = build_context sample_loop_env (sample_loop_run ''running''),
     ls_partial = False\<rparr>"

definition sample_timeline :: task_store where
  "sample_timeline = snd (append_task_event demo_env ''task_run_1'' (demo_event ''task_bootstrap_created'') (demo_store ''queued'' ''run_created''))"

text \<open>Every event the example emits is known, so that only the store it leaves is left open.\<close>

definition emit_id :: "str \<Rightarrow> str \<Rightarrow> str \<Rightarrow> str option \<Rightarrow> json dict \<Rightarrow> task_store \<Rightarrow> str" where
  "emit_id type status message step md st = projr (fst (emit sample_loop_env ''task_run_1'' type status message step md st))"

definition emit_st :: "str \<Rightarrow> str \<Rightarrow> str \<Rightarrow> str option \<Rightarrow> json dict \<Rightarrow> task_store \<Rightarrow> task_store" where
  "emit_st type status message step md st = snd (emit sample_loop_env ''task_run_1'' type status message step md st)"

lemma sample_emit:
  assumes "type \<in> set (le_event_types sample_loop_env)"
  shows "emit sample_loop_env ''task_run_1'' type status message step md st =
    (Inr (emit_id type status message step md st), emit_st type status message step md st)"
  using assms unfolding emit_id_def emit_st_def by (simp add: emit_def case_prod_unfold Let_def)

lemma sample_fields [simp]:
  "loop_rid (sample_loop_run status) = ''task_run_1''" "lx_steps (sample_loop_run status) = [sample_step]"
  "lx_record (sample_loop_run status) = demo_run status" "lx_graph (sample_loop_run status) = None"
  "lx_workflow (sample_loop_run status) = None" "lx_execution (sample_loop_run status) = None"
  "le_event_types sample_loop_env = [''run_queued'', ''run_started'', ''ExecutionStarted'', ''StepStarted'', ''step_started'', ''StepFinished'', ''step_completed'',
        ''ValidationStarted'', ''ValidationFinished'', ''ArtifactsCreated'', ''CompletionGenerated'', ''task_completion_evaluated'',
        ''SpeakerTruthGenerated'', ''run_completed'', ''run_cancelled'', ''step_cancelled'']"
  "tr_status (demo_run status) = status" "tr_run_id (demo_run status) = ''task_run_1''" "\<not> tr_cancellation_requested (demo_run status)"
  "stp_required sample_step" "stp_step_id sample_step = ''s1''"
  "otc_status sample_outcome = ''completed''"
  by (simp_all add: sample_loop_run_def loop_rid_def demo_run_def sample_loop_env_def sample_step_def sample_outcome_def)

lemma record_fields [simp]:
  "lx_workflow (on_record f run) = lx_workflow run" "lx_workflow (set_step i s run) = lx_workflow run"
  "lx_workflow (bump_revision run) = lx_workflow run" "lx_graph (on_record f run) = lx_graph run"
  "lx_graph (set_step i s run) = lx_graph run" "lx_graph (bump_revision run) = lx_graph run"
  "lx_contract_type (on_record f run) = lx_contract_type run" "lx_contract_type (set_step i s run) = lx_contract_type run"
  "lx_contract_type (bump_revision run) = lx_contract_type run"
  by (simp_all add: on_record_def set_step_def bump_revision_def)

text \<open>The run as it moves through the example: still running, with nothing limited.\<close>

definition sample_going :: "loop_run \<Rightarrow> bool" where
  "sample_going run \<longleftrightarrow> lx_workflow run = None \<and> lx_graph run = None \<and> tr_run_id (lx_record run) = ''task_run_1'' \<and>
     tr_status (lx_record run) = ''running'' \<and> lx_contract_type run = ''other'' \<and> \<not> tr_cancellation_requested (lx_record run) \<and>
     (\<exists>s. lx_steps run = [s] \<and> stp_required s)"

definition sample_clear :: "loop_state \<Rightarrow> bool" where
  "sample_clear ls \<longleftrightarrow> sample_going (ls_run ls) \<and> \<not> ls_partial ls \<and> cx_limitations (ls_context ls) = [] \<and> cx_blocked_items (ls_context ls) = []"

lemma sample_begin:
  assumes "sample_going run" "stp_required s"
  shows "\<exists>run1 s1 st1. begin_step sample_loop_env 0 s run st = (Inr (run1, s1), st1) \<and> sample_going run1 \<and> stp_required s1"
  using assms by (auto simp: begin_step_def Let_def sbind_def sample_emit loop_rid_def sample_going_def start_phase_for_step_def)

lemma sample_end:
  assumes "sample_clear ls" "stp_required s"
  shows "\<exists>ls' st'. end_step sample_loop_env 0 s sample_outcome ls st = (Inr (ls', Continue), st') \<and> sample_clear ls'"
  using assms
  by (auto simp: end_step_def Let_def sbind_def sample_emit loop_rid_def sample_going_def sample_clear_def finish_phase_for_step_def
      lift_outcome_def outcome_dict_def step_event_type_def absorb_outcome_def finished_step_def sample_outcome_def json_get_def
      json_dict_def json_or_def)

lemma sample_env_loop [simp]:
  "le_execute sample_loop_env run s cx st =
     (Inr (sample_outcome, cx_outputs cx), snd (cancel_task sample_queue_env (loop_rid run) ''stop'' JNull st))"
  "le_lifecycle sample_loop_env = shipped_lifecycle" "le_check_run sample_loop_env run st = []"
  "completion_contract (le_completion sample_loop_env) t = []"
  by (simp_all add: sample_loop_env_def completion_contract_def json_get_def json_dict_def)

lemma sample_executes:
  assumes "sample_clear ls" "stp_required s"
  shows "\<exists>ls' st'. execute_step sample_loop_env 0 s ls st = (Inr (ls', Continue), st') \<and> sample_clear ls'"
proof -
  from assms obtain run1 s1 st1 where b: "begin_step sample_loop_env 0 s (ls_run ls) st = (Inr (run1, s1), st1)" "sample_going run1" "stp_required s1"
    using sample_begin unfolding sample_clear_def by blast
  let ?ls = "ls\<lparr>ls_run := run1, ls_context := (ls_context ls)\<lparr>cx_outputs := cx_outputs (ls_context ls)\<rparr>\<rparr>"
  have "sample_clear ?ls" using assms(1) b(2) by (simp add: sample_clear_def)
  from sample_end [OF this b(3)] obtain ls' st' where
    "end_step sample_loop_env 0 s1 sample_outcome ?ls (snd (cancel_task sample_queue_env (loop_rid run1) ''stop'' JNull st1)) = (Inr (ls', Continue), st')"
    "sample_clear ls'" by blast
  then show ?thesis using b(1) by (simp add: execute_step_def sbind_def)
qed

lemma sample_completion:
  "tce_status (resolve_completion sample_loop_env run cx proposed) = (if proposed \<in> {''failed'', ''blocked'', ''partial''} then proposed else ''completed'')"
proof -
  have "completion_criteria sample_loop_env run outputs = []" for outputs
    by (simp add: completion_criteria_def required_outputs_def deliverable_checks_enabled_def json_get_def json_dict_def json_elems_def)
  then show ?thesis by (simp add: completion_status)
qed

lemma emit_all_returns:
  "fst ` set es \<subseteq> set (le_event_types env) \<Longrightarrow> \<exists>st'. emit_all env rid es st = (Inr (), st')"
proof (induction env rid es st rule: emit_all.induct)
  case (2 env rid type status message metadata es st)
  then have "\<exists>x st1. emit env rid type status message None metadata st = (Inr x, st1)"
    by (simp add: emit_def case_prod_unfold Let_def)
  with 2 show ?case by (auto simp: sbind_def)
qed simp

lemma finish_loop_run_returns:
  assumes "transition_to env (ended_status env ls broken) (ls_run ls) = Inr run1" "final_event_type (ended_status env ls broken) = Inr final"
    and "ended_status env ls broken \<noteq> ''blocked''" "lx_graph (ls_run ls) = None"
    and "{''ValidationStarted'', ''ValidationFinished'', ''ArtifactsCreated'', ''CompletionGenerated'', ''task_completion_evaluated'',
        ''SpeakerTruthGenerated'', final} \<subseteq> set (le_event_types env)"
  shows "\<exists>run' r st'. finish_loop_run env ls broken st = (Inr (run', r), st')"
proof -
  let ?c = "resolve_completion env (ls_run ls) (ls_context ls) (loop_terminal ls broken)"
  have e: "(if loop_terminal ls broken = ''completed'' \<and> tce_status ?c \<noteq> ''completed'' then tce_status ?c else loop_terminal ls broken)
      = ended_status env ls broken"
    unfolding ended_status_def Let_def by metis
  obtain st1 where 1: "emit_all env (loop_rid (ls_run ls)) (completion_events (ls_run ls) ?c) st = (Inr (), st1)"
    using emit_all_returns [of "completion_events (ls_run ls) ?c" env] assms(5) by (auto simp: completion_events_def Let_def)
  have g: "ls_run ls\<lparr>lx_graph := None\<rparr> = ls_run ls" using assms(4) by (cases "ls_run ls") simp
  have "\<exists>st2. terminal_events env (ended_status env ls broken) final run1 st1 = (Inr run1, st2)"
  proof -
    have "\<exists>st2. emit_all env (loop_rid run1)
        [(''SpeakerTruthGenerated'', ended_status env ls broken, m, md), (final, ended_status env ls broken, m', [])] st1 = (Inr (), st2)" for m m' md
      using assms(5) by (intro emit_all_returns) auto
    then show ?thesis using assms(3) by (auto simp: terminal_events_def sbind_Inr_iff)
  qed
  then obtain st2 where 2: "terminal_events env (ended_status env ls broken) final run1 st1 = (Inr run1, st2)" ..
  show ?thesis
    unfolding finish_loop_run_def
    by (simp only: Let_def e sbind_def 1 prod.case sum.case lift_outcome_def assms(1,2,4) option.map g if_cancel 2 case_prod_unfold fst_conv snd_conv)
       blast
qed

lemma sample_finishes:
  assumes "sample_clear ls" "broken \<in> {None, Some ''cancelled''}"
  shows "\<exists>run' r st'. finish_loop_run sample_loop_env ls broken st = (Inr (run', r), st')"
proof -
  from assms have ended: "ended_status sample_loop_env ls broken \<in> {''completed'', ''cancelled''}"
    by (auto simp: ended_status_def Let_def loop_terminal_def sample_completion sample_clear_def)
  from ended obtain final where f: "final_event_type (ended_status sample_loop_env ls broken) = Inr final" "final \<in> {''run_completed'', ''run_cancelled''}"
    by (auto simp: final_event_type_def)
  from assms(1) have g: "lx_graph (ls_run ls) = None" "tr_status (lx_record (ls_run ls)) = ''running''" by (simp_all add: sample_clear_def sample_going_def)
  have can: "t \<in> {''completed'', ''cancelled''} \<Longrightarrow> run_can_transition shipped_lifecycle ''running'' t" for t
    by (auto simp: run_can_transition_def shipped_lifecycle_def)
  have "\<exists>run1. transition_to sample_loop_env (ended_status sample_loop_env ls broken) (ls_run ls) = Inr run1"
    using can [OF ended] by (simp add: transition_to_def run_transition_def obind_def g(2))
  moreover have "ended_status sample_loop_env ls broken \<noteq> ''blocked''" using ended by (simp, elim disjE, simp_all)
  moreover have "{''ValidationStarted'', ''ValidationFinished'', ''ArtifactsCreated'', ''CompletionGenerated'', ''task_completion_evaluated'',
        ''SpeakerTruthGenerated'', final} \<subseteq> set (le_event_types sample_loop_env)"
    using f(2) by (simp, elim disjE, simp_all)
  ultimately show ?thesis using finish_loop_run_returns [OF _ f(1) _ g(1)] by blast
qed

lemma sample_starts:
  "\<exists>run' st'. start_loop_run sample_loop_env (sample_loop_run ''queued''\<lparr>lx_trace := t\<rparr>) st = (Inr run', save_loop_run run' st') \<and> sample_going run'"
  by (auto simp: start_loop_run_def Let_def sbind_def sample_emit loop_rid_def sample_going_def lift_outcome_def
      transition_to_def run_transition_def run_can_transition_def obind_def shipped_lifecycle_def opt_truthy_def demo_run_def
      sample_loop_run_def)

lemma sample_timeline_store:
  "sample_timeline = snd (store_event ''task_run_1'' (demo_event ''task_bootstrap_created'') (demo_store ''queued'' ''run_created''))"
  by (simp add: sample_timeline_def append_task_event_def is_terminal_event_def demo_event_def terminal_event_types_def)

lemma sample_timeline_ok: "timeline_bootstrap_reasons ''task_run_1'' sample_timeline = []"
proof -
  have "get_task_events ''task_run_1'' sample_timeline =
    [(demo_event ''run_created'')\<lparr>te_sequence := 1\<rparr>, (demo_event ''task_bootstrap_created'')\<lparr>te_sequence := 2\<rparr>]"
    using demo_log [of "''queued''" "''run_created''"] by (simp add: sample_timeline_store store_event_events next_sequence_def)
  then show ?thesis by (simp add: timeline_bootstrap_reasons_def Let_def demo_event_def)
qed

lemma sample_no_result: "get_result env ''task_run_1'' sample_timeline = (None, sample_timeline)"
proof -
  have "map_of (ts_index (demo_store ''queued'' ''run_created'')) ''task_run_1'' = Some ''queued''"
    by (simp add: demo_store_def append_task_event_def first_terminal_event_def get_task_events_def store_event_runs put_run_def empty_store_def
        demo_run_def)
  then have "map_of (ts_index sample_timeline) ''task_run_1'' = Some ''queued''" "map_of (ts_results sample_timeline) ''task_run_1'' = None"
    by (simp_all add: sample_timeline_store store_event_runs demo_fields)
  then show ?thesis by (simp add: get_result_def terminal_statuses_def)
qed

lemma sample_step_allowed: "check_step (le_guard sample_loop_env) False sample_step 0 (le_elapsed sample_loop_env 0) = []"
  by (simp add: check_step_def sample_loop_env_def sample_step_def json_get_def json_strs_def json_elems_def json_truthy.simps
      max_runtime_seconds_def)

lemma sample_loop_step:
  assumes "sample_clear ls" "find_run ''task_run_1'' st = Some (lx_record (ls_run ls))"
  shows "\<exists>ls' st'. loop_step sample_loop_env 0 sample_step ls st = (Inr (ls', Continue), st') \<and> sample_clear ls'"
proof -
  from assms(1) have "\<not> tr_cancellation_requested (lx_record (ls_run ls))" "loop_rid (ls_run ls) = ''task_run_1''" "lx_workflow (ls_run ls) = None"
    by (simp_all add: sample_clear_def sample_going_def loop_rid_def)
  note * = this
  have o: "observe_cancellation st (ls_run ls) = ls_run ls" using assms(2) * by (simp add: observe_cancellation_def)
  let ?ls = "ls\<lparr>ls_run := ls_run ls\<lparr>lx_trace := lx_trace (ls_run ls) @ [guard_trace [] ''step_guard_checked'' (Some ''s1'')], lx_workflow := None\<rparr>\<rparr>"
  have "sample_clear ?ls" using assms(1) by (simp add: sample_clear_def sample_going_def)
  from sample_executes [OF this, of sample_step st] show ?thesis
    using * by (simp add: loop_step_def Let_def o sample_step_allowed sbind_def lift_outcome_def can_start_phase_def)
qed

lemma sample_run_completes:
  "\<exists>run' r st' s. loop_run_all sample_loop_env (sample_loop_run ''queued'') sample_timeline = (Inr (run', r), st') \<and>
     tr_status (lx_record run') = ''completed'' \<and> lx_steps run' = [s] \<and> stp_required s"
proof -
  let ?run1 = "sample_loop_run ''queued''\<lparr>lx_trace := lx_trace (sample_loop_run ''queued'') @ [guard_trace [] ''run_guard_checked'' None]\<rparr>"
  obtain run2 st2 where s: "start_loop_run sample_loop_env ?run1 sample_timeline = (Inr run2, save_loop_run run2 st2)" "sample_going run2"
    using sample_starts by blast
  have steps: "lx_steps run2 = [sample_step]" using start_loop_run_steps [OF s(1)] by simp
  let ?ls = "\<lparr>ls_run = run2, ls_context = build_context sample_loop_env run2, ls_partial = False\<rparr>"
  have "sample_clear ?ls" using s(2) by (simp add: sample_clear_def build_context_def Let_def)
  moreover have "find_run ''task_run_1'' (save_loop_run run2 st2) = Some (lx_record run2)"
    using save_loop_run_find [of run2 st2] s(2) unfolding sample_going_def by metis
  ultimately obtain ls' st3 where l: "loop_step sample_loop_env 0 sample_step ?ls (save_loop_run run2 st2) = (Inr (ls', Continue), st3)"
    and c: "sample_clear ls'" using sample_loop_step [of ?ls "save_loop_run run2 st2"] by auto
  obtain run' r st' where f: "finish_loop_run sample_loop_env ls' None st3 = (Inr (run', r), st')" using sample_finishes [OF c] by blast
  have go: "\<not> run_is_terminal shipped_lifecycle ''queued''" by (simp add: run_is_terminal_def shipped_lifecycle_def)
  have "loop_run_all sample_loop_env (sample_loop_run ''queued'') sample_timeline = (Inr (run', r), st')"
    using s(1) l f go by (simp add: loop_run_all_def Let_def sample_no_result sample_timeline_ok steps sbind_def)
  moreover have "ended_status sample_loop_env ls' None = ''completed''"
    using c by (simp add: ended_status_def Let_def loop_terminal_def sample_completion sample_clear_def)
  ultimately show ?thesis using finish_loop_run_Inr(1,2) [OF f] c by (auto simp: sample_clear_def sample_going_def)
qed

theorem completed_run_executed_required_steps_witness:
  "\<exists>run' r st' s. loop_run_all sample_loop_env (sample_loop_run ''queued'') sample_timeline = (Inr (run', r), st') \<and>
     lx_steps run' = [s] \<and> stp_status s \<notin> {''failed'', ''blocked'', ''partial''}"
proof -
  obtain run' r st' s where r: "loop_run_all sample_loop_env (sample_loop_run ''queued'') sample_timeline = (Inr (run', r), st')"
    "tr_status (lx_record run') = ''completed''" "lx_steps run' = [s]" "stp_required s"
    using sample_run_completes by blast
  have "\<not> run_is_terminal (le_lifecycle sample_loop_env) (tr_status (lx_record (sample_loop_run ''queued'')))"
    by (simp add: run_is_terminal_def shipped_lifecycle_def)
  from completed_run_executed_required_steps [OF r(1,2) _ this _ r(4)] r show ?thesis by auto
qed

lemma sample_state_clear: "sample_clear sample_loop_state"
  by (simp add: sample_clear_def sample_loop_state_def sample_going_def build_context_def Let_def) (simp add: sample_loop_run_def)

theorem completed_exactly_witness:
  "\<exists>run' r st'. finish_loop_run sample_loop_env sample_loop_state None sample_timeline = (Inr (run', r), st') \<and>
     tr_status (lx_record run') = ''completed''"
proof -
  obtain run' r st' where f: "finish_loop_run sample_loop_env sample_loop_state None sample_timeline = (Inr (run', r), st')"
    using sample_finishes [OF sample_state_clear] by blast
  have "completion_criteria sample_loop_env run outputs = []" for run outputs
    by (simp add: completion_criteria_def required_outputs_def deliverable_checks_enabled_def json_get_def json_dict_def json_elems_def)
  with completed_exactly [OF f] sample_state_clear f show ?thesis by (simp add: sample_clear_def)
qed

theorem cancelled_run_reports_success_witness:
  "\<exists>run' r st'. finish_loop_run sample_loop_env sample_loop_state (Some ''cancelled'') sample_timeline = (Inr (run', r), st') \<and>
     tr_status (lx_record run') = ''cancelled'' \<and>
     tce_safe_to_report_success (resolve_completion sample_loop_env (sample_loop_run ''running'') (ls_context sample_loop_state) ''cancelled'')"
proof -
  obtain run' r st' where f: "finish_loop_run sample_loop_env sample_loop_state (Some ''cancelled'') sample_timeline = (Inr (run', r), st')"
    using sample_finishes [OF sample_state_clear] by blast
  from cancelled_run_reports_success [OF f] f show ?thesis by (simp add: Let_def) (simp add: sample_loop_state_def)
qed

theorem cancellation_during_step_lost_witness:
  "\<exists>ls' st' c st1. execute_step sample_loop_env 0 sample_step sample_loop_state sample_timeline = (Inr (ls', Continue), st') \<and>
     cancel_task sample_queue_env ''task_run_1'' ''stop'' JNull (put_run (demo_run ''running'') empty_store) = (Inr c, st1) \<and>
     cn_cancellation_requested c \<and> find_run ''task_run_1'' st' = Some (lx_record (ls_run ls')) \<and> observe_cancellation st' (ls_run ls') = ls_run ls'"
proof -
  obtain ls' st' where x: "execute_step sample_loop_env 0 sample_step sample_loop_state sample_timeline = (Inr (ls', Continue), st')"
    using sample_executes [OF sample_state_clear] by (metis sample_fields(11))
  have "\<not> tr_cancellation_requested (lx_record (ls_run sample_loop_state))" "loop_rid (ls_run sample_loop_state) = ''task_run_1''"
    by (simp_all add: sample_loop_state_def)
  moreover have "\<exists>c st1. cancel_task sample_queue_env ''task_run_1'' ''stop'' JNull (put_run (demo_run ''running'') empty_store) = (Inr c, st1) \<and> cn_cancellation_requested c"
    by (simp add: cancel_task_def find_put_run Let_def sbind_def create_run_event_def create_event_def case_prod_unfold sample_queue_env_def
        run_can_cancel_def shipped_lifecycle_def)
  ultimately show ?thesis using cancellation_during_step_lost [OF x] x by auto
qed

theorem refused_step_not_executed_witness:
  "loop_step (sample_loop_env\<lparr>le_execute := \<lambda>_ _ _ st. (Inl ''executed'', st)\<rparr>) 0 (sample_step\<lparr>stp_action := ''shell''\<rparr>) sample_loop_state sample_timeline =
   loop_step sample_loop_env 0 (sample_step\<lparr>stp_action := ''shell''\<rparr>) sample_loop_state sample_timeline"
  by (rule refused_step_not_executed) (simp add: check_step_def Let_def sample_loop_env_def case_prod_unfold)

end
