(* ===== verification/Run_Guard.thy ===== *)
theory Run_Guard
  imports Canonical_Policy Workspace_Permissions Loop_Safety
begin

text \<open>
  The guard of a task run, \<open>TaskRunGuard.check_run\<close> (\<open>services/runtime/task_run_guard.py\<close>), and the runtime profiles it
  reads (\<open>services/runtime/runtime_profile_service.py\<close>). The guard asks every authority about each requested action, combines
  their answers as facets (\<open>Canonical_Policy\<close>) and lists the reasons against the run. It reads the registry
  (\<open>Workspace_Permissions\<close>) and may change two stores: the approvals, where it observes expiry, and the grants
  (\<open>Authority_Grants\<close>), where it records the grant of a mission.

  The three configuration files are JSON values as read. A check that raises gives the name of the
  exception; its stores are not returned. The reasons for denied capabilities, which the code collects in the order of a
  set, are in the order of the list. \<open>check_step\<close> is in \<open>Supervised_Loop\<close>.
\<close>

section \<open>Runtime profiles\<close>

definition CONTRACT_DEFAULTS :: "str dict" where
  "CONTRACT_DEFAULTS =
     [(''conversation'', ''conversation''), (''delegation_request'', ''delegation_parent''),
      (''analysis_readonly'', ''readonly_analysis''), (''readonly_analysis'', ''readonly_analysis''),
      (''in_chat_final_report'', ''conversation''), (''validation'', ''validation''), (''validation_request'', ''validation''),
      (''artifact_generation'', ''artifact_generation''), (''artifact_build'', ''artifact_generation''),
      (''patch_request'', ''patch''), (''patch_apply'', ''patch''), (''filesystem_write'', ''write_file''),
      (''file_modification'', ''write_file''), (''shell_execution'', ''shell''), (''project_generation'', ''project_generation''),
      (''project_build'', ''project_generation''), (''web_search'', ''web_search'')]"

record profile_service =
  ps_profiles :: "json dict dict"
  ps_operations :: "str dict"

definition register_operation :: "(json \<Rightarrow> str) \<Rightarrow> str \<Rightarrow> json \<Rightarrow> str dict \<Rightarrow> str dict outcome" where
  "register_operation render profile_id operation ops =
     (let op = py_str render operation
      in case map_of ops op of
           Some previous \<Rightarrow>
             if previous \<noteq> [] \<and> previous \<noteq> profile_id then Inl (''duplicate_runtime_operation:'' @ op)
             else Inr (AList.update op profile_id ops)
         | None \<Rightarrow> Inr (AList.update op profile_id ops))"

text \<open>A file is its stem and its content, in the order of the sorted directory.\<close>

definition load_profile :: "(json \<Rightarrow> str) \<Rightarrow> str \<times> json dict \<Rightarrow> profile_service \<Rightarrow> profile_service outcome" where
  "load_profile render entry s =
     (case json_get_or ''profile'' (JObj []) (snd entry) of
        JObj profile \<Rightarrow>
          (let pid = py_str render (json_or (json_get ''id'' profile) (JStr (fst entry)))
           in if map_of (ps_profiles s) pid \<noteq> None then Inl (''duplicate_runtime_profile:'' @ pid)
              else obind (py_iter (json_or (json_get ''operation_types'' profile) (JList []))) (\<lambda>operations.
                obind (ofold (register_operation render pid) operations (ps_operations s)) (\<lambda>ops.
                  Inr \<lparr>ps_profiles = ps_profiles s @ [(pid, profile)], ps_operations = ops\<rparr>)))
      | _ \<Rightarrow> Inl (''invalid_runtime_profile:'' @ fst entry @ ''.yaml''))"

definition load_profiles :: "(json \<Rightarrow> str) \<Rightarrow> (str \<times> json dict) list \<Rightarrow> profile_service outcome" where
  "load_profiles render files = ofold (load_profile render) files \<lparr>ps_profiles = [], ps_operations = []\<rparr>"

definition profile_resolve :: "profile_service \<Rightarrow> str option \<Rightarrow> str \<Rightarrow> str option \<Rightarrow> json dict option" where
  "profile_resolve s operation contract requested =
     (let from_operation = (if opt_truthy requested then requested
            else if opt_truthy operation then map_of (ps_operations s) (str_or operation []) else requested);
          pid = (if opt_truthy from_operation then from_operation else map_of CONTRACT_DEFAULTS contract)
      in if opt_truthy pid then map_of (ps_profiles s) (str_or pid []) else None)"

section \<open>Data\<close>

record execution_plan =
  xp_execution_id :: str
  xp_taskrun_id :: "str option"
  xp_task_id :: "str option"
  xp_status :: str
  xp_blocked_reasons :: "str list"
  xp_approval_required :: bool

record guarded_run =
  gn_run_id :: str
  gn_task_id :: "str option"
  gn_operation_id :: "str option"
  gn_task_run_id :: "str option"
  gn_bootstrap_context :: "json dict"
  gn_approval_id :: "str option"
  gn_session_id :: "str option"
  gn_mission :: "mission_contract option"
  gn_workspace :: "str option"
  gn_contract_type :: str
  gn_operation_type :: "str option"
  gn_runtime_profile :: "str option"
  gn_capabilities_required :: "str list"
  gn_requested_actions :: "str list"
  gn_intent_map :: "json dict"
  gn_status :: str
  gn_execution_plan :: "execution_plan option"
  gn_side_effects :: "bool list"
  gn_policy_snapshot :: "json dict"
  gn_cancellation_requested :: bool

record guard_env =
  ge_workspace :: workspace_env
  ge_registry :: "json dict"
  ge_protected_config :: str
  ge_protected_roots :: "protected_root option list"
  ge_policy :: "json dict"
  ge_steps :: "json dict"
  ge_profiles :: profile_service
  ge_lifecycle :: lifecycle_policy
  ge_sha :: "str \<Rightarrow> str"
  ge_inside :: "str \<Rightarrow> str \<Rightarrow> bool"
  ge_now :: int
  ge_uid :: "nat \<Rightarrow> str"

record guard_stores =
  gs_grants :: grant_store
  gs_approvals :: approval_world

record guard_decision =
  gw_allowed :: bool
  gw_status :: str
  gw_blocked_reasons :: "str list"
  gw_decisions :: "canonical_decision list"

abbreviation ge_render :: "guard_env \<Rightarrow> json \<Rightarrow> str" where
  "ge_render env \<equiv> wx_render (ge_workspace env)"

section \<open>Sets read from configuration\<close>

definition unhashable :: "json \<Rightarrow> bool" where
  "unhashable v \<longleftrightarrow> is_obj v \<or> is_list v"

text \<open>\<open>set(d.get(k, []) or [])\<close>.\<close>

definition hash_set :: "json \<Rightarrow> json list outcome" where
  "hash_set v =
     obind (py_iter (json_or v (JList []))) (\<lambda>xs. if list_ex unhashable xs then Inl ''TypeError'' else Inr xs)"

definition sub_dict :: "str \<Rightarrow> json dict \<Rightarrow> json dict" where
  "sub_dict k d = json_dict (json_get k d)"

definition guard_profile :: "guard_env \<Rightarrow> guarded_run \<Rightarrow> json dict option" where
  "guard_profile env run =
     profile_resolve (ge_profiles env) (gn_operation_type run) (gn_contract_type run) (gn_runtime_profile run)"

definition profile_step_action :: "guard_env \<Rightarrow> json dict \<Rightarrow> json \<Rightarrow> str list outcome" where
  "profile_step_action env definitions step =
     (if unhashable step then Inl ''TypeError''
      else case step of
        JStr s \<Rightarrow>
          (case map_of definitions s of
             Some (JObj d) \<Rightarrow> Inr [py_str (ge_render env) (json_get ''action'' d)]
           | _ \<Rightarrow> Inr [])
      | _ \<Rightarrow> Inr [])"

definition profile_actions :: "guard_env \<Rightarrow> json dict \<Rightarrow> str list outcome" where
  "profile_actions env profile =
     obind (py_iter (json_or (json_get ''steps'' profile) (JList []))) (\<lambda>steps.
     obind (ofold (\<lambda>s acc. obind (profile_step_action env (sub_dict ''step_types'' (ge_steps env)) s) (\<lambda>as. Inr (acc @ as))) steps [])
       (\<lambda>from_steps.
     obind (py_iter (json_or (json_get ''allowed_actions'' profile) (JList []))) (\<lambda>own.
       Inr (filter (\<lambda>a. a \<noteq> []) (from_steps @ map (py_str (ge_render env)) own)))))"

definition READONLY_ACTIONS :: "str list" where
  "READONLY_ACTIONS =
     [''read_files'', ''read_workspace'', ''inspect_path'', ''list_directory'', ''project_tree'', ''project_context'',
      ''project_analysis'', ''project_report'']"

definition readonly_unregistered_allowed :: "guard_env \<Rightarrow> guarded_run \<Rightarrow> json dict \<Rightarrow> bool" where
  "readonly_unregistered_allowed env run profile \<longleftrightarrow>
     opt_truthy (gn_workspace run) \<and> \<not> json_truthy (json_get ''allowed_side_effects'' profile) \<and>
     set (gn_requested_actions run) \<subseteq> set READONLY_ACTIONS \<and>
     list_ex (\<lambda>m. m \<in> {''readonly_analysis'', ''analysis_readonly'', ''workspace_analysis_readonly''})
       [gn_contract_type run, str_or (gn_operation_type run) [], str_or (gn_runtime_profile run) [],
        py_str (ge_render env) (json_get ''intent_type'' (gn_intent_map run))]"

definition readonly_action_allowed :: "str \<Rightarrow> str \<Rightarrow> bool" where
  "readonly_action_allowed action reason \<longleftrightarrow> reason = ''workspace_not_registered'' \<and> action \<in> set READONLY_ACTIONS"

section \<open>Authority for an action\<close>

definition git_info :: "guarded_run \<Rightarrow> json" where
  "git_info run =
     (case json_get ''shell_plan'' (gn_intent_map run) of JObj plan \<Rightarrow> json_get ''git_classification'' plan | _ \<Rightarrow> JNull)"

definition capability_for_action :: "guard_env \<Rightarrow> guarded_run \<Rightarrow> str \<Rightarrow> permission_decision option \<Rightarrow> str" where
  "capability_for_action env run action matrix =
     (let granted = json_get ''capability'' (json_dict (git_info run))
      in if action = ''run_command'' \<and> is_obj (git_info run) \<and> json_truthy granted then py_str (ge_render env) granted
         else case matrix of Some m \<Rightarrow> pmd_permission m | None \<Rightarrow> permission_for_action action)"

definition git_authority_scope ::
  "guard_env \<Rightarrow> guarded_run \<Rightarrow> str \<Rightarrow> str \<Rightarrow> str option \<times> str option \<times> str option" where
  "git_authority_scope env run action capability =
     (case gn_mission run of
        Some m \<Rightarrow>
          if action = ''run_command'' \<and> is_obj (git_info run) then
            (case filter (\<lambda>r. mr_role r \<noteq> Some ''remote_denied'' \<and> capability \<in> set (mr_permissions r)) (ms_remote_resources m) of
               [r] \<Rightarrow>
                 let named = py_strip (py_str (ge_render env) (json_or (json_get ''branch'' (json_dict (git_info run))) (JStr [])));
                     branch = (if named \<noteq> [] then Some named
                       else case mr_allowed_branches r of [b] \<Rightarrow> Some b | _ \<Rightarrow> None)
                 in (Some (mr_resource_id r), mr_normalized_identity r, branch)
             | _ \<Rightarrow> (None, None, None))
          else (None, None, None)
      | None \<Rightarrow> (None, None, None))"

definition mission_authority_allows ::
  "guard_env \<Rightarrow> guarded_run \<Rightarrow> str \<Rightarrow> str option \<Rightarrow> str option \<Rightarrow> str option \<Rightarrow> str option \<Rightarrow> grant_store \<Rightarrow>
     (bool \<times> grant_store) outcome" where
  "mission_authority_allows env run action path resource repository branch store =
     (case gn_mission run of
        None \<Rightarrow> Inr (False, store)
      | Some m \<Rightarrow>
          if action \<notin> set (ms_authorized_capabilities m) then Inr (False, store)
          else obind (decision_for_contract (ge_sha env) (ge_inside env) (ge_now env) m
              \<lparr>qu_action = action, qu_path = path, qu_command = None, qu_mission_id = None, qu_source_message_id = None,
               qu_source_prompt_sha256 = None, qu_resource_id = resource, qu_repository_identity = repository,
               qu_branch = branch\<rparr> False store) (\<lambda>(d, store').
            Inr (case d of Some dec \<Rightarrow> gd_reason_code dec = ''grant_effective'' | None \<Rightarrow> False, store')))"

section \<open>Facets of an action\<close>

definition guard_facet :: "str \<Rightarrow> permission \<Rightarrow> str \<Rightarrow> str \<Rightarrow> str \<Rightarrow> str option \<Rightarrow> policy_facet" where
  "guard_facet name p source reason capability resource =
     \<lparr>fc_facet = name, fc_permission = p, fc_source = source, fc_reason_code = reason, fc_capability = Some capability,
      fc_resource_id = resource, fc_requires_human_authority = False, fc_details = [], fc_trace = []\<rparr>"

text \<open>The sets the decision about an action is made from.\<close>

record action_sets =
  as_allowed :: "json list"
  as_blocked :: "json list"
  as_policy_allowed :: "json list"
  as_policy_denied :: "json list"
  as_approvals_required :: "json list"
  as_denied_capabilities :: "json list"
  as_profile_actions :: "str list"

definition resource_facet :: "str \<Rightarrow> str \<Rightarrow> permission_decision \<Rightarrow> policy_facet" where
  "resource_facet action capability m =
     (guard_facet ''resource_permission''
       (if pmd_status m = ''denied'' then DENIED else if pmd_status m = ''approval_required'' then ASK else ALLOWED)
       ''workspace_permission_matrix''
       (if pmd_status m = ''denied'' then pmd_reason_code m @ '':'' @ action else pmd_reason_code m) capability (pmd_workspace_id m))
     \<lparr>fc_requires_human_authority := (pmd_status m = ''approval_required''),
      fc_details := [(''workspace_role'', jopt (pmd_workspace_role m)), (''permission_value'', JStr (pmd_permission_value m))],
      fc_trace := pmd_trace m\<rparr>"

definition static_facet :: "action_sets \<Rightarrow> str \<Rightarrow> str \<Rightarrow> str option \<Rightarrow> policy_facet" where
  "static_facet s action capability resource =
     (let reason = (if JStr action \<in> set (as_blocked s) then blocked_action_reason action
            else if JStr action \<notin> set (as_allowed s) then ''action_not_allowed:'' @ action else [])
      in guard_facet ''global_policy'' (if reason \<noteq> [] then DENIED else ALLOWED) ''task_runtime_policy''
           (or_text reason ''action_allowed_by_runtime_policy'') capability resource)"

definition snapshot_facet :: "action_sets \<Rightarrow> str \<Rightarrow> str \<Rightarrow> str option \<Rightarrow> policy_facet" where
  "snapshot_facet s action capability resource =
     (let reason = (if JStr action \<in> set (as_policy_denied s) then ''action_denied_by_policy:'' @ action
            else if as_policy_allowed s \<noteq> [] \<and> JStr action \<notin> set (as_policy_allowed s) \<and>
                JStr action \<notin> set (as_approvals_required s) then ''action_not_granted_by_policy:'' @ action else [])
      in guard_facet ''policy_snapshot'' (if reason \<noteq> [] then DENIED else ALLOWED) ''task_run.policy_snapshot''
           (or_text reason ''action_allowed_by_policy_snapshot'') capability resource)"

definition profile_facet :: "action_sets \<Rightarrow> str \<Rightarrow> str \<Rightarrow> str option \<Rightarrow> policy_facet" where
  "profile_facet s action capability resource =
     (if action \<in> set (as_profile_actions s)
      then guard_facet ''runtime_profile'' ALLOWED ''runtime_profile'' ''action_allowed_by_profile'' capability resource
      else guard_facet ''runtime_profile'' DENIED ''runtime_profile'' (''action_not_allowed_by_profile:'' @ action) capability resource)"

definition policy_requires_human :: "action_sets \<Rightarrow> str \<Rightarrow> bool" where
  "policy_requires_human s action \<longleftrightarrow> JStr action \<in> set (as_approvals_required s)"

definition resource_requires_human :: "permission_decision option \<Rightarrow> bool" where
  "resource_requires_human m = (case m of Some d \<Rightarrow> pmd_status d = ''approval_required'' | None \<Rightarrow> False)"

definition demand_facets :: "action_sets \<Rightarrow> str \<Rightarrow> permission_decision option \<Rightarrow> str \<Rightarrow> policy_facet list" where
  "demand_facets s action matrix capability =
     (let resource = (case matrix of Some m \<Rightarrow> pmd_workspace_id m | None \<Rightarrow> None)
      in [(guard_facet ''capability_demand'' ALLOWED ''task_run.requested_actions'' ''capability_requested'' capability resource)
            \<lparr>fc_details := [(''action'', JStr action)]\<rparr>] @
         (case matrix of Some m \<Rightarrow> [resource_facet action capability m] | None \<Rightarrow> []) @
         [static_facet s action capability resource, snapshot_facet s action capability resource,
          profile_facet s action capability resource] @
         (if policy_requires_human s action
          then [(guard_facet ''policy_approval_requirement'' ASK ''task_run.policy_snapshot'' ''approval_required'' capability resource)
            \<lparr>fc_requires_human_authority := True\<rparr>]
          else []))"

definition human_facets ::
  "guarded_run \<Rightarrow> str \<Rightarrow> str option \<Rightarrow> str option \<times> str option \<times> str option \<Rightarrow> bool \<Rightarrow> approval_request option \<Rightarrow> policy_facet list" where
  "human_facets run capability resource scope mission_allowed approval =
     (case scope of (authority, repository, branch) \<Rightarrow>
        if mission_allowed then
          [(guard_facet ''human_authority'' ALLOWED ''mission_authority_grant'' ''grant_effective'' capability (opt_or authority resource))
             \<lparr>fc_details := [(''repository_identity'', jopt repository), (''branch'', jopt branch)]\<rparr>]
        else (case approval of
          Some a \<Rightarrow>
            if aq_status a = ''approved'' then
              [guard_facet ''human_authority'' ALLOWED ''approval_service'' ''approval_effective'' capability resource]
            else if aq_status a \<noteq> ''pending'' then
              [guard_facet ''human_authority'' DENIED ''approval_service'' ''approval_denied'' capability resource]
            else []
        | None \<Rightarrow> []))"

definition shell_facets :: "guard_env \<Rightarrow> guarded_run \<Rightarrow> str \<Rightarrow> str \<Rightarrow> str option \<Rightarrow> policy_facet list" where
  "shell_facets env run action capability resource =
     (let category = (case json_get ''shell_plan'' (gn_intent_map run) of
            JObj plan \<Rightarrow> py_str (ge_render env) (json_or (json_get ''shell_category'' plan) (JStr [])) | _ \<Rightarrow> [])
      in if action = ''run_command'' \<and> category \<in> {''git_write_shell'', ''network_shell'', ''git_destructive_shell''} then
           [(guard_facet ''global_policy'' DENIED ''m5_ambiguous_external_shell_boundary''
              (if category = ''git_write_shell'' then ''git_write_requires_granular_classification''
               else if category = ''git_destructive_shell'' then ''git_destructive_operation_denied''
               else ''network_shell_requires_granular_classification'') capability resource)
              \<lparr>fc_details := [(''shell_category'', JStr category)]\<rparr>]
         else [])"

definition capability_facets :: "action_sets \<Rightarrow> str \<Rightarrow> str option \<Rightarrow> policy_facet list" where
  "capability_facets s capability resource =
     (if JStr capability \<in> set (as_denied_capabilities s)
      then [guard_facet ''capability_policy'' DENIED ''task_run.policy_snapshot'' (''capability_denied:'' @ capability) capability resource]
      else [])"

definition action_contract :: "guard_env \<Rightarrow> guarded_run \<Rightarrow> str \<Rightarrow> str \<Rightarrow> operation_contract" where
  "action_contract env run uid action =
     (let text = (\<lambda>k def. py_str (ge_render env) (json_or (json_get k (gn_intent_map run)) (JStr def)));
          operation = str_or (gn_operation_type run) action
      in \<lparr>oc_operation_id = ''op_'' @ uid, oc_session_id = gn_session_id run, oc_source_channel = text ''source_channel'' ''task_runtime'',
          oc_intent_type = text ''intent_type'' operation, oc_operation_type = operation,
          oc_contract_type = or_text (gn_contract_type run) operation,
          oc_runtime_profile = str_or (gn_runtime_profile run) ''conversation'', oc_requires_task = True, oc_read_only = False,
          oc_artifact_generation = False, oc_workspace_mutation = False, oc_requested_actions = [action],
          oc_target_paths = [], oc_workspace_path = gn_workspace run\<rparr>)"

definition canonical_action_decision ::
  "guard_env \<Rightarrow> guarded_run \<Rightarrow> action_sets \<Rightarrow> approval_request option \<Rightarrow> str \<Rightarrow> str \<Rightarrow> permission_decision option \<Rightarrow> grant_store \<Rightarrow>
     (canonical_decision \<times> grant_store) outcome" where
  "canonical_action_decision env run s approval uid action matrix store =
     (let capability = capability_for_action env run action matrix;
          resource = (case matrix of Some m \<Rightarrow> pmd_workspace_id m | None \<Rightarrow> None);
          scope = git_authority_scope env run action capability;
          needs_human = resource_requires_human matrix \<or> policy_requires_human s action
      in obind (if needs_human
            then mission_authority_allows env run capability (gn_workspace run) (opt_or (fst scope) resource)
              (fst (snd scope)) (snd (snd scope)) store
            else Inr (False, store)) (\<lambda>(mission_allowed, store').
           Inr (effective_resolve_facets (action_contract env run uid action)
             (demand_facets s action matrix capability @
              (if needs_human then human_facets run capability resource scope mission_allowed approval else []) @
              shell_facets env run action capability resource @ capability_facets s capability resource)
             (Some capability) resource, store')))"

definition legacy_reason :: "canonical_decision \<Rightarrow> str \<Rightarrow> str option" where
  "legacy_reason d action =
     (if cd_permission d = ALLOWED then None
      else if cd_permission d = ASK then Some ''approval_required''
      else case find (\<lambda>f. fc_permission f \<in> {DENIED, INVALID, EXPIRED, STALE, NEEDS_CLARIFICATION} \<and> fc_reason_code f \<noteq> []) (cd_facets d) of
             Some f \<Rightarrow> Some (fc_reason_code f)
           | None \<Rightarrow> Some (''canonical_policy_'' @ permission_value_text (cd_permission d) @ '':'' @ action))"

section \<open>The guard\<close>

definition identity_reasons :: "guard_env \<Rightarrow> guarded_run \<Rightarrow> str list" where
  "identity_reasons env run =
     (let b = gn_bootstrap_context run; snap = gn_policy_snapshot run;
          status = py_str (ge_render env) (json_or (json_get ''status'' snap) (json_or (json_get ''policy_status'' snap) (JStr [])))
      in (if json_truthy (json_get ''enabled'' (sub_dict ''task_runtime'' (ge_policy env))) then [] else [''task_runtime_disabled'']) @
         (if opt_truthy (gn_task_id run) then [] else [''missing_task_id'']) @
         (if opt_truthy (gn_task_run_id run) then [] else [''missing_task_run_id'']) @
         (if opt_truthy (gn_task_run_id run) \<and> gn_task_run_id run \<noteq> Some (gn_run_id run) then [''task_run_id_mismatch''] else []) @
         (if opt_truthy (gn_operation_id run) then [] else [''missing_operation_id'']) @
         (if b = [] then [''missing_bootstrap_context'']
          else (if json_get ''task_id'' b \<noteq> jopt (gn_task_id run) then [''bootstrap_task_id_mismatch''] else []) @
            (if json_get ''task_run_id'' b \<noteq> jopt (gn_task_run_id run) then [''bootstrap_task_run_id_mismatch''] else []) @
            (if json_get ''operation_id'' b \<noteq> jopt (gn_operation_id run) then [''bootstrap_operation_id_mismatch''] else [])) @
         (if snap = [] then [''missing_policy_decision''] else []) @
         (if status \<in> {''denied'', ''blocked'', []} then [''policy_decision_not_allowed''] else []))"

definition plan_reasons :: "guarded_run \<Rightarrow> str list" where
  "plan_reasons run =
     (case gn_execution_plan run of
        None \<Rightarrow> [''missing_canonical_execution_plan'']
      | Some p \<Rightarrow>
          (if opt_truthy (xp_taskrun_id p) \<and> xp_taskrun_id p \<noteq> Some (gn_run_id run) then [''execution_plan_task_run_mismatch''] else []) @
          (if opt_truthy (xp_task_id p) \<and> xp_task_id p \<noteq> gn_task_id run then [''execution_plan_task_id_mismatch''] else []) @
          (if xp_status p = ''blocked'' then list_or (xp_blocked_reasons p) [''execution_plan_blocked''] else []))"

definition local_resources :: "guarded_run \<Rightarrow> mission_resource list" where
  "local_resources run = (case gn_mission run of Some m \<Rightarrow> ms_local_resources m | None \<Rightarrow> [])"

definition workspace_reasons :: "guard_env \<Rightarrow> guarded_run \<Rightarrow> json dict \<Rightarrow> bool \<Rightarrow> str list outcome" where
  "workspace_reasons env run profile exempt =
     (let requirements = sub_dict ''workspace_requirements'' profile;
          required = json_truthy (json_get ''required'' requirements);
          ws = workspace_evaluate (path_env.truncate (ge_workspace env)) (ge_protected_config env) (ge_protected_roots env)
            (gn_workspace run) required
      in obind (resolve_with_resources (ge_workspace env) (ge_registry env) (local_resources run) (gn_workspace run) required) (\<lambda>role.
         obind (hash_set (json_get ''allowed_roles'' requirements)) (\<lambda>roles.
           Inr ((if required \<and> \<not> opt_truthy (gn_workspace run) then [''workspace_required''] else []) @
             (if Policy_Kernel.wp_blocked ws then [''forbidden_root''] else []) @
             (if Policy_Kernel.wp_needs_clarification ws then [''workspace_needs_clarification''] else []) @
             (if rd_status role = ''denied'' \<and> \<not> (exempt \<and> rd_reason role = ''workspace_not_registered'') then [rd_reason role] else []) @
             (if rd_status role = ''needs_clarification'' then [rd_reason role] else []) @
             (case rd_contract role of
                Some c \<Rightarrow>
                  if roles \<noteq> [] \<and> JStr (rc_role c) \<notin> set roles \<and> \<not> (exempt \<and> rd_reason role = ''workspace_not_registered'')
                  then [''workspace_role_not_allowed:'' @ rc_role c] else []
              | None \<Rightarrow> [])))))"

definition guard_sets :: "guard_env \<Rightarrow> guarded_run \<Rightarrow> json dict \<Rightarrow> action_sets outcome" where
  "guard_sets env run profile =
     (let snap = gn_policy_snapshot run
      in obind (hash_set (json_get ''allowed_actions'' (ge_policy env))) (\<lambda>allowed.
         obind (hash_set (json_get ''blocked_actions'' (ge_policy env))) (\<lambda>blocked.
         obind (hash_set (json_get ''allowed_actions'' snap)) (\<lambda>policy_allowed.
         obind (hash_set (json_get ''denied_actions'' snap)) (\<lambda>policy_denied.
         obind (hash_set (json_get ''approval_required_for'' snap)) (\<lambda>approvals.
         obind (hash_set (json_get ''denied_capabilities'' snap)) (\<lambda>capabilities.
         obind (if gn_requested_actions run = [] then Inr [] else profile_actions env profile) (\<lambda>actions.
           Inr \<lparr>as_allowed = allowed, as_blocked = blocked, as_policy_allowed = policy_allowed, as_policy_denied = policy_denied,
             as_approvals_required = approvals, as_denied_capabilities = capabilities, as_profile_actions = actions\<rparr>))))))))"

definition approval_reasons :: "guarded_run \<Rightarrow> approval_request option \<Rightarrow> str list" where
  "approval_reasons run approval =
     (case (approval, gn_execution_plan run) of
        (Some a, Some p) \<Rightarrow>
          if \<not> opt_truthy (aq_execution_id a) then [''approval_missing_execution_plan_binding'']
          else if aq_execution_id a \<noteq> Some (xp_execution_id p) then [''approval_execution_plan_mismatch'']
          else []
      | _ \<Rightarrow> [])"

text \<open>The answer of the matrix, dropped for a read-only analysis of a directory the registry does not know.\<close>

definition action_matrix :: "guard_env \<Rightarrow> guarded_run \<Rightarrow> bool \<Rightarrow> str \<Rightarrow> permission_decision option outcome" where
  "action_matrix env run exempt action =
     (if opt_truthy (gn_workspace run) then
        obind (decide_with_resources (ge_workspace env) (ge_registry env) (local_resources run) (gn_workspace run) action) (\<lambda>m.
          Inr (if exempt \<and> pmd_status m = ''denied'' \<and> readonly_action_allowed action (pmd_reason_code m) then None else Some m))
      else Inr None)"

fun check_actions ::
  "guard_env \<Rightarrow> guarded_run \<Rightarrow> action_sets \<Rightarrow> approval_request option \<Rightarrow> bool \<Rightarrow> nat \<Rightarrow> str list \<Rightarrow> grant_store \<Rightarrow>
     (canonical_decision list \<times> grant_store) outcome" where
  "check_actions env run s approval exempt n [] store = Inr ([], store)"
| "check_actions env run s approval exempt n (action # rest) store =
     obind (action_matrix env run exempt action) (\<lambda>matrix.
     obind (canonical_action_decision env run s approval (ge_uid env n) action matrix store) (\<lambda>(d, store1).
     obind (check_actions env run s approval exempt (Suc n) rest store1) (\<lambda>(ds, store2). Inr (d # ds, store2))))"

definition capability_reasons :: "guard_env \<Rightarrow> guarded_run \<Rightarrow> json dict \<Rightarrow> action_sets \<Rightarrow> str list outcome" where
  "capability_reasons env run profile s =
     obind (hash_set (if gn_capabilities_required run = [] then json_get ''required_capabilities'' profile
       else jstrs (gn_capabilities_required run))) (\<lambda>required.
       Inr (map (\<lambda>c. ''capability_denied:'' @ py_str (ge_render env) c)
         (filter (\<lambda>c. c \<in> set (as_denied_capabilities s)) (py_unique required))))"

definition closing_reasons :: "guard_env \<Rightarrow> guarded_run \<Rightarrow> str list" where
  "closing_reasons env run =
     (case gn_execution_plan run of
        Some p \<Rightarrow> if True \<in> set (gn_side_effects run) \<and> \<not> xp_approval_required p
          then [''side_effect_execution_plan_requires_approval''] else []
      | None \<Rightarrow> []) @
     (if gn_cancellation_requested run then [''cancellation_requested''] else []) @
     (if run_is_terminal (ge_lifecycle env) (gn_status run) then [''task_run_terminal''] else [])"

definition guard_decide :: "str list \<Rightarrow> canonical_decision list \<Rightarrow> guard_decision" where
  "guard_decide reasons decisions =
     (let unique = py_unique reasons
      in \<lparr>gw_allowed = (unique = []), gw_status = (if unique = [] then ''allowed'' else ''blocked''),
          gw_blocked_reasons = unique, gw_decisions = decisions\<rparr>)"

definition existing_approval ::
  "guard_env \<Rightarrow> guarded_run \<Rightarrow> approval_world \<Rightarrow> approval_request option \<times> approval_world" where
  "existing_approval env run w =
     (if opt_truthy (gn_approval_id run) then get_approval (ge_uid env 0) (ge_now env) (str_or (gn_approval_id run) []) w
      else (None, w))"

definition check_run :: "guard_env \<Rightarrow> guarded_run \<Rightarrow> guard_stores \<Rightarrow> (guard_decision \<times> guard_stores) outcome" where
  "check_run env run st =
     (let profile = (case guard_profile env run of Some p \<Rightarrow> p | None \<Rightarrow> []);
          exempt = readonly_unregistered_allowed env run profile;
          (approval, approvals) = existing_approval env run (gs_approvals st)
      in obind (workspace_reasons env run profile exempt) (\<lambda>ws.
         obind (guard_sets env run profile) (\<lambda>s.
         obind (check_actions env run s approval exempt 1 (gn_requested_actions run) (gs_grants st)) (\<lambda>(ds, grants).
         obind (capability_reasons env run profile s) (\<lambda>caps.
           Inr (guard_decide
             (identity_reasons env run @ (if guard_profile env run = None then [''runtime_profile_missing''] else []) @
              plan_reasons run @ ws @ approval_reasons run approval @
              List.map_filter (\<lambda>(d, a). legacy_reason d a) (zip ds (gn_requested_actions run)) @ caps @ closing_reasons env run)
             ds, \<lparr>gs_grants = grants, gs_approvals = approvals\<rparr>))))))"

section \<open>What an allowed run satisfies\<close>

text \<open>
  Authority of a human over an action: an approval that is approved and bound to the plan, or a mission that authorizes the
  capability on explicit evidence.
\<close>

definition human_backed :: "guarded_run \<Rightarrow> approval_request option \<Rightarrow> str \<Rightarrow> bool" where
  "human_backed run approval capability \<longleftrightarrow>
     (\<exists>m. gn_mission run = Some m \<and> capability \<in> set (ms_authorized_capabilities m) \<and> ms_explicit_evidence m \<noteq> []) \<or>
     (\<exists>a. approval = Some a \<and> aq_status a = ''approved'')"

lemma guard_facet_fields [simp]:
  "fc_permission (guard_facet n p s r c res) = p" "fc_facet (guard_facet n p s r c res) = n"
  "fc_capability (guard_facet n p s r c res) = Some c" "fc_requires_human_authority (guard_facet n p s r c res) = False"
  by (simp_all add: guard_facet_def)

lemma verdict_allowed:
  assumes "facet_verdict F c = ALLOWED" and "f \<in> F"
  shows "fc_permission f \<noteq> DENIED" "fc_permission f = ASK \<Longrightarrow> authority_in F (opt_or (fc_capability f) c)"
  using assms by (auto simp: facet_verdict_def open_ask_def split: if_splits)

lemma legacy_reason_None: "legacy_reason d a = None \<longleftrightarrow> cd_permission d = ALLOWED"
  by (auto simp: legacy_reason_def split: option.splits)

lemma blocked_action_reason_nonempty: "blocked_action_reason a \<noteq> []"
  by (auto simp: blocked_action_reason_def READ_WRITE_REASONS_def split: option.splits if_splits)

lemma static_facet_allowed:
  "fc_permission (static_facet s a c r) \<noteq> DENIED \<Longrightarrow> JStr a \<in> set (as_allowed s) \<and> JStr a \<notin> set (as_blocked s)"
  by (auto simp: static_facet_def blocked_action_reason_nonempty Let_def split: if_splits)

lemma snapshot_facet_allowed:
  "fc_permission (snapshot_facet s a c r) \<noteq> DENIED \<Longrightarrow> JStr a \<notin> set (as_policy_denied s) \<and>
     (as_policy_allowed s = [] \<or> JStr a \<in> set (as_policy_allowed s) \<or> JStr a \<in> set (as_approvals_required s))"
  by (auto simp: snapshot_facet_def Let_def split: if_splits)

lemma profile_facet_allowed: "fc_permission (profile_facet s a c r) \<noteq> DENIED \<Longrightarrow> a \<in> set (as_profile_actions s)"
  by (auto simp: profile_facet_def split: if_splits)

lemma mission_authority_evidence:
  assumes "mission_authority_allows env run a path res repo branch store = Inr (True, store')"
  shows "\<exists>m. gn_mission run = Some m \<and> a \<in> set (ms_authorized_capabilities m) \<and> ms_explicit_evidence m \<noteq> []"
proof -
  obtain m where m: "gn_mission run = Some m" "a \<in> set (ms_authorized_capabilities m)"
    using assms by (cases "gn_mission run") (auto simp: mission_authority_allows_def split: if_splits)
  have "ms_explicit_evidence m \<noteq> []"
  proof
    assume "ms_explicit_evidence m = []"
    moreover have "ms_authorized_capabilities m \<noteq> []" using m(2) by auto
    ultimately show False
      using assms m by (simp add: mission_authority_allows_def decision_for_contract_def ensure_mission_grant_def)
  qed
  with m show ?thesis by blast
qed

lemma human_facets_backed:
  assumes "f \<in> set (human_facets run capability res scope allowed approval)"
    and "allowed \<Longrightarrow> human_backed run approval capability"
  shows "fc_facet f = ''human_authority'' \<and> (fc_permission f = ALLOWED \<longrightarrow> human_backed run approval capability)"
proof (cases allowed)
  case True
  with assms show ?thesis by (cases scope) (simp add: human_facets_def)
next
  case False
  have "human_backed run (Some a) capability" if "aq_status a = ''approved''" for a using that by (auto simp: human_backed_def)
  with False assms(1) show ?thesis by (cases scope; cases approval) (auto simp: human_facets_def split: if_splits)
qed

text \<open>The facets of an action, and the part a human contributes.\<close>

definition other_facets :: "guard_env \<Rightarrow> guarded_run \<Rightarrow> action_sets \<Rightarrow> str \<Rightarrow> permission_decision option \<Rightarrow> str \<Rightarrow> policy_facet set" where
  "other_facets env run s action matrix capability =
     (let resource = (case matrix of Some m \<Rightarrow> pmd_workspace_id m | None \<Rightarrow> None)
      in set (demand_facets s action matrix capability) \<union> set (shell_facets env run action capability resource) \<union>
         set (capability_facets s capability resource))"

lemma canonical_action_decision_facets:
  assumes "canonical_action_decision env run s approval uid action matrix store = Inr (d, store')"
  defines "capability \<equiv> capability_for_action env run action matrix"
  shows "\<exists>H. cd_permission d = facet_verdict (other_facets env run s action matrix capability \<union> H) (Some capability) \<and>
    (\<forall>f \<in> H. fc_facet f = ''human_authority'' \<and> (fc_permission f = ALLOWED \<longrightarrow> human_backed run approval capability))"
proof -
  let ?res = "case matrix of Some m \<Rightarrow> pmd_workspace_id m | None \<Rightarrow> None"
  let ?scope = "git_authority_scope env run action capability"
  let ?needs = "resource_requires_human matrix \<or> policy_requires_human s action"
  obtain allowed where mission: "(if ?needs then mission_authority_allows env run capability (gn_workspace run)
      (opt_or (fst ?scope) ?res) (fst (snd ?scope)) (snd (snd ?scope)) store else Inr (False, store)) = Inr (allowed, store')"
    and d: "d = effective_resolve_facets (action_contract env run uid action)
             (demand_facets s action matrix capability @
              (if ?needs then human_facets run capability ?res ?scope allowed approval else []) @
              shell_facets env run action capability ?res @ capability_facets s capability ?res) (Some capability) ?res"
    using assms(1) unfolding canonical_action_decision_def Let_def obind_Inr_iff capability_def by auto
  let ?H = "set (if ?needs then human_facets run capability ?res ?scope allowed approval else [])"
  have "human_backed run approval capability" if "allowed"
    using mission that mission_authority_evidence unfolding human_backed_def by (metis Inr_inject Pair_inject)
  then have "\<forall>f \<in> ?H. fc_facet f = ''human_authority'' \<and> (fc_permission f = ALLOWED \<longrightarrow> human_backed run approval capability)"
    by (cases ?needs) (auto dest: human_facets_backed)
  moreover have "cd_permission d = facet_verdict (other_facets env run s action matrix capability \<union> ?H) (Some capability)"
    unfolding d effective_resolve_facets_def effective_source_simps resolve_facets_permission other_facets_def Let_def
    by (rule arg_cong2 [where f = facet_verdict]) auto
  ultimately show ?thesis by blast
qed

lemma resource_facet_fields [simp]:
  "fc_facet (resource_facet a c m) = ''resource_permission''" "fc_capability (resource_facet a c m) = Some c"
  "fc_requires_human_authority (resource_facet a c m) \<longleftrightarrow> pmd_status m = ''approval_required''"
  "fc_permission (resource_facet a c m) =
     (if pmd_status m = ''denied'' then DENIED else if pmd_status m = ''approval_required'' then ASK else ALLOWED)"
  by (simp_all add: resource_facet_def)

lemma named_facets [simp]:
  "fc_facet (static_facet s a c r) = ''global_policy''" "fc_facet (snapshot_facet s a c r) = ''policy_snapshot''"
  "fc_facet (profile_facet s a c r) = ''runtime_profile''"
  by (simp_all add: static_facet_def snapshot_facet_def profile_facet_def Let_def)

lemma other_facets_not_human:
  assumes "f \<in> other_facets env run s a matrix c"
  shows "fc_facet f \<noteq> ''human_authority''"
proof -
  consider "f \<in> set (demand_facets s a matrix c)" | res where "f \<in> set (shell_facets env run a c res)"
    | res where "f \<in> set (capability_facets s c res)"
    using assms by (auto simp: other_facets_def Let_def)
  then show ?thesis
  proof cases
    case 1
    then show ?thesis by (auto simp: demand_facets_def Let_def split: option.splits if_splits)
  next
    case 2
    then show ?thesis by (auto simp: shell_facets_def Let_def split: if_splits)
  next
    case 3
    then show ?thesis by (auto simp: capability_facets_def split: if_splits)
  qed
qed

lemma demand_facets_in:
  "static_facet s a c (case matrix of Some m \<Rightarrow> pmd_workspace_id m | None \<Rightarrow> None) \<in> other_facets env run s a matrix c"
  "snapshot_facet s a c (case matrix of Some m \<Rightarrow> pmd_workspace_id m | None \<Rightarrow> None) \<in> other_facets env run s a matrix c"
  "profile_facet s a c (case matrix of Some m \<Rightarrow> pmd_workspace_id m | None \<Rightarrow> None) \<in> other_facets env run s a matrix c"
  "matrix = Some m \<Longrightarrow> resource_facet a c m \<in> other_facets env run s a matrix c"
  by (simp_all add: other_facets_def demand_facets_def Let_def)

lemma policy_ask_in:
  assumes "policy_requires_human s a"
  shows "\<exists>f \<in> other_facets env run s a matrix c. fc_permission f = ASK \<and> fc_capability f = Some c"
  using assms by (simp add: other_facets_def demand_facets_def Let_def bex_Un)

lemma capability_denied_in:
  assumes "JStr c \<in> set (as_denied_capabilities s)"
  shows "\<exists>f \<in> other_facets env run s a matrix c. fc_permission f = DENIED"
  using assms by (simp add: other_facets_def capability_facets_def Let_def bex_Un)

text \<open>What the facets of an allowed action say, over the sets of the run.\<close>

definition action_clear ::
  "guard_env \<Rightarrow> guarded_run \<Rightarrow> action_sets \<Rightarrow> approval_request option \<Rightarrow> str \<Rightarrow> permission_decision option \<Rightarrow> bool" where
  "action_clear env run s approval a matrix \<longleftrightarrow>
     (let c = capability_for_action env run a matrix
      in JStr a \<in> set (as_allowed s) \<and> JStr a \<notin> set (as_blocked s) \<and> JStr a \<notin> set (as_policy_denied s) \<and>
         (as_policy_allowed s = [] \<or> JStr a \<in> set (as_policy_allowed s) \<or> JStr a \<in> set (as_approvals_required s)) \<and>
         a \<in> set (as_profile_actions s) \<and> JStr c \<notin> set (as_denied_capabilities s) \<and>
         (\<forall>m. matrix = Some m \<longrightarrow> pmd_status m \<noteq> ''denied'') \<and>
         (resource_requires_human matrix \<or> JStr a \<in> set (as_approvals_required s) \<longrightarrow> human_backed run approval c))"

lemma allowed_action_clear:
  assumes "canonical_action_decision env run s approval uid a matrix store = Inr (d, store')" and "cd_permission d = ALLOWED"
  shows "action_clear env run s approval a matrix"
proof -
  let ?c = "capability_for_action env run a matrix"
  let ?O = "other_facets env run s a matrix ?c"
  from canonical_action_decision_facets [OF assms(1)] assms(2) obtain H where
    v: "facet_verdict (?O \<union> H) (Some ?c) = ALLOWED" and
    H: "\<forall>f \<in> H. fc_facet f = ''human_authority'' \<and> (fc_permission f = ALLOWED \<longrightarrow> human_backed run approval ?c)" by metis
  have den: "fc_permission f \<noteq> DENIED" if "f \<in> ?O" for f using verdict_allowed(1) [OF v] that by blast
  have ask: "human_backed run approval ?c" if "f \<in> ?O" "fc_permission f = ASK" for f
  proof -
    have "authority_in (?O \<union> H) (opt_or (fc_capability f) (Some ?c))" using verdict_allowed(2) [OF v] that by blast
    then obtain h where "h \<in> ?O \<union> H" "fc_facet h = ''human_authority''" "fc_permission h = ALLOWED"
      by (auto simp: authority_in_def)
    with H other_facets_not_human show ?thesis by blast
  qed
  have "human_backed run approval ?c" if "resource_requires_human matrix"
    using that ask [OF demand_facets_in(4)] by (auto simp: resource_requires_human_def split: option.splits)
  moreover have "human_backed run approval ?c" if "JStr a \<in> set (as_approvals_required s)"
    using that ask policy_ask_in [of s a env run matrix ?c] by (auto simp: policy_requires_human_def)
  moreover have "pmd_status m \<noteq> ''denied''" if "matrix = Some m" for m
    using den [OF demand_facets_in(4) [OF that]] by (simp split: if_splits)
  moreover have "JStr ?c \<notin> set (as_denied_capabilities s)" using capability_denied_in [of ?c s env run a matrix] den by blast
  ultimately show ?thesis
    using static_facet_allowed [OF den [OF demand_facets_in(1)]] snapshot_facet_allowed [OF den [OF demand_facets_in(2)]]
      profile_facet_allowed [OF den [OF demand_facets_in(3)]]
    unfolding action_clear_def Let_def by blast
qed

lemma check_actions_all:
  assumes "check_actions env run s approval exempt n actions store = Inr (ds, store')"
  shows "list_all2 (\<lambda>a d. \<exists>matrix uid st st'. action_matrix env run exempt a = Inr matrix \<and>
    canonical_action_decision env run s approval uid a matrix st = Inr (d, st')) actions ds"
  using assms
proof (induction actions arbitrary: n store ds)
  case (Cons a actions)
  then obtain matrix d st1 rest where m: "action_matrix env run exempt a = Inr matrix"
    and d: "canonical_action_decision env run s approval (ge_uid env n) a matrix store = Inr (d, st1)"
    and r: "check_actions env run s approval exempt (Suc n) actions st1 = Inr (rest, store')" and ds: "ds = d # rest"
    by (auto simp: obind_Inr_iff)
  show ?case unfolding ds using m d Cons.IH [OF r] by auto
qed simp

lemma map_filter_zip_Nil:
  assumes "List.map_filter (\<lambda>(d, a). f d a) (zip ds as) = []" "list_all2 P as ds"
  shows "list_all2 (\<lambda>a d. P a d \<and> f d a = None) as ds"
  using assms(2,1)
proof (induction rule: list_all2_induct)
  case (Cons a as d ds)
  then show ?case by (cases "f d a") (auto simp: List.map_filter_simps)
qed simp

lemma py_unique_Nil [simp]: "py_unique xs = [] \<longleftrightarrow> xs = []"
  by (cases xs) simp_all

lemma identity_reasons_Nil:
  assumes "identity_reasons env run = []"
  shows "gn_task_run_id run = Some (gn_run_id run)" "opt_truthy (gn_task_id run)" "opt_truthy (gn_operation_id run)"
    "gn_bootstrap_context run \<noteq> []" "json_get ''task_id'' (gn_bootstrap_context run) = jopt (gn_task_id run)"
    "json_get ''operation_id'' (gn_bootstrap_context run) = jopt (gn_operation_id run)"
    "json_get ''task_run_id'' (gn_bootstrap_context run) = jopt (gn_task_run_id run)" "gn_policy_snapshot run \<noteq> []"
    "json_truthy (json_get ''enabled'' (sub_dict ''task_runtime'' (ge_policy env)))"
  using assms unfolding identity_reasons_def Let_def by (simp_all split: if_splits)

lemma plan_reasons_Nil:
  assumes "plan_reasons run = []"
  shows "\<exists>p. gn_execution_plan run = Some p \<and> xp_status p \<noteq> ''blocked'' \<and>
    (opt_truthy (xp_taskrun_id p) \<longrightarrow> xp_taskrun_id p = Some (gn_run_id run)) \<and>
    (opt_truthy (xp_task_id p) \<longrightarrow> xp_task_id p = gn_task_id run)"
  using assms by (auto simp: plan_reasons_def list_or_def split: option.splits if_splits)

lemma workspace_reasons_Nil:
  assumes "workspace_reasons env run profile exempt = Inr []"
  shows "\<not> Policy_Kernel.wp_blocked (workspace_evaluate (path_env.truncate (ge_workspace env)) (ge_protected_config env)
      (ge_protected_roots env) (gn_workspace run) (json_truthy (json_get ''required'' (sub_dict ''workspace_requirements'' profile))))"
  using assms unfolding workspace_reasons_def Let_def obind_Inr_iff by (auto split: if_splits)

lemma closing_reasons_Nil:
  assumes "closing_reasons env run = []"
  shows "\<not> gn_cancellation_requested run" "\<not> run_is_terminal (ge_lifecycle env) (gn_status run)"
    "gn_execution_plan run = Some p \<Longrightarrow> True \<in> set (gn_side_effects run) \<Longrightarrow> xp_approval_required p"
  using assms by (auto simp: closing_reasons_def split: if_splits option.splits)

lemma approval_reasons_Nil:
  assumes "approval_reasons run (Some a) = []" "gn_execution_plan run = Some p"
  shows "aq_execution_id a = Some (xp_execution_id p)"
  using assms by (auto simp: approval_reasons_def split: if_splits)

lemma list_all2_ex: "list_all2 P xs ys \<Longrightarrow> x \<in> set xs \<Longrightarrow> \<exists>y. P x y"
  by (fastforce simp: list_all2_conv_all_nth in_set_conv_nth)

lemma check_run_allowed:
  assumes "check_run env run st = Inr (d, st')" and "gw_allowed d"
  obtains profile s where "guard_profile env run = Some profile" "guard_sets env run profile = Inr s"
    "identity_reasons env run = []" "plan_reasons run = []"
    "workspace_reasons env run profile (readonly_unregistered_allowed env run profile) = Inr []"
    "approval_reasons run (fst (existing_approval env run (gs_approvals st))) = []" "closing_reasons env run = []"
    "\<forall>a \<in> set (gn_requested_actions run). \<exists>matrix.
       action_matrix env run (readonly_unregistered_allowed env run profile) a = Inr matrix \<and>
       action_clear env run s (fst (existing_approval env run (gs_approvals st))) a matrix"
proof -
  let ?profile = "case guard_profile env run of Some p \<Rightarrow> p | None \<Rightarrow> []"
  let ?ap = "fst (existing_approval env run (gs_approvals st))"
  let ?exempt = "readonly_unregistered_allowed env run ?profile"
  obtain ws s ds grants caps where ws: "workspace_reasons env run ?profile ?exempt = Inr ws"
    and s: "guard_sets env run ?profile = Inr s"
    and ds: "check_actions env run s ?ap ?exempt 1 (gn_requested_actions run) (gs_grants st) = Inr (ds, grants)"
    and d: "d = guard_decide
             (identity_reasons env run @ (if guard_profile env run = None then [''runtime_profile_missing''] else []) @
              plan_reasons run @ ws @ approval_reasons run ?ap @
              List.map_filter (\<lambda>(d, a). legacy_reason d a) (zip ds (gn_requested_actions run)) @ caps @ closing_reasons env run) ds"
    using assms(1) unfolding check_run_def Let_def by (auto simp: obind_Inr_iff split_beta)
  from assms(2) have nil: "identity_reasons env run = []" "guard_profile env run \<noteq> None" "plan_reasons run = []" "ws = []"
    "approval_reasons run ?ap = []" "closing_reasons env run = []"
    and legacy: "List.map_filter (\<lambda>(d, a). legacy_reason d a) (zip ds (gn_requested_actions run)) = []"
    unfolding d guard_decide_def Let_def by (auto split: if_splits)
  from nil(2) obtain profile where p: "guard_profile env run = Some profile" by auto
  have all: "list_all2 (\<lambda>a d. (\<exists>matrix uid st st'. action_matrix env run ?exempt a = Inr matrix \<and>
      canonical_action_decision env run s ?ap uid a matrix st = Inr (d, st')) \<and> legacy_reason d a = None) (gn_requested_actions run) ds"
    by (rule map_filter_zip_Nil [OF legacy check_actions_all [OF ds]])
  have "\<exists>matrix. action_matrix env run ?exempt a = Inr matrix \<and> action_clear env run s ?ap a matrix"
    if "a \<in> set (gn_requested_actions run)" for a
  proof -
    from list_all2_ex [OF all that] obtain d' where "\<exists>matrix uid st st'. action_matrix env run ?exempt a = Inr matrix \<and>
        canonical_action_decision env run s ?ap uid a matrix st = Inr (d', st')" "legacy_reason d' a = None"
      by blast
    then show ?thesis using allowed_action_clear legacy_reason_None by blast
  qed
  with that [of profile s] p s ws nil show thesis by simp
qed

text \<open>
  C1. The guard of a run is sound: a run it lets through is the one its bootstrap context and plan name, under an enabled runtime and a
  policy decision, with a known profile and a plan that is not blocked, outside every protected root, neither cancelled nor
  ended. Every action it requests is allowed and not blocked by the runtime policy, not denied by the
  policy snapshot, part of the profile, of a capability that is not denied, and not denied by the workspace; and where the workspace or the
  policy asks for a human, an approved approval or an authorizing mission with evidence stands behind it. An approval
  that is used names the plan; a plan with side effects is one that requires approval.
\<close>

theorem guard_allows_sound:
  assumes "check_run env run st = Inr (d, st')" and "gw_allowed d"
  shows "\<exists>profile plan s. guard_profile env run = Some profile \<and> gn_execution_plan run = Some plan \<and>
    guard_sets env run profile = Inr s \<and> gn_task_run_id run = Some (gn_run_id run) \<and>
    opt_truthy (gn_task_id run) \<and> opt_truthy (gn_operation_id run) \<and>
    json_get ''task_id'' (gn_bootstrap_context run) = jopt (gn_task_id run) \<and>
    json_get ''operation_id'' (gn_bootstrap_context run) = jopt (gn_operation_id run) \<and>
    json_get ''task_run_id'' (gn_bootstrap_context run) = jopt (gn_task_run_id run) \<and>
    xp_status plan \<noteq> ''blocked'' \<and> (opt_truthy (xp_taskrun_id plan) \<longrightarrow> xp_taskrun_id plan = Some (gn_run_id run)) \<and>
    (opt_truthy (xp_task_id plan) \<longrightarrow> xp_task_id plan = gn_task_id run) \<and>
    \<not> Policy_Kernel.wp_blocked (workspace_evaluate (path_env.truncate (ge_workspace env)) (ge_protected_config env)
      (ge_protected_roots env) (gn_workspace run) (json_truthy (json_get ''required'' (sub_dict ''workspace_requirements'' profile)))) \<and>
    \<not> gn_cancellation_requested run \<and> \<not> run_is_terminal (ge_lifecycle env) (gn_status run) \<and>
    (True \<in> set (gn_side_effects run) \<longrightarrow> xp_approval_required plan) \<and>
    (\<forall>ap. fst (existing_approval env run (gs_approvals st)) = Some ap \<longrightarrow> aq_execution_id ap = Some (xp_execution_id plan)) \<and>
    (\<forall>a \<in> set (gn_requested_actions run). \<exists>matrix.
       action_matrix env run (readonly_unregistered_allowed env run profile) a = Inr matrix \<and>
       action_clear env run s (fst (existing_approval env run (gs_approvals st))) a matrix)"
proof -
  obtain profile s where p: "guard_profile env run = Some profile" "guard_sets env run profile = Inr s"
    and i: "identity_reasons env run = []" and pl: "plan_reasons run = []"
    and w: "workspace_reasons env run profile (readonly_unregistered_allowed env run profile) = Inr []"
    and ap: "approval_reasons run (fst (existing_approval env run (gs_approvals st))) = []" and c: "closing_reasons env run = []"
    and act: "\<forall>a \<in> set (gn_requested_actions run). \<exists>matrix.
       action_matrix env run (readonly_unregistered_allowed env run profile) a = Inr matrix \<and>
       action_clear env run s (fst (existing_approval env run (gs_approvals st))) a matrix"
    using check_run_allowed [OF assms] by blast
  obtain plan where plan: "gn_execution_plan run = Some plan" "xp_status plan \<noteq> ''blocked''"
    "opt_truthy (xp_taskrun_id plan) \<longrightarrow> xp_taskrun_id plan = Some (gn_run_id run)"
    "opt_truthy (xp_task_id plan) \<longrightarrow> xp_task_id plan = gn_task_id run"
    using plan_reasons_Nil [OF pl] by blast
  have bound: "\<forall>ap. fst (existing_approval env run (gs_approvals st)) = Some ap \<longrightarrow> aq_execution_id ap = Some (xp_execution_id plan)"
    using ap approval_reasons_Nil [OF _ plan(1)] by auto
  note facts = p plan identity_reasons_Nil(1-3,5-7) [OF i] workspace_reasons_Nil [OF w] closing_reasons_Nil(1,2) [OF c] bound
  have "True \<in> set (gn_side_effects run) \<longrightarrow> xp_approval_required plan" using closing_reasons_Nil(3) [OF c plan(1)] by blast
  with facts act show ?thesis
    by (intro exI [of _ profile] exI [of _ plan] exI [of _ s] conjI ballI) simp_all
qed

section \<open>The guard in front of the loop\<close>

lemma block_parts_without_executor:
  "transition_to (env\<lparr>le_execute := x\<rparr>) = transition_to env"
  "record_block (env\<lparr>le_execute := x\<rparr>) = record_block env"
  "build_context (env\<lparr>le_execute := x\<rparr>) = build_context env"
  "finalize_result (env\<lparr>le_execute := x\<rparr>) = finalize_result env"
  by (simp_all add: fun_eq_iff transition_to_def record_block_def finalize_result_def build_context_def
      without_executor emit_all_without_executor Let_def)

lemma block_run_without_executor: "block_run (env\<lparr>le_execute := x\<rparr>) = block_run env"
  by (simp add: fun_eq_iff block_run_def block_parts_without_executor)

lemma refused_run_without_executor:
  assumes "le_check_run env run (snd (get_result (le_store env) (loop_rid run) st)) \<noteq> []"
  shows "loop_run_all (env\<lparr>le_execute := x\<rparr>) run st = loop_run_all env run st"
  using assms by (simp add: loop_run_all_def Let_def block_run_without_executor split_beta)

lemma guard_decide_reasons:
  assumes "check_run ge run st = Inr (d, st')"
  shows "gw_allowed d \<longleftrightarrow> gw_blocked_reasons d = []"
  using assms unfolding check_run_def Let_def by (auto simp: obind_Inr_iff guard_decide_def Let_def split: prod.splits)

text \<open>What the guard establishes of a run before it lets it through.\<close>

definition run_cleared :: "guard_env \<Rightarrow> guarded_run \<Rightarrow> guard_stores \<Rightarrow> bool" where
  "run_cleared ge run st \<longleftrightarrow>
     (\<exists>profile s. guard_profile ge run = Some profile \<and> guard_sets ge run profile = Inr s \<and> \<not> gn_cancellation_requested run \<and>
        (\<forall>a \<in> set (gn_requested_actions run). \<exists>matrix.
           action_matrix ge run (readonly_unregistered_allowed ge run profile) a = Inr matrix \<and>
           action_clear ge run s (fst (existing_approval ge run (gs_approvals st))) a matrix))"

text \<open>
  The interface of the loop to its guard: no reasons are given only for a run that is cleared. The lemma is the loop's
  side: a run that is not cleared is not executed.
\<close>

locale run_gate =
  fixes gate :: "loop_run \<Rightarrow> task_store \<Rightarrow> str list" and cleared :: "loop_run \<Rightarrow> task_store \<Rightarrow> bool"
  assumes gate_sound: "gate run st = [] \<Longrightarrow> cleared run st"
begin

lemma uncleared_not_executed:
  assumes "le_check_run env = gate" and "\<not> cleared run (snd (get_result (le_store env) (loop_rid run) st))"
  shows "loop_run_all (env\<lparr>le_execute := x\<rparr>) run st = loop_run_all env run st"
proof (rule refused_run_without_executor)
  show "le_check_run env run (snd (get_result (le_store env) (loop_rid run) st)) \<noteq> []"
    using assms gate_sound by metis
qed

end

text \<open>
  The guard as the loop calls it: \<open>view\<close> gives the fields of the run the guard reads, \<open>stores\<close> the approvals and grants
  that stand beside a task store. A check that raises ends the call of the loop before anything is executed; here it
  is a reason against the run.
\<close>

definition guard_reasons ::
  "guard_env \<Rightarrow> (loop_run \<Rightarrow> guarded_run) \<Rightarrow> (task_store \<Rightarrow> guard_stores) \<Rightarrow> loop_run \<Rightarrow> task_store \<Rightarrow> str list" where
  "guard_reasons ge view stores run st =
     (case check_run ge (view run) (stores st) of Inl e \<Rightarrow> [''guard_error:'' @ e] | Inr (d, _) \<Rightarrow> gw_blocked_reasons d)"

lemma allowed_run_cleared:
  assumes "check_run ge run st = Inr (d, st')" "gw_allowed d"
  shows "run_cleared ge run st"
proof -
  obtain profile s where "guard_profile ge run = Some profile" "guard_sets ge run profile = Inr s" "closing_reasons ge run = []"
    "\<forall>a \<in> set (gn_requested_actions run). \<exists>matrix.
       action_matrix ge run (readonly_unregistered_allowed ge run profile) a = Inr matrix \<and>
       action_clear ge run s (fst (existing_approval ge run (gs_approvals st))) a matrix"
    using check_run_allowed [OF assms] by blast
  then show ?thesis using closing_reasons_Nil(1) unfolding run_cleared_def by blast
qed

interpretation guard_gate: run_gate "guard_reasons ge view stores" "\<lambda>run st. run_cleared ge (view run) (stores st)" for ge view stores
proof
  fix run st
  assume none: "guard_reasons ge view stores run st = []"
  then obtain d st' where d: "check_run ge (view run) (stores st) = Inr (d, st')"
    by (cases "check_run ge (view run) (stores st)") (auto simp: guard_reasons_def)
  with none have "gw_allowed d" using guard_decide_reasons [OF d] by (simp add: guard_reasons_def)
  with d show "run_cleared ge (view run) (stores st)" by (rule allowed_run_cleared)
qed

text \<open>
  C5. Nothing is executed for a run that does not satisfy the guard. If one requested action is not allowed by policy,
  snapshot, profile and workspace, or needs a human and has none behind it, then the supervised loop behaves the
  same whatever the executor would do.
\<close>

theorem uncleared_run_not_executed:
  assumes "le_check_run env = guard_reasons ge view stores"
    and "\<not> run_cleared ge (view run) (stores (snd (get_result (le_store env) (loop_rid run) st)))"
  shows "loop_run_all (env\<lparr>le_execute := x\<rparr>) run st = loop_run_all env run st"
  using assms by (rule guard_gate.uncleared_not_executed)

section \<open>Examples\<close>

definition guard_resource :: mission_resource where
  "guard_resource = example_resource\<lparr>mr_permissions := [''modify_file'']\<rparr>"

definition guard_mission :: mission_contract where
  "guard_mission = Authority_Grants.example_mission\<lparr>ms_local_resources := [guard_resource], ms_authorized_capabilities := [''modify_file'']\<rparr>"

definition example_guard_env :: guard_env where
  "example_guard_env =
     \<lparr>ge_workspace = example_workspace_env,
      ge_registry = [(''workspaces'', JList [JObj (entry_dump (example_entry ''out'' ''/home/out'' ''target_mutable''))])],
      ge_protected_config = ''protected.yaml'', ge_protected_roots = [],
      ge_policy = [(''task_runtime'', JObj [(''enabled'', JBool True)]), (''allowed_actions'', jstrs [''write_files'']),
        (''blocked_actions'', jstrs [''shell''])],
      ge_steps = [(''step_types'', JObj [(''write'', JObj [(''action'', JStr ''write_files'')])])],
      ge_profiles = \<lparr>ps_profiles = [(''write_file'', [(''steps'', jstrs [''write''])])], ps_operations = []\<rparr>,
      ge_lifecycle = shipped_lifecycle, ge_sha = id, ge_inside = (\<lambda>p root. p = root), ge_now = 0, ge_uid = (\<lambda>_. ''1'')\<rparr>"

definition example_guarded_run :: guarded_run where
  "example_guarded_run =
     \<lparr>gn_run_id = ''r1'', gn_task_id = Some ''t1'', gn_operation_id = Some ''o1'', gn_task_run_id = Some ''r1'',
      gn_bootstrap_context = [(''task_id'', JStr ''t1''), (''task_run_id'', JStr ''r1''), (''operation_id'', JStr ''o1'')],
      gn_approval_id = None, gn_session_id = None, gn_mission = Some guard_mission, gn_workspace = Some ''/home/out'',
      gn_contract_type = ''filesystem_write'', gn_operation_type = None, gn_runtime_profile = None,
      gn_capabilities_required = [], gn_requested_actions = [''write_files''], gn_intent_map = [], gn_status = ''queued'',
      gn_execution_plan = Some \<lparr>xp_execution_id = ''x1'', xp_taskrun_id = Some ''r1'', xp_task_id = Some ''t1'', xp_status = ''ready'',
        xp_blocked_reasons = [], xp_approval_required = True\<rparr>,
      gn_side_effects = [True], gn_policy_snapshot = [(''status'', JStr ''allowed'')], gn_cancellation_requested = False\<rparr>"

definition no_approvals :: approval_world where
  "no_approvals = \<lparr>pw_drafts = [], pw_previews = [], pw_preview_events = [], aw_approvals = [], aw_events = [], aw_artifacts = []\<rparr>"

definition example_stores :: guard_stores where
  "example_stores = \<lparr>gs_grants = [], gs_approvals = no_approvals\<rparr>"

text \<open>The example in the steps of the guard.\<close>

definition example_profile :: "json dict" where
  "example_profile = [(''steps'', jstrs [''write''])]"

definition example_sets :: action_sets where
  "example_sets =
     \<lparr>as_allowed = [JStr ''write_files''], as_blocked = [JStr ''shell''], as_policy_allowed = [], as_policy_denied = [],
      as_approvals_required = [], as_denied_capabilities = [], as_profile_actions = [''write_files'']\<rparr>"

definition example_matrix :: permission_decision where
  "example_matrix = the (projr (action_matrix example_guard_env example_guarded_run False ''write_files''))"

lemma example_matrix_fields:
  "action_matrix example_guard_env example_guarded_run False ''write_files'' = Inr (Some example_matrix)"
  "pmd_workspace_id example_matrix = Some ''res_1''" "pmd_status example_matrix = ''approval_required''"
  "pmd_permission example_matrix = ''modify_file''"
  by code_simp+

lemma example_mission_allows:
  "\<exists>grants. mission_authority_allows example_guard_env example_guarded_run ''modify_file'' (Some ''/home/out'') (Some ''res_1'') None None [] =
     Inr (True, grants)"
proof -
  have "case mission_authority_allows example_guard_env example_guarded_run ''modify_file'' (Some ''/home/out'') (Some ''res_1'') None None [] of
      Inl _ \<Rightarrow> False | Inr r \<Rightarrow> fst r" by code_simp
  from outcome_evaluates [OF this] show ?thesis by auto
qed

lemma example_steps:
  "guard_profile example_guard_env example_guarded_run = Some example_profile"
  "readonly_unregistered_allowed example_guard_env example_guarded_run example_profile = False"
  "workspace_reasons example_guard_env example_guarded_run example_profile False = Inr []"
  "guard_sets example_guard_env example_guarded_run example_profile = Inr example_sets"
  "capability_reasons example_guard_env example_guarded_run example_profile example_sets = Inr []"
  "identity_reasons example_guard_env example_guarded_run = []" "plan_reasons example_guarded_run = []"
  "closing_reasons example_guard_env example_guarded_run = []"
  "existing_approval example_guard_env example_guarded_run w = (None, w)"
  "capability_for_action example_guard_env example_guarded_run ''write_files'' (Some example_matrix) = ''modify_file''"
  "git_authority_scope example_guard_env example_guarded_run ''write_files'' ''modify_file'' = (None, None, None)"
  by code_simp+

lemma example_action_allowed:
  "\<exists>d grants. canonical_action_decision example_guard_env example_guarded_run example_sets None uid ''write_files'' (Some example_matrix) [] =
     Inr (d, grants) \<and> cd_permission d = ALLOWED"
proof -
  from example_mission_allows obtain grants where
    g: "mission_authority_allows example_guard_env example_guarded_run ''modify_file'' (Some ''/home/out'') (Some ''res_1'') None None [] =
      Inr (True, grants)" ..
  have w: "gn_workspace example_guarded_run = Some ''/home/out''" "gn_intent_map example_guarded_run = []"
    by (simp_all add: example_guarded_run_def)
  have h: "opt_or None (Some ''res_1'') = Some ''res_1''" by (simp add: opt_or_def)
  show ?thesis
    by (simp add: canonical_action_decision_def Let_def example_steps(10,11) example_matrix_fields resource_requires_human_def w h g
        effective_resolve_facets_def resolve_facets_permission demand_facets_def human_facets_def shell_facets_def
        capability_facets_def policy_requires_human_def example_sets_def static_facet_def snapshot_facet_def profile_facet_def
        facet_verdict_def open_ask_def authority_in_def json_get_def opt_or_def)
qed

lemma example_run_allowed: "\<exists>d st'. check_run example_guard_env example_guarded_run example_stores = Inr (d, st') \<and> gw_allowed d"
proof -
  from example_action_allowed [of "ge_uid example_guard_env (Suc 0)"] obtain d grants where
    d: "canonical_action_decision example_guard_env example_guarded_run example_sets None (ge_uid example_guard_env (Suc 0)) ''write_files''
      (Some example_matrix) [] = Inr (d, grants)" "cd_permission d = ALLOWED" by blast
  have r: "gn_requested_actions example_guarded_run = [''write_files'']" "gs_grants example_stores = []"
    by (simp_all add: example_guarded_run_def example_stores_def)
  show ?thesis
    by (simp add: check_run_def Let_def example_steps r d example_matrix_fields(1) approval_reasons_def guard_decide_def
        legacy_reason_def List.map_filter_simps)
qed

lemma guard_allows_sound_witness:
  "\<exists>profile s matrix. guard_profile example_guard_env example_guarded_run = Some profile \<and>
     action_clear example_guard_env example_guarded_run s
       (fst (existing_approval example_guard_env example_guarded_run (gs_approvals example_stores))) ''write_files'' matrix"
proof -
  from example_run_allowed obtain d st' where
    d: "check_run example_guard_env example_guarded_run example_stores = Inr (d, st')" "gw_allowed d" by blast
  have "''write_files'' \<in> set (gn_requested_actions example_guarded_run)" by (simp add: example_guarded_run_def)
  with guard_allows_sound [OF d] show ?thesis by blast
qed

definition example_refused_run :: guarded_run where
  "example_refused_run = example_guarded_run\<lparr>gn_runtime_profile := Some ''unknown'', gn_requested_actions := []\<rparr>"

lemma uncleared_run_not_executed_witness:
  "let env = sample_loop_env\<lparr>le_check_run := guard_reasons example_guard_env (\<lambda>_. example_refused_run) (\<lambda>_. example_stores)\<rparr>
   in loop_run_all (env\<lparr>le_execute := \<lambda>_ _ _ st. (Inl ''executed'', st)\<rparr>) (sample_loop_run ''queued'') sample_timeline =
      loop_run_all env (sample_loop_run ''queued'') sample_timeline"
proof -
  let ?env = "sample_loop_env\<lparr>le_check_run := guard_reasons example_guard_env (\<lambda>_. example_refused_run) (\<lambda>_. example_stores)\<rparr>"
  have "guard_profile example_guard_env example_refused_run = None" by code_simp
  then have none: "\<not> run_cleared example_guard_env example_refused_run st" for st by (simp add: run_cleared_def)
  have gate: "le_check_run ?env = guard_reasons example_guard_env (\<lambda>_. example_refused_run) (\<lambda>_. example_stores)" by simp
  show ?thesis unfolding Let_def by (rule uncleared_run_not_executed [OF gate none])
qed

end
