(* ===== verification/Semantic_Compatibility.thy ===== *)
theory Semantic_Compatibility
  imports Semantic_Contracts
begin

text \<open>
  \<open>OfferDemandCompatibilityService\<close> (\<open>services/semantics/offer_demand_compatibility_service.py\<close>): an
  immutable producer offer against one immutable edge demand. The loops of \<open>evaluate\<close> classify one
  dimension after the other and append it to one of three lists; here \<open>verdicts\<close> is the sequence of
  classifications and the three lists are read off it. The uuid and clock values are arguments.
\<close>

datatype verdict = Satisfied | Blocked | Unknown

record compatibility_evaluation =
  ce_evaluation_id :: str
  ce_status :: str
  ce_compatibility :: "compatibility option"
  ce_reason_codes :: "str list"
  ce_evaluated_at :: str

definition validate_binding :: "semantic_graph \<Rightarrow> semantic_offer \<Rightarrow> edge_demand \<Rightarrow> str option" where
  "validate_binding g f d =
     (if so_semantic_graph_id f \<noteq> sg_semantic_graph_id g \<or> ed_semantic_graph_id d \<noteq> sg_semantic_graph_id g
        then Some ''OFFER_DEMAND_GRAPH_ID_MISMATCH''
      else if so_semantic_graph_authority_sha256 f \<noteq> sg_authority_sha256 g
              \<or> ed_semantic_graph_authority_sha256 d \<noteq> sg_authority_sha256 g
        then Some ''OFFER_DEMAND_GRAPH_HASH_MISMATCH''
      else if so_vocabulary_binding f \<noteq> ed_vocabulary_binding d
        then Some ''OFFER_DEMAND_VOCABULARY_BINDING_MISMATCH''
      else if so_producer_work_unit_id f \<noteq> ed_producer_work_unit_id d
        then Some ''OFFER_DEMAND_PRODUCER_MISMATCH''
      else case find (\<lambda>e. se_edge_id e = ed_edge_id d) (sg_edges g) of
             None \<Rightarrow> Some ''OFFER_DEMAND_EDGE_UNKNOWN''
           | Some e \<Rightarrow>
               if se_producer_work_unit_id e \<noteq> ed_producer_work_unit_id d
                  \<or> se_consumer_work_unit_id e \<noteq> ed_consumer_work_unit_id d
               then Some ''OFFER_DEMAND_EDGE_BINDING_MISMATCH'' else None)"

text \<open>Membership in a positive, open-world list of the offer: absence is unknown, never blocked.\<close>

definition positive_verdicts :: "str \<Rightarrow> str list \<Rightarrow> str list \<Rightarrow> (verdict \<times> str) list" where
  "positive_verdicts label required offered =
     map (\<lambda>x. (if x \<in> set offered then Satisfied else Unknown, label @ x)) required"

definition use_safety_verdict :: "semantic_offer \<Rightarrow> str \<times> scalar list \<Rightarrow> verdict \<times> str" where
  "use_safety_verdict f = (\<lambda>(name, acceptable).
     (case map_of (so_use_safety f) name of
        None \<Rightarrow> Unknown
      | Some observed \<Rightarrow> if scalar_in observed acceptable then Satisfied else Blocked,
      ''use_safety:'' @ name))"

definition property_verdict :: "semantic_offer \<Rightarrow> str \<times> scalar list \<Rightarrow> verdict \<times> str" where
  "property_verdict f = (\<lambda>(name, acceptable).
     (case map_of (so_semantic_properties f) name of
        None \<Rightarrow> Unknown
      | Some observed \<Rightarrow>
          if observed = SStr ''unknown'' then Unknown
          else if scalar_in observed acceptable then Satisfied else Blocked,
      ''semantic_property:'' @ name))"

definition prohibited_verdict :: "semantic_offer \<Rightarrow> str \<Rightarrow> verdict \<times> str" where
  "prohibited_verdict f effect =
     (if effect \<in> set (so_observed_effects f) then Blocked else Unknown, ''prohibited_effect:'' @ effect)"

definition evidence_verdicts :: "semantic_offer \<Rightarrow> edge_demand \<Rightarrow> (verdict \<times> str) list" where
  "evidence_verdicts f d =
     (if ed_evidence_required d
      then [(if so_evidence_refs f \<noteq> [] \<or> so_artifact_refs f \<noteq> [] then Satisfied else Unknown,
             ''evidence:required'')]
      else [])"

definition verdicts :: "semantic_offer \<Rightarrow> edge_demand \<Rightarrow> (verdict \<times> str) list" where
  "verdicts f d =
     (if ed_status d = ''partial'' then [(Unknown, ''demand:partial'')] else []) @
     positive_verdicts ''downstream_use:'' (ed_required_downstream_uses d) (so_allowed_downstream_uses f) @
     map (use_safety_verdict f) (ed_required_use_safety d) @
     map (property_verdict f) (ed_required_semantic_properties d) @
     positive_verdicts ''evidence_domain:'' (ed_required_evidence_domains d) (so_evidence_domains f) @
     positive_verdicts ''required_effect:'' (ed_required_upstream_effects d) (so_observed_effects f) @
     map (prohibited_verdict f) (ed_prohibited_upstream_effects d) @
     evidence_verdicts f d"

definition dimensions :: "verdict \<Rightarrow> (verdict \<times> str) list \<Rightarrow> str list" where
  "dimensions v vs = map snd (filter (\<lambda>(w, _). w = v) vs)"

text \<open>\<open>_unique\<close>: first occurrences of the non-empty values.\<close>

definition compat_unique :: "str list \<Rightarrow> str list" where
  "compat_unique xs = py_unique (filter (\<lambda>x. x \<noteq> []) xs)"

definition effective_constraints :: "semantic_offer \<Rightarrow> edge_demand \<Rightarrow> str list" where
  "effective_constraints f d =
     compat_unique (ed_base_constraints d @ ed_risk_constraints d @ so_risk_constraints f)"

definition compat_disclosures :: "semantic_offer \<Rightarrow> str list" where
  "compat_disclosures f =
     compat_unique (so_required_disclosures f @ map (\<lambda>x. ''limitation:'' @ x) (so_limitations f) @
       map (\<lambda>x. ''missing_truth:'' @ x) (so_missing_truth f))"

definition compat_constrained :: "semantic_offer \<Rightarrow> edge_demand \<Rightarrow> str list" where
  "compat_constrained f d =
     map (\<lambda>x. ''constraint:'' @ x) (effective_constraints f d) @
     map (\<lambda>x. ''disclosure:'' @ x) (compat_disclosures f)"

definition compat_decision :: "semantic_offer \<Rightarrow> edge_demand \<Rightarrow> str \<times> str list" where
  "compat_decision f d =
     (let vs = verdicts f d in
      if dimensions Blocked vs \<noteq> [] then (''blocked'', [''OFFER_DEMAND_INCOMPATIBLE''])
      else if dimensions Unknown vs \<noteq> []
        then (''insufficient_evidence'', [''OFFER_DEMAND_EVIDENCE_INSUFFICIENT''])
      else if compat_constrained f d \<noteq> [] \<or> so_status f = ''partial''
        then (''admitted_with_constraints'', [''OFFER_DEMAND_COMPATIBLE_WITH_CONSTRAINTS''])
      else (''admitted'', [''OFFER_DEMAND_COMPATIBLE'']))"

definition insufficient_compatibility :: "str \<Rightarrow> str \<Rightarrow> str \<Rightarrow> compatibility_evaluation" where
  "insufficient_compatibility uid now reason =
     \<lparr>ce_evaluation_id = ''offer_demand_compatibility_eval_'' @ uid,
      ce_status = ''insufficient_contract_evidence'', ce_compatibility = None,
      ce_reason_codes = [reason], ce_evaluated_at = now\<rparr>"

definition pending_compatibility ::
  "str \<Rightarrow> semantic_graph \<Rightarrow> semantic_offer \<Rightarrow> edge_demand \<Rightarrow> compatibility" where
  "pending_compatibility now g f d =
     (let vs = verdicts f d; (decision, reasons) = compat_decision f d in
      \<lparr>co_compatibility_id = ''pending'', co_edge_id = ed_edge_id d,
       co_semantic_graph_id = sg_semantic_graph_id g,
       co_semantic_graph_authority_sha256 = sg_authority_sha256 g,
       co_producer_work_unit_id = ed_producer_work_unit_id d,
       co_consumer_work_unit_id = ed_consumer_work_unit_id d,
       co_offer_id = so_offer_id f, co_offer_authority_sha256 = so_authority_sha256 f,
       co_demand_id = ed_demand_id d, co_demand_authority_sha256 = ed_authority_sha256 d,
       co_decision = decision,
       co_satisfied_dimensions = compat_unique (dimensions Satisfied vs),
       co_constrained_dimensions = compat_unique (compat_constrained f d),
       co_blocked_dimensions = compat_unique (dimensions Blocked vs),
       co_unknown_dimensions = compat_unique (dimensions Unknown vs),
       co_effective_constraints = effective_constraints f d,
       co_disclosures = compat_disclosures f, co_reason_codes = reasons,
       co_authority_sha256 = ''pending'', co_evaluated_at = now,
       co_schema_version = ''offer_demand_compatibility.v1''\<rparr>)"

definition compatibility_evaluate ::
  "(json \<Rightarrow> str) \<Rightarrow> str \<Rightarrow> str \<Rightarrow> semantic_plan \<Rightarrow> semantic_offer \<Rightarrow> edge_demand \<Rightarrow>
     compatibility_evaluation" where
  "compatibility_evaluate digest uid now plan f d =
     (case pl_semantic_execution_graph plan of
        None \<Rightarrow> insufficient_compatibility uid now ''OFFER_DEMAND_GRAPH_REQUIRED''
      | Some g \<Rightarrow>
          if \<not> graph_verify digest g
            then insufficient_compatibility uid now ''OFFER_DEMAND_GRAPH_AUTHORITY_INVALID''
          else if \<not> offer_verify digest f
            then insufficient_compatibility uid now ''OFFER_DEMAND_OFFER_AUTHORITY_INVALID''
          else if \<not> demand_verify digest d
            then insufficient_compatibility uid now ''OFFER_DEMAND_DEMAND_AUTHORITY_INVALID''
          else (case validate_binding g f d of
                  Some reason \<Rightarrow> insufficient_compatibility uid now reason
                | None \<Rightarrow>
                    \<lparr>ce_evaluation_id = ''offer_demand_compatibility_eval_'' @ uid,
                     ce_status = ''evaluated'',
                     ce_compatibility =
                       Some (compatibility_seal digest (pending_compatibility now g f d)),
                     ce_reason_codes = [], ce_evaluated_at = now\<rparr>))"

section \<open>Classification\<close>

lemma dimensions_eq_Nil_iff: "dimensions v vs = [] \<longleftrightarrow> (\<forall>p\<in>set vs. fst p \<noteq> v)"
  by (auto simp: dimensions_def filter_empty_conv)

lemma in_dimensions_iff: "x \<in> set (dimensions v vs) \<longleftrightarrow> (v, x) \<in> set vs"
  by (force simp: dimensions_def)

text \<open>When no dimension is blocked or unknown, the offer meets every requirement of the demand.\<close>

definition offer_meets :: "semantic_offer \<Rightarrow> edge_demand \<Rightarrow> bool" where
  "offer_meets f d \<longleftrightarrow>
     ed_status d \<noteq> ''partial'' \<and>
     set (ed_required_downstream_uses d) \<subseteq> set (so_allowed_downstream_uses f) \<and>
     (\<forall>(name, acceptable)\<in>set (ed_required_use_safety d).
        \<exists>v. map_of (so_use_safety f) name = Some v \<and> scalar_in v acceptable) \<and>
     (\<forall>(name, acceptable)\<in>set (ed_required_semantic_properties d).
        \<exists>v. map_of (so_semantic_properties f) name = Some v \<and> v \<noteq> SStr ''unknown'' \<and>
          scalar_in v acceptable) \<and>
     set (ed_required_evidence_domains d) \<subseteq> set (so_evidence_domains f) \<and>
     set (ed_required_upstream_effects d) \<subseteq> set (so_observed_effects f) \<and>
     ed_prohibited_upstream_effects d = [] \<and>
     (ed_evidence_required d \<longrightarrow> so_evidence_refs f \<noteq> [] \<or> so_artifact_refs f \<noteq> [])"

text \<open>An observation of the offer that contradicts the demand.\<close>

definition offer_contradicts :: "semantic_offer \<Rightarrow> edge_demand \<Rightarrow> bool" where
  "offer_contradicts f d \<longleftrightarrow>
     (\<exists>(name, acceptable)\<in>set (ed_required_use_safety d).
        \<exists>v. map_of (so_use_safety f) name = Some v \<and> \<not> scalar_in v acceptable) \<or>
     (\<exists>(name, acceptable)\<in>set (ed_required_semantic_properties d).
        \<exists>v. map_of (so_semantic_properties f) name = Some v \<and> v \<noteq> SStr ''unknown'' \<and>
          \<not> scalar_in v acceptable) \<or>
     set (ed_prohibited_upstream_effects d) \<inter> set (so_observed_effects f) \<noteq> {}"

lemma blocked_iff: "dimensions Blocked (verdicts f d) \<noteq> [] \<longleftrightarrow> offer_contradicts f d"
proof -
  have safety: "fst (use_safety_verdict f p) = Blocked \<longleftrightarrow>
      (\<exists>v. map_of (so_use_safety f) (fst p) = Some v \<and> \<not> scalar_in v (snd p))" for p
    by (auto simp: use_safety_verdict_def case_prod_unfold split: option.splits)
  have semprop: "fst (property_verdict f p) = Blocked \<longleftrightarrow>
      (\<exists>v. map_of (so_semantic_properties f) (fst p) = Some v \<and> v \<noteq> SStr ''unknown'' \<and>
        \<not> scalar_in v (snd p))" for p
    by (auto simp: property_verdict_def case_prod_unfold split: option.splits)
  have pos: "p \<in> set (positive_verdicts l r s) \<Longrightarrow> fst p \<noteq> Blocked" for p l r s
    by (auto simp: positive_verdicts_def split: if_splits)
  have "dimensions Blocked (verdicts f d) \<noteq> [] \<longleftrightarrow>
      (\<exists>p\<in>set (ed_required_use_safety d). fst (use_safety_verdict f p) = Blocked) \<or>
      (\<exists>p\<in>set (ed_required_semantic_properties d). fst (property_verdict f p) = Blocked) \<or>
      (\<exists>e\<in>set (ed_prohibited_upstream_effects d). e \<in> set (so_observed_effects f))"
  proof -
    have none: "(\<exists>p\<in>set (positive_verdicts l r s). fst p = Blocked) = False" for l r s
      using pos by blast
    have other: "(\<exists>p\<in>set (evidence_verdicts f d). fst p = Blocked) = False"
      by (simp add: evidence_verdicts_def)
    have proh: "fst (prohibited_verdict f e) = Blocked \<longleftrightarrow> e \<in> set (so_observed_effects f)" for e
      by (simp add: prohibited_verdict_def)
    have "dimensions Blocked (verdicts f d) \<noteq> [] \<longleftrightarrow> (\<exists>p\<in>set (verdicts f d). fst p = Blocked)"
      by (simp add: dimensions_eq_Nil_iff)
    then show ?thesis
      unfolding verdicts_def set_append bex_Un none other set_map bex_simps proh by simp
  qed
  then show ?thesis
    unfolding offer_contradicts_def safety semprop by (auto simp: case_prod_unfold)
qed

lemma meets_iff:
  "dimensions Blocked (verdicts f d) = [] \<and> dimensions Unknown (verdicts f d) = [] \<longleftrightarrow> offer_meets f d"
proof -
  have safety: "fst (use_safety_verdict f p) = Satisfied \<longleftrightarrow>
      (\<exists>v. map_of (so_use_safety f) (fst p) = Some v \<and> scalar_in v (snd p))" for p
    by (auto simp: use_safety_verdict_def case_prod_unfold split: option.splits)
  have semprop: "fst (property_verdict f p) = Satisfied \<longleftrightarrow>
      (\<exists>v. map_of (so_semantic_properties f) (fst p) = Some v \<and> v \<noteq> SStr ''unknown'' \<and>
        scalar_in v (snd p))" for p
    by (auto simp: property_verdict_def case_prod_unfold split: option.splits)
  have pos: "(\<forall>p\<in>set (positive_verdicts l r s). fst p = Satisfied) \<longleftrightarrow> set r \<subseteq> set s" for l r s
    by (auto simp: positive_verdicts_def)
  have proh: "fst (prohibited_verdict f e) \<noteq> Satisfied" for e
    by (simp add: prohibited_verdict_def)
  have sat: "v \<noteq> Blocked \<and> v \<noteq> Unknown \<longleftrightarrow> v = Satisfied" for v by (cases v) simp_all
  have "dimensions Blocked (verdicts f d) = [] \<and> dimensions Unknown (verdicts f d) = [] \<longleftrightarrow>
      (\<forall>p\<in>set (verdicts f d). fst p = Satisfied)"
    unfolding dimensions_eq_Nil_iff using sat by blast
  also have "\<dots> \<longleftrightarrow> offer_meets f d"
    unfolding verdicts_def set_append ball_Un pos offer_meets_def set_map ball_simps
    using proh by (auto simp: safety semprop evidence_verdicts_def case_prod_unfold)
  finally show ?thesis .
qed

lemma constrained_eq_Nil_iff:
  "compat_constrained f d = [] \<longleftrightarrow> effective_constraints f d = [] \<and> compat_disclosures f = []"
  by (simp add: compat_constrained_def)

lemma compat_decision_cases:
  "fst (compat_decision f d) =
     (if offer_contradicts f d then ''blocked''
      else if \<not> offer_meets f d then ''insufficient_evidence''
      else if compat_constrained f d \<noteq> [] \<or> so_status f = ''partial'' then ''admitted_with_constraints''
      else ''admitted'')"
  using blocked_iff [of f d] meets_iff [of f d] by (auto simp: compat_decision_def Let_def)

lemma evaluatedE:
  assumes "ce_compatibility (compatibility_evaluate digest uid now plan f d) = Some c"
  obtains g where "pl_semantic_execution_graph plan = Some g" and "graph_verify digest g"
    and "offer_verify digest f" and "demand_verify digest d" and "validate_binding g f d = None"
    and "c = compatibility_seal digest (pending_compatibility now g f d)"
  using assms
  by (auto simp: compatibility_evaluate_def insufficient_compatibility_def
      split: option.splits if_splits)

lemma pending_fields [simp]:
  "co_decision (pending_compatibility now g f d) = fst (compat_decision f d)"
  "co_edge_id (pending_compatibility now g f d) = ed_edge_id d"
  "co_effective_constraints (pending_compatibility now g f d) = effective_constraints f d"
  "co_disclosures (pending_compatibility now g f d) = compat_disclosures f"
  by (simp_all add: pending_compatibility_def Let_def case_prod_unfold)

section \<open>Properties\<close>

text \<open>
  Admission is sound: an evaluated compatibility that admits the edge (with or without
  constraints) comes from a graph, an offer and a demand whose digests verify and that name the same
  graph, vocabulary, producer and edge; the offer meets every requirement of the demand; and a plain
  admission carries no constraint and no disclosure.
\<close>

theorem compatibility_admission_sound:
  assumes "ce_compatibility (compatibility_evaluate digest uid now plan f d) = Some c"
    and "co_decision c \<in> {''admitted'', ''admitted_with_constraints''}"
  shows "offer_meets f d \<and> offer_verify digest f \<and> demand_verify digest d \<and>
    (\<exists>g e. pl_semantic_execution_graph plan = Some g \<and> graph_verify digest g \<and> e \<in> set (sg_edges g) \<and>
       se_edge_id e = co_edge_id c \<and> se_producer_work_unit_id e = so_producer_work_unit_id f \<and>
       so_semantic_graph_authority_sha256 f = sg_authority_sha256 g \<and>
       ed_semantic_graph_authority_sha256 d = sg_authority_sha256 g) \<and>
    (co_decision c = ''admitted'' \<longrightarrow>
       co_effective_constraints c = [] \<and> co_disclosures c = [] \<and> so_status f \<noteq> ''partial'')"
proof -
  from assms(1) obtain g where g: "pl_semantic_execution_graph plan = Some g" "graph_verify digest g"
    and v: "offer_verify digest f" "demand_verify digest d" "validate_binding g f d = None"
    and c: "c = compatibility_seal digest (pending_compatibility now g f d)" by (rule evaluatedE)
  from assms(2) have dec: "fst (compat_decision f d) \<in> {''admitted'', ''admitted_with_constraints''}"
    by (simp add: c)
  then have meets: "offer_meets f d" by (auto simp: compat_decision_cases split: if_splits)
  from v(3) obtain e where e: "find (\<lambda>e. se_edge_id e = ed_edge_id d) (sg_edges g) = Some e"
    and prod: "se_producer_work_unit_id e = so_producer_work_unit_id f"
    and sha: "so_semantic_graph_authority_sha256 f = sg_authority_sha256 g"
      "ed_semantic_graph_authority_sha256 d = sg_authority_sha256 g"
    by (auto simp: validate_binding_def split: if_splits option.splits)
  from e have "e \<in> set (sg_edges g)" "se_edge_id e = ed_edge_id d"
    by (auto simp: find_Some_iff)
  then have "\<exists>g e. pl_semantic_execution_graph plan = Some g \<and> graph_verify digest g \<and>
       e \<in> set (sg_edges g) \<and> se_edge_id e = co_edge_id c \<and>
       se_producer_work_unit_id e = so_producer_work_unit_id f \<and>
       so_semantic_graph_authority_sha256 f = sg_authority_sha256 g \<and>
       ed_semantic_graph_authority_sha256 d = sg_authority_sha256 g"
    using g prod sha by (auto simp: c)
  moreover have "co_effective_constraints c = [] \<and> co_disclosures c = [] \<and> so_status f \<noteq> ''partial''"
    if "co_decision c = ''admitted''"
    using that by (auto simp: c compat_decision_cases constrained_eq_Nil_iff split: if_splits)
  ultimately show ?thesis using meets v by blast
qed

definition example_compatibility :: "str \<Rightarrow> str \<Rightarrow> compatibility" where
  "example_compatibility e p =
     compatibility_seal example_digest
       (pending_compatibility [] example_graph (example_offer p) (example_demand e p))"

lemma example_compatibility_evaluates:
  "ce_compatibility (compatibility_evaluate example_digest ''1'' [] example_plan (example_offer ''u1'')
     (example_demand ''e1'' ''u1'')) = Some (example_compatibility ''e1'' ''u1'')"
  by code_simp

lemma example_compatibility_witness:
  "offer_meets (example_offer ''u1'') (example_demand ''e1'' ''u1'') \<and>
     offer_verify example_digest (example_offer ''u1'')"
proof -
  have "co_decision (example_compatibility ''e1'' ''u1'') = ''admitted''" by code_simp
  then show ?thesis
    using compatibility_admission_sound [OF example_compatibility_evaluates] by simp
qed

text \<open>
  The offer is read open-world: an evaluated compatibility blocks an edge exactly when the offer
  holds an observation that contradicts the demand, whatever else it omits; missing observations lead to
  insufficient evidence; the sealed result verifies under its own authority service.
\<close>

theorem compatibility_blocks_only_contradictions:
  assumes "ce_compatibility (compatibility_evaluate digest uid now plan f d) = Some c"
  shows "(co_decision c = ''blocked'' \<longleftrightarrow> offer_contradicts f d) \<and>
    (co_decision c = ''insufficient_evidence'' \<longleftrightarrow> \<not> offer_contradicts f d \<and> \<not> offer_meets f d) \<and>
    co_decision c \<in> {''admitted'', ''admitted_with_constraints'', ''blocked'', ''insufficient_evidence''} \<and>
    compatibility_verify digest c"
proof -
  from assms obtain g where c: "c = compatibility_seal digest (pending_compatibility now g f d)"
    by (rule evaluatedE)
  have "compatibility_verify digest c"
    unfolding compatibility_verify_def c by (rule compat.seal_verifies)
  then show ?thesis by (auto simp: c compat_decision_cases)
qed

lemma example_open_world_witness:
  "compatibility_verify example_digest (example_compatibility ''e1'' ''u1'') \<and>
     \<not> offer_contradicts (example_offer ''u1'') (example_demand ''e1'' ''u1'')"
proof -
  have "co_decision (example_compatibility ''e1'' ''u1'') = ''admitted''" by code_simp
  then show ?thesis
    using compatibility_blocks_only_contradictions [OF example_compatibility_evaluates] by auto
qed

end
