(* ===== verification/Semantic_Topology.thy ===== *)
theory Semantic_Topology
  imports Semantic_Compatibility "HOL-Library.Multiset"
begin

text \<open>
  \<open>SemanticNWayTopologyService\<close> (\<open>services/semantics/semantic_nway_topology_service.py\<close>): the context
  that binds demands, offers and compatibilities to the graph, the neighbourhood of a work unit, and
  the n-way join of a consumer. \<open>_context\<close> returns a context or a reason; a reason is \<open>Inl\<close>.
\<close>

section \<open>Context\<close>

record topology_context =
  tx_graph :: semantic_graph
  tx_work_units :: "str list"
  tx_demands_by_edge :: "edge_demand dict"
  tx_offers_by_unit :: "semantic_offer dict"
  tx_compatibilities_by_edge :: "compatibility dict"

definition graph_edge :: "semantic_graph \<Rightarrow> str \<Rightarrow> semantic_edge option" where
  "graph_edge g = last_by se_edge_id (sg_edges g)"

definition context_demand ::
  "(json \<Rightarrow> str) \<Rightarrow> semantic_graph \<Rightarrow> edge_demand \<Rightarrow> edge_demand dict \<Rightarrow> edge_demand dict outcome" where
  "context_demand digest g d acc =
     (if \<not> demand_verify digest d then Inl ''SEMANTIC_NWAY_DEMAND_AUTHORITY_INVALID''
      else if ed_semantic_graph_id d \<noteq> sg_semantic_graph_id g
              \<or> ed_semantic_graph_authority_sha256 d \<noteq> sg_authority_sha256 g
        then Inl ''SEMANTIC_NWAY_DEMAND_GRAPH_BINDING_MISMATCH''
      else case graph_edge g (ed_edge_id d) of
             None \<Rightarrow> Inl ''SEMANTIC_NWAY_DEMAND_EDGE_UNKNOWN''
           | Some e \<Rightarrow>
               if ed_producer_work_unit_id d \<noteq> se_producer_work_unit_id e
                  \<or> ed_consumer_work_unit_id d \<noteq> se_consumer_work_unit_id e
                 then Inl ''SEMANTIC_NWAY_DEMAND_EDGE_BINDING_MISMATCH''
               else if map_of acc (ed_edge_id d) \<noteq> None
                 then Inl ''SEMANTIC_NWAY_DUPLICATE_EDGE_DEMAND''
               else Inr (AList.update (ed_edge_id d) d acc))"

definition context_offer ::
  "(json \<Rightarrow> str) \<Rightarrow> semantic_graph \<Rightarrow> semantic_offer \<Rightarrow> semantic_offer dict \<times> semantic_offer dict \<Rightarrow>
     (semantic_offer dict \<times> semantic_offer dict) outcome" where
  "context_offer digest g f = (\<lambda>(by_unit, by_id).
     (if \<not> offer_verify digest f then Inl ''SEMANTIC_NWAY_OFFER_AUTHORITY_INVALID''
      else if so_semantic_graph_id f \<noteq> sg_semantic_graph_id g
              \<or> so_semantic_graph_authority_sha256 f \<noteq> sg_authority_sha256 g
        then Inl ''SEMANTIC_NWAY_OFFER_GRAPH_BINDING_MISMATCH''
      else if so_producer_work_unit_id f \<notin> wu_work_unit_id ` set (sg_work_units g)
        then Inl ''SEMANTIC_NWAY_OFFER_WORK_UNIT_UNKNOWN''
      else if map_of by_unit (so_producer_work_unit_id f) \<noteq> None
        then Inl ''SEMANTIC_NWAY_DUPLICATE_WORK_UNIT_OFFER''
      else Inr (AList.update (so_producer_work_unit_id f) f by_unit, AList.update (so_offer_id f) f by_id)))"

definition context_compatibility ::
  "(json \<Rightarrow> str) \<Rightarrow> semantic_graph \<Rightarrow> edge_demand list \<Rightarrow> semantic_offer dict \<Rightarrow> compatibility \<Rightarrow>
     compatibility dict \<Rightarrow> compatibility dict outcome" where
  "context_compatibility digest g demands offers_by_id c acc =
     (if \<not> compatibility_verify digest c then Inl ''SEMANTIC_NWAY_COMPATIBILITY_AUTHORITY_INVALID''
      else if co_semantic_graph_id c \<noteq> sg_semantic_graph_id g
              \<or> co_semantic_graph_authority_sha256 c \<noteq> sg_authority_sha256 g
        then Inl ''SEMANTIC_NWAY_COMPATIBILITY_GRAPH_BINDING_MISMATCH''
      else case graph_edge g (co_edge_id c) of
             None \<Rightarrow> Inl ''SEMANTIC_NWAY_COMPATIBILITY_EDGE_UNKNOWN''
           | Some e \<Rightarrow>
               if co_producer_work_unit_id c \<noteq> se_producer_work_unit_id e
                  \<or> co_consumer_work_unit_id c \<noteq> se_consumer_work_unit_id e
                 then Inl ''SEMANTIC_NWAY_COMPATIBILITY_EDGE_BINDING_MISMATCH''
               else if map_of acc (co_edge_id c) \<noteq> None
                 then Inl ''SEMANTIC_NWAY_DUPLICATE_EDGE_COMPATIBILITY''
               else case (find (\<lambda>d. ed_demand_id d = co_demand_id c) demands,
                          map_of offers_by_id (co_offer_id c)) of
                      (Some d, Some f) \<Rightarrow>
                        if co_demand_authority_sha256 c \<noteq> ed_authority_sha256 d
                           \<or> co_offer_authority_sha256 c \<noteq> so_authority_sha256 f
                        then Inl ''SEMANTIC_NWAY_COMPATIBILITY_INPUT_HASH_MISMATCH''
                        else Inr (AList.update (co_edge_id c) c acc)
                    | _ \<Rightarrow> Inl ''SEMANTIC_NWAY_COMPATIBILITY_INPUT_MISSING'')"

definition nway_context :: "(json \<Rightarrow> str) \<Rightarrow> semantic_plan \<Rightarrow> topology_context outcome" where
  "nway_context digest plan =
     (case pl_semantic_execution_graph plan of
        None \<Rightarrow> Inl ''SEMANTIC_NWAY_GRAPH_REQUIRED''
      | Some g \<Rightarrow>
          if \<not> graph_verify digest g then Inl ''SEMANTIC_NWAY_GRAPH_AUTHORITY_INVALID''
          else
            obind (ofold (context_demand digest g) (pl_edge_semantic_demands plan) []) (\<lambda>demands.
            obind (ofold (context_offer digest g) (pl_semantic_offers plan) ([], [])) (\<lambda>(by_unit, by_id).
            obind (ofold (context_compatibility digest g (pl_edge_semantic_demands plan) by_id)
                     (pl_offer_demand_compatibilities plan) []) (\<lambda>compats.
              Inr \<lparr>tx_graph = g, tx_work_units = map wu_work_unit_id (sg_work_units g),
                   tx_demands_by_edge = demands, tx_offers_by_unit = by_unit,
                   tx_compatibilities_by_edge = compats\<rparr>))))"

section \<open>Neighbourhood\<close>

definition edge_state_of :: "topology_context \<Rightarrow> semantic_edge \<Rightarrow> edge_state" where
  "edge_state_of cx e =
     (let d = map_of (tx_demands_by_edge cx) (se_edge_id e);
          f = map_of (tx_offers_by_unit cx) (se_producer_work_unit_id e);
          c = map_of (tx_compatibilities_by_edge cx) (se_edge_id e)
      in \<lparr>es_edge_id = se_edge_id e, es_producer_work_unit_id = se_producer_work_unit_id e,
          es_consumer_work_unit_id = se_consumer_work_unit_id e, es_required = se_required e,
          es_demand_id = map_option ed_demand_id d,
          es_demand_authority_sha256 = map_option ed_authority_sha256 d,
          es_offer_id = map_option so_offer_id f,
          es_offer_authority_sha256 = map_option so_authority_sha256 f,
          es_compatibility_id = map_option co_compatibility_id c,
          es_compatibility_authority_sha256 = map_option co_authority_sha256 c,
          es_compatibility_decision = map_option co_decision c\<rparr>)"

definition incoming_edges :: "semantic_graph \<Rightarrow> str \<Rightarrow> semantic_edge list" where
  "incoming_edges g u = filter (\<lambda>e. se_consumer_work_unit_id e = u) (sg_edges g)"

definition outgoing_edges :: "semantic_graph \<Rightarrow> str \<Rightarrow> semantic_edge list" where
  "outgoing_edges g u = filter (\<lambda>e. se_producer_work_unit_id e = u) (sg_edges g)"

definition topology_neighborhood ::
  "(json \<Rightarrow> str) \<Rightarrow> str \<Rightarrow> semantic_plan \<Rightarrow> str \<Rightarrow> neighborhood option" where
  "topology_neighborhood digest now plan work_unit_id =
     (case nway_context digest plan of
        Inl _ \<Rightarrow> None
      | Inr cx \<Rightarrow>
          if work_unit_id \<notin> set (tx_work_units cx) then None
          else
            let g = tx_graph cx;
                incoming = incoming_edges g work_unit_id;
                outgoing = outgoing_edges g work_unit_id;
                outgoing_states = map (edge_state_of cx) (sort_key se_edge_id outgoing)
            in Some (neighborhood_seal digest
                 \<lparr>nb_neighborhood_id = ''pending'', nb_semantic_graph_id = sg_semantic_graph_id g,
                  nb_semantic_graph_authority_sha256 = sg_authority_sha256 g,
                  nb_work_unit_id = work_unit_id,
                  nb_incoming_edges = map (edge_state_of cx) (sort_key se_edge_id incoming),
                  nb_outgoing_edges = outgoing_states,
                  nb_fan_in_count = length incoming, nb_fan_out_count = length outgoing,
                  nb_required_incoming_edge_ids = sort (map se_edge_id (filter se_required incoming)),
                  nb_optional_incoming_edge_ids =
                    sort (map se_edge_id (filter (\<lambda>e. \<not> se_required e) incoming)),
                  nb_outgoing_demand_ids = sort (List.map_filter es_demand_id outgoing_states),
                  nb_authority_sha256 = ''pending'', nb_projected_at = now,
                  nb_schema_version = ''semantic_topology_neighborhood.v1''\<rparr>))"

section \<open>Joins\<close>

datatype edge_outcome = Admitted | Constrained | BlockedEdge | Unresolved

definition decision_outcome :: "str \<Rightarrow> edge_outcome" where
  "decision_outcome s =
     (if s = ''blocked'' then BlockedEdge
      else if s = ''insufficient_evidence'' then Unresolved
      else if s = ''admitted_with_constraints'' then Constrained
      else if s = ''admitted'' then Admitted
      else Unresolved)"

definition join_outcome :: "compatibility dict \<Rightarrow> semantic_edge \<Rightarrow> edge_outcome" where
  "join_outcome cs e =
     (case map_of cs (se_edge_id e) of None \<Rightarrow> Unresolved | Some c \<Rightarrow> decision_outcome (co_decision c))"

text \<open>The edges of one outcome, in the order the loop meets them.\<close>

definition edges_with :: "(semantic_edge \<Rightarrow> edge_outcome) \<Rightarrow> edge_outcome \<Rightarrow> semantic_edge list \<Rightarrow> str list" where
  "edges_with out x es = map se_edge_id (filter (\<lambda>e. out e = x) es)"

definition optional_nonadmitted :: "compatibility dict \<Rightarrow> semantic_edge \<Rightarrow> bool" where
  "optional_nonadmitted cs e =
     (case map_of cs (se_edge_id e) of
        None \<Rightarrow> True
      | Some c \<Rightarrow> co_decision c \<notin> {''admitted'', ''admitted_with_constraints''})"

definition join_compatibilities :: "compatibility dict \<Rightarrow> semantic_edge list \<Rightarrow> compatibility list" where
  "join_compatibilities cs es = List.map_filter (\<lambda>e. map_of cs (se_edge_id e)) es"

text \<open>\<open>_unique\<close>: first occurrences of the values that are not blank.\<close>

definition topology_unique :: "str list \<Rightarrow> str list" where
  "topology_unique xs = py_unique (filter (\<lambda>x. py_strip x \<noteq> []) xs)"

text \<open>The worst outcome decides.\<close>

definition worst_decision :: "edge_outcome list \<Rightarrow> str" where
  "worst_decision os =
     (if BlockedEdge \<in> set os then ''blocked''
      else if Unresolved \<in> set os then ''insufficient_evidence''
      else if Constrained \<in> set os then ''admitted_with_constraints''
      else ''admitted'')"

definition join_reason :: "str \<Rightarrow> str" where
  "join_reason decision =
     (if decision = ''blocked'' then ''SEMANTIC_NWAY_REQUIRED_EDGE_BLOCKED''
      else if decision = ''insufficient_evidence'' then ''SEMANTIC_NWAY_REQUIRED_EDGE_UNRESOLVED''
      else if decision = ''admitted_with_constraints''
        then ''SEMANTIC_NWAY_REQUIRED_EDGES_ADMITTED_WITH_CONSTRAINTS''
      else ''SEMANTIC_NWAY_REQUIRED_EDGES_ADMITTED'')"

definition pending_join ::
  "str \<Rightarrow> semantic_graph \<Rightarrow> str \<Rightarrow> compatibility dict \<Rightarrow> semantic_edge list \<Rightarrow> join_evaluation" where
  "pending_join now g consumer cs incoming =
     (let required = sort_key se_edge_id (filter se_required incoming);
          optional = sort_key se_edge_id (filter (\<lambda>e. \<not> se_required e) incoming);
          out = join_outcome cs;
          constrained = join_compatibilities cs (filter (\<lambda>e. out e = Constrained) required);
          decision = worst_decision (map out required)
      in \<lparr>jo_join_id = ''pending'', jo_semantic_graph_id = sg_semantic_graph_id g,
          jo_semantic_graph_authority_sha256 = sg_authority_sha256 g,
          jo_consumer_work_unit_id = consumer,
          jo_required_edge_ids = map se_edge_id required, jo_optional_edge_ids = map se_edge_id optional,
          jo_compatibility_ids =
            sort (map co_compatibility_id (join_compatibilities cs (required @ optional))),
          jo_decision = decision,
          jo_admitted_edge_ids = sort (edges_with out Admitted required),
          jo_constrained_edge_ids = sort (edges_with out Constrained required),
          jo_blocked_edge_ids = sort (edges_with out BlockedEdge required),
          jo_unresolved_edge_ids = sort (edges_with out Unresolved required),
          jo_optional_nonadmitted_edge_ids =
            sort (map se_edge_id (filter (optional_nonadmitted cs) optional)),
          jo_effective_constraints = topology_unique (concat (map co_effective_constraints constrained)),
          jo_disclosures = topology_unique (concat (map co_disclosures constrained)),
          jo_reason_codes = [join_reason decision], jo_authority_sha256 = ''pending'',
          jo_evaluated_at = now, jo_schema_version = ''semantic_join_evaluation.v1''\<rparr>)"

record join_result =
  jr_evaluation_id :: str
  jr_status :: str
  jr_join :: "join_evaluation option"
  jr_reason_codes :: "str list"

definition join_refused :: "str \<Rightarrow> str \<Rightarrow> str \<Rightarrow> join_result" where
  "join_refused uid status reason =
     \<lparr>jr_evaluation_id = ''semantic_join_eval_'' @ uid, jr_status = status, jr_join = None,
      jr_reason_codes = [reason]\<rparr>"

definition evaluate_join ::
  "(json \<Rightarrow> str) \<Rightarrow> str \<Rightarrow> str \<Rightarrow> semantic_plan \<Rightarrow> str \<Rightarrow> join_result" where
  "evaluate_join digest uid now plan consumer =
     (case nway_context digest plan of
        Inl reason \<Rightarrow> join_refused uid ''insufficient_contract_evidence'' reason
      | Inr cx \<Rightarrow>
          if consumer \<notin> set (tx_work_units cx)
            then join_refused uid ''insufficient_contract_evidence'' ''SEMANTIC_NWAY_CONSUMER_UNKNOWN''
          else
            let incoming = incoming_edges (tx_graph cx) consumer in
            if incoming = []
              then join_refused uid ''not_applicable'' ''SEMANTIC_NWAY_JOIN_HAS_NO_INCOMING_EDGES''
            else
              \<lparr>jr_evaluation_id = ''semantic_join_eval_'' @ uid, jr_status = ''evaluated'',
               jr_join = Some (join_seal digest
                 (pending_join now (tx_graph cx) consumer (tx_compatibilities_by_edge cx) incoming)),
               jr_reason_codes = []\<rparr>)"

section \<open>What the context establishes\<close>

definition demand_bound :: "(json \<Rightarrow> str) \<Rightarrow> semantic_graph \<Rightarrow> edge_demand \<Rightarrow> bool" where
  "demand_bound digest g d \<longleftrightarrow>
     demand_verify digest d \<and> ed_semantic_graph_id d = sg_semantic_graph_id g \<and>
     ed_semantic_graph_authority_sha256 d = sg_authority_sha256 g \<and>
     (\<exists>e. graph_edge g (ed_edge_id d) = Some e \<and>
        ed_producer_work_unit_id d = se_producer_work_unit_id e \<and>
        ed_consumer_work_unit_id d = se_consumer_work_unit_id e)"

definition offer_bound :: "(json \<Rightarrow> str) \<Rightarrow> semantic_graph \<Rightarrow> semantic_offer \<Rightarrow> bool" where
  "offer_bound digest g f \<longleftrightarrow>
     offer_verify digest f \<and> so_semantic_graph_id f = sg_semantic_graph_id g \<and>
     so_semantic_graph_authority_sha256 f = sg_authority_sha256 g"

definition compatibility_bound ::
  "(json \<Rightarrow> str) \<Rightarrow> semantic_graph \<Rightarrow> edge_demand list \<Rightarrow> semantic_offer list \<Rightarrow> compatibility \<Rightarrow> bool" where
  "compatibility_bound digest g demands offers c \<longleftrightarrow>
     compatibility_verify digest c \<and> co_semantic_graph_id c = sg_semantic_graph_id g \<and>
     co_semantic_graph_authority_sha256 c = sg_authority_sha256 g \<and>
     (\<exists>e. graph_edge g (co_edge_id c) = Some e \<and>
        co_producer_work_unit_id c = se_producer_work_unit_id e \<and>
        co_consumer_work_unit_id c = se_consumer_work_unit_id e) \<and>
     (\<exists>d\<in>set demands. ed_demand_id d = co_demand_id c \<and>
        co_demand_authority_sha256 c = ed_authority_sha256 d) \<and>
     (\<exists>f\<in>set offers. so_offer_id f = co_offer_id c \<and>
        co_offer_authority_sha256 c = so_authority_sha256 f)"

interpretation demand_reg:
  unique_registry "context_demand digest g" ed_edge_id map_of "demand_bound digest g" for digest g
  by unfold_locales
    (auto simp: context_demand_def demand_bound_def update_conv' split: if_splits option.splits)

interpretation offer_reg:
  unique_registry "context_offer digest g" so_producer_work_unit_id "\<lambda>s. map_of (fst s)" "offer_bound digest g"
  for digest g
  by unfold_locales
    (auto simp: context_offer_def offer_bound_def update_conv' split: if_splits prod.splits)

lemma context_offer_ids:
  assumes "ofold (context_offer digest g) offers s = Inr s'"
    and "\<And>k f. map_of (snd s) k = Some f \<Longrightarrow> f \<in> F \<and> so_offer_id f = k" and "set offers \<subseteq> F"
    and "map_of (snd s') k = Some f"
  shows "f \<in> F \<and> so_offer_id f = k"
proof -
  let ?I = "\<lambda>s. \<forall>k f. map_of (snd s) k = Some f \<longrightarrow> f \<in> F \<and> so_offer_id f = k"
  have "?I s'"
  proof (rule ofold_invariant [OF assms(1), of ?I])
    show "?I s" using assms(2) by blast
    show "?I t'" if "x \<in> set offers" "?I t" "context_offer digest g x t = Inr t'" for x t t'
      using that assms(3)
      by (auto simp: context_offer_def update_conv' split: if_splits prod.splits)
  qed
  with assms(4) show ?thesis by blast
qed

definition compatibility_checked ::
  "(json \<Rightarrow> str) \<Rightarrow> semantic_graph \<Rightarrow> edge_demand list \<Rightarrow> semantic_offer dict \<Rightarrow> compatibility \<Rightarrow> bool" where
  "compatibility_checked digest g demands by_id c \<longleftrightarrow>
     compatibility_verify digest c \<and> co_semantic_graph_id c = sg_semantic_graph_id g \<and>
     co_semantic_graph_authority_sha256 c = sg_authority_sha256 g \<and>
     (\<exists>e. graph_edge g (co_edge_id c) = Some e \<and>
        co_producer_work_unit_id c = se_producer_work_unit_id e \<and>
        co_consumer_work_unit_id c = se_consumer_work_unit_id e) \<and>
     (\<exists>d\<in>set demands. ed_demand_id d = co_demand_id c \<and>
        co_demand_authority_sha256 c = ed_authority_sha256 d) \<and>
     (\<exists>f. map_of by_id (co_offer_id c) = Some f \<and> co_offer_authority_sha256 c = so_authority_sha256 f)"

interpretation compat_reg:
  unique_registry "context_compatibility digest g demands by_id" co_edge_id map_of
    "compatibility_checked digest g demands by_id" for digest g demands by_id
proof unfold_locales
  fix c :: compatibility and s s' :: "compatibility dict"
  assume "context_compatibility digest g demands by_id c s = Inr s'"
  then obtain e d f where "graph_edge g (co_edge_id c) = Some e"
    "find (\<lambda>d. ed_demand_id d = co_demand_id c) demands = Some d"
    "map_of by_id (co_offer_id c) = Some f" "map_of s (co_edge_id c) = None"
    "s' = AList.update (co_edge_id c) c s" "compatibility_verify digest c"
    "co_semantic_graph_id c = sg_semantic_graph_id g"
    "co_semantic_graph_authority_sha256 c = sg_authority_sha256 g"
    "co_producer_work_unit_id c = se_producer_work_unit_id e"
    "co_consumer_work_unit_id c = se_consumer_work_unit_id e"
    "co_demand_authority_sha256 c = ed_authority_sha256 d"
    "co_offer_authority_sha256 c = so_authority_sha256 f"
    by (auto simp: context_compatibility_def split: if_splits option.splits)
  moreover from this have "d \<in> set demands" "ed_demand_id d = co_demand_id c"
    by (auto simp: find_Some_iff)
  ultimately show "compatibility_checked digest g demands by_id c \<and> map_of s (co_edge_id c) = None \<and>
      map_of s' = (map_of s)(co_edge_id c \<mapsto> c)"
    by (auto simp: compatibility_checked_def update_conv')
qed

lemma nway_contextE:
  assumes "nway_context digest plan = Inr cx"
  obtains g where "pl_semantic_execution_graph plan = Some g" and "graph_verify digest g"
    and "tx_graph cx = g" and "tx_work_units cx = map wu_work_unit_id (sg_work_units g)"
    and "\<forall>d\<in>set (pl_edge_semantic_demands plan). demand_bound digest g d"
    and "distinct (map ed_edge_id (pl_edge_semantic_demands plan))"
    and "\<forall>f\<in>set (pl_semantic_offers plan). offer_bound digest g f"
    and "distinct (map so_producer_work_unit_id (pl_semantic_offers plan))"
    and "\<forall>c\<in>set (pl_offer_demand_compatibilities plan). compatibility_bound digest g
           (pl_edge_semantic_demands plan) (pl_semantic_offers plan) c"
    and "distinct (map co_edge_id (pl_offer_demand_compatibilities plan))"
    and "\<forall>k c. map_of (tx_compatibilities_by_edge cx) k = Some c \<longleftrightarrow>
           c \<in> set (pl_offer_demand_compatibilities plan) \<and> co_edge_id c = k"
proof -
  let ?ds = "pl_edge_semantic_demands plan" and ?fs = "pl_semantic_offers plan"
    and ?cs = "pl_offer_demand_compatibilities plan"
  from assms obtain g ds u i cs where g: "pl_semantic_execution_graph plan = Some g" "graph_verify digest g"
    and ds: "ofold (context_demand digest g) ?ds [] = Inr ds"
    and fs: "ofold (context_offer digest g) ?fs ([], []) = Inr (u, i)"
    and cs: "ofold (context_compatibility digest g ?ds i) ?cs [] = Inr cs"
    and cx: "tx_graph cx = g" "tx_work_units cx = map wu_work_unit_id (sg_work_units g)"
      "tx_compatibilities_by_edge cx = cs"
    by (auto simp: nway_context_def obind_eq_Inr_iff split: option.splits if_splits)
  have ids: "f \<in> set ?fs \<and> so_offer_id f = k" if "map_of i k = Some f" for k f
    using context_offer_ids [OF fs, of "set ?fs" k f] that by simp
  have bound: "compatibility_bound digest g ?ds ?fs c" if "c \<in> set ?cs" for c
    using compat_reg.register_all [OF cs] that ids
    by (fastforce simp: compatibility_checked_def compatibility_bound_def)
  show thesis
    using that [OF g cx(1,2)] demand_reg.register_all [OF ds] offer_reg.register_all [OF fs] bound
      compat_reg.register_all [OF cs] compat_reg.register_look [OF cs] cx(3) by auto
qed

section \<open>Joins and order\<close>

lemma worst_decision_cong: "set xs = set ys \<Longrightarrow> worst_decision xs = worst_decision ys"
  by (simp add: worst_decision_def)

lemma worst_decision_admitted_iff: "worst_decision xs = ''admitted'' \<longleftrightarrow> (\<forall>x\<in>set xs. x = Admitted)"
proof -
  have "x = Admitted \<longleftrightarrow> x \<noteq> BlockedEdge \<and> x \<noteq> Unresolved \<and> x \<noteq> Constrained" for x by (cases x) simp_all
  then show ?thesis by (auto simp: worst_decision_def)
qed

lemma worst_decision_blocked_iff: "worst_decision xs = ''blocked'' \<longleftrightarrow> BlockedEdge \<in> set xs"
  by (simp add: worst_decision_def)

lemma decision_outcome_Admitted [simp]: "decision_outcome s = Admitted \<longleftrightarrow> s = ''admitted''"
  by (simp add: decision_outcome_def)

lemma decision_outcome_Blocked [simp]: "decision_outcome s = BlockedEdge \<longleftrightarrow> s = ''blocked''"
  by (simp add: decision_outcome_def)

lemma sort_key_perm:
  assumes "mset xs = mset ys" and "distinct (map k xs)"
  shows "sort_key k xs = sort_key (k :: 'a \<Rightarrow> 'b::linorder) ys"
  using assms by (intro sort_key_inj_key_eq) (simp_all add: distinct_map)

text \<open>
  Joins are not positional: reordering the edges of the graph, with distinct edge identifiers,
  changes nothing in the join of a consumer; every field is the same.
\<close>

theorem join_order_independent:
  assumes "mset es = mset es'" and "distinct (map se_edge_id es)"
  shows "pending_join now g consumer cs (filter (\<lambda>e. se_consumer_work_unit_id e = consumer) es) =
    pending_join now g consumer cs (filter (\<lambda>e. se_consumer_work_unit_id e = consumer) es')"
proof -
  let ?in = "\<lambda>e. se_consumer_work_unit_id e = consumer"
  have "sort_key se_edge_id (filter P (filter ?in es)) = sort_key se_edge_id (filter P (filter ?in es'))" for P
    using assms by (intro sort_key_perm) (simp_all add: mset_filter distinct_map_filter)
  then show ?thesis by (simp add: pending_join_def)
qed

lemma example_join_order_witness:
  "pending_join [] example_graph ''u3'' []
     (filter (\<lambda>e. se_consumer_work_unit_id e = ''u3'') (sg_edges example_graph)) =
   pending_join [] example_graph ''u3'' []
     (filter (\<lambda>e. se_consumer_work_unit_id e = ''u3'') (rev (sg_edges example_graph)))"
  by (rule join_order_independent) (simp_all add: example_graph_def example_edge_def)

lemma join_outcome_iff:
  assumes look: "\<forall>k c. map_of T k = Some c \<longleftrightarrow> c \<in> C \<and> co_edge_id c = k" and "x \<noteq> Unresolved"
  shows "join_outcome T e = x \<longleftrightarrow>
    (\<exists>c\<in>C. co_edge_id c = se_edge_id e \<and> decision_outcome (co_decision c) = x)"
proof (cases "map_of T (se_edge_id e)")
  case None
  with look have "\<not> (\<exists>c\<in>C. co_edge_id c = se_edge_id e)" by (metis option.distinct(1))
  with None assms(2) show ?thesis by (auto simp: join_outcome_def)
next
  case (Some c)
  have "c' = c" if "c' \<in> C" "co_edge_id c' = se_edge_id e" for c'
    using that look Some by (metis option.inject)
  moreover from look Some have "c \<in> C \<and> co_edge_id c = se_edge_id e" by blast
  ultimately show ?thesis using Some by (auto simp: join_outcome_def)
qed

lemma evaluate_joinE:
  assumes "jr_join (evaluate_join digest uid now plan consumer) = Some j"
  obtains cx where "nway_context digest plan = Inr cx" and "consumer \<in> set (tx_work_units cx)"
    and "incoming_edges (tx_graph cx) consumer \<noteq> []"
    and "j = join_seal digest (pending_join now (tx_graph cx) consumer (tx_compatibilities_by_edge cx)
           (incoming_edges (tx_graph cx) consumer))"
  using assms by (auto simp: evaluate_join_def join_refused_def Let_def split: sum.splits if_splits)

text \<open>
  The join of a consumer, when evaluated, is as bad as its worst required input: it admits exactly
  when every required incoming edge has a compatibility that admits it, it blocks exactly when one
  of them is blocked, optional edges have no say, and the compatibilities it relied on verify and
  are bound to the verified graph, one per edge.
\<close>

theorem join_worst_required:
  assumes "jr_join (evaluate_join digest uid now plan consumer) = Some j"
  shows "\<exists>g. pl_semantic_execution_graph plan = Some g \<and> graph_verify digest g \<and> verify_join digest j \<and>
    (jo_decision j = ''admitted'' \<longleftrightarrow>
       (\<forall>e\<in>set (incoming_edges g consumer). se_required e \<longrightarrow>
          (\<exists>c\<in>set (pl_offer_demand_compatibilities plan). co_edge_id c = se_edge_id e \<and>
             co_decision c = ''admitted''))) \<and>
    (jo_decision j = ''blocked'' \<longleftrightarrow>
       (\<exists>e\<in>set (incoming_edges g consumer). se_required e \<and>
          (\<exists>c\<in>set (pl_offer_demand_compatibilities plan). co_edge_id c = se_edge_id e \<and>
             co_decision c = ''blocked''))) \<and>
    (\<forall>c\<in>set (pl_offer_demand_compatibilities plan). compatibility_bound digest g
       (pl_edge_semantic_demands plan) (pl_semantic_offers plan) c) \<and>
    distinct (map co_edge_id (pl_offer_demand_compatibilities plan))"
proof -
  let ?cs = "pl_offer_demand_compatibilities plan"
  from assms obtain cx where cx: "nway_context digest plan = Inr cx"
    and j: "j = join_seal digest (pending_join now (tx_graph cx) consumer (tx_compatibilities_by_edge cx)
           (incoming_edges (tx_graph cx) consumer))" by (rule evaluate_joinE)
  from cx obtain g where g: "pl_semantic_execution_graph plan = Some g" "graph_verify digest g" "tx_graph cx = g"
    and b: "\<forall>c\<in>set ?cs. compatibility_bound digest g (pl_edge_semantic_demands plan) (pl_semantic_offers plan) c"
      "distinct (map co_edge_id ?cs)"
    and look: "\<forall>k c. map_of (tx_compatibilities_by_edge cx) k = Some c \<longleftrightarrow> c \<in> set ?cs \<and> co_edge_id c = k"
    by (rule nway_contextE)
  let ?out = "join_outcome (tx_compatibilities_by_edge cx)"
  have dec: "jo_decision j = worst_decision (map ?out (filter se_required (incoming_edges g consumer)))"
    unfolding j join_seal_fields g(3) pending_join_def Let_def join_evaluation.simps
    by (rule worst_decision_cong) simp
  have adm: "?out e = Admitted \<longleftrightarrow> (\<exists>c\<in>set ?cs. co_edge_id c = se_edge_id e \<and> co_decision c = ''admitted'')" for e
    using join_outcome_iff [OF look, of Admitted e] by simp
  have blk: "?out e = BlockedEdge \<longleftrightarrow> (\<exists>c\<in>set ?cs. co_edge_id c = se_edge_id e \<and> co_decision c = ''blocked'')" for e
    using join_outcome_iff [OF look, of BlockedEdge e] by simp
  have "verify_join digest j" unfolding verify_join_def j by (rule joins.seal_verifies)
  moreover have "jo_decision j = ''admitted'' \<longleftrightarrow> (\<forall>e\<in>set (incoming_edges g consumer). se_required e \<longrightarrow> ?out e = Admitted)"
    unfolding dec worst_decision_admitted_iff by auto
  moreover have "jo_decision j = ''blocked'' \<longleftrightarrow> (\<exists>e\<in>set (incoming_edges g consumer). se_required e \<and> ?out e = BlockedEdge)"
    unfolding dec worst_decision_blocked_iff by force
  ultimately show ?thesis using g b unfolding adm blk by blast
qed

definition example_compatible_plan :: semantic_plan where
  "example_compatible_plan = example_plan\<lparr>pl_offer_demand_compatibilities :=
     [example_compatibility ''e1'' ''u1'', example_compatibility ''e2'' ''u2'']\<rparr>"

definition example_join :: join_evaluation where
  "example_join = join_seal example_digest (pending_join [] example_graph ''u3''
     [(''e1'', example_compatibility ''e1'' ''u1''), (''e2'', example_compatibility ''e2'' ''u2'')]
     (sg_edges example_graph))"

lemma example_join_evaluates:
  "jr_join (evaluate_join example_digest ''1'' [] example_compatible_plan ''u3'') = Some example_join"
  by code_simp

lemma example_join_witness: "verify_join example_digest example_join \<and> jo_decision example_join = ''admitted''"
proof -
  have "jo_decision example_join = ''admitted''" by code_simp
  then show ?thesis using join_worst_required [OF example_join_evaluates] by blast
qed

end
