(* ===== verification/Semantic_Truth.thy ===== *)
theory Semantic_Truth
  imports Semantic_Topology
begin

text \<open>
  \<open>SemanticCompletionTruthService\<close> (\<open>services/semantics/semantic_completion_truth_service.py\<close>): the
  facet that says whether the active semantic contracts of a plan support a success claim. The
  loops that collect invalid references and classify edges and joins are written as functions of one
  element (\<open>None\<close>: the element is accepted) mapped over the lists; the dictionaries keep the last
  accepted element of a key.
\<close>

section \<open>Facets\<close>

definition pending_facet :: "str \<Rightarrow> str \<Rightarrow> bool \<Rightarrow> semantic_graph option \<Rightarrow> truth_facet" where
  "pending_facet now status safe g =
     \<lparr>tf_facet_id = ''pending'', tf_status = status, tf_safe_to_report_success = safe,
      tf_semantic_graph_id = map_option sg_semantic_graph_id g,
      tf_semantic_graph_authority_sha256 = map_option sg_authority_sha256 g,
      tf_active_revision_id = None, tf_required_edge_ids = [], tf_admitted_edge_ids = [],
      tf_constrained_edge_ids = [], tf_blocked_edge_ids = [], tf_unresolved_edge_ids = [],
      tf_partial_demand_edge_ids = [], tf_required_join_consumer_ids = [],
      tf_constrained_join_consumer_ids = [], tf_blocked_join_consumer_ids = [],
      tf_unresolved_join_consumer_ids = [], tf_disclosures = [], tf_invalid_authority_refs = [],
      tf_reason_codes = [], tf_authority_sha256 = ''pending'', tf_evaluated_at = now,
      tf_schema_version = ''semantic_truth_facet.v1''\<rparr>"

definition freeze :: "(json \<Rightarrow> str) \<Rightarrow> truth_facet \<Rightarrow> truth_facet" where
  "freeze digest t = facet_seal digest
     (t\<lparr>tf_required_edge_ids := topology_unique (tf_required_edge_ids t),
        tf_admitted_edge_ids := topology_unique (tf_admitted_edge_ids t),
        tf_constrained_edge_ids := topology_unique (tf_constrained_edge_ids t),
        tf_blocked_edge_ids := topology_unique (tf_blocked_edge_ids t),
        tf_unresolved_edge_ids := topology_unique (tf_unresolved_edge_ids t),
        tf_partial_demand_edge_ids := topology_unique (tf_partial_demand_edge_ids t),
        tf_required_join_consumer_ids := topology_unique (tf_required_join_consumer_ids t),
        tf_constrained_join_consumer_ids := topology_unique (tf_constrained_join_consumer_ids t),
        tf_blocked_join_consumer_ids := topology_unique (tf_blocked_join_consumer_ids t),
        tf_unresolved_join_consumer_ids := topology_unique (tf_unresolved_join_consumer_ids t),
        tf_disclosures := topology_unique (tf_disclosures t),
        tf_invalid_authority_refs := topology_unique (tf_invalid_authority_refs t),
        tf_reason_codes := topology_unique (tf_reason_codes t)\<rparr>)"

section \<open>Invalid references\<close>

definition demand_ref :: "(json \<Rightarrow> str) \<Rightarrow> semantic_graph \<Rightarrow> edge_demand \<Rightarrow> str option" where
  "demand_ref digest g d =
     (if \<not> demand_verify digest d then Some (''demand:'' @ ed_demand_id d)
      else case graph_edge g (ed_edge_id d) of
             None \<Rightarrow> Some (''demand_binding:'' @ ed_demand_id d)
           | Some e \<Rightarrow>
               if ed_semantic_graph_id d \<noteq> sg_semantic_graph_id g
                  \<or> ed_semantic_graph_authority_sha256 d \<noteq> sg_authority_sha256 g
                  \<or> ed_producer_work_unit_id d \<noteq> se_producer_work_unit_id e
                  \<or> ed_consumer_work_unit_id d \<noteq> se_consumer_work_unit_id e
               then Some (''demand_binding:'' @ ed_demand_id d) else None)"

definition offer_ref :: "(json \<Rightarrow> str) \<Rightarrow> semantic_graph \<Rightarrow> semantic_offer \<Rightarrow> str option" where
  "offer_ref digest g f =
     (if \<not> offer_verify digest f then Some (''offer:'' @ so_offer_id f)
      else if so_semantic_graph_id f \<noteq> sg_semantic_graph_id g
              \<or> so_semantic_graph_authority_sha256 f \<noteq> sg_authority_sha256 g
        then Some (''offer_binding:'' @ so_offer_id f) else None)"

definition compatibility_ref ::
  "(json \<Rightarrow> str) \<Rightarrow> semantic_graph \<Rightarrow> edge_demand list \<Rightarrow> semantic_offer list \<Rightarrow> compatibility \<Rightarrow> str option" where
  "compatibility_ref digest g demands valid_offers c =
     (if \<not> compatibility_verify digest c then Some (''compatibility:'' @ co_compatibility_id c)
      else case (graph_edge g (co_edge_id c), find (\<lambda>d. ed_demand_id d = co_demand_id c) demands,
                 last_by so_offer_id valid_offers (co_offer_id c)) of
             (Some e, Some d, Some f) \<Rightarrow>
               if co_semantic_graph_id c \<noteq> sg_semantic_graph_id g
                  \<or> co_semantic_graph_authority_sha256 c \<noteq> sg_authority_sha256 g
                  \<or> co_producer_work_unit_id c \<noteq> se_producer_work_unit_id e
                  \<or> co_consumer_work_unit_id c \<noteq> se_consumer_work_unit_id e
                  \<or> co_demand_authority_sha256 c \<noteq> ed_authority_sha256 d
                  \<or> co_offer_authority_sha256 c \<noteq> so_authority_sha256 f
               then Some (''compatibility_binding:'' @ co_compatibility_id c) else None
           | _ \<Rightarrow> Some (''compatibility_binding:'' @ co_compatibility_id c))"

definition join_ref :: "(json \<Rightarrow> str) \<Rightarrow> semantic_graph \<Rightarrow> join_evaluation \<Rightarrow> str option" where
  "join_ref digest g j =
     (if \<not> verify_join digest j then Some (''join:'' @ jo_join_id j)
      else if jo_semantic_graph_id j \<noteq> sg_semantic_graph_id g
              \<or> jo_semantic_graph_authority_sha256 j \<noteq> sg_authority_sha256 g
        then Some (''join_binding:'' @ jo_join_id j) else None)"

definition duplicate_refs :: "semantic_plan \<Rightarrow> str list" where
  "duplicate_refs plan =
     (if distinct (map ed_edge_id (pl_edge_semantic_demands plan)) then [] else [''duplicate_edge_demand'']) @
     (if distinct (map so_producer_work_unit_id (pl_semantic_offers plan))
      then [] else [''duplicate_work_unit_offer'']) @
     (if distinct (map co_edge_id (pl_offer_demand_compatibilities plan))
      then [] else [''duplicate_edge_compatibility'']) @
     (if distinct (map jo_consumer_work_unit_id (pl_semantic_join_evaluations plan))
      then [] else [''duplicate_consumer_join''])"

definition valid_offers :: "(json \<Rightarrow> str) \<Rightarrow> semantic_graph \<Rightarrow> semantic_plan \<Rightarrow> semantic_offer list" where
  "valid_offers digest g plan = filter (\<lambda>f. offer_ref digest g f = None) (pl_semantic_offers plan)"

definition plan_compatibility_ref ::
  "(json \<Rightarrow> str) \<Rightarrow> semantic_graph \<Rightarrow> semantic_plan \<Rightarrow> compatibility \<Rightarrow> str option" where
  "plan_compatibility_ref digest g plan =
     compatibility_ref digest g (pl_edge_semantic_demands plan) (valid_offers digest g plan)"

definition invalid_refs :: "(json \<Rightarrow> str) \<Rightarrow> semantic_graph \<Rightarrow> semantic_plan \<Rightarrow> str list" where
  "invalid_refs digest g plan =
     duplicate_refs plan @
     List.map_filter (demand_ref digest g) (pl_edge_semantic_demands plan) @
     List.map_filter (offer_ref digest g) (pl_semantic_offers plan) @
     List.map_filter (plan_compatibility_ref digest g plan) (pl_offer_demand_compatibilities plan) @
     List.map_filter (join_ref digest g) (pl_semantic_join_evaluations plan)"

definition demand_of_edge ::
  "(json \<Rightarrow> str) \<Rightarrow> semantic_graph \<Rightarrow> semantic_plan \<Rightarrow> str \<Rightarrow> edge_demand option" where
  "demand_of_edge digest g plan =
     last_by ed_edge_id (filter (\<lambda>d. demand_ref digest g d = None) (pl_edge_semantic_demands plan))"

definition compatibility_of_edge ::
  "(json \<Rightarrow> str) \<Rightarrow> semantic_graph \<Rightarrow> semantic_plan \<Rightarrow> str \<Rightarrow> compatibility option" where
  "compatibility_of_edge digest g plan =
     last_by co_edge_id (filter (\<lambda>c. plan_compatibility_ref digest g plan c = None)
       (pl_offer_demand_compatibilities plan))"

definition join_of_consumer ::
  "(json \<Rightarrow> str) \<Rightarrow> semantic_graph \<Rightarrow> semantic_plan \<Rightarrow> str \<Rightarrow> join_evaluation option" where
  "join_of_consumer digest g plan =
     last_by jo_consumer_work_unit_id (filter (\<lambda>j. join_ref digest g j = None)
       (pl_semantic_join_evaluations plan))"

section \<open>Classification of edges and joins\<close>

definition partial_demand ::
  "(json \<Rightarrow> str) \<Rightarrow> semantic_graph \<Rightarrow> semantic_plan \<Rightarrow> semantic_edge \<Rightarrow> bool" where
  "partial_demand digest g plan e =
     (case demand_of_edge digest g plan (se_edge_id e) of
        None \<Rightarrow> False | Some d \<Rightarrow> ed_status d = ''partial'')"

definition truth_edge_outcome ::
  "(json \<Rightarrow> str) \<Rightarrow> semantic_graph \<Rightarrow> semantic_plan \<Rightarrow> semantic_edge \<Rightarrow> edge_outcome" where
  "truth_edge_outcome digest g plan e =
     (case demand_of_edge digest g plan (se_edge_id e) of
        None \<Rightarrow> Unresolved
      | Some d \<Rightarrow>
          if ed_status d = ''partial'' then Unresolved
          else case compatibility_of_edge digest g plan (se_edge_id e) of
                 None \<Rightarrow> Unresolved
               | Some c \<Rightarrow> decision_outcome (co_decision c))"

definition required_edges :: "semantic_graph \<Rightarrow> semantic_edge list" where
  "required_edges g = sort_key se_edge_id (filter se_required (sg_edges g))"

definition incoming_required :: "semantic_graph \<Rightarrow> str \<Rightarrow> str list" where
  "incoming_required g consumer =
     map se_edge_id (filter (\<lambda>e. se_consumer_work_unit_id e = consumer) (required_edges g))"

definition required_join_consumers :: "semantic_graph \<Rightarrow> str list" where
  "required_join_consumers g =
     sort (filter (\<lambda>u. 1 < length (incoming_required g u))
       (py_unique (map se_consumer_work_unit_id (required_edges g))))"

definition truth_join_outcome ::
  "(json \<Rightarrow> str) \<Rightarrow> semantic_graph \<Rightarrow> semantic_plan \<Rightarrow> str \<Rightarrow> edge_outcome" where
  "truth_join_outcome digest g plan consumer =
     (case join_of_consumer digest g plan consumer of
        None \<Rightarrow> Unresolved
      | Some j \<Rightarrow>
          if sort (jo_required_edge_ids j) \<noteq> sort (incoming_required g consumer) then Unresolved
          else decision_outcome (jo_decision j))"

definition edge_disclosures ::
  "(json \<Rightarrow> str) \<Rightarrow> semantic_graph \<Rightarrow> semantic_plan \<Rightarrow> semantic_edge \<Rightarrow> str list" where
  "edge_disclosures digest g plan e =
     (if truth_edge_outcome digest g plan e = Constrained
      then case compatibility_of_edge digest g plan (se_edge_id e) of
             None \<Rightarrow> [] | Some c \<Rightarrow> co_disclosures c @ co_effective_constraints c
      else [])"

definition join_disclosures ::
  "(json \<Rightarrow> str) \<Rightarrow> semantic_graph \<Rightarrow> semantic_plan \<Rightarrow> str \<Rightarrow> str list" where
  "join_disclosures digest g plan consumer =
     (if truth_join_outcome digest g plan consumer = Constrained
      then case join_of_consumer digest g plan consumer of
             None \<Rightarrow> [] | Some j \<Rightarrow> jo_disclosures j @ jo_effective_constraints j
      else [])"

definition truth_status :: "edge_outcome list \<Rightarrow> edge_outcome list \<Rightarrow> bool \<Rightarrow> str \<times> str" where
  "truth_status edges js partial =
     (if BlockedEdge \<in> set edges \<or> BlockedEdge \<in> set js
        then (''blocked'', ''SEMANTIC_TRUTH_REQUIRED_RELATION_BLOCKED'')
      else if Unresolved \<in> set edges \<or> Unresolved \<in> set js \<or> partial
        then (''insufficient_evidence'', ''SEMANTIC_TRUTH_REQUIRED_RELATION_UNRESOLVED'')
      else if Constrained \<in> set edges \<or> Constrained \<in> set js
        then (''constrained'', ''SEMANTIC_TRUTH_SUCCESS_REQUIRES_DISCLOSURE'')
      else (''ready'', ''SEMANTIC_TRUTH_READY''))"

definition projection_invalidated :: "semantic_plan \<Rightarrow> bool" where
  "projection_invalidated plan =
     (case json_get ''semantic_result_projection'' (pl_metadata plan) of
        JObj kvs \<Rightarrow> json_get ''status'' kvs = JStr ''invalidated_by_graph_revision''
      | _ \<Rightarrow> False)"

definition classified_facet ::
  "(json \<Rightarrow> str) \<Rightarrow> str \<Rightarrow> semantic_graph \<Rightarrow> semantic_plan \<Rightarrow> truth_facet" where
  "classified_facet digest now g plan =
     (let req = required_edges g; out = truth_edge_outcome digest g plan;
          consumers = required_join_consumers g; jout = truth_join_outcome digest g plan;
          partials = filter (partial_demand digest g plan) req;
          (status, reason) = truth_status (map out req) (map jout consumers) (partials \<noteq> [])
      in (pending_facet now status (status = ''ready'') (Some g))
           \<lparr>tf_active_revision_id := pl_active_semantic_graph_revision_id plan,
            tf_required_edge_ids := map se_edge_id req,
            tf_admitted_edge_ids := edges_with out Admitted req,
            tf_constrained_edge_ids := edges_with out Constrained req,
            tf_blocked_edge_ids := edges_with out BlockedEdge req,
            tf_unresolved_edge_ids := edges_with out Unresolved req,
            tf_partial_demand_edge_ids := map se_edge_id partials,
            tf_required_join_consumer_ids := consumers,
            tf_constrained_join_consumer_ids := filter (\<lambda>u. jout u = Constrained) consumers,
            tf_blocked_join_consumer_ids := filter (\<lambda>u. jout u = BlockedEdge) consumers,
            tf_unresolved_join_consumer_ids := filter (\<lambda>u. jout u = Unresolved) consumers,
            tf_disclosures := concat (map (edge_disclosures digest g plan) req) @
              concat (map (join_disclosures digest g plan) consumers),
            tf_reason_codes := [reason]\<rparr>)"

definition truth_evaluate :: "(json \<Rightarrow> str) \<Rightarrow> str \<Rightarrow> semantic_plan \<Rightarrow> truth_facet" where
  "truth_evaluate digest now plan =
     freeze digest
       (case pl_semantic_execution_graph plan of
          None \<Rightarrow> (pending_facet now ''not_applicable'' True None)
            \<lparr>tf_reason_codes := [''semantic_graph_not_present'']\<rparr>
        | Some g \<Rightarrow>
            if \<not> graph_verify digest g then
              (pending_facet now ''blocked'' False (Some g))
                \<lparr>tf_invalid_authority_refs := [''semantic_execution_graph''],
                 tf_reason_codes := [''SEMANTIC_TRUTH_GRAPH_AUTHORITY_INVALID'']\<rparr>
            else if required_edges g = [] then
              (pending_facet now ''ready'' True (Some g))
                \<lparr>tf_active_revision_id := pl_active_semantic_graph_revision_id plan,
                 tf_reason_codes := [''semantic_required_edges_absent'']\<rparr>
            else if projection_invalidated plan then
              (pending_facet now ''insufficient_evidence'' False (Some g))
                \<lparr>tf_active_revision_id := pl_active_semantic_graph_revision_id plan,
                 tf_required_edge_ids := map se_edge_id (required_edges g),
                 tf_unresolved_edge_ids := map se_edge_id (required_edges g),
                 tf_reason_codes := [''SEMANTIC_TRUTH_RESULT_PROJECTION_INVALIDATED'']\<rparr>
            else if invalid_refs digest g plan \<noteq> [] then
              (pending_facet now ''blocked'' False (Some g))
                \<lparr>tf_active_revision_id := pl_active_semantic_graph_revision_id plan,
                 tf_required_edge_ids := map se_edge_id (required_edges g),
                 tf_invalid_authority_refs := py_sorted_set (invalid_refs digest g plan),
                 tf_reason_codes := [''SEMANTIC_TRUTH_CONTRACT_AUTHORITY_INVALID'']\<rparr>
            else classified_facet digest now g plan)"

section \<open>Accepted references\<close>

lemma freeze_fields [simp]:
  "tf_status (freeze digest t) = tf_status t"
  "tf_safe_to_report_success (freeze digest t) = tf_safe_to_report_success t"
  "tf_admitted_edge_ids (freeze digest t) = topology_unique (tf_admitted_edge_ids t)"
  "tf_required_edge_ids (freeze digest t) = topology_unique (tf_required_edge_ids t)"
  "tf_disclosures (freeze digest t) = topology_unique (tf_disclosures t)"
  by (simp_all add: freeze_def)

lemma pending_facet_fields [simp]:
  "tf_status (pending_facet now status safe g) = status"
  "tf_safe_to_report_success (pending_facet now status safe g) = safe"
  by (simp_all add: pending_facet_def)

lemma demand_ref_None: "demand_ref digest g d = None \<Longrightarrow> demand_bound digest g d"
  by (auto simp: demand_ref_def demand_bound_def split: if_splits option.splits)

lemma compatibility_ref_None:
  assumes "compatibility_ref digest g demands offers c = None" and "set offers \<subseteq> set all_offers"
  shows "compatibility_bound digest g demands all_offers c"
proof -
  from assms(1) obtain e d f where *: "compatibility_verify digest c" "graph_edge g (co_edge_id c) = Some e"
    "find (\<lambda>d. ed_demand_id d = co_demand_id c) demands = Some d"
    "last_by so_offer_id offers (co_offer_id c) = Some f"
    "co_semantic_graph_id c = sg_semantic_graph_id g"
    "co_semantic_graph_authority_sha256 c = sg_authority_sha256 g"
    "co_producer_work_unit_id c = se_producer_work_unit_id e"
    "co_consumer_work_unit_id c = se_consumer_work_unit_id e"
    "co_demand_authority_sha256 c = ed_authority_sha256 d"
    "co_offer_authority_sha256 c = so_authority_sha256 f"
    by (auto simp: compatibility_ref_def split: if_splits option.splits)
  from last_by_Some [OF *(4)] assms(2) have "f \<in> set all_offers" "so_offer_id f = co_offer_id c" by auto
  moreover from *(3) have "d \<in> set demands" "ed_demand_id d = co_demand_id c" by (auto simp: find_Some_iff)
  ultimately show ?thesis using * by (auto simp: compatibility_bound_def)
qed

lemma demand_of_edge_Some:
  assumes "demand_of_edge digest g plan k = Some d"
  shows "d \<in> set (pl_edge_semantic_demands plan) \<and> ed_edge_id d = k \<and> demand_bound digest g d"
  using last_by_Some [OF assms [unfolded demand_of_edge_def]] by (auto dest: demand_ref_None)

lemma compatibility_of_edge_Some:
  assumes "compatibility_of_edge digest g plan k = Some c"
  shows "c \<in> set (pl_offer_demand_compatibilities plan) \<and> co_edge_id c = k \<and>
    compatibility_bound digest g (pl_edge_semantic_demands plan) (pl_semantic_offers plan) c"
  using last_by_Some [OF assms [unfolded compatibility_of_edge_def]]
  by (auto simp: plan_compatibility_ref_def valid_offers_def intro: compatibility_ref_None)

lemma join_of_consumer_Some:
  assumes "join_of_consumer digest g plan u = Some j"
  shows "j \<in> set (pl_semantic_join_evaluations plan) \<and> jo_consumer_work_unit_id j = u \<and> verify_join digest j"
  using last_by_Some [OF assms [unfolded join_of_consumer_def]]
  by (auto simp: join_ref_def split: if_splits)

lemma truth_edge_Admitted:
  assumes "truth_edge_outcome digest g plan e = Admitted"
  shows "(\<exists>d\<in>set (pl_edge_semantic_demands plan). ed_edge_id d = se_edge_id e \<and>
      demand_bound digest g d \<and> ed_status d \<noteq> ''partial'') \<and>
    (\<exists>c\<in>set (pl_offer_demand_compatibilities plan). co_edge_id c = se_edge_id e \<and>
      co_decision c = ''admitted'' \<and>
      compatibility_bound digest g (pl_edge_semantic_demands plan) (pl_semantic_offers plan) c)"
  using assms
  by (fastforce simp: truth_edge_outcome_def split: option.splits if_splits
      dest: demand_of_edge_Some compatibility_of_edge_Some)

lemma truth_join_Admitted:
  assumes "truth_join_outcome digest g plan u = Admitted"
  shows "\<exists>j\<in>set (pl_semantic_join_evaluations plan). jo_consumer_work_unit_id j = u \<and>
    verify_join digest j \<and> jo_decision j = ''admitted'' \<and>
    sort (jo_required_edge_ids j) = sort (incoming_required g u)"
  using assms
  by (fastforce simp: truth_join_outcome_def split: option.splits if_splits dest: join_of_consumer_Some)

lemma truth_status_ready:
  "fst (truth_status es js p) = ''ready'' \<longleftrightarrow> (\<forall>x\<in>set es \<union> set js. x = Admitted) \<and> \<not> p"
proof -
  have "x = Admitted \<longleftrightarrow> x \<noteq> BlockedEdge \<and> x \<noteq> Unresolved \<and> x \<noteq> Constrained" for x by (cases x) simp_all
  then show ?thesis by (auto simp: truth_status_def)
qed

lemma classified_facet_fields:
  "tf_status (classified_facet digest now g plan) = fst (truth_status
     (map (truth_edge_outcome digest g plan) (required_edges g))
     (map (truth_join_outcome digest g plan) (required_join_consumers g))
     (filter (partial_demand digest g plan) (required_edges g) \<noteq> []))"
  "tf_safe_to_report_success (classified_facet digest now g plan) \<longleftrightarrow>
     tf_status (classified_facet digest now g plan) = ''ready''"
  by (simp_all add: classified_facet_def Let_def case_prod_unfold)

lemma classified_status:
  "tf_status (classified_facet digest now g plan) \<in>
     {''ready'', ''constrained'', ''blocked'', ''insufficient_evidence''}"
  by (simp add: classified_facet_fields truth_status_def)

lemma classified_applicable [simp]: "tf_status (classified_facet digest now g plan) \<noteq> ''not_applicable''"
  using classified_status [of digest now g plan] by auto

lemma set_required_edges [simp]: "set (required_edges g) = {e \<in> set (sg_edges g). se_required e}"
  by (auto simp: required_edges_def)

lemma required_join_consumer_iff:
  "u \<in> set (required_join_consumers g) \<longleftrightarrow> 1 < length (incoming_required g u)"
proof -
  have "u \<in> se_consumer_work_unit_id ` set (required_edges g)" if "1 < length (incoming_required g u)"
  proof -
    from that have "incoming_required g u \<noteq> []" by auto
    then show ?thesis by (auto simp: incoming_required_def filter_empty_conv)
  qed
  then show ?thesis by (auto simp: required_join_consumers_def)
qed

section \<open>Readiness\<close>

lemma ready_graph:
  assumes "pl_semantic_execution_graph plan = Some g"
    and "tf_status (truth_evaluate digest now plan) = ''ready''"
  shows "graph_verify digest g"
  using assms by (auto simp: truth_evaluate_def split: if_splits)

lemma ready_outcomes:
  assumes "pl_semantic_execution_graph plan = Some g"
    and "tf_status (truth_evaluate digest now plan) = ''ready''"
  shows "e \<in> set (required_edges g) \<Longrightarrow> truth_edge_outcome digest g plan e = Admitted"
    and "u \<in> set (required_join_consumers g) \<Longrightarrow> truth_join_outcome digest g plan u = Admitted"
proof -
  have cl: "tf_status (classified_facet digest now g plan) = ''ready''" if "required_edges g \<noteq> []"
    using assms that by (auto simp: truth_evaluate_def split: if_splits)
  show "truth_edge_outcome digest g plan e = Admitted" if "e \<in> set (required_edges g)"
  proof -
    from that have "required_edges g \<noteq> []" by (metis empty_iff list.set(1))
    from cl [OF this] that show ?thesis unfolding classified_facet_fields truth_status_ready by auto
  qed
  show "truth_join_outcome digest g plan u = Admitted" if "u \<in> set (required_join_consumers g)"
  proof -
    from that have "required_edges g \<noteq> []"
      by (auto simp: required_join_consumer_iff incoming_required_def)
    from cl [OF this] that show ?thesis unfolding classified_facet_fields truth_status_ready by auto
  qed
qed

lemma ready_edges:
  assumes "pl_semantic_execution_graph plan = Some g"
    and "tf_status (truth_evaluate digest now plan) = ''ready''"
  shows "\<forall>e\<in>set (sg_edges g). se_required e \<longrightarrow>
      (\<exists>d\<in>set (pl_edge_semantic_demands plan). ed_edge_id d = se_edge_id e \<and>
        demand_bound digest g d \<and> ed_status d \<noteq> ''partial'') \<and>
      (\<exists>c\<in>set (pl_offer_demand_compatibilities plan). co_edge_id c = se_edge_id e \<and>
        co_decision c = ''admitted'' \<and>
        compatibility_bound digest g (pl_edge_semantic_demands plan) (pl_semantic_offers plan) c)"
proof (intro ballI impI)
  fix e assume "e \<in> set (sg_edges g)" and "se_required e"
  then have "truth_edge_outcome digest g plan e = Admitted" using ready_outcomes(1) [OF assms] by simp
  then show "(\<exists>d\<in>set (pl_edge_semantic_demands plan). ed_edge_id d = se_edge_id e \<and>
        demand_bound digest g d \<and> ed_status d \<noteq> ''partial'') \<and>
      (\<exists>c\<in>set (pl_offer_demand_compatibilities plan). co_edge_id c = se_edge_id e \<and>
        co_decision c = ''admitted'' \<and>
        compatibility_bound digest g (pl_edge_semantic_demands plan) (pl_semantic_offers plan) c)"
    by (rule truth_edge_Admitted)
qed

lemma facet_not_applicable_iff:
  "tf_status (truth_evaluate digest now plan) = ''not_applicable'' \<longleftrightarrow> pl_semantic_execution_graph plan = None"
  by (cases "pl_semantic_execution_graph plan") (simp_all add: truth_evaluate_def)

lemma facet_safe_iff:
  "tf_safe_to_report_success (truth_evaluate digest now plan) \<longleftrightarrow>
     tf_status (truth_evaluate digest now plan) \<in> {''ready'', ''not_applicable''}"
  by (cases "pl_semantic_execution_graph plan") (auto simp: truth_evaluate_def classified_facet_fields(2))

section \<open>Properties\<close>

text \<open>
  C22. A facet that is ready is backed edge by edge: on a plan with a semantic graph, status ready
  means the graph verifies and, for every required edge, the plan holds a verified demand bound to that
  edge that is not partial and a verified compatibility bound to the graph, a demand and an offer that
  admits the edge without constraints; and every consumer of several required edges has a verified join
  over exactly those edges that admits.
\<close>

theorem semantic_ready_sound:
  assumes "pl_semantic_execution_graph plan = Some g"
    and "tf_status (truth_evaluate digest now plan) = ''ready''"
  shows "graph_verify digest g \<and>
    (\<forall>e\<in>set (sg_edges g). se_required e \<longrightarrow>
      (\<exists>d\<in>set (pl_edge_semantic_demands plan). ed_edge_id d = se_edge_id e \<and>
        demand_bound digest g d \<and> ed_status d \<noteq> ''partial'') \<and>
      (\<exists>c\<in>set (pl_offer_demand_compatibilities plan). co_edge_id c = se_edge_id e \<and>
        co_decision c = ''admitted'' \<and>
        compatibility_bound digest g (pl_edge_semantic_demands plan) (pl_semantic_offers plan) c)) \<and>
    (\<forall>u. 1 < length (incoming_required g u) \<longrightarrow>
      (\<exists>j\<in>set (pl_semantic_join_evaluations plan). jo_consumer_work_unit_id j = u \<and>
        verify_join digest j \<and> jo_decision j = ''admitted'' \<and>
        sort (jo_required_edge_ids j) = sort (incoming_required g u)))"
  using ready_graph [OF assms] ready_edges [OF assms] ready_outcomes(2) [OF assms]
    truth_join_Admitted required_join_consumer_iff by blast

text \<open>
  C38. The success flag of a facet is exactly \<open>ready\<close> or \<open>not_applicable\<close>, the status is one of the five
  the schema allows, \<open>not_applicable\<close> means that the plan has no semantic graph, and the facet verifies
  under its authority service.
\<close>

theorem semantic_facet_status:
  shows "(tf_safe_to_report_success (truth_evaluate digest now plan) \<longleftrightarrow>
      tf_status (truth_evaluate digest now plan) \<in> {''ready'', ''not_applicable''}) \<and>
    tf_status (truth_evaluate digest now plan) \<in>
      {''not_applicable'', ''ready'', ''constrained'', ''blocked'', ''insufficient_evidence''} \<and>
    (tf_status (truth_evaluate digest now plan) = ''not_applicable'' \<longleftrightarrow>
      pl_semantic_execution_graph plan = None) \<and>
    facet_verify digest (truth_evaluate digest now plan)"
proof -
  have "facet_verify digest (truth_evaluate digest now plan)"
    unfolding facet_verify_def truth_evaluate_def freeze_def by (rule facets.seal_verifies)
  moreover have "tf_status (truth_evaluate digest now plan) \<in>
      {''not_applicable'', ''ready'', ''constrained'', ''blocked'', ''insufficient_evidence''}"
    using classified_status [of digest now _ plan]
    by (cases "pl_semantic_execution_graph plan") (auto simp: truth_evaluate_def)
  ultimately show ?thesis using facet_safe_iff facet_not_applicable_iff by blast
qed

definition example_ready_plan :: semantic_plan where
  "example_ready_plan =
     example_compatible_plan\<lparr>pl_semantic_join_evaluations := [example_join]\<rparr>"

lemma example_ready: "tf_status (truth_evaluate example_digest [] example_ready_plan) = ''ready''"
  by code_simp

lemma example_graph_of_plan: "pl_semantic_execution_graph example_ready_plan = Some example_graph"
  by (simp add: example_ready_plan_def example_compatible_plan_def example_plan_def)

lemma example_ready_witness: "graph_verify example_digest example_graph"
  using semantic_ready_sound [OF example_graph_of_plan example_ready] by blast

end
