(* ===== verification/Runtime_Truth.thy ===== *)
theory Runtime_Truth
  imports Semantic_Truth
begin

text \<open>
  \<open>RuntimeTruthEngine\<close> (\<open>services/runtime/runtime_truth_engine.py\<close>), the single resolver of what the
  runtime may claim about a run, and \<open>CanonicalOperationStateService\<close>
  (\<open>services/runtime/canonical_operation_state_service.py\<close>), which derives the state the interface
  shows. A run, a result and a timeline are records of the fields these services read; the semantic
  facet is computed from the plan of the run by \<open>truth_evaluate\<close>.
\<close>

section \<open>Inputs\<close>

record workflow =
  wf_workflow_id :: str
  wf_status :: str
  wf_current_phase :: "str option"

record task_run =
  rn_run_id :: str
  rn_task_id :: "str option"
  rn_operation_id :: "str option"
  rn_workspace_id :: "str option"
  rn_current_phase :: "str option"
  rn_contract_type :: str
  rn_operation_type :: "str option"
  rn_runtime_profile :: "str option"
  rn_status :: str
  rn_plan :: semantic_plan
  rn_workflow :: "workflow option"
  rn_execution_artifacts :: "(str \<times> json) list list option"
  rn_produced_artifacts :: "(str \<times> json) list list"
  rn_required_artifacts :: "str list"
  rn_missing_artifacts :: "str list"
  rn_blocked_reasons :: "str list"
  rn_block_cause :: "str option"

record completion_evaluation =
  cp_status :: str
  cp_safe_to_report_success :: bool
  cp_missing_outcomes :: "str list"

record task_run_result =
  rs_run_id :: str
  rs_status :: str
  rs_reason_code :: "str option"
  rs_safe_to_display :: bool
  rs_validation :: "(str \<times> json) list option"
  rs_block_cause :: "str option"
  rs_completion :: "completion_evaluation option"

record timeline_artifact =
  ta_artifact_id :: str
  ta_logical_path :: "str option"
  ta_producer_step :: "str option"
  ta_event_id :: "str option"
  ta_status :: "str option"
  ta_orphan :: bool
  ta_orphan_reasons :: "str list"

record timeline_completion =
  tc_completion_status :: str
  tc_safe_to_report_success :: bool
  tc_terminal_event_id :: "str option"

record timeline =
  tm_timeline_id :: str
  tm_status :: str
  tm_phase :: "str option"
  tm_event_ids :: "str list"
  tm_artifacts :: "timeline_artifact list"
  tm_validation_statuses :: "str list"
  tm_completion :: timeline_completion
  tm_gaps :: "str list"
  tm_orphan_artifact_ids :: "str list"

record mission_facet =
  mc_mission_id :: str
  mc_snapshot_authority_sha256 :: str
  mc_status :: str
  mc_safe_to_report_success :: bool
  mc_reason_codes :: "str list"
  mc_disclosures :: "str list"
  mc_authority_sha256 :: str

record truth_evidence =
  te_evidence_type :: str
  te_evidence_id :: "str option"
  te_status :: "str option"
  te_summary :: str
  te_metadata :: "(str \<times> json) list"

record runtime_truth =
  rt_truth_id :: str
  rt_task_id :: "str option"
  rt_task_run_id :: str
  rt_status :: str
  rt_phase :: str
  rt_reason_code :: str
  rt_safe_to_report_success :: bool
  rt_runtime_status :: "str option"
  rt_workflow_status :: "str option"
  rt_completion_status :: "str option"
  rt_validation_status :: "str option"
  rt_timeline_status :: "str option"
  rt_semantic_truth_status :: "str option"
  rt_semantic_truth_safe_to_report_success :: "bool option"
  rt_semantic_truth_reason_codes :: "str list"
  rt_semantic_truth_disclosures :: "str list"
  rt_semantic_graph_id :: "str option"
  rt_semantic_graph_authority_sha256 :: "str option"
  rt_semantic_truth_facet_id :: "str option"
  rt_semantic_truth_facet_authority_sha256 :: "str option"
  rt_mission_id :: "str option"
  rt_mission_completion_status :: "str option"
  rt_mission_completion_safe_to_report_success :: "bool option"
  rt_mission_completion_reason_codes :: "str list"
  rt_mission_completion_disclosures :: "str list"
  rt_mission_completion_authority_sha256 :: "str option"
  rt_ui_status :: str
  rt_speaker_truth_status :: str
  rt_evidence :: "truth_evidence list"
  rt_contradictions :: "str list"
  rt_missing_evidence :: "str list"
  rt_source :: str

section \<open>The engine\<close>

definition BLOCKING_STATUSES :: "str list" where
  "BLOCKING_STATUSES = [''blocked'', ''failed'', ''cancelled'', ''expired'']"

definition VALIDATION_BAD :: "str list" where
  "VALIDATION_BAD =
    [''failed'', ''blocked'', ''rejected'', ''needs_review'', ''degraded'', ''incomplete'', ''missing'']"

definition truth_validation_status ::
  "(json \<Rightarrow> str) \<Rightarrow> task_run_result option \<Rightarrow> timeline option \<Rightarrow> str option" where
  "truth_validation_status render result tline =
     (case (case result of None \<Rightarrow> None | Some r \<Rightarrow> rs_validation r) of
        Some v \<Rightarrow> Some (py_str render
          (json_or (json_or (json_get ''status'' v) (json_get ''validation_status'' v)) (JStr [])))
      | None \<Rightarrow>
          if (case tline of None \<Rightarrow> False | Some t \<Rightarrow> tm_validation_statuses t \<noteq> [])
          then map_option (\<lambda>t. last (tm_validation_statuses t)) tline
          else if result = None then Some ''not_started'' else None)"

definition legacy_result_only :: "task_run \<Rightarrow> task_run_result option \<Rightarrow> timeline option \<Rightarrow> bool" where
  "legacy_result_only run result tline =
     (rn_workflow run = None \<and>
      (case result of None \<Rightarrow> False
       | Some r \<Rightarrow> rs_status r = ''completed'' \<and>
           (case rs_completion r of None \<Rightarrow> False | Some c \<Rightarrow> cp_safe_to_report_success c)) \<and>
      (case tline of None \<Rightarrow> False | Some t \<Rightarrow> tm_event_ids t = []))"

definition evidence_row :: "str \<Rightarrow> str \<Rightarrow> str option \<Rightarrow> str \<Rightarrow> (str \<times> json) list \<Rightarrow> truth_evidence" where
  "evidence_row ty eid status summary meta =
     \<lparr>te_evidence_type = ty, te_evidence_id = Some eid, te_status = status, te_summary = summary,
      te_metadata = meta\<rparr>"

definition timeline_evidence :: "timeline \<Rightarrow> truth_evidence list" where
  "timeline_evidence t =
     evidence_row ''timeline'' (tm_timeline_id t) (Some (tm_status t)) []
       [(''terminal_event_id'', jopt (tc_terminal_event_id (tm_completion t)))] #
     map (\<lambda>a. evidence_row ''artifact'' (ta_artifact_id a) (ta_status a) []
       [(''logical_path'', jopt (ta_logical_path a)), (''producer_step'', jopt (ta_producer_step a)),
        (''event_id'', jopt (ta_event_id a)), (''orphan'', JBool (ta_orphan a)),
        (''orphan_reasons'', jstrs (ta_orphan_reasons a))]) (tm_artifacts t)"

definition result_evidence ::
  "(json \<Rightarrow> str) \<Rightarrow> task_run_result \<Rightarrow> timeline option \<Rightarrow> truth_evidence list" where
  "result_evidence render r tline =
     evidence_row ''completion'' (rs_run_id r) (Some (rs_status r)) []
       [(''safe_to_display'', JBool (rs_safe_to_display r))] #
     (case rs_validation r of
        None \<Rightarrow> []
      | Some v \<Rightarrow>
          [evidence_row ''validation''
             (py_str render (json_or (json_get ''validation_id'' v) (JStr [])))
             (truth_validation_status render (Some r) tline) [] []])"

definition semantic_evidence :: "truth_facet \<Rightarrow> truth_evidence" where
  "semantic_evidence f =
     evidence_row ''semantic_truth_facet'' (tf_facet_id f) (Some (tf_status f))
       (if tf_reason_codes f \<noteq> [] then py_join '','' (tf_reason_codes f) else tf_status f)
       [(''safe_to_report_success'', JBool (tf_safe_to_report_success f)),
        (''semantic_graph_id'', jopt (tf_semantic_graph_id f)),
        (''semantic_graph_authority_sha256'', jopt (tf_semantic_graph_authority_sha256 f)),
        (''active_revision_id'', jopt (tf_active_revision_id f)),
        (''disclosures'', jstrs (tf_disclosures f)),
        (''authority_sha256'', JStr (tf_authority_sha256 f))]"

definition mission_evidence :: "mission_facet \<Rightarrow> truth_evidence" where
  "mission_evidence m =
     evidence_row ''mission_completion_facet'' (mc_authority_sha256 m) (Some (mc_status m))
       (if mc_reason_codes m \<noteq> [] then py_join '','' (mc_reason_codes m) else mc_status m)
       [(''mission_id'', JStr (mc_mission_id m)),
        (''safe_to_report_success'', JBool (mc_safe_to_report_success m)),
        (''snapshot_authority_sha256'', JStr (mc_snapshot_authority_sha256 m)),
        (''disclosures'', jstrs (mc_disclosures m)),
        (''authority_sha256'', JStr (mc_authority_sha256 m))]"

definition truth_evidence_rows ::
  "(json \<Rightarrow> str) \<Rightarrow> task_run \<Rightarrow> task_run_result option \<Rightarrow> timeline option \<Rightarrow> truth_facet \<Rightarrow>
     mission_facet option \<Rightarrow> truth_evidence list" where
  "truth_evidence_rows render run result tline semantic mission =
     [evidence_row ''task_run'' (rn_run_id run) (Some (rn_status run)) [] []] @
     (if opt_truthy (rn_task_id run)
      then [evidence_row ''task'' (str_or (rn_task_id run) []) (Some (rn_status run)) [] []] else []) @
     (case rn_workflow run of None \<Rightarrow> []
      | Some w \<Rightarrow> [evidence_row ''workflow'' (wf_workflow_id w) (Some (wf_status w)) [] []]) @
     (case tline of None \<Rightarrow> [] | Some t \<Rightarrow> timeline_evidence t) @
     (case result of None \<Rightarrow> [] | Some r \<Rightarrow> result_evidence render r tline) @
     [semantic_evidence semantic] @
     (case mission of None \<Rightarrow> [] | Some m \<Rightarrow> [mission_evidence m])"

definition missing_evidence ::
  "task_run \<Rightarrow> task_run_result option \<Rightarrow> timeline option \<Rightarrow> bool \<Rightarrow> str list" where
  "missing_evidence run result tline legacy =
     (if legacy then []
      else py_unique
        ((if \<not> opt_truthy (rn_task_id run) \<and> rn_run_id run = [] then [''task_id''] else []) @
         (if rn_run_id run = [] then [''task_run_id''] else []) @
         (if rn_workflow run = None then [''workflow''] else []) @
         (case tline of
            None \<Rightarrow> [''timeline'']
          | Some t \<Rightarrow>
              (if tc_completion_status (tm_completion t) = ''completed''
                  \<and> \<not> opt_truthy (tc_terminal_event_id (tm_completion t))
               then [''timeline_terminal_event''] else []) @
              map (\<lambda>a. ''artifact:'' @ ta_artifact_id a @ '':producer_binding'')
                (filter ta_orphan (tm_artifacts t))) @
         (case result of
            None \<Rightarrow> []
          | Some r \<Rightarrow>
              if rs_status r = ''completed''
              then (if rs_completion r = None then [''completion_evaluation''] else []) @
                   (if (case tline of None \<Rightarrow> False | Some t \<Rightarrow> tm_validation_statuses t = [])
                    then [''validation_evidence''] else [])
              else [])))"

definition contradictions ::
  "str \<Rightarrow> str option \<Rightarrow> str option \<Rightarrow> str option \<Rightarrow> str option \<Rightarrow> timeline option \<Rightarrow> str \<Rightarrow> bool \<Rightarrow> str list" where
  "contradictions runtime_status workflow_status completion_status validation_status timeline_status tline
     semantic_status legacy =
     (if completion_status \<noteq> Some ''completed'' then []
      else py_unique
        ((if runtime_status \<in> set BLOCKING_STATUSES then [''completion_completed_runtime_blocking''] else []) @
         (if workflow_status \<in> {Some ''blocked'', Some ''failed''}
          then [''completion_completed_workflow_blocking''] else []) @
         (if validation_status \<in> Some ` set VALIDATION_BAD
          then [''completion_completed_validation_not_passed''] else []) @
         (if timeline_status \<in> {Some ''blocked'', Some ''failed'', Some ''cancelled''}
          then [''completion_completed_timeline_blocking''] else []) @
         (if semantic_status = ''blocked'' then [''completion_completed_semantic_truth_blocked''] else []) @
         (if semantic_status = ''insufficient_evidence''
          then [''completion_completed_semantic_truth_unresolved''] else []) @
         (if (case tline of None \<Rightarrow> False | Some t \<Rightarrow> tm_gaps t \<noteq> []) \<and> \<not> legacy
          then [''completion_completed_timeline_has_gaps''] else []) @
         (if (case tline of None \<Rightarrow> False | Some t \<Rightarrow> tm_orphan_artifact_ids t \<noteq> []) \<and> \<not> legacy
          then [''completion_completed_artifact_orphans''] else [])))"

definition is_one_of :: "str option \<Rightarrow> str list \<Rightarrow> bool" where
  "is_one_of s xs = (case s of None \<Rightarrow> False | Some t \<Rightarrow> t \<in> set xs)"

definition resolve_status ::
  "str \<Rightarrow> str option \<Rightarrow> str option \<Rightarrow> str option \<Rightarrow> str option \<Rightarrow> str \<Rightarrow> str list \<Rightarrow> str list \<Rightarrow>
     task_run_result option \<Rightarrow> str \<times> str" where
  "resolve_status runtime_status workflow_status completion_status validation_status timeline_status
     semantic_status contra missing result =
     (let claims = (completion_status = Some ''completed'' \<or>
                    (case result of None \<Rightarrow> False | Some r \<Rightarrow> rs_status r = ''completed''))
      in if runtime_status \<in> set BLOCKING_STATUSES
           then (runtime_status, ''runtime_status:'' @ runtime_status)
         else if is_one_of workflow_status [''blocked'', ''failed'', ''cancelled'']
           then (str_or workflow_status [], ''workflow_status:'' @ str_or workflow_status [])
         else if is_one_of completion_status [''blocked'', ''failed'', ''cancelled'']
           then (str_or completion_status [], ''completion_status:'' @ str_or completion_status [])
         else if is_one_of validation_status VALIDATION_BAD
           then (''blocked'', ''validation_status:'' @ str_or validation_status [])
         else if claims \<and> semantic_status = ''blocked'' then (''blocked'', ''semantic_truth_blocked'')
         else if claims \<and> semantic_status = ''insufficient_evidence''
           then (''blocked'', ''semantic_truth_insufficient_evidence'')
         else if contra \<noteq> [] then (''blocked'', ''runtime_truth_contradiction'')
         else if missing \<noteq> [] \<and> (case result of None \<Rightarrow> False | Some r \<Rightarrow> rs_status r = ''completed'')
           then (''blocked'', ''completed_missing_required_evidence'')
         else if runtime_status \<in> {''created'', ''queued'', ''running'', ''waiting_input'', ''waiting_delegation''}
           then (runtime_status, ''runtime_status:'' @ runtime_status)
         else case result of
                None \<Rightarrow> (runtime_status, ''result_not_available'')
              | Some r \<Rightarrow>
                  if claims \<and> semantic_status = ''constrained''
                    then (''completed'', ''semantic_truth_constrained'')
                  else if opt_truthy timeline_status
                    then (str_or timeline_status [], ''timeline_status:'' @ str_or timeline_status [])
                  else (rs_status r, ''result_status:'' @ rs_status r))"

definition mission_completion_ceiling ::
  "str \<Rightarrow> str \<Rightarrow> mission_facet option \<Rightarrow> str \<times> str \<times> str list" where
  "mission_completion_ceiling status reason mission =
     (case mission of
        None \<Rightarrow> (status, reason, [])
      | Some m \<Rightarrow>
          let refs = map (\<lambda>x. ''mission_completion:'' @ x) (mc_reason_codes m) in
          if mc_status m = ''not_applicable'' then (status, reason, [])
          else if mc_status m = ''blocked'' then (''blocked'', ''mission_completion_blocked'', refs)
          else if mc_status m = ''insufficient_evidence'' then
            if status \<in> set BLOCKING_STATUSES then (status, reason, [])
            else (''partial'', ''mission_completion_insufficient_evidence'', refs)
          else if mc_status m = ''constrained'' then
            if status = ''completed'' then (''completed'', ''mission_completion_constrained'', [])
            else (status, reason, [])
          else if mc_status m = ''ready'' then (status, reason, [])
          else (''blocked'', ''mission_completion_status_invalid'', [''mission_completion:status_invalid'']))"

definition truth_phase :: "task_run \<Rightarrow> timeline option \<Rightarrow> str \<Rightarrow> str" where
  "truth_phase run tline status =
     (let wp = (case rn_workflow run of None \<Rightarrow> None | Some w \<Rightarrow> wf_current_phase w);
          tp = (case tline of None \<Rightarrow> None | Some t \<Rightarrow> tm_phase t)
      in str_or wp (str_or tp status))"

definition truth_ui_status :: "str \<Rightarrow> str" where
  "truth_ui_status status =
     (if status = ''completed'' then ''completed''
      else if status \<in> {''blocked'', ''failed'', ''cancelled'', ''expired''} then status
      else if status \<in> {''created'', ''queued'', ''running'', ''waiting_input'', ''waiting_delegation''}
        then ''active''
      else if status = [] then ''unknown'' else status)"

definition truth_completion_status :: "task_run_result option \<Rightarrow> str option" where
  "truth_completion_status result =
     (case result of
        None \<Rightarrow> None
      | Some r \<Rightarrow> (case rs_completion r of Some c \<Rightarrow> Some (cp_status c) | None \<Rightarrow> Some (rs_status r)))"

definition mission_safe :: "mission_facet option \<Rightarrow> bool" where
  "mission_safe mission =
     (case mission of None \<Rightarrow> True
      | Some m \<Rightarrow> mc_status m = ''not_applicable'' \<or> mc_safe_to_report_success m)"

definition runtime_truth_evaluate ::
  "(json \<Rightarrow> str) \<Rightarrow> (json \<Rightarrow> str) \<Rightarrow> str \<Rightarrow> task_run \<Rightarrow> task_run_result option \<Rightarrow> timeline option \<Rightarrow>
     mission_facet option \<Rightarrow> runtime_truth" where
  "runtime_truth_evaluate digest render now run result tline mission =
     (let runtime_status = rn_status run;
          workflow_status = map_option wf_status (rn_workflow run);
          completion_status = truth_completion_status result;
          validation_status = truth_validation_status render result tline;
          timeline_status = map_option (\<lambda>t. tc_completion_status (tm_completion t)) tline;
          legacy = legacy_result_only run result tline;
          semantic = truth_evaluate digest now (rn_plan run);
          missing0 = missing_evidence run result tline legacy;
          contra = contradictions runtime_status workflow_status completion_status validation_status
                     timeline_status tline (tf_status semantic) legacy;
          (status0, reason0) = resolve_status runtime_status workflow_status completion_status
                     validation_status timeline_status (tf_status semantic) contra missing0 result;
          (status, reason, mission_missing) = mission_completion_ceiling status0 reason0 mission;
          missing = py_unique (missing0 @ mission_missing);
          safe = (status = ''completed'' \<and> contra = [] \<and> missing = [] \<and>
                  tf_safe_to_report_success semantic \<and> mission_safe mission \<and>
                  ((case tline of None \<Rightarrow> False | Some t \<Rightarrow> tc_safe_to_report_success (tm_completion t)) \<or> legacy) \<and>
                  (\<not> is_one_of workflow_status [''blocked'', ''failed'', ''cancelled''] \<or> legacy) \<and>
                  \<not> is_one_of validation_status VALIDATION_BAD)
      in \<lparr>rt_truth_id = ''runtime_truth_'' @ rn_run_id run,
          rt_task_id = Some (str_or (rn_task_id run) (rn_run_id run)), rt_task_run_id = rn_run_id run,
          rt_status = status, rt_phase = truth_phase run tline status, rt_reason_code = reason,
          rt_safe_to_report_success = safe, rt_runtime_status = Some runtime_status,
          rt_workflow_status = workflow_status, rt_completion_status = completion_status,
          rt_validation_status = validation_status, rt_timeline_status = timeline_status,
          rt_semantic_truth_status = Some (tf_status semantic),
          rt_semantic_truth_safe_to_report_success = Some (tf_safe_to_report_success semantic),
          rt_semantic_truth_reason_codes = tf_reason_codes semantic,
          rt_semantic_truth_disclosures = tf_disclosures semantic,
          rt_semantic_graph_id = tf_semantic_graph_id semantic,
          rt_semantic_graph_authority_sha256 = tf_semantic_graph_authority_sha256 semantic,
          rt_semantic_truth_facet_id = Some (tf_facet_id semantic),
          rt_semantic_truth_facet_authority_sha256 = Some (tf_authority_sha256 semantic),
          rt_mission_id = map_option mc_mission_id mission,
          rt_mission_completion_status = map_option mc_status mission,
          rt_mission_completion_safe_to_report_success = map_option mc_safe_to_report_success mission,
          rt_mission_completion_reason_codes =
            (case mission of None \<Rightarrow> [] | Some m \<Rightarrow> mc_reason_codes m),
          rt_mission_completion_disclosures =
            (case mission of None \<Rightarrow> [] | Some m \<Rightarrow> mc_disclosures m),
          rt_mission_completion_authority_sha256 = map_option mc_authority_sha256 mission,
          rt_ui_status = truth_ui_status status,
          rt_speaker_truth_status = (if safe then ''allowed'' else ''evidence_required''),
          rt_evidence = truth_evidence_rows render run result tline semantic mission,
          rt_contradictions = contra, rt_missing_evidence = missing,
          rt_source = ''runtime_truth_engine''\<rparr>)"

section \<open>Canonical operation state\<close>

record canonical_state =
  cs_status :: str
  cs_task_id :: "str option"
  cs_task_run_id :: "str option"
  cs_operation_id :: "str option"
  cs_lifecycle_status :: "str option"
  cs_validation_status :: "str option"
  cs_completion_status :: "str option"
  cs_speaker_truth_status :: "str option"
  cs_ui_status :: "str option"
  cs_safe_to_report_success :: bool
  cs_missing_outputs :: "str list"
  cs_missing_artifacts :: "str list"
  cs_reason_code :: "str option"
  cs_evidence_refs :: "str list"
  cs_metadata :: "(str \<times> json) list"
  cs_source :: str

definition state_validation_status :: "(json \<Rightarrow> str) \<Rightarrow> task_run_result option \<Rightarrow> str option" where
  "state_validation_status render result =
     (case result of
        None \<Rightarrow> Some ''not_started''
      | Some r \<Rightarrow>
          map_option (\<lambda>v. py_str render
            (json_or (json_or (json_get ''status'' v) (json_get ''validation_status'' v)) (JStr [])))
            (rs_validation r))"

definition produced_refs :: "(json \<Rightarrow> str) \<Rightarrow> (str \<times> json) list list \<Rightarrow> str list" where
  "produced_refs render artifacts =
     concat (map (\<lambda>item. map (py_str render) (filter json_truthy
       [json_get ''logical_path'' item, json_get ''artifact_id'' item, json_get ''storage_ref'' item]))
       artifacts)"

definition state_missing_artifacts ::
  "(json \<Rightarrow> str) \<Rightarrow> str list \<Rightarrow> (str \<times> json) list list \<Rightarrow> str list" where
  "state_missing_artifacts render required artifacts =
     filter (\<lambda>a. a \<notin> set (produced_refs render artifacts)) required"

definition state_status ::
  "str \<Rightarrow> str \<Rightarrow> str option \<Rightarrow> str list \<Rightarrow> str list \<Rightarrow> task_run_result option \<Rightarrow> runtime_truth option \<Rightarrow> str" where
  "state_status lifecycle completion validation missing_outputs missing_artifacts result truth =
     (let rstat = map_option rs_status result;
          safe = (case truth of None \<Rightarrow> False | Some t \<Rightarrow> rt_safe_to_report_success t)
      in if lifecycle = ''cancelled'' \<or> rstat = Some ''cancelled'' then ''CANCELLED''
         else if lifecycle \<in> {''failed'', ''expired''} then ''FAILED''
         else if missing_artifacts \<noteq> [] then (if result = None then ''WAITING_ARTIFACTS'' else ''BLOCKED'')
         else if missing_outputs \<noteq> [] then ''BLOCKED''
         else if is_one_of validation VALIDATION_BAD then ''BLOCKED''
         else if completion \<in> {''blocked'', ''failed''} \<or> lifecycle = ''blocked'' then ''BLOCKED''
         else if (case truth of None \<Rightarrow> False | Some t \<Rightarrow> rt_status t \<in> {''blocked'', ''failed''}) then ''BLOCKED''
         else if completion = ''completed'' \<and> safe then ''COMPLETED''
         else if rstat = Some ''completed'' \<and> truth = None then ''BLOCKED''
         else if rstat = Some ''completed'' \<and> truth \<noteq> None \<and> \<not> safe then ''BLOCKED''
         else if lifecycle = ''waiting_input'' then ''WAITING_APPROVAL''
         else if lifecycle = ''queued'' then ''READY''
         else if lifecycle = ''created'' then ''CREATED''
         else if lifecycle \<in> {''running'', ''waiting_delegation''} then ''RUNNING''
         else ''CREATED'')"

definition state_reason_code ::
  "task_run \<Rightarrow> task_run_result option \<Rightarrow> runtime_truth option \<Rightarrow> str option" where
  "state_reason_code run result truth =
     (if (case truth of None \<Rightarrow> False | Some t \<Rightarrow> rt_reason_code t \<noteq> []) then map_option rt_reason_code truth
      else if map_option rs_status result = Some ''completed'' \<and> truth = None
        then Some ''runtime_truth_required''
      else case (case result of None \<Rightarrow> None
                 | Some r \<Rightarrow> if opt_truthy (rs_reason_code r) then rs_reason_code r else rs_block_cause r) of
             Some code \<Rightarrow> Some code
           | None \<Rightarrow>
               (case rn_block_cause run of
                  Some code \<Rightarrow> Some code
                | None \<Rightarrow> if rn_blocked_reasons run \<noteq> [] then Some (py_join '','' (rn_blocked_reasons run))
                          else None))"

definition state_evidence_refs ::
  "(json \<Rightarrow> str) \<Rightarrow> task_run \<Rightarrow> runtime_truth option \<Rightarrow> (str \<times> json) list list \<Rightarrow> str list" where
  "state_evidence_refs render run truth artifacts =
     py_unique ((''task_run:'' @ rn_run_id run) #
       (case truth of None \<Rightarrow> [] | Some t \<Rightarrow> [''truth:'' @ rt_truth_id t]) @
       map (\<lambda>v. ''artifact:'' @ py_str render v)
         (filter json_truthy (map (json_get ''artifact_id'') artifacts)))"

text \<open>\<open>status.lower()\<close> on the ten canonical statuses.\<close>

definition state_ui_status :: "str \<Rightarrow> str" where
  "state_ui_status status =
     (case map_of [(''CREATED'', ''created''), (''READY'', ''ready''), (''RUNNING'', ''running''),
        (''WAITING_APPROVAL'', ''waiting_approval''), (''WAITING_ARTIFACTS'', ''waiting_artifacts''),
        (''VALIDATING'', ''validating''), (''COMPLETED'', ''completed''), (''FAILED'', ''failed''),
        (''BLOCKED'', ''blocked''), (''CANCELLED'', ''cancelled'')] status of
        Some s \<Rightarrow> s | None \<Rightarrow> status)"

definition state_derive ::
  "(json \<Rightarrow> str) \<Rightarrow> task_run \<Rightarrow> task_run_result option \<Rightarrow> runtime_truth option \<Rightarrow>
     (str \<times> json) list list option \<Rightarrow> canonical_state" where
  "state_derive render run result truth artifacts =
     (let rows = (case artifacts of Some xs \<Rightarrow> xs | None \<Rightarrow> rn_produced_artifacts run);
          missing_artifacts = state_missing_artifacts render (rn_required_artifacts run) rows;
          completion = (case result of None \<Rightarrow> None | Some r \<Rightarrow> rs_completion r);
          missing_outputs = (case completion of None \<Rightarrow> [] | Some c \<Rightarrow> cp_missing_outcomes c);
          validation = state_validation_status render result;
          completion_status = str_or (map_option cp_status completion)
            (case result of None \<Rightarrow> [] | Some r \<Rightarrow> rs_status r);
          status = state_status (rn_status run) completion_status validation missing_outputs
                     missing_artifacts result truth
      in \<lparr>cs_status = status, cs_task_id = Some (str_or (rn_task_id run) (rn_run_id run)),
          cs_task_run_id = Some (rn_run_id run), cs_operation_id = rn_operation_id run,
          cs_lifecycle_status = Some (rn_status run), cs_validation_status = validation,
          cs_completion_status = (if completion_status = [] then None else Some completion_status),
          cs_speaker_truth_status = map_option rt_speaker_truth_status truth,
          cs_ui_status = Some (state_ui_status status),
          cs_safe_to_report_success =
            (status = ''COMPLETED'' \<and>
             (case truth of None \<Rightarrow> False | Some t \<Rightarrow> rt_safe_to_report_success t) \<and>
             missing_outputs = [] \<and> missing_artifacts = [] \<and> \<not> is_one_of validation VALIDATION_BAD),
          cs_missing_outputs = missing_outputs, cs_missing_artifacts = missing_artifacts,
          cs_reason_code = state_reason_code run result truth,
          cs_evidence_refs = state_evidence_refs render run truth rows,
          cs_metadata =
            [(''produced_artifacts'', JList (filter json_truthy (map (json_get ''artifact_id'') rows))),
             (''required_artifacts'', jstrs (rn_required_artifacts run)),
             (''contract_type'', JStr (rn_contract_type run)),
             (''operation_type'', jopt (rn_operation_type run)),
             (''runtime_profile'', jopt (rn_runtime_profile run))],
          cs_source = ''canonical_operation_state_service''\<rparr>)"

text \<open>Keys of the normalised artifact are replaced in place or appended, as \<open>{**item, ...}\<close> does.\<close>

definition normalize_artifact :: "task_run \<Rightarrow> (str \<times> json) list \<Rightarrow> (str \<times> json) list" where
  "normalize_artifact run item =
     (let meta = (case json_get ''metadata'' item of JObj kvs \<Rightarrow> kvs | _ \<Rightarrow> []);
          own = (\<lambda>k. json_get k item); sub = (\<lambda>k. json_or (json_get k item) (json_get k meta))
      in fold (\<lambda>(k, v). AList.update k v)
           [(''task_id'', json_or (json_or (sub ''task_id'') (jopt (rn_task_id run))) (JStr (rn_run_id run))),
            (''task_run_id'', json_or (sub ''task_run_id'') (JStr (rn_run_id run))),
            (''operation_id'', json_or (own ''operation_id'') (jopt (rn_operation_id run))),
            (''phase_id'', json_or (sub ''phase_id'') (jopt (rn_current_phase run))),
            (''workspace_id'', json_or (own ''workspace_id'') (jopt (rn_workspace_id run))),
            (''logical_path'', sub ''logical_path''),
            (''storage_ref'', json_or (own ''storage_ref'') (own ''storage_path'')),
            (''producer_step'', sub ''producer_step''),
            (''created_at'', own ''created_at''),
            (''validation_status'', json_or (own ''validation_status'') (JStr ''unknown''))]
           item)"

definition bind_artifacts ::
  "(json \<Rightarrow> str) \<Rightarrow> task_run \<Rightarrow> (str \<times> json) list list \<Rightarrow> str list option \<Rightarrow> task_run" where
  "bind_artifacts render run artifacts required =
     (let req = py_unique (case required of Some (r # rs) \<Rightarrow> r # rs | _ \<Rightarrow> rn_required_artifacts run);
          normalized = map (normalize_artifact run) artifacts
      in run\<lparr>rn_required_artifacts := req, rn_produced_artifacts := normalized,
             rn_missing_artifacts := state_missing_artifacts render req normalized,
             rn_execution_artifacts := map_option (\<lambda>_. normalized) (rn_execution_artifacts run)\<rparr>)"

section \<open>Stages of the engine\<close>

text \<open>The engine's intermediate values, named.\<close>

definition truth_contradictions ::
  "(json \<Rightarrow> str) \<Rightarrow> (json \<Rightarrow> str) \<Rightarrow> str \<Rightarrow> task_run \<Rightarrow> task_run_result option \<Rightarrow> timeline option \<Rightarrow> str list" where
  "truth_contradictions digest render now run result tline =
     contradictions (rn_status run) (map_option wf_status (rn_workflow run)) (truth_completion_status result)
       (truth_validation_status render result tline)
       (map_option (\<lambda>t. tc_completion_status (tm_completion t)) tline) tline
       (tf_status (truth_evaluate digest now (rn_plan run))) (legacy_result_only run result tline)"

definition truth_base_status ::
  "(json \<Rightarrow> str) \<Rightarrow> (json \<Rightarrow> str) \<Rightarrow> str \<Rightarrow> task_run \<Rightarrow> task_run_result option \<Rightarrow> timeline option \<Rightarrow> str \<times> str" where
  "truth_base_status digest render now run result tline =
     resolve_status (rn_status run) (map_option wf_status (rn_workflow run)) (truth_completion_status result)
       (truth_validation_status render result tline)
       (map_option (\<lambda>t. tc_completion_status (tm_completion t)) tline)
       (tf_status (truth_evaluate digest now (rn_plan run)))
       (truth_contradictions digest render now run result tline)
       (missing_evidence run result tline (legacy_result_only run result tline)) result"

lemma runtime_truth_fields:
  fixes digest render now run result tline mission
  defines "b \<equiv> truth_base_status digest render now run result tline"
    and "t \<equiv> runtime_truth_evaluate digest render now run result tline mission"
    and "f \<equiv> truth_evaluate digest now (rn_plan run)"
    and "legacy \<equiv> legacy_result_only run result tline"
  shows "rt_status t = fst (mission_completion_ceiling (fst b) (snd b) mission)"
    and "rt_contradictions t = truth_contradictions digest render now run result tline"
    and "rt_missing_evidence t = py_unique (missing_evidence run result tline legacy @
           snd (snd (mission_completion_ceiling (fst b) (snd b) mission)))"
    and "rt_ui_status t = truth_ui_status (rt_status t)"
    and "rt_speaker_truth_status t = (if rt_safe_to_report_success t then ''allowed'' else ''evidence_required'')"
    and "rt_safe_to_report_success t \<longleftrightarrow>
      rt_status t = ''completed'' \<and> rt_contradictions t = [] \<and> rt_missing_evidence t = [] \<and>
      tf_safe_to_report_success f \<and> mission_safe mission \<and>
      ((case tline of None \<Rightarrow> False | Some x \<Rightarrow> tc_safe_to_report_success (tm_completion x)) \<or> legacy) \<and>
      (\<not> is_one_of (map_option wf_status (rn_workflow run)) [''blocked'', ''failed'', ''cancelled''] \<or> legacy) \<and>
      \<not> is_one_of (truth_validation_status render result tline) VALIDATION_BAD"
  unfolding t_def b_def f_def legacy_def runtime_truth_evaluate_def truth_base_status_def
    truth_contradictions_def Let_def case_prod_unfold
  by simp_all

lemma is_one_of_iff: "is_one_of s xs \<longleftrightarrow> (\<exists>t\<in>set xs. s = Some t)"
  by (auto simp: is_one_of_def split: option.splits)

lemmas blocking_defs = BLOCKING_STATUSES_def VALIDATION_BAD_def

text \<open>A success status of the base resolution passed every blocking test.\<close>

lemma not_completed [simp]:
  "''completed'' \<notin> set BLOCKING_STATUSES" "''completed'' \<notin> set VALIDATION_BAD"
  by (simp_all add: blocking_defs)

lemma is_one_of_not_completed:
  "is_one_of s [''blocked'', ''failed'', ''cancelled''] \<Longrightarrow> str_or s [] \<noteq> ''completed''"
  by (auto simp: is_one_of_iff)

lemma resolve_completed:
  assumes "fst (resolve_status rst wst cst vst tst sst contra missing result) = ''completed''"
  shows "rst \<notin> set BLOCKING_STATUSES" and "\<not> is_one_of wst [''blocked'', ''failed'', ''cancelled'']"
    and "\<not> is_one_of cst [''blocked'', ''failed'', ''cancelled'']" and "\<not> is_one_of vst VALIDATION_BAD"
    and "contra = []"
    and "rst \<notin> {''created'', ''queued'', ''running'', ''waiting_input'', ''waiting_delegation''}"
proof -
  show r: "rst \<notin> set BLOCKING_STATUSES"
  proof
    assume "rst \<in> set BLOCKING_STATUSES"
    moreover from this assms have "rst = ''completed''" by (simp add: resolve_status_def Let_def)
    ultimately show False by simp
  qed
  show w: "\<not> is_one_of wst [''blocked'', ''failed'', ''cancelled'']"
    using assms r is_one_of_not_completed [of wst] by (auto simp: resolve_status_def Let_def)
  show c: "\<not> is_one_of cst [''blocked'', ''failed'', ''cancelled'']"
    using assms r w is_one_of_not_completed [of cst] by (auto simp: resolve_status_def Let_def)
  show v: "\<not> is_one_of vst VALIDATION_BAD"
    using assms r w c by (auto simp: resolve_status_def Let_def)
  show x: "contra = []"
    using assms r w c v by (auto simp: resolve_status_def Let_def split: if_splits)
  show "rst \<notin> {''created'', ''queued'', ''running'', ''waiting_input'', ''waiting_delegation''}"
  proof
    assume act: "rst \<in> {''created'', ''queued'', ''running'', ''waiting_input'', ''waiting_delegation''}"
    with assms r w c v x have "rst = ''completed''"
      by (simp add: resolve_status_def Let_def split: if_splits)
    with act show False by simp
  qed
qed

lemma ceiling_completed:
  assumes "fst (mission_completion_ceiling status reason mission) = ''completed''"
  shows "status = ''completed''"
  using assms unfolding mission_completion_ceiling_def Let_def
  by (auto split: option.splits if_splits)

lemma ceiling_blocking:
  assumes "status \<in> set BLOCKING_STATUSES"
  shows "fst (mission_completion_ceiling status reason mission) \<in> set BLOCKING_STATUSES"
  using assms unfolding mission_completion_ceiling_def Let_def
  by (auto simp: blocking_defs split: option.splits)

lemma contradiction_blocks:
  assumes "contradictions rst wst cst vst tst tline sst legacy \<noteq> []"
  shows "fst (resolve_status rst wst cst vst tst' sst'
    (contradictions rst wst cst vst tst tline sst legacy) missing result) \<in> set BLOCKING_STATUSES"
proof -
  from assms have "cst = Some ''completed''" by (auto simp: contradictions_def split: if_splits)
  then have cst: "\<not> is_one_of cst [''blocked'', ''failed'', ''cancelled'']" by (simp add: is_one_of_iff)
  show ?thesis
    unfolding resolve_status_def Let_def using assms cst
    by (auto simp: is_one_of_iff BLOCKING_STATUSES_def)
qed

section \<open>Properties\<close>

text \<open>
  C8. What a success claim rests on. When the engine says a run may be reported as a success, its
  status is completed; the run, its workflow and its completion are not in a blocking status and the
  run is not still active; the validation did not end badly; there is no contradiction and no missing
  evidence; the mission, if one applies, is safe; and when the plan has a semantic graph, the graph
  verifies and every required edge is admitted, without constraints, by a verified compatibility.
\<close>

theorem runtime_success_sound:
  fixes digest render now run result tline mission
  defines "t \<equiv> runtime_truth_evaluate digest render now run result tline mission"
  assumes "rt_safe_to_report_success t"
  shows "rt_status t = ''completed'' \<and> rt_ui_status t = ''completed'' \<and> rt_speaker_truth_status t = ''allowed'' \<and>
    rn_status run \<notin> set BLOCKING_STATUSES \<and>
    rn_status run \<notin> {''created'', ''queued'', ''running'', ''waiting_input'', ''waiting_delegation''} \<and>
    \<not> is_one_of (map_option wf_status (rn_workflow run)) [''blocked'', ''failed'', ''cancelled''] \<and>
    \<not> is_one_of (truth_completion_status result) [''blocked'', ''failed'', ''cancelled''] \<and>
    \<not> is_one_of (truth_validation_status render result tline) VALIDATION_BAD \<and>
    rt_contradictions t = [] \<and> rt_missing_evidence t = [] \<and> mission_safe mission \<and>
    (\<forall>g. pl_semantic_execution_graph (rn_plan run) = Some g \<longrightarrow> graph_verify digest g \<and>
      (\<forall>e\<in>set (sg_edges g). se_required e \<longrightarrow>
        (\<exists>c\<in>set (pl_offer_demand_compatibilities (rn_plan run)). co_edge_id c = se_edge_id e \<and>
           co_decision c = ''admitted'' \<and> compatibility_verify digest c)))"
proof -
  note f = runtime_truth_fields [where digest = digest and render = render and now = now and run = run
      and result = result and tline = tline and mission = mission, folded t_def]
  from assms(2) f(6) have st: "rt_status t = ''completed''" and contra: "rt_contradictions t = []"
    and miss: "rt_missing_evidence t = []" and mission: "mission_safe mission"
    and sem: "tf_safe_to_report_success (truth_evaluate digest now (rn_plan run))" by auto
  from st f(1) have "fst (truth_base_status digest render now run result tline) = ''completed''"
    using ceiling_completed(1) by metis
  note base = resolve_completed [OF this [unfolded truth_base_status_def]]
  have "graph_verify digest g \<and> (\<forall>e\<in>set (sg_edges g). se_required e \<longrightarrow>
        (\<exists>c\<in>set (pl_offer_demand_compatibilities (rn_plan run)). co_edge_id c = se_edge_id e \<and>
           co_decision c = ''admitted'' \<and> compatibility_verify digest c))"
    if g: "pl_semantic_execution_graph (rn_plan run) = Some g" for g
  proof -
    have "tf_status (truth_evaluate digest now (rn_plan run)) = ''ready''"
      using sem facet_safe_iff facet_not_applicable_iff g by fastforce
    from ready_graph [OF g this] ready_edges [OF g this] show ?thesis
      unfolding compatibility_bound_def by blast
  qed
  then show ?thesis
    using st contra miss mission base f(4,5) assms(2) by (simp add: truth_ui_status_def)
qed

definition example_run :: "str \<Rightarrow> task_run" where
  "example_run status =
     \<lparr>rn_run_id = ''run'', rn_task_id = Some ''task'', rn_operation_id = None, rn_workspace_id = None,
      rn_current_phase = None, rn_contract_type = ''readonly_analysis'', rn_operation_type = None,
      rn_runtime_profile = None, rn_status = status, rn_plan = example_ready_plan,
      rn_workflow = Some \<lparr>wf_workflow_id = ''wf'', wf_status = ''completed'', wf_current_phase = None\<rparr>,
      rn_execution_artifacts = None, rn_produced_artifacts = [[(''artifact_id'', JStr ''a1'')]],
      rn_required_artifacts = [''a1''], rn_missing_artifacts = [], rn_blocked_reasons = [],
      rn_block_cause = None\<rparr>"

definition example_result :: "str \<Rightarrow> task_run_result" where
  "example_result status =
     \<lparr>rs_run_id = ''run'', rs_status = status, rs_reason_code = None, rs_safe_to_display = True,
      rs_validation = Some [(''status'', JStr ''passed'')], rs_block_cause = None,
      rs_completion = Some \<lparr>cp_status = status, cp_safe_to_report_success = (status = ''completed''),
        cp_missing_outcomes = []\<rparr>\<rparr>"

definition example_timeline :: timeline where
  "example_timeline =
     \<lparr>tm_timeline_id = ''tl'', tm_status = ''completed'', tm_phase = None, tm_event_ids = [''ev1''],
      tm_artifacts = [], tm_validation_statuses = [''passed''],
      tm_completion = \<lparr>tc_completion_status = ''completed'', tc_safe_to_report_success = True,
        tc_terminal_event_id = Some ''ev1''\<rparr>,
      tm_gaps = [], tm_orphan_artifact_ids = []\<rparr>"

definition example_truth :: runtime_truth where
  "example_truth = runtime_truth_evaluate example_digest (\<lambda>_. []) [] (example_run ''completed'')
     (Some (example_result ''completed'')) (Some example_timeline) None"

lemma example_truth_safe: "rt_safe_to_report_success example_truth"
  by code_simp

lemma example_success_witness: "graph_verify example_digest example_graph \<and> rt_status example_truth = ''completed''"
  using runtime_success_sound [OF example_truth_safe [unfolded example_truth_def]]
  by (simp add: example_truth_def example_run_def example_graph_of_plan)

text \<open>
  A contradiction is never shown as success: if the completion claims to be completed while the
  run, the workflow, the validation, the timeline or the semantic facet says otherwise, the status of
  the truth is blocking, the interface shows that status, and the speaker needs evidence.
\<close>

theorem contradiction_never_success:
  fixes digest render now run result tline mission
  defines "t \<equiv> runtime_truth_evaluate digest render now run result tline mission"
  assumes "rt_contradictions t \<noteq> []"
  shows "rt_status t \<in> set BLOCKING_STATUSES \<and> rt_ui_status t = rt_status t \<and>
    \<not> rt_safe_to_report_success t \<and> rt_speaker_truth_status t = ''evidence_required''"
proof -
  note f = runtime_truth_fields [where digest = digest and render = render and now = now and run = run
      and result = result and tline = tline and mission = mission, folded t_def]
  have "truth_contradictions digest render now run result tline \<noteq> []" using assms(2) f(2) by simp
  then have "fst (truth_base_status digest render now run result tline) \<in> set BLOCKING_STATUSES"
    unfolding truth_base_status_def truth_contradictions_def by (rule contradiction_blocks)
  from ceiling_blocking [OF this] have "rt_status t \<in> set BLOCKING_STATUSES" unfolding f(1) .
  moreover from this have "rt_ui_status t = rt_status t"
    unfolding f(4) by (auto simp: truth_ui_status_def BLOCKING_STATUSES_def)
  ultimately show ?thesis using assms(2) f(5,6) by auto
qed

lemma example_contradiction_witness:
  "\<not> rt_safe_to_report_success (runtime_truth_evaluate example_digest (\<lambda>_. []) [] (example_run ''failed'')
     (Some (example_result ''completed'')) (Some example_timeline) None)"
proof -
  have "rt_contradictions (runtime_truth_evaluate example_digest (\<lambda>_. []) [] (example_run ''failed'')
     (Some (example_result ''completed'')) (Some example_timeline) None) \<noteq> []" by code_simp
  from contradiction_never_success [OF this] show ?thesis by blast
qed

text \<open>
  The mission is a ceiling: taking a mission facet into account never turns a run that was not
  completed, or not safe, into one that is; a blocked mission blocks, and one with insufficient evidence
  is never completed.
\<close>

theorem mission_is_a_ceiling:
  fixes digest render now run result tline m
  defines "t \<equiv> runtime_truth_evaluate digest render now run result tline (Some m)"
    and "t0 \<equiv> runtime_truth_evaluate digest render now run result tline None"
  shows "(rt_status t = ''completed'' \<longrightarrow> rt_status t0 = ''completed'') \<and>
    (rt_safe_to_report_success t \<longrightarrow> rt_safe_to_report_success t0) \<and>
    (mc_status m = ''blocked'' \<longrightarrow> rt_status t = ''blocked'') \<and>
    (mc_status m = ''insufficient_evidence'' \<longrightarrow> rt_status t \<noteq> ''completed'')"
proof -
  note f = runtime_truth_fields [where digest = digest and render = render and now = now and run = run
      and result = result and tline = tline and mission = "Some m", folded t_def]
  note f0 = runtime_truth_fields [where digest = digest and render = render and now = now and run = run
      and result = result and tline = tline and mission = None, folded t0_def]
  let ?b = "truth_base_status digest render now run result tline"
  have st0: "rt_status t0 = fst ?b" and mm: "rt_missing_evidence t0 =
      py_unique (missing_evidence run result tline (legacy_result_only run result tline))"
    unfolding f0(1,3) by (simp_all add: mission_completion_ceiling_def)
  have st: "rt_status t0 = ''completed''" if "rt_status t = ''completed''"
    using that unfolding st0 f(1) by (rule ceiling_completed)
  have "rt_missing_evidence t0 = []" if "rt_missing_evidence t = []" using that unfolding mm f(3) by simp
  then have "rt_safe_to_report_success t \<longrightarrow> rt_safe_to_report_success t0"
    using st f(6) f0(6) f(2) f0(2) by (auto simp: mission_safe_def)
  moreover have "mc_status m = ''blocked'' \<longrightarrow> rt_status t = ''blocked''"
    unfolding f(1) by (simp add: mission_completion_ceiling_def Let_def)
  moreover have "mc_status m = ''insufficient_evidence'' \<longrightarrow> rt_status t \<noteq> ''completed''"
    unfolding f(1) by (auto simp: mission_completion_ceiling_def Let_def)
  ultimately show ?thesis using st by blast
qed

definition example_mission :: "str \<Rightarrow> mission_facet" where
  "example_mission status =
     \<lparr>mc_mission_id = ''m'', mc_snapshot_authority_sha256 = ''s'', mc_status = status,
      mc_safe_to_report_success = False, mc_reason_codes = [''gap''], mc_disclosures = [],
      mc_authority_sha256 = ''a''\<rparr>"

lemma example_mission_witness:
  "rt_status (runtime_truth_evaluate example_digest (\<lambda>_. []) [] (example_run ''completed'')
     (Some (example_result ''completed'')) (Some example_timeline) (Some (example_mission ''blocked''))) = ''blocked''"
  using mission_is_a_ceiling [where m = "example_mission ''blocked''"] by (simp add: example_mission_def)

text \<open>
  The canonical state: success is safe to report exactly when the run is shown as COMPLETED, and then its
  truth is safe, its completion is completed, it is not cancelled, failed, expired or blocked, no
  output is missing and every required artifact is among the produced ones.
\<close>

theorem canonical_completed_sound:
  fixes render run result truth artifacts
  defines "s \<equiv> state_derive render run result truth artifacts"
  shows "(cs_safe_to_report_success s \<longleftrightarrow> cs_status s = ''COMPLETED'') \<and>
    (cs_status s = ''COMPLETED'' \<longrightarrow>
       (\<exists>t r. truth = Some t \<and> result = Some r \<and> rt_safe_to_report_success t \<and>
          rs_status r \<noteq> ''cancelled'' \<and>
          str_or (map_option cp_status (rs_completion r)) (rs_status r) = ''completed'') \<and>
       rn_status run \<notin> set BLOCKING_STATUSES \<and> cs_missing_outputs s = [] \<and>
       set (rn_required_artifacts run) \<subseteq> set (produced_refs render
         (case artifacts of Some xs \<Rightarrow> xs | None \<Rightarrow> rn_produced_artifacts run)))"
proof -
  have key: "lifecycle \<notin> set BLOCKING_STATUSES \<and> mo = [] \<and> ma = [] \<and> \<not> is_one_of v VALIDATION_BAD \<and>
      c = ''completed'' \<and> map_option rs_status res \<noteq> Some ''cancelled'' \<and>
      (\<exists>t. tr = Some t \<and> rt_safe_to_report_success t)"
    if "state_status lifecycle c v mo ma res tr = ''COMPLETED''" for lifecycle c v mo ma res tr
    using that unfolding state_status_def Let_def
    by (auto simp: BLOCKING_STATUSES_def split: if_splits option.splits)
  define rows where "rows = (case artifacts of Some xs \<Rightarrow> xs | None \<Rightarrow> rn_produced_artifacts run)"
  have ma: "state_missing_artifacts render (rn_required_artifacts run) rows = [] \<longleftrightarrow>
      set (rn_required_artifacts run) \<subseteq> set (produced_refs render rows)"
    by (auto simp: state_missing_artifacts_def filter_empty_conv)
  show ?thesis
    unfolding s_def state_derive_def Let_def canonical_state.simps rows_def [symmetric] ma [symmetric]
    using key by (cases result) (fastforce split: option.splits)+
qed

lemma example_canonical_witness:
  "cs_safe_to_report_success (state_derive (\<lambda>_. []) (example_run ''completed'')
     (Some (example_result ''completed'')) (Some example_truth) None)"
proof -
  have "cs_status (state_derive (\<lambda>_. []) (example_run ''completed'')
     (Some (example_result ''completed'')) (Some example_truth) None) = ''COMPLETED''" by code_simp
  then show ?thesis
    using canonical_completed_sound [of "\<lambda>_. []" "example_run ''completed''"
        "Some (example_result ''completed'')" "Some example_truth" None] by simp
qed

text \<open>
  The contradictions are only looked for when the completion says \<open>completed\<close>: a result and a
  completion that both say \<open>partial\<close> do not stop the truth from being completed and safe when the
  timeline ended with a completed event.
\<close>

lemma partial_result_reported_safe:
  "let t = runtime_truth_evaluate example_digest (\<lambda>_. []) [] (example_run ''completed'')
     (Some (example_result ''partial'')) (Some example_timeline) None
   in rt_status t = ''completed'' \<and> rt_safe_to_report_success t"
  by code_simp

end
