(* ===== verification/Graph_Runs.thy ===== *)
theory Graph_Runs
  imports Execution_Graph
begin

text \<open>
  What the execution graph service guarantees: the cycle check is exact, cancelling a node blocks exactly
  the unfinished nodes that depend on it, and a graph whose nodes are started when they are ready and
  finish without failure always completes, in whatever order the nodes run.
\<close>

section \<open>Views of a graph\<close>

definition done_ids :: "exec_graph \<Rightarrow> str set" where
  "done_ids g = node_id ` {n \<in> set (graph_nodes g). node_done n}"

definition stopped_ids :: "exec_graph \<Rightarrow> str set" where
  "stopped_ids g = node_id ` {n \<in> set (graph_nodes g). node_stopped n}"

lemma schedulable_iff:
  "schedulable g n \<longleftrightarrow> node_status n \<in> {NPending, NWaiting} \<and>
     set (required_sources (graph_edges g) (node_id n)) \<subseteq> done_ids g - stopped_ids g"
  unfolding schedulable_def Let_def done_ids_def stopped_ids_def list_ex_iff list_all_iff by (auto simp: image_iff)

lemma schedulable_cong:
  assumes "done_ids g = done_ids g'" and "stopped_ids g = stopped_ids g'" and "graph_edges g = graph_edges g'"
  shows "schedulable g = schedulable g'"
  using assms by (simp add: schedulable_iff fun_eq_iff)

text \<open>Two lists of nodes agree up to moves among the statuses of unfinished nodes.\<close>

definition same_progress :: "exec_node \<Rightarrow> exec_node \<Rightarrow> bool" where
  "same_progress a b \<longleftrightarrow> node_id a = node_id b \<and> node_done a = node_done b \<and> node_stopped a = node_stopped b"

lemma same_progress_ids:
  assumes "list_all2 same_progress xs ys"
  shows "node_id ` {n \<in> set xs. node_done n} = node_id ` {n \<in> set ys. node_done n}"
    and "node_id ` {n \<in> set xs. node_stopped n} = node_id ` {n \<in> set ys. node_stopped n}"
    and "map node_id xs = map node_id ys"
  using assms by (induction rule: list_all2_induct)
    (auto simp: same_progress_def Collect_disj_eq image_Un conj_disj_distribR)

lemma map_same_progress:
  assumes "\<And>n. n \<in> set xs \<Longrightarrow> same_progress (f n) n"
  shows "list_all2 same_progress (map f xs) xs"
  using assms by (induction xs) auto

definition ready_move :: "exec_graph \<Rightarrow> exec_node \<Rightarrow> exec_node" where
  "ready_move g n = (if schedulable g n then n\<lparr>node_status := NReady\<rparr> else n)"

definition waiting_move :: "exec_node \<Rightarrow> exec_node" where
  "waiting_move n = (if node_status n = NPending \<and> node_dependencies n \<noteq> [] then n\<lparr>node_status := NWaiting\<rparr> else n)"

lemma mark_ready_nodes: "graph_nodes (mark_ready g) = map (ready_move g) (graph_nodes g)"
  by (simp add: mark_ready_def ready_move_def)

lemma refresh_ready_nodes_nodes: "graph_nodes (refresh_ready_nodes g) = map (\<lambda>n. waiting_move (ready_move g n)) (graph_nodes g)"
  by (simp add: refresh_ready_nodes_def mark_ready_nodes waiting_move_def Let_def)

lemma same_progress_ready: "same_progress (ready_move g n) n"
  by (auto simp: same_progress_def ready_move_def node_done_def node_stopped_def schedulable_iff)

lemma same_progress_waiting: "same_progress (waiting_move (ready_move g n)) n"
  by (auto simp: same_progress_def ready_move_def waiting_move_def node_done_def node_stopped_def schedulable_iff)

lemma move_unschedulable: "\<not> schedulable g (ready_move g n)" "\<not> schedulable g (waiting_move (ready_move g n))"
  by (auto simp: ready_move_def waiting_move_def schedulable_iff)

text \<open>Marking ready nodes leaves no node that could be marked, whatever the variant.\<close>

lemma settled_by_moves:
  assumes "graph_nodes g' = map f (graph_nodes g)" and "graph_edges g' = graph_edges g"
    and "\<And>n. n \<in> set (graph_nodes g) \<Longrightarrow> same_progress (f n) n"
    and "\<And>n. n \<in> set (graph_nodes g) \<Longrightarrow> \<not> schedulable g (f n)"
  shows "done_ids g' = done_ids g" "stopped_ids g' = stopped_ids g" "\<forall>n\<in>set (graph_nodes g'). \<not> schedulable g' n"
proof -
  have l: "list_all2 same_progress (graph_nodes g') (graph_nodes g)"
    unfolding assms(1) by (rule map_same_progress) (rule assms(3))
  show d: "done_ids g' = done_ids g" and s: "stopped_ids g' = stopped_ids g"
    unfolding done_ids_def stopped_ids_def by (fact same_progress_ids(1,2) [OF l])+
  show "\<forall>n\<in>set (graph_nodes g'). \<not> schedulable g' n"
    unfolding schedulable_cong [OF d s assms(2)] assms(1) using assms(4) by simp
qed

lemma ready_frame [simp]:
  "graph_edges (mark_ready g) = graph_edges g" "graph_edges (refresh_ready_nodes g) = graph_edges g"
  "graph_status (mark_ready g) = graph_status g" "graph_status (refresh_ready_nodes g) = graph_status g"
  by (simp_all add: mark_ready_def refresh_ready_nodes_def Let_def)

lemma frame [simp]:
  "graph_nodes (refresh_lifecycle now g) = graph_nodes g"
  "graph_edges (refresh_lifecycle now g) = graph_edges g"
  "graph_status (refresh_lifecycle now g) = lifecycle_status g"
  "graph_nodes (add_checkpoint c g) = graph_nodes g"
  "graph_edges (add_checkpoint c g) = graph_edges g"
  "graph_status (add_checkpoint c g) = graph_status g"
  "graph_nodes (clear_current g) = graph_nodes g"
  "graph_edges (clear_current g) = graph_edges g"
  "graph_nodes (mark_edges_completed_from i g) = graph_nodes g"
  "graph_edges (mark_edges_completed_from i g) = graph_edges g"
  "graph_edges (change_node p f g) = graph_edges g"
  "graph_nodes (change_node p f g) = update_first p f (graph_nodes g)"
  "graph_status (change_node p f g) = graph_status g"
  "graph_nodes (set_lifecycle_status st g) = graph_nodes g"
  "graph_edges (set_lifecycle_status st g) = graph_edges g"
  "graph_status (set_lifecycle_status st g) = graph_status g"
  "graph_nodes (block_graph g) = graph_nodes g"
  "graph_edges (block_graph g) = graph_edges g"
  "graph_nodes (record_outcome uid now r n g) = graph_nodes g"
  "graph_edges (record_outcome uid now r n g) = graph_edges g"
  by (simp_all add: record_outcome_def refresh_lifecycle_def add_checkpoint_def clear_current_def mark_edges_completed_from_def
      change_node_def set_lifecycle_status_def block_graph_def Let_def)

lemma update_first_distinct:
  assumes "find p xs = Some x" and "distinct (map node_id xs)"
  shows "update_first p f xs = map (\<lambda>y. if node_id y = node_id x then f y else y) xs \<and> x \<in> set xs \<and> p x"
  using assms
proof (induction xs)
  case (Cons y xs)
  then show ?case
  proof (cases "p y")
    case True
    then have "x = y" using Cons.prems by simp
    moreover have "map (\<lambda>z. if node_id z = node_id y then f z else z) xs = xs"
      using Cons.prems(2) by (intro map_idI) (auto simp: image_iff)
    ultimately show ?thesis using True by simp
  next
    case False
    then have "find p xs = Some x" "distinct (map node_id xs)" using Cons.prems by auto
    then have ih: "update_first p f xs = map (\<lambda>y. if node_id y = node_id x then f y else y) xs" "x \<in> set xs" "p x"
      using Cons.IH by auto
    then have "node_id y \<noteq> node_id x" using Cons.prems(2) by (auto simp: image_iff)
    then show ?thesis using False ih by simp
  qed
qed simp

lemma lifecycle_status_refresh [simp]: "lifecycle_status (refresh_lifecycle now g) = lifecycle_status g"
  by (simp add: lifecycle_status_def ids_with_def)

section \<open>The cycle check\<close>

lemma is_acyclic_iff:
  "is_acyclic nodes es \<longleftrightarrow>
     (\<forall>e\<in>set es. from_node_id e \<in> node_id ` set nodes \<and> to_node_id e \<in> node_id ` set nodes) \<and>
     acyclic {(from_node_id e, to_node_id e) | e. e \<in> set es}"
proof -
  have "edge_rel (edge_pairs es) = {(from_node_id e, to_node_id e) | e. e \<in> set es}"
    by (auto simp: edge_rel_def edge_pairs_def)
  moreover have "fst ` set (edge_pairs es) \<union> snd ` set (edge_pairs es) \<subseteq> set (map node_id nodes) \<longleftrightarrow>
      (\<forall>e\<in>set es. from_node_id e \<in> node_id ` set nodes \<and> to_node_id e \<in> node_id ` set nodes)"
    by (auto simp: edge_pairs_def image_image)
  ultimately show ?thesis unfolding is_acyclic_def is_acyclic_edges_iff by simp
qed

section \<open>Runs\<close>

text \<open>
  One unit of work: a ready node is started, or a running node reports an outcome that is not a failure.
  Several nodes may be running at once.
\<close>

definition good_status :: "str \<Rightarrow> bool" where
  "good_status s \<longleftrightarrow> node_status_of s \<in> {NCompleted, NPartial, NSkipped}"

inductive work_step :: "(str \<Rightarrow> str \<Rightarrow> int option) \<Rightarrow> exec_graph \<Rightarrow> exec_graph \<Rightarrow> bool" for elapsed where
  start_by_node: "find (\<lambda>n. node_id n = i) (graph_nodes g) = Some n \<Longrightarrow> node_status n = NReady \<Longrightarrow>
    work_step elapsed g (mark_node_started now i g)"
| start_by_step: "find (\<lambda>n. node_step_id n = Some i) (graph_nodes g) = Some n \<Longrightarrow> node_status n = NReady \<Longrightarrow>
    work_step elapsed g (mark_step_started now i g)"
| finish_by_node: "find (\<lambda>n. node_id n = i) (graph_nodes g) = Some n \<Longrightarrow> node_status n = NRunning \<Longrightarrow>
    good_status (rep_status r) \<Longrightarrow> work_step elapsed g (mark_node_finished elapsed uid now i r g)"
| finish_by_step: "find (\<lambda>n. node_step_id n = Some i) (graph_nodes g) = Some n \<Longrightarrow> node_status n = NRunning \<Longrightarrow>
    good_status status \<Longrightarrow> work_step elapsed g (mark_step_finished now i status out ws vs g)"

definition run_status :: "node_status \<Rightarrow> bool" where
  "run_status st \<longleftrightarrow> st \<in> {NPending, NWaiting, NReady, NRunning, NCompleted, NPartial, NSkipped}"

definition on_track :: "exec_graph \<Rightarrow> bool" where
  "on_track g \<longleftrightarrow>
     distinct (map node_id (graph_nodes g)) \<and> is_acyclic (graph_nodes g) (graph_edges g) \<and>
     (\<forall>n\<in>set (graph_nodes g). run_status (node_status n) \<and> \<not> schedulable g n) \<and>
     (list_all node_done (graph_nodes g) \<longrightarrow> graph_status g = GCompleted)"

fun status_weight :: "node_status \<Rightarrow> nat" where
  "status_weight NCompleted = 0"
| "status_weight NPartial = 0"
| "status_weight NSkipped = 0"
| "status_weight NRunning = 1"
| "status_weight _ = 2"

definition work_left :: "exec_graph \<Rightarrow> nat" where
  "work_left g = sum_list (map (\<lambda>n. status_weight (node_status n)) (graph_nodes g))"

lemma no_stopped: "on_track g \<Longrightarrow> stopped_ids g = {}"
  by (auto simp: on_track_def stopped_ids_def run_status_def node_stopped_def)

lemma is_acyclic_ids: "map node_id xs = map node_id ys \<Longrightarrow> is_acyclic xs es = is_acyclic ys es"
  by (simp add: is_acyclic_def)

text \<open>The effect of a work step on the nodes: one node moves on, then ready nodes are marked.\<close>

lemma mark_started_nodes:
  assumes "find p (graph_nodes g) = Some n" and "distinct (map node_id (graph_nodes g))"
  shows "graph_nodes (mark_started now p g) =
      map (\<lambda>m. if node_id m = node_id n then start_node now m else m) (graph_nodes g)"
    and "graph_edges (mark_started now p g) = graph_edges g" and "n \<in> set (graph_nodes g)"
  using update_first_distinct [OF assms] assms(1) by (simp_all add: mark_started_def)

lemma sum_list_one_less:
  assumes "x \<in> set xs" and "distinct (map k xs)" and "w (f x) + 1 = w x"
    and "\<And>y. y \<in> set xs \<Longrightarrow> k y \<noteq> k x \<Longrightarrow> w (f y) = (w y :: nat)"
  shows "sum_list (map (\<lambda>y. w (f y)) xs) + 1 = sum_list (map w xs)"
  using assms
proof (induction xs)
  case (Cons z zs)
  show ?case
  proof (cases "z = x")
    case True
    have "w (f y) = w y" if "y \<in> set zs" for y
      using Cons.prems(2,4) that True by (metis distinct.simps(2) image_eqI list.set_intros(2) list.set_map list.simps(9))
    then have "sum_list (map (\<lambda>y. w (f y)) zs) = sum_list (map w zs)" by (simp cong: map_cong)
    then show ?thesis using Cons.prems(3) True by simp
  next
    case False
    then have x: "x \<in> set zs" using Cons.prems(1) by simp
    then have "k z \<noteq> k x" using Cons.prems(2) by (auto simp: image_iff)
    then have "w (f z) = w z" using Cons.prems(4) by simp
    moreover have "sum_list (map (\<lambda>y. w (f y)) zs) + 1 = sum_list (map w zs)"
      by (rule Cons.IH [OF x]) (use Cons.prems in auto)
    ultimately show ?thesis by simp
  qed
qed simp


lemma same_id_same_node:
  "distinct (map node_id xs) \<Longrightarrow> x \<in> set xs \<Longrightarrow> y \<in> set xs \<Longrightarrow> node_id x = node_id y \<longleftrightarrow> x = y"
  by (metis distinct_map inj_on_eq_iff)

lemma on_track_start:
  assumes g: "on_track g" and n: "find p (graph_nodes g) = Some n" "node_status n = NReady"
  shows "on_track (mark_started now p g) \<and> work_left (mark_started now p g) + 1 = work_left g"
proof -
  let ?g = "mark_started now p g" and ?f = "\<lambda>m. if node_id m = node_id n then start_node now m else m"
  have d: "distinct (map node_id (graph_nodes g))" using g by (simp add: on_track_def)
  note nodes = mark_started_nodes(1,2) [OF n(1) d, where now = now] mark_started_nodes(3) [OF n(1) d]
  have same: "node_id m = node_id n \<longleftrightarrow> m = n" if "m \<in> set (graph_nodes g)" for m
    using same_id_same_node [OF d that nodes(3)] .
  have st: "node_status (start_node now m) = NRunning" "node_id (start_node now m) = node_id m" for m
    by (simp_all add: start_node_def)
  have prog: "same_progress (?f m) m" if "m \<in> set (graph_nodes g)" for m
    using same [OF that] n(2) by (auto simp: same_progress_def node_done_def node_stopped_def st)
  have uns: "\<not> schedulable g (?f m)" if "m \<in> set (graph_nodes g)" for m
    using g that by (auto simp: on_track_def schedulable_iff st)
  note settled = settled_by_moves [OF nodes(1,2) prog uns]
  have ids: "map node_id (graph_nodes ?g) = map node_id (graph_nodes g)" unfolding nodes(1) by (simp add: st)
  have "?f n \<in> set (graph_nodes ?g)" unfolding nodes(1) set_map by (rule imageI) (rule nodes(3))
  then have "\<not> list_all node_done (graph_nodes ?g)" by (auto simp: list_all_iff node_done_def st intro!: bexI [of _ "start_node now n"])
  moreover have "is_acyclic (graph_nodes ?g) (graph_edges ?g)"
    using g is_acyclic_ids [OF ids] by (simp add: on_track_def nodes(2))
  moreover have "run_status (node_status m)" if "m \<in> set (graph_nodes ?g)" for m
    using that g unfolding nodes(1) on_track_def by (auto simp: st run_status_def)
  ultimately have "on_track ?g" unfolding on_track_def using settled(3) d ids by simp
  moreover have "work_left ?g + 1 = work_left g"
    unfolding work_left_def nodes(1) map_map comp_def
    by (rule sum_list_one_less [OF nodes(3) d]) (auto simp: st n(2))
  ultimately show ?thesis by blast
qed

lemma lifecycle_completed: "list_all node_done (graph_nodes g) \<Longrightarrow> lifecycle_status g = GCompleted"
  by (auto simp: lifecycle_status_def ids_with_def list_all_iff node_done_def filter_empty_conv)

text \<open>A finished node, followed by the moves \<open>mv\<close> of the other nodes.\<close>

lemma on_track_finish:
  assumes g: "on_track g" and n: "find p (graph_nodes g) = Some n" "node_status n = NRunning"
    and f: "\<And>m. node_id (f m) = node_id m" "\<And>m. node_done (f m)"
    and h: "graph_nodes h = update_first p f (graph_nodes g)" "graph_edges h = graph_edges g"
    and g': "graph_nodes g' = map mv (graph_nodes h)" "graph_edges g' = graph_edges h" "graph_status g' = lifecycle_status h"
    and mv: "\<And>m. same_progress (mv m) m" "\<And>m. \<not> schedulable h (mv m)"
      "\<And>m. run_status (node_status m) \<Longrightarrow> run_status (node_status (mv m))"
      "\<And>m. status_weight (node_status (mv m)) = status_weight (node_status m)"
  shows "on_track g' \<and> work_left g' + 1 = work_left g"
proof -
  let ?f = "\<lambda>m. if node_id m = node_id n then f m else m"
  have d: "distinct (map node_id (graph_nodes g))" using g by (simp add: on_track_def)
  have nodes: "graph_nodes h = map ?f (graph_nodes g)" "n \<in> set (graph_nodes g)"
    using update_first_distinct [OF n(1) d, of f] h(1) by simp_all
  note settled = settled_by_moves [OF g'(1,2) mv(1,2)]
  have ids: "map node_id (graph_nodes h) = map node_id (graph_nodes g)" unfolding nodes(1) by (simp add: f)
  have ids': "map node_id (graph_nodes g') = map node_id (graph_nodes g)"
    using ids same_progress_ids(3) [OF map_same_progress [OF mv(1)], of "graph_nodes h"] by (simp add: g'(1))
  have "graph_status g' = GCompleted" if "list_all node_done (graph_nodes g')"
  proof -
    have "list_all node_done (graph_nodes h)" using that mv(1) by (simp add: g'(1) list_all_iff same_progress_def)
    then show ?thesis using lifecycle_completed g'(3) by simp
  qed
  moreover have "is_acyclic (graph_nodes g') (graph_edges g')"
    using g is_acyclic_ids [OF ids'] by (simp add: on_track_def g'(2) h(2))
  moreover have "run_status (node_status m)" if "m \<in> set (graph_nodes g')" for m
  proof -
    obtain k where k: "k \<in> set (graph_nodes g)" "m = mv (?f k)" using \<open>m \<in> set (graph_nodes g')\<close> by (auto simp: g'(1) nodes(1))
    have "run_status (node_status (f k))" using f(2) [of k] by (auto simp: node_done_def run_status_def)
    moreover have "run_status (node_status k)" using g k(1) by (simp add: on_track_def)
    ultimately show ?thesis unfolding k(2) by (intro mv(3)) simp
  qed
  ultimately have "on_track g'" unfolding on_track_def using settled(3) d ids' by simp
  moreover have "work_left g' + 1 = work_left g"
    unfolding work_left_def g'(1) nodes(1) map_map comp_def mv(4)
    by (rule sum_list_one_less [OF nodes(2) d]) (use f(2) [of n] in \<open>auto simp: n(2) node_done_def\<close>)
  ultimately show ?thesis by blast
qed

lemma move_status:
  "run_status (node_status m) \<Longrightarrow> run_status (node_status (ready_move g m))"
  "run_status (node_status m) \<Longrightarrow> run_status (node_status (waiting_move (ready_move g m)))"
  "status_weight (node_status (ready_move g m)) = status_weight (node_status m)"
  "status_weight (node_status (waiting_move (ready_move g m))) = status_weight (node_status m)"
  by (auto simp: ready_move_def waiting_move_def run_status_def schedulable_iff)

lemma work_step_on_track:
  "work_step elapsed g g' \<Longrightarrow> on_track g \<Longrightarrow> on_track g' \<and> work_left g' + 1 = work_left g"
proof (induction rule: work_step.induct)
  case (start_by_node i g n now)
  then show ?case unfolding mark_node_started_def by (intro on_track_start)
next
  case (start_by_step i g n now)
  then show ?case unfolding mark_step_started_def by (intro on_track_start)
next
  case (finish_by_node i g n r uid now)
  let ?g1 = "refresh_lifecycle now (mark_edges_completed_from (node_id n) (clear_current
    (record_outcome uid now r (finish_node elapsed now r n) (change_node (\<lambda>n. node_id n = i) (finish_node elapsed now r) g))))"
  show ?case
  proof (rule on_track_finish [where f = "finish_node elapsed now r" and h = ?g1 and
        mv = "\<lambda>m. waiting_move (ready_move ?g1 m)", OF finish_by_node(4,1,2)])
    show "node_done (finish_node elapsed now r m)" for m
      using finish_by_node(3) by (simp add: finish_node_def good_status_def node_done_def)
  qed (simp_all add: mark_node_finished_def Let_def finish_by_node(1) refresh_ready_nodes_nodes finish_node_def
       same_progress_waiting move_unschedulable move_status)
next
  case (finish_by_step i g n status now out ws vs)
  let ?f = "finish_step now status out ws vs"
  let ?g1 = "refresh_lifecycle now (clear_current (change_node (\<lambda>n. node_step_id n = Some i) ?f g))"
  show ?case
  proof (rule on_track_finish [where f = ?f and h = ?g1 and mv = "ready_move ?g1", OF finish_by_step(4,1,2)])
    show "node_done (?f m)" for m
      using finish_by_step(3) by (simp add: finish_step_def good_status_def node_done_def)
  qed (simp_all add: mark_step_finished_def Let_def finish_by_step(1) mark_ready_nodes finish_step_def
       same_progress_ready move_unschedulable move_status)
qed


lemma work_on_track:
  "(work_step elapsed ^^ k) g g' \<Longrightarrow> on_track g \<Longrightarrow> on_track g' \<and> work_left g' + k = work_left g"
proof (induction k arbitrary: g')
  case (Suc k)
  then obtain h where h: "(work_step elapsed ^^ k) g h" "work_step elapsed h g'" by auto
  then show ?case using Suc.IH [OF h(1) Suc.prems(2)] work_step_on_track [OF h(2)] by simp
qed simp

text \<open>An unfinished node all of whose predecessors are finished can move.\<close>

lemma find_unique_id:
  "distinct (map node_id xs) \<Longrightarrow> n \<in> set xs \<Longrightarrow> find (\<lambda>m. node_id m = node_id n) xs = Some n"
  by (induction xs) (auto simp: image_iff)

lemma on_track_progress:
  assumes g: "on_track g" and stuck: "\<And>g'. \<not> work_step elapsed g g'"
  shows "list_all node_done (graph_nodes g)"
proof -
  let ?R = "{(from_node_id e, to_node_id e) | e. e \<in> set (graph_edges g)}"
  have d: "distinct (map node_id (graph_nodes g))" using g by (simp add: on_track_def)
  from g have cl: "\<And>e. e \<in> set (graph_edges g) \<Longrightarrow> from_node_id e \<in> node_id ` set (graph_nodes g)"
    and ac: "acyclic ?R" by (auto simp: on_track_def is_acyclic_iff)
  have "?R = (\<lambda>e. (from_node_id e, to_node_id e)) ` set (graph_edges g)" by auto
  then have wf: "wf ?R" using ac by (simp add: finite_acyclic_wf)
  have "\<forall>n\<in>set (graph_nodes g). node_id n = i \<longrightarrow> node_done n" for i
    using wf
  proof (induction i rule: wf_induct_rule)
    case (less i)
    show ?case
    proof (intro ballI impI, rule ccontr)
      fix n assume n: "n \<in> set (graph_nodes g)" "node_id n = i" and nd: "\<not> node_done n"
      have "from_node_id e \<in> done_ids g" if "e \<in> set (graph_edges g)" "to_node_id e = i" for e
        using less [of "from_node_id e"] cl [OF that(1)] that by (force simp: done_ids_def)
      then have "set (required_sources (graph_edges g) (node_id n)) \<subseteq> done_ids g - stopped_ids g"
        using n(2) no_stopped [OF g] by (auto simp: required_sources_def)
      then have "node_status n \<notin> {NPending, NWaiting}" using g n(1) by (auto simp: on_track_def schedulable_iff)
      moreover have "node_status n \<noteq> NReady"
        using stuck start_by_node [OF find_unique_id [OF d n(1)]] by blast
      moreover have "node_status n \<noteq> NRunning"
      proof
        assume "node_status n = NRunning"
        from finish_by_node [OF find_unique_id [OF d n(1)] this, of "\<lparr>rep_status = ''completed'', rep_outputs = [],
            rep_artifact_refs = [], rep_memory_candidates = [], rep_speakertruth = [], rep_review = [],
            rep_validation = [], rep_warnings = [], rep_violations = []\<rparr>"]
        have "work_step elapsed g (mark_node_finished elapsed [] [] (node_id n) \<lparr>rep_status = ''completed'', rep_outputs = [],
            rep_artifact_refs = [], rep_memory_candidates = [], rep_speakertruth = [], rep_review = [],
            rep_validation = [], rep_warnings = [], rep_violations = []\<rparr> g)"
          by (simp add: good_status_def node_status_of_def)
        then show False using stuck by blast
      qed
      ultimately show False using g n(1) nd by (auto simp: on_track_def run_status_def node_done_def)
    qed
  qed
  then show ?thesis by (simp add: list_all_iff)
qed

lemma on_track_completes:
  assumes "on_track g" and "(work_step elapsed ^^ k) g g'"
  shows "k \<le> work_left g \<and> ((\<exists>h. work_step elapsed g' h) \<or> graph_status g' = GCompleted)"
proof -
  have g': "on_track g'" "work_left g' + k = work_left g" using work_on_track [OF assms(2,1)] by auto
  have "graph_status g' = GCompleted" if "\<nexists>h. work_step elapsed g' h"
    using on_track_progress [OF g'(1)] that g'(1) by (auto simp: on_track_def)
  then show ?thesis using g'(2) by auto
qed

text \<open>A run can always be extended until nothing is left to do.\<close>

lemma on_track_maximal_run:
  "on_track g \<Longrightarrow> \<exists>k g'. (work_step elapsed ^^ k) g g' \<and> (\<nexists>h. work_step elapsed g' h)"
proof (induction "work_left g" arbitrary: g rule: less_induct)
  case less
  show ?case
  proof (cases "\<exists>h. work_step elapsed g h")
    case True
    then obtain h where h: "work_step elapsed g h" by blast
    then have "on_track h" "work_left h < work_left g" using work_step_on_track [OF h less.prems] by auto
    then obtain k g' where "(work_step elapsed ^^ k) h g'" "\<nexists>h. work_step elapsed g' h" using less.hyps by blast
    then show ?thesis using h by (metis relpowp_Suc_I2)
  next
    case False
    then show ?thesis by (metis relpowp_0_I)
  qed
qed


section \<open>Fresh graphs\<close>

lemma work_left_fresh:
  "\<forall>n\<in>set (graph_nodes g). node_status n \<in> {NPending, NWaiting, NReady} \<Longrightarrow> work_left g = 2 * length (graph_nodes g)"
proof -
  have "sum_list (map (\<lambda>n. status_weight (node_status n)) xs) = 2 * length xs"
    if "\<forall>n\<in>set xs. node_status n \<in> {NPending, NWaiting, NReady}" for xs :: "exec_node list"
    using that by (induction xs) auto
  then show "\<forall>n\<in>set (graph_nodes g). node_status n \<in> {NPending, NWaiting, NReady} \<Longrightarrow> ?thesis"
    by (simp add: work_left_def)
qed

text \<open>A graph of pending nodes is on track as soon as its ready nodes have been marked.\<close>

lemma fresh_on_track:
  assumes "graph_nodes g' = map mv (graph_nodes g)" "graph_edges g' = graph_edges g"
    and "\<And>m. same_progress (mv m) m" "\<And>m. \<not> schedulable g (mv m)"
    and "\<And>m. node_status m = NPending \<Longrightarrow> node_status (mv m) \<in> {NPending, NWaiting, NReady}"
    and "\<forall>n\<in>set (graph_nodes g). node_status n = NPending" "graph_nodes g \<noteq> []"
    and "distinct (map node_id (graph_nodes g))" "is_acyclic (graph_nodes g) (graph_edges g)"
  shows "on_track g' \<and> work_left g' = 2 * length (graph_nodes g)"
proof -
  note settled = settled_by_moves [OF assms(1-4)]
  have ids: "map node_id (graph_nodes g') = map node_id (graph_nodes g)"
    using same_progress_ids(3) [OF map_same_progress [OF assms(3)], of "graph_nodes g"] by (simp add: assms(1))
  have st: "node_status n \<in> {NPending, NWaiting, NReady}" if "n \<in> set (graph_nodes g')" for n
    using that assms(5,6) by (auto simp: assms(1))
  have "\<not> list_all node_done (graph_nodes g')"
  proof -
    obtain n where "n \<in> set (graph_nodes g')" using assms(1,7) by (cases "graph_nodes g") auto
    then show ?thesis using st [of n] by (auto simp: list_all_iff node_done_def intro!: bexI [of _ n])
  qed
  moreover have "run_status (node_status n)" if "n \<in> set (graph_nodes g')" for n
    using st [OF that] by (auto simp: run_status_def)
  ultimately have "on_track g'"
    unfolding on_track_def using settled(3) assms(8,9) ids is_acyclic_ids [OF ids] by (simp add: assms(2))
  moreover have "work_left g' = 2 * length (graph_nodes g)"
    using work_left_fresh [of g'] st by (simp add: assms(1))
  ultimately show ?thesis by blast
qed

lemma move_pending:
  "node_status m = NPending \<Longrightarrow> node_status (ready_move g m) \<in> {NPending, NWaiting, NReady}"
  "node_status m = NPending \<Longrightarrow> node_status (waiting_move (ready_move g m)) \<in> {NPending, NWaiting, NReady}"
  by (auto simp: ready_move_def waiting_move_def)

lemmas mark_ready_on_track =
  fresh_on_track [OF mark_ready_nodes ready_frame(1) same_progress_ready move_unschedulable(1) move_pending(1)]

lemmas refresh_ready_on_track =
  fresh_on_track [OF refresh_ready_nodes_nodes ready_frame(2) same_progress_waiting move_unschedulable(2) move_pending(2)]

lemma launch_on_track:
  assumes "\<forall>n\<in>set (graph_nodes g). node_status n = NPending" "graph_nodes g \<noteq> []"
    and "distinct (map node_id (graph_nodes g))" "is_acyclic (graph_nodes g) (graph_edges g)"
  shows "on_track (launch_graph g) \<and> work_left (launch_graph g) = 2 * length (graph_nodes g)"
  using refresh_ready_on_track [of "set_lifecycle_status (graph_status g) g"] assms by (simp add: launch_graph_def)

lemma new_graph_fields [simp]:
  "graph_nodes (new_graph uid now ty st rq refs nodes es) = nodes"
  "graph_edges (new_graph uid now ty st rq refs nodes es) = es"
  "graph_warnings (new_graph uid now ty st rq refs nodes es) = []"
  "graph_status (new_graph uid now ty st rq refs nodes es) = st"
  by (simp_all add: new_graph_def)

lemma planned_nodes_facts:
  "map node_id (planned_nodes report) = map pn_node_id (report_nodes report)"
  "\<forall>n\<in>set (planned_nodes report). node_status n = NPending"
  "length (planned_nodes report) = length (report_nodes report)"
  by (auto simp: planned_nodes_def cooperative_node_def spec_of_planned_def apply_planned_def split: option.splits)

lemma launch_nodes:
  "graph_nodes (launch_graph g) = [] \<longleftrightarrow> graph_nodes g = []"
  "\<forall>m\<in>set (graph_nodes g). node_status m = NPending \<Longrightarrow>
     \<forall>n\<in>set (graph_nodes (launch_graph g)). node_status n \<in> {NPending, NWaiting, NReady}"
  using move_pending(2) by (cases "is_acyclic (graph_nodes g) (graph_edges g)";
      simp add: launch_graph_def refresh_ready_nodes_nodes)+

lemma fresh_lifecycle:
  assumes "graph_nodes g \<noteq> []" and "\<forall>n\<in>set (graph_nodes g). node_status n \<in> {NPending, NWaiting, NReady}"
  shows "lifecycle_status g = GReady"
proof -
  have "hd (graph_nodes g) \<in> set (graph_nodes g)" using assms(1) by simp
  then have "\<not> list_all node_done (graph_nodes g)" using assms(2) by (force simp: list_all_iff node_done_def)
  moreover have "node_status n \<notin> {NBlocked, NFailed, NCancelled, NRunning}" if "n \<in> set (graph_nodes g)" for n
    using assms(2) that by force
  ultimately show ?thesis by (auto simp: lifecycle_status_def ids_with_def filter_empty_conv list_ex_iff)
qed

section \<open>Plans\<close>

definition known_nodes :: "resolver_state \<Rightarrow> str set" where
  "known_nodes s = set_option (last_context_node s) \<union> set_option (last_side_effect_node s) \<union>
     set_option (previous_required_node s)"

lemma known_nodes_step: "known_nodes (resolver_step step s) \<subseteq> insert (step_node_id step) (known_nodes s)"
  by (auto simp: known_nodes_def resolver_step_def)

lemma step_dependency_known: "step_dependency s step = Some (i, reason) \<Longrightarrow> i \<in> known_nodes s"
  by (auto simp: step_dependency_def known_nodes_def split: if_splits)

text \<open>An edge leads from an earlier step to a later one.\<close>

lemma resolve_from_order:
  assumes "e \<in> set (resolve_from s steps)" and "known_nodes s \<subseteq> set pre"
  shows "\<exists>xs ys. map step_node_id steps = xs @ to_node_id e # ys \<and> from_node_id e \<in> set (pre @ xs)"
  using assms
proof (induction steps arbitrary: s pre)
  case (Cons step steps)
  show ?case
  proof (cases "e \<in> set (resolve_from (resolver_step step s) steps)")
    case True
    have "known_nodes (resolver_step step s) \<subseteq> set (pre @ [step_node_id step])"
      using known_nodes_step [of step s] Cons.prems(2) by auto
    from Cons.IH [OF True this] obtain xs ys where
      "map step_node_id steps = xs @ to_node_id e # ys" "from_node_id e \<in> set ((pre @ [step_node_id step]) @ xs)" by blast
    then show ?thesis by (intro exI [of _ "step_node_id step # xs"] exI [of _ ys]) auto
  next
    case False
    then obtain i reason where "step_dependency s step = Some (i, reason)"
      using Cons.prems(1) by (cases "step_dependency s step") auto
    moreover from this have "from_node_id e = i" "to_node_id e = step_node_id step" using Cons.prems(1) False by auto
    ultimately show ?thesis using step_dependency_known Cons.prems(2)
      by (intro exI [of _ "[]"] exI [of _ "map step_node_id steps"]) auto
  qed
qed simp

lemma resolve_order:
  assumes "e \<in> set (resolve steps)"
  shows "\<exists>xs ys. map step_node_id steps = xs @ to_node_id e # ys \<and> from_node_id e \<in> set xs"
  using resolve_from_order [OF assms [unfolded resolve_def], of "[]"] by (simp add: known_nodes_def)

lemma py_index_append: "x \<notin> set xs \<Longrightarrow> py_index (xs @ x # ys) x = length xs"
  by (induction xs) (auto simp: py_index_def)

lemma py_index_before: "x \<in> set xs \<Longrightarrow> py_index (xs @ ys) x < length xs"
  by (induction xs) (auto simp: py_index_def)

lemma resolve_acyclic:
  assumes "distinct (map step_node_id steps)" and "map node_id nodes = map step_node_id steps"
  shows "is_acyclic nodes (resolve steps)"
proof -
  let ?ids = "map step_node_id steps"
  have "from_node_id e \<in> set ?ids \<and> to_node_id e \<in> set ?ids \<and> py_index ?ids (from_node_id e) < py_index ?ids (to_node_id e)"
    if e: "e \<in> set (resolve steps)" for e
  proof -
    obtain xs ys where xy: "?ids = xs @ to_node_id e # ys" "from_node_id e \<in> set xs" using resolve_order [OF e] by blast
    then have "to_node_id e \<notin> set xs" using assms(1) by auto
    then show ?thesis unfolding xy(1) using xy(2) py_index_append py_index_before by (metis in_set_conv_decomp Un_iff set_append)
  qed
  then have "{(from_node_id e, to_node_id e) | e. e \<in> set (resolve steps)} \<subseteq> measure (py_index ?ids)"
    and "\<forall>e\<in>set (resolve steps). from_node_id e \<in> set (map node_id nodes) \<and> to_node_id e \<in> set (map node_id nodes)"
    unfolding assms(2) by auto
  moreover from this(1) have "acyclic {(from_node_id e, to_node_id e) | e. e \<in> set (resolve steps)}"
    by (rule acyclic_subset [OF wf_acyclic [OF wf_measure]])
  ultimately show ?thesis unfolding is_acyclic_iff by simp
qed


lemma node_from_step_facts [simp]:
  "node_id (node_from_step u now reg ct caps step) = step_node_id step"
  "node_status (node_from_step u now reg ct caps step) = NPending"
  by (simp_all add: node_from_step_def Let_def)

lemma plan_nodes_facts:
  "map node_id (plan_nodes route_uid now reg ct caps steps) = map step_node_id steps"
  "\<forall>n\<in>set (plan_nodes route_uid now reg ct caps steps). node_status n = NPending"
  "length (plan_nodes route_uid now reg ct caps steps) = length steps"
proof -
  have "map node_id (map (\<lambda>(i, step). node_from_step (route_uid i) now reg ct caps step) (enumerate n steps)) =
      map step_node_id steps" for n
    by (induction steps arbitrary: n) simp_all
  then show "map node_id (plan_nodes route_uid now reg ct caps steps) = map step_node_id steps"
    by (simp add: plan_nodes_def)
qed (auto simp: plan_nodes_def)

lemma plan_on_track:
  assumes "distinct (map step_id (plan_steps plan))" and "plan_steps plan \<noteq> []"
  shows "on_track (build_from_plan uid route_uid now reg rq plan caps) \<and>
    work_left (build_from_plan uid route_uid now reg rq plan caps) = 2 * length (plan_steps plan)"
proof -
  let ?nodes = "plan_nodes route_uid now reg (rq_contract_type rq) caps (plan_steps plan)"
  note facts = plan_nodes_facts [of route_uid now reg "rq_contract_type rq" caps "plan_steps plan"]
  have "distinct (map step_node_id (plan_steps plan))"
    using assms(1) by (simp add: distinct_map inj_on_def step_node_id_def)
  then have d: "distinct (map node_id ?nodes)" and ac: "is_acyclic ?nodes (resolve (plan_steps plan))"
    using facts(1) resolve_acyclic by (simp_all only:)
  have "?nodes \<noteq> []" using facts(3) assms(2) by (metis length_0_conv)
  then show ?thesis
    unfolding build_from_plan_def Let_def using d ac facts(2,3)
    by (simp add: mark_ready_on_track)
qed

lemma planned_on_track:
  assumes "distinct (map pn_node_id (report_nodes report))" and "report_nodes report \<noteq> []"
    and "is_acyclic (planned_nodes report) (node_edges ''planner_dependency'' (planned_nodes report))"
  shows "on_track (build_from_planning_report uid now rq dump report) \<and>
    work_left (build_from_planning_report uid now rq dump report) = 2 * length (report_nodes report)"
proof -
  have "planned_nodes report \<noteq> []" using planned_nodes_facts(3) [of report] assms(2) by (metis length_0_conv)
  then show ?thesis
    unfolding build_from_planning_report_def Let_def
    using launch_on_track planned_nodes_facts [of report] assms(1,3) by simp
qed

section \<open>Cancelling\<close>

lemma update_first_cong:
  "(\<And>x. x \<in> set xs \<Longrightarrow> p x \<Longrightarrow> f x = g x) \<Longrightarrow> update_first p f xs = update_first p g xs"
  by (induction xs) auto

lemma update_first_by_id:
  assumes "distinct (map node_id xs)"
  shows "update_first (\<lambda>n. node_id n = i) f xs = map (\<lambda>n. if node_id n = i then f n else n) xs"
  using assms
proof (induction xs)
  case (Cons x xs)
  then show ?case
  proof (cases "node_id x = i")
    case True
    then have "map (\<lambda>n. if node_id n = i then f n else n) xs = xs"
      using Cons.prems by (intro map_idI) (auto simp: image_iff)
    then show ?thesis using True by simp
  qed simp
qed simp

lemma change_all_nodes:
  assumes "distinct (map node_id (graph_nodes g))" and "distinct is" and "\<And>n. node_id (f n) = node_id n"
  shows "graph_nodes (change_all is f g) = map (\<lambda>n. if node_id n \<in> set is then f n else n) (graph_nodes g) \<and>
    graph_edges (change_all is f g) = graph_edges g"
  using assms
proof (induction "is" arbitrary: g)
  case Nil
  then show ?case by (simp add: change_all_def)
next
  case (Cons i js)
  let ?h = "change_node (\<lambda>n. node_id n = i) f g"
  have h: "graph_nodes ?h = map (\<lambda>n. if node_id n = i then f n else n) (graph_nodes g)"
    using update_first_by_id [OF Cons.prems(1)] by simp
  have "map node_id (graph_nodes ?h) = map node_id (graph_nodes g)" unfolding h by (simp add: Cons.prems(3))
  then have "graph_nodes (change_all js f ?h) = map (\<lambda>n. if node_id n \<in> set js then f n else n) (graph_nodes ?h) \<and>
      graph_edges (change_all js f ?h) = graph_edges ?h"
    using Cons.IH [of ?h] Cons.prems by simp
  moreover have "change_all (i # js) f g = change_all js f ?h" by (simp add: change_all_def)
  ultimately show ?case using Cons.prems(2,3) unfolding h by (auto simp: comp_def)
qed

lemma downstream_node_ids_iff:
  "set (downstream_node_ids i g) = {j. (i, j) \<in> (edge_rel (edge_pairs (graph_edges g)))\<^sup>+} \<and> distinct (downstream_node_ids i g)"
  unfolding downstream_node_ids_def Let_def by (rule downstream_iff)

definition dependents :: "exec_graph \<Rightarrow> (str \<times> str) set" where
  "dependents g = {(from_node_id e, to_node_id e) | e. e \<in> set (graph_edges g)}\<^sup>+"

lemma dependents_edge_rel: "dependents g = (edge_rel (edge_pairs (graph_edges g)))\<^sup>+"
proof -
  have "{(from_node_id e, to_node_id e) | e. e \<in> set (graph_edges g)} = edge_rel (edge_pairs (graph_edges g))"
    by (auto simp: edge_rel_def edge_pairs_def)
  then show ?thesis by (simp add: dependents_def)
qed

lemma cancel_node_nodes:
  assumes d: "distinct (map node_id (graph_nodes g))" and i: "i \<in> node_id ` set (graph_nodes g)"
  shows "graph_nodes (cancel_node now i reason g) =
    map (\<lambda>n. if node_id n = i then cancel_this reason n
              else if (i, node_id n) \<in> dependents g then block_dependent i n else n) (graph_nodes g)"
proof -
  obtain n where n: "find (\<lambda>n. node_id n = i) (graph_nodes g) = Some n" using i find_unique_id [OF d] by auto
  let ?h = "change_node (\<lambda>n. node_id n = i) (cancel_this reason) g"
  have id: "node_id (cancel_this reason m) = node_id m" "node_id (block_dependent i m) = node_id m" for m
    by (simp_all add: cancel_this_def block_dependent_def)
  have h: "graph_nodes ?h = map (\<lambda>n. if node_id n = i then cancel_this reason n else n) (graph_nodes g)"
    using update_first_by_id [OF d] by simp
  have "map node_id (graph_nodes ?h) = map node_id (graph_nodes g)" unfolding h by (simp add: id)
  then have "graph_nodes (change_all (downstream_node_ids i ?h) (block_dependent i) ?h) =
      map (\<lambda>n. if (i, node_id n) \<in> dependents g then block_dependent i n else n) (graph_nodes ?h)"
    using change_all_nodes [of ?h "downstream_node_ids i ?h" "block_dependent i"] downstream_node_ids_iff [of i ?h] d id
    by (simp add: dependents_edge_rel)
  moreover have "block_dependent i (cancel_this reason m) = cancel_this reason m" for m
    by (simp add: block_dependent_def cancel_this_def)
  ultimately show ?thesis unfolding cancel_node_def Let_def n h by (auto simp: id)
qed

section \<open>Properties\<close>

text \<open>
  C16. However the nodes of a plan graph are scheduled (any ready node may start, any running node may
  finish, several run at once), as long as the steps of the plan have distinct ids and no node fails: the
  run ends after at most two events per step, and it cannot get stuck before the graph is completed. In
  particular the dependency resolver never builds a cycle.
\<close>

theorem plan_graph_completes:
  assumes "distinct (map step_id (plan_steps plan))" and "plan_steps plan \<noteq> []"
    and "(work_step elapsed ^^ k) (build_from_plan uid route_uid now reg rq plan caps) g"
  shows "k \<le> 2 * length (plan_steps plan) \<and> ((\<exists>g'. work_step elapsed g g') \<or> graph_status g = GCompleted)"
  using on_track_completes [OF _ assms(3)] plan_on_track [OF assms(1,2)] by metis

definition example_steps :: "task_run_step list" where
  "example_steps =
     [\<lparr>step_id = ''a'', step_type = ''read'', step_action = ''list_files'', step_required = True, step_side_effect = False\<rparr>,
      \<lparr>step_id = ''b'', step_type = ''write'', step_action = ''patch'', step_required = True, step_side_effect = True\<rparr>]"

definition example_graph_request :: graph_request where
  "example_graph_request = \<lparr>rq_run_id = ''run'', rq_workspace = None, rq_contract_type = None, rq_operation_type = None,
     rq_runtime_profile = None, rq_requested_actions = []\<rparr>"

theorem plan_graph_completes_witness:
  "\<exists>k g. (work_step (\<lambda>a b. None) ^^ k) (build_from_plan ''g'' (\<lambda>i. ''r'') ''t'' (load_registry [] None) example_graph_request
       \<lparr>plan_id = ''p'', plan_status = ''ready'', plan_steps = example_steps\<rparr> []) g \<and>
     k \<le> 4 \<and> graph_status g = GCompleted"
proof -
  let ?plan = "\<lparr>plan_id = ''p'', plan_status = ''ready'', plan_steps = example_steps\<rparr>"
  let ?g = "build_from_plan ''g'' (\<lambda>i. ''r'') ''t'' (load_registry [] None) example_graph_request ?plan []"
  have hyps: "distinct (map step_id (plan_steps ?plan))" "plan_steps ?plan \<noteq> []" "length (plan_steps ?plan) = 2"
    by (simp_all add: example_steps_def)
  obtain k g where run: "(work_step (\<lambda>a b. None) ^^ k) ?g g" "\<nexists>h. work_step (\<lambda>a b. None) g h"
    using on_track_maximal_run plan_on_track [OF hyps(1,2)] by blast
  show ?thesis using plan_graph_completes [OF hyps(1,2) run(1)] run hyps(3) by (intro exI [of _ k] exI [of _ g]) simp
qed

text \<open>
  C29. The cycle check accepts a graph exactly when every edge joins two of its nodes and the edges have
  no cycle.
\<close>

theorem cycle_check_exact:
  "is_acyclic nodes es \<longleftrightarrow>
     from_node_id ` set es \<union> to_node_id ` set es \<subseteq> node_id ` set nodes \<and>
     acyclic {(from_node_id e, to_node_id e) | e. e \<in> set es}"
  unfolding is_acyclic_iff by blast

text \<open>
  Cancelling a node of a graph with distinct node ids cancels that node, blocks those nodes that
  depend on it, directly or through others, and have not started, with the cancelled node as the recorded
  violation, and changes no other node.
\<close>

theorem cancel_node_exact:
  assumes "distinct (map node_id (graph_nodes g))" and "i \<in> node_id ` set (graph_nodes g)"
  shows "graph_nodes (cancel_node now i reason g) =
    map (\<lambda>n. if node_id n = i
              then n\<lparr>node_status := NCancelled, node_violations := py_unique (node_violations n @ [reason])\<rparr>
              else if (i, node_id n) \<in> dependents g \<and> node_status n \<in> {NPending, NReady, NWaiting}
              then n\<lparr>node_status := NBlocked,
                     node_violations := py_unique (node_violations n @ [''dependency_cancelled:'' @ i])\<rparr>
              else n) (graph_nodes g)"
  unfolding cancel_node_nodes [OF assms] by (rule map_cong) (auto simp: cancel_this_def block_dependent_def)

definition example_planned :: "str \<Rightarrow> str list \<Rightarrow> planner_node" where
  "example_planned i ds = \<lparr>pn_node_id = i, pn_executor = ''w'', pn_runtime_profile = ''p'', pn_objective = [],
     pn_dependencies = ds, pn_capabilities = [], pn_output_contracts = [], pn_mode = ''supervised'',
     pn_requires_review = True, pn_requires_approval = False, pn_risk_level = ''low'', pn_expected_artifacts = []\<rparr>"

definition example_planned_graph :: "str \<Rightarrow> planner_node list \<Rightarrow> exec_graph" where
  "example_planned_graph st ns = build_from_planning_report ''g'' ''t'' example_graph_request []
     \<lparr>report_id = ''r'', report_status = st, report_nodes = ns\<rparr>"

theorem cancel_node_exact_witness:
  "map node_status (graph_nodes (cancel_node ''t'' ''a'' ''stop''
     (example_planned_graph ''ready'' [example_planned ''a'' [], example_planned ''b'' [''a'']]))) = [NCancelled, NBlocked]"
proof -
  let ?g = "example_planned_graph ''ready'' [example_planned ''a'' [], example_planned ''b'' [''a'']]"
  have ids: "map (\<lambda>n. (node_id n, node_status n)) (graph_nodes ?g) = [(''a'', NReady), (''b'', NWaiting)]" by code_simp
  then have d: "distinct (map node_id (graph_nodes ?g))" and a: "''a'' \<in> node_id ` set (graph_nodes ?g)" by auto
  have "graph_edges ?g = [\<lparr>from_node_id = ''a'', to_node_id = ''b'', edge_reason = ''planner_dependency'', edge_required = True\<rparr>]"
    by code_simp
  then have "(''a'', ''b'') \<in> dependents ?g" by (auto simp: dependents_def)
  then show ?thesis unfolding cancel_node_exact [OF d a] using ids by auto
qed

text \<open>
  A graph whose planning report asks for review, or whose dependencies have a cycle, is built with
  status blocked, but the block does not survive a poll: polling recomputes the status from the nodes
  alone, so every freshly built graph with at least one node is ready after it.
\<close>

theorem poll_forgets_block:
  assumes "report_nodes report \<noteq> []"
  shows "graph_status (poll_graph now' (build_from_planning_report uid now rq dump report)) = GReady"
proof -
  let ?g = "build_from_planning_report uid now rq dump report"
  have "planned_nodes report \<noteq> []" using planned_nodes_facts(3) [of report] assms by (metis length_0_conv)
  then have "graph_nodes ?g \<noteq> []" and "\<forall>n\<in>set (graph_nodes ?g). node_status n \<in> {NPending, NWaiting, NReady}"
    unfolding build_from_planning_report_def Let_def launch_nodes(1)
    by (simp, intro launch_nodes(2)) (simp add: planned_nodes_facts(2))
  then have "lifecycle_status ?g = GReady" by (rule fresh_lifecycle)
  then show ?thesis by (simp add: poll_graph_def Let_def)
qed

theorem poll_forgets_block_witness:
  "graph_status (example_planned_graph ''requires_review'' [example_planned ''a'' [''a'']]) = GBlocked \<and>
   graph_status (poll_graph ''u'' (example_planned_graph ''requires_review'' [example_planned ''a'' [''a'']])) = GReady"
proof
  show "graph_status (example_planned_graph ''requires_review'' [example_planned ''a'' [''a'']]) = GBlocked" by code_simp
  show "graph_status (poll_graph ''u'' (example_planned_graph ''requires_review'' [example_planned ''a'' [''a'']])) = GReady"
    unfolding example_planned_graph_def by (rule poll_forgets_block) simp
qed

end
