(* ===== verification/Patch_Apply.thy ===== *)
theory Patch_Apply
  imports Approvals
begin

text \<open>
  Applying an approved patch: \<open>services/patching/apply/\<close> (guard, backup, atomic write, hunk engine, apply
  engine, post-apply validation, rollback, store and the service that runs them) with
  \<open>schemas/patching/apply/\<close>. The service is the only writer of workspace files in this part of the program.

  Workspace files are a dictionary from normalized path to the characters their bytes decode to; a file is replaced as a
  whole, as \<open>temp.replace(target)\<close> does. Digests are of what is stored, while \<open>read_text\<close> and \<open>write_text\<close> translate newlines.
  Files that are not valid UTF-8 are outside the model. What the services ask of the operating system and of code outside this
  directory is the record \<open>patch_env\<close>: the digest, the secret scanner, the static syntax validator, path
  resolution, symbolic links and directories, and the errors a write or read can raise. The quality gate
  enters through the latest result stored for a plan. Stored records are kept as they are: the store
  passes every text through the secret scanner, which is the identity on texts without secrets. Times
  are integers, as in \<open>Approvals\<close>.
\<close>

section \<open>Data\<close>

record patch_env =
  sha256 :: "str \<Rightarrow> str"
  has_secret :: "str \<Rightarrow> bool"
  static_syntax :: "str dict \<Rightarrow> bool \<times> str list"
  within_root :: "str \<Rightarrow> str \<Rightarrow> bool"
  is_symlink :: "str \<Rightarrow> bool"
  is_dir :: "str \<Rightarrow> bool"
  write_error :: "str \<Rightarrow> str option"
  hash_error :: "str \<Rightarrow> str option"
  read_error :: "str \<Rightarrow> str"
  linesep :: str
  utf8_size :: "str \<Rightarrow> nat"
  create_file_allowed :: bool

record patch_hunk =
  hunk_id :: str
  hunk_file_path :: str
  hunk_original :: str
  hunk_replacement :: str

record affected_file =
  af_path :: str
  af_normalized_path :: "str option"
  af_relative_path :: "str option"
  af_original_hash :: "str option"

text \<open>\<open>pt_diff_text\<close> is \<open>None\<close> when the plan has no diff proposal.\<close>

record patch_plan =
  pt_plan_id :: str
  pt_workspace :: str
  pt_affected_files :: "affected_file list"
  pt_hunks :: "patch_hunk list"
  pt_diff_text :: "str option"
  pt_risk_level :: str

record patch_quality =
  pq_quality_id :: str
  pq_status :: str

record hunk_apply_result =
  hr_hunk_id :: str
  hr_file_path :: str
  hr_status :: str
  hr_applied :: bool
  hr_reason :: str
  hr_before_hash :: str
  hr_after_hash :: str

record patch_backup =
  bk_backup_id :: str
  bk_apply_run_id :: str
  bk_file_path :: str
  bk_original_hash :: str
  bk_size_bytes :: nat
  bk_created_at :: int

record patch_file_result =
  fr_file_path :: str
  fr_status :: str
  fr_changed :: bool
  fr_backup_id :: "str option"
  fr_original_hash :: str
  fr_final_hash :: str
  fr_hunk_results :: "hunk_apply_result list"
  fr_warnings :: "str list"
  fr_blocked_reasons :: "str list"

record patch_guard_result =
  pg_status :: str
  pg_allowed :: bool
  pg_blocking_reasons :: "str list"
  pg_plan_id :: "str option"
  pg_quality_id :: "str option"
  pg_approval_id :: "str option"
  pg_diff_hash :: "str option"
  pg_target_files :: "str list"

record patch_request =
  px_approval_id :: "str option"
  px_operator_confirmed :: bool

record post_validation =
  po_status :: str
  po_passed :: bool
  po_final_hashes :: "str dict"
  po_checked_files :: "str list"
  po_unexpected_writes :: "str list"
  po_temp_files_remaining :: "str list"
  po_warnings :: "str list"
  po_blocking_reasons :: "str list"

record rollback_result =
  rb_status :: str
  rb_completed :: bool
  rb_restored_files :: "str list"
  rb_failed_files :: "str list"
  rb_manual_review_required :: bool

record patch_apply_result =
  rp_apply_run_id :: str
  rp_plan_id :: str
  rp_status :: str
  rp_safe_to_report_success :: bool
  rp_files :: "patch_file_result list"
  rp_post_apply_validation :: post_validation
  rp_rollback :: rollback_result
  rp_blocked_reasons :: "str list"
  rp_created_at :: int
  rp_updated_at :: int

record patch_apply_run =
  ar_apply_run_id :: str
  ar_plan_id :: str
  ar_quality_id :: str
  ar_approval_id :: str
  ar_run_status :: str
  ar_workspace :: str
  ar_operator_confirmed :: bool
  ar_diff_hash :: str
  ar_target_files :: "str list"
  ar_original_hashes :: "str dict"
  ar_backup_ids :: "str list"
  ar_guard :: patch_guard_result
  ar_result_id :: "str option"
  ar_run_created_at :: int
  ar_run_updated_at :: int
  ar_blocked_reasons :: "str list"
  ar_trace :: "str list"

text \<open>
  A stored backup is the record and the text of its file; it is found by run and backup id, which are
  the directory and the file name. \<open>pa_quality\<close> holds the latest quality result of each plan.
\<close>

record patch_world =
  pa_approvals :: approval_world
  pa_plans :: "patch_plan dict"
  pa_quality :: "patch_quality dict"
  pa_files :: "str dict"
  pa_backups :: "((str \<times> str) \<times> patch_backup \<times> str) list"
  pa_runs :: "patch_apply_run dict"
  pa_results :: "patch_apply_result dict"
  pa_events :: "event list dict"
  pa_traces :: "str list dict"

definition no_post_validation :: post_validation where
  "no_post_validation = \<lparr>po_status = ''unknown'', po_passed = False, po_final_hashes = [], po_checked_files = [],
     po_unexpected_writes = [], po_temp_files_remaining = [], po_warnings = [], po_blocking_reasons = []\<rparr>"

definition no_rollback :: rollback_result where
  "no_rollback = \<lparr>rb_status = ''not_requested'', rb_completed = False, rb_restored_files = [], rb_failed_files = [],
     rb_manual_review_required = False\<rparr>"

definition rel_path :: "affected_file \<Rightarrow> str" where
  "rel_path f = str_or (af_relative_path f) (af_path f)"

definition target_path :: "affected_file \<Rightarrow> str" where
  "target_path f = str_or (af_normalized_path f) []"

section \<open>Stores\<close>

definition is_lower_hex :: "char \<Rightarrow> bool" where
  "is_lower_hex c \<longleftrightarrow> c \<in> set ''0123456789abcdef''"

definition valid_run_id :: "str \<Rightarrow> bool" where
  "valid_run_id i \<longleftrightarrow>
     (let p = ''patch_apply_run_''; rest = drop (length p) i
      in prefix p i \<and> rest \<noteq> [] \<and> list_all is_lower_hex rest)"

definition save_run :: "patch_apply_run \<Rightarrow> patch_world \<Rightarrow> patch_world" where
  "save_run r w = w\<lparr>pa_runs := AList.update (ar_apply_run_id r) r (pa_runs w)\<rparr>"

definition save_result :: "patch_apply_result \<Rightarrow> patch_world \<Rightarrow> patch_world" where
  "save_result r w = w\<lparr>pa_results := AList.update (rp_apply_run_id r) r (pa_results w)\<rparr>"

definition patch_event :: "str \<Rightarrow> int \<Rightarrow> str \<Rightarrow> str \<Rightarrow> str \<Rightarrow> json dict \<Rightarrow> patch_world \<Rightarrow> patch_world" where
  "patch_event u now run type summary data w =
     w\<lparr>pa_events := add_event \<lparr>ev_event_id = ''patch_apply_event_'' @ u, ev_subject_id = run, ev_event_type = type,
         ev_created_at = now, ev_summary = summary, ev_data = data\<rparr> (pa_events w)\<rparr>"

definition save_trace :: "str \<Rightarrow> patch_world \<Rightarrow> patch_world" where
  "save_trace run w = w\<lparr>pa_traces := AList.update run [''patch_apply_run_created''] (pa_traces w)\<rparr>"

definition list_runs :: "str option \<Rightarrow> str option \<Rightarrow> str option \<Rightarrow> int \<Rightarrow> patch_world \<Rightarrow> patch_apply_run list" where
  "list_runs plan approval status limit w =
     take (nat (max 1 (min limit 1000)))
       (sort_key (\<lambda>r. - ar_run_created_at r)
         (filter (\<lambda>r. (\<not> opt_truthy plan \<or> Some (ar_plan_id r) = plan) \<and>
                      (\<not> opt_truthy approval \<or> Some (ar_approval_id r) = approval) \<and>
                      (\<not> opt_truthy status \<or> Some (ar_run_status r) = status)) (map snd (pa_runs w))))"

section \<open>Files and backups\<close>

definition path_exists :: "patch_env \<Rightarrow> patch_world \<Rightarrow> str \<Rightarrow> bool" where
  "path_exists env w p \<longleftrightarrow> map_of (pa_files w) p \<noteq> None \<or> is_dir env p"

text \<open>
  Text mode. Reading turns \<open>CR LF\<close> and a lone \<open>CR\<close> into \<open>LF\<close>; writing turns \<open>LF\<close> into the line separator of the
  platform (\<open>os.linesep\<close>).
\<close>

fun read_newlines :: "str \<Rightarrow> str" where
  "read_newlines [] = []"
| "read_newlines (c # cs) =
     (if c = CHR 0x0D then
        CHR 0x0A # (case cs of [] \<Rightarrow> [] | d # ds \<Rightarrow> if d = CHR 0x0A then read_newlines ds else read_newlines cs)
      else c # read_newlines cs)"

definition write_newlines :: "patch_env \<Rightarrow> str \<Rightarrow> str" where
  "write_newlines env s = concat (map (\<lambda>c. if c = CHR 0x0A then linesep env else [c]) s)"

text \<open>\<open>Path.read_bytes\<close>, of which the digest is taken, and \<open>Path.read_text\<close>.\<close>

definition read_bytes :: "patch_env \<Rightarrow> patch_world \<Rightarrow> str \<Rightarrow> str outcome" where
  "read_bytes env w p = (case map_of (pa_files w) p of Some c \<Rightarrow> Inr c | None \<Rightarrow> Inl (read_error env p))"

definition read_text :: "patch_env \<Rightarrow> patch_world \<Rightarrow> str \<Rightarrow> str outcome" where
  "read_text env w p = obind (read_bytes env w p) (\<lambda>c. Inr (read_newlines c))"

definition TEMP_SUFFIX :: str where
  "TEMP_SUFFIX = ''.aipinho_patch_tmp''"

text \<open>
  \<open>AtomicPatchWriteService.write\<close>: the temporary file is gone afterwards whether the write succeeds or
  not, so only the target can change. An error of the write leaves it as it was; an error of the digest that is read back
  leaves it replaced.
\<close>

definition atomic_write :: "patch_env \<Rightarrow> str \<Rightarrow> str \<Rightarrow> patch_world \<Rightarrow> str outcome \<times> patch_world" where
  "atomic_write env p content w =
     (if path_exists env w (p @ TEMP_SUFFIX) then (Inl ''patch_temp_file_exists'', w)
      else case write_error env p of
        Some e \<Rightarrow> (Inl e, w)
      | None \<Rightarrow>
          let stored = write_newlines env content; w' = w\<lparr>pa_files := AList.update p stored (pa_files w)\<rparr>
          in (case hash_error env p of Some e \<Rightarrow> (Inl e, w') | None \<Rightarrow> (Inr (sha256 env stored), w')))"

text \<open>The backup file holds the text as written by the platform; its size is recorded, and the digest of the original file.\<close>

definition backup_text :: "patch_env \<Rightarrow> str \<Rightarrow> str" where
  "backup_text env stored = write_newlines env (read_newlines stored)"

definition make_backup :: "patch_env \<Rightarrow> str \<Rightarrow> int \<Rightarrow> str \<Rightarrow> str \<Rightarrow> str \<Rightarrow> patch_backup" where
  "make_backup env u now p run stored =
     \<lparr>bk_backup_id = ''patch_backup_'' @ u, bk_apply_run_id = run, bk_file_path = p,
      bk_original_hash = sha256 env stored, bk_size_bytes = utf8_size env (backup_text env stored), bk_created_at = now\<rparr>"

definition create_backup :: "patch_env \<Rightarrow> str \<Rightarrow> int \<Rightarrow> str \<Rightarrow> str \<Rightarrow> patch_world \<Rightarrow> (patch_backup outcome) \<times> patch_world" where
  "create_backup env u now p run w =
     (case map_of (pa_files w) p of
        None \<Rightarrow> (Inl ''backup_target_missing'', w)
      | Some stored \<Rightarrow>
          if has_secret env (read_newlines stored) then (Inl ''backup_secret_file_blocked'', w)
          else let b = make_backup env u now p run stored
               in (Inr b, w\<lparr>pa_backups := AList.update (run, bk_backup_id b) (b, backup_text env stored) (pa_backups w)\<rparr>))"

definition get_backup :: "patch_world \<Rightarrow> str \<Rightarrow> str \<Rightarrow> (patch_backup \<times> str) option" where
  "get_backup w i run = map_of (pa_backups w) (run, i)"

definition validate_backup :: "patch_env \<Rightarrow> patch_backup \<times> str \<Rightarrow> bool" where
  "validate_backup env b = (utf8_size env (snd b) = bk_size_bytes (fst b))"

section \<open>Hunks\<close>

definition apply_hunk :: "patch_env \<Rightarrow> str \<Rightarrow> patch_hunk \<Rightarrow> str \<times> hunk_apply_result" where
  "apply_hunk env content h =
     (let res = (\<lambda>st ok reason after. \<lparr>hr_hunk_id = hunk_id h, hr_file_path = hunk_file_path h, hr_status = st,
            hr_applied = ok, hr_reason = reason, hr_before_hash = sha256 env content, hr_after_hash = after\<rparr>)
      in if hunk_original h = [] then
           (hunk_replacement h, res ''applied'' True ''new_file_content_created'' (sha256 env (hunk_replacement h)))
         else if \<not> py_in (hunk_original h) content then
           (content, res ''failed'' False ''removed_lines_or_context_mismatch'' (sha256 env content))
         else
           let updated = py_replace1 (hunk_original h) (hunk_replacement h) content
           in (updated, res ''applied'' True ''exact_context_match'' (sha256 env updated)))"

text \<open>The hunk loop of the engine, which stops at the first hunk that does not apply.\<close>

fun apply_hunks :: "patch_env \<Rightarrow> str \<Rightarrow> patch_hunk list \<Rightarrow> str \<times> hunk_apply_result list" where
  "apply_hunks env content [] = (content, [])"
| "apply_hunks env content (h # hs) =
     (let (updated, r) = apply_hunk env content h
      in if hr_applied r then (let (final, rs) = apply_hunks env updated hs in (final, r # rs))
         else (updated, [r]))"

text \<open>\<open>path.replace("\", "/").strip("/")\<close>.\<close>

definition forward_slashes :: "str \<Rightarrow> str" where
  "forward_slashes s = map (\<lambda>c. if c = CHR 0x5C then CHR ''/'' else c) s"

definition path_key :: "str \<Rightarrow> str" where
  "path_key s =
     (let slash = (\<lambda>c. c = CHR ''/'')
      in rev (dropWhile slash (rev (dropWhile slash (forward_slashes s)))))"

definition hunks_for :: "patch_plan \<Rightarrow> str \<Rightarrow> patch_hunk list" where
  "hunks_for plan rel = filter (\<lambda>h. path_key (hunk_file_path h) = path_key rel) (pt_hunks plan)"

section \<open>The apply engine\<close>

definition failed_file :: "str \<Rightarrow> str option \<Rightarrow> str \<Rightarrow> hunk_apply_result list \<Rightarrow> patch_file_result" where
  "failed_file rel backup h rs =
     \<lparr>fr_file_path = rel, fr_status = ''failed'', fr_changed = False, fr_backup_id = backup, fr_original_hash = h,
      fr_final_hash = h, fr_hunk_results = rs, fr_warnings = [], fr_blocked_reasons = [hr_reason (last rs)]\<rparr>"

definition written_file :: "str \<Rightarrow> str option \<Rightarrow> str \<Rightarrow> str \<Rightarrow> hunk_apply_result list \<Rightarrow> bool \<Rightarrow> patch_file_result" where
  "written_file rel backup h final rs existed =
     \<lparr>fr_file_path = rel, fr_status = ''completed'', fr_changed = (final \<noteq> h), fr_backup_id = backup,
      fr_original_hash = h, fr_final_hash = final, fr_hunk_results = rs,
      fr_warnings = (if existed then [] else [''created_new_file'']), fr_blocked_reasons = []\<rparr>"

text \<open>
  One round of the loop of \<open>PatchApplyEngine.apply\<close>, after the backup: hunks, write, result. The second
  component says whether the loop goes on.
\<close>

definition patch_file ::
    "patch_env \<Rightarrow> patch_plan \<Rightarrow> affected_file \<Rightarrow> bool \<Rightarrow> str option \<Rightarrow> str \<Rightarrow> str \<Rightarrow> patch_world \<Rightarrow>
       ((patch_file_result \<times> bool) outcome) \<times> patch_world" where
  "patch_file env plan f existed backup h content w =
     (let rel = rel_path f; (updated, rs) = apply_hunks env content (hunks_for plan rel)
      in if \<not> list_all hr_applied rs then (Inr (failed_file rel backup h rs, False), w)
         else case atomic_write env (target_path f) updated w of
           (Inl e, w') \<Rightarrow> (Inl e, w')
         | (Inr final, w') \<Rightarrow> (Inr (written_file rel backup h final rs existed, True), w'))"

definition apply_file ::
    "patch_env \<Rightarrow> str \<Rightarrow> int \<Rightarrow> patch_plan \<Rightarrow> str \<Rightarrow> affected_file \<Rightarrow> patch_world \<Rightarrow>
       ((patch_file_result \<times> bool) outcome) \<times> patch_world" where
  "apply_file env u now plan run f w =
     (let p = target_path f
      in if path_exists env w p then
           (case read_bytes env w p of
              Inl e \<Rightarrow> (Inl e, w)
            | Inr stored \<Rightarrow>
                (case create_backup env u now p run w of
                   (Inl e, w1) \<Rightarrow> (Inl e, w1)
                 | (Inr b, w1) \<Rightarrow>
                     (case read_text env w1 p of
                        Inl e \<Rightarrow> (Inl e, w1)
                      | Inr content \<Rightarrow> patch_file env plan f True (Some (bk_backup_id b)) (sha256 env stored) content w1)))
         else patch_file env plan f False None (sha256 env []) [] w)"

text \<open>An exception discards the results collected so far; the files already written stay written.\<close>

fun apply_files ::
    "patch_env \<Rightarrow> (nat \<Rightarrow> str) \<Rightarrow> int \<Rightarrow> patch_plan \<Rightarrow> str \<Rightarrow> affected_file list \<Rightarrow> patch_world \<Rightarrow>
       (patch_file_result list outcome) \<times> patch_world" where
  "apply_files env uid now plan run [] w = (Inr [], w)"
| "apply_files env uid now plan run (f # fs) w =
     (case apply_file env (uid 0) now plan run f w of
        (Inl e, w1) \<Rightarrow> (Inl e, w1)
      | (Inr (r, go_on), w1) \<Rightarrow>
          if \<not> go_on then (Inr [r], w1)
          else case apply_files env (\<lambda>i. uid (Suc i)) now plan run fs w1 of
            (Inl e, w2) \<Rightarrow> (Inl e, w2)
          | (Inr rs, w2) \<Rightarrow> (Inr (r # rs), w2))"

definition engine_apply ::
    "patch_env \<Rightarrow> (nat \<Rightarrow> str) \<Rightarrow> int \<Rightarrow> patch_plan \<Rightarrow> str \<Rightarrow> patch_world \<Rightarrow> (patch_file_result list outcome) \<times> patch_world" where
  "engine_apply env uid now plan run w = apply_files env uid now plan run (pt_affected_files plan) w"

text \<open>What the mutation tracker has recorded: the target of every file that was written, in order.\<close>

definition observed_writes :: "patch_plan \<Rightarrow> patch_file_result list \<Rightarrow> str list" where
  "observed_writes plan rs =
     map target_path (map fst (filter (\<lambda>(f, r). fr_status r = ''completed'') (zip (pt_affected_files plan) rs)))"

section \<open>Validation after the apply\<close>

record reconciliation =
  rc_unexpected_writes :: "str list"
  rc_temp_files :: "str list"

definition ends_with :: "str \<Rightarrow> str \<Rightarrow> bool" where
  "ends_with t s = suffix t s"

definition tracker_reconcile :: "str list \<Rightarrow> str list \<Rightarrow> reconciliation" where
  "tracker_reconcile expected observed =
     \<lparr>rc_unexpected_writes = py_sorted_set (filter (\<lambda>p. p \<notin> set expected) observed),
      rc_temp_files = filter (ends_with TEMP_SUFFIX) (py_sorted_set observed)\<rparr>"

definition target_of_rel :: "patch_plan \<Rightarrow> str \<Rightarrow> str option" where
  "target_of_rel plan rel =
     map_option target_path
       (find (\<lambda>f. af_relative_path f = Some rel \<or> af_path f = rel) (pt_affected_files plan))"

definition is_create_file_result :: "patch_plan \<Rightarrow> patch_file_result \<Rightarrow> bool" where
  "is_create_file_result plan r \<longleftrightarrow>
     (let rel = forward_slashes (fr_file_path r);
          hunks = filter (\<lambda>h. forward_slashes (hunk_file_path h) = rel) (pt_hunks plan)
      in (case find (\<lambda>f. forward_slashes (rel_path f) = rel) (pt_affected_files plan) of
            Some f \<Rightarrow> \<not> opt_truthy (af_original_hash f) | None \<Rightarrow> True) \<and>
         hunks \<noteq> [] \<and> list_all (\<lambda>h. hunk_original h = []) hunks \<and> ''created_new_file'' \<in> set (fr_warnings r))"

record post_state =
  pc_blocking :: "str list"
  pc_final_hashes :: "str dict"
  pc_proposed :: "str dict"
  pc_checked :: "str list"

definition post_check_file :: "patch_env \<Rightarrow> patch_plan \<Rightarrow> str \<Rightarrow> patch_world \<Rightarrow> patch_file_result \<Rightarrow> post_state \<Rightarrow> post_state outcome" where
  "post_check_file env plan run w r s =
     (let rel = fr_file_path r; missing = Inr (s\<lparr>pc_blocking := pc_blocking s @ [''target_missing_after_apply:'' @ rel]\<rparr>)
      in case target_of_rel plan rel of
           None \<Rightarrow> missing
         | Some p \<Rightarrow>
             if \<not> path_exists env w p then missing
             else obind (read_bytes env w p) (\<lambda>stored.
               let h = sha256 env stored
               in Inr (s\<lparr>pc_checked := pc_checked s @ [rel],
                        pc_final_hashes := AList.update rel h (pc_final_hashes s),
                        pc_proposed := AList.update rel (read_newlines stored) (pc_proposed s),
                        pc_blocking := pc_blocking s @
                          (if fr_final_hash r \<noteq> [] \<and> h \<noteq> fr_final_hash r then [''final_hash_mismatch:'' @ rel] else []) @
                          (if opt_truthy (fr_backup_id r) then
                             (case get_backup w (the (fr_backup_id r)) run of
                                None \<Rightarrow> [''backup_missing_or_invalid:'' @ rel]
                              | Some b \<Rightarrow> if validate_backup env b then [] else [''backup_missing_or_invalid:'' @ rel])
                           else if is_create_file_result plan r then [] else [''backup_missing:'' @ rel]) @
                          (if list_all hr_applied (fr_hunk_results r) then [] else [''hunk_not_applied:'' @ rel])\<rparr>)))"

definition post_validate :: "patch_env \<Rightarrow> patch_plan \<Rightarrow> str \<Rightarrow> patch_file_result list \<Rightarrow> patch_world \<Rightarrow> post_validation outcome" where
  "post_validate env plan run results w =
     obind (ofold (post_check_file env plan run w) results
              \<lparr>pc_blocking = [], pc_final_hashes = [], pc_proposed = [], pc_checked = []\<rparr>) (\<lambda>s.
       let rc = tracker_reconcile (map target_path (pt_affected_files plan)) (observed_writes plan results);
           (valid, syntax_warnings) = static_syntax env (pc_proposed s);
           blocking = pc_blocking s @ rc_unexpected_writes rc @
             map (\<lambda>p. ''temp_leftover:'' @ p) (rc_temp_files rc) @
             (if valid then [] else [''static_syntax_validation_failed'']);
           passed = (blocking = [] \<and> list_all (\<lambda>r. fr_status r = ''completed'') results)
       in Inr \<lparr>po_status = (if passed then ''passed'' else ''failed''), po_passed = passed,
               po_final_hashes = pc_final_hashes s, po_checked_files = pc_checked s,
               po_unexpected_writes = rc_unexpected_writes rc, po_temp_files_remaining = rc_temp_files rc,
               po_warnings = syntax_warnings, po_blocking_reasons = py_unique blocking\<rparr>)"

section \<open>Rollback\<close>

fun restore_all ::
    "patch_env \<Rightarrow> str \<Rightarrow> str list \<Rightarrow> str list \<Rightarrow> str list \<Rightarrow> patch_world \<Rightarrow> (str list \<times> str list) \<times> patch_world" where
  "restore_all env run [] restored failed w = ((restored, failed), w)"
| "restore_all env run (i # is) restored failed w =
     (case get_backup w i run of
        None \<Rightarrow> restore_all env run is restored (failed @ [i]) w
      | Some (b, content) \<Rightarrow>
          (case atomic_write env (bk_file_path b) (read_newlines content) w of
             (Inr _, w') \<Rightarrow> restore_all env run is (restored @ [bk_file_path b]) failed w'
           | (Inl _, w') \<Rightarrow> restore_all env run is restored (failed @ [bk_file_path b]) w'))"

definition rollback_of :: "str list \<Rightarrow> str list \<Rightarrow> rollback_result" where
  "rollback_of restored failed =
     \<lparr>rb_status = (if failed = [] then ''rolled_back'' else ''rollback_failed''), rb_completed = (failed = []),
      rb_restored_files = restored, rb_failed_files = failed, rb_manual_review_required = (failed \<noteq> [])\<rparr>"

definition rolled_back_result :: "rollback_result \<Rightarrow> patch_apply_result \<Rightarrow> patch_apply_result" where
  "rolled_back_result rb r =
     r\<lparr>rp_rollback := rb, rp_status := (if rb_completed rb then ''failed_with_rollback'' else ''rollback_failed''),
       rp_safe_to_report_success := False\<rparr>"

text \<open>\<open>PatchRollbackService.rollback\<close>: the rollback, the result as changed, and the run as changed, both saved.\<close>

definition roll_back ::
    "patch_env \<Rightarrow> patch_apply_run \<Rightarrow> patch_apply_result option \<Rightarrow> patch_world \<Rightarrow>
       rollback_result \<times> patch_apply_result option \<times> patch_world" where
  "roll_back env run result w =
     (let ((restored, failed), w1) = restore_all env (ar_apply_run_id run) (ar_backup_ids run) [] [] w;
          rb = rollback_of restored failed;
          result' = map_option (rolled_back_result rb) result;
          w2 = (case result' of None \<Rightarrow> w1 | Some r \<Rightarrow> save_result r w1);
          w3 = save_run (run\<lparr>ar_run_status := rb_status rb\<rparr>) w2
      in (rb, result', w3))"

section \<open>Life cycle\<close>

definition PATCH_TERMINAL :: "str list" where
  "PATCH_TERMINAL = [''completed'', ''failed'', ''blocked'', ''cancelled'', ''rolled_back'', ''failed_with_rollback'', ''rollback_failed'']"

definition can_execute :: "str \<Rightarrow> bool" where
  "can_execute status \<longleftrightarrow> status = ''ready_to_execute''"

definition can_cancel :: "str \<Rightarrow> bool" where
  "can_cancel status \<longleftrightarrow> status \<notin> set PATCH_TERMINAL \<and> status \<noteq> ''running''"

definition can_rollback :: "str \<Rightarrow> bool" where
  "can_rollback status \<longleftrightarrow> status \<in> set [''completed'', ''failed'', ''failed_with_rollback'']"

section \<open>The guard\<close>

definition SECRET_SUFFIXES :: "str list" where
  "SECRET_SUFFIXES = [''.env'', ''.pem'', ''.key'', ''.pfx'', ''.sqlite'', ''.db'', ''.bin'', ''.exe'', ''.dll'']"

text \<open>\<open>Path(p).name\<close> and \<open>Path(p).suffix\<close>: the part of the name from its last dot, unless the dot is first or last.\<close>

definition path_name :: "str \<Rightarrow> str" where
  "path_name p = (case rev (path_parts p) of [] \<Rightarrow> [] | n # _ \<Rightarrow> n)"

definition path_suffix :: "str \<Rightarrow> str" where
  "path_suffix p =
     (let n = path_name p; ext = rev (takeWhile (\<lambda>c. c \<noteq> CHR ''.'') (rev n))
      in if CHR ''.'' \<notin> set n \<or> ext = [] \<or> length n = length ext + 1 then [] else CHR ''.'' # ext)"

definition is_secret_target :: "str \<Rightarrow> bool" where
  "is_secret_target p \<longleftrightarrow> ascii_fold (path_suffix p) \<in> set SECRET_SUFFIXES \<or> ascii_fold (path_name p) = ''.env''"

definition guard_expired :: "int \<Rightarrow> int option \<Rightarrow> bool" where
  "guard_expired now expires_at = (case expires_at of None \<Rightarrow> True | Some t \<Rightarrow> t < now)"

definition is_create_file_plan :: "patch_plan \<Rightarrow> str \<Rightarrow> bool" where
  "is_create_file_plan plan rel \<longleftrightarrow>
     (let n = forward_slashes rel; hunks = filter (\<lambda>h. forward_slashes (hunk_file_path h) = n) (pt_hunks plan)
      in \<not> list_ex (\<lambda>f. forward_slashes (rel_path f) = n \<and> opt_truthy (af_original_hash f)) (pt_affected_files plan) \<and>
         hunks \<noteq> [] \<and> list_all (\<lambda>h. hunk_original h = []) hunks)"

definition diff_hash_of :: "patch_env \<Rightarrow> patch_plan option \<Rightarrow> str option" where
  "diff_hash_of env plan = (case plan of None \<Rightarrow> None | Some p \<Rightarrow> map_option (sha256 env) (pt_diff_text p))"

definition target_files_of :: "patch_plan option \<Rightarrow> str list" where
  "target_files_of plan = (case plan of None \<Rightarrow> [] | Some p \<Rightarrow> map rel_path (pt_affected_files p))"

definition guard_plan :: "patch_plan option \<Rightarrow> str list" where
  "guard_plan plan =
     (case plan of
        None \<Rightarrow> [''patch_plan_not_found'']
      | Some p \<Rightarrow> if opt_truthy (pt_diff_text p) then [] else [''patch_diff_not_found''])"

definition guard_quality :: "patch_quality option \<Rightarrow> str list" where
  "guard_quality quality =
     (case quality of
        None \<Rightarrow> [''patch_quality_missing'']
      | Some q \<Rightarrow> if pq_status q = ''passed'' then [] else [''patch_quality_not_passed:'' @ pq_status q])"

definition guard_static :: "patch_plan option \<Rightarrow> patch_quality option \<Rightarrow> patch_request \<Rightarrow> str list" where
  "guard_static plan quality request =
     guard_plan plan @ guard_quality quality @
     (if px_operator_confirmed request then [] else [''operator_confirmation_required''])"

text \<open>
  \<open>sorted(x or [])\<close> of a JSON value, compared with a sorted list of texts: \<open>Some\<close> a list of texts, \<open>None\<close>
  a list that is not one, and an error where Python cannot iterate or compare. Nested lists count as not
  comparable.
\<close>

definition is_text :: "json \<Rightarrow> bool" where
  "is_text v = (case v of JStr _ \<Rightarrow> True | _ \<Rightarrow> False)"

definition is_number :: "json \<Rightarrow> bool" where
  "is_number v = (case v of JInt _ \<Rightarrow> True | JFloat _ _ \<Rightarrow> True | JBool _ \<Rightarrow> True | _ \<Rightarrow> False)"

definition sorted_texts :: "json \<Rightarrow> str list option outcome" where
  "sorted_texts v =
     (case v of
        JList xs \<Rightarrow>
          if list_all is_text xs then Inr (Some (sort (map (\<lambda>x. case x of JStr s \<Rightarrow> s | _ \<Rightarrow> []) xs)))
          else if list_all is_number xs \<or> length xs = 1 then Inr None
          else Inl ''not_comparable''
      | JStr s \<Rightarrow> Inr (Some (sort (map (\<lambda>c. [c]) s)))
      | JObj kvs \<Rightarrow> Inr (Some (sort (map fst kvs)))
      | _ \<Rightarrow> if json_truthy v then Inl ''not_iterable'' else Inr (Some []))"

text \<open>The checks on an approved approval.\<close>

definition guard_binding :: "patch_env \<Rightarrow> int \<Rightarrow> patch_plan option \<Rightarrow> approval_request \<Rightarrow> str list outcome" where
  "guard_binding env now plan a =
     (let versions = ps_config_versions (aq_policy_snapshot a); h = diff_hash_of env plan
      in obind (sorted_texts (json_get ''target_files'' versions)) (\<lambda>targets. Inr (
           (if aq_approval_scope a \<noteq> ''patch_apply'' then [''approval_scope_mismatch''] else []) @
           (if Some (aq_preview_id a) \<noteq> map_option pt_plan_id plan then [''approval_plan_id_mismatch''] else []) @
           (if guard_expired now (aq_expires_at a) then [''approval_expired''] else []) @
           (if opt_truthy h \<and> json_get ''diff_hash'' versions \<noteq> JStr (the h) then [''diff_hash_mismatch''] else []) @
           (if targets \<noteq> Some (sort (target_files_of plan)) then [''target_files_mismatch''] else []))))"

definition guard_approval ::
    "patch_env \<Rightarrow> str \<Rightarrow> int \<Rightarrow> patch_plan option \<Rightarrow> patch_request \<Rightarrow> approval_world \<Rightarrow> str list outcome \<times> approval_world" where
  "guard_approval env u now plan request w =
     (if \<not> opt_truthy (px_approval_id request) then (Inr [''approval_required''], w)
      else case get_approval u now (the (px_approval_id request)) w of
        (None, w') \<Rightarrow> (Inr [''approval_not_found''], w')
      | (Some a, w') \<Rightarrow>
          (if aq_status a \<noteq> ''approved'' then (Inr [''approval_not_approved:'' @ aq_status a], w')
           else (guard_binding env now plan a, w')))"

definition guard_path :: "patch_env \<Rightarrow> patch_world \<Rightarrow> patch_plan \<Rightarrow> affected_file \<Rightarrow> str list" where
  "guard_path env w plan f =
     (let rel = rel_path f; p = target_path f
      in (if within_root env p (pt_workspace plan) then [] else [''target_outside_workspace:'' @ rel]) @
         (if ''..'' \<in> set (path_split [] (forward_slashes rel)) then [''path_traversal:'' @ rel] else []) @
         (if is_symlink env p then [''target_symlink:'' @ rel] else []) @
         (if map_of (pa_files w) p = None \<and> \<not> (create_file_allowed env \<and> is_create_file_plan plan rel)
          then [''target_file_missing:'' @ rel] else []) @
         (if is_secret_target p then [''target_secret_or_binary:'' @ rel] else []))"

text \<open>One round of the loop over the target files; hashing a directory raises.\<close>

definition guard_file :: "patch_env \<Rightarrow> patch_world \<Rightarrow> patch_plan \<Rightarrow> affected_file \<Rightarrow> str list \<Rightarrow> str list outcome" where
  "guard_file env w plan f blocking =
     (let rel = rel_path f; p = target_path f; before = blocking @ guard_path env w plan f
      in if p = [] then Inr (blocking @ [''target_missing_normalized_path:'' @ rel])
         else if opt_truthy (af_original_hash f) \<and> path_exists env w p then
           obind (read_bytes env w p) (\<lambda>c.
             Inr (before @ (if Some (sha256 env c) \<noteq> af_original_hash f then [''stale_snapshot:'' @ rel] else [])))
         else Inr before)"

definition guard_result ::
    "patch_env \<Rightarrow> patch_plan option \<Rightarrow> patch_quality option \<Rightarrow> patch_request \<Rightarrow> str list \<Rightarrow> patch_guard_result" where
  "guard_result env plan quality request blocking =
     \<lparr>pg_status = (if blocking = [] then ''allowed'' else ''blocked''), pg_allowed = (blocking = []),
      pg_blocking_reasons = py_unique blocking, pg_plan_id = map_option pt_plan_id plan,
      pg_quality_id = map_option pq_quality_id quality, pg_approval_id = px_approval_id request,
      pg_diff_hash = diff_hash_of env plan, pg_target_files = target_files_of plan\<rparr>"

definition guard_validate ::
    "patch_env \<Rightarrow> str \<Rightarrow> int \<Rightarrow> patch_plan option \<Rightarrow> patch_quality option \<Rightarrow> patch_request \<Rightarrow> patch_world \<Rightarrow>
       patch_guard_result outcome \<times> patch_world" where
  "guard_validate env u now plan quality request w =
     (case guard_approval env u now plan request (pa_approvals w) of (approval_reasons, aw) \<Rightarrow>
        (obind approval_reasons (\<lambda>reasons.
           let before = guard_static plan quality request @ reasons
           in obind (case plan of None \<Rightarrow> Inr before | Some p \<Rightarrow> ofold (guard_file env w p) (pt_affected_files p) before)
                (\<lambda>blocking. Inr (guard_result env plan quality request blocking))),
         w\<lparr>pa_approvals := aw\<rparr>))"

section \<open>Asking for approval\<close>

text \<open>\<open>gate\<close> is the quality gate, run when no result is stored for the plan; it stores its result.\<close>

definition quality_for_request :: "(patch_plan \<Rightarrow> patch_quality) \<Rightarrow> str \<Rightarrow> patch_plan \<Rightarrow> patch_world \<Rightarrow> patch_quality \<times> patch_world" where
  "quality_for_request gate i plan w =
     (case map_of (pa_quality w) i of
        Some q \<Rightarrow> (q, w)
      | None \<Rightarrow> (gate plan, w\<lparr>pa_quality := AList.update i (gate plan) (pa_quality w)\<rparr>))"

definition patch_policy_snapshot :: "patch_plan \<Rightarrow> patch_quality \<Rightarrow> str \<Rightarrow> policy_snapshot" where
  "patch_policy_snapshot plan q h =
     \<lparr>ps_policy_decision_id = None, ps_policy_status = ''needs_approval'', ps_allowed_actions = [''patch_apply''],
      ps_denied_actions = [''shell'', ''git_apply'', ''direct_diff_apply'', ''payload_patch_apply''],
      ps_approval_required_for = [''patch_apply''], ps_granted_capabilities = [''write_workspace''],
      ps_denied_capabilities = [''shell'', ''git'', ''memory_write'', ''rag''], ps_workspace_status = ''allowed'',
      ps_risk_level = pt_risk_level plan, ps_trace_hash = h,
      ps_config_versions =
        [(''patch_apply_approval_policy'', JInt 1), (''plan_id'', JStr (pt_plan_id plan)),
         (''quality_id'', JStr (pq_quality_id q)), (''diff_hash'', JStr h),
         (''target_files'', jstrs (map rel_path (pt_affected_files plan))),
         (''original_hashes'', JObj (fold (\<lambda>f. AList.update (rel_path f) (JStr (str_or (af_original_hash f) [])))
            (pt_affected_files plan) []))]\<rparr>"

definition patch_approval :: "str \<Rightarrow> int \<Rightarrow> patch_plan \<Rightarrow> patch_quality \<Rightarrow> str \<Rightarrow> actor option \<Rightarrow> str \<Rightarrow> approval_request" where
  "patch_approval u now plan q h who reason =
     \<lparr>aq_approval_id = ''approval_'' @ u, aq_preview_id = pt_plan_id plan, aq_draft_id = pt_plan_id plan,
      aq_run_id = None, aq_task_id = None, aq_session_id = None, aq_agent_id = ''aipinho'', aq_workspace_id = None,
      aq_workspace_path = None, aq_operation_type = ''unknown'', aq_contract_type = ''unknown'', aq_runtime_profile = None,
      aq_target_paths = [], aq_commands = [], aq_expected_outcomes = [], aq_executable_plan_ref = None,
      aq_execution_id = None, aq_execution_plan_snapshot = [], aq_preview_hash = None, aq_policy_snapshot_hash = None,
      aq_resume_status = None, aq_block_reason_code = None, aq_preview = [], aq_policy_refs = [],
      aq_allowed_by_policy = True, aq_forbidden_operations = [], aq_status = ''pending'',
      aq_actions_requested = [''patch_apply''], aq_approval_scope = ''patch_apply'',
      aq_reason = (if reason \<noteq> [] then reason
        else ''PatchApply approval requested after Patch Quality Gate passed. Approval does not apply.''),
      aq_risk_level = pt_risk_level plan, aq_policy_snapshot = patch_policy_snapshot plan q h,
      aq_expires_at = Some (now + 60 * 60000000), aq_created_at = now, aq_updated_at = now,
      aq_created_by = (case who of Some a \<Rightarrow> a | None \<Rightarrow> \<lparr>ac_type = ''system'', ac_id = ''patch_apply_approval_bridge''\<rparr>),
      aq_approval_origin = None, aq_approval_signature = None, aq_approval_authority = ''AIpinho'',
      aq_trace = [JObj [(''stage'', JStr ''patch_apply_approval_bridge''), (''decision'', JStr ''pending''),
        (''reason'', JStr ''approval_created_without_apply'')]],
      aq_execution_status = ''not_executed''\<rparr>"

definition request_patch_approval ::
    "patch_env \<Rightarrow> (patch_plan \<Rightarrow> patch_quality) \<Rightarrow> (nat \<Rightarrow> str) \<Rightarrow> int \<Rightarrow> str \<Rightarrow> actor option \<Rightarrow> str \<Rightarrow> patch_world \<Rightarrow>
       approval_request outcome \<times> patch_world" where
  "request_patch_approval env gate uid now i who reason w =
     (case map_of (pa_plans w) i of
        None \<Rightarrow> (Inl ''patch_plan_not_found'', w)
      | Some plan \<Rightarrow>
          (let (q, w1) = quality_for_request gate i plan w
           in if pq_status q \<noteq> ''passed'' then (Inl ''patch_quality_not_passed'', w1)
              else if \<not> opt_truthy (pt_diff_text plan) then (Inl ''patch_diff_not_found'', w1)
              else
                let h = sha256 env (the (pt_diff_text plan)); a = patch_approval (uid 0) now plan q h who reason
                in (Inr a, w1\<lparr>pa_approvals :=
                      append_event (uid 1) now (aq_approval_id a) ''approval_created''
                        ''Patch apply approval created; no patch was applied.''
                        [(''plan_id'', JStr i), (''quality_id'', JStr (pq_quality_id q)), (''diff_hash'', JStr h)]
                        (save_approval a (pa_approvals w1))\<rparr>)))"

section \<open>The service\<close>

definition latest_quality :: "patch_world \<Rightarrow> str \<Rightarrow> patch_quality option" where
  "latest_quality w i = (case map_of (pa_plans w) i of None \<Rightarrow> None | Some _ \<Rightarrow> map_of (pa_quality w) i)"

definition new_run :: "patch_env \<Rightarrow> str \<Rightarrow> int \<Rightarrow> str \<Rightarrow> patch_request \<Rightarrow> patch_guard_result \<Rightarrow> patch_world \<Rightarrow> patch_apply_run" where
  "new_run env u now i request guard w =
     (let plan = map_of (pa_plans w) i
      in \<lparr>ar_apply_run_id = ''patch_apply_run_'' @ u, ar_plan_id = i,
          ar_quality_id = (case latest_quality w i of Some q \<Rightarrow> pq_quality_id q | None \<Rightarrow> []),
          ar_approval_id = str_or (px_approval_id request) [],
          ar_run_status = (if pg_allowed guard then ''ready_to_execute'' else ''blocked''),
          ar_workspace = (case plan of Some p \<Rightarrow> pt_workspace p | None \<Rightarrow> []),
          ar_operator_confirmed = px_operator_confirmed request, ar_diff_hash = str_or (pg_diff_hash guard) [],
          ar_target_files = pg_target_files guard,
          ar_original_hashes = (case plan of
             Some p \<Rightarrow> fold (\<lambda>f. AList.update (rel_path f) (str_or (af_original_hash f) [])) (pt_affected_files p) []
           | None \<Rightarrow> []),
          ar_backup_ids = [], ar_guard = guard, ar_result_id = None, ar_run_created_at = now, ar_run_updated_at = now,
          ar_blocked_reasons = pg_blocking_reasons guard, ar_trace = [''patch_apply_run_created_without_execution'']\<rparr>)"

definition create_run_from_plan ::
    "patch_env \<Rightarrow> (nat \<Rightarrow> str) \<Rightarrow> int \<Rightarrow> str \<Rightarrow> patch_request \<Rightarrow> patch_world \<Rightarrow> patch_apply_run outcome \<times> patch_world" where
  "create_run_from_plan env uid now i request w =
     (case guard_validate env (uid 0) now (map_of (pa_plans w) i) (latest_quality w i) request w of
        (Inl e, w1) \<Rightarrow> (Inl e, w1)
      | (Inr guard, w1) \<Rightarrow>
          (let run = new_run env (uid 1) now i request guard w1; rid = ar_apply_run_id run
           in if \<not> valid_run_id rid then (Inl ''invalid_patch_apply_run_id'', w1)
              else (Inr run, save_trace rid
                (patch_event (uid 2) now rid ''apply_run_created''
                   (''PatchApplyRun created with status '' @ ar_run_status run @ ''.'')
                   [(''plan_id'', JStr i), (''applied'', JBool False)] (save_run run w1)))))"

definition new_result :: "int \<Rightarrow> patch_apply_run \<Rightarrow> str \<Rightarrow> bool \<Rightarrow> patch_file_result list \<Rightarrow> post_validation \<Rightarrow> str list \<Rightarrow> patch_apply_result" where
  "new_result now run status safe files post reasons =
     \<lparr>rp_apply_run_id = ar_apply_run_id run, rp_plan_id = ar_plan_id run, rp_status = status,
      rp_safe_to_report_success = safe, rp_files = files, rp_post_apply_validation = post, rp_rollback = no_rollback,
      rp_blocked_reasons = reasons, rp_created_at = now, rp_updated_at = now\<rparr>"

definition blocked_result :: "str \<Rightarrow> int \<Rightarrow> patch_apply_run \<Rightarrow> str list \<Rightarrow> patch_world \<Rightarrow> patch_apply_result \<times> patch_world" where
  "blocked_result u now run reasons w =
     (let r = new_result now run ''blocked'' False [] no_post_validation (py_unique reasons)
      in (r, patch_event u now (ar_apply_run_id run) ''apply_blocked'' ''Patch apply blocked by guard.''
            [(''reasons'', jstrs reasons)] (save_result r w)))"

text \<open>The \<open>except\<close> branch: the files of the result are those collected before the exception.\<close>

definition fail_run ::
    "patch_env \<Rightarrow> int \<Rightarrow> patch_apply_run \<Rightarrow> patch_file_result list \<Rightarrow> str \<Rightarrow> patch_world \<Rightarrow> patch_apply_result \<times> patch_world" where
  "fail_run env now run files e w =
     (let r = new_result now run ''failed'' False files no_post_validation [e]
      in case roll_back env run (Some r) w of (rb, _, w') \<Rightarrow>
           (let r' = rolled_back_result rb r in (r', save_result r' w')))"

text \<open>The \<open>try\<close> block once the engine has returned.\<close>

definition finish_run ::
    "patch_env \<Rightarrow> str \<Rightarrow> int \<Rightarrow> patch_plan \<Rightarrow> patch_apply_run \<Rightarrow> patch_file_result list \<Rightarrow> patch_world \<Rightarrow>
       patch_apply_result \<times> patch_world" where
  "finish_run env u now plan run0 files w =
     (let run = run0\<lparr>ar_backup_ids := map the (filter opt_truthy (map fr_backup_id files))\<rparr>
      in case post_validate env plan (ar_apply_run_id run) files w of
           Inl e \<Rightarrow> fail_run env now run files e w
         | Inr post \<Rightarrow>
             (let r = new_result now run (if po_passed post then ''completed'' else ''failed'') (po_passed post) files post []
              in if \<not> po_passed post then
                   (case roll_back env run (Some r) w of (rb, _, w') \<Rightarrow> (rolled_back_result rb r, w'))
                 else
                   (let run' = run\<lparr>ar_run_status := ''completed'', ar_result_id := Some (ar_apply_run_id run), ar_run_updated_at := now\<rparr>
                    in (r, save_result r (patch_event u now (ar_apply_run_id run) ''post_validation_passed''
                          ''Post-apply validation passed.'' [] (save_run run' w))))))"

definition start_run :: "str \<Rightarrow> int \<Rightarrow> patch_apply_run \<Rightarrow> patch_world \<Rightarrow> patch_apply_run \<times> patch_world" where
  "start_run u now run w =
     (let run1 = run\<lparr>ar_run_status := ''running'', ar_run_updated_at := now\<rparr>
      in (run1, patch_event u now (ar_apply_run_id run) ''apply_started''
            ''Patch apply started through explicit execute endpoint.'' [] (save_run run1 w)))"

definition run_patch ::
    "patch_env \<Rightarrow> (nat \<Rightarrow> str) \<Rightarrow> int \<Rightarrow> patch_plan \<Rightarrow> patch_apply_run \<Rightarrow> patch_world \<Rightarrow> patch_apply_result \<times> patch_world" where
  "run_patch env uid now plan run w =
     (let (run1, w1) = start_run (uid 1) now run w
      in case engine_apply env (\<lambda>i. uid (i + 3)) now plan (ar_apply_run_id run) w1 of
           (Inl e, w2) \<Rightarrow> fail_run env now run1 [] e w2
         | (Inr files, w2) \<Rightarrow> finish_run env (uid 2) now plan run1 files w2)"

definition execute ::
    "patch_env \<Rightarrow> (nat \<Rightarrow> str) \<Rightarrow> int \<Rightarrow> str \<Rightarrow> patch_world \<Rightarrow> patch_apply_result option outcome \<times> patch_world" where
  "execute env uid now i w =
     (if \<not> valid_run_id i then (Inl ''invalid_patch_apply_run_id'', w)
      else case map_of (pa_runs w) i of
        None \<Rightarrow> (Inr None, w)
      | Some run \<Rightarrow>
          (case map_of (pa_results w) i of
             Some r \<Rightarrow> (Inr (Some r), w)
           | None \<Rightarrow>
               if \<not> can_execute (ar_run_status run) then
                 (let (r, w') = blocked_result (uid 0) now run [''run_not_ready:'' @ ar_run_status run] w in (Inr (Some r), w'))
               else
                 (let plan = map_of (pa_plans w) (ar_plan_id run);
                      request = \<lparr>px_approval_id = Some (ar_approval_id run), px_operator_confirmed = ar_operator_confirmed run\<rparr>
                  in case guard_validate env (uid 0) now plan (latest_quality w (ar_plan_id run)) request w of
                       (Inl e, w1) \<Rightarrow> (Inl e, w1)
                     | (Inr guard, w1) \<Rightarrow>
                         (let run1 = run\<lparr>ar_guard := guard\<rparr>
                          in case (pg_allowed guard, plan) of
                               (True, Some p) \<Rightarrow> (let (r, w') = run_patch env uid now p run1 w1 in (Inr (Some r), w'))
                             | _ \<Rightarrow>
                                 (let run2 = run1\<lparr>ar_run_status := ''blocked'',
                                               ar_blocked_reasons := pg_blocking_reasons guard, ar_run_updated_at := now\<rparr>;
                                      (r, w') = blocked_result (uid 1) now run2 (pg_blocking_reasons guard) (save_run run2 w1)
                                  in (Inr (Some r), w'))))))"

definition cancel_run :: "str \<Rightarrow> int \<Rightarrow> str \<Rightarrow> patch_world \<Rightarrow> patch_apply_run option outcome \<times> patch_world" where
  "cancel_run u now i w =
     (if \<not> valid_run_id i then (Inl ''invalid_patch_apply_run_id'', w)
      else case map_of (pa_runs w) i of
        None \<Rightarrow> (Inr None, w)
      | Some run \<Rightarrow>
          if can_cancel (ar_run_status run) then
            (let run' = run\<lparr>ar_run_status := ''cancelled'', ar_run_updated_at := now\<rparr>
             in (Inr (Some run'), patch_event u now i ''apply_cancelled'' ''PatchApplyRun cancelled before execution.'' []
                   (save_run run' w)))
          else (Inr (Some run), w))"

definition rollback_run :: "patch_env \<Rightarrow> str \<Rightarrow> patch_world \<Rightarrow> rollback_result option outcome \<times> patch_world" where
  "rollback_run env i w =
     (if \<not> valid_run_id i then (Inl ''invalid_patch_apply_run_id'', w)
      else case map_of (pa_runs w) i of
        None \<Rightarrow> (Inr None, w)
      | Some run \<Rightarrow>
          (case roll_back env run (map_of (pa_results w) i) w of (rb, _, w') \<Rightarrow> (Inr (Some rb), w')))"

definition is_success :: "patch_apply_result \<Rightarrow> bool" where
  "is_success r \<longleftrightarrow> rp_status r = ''completed'' \<and> po_passed (rp_post_apply_validation r) \<and> rp_safe_to_report_success r"

end
