(* ===== verification/Patch_Safety.thy ===== *)
theory Patch_Safety
  imports Patch_Apply
begin

text \<open>
  What holds of applying patches: files change only under a valid approval and only at the approved
  targets, a completed run leaves exactly the patched texts, a failed validation is rolled back to the
  texts from before up to newlines, and an error inside the engine is not.
\<close>

section \<open>One file\<close>

abbreviation file_at :: "patch_world \<Rightarrow> str \<Rightarrow> str option" where
  "file_at w p \<equiv> map_of (pa_files w) p"

definition patched_text :: "patch_env \<Rightarrow> patch_plan \<Rightarrow> affected_file \<Rightarrow> str option \<Rightarrow> str" where
  "patched_text env plan f old =
     write_newlines env
       (fst (apply_hunks env (case old of Some c \<Rightarrow> read_newlines c | None \<Rightarrow> []) (hunks_for plan (rel_path f))))"

text \<open>
  What is written in text mode is read back, on a platform that separates lines by \<open>LF\<close> or \<open>CR LF\<close>, if it has no
  carriage return; what is read has none.
\<close>

abbreviation LF :: char where
  "LF \<equiv> CHR 0x0A"

abbreviation CR :: char where
  "CR \<equiv> CHR 0x0D"

lemma read_newlines_no_CR: "CR \<notin> set (read_newlines s)"
  by (induction s rule: read_newlines.induct) (auto split: list.splits)

lemma read_newlines_id: "CR \<notin> set s \<Longrightarrow> read_newlines s = s"
  by (induction s rule: read_newlines.induct) auto

lemma read_write_newlines:
  assumes "linesep env \<in> {[LF], [CR, LF]}" and "CR \<notin> set s"
  shows "read_newlines (write_newlines env s) = s"
  using assms(2)
proof (induction s)
  case (Cons c s)
  then have "read_newlines (write_newlines env s) = s" "c \<noteq> CR" by auto
  then show ?case using assms(1) by (auto simp: write_newlines_def)
qed (simp add: write_newlines_def)

lemma backup_text_read:
  assumes "linesep env \<in> {[LF], [CR, LF]}"
  shows "read_newlines (backup_text env s) = read_newlines s" "backup_text env (backup_text env s) = backup_text env s"
  using read_write_newlines [OF assms read_newlines_no_CR] by (simp_all add: backup_text_def)

lemma backup_text_id:
  assumes "linesep env = [LF]" and "CR \<notin> set s"
  shows "backup_text env s = s"
proof -
  have "concat (map (\<lambda>c. if c = LF then [LF] else [c]) s) = s" by (induction s) auto
  then show ?thesis unfolding backup_text_def write_newlines_def read_newlines_id [OF assms(2)] assms(1) .
qed

text \<open>Everything but the workspace files and the backups.\<close>

definition same_rest :: "patch_world \<Rightarrow> patch_world \<Rightarrow> bool" where
  "same_rest w w' \<longleftrightarrow> w' = w\<lparr>pa_files := pa_files w', pa_backups := pa_backups w'\<rparr>"

lemma same_rest_refl [simp]: "same_rest w w"
  by (simp add: same_rest_def)

lemma same_rest_trans: "same_rest a b \<Longrightarrow> same_rest b c \<Longrightarrow> same_rest a c"
  unfolding same_rest_def by (cases a; cases b; cases c) simp

lemma atomic_write_cases:
  assumes "atomic_write env p c w = (out, w')"
  shows "(\<exists>e. out = Inl e \<and> (w' = w \<or> w' = w\<lparr>pa_files := AList.update p (write_newlines env c) (pa_files w)\<rparr>)) \<or>
    (\<exists>h. out = Inr h \<and> w' = w\<lparr>pa_files := AList.update p (write_newlines env c) (pa_files w)\<rparr>)"
  using assms by (auto simp: atomic_write_def Let_def split: if_splits option.splits)

lemma create_backup_cases:
  assumes "create_backup env u now p run w = (out, w')"
  shows "(\<exists>e. out = Inl e \<and> w' = w) \<or>
    (\<exists>c. file_at w p = Some c \<and> out = Inr (make_backup env u now p run c) \<and>
      w' = w\<lparr>pa_backups := AList.update (run, ''patch_backup_'' @ u) (make_backup env u now p run c, backup_text env c) (pa_backups w)\<rparr>)"
  using assms by (auto simp: create_backup_def make_backup_def Let_def split: if_splits option.splits)

abbreviation patched_by :: "patch_env \<Rightarrow> patch_plan \<Rightarrow> affected_file \<Rightarrow> str \<Rightarrow> patch_world \<Rightarrow> patch_world" where
  "patched_by env plan f c w \<equiv> w\<lparr>pa_files := AList.update (target_path f)
     (write_newlines env (fst (apply_hunks env c (hunks_for plan (rel_path f))))) (pa_files w)\<rparr>"

lemma patch_file_cases:
  assumes "patch_file env plan f existed backup h c w = (out, w')"
  shows "(\<exists>e. out = Inl e \<and> (w' = w \<or> w' = patched_by env plan f c w)) \<or>
    (\<exists>r. out = Inr (r, False) \<and> w' = w \<and> fr_backup_id r = backup \<and> fr_status r = ''failed'') \<or>
    (\<exists>r. out = Inr (r, True) \<and> fr_backup_id r = backup \<and> fr_status r = ''completed'' \<and> w' = patched_by env plan f c w)"
proof -
  obtain updated rs where hs: "apply_hunks env c (hunks_for plan (rel_path f)) = (updated, rs)" by force
  show ?thesis
  proof (cases "list_all hr_applied rs")
    case True
    obtain out1 w1 where aw: "atomic_write env (target_path f) updated w = (out1, w1)" by force
    have "patch_file env plan f existed backup h c w = (case (out1, w1) of (Inl e, w') \<Rightarrow> (Inl e, w')
        | (Inr final, w') \<Rightarrow> (Inr (written_file (rel_path f) backup h final rs existed, True), w'))"
      by (simp add: patch_file_def hs aw True)
    then show ?thesis using atomic_write_cases [OF aw] assms by (auto simp: hs written_file_def)
  next
    case False
    then have "(out, w') = (Inr (failed_file (rel_path f) backup h rs, False), w)"
      using assms by (simp add: patch_file_def hs Let_def)
    then show ?thesis by (simp add: failed_file_def)
  qed
qed

text \<open>
  A round of the engine that does not raise: an existing file has been backed up under the id of the
  round, and its text is replaced by the patched one unless a hunk failed.
\<close>

definition backed_up :: "patch_env \<Rightarrow> str \<Rightarrow> int \<Rightarrow> str \<Rightarrow> str \<Rightarrow> patch_world \<Rightarrow> ((str \<times> str) \<times> patch_backup \<times> str) list" where
  "backed_up env u now run p w =
     (case file_at w p of
        None \<Rightarrow> pa_backups w
      | Some c \<Rightarrow> AList.update (run, ''patch_backup_'' @ u) (make_backup env u now p run c, backup_text env c) (pa_backups w))"

text \<open>A round on an existing file: the backup, then the patch.\<close>

lemma apply_file_old:
  assumes "file_at w (target_path f) = Some c" and "apply_file env u now plan run f w = (out, w')"
  obtains (refused) e where "out = Inl e" "w' = w"
  | (patched) w1 where "w1 = w\<lparr>pa_backups := backed_up env u now run (target_path f) w\<rparr>"
      "patch_file env plan f True (Some (''patch_backup_'' @ u)) (sha256 env c) (read_newlines c) w1 = (out, w')"
proof -
  obtain out1 w1 where cb: "create_backup env u now (target_path f) run w = (out1, w1)" by force
  have body: "(case (out1, w1) of (Inl e, w1) \<Rightarrow> (Inl e, w1)
      | (Inr b, w1) \<Rightarrow> (case read_text env w1 (target_path f) of Inl e \<Rightarrow> (Inl e, w1)
          | Inr content \<Rightarrow> patch_file env plan f True (Some (bk_backup_id b)) (sha256 env c) content w1)) = (out, w')"
    using assms cb by (simp add: apply_file_def Let_def read_bytes_def path_exists_def)
  show thesis
  proof (cases out1)
    case (Inl e)
    then show thesis using refused [of e] body create_backup_cases [OF cb] by auto
  next
    case (Inr b)
    then have w1: "w1 = w\<lparr>pa_backups := backed_up env u now run (target_path f) w\<rparr>" "bk_backup_id b = ''patch_backup_'' @ u"
      using create_backup_cases [OF cb] assms(1) by (auto simp: backed_up_def make_backup_def)
    have "read_text env w1 (target_path f) = Inr (read_newlines c)"
      using assms(1) by (simp add: w1(1) read_text_def read_bytes_def)
    then show thesis using patched [OF w1(1)] body Inr w1(2) by simp
  qed
qed

lemma apply_file_new:
  assumes "file_at w (target_path f) = None" and "apply_file env u now plan run f w = (out, w')"
  obtains (refused) e where "out = Inl e" "w' = w"
  | (patched) "patch_file env plan f False None (sha256 env []) [] w = (out, w')"
  using assms by (auto simp: apply_file_def Let_def read_bytes_def split: if_splits)

lemma apply_file_Inr:
  assumes "apply_file env u now plan run f w = (Inr (r, go), w')"
  defines "p \<equiv> target_path f"
  shows "fr_backup_id r = map_option (\<lambda>_. ''patch_backup_'' @ u) (file_at w p) \<and>
    pa_backups w' = backed_up env u now run p w \<and> same_rest w w' \<and>
    (if go then fr_status r = ''completed'' \<and> pa_files w' = AList.update p (patched_text env plan f (file_at w p)) (pa_files w)
     else fr_status r = ''failed'' \<and> pa_files w' = pa_files w)"
proof (cases "file_at w p")
  case None
  from None [unfolded p_def] assms(1) show ?thesis
  proof (cases rule: apply_file_new)
    case patched
    from patch_file_cases [OF this] None show ?thesis
      by (auto simp: backed_up_def same_rest_def patched_text_def p_def)
  qed simp
next
  case (Some c)
  from Some [unfolded p_def] assms(1) show ?thesis
  proof (cases rule: apply_file_old)
    case (patched w1)
    from patch_file_cases [OF patched(2)] Some patched(1) show ?thesis
      by (auto simp: same_rest_def patched_text_def p_def)
  qed simp
qed

lemma apply_file_Inl:
  assumes "apply_file env u now plan run f w = (Inl e, w')"
  shows "(\<forall>p. p \<noteq> target_path f \<longrightarrow> file_at w' p = file_at w p) \<and> same_rest w w'"
proof (cases "file_at w (target_path f)")
  case None
  from None assms show ?thesis
  proof (cases rule: apply_file_new)
    case patched
    from patch_file_cases [OF this] show ?thesis by (auto simp: same_rest_def update_conv')
  qed simp
next
  case (Some c)
  from Some assms show ?thesis
  proof (cases rule: apply_file_old)
    case (patched w1)
    from patch_file_cases [OF patched(2)] patched(1) show ?thesis by (auto simp: same_rest_def update_conv')
  qed simp
qed

section \<open>All files\<close>

definition backup_ids_of :: "patch_file_result list \<Rightarrow> str list" where
  "backup_ids_of rs = map the (filter opt_truthy (map fr_backup_id rs))"

lemma backup_ids_of_Cons:
  "fr_backup_id r = map_option (\<lambda>_. ''patch_backup_'' @ u) x \<Longrightarrow>
     backup_ids_of (r # rs) = (case x of None \<Rightarrow> [] | Some _ \<Rightarrow> [''patch_backup_'' @ u]) @ backup_ids_of rs"
  by (cases x) (simp_all add: backup_ids_of_def)

lemma apply_files_Cons_Inr:
  assumes "apply_files env uid now plan run (f # fs) w = (Inr rs, w')"
  obtains r w1 where "apply_file env (uid 0) now plan run f w = (Inr (r, False), w')" "rs = [r]" "w1 = w'"
  | r w1 rs' where "apply_file env (uid 0) now plan run f w = (Inr (r, True), w1)"
      "apply_files env (\<lambda>i. uid (Suc i)) now plan run fs w1 = (Inr rs', w')" "rs = r # rs'"
  using assms by (auto split: prod.splits sum.splits if_splits)

lemma apply_files_frame:
  assumes "apply_files env uid now plan run fs w = (out, w')"
  shows "same_rest w w' \<and> (\<forall>p. p \<notin> target_path ` set fs \<longrightarrow> file_at w' p = file_at w p)"
  using assms
proof (induction fs arbitrary: uid w out)
  case (Cons f fs)
  obtain out1 w1 where af: "apply_file env (uid 0) now plan run f w = (out1, w1)" by force
  show ?case
  proof (cases out1)
    case (Inl e)
    then show ?thesis using Cons.prems af apply_file_Inl [of env "uid 0" now plan run f w e w1] by auto
  next
    case (Inr rg)
    obtain r go where rg: "rg = (r, go)" by force
    note one = apply_file_Inr [OF af [unfolded Inr rg]]
    have w1: "same_rest w w1" "\<forall>p. p \<noteq> target_path f \<longrightarrow> file_at w1 p = file_at w p"
      using one by (auto simp: update_conv' split: if_splits)
    show ?thesis
    proof (cases go)
      case False
      then show ?thesis using Cons.prems af Inr rg w1 by auto
    next
      case True
      obtain out2 w2 where rest: "apply_files env (\<lambda>i. uid (Suc i)) now plan run fs w1 = (out2, w2)" by force
      then have "w2 = w'" using Cons.prems af Inr rg True by (auto split: sum.splits)
      note rest' = Cons.IH [OF rest [unfolded this]]
      show ?thesis using rest' w1 same_rest_trans by auto
    qed
  qed
qed simp

text \<open>
  When the engine returns: every backup it reports holds the text its file had before, every file that
  changed has such a backup unless it is new, and nothing was written outside the targets.
\<close>

lemma apply_files_backups:
  assumes "apply_files env uid now plan run fs w = (Inr rs, w')" and "distinct (map target_path fs)" and "inj uid"
  shows "(\<forall>i\<in>set (backup_ids_of rs). \<exists>b c. get_backup w' i run = Some (b, c) \<and> bk_file_path b \<in> target_path ` set fs \<and>
           map_option (backup_text env) (file_at w (bk_file_path b)) = Some c) \<and>
    (\<forall>p c. file_at w p = Some c \<longrightarrow> file_at w' p = Some c \<or>
       (\<exists>i\<in>set (backup_ids_of rs). \<exists>b. get_backup w' i run = Some (b, backup_text env c) \<and> bk_file_path b = p)) \<and>
    (\<forall>i. i \<notin> range (\<lambda>n. ''patch_backup_'' @ uid n) \<longrightarrow> get_backup w' i run = get_backup w i run)"
  using assms
proof (induction fs arbitrary: uid w rs)
  case Nil
  then show ?case by (simp add: backup_ids_of_def)
next
  case (Cons f fs)
  let ?p = "target_path f" and ?i = "''patch_backup_'' @ uid 0"
  have own: "get_backup w1 ?i run = Some (make_backup env (uid 0) now ?p run c, backup_text env c)"
    if "pa_backups w1 = backed_up env (uid 0) now run ?p w" "file_at w ?p = Some c" for w1 c
    using that by (simp add: get_backup_def backed_up_def update_conv')
  have keep: "get_backup w1 i run = get_backup w i run"
    if "pa_backups w1 = backed_up env (uid 0) now run ?p w" "i \<noteq> ?i" for w1 i
    using that by (simp add: get_backup_def backed_up_def update_conv' split: option.splits)
  from Cons.prems(1) show ?case
  proof (cases rule: apply_files_Cons_Inr)
    case (1 r)
    note one = apply_file_Inr [OF 1(1)]
    have ids: "backup_ids_of rs = (case file_at w ?p of None \<Rightarrow> [] | Some _ \<Rightarrow> [?i])"
      using backup_ids_of_Cons [OF conjunct1 [OF one], of "[]"] 1(2) by (simp add: backup_ids_of_def)
    have bk: "pa_backups w' = backed_up env (uid 0) now run ?p w" "pa_files w' = pa_files w" using one by simp_all
    show ?thesis
    proof (cases "file_at w ?p")
      case None
      then show ?thesis using ids keep [OF bk(1)] bk by (auto simp: get_backup_def backed_up_def)
    next
      case (Some c)
      then show ?thesis using ids own [OF bk(1) Some] keep [OF bk(1)] bk(2) by (auto simp: make_backup_def)
    qed
  next
    case (2 r w1 rs')
    note one = apply_file_Inr [OF 2(1)]
    have inj: "inj (\<lambda>i. uid (Suc i))" using Cons.prems(3) by (auto simp: inj_def)
    have d: "distinct (map target_path fs)" "?p \<notin> target_path ` set fs" using Cons.prems(2) by auto
    note IH = Cons.IH [OF 2(2) d(1) inj]
    have ids: "set (backup_ids_of rs) = (if file_at w ?p = None then {} else {?i}) \<union> set (backup_ids_of rs')"
      using backup_ids_of_Cons [OF conjunct1 [OF one], of rs'] 2(3) by (cases "file_at w ?p") auto
    have fresh: "?i \<notin> range (\<lambda>n. ''patch_backup_'' @ uid (Suc n))" using Cons.prems(3) by (auto simp: inj_def)
    have mine: "get_backup w' ?i run = Some (make_backup env (uid 0) now ?p run c, backup_text env c)" if "file_at w ?p = Some c" for c
      using IH fresh own [of w1] one that by auto
    have other: "file_at w1 p = file_at w p" if "p \<noteq> ?p" for p using one that by (auto simp: update_conv')
    have "\<exists>b c. get_backup w' i run = Some (b, c) \<and> bk_file_path b \<in> target_path ` set (f # fs) \<and>
        map_option (backup_text env) (file_at w (bk_file_path b)) = Some c" if i: "i \<in> set (backup_ids_of rs)" for i
    proof (cases "i \<in> set (backup_ids_of rs')")
      case True
      then obtain b c where b: "get_backup w' i run = Some (b, c)" "bk_file_path b \<in> target_path ` set fs"
        "map_option (backup_text env) (file_at w1 (bk_file_path b)) = Some c" using IH by blast
      then have "bk_file_path b \<noteq> ?p" using d(2) by metis
      then show ?thesis using b other by auto
    next
      case False
      then obtain c where "i = ?i" "file_at w ?p = Some c" using i ids by (auto split: if_splits)
      then show ?thesis using mine by (auto simp: make_backup_def)
    qed
    moreover have "file_at w' p = Some c \<or> (\<exists>i\<in>set (backup_ids_of rs). \<exists>b. get_backup w' i run = Some (b, backup_text env c) \<and> bk_file_path b = p)"
      if "file_at w p = Some c" for p c
    proof (cases "p = ?p")
      case True
      then show ?thesis using mine [of c] that ids by (auto simp: make_backup_def)
    next
      case False
      then have "file_at w1 p = Some c" using other that by simp
      then show ?thesis using IH ids by blast
    qed
    moreover have "get_backup w' i run = get_backup w i run" if "i \<notin> range (\<lambda>n. ''patch_backup_'' @ uid n)" for i
    proof -
      have "i \<notin> range (\<lambda>n. ''patch_backup_'' @ uid (Suc n))" "i \<noteq> ?i" using that by auto
      then show ?thesis using IH keep [of w1 i] one by auto
    qed
    ultimately show ?thesis by blast
  qed
qed

lemma apply_files_content:
  assumes "apply_files env uid now plan run fs w = (Inr rs, w')" and "distinct (map target_path fs)"
    and "\<forall>r\<in>set rs. fr_status r = ''completed''" and "f \<in> set fs"
  shows "file_at w' (target_path f) = Some (patched_text env plan f (file_at w (target_path f)))"
  using assms
proof (induction fs arbitrary: uid w rs)
  case (Cons g fs)
  from Cons.prems(1) show ?case
  proof (cases rule: apply_files_Cons_Inr)
    case (1 r)
    then show ?thesis using apply_file_Inr [OF 1(1)] Cons.prems(3) by auto
  next
    case (2 r w1 rs')
    note one = apply_file_Inr [OF 2(1)]
    show ?thesis
    proof (cases "f \<in> set fs")
      case True
      then have ne: "target_path f \<noteq> target_path g" using Cons.prems(2) by (metis distinct.simps(2) image_eqI list.set_map list.simps(9))
      have "file_at w' (target_path f) = Some (patched_text env plan f (file_at w1 (target_path f)))"
        by (rule Cons.IH [OF 2(2)]) (use Cons.prems 2(3) True in auto)
      moreover have "file_at w1 (target_path f) = file_at w (target_path f)" using one ne by (simp add: update_conv')
      ultimately show ?thesis by simp
    next
      case False
      then have f: "f = g" using Cons.prems(4) by simp
      have "target_path g \<notin> target_path ` set fs" using Cons.prems(2) by simp
      then have "file_at w' (target_path g) = file_at w1 (target_path g)" using apply_files_frame [OF 2(2)] by blast
      then show ?thesis using one f by (simp add: update_conv')
    qed
  qed
qed simp

section \<open>Restoring backups\<close>

lemma restore_all_spec:
  assumes "restore_all env run is restored failed w = ((rs, []), w')"
    and "\<forall>i\<in>set is. \<forall>b c. get_backup w i run = Some (b, c) \<longrightarrow> orig (bk_file_path b) = Some (backup_text env c)"
  shows "file_at w' p = (if \<exists>i\<in>set is. \<exists>b c. get_backup w i run = Some (b, c) \<and> bk_file_path b = p then orig p else file_at w p)
    \<and> failed = []"
  using assms
proof (induction "is" arbitrary: restored failed w)
  case (Cons i js)
  show ?case
  proof (cases "get_backup w i run")
    case None
    then have "failed @ [i] = []" using Cons.IH [of restored "failed @ [i]" w] Cons.prems by auto
    then show ?thesis by simp
  next
    case (Some bc)
    obtain b c where bc: "bc = (b, c)" by force
    obtain out w1 where aw: "atomic_write env (bk_file_path b) (read_newlines c) w = (out, w1)" by force
    have gb: "get_backup w1 j run = get_backup w j run" for j
      using atomic_write_cases [OF aw] by (auto simp: get_backup_def)
    have prem: "\<forall>j\<in>set js. \<forall>b c. get_backup w1 j run = Some (b, c) \<longrightarrow> orig (bk_file_path b) = Some (backup_text env c)"
      using Cons.prems(2) by (simp add: gb)
    show ?thesis
    proof (cases out)
      case (Inl e)
      then have "restore_all env run js restored (failed @ [bk_file_path b]) w1 = ((rs, []), w')"
        using Cons.prems(1) Some bc aw by simp
      from Cons.IH [OF this prem] show ?thesis by simp
    next
      case (Inr h)
      then have w1: "file_at w1 q = (if q = bk_file_path b then Some (backup_text env c) else file_at w q)" for q
        using atomic_write_cases [OF aw] by (auto simp: update_conv' backup_text_def)
      have "restore_all env run js (restored @ [bk_file_path b]) failed w1 = ((rs, []), w')"
        using Cons.prems(1) Some bc aw Inr by simp
      note IH = Cons.IH [OF this prem]
      have "orig (bk_file_path b) = Some (backup_text env c)" using Cons.prems(2) Some bc by simp
      then show ?thesis using IH Some bc w1 [of p] by (auto simp: gb)
    qed
  qed
qed simp

lemma restore_all_frame:
  "restore_all env run is restored failed w = (x, w') \<Longrightarrow>
     w' = w\<lparr>pa_files := pa_files w'\<rparr> \<and>
     (\<forall>p. file_at w' p \<noteq> file_at w p \<longrightarrow> (\<exists>i\<in>set is. \<exists>b c. get_backup w i run = Some (b, c) \<and> bk_file_path b = p))"
proof (induction "is" arbitrary: restored failed w)
  case (Cons i js)
  show ?case
  proof (cases "get_backup w i run")
    case None
    then show ?thesis using Cons by auto
  next
    case (Some bc)
    obtain b c where bc: "bc = (b, c)" by force
    obtain out w1 where aw: "atomic_write env (bk_file_path b) (read_newlines c) w = (out, w1)" by force
    obtain re fa where "restore_all env run js re fa w1 = (x, w')"
      using Cons.prems Some bc aw by (cases out) auto
    note IH = Cons.IH [OF this]
    have w1: "w1 = w\<lparr>pa_files := pa_files w1\<rparr>" "\<And>q. q \<noteq> bk_file_path b \<Longrightarrow> file_at w1 q = file_at w q"
      using atomic_write_cases [OF aw] by (auto simp: update_conv')
    have gb: "get_backup w1 j run = get_backup w j run" for j using w1(1) by (metis get_backup_def patch_world.select_convs(5) patch_world.surjective patch_world.update_convs(4))
    have "w' = w\<lparr>pa_files := pa_files w'\<rparr>" using IH w1(1) by (metis patch_world.surjective patch_world.update_convs(4))
    then show ?thesis using IH w1(2) Some bc gb by (metis list.set_intros(1,2))
  qed
qed simp

section \<open>Runs\<close>

lemma store_frame [simp]:
  "pa_files (save_run r w) = pa_files w" "pa_files (save_result res w) = pa_files w"
  "pa_files (patch_event u now i ty su d w) = pa_files w" "pa_files (save_trace i w) = pa_files w"
  "pa_backups (save_run r w) = pa_backups w" "pa_backups (save_result res w) = pa_backups w"
  "pa_backups (patch_event u now i ty su d w) = pa_backups w" "pa_backups (save_trace i w) = pa_backups w"
  "pa_runs (save_result res w) = pa_runs w" "pa_runs (patch_event u now i ty su d w) = pa_runs w"
  "pa_runs (save_trace i w) = pa_runs w"
  "map_of (pa_runs (save_run r w)) k = (if k = ar_apply_run_id r then Some r else map_of (pa_runs w) k)"
  by (simp_all add: save_run_def save_result_def patch_event_def save_trace_def update_conv')

lemma get_backup_frame [simp]:
  "get_backup (save_run r w) i run = get_backup w i run" "get_backup (save_result res w) i run = get_backup w i run"
  "get_backup (patch_event u now k ty su d w) i run = get_backup w i run"
  by (simp_all add: get_backup_def)

lemma roll_back_Some:
  assumes "restore_all env (ar_apply_run_id run) (ar_backup_ids run) [] [] w = ((restored, failed), w1)"
  shows "roll_back env run (Some r) w =
    (rollback_of restored failed, Some (rolled_back_result (rollback_of restored failed) r),
     save_run (run\<lparr>ar_run_status := rb_status (rollback_of restored failed)\<rparr>)
       (save_result (rolled_back_result (rollback_of restored failed) r) w1))"
  using assms by (simp add: roll_back_def Let_def)

text \<open>The outcome of the body of \<open>execute\<close>: what the engine did, then possibly a rollback.\<close>

lemma run_patch_cases:
  assumes "run_patch env uid now plan run w = (r, w')"
  defines "w1 \<equiv> snd (start_run (uid 1) now run w)"
  obtains
    (engine_error) e w2 restored failed w3 where
      "engine_apply env (\<lambda>i. uid (i + 3)) now plan (ar_apply_run_id run) w1 = (Inl e, w2)"
      "restore_all env (ar_apply_run_id run) (ar_backup_ids run) [] [] w2 = ((restored, failed), w3)"
      "pa_files w' = pa_files w3"
      "r = rolled_back_result (rollback_of restored failed)
         (new_result now run ''failed'' False [] no_post_validation [e])"
  | (completed) files w2 post where
      "engine_apply env (\<lambda>i. uid (i + 3)) now plan (ar_apply_run_id run) w1 = (Inr files, w2)"
      "post_validate env plan (ar_apply_run_id run) files w2 = Inr post" "po_passed post"
      "pa_files w' = pa_files w2" "r = new_result now run ''completed'' True files post []"
  | (rolled_back) files w2 restored failed w3 post reasons where
      "engine_apply env (\<lambda>i. uid (i + 3)) now plan (ar_apply_run_id run) w1 = (Inr files, w2)"
      "restore_all env (ar_apply_run_id run) (backup_ids_of files) [] [] w2 = ((restored, failed), w3)"
      "pa_files w' = pa_files w3"
      "r = rolled_back_result (rollback_of restored failed) (new_result now run ''failed'' False files post reasons)"
proof -
  let ?run1 = "run\<lparr>ar_run_status := ''running'', ar_run_updated_at := now\<rparr>"
  obtain out w2 where eng: "engine_apply env (\<lambda>i. uid (i + 3)) now plan (ar_apply_run_id run) w1 = (out, w2)" by force
  have run: "start_run (uid 1) now run w = (?run1, w1)" by (simp add: start_run_def Let_def w1_def)
  have nr: "new_result now (run'\<lparr>ar_run_status := a, ar_run_updated_at := b, ar_backup_ids := c\<rparr>) st sf fl po rs =
      new_result now run' st sf fl po rs"
    "new_result now (run'\<lparr>ar_run_status := a, ar_run_updated_at := b\<rparr>) st sf fl po rs =
      new_result now run' st sf fl po rs" for run' a b c st sf fl po rs
    by (simp_all add: new_result_def)
  show thesis
  proof (cases out)
    case (Inl e)
    obtain restored failed w3 where re: "restore_all env (ar_apply_run_id run) (ar_backup_ids run) [] [] w2 = ((restored, failed), w3)"
      by (metis surj_pair)
    have eq: "fail_run env now ?run1 [] e w2 = (r, w')" using assms(1) eng Inl run by (simp add: run_patch_def)
    have "restore_all env (ar_apply_run_id ?run1) (ar_backup_ids ?run1) [] [] w2 = ((restored, failed), w3)" using re by simp
    note rb = roll_back_Some [OF this, of "new_result now ?run1 ''failed'' False [] no_post_validation [e]"]
    show thesis by (rule engine_error [OF eng [unfolded Inl] re]) (use eq rb in \<open>auto simp: fail_run_def Let_def nr\<close>)
  next
    case (Inr files)
    let ?run2 = "?run1\<lparr>ar_backup_ids := backup_ids_of files\<rparr>"
    obtain restored failed w3 where re: "restore_all env (ar_apply_run_id run) (backup_ids_of files) [] [] w2 = ((restored, failed), w3)"
      by (metis surj_pair)
    then have re': "restore_all env (ar_apply_run_id ?run2) (ar_backup_ids ?run2) [] [] w2 = ((restored, failed), w3)" by simp
    have eq: "finish_run env (uid 2) now plan ?run1 files w2 = (r, w')" using assms(1) eng Inr run by (simp add: run_patch_def)
    show thesis
    proof (cases "post_validate env plan (ar_apply_run_id run) files w2")
      case (Inl e)
      have "fail_run env now ?run2 files e w2 = (r, w')" using eq Inl by (simp add: finish_run_def Let_def backup_ids_of_def)
      then show thesis using roll_back_Some [OF re', of "new_result now ?run2 ''failed'' False files no_post_validation [e]"]
        by (intro rolled_back [OF eng [unfolded Inr] re]) (auto simp: fail_run_def Let_def nr)
    next
      case post: (Inr post)
      show thesis
      proof (cases "po_passed post")
        case True
        show thesis by (rule completed [OF eng [unfolded Inr] post True])
            (use eq post True in \<open>auto simp: finish_run_def Let_def nr\<close>)
      next
        case False
        then show thesis
          using eq post roll_back_Some [OF re', of "new_result now ?run2 ''failed'' False files post []"]
          by (intro rolled_back [OF eng [unfolded Inr] re])
            (auto simp: finish_run_def Let_def nr backup_ids_of_def [symmetric])
      qed
    qed
  qed
qed

section \<open>The guard\<close>

lemma guard_file_Inr:
  assumes "guard_file env w plan f b = Inr b'"
  shows "\<exists>x. b' = b @ x \<and> (x = [] \<longrightarrow> target_path f \<noteq> [] \<and> guard_path env w plan f = [] \<and>
    (\<forall>h c. af_original_hash f = Some h \<longrightarrow> h \<noteq> [] \<longrightarrow> file_at w (target_path f) = Some c \<longrightarrow> sha256 env c = h))"
  using assms unfolding guard_file_def Let_def read_bytes_def path_exists_def
  by (auto split: if_splits option.splits)

lemma guard_files_empty:
  "ofold (guard_file env w plan) fs b = Inr [] \<Longrightarrow> b = [] \<and>
    (\<forall>f\<in>set fs. target_path f \<noteq> [] \<and> guard_path env w plan f = [] \<and>
      (\<forall>h c. af_original_hash f = Some h \<longrightarrow> h \<noteq> [] \<longrightarrow> file_at w (target_path f) = Some c \<longrightarrow> sha256 env c = h))"
proof (induction fs arbitrary: b)
  case (Cons f fs)
  then obtain b' where b': "guard_file env w plan f b = Inr b'" "ofold (guard_file env w plan) fs b' = Inr []"
    by (auto simp: obind_eq_Inr_iff)
  then show ?case using Cons.IH [OF b'(2)] guard_file_Inr [OF b'(1)] by auto
qed simp

lemma get_approval_approved:
  assumes "get_approval u now i w = (Some a, w')" and "aq_status a = ''approved''"
  shows "map_of (aw_approvals w) i = Some a"
  using assms by (auto simp: get_approval_def reconcile_expiration_def expire_approval_def Let_def
      split: option.splits if_splits prod.splits)

text \<open>What the guard has established when it lets a run through.\<close>

definition authorised :: "patch_env \<Rightarrow> int \<Rightarrow> patch_world \<Rightarrow> patch_apply_run \<Rightarrow> patch_plan \<Rightarrow> approval_request \<Rightarrow> bool" where
  "authorised env now w run plan a \<longleftrightarrow>
     ar_operator_confirmed run \<and>
     map_of (pa_plans w) (ar_plan_id run) = Some plan \<and>
     (\<exists>q. map_of (pa_quality w) (ar_plan_id run) = Some q \<and> pq_status q = ''passed'') \<and>
     map_of (aw_approvals (pa_approvals w)) (ar_approval_id run) = Some a \<and>
     aq_status a = ''approved'' \<and> aq_approval_scope a = ''patch_apply'' \<and> aq_preview_id a = pt_plan_id plan \<and>
     (\<exists>t. aq_expires_at a = Some t \<and> now \<le> t) \<and>
     (\<exists>d. pt_diff_text plan = Some d \<and> d \<noteq> [] \<and>
       json_get ''diff_hash'' (ps_config_versions (aq_policy_snapshot a)) = JStr (sha256 env d)) \<and>
     sorted_texts (json_get ''target_files'' (ps_config_versions (aq_policy_snapshot a))) =
       Inr (Some (sort (map rel_path (pt_affected_files plan))))"

lemma guard_binding_empty:
  assumes "guard_binding env now (Some plan) a = Inr []" and "pt_diff_text plan = Some d" and "sha256 env d \<noteq> []"
  shows "aq_approval_scope a = ''patch_apply'' \<and> aq_preview_id a = pt_plan_id plan \<and>
    (\<exists>t. aq_expires_at a = Some t \<and> now \<le> t) \<and>
    json_get ''diff_hash'' (ps_config_versions (aq_policy_snapshot a)) = JStr (sha256 env d) \<and>
    sorted_texts (json_get ''target_files'' (ps_config_versions (aq_policy_snapshot a))) =
      Inr (Some (sort (map rel_path (pt_affected_files plan))))"
proof -
  obtain ts where ts: "sorted_texts (json_get ''target_files'' (ps_config_versions (aq_policy_snapshot a))) = Inr ts"
    using assms(1) by (auto simp: guard_binding_def Let_def obind_eq_Inr_iff)
  have h: "diff_hash_of env (Some plan) = Some (sha256 env d)" by (simp add: diff_hash_of_def assms(2))
  show ?thesis
    using assms(1,3) by (simp add: guard_binding_def Let_def ts h target_files_of_def guard_expired_def
        split: if_splits option.splits)
qed

lemma guard_allows:
  assumes "guard_validate env u now plan quality request w = (Inr g, w1)" and "pg_allowed g"
    and "\<And>s. sha256 env s \<noteq> []"
  shows "\<exists>p q a d. plan = Some p \<and> quality = Some q \<and> pq_status q = ''passed'' \<and> px_operator_confirmed request \<and>
    (\<exists>i. px_approval_id request = Some i \<and> map_of (aw_approvals (pa_approvals w)) i = Some a) \<and>
    aq_status a = ''approved'' \<and> pt_diff_text p = Some d \<and> d \<noteq> [] \<and> guard_binding env now (Some p) a = Inr [] \<and>
    ofold (guard_file env w p) (pt_affected_files p) [] = Inr []"
proof -
  obtain ra aw where ga: "guard_approval env u now plan request (pa_approvals w) = (ra, aw)" by force
  let ?b = "guard_static plan quality request"
  obtain reasons blocking where r: "ra = Inr reasons"
    and bl: "(case plan of None \<Rightarrow> Inr (?b @ reasons) | Some p \<Rightarrow> ofold (guard_file env w p) (pt_affected_files p) (?b @ reasons)) = Inr blocking"
    and g: "g = guard_result env plan quality request blocking"
    using assms(1) by (auto simp: guard_validate_def ga Let_def obind_eq_Inr_iff)
  have "blocking = []" using assms(2) g by (simp add: guard_result_def)
  moreover obtain p where p: "plan = Some p" using bl calculation by (cases plan) (auto simp: guard_static_def guard_plan_def)
  ultimately have e: "?b = []" "reasons = []" "ofold (guard_file env w p) (pt_affected_files p) [] = Inr []"
    using bl guard_files_empty [of env w p "pt_affected_files p" "?b @ reasons"] by auto
  from e(1) p obtain d q where dq: "pt_diff_text p = Some d" "d \<noteq> []" "quality = Some q" "pq_status q = ''passed''"
      "px_operator_confirmed request"
    by (cases "pt_diff_text p") (auto simp: guard_static_def guard_plan_def guard_quality_def split: option.splits if_splits)
  from ga r e(2) p obtain i a where "px_approval_id request = Some i" "get_approval u now i (pa_approvals w) = (Some a, aw)"
      "aq_status a = ''approved''" "guard_binding env now (Some p) a = Inr []"
    by (cases "px_approval_id request") (auto simp: guard_approval_def split: if_splits prod.splits option.splits)
  then show ?thesis using p e(3) dq get_approval_approved by blast
qed

section \<open>Executing\<close>

definition patch_ok :: "patch_world \<Rightarrow> bool" where
  "patch_ok w \<longleftrightarrow> (\<forall>i run. map_of (pa_runs w) i = Some run \<longrightarrow>
     ar_apply_run_id run = i \<and> (ar_run_status run = ''ready_to_execute'' \<longrightarrow> ar_backup_ids run = []))"

lemma guard_validate_world:
  "guard_validate env u now plan quality request w = (out, w1) \<Longrightarrow> w1 = w\<lparr>pa_approvals := pa_approvals w1\<rparr>"
  by (auto simp: guard_validate_def split: prod.splits)

lemma blocked_result_frame:
  "blocked_result u now run rs w = (r, w') \<Longrightarrow> pa_files w' = pa_files w \<and> rp_status r = ''blocked'' \<and>
     pa_runs w' = pa_runs w"
  by (auto simp: blocked_result_def new_result_def Let_def)

lemma execute_cases:
  assumes "execute env uid now i w = (out, w')"
  obtains
    (kept) "pa_files w' = pa_files w"
      "pa_runs w' = pa_runs w \<or> (\<exists>run. ar_run_status run = ''blocked'' \<and> pa_runs w' = pa_runs (save_run run w))"
      "\<forall>r. out = Inr (Some r) \<longrightarrow> map_of (pa_results w) i = None \<longrightarrow> rp_status r = ''blocked''"
  | (ran) run plan guard w1 r where
      "map_of (pa_runs w) i = Some run" "map_of (pa_results w) i = None" "ar_run_status run = ''ready_to_execute''"
      "map_of (pa_plans w) (ar_plan_id run) = Some plan"
      "guard_validate env (uid 0) now (Some plan) (latest_quality w (ar_plan_id run))
         \<lparr>px_approval_id = Some (ar_approval_id run), px_operator_confirmed = ar_operator_confirmed run\<rparr> w = (Inr guard, w1)"
      "pg_allowed guard" "run_patch env uid now plan (run\<lparr>ar_guard := guard\<rparr>) w1 = (r, w')" "out = Inr (Some r)"
proof -
  consider "\<not> valid_run_id i" | "map_of (pa_runs w) i = None" | r where "map_of (pa_results w) i = Some r"
    | run where "valid_run_id i" "map_of (pa_runs w) i = Some run" "map_of (pa_results w) i = None"
    by (cases "map_of (pa_runs w) i"; cases "map_of (pa_results w) i") auto
  then show thesis
  proof cases
    case 1
    then show thesis using assms by (intro kept) (auto simp: execute_def)
  next
    case 2
    then show thesis using assms by (intro kept) (auto simp: execute_def split: if_splits)
  next
    case 3
    then show thesis using assms by (intro kept) (auto simp: execute_def split: if_splits option.splits)
  next
    case (4 run)
    let ?plan = "map_of (pa_plans w) (ar_plan_id run)"
    let ?req = "\<lparr>px_approval_id = Some (ar_approval_id run), px_operator_confirmed = ar_operator_confirmed run\<rparr>"
    obtain out1 w1 where gv: "guard_validate env (uid 0) now ?plan (latest_quality w (ar_plan_id run)) ?req w = (out1, w1)" by force
    have w1: "pa_files w1 = pa_files w" "pa_runs w1 = pa_runs w"
      using arg_cong [OF guard_validate_world [OF gv], of pa_files] arg_cong [OF guard_validate_world [OF gv], of pa_runs] by simp_all
    have keep: "pa_files w' = pa_files w \<and> pa_runs w' = pa_runs w2 \<and> (\<forall>r. out = Inr (Some r) \<longrightarrow> rp_status r = ''blocked'')"
      if b: "(case blocked_result u now run' rs w2 of (r, w') \<Rightarrow> (Inr (Some r), w')) = (out, w')" "pa_files w2 = pa_files w"
      for u run' rs w2
    proof -
      obtain r0 w0 where br: "blocked_result u now run' rs w2 = (r0, w0)" by force
      have "out = Inr (Some r0)" "w' = w0" using b(1) unfolding br by simp_all
      then show ?thesis using blocked_result_frame [OF br] b(2) by simp
    qed
    show thesis
    proof (cases "can_execute (ar_run_status run)")
      case False
      then show thesis using assms 4 keep [OF _ refl] by (intro kept) (auto simp: execute_def Let_def)
    next
      case True
      note can = True
      show thesis
      proof (cases out1)
        case (Inl e)
        then have "(Inl e, w1) = (out, w')" using assms 4 can by (simp add: execute_def Let_def gv)
        then show thesis using w1 by (intro kept) auto
      next
        case (Inr guard)
        show thesis
        proof (cases "pg_allowed guard \<and> ?plan \<noteq> None")
          case True
          then obtain plan where plan: "?plan = Some plan" by auto
          obtain r w2 where rp: "run_patch env uid now plan (run\<lparr>ar_guard := guard\<rparr>) w1 = (r, w2)" by force
          have "(Inr (Some r), w2) = (out, w')" using assms 4 can Inr True plan gv [unfolded plan] rp
            by (simp add: execute_def Let_def)
          then show thesis using ran [OF 4(2,3) _ plan] can gv [unfolded plan] Inr True rp
            by (simp add: can_execute_def)
        next
          case False
          let ?run2 = "run\<lparr>ar_guard := guard, ar_run_status := ''blocked'', ar_blocked_reasons := pg_blocking_reasons guard,
            ar_run_updated_at := now\<rparr>"
          have "(case blocked_result (uid 1) now ?run2 (pg_blocking_reasons guard) (save_run ?run2 w1) of
              (r, w') \<Rightarrow> (Inr (Some r), w')) = (out, w')"
          proof (cases "pg_allowed guard")
            case True
            then have "?plan = None" using False by simp
            then show ?thesis using assms 4 can Inr True gv by (simp add: execute_def Let_def)
          next
            case False
            then show ?thesis using assms 4 can Inr gv by (simp add: execute_def Let_def)
          qed
          then have k: "pa_files w' = pa_files w" "pa_runs w' = pa_runs (save_run ?run2 w1)"
            "\<forall>r. out = Inr (Some r) \<longrightarrow> rp_status r = ''blocked''"
            using keep [of "uid 1" ?run2 "pg_blocking_reasons guard" "save_run ?run2 w1"] w1 by simp_all
          have "pa_runs (save_run ?run2 w1) = pa_runs (save_run ?run2 w)" using w1(2) by (simp add: save_run_def)
          then show thesis using k by (intro kept) (auto intro!: exI [of _ ?run2])
        qed
      qed
    qed
  qed
qed

lemma apply_files_paths:
  assumes "apply_files env uid now plan run fs w = (Inr rs, w')" and "target_path ` set fs \<subseteq> T"
    and "\<forall>i\<in>I. \<forall>b c. get_backup w i run = Some (b, c) \<longrightarrow> bk_file_path b \<in> T"
  shows "\<forall>i\<in>I \<union> set (backup_ids_of rs). \<forall>b c. get_backup w' i run = Some (b, c) \<longrightarrow> bk_file_path b \<in> T"
  using assms
proof (induction fs arbitrary: uid w rs I)
  case (Cons f fs)
  let ?p = "target_path f" and ?i = "''patch_backup_'' @ uid 0"
  have step: "\<forall>i\<in>(case file_at w ?p of None \<Rightarrow> I | Some _ \<Rightarrow> insert ?i I). \<forall>b c. get_backup w1 i run = Some (b, c) \<longrightarrow> bk_file_path b \<in> T"
    if "pa_backups w1 = backed_up env (uid 0) now run ?p w" for w1
    using that Cons.prems(2,3)
    by (cases "file_at w ?p") (auto simp: get_backup_def backed_up_def update_conv' make_backup_def split: if_splits)
  from Cons.prems(1) show ?case
  proof (cases rule: apply_files_Cons_Inr)
    case (1 r)
    note one = apply_file_Inr [OF 1(1)]
    show ?thesis
      using step [of w'] one backup_ids_of_Cons [OF conjunct1 [OF one], of "[]"] 1(2)
      by (cases "file_at w ?p") (auto simp: backup_ids_of_def)
  next
    case (2 r w1 rs')
    note one = apply_file_Inr [OF 2(1)]
    have T: "target_path ` set fs \<subseteq> T" using Cons.prems(2) by simp
    have "pa_backups w1 = backed_up env (uid 0) now run ?p w" using one by simp
    note IH = Cons.IH [OF 2(2) T step [OF this]]
    show ?thesis using IH backup_ids_of_Cons [OF conjunct1 [OF one], of rs'] 2(3) by (cases "file_at w ?p") auto
  qed
qed (simp add: backup_ids_of_def)

text \<open>Only targets of the plan can change, whatever happens in the run.\<close>

lemma run_patch_targets:
  assumes "run_patch env uid now plan run w = (r, w')" and "ar_backup_ids run = []"
    and "file_at w' p \<noteq> file_at w p"
  shows "p \<in> target_path ` set (pt_affected_files plan)"
proof (rule ccontr)
  assume p: "p \<notin> target_path ` set (pt_affected_files plan)"
  have start: "file_at (snd (start_run (uid 1) now run w)) p = file_at w p" by (simp add: start_run_def Let_def)
  note frame = apply_files_frame [OF _ , THEN conjunct2, rule_format, OF _ p]
  from assms(1) show False
  proof (cases rule: run_patch_cases)
    case (engine_error e w2 restored failed w3)
    then have "w3 = w2" using assms(2) by simp
    then show False using engine_error(1,3) frame start assms(3) by (simp add: engine_apply_def)
  next
    case (completed files w2 post)
    then show False using frame start assms(3) by (simp add: engine_apply_def)
  next
    case (rolled_back files w2 restored failed w3 post reasons)
    have "file_at w2 p = file_at w p" using rolled_back(1) frame start by (simp add: engine_apply_def)
    moreover have "\<forall>i\<in>{} \<union> set (backup_ids_of files). \<forall>b c. get_backup w2 i (ar_apply_run_id run) = Some (b, c) \<longrightarrow>
        bk_file_path b \<in> target_path ` set (pt_affected_files plan)"
      by (rule apply_files_paths [OF rolled_back(1) [unfolded engine_apply_def]]) simp_all
    moreover have "file_at w3 p \<noteq> file_at w2 p" using calculation(1) rolled_back(3) assms(3) by simp
    then obtain i b c where "i \<in> set (backup_ids_of files)" "get_backup w2 i (ar_apply_run_id run) = Some (b, c)" "bk_file_path b = p"
      using restore_all_frame [OF rolled_back(2)] by blast
    ultimately show False using p by blast
  qed
qed

lemma rolled_back_status: "rp_status (rolled_back_result rb r) \<noteq> ''completed''"
  by (simp add: rolled_back_result_def)

lemma post_validate_passed:
  assumes "post_validate env plan run rs w = Inr post" and "po_passed post"
  shows "\<forall>r\<in>set rs. fr_status r = ''completed''"
proof -
  obtain s where s: "ofold (post_check_file env plan run w) rs
      \<lparr>pc_blocking = [], pc_final_hashes = [], pc_proposed = [], pc_checked = []\<rparr> = Inr s"
    using assms(1) by (auto simp: post_validate_def obind_eq_Inr_iff)
  obtain v ws where "static_syntax env (pc_proposed s) = (v, ws)" by force
  then show ?thesis using assms by (auto simp: post_validate_def s Let_def list_all_iff)
qed

section \<open>Stored runs\<close>

text \<open>Every call of the service keeps runs under their ids and leaves no backups on a run that is ready.\<close>

lemma restore_all_runs: "restore_all env run is restored failed w = (x, w') \<Longrightarrow> pa_runs w' = pa_runs w"
  by (drule restore_all_frame) (metis patch_world.select_convs(6) patch_world.surjective patch_world.update_convs(4))

lemma same_rest_runs: "same_rest w w' \<Longrightarrow> pa_runs w' = pa_runs w"
  unfolding same_rest_def by (metis patch_world.select_convs(6) patch_world.surjective patch_world.update_convs(4,5))

lemma patch_ok_save:
  "patch_ok w \<Longrightarrow> ar_run_status run \<noteq> ''ready_to_execute'' \<or> ar_backup_ids run = [] \<Longrightarrow> patch_ok (save_run run w)"
  by (auto simp: patch_ok_def)

lemma patch_ok_runs: "pa_runs w' = pa_runs w \<Longrightarrow> patch_ok w \<Longrightarrow> patch_ok w'"
  by (simp add: patch_ok_def)

lemma roll_back_ok:
  assumes "roll_back env run result w = (rb, result', w')" and "patch_ok w"
  shows "patch_ok w'"
proof -
  obtain restored failed w1 where re: "restore_all env (ar_apply_run_id run) (ar_backup_ids run) [] [] w = ((restored, failed), w1)"
    by (metis surj_pair)
  let ?rb = "rollback_of restored failed"
  define w2 where "w2 = (case map_option (rolled_back_result ?rb) result of None \<Rightarrow> w1 | Some r \<Rightarrow> save_result r w1)"
  have "pa_runs w2 = pa_runs w" using restore_all_runs [OF re] by (simp add: w2_def split: option.splits)
  then have "patch_ok w2" using assms(2) by (rule patch_ok_runs)
  moreover have "w' = save_run (run\<lparr>ar_run_status := rb_status ?rb\<rparr>) w2"
    using assms(1) re by (auto simp: roll_back_def Let_def w2_def)
  ultimately show ?thesis by (auto simp: rollback_of_def intro!: patch_ok_save)
qed

lemma fail_run_ok:
  assumes "fail_run env now run files e w = (r, w')" and "patch_ok w"
  shows "patch_ok w'"
proof -
  obtain rb res w1 where rb: "roll_back env run (Some (new_result now run ''failed'' False files no_post_validation [e])) w = (rb, res, w1)"
    by (metis surj_pair)
  then have "w' = save_result (rolled_back_result rb (new_result now run ''failed'' False files no_post_validation [e])) w1"
    using assms(1) by (auto simp: fail_run_def Let_def)
  then show ?thesis using roll_back_ok [OF rb assms(2)] by (simp add: patch_ok_def)
qed

lemma run_patch_ok:
  assumes "run_patch env uid now plan run w = (r, w')" and "patch_ok w"
  shows "patch_ok w'"
proof -
  let ?run1 = "run\<lparr>ar_run_status := ''running'', ar_run_updated_at := now\<rparr>"
  obtain w1 where start: "start_run (uid 1) now run w = (?run1, w1)" and runs: "pa_runs w1 = pa_runs (save_run ?run1 w)"
    by (simp add: start_run_def Let_def)
  have "patch_ok (save_run ?run1 w)" using assms(2) by (rule patch_ok_save) simp
  then have w1: "patch_ok w1" using runs patch_ok_runs by blast
  obtain out w2 where eng: "engine_apply env (\<lambda>i. uid (i + 3)) now plan (ar_apply_run_id run) w1 = (out, w2)" by force
  then have "pa_runs w2 = pa_runs w1"
    by (intro same_rest_runs) (auto dest: apply_files_frame simp: engine_apply_def)
  then have w2: "patch_ok w2" using w1 by (rule patch_ok_runs)
  show ?thesis
  proof (cases out)
    case (Inl e)
    then have "fail_run env now ?run1 [] e w2 = (r, w')" using assms(1) eng start by (simp add: run_patch_def)
    then show ?thesis using w2 by (rule fail_run_ok)
  next
    case (Inr files)
    let ?run2 = "?run1\<lparr>ar_backup_ids := backup_ids_of files\<rparr>"
    have eq: "finish_run env (uid 2) now plan ?run1 files w2 = (r, w')" using assms(1) eng Inr start by (simp add: run_patch_def)
    show ?thesis
    proof (cases "post_validate env plan (ar_apply_run_id run) files w2")
      case (Inl e)
      then have "fail_run env now ?run2 files e w2 = (r, w')"
        using eq by (simp add: finish_run_def Let_def backup_ids_of_def)
      then show ?thesis using w2 by (rule fail_run_ok)
    next
      case post: (Inr post)
      show ?thesis
      proof (cases "po_passed post")
        case True
        let ?run3 = "?run2\<lparr>ar_run_status := ''completed'', ar_result_id := Some (ar_apply_run_id run), ar_run_updated_at := now\<rparr>"
        have "patch_ok (save_run ?run3 w2)" using w2 by (rule patch_ok_save) simp
        moreover have "pa_runs w' = pa_runs (save_run ?run3 w2)"
          using eq post True by (auto simp: finish_run_def Let_def backup_ids_of_def)
        ultimately show ?thesis using patch_ok_runs by blast
      next
        case False
        obtain rb res w3 where rb: "roll_back env ?run2 (Some (new_result now ?run2 ''failed'' False files post [])) w2 = (rb, res, w3)"
          by (metis surj_pair)
        then have "w' = w3" using eq post False by (simp add: finish_run_def Let_def backup_ids_of_def)
        then show ?thesis using roll_back_ok [OF rb w2] by simp
      qed
    qed
  qed
qed

lemma execute_ok:
  assumes "execute env uid now i w = (out, w')" and "patch_ok w"
  shows "patch_ok w'"
  using assms(1)
proof (cases rule: execute_cases)
  case kept
  then show ?thesis using assms(2) patch_ok_save patch_ok_runs by auto
next
  case (ran run plan guard w1 r)
  have "pa_runs w1 = pa_runs w" using arg_cong [OF guard_validate_world [OF ran(5)], of pa_runs] by simp
  then have "patch_ok w1" using assms(2) by (rule patch_ok_runs)
  with ran(7) show ?thesis by (rule run_patch_ok)
qed

text \<open>The calls of the service, and a decision on an approval between them.\<close>

inductive patch_step :: "patch_env \<Rightarrow> patch_world \<Rightarrow> patch_world \<Rightarrow> bool" for env where
  step_request: "request_patch_approval env gate uid now i who reason w = (out, w') \<Longrightarrow> patch_step env w w'"
| step_create: "create_run_from_plan env uid now i request w = (out, w') \<Longrightarrow> patch_step env w w'"
| step_execute: "execute env uid now i w = (out, w') \<Longrightarrow> patch_step env w w'"
| step_cancel: "cancel_run u now i w = (out, w') \<Longrightarrow> patch_step env w w'"
| step_rollback: "rollback_run env i w = (out, w') \<Longrightarrow> patch_step env w w'"
| step_decide: "decide digest uid t1 t2 aid v input (pa_approvals w) = (out, aw) \<Longrightarrow> patch_step env w (w\<lparr>pa_approvals := aw\<rparr>)"

lemma patch_step_ok: "patch_step env w w' \<Longrightarrow> patch_ok w \<Longrightarrow> patch_ok w'"
proof (induction rule: patch_step.induct)
  case (step_request gate uid now i who reason w out w')
  have "pa_runs (snd (request_patch_approval env gate uid now i who reason w)) = pa_runs w"
    by (simp add: request_patch_approval_def quality_for_request_def Let_def split: option.splits)
  then show ?case using step_request patch_ok_runs by simp
next
  case (step_create uid now i request w out w')
  obtain out1 w1 where gv: "guard_validate env (uid 0) now (map_of (pa_plans w) i) (latest_quality w i) request w = (out1, w1)" by force
  have "pa_runs w1 = pa_runs w" using arg_cong [OF guard_validate_world [OF gv], of pa_runs] by simp
  then have w1: "patch_ok w1" using step_create(2) by (rule patch_ok_runs)
  show ?case
  proof (cases out1)
    case (Inl e)
    then show ?thesis using step_create(1) gv w1 by (simp add: create_run_from_plan_def)
  next
    case (Inr g)
    let ?run = "new_run env (uid 1) now i request g w1"
    have "patch_ok (save_run ?run w1)" using w1 by (rule patch_ok_save) (simp add: new_run_def Let_def)
    moreover have "pa_runs w' = pa_runs w1 \<or> pa_runs w' = pa_runs (save_run ?run w1)"
      using step_create(1) gv Inr by (auto simp: create_run_from_plan_def Let_def split: if_splits)
    ultimately show ?thesis using w1 patch_ok_runs by blast
  qed
next
  case (step_execute uid now i w out w')
  show ?case by (rule execute_ok [OF step_execute])
next
  case (step_cancel u now i w out w')
  then show ?case
    by (auto simp: cancel_run_def Let_def patch_ok_def split: if_splits option.splits)
next
  case (step_rollback i w out w')
  show ?case
  proof (cases "valid_run_id i \<and> map_of (pa_runs w) i \<noteq> None")
    case True
    then obtain run where run: "map_of (pa_runs w) i = Some run" by auto
    obtain rb res w3 where rb: "roll_back env run (map_of (pa_results w) i) w = (rb, res, w3)" by (metis surj_pair)
    then have "w' = w3" using step_rollback(1) run True by (simp add: rollback_run_def)
    then show ?thesis using roll_back_ok [OF rb] step_rollback(2) by simp
  next
    case False
    then show ?thesis using step_rollback by (auto simp: rollback_run_def split: if_splits)
  qed
next
  case (step_decide digest uid t1 t2 aid v input w out aw)
  then show ?case by (simp add: patch_ok_def)
qed

section \<open>Properties\<close>

text \<open>
  C3. Executing a patch run changes a workspace file only if the run was ready and had no result, the
  operator confirmed it, the plan passed the quality gate, and a stored approval for patching this plan
  is approved, unexpired and names the hash of its diff and exactly its target files; and the file is a
  target of the plan, inside its workspace, neither a symbolic link nor a secret or binary file.
\<close>

theorem patch_execute_guarded:
  assumes "execute env uid now i w = (out, w')" and "file_at w' p \<noteq> file_at w p"
    and "patch_ok w" and "\<And>s. sha256 env s \<noteq> []"
  shows "\<exists>run plan a. map_of (pa_runs w) i = Some run \<and> ar_run_status run = ''ready_to_execute'' \<and>
    map_of (pa_results w) i = None \<and> authorised env now w run plan a \<and>
    p \<in> target_path ` set (pt_affected_files plan) \<and> within_root env p (pt_workspace plan) \<and>
    \<not> is_symlink env p \<and> \<not> is_secret_target p"
  using assms(1)
proof (cases rule: execute_cases)
  case kept
  then show ?thesis using assms(2) by simp
next
  case (ran run plan guard w1 r)
  have files: "pa_files w1 = pa_files w" using arg_cong [OF guard_validate_world [OF ran(5)], of pa_files] by simp
  have "ar_backup_ids (run\<lparr>ar_guard := guard\<rparr>) = []" using assms(3) ran(1,3) by (simp add: patch_ok_def)
  from run_patch_targets [OF ran(7) this] assms(2) files obtain f
    where f: "f \<in> set (pt_affected_files plan)" "p = target_path f" by auto
  obtain q a d where g: "latest_quality w (ar_plan_id run) = Some q" "pq_status q = ''passed''" "ar_operator_confirmed run"
      "map_of (aw_approvals (pa_approvals w)) (ar_approval_id run) = Some a" "aq_status a = ''approved''"
      "pt_diff_text plan = Some d" "d \<noteq> []" "guard_binding env now (Some plan) a = Inr []"
      "ofold (guard_file env w plan) (pt_affected_files plan) [] = Inr []"
    using guard_allows [OF ran(5,6) assms(4)] by auto
  have "authorised env now w run plan a"
    using g guard_binding_empty [OF g(8,6) assms(4)] ran(4)
    by (auto simp: authorised_def latest_quality_def split: option.splits)
  moreover have "guard_path env w plan f = []" using guard_files_empty [OF g(9)] f(1) by simp
  ultimately show ?thesis using ran(1,2,3) f by (auto simp: guard_path_def Let_def split: if_splits)
qed

text \<open>
  A run that reports completed has replaced the text of every target by its hunks applied to the old
  text (the empty text for a new file), and has changed nothing else.
\<close>

theorem patch_completed_exact:
  assumes "execute env uid now i w = (Inr (Some r), w')" and "map_of (pa_results w) i = None"
    and "rp_status r = ''completed''" and "map_of (pa_plans w) (rp_plan_id r) = Some plan"
    and "distinct (map target_path (pt_affected_files plan))"
  shows "(\<forall>f\<in>set (pt_affected_files plan).
       file_at w' (target_path f) = Some (patched_text env plan f (file_at w (target_path f)))) \<and>
    (\<forall>p. p \<notin> target_path ` set (pt_affected_files plan) \<longrightarrow> file_at w' p = file_at w p)"
  using assms(1)
proof (cases rule: execute_cases)
  case kept
  then show ?thesis using assms(2,3) by auto
next
  case (ran run plan' guard w1 r')
  have files: "pa_files w1 = pa_files w" using arg_cong [OF guard_validate_world [OF ran(5)], of pa_files] by simp
  have r: "r' = r" using ran(8) by simp
  from ran(7) show ?thesis
  proof (cases rule: run_patch_cases)
    case (completed fs w2 post)
    have "plan' = plan" using assms(4) ran(4) completed(5) r by (simp add: new_result_def)
    moreover have "\<forall>x\<in>set fs. fr_status x = ''completed''" by (rule post_validate_passed [OF completed(2,3)])
    ultimately show ?thesis
      using apply_files_content [OF completed(1) [unfolded engine_apply_def]] apply_files_frame [OF completed(1) [unfolded engine_apply_def]]
        assms(5) completed(4) files by (simp add: start_run_def Let_def)
  qed (use assms(3) r rolled_back_status in auto)
qed

text \<open>
  C19. When the engine has run through, the targets of the plan are distinct files, fresh identifiers differ and the result
  reports a completed rollback, every file that existed before has its old text again, as text is read: up to the translation of
  newlines. A file that changed at all holds the old text with the line separators of the platform, so where these are
  line feeds a file without carriage returns is restored to the byte.
\<close>

theorem patch_rollback_restores:
  assumes "execute env uid now i w = (Inr (Some r), w')" and "map_of (pa_results w) i = None"
    and "rp_status r = ''failed_with_rollback''" and "rp_files r \<noteq> []"
    and "map_of (pa_plans w) (rp_plan_id r) = Some plan" and "distinct (map target_path (pt_affected_files plan))"
    and "inj uid" and "linesep env \<in> {[CHR 0x0A], [CHR 0x0D, CHR 0x0A]}" and "file_at w p = Some c"
  shows "\<exists>c'. file_at w' p = Some c' \<and> read_newlines c' = read_newlines c \<and>
    (c' = c \<or> c' = write_newlines env (read_newlines c)) \<and>
    (linesep env = [CHR 0x0A] \<and> CHR 0x0D \<notin> set c \<longrightarrow> c' = c)"
proof -
  have "file_at w' p = Some c \<or> file_at w' p = Some (backup_text env c)"
    using assms(1)
  proof (cases rule: execute_cases)
    case kept
    then show ?thesis using assms(9) by simp
  next
    case (ran run plan' guard w1 r')
    have files: "pa_files w1 = pa_files w" using arg_cong [OF guard_validate_world [OF ran(5)], of pa_files] by simp
    have r: "r' = r" using ran(8) by simp
    from ran(7) show ?thesis
    proof (cases rule: run_patch_cases)
      case (rolled_back fs w2 restored failed w3 post reasons)
      let ?w1 = "snd (start_run (uid 1) now (run\<lparr>ar_guard := guard\<rparr>) w1)"
      let ?orig = "\<lambda>q. map_option (backup_text env) (file_at w q)"
      have start: "file_at ?w1 q = file_at w q" for q using files by (simp add: start_run_def Let_def)
      have plan: "plan' = plan" using assms(5) ran(4) rolled_back(4) r by (simp add: new_result_def rolled_back_result_def)
      have failed: "failed = []" using assms(3) rolled_back(4) r by (auto simp: rolled_back_result_def rollback_of_def split: if_splits)
      have inj: "inj (\<lambda>i. uid (i + 3))" using injD [OF assms(7)] by (intro injI) force
      note B = apply_files_backups [OF rolled_back(1) [unfolded engine_apply_def plan] assms(6) inj]
      have "\<forall>i\<in>set (backup_ids_of fs). \<forall>b c. get_backup w2 i (ar_apply_run_id (run\<lparr>ar_guard := guard\<rparr>)) = Some (b, c) \<longrightarrow>
          ?orig (bk_file_path b) = Some c"
        using B start by fastforce
      moreover have "?orig q = Some (backup_text env c)" if "?orig q = Some c" for q c
        using that backup_text_read(2) [OF assms(8)] by auto
      ultimately have "\<forall>i\<in>set (backup_ids_of fs). \<forall>b c. get_backup w2 i (ar_apply_run_id (run\<lparr>ar_guard := guard\<rparr>)) = Some (b, c) \<longrightarrow>
          ?orig (bk_file_path b) = Some (backup_text env c)" by blast
      note R = conjunct1 [OF restore_all_spec [OF rolled_back(2) [unfolded failed] this, of p]]
      have "file_at w2 p = Some c \<or> (\<exists>i\<in>set (backup_ids_of fs). \<exists>b.
          get_backup w2 i (ar_apply_run_id (run\<lparr>ar_guard := guard\<rparr>)) = Some (b, backup_text env c) \<and> bk_file_path b = p)"
        by (rule conjunct1 [OF conjunct2 [OF B], rule_format]) (simp only: start assms(9))
      then have "file_at w3 p = Some c \<or> file_at w3 p = Some (backup_text env c)" unfolding R using assms(9) by auto
      then show ?thesis using rolled_back(3) by simp
    qed (use assms(3,4) r in \<open>auto simp: rolled_back_result_def new_result_def\<close>)
  qed
  then show ?thesis
    using backup_text_read(1) [OF assms(8)] backup_text_id by (auto simp: backup_text_def [symmetric])
qed

text \<open>
  C31. An error inside the engine is not rolled back: the run forgets the backups it has already made, so
  the rollback restores nothing, and yet it reports that it is completed. The files keep the texts the
  engine had written before the error.
\<close>

theorem engine_error_not_rolled_back:
  assumes "engine_apply env (\<lambda>i. uid (i + 3)) now plan (ar_apply_run_id run) (snd (start_run (uid 1) now run w)) = (Inl e, w2)"
    and "ar_backup_ids run = []"
  shows "rp_status (fst (run_patch env uid now plan run w)) = ''failed_with_rollback'' \<and>
    rb_completed (rp_rollback (fst (run_patch env uid now plan run w))) \<and>
    rb_restored_files (rp_rollback (fst (run_patch env uid now plan run w))) = [] \<and>
    pa_files (snd (run_patch env uid now plan run w)) = pa_files w2"
proof -
  obtain r w' where rp: "run_patch env uid now plan run w = (r, w')" by force
  from rp show ?thesis
  proof (cases rule: run_patch_cases)
    case (engine_error e' w2' restored failed w3)
    then show ?thesis using assms rp by (simp add: rolled_back_result_def rollback_of_def)
  qed (use assms(1) in auto)
qed

text \<open>
  The guard compares the approved hash with the diff text of the plan, but what is applied are the
  hunks: replacing the replacement text of every hunk changes nothing the guard sees.
\<close>

theorem guard_ignores_replacements:
  "guard_validate env u now (Some (plan\<lparr>pt_hunks := map (\<lambda>h. h\<lparr>hunk_replacement := text h\<rparr>) (pt_hunks plan)\<rparr>)) quality request w =
   guard_validate env u now (Some plan) quality request w"
proof -
  let ?plan = "plan\<lparr>pt_hunks := map (\<lambda>h. h\<lparr>hunk_replacement := text h\<rparr>) (pt_hunks plan)\<rparr>"
  have "is_create_file_plan ?plan = is_create_file_plan plan"
    by (simp add: is_create_file_plan_def Let_def fun_eq_iff filter_map comp_def list_all_iff)
  then have "guard_file env w ?plan = guard_file env w plan"
    by (simp add: guard_file_def guard_path_def fun_eq_iff Let_def)
  moreover have "guard_binding env now (Some ?plan) = guard_binding env now (Some plan)"
    by (simp add: guard_binding_def diff_hash_of_def target_files_of_def fun_eq_iff)
  moreover have "guard_approval env u now (Some ?plan) request v = guard_approval env u now (Some plan) request v" for v
    unfolding guard_approval_def by (simp only: calculation(2))
  moreover have "guard_static (Some ?plan) = guard_static (Some plan)"
    "guard_result env (Some ?plan) = guard_result env (Some plan)"
    by (simp_all add: guard_static_def guard_plan_def guard_result_def diff_hash_of_def target_files_of_def fun_eq_iff)
  ultimately show ?thesis unfolding guard_validate_def by simp
qed

section \<open>A worked example\<close>

text \<open>Two files, \<open>/w/a\<close> and \<open>/w/b\<close>; a text with an \<open>s\<close> counts as secret, one with \<open>!\<close> as ill-formed.\<close>

definition example_env :: patch_env where
  "example_env = \<lparr>sha256 = (\<lambda>s. CHR ''#'' # s), has_secret = (\<lambda>s. CHR ''s'' \<in> set s),
     static_syntax = (\<lambda>files. (list_all (\<lambda>(p, c). CHR ''!'' \<notin> set c) files, [])), within_root = (\<lambda>p r. True),
     is_symlink = (\<lambda>p. False), is_dir = (\<lambda>p. False), write_error = (\<lambda>p. None), hash_error = (\<lambda>p. None),
     read_error = (\<lambda>p. []), linesep = [LF], utf8_size = length, create_file_allowed = True\<rparr>"

definition example_uid :: "nat \<Rightarrow> str" where
  "example_uid n = replicate n (CHR ''1'')"

definition example_target :: "char \<Rightarrow> affected_file" where
  "example_target c = \<lparr>af_path = [c], af_normalized_path = Some (''/w/'' @ [c]), af_relative_path = None, af_original_hash = None\<rparr>"

definition example_hunk :: "char \<Rightarrow> str \<Rightarrow> patch_hunk" where
  "example_hunk c new = \<lparr>hunk_id = [c], hunk_file_path = [c], hunk_original = ''x'', hunk_replacement = new\<rparr>"

definition example_patch :: "str \<Rightarrow> patch_plan" where
  "example_patch new = \<lparr>pt_plan_id = ''p'', pt_workspace = ''/w'',
     pt_affected_files = [example_target CHR ''a'', example_target CHR ''b''],
     pt_hunks = [example_hunk CHR ''a'' ''y'', example_hunk CHR ''b'' new], pt_diff_text = Some ''d'', pt_risk_level = ''low''\<rparr>"

definition example_quality :: patch_quality where
  "example_quality = \<lparr>pq_quality_id = ''q'', pq_status = ''passed''\<rparr>"

definition example_patch_run :: patch_apply_run where
  "example_patch_run = \<lparr>ar_apply_run_id = ''patch_apply_run_1'', ar_plan_id = ''p'', ar_quality_id = ''q'',
     ar_approval_id = ''approval_1'', ar_run_status = ''ready_to_execute'', ar_workspace = ''/w'', ar_operator_confirmed = True,
     ar_diff_hash = ''#d'', ar_target_files = [''a'', ''b''], ar_original_hashes = [], ar_backup_ids = [],
     ar_guard = guard_result example_env None None \<lparr>px_approval_id = None, px_operator_confirmed = True\<rparr> [],
     ar_result_id = None, ar_run_created_at = 0, ar_run_updated_at = 0, ar_blocked_reasons = [], ar_trace = []\<rparr>"

definition example_patch_world :: "str \<Rightarrow> str \<Rightarrow> patch_world" where
  "example_patch_world new b = \<lparr>pa_approvals = \<lparr>pw_drafts = [], pw_previews = [], pw_preview_events = [],
       aw_approvals = [(''approval_1'', (patch_approval ''1'' 0 (example_patch new) example_quality ''#d'' None [])
          \<lparr>aq_status := ''approved''\<rparr>)], aw_events = [], aw_artifacts = []\<rparr>,
     pa_plans = [(''p'', example_patch new)], pa_quality = [(''p'', example_quality)],
     pa_files = [(''/w/a'', ''x''), (''/w/b'', b)], pa_backups = [], pa_runs = [(''patch_apply_run_1'', example_patch_run)],
     pa_results = [], pa_events = [], pa_traces = []\<rparr>"

definition example_execute :: "str \<Rightarrow> str \<Rightarrow> patch_apply_result option outcome \<times> patch_world" where
  "example_execute new b = execute example_env example_uid 5 ''patch_apply_run_1'' (example_patch_world new b)"

definition example_view :: "patch_apply_result option outcome \<times> patch_world \<Rightarrow> (str \<times> str \<times> bool \<times> str dict) option" where
  "example_view x = (case x of
     (Inr (Some r), w') \<Rightarrow> Some (rp_status r, rp_plan_id r, rp_files r \<noteq> [], pa_files w') | _ \<Rightarrow> None)"

lemma example_view_Some:
  assumes "example_view x = Some (st, i, fs, files)"
  obtains r w' where "x = (Inr (Some r), w')" "rp_status r = st" "rp_plan_id r = i" "fs = (rp_files r \<noteq> [])" "pa_files w' = files"
  using assms by (auto simp: example_view_def split: prod.splits sum.splits option.splits)

lemma example_completed: "example_view (example_execute ''y'' ''x'') = Some (''completed'', ''p'', True, [(''/w/a'', ''y''), (''/w/b'', ''y'')])"
  by code_simp

lemma example_rolled_back: "example_view (example_execute ''!'' ''x'') = Some (''failed_with_rollback'', ''p'', True, [(''/w/a'', ''x''), (''/w/b'', ''x'')])"
  by code_simp

text \<open>The carriage return of the second file is lost by the rollback, which reports that it is completed.\<close>

lemma rollback_loses_carriage_return:
  "example_view (example_execute ''!'' (CHR ''x'' # [CR, LF])) =
     Some (''failed_with_rollback'', ''p'', True, [(''/w/a'', ''x''), (''/w/b'', CHR ''x'' # [LF])])"
  by code_simp

lemma example_error: "example_view (example_execute ''y'' ''xs'') = Some (''failed_with_rollback'', ''p'', False, [(''/w/a'', ''y''), (''/w/b'', ''xs'')])"
  by code_simp

lemma example_patch_ok: "patch_ok (example_patch_world new b)"
  by (simp add: patch_ok_def example_patch_world_def example_patch_run_def)

lemma example_uid_inj: "inj example_uid"
  by (rule injI) (metis example_uid_def length_replicate)

lemma example_linesep: "linesep example_env \<in> {[CHR 0x0A], [CHR 0x0D, CHR 0x0A]}"
  by (simp add: example_env_def)

lemma example_sha: "sha256 example_env s \<noteq> []"
  by (simp add: example_env_def)

lemma example_targets: "distinct (map target_path (pt_affected_files (example_patch new)))"
  "map_of (pa_plans (example_patch_world new b)) ''p'' = Some (example_patch new)"
  "map_of (pa_results (example_patch_world new b)) i = None"
  "file_at (example_patch_world new b) ''/w/a'' = Some ''x''"
  by (simp_all add: example_patch_def example_target_def target_path_def example_patch_world_def)

theorem example_guarded_witness:
  "\<exists>run plan a. map_of (pa_runs (example_patch_world ''y'' ''x'')) ''patch_apply_run_1'' = Some run \<and>
     ar_run_status run = ''ready_to_execute'' \<and> map_of (pa_results (example_patch_world ''y'' ''x'')) ''patch_apply_run_1'' = None \<and>
     authorised example_env 5 (example_patch_world ''y'' ''x'') run plan a \<and>
     ''/w/a'' \<in> target_path ` set (pt_affected_files plan) \<and> within_root example_env ''/w/a'' (pt_workspace plan) \<and>
     \<not> is_symlink example_env ''/w/a'' \<and> \<not> is_secret_target ''/w/a''"
proof -
  obtain r w' where x: "example_execute ''y'' ''x'' = (Inr (Some r), w')" "pa_files w' = [(''/w/a'', ''y''), (''/w/b'', ''y'')]"
    by (rule example_view_Some [OF example_completed]) blast
  show ?thesis
    by (rule patch_execute_guarded [OF x(1) [unfolded example_execute_def] _ example_patch_ok example_sha])
      (simp add: x(2) example_targets(4))
qed

theorem example_completed_witness:
  "\<exists>r w'. example_execute ''y'' ''x'' = (Inr (Some r), w') \<and>
     file_at w' ''/w/a'' = Some (patched_text example_env (example_patch ''y'') (example_target CHR ''a'') (Some ''x''))"
proof -
  obtain r w' where x: "example_execute ''y'' ''x'' = (Inr (Some r), w')" "rp_status r = ''completed''" "rp_plan_id r = ''p''"
    by (rule example_view_Some [OF example_completed]) blast
  have "map_of (pa_plans (example_patch_world ''y'' ''x'')) (rp_plan_id r) = Some (example_patch ''y'')"
    unfolding x(3) by (rule example_targets(2))
  from patch_completed_exact [OF x(1) [unfolded example_execute_def] example_targets(3) x(2) this example_targets(1)]
  have "file_at w' (target_path (example_target CHR ''a'')) = Some (patched_text example_env (example_patch ''y'') (example_target CHR ''a'')
      (file_at (example_patch_world ''y'' ''x'') (target_path (example_target CHR ''a''))))"
    by (simp add: example_patch_def)
  moreover have "target_path (example_target CHR ''a'') = ''/w/a''" by (simp add: target_path_def example_target_def)
  ultimately show ?thesis using x(1) example_targets(4) by auto
qed

theorem example_rollback_witness:
  "\<exists>r w'. example_execute ''!'' ''x'' = (Inr (Some r), w') \<and> rp_status r = ''failed_with_rollback'' \<and> file_at w' ''/w/a'' = Some ''x''"
proof -
  obtain r w' where x: "example_execute ''!'' ''x'' = (Inr (Some r), w')" "rp_status r = ''failed_with_rollback''"
      "rp_plan_id r = ''p''" "rp_files r \<noteq> []"
    by (rule example_view_Some [OF example_rolled_back]) blast
  have "map_of (pa_plans (example_patch_world ''!'' ''x'')) (rp_plan_id r) = Some (example_patch ''!'')"
    unfolding x(3) by (rule example_targets(2))
  from patch_rollback_restores [OF x(1) [unfolded example_execute_def] example_targets(3) x(2,4) this example_targets(1)
      example_uid_inj example_linesep example_targets(4)]
  have "file_at w' ''/w/a'' = Some ''x''" by (auto simp: example_env_def)
  then show ?thesis using x(1,2) by blast
qed

definition example_engine :: "(patch_file_result list outcome) \<times> patch_world" where
  "example_engine = engine_apply example_env (\<lambda>i. example_uid (i + 3)) 5 (example_patch ''y'') (ar_apply_run_id example_patch_run)
     (snd (start_run (example_uid 1) 5 example_patch_run (example_patch_world ''y'' ''xs'')))"

theorem example_error_witness:
  "rp_status (fst (run_patch example_env example_uid 5 (example_patch ''y'') example_patch_run (example_patch_world ''y'' ''xs''))) =
     ''failed_with_rollback'' \<and>
   pa_files (snd (run_patch example_env example_uid 5 (example_patch ''y'') example_patch_run (example_patch_world ''y'' ''xs''))) =
     [(''/w/a'', ''y''), (''/w/b'', ''xs'')]"
proof -
  have e: "fst example_engine = Inl ''backup_secret_file_blocked''" by code_simp
  have files: "pa_files (snd example_engine) = [(''/w/a'', ''y''), (''/w/b'', ''xs'')]" by code_simp
  have eng: "example_engine = (Inl ''backup_secret_file_blocked'', snd example_engine)" using e by (metis prod.collapse)
  have "ar_backup_ids example_patch_run = []" by (simp add: example_patch_run_def)
  from engine_error_not_rolled_back [OF eng [unfolded example_engine_def] this]
  show ?thesis unfolding files [unfolded example_engine_def] by blast
qed

end
