(* ===== verification/Approval_Histories.thy ===== *)
theory Approval_Histories
  imports Approvals
begin

text \<open>
  What happens to stored approvals over sequences of calls: those of \<open>ApprovalService\<close>, those of
  \<open>services/approvals/approval_task_continuation_service.py\<close>, which writes the outcome of a run into the approval that
  released it, and the approvals that other services store and annotate. The task runtime is an argument.
\<close>

section \<open>Continuation after a decision\<close>

text \<open>
  A run as the task runtime leaves it: \<open>latest\<close> of \<open>_create_run_from_approved_preview\<close>, with the reason code that
  \<open>_run_failure_details\<close> finds in its result.
\<close>

record run_outcome =
  ro_run_id :: str
  ro_task_id :: "str option"
  ro_status :: str
  ro_blocked_reasons :: "str list"
  ro_failure_reason :: "str option"

definition execution_status_for_run :: "str \<Rightarrow> str" where
  "execution_status_for_run status =
     (if status \<in> {''completed'', ''partial''} then ''executed''
      else if status \<in> {''blocked'', ''failed'', ''cancelled'', ''expired''} then status
      else ''queued'')"

definition without_plan :: "int \<Rightarrow> str \<Rightarrow> approval_request \<Rightarrow> approval_request" where
  "without_plan now reason a =
     a\<lparr>aq_resume_status := Some ''approved_but_no_executable_plan'', aq_block_reason_code := Some reason,
       aq_execution_status := ''blocked'', aq_updated_at := now\<rparr>"

text \<open>\<open>next(iter(latest.blocked_reasons), None) or failure_details.get("reason_code")\<close>.\<close>

definition run_reason :: "run_outcome \<Rightarrow> str option" where
  "run_reason run =
     (case ro_blocked_reasons run of r # _ \<Rightarrow> if r \<noteq> [] then Some r else ro_failure_reason run | [] \<Rightarrow> ro_failure_reason run)"

definition with_run :: "int \<Rightarrow> run_outcome \<Rightarrow> approval_request \<Rightarrow> approval_request" where
  "with_run now run a =
     a\<lparr>aq_run_id := Some (ro_run_id run),
       aq_task_id := (if opt_truthy (ro_task_id run) then ro_task_id run else aq_task_id a),
       aq_resume_status := Some (ro_status run),
       aq_block_reason_code := (if ro_status run \<in> {''blocked'', ''failed'', ''cancelled''} then run_reason run else None),
       aq_execution_status := execution_status_for_run (ro_status run), aq_updated_at := now\<rparr>"

text \<open>
  \<open>_create_run_from_approved_preview\<close>, with the reason code of its result. \<open>runtime\<close> is \<open>create_from_preview\<close> with the
  following \<open>process_queue\<close>; it may raise, and may itself call the approval service. The approval that is saved is the object the
  caller holds, not the one stored by then.
\<close>

definition create_run_from_approved_preview ::
  "(json \<Rightarrow> str) \<Rightarrow> (str \<Rightarrow> bool) \<Rightarrow> str \<Rightarrow> int \<Rightarrow> (approval_world \<Rightarrow> run_outcome outcome \<times> approval_world) \<Rightarrow>
     approval_request \<Rightarrow> approval_world \<Rightarrow> str option \<times> approval_world" where
  "create_run_from_approved_preview render is_dir u now runtime a w =
     (if aq_preview_id a = [] then (None, w)
      else
        let plan = validate_draft render is_dir (map_of (pw_drafts w) (aq_draft_id a))
        in if \<not> pv_valid plan then
             (Some ''approved_but_no_executable_plan'',
              append_event u now (aq_approval_id a) ''approval_approved_but_no_executable_plan''
                ''Approval aprovado, mas a execucao nao foi iniciada porque o preview nao contem plano executavel.''
                [(''preview_id'', JStr (aq_preview_id a)), (''draft_id'', JStr (aq_draft_id a)),
                 (''reason_code'', JStr (pv_reason_code plan)), (''files_written'', JBool False)]
                (save_approval (without_plan now (pv_reason_code plan) a) w))
           else
             case runtime w of
               (Inl e, w1) \<Rightarrow> (Some ''approved_preview_task_run_creation_failed'', w1)
             | (Inr run, w1) \<Rightarrow> (Some ''task_run_created_from_approved_preview'', save_approval (with_run now run a) w1))"

text \<open>
  \<open>after_decision\<close>, as far as approvals are concerned: an approval that is linked to a run, or was not approved, only leads
  to changes in the task run store.
\<close>

definition after_decision ::
  "bool \<Rightarrow> (json \<Rightarrow> str) \<Rightarrow> (str \<Rightarrow> bool) \<Rightarrow> str \<Rightarrow> int \<Rightarrow> (approval_world \<Rightarrow> run_outcome outcome \<times> approval_world) \<Rightarrow>
     approval_request \<Rightarrow> approval_world \<Rightarrow> str option \<times> approval_world" where
  "after_decision enabled render is_dir u now runtime a w =
     (if aq_status a \<noteq> ''approved'' then (None, w)
      else if \<not> enabled then (Some ''approval_resume_disabled_by_config'', w)
      else if opt_truthy (aq_run_id a) \<or> opt_truthy (aq_task_id a) then (None, w)
      else case create_run_from_approved_preview render is_dir u now runtime a w of
             (None, w') \<Rightarrow> (Some ''approval_not_linked_to_task_run'', w')
           | (Some code, w') \<Rightarrow> (Some code, w'))"

section \<open>Histories\<close>

text \<open>
  One call. An approval identifier is drawn from \<open>uuid4\<close> wherever one is made, so that a creation finds it unused:
  \<open>step_create\<close> is the creation of the approval service, \<open>step_store\<close> that of the bridges (artifacts, patches, memory,
  configuration, workspace flows, tools, shell). \<open>step_annotate\<close> is what the chat and the rebuild preview
  write into an approval they have just asked for. In \<open>step_continue\<close> an approval that was read from the store is continued, while
  the runtime makes any sequence of calls.
\<close>

inductive approval_step ::
  "(json \<Rightarrow> str) \<Rightarrow> (str \<Rightarrow> bool) \<Rightarrow> (json \<Rightarrow> str) \<Rightarrow> approval_policy \<Rightarrow> preview_policy \<Rightarrow> approval_world \<Rightarrow> approval_world \<Rightarrow> bool"
  for render is_dir digest pol pp where
  step_preview: "create_preview_from_draft render is_dir digest pp uid now did w = Inr (p, w') \<Longrightarrow>
    approval_step render is_dir digest pol pp w w'"
| step_create: "map_of (aw_approvals w) (''approval_'' @ uid 0) = None \<Longrightarrow>
    create_approval_for_preview render is_dir digest pol uid now pid actions who reason w = (r, w') \<Longrightarrow>
    approval_step render is_dir digest pol pp w w'"
| step_store: "map_of (aw_approvals w) (aq_approval_id a) = None \<Longrightarrow>
    approval_step render is_dir digest pol pp w (save_approval a w)"
| step_annotate: "map_of (aw_approvals w) aid = Some a \<Longrightarrow>
    approval_step render is_dir digest pol pp w (save_approval (a\<lparr>aq_commands := cmds, aq_session_id := sess\<rparr>) w)"
| step_list: "list_approvals uid now status session limit w = (r, w') \<Longrightarrow> approval_step render is_dir digest pol pp w w'"
| step_attach: "attach_runtime_context render uid now aid run task path plan w = (r, w') \<Longrightarrow>
    approval_step render is_dir digest pol pp w w'"
| step_decide: "decide digest uid t1 t2 aid v i w = (d, w') \<Longrightarrow> approval_step render is_dir digest pol pp w w'"
| step_batch: "decide_batch digest pol buid clk ids v who reason scope safe_only w = (b, w') \<Longrightarrow>
    approval_step render is_dir digest pol pp w w'"
| step_refresh: "refresh_policy render is_dir digest pp uid now aid w = (f, w') \<Longrightarrow>
    approval_step render is_dir digest pol pp w w'"
| step_continue: "map_of (aw_approvals w) aid = Some a \<Longrightarrow>
    (approval_step render is_dir digest pol pp)\<^sup>*\<^sup>* w (snd (runtime w)) \<Longrightarrow>
    after_decision enabled render is_dir u now runtime a w = (c, w') \<Longrightarrow> approval_step render is_dir digest pol pp w w'"

lemma store_advances:
  assumes "approvals_keyed w" and "map_of (aw_approvals w) (aq_approval_id a) = None"
    and "aw_approvals w' = put_approval a (aw_approvals w)"
  shows "advances w w'"
proof -
  have look: "map_of (aw_approvals w') x = (if x = aq_approval_id a then Some a else map_of (aw_approvals w) x)" for x
    by (simp add: assms(3) approval_store.lookup_save)
  have "distinct (map fst (aw_approvals w'))"
    using assms(1) by (simp add: assms(3) approvals_keyed_def put_approval_def distinct_update)
  moreover have "aq_approval_id b = x" if "map_of (aw_approvals w') x = Some b" for x b
    using that assms(1) unfolding look approvals_keyed_def by (metis option.inject)
  ultimately have "approvals_keyed w'" unfolding approvals_keyed_def by blast
  moreover have "\<exists>b'. map_of (aw_approvals w') x = Some b' \<and> evolves_to b b'" if "map_of (aw_approvals w) x = Some b" for x b
    using that assms(2) by (auto simp: look)
  ultimately show ?thesis unfolding advances_def by blast
qed

lemma create_advances:
  assumes "approvals_keyed w" and "map_of (aw_approvals w) (''approval_'' @ uid 0) = None"
    and "create_approval_for_preview render is_dir digest pol uid now pid actions who reason w = (r, w')"
  shows "advances w w'"
  using assms(3)
proof (cases rule: create_approval_cases)
  case (refused e)
  then show ?thesis using assms(1) by (intro advances_same)
next
  case (created p requested dr)
  let ?a = "new_approval render digest pol (uid 0) now p (Some dr) (validate_draft render is_dir (Some dr)) requested who reason"
  have "aq_approval_id ?a = ''approval_'' @ uid 0" by (simp add: new_approval_def Let_def)
  then show ?thesis using store_advances [OF assms(1), of ?a] assms(2) created(5) by simp
qed

text \<open>The approval a continuation saves: of an approved one, whatever the runtime has done to the stored one meanwhile.\<close>

lemma continued_advances:
  assumes "approvals_keyed w" and "map_of (aw_approvals w) aid = Some a" and "aq_status a = ''approved''" and "advances w w1"
    and "a' = without_plan now reason a \<or> a' = with_run now run a" and "aw_approvals w' = put_approval a' (aw_approvals w1)"
  shows "advances w w'"
proof -
  from assms(2,4) obtain b where b: "map_of (aw_approvals w1) aid = Some b" and e: "evolves_to a b"
    unfolding advances_def by blast
  from e assms(3) have "aq_status b = ''approved''"
    using approval_life.path_from_final [of "''approved''" "aq_status b"] by (auto simp: evolves_to_def terminal_def TERMINAL_def)
  moreover have "aq_status a' = ''approved''" using assms(3,5) by (auto simp: without_plan_def with_run_def)
  ultimately have "evolves_to b a'"
    using e assms(5) by (auto simp: evolves_to_def without_plan_def with_run_def approval_life.path_refl)
  from advances_save(1) [OF advances_keyed [OF assms(4)] b this assms(6)] show ?thesis by (rule advances_trans [OF assms(4)])
qed

lemma after_decision_advances:
  assumes "approvals_keyed w" and "map_of (aw_approvals w) aid = Some a" and "advances w (snd (runtime w))"
    and "after_decision enabled render is_dir u now runtime a w = (c, w')"
  shows "advances w w'"
proof -
  note same = advances_same [OF assms(1) refl]
  obtain r w1 where r: "runtime w = (r, w1)" by force
  consider "w' = w" | "aq_status a = ''approved''" "w' = snd (create_run_from_approved_preview render is_dir u now runtime a w)"
    using assms(4) by (auto simp: after_decision_def split: if_splits prod.splits option.splits)
  then show ?thesis
  proof cases
    case 1
    then show ?thesis using same by simp
  next
    case 2
    let ?plan = "validate_draft render is_dir (map_of (pw_drafts w) (aq_draft_id a))"
    consider "w' = w" | "aw_approvals w' = put_approval (without_plan now (pv_reason_code ?plan) a) (aw_approvals w)" | "w' = w1"
      | run where "aw_approvals w' = put_approval (with_run now run a) (aw_approvals w1)"
      using 2(2) r by (auto simp: create_run_from_approved_preview_def Let_def append_event_def save_approval_def
          split: if_splits sum.splits)
    then show ?thesis
      using same assms(3) continued_advances [OF assms(1,2) 2(1) same disjI1 [OF refl]]
        continued_advances [OF assms(1,2) 2(1) assms(3) disjI2 [OF refl]]
      unfolding r snd_conv by cases blast+
  qed
qed

lemma approval_step_advances: "approval_step render is_dir digest pol pp w w' \<Longrightarrow> approvals_keyed w \<Longrightarrow> advances w w'"
proof (induction rule: approval_step.induct)
  case (step_preview uid now did w p w')
  then show ?case using advances_same create_preview_frame by blast
next
  case (step_create w uid now pid actions who reason r w')
  then show ?case using create_advances by blast
next
  case (step_store w a)
  then show ?case using store_advances [of w a] by (simp add: save_approval_def)
next
  case (step_annotate w aid a sess cmds)
  let ?a = "a\<lparr>aq_commands := cmds, aq_session_id := sess\<rparr>"
  have "evolves_to a ?a" by (simp add: evolves_to_def approval_life.path_refl)
  then show ?case using advances_save(1) [OF step_annotate(2,1), of ?a] by (simp add: save_approval_def)
next
  case (step_list uid now status session limit w r w')
  then show ?case using list_approvals_advances by blast
next
  case (step_attach uid now aid run task path plan w r w')
  then show ?case using attach_advances by blast
next
  case (step_decide uid t1 t2 aid v i w d w')
  then show ?case using decide_advances by blast
next
  case (step_batch buid clk ids v who reason scope safe_only w b w')
  then show ?case using decide_batch_advances by blast
next
  case (step_refresh uid now aid w f w')
  then show ?case using refresh_advances by blast
next
  case (step_continue w aid a runtime enabled u now c w')
  from step_continue.IH step_continue.prems have "advances w (snd (runtime w))"
    by (induction rule: rtranclp_induct) (auto simp: advances_same intro: advances_trans dest: advances_keyed)
  then show ?case using after_decision_advances step_continue.hyps step_continue.prems by blast
qed

lemma approval_steps_advances:
  "(approval_step render is_dir digest pol pp)\<^sup>*\<^sup>* w w' \<Longrightarrow> approvals_keyed w \<Longrightarrow> advances w w'"
proof (induction rule: rtranclp_induct)
  case base
  then show ?case by (simp add: advances_same)
next
  case (step v u)
  then show ?case using advances_trans approval_step_advances advances_keyed by blast
qed

section \<open>Properties\<close>

text \<open>
  C11. Whatever sequence of calls follows, of the approval service, of the continuation after a decision and of the services
  that store approvals under fresh identifiers, a decided, expired or invalidated approval keeps its status, and every approval keeps
  what was asked: its draft, its actions, its policy snapshot and its expiry. An approval that is not executed is given another
  execution status only when it is approved: one that is pending, rejected, cancelled, expired or invalidated never
  counts as executed.
\<close>

theorem approval_decision_final:
  assumes "(approval_step render is_dir digest pol pp)\<^sup>*\<^sup>* w w'" and "approvals_keyed w"
    and "map_of (aw_approvals w) aid = Some a"
  shows "\<exists>a'. map_of (aw_approvals w') aid = Some a' \<and>
    (aq_status a \<in> set TERMINAL \<longrightarrow> aq_status a' = aq_status a) \<and>
    aq_draft_id a' = aq_draft_id a \<and> aq_actions_requested a' = aq_actions_requested a \<and>
    aq_policy_snapshot a' = aq_policy_snapshot a \<and> aq_expires_at a' = aq_expires_at a \<and>
    (aq_execution_status a = ''not_executed'' \<and> aq_status a' \<noteq> ''approved'' \<longrightarrow> aq_execution_status a' = ''not_executed'')"
proof -
  from approval_steps_advances [OF assms(1,2)] assms(3) obtain a'
    where a': "map_of (aw_approvals w') aid = Some a'" and e: "evolves_to a a'"
    unfolding advances_def by blast
  from e have "aq_status a \<in> set TERMINAL \<Longrightarrow> aq_status a' = aq_status a"
    using approval_life.path_from_final by (simp add: evolves_to_def terminal_def)
  with a' e show ?thesis by (auto simp: evolves_to_def)
qed

section \<open>A worked example\<close>

text \<open>The second approval is approved and continued into a completed run; a late rejection changes nothing.\<close>

definition example_run_outcome :: run_outcome where
  "example_run_outcome = \<lparr>ro_run_id = ''run_1'', ro_task_id = Some ''t1'', ro_status = ''completed'', ro_blocked_reasons = [],
     ro_failure_reason = None\<rparr>"

definition example_granted :: approval_request where
  "example_granted = decided_approval 1 Approved example_input example_approval"

definition example_granted_world :: approval_world where
  "example_granted_world = record_decision (\<lambda>_. ''x'') 1 Approved example_input example_granted example_asked"

definition example_continued :: approval_world where
  "example_continued = snd (after_decision True no_text no_dir ''u'' 2 (\<lambda>w. (Inr example_run_outcome, w)) example_granted example_granted_world)"

lemma example_granted_lookup: "map_of (aw_approvals example_granted_world) ''approval_2'' = Some example_granted"
  by (simp add: example_granted_world_def record_decision_frame approval_store.lookup_save example_granted_def
      decided_approval_def example_approval_def)

lemma example_granted_keyed: "approvals_keyed example_granted_world"
proof -
  have "decide some_hash (\<lambda>_. ''x'') 1 1 ''approval_2'' Approved example_input example_asked =
      (Inr (decision_record some_hash Approved example_input example_granted, example_granted), example_granted_world)"
    using decide_live [OF example_asked_decidable(2)] by (simp add: example_granted_def example_granted_world_def)
  from decide_advances [OF example_asked_keyed(2) this] show ?thesis by (rule advances_keyed)
qed

lemma example_continued_status:
  "map_option aq_execution_status (map_of (aw_approvals example_continued) ''approval_2'') = Some ''executed''"
  by code_simp

theorem example_final_witness:
  "\<exists>a a'. map_of (aw_approvals example_granted_world) ''approval_2'' = Some a \<and> aq_status a = ''approved'' \<and>
     map_of (aw_approvals (snd (reject some_hash (\<lambda>_. ''y'') 3 3 ''approval_2'' example_input example_continued))) ''approval_2'' = Some a' \<and>
     aq_status a' = ''approved'' \<and> aq_actions_requested a' = [''create_file'']"
proof -
  let ?step = "approval_step no_text no_dir some_hash example_policy example_preview_policy"
  let ?w = "snd (reject some_hash (\<lambda>_. ''y'') 3 3 ''approval_2'' example_input example_continued)"
  have f: "aq_status example_granted = ''approved''" "aq_actions_requested example_granted = [''create_file'']"
    by (simp_all add: example_granted_def decided_approval_def example_approval_def)
  have "?step example_granted_world example_continued"
    by (rule step_continue [OF example_granted_lookup, where runtime = "\<lambda>w. (Inr example_run_outcome, w)" and enabled = True
          and u = "''u''" and now = 2]) (simp_all add: example_continued_def prod_eq_iff)
  moreover have "?step example_continued ?w"
    by (rule step_decide [of some_hash "\<lambda>_. ''y''" 3 3 "''approval_2''" Rejected example_input]) (simp add: reject_def prod_eq_iff)
  ultimately have "?step\<^sup>*\<^sup>* example_granted_world ?w" by (meson converse_rtranclp_into_rtranclp rtranclp.rtrancl_refl)
  from approval_decision_final [OF this example_granted_keyed example_granted_lookup] f example_granted_lookup
  show ?thesis by (auto simp: TERMINAL_def)
qed

end
