(* ===== verification/Queue_Returns.thy ===== *)
theory Queue_Returns
  imports Queue_Safety
begin

text \<open>
  A reconciliation of the queue returns. Two things can make it raise: the artifact event of a running run with
  a time stamp that cannot be read, and an approval file that cannot be read. Time stamps are kept readable by every call of
  the store, which is a contract of the store; then no phase raises and the capacity of the queue holds afterwards.
\<close>

section \<open>Readable time stamps\<close>

definition times_readable :: "store_env \<Rightarrow> task_store \<Rightarrow> bool" where
  "times_readable env st \<longleftrightarrow> (\<forall>rid. \<forall>e \<in> set (get_task_events rid st). se_parse_time env (te_timestamp e) \<noteq> None)"

text \<open>What is written now can be read, so a call that stamps its events with the present time keeps the log readable.\<close>

definition keeps_times :: "store_env \<Rightarrow> task_store \<Rightarrow> task_store \<Rightarrow> bool" where
  "keeps_times env st st' \<longleftrightarrow>
     (se_parse_time env (se_now env) \<noteq> None \<longrightarrow> times_readable env st \<longrightarrow> times_readable env st')"

named_theorems times \<open>calls of the store and the relation \<open>keeps_times\<close>\<close>

lemma keeps_times_refl [times]: "keeps_times env st st"
  by (simp add: keeps_times_def)

lemma keeps_times_trans: "keeps_times env s t \<Longrightarrow> keeps_times env t u \<Longrightarrow> keeps_times env s u"
  by (simp add: keeps_times_def)

interpretation times_contract: store_contract "keeps_times env" for env
  by unfold_locales (rule keeps_times_refl, rule keeps_times_trans)

lemma keeps_times_same: "ts_events st' = ts_events st \<Longrightarrow> keeps_times env st st'"
  by (simp add: keeps_times_def times_readable_def get_task_events_def)

lemma keeps_times_put [times]: "keeps_times env st (put_run r st)"
  by (rule keeps_times_same) (simp add: put_run_def)

lemma keeps_times_store_event: "te_timestamp e = se_now env \<Longrightarrow> keeps_times env st (snd (store_event rid e st))"
  by (auto simp: keeps_times_def times_readable_def store_event_events split: if_splits)

lemma new_event_time:
  assumes "new_event env rid type status message md st = (e, st1)"
  shows "te_timestamp e = se_now env" and "keeps_times env st st1"
  using assms by (auto simp: new_event_def intro: keeps_times_same)

lemma keeps_times_ignored [times]: "keeps_times env st (append_terminalization_ignored env rid attempted reason term st)"
proof -
  have "keeps_times env st (snd (store_event rid e st1))"
    if "new_event env rid type status message md st = (e, st1)" for type status message md e st1
    by (rule keeps_times_trans [OF new_event_time(2) [OF that] keeps_times_store_event [OF new_event_time(1) [OF that]]])
  then show ?thesis
    unfolding append_terminalization_ignored_def by (auto intro: keeps_times_refl split: option.splits prod.splits)
qed

lemma keeps_times_append: "te_timestamp e = se_now env \<Longrightarrow> keeps_times env st (snd (append_task_event env rid e st))"
  by (simp add: append_task_event_def Let_def keeps_times_ignored keeps_times_store_event split: option.split)

lemma keeps_times_append_new [times]: "keeps_times env st (append_new_event env rid type status message md st)"
proof -
  obtain e st1 where n: "new_event env rid type status message md st = (e, st1)" by fastforce
  then show ?thesis
    using keeps_times_trans [OF new_event_time(2) [OF n] keeps_times_append [OF new_event_time(1) [OF n]]]
    by (simp add: append_new_event_def)
qed

lemma keeps_times_create_event [times]: "keeps_times env st (snd (create_event env allowed rid type status message md st))"
proof (cases "type \<in> set allowed")
  case True
  obtain e st1 where n: "new_event env rid type status (take 1000 message) md st = (e, st1)" by fastforce
  then have "snd (create_event env allowed rid type status message md st) = snd (append_task_event env rid e st1)"
    using True by (simp add: create_event_def split: prod.split)
  then show ?thesis
    using keeps_times_trans [OF new_event_time(2) [OF n] keeps_times_append [OF new_event_time(1) [OF n]]] by simp
qed (simp add: create_event_def keeps_times_refl)

lemma keeps_times_append_if_none [times]: "keeps_times env st (append_if_none env rid saved md st)"
  by (simp add: append_if_none_def times)

lemma keeps_times_cohere [times]: "keeps_times env st (cohere_result env rid result st)"
  by (simp add: cohere_result_def Let_def times split: option.split)

lemma keeps_times_save_result [times]: "keeps_times env st (save_task_result env rid result st)"
  unfolding save_task_result_def by (rule keeps_times_trans [OF keeps_times_same keeps_times_cohere]) simp

lemma keeps_times_ensure [times]: "keeps_times env st (snd (ensure_terminal_result env rid given summary st))"
  by (simp add: ensure_terminal_result_def Let_def keeps_times_refl
      keeps_times_trans [OF keeps_times_save_result keeps_times_append_if_none] split: option.split)

lemma keeps_times_stalled [times]: "keeps_times env st (snd (terminalize_stalled env rid given source r artifact checkpoint t st))"
  unfolding terminalize_stalled_def Let_def snd_conv
  by (rule keeps_times_trans [OF keeps_times_append_new], rule keeps_times_trans [OF keeps_times_put],
      rule keeps_times_trans [OF keeps_times_save_result keeps_times_append_new])

lemma keeps_times_terminalize [times]:
  "keeps_times env st (snd (terminalize_if_artifact_creation_stalled env rid max_silence given source st))"
  by (simp add: terminalize_if_artifact_creation_stalled_def Let_def times case_prod_unfold split: option.split)

section \<open>Calls of the queue\<close>

lemma keeps_times_run_event [times]: "keeps_times (qe_store env) st (snd (create_run_event env rid type status message md st))"
  by (simp add: create_run_event_def times)

lemma keeps_times_cancel [times]: "keeps_times (qe_store env) st (snd (cancel_task env rid reason who st))"
  by (auto simp: cancel_task_def Let_def times intro!: times_contract.moves_sbind split: option.splits sum.splits)

lemma keeps_times_steps [times]:
  "keeps_times (qe_store env) st (snd (wait_steps env r st))"
  "keeps_times (qe_store env) st (snd (resume_steps env r a st))"
  "keeps_times (qe_store env) st (snd (deny_steps env r st))"
proof -
  have put: "keeps_times (qe_store env) st (snd (sbind m f (put_run r1 st)))"
    if "keeps_times (qe_store env) (put_run r1 st) (snd (sbind m f (put_run r1 st)))"
    for m :: "task_store \<Rightarrow> task_event outcome \<times> task_store" and f :: "task_event \<Rightarrow> task_store \<Rightarrow> 'x outcome \<times> task_store" and r1
    by (rule keeps_times_trans [OF keeps_times_put that])
  show "keeps_times (qe_store env) st (snd (wait_steps env r st))"
    by (auto simp: wait_steps_def times intro!: put times_contract.moves_sbind split: sum.splits)
  show "keeps_times (qe_store env) st (snd (resume_steps env r a st))"
    by (auto simp: resume_steps_def times intro!: put times_contract.moves_sbind split: sum.splits)
  have "keeps_times (qe_store env) st ((put_run r1 st)\<lparr>ts_traces := x\<rparr>)" for st r1 x
    by (rule keeps_times_same) (simp add: put_run_def)
  then show "keeps_times (qe_store env) st (snd (deny_steps env r st))"
    by (auto simp: deny_steps_def times intro!: times_contract.moves_sbind split: sum.splits)
qed

lemma keeps_times_approval: "keeps_times (qe_store env) (qs_store qs) (qs_store (snd (reconcile_approval env r qs)))"
proof -
  obtain got qs1 where g: "queue_get_approval env (the (tr_approval_id r)) qs = (got, qs1)" by fastforce
  show ?thesis
    by (simp add: reconcile_approval_def g Let_def times on_store_store queue_cancel_run_store resume_store deny_store
        get_approval_store [OF g] split: option.split sum.split)
qed

lemma keeps_times_stall: "keeps_times (qe_store env) (qs_store qs) (qs_store (snd (reconcile_stall env r qs)))"
  by (simp add: reconcile_stall_def Let_def case_prod_unfold times on_store_store split: sum.split option.split)

section \<open>No phase raises\<close>

text \<open>A loop of calls that return as long as an invariant holds, which they keep.\<close>

lemma smap_returns:
  assumes "\<And>x s. good s \<Longrightarrow> \<exists>y s'. f x s = (Inr y, s') \<and> good s'" and "good s"
  shows "\<exists>ys s'. smap f xs s = (Inr ys, s') \<and> good s'"
  using assms(2)
proof (induction xs arbitrary: s)
  case (Cons x xs)
  obtain y s1 where "f x s = (Inr y, s1)" "good s1" using assms(1) [OF Cons.prems] by blast
  moreover obtain ys s2 where "smap f xs s1 = (Inr ys, s2)" "good s2" using Cons.IH [OF \<open>good s1\<close>] by blast
  ultimately show ?case by (simp add: sbind_def)
qed simp

lemma wait_steps_returns:
  assumes "qe_lifecycle env = shipped_lifecycle" and "''run_waiting_input'' \<in> set (qe_event_types env)"
    and "tr_status r \<in> {''created'', ''queued''}"
  shows "\<exists>r' st'. wait_steps env r st = (Inr r', st')"
proof -
  have "run_can_transition shipped_lifecycle (tr_status r) ''waiting_input''" "tr_status r \<noteq> ''waiting_input''"
    using assms(3) by (auto simp: run_can_transition_def shipped_lifecycle_def)
  then obtain r1 where r1: "run_transition (qe_lifecycle env) (se_now (qe_store env)) r ''waiting_input'' = Inr r1"
    using assms(1) by (simp add: run_transition_def)
  obtain e st' where "create_run_event env (tr_run_id r) ''run_waiting_input'' ''waiting_input''
      ''TaskRun is waiting for an explicit approval decision.'' (approval_metadata r1) (put_run r1 st) = (Inr e, st')"
    using create_run_event_ok [OF assms(2)] by blast
  then show ?thesis by (simp add: wait_steps_def r1 sbind_def)
qed

text \<open>A damaged approval file is only a warning here.\<close>

lemma reconcile_approval_returns:
  assumes "qe_lifecycle env = shipped_lifecycle" and "''run_waiting_input'' \<in> set (qe_event_types env)"
  shows "\<exists>r' qs'. reconcile_approval env r qs = (Inr r', qs')"
proof -
  obtain got qs1 where g: "queue_get_approval env (the (tr_approval_id r)) qs = (got, qs1)" by fastforce
  have "\<exists>r' qs'. on_store (wait_steps env r) qs1 = (Inr r', qs')" if "tr_status r \<in> {''created'', ''queued''}"
    using wait_steps_returns [OF assms that, of "qs_store qs1"] by (auto simp: on_store_def)
  then show ?thesis by (simp add: reconcile_approval_def g split: option.split sum.split)
qed

lemma creating_event_stored: "artifact_creation_in_progress env rid st = Some e \<Longrightarrow> e \<in> set (get_task_events rid st)"
  unfolding artifact_creation_in_progress_def find_Some_iff by (metis nth_mem set_sort)

lemma reconcile_stall_returns:
  assumes "times_readable (qe_store env) (qs_store qs)"
  shows "\<exists>u qs'. reconcile_stall env r qs = (Inr u, qs')"
proof -
  have read: "event_elapsed (qe_store env) e \<noteq> None" if "artifact_creation_in_progress (qe_store env) rid (qs_store qs) = Some e" for rid e
    using creating_event_stored [OF that] assms by (auto simp: times_readable_def event_elapsed_def)
  have "\<exists>x st'. terminalize_if_artifact_creation_stalled (qe_store env) rid n reason source (qs_store qs) = (Inr x, st')"
    for rid n reason source
    unfolding terminalize_if_artifact_creation_stalled_def Let_def case_prod_unfold
    by (auto split: option.split dest: read)
  then obtain x st' where "terminalize_if_artifact_creation_stalled (qe_store env) (tr_run_id r) (qe_stall_limit env)
      ''ARTIFACT_CREATION_TIMEOUT_WITHOUT_TERMINAL_ARTIFACT'' ''artifact_worker_terminalization_guard'' (qs_store qs) = (Inr x, st')" by blast
  then show ?thesis by (cases x) (auto simp: reconcile_stall_def on_store_def Let_def)
qed

lemma build_snapshot_returns:
  assumes "\<And>aid. qe_unreadable env aid = None"
  shows "\<exists>s qs'. build_snapshot env w qs = (Inr s, qs')"
proof -
  obtain runs qs1 where l: "queue_list env qs = (runs, qs1)" by fastforce
  have "\<exists>y s'. snapshot_item env r s = (Inr y, s')" for r s
    using assms by (simp add: snapshot_item_def snapshot_approval_def sbind_def queue_get_approval_def case_prod_unfold Let_def)
  then obtain items qs2 where "smap (snapshot_item env) (filter (\<lambda>r. \<not> run_is_terminal (qe_lifecycle env) (tr_status r)) runs) qs1 =
      (Inr items, qs2)" using smap_returns [of "\<lambda>_. True" "snapshot_item env"] by blast
  then show ?thesis by (simp add: build_snapshot_def l sbind_def)
qed

lemma queue_list_events: "queue_list env qs = (runs, qs1) \<Longrightarrow> ts_events (qs_store qs1) = ts_events (qs_store qs)"
  by (auto simp: queue_list_def on_store_def list_queue_runs_def Let_def index_entries_def)

lemma reconcile_Inr:
  assumes "qe_lifecycle env = shipped_lifecycle" and "''run_waiting_input'' \<in> set (qe_event_types env)"
    and "\<And>aid. qe_unreadable env aid = None"
    and "times_readable (qe_store env) (qs_store qs)" and "se_parse_time (qe_store env) (se_now (qe_store env)) \<noteq> None"
  shows "\<exists>s qs'. reconcile env qs = (Inr s, qs')"
proof (cases "queue_enabled env")
  case False
  then show ?thesis using build_snapshot_returns [OF assms(3)] by (simp add: reconcile_def)
next
  case True
  let ?inv = "\<lambda>qs. times_readable (qe_store env) (qs_store qs)"
  obtain runs qs1 where l: "queue_list env (qs\<lparr>qs_cancelled_runs := [], qs_cancelled_approvals := [], qs_warnings := []\<rparr>) = (runs, qs1)"
    by fastforce
  then have i1: "?inv qs1" using queue_list_events [OF l] assms(4) by (simp add: times_readable_def get_task_events_def)
  have "\<exists>y s'. reconcile_approval env r s = (Inr y, s') \<and> ?inv s'" if "?inv s" for r s
    using reconcile_approval_returns [OF assms(1,2), of r s] keeps_times_approval [of env s r] that assms(5)
    by (auto simp: keeps_times_def)
  from smap_returns [of ?inv "reconcile_approval env", OF this i1]
  obtain runs' qs2 where a: "smap (reconcile_approval env) runs qs1 = (Inr runs', qs2)" and i2: "?inv qs2" by blast
  have "\<exists>y s'. reconcile_stall env r s = (Inr y, s') \<and> ?inv s'" if "?inv s" for r s
    using reconcile_stall_returns [OF that, of r] keeps_times_stall [of env s r] that assms(5) by (auto simp: keeps_times_def)
  from smap_returns [of ?inv "reconcile_stall env", OF this i2]
  obtain us qs3 where "smap (reconcile_stall env) runs' qs2 = (Inr us, qs3)" by blast
  with True l a show ?thesis using build_snapshot_returns [OF assms(3)] by (simp add: reconcile_def sbind_def Let_def)
qed

section \<open>Properties\<close>


text \<open>
  C40. One damaged approval file takes the snapshot of the whole queue down: while the loop over the approvals turns it into a
  warning, building the snapshot raises as soon as one listed run that is not finished refers to an approval that cannot be
  read, whatever the other runs are.
\<close>

theorem damaged_approval_stops_snapshot:
  assumes "queue_list env qs = (runs, qs1)" and "r \<in> set runs" and "\<not> run_is_terminal (qe_lifecycle env) (tr_status r)"
    and "tr_approval_id r = Some aid" and "aid \<noteq> []" and "qe_unreadable env aid = Some cls"
  shows "\<exists>e. fst (build_snapshot env w qs) = Inl e"
proof -
  have bad: "fst (snapshot_item env r s) = Inl cls" for s
    using assms(4-6) by (simp add: snapshot_item_def snapshot_approval_def sbind_def queue_get_approval_def)
  have "\<exists>e. fst (smap (snapshot_item env) rs s) = Inl e" if "r \<in> set rs" for rs s
    using that
  proof (induction rs arbitrary: s)
    case (Cons x rs)
    obtain y s1 where y: "snapshot_item env x s = (y, s1)" by fastforce
    show ?case
    proof (cases y)
      case (Inr z)
      then have "x \<noteq> r" using bad [of s] y by auto
      then obtain e where "fst (smap (snapshot_item env) rs s1) = Inl e" using Cons by auto
      then show ?thesis using y Inr by (cases "smap (snapshot_item env) rs s1") (simp add: sbind_def)
    qed (simp add: sbind_def y)
  qed simp
  then obtain e where "fst (smap (snapshot_item env) (filter (\<lambda>r. \<not> run_is_terminal (qe_lifecycle env) (tr_status r)) runs) qs1) = Inl e"
    using assms(2,3) by fastforce
  then show ?thesis
    by (cases "smap (snapshot_item env) (filter (\<lambda>r. \<not> run_is_terminal (qe_lifecycle env) (tr_status r)) runs) qs1")
      (simp add: build_snapshot_def assms(1) sbind_def)
qed

text \<open>
  C26. After a reconciliation that runs through, at most \<open>max_pending_tasks\<close> stored runs are pending, when the queue
  is enabled and cancels the oldest run on overflow, pending runs can be cancelled, and at most a thousand runs are
  in the queue; the listing the service works on stops at a thousand.
\<close>

theorem reconcile_bounds_pending:
  assumes "keyed (qs_store qs)" and "queue_enabled env" and "overflow_strategy env = ''cancel_oldest_pending''"
    and "cancels_pending env" and "card (runs_in (queue_states env) (qs_store qs)) \<le> 1000"
    and "reconcile env qs = (Inr s, qs')"
  shows "int (card (runs_in (pending_states env) (qs_store qs'))) \<le> max_pending_tasks env"
  using assms(1,6,2)
proof (cases rule: reconcile_phases)
  case (full qs2 s')
  let ?qs3 = "cancel_expired env qs2" and ?qs4 = "cancel_overflow env (cancel_expired env qs2)"
  have q: "queue_keeps env qs ?qs3" using full(1) queue_keeps_expired by (rule queue_keeps_trans)
  then have k: "keyed (qs_store ?qs3)" "runs_in (queue_states env) (qs_store ?qs3) \<subseteq> runs_in (queue_states env) (qs_store qs)"
    using assms(1) by (auto simp: queue_keeps_def)
  then have "card (runs_in (queue_states env) (qs_store ?qs3)) \<le> 1000"
    using assms(5) card_mono [OF runs_in_finite k(2)] by linarith
  note b = cancel_overflow_bound [OF k(1) assms(4,3) this]
  have "keyed (qs_store ?qs4)" using k(1) queue_keeps_overflow [of env ?qs3] by (simp add: queue_keeps_def)
  from build_snapshot_store [OF this, of env "qs_warnings ?qs4"] have "qs_store qs' = qs_store ?qs4"
    using full(3) by simp
  then show ?thesis using b by simp
qed simp

section \<open>Examples\<close>

lemma sample_readable: "times_readable (qe_store sample_queue_env) (qs_store sample_queue)"
  by (simp add: times_readable_def sample_env_fields)

lemma sample_approvals_readable: "qe_unreadable sample_queue_env aid = None"
  by (simp add: sample_queue_env_def)

lemma sample_returns: "\<exists>s qs'. reconcile sample_queue_env sample_queue = (Inr s, qs')"
  using reconcile_Inr [OF sample_env_fields(1,2) sample_approvals_readable sample_readable sample_env_fields(3)] .


theorem reconcile_bounds_pending_witness:
  "card (runs_in [''waiting_input'', ''queued'', ''created''] (qs_store (snd (reconcile sample_queue_env sample_queue)))) \<le> 1"
proof -
  obtain s qs' where r: "reconcile sample_queue_env sample_queue = (Inr s, qs')"
    using sample_returns by blast
  let ?Q = "runs_in (queue_states sample_queue_env) (qs_store sample_queue)"
  have "?Q \<subseteq> fst ` set (ts_runs (qs_store sample_queue))" unfolding runs_in_def using find_run_key by blast
  also have "\<dots> = set [''task_run_1'', ''a'', ''b'']"
    by (simp add: sample_queue_def put_run_def empty_store_def sample_waiting_def demo_run_def)
  finally have "card ?Q \<le> card (set [''task_run_1'', ''a'', ''b''])" by (intro card_mono) simp_all
  then have "card (runs_in (queue_states sample_queue_env) (qs_store sample_queue)) \<le> 1000" by simp
  from reconcile_bounds_pending [OF sample_queue_keyed sample_env_fields(4,5) sample_queue_cancels this r]
  show ?thesis by (simp add: r sample_env_fields)
qed

text \<open>A queue with one waiting run whose approval file is damaged.\<close>

definition damaged_env :: queue_env where
  "damaged_env = sample_queue_env\<lparr>qe_unreadable := \<lambda>_. Some ''JSONDecodeError''\<rparr>"

definition damaged_queue :: queue_state where
  "damaged_queue = sample_queue\<lparr>qs_store := put_run ((sample_waiting ''a'' ''1'')\<lparr>tr_approval_id := Some ''approval_2''\<rparr>) empty_store\<rparr>"

theorem damaged_approval_stops_snapshot_witness: "\<exists>e. fst (build_snapshot damaged_env [] damaged_queue) = Inl e"
proof -
  let ?r = "(sample_waiting ''a'' ''1'')\<lparr>tr_approval_id := Some ''approval_2''\<rparr>"
  have status: "tr_status ?r = ''queued''" "tr_run_id ?r = ''a''" by (simp_all add: sample_waiting_def demo_run_def)
  have states: "''queued'' \<in> set (queue_states damaged_env)"
    using sample_env_fields(7) by (simp add: queue_states_def damaged_env_def pending_states_def)
  have store: "ts_runs (qs_store damaged_queue) = [(''a'', ?r)]" "map_of (ts_index (qs_store damaged_queue)) ''a'' = Some ''queued''"
    by (simp_all add: damaged_queue_def put_run_def status empty_store_def)
  obtain runs qs1 where l: "queue_list damaged_env damaged_queue = (runs, qs1)" by fastforce
  have runs: "runs = [light_run (qe_payloads damaged_env) ?r]"
    using arg_cong [OF l, of fst] states
    by (simp add: queue_list_def on_store_def list_queue_runs_def Let_def store queue_entry_def sorted_desc_def)
  have "\<not> run_is_terminal (qe_lifecycle damaged_env) (tr_status (light_run (qe_payloads damaged_env) ?r))"
    by (simp add: damaged_env_def sample_queue_env_def run_is_terminal_def shipped_lifecycle_def sample_waiting_def demo_run_def)
  moreover have "qe_unreadable damaged_env ''approval_2'' = Some ''JSONDecodeError''" by (simp add: damaged_env_def)
  moreover have "tr_approval_id (light_run (qe_payloads damaged_env) ?r) = Some ''approval_2''" by (simp add: light_run_def)
  ultimately show ?thesis using damaged_approval_stops_snapshot [OF l] runs by simp
qed

end
