(* ===== verification/Spec2Isabelle.thy ===== *)
theory Spec2Isabelle
  imports Git_Commands Run_Guard Runtime_Truth Graph_Runs Patch_Safety Approval_Histories Queue_Returns
begin

text \<open>
  AIpinho: verification of the governed runtime. Paths below are relative to \<open>src/src/aipinho\<close>.

  \<^bold>\<open>The program.\<close> AIpinho turns requests into tasks and executes them under governance. A request is
  judged by the policy kernel; a task is drafted, previewed and, where the policy asks for it, approved by a human; the
  approved task becomes a run with a plan, a workflow and an execution graph; a guard decides whether the run may start; the
  supervised loop executes its steps, keeps an event log, and ends with a completion verdict; the truth engine
  decides what may be reported as success. Patches change files of a workspace with a guard, a backup and a rollback of
  their own; the executors of a step that write files directly (project generation, tools) are arguments here.
  The development models this path, from decision to report.

  \<^bold>\<open>Decisions.\<close>
  \<^item> \<open>Policy_Registry\<close> and \<open>Policy_Kernel\<close>: \<open>services/policy_kernel\<close> (action, capability, role, precedence and approval
    registries, workspace policy, context, effective policy, \<open>policy_kernel_service.py\<close>). Loading validates the configuration;
    \<open>policy_resolve\<close> is total on a loaded kernel and its three action lists are given as sets; \<open>safe_to_execute\<close> is sound;
    a read-only context denies writes.
  \<^item> \<open>Canonical_Policy\<close>: \<open>services/governance/policy\<close>. The vocabulary of every policy is normalised to one permission.
    The decision over facets equals an order-free specification; the canonical decision refines the kernel's.
  \<^item> \<open>Workspace_Permissions\<close>: \<open>services/config_governance/workspace_permission_matrix_service.py\<close>,
    \<open>services/policy_kernel/workspace_role_contract_service.py\<close>, \<open>mission_local_resource_scope_service.py\<close>. The registry is the
    mapping YAML gives; resolving a path may raise. Validation is exact, a decision on a valid registry is made exactly when the
    path and the registered roots resolve, the closest workspace decides,
    resources of a mission never widen the matrix, updates can be read back; the two readers of the registry agree without ties.
  \<^item> \<open>Authority_Grants\<close>: \<open>services/policy_kernel/authority_grant_service.py\<close>. Grants are never used beyond their limit,
    an ended grant stays dead until one is created again under its identifier, and consumption is exact.

  \<^bold>\<open>Tasks before they run.\<close>
  \<^item> \<open>Executable_Plan\<close>, \<open>Task_Preview\<close>, \<open>Approvals\<close>, \<open>Approval_Histories\<close>: \<open>services/orchestration\<close> (executable plans, drafts,
    previews) and \<open>services/approvals\<close>. Every operation takes and returns the stores. Over every sequence of calls, the
    continuation of an approved task included, a decision is final and only an approved request is executed.
  \<^item> \<open>Graph_Search\<close>, \<open>Execution_Graph\<close>, \<open>Graph_Runs\<close>: \<open>services/runtime/execution_graph_service.py\<close> and
    \<open>worker_registry_service.py\<close>. The cycle check is equivalent to acyclicity of the edge relation; a graph made from a plan is
    completed by running ready nodes.

  \<^bold>\<open>Execution.\<close>
  \<^item> \<open>Run_Payloads\<close> and \<open>Task_Run_Store\<close>: \<open>services/runtime/task_run_store.py\<close>, as a document with content-addressed
    payloads (a full read returns what was written, redaction apart) and as an event log (ordered, append-only).
  \<^item> \<open>Task_Queue\<close>, \<open>Queue_Safety\<close>, \<open>Queue_Returns\<close>: \<open>task_queue_service.py\<close>, life cycle and cancellation. Reconciliation
    returns when stored time stamps and approvals can be read, and bounds the pending runs by the capacity; a damaged
    approval file stops the snapshot.
  \<^item> \<open>Semantic_Contracts\<close>, \<open>Semantic_Compatibility\<close>, \<open>Semantic_Topology\<close>, \<open>Semantic_Truth\<close>: \<open>services/semantics\<close> (sealed
    contracts, offer and demand, joins, completion truth).
  \<^item> \<open>Phase_Admission\<close>, \<open>Progress_Float\<close>, \<open>Workflow_Runtime\<close>: \<open>phase_dependency_evaluation_service.py\<close> and
    \<open>workflow_runtime_service.py\<close>. Admission holds exactly when the demand is met; a phase starts only after what it depends on; the
    books of every reachable workflow agree.
  \<^item> \<open>Supervised_Loop\<close>, \<open>Loop_Safety\<close>: \<open>supervised_execution_loop.py\<close>, \<open>task_run_context_service.py\<close>, \<open>check_step\<close> of
    \<open>task_run_guard.py\<close> and \<open>services/orchestration/task_completion_resolver.py\<close>. A completed run executed its required steps; a
    refused step is not executed.
  \<^item> \<open>Run_Guard\<close>: \<open>check_run\<close> of \<open>task_run_guard.py\<close> and \<open>runtime_profile_service.py\<close>, over the kernel's workspace
    policy, the registry, the canonical facets, approvals and grants. A run it lets through satisfies every authority, and the
    loop executes nothing for a run that does not: the property that spans decisions, approvals and execution.
  \<^item> \<open>Git_Commands\<close>: \<open>services/tools/git_command_classification_service.py\<close>, which names the capability of a Git command that the
    run guard reads from the shell plan. The commands classified as safe are given exactly, by subcommand and flags.
  \<^item> \<open>Patch_Apply\<close>, \<open>Patch_Safety\<close>: \<open>services/patching/apply\<close>. Files are read and written in text mode. They change
    only behind the guard and an approval; a rollback restores their texts up to newlines.
  \<^item> \<open>Runtime_Truth\<close>: \<open>runtime_truth_engine.py\<close>, \<open>canonical_operation_state_service.py\<close>. Success is reported only with evidence.

  \<^bold>\<open>How the code is modelled.\<close> A Python class is a record, an enumeration a datatype or the strings the code compares, a method
  a function that returns the new state; an exception is \<open>Inl\<close> with the name or message the code gives it. A service
  that writes before it raises returns the state next to the outcome. Untyped dictionaries are the type \<open>json\<close> of
  \<open>Prelude\<close>, as association lists, since order matters. Integers are unbounded, as in Python; progress percentages are
  binary floats with their rounding written out (\<open>Progress_Float\<close>). Strings are lists of characters below code point
  256. What is not part of the repository, or is the operating system's, is an argument: clocks, \<open>uuid4\<close>, digests, path resolution, YAML
  and pydantic coercions, secret patterns, the executor of a step, model output. Each argument sits in an
  environment record (\<open>path_env\<close>, \<open>workspace_env\<close>, \<open>store_env\<close>, \<open>payload_env\<close>, \<open>patch_env\<close>, \<open>workflow_env\<close>, \<open>loop_env\<close>,
  \<open>guard_env\<close>) or is passed directly; assumptions about one are hypotheses of the theorem that needs them, with an example that meets
  them. No definition uses fuel: the loops that are not structural (\<open>Graph_Search\<close>, the identifiers of limitations) have
  termination proofs, so that every operation is a total function. In the workspace policy of the kernel a path is taken to
  resolve; a check of the guard that raises is a reason against the run, where the code lets the exception leave the loop.

  \<^bold>\<open>Interfaces.\<close> Contracts between components are locales, each interpreted on the model: \<open>keyed_store\<close> (what a lookup returns after a
  save) for drafts, previews, approvals and grants; \<open>status_lifecycle\<close> (final states stay final along allowed transitions) for drafts,
  approvals, grants and runs; \<open>unique_registry\<close> for the registries of a topology; \<open>sealed_contract\<close> (a seal identifies its payload)
  for the semantic contracts; \<open>store_contract\<close> (what every operation on the task store keeps) for the order of the event log,
  for the untouched part of the store and for readable time stamps; \<open>run_gate\<close> (no reasons are given only for a cleared run) between guard and loop.

  \<^bold>\<open>What the properties found.\<close> Some theorems state behaviour that the code does not intend: a cancellation that arrives during a
  step is lost; an error of the patch engine is not rolled back; one damaged approval file stops the snapshot of the queue; an approved run is rewritten by reconciliation; the role contract lets a mission
  replace the role of a registered workspace. Their text says so.

  \<^bold>\<open>Not modelled.\<close> Components whose behaviour is that of a language model or of free text (chat, prompts, demand
  compilation, patch planning, agents, perception and rendering of artifacts, reports); retrieval and evaluation with
  floating-point scores over third-party indexes; HTTP routes, view models, bridges, telemetry and other projections for display;
  process execution and direct file access of tools. They enter through the arguments above. Of the artifact approval bridge and of the
  drafts only the operations the approval and preview services call are modelled (deletion and the events of drafts are not); the
  task run store leaves out listing, compaction and the rebuild of its index.
\<close>

end
